(* ===== verification/Prelude.thy ===== *)
theory Prelude
  imports Complex_Main "HOL-Library.Char_ord" "HOL-Library.List_Lexorder"
begin

text \<open>
  What the component theories share: the exceptions of the program as values, sequencing of
  fallible steps, Python's string trimming and rounding, timestamps, and the handful of list
  operations that stand for the SQL statements of the stores (\<open>SELECT ... fetchone\<close>,
  \<open>UPDATE ... WHERE\<close>).

  Strings are \<^typ>\<open>string\<close>: one \<^typ>\<open>char\<close> per code point, so the model covers the code
  points below 256. Python integers are \<^typ>\<open>int\<close>, floats are read as the rational number
  they denote (\<^typ>\<open>rat\<close>), aware datetimes as microseconds since the epoch in UTC.
\<close>

section \<open>Exceptions and sequencing\<close>

datatype exn =
    ValueError string
  | TypeError string
  | KeyError string
  | RuntimeError string
  | AttributeError string
  | AssertionError
  | IntegrityError string
  | OperationalError string
  | ZeroDivisionError string
  | WorkflowConflict string
  | ContextAccessDenied string
  | ContextConflict string
  | ContextIntegrityError string
  | ContextPolicyUnavailable string
  | ContextOverflow int int

named_theorems result_simps \<open>equations for sequences of fallible steps\<close>
named_theorems table_simps \<open>equations for lookups and updates on tables\<close>

definition bind_r :: "'e + 'a \<Rightarrow> ('a \<Rightarrow> 'e + 'b) \<Rightarrow> 'e + 'b" where
  "bind_r m f = (case m of Inl e \<Rightarrow> Inl e | Inr x \<Rightarrow> f x)"

definition require :: "bool \<Rightarrow> 'e \<Rightarrow> 'e + unit" where
  "require b e = (if b then Inr () else Inl e)"

definition map_r :: "('a \<Rightarrow> 'b) \<Rightarrow> 'e + 'a \<Rightarrow> 'e + 'b" where
  "map_r f m = bind_r m (\<lambda>x. Inr (f x))"

fun traverse :: "('a \<Rightarrow> 'e + 'b) \<Rightarrow> 'a list \<Rightarrow> 'e + 'b list" where
  "traverse f [] = Inr []"
| "traverse f (x # xs) = bind_r (f x) (\<lambda>y. bind_r (traverse f xs) (\<lambda>ys. Inr (y # ys)))"

fun each :: "('a \<Rightarrow> 'e + unit) \<Rightarrow> 'a list \<Rightarrow> 'e + unit" where
  "each f [] = Inr ()"
| "each f (x # xs) = bind_r (f x) (\<lambda>_. each f xs)"

fun foldM :: "('a \<Rightarrow> 's \<Rightarrow> 'e + 's) \<Rightarrow> 'a list \<Rightarrow> 's \<Rightarrow> 'e + 's" where
  "foldM f [] s = Inr s"
| "foldM f (x # xs) s = bind_r (f x s) (foldM f xs)"

lemma bind_r_Inl [simp]: "bind_r (Inl e) f = Inl e"
  by (simp add: bind_r_def)

lemma bind_r_Inr [simp]: "bind_r (Inr x) f = f x"
  by (simp add: bind_r_def)

lemma bind_r_eq_Inr [result_simps]: "bind_r m f = Inr y \<longleftrightarrow> (\<exists>x. m = Inr x \<and> f x = Inr y)"
  by (cases m) auto

lemma bind_r_eq_Inl [result_simps]:
  "bind_r m f = Inl e \<longleftrightarrow> m = Inl e \<or> (\<exists>x. m = Inr x \<and> f x = Inl e)"
  by (cases m) auto

lemma bind_r_assoc: "bind_r (bind_r m f) g = bind_r m (\<lambda>x. bind_r (f x) g)"
  by (cases m) auto

lemma require_True [simp]: "require True e = Inr ()"
  by (simp add: require_def)

lemma require_False [simp]: "require False e = Inl e"
  by (simp add: require_def)

lemma require_eq_Inr [result_simps, simp]: "require b e = Inr u \<longleftrightarrow> b"
  by (simp add: require_def)

lemma require_eq_Inl [result_simps, simp]: "require b e = Inl e' \<longleftrightarrow> \<not> b \<and> e' = e"
  by (auto simp: require_def)

lemma map_r_Inl [simp]: "map_r f (Inl e) = Inl e"
  by (simp add: map_r_def)

lemma map_r_Inr [simp]: "map_r f (Inr x) = Inr (f x)"
  by (simp add: map_r_def)

lemma map_r_eq_Inr [result_simps]: "map_r f m = Inr y \<longleftrightarrow> (\<exists>x. m = Inr x \<and> y = f x)"
  by (cases m) auto

lemma traverse_map:
  "(\<And>x. x \<in> set xs \<Longrightarrow> f x = Inr (g x)) \<Longrightarrow> traverse f xs = Inr (map g xs)"
  by (induction xs) auto

lemma traverse_eq_Inr:
  "traverse f xs = Inr ys \<longleftrightarrow> list_all2 (\<lambda>x y. f x = Inr y) xs ys"
  by (induction xs arbitrary: ys) (auto simp: bind_r_eq_Inr list_all2_Cons1)

lemma list_all2_mem: "list_all2 P xs ys \<Longrightarrow> y \<in> set ys \<Longrightarrow> \<exists>x \<in> set xs. P x y"
  by (induction rule: list_all2_induct) auto

lemma each_eq_Inr [result_simps]: "each f xs = Inr u \<longleftrightarrow> (\<forall>x \<in> set xs. f x = Inr ())"
  by (induction xs) (auto simp: bind_r_eq_Inr)

lemma foldM_append: "foldM f (xs @ ys) s = bind_r (foldM f xs s) (foldM f ys)"
proof (induction xs arbitrary: s)
  case (Cons x xs)
  then show ?case by (cases "f x s") auto
qed simp

lemma foldM_invariant:
  assumes "foldM f xs s = Inr s'" and "P s"
    and "\<And>x s s'. x \<in> set xs \<Longrightarrow> P s \<Longrightarrow> f x s = Inr s' \<Longrightarrow> P s'"
  shows "P s'"
  using assms by (induction xs arbitrary: s) (auto simp: bind_r_eq_Inr)

section \<open>Python strings\<close>

text \<open>\<open>str.isspace\<close> for the code points below 256.\<close>

definition py_space :: "char \<Rightarrow> bool" where
  "py_space c = (let n = (of_char c :: nat) in
     9 \<le> n \<and> n \<le> 13 \<or> 28 \<le> n \<and> n \<le> 32 \<or> n = 133 \<or> n = 160)"

definition strip :: "string \<Rightarrow> string" where
  "strip s = rev (dropWhile py_space (rev (dropWhile py_space s)))"

text \<open>The two guards the code base repeats on text: an identifier is nonempty and carries no
  outer whitespace, and a required text holds at least one character that is not whitespace.\<close>

definition identifier_ok :: "string \<Rightarrow> bool" where
  "identifier_ok s = (s \<noteq> [] \<and> s = strip s)"

definition has_text :: "string \<Rightarrow> bool" where
  "has_text s = (s \<noteq> [] \<and> strip s \<noteq> [])"

definition lower :: "string \<Rightarrow> string" where
  "lower s = map (\<lambda>c. let n = (of_char c :: nat) in
     if 65 \<le> n \<and> n \<le> 90 \<or> 192 \<le> n \<and> n \<le> 222 \<and> n \<noteq> 215 then char_of (n + 32) else c) s"

text \<open>\<open>str.casefold\<close>: below 256 it differs from lower case in the sharp s only (the micro sign
  leaves the range, injectively, and is kept).\<close>

definition casefold :: "string \<Rightarrow> string" where
  "casefold s = concat (map (\<lambda>c. if (of_char c :: nat) = 223 then ''ss'' else lower [c]) s)"

definition contains :: "string \<Rightarrow> string \<Rightarrow> bool" where
  "contains s pat = list_ex (\<lambda>i. take (length pat) (drop i s) = pat) [0..<Suc (length s)]"

text \<open>\<open>sep.join(xs)\<close>.\<close>

fun join :: "string \<Rightarrow> string list \<Rightarrow> string" where
  "join sep [] = []"
| "join sep [x] = x"
| "join sep (x # xs) = x @ sep @ join sep xs"

fun string_of_nat :: "nat \<Rightarrow> string" where
  "string_of_nat n =
     (if n < 10 then [char_of (48 + n)]
      else string_of_nat (n div 10) @ [char_of (48 + n mod 10)])"

declare string_of_nat.simps [simp del]

definition string_of_int :: "int \<Rightarrow> string" where
  "string_of_int i = (if i < 0 then ''-'' @ string_of_nat (nat (- i)) else string_of_nat (nat i))"

lemma strip_eq_Nil: "strip s = [] \<longleftrightarrow> (\<forall>c \<in> set s. py_space c)"
proof
  assume "strip s = []"
  then have "\<forall>c \<in> set (dropWhile py_space s). py_space c"
    by (simp add: strip_def)
  then have "dropWhile py_space s = []"
    by (metis hd_dropWhile hd_in_set)
  then show "\<forall>c \<in> set s. py_space c" by simp
next
  assume "\<forall>c \<in> set s. py_space c"
  then have "dropWhile py_space s = []" by (simp only: dropWhile_eq_Nil_conv)
  then show "strip s = []" by (simp add: strip_def del: dropWhile_eq_Nil_conv)
qed

lemma length_strip_le: "length (strip s) \<le> length (dropWhile py_space s)"
  using length_dropWhile_le [of py_space "rev (dropWhile py_space s)"]
  by (simp add: strip_def)

lemma strip_eq_self:
  "strip s = s \<longleftrightarrow> s = [] \<or> (\<not> py_space (hd s) \<and> \<not> py_space (last s))"
proof (cases "s = []")
  case False
  show ?thesis
  proof (cases "py_space (hd s)")
    case True
    then have "length (strip s) < length s"
      using False length_strip_le [of s] length_dropWhile_le [of py_space "tl s"]
      by (cases s) auto
    then show ?thesis using True False by auto
  next
    case noL: False
    then have d: "dropWhile py_space s = s" using False by (cases s) auto
    show ?thesis
    proof (cases "py_space (last s)")
      case True
      then have "length (dropWhile py_space (rev s)) < length s"
        using False length_dropWhile_le [of py_space "rev (butlast s)"]
        by (cases s rule: rev_cases) auto
      then have "length (strip s) < length s" by (simp add: strip_def d)
      then show ?thesis using True False by auto
    next
      case noR: False
      then have "dropWhile py_space (rev s) = rev s"
        using False by (cases s rule: rev_cases) auto
      then show ?thesis using noL noR d by (simp add: strip_def)
    qed
  qed
qed (simp add: strip_def)

lemma identifier_ok_iff:
  "identifier_ok s \<longleftrightarrow> s \<noteq> [] \<and> \<not> py_space (hd s) \<and> \<not> py_space (last s)"
  using strip_eq_self [of s] by (auto simp: identifier_ok_def)

lemma has_text_iff: "has_text s \<longleftrightarrow> (\<exists>c \<in> set s. \<not> py_space c)"
  by (auto simp: has_text_def strip_eq_Nil)

lemma identifier_ok_has_text: "identifier_ok s \<Longrightarrow> has_text s"
  by (auto simp: identifier_ok_iff has_text_iff)

section \<open>Numbers and time\<close>

text \<open>Python's \<open>round\<close>: to the nearest integer, ties to the even one.\<close>

definition py_round :: "rat \<Rightarrow> int" where
  "py_round x = (let f = \<lfloor>x\<rfloor>; d = x - of_int f in
     if d < 1 / 2 then f else if 1 / 2 < d then f + 1 else if even f then f else f + 1)"

lemma py_round_bounds: "of_int (py_round x) - 1 / 2 \<le> x \<and> x \<le> of_int (py_round x) + 1 / 2"
proof -
  have "of_int \<lfloor>x\<rfloor> \<le> x" and "x < of_int \<lfloor>x\<rfloor> + 1" by linarith+
  then have "0 \<le> x - of_int \<lfloor>x\<rfloor>" and "x - of_int \<lfloor>x\<rfloor> < 1" by linarith+
  moreover have "py_round x = \<lfloor>x\<rfloor> \<and> x - of_int \<lfloor>x\<rfloor> \<le> 1 / 2 \<or>
      py_round x = \<lfloor>x\<rfloor> + 1 \<and> 1 / 2 \<le> x - of_int \<lfloor>x\<rfloor>"
    unfolding py_round_def Let_def by auto
  ultimately show ?thesis by (elim disjE conjE) (simp_all, linarith+)
qed

lemma py_round_in:
  assumes "of_int a \<le> x" and "x \<le> of_int b"
  shows "a \<le> py_round x \<and> py_round x \<le> b"
proof -
  have 1: "of_int a - 1 / 2 \<le> (of_int (py_round x) :: rat)"
    and 2: "(of_int (py_round x) :: rat) \<le> of_int b + 1 / 2"
    using py_round_bounds [of x] assms by linarith+
  have "a - 1 < py_round x"
  proof (rule ccontr)
    assume "\<not> a - 1 < py_round x"
    then have "(of_int (py_round x) :: rat) \<le> of_int (a - 1)" by (simp only: of_int_le_iff not_less)
    with 1 show False by simp
  qed
  moreover have "py_round x < b + 1"
  proof (rule ccontr)
    assume "\<not> py_round x < b + 1"
    then have "of_int (b + 1) \<le> (of_int (py_round x) :: rat)" by (simp only: of_int_le_iff not_less)
    with 2 show False by simp
  qed
  ultimately show ?thesis by linarith
qed

text \<open>A datetime either carries a time zone, and then names an instant, or it does not.\<close>

datatype datetime = Aware int | Naive int

type_synonym instant = int

fun is_aware :: "datetime \<Rightarrow> bool" where
  "is_aware (Aware t) = True"
| "is_aware (Naive t) = False"

fun instant_of :: "datetime \<Rightarrow> instant" where
  "instant_of (Aware t) = t"
| "instant_of (Naive t) = t"

text \<open>\<open>timedelta(seconds=x)\<close> in microseconds.\<close>

definition seconds :: "rat \<Rightarrow> int" where
  "seconds x = py_round (x * 1000000)"

lemma seconds_of_int [simp]: "seconds (of_int n) = n * 1000000"
proof -
  have "of_int n * 1000000 = (of_int (n * 1000000) :: rat)" by simp
  then show ?thesis
    unfolding seconds_def by (metis py_round_in order.refl order.antisym)
qed

lemma seconds_numeral [simp]: "seconds (numeral k) = numeral k * 1000000"
  using seconds_of_int [of "numeral k"] by simp

lemma seconds_one [simp]: "seconds 1 = 1000000"
  using seconds_of_int [of 1] by simp

section \<open>Tables\<close>

text \<open>A table is the list of its rows in rowid order. \<open>SELECT ... fetchone()\<close> is
  \<^const>\<open>List.find\<close>, \<open>SELECT\<close> is \<^const>\<open>filter\<close>, an insertion appends.\<close>

definition update_where :: "('r \<Rightarrow> bool) \<Rightarrow> ('r \<Rightarrow> 'r) \<Rightarrow> 'r list \<Rightarrow> 'r list" where
  "update_where P f rows = map (\<lambda>r. if P r then f r else r) rows"

lemma length_update_where [simp]: "length (update_where P f rows) = length rows"
  by (simp add: update_where_def)

lemma set_update_where:
  "set (update_where P f rows) = f ` {r \<in> set rows. P r} \<union> {r \<in> set rows. \<not> P r}"
  by (auto simp: update_where_def)

lemma update_where_mem:
  "r \<in> set (update_where P f rows) \<longleftrightarrow>
     (\<exists>r0 \<in> set rows. r = (if P r0 then f r0 else r0))"
  by (auto simp: update_where_def)

lemma map_update_where [table_simps]:
  "(\<And>r. P r \<Longrightarrow> k (f r) = k r) \<Longrightarrow> map k (update_where P f rows) = map k rows"
  by (induction rows) (auto simp: update_where_def)

lemma update_where_none: "(\<And>r. r \<in> set rows \<Longrightarrow> \<not> P r) \<Longrightarrow> update_where P f rows = rows"
  by (induction rows) (auto simp: update_where_def)

lemma find_Some_iff_unique:
  assumes "\<And>r r'. r \<in> set rows \<Longrightarrow> r' \<in> set rows \<Longrightarrow> P r \<Longrightarrow> P r' \<Longrightarrow> r = r'"
  shows "List.find P rows = Some r \<longleftrightarrow> r \<in> set rows \<and> P r"
  using assms by (induction rows) (simp, force)

lemma find_None [table_simps]: "List.find P rows = None \<longleftrightarrow> (\<forall>r \<in> set rows. \<not> P r)"
  by (induction rows) auto

lemma find_SomeD: "List.find P rows = Some r \<Longrightarrow> r \<in> set rows \<and> P r"
  by (induction rows) (auto split: if_splits)

lemma find_append:
  "List.find P (xs @ ys) = (case List.find P xs of None \<Rightarrow> List.find P ys | Some r \<Rightarrow> Some r)"
  by (induction xs) auto

lemma find_update_where:
  assumes "\<And>r. P r \<Longrightarrow> Q (f r) = Q r"
  shows "List.find Q (update_where P f rows) =
           map_option (\<lambda>r. if P r then f r else r) (List.find Q rows)"
  using assms by (induction rows) (auto simp: update_where_def)

lemma find_cong_set: "(\<And>r. r \<in> set rows \<Longrightarrow> P r = Q r) \<Longrightarrow> List.find P rows = List.find Q rows"
  by (induction rows) auto

lemma filter_update_where_other:
  assumes "\<And>r. P r \<Longrightarrow> \<not> Q r" and "\<And>r. P r \<Longrightarrow> \<not> Q (f r)"
  shows "filter Q (update_where P f rows) = filter Q rows"
  using assms by (induction rows) (auto simp: update_where_def)

lemma distinct_map_eq:
  "distinct (map k rows) \<Longrightarrow> r \<in> set rows \<Longrightarrow> r' \<in> set rows \<Longrightarrow> k r = k r' \<Longrightarrow> r = r'"
  by (auto simp: distinct_map dest: inj_onD)

lemma find_by_key:
  assumes "distinct (map k rows)" and "r \<in> set rows"
  shows "List.find (\<lambda>x. k x = k r) rows = Some r"
  using assms by (subst find_Some_iff_unique) (auto dest: distinct_map_eq)

section \<open>State machines\<close>

text \<open>The states a machine can reach, and its finite runs.\<close>

inductive reachable :: "('s \<Rightarrow> bool) \<Rightarrow> ('s \<Rightarrow> 's \<Rightarrow> bool) \<Rightarrow> 's \<Rightarrow> bool" for init step where
  reach_init: "init s \<Longrightarrow> reachable init step s"
| reach_step: "reachable init step s \<Longrightarrow> step s t \<Longrightarrow> reachable init step t"

fun run_from :: "('s \<Rightarrow> 's \<Rightarrow> bool) \<Rightarrow> 's \<Rightarrow> 's list \<Rightarrow> bool" where
  "run_from step s [] = True"
| "run_from step s (t # ts) = (step s t \<and> run_from step t ts)"

text \<open>The contract of a machine with an invariant; a machine whose steps use up a rank stops.\<close>

locale state_machine =
  fixes init :: "'s \<Rightarrow> bool"
    and step :: "'s \<Rightarrow> 's \<Rightarrow> bool"
    and inv :: "'s \<Rightarrow> bool"
  assumes inv_init: "init s \<Longrightarrow> inv s"
    and inv_step: "inv s \<Longrightarrow> step s t \<Longrightarrow> inv t"
begin

lemma reachable_inv: "reachable init step s \<Longrightarrow> inv s"
  by (induction rule: reachable.induct) (auto intro: inv_init inv_step)

lemma run_inv: "inv s \<Longrightarrow> run_from step s ts \<Longrightarrow> t \<in> set ts \<Longrightarrow> inv t"
  by (induction ts arbitrary: s) (auto intro: inv_step)

end

locale ranked_machine = state_machine +
  fixes rank :: "'s \<Rightarrow> nat"
  assumes rank_step: "inv s \<Longrightarrow> step s t \<Longrightarrow> rank t < rank s"
begin

lemma run_length: "inv s \<Longrightarrow> run_from step s ts \<Longrightarrow> length ts \<le> rank s"
proof (induction ts arbitrary: s)
  case (Cons t ts)
  then have "rank t < rank s" and "length ts \<le> rank t"
    using rank_step inv_step by auto
  then show ?case by simp
qed simp

end

end
