(* ===== verification/Contracts.thy ===== *)
theory Contracts
  imports Prelude
begin

text \<open>
  The inference contract (\<open>src/backend/inference/contracts.py\<close>), the deployment identity
  (\<open>deployment.py\<close>) and the typed failures (\<open>errors.py\<close>). A dataclass is a \<^theory_text>\<open>record\<close> or a
  \<^theory_text>\<open>datatype\<close>, its \<open>__post_init__\<close> a function \<open>..._post_init\<close> that raises in the order of the
  source. The \<open>isinstance\<close> and \<open>type(...) is\<close> guards of the source hold by typing here.
\<close>

section \<open>Deployment identity\<close>

definition require_identifier :: "string \<Rightarrow> string \<Rightarrow> exn + unit" where
  "require_identifier value field_name =
     require (identifier_ok value)
       (ValueError (field_name @ '' must be non-empty without outer whitespace.''))"

definition validate_optional_identifier :: "string option \<Rightarrow> string \<Rightarrow> exn + unit" where
  "validate_optional_identifier value field_name =
     (case value of None \<Rightarrow> Inr () | Some v \<Rightarrow> require_identifier v field_name)"

datatype IdentityVerification = VERIFIED | OBSERVED | CONFIGURED_ONLY | UNVERIFIED | MISMATCH

record ModelRef =
  artifact_id :: string
  revision :: "string option"
  served_name :: "string option"

definition ModelRef_post_init :: "ModelRef \<Rightarrow> exn + unit" where
  "ModelRef_post_init m =
     bind_r (require_identifier (artifact_id m) ''artifact_id'') (\<lambda>_.
     bind_r (validate_optional_identifier (revision m) ''revision'') (\<lambda>_.
     validate_optional_identifier (served_name m) ''served_name''))"

record DeploymentRef =
  dr_deployment_id :: string
  dr_model :: "ModelRef option"
  dr_engine_name :: string
  dr_endpoint_id :: string
  dr_engine_version :: "string option"
  dr_serving_runtime :: "string option"

definition DeploymentRef_post_init :: "DeploymentRef \<Rightarrow> exn + unit" where
  "DeploymentRef_post_init d =
     bind_r (require_identifier (dr_deployment_id d) ''deployment_id'') (\<lambda>_.
     bind_r (require_identifier (dr_engine_name d) ''engine_name'') (\<lambda>_.
     bind_r (require_identifier (dr_endpoint_id d) ''endpoint_id'') (\<lambda>_.
     bind_r (validate_optional_identifier (dr_engine_version d) ''engine_version'') (\<lambda>_.
     validate_optional_identifier (dr_serving_runtime d) ''serving_runtime''))))"

record ModelIdentityObservation =
  mo_model :: ModelRef
  mo_observed_at :: datetime
  mo_source :: string
  mo_catalog_only :: bool

definition ModelIdentityObservation_post_init :: "ModelIdentityObservation \<Rightarrow> exn + unit" where
  "ModelIdentityObservation_post_init ob =
     bind_r (require_identifier (mo_source ob) ''source'') (\<lambda>_.
     require (is_aware (mo_observed_at ob))
       (ValueError ''observed_at must include timezone information.''))"

record IdentityAssessment =
  ia_status :: IdentityVerification
  ia_expected :: "ModelRef option"
  ia_observed :: "ModelIdentityObservation option"
  ia_mismatched_fields :: "string list"

definition IdentityAssessment_post_init :: "IdentityAssessment \<Rightarrow> exn + unit" where
  "IdentityAssessment_post_init a =
     (if ia_status a = MISMATCH \<and> ia_mismatched_fields a = []
      then Inl (ValueError ''A mismatch assessment must identify conflicting fields.'')
      else if ia_status a \<noteq> MISMATCH \<and> ia_mismatched_fields a \<noteq> []
      then Inl (ValueError ''Only a mismatch assessment may contain conflicting fields.'')
      else Inr ())"

text \<open>The three compared fields, in the order of the loop, as optional texts.\<close>

definition identity_fields :: "(string \<times> (ModelRef \<Rightarrow> string option)) list" where
  "identity_fields = [(''artifact_id'', \<lambda>m. Some (artifact_id m)), (''revision'', revision),
                      (''served_name'', served_name)]"

fun compare_identity ::
    "(string \<times> (ModelRef \<Rightarrow> string option)) list \<Rightarrow> ModelRef \<Rightarrow> ModelRef \<Rightarrow> string list \<times> bool" where
  "compare_identity [] e ob = ([], False)"
| "compare_identity ((name, field) # fs) e ob =
     (let (mismatches, missing) = compare_identity fs e ob in
      case field e of
        None \<Rightarrow> (mismatches, missing)
      | Some expected_value \<Rightarrow>
          (case field ob of
             None \<Rightarrow> (mismatches, True)
           | Some observed_value \<Rightarrow>
               if observed_value \<noteq> expected_value then (name # mismatches, missing)
               else (mismatches, missing)))"

definition assess_model_identity ::
    "ModelRef option \<Rightarrow> ModelIdentityObservation option \<Rightarrow> IdentityAssessment" where
  "assess_model_identity expected observed =
     (case expected of
        None \<Rightarrow> \<lparr>ia_status = UNVERIFIED, ia_expected = None, ia_observed = observed,
                 ia_mismatched_fields = []\<rparr>
      | Some e \<Rightarrow>
          (case observed of
             None \<Rightarrow> \<lparr>ia_status = CONFIGURED_ONLY, ia_expected = expected, ia_observed = None,
                      ia_mismatched_fields = []\<rparr>
           | Some ob \<Rightarrow>
               (let (mismatches, missing_evidence) =
                      compare_identity identity_fields e (mo_model ob) in
                if mismatches \<noteq> []
                then \<lparr>ia_status = MISMATCH, ia_expected = expected, ia_observed = observed,
                      ia_mismatched_fields = mismatches\<rparr>
                else \<lparr>ia_status =
                        (if missing_evidence then CONFIGURED_ONLY
                         else if mo_catalog_only ob then OBSERVED else VERIFIED),
                      ia_expected = expected, ia_observed = observed,
                      ia_mismatched_fields = []\<rparr>)))"

section \<open>Inference tasks\<close>

definition require_text :: "string \<Rightarrow> string \<Rightarrow> exn + unit" where
  "require_text value field_name =
     require (has_text value) (ValueError (field_name @ '' must contain non-whitespace text.''))"

datatype ChatRole = SYSTEM | USER | ASSISTANT

fun ChatRole_value :: "ChatRole \<Rightarrow> string" where
  "ChatRole_value SYSTEM = ''system''"
| "ChatRole_value USER = ''user''"
| "ChatRole_value ASSISTANT = ''assistant''"

record ChatMessage =
  cm_role :: ChatRole
  cm_content :: string

datatype task_input = TextInput string | ChatInput "ChatMessage list"

definition TextInput_post_init :: "string \<Rightarrow> exn + unit" where
  "TextInput_post_init text = require_text text ''text''"

definition ChatMessage_post_init :: "ChatMessage \<Rightarrow> exn + unit" where
  "ChatMessage_post_init m = require_text (cm_content m) ''content''"

definition ChatInput_post_init :: "ChatMessage list \<Rightarrow> exn + unit" where
  "ChatInput_post_init messages =
     require (messages \<noteq> []) (ValueError ''Chat input must contain at least one message.'')"

text \<open>The temperature is a JSON number, an \<open>int\<close> or a \<open>float\<close>.\<close>

datatype number = IntNum int | FloatNum rat

fun number_value :: "number \<Rightarrow> rat" where
  "number_value (IntNum n) = of_int n"
| "number_value (FloatNum x) = x"

record GenerationConfig =
  gc_max_output_tokens :: "int option"
  gc_temperature :: number

definition GenerationConfig_post_init :: "GenerationConfig \<Rightarrow> exn + unit" where
  "GenerationConfig_post_init g =
     bind_r (require (\<not> (case gc_max_output_tokens g of None \<Rightarrow> False | Some n \<Rightarrow> n < 1))
       (ValueError ''max_output_tokens must be positive when provided.'')) (\<lambda>_.
     require (0 \<le> number_value (gc_temperature g) \<and> number_value (gc_temperature g) \<le> 2)
       (ValueError ''temperature must be between 0.0 and 2.0.''))"

record RoutingRequirements =
  requested_model :: "string option"
  required_model :: "string option"
  required_context_tokens :: "int option"
  requires_structured_output :: bool
  requires_streaming :: bool
  required_accelerator :: "string option"
  required_topology :: "string option"
  required_data_location :: "string option"
  production_only :: bool

definition optional_text :: "string option \<Rightarrow> string \<Rightarrow> exn + unit" where
  "optional_text value field_name =
     (case value of None \<Rightarrow> Inr () | Some v \<Rightarrow> require_text v field_name)"

definition RoutingRequirements_post_init :: "RoutingRequirements \<Rightarrow> exn + unit" where
  "RoutingRequirements_post_init r =
     bind_r (optional_text (requested_model r) ''requested_model'') (\<lambda>_.
     bind_r (optional_text (required_model r) ''required_model'') (\<lambda>_.
     bind_r (require (\<not> (case required_context_tokens r of None \<Rightarrow> False | Some n \<Rightarrow> n < 1))
       (ValueError ''required_context_tokens must be positive.'')) (\<lambda>_.
     bind_r (optional_text (required_accelerator r) ''required_accelerator'') (\<lambda>_.
     bind_r (optional_text (required_topology r) ''required_topology'') (\<lambda>_.
     optional_text (required_data_location r) ''required_data_location'')))))"

record TraceContext =
  tc_request_id :: string
  tc_traceparent :: "string option"

definition TraceContext_post_init :: "TraceContext \<Rightarrow> exn + unit" where
  "TraceContext_post_init t = require_text (tc_request_id t) ''request_id''"

record InferenceTask =
  it_input :: task_input
  it_generation :: GenerationConfig
  it_requirements :: RoutingRequirements
  it_trace :: TraceContext
  it_deadline_at :: "datetime option"

definition InferenceTask_post_init :: "InferenceTask \<Rightarrow> exn + unit" where
  "InferenceTask_post_init t =
     require (case it_deadline_at t of None \<Rightarrow> True | Some d \<Rightarrow> is_aware d)
       (ValueError ''deadline_at must include timezone information.'')"

text \<open>A task the constructors accept: every part went through its own \<open>__post_init__\<close>.\<close>

fun input_ok :: "task_input \<Rightarrow> bool" where
  "input_ok (TextInput s) = (TextInput_post_init s = Inr ())"
| "input_ok (ChatInput ms) =
     (ChatInput_post_init ms = Inr () \<and> list_all (\<lambda>m. ChatMessage_post_init m = Inr ()) ms)"

definition task_ok :: "InferenceTask \<Rightarrow> bool" where
  "task_ok t = (input_ok (it_input t)
     \<and> GenerationConfig_post_init (it_generation t) = Inr ()
     \<and> RoutingRequirements_post_init (it_requirements t) = Inr ()
     \<and> TraceContext_post_init (it_trace t) = Inr ()
     \<and> InferenceTask_post_init t = Inr ())"

section \<open>Attempts and results\<close>

datatype FinishReason = STOP | LENGTH | CANCELLED_FINISH | ERROR_FINISH | UNKNOWN_FINISH

datatype AttemptOutcome = SUCCEEDED | FAILED

datatype RetryClassification = NEVER | SAME_DEPLOYMENT | OTHER_DEPLOYMENT

record ExecutionAttempt =
  ea_attempt_id :: string
  ea_sequence :: int
  ea_deployment_id :: string
  ea_started_at :: datetime
  ea_finished_at :: datetime
  ea_duration_ms :: rat
  ea_outcome :: AttemptOutcome
  ea_failure_code :: "string option"
  ea_retry_classification :: "RetryClassification option"
  ea_schema_version :: int
  ea_configured_deployment :: "DeploymentRef option"

definition ExecutionAttempt_post_init :: "ExecutionAttempt \<Rightarrow> exn + unit" where
  "ExecutionAttempt_post_init a =
     bind_r (require_text (ea_attempt_id a) ''attempt_id'') (\<lambda>_.
     bind_r (require_text (ea_deployment_id a) ''deployment_id'') (\<lambda>_.
     bind_r (require (ea_schema_version a = 1 \<or> ea_schema_version a = 2)
       (ValueError ''Unsupported execution-attempt schema version.'')) (\<lambda>_.
     bind_r (require (\<not> (ea_schema_version a = 2 \<and> ea_configured_deployment a = None))
       (ValueError ''Version 2 attempts require a configured deployment.'')) (\<lambda>_.
     bind_r (require (case ea_configured_deployment a of None \<Rightarrow> True
                      | Some d \<Rightarrow> dr_deployment_id d = ea_deployment_id a)
       (ValueError ''Attempt snapshot deployment ID must match.'')) (\<lambda>_.
     bind_r (require (\<not> ea_sequence a < 1) (ValueError ''sequence must be positive.'')) (\<lambda>_.
     bind_r (require (\<not> ea_duration_ms a < 0)
       (ValueError ''duration_ms cannot be negative.'')) (\<lambda>_.
     bind_r (require (is_aware (ea_started_at a) \<and> is_aware (ea_finished_at a))
       (ValueError ''attempt timestamps must include timezone information.'')) (\<lambda>_.
     bind_r (require (\<not> (ea_outcome a = SUCCEEDED \<and> ea_failure_code a \<noteq> None))
       (ValueError ''A successful attempt cannot contain a failure code.'')) (\<lambda>_.
     require (\<not> (ea_outcome a = FAILED \<and> ea_failure_code a = None))
       (ValueError ''A failed attempt must contain a failure code.''))))))))))"

record TokenUsage =
  tu_input_tokens :: "int option"
  tu_output_tokens :: "int option"

definition TokenUsage_post_init :: "TokenUsage \<Rightarrow> exn + unit" where
  "TokenUsage_post_init u =
     bind_r (require (case tu_input_tokens u of None \<Rightarrow> True | Some n \<Rightarrow> \<not> n < 0)
       (ValueError ''input_tokens cannot be negative.'')) (\<lambda>_.
     require (case tu_output_tokens u of None \<Rightarrow> True | Some n \<Rightarrow> \<not> n < 0)
       (ValueError ''output_tokens cannot be negative.''))"

definition InferenceTiming_post_init :: "rat option \<Rightarrow> exn + unit" where
  "InferenceTiming_post_init total_ms =
     require (case total_ms of None \<Rightarrow> True | Some x \<Rightarrow> \<not> x < 0)
       (ValueError ''total_ms cannot be negative.'')"

text \<open>The adapter metadata is passed through; the code looks at one entry only, and only when it is a
  text, so an entry that is not a text is \<^const>\<open>None\<close>.\<close>

type_synonym metadata = "(string \<times> string option) list"

record AdapterInferenceResult =
  ar_text :: string
  ar_finish_reason :: FinishReason
  ar_usage :: TokenUsage
  ar_total_ms :: "rat option"
  ar_metadata :: metadata
  ar_reasoning :: "string option"

record RoutingScore =
  rs_deployment_id :: string
  rs_total :: int
  rs_components :: "(string \<times> int) list"
  rs_explanation :: "string list"

record RoutingDecision =
  rd_policy_version :: string
  rd_ordered_deployment_ids :: "string list"
  rd_candidates :: "RoutingScore list"

section \<open>Failures\<close>

datatype failure_class =
    InferenceFailure | ConfigurationFailure | IdentityMismatchFailure
  | DeploymentUnavailableFailure | UnsupportedTaskFailure | CapabilityMismatchFailure
  | CapacityExceededFailure | DeadlineExceededFailure | AsynchronousResultPendingFailure
  | WorkflowBudgetExceededFailure | UpstreamProtocolFailure | GenerationFailure
  | CancelledFailure | UnknownEnginePreferenceFailure

fun failure_code :: "failure_class \<Rightarrow> string" where
  "failure_code InferenceFailure = ''inference_failure''"
| "failure_code ConfigurationFailure = ''configuration_failure''"
| "failure_code IdentityMismatchFailure = ''identity_mismatch''"
| "failure_code DeploymentUnavailableFailure = ''deployment_unavailable''"
| "failure_code UnsupportedTaskFailure = ''unsupported_task''"
| "failure_code CapabilityMismatchFailure = ''capability_mismatch''"
| "failure_code CapacityExceededFailure = ''capacity_exceeded''"
| "failure_code DeadlineExceededFailure = ''deadline_exceeded''"
| "failure_code AsynchronousResultPendingFailure = ''asynchronous_result_pending''"
| "failure_code WorkflowBudgetExceededFailure = ''workflow_budget_exceeded''"
| "failure_code UpstreamProtocolFailure = ''upstream_protocol_failure''"
| "failure_code GenerationFailure = ''generation_failure''"
| "failure_code CancelledFailure = ''cancelled''"
| "failure_code UnknownEnginePreferenceFailure = ''unknown_engine_preference''"

fun failure_http_status :: "failure_class \<Rightarrow> int" where
  "failure_http_status InferenceFailure = 500"
| "failure_http_status ConfigurationFailure = 500"
| "failure_http_status IdentityMismatchFailure = 503"
| "failure_http_status DeploymentUnavailableFailure = 503"
| "failure_http_status UnsupportedTaskFailure = 422"
| "failure_http_status CapabilityMismatchFailure = 422"
| "failure_http_status CapacityExceededFailure = 503"
| "failure_http_status DeadlineExceededFailure = 504"
| "failure_http_status AsynchronousResultPendingFailure = 503"
| "failure_http_status WorkflowBudgetExceededFailure = 504"
| "failure_http_status UpstreamProtocolFailure = 502"
| "failure_http_status GenerationFailure = 502"
| "failure_http_status CancelledFailure = 499"
| "failure_http_status UnknownEnginePreferenceFailure = 400"

fun failure_retry :: "failure_class \<Rightarrow> RetryClassification" where
  "failure_retry IdentityMismatchFailure = OTHER_DEPLOYMENT"
| "failure_retry DeploymentUnavailableFailure = OTHER_DEPLOYMENT"
| "failure_retry CapacityExceededFailure = OTHER_DEPLOYMENT"
| "failure_retry DeadlineExceededFailure = OTHER_DEPLOYMENT"
| "failure_retry WorkflowBudgetExceededFailure = OTHER_DEPLOYMENT"
| "failure_retry UpstreamProtocolFailure = OTHER_DEPLOYMENT"
| "failure_retry GenerationFailure = OTHER_DEPLOYMENT"
| "failure_retry _ = NEVER"

definition failure_retryable :: "failure_class \<Rightarrow> bool" where
  "failure_retryable f = (failure_retry f \<noteq> NEVER)"

section \<open>Properties\<close>

lemma compare_identity_mismatches:
  "fst (compare_identity fs e ob) = map fst (filter (\<lambda>(n, f). f e \<noteq> None \<and> f ob \<noteq> None \<and> f e \<noteq> f ob) fs)"
  by (induction fs e ob rule: compare_identity.induct)
    (auto simp: split_beta Let_def split: option.splits)

lemma compare_identity_missing:
  "snd (compare_identity fs e ob) \<longleftrightarrow> (\<exists>(n, f) \<in> set fs. f e \<noteq> None \<and> f ob = None)"
  by (induction fs e ob rule: compare_identity.induct)
    (auto simp: split_beta Let_def split: option.splits)

lemmas identity_defs = assess_model_identity_def compare_identity_mismatches
  compare_identity_missing identity_fields_def

lemma assessment_well_formed:
  "IdentityAssessment_post_init (assess_model_identity e ob) = Inr ()"
  by (auto simp: IdentityAssessment_post_init_def assess_model_identity_def split_beta Let_def
      split: option.splits)

end
