(* ===== verification/Packets.thy ===== *)
theory Packets
  imports Contracts
begin

text \<open>
  JSON values, canonical JSON and the versioned task packets and artifacts of
  \<open>src/backend/workflows/contracts.py\<close>. What the standard library contributes beyond the
  printer written out here is a parameter, the record \<open>pylib\<close>: the parser \<open>json.loads\<close>, the
  same parser as an \<open>object_pairs_hook\<close> sees it (\<open>loads_pairs\<close>: duplicate members kept, numbers
  that are not finite refused), the shortest representation of a float, \<open>hashlib.sha256(...).hexdigest()\<close> of
  the UTF-8 encoding, and ISO 8601 formatting and parsing of UTC datetimes.
\<close>

section \<open>JSON values\<close>

datatype json =
    JNull
  | JBool bool
  | JInt int
  | JFloat rat
  | JStr string
  | JArr "json list"
  | JObj "(string \<times> json) list"

record pylib =
  float_repr :: "rat \<Rightarrow> string"
  loads :: "string \<Rightarrow> json option"
  loads_pairs :: "string \<Rightarrow> json option"
  sha256_hex :: "string \<Rightarrow> string"
  isoformat :: "instant \<Rightarrow> string"
  fromisoformat :: "string \<Rightarrow> datetime option"

text \<open>\<open>sort_keys=True\<close>: every object lists its members in the order of their keys.\<close>

fun sort_keys :: "json \<Rightarrow> json"
  and sort_keys_list :: "json list \<Rightarrow> json list"
  and sort_keys_members :: "(string \<times> json) list \<Rightarrow> (string \<times> json) list" where
  "sort_keys (JArr xs) = JArr (sort_keys_list xs)"
| "sort_keys (JObj ms) = JObj (sort_key fst (sort_keys_members ms))"
| "sort_keys v = v"
| "sort_keys_list [] = []"
| "sort_keys_list (x # xs) = sort_keys x # sort_keys_list xs"
| "sort_keys_members [] = []"
| "sort_keys_members ((k, v) # ms) = (k, sort_keys v) # sort_keys_members ms"

definition hex_digit :: "nat \<Rightarrow> char" where
  "hex_digit d = (if d < 10 then char_of (48 + d) else char_of (87 + d))"

definition escape_char :: "char \<Rightarrow> string" where
  "escape_char c = (let n = (of_char c :: nat) in
     if n = 34 \<or> n = 92 then [CHR 0x5C, c]
     else if n = 10 then [CHR 0x5C, CHR ''n'']
     else if n = 13 then [CHR 0x5C, CHR ''r'']
     else if n = 9 then [CHR 0x5C, CHR ''t'']
     else if n = 12 then [CHR 0x5C, CHR ''f'']
     else if n = 8 then [CHR 0x5C, CHR ''b'']
     else if 32 \<le> n \<and> n \<le> 126 then [c]
     else [CHR 0x5C, CHR ''u'', CHR ''0'', CHR ''0'', hex_digit (n div 16), hex_digit (n mod 16)])"

definition print_string :: "string \<Rightarrow> string" where
  "print_string s = [CHR 0x22] @ concat (map escape_char s) @ [CHR 0x22]"

fun print_json :: "pylib \<Rightarrow> json \<Rightarrow> string"
  and print_list :: "pylib \<Rightarrow> json list \<Rightarrow> string list"
  and print_members :: "pylib \<Rightarrow> (string \<times> json) list \<Rightarrow> string list" where
  "print_json L JNull = ''null''"
| "print_json L (JBool b) = (if b then ''true'' else ''false'')"
| "print_json L (JInt i) = string_of_int i"
| "print_json L (JFloat x) = float_repr L x"
| "print_json L (JStr s) = print_string s"
| "print_json L (JArr xs) = ''['' @ join '','' (print_list L xs) @ '']''"
| "print_json L (JObj ms) = ''{'' @ join '','' (print_members L ms) @ ''}''"
| "print_list L [] = []"
| "print_list L (x # xs) = print_json L x # print_list L xs"
| "print_members L [] = []"
| "print_members L ((k, v) # ms) = (print_string k @ '':'' @ print_json L v) # print_members L ms"

definition canonical_json :: "pylib \<Rightarrow> json \<Rightarrow> string" where
  "canonical_json L value = print_json L (sort_keys value)"

fun is_dict :: "json \<Rightarrow> bool" where
  "is_dict (JObj ms) = True"
| "is_dict _ = False"

fun members :: "json \<Rightarrow> (string \<times> json) list" where
  "members (JObj ms) = ms"
| "members _ = []"

definition dict_get :: "json \<Rightarrow> string \<Rightarrow> json option" where
  "dict_get v k = map_of (members v) k"

section \<open>Task packets\<close>

record TaskPacket =
  tp_task :: InferenceTask
  tp_schema_version :: int

definition TaskPacket_post_init :: "TaskPacket \<Rightarrow> exn + unit" where
  "TaskPacket_post_init p =
     require (tp_schema_version p = 1) (ValueError ''Unsupported task packet version'')"

definition packet_ok :: "TaskPacket \<Rightarrow> bool" where
  "packet_ok p = (TaskPacket_post_init p = Inr () \<and> task_ok (tp_task p))"

fun jopt :: "('a \<Rightarrow> json) \<Rightarrow> 'a option \<Rightarrow> json" where
  "jopt f None = JNull"
| "jopt f (Some x) = f x"

fun number_json :: "number \<Rightarrow> json" where
  "number_json (IntNum n) = JInt n"
| "number_json (FloatNum x) = JFloat x"

definition message_json :: "ChatMessage \<Rightarrow> json" where
  "message_json m = JObj [(''role'', JStr (ChatRole_value (cm_role m))),
                          (''content'', JStr (cm_content m))]"

fun input_json :: "task_input \<Rightarrow> json" where
  "input_json (TextInput s) = JObj [(''text'', JStr s), (''kind'', JStr ''text'')]"
| "input_json (ChatInput ms) =
     JObj [(''messages'', JArr (map message_json ms)), (''kind'', JStr ''chat'')]"

definition generation_json :: "GenerationConfig \<Rightarrow> json" where
  "generation_json g = JObj
     [(''max_output_tokens'', jopt JInt (gc_max_output_tokens g)),
      (''temperature'', number_json (gc_temperature g))]"

definition requirements_json :: "RoutingRequirements \<Rightarrow> json" where
  "requirements_json r = JObj
     [(''requested_model'', jopt JStr (requested_model r)),
      (''required_model'', jopt JStr (required_model r)),
      (''required_context_tokens'', jopt JInt (required_context_tokens r)),
      (''requires_structured_output'', JBool (requires_structured_output r)),
      (''requires_streaming'', JBool (requires_streaming r)),
      (''required_accelerator'', jopt JStr (required_accelerator r)),
      (''required_topology'', jopt JStr (required_topology r)),
      (''required_data_location'', jopt JStr (required_data_location r)),
      (''production_only'', JBool (production_only r))]"

definition trace_json :: "TraceContext \<Rightarrow> json" where
  "trace_json t = JObj [(''request_id'', JStr (tc_request_id t)),
                        (''traceparent'', jopt JStr (tc_traceparent t))]"

definition deadline_json :: "pylib \<Rightarrow> datetime option \<Rightarrow> json" where
  "deadline_json L d = jopt (\<lambda>t. JStr (isoformat L (instant_of t))) d"

text \<open>\<open>to_dict\<close>: the fields as JSON values. The source detaches them by printing and reading
  them back, which sorts the members.\<close>

definition to_dict :: "pylib \<Rightarrow> TaskPacket \<Rightarrow> json" where
  "to_dict L p = sort_keys (JObj
     [(''schema_version'', JInt (tp_schema_version p)),
      (''task'', JObj
         [(''input'', input_json (it_input (tp_task p))),
          (''generation'', generation_json (it_generation (tp_task p))),
          (''requirements'', requirements_json (it_requirements (tp_task p))),
          (''trace'', trace_json (it_trace (tp_task p))),
          (''deadline_at'', deadline_json L (it_deadline_at (tp_task p)))])])"

text \<open>Reading back: a keyword argument is the decoded member, or the field's default; an unknown
  keyword is an error. All errors become one \<open>ValueError\<close>, so decoding is an option.\<close>

definition kw :: "(string \<times> json) list \<Rightarrow> string \<Rightarrow> 'a option \<Rightarrow> (json \<Rightarrow> 'a option) \<Rightarrow> 'a option" where
  "kw ms k dflt dec = (case map_of ms k of None \<Rightarrow> dflt | Some v \<Rightarrow> dec v)"

definition keys_within :: "(string \<times> json) list \<Rightarrow> string list \<Rightarrow> bool" where
  "keys_within ms ks = list_all (\<lambda>(k, v). k \<in> set ks) ms"

definition keys_are :: "json \<Rightarrow> string list \<Rightarrow> bool" where
  "keys_are v ks = (is_dict v \<and> keys_within (members v) ks
     \<and> list_all (\<lambda>k. map_of (members v) k \<noteq> None) ks)"

fun dec_str :: "json \<Rightarrow> string option" where
  "dec_str (JStr s) = Some s"
| "dec_str _ = None"

fun dec_bool :: "json \<Rightarrow> bool option" where
  "dec_bool (JBool b) = Some b"
| "dec_bool _ = None"

fun dec_int :: "json \<Rightarrow> int option" where
  "dec_int (JInt i) = Some i"
| "dec_int _ = None"

fun dec_number :: "json \<Rightarrow> number option" where
  "dec_number (JInt i) = Some (IntNum i)"
| "dec_number (JFloat x) = Some (FloatNum x)"
| "dec_number _ = None"

fun dec_opt :: "(json \<Rightarrow> 'a option) \<Rightarrow> json \<Rightarrow> 'a option option" where
  "dec_opt f JNull = Some None"
| "dec_opt f v = map_option Some (f v)"

definition dec_role :: "json \<Rightarrow> ChatRole option" where
  "dec_role v = (if v = JStr ''system'' then Some SYSTEM
     else if v = JStr ''user'' then Some USER
     else if v = JStr ''assistant'' then Some ASSISTANT else None)"

definition accept :: "exn + unit \<Rightarrow> 'a \<Rightarrow> 'a option" where
  "accept r x = (case r of Inl e \<Rightarrow> None | Inr _ \<Rightarrow> Some x)"

definition dec_message :: "json \<Rightarrow> ChatMessage option" where
  "dec_message v =
     (if keys_are v [''role'', ''content'']
      then Option.bind (kw (members v) ''role'' None dec_role) (\<lambda>r.
           Option.bind (kw (members v) ''content'' None dec_str) (\<lambda>c.
           let m = \<lparr>cm_role = r, cm_content = c\<rparr> in accept (ChatMessage_post_init m) m))
      else None)"

fun dec_all :: "('a \<Rightarrow> 'b option) \<Rightarrow> 'a list \<Rightarrow> 'b list option" where
  "dec_all f [] = Some []"
| "dec_all f (x # xs) =
     Option.bind (f x) (\<lambda>y. Option.bind (dec_all f xs) (\<lambda>ys. Some (y # ys)))"

fun dec_messages :: "json \<Rightarrow> ChatMessage list option" where
  "dec_messages (JArr vs) = dec_all dec_message vs"
| "dec_messages _ = None"

definition dec_input :: "json \<Rightarrow> task_input option" where
  "dec_input v =
     (if dict_get v ''kind'' = Some (JStr ''text'') \<and> keys_are v [''text'', ''kind'']
      then Option.bind (kw (members v) ''text'' None dec_str) (\<lambda>s.
           accept (TextInput_post_init s) (TextInput s))
      else if dict_get v ''kind'' = Some (JStr ''chat'') \<and> keys_are v [''messages'', ''kind'']
      then Option.bind (kw (members v) ''messages'' None dec_messages) (\<lambda>ms.
           accept (ChatInput_post_init ms) (ChatInput ms))
      else None)"

definition dec_generation :: "json \<Rightarrow> GenerationConfig option" where
  "dec_generation v =
     (if is_dict v \<and> keys_within (members v) [''max_output_tokens'', ''temperature'']
      then Option.bind (kw (members v) ''max_output_tokens'' (Some None) (dec_opt dec_int)) (\<lambda>m.
           Option.bind (kw (members v) ''temperature'' (Some (FloatNum (7 / 10))) dec_number) (\<lambda>t.
           let g = \<lparr>gc_max_output_tokens = m, gc_temperature = t\<rparr>
           in accept (GenerationConfig_post_init g) g))
      else None)"

definition dec_requirements :: "json \<Rightarrow> RoutingRequirements option" where
  "dec_requirements v =
     (if is_dict v \<and> keys_within (members v)
           [''requested_model'', ''required_model'', ''required_context_tokens'',
            ''requires_structured_output'', ''requires_streaming'', ''required_accelerator'',
            ''required_topology'', ''required_data_location'', ''production_only'']
      then let ms = members v in
           Option.bind (kw ms ''requested_model'' (Some None) (dec_opt dec_str)) (\<lambda>a.
           Option.bind (kw ms ''required_model'' (Some None) (dec_opt dec_str)) (\<lambda>b.
           Option.bind (kw ms ''required_context_tokens'' (Some None) (dec_opt dec_int)) (\<lambda>c.
           Option.bind (kw ms ''requires_structured_output'' (Some False) dec_bool) (\<lambda>d.
           Option.bind (kw ms ''requires_streaming'' (Some False) dec_bool) (\<lambda>e.
           Option.bind (kw ms ''required_accelerator'' (Some None) (dec_opt dec_str)) (\<lambda>f.
           Option.bind (kw ms ''required_topology'' (Some None) (dec_opt dec_str)) (\<lambda>g.
           Option.bind (kw ms ''required_data_location'' (Some None) (dec_opt dec_str)) (\<lambda>h.
           Option.bind (kw ms ''production_only'' (Some False) dec_bool) (\<lambda>i.
           let r = \<lparr>requested_model = a, required_model = b, required_context_tokens = c,
                    requires_structured_output = d, requires_streaming = e,
                    required_accelerator = f, required_topology = g,
                    required_data_location = h, production_only = i\<rparr>
           in accept (RoutingRequirements_post_init r) r)))))))))
      else None)"

definition dec_trace :: "json \<Rightarrow> TraceContext option" where
  "dec_trace v =
     (if is_dict v \<and> keys_within (members v) [''request_id'', ''traceparent'']
      then Option.bind (kw (members v) ''request_id'' None dec_str) (\<lambda>r.
           Option.bind (kw (members v) ''traceparent'' (Some None) (dec_opt dec_str)) (\<lambda>t.
           let c = \<lparr>tc_request_id = r, tc_traceparent = t\<rparr>
           in accept (TraceContext_post_init c) c))
      else None)"

fun dec_deadline :: "pylib \<Rightarrow> json \<Rightarrow> datetime option option" where
  "dec_deadline L JNull = Some None"
| "dec_deadline L (JStr s) = map_option Some (fromisoformat L s)"
| "dec_deadline L _ = None"

definition dec_task :: "pylib \<Rightarrow> json \<Rightarrow> InferenceTask option" where
  "dec_task L v =
     (if keys_are v [''input'', ''generation'', ''requirements'', ''trace'', ''deadline_at'']
      then let ms = members v in
           Option.bind (kw ms ''input'' None dec_input) (\<lambda>i.
           Option.bind (kw ms ''deadline_at'' None (dec_deadline L)) (\<lambda>d.
           Option.bind (kw ms ''generation'' None dec_generation) (\<lambda>g.
           Option.bind (kw ms ''requirements'' None dec_requirements) (\<lambda>r.
           Option.bind (kw ms ''trace'' None dec_trace) (\<lambda>t.
           let tk = \<lparr>it_input = i, it_generation = g, it_requirements = r, it_trace = t,
                     it_deadline_at = d\<rparr>
           in accept (InferenceTask_post_init tk) tk)))))
      else None)"

definition from_dict :: "pylib \<Rightarrow> json \<Rightarrow> exn + TaskPacket" where
  "from_dict L value =
     (let packet =
        (if keys_are value [''schema_version'', ''task'']
         then Option.bind (kw (members value) ''task'' None (dec_task L)) (\<lambda>t.
              Option.bind (kw (members value) ''schema_version'' None dec_int) (\<lambda>n.
              let p = \<lparr>tp_task = t, tp_schema_version = n\<rparr> in
              Option.bind (accept (TaskPacket_post_init p) p) (\<lambda>p.
              if canonical_json L (to_dict L p) \<noteq> canonical_json L value then None else Some p)))
         else None)
      in case packet of None \<Rightarrow> Inl (ValueError ''Invalid workflow task packet'')
                      | Some p \<Rightarrow> Inr p)"

section \<open>Artifacts\<close>

record ArtifactRef =
  af_artifact_id :: string
  af_workflow_id :: string
  af_sha256 :: string
  af_size_bytes :: int
  af_schema_version :: int
  af_media_type :: string

record StoredArtifact =
  sa_ref :: ArtifactRef
  sa_content_json :: string

text \<open>The number of bytes of the UTF-8 encoding: one for a code point below 128, else two.\<close>

definition utf8_len :: "string \<Rightarrow> int" where
  "utf8_len s = sum_list (map (\<lambda>c. if (of_char c :: nat) < 128 then 1 else 2) s)"

definition StoredArtifact_init :: "pylib \<Rightarrow> ArtifactRef \<Rightarrow> string \<Rightarrow> exn + StoredArtifact" where
  "StoredArtifact_init L ref content_json =
     (if af_schema_version ref \<noteq> 1 \<or> af_media_type ref \<noteq> ''application/json''
         \<or> utf8_len content_json \<noteq> af_size_bytes ref
         \<or> sha256_hex L content_json \<noteq> af_sha256 ref
      then Inl (ValueError ''Workflow artifact integrity check failed'')
      else case loads L content_json of
             None \<Rightarrow> Inl (ValueError ''JSONDecodeError'')
           | Some v \<Rightarrow>
               if \<not> is_dict v then Inl (ValueError ''Artifact must contain a JSON object'')
               else Inr \<lparr>sa_ref = ref, sa_content_json = content_json\<rparr>)"

definition payload :: "pylib \<Rightarrow> StoredArtifact \<Rightarrow> exn + json" where
  "payload L a = (case loads L (sa_content_json a) of
     None \<Rightarrow> Inl (ValueError ''JSONDecodeError'') | Some v \<Rightarrow> Inr v)"

section \<open>Reading back what was written\<close>

text \<open>Sorting the members of an object changes neither its lookups nor its set of keys.\<close>

lemma map_of_sort_key: "distinct (map fst ms) \<Longrightarrow> map_of (sort_key fst ms) k = map_of ms k"
  by (rule map_of_eqI [THEN fun_cong, where x = k])
    (auto simp: map_of_eq_Some_iff distinct_map inj_on_def distinct_sort
        intro!: map_of_is_SomeI dest!: map_of_SomeD)

lemma map_of_sort_keys_members:
  "map_of (sort_keys_members ms) k = map_option sort_keys (map_of ms k)"
  by (induction ms) auto

lemma keys_sort_keys_members [simp]: "map fst (sort_keys_members ms) = map fst ms"
  by (induction ms) auto

lemma sort_keys_list_map: "sort_keys_list xs = map sort_keys xs"
  by (induction xs) auto

lemma keys_within_iff: "keys_within ms ks \<longleftrightarrow> fst ` set ms \<subseteq> set ks"
  by (auto simp: keys_within_def list_all_iff)

lemma keys_within_sorted [simp]:
  "keys_within (sort_key fst (sort_keys_members ms)) ks \<longleftrightarrow> keys_within ms ks"
  unfolding keys_within_iff
  by (metis (no_types) keys_sort_keys_members list.set_map set_sort)

lemma map_of_sorted:
  assumes "distinct (map fst ms)"
  shows "map_of (sort_key fst (sort_keys_members ms)) k = map_option sort_keys (map_of ms k)"
  using assms by (subst map_of_sort_key) (simp_all add: map_of_sort_keys_members)

lemma accept_eq [simp]: "accept r x = (if r = Inr () then Some x else None)"
  by (auto simp: accept_def split: sum.splits)

lemmas decode_simps = Let_def kw_def keys_are_def dict_get_def map_of_sorted keys_within_iff

lemma dec_opt_not_null: "v \<noteq> JNull \<Longrightarrow> dec_opt f v = map_option Some (f v)"
  by (cases v) auto

lemma dec_opt_jopt:
  assumes "\<And>x. dec (enc x) = Some x" and "\<And>x. enc x \<noteq> JNull" and "\<And>x. sort_keys (enc x) = enc x"
  shows "dec_opt dec (sort_keys (jopt enc v)) = Some v"
  by (cases v) (simp_all add: assms dec_opt_not_null)

lemma dec_opt_str [simp]: "dec_opt dec_str (sort_keys (jopt JStr v)) = Some v"
  by (rule dec_opt_jopt) auto

lemma dec_opt_int [simp]: "dec_opt dec_int (sort_keys (jopt JInt v)) = Some v"
  by (rule dec_opt_jopt) auto

lemma dec_number_json [simp]: "dec_number (sort_keys (number_json n)) = Some n"
  by (cases n) auto

lemma dec_message_json:
  "ChatMessage_post_init m = Inr () \<Longrightarrow> dec_message (sort_keys (message_json m)) = Some m"
  by (cases m; cases "cm_role m")
    (simp_all add: dec_message_def message_json_def decode_simps dec_role_def)

lemma dec_all_map:
  "(\<And>x. x \<in> set xs \<Longrightarrow> f (g x) = Some x) \<Longrightarrow> dec_all f (map g xs) = Some xs"
  by (induction xs) auto

lemma dec_input_json: "input_ok i \<Longrightarrow> dec_input (sort_keys (input_json i)) = Some i"
proof (cases i)
  case (ChatInput ms)
  assume ok: "input_ok i"
  then have "dec_all dec_message (map (sort_keys \<circ> message_json) ms) = Some ms"
    using ChatInput by (intro dec_all_map) (auto simp: dec_message_json list_all_iff)
  then show ?thesis using ChatInput ok
    by (simp add: dec_input_def decode_simps sort_keys_list_map)
qed (simp add: dec_input_def decode_simps)

lemma dec_generation_json:
  "GenerationConfig_post_init g = Inr () \<Longrightarrow> dec_generation (sort_keys (generation_json g)) = Some g"
  by (cases g) (simp add: dec_generation_def generation_json_def decode_simps)

lemma dec_requirements_json:
  "RoutingRequirements_post_init r = Inr () \<Longrightarrow>
     dec_requirements (sort_keys (requirements_json r)) = Some r"
  by (cases r) (simp add: dec_requirements_def requirements_json_def decode_simps)

lemma dec_trace_json:
  "TraceContext_post_init t = Inr () \<Longrightarrow> dec_trace (sort_keys (trace_json t)) = Some t"
  by (cases t) (simp add: dec_trace_def trace_json_def decode_simps)

definition iso_roundtrip :: "pylib \<Rightarrow> bool" where
  "iso_roundtrip L = (\<forall>t. fromisoformat L (isoformat L t) = Some (Aware t))"

lemma dec_deadline_json:
  assumes "iso_roundtrip L" and "case d of None \<Rightarrow> True | Some t \<Rightarrow> is_aware t"
  shows "dec_deadline L (sort_keys (deadline_json L d)) = Some d"
  using assms by (cases d; cases "the d") (auto simp: deadline_json_def iso_roundtrip_def)

lemma dec_task_json:
  assumes "iso_roundtrip L" and "task_ok t"
  shows "dec_task L (sort_keys (JObj
     [(''input'', input_json (it_input t)),
      (''generation'', generation_json (it_generation t)),
      (''requirements'', requirements_json (it_requirements t)),
      (''trace'', trace_json (it_trace t)),
      (''deadline_at'', deadline_json L (it_deadline_at t))])) = Some t"
proof -
  have d: "dec_deadline L (sort_keys (deadline_json L (it_deadline_at t))) = Some (it_deadline_at t)"
    using assms by (intro dec_deadline_json) (auto simp: task_ok_def InferenceTask_post_init_def)
  show ?thesis
    using assms(2)
    by (simp add: dec_task_def decode_simps task_ok_def d dec_input_json dec_generation_json
        dec_requirements_json dec_trace_json InferenceTask_post_init_def)
qed

lemma from_dict_to_dict:
  assumes "iso_roundtrip L" and "packet_ok p"
  shows "from_dict L (to_dict L p) = Inr p"
proof -
  have "dec_task L (sort_keys (JObj
     [(''input'', input_json (it_input (tp_task p))),
      (''generation'', generation_json (it_generation (tp_task p))),
      (''requirements'', requirements_json (it_requirements (tp_task p))),
      (''trace'', trace_json (it_trace (tp_task p))),
      (''deadline_at'', deadline_json L (it_deadline_at (tp_task p)))])) = Some (tp_task p)"
    using assms by (intro dec_task_json) (auto simp: packet_ok_def)
  moreover have "\<lparr>tp_task = tp_task p, tp_schema_version = tp_schema_version p\<rparr> = p" by simp
  moreover have "TaskPacket_post_init p = Inr ()" using assms(2) by (simp add: packet_ok_def)
  ultimately show ?thesis
    unfolding from_dict_def Let_def
    by (simp add: to_dict_def decode_simps TaskPacket_post_init_def)
qed

end
