(* ===== verification/Graph.thy ===== *)
theory Graph
  imports Packets
begin

text \<open>
  The dependency graph of a workflow and its scheduler state
  (\<open>src/backend/workflows/graph.py\<close>): construction checks of nodes, graphs and states, the
  elimination loop that rejects cycles, the transition table, and the readiness/skip cascade.
\<close>

section \<open>Node states\<close>

datatype NodeState =
    BLOCKED | READY | RUNNING | AWAITING_VALIDATION | SUCCEEDED | FAILED | REJECTED | CANCELLED
  | UNCERTAIN | SKIPPED

fun NodeState_value :: "NodeState \<Rightarrow> string" where
  "NodeState_value BLOCKED = ''blocked''"
| "NodeState_value READY = ''ready''"
| "NodeState_value RUNNING = ''running''"
| "NodeState_value AWAITING_VALIDATION = ''awaiting_validation''"
| "NodeState_value SUCCEEDED = ''succeeded''"
| "NodeState_value FAILED = ''failed''"
| "NodeState_value REJECTED = ''rejected''"
| "NodeState_value CANCELLED = ''cancelled''"
| "NodeState_value UNCERTAIN = ''uncertain''"
| "NodeState_value SKIPPED = ''skipped''"

definition TERMINAL_NODE_STATES :: "NodeState set" where
  "TERMINAL_NODE_STATES = {SUCCEEDED, FAILED, REJECTED, CANCELLED, SKIPPED}"

definition UNSUCCESSFUL_NODE_STATES :: "NodeState set" where
  "UNSUCCESSFUL_NODE_STATES = TERMINAL_NODE_STATES - {SUCCEEDED}"

fun ALLOWED_TRANSITIONS :: "NodeState \<Rightarrow> NodeState set" where
  "ALLOWED_TRANSITIONS READY = {RUNNING, CANCELLED}"
| "ALLOWED_TRANSITIONS RUNNING = {AWAITING_VALIDATION, FAILED, CANCELLED, UNCERTAIN}"
| "ALLOWED_TRANSITIONS AWAITING_VALIDATION = {SUCCEEDED, REJECTED, CANCELLED}"
| "ALLOWED_TRANSITIONS UNCERTAIN = {AWAITING_VALIDATION, FAILED, CANCELLED}"
| "ALLOWED_TRANSITIONS _ = {}"

section \<open>Graphs\<close>

record GraphNode =
  node_id :: string
  node_packet :: TaskPacket
  depends_on :: "string list"

definition GraphNode_post_init :: "GraphNode \<Rightarrow> exn + unit" where
  "GraphNode_post_init n =
     bind_r (require (identifier_ok (node_id n))
       (ValueError ''Graph node IDs must be nonempty without outer whitespace'')) (\<lambda>_.
     bind_r (require (list_all identifier_ok (depends_on n))
       (ValueError ''Graph dependencies must contain canonical node IDs'')) (\<lambda>_.
     bind_r (require (distinct (depends_on n))
       (ValueError ''Graph dependencies must be unique'')) (\<lambda>_.
     require (sort (depends_on n) = depends_on n)
       (ValueError ''Graph dependencies must use canonical sorted order''))))"

definition MAX_GRAPH_NODES :: int where
  "MAX_GRAPH_NODES = 100"

record WorkflowGraph =
  graph_nodes :: "GraphNode list"
  graph_schema_version :: int

definition identifiers :: "WorkflowGraph \<Rightarrow> string list" where
  "identifiers g = map node_id (graph_nodes g)"

text \<open>\<open>_require_acyclic\<close>: repeatedly remove the nodes none of whose dependencies remain.\<close>

definition dependencies :: "WorkflowGraph \<Rightarrow> string \<Rightarrow> string list" where
  "dependencies g i =
     (case map_of (map (\<lambda>n. (node_id n, depends_on n)) (graph_nodes g)) i of
        None \<Rightarrow> [] | Some ds \<Rightarrow> ds)"

definition eliminable :: "(string \<Rightarrow> string list) \<Rightarrow> string list \<Rightarrow> string list" where
  "eliminable deps remaining =
     filter (\<lambda>i. \<not> list_ex (\<lambda>d. d \<in> set remaining) (deps i)) remaining"

function eliminate :: "(string \<Rightarrow> string list) \<Rightarrow> string list \<Rightarrow> exn + unit" where
  "eliminate deps remaining =
     (if remaining = [] then Inr ()
      else let ready = eliminable deps remaining in
           if ready = [] then Inl (ValueError ''Workflow graph must be acyclic'')
           else eliminate deps (filter (\<lambda>i. i \<notin> set ready) remaining))"
  by pat_completeness auto
termination
proof (relation "measure (\<lambda>(deps, remaining). length remaining)", goal_cases)
  case (2 deps remaining ready)
  then obtain i where "i \<in> set ready" "i \<in> set remaining"
    by (auto simp: eliminable_def filter_empty_conv)
  then have "length (filter (\<lambda>i. i \<notin> set ready) remaining) < length remaining"
    by (metis (mono_tags, lifting) length_filter_less)
  then show ?case by simp
qed simp

declare eliminate.simps [simp del]

definition require_acyclic :: "WorkflowGraph \<Rightarrow> exn + unit" where
  "require_acyclic g = eliminate (dependencies g) (identifiers g)"

definition check_edges :: "string list \<Rightarrow> GraphNode \<Rightarrow> exn + unit" where
  "check_edges known n =
     bind_r (require (node_id n \<notin> set (depends_on n))
       (ValueError ''Workflow graph nodes cannot depend on themselves'')) (\<lambda>_.
     require (list_all (\<lambda>d. d \<in> set known) (depends_on n))
       (ValueError ''Workflow graph dependency does not exist''))"

definition WorkflowGraph_post_init :: "WorkflowGraph \<Rightarrow> exn + unit" where
  "WorkflowGraph_post_init g =
     bind_r (require (graph_schema_version g = 1)
       (ValueError ''Unsupported workflow graph version'')) (\<lambda>_.
     bind_r (require (1 \<le> int (length (graph_nodes g)) \<and> int (length (graph_nodes g)) \<le> MAX_GRAPH_NODES)
       (ValueError ''Workflow graphs require 1 to 100 nodes'')) (\<lambda>_.
     bind_r (require (distinct (identifiers g))
       (ValueError ''Workflow graph node IDs must be unique'')) (\<lambda>_.
     bind_r (require (sort (identifiers g) = identifiers g)
       (ValueError ''Workflow graph nodes must use canonical sorted order'')) (\<lambda>_.
     bind_r (each (check_edges (identifiers g)) (graph_nodes g)) (\<lambda>_.
     require_acyclic g)))))"

definition node_to_dict :: "pylib \<Rightarrow> GraphNode \<Rightarrow> json" where
  "node_to_dict L n = JObj [(''node_id'', JStr (node_id n)),
     (''depends_on'', JArr (map JStr (depends_on n))),
     (''packet'', to_dict L (node_packet n))]"

definition graph_to_dict :: "pylib \<Rightarrow> WorkflowGraph \<Rightarrow> json" where
  "graph_to_dict L g = JObj [(''schema_version'', JInt (graph_schema_version g)),
     (''nodes'', JArr (map (node_to_dict L) (graph_nodes g)))]"

fun dec_strs :: "json \<Rightarrow> string list option" where
  "dec_strs (JArr vs) = dec_all dec_str vs"
| "dec_strs _ = None"

definition dec_packet :: "pylib \<Rightarrow> json \<Rightarrow> TaskPacket option" where
  "dec_packet L v = (case from_dict L v of Inl e \<Rightarrow> None | Inr p \<Rightarrow> Some p)"

definition dec_node :: "pylib \<Rightarrow> json \<Rightarrow> GraphNode option" where
  "dec_node L v =
     (if is_dict v
      then Option.bind (kw (members v) ''node_id'' None dec_str) (\<lambda>i.
           Option.bind (kw (members v) ''depends_on'' None dec_strs) (\<lambda>ds.
           Option.bind (kw (members v) ''packet'' None (dec_packet L)) (\<lambda>p.
           let n = \<lparr>node_id = i, node_packet = p, depends_on = ds\<rparr>
           in accept (GraphNode_post_init n) n)))
      else None)"

fun dec_nodes :: "pylib \<Rightarrow> json \<Rightarrow> GraphNode list option" where
  "dec_nodes L (JArr vs) = dec_all (dec_node L) vs"
| "dec_nodes L _ = None"

definition graph_from_dict :: "pylib \<Rightarrow> json \<Rightarrow> exn + WorkflowGraph" where
  "graph_from_dict L value =
     (let graph =
        (if keys_are value [''schema_version'', ''nodes'']
         then Option.bind (kw (members value) ''nodes'' None (dec_nodes L)) (\<lambda>ns.
              Option.bind (kw (members value) ''schema_version'' None dec_int) (\<lambda>v.
              let g = \<lparr>graph_nodes = ns, graph_schema_version = v\<rparr> in
              Option.bind (accept (WorkflowGraph_post_init g) g) (\<lambda>g.
              if canonical_json L (graph_to_dict L g) \<noteq> canonical_json L value
              then None else Some g)))
         else None)
      in case graph of None \<Rightarrow> Inl (ValueError ''Invalid workflow graph'') | Some g \<Rightarrow> Inr g)"

section \<open>Scheduler states\<close>

record GraphState =
  gs_graph :: WorkflowGraph
  node_states :: "(string \<times> NodeState) list"

type_synonym node_map = "string \<Rightarrow> NodeState option"

text \<open>The per-node clauses of \<open>GraphState.__post_init__\<close>.\<close>

definition check_node_state :: "node_map \<Rightarrow> GraphNode \<Rightarrow> exn + unit" where
  "check_node_state states n =
     (if states (node_id n) = None \<or> list_ex (\<lambda>d. states d = None) (depends_on n)
      then Inl (KeyError ''state'')
      else let state = states (node_id n); deps = map states (depends_on n) in
        if state = Some BLOCKED \<and>
           (deps = [] \<or> list_all (\<lambda>v. v = Some SUCCEEDED) deps
            \<or> list_ex (\<lambda>v. v \<in> Some ` UNSUCCESSFUL_NODE_STATES) deps)
        then Inl (ValueError ''Blocked graph node conflicts with dependencies'')
        else if state \<in> Some ` {READY, RUNNING, AWAITING_VALIDATION, SUCCEEDED, FAILED, REJECTED,
                                CANCELLED, UNCERTAIN}
                \<and> list_ex (\<lambda>v. v \<noteq> Some SUCCEEDED) deps
        then Inl (ValueError ''Scheduled graph node has incomplete dependencies'')
        else if state = Some SKIPPED \<and> \<not> list_ex (\<lambda>v. v \<in> Some ` UNSUCCESSFUL_NODE_STATES) deps
        then Inl (ValueError ''Skipped graph node requires a failed dependency'')
        else Inr ())"

definition GraphState_post_init :: "GraphState \<Rightarrow> exn + unit" where
  "GraphState_post_init s =
     bind_r (require (map fst (node_states s) = identifiers (gs_graph s))
       (ValueError ''Graph state must cover every node in canonical order'')) (\<lambda>_.
     each (check_node_state (map_of (node_states s))) (graph_nodes (gs_graph s)))"

definition GraphState_init :: "WorkflowGraph \<Rightarrow> (string \<times> NodeState) list \<Rightarrow> exn + GraphState" where
  "GraphState_init g states =
     (let s = \<lparr>gs_graph = g, node_states = states\<rparr> in
      bind_r (GraphState_post_init s) (\<lambda>_. Inr s))"

definition initial_state :: "WorkflowGraph \<Rightarrow> exn + GraphState" where
  "initial_state g = GraphState_init g
     (map (\<lambda>n. (node_id n, if depends_on n \<noteq> [] then BLOCKED else READY)) (graph_nodes g))"

definition state_of :: "GraphState \<Rightarrow> string \<Rightarrow> exn + NodeState" where
  "state_of s i = (case map_of (node_states s) i of
     None \<Rightarrow> Inl (ValueError ''Unknown workflow graph node'') | Some st \<Rightarrow> Inr st)"

definition ready_nodes :: "GraphState \<Rightarrow> string list" where
  "ready_nodes s = map fst (filter (\<lambda>(i, st). st = READY) (node_states s))"

definition terminal :: "GraphState \<Rightarrow> bool" where
  "terminal s = list_all (\<lambda>(i, st). st \<in> TERMINAL_NODE_STATES) (node_states s)"

text \<open>One pass of the \<open>for\<close> loop of \<open>_refresh_waiting_nodes\<close>, then the \<open>while changed\<close> loop.\<close>

fun refresh_pass :: "GraphNode list \<Rightarrow> node_map \<Rightarrow> bool \<Rightarrow> node_map \<times> bool" where
  "refresh_pass [] states changed = (states, changed)"
| "refresh_pass (n # ns) states changed =
     (if states (node_id n) \<noteq> Some BLOCKED then refresh_pass ns states changed
      else if list_ex (\<lambda>d. states d \<in> Some ` UNSUCCESSFUL_NODE_STATES) (depends_on n)
      then refresh_pass ns (states(node_id n \<mapsto> SKIPPED)) True
      else if list_all (\<lambda>d. states d = Some SUCCEEDED) (depends_on n)
      then refresh_pass ns (states(node_id n \<mapsto> READY)) True
      else refresh_pass ns states changed)"

definition blocked_count :: "GraphNode list \<Rightarrow> node_map \<Rightarrow> nat" where
  "blocked_count ns states = length (filter (\<lambda>n. states (node_id n) = Some BLOCKED) ns)"

lemma blocked_count_Nil: "blocked_count [] states = 0"
  by (simp add: blocked_count_def)

lemma blocked_count_Cons:
  "blocked_count (n # ns) states =
     (if states (node_id n) = Some BLOCKED then 1 else 0) + blocked_count ns states"
  by (simp add: blocked_count_def)

lemma blocked_count_upd_le:
  "st \<noteq> BLOCKED \<Longrightarrow> blocked_count ns (states(i \<mapsto> st)) \<le> blocked_count ns states"
  by (induction ns) (auto simp: blocked_count_Nil blocked_count_Cons)

lemma blocked_count_upd_less:
  "st \<noteq> BLOCKED \<Longrightarrow> n \<in> set ns \<Longrightarrow> states (node_id n) = Some BLOCKED \<Longrightarrow>
     blocked_count ns (states(node_id n \<mapsto> st)) < blocked_count ns states"
proof (induction ns)
  case (Cons a ns)
  define s' where "s' = states(node_id n \<mapsto> st)"
  have le: "blocked_count ns s' \<le> blocked_count ns states"
    unfolding s'_def by (rule blocked_count_upd_le [OF Cons.prems(1)])
  have IH: "n \<in> set ns \<Longrightarrow> blocked_count ns s' < blocked_count ns states"
    unfolding s'_def by (rule Cons.IH [OF Cons.prems(1) _ Cons.prems(3)])
  have "s' (node_id n) \<noteq> Some BLOCKED" "node_id a \<noteq> node_id n \<Longrightarrow> s' (node_id a) = states (node_id a)"
    using Cons.prems(1) by (simp_all add: s'_def)
  then have "blocked_count (a # ns) s' < blocked_count (a # ns) states"
    using Cons.prems(2,3) le IH by (cases "node_id a = node_id n") (auto simp: blocked_count_Cons)
  then show ?case by (simp only: s'_def)
qed simp

text \<open>A pass never blocks a node, and one that reports a change unblocks at least one.\<close>

lemma refresh_pass_count:
  "set ns \<subseteq> set all \<Longrightarrow> refresh_pass ns states ch = (states', ch') \<Longrightarrow>
     blocked_count all states' \<le> blocked_count all states
     \<and> (ch' \<and> \<not> ch \<longrightarrow> blocked_count all states' < blocked_count all states)"
proof (induction ns arbitrary: states ch)
  case (Cons n ns)
  have step: "blocked_count all states' < blocked_count all states"
    if "states (node_id n) = Some BLOCKED" "st \<noteq> BLOCKED"
      "refresh_pass ns (states(node_id n \<mapsto> st)) True = (states', ch')" for st
  proof -
    have "blocked_count all (states(node_id n \<mapsto> st)) < blocked_count all states"
      using that(1,2) Cons.prems(1) by (intro blocked_count_upd_less) auto
    moreover have "blocked_count all states' \<le> blocked_count all (states(node_id n \<mapsto> st))"
      using Cons.prems(1) by (intro Cons.IH [OF _ that(3), THEN conjunct1]) simp
    ultimately show ?thesis by (rule le_less_trans [rotated])
  qed
  show ?case
  proof (cases "refresh_pass ns states ch = (states', ch')")
    case True
    then show ?thesis using Cons.IH [OF _ True] Cons.prems(1) by simp
  next
    case False
    then have "blocked_count all states' < blocked_count all states"
      using Cons.prems(2) step [of SKIPPED] step [of READY] by (simp split: if_splits)
    then show ?thesis by simp
  qed
qed auto

function refresh :: "GraphNode list \<Rightarrow> node_map \<Rightarrow> node_map" where
  "refresh ns states =
     (let (states', changed) = refresh_pass ns states False
      in if changed then refresh ns states' else states')"
  by pat_completeness auto
termination
proof (relation "measure (\<lambda>(ns, states). blocked_count ns states)", goal_cases)
  case (2 ns states p states' changed)
  then have "refresh_pass ns states False = (states', True)" by simp
  with refresh_pass_count [of ns ns states False states' True] show ?case by simp
qed simp

declare refresh.simps [simp del]

definition node_entry :: "node_map \<Rightarrow> GraphNode \<Rightarrow> exn + (string \<times> NodeState)" where
  "node_entry states n = (case states (node_id n) of
     None \<Rightarrow> Inl (KeyError (node_id n)) | Some st \<Rightarrow> Inr (node_id n, st))"

definition transition :: "GraphState \<Rightarrow> string \<Rightarrow> NodeState \<Rightarrow> exn + GraphState" where
  "transition s i target =
     bind_r (state_of s i) (\<lambda>current.
     if target \<notin> ALLOWED_TRANSITIONS current
     then Inl (ValueError (''Illegal graph node transition: '' @ NodeState_value current
                 @ '' -> '' @ NodeState_value target))
     else let states = (map_of (node_states s))(i \<mapsto> target);
              states' = (if target \<in> TERMINAL_NODE_STATES
                         then refresh (graph_nodes (gs_graph s)) states else states)
          in bind_r (traverse (node_entry states') (graph_nodes (gs_graph s)))
               (GraphState_init (gs_graph s)))"

end
