(* ===== verification/GraphProps.thy ===== *)
theory GraphProps
  imports Graph
begin

text \<open>
  What makes the scheduler of \<open>graph.py\<close> correct: the elimination loop accepts exactly the
  well-founded dependency relations, the cascade keeps every clause of a well-formed state, so
  that a legal transition never fails its own construction checks, a state that is not terminal
  always has a node to work on, and every run of transitions is bounded.
\<close>

section \<open>The acyclicity check\<close>

definition edges :: "(string \<Rightarrow> string list) \<Rightarrow> string set \<Rightarrow> (string \<times> string) set" where
  "edges deps R = {(d, i). i \<in> R \<and> d \<in> R \<and> d \<in> set (deps i)}"

lemma set_eliminable:
  "set (eliminable deps R) = {i \<in> set R. \<forall>d \<in> set (deps i). d \<notin> set R}"
  by (auto simp: eliminable_def list_ex_iff)

lemma eliminable_nonempty:
  assumes "wf (edges deps (set R))" and "R \<noteq> []"
  shows "eliminable deps R \<noteq> []"
proof -
  obtain i where "i \<in> set R" and "\<And>d. (d, i) \<in> edges deps (set R) \<Longrightarrow> d \<notin> set R"
    using wfE_min [OF assms(1), of "hd R" "set R"] assms(2) by auto
  then have "i \<in> set (eliminable deps R)"
    unfolding set_eliminable edges_def by blast
  then show ?thesis by (cases "eliminable deps R") simp_all
qed

lemma edges_wf_add_eliminable:
  assumes wf: "wf (edges deps (set R - set (eliminable deps R)))"
  shows "wf (edges deps (set R))"
proof (rule wfI_min)
  fix x :: string and Q
  assume "x \<in> Q"
  let ?E = "set (eliminable deps R)"
  consider (elim) z where "z \<in> Q" "z \<in> ?E" | (rest) z where "z \<in> Q" "z \<in> set R - ?E" "Q \<inter> ?E = {}"
    | (out) "Q \<inter> set R = {}"
    using set_eliminable [of deps R] by blast
  then show "\<exists>z\<in>Q. \<forall>y. (y, z) \<in> edges deps (set R) \<longrightarrow> y \<notin> Q"
  proof cases
    case elim
    then show ?thesis unfolding set_eliminable by (auto simp: edges_def)
  next
    case rest
    from wfE_min [OF wf, of z "Q \<inter> (set R - ?E)"] rest obtain m
      where "m \<in> Q \<inter> (set R - ?E)"
        and "\<And>y. (y, m) \<in> edges deps (set R - ?E) \<Longrightarrow> y \<notin> Q \<inter> (set R - ?E)" by blast
    then show ?thesis using rest(3) by (auto simp: edges_def)
  next
    case out
    then show ?thesis using \<open>x \<in> Q\<close> by (auto simp: edges_def)
  qed
qed

lemma eliminate_iff: "eliminate deps R = Inr () \<longleftrightarrow> wf (edges deps (set R))"
proof (induction deps R rule: eliminate.induct)
  case (1 deps R)
  let ?ready = "eliminable deps R"
  let ?rest = "filter (\<lambda>i. i \<notin> set ?ready) R"
  have rest: "set ?rest = set R - set ?ready" by auto
  show ?case
  proof (cases "R = [] \<or> ?ready = []")
    case True
    then show ?thesis
      using eliminable_nonempty [of deps R]
      by (auto simp: eliminate.simps [of deps R] edges_def Let_def)
  next
    case False
    then have "eliminate deps R = Inr () \<longleftrightarrow> wf (edges deps (set R - set ?ready))"
      using "1.IH" [OF _ refl] rest by (simp add: eliminate.simps [of deps R] Let_def)
    moreover have "wf (edges deps (set R)) \<Longrightarrow> wf (edges deps (set R - set ?ready))"
      by (erule wf_subset) (auto simp: edges_def)
    ultimately show ?thesis using edges_wf_add_eliminable by blast
  qed
qed

definition dependency_relation :: "WorkflowGraph \<Rightarrow> (string \<times> string) set" where
  "dependency_relation g = {(d, node_id n) | d n. n \<in> set (graph_nodes g) \<and> d \<in> set (depends_on n)}"

definition graph_ok :: "WorkflowGraph \<Rightarrow> bool" where
  "graph_ok g = (WorkflowGraph_post_init g = Inr ())"

lemma dependencies_node:
  assumes "distinct (identifiers g)" and "n \<in> set (graph_nodes g)"
  shows "dependencies g (node_id n) = depends_on n"
proof -
  have "map_of (map (\<lambda>n. (node_id n, depends_on n)) (graph_nodes g)) (node_id n) = Some (depends_on n)"
    using assms by (intro map_of_is_SomeI) (auto simp: identifiers_def comp_def)
  then show ?thesis by (simp add: dependencies_def)
qed

lemma edges_dependency_relation:
  assumes "distinct (identifiers g)"
    and "\<forall>n \<in> set (graph_nodes g). set (depends_on n) \<subseteq> set (identifiers g)"
  shows "edges (dependencies g) (set (identifiers g)) = dependency_relation g"
proof -
  have "(d, i) \<in> edges (dependencies g) (set (identifiers g)) \<longleftrightarrow>
      (\<exists>n \<in> set (graph_nodes g). i = node_id n \<and> d \<in> set (identifiers g) \<and> d \<in> set (depends_on n))"
    for d i
    using dependencies_node [OF assms(1)] by (auto simp: edges_def identifiers_def)
  moreover have "(d, i) \<in> dependency_relation g \<longleftrightarrow>
      (\<exists>n \<in> set (graph_nodes g). i = node_id n \<and> d \<in> set (depends_on n))" for d i
    by (auto simp: dependency_relation_def)
  ultimately show ?thesis using assms(2) by (intro set_eqI) (force split: prod.split)
qed

lemma graph_okD:
  assumes "graph_ok g"
  shows "distinct (identifiers g)" and "sorted (identifiers g)"
    and "1 \<le> length (graph_nodes g)" and "length (graph_nodes g) \<le> 100"
    and "\<And>n. n \<in> set (graph_nodes g) \<Longrightarrow> set (depends_on n) \<subseteq> set (identifiers g)"
    and "\<And>n. n \<in> set (graph_nodes g) \<Longrightarrow> node_id n \<notin> set (depends_on n)"
proof -
  have all: "1 \<le> int (length (graph_nodes g)) \<and> int (length (graph_nodes g)) \<le> 100"
      "distinct (identifiers g)" "sort (identifiers g) = identifiers g"
      "\<forall>n \<in> set (graph_nodes g). check_edges (identifiers g) n = Inr ()"
    using assms
    by (simp_all add: graph_ok_def WorkflowGraph_post_init_def bind_r_eq_Inr each_eq_Inr
        MAX_GRAPH_NODES_def)
  show "distinct (identifiers g)" by (fact all(2))
  show "sorted (identifiers g)" by (subst all(3) [symmetric]) (rule sorted_sort)
  show "1 \<le> length (graph_nodes g)" and "length (graph_nodes g) \<le> 100" using all(1) by linarith+
  show "set (depends_on n) \<subseteq> set (identifiers g)" and "node_id n \<notin> set (depends_on n)"
    if "n \<in> set (graph_nodes g)" for n
    using all(4) that by (auto simp: check_edges_def bind_r_eq_Inr list_all_iff)
qed

lemma graph_ok_wf: "graph_ok g \<Longrightarrow> wf (dependency_relation g)"
proof -
  assume ok: "graph_ok g"
  then have "require_acyclic g = Inr ()"
    by (simp add: graph_ok_def WorkflowGraph_post_init_def bind_r_eq_Inr)
  then show ?thesis
    using edges_dependency_relation [of g] graph_okD(1,5) [OF ok]
    by (simp add: require_acyclic_def eliminate_iff)
qed

section \<open>Well-formed states\<close>

definition scheduled :: "NodeState set" where
  "scheduled = {READY, RUNNING, AWAITING_VALIDATION, SUCCEEDED, FAILED, REJECTED, CANCELLED, UNCERTAIN}"

text \<open>The clauses for a node that is not blocked, and those for a blocked one.\<close>

definition sched_ok :: "node_map \<Rightarrow> GraphNode \<Rightarrow> bool" where
  "sched_ok states n \<longleftrightarrow> states (node_id n) \<noteq> None
     \<and> (\<forall>d \<in> set (depends_on n). states d \<noteq> None)
     \<and> (states (node_id n) \<in> Some ` scheduled \<longrightarrow>
          (\<forall>d \<in> set (depends_on n). states d = Some SUCCEEDED))
     \<and> (states (node_id n) = Some SKIPPED \<longrightarrow>
          (\<exists>d \<in> set (depends_on n). states d \<in> Some ` UNSUCCESSFUL_NODE_STATES))"

definition blocked_ok :: "node_map \<Rightarrow> GraphNode \<Rightarrow> bool" where
  "blocked_ok states n \<longleftrightarrow> (states (node_id n) = Some BLOCKED \<longrightarrow>
     \<not> (\<forall>d \<in> set (depends_on n). states d = Some SUCCEEDED)
     \<and> \<not> (\<exists>d \<in> set (depends_on n). states d \<in> Some ` UNSUCCESSFUL_NODE_STATES))"

lemma check_node_state_iff:
  "check_node_state states n = Inr () \<longleftrightarrow> sched_ok states n \<and> blocked_ok states n"
  by (auto simp: check_node_state_def sched_ok_def blocked_ok_def scheduled_def Let_def
      list_all_iff list_ex_iff)

definition state_ok :: "GraphState \<Rightarrow> bool" where
  "state_ok s \<longleftrightarrow> graph_ok (gs_graph s) \<and> GraphState_post_init s = Inr ()"

definition states_of :: "GraphState \<Rightarrow> node_map" where
  "states_of s = map_of (node_states s)"

lemma state_ok_iff:
  "state_ok s \<longleftrightarrow> graph_ok (gs_graph s) \<and> map fst (node_states s) = identifiers (gs_graph s)
     \<and> (\<forall>n \<in> set (graph_nodes (gs_graph s)). sched_ok (states_of s) n \<and> blocked_ok (states_of s) n)"
  by (auto simp: state_ok_def GraphState_post_init_def result_simps check_node_state_iff
      states_of_def)

lemma unsuccessful_iff:
  "st \<in> UNSUCCESSFUL_NODE_STATES \<longleftrightarrow> st = FAILED \<or> st = REJECTED \<or> st = CANCELLED \<or> st = SKIPPED"
  by (cases st) (auto simp: UNSUCCESSFUL_NODE_STATES_def TERMINAL_NODE_STATES_def)

lemma terminal_state_iff:
  "st \<in> TERMINAL_NODE_STATES \<longleftrightarrow> st = SUCCEEDED \<or> st \<in> UNSUCCESSFUL_NODE_STATES"
  by (auto simp: UNSUCCESSFUL_NODE_STATES_def TERMINAL_NODE_STATES_def)

lemma not_scheduled_iff: "st \<notin> scheduled \<longleftrightarrow> st = BLOCKED \<or> st = SKIPPED"
  by (cases st) (auto simp: scheduled_def)

section \<open>The cascade\<close>

text \<open>The cascade writes blocked nodes only, with \<open>READY\<close> or \<open>SKIPPED\<close>.\<close>

definition cascades :: "node_map \<Rightarrow> node_map \<Rightarrow> bool" where
  "cascades states states' \<longleftrightarrow> (\<forall>i. states' i = states i \<or>
     states i = Some BLOCKED \<and> (states' i = Some READY \<or> states' i = Some SKIPPED))"

lemma cascades_refl [simp]: "cascades states states"
  by (simp add: cascades_def)

lemma cascades_trans: "cascades s1 s2 \<Longrightarrow> cascades s2 s3 \<Longrightarrow> cascades s1 s3"
  unfolding cascades_def by (metis NodeState.distinct(1) NodeState.distinct(17) option.inject)

lemma cascades_upd:
  "states i = Some BLOCKED \<Longrightarrow> st = READY \<or> st = SKIPPED \<Longrightarrow> cascades states (states(i \<mapsto> st))"
  by (auto simp: cascades_def)

lemma sched_okD:
  assumes "sched_ok states n"
  shows "states (node_id n) \<noteq> None" and "\<And>d. d \<in> set (depends_on n) \<Longrightarrow> states d \<noteq> None"
    and "\<And>d. states (node_id n) \<in> Some ` scheduled \<Longrightarrow> d \<in> set (depends_on n) \<Longrightarrow>
           states d = Some SUCCEEDED"
    and "states (node_id n) = Some SKIPPED \<Longrightarrow>
           \<exists>d \<in> set (depends_on n). states d \<in> Some ` UNSUCCESSFUL_NODE_STATES"
  using assms unfolding sched_ok_def by blast+

lemma sched_okI_scheduled:
  assumes "states (node_id n) = Some st" and "st \<noteq> SKIPPED"
    and "\<forall>d \<in> set (depends_on n). states d = Some SUCCEEDED"
  shows "sched_ok states n"
  using assms unfolding sched_ok_def by simp

lemma sched_ok_unblock:
  assumes m: "sched_ok states m" and i: "states i = Some cur" "cur \<notin> TERMINAL_NODE_STATES"
    and ne: "node_id m \<noteq> i"
  shows "sched_ok (states(i \<mapsto> st)) m"
  unfolding sched_ok_def
proof (intro conjI impI)
  show "(states(i \<mapsto> st)) (node_id m) \<noteq> None"
    using sched_okD(1) [OF m] ne by simp
  show "\<forall>d \<in> set (depends_on m). (states(i \<mapsto> st)) d \<noteq> None"
    using sched_okD(2) [OF m] by simp
next
  assume "(states(i \<mapsto> st)) (node_id m) \<in> Some ` scheduled"
  then have "states (node_id m) \<in> Some ` scheduled" using ne by simp
  then have "\<forall>d \<in> set (depends_on m). states d = Some SUCCEEDED"
    using sched_okD(3) [OF m] by blast
  then show "\<forall>d \<in> set (depends_on m). (states(i \<mapsto> st)) d = Some SUCCEEDED"
    using i by (metis fun_upd_other option.inject terminal_state_iff)
next
  assume "(states(i \<mapsto> st)) (node_id m) = Some SKIPPED"
  then have "states (node_id m) = Some SKIPPED" using ne by simp
  then obtain d where "d \<in> set (depends_on m)" "states d \<in> Some ` UNSUCCESSFUL_NODE_STATES"
    using sched_okD(4) [OF m] by blast
  then show "\<exists>d \<in> set (depends_on m). (states(i \<mapsto> st)) d \<in> Some ` UNSUCCESSFUL_NODE_STATES"
    using i by (intro bexI [of _ d]) (auto simp: terminal_state_iff)
qed

lemma refresh_pass_keeps:
  assumes "refresh_pass ns states ch = (states', ch')" and "set ns \<subseteq> set all"
    and "\<forall>n \<in> set all. sched_ok states n"
    and "\<forall>n \<in> set all. \<forall>m \<in> set all. node_id n = node_id m \<longrightarrow> n = m"
    and "\<forall>n \<in> set all. node_id n \<notin> set (depends_on n)"
  shows "(\<forall>n \<in> set all. sched_ok states' n) \<and> cascades states states'"
  using assms(1,2,3)
proof (induction ns arbitrary: states ch)
  case (Cons n ns)
  have upd: "(\<forall>m \<in> set all. sched_ok states' m) \<and> cascades states states'"
    if b: "states (node_id n) = Some BLOCKED" and st: "st = READY \<or> st = SKIPPED"
      and new: "sched_ok (states(node_id n \<mapsto> st)) n"
      and rec: "refresh_pass ns (states(node_id n \<mapsto> st)) True = (states', ch')" for st
  proof -
    have "sched_ok (states(node_id n \<mapsto> st)) m" if "m \<in> set all" for m
      using sched_ok_unblock [of states m "node_id n" BLOCKED st] b new that Cons.prems assms(4)
      by (cases "node_id m = node_id n") (auto simp: TERMINAL_NODE_STATES_def)
    then have "(\<forall>m \<in> set all. sched_ok states' m) \<and> cascades (states(node_id n \<mapsto> st)) states'"
      using Cons.prems(2) by (intro Cons.IH [OF rec] ballI) (simp, assumption)
    then show ?thesis using cascades_upd [of states "node_id n" st] b st cascades_trans by blast
  qed
  have nb: "node_id n \<notin> set (depends_on n)" and ok: "sched_ok states n"
    using Cons.prems(2,3) assms(5) by auto
  show ?case
  proof (cases "refresh_pass ns states ch = (states', ch')")
    case True
    then show ?thesis using Cons.IH [OF True] Cons.prems(2,3) by simp
  next
    case False
    then consider
      (skip) "states (node_id n) = Some BLOCKED"
        "\<exists>d \<in> set (depends_on n). states d \<in> Some ` UNSUCCESSFUL_NODE_STATES"
        "refresh_pass ns (states(node_id n \<mapsto> SKIPPED)) True = (states', ch')"
      | (ready) "states (node_id n) = Some BLOCKED"
        "\<forall>d \<in> set (depends_on n). states d = Some SUCCEEDED"
        "refresh_pass ns (states(node_id n \<mapsto> READY)) True = (states', ch')"
      using Cons.prems(1) by (auto simp: list_ex_iff list_all_iff split: if_splits)
    then show ?thesis
    proof cases
      case skip
      then have "sched_ok (states(node_id n \<mapsto> SKIPPED)) n"
        using nb ok unfolding sched_ok_def scheduled_def
        by (auto; metis image_eqI option.inject)
      with upd skip show ?thesis by blast
    next
      case ready
      then have "sched_ok (states(node_id n \<mapsto> READY)) n"
        using nb ok by (auto simp: sched_ok_def)
      with upd ready show ?thesis by blast
    qed
  qed
qed auto

lemma refresh_pass_changed: "snd (refresh_pass ns states True)"
  by (induction ns arbitrary: states) auto

lemma refresh_pass_stable:
  assumes "refresh_pass ns states False = (states', False)"
  shows "states' = states \<and> (\<forall>n \<in> set ns. blocked_ok states n)"
  using assms
proof (induction ns)
  case (Cons n ns)
  have "refresh_pass ns (states(node_id n \<mapsto> st)) True \<noteq> (states', False)" for st
    using refresh_pass_changed [of ns "states(node_id n \<mapsto> st)"] by auto
  then show ?case
    using Cons by (auto simp: blocked_ok_def list_ex_iff list_all_iff split: if_splits)
qed simp

lemma refresh_correct:
  assumes "\<forall>n \<in> set ns. sched_ok states n"
    and "\<forall>n \<in> set ns. \<forall>m \<in> set ns. node_id n = node_id m \<longrightarrow> n = m"
    and "\<forall>n \<in> set ns. node_id n \<notin> set (depends_on n)"
  shows "(\<forall>n \<in> set ns. sched_ok (refresh ns states) n \<and> blocked_ok (refresh ns states) n)
     \<and> cascades states (refresh ns states)"
  using assms
proof (induction ns states rule: refresh.induct)
  case (1 ns states)
  obtain states' ch where p: "refresh_pass ns states False = (states', ch)" by force
  note keeps = refresh_pass_keeps [OF p subset_refl "1.prems"]
  show ?case
  proof (cases ch)
    case True
    then have "refresh ns states = refresh ns states'"
      using p by (simp add: refresh.simps [of ns states])
    then show ?thesis
      using "1.IH" [OF p [symmetric] refl True] keeps "1.prems"(2,3) cascades_trans by auto
  next
    case False
    then show ?thesis
      using p keeps refresh_pass_stable [of ns states states'] by (simp add: refresh.simps [of ns states])
  qed
qed

section \<open>Transitions\<close>

text \<open>The node states a transition computes before it builds the new state.\<close>

definition after :: "GraphState \<Rightarrow> string \<Rightarrow> NodeState \<Rightarrow> node_map" where
  "after s i target =
     (let states = (states_of s)(i \<mapsto> target)
      in if target \<in> TERMINAL_NODE_STATES then refresh (graph_nodes (gs_graph s)) states else states)"

lemma allowed_current:
  "target \<in> ALLOWED_TRANSITIONS cur \<Longrightarrow>
     cur \<in> scheduled \<and> cur \<notin> TERMINAL_NODE_STATES \<and> target \<in> scheduled \<and> target \<noteq> cur \<and> target \<noteq> READY"
  by (cases cur) (auto simp: scheduled_def TERMINAL_NODE_STATES_def)

lemma state_ok_nodes:
  assumes "state_ok s"
  shows "\<forall>n \<in> set (graph_nodes (gs_graph s)). \<forall>m \<in> set (graph_nodes (gs_graph s)).
            node_id n = node_id m \<longrightarrow> n = m"
    and "\<forall>n \<in> set (graph_nodes (gs_graph s)). node_id n \<notin> set (depends_on n)"
    and "\<forall>n \<in> set (graph_nodes (gs_graph s)). sched_ok (states_of s) n"
    and "\<forall>n \<in> set (graph_nodes (gs_graph s)). blocked_ok (states_of s) n"
    and "dom (states_of s) = set (identifiers (gs_graph s))"
proof -
  from assms have g: "graph_ok (gs_graph s)" by (simp add: state_ok_def)
  show "\<forall>n \<in> set (graph_nodes (gs_graph s)). \<forall>m \<in> set (graph_nodes (gs_graph s)).
            node_id n = node_id m \<longrightarrow> n = m"
    using graph_okD(1) [OF g] by (auto simp: identifiers_def intro: distinct_map_eq)
  show "\<forall>n \<in> set (graph_nodes (gs_graph s)). node_id n \<notin> set (depends_on n)"
    using graph_okD(6) [OF g] by blast
  show "\<forall>n \<in> set (graph_nodes (gs_graph s)). sched_ok (states_of s) n"
    and "\<forall>n \<in> set (graph_nodes (gs_graph s)). blocked_ok (states_of s) n"
    using assms by (simp_all add: state_ok_iff)
  show "dom (states_of s) = set (identifiers (gs_graph s))"
    using assms by (simp add: state_ok_iff states_of_def dom_map_of_conv_image_fst flip: list.set_map)
qed

lemma node_of_state:
  assumes "state_ok s" and "states_of s i = Some cur"
  obtains n where "n \<in> set (graph_nodes (gs_graph s))" and "node_id n = i"
proof -
  have "i \<in> node_id ` set (graph_nodes (gs_graph s))"
    using state_ok_nodes(5) [OF assms(1)] domI [of "states_of s" i cur] assms(2)
    by (simp add: identifiers_def)
  then show ?thesis using that by blast
qed

lemma blocked_ok_step:
  assumes "blocked_ok states m" and "states i = Some cur" "cur \<notin> TERMINAL_NODE_STATES"
    and "target \<notin> TERMINAL_NODE_STATES" "target \<noteq> BLOCKED"
  shows "blocked_ok (states(i \<mapsto> target)) m"
  unfolding blocked_ok_def
proof
  assume b: "(states(i \<mapsto> target)) (node_id m) = Some BLOCKED"
  then have "states (node_id m) = Some BLOCKED" using assms(5) by (auto split: if_splits)
  then have n1: "\<not> (\<forall>d \<in> set (depends_on m). states d = Some SUCCEEDED)"
    and n2: "\<not> (\<exists>d \<in> set (depends_on m). states d \<in> Some ` UNSUCCESSFUL_NODE_STATES)"
    using assms(1) by (simp_all add: blocked_ok_def)
  have "\<not> (\<forall>d \<in> set (depends_on m). (states(i \<mapsto> target)) d = Some SUCCEEDED)"
    using n1 assms(4) by (auto simp: terminal_state_iff split: if_splits)
  moreover have "\<not> (\<exists>d \<in> set (depends_on m). (states(i \<mapsto> target)) d \<in> Some ` UNSUCCESSFUL_NODE_STATES)"
    using n2 assms(4) by (auto simp: terminal_state_iff split: if_splits)
  ultimately show "\<not> (\<forall>d \<in> set (depends_on m). (states(i \<mapsto> target)) d = Some SUCCEEDED) \<and>
     \<not> (\<exists>d \<in> set (depends_on m). (states(i \<mapsto> target)) d \<in> Some ` UNSUCCESSFUL_NODE_STATES)" by blast
qed

lemma sched_ok_step:
  assumes ok: "state_ok s" and cur: "states_of s i = Some cur"
    and t: "target \<in> ALLOWED_TRANSITIONS cur" and m: "m \<in> set (graph_nodes (gs_graph s))"
  shows "sched_ok ((states_of s)(i \<mapsto> target)) m"
proof (cases "node_id m = i")
  case True
  have S: "sched_ok (states_of s) m" and nd: "node_id m \<notin> set (depends_on m)"
    using state_ok_nodes(2,3) [OF ok] m by auto
  have "(states_of s) (node_id m) \<in> Some ` scheduled"
    using True cur allowed_current [OF t] by auto
  then have "\<And>d. d \<in> set (depends_on m) \<Longrightarrow> states_of s d = Some SUCCEEDED"
    using sched_okD(3) [OF S] by blast
  then have deps: "\<forall>d \<in> set (depends_on m). ((states_of s)(i \<mapsto> target)) d = Some SUCCEEDED"
    using nd True by (metis fun_upd_other)
  moreover have "target \<noteq> SKIPPED" using allowed_current [OF t] by (auto simp: scheduled_def)
  ultimately show ?thesis using True by (intro sched_okI_scheduled) simp_all
next
  case False
  have "sched_ok (states_of s) m" using state_ok_nodes(3) [OF ok] m by blast
  then show ?thesis using sched_ok_unblock False cur allowed_current [OF t] by blast
qed

lemma after_ok:
  assumes ok: "state_ok s" and cur: "states_of s i = Some cur"
    and t: "target \<in> ALLOWED_TRANSITIONS cur"
  shows "\<forall>n \<in> set (graph_nodes (gs_graph s)). sched_ok (after s i target) n \<and> blocked_ok (after s i target) n"
    and "cascades ((states_of s)(i \<mapsto> target)) (after s i target)"
proof -
  let ?ns = "graph_nodes (gs_graph s)" and ?m = "(states_of s)(i \<mapsto> target)"
  have S: "\<forall>n \<in> set ?ns. sched_ok ?m n" using sched_ok_step [OF ok cur t] by blast
  have "(\<forall>n \<in> set ?ns. sched_ok (after s i target) n \<and> blocked_ok (after s i target) n)
      \<and> cascades ?m (after s i target)"
  proof (cases "target \<in> TERMINAL_NODE_STATES")
    case True
    then have e: "after s i target = refresh ?ns ?m" by (simp add: after_def Let_def)
    show ?thesis unfolding e by (rule refresh_correct [OF S state_ok_nodes(1,2) [OF ok]])
  next
    case False
    then have e: "after s i target = ?m" by (simp add: after_def Let_def)
    have "\<forall>n \<in> set ?ns. blocked_ok ?m n"
      using state_ok_nodes(4) [OF ok] allowed_current [OF t] False cur
      by (auto intro!: blocked_ok_step simp: scheduled_def)
    with S show ?thesis unfolding e by simp
  qed
  then show "\<forall>n \<in> set ?ns. sched_ok (after s i target) n \<and> blocked_ok (after s i target) n"
    and "cascades ?m (after s i target)" by blast+
qed

lemma cascades_dom: "cascades a b \<Longrightarrow> dom b = dom a"
  unfolding cascades_def dom_def by (metis (mono_tags, lifting) option.distinct(1))

lemma map_of_entries:
  assumes "dom f = node_id ` set ns"
  shows "map_of (map (\<lambda>n. (node_id n, the (f (node_id n)))) ns) = f"
proof
  fix j
  show "map_of (map (\<lambda>n. (node_id n, the (f (node_id n)))) ns) j = f j"
  proof (cases "j \<in> node_id ` set ns")
    case True
    have "map_of (map (\<lambda>n. (node_id n, the (f (node_id n)))) ns) j = Some (the (f j))"
      using True by (induction ns) auto
    moreover have "f j = Some (the (f j))"
      using True assms by (metis domIff option.collapse)
    ultimately show ?thesis by simp
  next
    case False
    then have "f j = None" using assms by blast
    moreover have "map_of (map (\<lambda>n. (node_id n, the (f (node_id n)))) ns) j = None"
      using False by (induction ns) auto
    ultimately show ?thesis by simp
  qed
qed

lemma transition_ok:
  assumes ok: "state_ok s" and cur: "states_of s i = Some cur"
    and t: "target \<in> ALLOWED_TRANSITIONS cur"
  shows "\<exists>s'. transition s i target = Inr s' \<and> state_ok s' \<and> gs_graph s' = gs_graph s
           \<and> states_of s' = after s i target"
proof -
  let ?ns = "graph_nodes (gs_graph s)" and ?f = "after s i target"
  let ?s = "\<lparr>gs_graph = gs_graph s, node_states = map (\<lambda>n. (node_id n, the (?f (node_id n)))) ?ns\<rparr>"
  have "i \<in> dom (states_of s)" using cur by blast
  then have dom: "dom ?f = node_id ` set ?ns"
    using cascades_dom [OF after_ok(2) [OF ok cur t]] state_ok_nodes(5) [OF ok]
    by (auto simp: identifiers_def)
  have entries: "traverse (node_entry ?f) ?ns = Inr (node_states ?s)"
  proof (simp, rule traverse_map)
    fix n assume "n \<in> set ?ns"
    then have "node_id n \<in> dom ?f" using dom by blast
    then show "node_entry ?f n = Inr (node_id n, the (?f (node_id n)))"
      by (auto simp: node_entry_def)
  qed
  have st: "states_of ?s = ?f" using map_of_entries [OF dom] by (simp add: states_of_def)
  have ok': "state_ok ?s"
    using ok after_ok(1) [OF ok cur t] st
    unfolding state_ok_iff [of ?s] by (simp add: state_ok_def identifiers_def)
  have "state_of s i = Inr cur" using cur by (simp add: state_of_def states_of_def)
  then have "transition s i target = bind_r (traverse (node_entry ?f) ?ns) (GraphState_init (gs_graph s))"
    using t by (simp add: transition_def after_def Let_def states_of_def)
  also have "\<dots> = Inr ?s"
    using entries ok' by (simp add: GraphState_init_def Let_def state_ok_def)
  finally show ?thesis using ok' st by auto
qed

lemma transition_illegal:
  "state_of s i = Inr cur \<Longrightarrow> target \<notin> ALLOWED_TRANSITIONS cur \<Longrightarrow> \<exists>m. transition s i target = Inl (ValueError m)"
  by (simp add: transition_def)

lemma transitionD:
  assumes "state_ok s" and "transition s i target = Inr s'"
  shows "\<exists>cur. states_of s i = Some cur \<and> target \<in> ALLOWED_TRANSITIONS cur \<and> state_ok s'
           \<and> gs_graph s' = gs_graph s \<and> states_of s' = after s i target"
proof -
  from assms(2) obtain cur where cur: "state_of s i = Inr cur" and t: "target \<in> ALLOWED_TRANSITIONS cur"
    by (auto simp: transition_def bind_r_eq_Inr split: if_splits)
  then have "states_of s i = Some cur"
    by (auto simp: state_of_def states_of_def split: option.splits)
  with transition_ok [OF assms(1) this t] assms(2) t show ?thesis by auto
qed

lemma after_target:
  assumes "state_ok s" and "states_of s i = Some cur" and "target \<in> ALLOWED_TRANSITIONS cur"
  shows "after s i target i = Some target"
    and "j \<noteq> i \<Longrightarrow> after s i target j = states_of s j \<or>
           states_of s j = Some BLOCKED \<and> after s i target j \<in> {Some READY, Some SKIPPED}"
  using after_ok(2) [OF assms] allowed_current [OF assms(3)]
  unfolding cascades_def scheduled_def by (auto split: if_splits)

lemma initial_state_ok:
  assumes "graph_ok g"
  shows "\<exists>s. initial_state g = Inr s \<and> state_ok s \<and> gs_graph s = g"
proof -
  let ?f = "\<lambda>n. if depends_on n \<noteq> [] then BLOCKED else READY"
  let ?s = "\<lparr>gs_graph = g, node_states = map (\<lambda>n. (node_id n, ?f n)) (graph_nodes g)\<rparr>"
  have look: "states_of ?s (node_id n) = Some (?f n)" if "n \<in> set (graph_nodes g)" for n
    using that graph_okD(1) [OF assms]
    by (auto simp: states_of_def identifiers_def comp_def intro!: map_of_is_SomeI)
  have dep: "states_of ?s d = Some BLOCKED \<or> states_of ?s d = Some READY"
    if "n \<in> set (graph_nodes g)" "d \<in> set (depends_on n)" for n d
    using graph_okD(5) [OF assms that(1)] that(2) look by (fastforce simp: identifiers_def)
  have "sched_ok (states_of ?s) n \<and> blocked_ok (states_of ?s) n" if "n \<in> set (graph_nodes g)" for n
  proof (cases "depends_on n")
    case Nil
    then show ?thesis using look [OF that] by (simp add: sched_ok_def blocked_ok_def)
  next
    case (Cons d ds)
    have st: "states_of ?s (node_id n) = Some BLOCKED" using look [OF that] Cons by simp
    have "states_of ?s d \<noteq> Some SUCCEEDED" "d \<in> set (depends_on n)"
      using dep [OF that, of d] Cons by auto
    moreover have "states_of ?s e \<notin> Some ` UNSUCCESSFUL_NODE_STATES" "states_of ?s e \<noteq> None"
      if "e \<in> set (depends_on n)" for e
      using dep [OF \<open>n \<in> set (graph_nodes g)\<close> that] by (auto simp: unsuccessful_iff)
    ultimately show ?thesis
      unfolding sched_ok_def blocked_ok_def st by (auto simp: scheduled_def)
  qed
  then have "state_ok ?s" using assms by (simp add: state_ok_iff identifiers_def comp_def)
  then show ?thesis by (auto simp: initial_state_def GraphState_init_def Let_def state_ok_def)
qed

section \<open>Progress and termination\<close>

lemma not_terminal_has_work:
  assumes ok: "state_ok s" and nt: "\<not> terminal s"
  shows "\<exists>i. states_of s i \<in> {Some READY, Some RUNNING, Some AWAITING_VALIDATION, Some UNCERTAIN}"
proof (rule ccontr)
  assume none: "\<not> ?thesis"
  let ?B = "{i. states_of s i = Some BLOCKED}"
  have cases: "states_of s i = None \<or> states_of s i = Some BLOCKED \<or>
      states_of s i \<in> Some ` TERMINAL_NODE_STATES" for i
  proof (cases "states_of s i")
    case (Some st)
    then show ?thesis using none by (cases st) (auto simp: TERMINAL_NODE_STATES_def)
  qed simp
  have "\<exists>i. states_of s i \<noteq> None \<and> states_of s i \<notin> Some ` TERMINAL_NODE_STATES"
  proof -
    obtain i st where e: "(i, st) \<in> set (node_states s)" "st \<notin> TERMINAL_NODE_STATES"
      using nt by (auto simp: terminal_def list_all_iff)
    have "distinct (map fst (node_states s))"
      using ok graph_okD(1) by (simp add: state_ok_iff)
    then have "states_of s i = Some st" using e by (simp add: states_of_def)
    then show ?thesis using e(2) by auto
  qed
  then obtain b where "b \<in> ?B" using cases by (metis mem_Collect_eq)
  moreover have "wf (dependency_relation (gs_graph s))"
    using ok graph_ok_wf by (simp add: state_ok_def)
  ultimately obtain i where i: "i \<in> ?B"
    and min: "\<And>d. (d, i) \<in> dependency_relation (gs_graph s) \<Longrightarrow> d \<notin> ?B"
    using wfE_min by metis
  obtain n where n: "n \<in> set (graph_nodes (gs_graph s))" "node_id n = i"
    using node_of_state [OF ok] i by blast
  have "blocked_ok (states_of s) n" "sched_ok (states_of s) n"
    using n state_ok_nodes(3,4) [OF ok] by blast+
  moreover have "\<And>d. d \<in> set (depends_on n) \<Longrightarrow> states_of s d \<noteq> Some BLOCKED"
    using min n by (auto simp: dependency_relation_def)
  ultimately have fin: "states_of s d \<in> Some ` TERMINAL_NODE_STATES" if "d \<in> set (depends_on n)" for d
    using cases [of d] sched_okD(2) that by blast
  have "\<not> (\<forall>d \<in> set (depends_on n). states_of s d = Some SUCCEEDED)"
    and no: "\<not> (\<exists>d \<in> set (depends_on n). states_of s d \<in> Some ` UNSUCCESSFUL_NODE_STATES)"
    using \<open>blocked_ok (states_of s) n\<close> i n(2) by (simp_all add: blocked_ok_def)
  then obtain d where "d \<in> set (depends_on n)" "states_of s d \<noteq> Some SUCCEEDED" by blast
  with fin [of d] no show False by (auto simp: terminal_state_iff)
qed

fun node_rank :: "NodeState option \<Rightarrow> nat" where
  "node_rank (Some BLOCKED) = 5"
| "node_rank (Some READY) = 4"
| "node_rank (Some RUNNING) = 3"
| "node_rank (Some UNCERTAIN) = 2"
| "node_rank (Some AWAITING_VALIDATION) = 1"
| "node_rank _ = 0"

definition graph_rank :: "GraphState \<Rightarrow> nat" where
  "graph_rank s = sum_list (map (\<lambda>n. node_rank (states_of s (node_id n))) (graph_nodes (gs_graph s)))"

lemma allowed_rank: "target \<in> ALLOWED_TRANSITIONS cur \<Longrightarrow> node_rank (Some target) < node_rank (Some cur)"
  by (cases cur) auto

lemma sum_list_less:
  fixes f g :: "'a \<Rightarrow> nat"
  shows "(\<And>x. x \<in> set xs \<Longrightarrow> f x \<le> g x) \<Longrightarrow> y \<in> set xs \<Longrightarrow> f y < g y \<Longrightarrow>
    sum_list (map f xs) < sum_list (map g xs)"
proof (induction xs)
  case (Cons a xs)
  have "sum_list (map f xs) \<le> sum_list (map g xs)"
    using Cons.prems(1) by (intro sum_list_mono) auto
  then show ?case
    using Cons by (cases "y = a") (auto simp: add_less_le_mono add_le_less_mono)
qed simp

lemma transition_rank:
  assumes "state_ok s" and "transition s i target = Inr s'"
  shows "graph_rank s' < graph_rank s"
proof -
  from transitionD [OF assms] obtain cur where cur: "states_of s i = Some cur"
    "target \<in> ALLOWED_TRANSITIONS cur" and s': "gs_graph s' = gs_graph s" "states_of s' = after s i target"
    by auto
  note a = after_target [OF assms(1) cur]
  obtain n where n: "n \<in> set (graph_nodes (gs_graph s))" "node_id n = i"
    using node_of_state [OF assms(1) cur(1)] .
  have "node_rank (states_of s' (node_id m)) \<le> node_rank (states_of s (node_id m))" for m
    using a allowed_rank [OF cur(2)] cur(1) s'(2) by (cases "node_id m = i") (auto, fastforce)
  moreover have "node_rank (states_of s' (node_id n)) < node_rank (states_of s (node_id n))"
    using a allowed_rank [OF cur(2)] cur(1) s'(2) n(2) by simp
  ultimately show ?thesis
    unfolding graph_rank_def s'(1) using n(1) by (intro sum_list_less) auto
qed

lemma graph_rank_bound: "graph_rank s \<le> 5 * length (graph_nodes (gs_graph s))"
proof -
  have "node_rank x \<le> 5" for x by (cases x rule: node_rank.cases) auto
  then have "sum_list (map (\<lambda>n. node_rank (states_of s (node_id n))) ns) \<le> 5 * length ns" for ns
    by (induction ns) (auto intro: add_mono)
  then show ?thesis by (simp add: graph_rank_def)
qed

text \<open>The scheduler as a machine: it starts in the initial state of an accepted graph, and a step
  is any transition the code accepts.\<close>

definition graph_init :: "GraphState \<Rightarrow> bool" where
  "graph_init s \<longleftrightarrow> (\<exists>g. graph_ok g \<and> initial_state g = Inr s)"

inductive graph_step :: "GraphState \<Rightarrow> GraphState \<Rightarrow> bool" where
  move: "transition s i target = Inr s' \<Longrightarrow> graph_step s s'"

inductive_cases graph_stepE: "graph_step s s'"

interpretation scheduler: ranked_machine graph_init graph_step state_ok graph_rank
proof unfold_locales
  show "state_ok s" if "graph_init s" for s
    using that initial_state_ok by (fastforce simp: graph_init_def)
  show "state_ok t" if "state_ok s" "graph_step s t" for s t
    using that transitionD by (auto elim!: graph_stepE)
  show "graph_rank t < graph_rank s" if "state_ok s" "graph_step s t" for s t
    using that transition_rank by (auto elim!: graph_stepE)
qed

end
