(* ===== verification/StoreSchema.thy ===== *)
theory StoreSchema
  imports GraphProps Validation
begin

text \<open>
  The tables of \<open>SQLiteWorkflowStore\<close> (\<open>src/backend/workflows/store.py\<close>), one record type per
  table, and what its operations share: transactions, identifier and clock checks, insertion
  under a primary key. Every operation is a function from the database to an exception or to the
  new database and the returned value; the exception stands for \<open>ROLLBACK\<close>. \<open>uuid4()\<close> is an
  argument, \<open>datetime.now(UTC)\<close> the argument \<open>clk\<close>. Timestamps are stored as instants.
\<close>

datatype workflow_state =
    Ready | Running | AwaitingValidation | Succeeded | Failed | Rejected | Cancelled | Uncertain

datatype event_state = State workflow_state | DispatchStarted | OutcomeRecorded

record workflow_row =
  wf_id :: string
  wf_tenant :: string
  wf_key :: string
  wf_request_hash :: string
  wf_packet :: string
  wf_state :: workflow_state
  wf_fence :: int
  wf_owner :: "string option"
  wf_lease_until :: "instant option"
  wf_result :: "string option"
  wf_result_artifact_id :: "string option"

record event_row =
  ev_workflow_id :: string
  ev_tenant :: string
  ev_state :: event_state
  ev_fence :: int

record artifact_row =
  wa_id :: string
  wa_workflow_id :: string
  wa_tenant :: string
  wa_schema_version :: int
  wa_sha256 :: string
  wa_size_bytes :: int
  wa_content_json :: string

record validation_row =
  va_workflow_id :: string
  va_tenant :: string
  va_report_json :: string

record dispatch_row =
  di_workflow_id :: string
  di_tenant :: string
  di_fence :: int
  di_budget_json :: string
  di_outcome_json :: "string option"
  di_outcome_sha256 :: "string option"
  di_succeeded :: "int option"

record binding_row =
  bi_workflow_id :: string
  bi_tenant :: string
  bi_binding_json :: string

record graph_row =
  gr_id :: string
  gr_tenant :: string
  gr_key :: string
  gr_request_hash :: string
  gr_graph_json :: string
  gr_binding_json :: "string option"

record node_row =
  nr_graph_id :: string
  nr_node_id :: string
  nr_tenant :: string
  nr_state :: NodeState
  nr_fence :: int
  nr_owner :: "string option"
  nr_lease_until :: "instant option"
  nr_result_artifact_id :: "string option"

record graph_event_row =
  ge_graph_id :: string
  ge_node_id :: string
  ge_tenant :: string
  ge_state :: NodeState

record graph_budget_row =
  gb_graph_id :: string
  gb_tenant :: string
  gb_deadline_at :: instant
  gb_max_attempts :: int
  gb_max_output_tokens :: "int option"
  gb_attempts :: int
  gb_output_tokens :: int

record graph_artifact_row =
  ga_id :: string
  ga_graph_id :: string
  ga_node_id :: string
  ga_tenant :: string
  ga_schema_version :: int
  ga_sha256 :: string
  ga_size_bytes :: int
  ga_content_json :: string
  ga_accepted :: bool
  ga_validation_json :: "string option"

record db =
  workflow_schema :: "int list"
  workflows :: "workflow_row list"
  workflow_events :: "event_row list"
  workflow_artifacts :: "artifact_row list"
  workflow_validations :: "validation_row list"
  workflow_dispatches :: "dispatch_row list"
  workflow_bindings :: "binding_row list"
  workflow_graphs :: "graph_row list"
  workflow_graph_nodes :: "node_row list"
  workflow_graph_events :: "graph_event_row list"
  workflow_graph_budgets :: "graph_budget_row list"
  workflow_graph_artifacts :: "graph_artifact_row list"

definition empty_db :: db where
  "empty_db = \<lparr>workflow_schema = [], workflows = [], workflow_events = [], workflow_artifacts = [],
     workflow_validations = [], workflow_dispatches = [], workflow_bindings = [],
     workflow_graphs = [], workflow_graph_nodes = [], workflow_graph_events = [],
     workflow_graph_budgets = [], workflow_graph_artifacts = []\<rparr>"

text \<open>\<open>_transaction\<close>: an exception rolls the database back and is raised again.\<close>

definition transaction :: "(db \<Rightarrow> exn + (db \<times> 'a)) \<Rightarrow> db \<Rightarrow> db \<times> (exn + 'a)" where
  "transaction body d = (case body d of
     Inl e \<Rightarrow> (d, Inl e) | Inr (d', x) \<Rightarrow> (d', Inr x))"

definition check_identifier :: "string \<Rightarrow> exn + unit" where
  "check_identifier value = require (identifier_ok value)
     (ValueError ''Identifiers must be nonempty without outer whitespace'')"

definition utc_now :: "instant \<Rightarrow> datetime option \<Rightarrow> exn + instant" where
  "utc_now clk now = (case now of
     None \<Rightarrow> Inr clk
   | Some d \<Rightarrow> bind_r (require (is_aware d) (ValueError ''Timezone required'')) (\<lambda>_. Inr (instant_of d)))"

text \<open>An insertion under a primary key fails when a row with the key is present.\<close>

definition insert_pk :: "('r \<Rightarrow> 'k) \<Rightarrow> 'r \<Rightarrow> 'r list \<Rightarrow> exn + 'r list" where
  "insert_pk key r rows =
     (if list_ex (\<lambda>x. key x = key r) rows then Inl (IntegrityError ''UNIQUE constraint failed'')
      else Inr (rows @ [r]))"

definition decode :: "pylib \<Rightarrow> string \<Rightarrow> exn + json" where
  "decode L text = (case loads L text of
     None \<Rightarrow> Inl (ValueError ''JSONDecodeError'') | Some v \<Rightarrow> Inr v)"

definition artifact_ref :: "pylib \<Rightarrow> string \<Rightarrow> string \<Rightarrow> string \<Rightarrow> ArtifactRef" where
  "artifact_ref L uuid workflow_id encoded =
     \<lparr>af_artifact_id = uuid, af_workflow_id = workflow_id, af_sha256 = sha256_hex L encoded,
      af_size_bytes = utf8_len encoded, af_schema_version = 1, af_media_type = ''application/json''\<rparr>"

lemma transaction_failed: "snd (transaction body d) = Inl e \<Longrightarrow> fst (transaction body d) = d"
  by (auto simp: transaction_def split: sum.splits prod.splits)

lemma insert_pk_eq_Inr [result_simps]:
  "insert_pk key r rows = Inr rows' \<longleftrightarrow> (\<forall>x \<in> set rows. key x \<noteq> key r) \<and> rows' = rows @ [r]"
  by (auto simp: insert_pk_def list_ex_iff)

lemma insert_pk_distinct:
  "insert_pk key r rows = Inr rows' \<Longrightarrow> distinct (map key rows) \<Longrightarrow> distinct (map key rows')"
  by (auto simp: insert_pk_eq_Inr)

lemma utc_now_None [simp]: "utc_now clk None = Inr clk"
  by (simp add: utc_now_def)

lemma utc_now_Aware [simp]: "utc_now clk (Some (Aware t)) = Inr t"
  by (simp add: utc_now_def)

end
