(* ===== verification/WorkflowStore.thy ===== *)
theory WorkflowStore
  imports StoreSchema
begin

text \<open>
  The single-task half of \<open>SQLiteWorkflowStore\<close>: creation under an idempotency key, fenced
  claims, the dispatch journal, completion, validation, cancellation and recovery.
\<close>

section \<open>Opening a store\<close>

definition event :: "string \<Rightarrow> string \<Rightarrow> event_state \<Rightarrow> int \<Rightarrow> db \<Rightarrow> db" where
  "event tenant workflow_id state fence d = d\<lparr>workflow_events := workflow_events d @
     [\<lparr>ev_workflow_id = workflow_id, ev_tenant = tenant, ev_state = state, ev_fence = fence\<rparr>]\<rparr>"

text \<open>\<open>__init__\<close> on tables that exist: the version check and, below version 3, the return of every
  unvalidated success to validation.\<close>

definition demote_legacy :: "workflow_row \<Rightarrow> db \<Rightarrow> db" where
  "demote_legacy row d = event (wf_tenant row) (wf_id row) (State AwaitingValidation) (wf_fence row)
     (d\<lparr>workflows := update_where (\<lambda>r. wf_id r = wf_id row)
                       (\<lambda>r. r\<lparr>wf_state := AwaitingValidation\<rparr>) (workflows d)\<rparr>)"

definition open_store :: "db \<Rightarrow> exn + db" where
  "open_store d =
     (let versions = workflow_schema d in
      if versions = [] then Inr (d\<lparr>workflow_schema := [8]\<rparr>)
      else if length versions \<noteq> 1 \<or> hd versions \<notin> {1, 2, 3, 4, 5, 6, 7, 8}
      then Inl (ValueError ''Unsupported workflow schema version'')
      else let legacy = (if hd versions < 3
                         then filter (\<lambda>r. wf_state r = Succeeded) (workflows d) else [])
           in Inr ((fold demote_legacy legacy d)\<lparr>workflow_schema := [8]\<rparr>))"

section \<open>Creation and reads\<close>

definition wf_key_is :: "string \<Rightarrow> string \<Rightarrow> workflow_row \<Rightarrow> bool" where
  "wf_key_is tenant key r = (wf_tenant r = tenant \<and> wf_key r = key)"

definition wf_is :: "string \<Rightarrow> string \<Rightarrow> workflow_row \<Rightarrow> bool" where
  "wf_is tenant workflow_id r = (wf_tenant r = tenant \<and> wf_id r = workflow_id)"

definition find_workflow :: "string \<Rightarrow> string \<Rightarrow> db \<Rightarrow> workflow_row option" where
  "find_workflow tenant workflow_id d = List.find (wf_is tenant workflow_id) (workflows d)"

definition request_digest :: "pylib \<Rightarrow> TaskPacket \<Rightarrow> json option \<Rightarrow> string" where
  "request_digest L packet binding = sha256_hex L
     (case binding of
        None \<Rightarrow> canonical_json L (to_dict L packet)
      | Some b \<Rightarrow> canonical_json L (JObj [(''packet'', to_dict L packet), (''binding'', sort_keys b)]))"

definition create ::
    "pylib \<Rightarrow> string \<Rightarrow> string \<Rightarrow> TaskPacket \<Rightarrow> json option \<Rightarrow> string \<Rightarrow> db \<Rightarrow> exn + (db \<times> string)" where
  "create L tenant key packet binding uuid d =
     bind_r (check_identifier tenant) (\<lambda>_.
     bind_r (check_identifier key) (\<lambda>_.
     bind_r (from_dict L (to_dict L packet)) (\<lambda>validated.
     let encoded = canonical_json L (to_dict L validated);
         digest = request_digest L validated binding
     in case List.find (wf_key_is tenant key) (workflows d) of
          Some row \<Rightarrow>
            if wf_request_hash row \<noteq> digest
            then Inl (WorkflowConflict ''Idempotency key conflicts with existing input'')
            else Inr (d, wf_id row)
        | None \<Rightarrow>
            bind_r (insert_pk wf_id
                \<lparr>wf_id = uuid, wf_tenant = tenant, wf_key = key, wf_request_hash = digest,
                 wf_packet = encoded, wf_state = Ready, wf_fence = 0, wf_owner = None,
                 wf_lease_until = None, wf_result = None, wf_result_artifact_id = None\<rparr>
                (workflows d)) (\<lambda>wfs.
            bind_r (case binding of
                None \<Rightarrow> Inr (workflow_bindings d)
              | Some b \<Rightarrow> insert_pk bi_workflow_id
                  \<lparr>bi_workflow_id = uuid, bi_tenant = tenant, bi_binding_json = canonical_json L b\<rparr>
                  (workflow_bindings d)) (\<lambda>bs.
            Inr (event tenant uuid (State Ready) 0
                   (d\<lparr>workflows := wfs, workflow_bindings := bs\<rparr>), uuid))))))"

definition get_binding :: "pylib \<Rightarrow> string \<Rightarrow> string \<Rightarrow> db \<Rightarrow> exn + json option" where
  "get_binding L tenant workflow_id d =
     (case List.find (\<lambda>b. bi_tenant b = tenant \<and> bi_workflow_id b = workflow_id) (workflow_bindings d) of
        None \<Rightarrow> Inr None
      | Some b \<Rightarrow> map_r Some (decode L (bi_binding_json b)))"

definition get_artifact ::
    "pylib \<Rightarrow> string \<Rightarrow> string \<Rightarrow> string option \<Rightarrow> db \<Rightarrow> exn + StoredArtifact option" where
  "get_artifact L tenant workflow_id aid d =
     (case List.find (\<lambda>a. wa_tenant a = tenant \<and> wa_workflow_id a = workflow_id
                          \<and> aid = Some (wa_id a)) (workflow_artifacts d) of
        None \<Rightarrow> Inr None
      | Some a \<Rightarrow> map_r Some (StoredArtifact_init L
          \<lparr>af_artifact_id = wa_id a, af_workflow_id = wa_workflow_id a, af_sha256 = wa_sha256 a,
           af_size_bytes = wa_size_bytes a, af_schema_version = wa_schema_version a,
           af_media_type = ''application/json''\<rparr> (wa_content_json a)))"

definition find_validation :: "string \<Rightarrow> string \<Rightarrow> db \<Rightarrow> validation_row option" where
  "find_validation tenant workflow_id d =
     List.find (\<lambda>v. va_tenant v = tenant \<and> va_workflow_id v = workflow_id) (workflow_validations d)"

record workflow_view =
  vw_row :: workflow_row
  vw_packet :: json
  vw_result :: "json option"
  vw_validation :: "json option"

definition get :: "pylib \<Rightarrow> string \<Rightarrow> string \<Rightarrow> db \<Rightarrow> exn + workflow_view option" where
  "get L tenant workflow_id d =
     (case find_workflow tenant workflow_id d of
        None \<Rightarrow> Inr None
      | Some row \<Rightarrow>
          bind_r (decode L (wf_packet row)) (\<lambda>packet.
          bind_r (case wf_result row of None \<Rightarrow> Inr None
                  | Some t \<Rightarrow> map_r Some (decode L t)) (\<lambda>result.
          bind_r (case wf_result_artifact_id row of
                    None \<Rightarrow> Inr result
                  | Some aid \<Rightarrow>
                      bind_r (get_artifact L tenant workflow_id (Some aid) d) (\<lambda>artifact.
                      case artifact of
                        None \<Rightarrow> Inl (ValueError ''Workflow result artifact is missing'')
                      | Some a \<Rightarrow> map_r Some (payload L a))) (\<lambda>result.
          bind_r (case find_validation tenant workflow_id d of
                    None \<Rightarrow> Inr None
                  | Some v \<Rightarrow> map_r Some (decode L (va_report_json v))) (\<lambda>report.
          Inr (Some \<lparr>vw_row = row, vw_packet = packet, vw_result = result,
                     vw_validation = report\<rparr>))))))"

definition get_packet :: "pylib \<Rightarrow> string \<Rightarrow> string \<Rightarrow> db \<Rightarrow> exn + TaskPacket option" where
  "get_packet L tenant workflow_id d =
     bind_r (get L tenant workflow_id d) (\<lambda>workflow.
     case workflow of None \<Rightarrow> Inr None | Some v \<Rightarrow> map_r Some (from_dict L (vw_packet v)))"

definition list_ready :: "int \<Rightarrow> db \<Rightarrow> exn + (string \<times> string) list" where
  "list_ready limit d =
     (if \<not> (1 \<le> limit \<and> limit \<le> 1000)
      then Inl (ValueError ''Ready workflow limit must be between 1 and 1000'')
      else Inr (map (\<lambda>r. (wf_tenant r, wf_id r))
                  (take (nat limit) (filter (\<lambda>r. wf_state r = Ready) (workflows d)))))"

definition events :: "string \<Rightarrow> string \<Rightarrow> db \<Rightarrow> (nat \<times> event_state \<times> int) list" where
  "events tenant workflow_id d =
     map (\<lambda>(i, e). (Suc i, ev_state e, ev_fence e))
       (filter (\<lambda>(i, e). ev_tenant e = tenant \<and> ev_workflow_id e = workflow_id)
          (enumerate 0 (workflow_events d)))"

section \<open>Claims and the dispatch journal\<close>

definition claim ::
    "pylib \<Rightarrow> string \<Rightarrow> string \<Rightarrow> string \<Rightarrow> int \<Rightarrow> instant \<Rightarrow> datetime option \<Rightarrow> db \<Rightarrow> exn + (db \<times> int)" where
  "claim L tenant workflow_id owner lease_seconds clk now d =
     bind_r (check_identifier owner) (\<lambda>_.
     bind_r (require (1 \<le> lease_seconds \<and> lease_seconds \<le> 3600)
       (ValueError ''Lease must be between 1 and 3600 seconds'')) (\<lambda>_.
     bind_r (utc_now clk now) (\<lambda>current.
     let expiry = current + seconds (of_int lease_seconds) in
     case find_workflow tenant workflow_id d of
       None \<Rightarrow> Inl (WorkflowConflict ''Workflow is not claimable'')
     | Some row \<Rightarrow>
         bind_r (require (wf_state row = Ready)
           (WorkflowConflict ''Workflow is not claimable'')) (\<lambda>_.
         bind_r (decode L (wf_packet row)) (\<lambda>packet.
         bind_r (from_dict L packet) (\<lambda>_.
         let fence = wf_fence row + 1 in
         Inr (event tenant workflow_id (State Running) fence
                (d\<lparr>workflows := update_where (wf_is tenant workflow_id)
                     (\<lambda>r. r\<lparr>wf_state := Running, wf_fence := fence, wf_owner := Some owner,
                            wf_lease_until := Some expiry\<rparr>) (workflows d)\<rparr>), fence)))))))"

definition require_lease ::
    "string \<Rightarrow> string \<Rightarrow> string \<Rightarrow> int \<Rightarrow> instant \<Rightarrow> datetime option \<Rightarrow> db \<Rightarrow> exn + unit" where
  "require_lease tenant workflow_id owner fence clk now d =
     (let stale = WorkflowConflict ''Stale or unauthorized workflow execution'' in
      case find_workflow tenant workflow_id d of
        None \<Rightarrow> Inl stale
      | Some row \<Rightarrow>
          if wf_state row \<noteq> Running \<or> wf_owner row \<noteq> Some owner \<or> wf_fence row \<noteq> fence
          then Inl stale
          else case wf_lease_until row of
                 None \<Rightarrow> Inl (TypeError ''fromisoformat: argument must be str'')
               | Some lease \<Rightarrow> bind_r (utc_now clk now) (\<lambda>current.
                   require (\<not> lease \<le> current) stale))"

definition find_dispatch :: "string \<Rightarrow> string \<Rightarrow> db \<Rightarrow> dispatch_row option" where
  "find_dispatch tenant workflow_id d =
     List.find (\<lambda>j. di_tenant j = tenant \<and> di_workflow_id j = workflow_id) (workflow_dispatches d)"

definition begin_dispatch ::
    "pylib \<Rightarrow> string \<Rightarrow> string \<Rightarrow> string \<Rightarrow> int \<Rightarrow> json \<Rightarrow> instant \<Rightarrow> datetime option \<Rightarrow> db \<Rightarrow>
       exn + (db \<times> unit)" where
  "begin_dispatch L tenant workflow_id owner fence budget clk now d =
     bind_r (require_lease tenant workflow_id owner fence clk now d) (\<lambda>_.
     bind_r (require (\<not> list_ex (\<lambda>j. di_workflow_id j = workflow_id) (workflow_dispatches d))
       (WorkflowConflict ''Workflow dispatch already recorded'')) (\<lambda>_.
     Inr (event tenant workflow_id DispatchStarted fence
            (d\<lparr>workflow_dispatches := workflow_dispatches d @
                [\<lparr>di_workflow_id = workflow_id, di_tenant = tenant, di_fence = fence,
                  di_budget_json = canonical_json L budget, di_outcome_json = None,
                  di_outcome_sha256 = None, di_succeeded = None\<rparr>]\<rparr>), ())))"

definition int_of_bool :: "bool \<Rightarrow> int" where
  "int_of_bool b = (if b then 1 else 0)"

definition record_outcome ::
    "pylib \<Rightarrow> string \<Rightarrow> string \<Rightarrow> string \<Rightarrow> int \<Rightarrow> json \<Rightarrow> bool \<Rightarrow> instant \<Rightarrow> datetime option \<Rightarrow> db \<Rightarrow>
       exn + (db \<times> unit)" where
  "record_outcome L tenant workflow_id owner fence result succeeded clk now d =
     bind_r (require (is_dict result)
       (ValueError ''A result object and boolean success are required'')) (\<lambda>_.
     let encoded = canonical_json L result; digest = sha256_hex L encoded in
     bind_r (require_lease tenant workflow_id owner fence clk now d) (\<lambda>_.
     case find_dispatch tenant workflow_id d of
       None \<Rightarrow> Inl (WorkflowConflict ''No matching dispatch'')
     | Some row \<Rightarrow>
         if di_fence row \<noteq> fence then Inl (WorkflowConflict ''No matching dispatch'')
         else case di_outcome_json row of
           Some outcome \<Rightarrow>
             if outcome \<noteq> encoded \<or> di_succeeded row \<noteq> Some (int_of_bool succeeded)
                \<or> di_outcome_sha256 row \<noteq> Some digest
             then Inl (WorkflowConflict ''Outcome conflicts with recorded result'')
             else Inr (d, ())
         | None \<Rightarrow>
             Inr (event tenant workflow_id OutcomeRecorded fence
                    (d\<lparr>workflow_dispatches := update_where
                         (\<lambda>j. di_tenant j = tenant \<and> di_workflow_id j = workflow_id)
                         (\<lambda>j. j\<lparr>di_outcome_json := Some encoded, di_outcome_sha256 := Some digest,
                                di_succeeded := Some (int_of_bool succeeded)\<rparr>)
                         (workflow_dispatches d)\<rparr>), ())))"

definition commit_result ::
    "pylib \<Rightarrow> string \<Rightarrow> string \<Rightarrow> int \<Rightarrow> string \<Rightarrow> bool \<Rightarrow> string \<Rightarrow> db \<Rightarrow> exn + (db \<times> ArtifactRef)" where
  "commit_result L tenant workflow_id fence encoded succeeded uuid d =
     (let artifact = artifact_ref L uuid workflow_id encoded;
          state = (if succeeded then AwaitingValidation else Failed) in
      bind_r (insert_pk wa_id
          \<lparr>wa_id = uuid, wa_workflow_id = workflow_id, wa_tenant = tenant,
           wa_schema_version = af_schema_version artifact, wa_sha256 = af_sha256 artifact,
           wa_size_bytes = af_size_bytes artifact, wa_content_json = encoded\<rparr>
          (workflow_artifacts d)) (\<lambda>arts.
      Inr (event tenant workflow_id (State state) fence
             (d\<lparr>workflow_artifacts := arts,
                workflows := update_where (wf_is tenant workflow_id)
                  (\<lambda>r. r\<lparr>wf_state := state, wf_result := Some encoded,
                         wf_result_artifact_id := Some uuid, wf_owner := None,
                         wf_lease_until := None\<rparr>) (workflows d)\<rparr>), artifact)))"

definition complete ::
    "pylib \<Rightarrow> string \<Rightarrow> string \<Rightarrow> string \<Rightarrow> int \<Rightarrow> json \<Rightarrow> bool \<Rightarrow> instant \<Rightarrow> datetime option \<Rightarrow> string \<Rightarrow>
       db \<Rightarrow> exn + (db \<times> ArtifactRef)" where
  "complete L tenant workflow_id owner fence result succeeded clk now uuid d =
     bind_r (require (is_dict result)
       (ValueError ''A result object and boolean success are required'')) (\<lambda>_.
     let encoded = canonical_json L result in
     bind_r (require_lease tenant workflow_id owner fence clk now d) (\<lambda>_.
     bind_r (require (case find_dispatch tenant workflow_id d of
          None \<Rightarrow> True
        | Some journal \<Rightarrow>
            \<not> (di_outcome_json journal \<noteq> Some encoded
               \<or> di_succeeded journal \<noteq> Some (int_of_bool succeeded)
               \<or> di_fence journal \<noteq> fence
               \<or> di_outcome_sha256 journal \<noteq> Some (sha256_hex L encoded)))
       (WorkflowConflict ''Completion differs from recorded outcome'')) (\<lambda>_.
     commit_result L tenant workflow_id fence encoded succeeded uuid d)))"

section \<open>Validation and cancellation\<close>

definition dict_item :: "json \<Rightarrow> string \<Rightarrow> exn + json" where
  "dict_item v k = (case dict_get v k of None \<Rightarrow> Inl (KeyError k) | Some x \<Rightarrow> Inr x)"

definition bound_snapshot :: "json option \<Rightarrow> ValidationPolicy option \<Rightarrow> exn + json" where
  "bound_snapshot binding policy =
     (case binding of
        Some b \<Rightarrow>
          bind_r (dict_item b ''policy'') (\<lambda>snapshot.
          case policy of
            None \<Rightarrow> Inr snapshot
          | Some p \<Rightarrow>
              bind_r (policy_snapshot p) (\<lambda>s.
              bind_r (require (s = sort_keys snapshot)
                (WorkflowConflict ''Validation differs from bound policy'')) (\<lambda>_. Inr snapshot)))
      | None \<Rightarrow>
          (case policy of
             Some p \<Rightarrow> policy_snapshot p
           | None \<Rightarrow> Inl (WorkflowConflict ''Workflow has no bound acceptance policy'')))"

definition validate ::
    "pylib \<Rightarrow> string \<Rightarrow> string \<Rightarrow> ValidationPolicy option \<Rightarrow> db \<Rightarrow> exn + (db \<times> json)" where
  "validate L tenant workflow_id policy d =
     bind_r (get_binding L tenant workflow_id d) (\<lambda>binding.
     bind_r (bound_snapshot binding policy) (\<lambda>snapshot.
     case find_workflow tenant workflow_id d of
       None \<Rightarrow> Inl (WorkflowConflict ''Workflow is not eligible for validation'')
     | Some row \<Rightarrow>
         bind_r (get_artifact L tenant workflow_id (wf_result_artifact_id row) d) (\<lambda>found.
         case found of
           None \<Rightarrow> Inl (WorkflowConflict ''Workflow result artifact is missing'')
         | Some artifact \<Rightarrow>
             (case find_validation tenant workflow_id d of
                Some previous \<Rightarrow>
                  bind_r (decode L (va_report_json previous)) (\<lambda>report.
                  bind_r (dict_item report ''policy'') (\<lambda>reported_policy.
                  bind_r (dict_item report ''artifact'') (\<lambda>reported_artifact.
                  bind_r (require (sort_keys reported_policy = sort_keys snapshot
                      \<and> sort_keys reported_artifact = sort_keys (artifact_id_json (sa_ref artifact)))
                    (WorkflowConflict ''Validation replay conflicts with recorded input'')) (\<lambda>_.
                  Inr (d, report)))))
              | None \<Rightarrow>
                  bind_r (require (wf_state row = AwaitingValidation)
                    (WorkflowConflict ''Workflow is not eligible for validation'')) (\<lambda>_.
                  bind_r (validate_artifact L artifact snapshot) (\<lambda>report.
                  let state = (if accepted report then Succeeded else Rejected) in
                  bind_r (insert_pk va_workflow_id
                      \<lparr>va_workflow_id = workflow_id, va_tenant = tenant,
                       va_report_json = canonical_json L report\<rparr>
                      (workflow_validations d)) (\<lambda>vs.
                  Inr (event tenant workflow_id (State state) (wf_fence row)
                         (d\<lparr>workflow_validations := vs,
                            workflows := update_where (wf_is tenant workflow_id)
                              (\<lambda>r. r\<lparr>wf_state := state\<rparr>) (workflows d)\<rparr>), report))))))))"

definition cancel :: "string \<Rightarrow> string \<Rightarrow> db \<Rightarrow> exn + (db \<times> bool)" where
  "cancel tenant workflow_id d =
     (case find_workflow tenant workflow_id d of
        None \<Rightarrow> Inr (d, False)
      | Some row \<Rightarrow>
          if wf_state row = Cancelled then Inr (d, True)
          else if wf_state row \<notin> {Ready, Running, AwaitingValidation} then Inr (d, False)
          else let fence = wf_fence row + 1 in
               Inr (event tenant workflow_id (State Cancelled) fence
                      (d\<lparr>workflows := update_where (wf_is tenant workflow_id)
                           (\<lambda>r. r\<lparr>wf_state := Cancelled, wf_fence := fence, wf_owner := None,
                                  wf_lease_until := None\<rparr>) (workflows d)\<rparr>), True))"

section \<open>Recovery\<close>

definition lease_expired :: "instant \<Rightarrow> workflow_row \<Rightarrow> bool" where
  "lease_expired current r = (wf_state r = Running
     \<and> (case wf_lease_until r of None \<Rightarrow> False | Some lease \<Rightarrow> lease \<le> current))"

definition fence_off :: "workflow_row \<Rightarrow> db \<Rightarrow> db" where
  "fence_off row d =
     (let fence = wf_fence row + 1 in
      event (wf_tenant row) (wf_id row) (State Uncertain) fence
        (d\<lparr>workflows := update_where (wf_is (wf_tenant row) (wf_id row))
             (\<lambda>r. r\<lparr>wf_state := Uncertain, wf_fence := fence, wf_owner := None,
                    wf_lease_until := None\<rparr>) (workflows d)\<rparr>))"

definition recover_expired ::
    "string \<Rightarrow> instant \<Rightarrow> datetime option \<Rightarrow> db \<Rightarrow> exn + (db \<times> nat)" where
  "recover_expired tenant clk now d =
     bind_r (utc_now clk now) (\<lambda>current.
     let rows = filter (\<lambda>r. wf_tenant r = tenant \<and> lease_expired current r) (workflows d)
     in Inr (fold fence_off rows d, length rows))"

text \<open>The evidence tests of \<open>reconcile_uncertain\<close> and of \<open>recover_startup\<close>: the journal row
  belongs to the fenced-off execution, its digest is that of its text, and the text is an object.
  Text that does not parse raises in \<open>reconcile_uncertain\<close> and is caught in \<open>recover_startup\<close>.\<close>

definition journal_ok :: "pylib \<Rightarrow> int \<Rightarrow> dispatch_row \<Rightarrow> string \<Rightarrow> bool" where
  "journal_ok L row_fence journal encoded =
     (di_fence journal + 1 = row_fence
      \<and> di_outcome_sha256 journal = Some (sha256_hex L encoded)
      \<and> di_succeeded journal \<in> {Some 0, Some 1})"

definition evidence_ok :: "pylib \<Rightarrow> int \<Rightarrow> dispatch_row \<Rightarrow> string \<Rightarrow> bool" where
  "evidence_ok L row_fence journal encoded =
     (journal_ok L row_fence journal encoded
      \<and> (case loads L encoded of None \<Rightarrow> False | Some v \<Rightarrow> is_dict v))"

definition reconcile_uncertain ::
    "pylib \<Rightarrow> string \<Rightarrow> string \<Rightarrow> string \<Rightarrow> db \<Rightarrow> exn + (db \<times> workflow_state)" where
  "reconcile_uncertain L tenant workflow_id uuid d =
     (let invalid = WorkflowConflict ''Invalid durable outcome evidence'' in
      case find_workflow tenant workflow_id d of
        None \<Rightarrow> Inl (WorkflowConflict ''Workflow not found'')
      | Some row \<Rightarrow>
          if wf_state row \<noteq> Uncertain then Inr (d, wf_state row)
          else case find_dispatch tenant workflow_id d of
            None \<Rightarrow> Inr (d, Uncertain)
          | Some journal \<Rightarrow>
              (case di_outcome_json journal of
                 None \<Rightarrow> Inr (d, Uncertain)
               | Some encoded \<Rightarrow>
                   bind_r (require (journal_ok L (wf_fence row) journal encoded) invalid) (\<lambda>_.
                   bind_r (decode L encoded) (\<lambda>outcome.
                   bind_r (require (is_dict outcome) invalid) (\<lambda>_.
                   let succeeded = (di_succeeded journal = Some 1) in
                   bind_r (commit_result L tenant workflow_id (wf_fence row) encoded succeeded
                             uuid d) (\<lambda>(d', artifact).
                   Inr (d', if succeeded then AwaitingValidation else Failed)))))))"

record startup_report =
  sr_scanned :: nat
  sr_expired :: "(string \<times> string) list"
  sr_reconciled :: "(string \<times> string \<times> workflow_state) list"
  sr_unresolved :: "(string \<times> string \<times> string) list"

text \<open>One round of the second loop of \<open>recover_startup\<close>.\<close>

definition recover_candidate ::
    "pylib \<Rightarrow> (string \<Rightarrow> string) \<Rightarrow> workflow_row \<Rightarrow> db \<times> startup_report \<Rightarrow> exn + (db \<times> startup_report)" where
  "recover_candidate L uuid cand st =
     (let (d, rep) = st; tenant = wf_tenant cand; workflow_id = wf_id cand;
          unresolved = (\<lambda>reason. Inr (d, rep\<lparr>sr_unresolved := sr_unresolved rep @
                          [(tenant, workflow_id, reason)]\<rparr>)) in
      case find_workflow tenant workflow_id d of
        None \<Rightarrow> Inl (TypeError ''NoneType is not subscriptable'')
      | Some row \<Rightarrow>
          (case find_dispatch tenant workflow_id d of
             None \<Rightarrow> unresolved ''outcome_unknown''
           | Some journal \<Rightarrow>
               (case di_outcome_json journal of
                  None \<Rightarrow> unresolved ''outcome_unknown''
                | Some encoded \<Rightarrow>
                    if \<not> evidence_ok L (wf_fence row) journal encoded
                    then unresolved ''invalid_outcome_evidence''
                    else let succeeded = (di_succeeded journal = Some 1) in
                         bind_r (commit_result L tenant workflow_id (wf_fence row) encoded
                                   succeeded (uuid workflow_id) d) (\<lambda>(d', artifact).
                         Inr (d', rep\<lparr>sr_reconciled := sr_reconciled rep @
                           [(tenant, workflow_id,
                             if succeeded then AwaitingValidation else Failed)]\<rparr>)))))"

definition recovery_candidates :: "instant \<Rightarrow> db \<Rightarrow> workflow_row list" where
  "recovery_candidates current d =
     filter (\<lambda>r. wf_state r = Uncertain \<or> lease_expired current r) (workflows d)"

definition recover_startup ::
    "pylib \<Rightarrow> int \<Rightarrow> instant \<Rightarrow> datetime option \<Rightarrow> (string \<Rightarrow> string) \<Rightarrow> db \<Rightarrow> exn + (db \<times> startup_report)" where
  "recover_startup L limit clk now uuid d =
     bind_r (require (1 \<le> limit \<and> limit \<le> 100000)
       (ValueError ''Recovery scan limit must be between 1 and 100000'')) (\<lambda>_.
     bind_r (utc_now clk now) (\<lambda>current.
     let candidates = take (nat (limit + 1)) (recovery_candidates current d) in
     bind_r (require (\<not> limit < int (length candidates))
       (WorkflowConflict ''Startup recovery scan limit exceeded'')) (\<lambda>_.
     let expired = filter (\<lambda>r. wf_state r = Running) candidates in
     foldM (recover_candidate L uuid) candidates
       (fold fence_off expired d,
        \<lparr>sr_scanned = length candidates,
         sr_expired = map (\<lambda>r. (wf_tenant r, wf_id r)) expired,
         sr_reconciled = [], sr_unresolved = []\<rparr>))))"

end
