(* ===== verification/GraphStore.thy ===== *)
theory GraphStore
  imports WorkflowStore
begin

text \<open>
  The graph half of \<open>SQLiteWorkflowStore\<close>: graphs with their scheduler state, the shared budget,
  fenced node claims, completion, validation, dependency artifacts, cancellation and recovery.
\<close>

section \<open>Graphs and their state\<close>

definition graph_event :: "string \<Rightarrow> string \<Rightarrow> string \<Rightarrow> NodeState \<Rightarrow> db \<Rightarrow> db" where
  "graph_event tenant graph_id node state d =
     d\<lparr>workflow_graph_events := workflow_graph_events d @
         [\<lparr>ge_graph_id = graph_id, ge_node_id = node, ge_tenant = tenant, ge_state = state\<rparr>]\<rparr>"

definition graph_is :: "string \<Rightarrow> string \<Rightarrow> graph_row \<Rightarrow> bool" where
  "graph_is tenant graph_id r = (gr_tenant r = tenant \<and> gr_id r = graph_id)"

definition node_is :: "string \<Rightarrow> string \<Rightarrow> string \<Rightarrow> node_row \<Rightarrow> bool" where
  "node_is tenant graph_id node r =
     (nr_tenant r = tenant \<and> nr_graph_id r = graph_id \<and> nr_node_id r = node)"

definition find_graph :: "string \<Rightarrow> string \<Rightarrow> db \<Rightarrow> graph_row option" where
  "find_graph tenant graph_id d = List.find (graph_is tenant graph_id) (workflow_graphs d)"

definition find_node :: "string \<Rightarrow> string \<Rightarrow> string \<Rightarrow> db \<Rightarrow> node_row option" where
  "find_node tenant graph_id node d = List.find (node_is tenant graph_id node) (workflow_graph_nodes d)"

record graph_budget =
  bu_deadline_seconds :: number
  bu_max_attempts :: int
  bu_max_output_tokens :: "int option"

definition validate_graph_budget :: "graph_budget \<Rightarrow> exn + unit" where
  "validate_graph_budget b = require
     (\<not> (number_value (bu_deadline_seconds b) \<le> 0 \<or> bu_max_attempts b < 1
        \<or> (case bu_max_output_tokens b of None \<Rightarrow> False | Some n \<Rightarrow> n < 1)))
     (ValueError ''Invalid graph budget'')"

definition budget_json :: "graph_budget \<Rightarrow> json" where
  "budget_json b = JObj [(''deadline_seconds'', number_json (bu_deadline_seconds b)),
     (''max_attempts'', JInt (bu_max_attempts b)),
     (''max_output_tokens'', jopt JInt (bu_max_output_tokens b))]"

definition graph_digest :: "pylib \<Rightarrow> WorkflowGraph \<Rightarrow> graph_budget option \<Rightarrow> json option \<Rightarrow> string" where
  "graph_digest L graph budget binding = sha256_hex L
     (if budget \<noteq> None \<or> binding \<noteq> None
      then canonical_json L (JObj [(''graph'', graph_to_dict L graph),
             (''budget'', jopt budget_json budget), (''binding'', jopt sort_keys binding)])
      else canonical_json L (graph_to_dict L graph))"

definition insert_nodes ::
    "string \<Rightarrow> string \<Rightarrow> string \<times> NodeState \<Rightarrow> db \<Rightarrow> exn + db" where
  "insert_nodes tenant graph_id entry d =
     bind_r (insert_pk (\<lambda>r. (nr_graph_id r, nr_node_id r))
         \<lparr>nr_graph_id = graph_id, nr_node_id = fst entry, nr_tenant = tenant, nr_state = snd entry,
          nr_fence = 0, nr_owner = None, nr_lease_until = None, nr_result_artifact_id = None\<rparr>
         (workflow_graph_nodes d)) (\<lambda>rows.
     Inr (graph_event tenant graph_id (fst entry) (snd entry) (d\<lparr>workflow_graph_nodes := rows\<rparr>)))"

definition insert_budget ::
    "string \<Rightarrow> string \<Rightarrow> graph_budget \<Rightarrow> instant \<Rightarrow> db \<Rightarrow> exn + db" where
  "insert_budget tenant graph_id b deadline d =
     map_r (\<lambda>rows. d\<lparr>workflow_graph_budgets := rows\<rparr>)
       (insert_pk gb_graph_id
          \<lparr>gb_graph_id = graph_id, gb_tenant = tenant, gb_deadline_at = deadline,
           gb_max_attempts = bu_max_attempts b, gb_max_output_tokens = bu_max_output_tokens b,
           gb_attempts = 0, gb_output_tokens = 0\<rparr> (workflow_graph_budgets d))"

definition create_graph ::
    "pylib \<Rightarrow> string \<Rightarrow> string \<Rightarrow> WorkflowGraph \<Rightarrow> graph_budget option \<Rightarrow> json option \<Rightarrow> instant \<Rightarrow>
       datetime option \<Rightarrow> string \<Rightarrow> db \<Rightarrow> exn + (db \<times> string)" where
  "create_graph L tenant key graph budget binding clk now uuid d =
     bind_r (check_identifier tenant) (\<lambda>_.
     bind_r (check_identifier key) (\<lambda>_.
     bind_r (graph_from_dict L (graph_to_dict L graph)) (\<lambda>validated.
     bind_r (case budget of None \<Rightarrow> Inr () | Some b \<Rightarrow> validate_graph_budget b) (\<lambda>_.
     let encoded = canonical_json L (graph_to_dict L validated);
         digest = graph_digest L validated budget binding in
     bind_r (initial_state validated) (\<lambda>initial.
     case List.find (\<lambda>r. gr_tenant r = tenant \<and> gr_key r = key) (workflow_graphs d) of
       Some row \<Rightarrow>
         if gr_request_hash row \<noteq> digest
         then Inl (WorkflowConflict ''Graph idempotency key conflicts with existing input'')
         else Inr (d, gr_id row)
     | None \<Rightarrow>
         bind_r (insert_pk gr_id
             \<lparr>gr_id = uuid, gr_tenant = tenant, gr_key = key, gr_request_hash = digest,
              gr_graph_json = encoded, gr_binding_json = map_option (canonical_json L) binding\<rparr>
             (workflow_graphs d)) (\<lambda>graphs.
         bind_r (foldM (insert_nodes tenant uuid) (node_states initial)
                   (d\<lparr>workflow_graphs := graphs\<rparr>)) (\<lambda>d1.
         case budget of
           None \<Rightarrow> Inr (d1, uuid)
         | Some b \<Rightarrow>
             bind_r (utc_now clk now) (\<lambda>current.
             map_r (\<lambda>d2. (d2, uuid))
               (insert_budget tenant uuid b
                  (current + seconds (number_value (bu_deadline_seconds b))) d1))))))))) "

definition get_graph_binding :: "pylib \<Rightarrow> string \<Rightarrow> string \<Rightarrow> db \<Rightarrow> exn + json option" where
  "get_graph_binding L tenant graph_id d =
     (case find_graph tenant graph_id d of
        None \<Rightarrow> Inr None
      | Some row \<Rightarrow> (case gr_binding_json row of
            None \<Rightarrow> Inr None | Some text \<Rightarrow> map_r Some (decode L text)))"

definition graph_node_rows :: "string \<Rightarrow> string \<Rightarrow> db \<Rightarrow> node_row list" where
  "graph_node_rows tenant graph_id d = sort_key nr_node_id
     (filter (\<lambda>r. nr_tenant r = tenant \<and> nr_graph_id r = graph_id) (workflow_graph_nodes d))"

definition get_graph_state :: "pylib \<Rightarrow> string \<Rightarrow> string \<Rightarrow> db \<Rightarrow> exn + GraphState option" where
  "get_graph_state L tenant graph_id d =
     (case find_graph tenant graph_id d of
        None \<Rightarrow> Inr None
      | Some row \<Rightarrow>
          bind_r (decode L (gr_graph_json row)) (\<lambda>value.
          bind_r (graph_from_dict L value) (\<lambda>graph.
          case GraphState_init graph
                 (map (\<lambda>r. (nr_node_id r, nr_state r)) (graph_node_rows tenant graph_id d)) of
            Inl _ \<Rightarrow> Inl (ValueError ''Invalid persisted workflow graph state'')
          | Inr state \<Rightarrow> Inr (Some state))))"

definition require_graph :: "pylib \<Rightarrow> string \<Rightarrow> string \<Rightarrow> db \<Rightarrow> exn + GraphState" where
  "require_graph L tenant graph_id d =
     bind_r (get_graph_state L tenant graph_id d) (\<lambda>found.
     case found of None \<Rightarrow> Inl (WorkflowConflict ''Workflow graph not found'')
                 | Some state \<Rightarrow> Inr state)"

definition get_graph_node_packet ::
    "pylib \<Rightarrow> string \<Rightarrow> string \<Rightarrow> string \<Rightarrow> db \<Rightarrow> exn + TaskPacket option" where
  "get_graph_node_packet L tenant graph_id node d =
     bind_r (get_graph_state L tenant graph_id d) (\<lambda>found.
     case found of
       None \<Rightarrow> Inr None
     | Some state \<Rightarrow> Inr (map_option node_packet
         (List.find (\<lambda>n. node_id n = node) (graph_nodes (gs_graph state)))))"

section \<open>Transitions\<close>

text \<open>The derived changes are written in dependency order: first the node itself, then in rounds the
  changed nodes none of whose dependencies is still pending.\<close>

definition eligible_nodes :: "(string \<Rightarrow> string list) \<Rightarrow> string list \<Rightarrow> string list \<Rightarrow> string list" where
  "eligible_nodes deps ids pending =
     filter (\<lambda>i. i \<in> set pending \<and> \<not> list_ex (\<lambda>d. d \<in> set pending) (deps i)) ids"

function order_pending :: "(string \<Rightarrow> string list) \<Rightarrow> string list \<Rightarrow> string list \<Rightarrow> exn + string list" where
  "order_pending deps ids pending =
     (if pending = [] then Inr []
      else let eligible = eligible_nodes deps ids pending in
           if eligible = [] then Inl (ValueError ''Invalid derived graph transition ordering'')
           else map_r (\<lambda>rest. eligible @ rest)
                  (order_pending deps ids (filter (\<lambda>i. i \<notin> set eligible) pending)))"
  by pat_completeness auto
termination
proof (relation "measure (\<lambda>(deps, ids, pending). length pending)", goal_cases)
  case (2 deps ids pending eligible)
  then obtain i where "i \<in> set eligible" "i \<in> set pending"
    by (auto simp: eligible_nodes_def filter_empty_conv)
  then have "length (filter (\<lambda>i. i \<notin> set eligible) pending) < length pending"
    by (metis (mono_tags, lifting) length_filter_less)
  then show ?case by simp
qed simp

declare order_pending.simps [simp del]

definition changed_nodes :: "GraphState \<Rightarrow> GraphState \<Rightarrow> string list" where
  "changed_nodes current updated =
     map fst (filter (\<lambda>(i, st). map_of (node_states current) i \<noteq> Some st) (node_states updated))"

definition write_change ::
    "string \<Rightarrow> string \<Rightarrow> node_map \<Rightarrow> node_map \<Rightarrow> string \<Rightarrow> db \<Rightarrow> exn + db" where
  "write_change tenant graph_id before later node d =
     (case (before node, later node) of
        (Some old, Some new) \<Rightarrow>
          let hit = (\<lambda>r. node_is tenant graph_id node r \<and> nr_state r = old) in
          if length (filter hit (workflow_graph_nodes d)) \<noteq> 1
          then Inl (WorkflowConflict ''Workflow graph state changed concurrently'')
          else Inr (graph_event tenant graph_id node new
                 (d\<lparr>workflow_graph_nodes := update_where hit (\<lambda>r. r\<lparr>nr_state := new\<rparr>)
                      (workflow_graph_nodes d)\<rparr>))
      | _ \<Rightarrow> Inl (KeyError node))"

definition transition_graph_node ::
    "pylib \<Rightarrow> string \<Rightarrow> string \<Rightarrow> string \<Rightarrow> NodeState \<Rightarrow> db \<Rightarrow> exn + (db \<times> GraphState)" where
  "transition_graph_node L tenant graph_id node target d =
     bind_r (require_graph L tenant graph_id d) (\<lambda>current.
     bind_r (case transition current node target of
               Inl (ValueError _) \<Rightarrow> Inl (WorkflowConflict ''Illegal workflow graph transition'')
             | r \<Rightarrow> r) (\<lambda>updated.
     let changed = changed_nodes current updated;
         first = (if node \<in> set changed then [node] else []);
         pending = filter (\<lambda>i. i \<noteq> node) changed in
     bind_r (order_pending (dependencies (gs_graph updated)) (identifiers (gs_graph updated)) pending)
       (\<lambda>rest.
     map_r (\<lambda>d'. (d', updated))
       (foldM (write_change tenant graph_id (map_of (node_states current)) (map_of (node_states updated)))
          (first @ rest) d))))"

definition list_ready_graph_nodes :: "int \<Rightarrow> db \<Rightarrow> exn + (string \<times> string \<times> string) list" where
  "list_ready_graph_nodes limit d =
     (if \<not> (1 \<le> limit \<and> limit \<le> 1000)
      then Inl (ValueError ''Ready graph-node limit must be between 1 and 1000'')
      else Inr (map (\<lambda>r. (nr_tenant r, nr_graph_id r, nr_node_id r))
                  (take (nat limit) (filter (\<lambda>r. nr_state r = READY) (workflow_graph_nodes d)))))"

definition graph_events :: "string \<Rightarrow> string \<Rightarrow> db \<Rightarrow> (nat \<times> string \<times> NodeState) list" where
  "graph_events tenant graph_id d =
     map (\<lambda>(i, e). (Suc i, ge_node_id e, ge_state e))
       (filter (\<lambda>(i, e). ge_tenant e = tenant \<and> ge_graph_id e = graph_id)
          (enumerate 0 (workflow_graph_events d)))"

section \<open>The shared budget\<close>

definition budget_is :: "string \<Rightarrow> string \<Rightarrow> graph_budget_row \<Rightarrow> bool" where
  "budget_is tenant graph_id r = (gb_tenant r = tenant \<and> gb_graph_id r = graph_id)"

definition get_graph_budget :: "string \<Rightarrow> string \<Rightarrow> db \<Rightarrow> graph_budget_row option" where
  "get_graph_budget tenant graph_id d =
     List.find (budget_is tenant graph_id) (workflow_graph_budgets d)"

definition bind_graph_budget ::
    "pylib \<Rightarrow> string \<Rightarrow> string \<Rightarrow> graph_budget \<Rightarrow> instant \<Rightarrow> datetime option \<Rightarrow> db \<Rightarrow>
       exn + (db \<times> graph_budget_row)" where
  "bind_graph_budget L tenant graph_id b clk now d =
     bind_r (validate_graph_budget b) (\<lambda>_.
     bind_r (utc_now clk now) (\<lambda>current.
     bind_r (require_graph L tenant graph_id d) (\<lambda>_.
     case get_graph_budget tenant graph_id d of
       Some existing \<Rightarrow>
         if (gb_max_attempts existing, gb_max_output_tokens existing)
              \<noteq> (bu_max_attempts b, bu_max_output_tokens b)
         then Inl (WorkflowConflict ''Graph budget is already bound'')
         else Inr (d, existing)
     | None \<Rightarrow>
         bind_r (insert_budget tenant graph_id b
                   (current + seconds (number_value (bu_deadline_seconds b))) d) (\<lambda>d'.
         case List.find (\<lambda>r. gb_graph_id r = graph_id) (workflow_graph_budgets d') of
           None \<Rightarrow> Inl (TypeError ''NoneType is not iterable'')
         | Some row \<Rightarrow> Inr (d', row)))))"

definition reserve_graph_attempt ::
    "string \<Rightarrow> string \<Rightarrow> instant \<Rightarrow> datetime option \<Rightarrow> db \<Rightarrow> exn + (db \<times> bool)" where
  "reserve_graph_attempt tenant graph_id clk now d =
     (case get_graph_budget tenant graph_id d of
        None \<Rightarrow> Inl (WorkflowConflict ''Graph budget is not bound'')
      | Some row \<Rightarrow>
          bind_r (utc_now clk now) (\<lambda>current.
          if gb_deadline_at row \<le> current \<or> gb_attempts row \<ge> gb_max_attempts row
          then Inr (d, False)
          else Inr (d\<lparr>workflow_graph_budgets := update_where (budget_is tenant graph_id)
                        (\<lambda>r. r\<lparr>gb_attempts := gb_attempts r + 1\<rparr>) (workflow_graph_budgets d)\<rparr>, True)))"

definition record_graph_output_tokens ::
    "string \<Rightarrow> string \<Rightarrow> int option \<Rightarrow> db \<Rightarrow> exn + (db \<times> bool)" where
  "record_graph_output_tokens tenant graph_id count d =
     (case count of
        None \<Rightarrow> Inr (d, True)
      | Some n \<Rightarrow>
          if n < 0 then Inl (ValueError ''Output token count must be a nonnegative integer'')
          else case get_graph_budget tenant graph_id d of
            None \<Rightarrow> Inl (WorkflowConflict ''Graph budget is not bound'')
          | Some row \<Rightarrow>
              if (case gb_max_output_tokens row of
                    None \<Rightarrow> False | Some limit \<Rightarrow> gb_output_tokens row + n > limit)
              then Inr (d, False)
              else Inr (d\<lparr>workflow_graph_budgets := update_where (budget_is tenant graph_id)
                            (\<lambda>r. r\<lparr>gb_output_tokens := gb_output_tokens r + n\<rparr>)
                            (workflow_graph_budgets d)\<rparr>, True))"

section \<open>Node execution\<close>

definition claim_graph_node ::
    "string \<Rightarrow> string \<Rightarrow> string \<Rightarrow> string \<Rightarrow> int \<Rightarrow> instant \<Rightarrow> datetime option \<Rightarrow> db \<Rightarrow> exn + (db \<times> int)" where
  "claim_graph_node tenant graph_id node owner lease_seconds clk now d =
     bind_r (check_identifier owner) (\<lambda>_.
     bind_r (require (1 \<le> lease_seconds \<and> lease_seconds \<le> 3600)
       (ValueError ''Lease must be between 1 and 3600 seconds'')) (\<lambda>_.
     bind_r (utc_now clk now) (\<lambda>current.
     bind_r (require (case get_graph_budget tenant graph_id d of
                        None \<Rightarrow> False | Some b \<Rightarrow> \<not> gb_deadline_at b \<le> current)
       (WorkflowConflict ''Graph budget is missing or expired'')) (\<lambda>_.
     case find_node tenant graph_id node d of
       None \<Rightarrow> Inl (WorkflowConflict ''Graph node is not claimable'')
     | Some row \<Rightarrow>
         bind_r (require (nr_state row = READY)
           (WorkflowConflict ''Graph node is not claimable'')) (\<lambda>_.
         let fence = nr_fence row + 1;
             expiry = current + seconds (of_int lease_seconds);
             hit = (\<lambda>r. node_is tenant graph_id node r \<and> nr_state r = READY \<and> nr_fence r = nr_fence row) in
         bind_r (require (length (filter hit (workflow_graph_nodes d)) = 1)
           (WorkflowConflict ''Graph node claim changed concurrently'')) (\<lambda>_.
         Inr (graph_event tenant graph_id node RUNNING
                (d\<lparr>workflow_graph_nodes := update_where hit
                     (\<lambda>r. r\<lparr>nr_state := RUNNING, nr_fence := fence, nr_owner := Some owner,
                            nr_lease_until := Some expiry\<rparr>) (workflow_graph_nodes d)\<rparr>), fence)))))))"

definition require_graph_lease ::
    "string \<Rightarrow> string \<Rightarrow> string \<Rightarrow> string \<Rightarrow> int \<Rightarrow> instant \<Rightarrow> datetime option \<Rightarrow> db \<Rightarrow> exn + unit" where
  "require_graph_lease tenant graph_id node owner fence clk now d =
     (let stale = WorkflowConflict ''Stale or unauthorized graph-node execution'' in
      case find_node tenant graph_id node d of
        None \<Rightarrow> Inl stale
      | Some row \<Rightarrow>
          if nr_state row \<noteq> RUNNING \<or> nr_owner row \<noteq> Some owner \<or> nr_fence row \<noteq> fence
          then Inl stale
          else case nr_lease_until row of
                 None \<Rightarrow> Inl (TypeError ''fromisoformat: argument must be str'')
               | Some lease \<Rightarrow> bind_r (utc_now clk now) (\<lambda>current.
                   require (\<not> lease \<le> current) stale))"

definition complete_graph_node ::
    "pylib \<Rightarrow> string \<Rightarrow> string \<Rightarrow> string \<Rightarrow> string \<Rightarrow> int \<Rightarrow> json \<Rightarrow> bool \<Rightarrow> instant \<Rightarrow> datetime option \<Rightarrow>
       string \<Rightarrow> db \<Rightarrow> exn + (db \<times> ArtifactRef)" where
  "complete_graph_node L tenant graph_id node owner fence result succeeded clk now uuid d =
     bind_r (require (is_dict result)
       (ValueError ''A result object and boolean success are required'')) (\<lambda>_.
     let encoded = canonical_json L result; artifact = artifact_ref L uuid graph_id encoded in
     bind_r (require_graph_lease tenant graph_id node owner fence clk now d) (\<lambda>_.
     bind_r (insert_pk ga_id
         \<lparr>ga_id = uuid, ga_graph_id = graph_id, ga_node_id = node, ga_tenant = tenant,
          ga_schema_version = af_schema_version artifact, ga_sha256 = af_sha256 artifact,
          ga_size_bytes = af_size_bytes artifact, ga_content_json = encoded, ga_accepted = False,
          ga_validation_json = None\<rparr> (workflow_graph_artifacts d)) (\<lambda>arts.
     bind_r (transition_graph_node L tenant graph_id node
               (if succeeded then AWAITING_VALIDATION else FAILED)
               (d\<lparr>workflow_graph_artifacts := arts\<rparr>)) (\<lambda>(d', state).
     Inr (d'\<lparr>workflow_graph_nodes := update_where (node_is tenant graph_id node)
               (\<lambda>r. r\<lparr>nr_owner := None, nr_lease_until := None, nr_result_artifact_id := Some uuid\<rparr>)
               (workflow_graph_nodes d')\<rparr>, artifact)))))"

definition stored_graph_artifact :: "pylib \<Rightarrow> graph_artifact_row \<Rightarrow> exn + StoredArtifact" where
  "stored_graph_artifact L a = StoredArtifact_init L
     \<lparr>af_artifact_id = ga_id a, af_workflow_id = ga_graph_id a, af_sha256 = ga_sha256 a,
      af_size_bytes = ga_size_bytes a, af_schema_version = ga_schema_version a,
      af_media_type = ''application/json''\<rparr> (ga_content_json a)"

definition get_graph_artifact ::
    "pylib \<Rightarrow> string \<Rightarrow> string \<Rightarrow> string \<Rightarrow> db \<Rightarrow> exn + StoredArtifact option" where
  "get_graph_artifact L tenant graph_id node d =
     (case List.find (\<lambda>a. ga_tenant a = tenant \<and> ga_graph_id a = graph_id \<and> ga_node_id a = node
            \<and> list_ex (\<lambda>n. nr_result_artifact_id n = Some (ga_id a)) (workflow_graph_nodes d))
          (workflow_graph_artifacts d) of
        None \<Rightarrow> Inr None
      | Some a \<Rightarrow> map_r Some (stored_graph_artifact L a))"

text \<open>The joins of a node with its result artifact.\<close>

definition node_result ::
    "string \<Rightarrow> string \<Rightarrow> string \<Rightarrow> db \<Rightarrow> (node_row \<times> graph_artifact_row) option" where
  "node_result tenant graph_id node d =
     List.find (\<lambda>(n, a). nr_result_artifact_id n = Some (ga_id a))
       (List.product (filter (node_is tenant graph_id node) (workflow_graph_nodes d))
          (workflow_graph_artifacts d))"

definition accepted_node_result ::
    "string \<Rightarrow> string \<Rightarrow> string \<Rightarrow> db \<Rightarrow> (node_row \<times> graph_artifact_row) option" where
  "accepted_node_result tenant graph_id node d =
     List.find (\<lambda>(n, a). nr_result_artifact_id n = Some (ga_id a) \<and> ga_accepted a)
       (List.product (filter (node_is tenant graph_id node) (workflow_graph_nodes d))
          (workflow_graph_artifacts d))"

definition validate_graph_node ::
    "pylib \<Rightarrow> string \<Rightarrow> string \<Rightarrow> string \<Rightarrow> ValidationPolicy \<Rightarrow> db \<Rightarrow> exn + (db \<times> json)" where
  "validate_graph_node L tenant graph_id node policy d =
     bind_r (policy_snapshot policy) (\<lambda>snapshot.
     case node_result tenant graph_id node d of
       None \<Rightarrow> Inl (WorkflowConflict ''Graph node has no result artifact'')
     | Some (n, a) \<Rightarrow>
         bind_r (stored_graph_artifact L a) (\<lambda>artifact.
         case ga_validation_json a of
           Some text \<Rightarrow>
             bind_r (decode L text) (\<lambda>report.
             bind_r (dict_item report ''policy'') (\<lambda>reported.
             bind_r (require (sort_keys reported = sort_keys snapshot)
               (WorkflowConflict ''Graph validation policy changed'')) (\<lambda>_. Inr (d, report))))
         | None \<Rightarrow>
             bind_r (require (nr_state n = AWAITING_VALIDATION)
               (WorkflowConflict ''Graph node is not eligible for validation'')) (\<lambda>_.
             bind_r (validate_artifact L artifact snapshot) (\<lambda>report.
             bind_r (transition_graph_node L tenant graph_id node
                       (if accepted report then SUCCEEDED else REJECTED)
                       (d\<lparr>workflow_graph_artifacts := update_where (\<lambda>x. ga_id x = ga_id a)
                            (\<lambda>x. x\<lparr>ga_accepted := accepted report,
                                   ga_validation_json := Some (canonical_json L report)\<rparr>)
                            (workflow_graph_artifacts d)\<rparr>)) (\<lambda>(d', state).
             Inr (d', report))))))"

definition dependency_artifact ::
    "pylib \<Rightarrow> string \<Rightarrow> string \<Rightarrow> db \<Rightarrow> GraphState \<Rightarrow> string \<Rightarrow> exn + (string \<times> StoredArtifact)" where
  "dependency_artifact L tenant graph_id d state dep =
     bind_r (state_of state dep) (\<lambda>st.
     bind_r (require (st = SUCCEEDED) (WorkflowConflict ''Graph dependency is not accepted'')) (\<lambda>_.
     case accepted_node_result tenant graph_id dep d of
       None \<Rightarrow> Inl (WorkflowConflict ''Accepted dependency artifact is missing'')
     | Some (n, a) \<Rightarrow> map_r (\<lambda>s. (dep, s)) (stored_graph_artifact L a)))"

definition accepted_dependency_artifacts ::
    "pylib \<Rightarrow> string \<Rightarrow> string \<Rightarrow> string \<Rightarrow> db \<Rightarrow> exn + (string \<times> StoredArtifact) list" where
  "accepted_dependency_artifacts L tenant graph_id node d =
     bind_r (require_graph L tenant graph_id d) (\<lambda>state.
     case List.find (\<lambda>n. node_id n = node) (graph_nodes (gs_graph state)) of
       None \<Rightarrow> Inl (WorkflowConflict ''Workflow graph node not found'')
     | Some n \<Rightarrow> traverse (dependency_artifact L tenant graph_id d state) (depends_on n))"

definition graph_node_records ::
    "pylib \<Rightarrow> string \<Rightarrow> string \<Rightarrow> db \<Rightarrow> exn + (string \<times> NodeState \<times> int \<times> string option) list" where
  "graph_node_records L tenant graph_id d =
     bind_r (get_graph_state L tenant graph_id d) (\<lambda>found.
     case found of
       None \<Rightarrow> Inr []
     | Some _ \<Rightarrow> Inr (map (\<lambda>r. (nr_node_id r, nr_state r, nr_fence r, nr_result_artifact_id r))
                       (graph_node_rows tenant graph_id d)))"

section \<open>Cancellation, results and recovery\<close>

definition ACTIVE_NODE_STATES :: "NodeState set" where
  "ACTIVE_NODE_STATES = {READY, RUNNING, AWAITING_VALIDATION}"

definition fence_node :: "string \<Rightarrow> string \<Rightarrow> string \<Rightarrow> db \<Rightarrow> db" where
  "fence_node tenant graph_id node d =
     d\<lparr>workflow_graph_nodes := update_where (node_is tenant graph_id node)
         (\<lambda>r. r\<lparr>nr_fence := nr_fence r + 1, nr_owner := None, nr_lease_until := None\<rparr>)
         (workflow_graph_nodes d)\<rparr>"

definition cancel_node ::
    "pylib \<Rightarrow> string \<Rightarrow> string \<Rightarrow> string \<times> NodeState \<Rightarrow> db \<Rightarrow> exn + db" where
  "cancel_node L tenant graph_id entry d =
     (if snd entry \<notin> ACTIVE_NODE_STATES then Inr d
      else bind_r (get_graph_state L tenant graph_id d) (\<lambda>found.
           case found of
             None \<Rightarrow> Inl (AssertionError)
           | Some state \<Rightarrow>
               bind_r (state_of state (fst entry)) (\<lambda>current.
               if current \<notin> ACTIVE_NODE_STATES then Inr d
               else bind_r (transition_graph_node L tenant graph_id (fst entry) CANCELLED d)
                      (\<lambda>(d', s). Inr (fence_node tenant graph_id (fst entry) d')))))"

definition cancel_graph :: "pylib \<Rightarrow> string \<Rightarrow> string \<Rightarrow> db \<Rightarrow> exn + (db \<times> GraphState)" where
  "cancel_graph L tenant graph_id d =
     bind_r (require_graph L tenant graph_id d) (\<lambda>state.
     bind_r (foldM (cancel_node L tenant graph_id) (node_states state) d) (\<lambda>d'.
     bind_r (get_graph_state L tenant graph_id d') (\<lambda>final.
     case final of None \<Rightarrow> Inl (AssertionError)
                 | Some s \<Rightarrow> Inr (d', s))))"

definition sinks :: "WorkflowGraph \<Rightarrow> string list" where
  "sinks g = filter (\<lambda>i. \<not> list_ex (\<lambda>n. i \<in> set (depends_on n)) (graph_nodes g)) (identifiers g)"

definition accepted_result ::
    "pylib \<Rightarrow> string \<Rightarrow> string \<Rightarrow> db \<Rightarrow> string \<Rightarrow> exn + (string \<times> StoredArtifact \<times> json)" where
  "accepted_result L tenant graph_id d node =
     (let missing = WorkflowConflict ''Accepted graph result evidence is missing'' in
      case List.find (\<lambda>a. ga_tenant a = tenant \<and> ga_graph_id a = graph_id \<and> ga_node_id a = node
             \<and> ga_accepted a) (workflow_graph_artifacts d) of
        None \<Rightarrow> Inl missing
      | Some a \<Rightarrow> (case ga_validation_json a of
            None \<Rightarrow> Inl missing
          | Some text \<Rightarrow>
              bind_r (stored_graph_artifact L a) (\<lambda>artifact.
              map_r (\<lambda>report. (node, artifact, report)) (decode L text))))"

definition accepted_graph_results ::
    "pylib \<Rightarrow> string \<Rightarrow> string \<Rightarrow> db \<Rightarrow> exn + (string \<times> StoredArtifact \<times> json) list" where
  "accepted_graph_results L tenant graph_id d =
     bind_r (require_graph L tenant graph_id d) (\<lambda>state.
     bind_r (require (terminal state
         \<and> list_all (\<lambda>i. state_of state i = Inr SUCCEEDED) (sinks (gs_graph state)))
       (WorkflowConflict ''Workflow graph has no accepted result'')) (\<lambda>_.
     traverse (accepted_result L tenant graph_id d) (sinks (gs_graph state))))"

definition node_lease_expired :: "instant \<Rightarrow> node_row \<Rightarrow> bool" where
  "node_lease_expired current r = (nr_state r = RUNNING
     \<and> (case nr_lease_until r of None \<Rightarrow> False | Some lease \<Rightarrow> lease \<le> current))"

definition recover_node :: "pylib \<Rightarrow> node_row \<Rightarrow> db \<Rightarrow> exn + db" where
  "recover_node L row d =
     bind_r (transition_graph_node L (nr_tenant row) (nr_graph_id row) (nr_node_id row) UNCERTAIN d)
       (\<lambda>(d', s). Inr (fence_node (nr_tenant row) (nr_graph_id row) (nr_node_id row) d'))"

definition recover_graph_nodes_startup ::
    "pylib \<Rightarrow> int \<Rightarrow> instant \<Rightarrow> datetime option \<Rightarrow> db \<Rightarrow>
       exn + (db \<times> (string \<times> string \<times> string \<times> string) list)" where
  "recover_graph_nodes_startup L limit clk now d =
     bind_r (require (1 \<le> limit \<and> limit \<le> 100000)
       (ValueError ''Recovery scan limit must be between 1 and 100000'')) (\<lambda>_.
     bind_r (utc_now clk now) (\<lambda>current.
     let rows = take (nat (limit + 1)) (filter (node_lease_expired current) (workflow_graph_nodes d)) in
     bind_r (require (\<not> limit < int (length rows))
       (WorkflowConflict ''Graph recovery scan limit exceeded'')) (\<lambda>_.
     map_r (\<lambda>d'. (d', map (\<lambda>r. (nr_tenant r, nr_graph_id r, nr_node_id r, ''outcome_unknown'')) rows))
       (foldM (recover_node L) rows d))))"

end
