(* ===== verification/JsonText.thy ===== *)
theory JsonText
  imports Packets
begin

text \<open>
  \<open>json.loads\<close> on the texts \<open>canonical_json\<close> writes, and the proof that it reads back what was
  written. It instantiates the parser of \<open>pylib\<close>: \<open>sample_lib\<close> is a library for which every law the
  development assumes of \<open>pylib\<close> holds, so that the theorems under those laws are not empty.
\<close>

section \<open>The parser\<close>

definition chr_in :: "char \<Rightarrow> string \<Rightarrow> bool" where
  "chr_in c s = (c \<in> set s)"

definition number_char :: "char \<Rightarrow> bool" where
  "number_char c = chr_in c ''0123456789+-.eE''"

definition digit_value :: "char \<Rightarrow> nat option" where
  "digit_value c = (let n = (of_char c :: nat) in if 48 \<le> n \<and> n \<le> 57 then Some (n - 48) else None)"

definition hex_value :: "char \<Rightarrow> nat option" where
  "hex_value c = (let n = (of_char c :: nat) in
     if 48 \<le> n \<and> n \<le> 57 then Some (n - 48)
     else if 97 \<le> n \<and> n \<le> 102 then Some (n - 87)
     else if 65 \<le> n \<and> n \<le> 70 then Some (n - 55) else None)"

fun read_nat :: "nat \<Rightarrow> string \<Rightarrow> nat option" where
  "read_nat acc [] = Some acc"
| "read_nat acc (c # cs) =
     (case digit_value c of None \<Rightarrow> None | Some v \<Rightarrow> read_nat (10 * acc + v) cs)"

definition read_digits :: "string \<Rightarrow> nat option" where
  "read_digits s = (if s = [] \<or> (length s > 1 \<and> hd s = CHR ''0'') then None else read_nat 0 s)"

definition read_int :: "string \<Rightarrow> int option" where
  "read_int s = (case s of
     [] \<Rightarrow> None
   | c # cs \<Rightarrow> if c = CHR ''-'' then map_option (\<lambda>n. - int n) (read_digits cs)
               else map_option int (read_digits s))"

text \<open>A decimal fraction; \<open>read_number\<close> covers what \<open>json.dumps\<close> writes for integers and for
  floats in positional notation.\<close>

definition read_decimal :: "string \<Rightarrow> rat option" where
  "read_decimal s =
     (let whole = takeWhile (\<lambda>c. c \<noteq> CHR ''.'') s; frac = tl (dropWhile (\<lambda>c. c \<noteq> CHR ''.'') s);
          neg = (whole \<noteq> [] \<and> hd whole = CHR ''-'') in
      case (read_int whole, if frac = [] then None else read_nat 0 frac) of
        (Some i, Some f) \<Rightarrow>
          Some (if neg then of_int i - of_nat f / 10 ^ length frac
                else of_int i + of_nat f / 10 ^ length frac)
      | _ \<Rightarrow> None)"

definition read_number :: "string \<Rightarrow> json option" where
  "read_number s = (if chr_in (CHR ''.'') s then map_option JFloat (read_decimal s)
                    else map_option JInt (read_int s))"

definition unescape :: "char \<Rightarrow> char option" where
  "unescape e =
     (if e = CHR 0x22 \<or> e = CHR 0x5C \<or> e = CHR ''/'' then Some e
      else if e = CHR ''n'' then Some (char_of (10 :: nat))
      else if e = CHR ''r'' then Some (char_of (13 :: nat))
      else if e = CHR ''t'' then Some (char_of (9 :: nat))
      else if e = CHR ''f'' then Some (char_of (12 :: nat))
      else if e = CHR ''b'' then Some (char_of (8 :: nat)) else None)"

definition cons_fst :: "'a \<Rightarrow> ('a list \<times> 'b) option \<Rightarrow> ('a list \<times> 'b) option" where
  "cons_fst x r = map_option (\<lambda>(xs, rest). (x # xs, rest)) r"

text \<open>What follows a backslash. Code points from 256 are outside the model.\<close>

definition read_escape :: "string \<Rightarrow> (char \<times> string) option" where
  "read_escape s = (case s of
     [] \<Rightarrow> None
   | e # es \<Rightarrow>
       if e = CHR ''u'' then
         (case es of
            w # x # y # z # rest \<Rightarrow>
              (if w = CHR ''0'' \<and> x = CHR ''0''
               then case (hex_value y, hex_value z) of
                      (Some h, Some l) \<Rightarrow> Some (char_of (16 * h + l), rest)
                    | _ \<Rightarrow> None
               else None)
          | _ \<Rightarrow> None)
       else map_option (\<lambda>u. (u, es)) (unescape e))"

lemma read_escape_length: "read_escape s = Some (u, rest) \<Longrightarrow> length rest < length s"
  by (auto simp: read_escape_def split: list.splits if_splits option.splits)

text \<open>The rest of a string after its opening quote.\<close>

function read_string :: "string \<Rightarrow> (string \<times> string) option" where
  "read_string [] = None"
| "read_string (c # cs) =
     (if c = CHR 0x22 then Some ([], cs)
      else if c = CHR 0x5C then
        (case read_escape cs of None \<Rightarrow> None | Some (u, rest) \<Rightarrow> cons_fst u (read_string rest))
      else if (of_char c :: nat) < 32 then None
      else cons_fst c (read_string cs))"
  by pat_completeness auto
termination
  by (relation "measure length") (auto dest: read_escape_length)

definition skip_ws :: "string \<Rightarrow> string" where
  "skip_ws s = dropWhile (\<lambda>c. (of_char c :: nat) \<in> {32, 9, 10, 13}) s"

definition strip_prefix :: "string \<Rightarrow> string \<Rightarrow> string option" where
  "strip_prefix p s = (if take (length p) s = p then Some (drop (length p) s) else None)"

definition eat :: "char \<Rightarrow> string \<Rightarrow> string option" where
  "eat c s = (case skip_ws s of [] \<Rightarrow> None | x # xs \<Rightarrow> if x = c then Some xs else None)"

text \<open>The fuel bounds the nesting; the length of the text is enough.\<close>

fun read_value :: "nat \<Rightarrow> string \<Rightarrow> (json \<times> string) option"
  and read_items :: "nat \<Rightarrow> string \<Rightarrow> (json list \<times> string) option"
  and read_members :: "nat \<Rightarrow> string \<Rightarrow> ((string \<times> json) list \<times> string) option" where
  "read_value 0 s = None"
| "read_value (Suc n) s = (case skip_ws s of
     [] \<Rightarrow> None
   | c # cs \<Rightarrow>
       if c = CHR ''{''
       then (case eat (CHR ''}'') cs of
               Some rest \<Rightarrow> Some (JObj [], rest)
             | None \<Rightarrow> map_option (\<lambda>(ms, rest). (JObj ms, rest)) (read_members n cs))
       else if c = CHR ''[''
       then (case eat (CHR '']'') cs of
               Some rest \<Rightarrow> Some (JArr [], rest)
             | None \<Rightarrow> map_option (\<lambda>(xs, rest). (JArr xs, rest)) (read_items n cs))
       else if c = CHR 0x22 then map_option (\<lambda>(t, rest). (JStr t, rest)) (read_string cs)
       else if number_char c
       then map_option (\<lambda>v. (v, dropWhile number_char (c # cs)))
              (read_number (takeWhile number_char (c # cs)))
       else (case strip_prefix ''null'' (c # cs) of Some rest \<Rightarrow> Some (JNull, rest)
             | None \<Rightarrow> (case strip_prefix ''true'' (c # cs) of Some rest \<Rightarrow> Some (JBool True, rest)
             | None \<Rightarrow> map_option (\<lambda>rest. (JBool False, rest)) (strip_prefix ''false'' (c # cs)))))"
| "read_items 0 s = None"
| "read_items (Suc n) s = Option.bind (read_value n s) (\<lambda>(v, rest).
     case eat (CHR '']'') rest of
       Some rest' \<Rightarrow> Some ([v], rest')
     | None \<Rightarrow> Option.bind (eat (CHR '','') rest) (\<lambda>rest'. cons_fst v (read_items n rest')))"
| "read_members 0 s = None"
| "read_members (Suc n) s =
     Option.bind (eat (CHR 0x22) s) (\<lambda>cs.
     Option.bind (read_string cs) (\<lambda>(k, rest).
     Option.bind (eat (CHR '':'') rest) (\<lambda>rest1.
     Option.bind (read_value n rest1) (\<lambda>(v, rest2).
     case eat (CHR ''}'') rest2 of
       Some rest3 \<Rightarrow> Some ([(k, v)], rest3)
     | None \<Rightarrow> Option.bind (eat (CHR '','') rest2) (\<lambda>rest3. cons_fst (k, v) (read_members n rest3))))))"

definition json_loads :: "string \<Rightarrow> json option" where
  "json_loads s = (case read_value (Suc (length s)) s of
     Some (v, rest) \<Rightarrow> if skip_ws rest = [] then Some v else None | None \<Rightarrow> None)"

section \<open>Reading back numbers and strings\<close>

lemma digit_value_char [simp]: "n < 10 \<Longrightarrow> digit_value (char_of (48 + n)) = Some n"
  by (simp add: digit_value_def)

lemma read_nat_append: "read_nat acc (xs @ ys) = Option.bind (read_nat acc xs) (\<lambda>a. read_nat a ys)"
  by (induction xs arbitrary: acc) (auto split: option.splits)

lemma read_nat_string_of_nat: "read_nat 0 (string_of_nat n) = Some n"
proof (induction n rule: string_of_nat.induct)
  case (1 n)
  then show ?case
    by (subst string_of_nat.simps) (auto simp: read_nat_append)
qed

lemma string_of_nat_head:
  "string_of_nat n \<noteq> [] \<and> (length (string_of_nat n) > 1 \<longrightarrow> hd (string_of_nat n) \<noteq> CHR ''0'')
   \<and> (0 < n \<longrightarrow> hd (string_of_nat n) \<noteq> CHR ''0'') \<and> hd (string_of_nat n) \<noteq> CHR ''-''"
proof (induction n rule: string_of_nat.induct)
  case (1 n)
  have digit: "(char_of (48 + m) = CHR ''0'') = (m = 0) \<and> char_of (48 + m) \<noteq> CHR ''-''"
    if "m < 10" for m :: nat
  proof -
    have "(char_of (48 + m) = c) = (48 + m = of_char c)" for c
      using that of_char_eq_iff [of "char_of (48 + m)" c, where 'a = nat] by simp
    from this [of "CHR ''0''"] this [of "CHR ''-''"] show ?thesis by simp
  qed
  show ?case
  proof (cases "n < 10")
    case True
    then show ?thesis using digit [of n] by (simp add: string_of_nat.simps [of n])
  next
    case False
    then have "n div 10 > 0" by simp
    with 1 [OF False] False show ?thesis by (simp add: string_of_nat.simps [of n])
  qed
qed

lemma read_digits_string_of_nat: "read_digits (string_of_nat n) = Some n"
  using string_of_nat_head [of n] by (auto simp: read_digits_def read_nat_string_of_nat)

lemma read_int_string_of_int: "read_int (string_of_int i) = Some i"
proof (cases "i < 0")
  case False
  obtain c cs where "string_of_nat (nat i) = c # cs" "c \<noteq> CHR ''-''"
    using string_of_nat_head [of "nat i"] by (cases "string_of_nat (nat i)") auto
  then show ?thesis
    using False read_digits_string_of_nat [of "nat i"] by (simp add: string_of_int_def read_int_def)
qed (simp add: string_of_int_def read_int_def read_digits_string_of_nat)

lemma hex_digit_value: "d < 16 \<Longrightarrow> hex_value (hex_digit d) = Some d"
  by (auto simp: hex_digit_def hex_value_def Let_def)

lemma of_char_less: "(of_char (c :: char) :: nat) < 256"
  using nat_of_char_less_256 by simp

lemma hex_escape:
  "read_escape (CHR ''u'' # CHR ''0'' # CHR ''0'' # hex_digit (of_char c div 16) # hex_digit (of_char c mod 16) # s)
   = Some (c, s)"
proof -
  have "(of_char c :: nat) div 16 < 16" using of_char_less [of c] by presburger
  then show ?thesis by (simp add: read_escape_def hex_digit_value)
qed

lemma char_code: "(of_char c :: nat) = n \<Longrightarrow> c = char_of n"
  by (metis char_of_char)

lemma read_string_escape: "read_string (escape_char c @ s) = cons_fst c (read_string s)"
proof (cases "c \<in> {CHR 0x22, CHR 0x5C, CHR 0x0A, CHR 0x0D, CHR 0x09, CHR 0x0C, CHR 0x08}")
  case True
  then show ?thesis
    by (elim insertE emptyE; simp add: escape_char_def read_escape_def unescape_def char_of_def bit_0)
next
  case False
  have code: "(of_char c :: nat) = n \<longleftrightarrow> c = char_of n" if "n < 256" for n
    using that of_char_eq_iff [of c "char_of n", where 'a = nat] by simp
  have other: "(of_char c :: nat) \<notin> {34, 92, 10, 13, 9, 12, 8}"
    using False by (simp add: code char_of_def bit_0)
  show ?thesis
  proof (cases "32 \<le> (of_char c :: nat) \<and> (of_char c :: nat) \<le> 126")
    case True
    then have "escape_char c = [c]" using other by (simp add: escape_char_def Let_def)
    then show ?thesis using True False by simp
  next
    case no: False
    then have "escape_char c = [CHR 0x5C, CHR ''u'', CHR ''0'', CHR ''0'',
        hex_digit (of_char c div 16), hex_digit (of_char c mod 16)]"
      using other by (simp add: escape_char_def Let_def)
    then show ?thesis by (simp add: hex_escape)
  qed
qed

lemma read_string_print: "read_string (concat (map escape_char s) @ CHR 0x22 # rest) = Some (s, rest)"
  by (induction s) (simp_all add: read_string_escape cons_fst_def)

section \<open>Reading back values\<close>

text \<open>Values whose floats print as a decimal fraction that reads back.\<close>

definition float_ok :: "pylib \<Rightarrow> rat \<Rightarrow> bool" where
  "float_ok L x = (list_all number_char (float_repr L x) \<and> float_repr L x \<noteq> []
     \<and> read_number (float_repr L x) = Some (JFloat x))"

fun floats_ok :: "pylib \<Rightarrow> json \<Rightarrow> bool"
  and floats_ok_list :: "pylib \<Rightarrow> json list \<Rightarrow> bool"
  and floats_ok_members :: "pylib \<Rightarrow> (string \<times> json) list \<Rightarrow> bool" where
  "floats_ok L (JFloat x) = float_ok L x"
| "floats_ok L (JArr xs) = floats_ok_list L xs"
| "floats_ok L (JObj ms) = floats_ok_members L ms"
| "floats_ok L v = True"
| "floats_ok_list L [] = True"
| "floats_ok_list L (x # xs) = (floats_ok L x \<and> floats_ok_list L xs)"
| "floats_ok_members L [] = True"
| "floats_ok_members L ((k, v) # ms) = (floats_ok L v \<and> floats_ok_members L ms)"

definition delimited :: "string \<Rightarrow> bool" where
  "delimited rest = (rest = [] \<or> hd rest \<in> {CHR '','', CHR '']'', CHR ''}''})"

lemma delimited_simps [simp]:
  "delimited []" "delimited (CHR '','' # s)" "delimited (CHR '']'' # s)" "delimited (CHR ''}'' # s)"
  by (simp_all add: delimited_def)

lemma number_span:
  assumes "list_all number_char t" and "delimited rest"
  shows "takeWhile number_char (t @ rest) = t" and "dropWhile number_char (t @ rest) = rest"
proof -
  have "takeWhile number_char rest = []" and "dropWhile number_char rest = rest"
    using assms(2) by (cases rest; auto simp: delimited_def number_char_def chr_in_def)+
  then show "takeWhile number_char (t @ rest) = t" and "dropWhile number_char (t @ rest) = rest"
    using assms(1) by (auto simp: takeWhile_append2 dropWhile_append2 list_all_iff)
qed

lemma number_char_first:
  "number_char c \<Longrightarrow> c \<notin> {CHR ''{'', CHR ''['', CHR 0x22} \<and> (of_char c :: nat) \<notin> {32, 9, 10, 13}"
  by (auto simp: number_char_def chr_in_def)

lemma read_value_number:
  assumes "list_all number_char t" and "t \<noteq> []" and "read_number t = Some v" and "delimited rest"
  shows "read_value (Suc n) (t @ rest) = Some (v, rest)"
proof -
  obtain c cs where t: "t = c # cs" using assms(2) by (cases t) auto
  with assms(1) have c: "number_char c" by simp
  have "skip_ws (t @ rest) = c # cs @ rest"
    using number_char_first [OF c] by (simp add: t skip_ws_def)
  then show ?thesis
    using number_char_first [OF c] number_span [OF assms(1,4)] c assms(3) by (simp add: t)
qed

lemma number_char_digits: "list_all number_char (string_of_nat n)"
proof (induction n rule: string_of_nat.induct)
  case (1 n)
  have d: "number_char (char_of (48 + m))" if "m < 10" for m :: nat
  proof -
    have "m \<in> {0, 1, 2, 3, 4, 5, 6, 7, 8, 9}" using that by auto
    then show ?thesis by (elim insertE emptyE; simp add: number_char_def chr_in_def char_of_def bit_0)
  qed
  show ?case
    using 1 d [of n] d [of "n mod 10"]
    by (cases "n < 10") (simp_all add: string_of_nat.simps [of n])
qed

lemma read_int_value:
  "delimited rest \<Longrightarrow> read_value (Suc n) (string_of_int i @ rest) = Some (JInt i, rest)"
proof (rule read_value_number)
  show "list_all number_char (string_of_int i)"
    using number_char_digits by (auto simp: string_of_int_def number_char_def chr_in_def)
  show "string_of_int i \<noteq> []"
    using string_of_nat_head by (simp add: string_of_int_def)
  have "CHR ''.'' \<notin> set (string_of_nat k)" for k
  proof (induction k rule: string_of_nat.induct)
    case (1 k)
    have "char_of (48 + m) \<noteq> CHR ''.''" if "m < 10" for m :: nat
      using that of_char_eq_iff [of "char_of (48 + m)" "CHR ''.''", where 'a = nat] by simp
    from this [of k] this [of "k mod 10"] 1 show ?case
      by (cases "k < 10") (simp_all add: string_of_nat.simps [of k] eq_commute [of "CHR ''.''"])
  qed
  then show "read_number (string_of_int i) = Some (JInt i)"
    using read_int_string_of_int [of i]
    by (auto simp: read_number_def chr_in_def string_of_int_def split: if_splits)
qed simp

lemma skip_ws_id: "s = [] \<or> (of_char (hd s) :: nat) \<notin> {32, 9, 10, 13} \<Longrightarrow> skip_ws s = s"
  by (cases s) (auto simp: skip_ws_def)

lemma skip_ws_simps [simp]:
  "skip_ws [] = []" "skip_ws (CHR '','' # s) = CHR '','' # s" "skip_ws (CHR '']'' # s) = CHR '']'' # s"
  "skip_ws (CHR ''}'' # s) = CHR ''}'' # s" "skip_ws (CHR '':'' # s) = CHR '':'' # s"
  "skip_ws (CHR 0x22 # s) = CHR 0x22 # s" "skip_ws (CHR ''{'' # s) = CHR ''{'' # s"
  "skip_ws (CHR ''['' # s) = CHR ''['' # s"
  by (simp_all add: skip_ws_def)

lemma eat_simps [simp]:
  "eat (CHR '']'') (CHR '']'' # s) = Some s" "eat (CHR '']'') (CHR '','' # s) = None"
  "eat (CHR ''}'') (CHR ''}'' # s) = Some s" "eat (CHR ''}'') (CHR '','' # s) = None"
  "eat (CHR '','') (CHR '','' # s) = Some s" "eat (CHR '':'') (CHR '':'' # s) = Some s"
  "eat (CHR 0x22) (CHR 0x22 # s) = Some s" "eat (CHR ''}'') (CHR 0x22 # s) = None"
  by (simp_all add: eat_def)

lemma read_atoms:
  "read_value (Suc n) (''null'' @ rest) = Some (JNull, rest)"
  "read_value (Suc n) (''true'' @ rest) = Some (JBool True, rest)"
  "read_value (Suc n) (''false'' @ rest) = Some (JBool False, rest)"
  "read_value (Suc n) (print_string s @ rest) = Some (JStr s, rest)"
  by (simp_all add: skip_ws_def number_char_def chr_in_def strip_prefix_def print_string_def
      read_string_print [of s rest, simplified])

lemma print_head:
  assumes "floats_ok L v"
  obtains c cs where "print_json L v = c # cs" and "(of_char c :: nat) \<notin> {32, 9, 10, 13}"
    and "c \<noteq> CHR '']''" and "c \<noteq> CHR ''}''"
proof (cases v)
  case (JInt i)
  have "list_all number_char (string_of_int i)" "string_of_int i \<noteq> []"
    using number_char_digits string_of_nat_head
    by (auto simp: string_of_int_def number_char_def chr_in_def)
  then obtain c cs where "string_of_int i = c # cs" "number_char c" by (cases "string_of_int i") auto
  with JInt show thesis by (intro that [of c cs]) (auto simp: number_char_def chr_in_def)
next
  case (JFloat x)
  then obtain c cs where "float_repr L x = c # cs" "number_char c"
    using assms by (cases "float_repr L x") (auto simp: float_ok_def)
  with JFloat show thesis by (intro that [of c cs]) (auto simp: number_char_def chr_in_def)
next
  case (JBool b)
  then show thesis by (cases b) (auto intro: that)
qed (auto intro: that simp: print_string_def)

lemma join_Cons:
  "join sep (x # xs) = (if xs = [] then x else x @ sep @ join sep xs)"
  by (cases xs) auto

lemma print_list_Nil [simp]: "print_list L xs = [] \<longleftrightarrow> xs = []"
  by (cases xs) auto

lemma print_members_Nil [simp]: "print_members L ms = [] \<longleftrightarrow> ms = []"
  by (cases ms) auto

lemma read_print:
  "floats_ok L v \<Longrightarrow> delimited rest \<Longrightarrow> length (print_json L v) \<le> n \<Longrightarrow>
     read_value n (print_json L v @ rest) = Some (v, rest)"
  "floats_ok_list L xs \<Longrightarrow> xs \<noteq> [] \<Longrightarrow> length (join '','' (print_list L xs)) < n \<Longrightarrow>
     read_items n (join '','' (print_list L xs) @ CHR '']'' # rest) = Some (xs, rest)"
  "floats_ok_members L ms \<Longrightarrow> ms \<noteq> [] \<Longrightarrow> length (join '','' (print_members L ms)) < n \<Longrightarrow>
     read_members n (join '','' (print_members L ms) @ CHR ''}'' # rest) = Some (ms, rest)"
proof (induction L v and L xs and L ms arbitrary: n rest and n rest and n rest
       rule: print_json_print_list_print_members.induct)
  case (1 L)
  then show ?case by (cases n) (simp_all only: print_json.simps read_atoms, simp)
next
  case (2 L b)
  then show ?case by (cases n; cases b) (simp_all only: print_json.simps if_True if_False read_atoms, simp_all)
next
  case (3 L i)
  moreover have "string_of_int i \<noteq> []" using string_of_nat_head by (simp add: string_of_int_def)
  ultimately show ?case by (cases n) (simp, simp only: print_json.simps read_int_value)
next
  case (4 L x)
  show ?case
  proof (cases n)
    case (Suc m)
    then show ?thesis using 4 by (auto simp: float_ok_def simp del: read_value.simps intro!: read_value_number)
  qed (use 4 in \<open>simp add: float_ok_def\<close>)
next
  case (5 L s)
  then show ?case by (cases n) (simp_all only: print_json.simps read_atoms, simp add: print_string_def)
next
  case (6 L xs)
  show ?case
  proof (cases "xs = []")
    case False
    obtain m where n: "n = Suc m" using 6 by (cases n) auto
    obtain y ys where xs: "xs = y # ys" using False by (cases xs) auto
    have y: "floats_ok L y" using 6(2) xs by simp
    obtain c cs where c: "print_json L y = c # cs" "(of_char c :: nat) \<notin> {32, 9, 10, 13}" "c \<noteq> CHR '']''"
      by (rule print_head [OF y])
    have "read_items m (join '','' (print_list L xs) @ CHR '']'' # rest) = Some (xs, rest)"
      using 6 False n by simp
    then show ?thesis
      using c by (auto simp: n xs join_Cons eat_def skip_ws_id)
  qed (use 6 in \<open>cases n; simp\<close>)
next
  case (7 L ms)
  show ?case
  proof (cases "ms = []")
    case False
    obtain m where n: "n = Suc m" using 7 by (cases n) auto
    obtain k y ys where ms: "ms = (k, y) # ys" using False by (cases ms) auto
    have "read_members m (join '','' (print_members L ms) @ CHR ''}'' # rest) = Some (ms, rest)"
      using 7 False n by simp
    then show ?thesis
      by (auto simp: n ms join_Cons print_string_def)
  qed (use 7 in \<open>cases n; simp\<close>)
next
  case (9 L x xs)
  obtain m where n: "n = Suc m" using 9 by (cases n) auto
  show ?case
  proof (cases "xs = []")
    case True
    then show ?thesis using 9(1) [of "CHR '']'' # rest" m] 9(3-5) n by simp
  next
    case False
    have "length (print_json L x) \<le> m" "length (join '','' (print_list L xs)) < m"
      using 9(5) n False by (auto simp: join_Cons)
    then show ?thesis
      using 9(1) [of "CHR '','' # join '','' (print_list L xs) @ CHR '']'' # rest" m]
        9(2) [of m rest] 9(3) n False by (simp add: join_Cons cons_fst_def)
  qed
next
  case (11 L k v ms)
  obtain m where n: "n = Suc m" using 11 by (cases n) auto
  show ?case
  proof (cases "ms = []")
    case True
    then show ?thesis
      using 11(1) [of "CHR ''}'' # rest" m] 11(3-5) n
      by (simp add: print_string_def read_string_print)
  next
    case False
    have "length (print_json L v) \<le> m" "length (join '','' (print_members L ms)) < m"
      using 11(5) n False by (auto simp: join_Cons)
    then show ?thesis
      using 11(1) [of "CHR '','' # join '','' (print_members L ms) @ CHR ''}'' # rest" m]
        11(2) [of m rest] 11(3) n False
      by (simp add: join_Cons cons_fst_def print_string_def read_string_print)
  qed
qed simp_all

lemma json_loads_print: "floats_ok L v \<Longrightarrow> json_loads (print_json L v) = Some v"
  using read_print(1) [of L v "[]" "Suc (length (print_json L v))"] by (simp add: json_loads_def)

lemma floats_ok_list_all: "floats_ok_list L xs \<longleftrightarrow> (\<forall>x \<in> set xs. floats_ok L x)"
  by (induction xs) auto

lemma floats_ok_members_all: "floats_ok_members L ms \<longleftrightarrow> (\<forall>m \<in> set ms. floats_ok L (snd m))"
  by (induction ms) auto

lemma floats_ok_sort_keys [simp]:
  "floats_ok L (sort_keys v) = floats_ok L v"
  "floats_ok_list L (sort_keys_list xs) = floats_ok_list L xs"
  "floats_ok_members L (sort_keys_members ms) = floats_ok_members L ms"
proof (induction v and xs and ms rule: sort_keys_sort_keys_list_sort_keys_members.induct)
  case (2 ms)
  have "floats_ok_members L (sort_key fst (sort_keys_members ms)) = floats_ok_members L (sort_keys_members ms)"
    by (simp add: floats_ok_members_all)
  with 2 show ?case by simp
qed simp_all

lemma sort_keys_members_map: "sort_keys_members ms = map (\<lambda>(k, v). (k, sort_keys v)) ms"
  by (induction ms) auto

lemma sort_key_map_values:
  "sort_key fst (map (\<lambda>(k, v). (k, g v)) ms) = map (\<lambda>(k, v). (k, g v)) (sort_key fst ms)"
proof -
  have ins: "insort_key fst (k, g v) (map (\<lambda>(k, v). (k, g v)) xs)
        = map (\<lambda>(k, v). (k, g v)) (insort_key fst (k, v) xs)" for k v xs
    by (induction xs) auto
  show ?thesis by (induction ms) (auto simp: ins)
qed

lemma sort_keys_idem [simp]:
  "sort_keys (sort_keys v) = sort_keys v"
  "sort_keys_list (sort_keys_list xs) = sort_keys_list xs"
  "sort_keys_members (sort_keys_members ms) = sort_keys_members ms"
proof (induction v and xs and ms rule: sort_keys_sort_keys_list_sort_keys_members.induct)
  case (2 ms)
  have "sort_keys_members (sort_key fst xs) = sort_key fst (sort_keys_members xs)" for xs
    by (simp only: sort_keys_members_map sort_key_map_values)
  then have "sort_keys_members (sort_key fst (sort_keys_members ms)) = sort_key fst (sort_keys_members ms)"
    using 2 by simp
  then show ?case by (simp add: sort_key_id_if_sorted)
qed simp_all

text \<open>The law of the standard library: \<open>json.loads\<close> returns what \<open>json.dumps\<close> printed.\<close>

definition loads_canonical :: "pylib \<Rightarrow> bool" where
  "loads_canonical L \<longleftrightarrow> (\<forall>v. floats_ok L v \<longrightarrow> loads L (canonical_json L v) = Some (sort_keys v))"

lemma json_loads_canonical: "loads L = json_loads \<Longrightarrow> loads_canonical L"
  by (simp add: loads_canonical_def canonical_json_def json_loads_print)

lemma canonical_json_inj:
  assumes "floats_ok L v" and "floats_ok L w" and "canonical_json L v = canonical_json L w"
  shows "sort_keys v = sort_keys w"
proof -
  have "json_loads (canonical_json L v) = Some (sort_keys v)"
    and "json_loads (canonical_json L w) = Some (sort_keys w)"
    using assms(1,2) by (simp_all add: canonical_json_def json_loads_print)
  with assms(3) show ?thesis by simp
qed

section \<open>A concrete library\<close>

text \<open>Floats with one decimal, an injective stand-in for the digest, and an injective text
  for instants.\<close>

definition sample_float_repr :: "rat \<Rightarrow> string" where
  "sample_float_repr x = (let n = \<lfloor>x * 10\<rfloor> in
     string_of_int (n div 10) @ ''.'' @ string_of_nat (nat (n mod 10)))"

definition sample_lib :: pylib where
  "sample_lib = \<lparr>float_repr = sample_float_repr, loads = json_loads, loads_pairs = json_loads,
     sha256_hex = (\<lambda>s. ''sha256:'' @ s), isoformat = string_of_int,
     fromisoformat = (\<lambda>s. map_option Aware (read_int s))\<rparr>"

lemma sample_lib_laws [simp]: "loads_canonical sample_lib" "iso_roundtrip sample_lib"
  by (rule json_loads_canonical)
     (simp_all add: sample_lib_def iso_roundtrip_def read_int_string_of_int)

end
