(* ===== verification/GraphStoreProps.thy ===== *)
theory GraphStoreProps
  imports GraphStore JsonText
begin

text \<open>
  The persisted scheduler: \<open>transition_graph_node\<close> refines \<open>GraphState.transition\<close>. The order of the
  derived writes exists because the graph is acyclic, every conditional update hits exactly one row,
  and the state read back is the state computed, so the defensive branches of the code are dead.
\<close>

section \<open>Graphs read back\<close>

definition built_graph :: "WorkflowGraph \<Rightarrow> bool" where
  "built_graph g \<longleftrightarrow> graph_ok g
     \<and> (\<forall>n \<in> set (graph_nodes g). GraphNode_post_init n = Inr () \<and> packet_ok (node_packet n))"

lemma to_dict_sorted [simp]: "sort_keys (to_dict L p) = to_dict L p"
  by (simp add: to_dict_def)

lemma dec_all_strs: "dec_all dec_str (map JStr xs) = Some xs"
  by (induction xs) auto

lemma dec_node_dict:
  assumes "iso_roundtrip L" and "GraphNode_post_init n = Inr ()" and "packet_ok (node_packet n)"
  shows "dec_node L (node_to_dict L n) = Some n" and "dec_node L (sort_keys (node_to_dict L n)) = Some n"
proof -
  have p: "dec_packet L (to_dict L (node_packet n)) = Some (node_packet n)"
    using from_dict_to_dict [OF assms(1,3)] by (simp add: dec_packet_def)
  have s: "sort_keys_list (map JStr (depends_on n)) = map JStr (depends_on n)"
    by (simp add: sort_keys_list_map)
  show "dec_node L (node_to_dict L n) = Some n"
    using assms(2) p by (cases n) (simp add: dec_node_def node_to_dict_def kw_def dec_all_strs)
  show "dec_node L (sort_keys (node_to_dict L n)) = Some n"
    using assms(2) p s
    by (cases n) (simp add: dec_node_def node_to_dict_def kw_def map_of_sorted dec_all_strs)
qed

lemma graph_roundtrip:
  assumes "iso_roundtrip L" and "built_graph g"
  shows "graph_from_dict L (graph_to_dict L g) = Inr g"
    and "graph_from_dict L (sort_keys (graph_to_dict L g)) = Inr g"
proof -
  have n: "GraphNode_post_init n = Inr () \<and> packet_ok (node_packet n)" if "n \<in> set (graph_nodes g)" for n
    using assms(2) that by (simp add: built_graph_def)
  have d: "dec_all (dec_node L) (map (node_to_dict L) (graph_nodes g)) = Some (graph_nodes g)"
    using dec_node_dict(1) [OF assms(1)] n by (intro dec_all_map) blast
  have "dec_all (dec_node L) (map (sort_keys \<circ> node_to_dict L) (graph_nodes g)) = Some (graph_nodes g)"
    using dec_node_dict(2) [OF assms(1)] n by (intro dec_all_map) (simp add: comp_def)
  then have s: "dec_nodes L (JArr (sort_keys_list (map (node_to_dict L) (graph_nodes g)))) = Some (graph_nodes g)"
    by (simp add: sort_keys_list_map)
  have ok: "WorkflowGraph_post_init \<lparr>graph_nodes = graph_nodes g, graph_schema_version = graph_schema_version g\<rparr> = Inr ()"
    using assms(2) by (cases g) (simp add: built_graph_def graph_ok_def)
  show "graph_from_dict L (graph_to_dict L g) = Inr g"
    using d ok by (simp add: graph_from_dict_def graph_to_dict_def keys_are_def keys_within_def kw_def)
  have c: "canonical_json L (sort_keys v) = canonical_json L v" for v
    by (simp add: canonical_json_def)
  show "graph_from_dict L (sort_keys (graph_to_dict L g)) = Inr g"
    unfolding graph_from_dict_def c
    using s ok
    by (simp add: graph_to_dict_def keys_are_def kw_def map_of_sorted keys_within_def list_all_iff
        del: dec_nodes.simps)
qed

lemma graph_from_dict_ok: "graph_from_dict L v = Inr g \<Longrightarrow> graph_ok g"
  by (auto simp: graph_from_dict_def graph_ok_def Let_def bind_eq_Some_conv
           split: option.splits if_splits)

section \<open>The order of derived changes\<close>

lemma order_pending_ok:
  assumes "wf (edges deps (set pending))" and "set pending \<subseteq> set ids" and "distinct pending" and "distinct ids"
  shows "\<exists>xs. order_pending deps ids pending = Inr xs \<and> set xs = set pending \<and> distinct xs
    \<and> (\<forall>us i vs. xs = us @ i # vs \<longrightarrow> set (deps i) \<inter> set pending \<subseteq> set us)"
  using assms
proof (induction deps ids pending rule: order_pending.induct)
  case (1 deps ids pending)
  let ?el = "eligible_nodes deps ids pending"
  let ?rest = "filter (\<lambda>i. i \<notin> set ?el) pending"
  show ?case
  proof (cases "pending = []")
    case False
    have el: "set ?el = {i \<in> set pending. \<forall>d \<in> set (deps i). d \<notin> set pending}"
      using 1(3) by (auto simp: eligible_nodes_def list_ex_iff)
    obtain i where "i \<in> set pending" "\<And>d. (d, i) \<in> edges deps (set pending) \<Longrightarrow> d \<notin> set pending"
      using wfE_min [OF 1(2), of "hd pending" "set pending"] False by auto
    then have "i \<in> set ?el" unfolding el edges_def by blast
    then have ne: "?el \<noteq> []" by (cases ?el) auto
    have "edges deps (set ?rest) \<subseteq> edges deps (set pending)" by (auto simp: edges_def)
    then have "wf (edges deps (set ?rest))" using 1(2) wf_subset by blast
    moreover have "set ?rest \<subseteq> set ids" "distinct ?rest" using 1(3,4) by auto
    ultimately obtain xs where xs: "order_pending deps ids ?rest = Inr xs" "set xs = set ?rest" "distinct xs"
        "\<forall>us i vs. xs = us @ i # vs \<longrightarrow> set (deps i) \<inter> set ?rest \<subseteq> set us"
      using 1(1) [OF False refl ne _ _ _ 1(5)] by blast
    have eq: "order_pending deps ids pending = Inr (?el @ xs)"
      using False ne xs(1) by (simp add: order_pending.simps [of deps ids pending])
    have "distinct (?el @ xs)"
      using xs(2,3) 1(5) by (auto simp: eligible_nodes_def)
    moreover have "set (?el @ xs) = set pending" using xs(2) el by auto
    moreover have "set (deps i) \<inter> set pending \<subseteq> set us" if split: "?el @ xs = us @ i # vs" for us i vs
    proof (cases "i \<in> set ?el")
      case True
      then show ?thesis using el by auto
    next
      case False
      then obtain us' where us: "us = ?el @ us'" "xs = us' @ i # vs"
        using split by (auto simp: append_eq_append_conv2 append_eq_Cons_conv)
      then have "set (deps i) \<inter> set ?rest \<subseteq> set us'" using xs(4) by blast
      then show ?thesis using us(1) by auto
    qed
    ultimately show ?thesis using eq by blast
  qed (simp add: order_pending.simps)
qed

section \<open>Rows and entries\<close>

definition entries :: "string \<Rightarrow> string \<Rightarrow> db \<Rightarrow> (string \<times> NodeState) list" where
  "entries t g d = map (\<lambda>r. (nr_node_id r, nr_state r)) (graph_node_rows t g d)"

definition node_key :: "node_row \<Rightarrow> string \<times> string" where
  "node_key r = (nr_graph_id r, nr_node_id r)"

abbreviation nodes_distinct :: "db \<Rightarrow> bool" where
  "nodes_distinct d \<equiv> distinct (map node_key (workflow_graph_nodes d))"

lemma sort_key_map_keys:
  assumes "\<And>x. k (f x) = k x"
  shows "sort_key k (map f xs) = map f (sort_key k xs)"
proof -
  have "insort_key k (f x) (map f ys) = map f (insort_key k x ys)" for x ys
    by (induction ys) (auto simp: assms)
  then show ?thesis by (induction xs) (auto simp: assms)
qed

definition keeps_key :: "(node_row \<Rightarrow> node_row) \<Rightarrow> bool" where
  "keeps_key f \<longleftrightarrow> (\<forall>r. nr_tenant (f r) = nr_tenant r \<and> nr_graph_id (f r) = nr_graph_id r
                        \<and> nr_node_id (f r) = nr_node_id r)"

lemma graph_node_rows_update:
  assumes "keeps_key f" and "workflow_graph_nodes d' = update_where P f (workflow_graph_nodes d)"
  shows "graph_node_rows t g d' = update_where P f (graph_node_rows t g d)"
proof -
  let ?u = "\<lambda>r. if P r then f r else r"
  have "filter (\<lambda>r. nr_tenant r = t \<and> nr_graph_id r = g) (map ?u rows)
        = map ?u (filter (\<lambda>r. nr_tenant r = t \<and> nr_graph_id r = g) rows)" for rows
    using assms(1) by (induction rows) (auto simp: keeps_key_def)
  then show ?thesis
    unfolding graph_node_rows_def assms(2) update_where_def
    using assms(1) by (subst sort_key_map_keys [symmetric]) (auto simp: keeps_key_def)
qed

lemma node_keys_update:
  assumes "keeps_key f" and "workflow_graph_nodes d' = update_where P f (workflow_graph_nodes d)"
  shows "map node_key (workflow_graph_nodes d') = map node_key (workflow_graph_nodes d)"
  unfolding assms(2) by (rule map_update_where) (use assms(1) in \<open>simp add: keeps_key_def node_key_def\<close>)

lemma in_graph_node_rows:
  "r \<in> set (graph_node_rows t g d) \<longleftrightarrow> r \<in> set (workflow_graph_nodes d) \<and> nr_tenant r = t \<and> nr_graph_id r = g"
  by (auto simp: graph_node_rows_def)

lemma node_unique:
  assumes "nodes_distinct d" and "r \<in> set (workflow_graph_nodes d)" and "r' \<in> set (workflow_graph_nodes d)"
    and "nr_graph_id r = nr_graph_id r'" and "nr_node_id r = nr_node_id r'"
  shows "r = r'"
  using distinct_map_eq [OF assms(1-3)] assms(4,5) by (simp add: node_key_def)

lemma entries_keys_distinct: "nodes_distinct d \<Longrightarrow> distinct (map fst (entries t g d))"
proof -
  assume d: "nodes_distinct d"
  have "distinct (map node_key (filter (\<lambda>r. nr_tenant r = t \<and> nr_graph_id r = g) (workflow_graph_nodes d)))"
    using d by (rule distinct_map_filter)
  then have "inj_on node_key (set (graph_node_rows t g d))" "distinct (graph_node_rows t g d)"
    by (auto simp: graph_node_rows_def distinct_map)
  then show ?thesis
    by (auto simp: entries_def comp_def distinct_map inj_on_def node_key_def in_graph_node_rows)
qed

lemma find_node_iff:
  assumes "nodes_distinct d"
  shows "find_node t g n d = Some r \<longleftrightarrow> r \<in> set (workflow_graph_nodes d) \<and> node_is t g n r"
  unfolding find_node_def
  by (rule find_Some_iff_unique) (use node_unique [OF assms] in \<open>auto simp: node_is_def\<close>)

lemma entry_find_node:
  assumes "nodes_distinct d"
  shows "map_of (entries t g d) n = map_option nr_state (find_node t g n d)"
proof (cases "find_node t g n d")
  case None
  then have "n \<notin> fst ` set (entries t g d)"
    by (auto simp: find_node_def find_None entries_def in_graph_node_rows node_is_def)
  then show ?thesis using None by (simp add: map_of_eq_None_iff)
next
  case (Some r)
  then have "(n, nr_state r) \<in> set (entries t g d)"
    using find_node_iff [OF assms] by (auto simp: entries_def in_graph_node_rows node_is_def image_iff)
  then show ?thesis
    using Some entries_keys_distinct [OF assms] by (simp add: map_of_is_SomeI)
qed

lemma node_hit_unique:
  assumes "nodes_distinct d" and "find_node t g n d = Some r" and "x \<in> set (workflow_graph_nodes d)"
  shows "node_is t g n x \<longleftrightarrow> x = r"
  using assms find_node_iff [OF assms(1)] node_unique [OF assms(1)] by (auto simp: node_is_def)

section \<open>Writing the changes\<close>

definition set_state :: "string \<Rightarrow> string \<Rightarrow> string \<Rightarrow> NodeState \<Rightarrow> db \<Rightarrow> db" where
  "set_state t g n new d = graph_event t g n new
     (d\<lparr>workflow_graph_nodes := update_where (node_is t g n) (\<lambda>r. r\<lparr>nr_state := new\<rparr>) (workflow_graph_nodes d)\<rparr>)"

lemma set_state_nodes:
  "workflow_graph_nodes (set_state t g n new d)
     = update_where (node_is t g n) (\<lambda>r. r\<lparr>nr_state := new\<rparr>) (workflow_graph_nodes d)"
  by (simp add: set_state_def graph_event_def)

lemma keeps_key_state [simp]: "keeps_key (\<lambda>r. r\<lparr>nr_state := st\<rparr>)"
  by (simp add: keeps_key_def)

lemma set_state_tables [simp]:
  "workflow_graphs (set_state t g n new d) = workflow_graphs d"
  "workflow_graph_budgets (set_state t g n new d) = workflow_graph_budgets d"
  "workflow_graph_artifacts (set_state t g n new d) = workflow_graph_artifacts d"
  "map node_key (workflow_graph_nodes (set_state t g n new d)) = map node_key (workflow_graph_nodes d)"
  by (simp_all add: set_state_def graph_event_def node_keys_update [OF keeps_key_state set_state_nodes, unfolded set_state_def graph_event_def, simplified])

lemma entries_set_state:
  "entries t' g' (set_state t g n new d) =
     map (\<lambda>(i, st). (i, if (t', g', i) = (t, g, n) then new else st)) (entries t' g' d)"
  using graph_node_rows_update [OF keeps_key_state set_state_nodes, of t' g' t g n new d]
  by (auto simp: entries_def update_where_def in_graph_node_rows node_is_def)

lemma write_change_eq:
  assumes "nodes_distinct d" and "map_of (entries t g d) n = Some old"
    and "before n = Some old" and "later n = Some new"
  shows "write_change t g before later n d = Inr (set_state t g n new d)"
proof -
  obtain r where r: "find_node t g n d = Some r" "nr_state r = old"
    using assms(2) entry_find_node [OF assms(1)] by auto
  note hit = node_hit_unique [OF assms(1) r(1)]
  have rin: "r \<in> set (workflow_graph_nodes d)" using find_node_iff [OF assms(1)] r(1) by blast
  have same: "node_is t g n x \<and> nr_state x = old \<longleftrightarrow> node_is t g n x"
    if "x \<in> set (workflow_graph_nodes d)" for x using hit [OF that] r(2) by auto
  have "distinct (workflow_graph_nodes d)" using assms(1) by (simp add: distinct_map)
  then have "length (filter (\<lambda>x. x = r) (workflow_graph_nodes d)) = 1"
    using rin by (simp add: distinct_length_filter Int_absorb2 insert_absorb)
  moreover have "filter (\<lambda>x. node_is t g n x \<and> nr_state x = old) (workflow_graph_nodes d)
      = filter (\<lambda>x. x = r) (workflow_graph_nodes d)"
    by (rule filter_cong) (use hit r(2) in auto)
  moreover have "update_where (\<lambda>x. node_is t g n x \<and> nr_state x = old) (\<lambda>x. x\<lparr>nr_state := new\<rparr>) (workflow_graph_nodes d)
      = update_where (node_is t g n) (\<lambda>x. x\<lparr>nr_state := new\<rparr>) (workflow_graph_nodes d)"
    unfolding update_where_def by (rule map_cong) (use same in auto)
  ultimately show ?thesis using assms(3,4) by (simp add: write_change_def set_state_def Let_def)
qed

definition set_states :: "string \<Rightarrow> string \<Rightarrow> node_map \<Rightarrow> string list \<Rightarrow> db \<Rightarrow> db" where
  "set_states t g later xs d = fold (\<lambda>n. set_state t g n (the (later n))) xs d"

lemma set_states_tables [simp]:
  "workflow_graphs (set_states t g later xs d) = workflow_graphs d"
  "workflow_graph_budgets (set_states t g later xs d) = workflow_graph_budgets d"
  "workflow_graph_artifacts (set_states t g later xs d) = workflow_graph_artifacts d"
  "map node_key (workflow_graph_nodes (set_states t g later xs d)) = map node_key (workflow_graph_nodes d)"
  unfolding set_states_def by (induction xs arbitrary: d) simp_all

lemma entries_set_states:
  "entries t' g' (set_states t g later xs d) =
     map (\<lambda>(i, st). (i, if (t', g') = (t, g) \<and> i \<in> set xs then the (later i) else st)) (entries t' g' d)"
proof (induction xs arbitrary: d)
  case (Cons n xs)
  have "set_states t g later (n # xs) d = set_states t g later xs (set_state t g n (the (later n)) d)"
    by (simp add: set_states_def)
  then show ?case by (auto simp: Cons entries_set_state)
qed (simp add: set_states_def)

lemma write_changes_eq:
  assumes "nodes_distinct d" and "distinct xs"
    and "\<forall>n \<in> set xs. before n \<noteq> None \<and> later n \<noteq> None \<and> map_of (entries t g d) n = before n"
  shows "foldM (write_change t g before later) xs d = Inr (set_states t g later xs d)"
  using assms
proof (induction xs arbitrary: d)
  case (Cons n xs)
  obtain old new where on: "before n = Some old" "later n = Some new" "map_of (entries t g d) n = Some old"
    using Cons.prems(3) by fastforce
  let ?d = "set_state t g n new d"
  have same: "map_of (entries t g ?d) m = map_of (entries t g d) m" if "m \<noteq> n" for m
  proof -
    have "map_of (map (\<lambda>(i, st). (i, if i = n then new else st)) es) m = map_of es m" for es
      using that by (induction es) auto
    then show ?thesis by (simp add: entries_set_state)
  qed
  have "foldM (write_change t g before later) xs ?d = Inr (set_states t g later xs ?d)"
  proof (intro Cons.IH ballI)
    fix m assume m: "m \<in> set xs"
    then have "m \<noteq> n" using Cons.prems(2) by auto
    then show "before m \<noteq> None \<and> later m \<noteq> None \<and> map_of (entries t g ?d) m = before m"
      using same Cons.prems(3) m by simp
  qed (use Cons.prems in simp_all)
  then show ?case
    using write_change_eq [of d t g n old before later new] Cons.prems(1) on
    by (simp add: set_states_def)
qed (simp add: set_states_def)

section \<open>The persisted transition refines the scheduler\<close>

lemma pending_wf:
  assumes "graph_ok g" and "set pending \<subseteq> set (identifiers g)"
  shows "wf (edges (dependencies g) (set pending))"
proof -
  have "edges (dependencies g) (set pending) \<subseteq> dependency_relation g"
  proof clarify
    fix d i assume "(d, i) \<in> edges (dependencies g) (set pending)"
    then obtain n where n: "n \<in> set (graph_nodes g)" "i = node_id n" "d \<in> set (dependencies g i)"
      using assms(2) by (auto simp: edges_def identifiers_def)
    then have "d \<in> set (depends_on n)" using dependencies_node [OF graph_okD(1) [OF assms(1)]] by simp
    with n show "(d, i) \<in> dependency_relation g" by (auto simp: dependency_relation_def)
  qed
  then show ?thesis using graph_ok_wf [OF assms(1)] wf_subset by blast
qed

lemma state_ok_entries:
  assumes "state_ok s"
  shows "map fst (node_states s) = identifiers (gs_graph s)" and "distinct (map fst (node_states s))"
  using assms graph_okD(1) by (auto simp: state_ok_iff)

lemma changed_nodes_props:
  assumes "state_ok s" and "state_ok s'" and "gs_graph s' = gs_graph s"
  shows "distinct (changed_nodes s s')" and "set (changed_nodes s s') \<subseteq> set (identifiers (gs_graph s))"
    and "i \<in> set (changed_nodes s s') \<longleftrightarrow> i \<in> set (identifiers (gs_graph s)) \<and> states_of s i \<noteq> states_of s' i"
proof -
  note e = state_ok_entries [OF assms(2)] state_ok_entries [OF assms(1)]
  show "distinct (changed_nodes s s')"
    unfolding changed_nodes_def by (rule distinct_map_filter [OF e(2)])
  have ids: "set (identifiers (gs_graph s)) = fst ` set (node_states s')"
    using e(1) assms(3) by (metis list.set_map)
  then show sub: "set (changed_nodes s s') \<subseteq> set (identifiers (gs_graph s))"
    by (auto simp: changed_nodes_def)
  have "map_of (node_states s') i = Some st" if "(i, st) \<in> set (node_states s')" for i st
    using that e(2) by (simp add: map_of_is_SomeI)
  then show "i \<in> set (changed_nodes s s') \<longleftrightarrow> i \<in> set (identifiers (gs_graph s)) \<and> states_of s i \<noteq> states_of s' i"
    by (force simp: ids changed_nodes_def states_of_def)
qed

lemma states_entries:
  assumes "map fst xs = map fst ys" and "distinct (map fst xs)"
    and "\<And>i. i \<in> fst ` set xs \<Longrightarrow> map_of xs i = map_of ys i"
  shows "xs = ys"
proof -
  have rebuild: "map (\<lambda>i. (i, the (map_of zs i))) (map fst zs) = zs" if "distinct (map fst zs)"
    for zs :: "('a \<times> 'b) list"
  proof -
    have "the (map_of zs (fst e)) = snd e" if "e \<in> set zs" for e
      using that \<open>distinct (map fst zs)\<close> by (metis map_of_is_SomeI option.sel prod.collapse)
    then show ?thesis by (simp add: comp_def map_idI)
  qed
  have "xs = map (\<lambda>i. (i, the (map_of xs i))) (map fst xs)" using rebuild assms(2) by metis
  also have "\<dots> = map (\<lambda>i. (i, the (map_of ys i))) (map fst ys)"
    unfolding assms(1) [symmetric] by (rule map_cong) (use assms(3) in auto)
  also have "\<dots> = ys" using rebuild assms(1,2) by metis
  finally show ?thesis .
qed

definition persisted :: "pylib \<Rightarrow> string \<Rightarrow> string \<Rightarrow> db \<Rightarrow> GraphState \<Rightarrow> bool" where
  "persisted L t g d s \<longleftrightarrow> get_graph_state L t g d = Inr (Some s)"

definition stored_graph :: "pylib \<Rightarrow> string \<Rightarrow> string \<Rightarrow> db \<Rightarrow> WorkflowGraph option" where
  "stored_graph L t g d = (case find_graph t g d of
     None \<Rightarrow> None
   | Some row \<Rightarrow> (case bind_r (decode L (gr_graph_json row)) (graph_from_dict L) of
         Inl _ \<Rightarrow> None | Inr graph \<Rightarrow> Some graph))"

lemma persisted_iff:
  "persisted L t g d s \<longleftrightarrow> stored_graph L t g d = Some (gs_graph s) \<and> node_states s = entries t g d
     \<and> GraphState_post_init s = Inr ()"
proof -
  have "GraphState_init gr es = Inr s \<longleftrightarrow> gs_graph s = gr \<and> node_states s = es \<and> GraphState_post_init s = Inr ()"
    for gr es by (cases s) (auto simp: GraphState_init_def Let_def bind_r_eq_Inr)
  note init = this
  show ?thesis
  proof (cases "find_graph t g d")
    case (Some row)
    show ?thesis
    proof (cases "bind_r (decode L (gr_graph_json row)) (graph_from_dict L)")
      case (Inr gr)
      have "get_graph_state L t g d = (case GraphState_init gr (entries t g d) of
          Inl _ \<Rightarrow> Inl (ValueError ''Invalid persisted workflow graph state'') | Inr state \<Rightarrow> Inr (Some state))"
        using Some Inr by (auto simp: get_graph_state_def bind_r_eq_Inr entries_def)
      then show ?thesis
        using Some Inr init [of gr "entries t g d"]
        by (cases "GraphState_init gr (entries t g d)") (auto simp: persisted_def stored_graph_def)
    next
      case (Inl e)
      then show ?thesis
        using Some by (auto simp: persisted_def get_graph_state_def stored_graph_def bind_r_eq_Inr bind_r_eq_Inl)
    qed
  qed (simp add: persisted_def get_graph_state_def stored_graph_def)
qed

lemma persisted_ok: "persisted L t g d s \<Longrightarrow> state_ok s"
  by (auto simp: persisted_iff state_ok_def stored_graph_def bind_r_eq_Inr graph_from_dict_ok
           split: option.splits sum.splits dest: graph_from_dict_ok)

text \<open>The refinement: the stored operation returns exactly when the scheduler's transition does, with
  the same state, which is the state the next read returns.\<close>

lemma transition_graph_node_refines:
  assumes "nodes_distinct d" and p: "persisted L t g d s" and tr: "transition s n target = Inr s'"
  obtains xs where "transition_graph_node L t g n target d = Inr (set_states t g (states_of s') xs d, s')"
    and "set xs = set (changed_nodes s s')" and "hd xs = n" and "xs \<noteq> []" and "distinct xs"
    and "\<And>us i vs. xs = us @ i # vs \<Longrightarrow> i \<noteq> n \<Longrightarrow>
           set (dependencies (gs_graph s) i) \<inter> set (changed_nodes s s') \<subseteq> set us"
proof -
  note ok = persisted_ok [OF p]
  obtain cur where cur: "states_of s n = Some cur" "target \<in> ALLOWED_TRANSITIONS cur" "state_ok s'"
      "gs_graph s' = gs_graph s" "states_of s' = after s n target"
    using transitionD [OF ok tr] by blast
  note ch = changed_nodes_props [OF ok cur(3,4)]
  have "states_of s' n = Some target" using after_target(1) [OF ok cur(1,2)] cur(5) by simp
  moreover have "target \<noteq> cur" using allowed_current [OF cur(2)] by blast
  moreover have "n \<in> set (identifiers (gs_graph s))"
    using state_ok_nodes(5) [OF ok] cur(1) by (auto simp: dom_def)
  ultimately have nch: "n \<in> set (changed_nodes s s')" using ch(3) cur(1) by auto
  let ?pending = "filter (\<lambda>i. i \<noteq> n) (changed_nodes s s')"
  have g: "graph_ok (gs_graph s)" using ok by (simp add: state_ok_iff)
  have sub: "set ?pending \<subseteq> set (identifiers (gs_graph s))" using ch(2) by auto
  obtain rest where rest: "order_pending (dependencies (gs_graph s)) (identifiers (gs_graph s)) ?pending = Inr rest"
      "set rest = set ?pending" "distinct rest"
      "\<forall>us i vs. rest = us @ i # vs \<longrightarrow> set (dependencies (gs_graph s) i) \<inter> set ?pending \<subseteq> set us"
    using order_pending_ok [OF pending_wf [OF g sub] sub _ graph_okD(1) [OF g]] ch(1) by auto
  have e: "map_of (entries t g d) = states_of s" using p by (simp add: persisted_iff states_of_def)
  have "states_of s i \<noteq> None" "states_of s' i \<noteq> None" if "i \<in> set (identifiers (gs_graph s))" for i
    using that state_ok_nodes(5) [OF ok] state_ok_nodes(5) [OF cur(3)] cur(4) by auto
  then have w: "foldM (write_change t g (states_of s) (states_of s')) (n # rest) d
      = Inr (set_states t g (states_of s') (n # rest) d)"
    using rest(2,3) ch(2) nch by (intro write_changes_eq [OF assms(1)]) (auto simp: e)
  have "transition_graph_node L t g n target d = Inr (set_states t g (states_of s') (n # rest) d, s')"
    using p tr nch rest(1) w cur(4)
    by (simp add: transition_graph_node_def require_graph_def persisted_def states_of_def [symmetric] Let_def)
  then show thesis
  proof (rule that)
    show "set (n # rest) = set (changed_nodes s s')" using rest(2) nch by auto
    show "set (dependencies (gs_graph s) i) \<inter> set (changed_nodes s s') \<subseteq> set us"
      if split: "n # rest = us @ i # vs" "i \<noteq> n" for us i vs
    proof -
      obtain us' where us: "us = n # us'" "rest = us' @ i # vs" using split by (cases us) auto
      with rest(4) have "set (dependencies (gs_graph s) i) \<inter> set ?pending \<subseteq> set us'" by blast
      then show ?thesis using us(1) by auto
    qed
  qed (use rest in auto)
qed

section \<open>The invariant and the simulation\<close>

definition budget_ok :: "graph_budget_row \<Rightarrow> bool" where
  "budget_ok b \<longleftrightarrow> 1 \<le> gb_max_attempts b \<and> 0 \<le> gb_attempts b \<and> gb_attempts b \<le> gb_max_attempts b
     \<and> 0 \<le> gb_output_tokens b
     \<and> (case gb_max_output_tokens b of None \<Rightarrow> True | Some n \<Rightarrow> gb_output_tokens b \<le> n)"

definition budgets_ok :: "db \<Rightarrow> bool" where
  "budgets_ok d \<longleftrightarrow> distinct (map gb_graph_id (workflow_graph_budgets d))
     \<and> (\<forall>b \<in> set (workflow_graph_budgets d). budget_ok b)"

definition gstore_ok :: "pylib \<Rightarrow> db \<Rightarrow> bool" where
  "gstore_ok L d \<longleftrightarrow> nodes_distinct d \<and> distinct (map gr_id (workflow_graphs d))
     \<and> distinct (map (\<lambda>r. (gr_tenant r, gr_key r)) (workflow_graphs d)) \<and> budgets_ok d
     \<and> (\<forall>r \<in> set (workflow_graphs d). \<exists>s. persisted L (gr_tenant r) (gr_id r) d s)
     \<and> (\<forall>k \<in> set (workflow_graph_nodes d). \<exists>r \<in> set (workflow_graphs d).
          gr_id r = nr_graph_id k \<and> gr_tenant r = nr_tenant k)"

lemma gstore_okD:
  assumes "gstore_ok L d"
  shows "nodes_distinct d" and "distinct (map gr_id (workflow_graphs d))" and "budgets_ok d"
    and "distinct (map (\<lambda>r. (gr_tenant r, gr_key r)) (workflow_graphs d))"
    and "r \<in> set (workflow_graphs d) \<Longrightarrow> \<exists>s. persisted L (gr_tenant r) (gr_id r) d s"
    and "k \<in> set (workflow_graph_nodes d) \<Longrightarrow>
           \<exists>r \<in> set (workflow_graphs d). gr_id r = nr_graph_id k \<and> gr_tenant r = nr_tenant k"
  using assms by (auto simp: gstore_ok_def)

definition node_ref :: "node_row \<Rightarrow> string \<times> string \<times> string" where
  "node_ref r = (nr_tenant r, nr_graph_id r, nr_node_id r)"

definition frame :: "db \<Rightarrow> db \<Rightarrow> bool" where
  "frame d d' \<longleftrightarrow> workflow_graphs d' = workflow_graphs d
     \<and> map node_ref (workflow_graph_nodes d') = map node_ref (workflow_graph_nodes d)"

definition gevolves :: "pylib \<Rightarrow> db \<Rightarrow> db \<Rightarrow> bool" where
  "gevolves L d d' \<longleftrightarrow> (\<forall>t g s. persisted L t g d s \<longrightarrow> (\<exists>s'. persisted L t g d' s' \<and> graph_step\<^sup>*\<^sup>* s s'))"

lemma frame_refl [simp]: "frame d d" and frame_trans: "frame d1 d2 \<Longrightarrow> frame d2 d3 \<Longrightarrow> frame d1 d3"
  by (simp_all add: frame_def)

lemma gevolves_refl [simp]: "gevolves L d d"
  by (auto simp: gevolves_def)

lemma gevolves_trans: "gevolves L d1 d2 \<Longrightarrow> gevolves L d2 d3 \<Longrightarrow> gevolves L d1 d3"
  unfolding gevolves_def by (meson rtranclp_trans)

lemma frame_keys: "frame d d' \<Longrightarrow> map node_key (workflow_graph_nodes d') = map node_key (workflow_graph_nodes d)"
proof -
  assume "frame d d'"
  then have "map snd (map node_ref (workflow_graph_nodes d')) = map snd (map node_ref (workflow_graph_nodes d))"
    by (simp add: frame_def)
  then show ?thesis by (simp add: comp_def node_ref_def node_key_def [abs_def])
qed

lemma gstore_ok_frame:
  assumes "gstore_ok L d" and "frame d d'" and "gevolves L d d'" and "budgets_ok d'"
  shows "gstore_ok L d'"
proof -
  have "\<exists>r \<in> set (workflow_graphs d'). gr_id r = nr_graph_id k \<and> gr_tenant r = nr_tenant k"
    if "k \<in> set (workflow_graph_nodes d')" for k
  proof -
    have "node_ref k \<in> set (map node_ref (workflow_graph_nodes d))"
      using that assms(2) unfolding frame_def by (metis image_eqI list.set_map)
    then obtain k0 where "k0 \<in> set (workflow_graph_nodes d)" "node_ref k0 = node_ref k" by auto
    moreover from this(1) obtain r where "r \<in> set (workflow_graphs d)" "gr_id r = nr_graph_id k0" "gr_tenant r = nr_tenant k0"
      using gstore_okD(6) [OF assms(1), of k0] by blast
    ultimately show ?thesis using assms(2) by (intro bexI [of _ r]) (simp_all add: node_ref_def frame_def)
  qed
  moreover have "\<exists>s. persisted L (gr_tenant r) (gr_id r) d' s" if r: "r \<in> set (workflow_graphs d')" for r
  proof -
    have "r \<in> set (workflow_graphs d)" using r assms(2) by (simp add: frame_def)
    then obtain s where "persisted L (gr_tenant r) (gr_id r) d s" using gstore_okD(5) [OF assms(1), of r] by blast
    then show ?thesis using assms(3) unfolding gevolves_def by blast
  qed
  moreover have "nodes_distinct d'" "workflow_graphs d' = workflow_graphs d"
    using gstore_okD(1) [OF assms(1)] assms(2) frame_keys [OF assms(2)]
    by (simp_all add: frame_def)
  ultimately show ?thesis
    using gstore_okD(2,4) [OF assms(1)] assms(4) unfolding gstore_ok_def by (intro conjI ballI) (simp_all | blast)+
qed

lemma stored_graph_cong: "workflow_graphs d' = workflow_graphs d \<Longrightarrow> stored_graph L t g d' = stored_graph L t g d"
  by (simp add: stored_graph_def find_graph_def)

lemma persisted_cong:
  "workflow_graphs d' = workflow_graphs d \<Longrightarrow> entries t g d' = entries t g d \<Longrightarrow>
   persisted L t g d' s = persisted L t g d s"
  using stored_graph_cong [of d' d L t g] by (simp add: persisted_iff)

lemma persisted_unique: "persisted L t g d s \<Longrightarrow> persisted L t g d s' \<Longrightarrow> s' = s"
  by (simp add: persisted_def)

lemma map_node_ref_update:
  "keeps_key f \<Longrightarrow> map node_ref (update_where P f rows) = map node_ref rows"
  by (rule map_update_where) (simp add: keeps_key_def node_ref_def)

lemma set_states_frame: "frame d (set_states t g later xs d)"
proof -
  have "map node_ref (workflow_graph_nodes (set_states t g later xs d)) = map node_ref (workflow_graph_nodes d)"
    unfolding set_states_def
    by (induction xs arbitrary: d) (simp_all add: set_state_nodes map_node_ref_update)
  then show ?thesis by (simp add: frame_def)
qed

text \<open>An update of fences, owners, leases and result references moves no graph.\<close>

lemma lease_update:
  assumes "keeps_key f" and "\<And>r. nr_state (f r) = nr_state r"
    and "workflow_graph_nodes d' = update_where P f (workflow_graph_nodes d)"
    and "workflow_graphs d' = workflow_graphs d"
  shows "frame d d'" and "gevolves L d d'" and "persisted L t g d' s = persisted L t g d s"
proof -
  show "frame d d'" using assms by (simp add: frame_def map_node_ref_update)
  have "entries t g d' = entries t g d" for t g
    using graph_node_rows_update [OF assms(1,3), of t g] assms(1,2)
    by (auto simp: entries_def update_where_def keeps_key_def)
  then show "gevolves L d d'" and "persisted L t g d' s = persisted L t g d s"
    using persisted_cong [OF assms(4)] by (auto simp: gevolves_def)
qed

lemma map_of_pick:
  "map_of (map (\<lambda>(i, st). (i, if P i then f i else st)) es) i = map_option (\<lambda>st. if P i then f i else st) (map_of es i)"
  by (induction es) auto

lemma persisted_set_states:
  assumes "nodes_distinct d" and p: "persisted L t g d s" and tr: "transition s n target = Inr s'"
    and xs: "set xs = set (changed_nodes s s')"
  shows "persisted L t g (set_states t g (states_of s') xs d) s'"
    and "gevolves L d (set_states t g (states_of s') xs d)"
proof -
  let ?d = "set_states t g (states_of s') xs d"
  note ok = persisted_ok [OF p]
  obtain cur where cur: "state_ok s'" "gs_graph s' = gs_graph s" using transitionD [OF ok tr] by blast
  note ch = changed_nodes_props [OF ok cur]
  note E = entries_set_states [of t g t g "states_of s'" xs d]
  have e: "entries t g d = node_states s" using p by (simp add: persisted_iff)
  have fst_e: "map fst (entries t g ?d) = map fst (node_states s)"
    unfolding E e by (simp add: comp_def case_prod_beta)
  have ne: "states_of s' i \<noteq> None" if "i \<in> set (identifiers (gs_graph s))" for i
    using that state_ok_nodes(5) [OF cur(1)] cur(2) by auto
  have "entries t g ?d = node_states s'"
  proof (rule states_entries)
    show "map fst (entries t g ?d) = map fst (node_states s')"
      using fst_e state_ok_entries(1) [OF ok] state_ok_entries(1) [OF cur(1)] cur(2) by simp
    show dist: "distinct (map fst (entries t g ?d))" using fst_e state_ok_entries(2) [OF ok] by simp
    fix i assume "i \<in> fst ` set (entries t g ?d)"
    then have "i \<in> fst ` set (node_states s)" using fst_e by (metis list.set_map)
    then have i: "i \<in> set (identifiers (gs_graph s))"
      using state_ok_entries(1) [OF ok] by (metis list.set_map)
    have "map_of (entries t g ?d) i =
        map_option (\<lambda>st. if i \<in> set xs then the (states_of s' i) else st) (map_of (node_states s) i)"
      unfolding E e by (simp add: map_of_pick)
    moreover have "map_of (node_states s) i \<noteq> None" using ne i state_ok_nodes(5) [OF ok] by (auto simp: states_of_def)
    ultimately show "map_of (entries t g ?d) i = map_of (node_states s') i"
      using ch(3) [of i] i xs ne [OF i] by (auto simp: states_of_def)
  qed
  then show here: "persisted L t g ?d s'"
    using p cur stored_graph_cong [of ?d d L t g] by (simp add: persisted_iff state_ok_def)
  show "gevolves L d ?d"
    unfolding gevolves_def
  proof (intro allI impI)
    fix t' g' s0 assume p': "persisted L t' g' d s0"
    show "\<exists>s1. persisted L t' g' ?d s1 \<and> graph_step\<^sup>*\<^sup>* s0 s1"
    proof (cases "(t', g') = (t, g)")
      case True
      then have "s0 = s" using p p' persisted_unique by auto
      then show ?thesis using True here tr by (auto intro: graph_step.intros)
    next
      case False
      then have "entries t' g' ?d = entries t' g' d" by (auto simp: entries_set_states map_idI)
      then show ?thesis using p' persisted_cong [of ?d d t' g' L s0] by auto
    qed
  qed
qed

end
