(* ===== verification/GraphStoreSteps.thy ===== *)
theory GraphStoreSteps
  imports GraphStoreProps
begin

text \<open>
  The operations of the graph half as steps of a machine. Every operation keeps the invariant
  \<open>gstore_ok\<close>, and moves every stored graph along steps of the scheduler (\<open>gevolves\<close>): the store
  refines the scheduler, whatever operations are interleaved.
\<close>

section \<open>Moves\<close>

definition gmove :: "pylib \<Rightarrow> db \<Rightarrow> db \<Rightarrow> bool" where
  "gmove L d d' \<longleftrightarrow> frame d d' \<and> gevolves L d d' \<and> workflow_graph_budgets d' = workflow_graph_budgets d"

lemma gmove_refl [simp]: "gmove L d d"
  by (simp add: gmove_def)

lemma gmove_trans: "gmove L d1 d2 \<Longrightarrow> gmove L d2 d3 \<Longrightarrow> gmove L d1 d3"
  unfolding gmove_def using frame_trans gevolves_trans by metis

lemma gmove_ok: "gstore_ok L d \<Longrightarrow> gmove L d d' \<Longrightarrow> gstore_ok L d'"
  by (rule gstore_ok_frame [of L d]) (auto simp: gmove_def budgets_ok_def gstore_ok_def)

lemma gmove_lease:
  assumes "keeps_key f" and "\<And>r. nr_state (f r) = nr_state r"
    and "workflow_graph_nodes d' = update_where P f (workflow_graph_nodes d)"
    and "workflow_graphs d' = workflow_graphs d" and "workflow_graph_budgets d' = workflow_graph_budgets d"
  shows "gmove L d d'" and "persisted L t g d' s = persisted L t g d s"
  using lease_update [of f d' P d, OF assms(1-4)] assms(5) by (simp_all add: gmove_def)

lemma gmove_same:
  assumes "workflow_graph_nodes d' = workflow_graph_nodes d" and "workflow_graphs d' = workflow_graphs d"
    and "workflow_graph_budgets d' = workflow_graph_budgets d"
  shows "gmove L d d'" and "persisted L t g d' s = persisted L t g d s"
proof -
  have "entries t g d' = entries t g d" for t g using assms(1) by (simp add: entries_def graph_node_rows_def)
  then show "gmove L d d'" and "persisted L t g d' s = persisted L t g d s"
    using persisted_cong [OF assms(2)] assms by (auto simp: gmove_def frame_def gevolves_def)
qed

lemma require_graph_persisted: "require_graph L t g d = Inr s \<longleftrightarrow> persisted L t g d s"
  by (auto simp: require_graph_def persisted_def bind_r_eq_Inr split: option.splits)

lemma find_graph_persisted:
  assumes "gstore_ok L d" and "find_node t g n d = Some row"
  obtains s where "persisted L t g d s" and "states_of s n = Some (nr_state row)"
proof -
  note nd = gstore_okD(1) [OF assms(1)]
  have row: "row \<in> set (workflow_graph_nodes d)" "nr_tenant row = t" "nr_graph_id row = g"
    using find_node_iff [OF nd] assms(2) by (auto simp: node_is_def)
  then obtain r where "r \<in> set (workflow_graphs d)" "gr_id r = g" "gr_tenant r = t"
    using gstore_okD(6) [OF assms(1) row(1)] by blast
  then obtain s where s: "persisted L t g d s" using gstore_okD(5) [OF assms(1), of r] by blast
  then have "states_of s n = Some (nr_state row)"
    using entry_find_node [OF nd, of t g n] assms(2) by (simp add: persisted_iff states_of_def)
  with s show thesis by (rule that)
qed

lemma transition_graph_nodeD:
  assumes "nodes_distinct d" and "transition_graph_node L t g n target d = Inr (d', s')"
  obtains s where "persisted L t g d s" and "transition s n target = Inr s'"
    and "persisted L t g d' s'" and "gmove L d d'"
    and "workflow_graph_artifacts d' = workflow_graph_artifacts d"
proof -
  obtain s where s: "persisted L t g d s"
    using assms(2) by (auto simp: transition_graph_node_def bind_r_eq_Inr require_graph_persisted)
  have "\<exists>u. transition s n target = Inr u"
  proof (cases "transition s n target")
    case (Inl e)
    have "require_graph L t g d = Inr s" using s by (simp only: require_graph_persisted)
    then have "\<exists>e. transition_graph_node L t g n target d = Inl e"
      unfolding transition_graph_node_def using Inl by (cases e) simp_all
    then show ?thesis using assms(2) by auto
  qed blast
  then obtain u where u: "transition s n target = Inr u" ..
  obtain xs where xs: "transition_graph_node L t g n target d = Inr (set_states t g (states_of u) xs d, u)"
      "set xs = set (changed_nodes s u)"
    by (rule transition_graph_node_refines [OF assms(1) s u])
  then have e: "s' = u" "d' = set_states t g (states_of u) xs d" using assms(2) by simp_all
  note P = persisted_set_states [OF assms(1) s u xs(2)]
  show thesis
    by (rule that [OF s]) (use u P e set_states_frame in \<open>simp_all add: gmove_def\<close>)
qed

lemma fence_node_move:
  shows "gmove L d (fence_node t g n d)" and "persisted L t' g' (fence_node t g n d) s = persisted L t' g' d s"
proof -
  let ?f = "\<lambda>r. r\<lparr>nr_fence := nr_fence r + 1, nr_owner := None, nr_lease_until := None\<rparr>"
  have k: "keeps_key ?f" by (simp add: keeps_key_def)
  have n: "workflow_graph_nodes (fence_node t g n d) = update_where (node_is t g n) ?f (workflow_graph_nodes d)"
    by (simp add: fence_node_def)
  show "gmove L d (fence_node t g n d)" and "persisted L t' g' (fence_node t g n d) s = persisted L t' g' d s"
    using gmove_lease [OF k _ n] by (simp_all add: fence_node_def)
qed

lemma fence_node_artifacts [simp]:
  "workflow_graph_artifacts (fence_node t g n d) = workflow_graph_artifacts d"
  by (simp add: fence_node_def)

section \<open>Claiming a node\<close>

lemma transition_single:
  assumes "state_ok s" and "states_of s n = Some cur" and "target \<in> ALLOWED_TRANSITIONS cur"
    and "target \<notin> TERMINAL_NODE_STATES"
  obtains s' where "transition s n target = Inr s'" and "set (changed_nodes s s') = {n}"
    and "states_of s' = (states_of s)(n \<mapsto> target)"
proof -
  obtain s' where s': "transition s n target = Inr s'" "state_ok s'" "gs_graph s' = gs_graph s"
      "states_of s' = after s n target"
    using transition_ok [OF assms(1-3)] by auto
  have a: "states_of s' = (states_of s)(n \<mapsto> target)"
    using s'(4) assms(4) by (simp add: after_def)
  note ch = changed_nodes_props [OF assms(1) s'(2,3)]
  have "n \<in> set (identifiers (gs_graph s))"
    using state_ok_nodes(5) [OF assms(1)] assms(2) by (auto simp: dom_def)
  moreover have "target \<noteq> cur" using allowed_current [OF assms(3)] by blast
  ultimately have "set (changed_nodes s s') = {n}"
    using ch(2,3) a assms(2) by (auto split: if_splits)
  with s'(1) a show thesis using that by blast
qed

lemma transition_graph_node_single:
  assumes "nodes_distinct d" and "persisted L t g d s" and "states_of s n = Some cur"
    and "target \<in> ALLOWED_TRANSITIONS cur" and "target \<notin> TERMINAL_NODE_STATES"
  obtains s' where "transition_graph_node L t g n target d = Inr (set_state t g n target d, s')"
    and "transition s n target = Inr s'" and "persisted L t g (set_state t g n target d) s'"
    and "gmove L d (set_state t g n target d)"
proof -
  obtain s' where s': "transition s n target = Inr s'" "set (changed_nodes s s') = {n}"
      "states_of s' = (states_of s)(n \<mapsto> target)"
    using transition_single [OF persisted_ok [OF assms(2)] assms(3-5)] by blast
  obtain xs where xs: "transition_graph_node L t g n target d = Inr (set_states t g (states_of s') xs d, s')"
      "set xs = set (changed_nodes s s')" "distinct xs"
    by (rule transition_graph_node_refines [OF assms(1,2) s'(1)])
  then have "xs = [n]" using s'(2) by (metis distinct.simps(2) distinct_length_2_or_more insert_not_empty
      list.exhaust list.set(1) list.set_intros(1) list.set_intros(2) singletonD)
  then have e: "transition_graph_node L t g n target d = Inr (set_state t g n target d, s')"
    using xs(1) s'(3) by (simp add: set_states_def)
  show thesis by (rule transition_graph_nodeD [OF assms(1) e]) (rule that [OF e s'(1)])
qed

lemma claim_graph_nodeD:
  assumes "claim_graph_node t g n owner secs clk now d = Inr (d', fence)"
  obtains row current b where "find_node t g n d = Some row" and "nr_state row = READY"
    and "utc_now clk now = Inr current" and "fence = nr_fence row + 1"
    and "get_graph_budget t g d = Some b" and "current < gb_deadline_at b"
    and "identifier_ok owner" and "1 \<le> secs" and "secs \<le> 3600"
    and "d' = graph_event t g n RUNNING (d\<lparr>workflow_graph_nodes := update_where
           (\<lambda>r. node_is t g n r \<and> nr_state r = READY \<and> nr_fence r = nr_fence row)
           (\<lambda>r. r\<lparr>nr_state := RUNNING, nr_fence := fence, nr_owner := Some owner,
                  nr_lease_until := Some (current + secs * 1000000)\<rparr>) (workflow_graph_nodes d)\<rparr>)"
  using assms
  by (auto simp: claim_graph_node_def bind_r_eq_Inr Let_def check_identifier_def split: option.splits)

lemma claim_graph_node_move:
  assumes "gstore_ok L d" and "claim_graph_node t g n owner secs clk now d = Inr (d', fence)"
  obtains s s' where "persisted L t g d s" and "transition s n RUNNING = Inr s'"
    and "persisted L t g d' s'" and "gmove L d d'"
proof (rule claim_graph_nodeD [OF assms(2)])
  fix row current b
  assume row: "find_node t g n d = Some row" "nr_state row = READY" and f: "fence = nr_fence row + 1"
    and d': "d' = graph_event t g n RUNNING (d\<lparr>workflow_graph_nodes := update_where
           (\<lambda>r. node_is t g n r \<and> nr_state r = READY \<and> nr_fence r = nr_fence row)
           (\<lambda>r. r\<lparr>nr_state := RUNNING, nr_fence := fence, nr_owner := Some owner,
                  nr_lease_until := Some (current + secs * 1000000)\<rparr>) (workflow_graph_nodes d)\<rparr>)"
  note nd = gstore_okD(1) [OF assms(1)]
  obtain s where s: "persisted L t g d s" "states_of s n = Some READY"
    using find_graph_persisted [OF assms(1) row(1)] row(2) by metis
  let ?d = "set_state t g n RUNNING d"
  let ?lease = "\<lambda>r. r\<lparr>nr_fence := fence, nr_owner := Some owner, nr_lease_until := Some (current + secs * 1000000)\<rparr>"
  have "RUNNING \<in> ALLOWED_TRANSITIONS READY" "RUNNING \<notin> TERMINAL_NODE_STATES"
    by (simp_all add: TERMINAL_NODE_STATES_def)
  then obtain s' where s': "transition s n RUNNING = Inr s'" "persisted L t g ?d s'" and m: "gmove L d ?d"
    by (rule transition_graph_node_single [OF nd s])
  have n: "workflow_graph_nodes d' = update_where (node_is t g n) ?lease (workflow_graph_nodes ?d)"
    using node_hit_unique [OF nd row(1)] row(2)
    by (auto simp: d' graph_event_def set_state_nodes update_where_def node_is_def)
  have k: "keeps_key ?lease" by (simp add: keeps_key_def)
  have tabs: "workflow_graphs d' = workflow_graphs ?d" "workflow_graph_budgets d' = workflow_graph_budgets ?d"
    by (simp_all add: d' graph_event_def)
  have "gmove L ?d d'" "persisted L t g d' s' = persisted L t g ?d s'"
    using gmove_lease [OF k _ n tabs] by simp_all
  then show thesis using that [OF s(1) s'(1)] s'(2) gmove_trans [OF m] by simp
qed

section \<open>Completion and validation\<close>

lemma require_graph_leaseD:
  assumes "require_graph_lease t g n owner fence clk now d = Inr u"
  obtains row lease current where "find_node t g n d = Some row" and "nr_state row = RUNNING"
    and "nr_owner row = Some owner" and "nr_fence row = fence" and "nr_lease_until row = Some lease"
    and "utc_now clk now = Inr current" and "current < lease"
  using assms by (auto simp: require_graph_lease_def Let_def bind_r_eq_Inr split: option.splits if_splits)

lemma complete_graph_nodeD:
  assumes "gstore_ok L d"
    and "complete_graph_node L t g n owner fence result ok clk now uuid d = Inr (d', a)"
  obtains row lease current d1 s s' where "find_node t g n d = Some row" and "nr_state row = RUNNING"
    and "nr_owner row = Some owner" and "nr_fence row = fence" and "nr_lease_until row = Some lease"
    and "utc_now clk now = Inr current" and "current < lease"
    and "persisted L t g d s" and "transition s n (if ok then AWAITING_VALIDATION else FAILED) = Inr s'"
    and "persisted L t g d1 s'" and "gmove L d d1"
    and "d' = d1\<lparr>workflow_graph_nodes := update_where (node_is t g n)
               (\<lambda>r. r\<lparr>nr_owner := None, nr_lease_until := None, nr_result_artifact_id := Some uuid\<rparr>)
               (workflow_graph_nodes d1)\<rparr>"
proof -
  let ?target = "if ok then AWAITING_VALIDATION else FAILED"
  from assms(2) obtain arts d1 s' where l: "require_graph_lease t g n owner fence clk now d = Inr ()"
    and t: "transition_graph_node L t g n ?target (d\<lparr>workflow_graph_artifacts := arts\<rparr>) = Inr (d1, s')"
    and d': "d' = d1\<lparr>workflow_graph_nodes := update_where (node_is t g n)
               (\<lambda>r. r\<lparr>nr_owner := None, nr_lease_until := None, nr_result_artifact_id := Some uuid\<rparr>)
               (workflow_graph_nodes d1)\<rparr>"
    unfolding complete_graph_node_def Let_def bind_r_eq_Inr by (auto simp del: if_split split: prod.splits)
  let ?da = "d\<lparr>workflow_graph_artifacts := arts\<rparr>"
  have nd: "nodes_distinct ?da" using gstore_okD(1) [OF assms(1)] by simp
  have same: "gmove L d ?da" "persisted L t g ?da s = persisted L t g d s" for s
    by (rule gmove_same, simp_all)+
  obtain s where s: "persisted L t g ?da s" "transition s n ?target = Inr s'" "persisted L t g d1 s'" "gmove L ?da d1"
    using transition_graph_nodeD [OF nd t] by metis
  have m: "gmove L d d1" by (rule gmove_trans [OF same(1) s(4)])
  have p: "persisted L t g d s" using s(1) same(2) by simp
  show thesis
    by (rule require_graph_leaseD [OF l], rule that) (assumption | rule p s m d')+
qed

lemma complete_graph_node_move:
  assumes "gstore_ok L d"
    and "complete_graph_node L t g n owner fence result ok clk now uuid d = Inr (d', a)"
  obtains s s' where "persisted L t g d s"
    and "transition s n (if ok then AWAITING_VALIDATION else FAILED) = Inr s'"
    and "persisted L t g d' s'" and "gmove L d d'"
proof (rule complete_graph_nodeD [OF assms])
  fix d1 s s'
  assume s: "persisted L t g d s" "transition s n (if ok then AWAITING_VALIDATION else FAILED) = Inr s'"
      "persisted L t g d1 s'" and m: "gmove L d d1"
    and d': "d' = d1\<lparr>workflow_graph_nodes := update_where (node_is t g n)
               (\<lambda>r. r\<lparr>nr_owner := None, nr_lease_until := None, nr_result_artifact_id := Some uuid\<rparr>)
               (workflow_graph_nodes d1)\<rparr>"
  let ?f = "\<lambda>r. r\<lparr>nr_owner := None, nr_lease_until := None, nr_result_artifact_id := Some uuid\<rparr>"
  have n: "workflow_graph_nodes d' = update_where (node_is t g n) ?f (workflow_graph_nodes d1)"
    by (simp add: d')
  have "keeps_key ?f" by (simp add: keeps_key_def)
  from gmove_lease [OF this _ n] have "gmove L d1 d'" "persisted L t g d' s' = persisted L t g d1 s'"
    by (simp_all add: d')
  then show thesis using that [OF s(1,2)] s(3) gmove_trans [OF m] by simp
qed

lemma validate_graph_nodeD:
  assumes "gstore_ok L d" and "validate_graph_node L t g n policy d = Inr (d', report)"
  shows "d' = d \<or> (\<exists>s s' row a. persisted L t g d s \<and> node_result t g n d = Some (row, a)
           \<and> nr_state row = AWAITING_VALIDATION \<and> ga_validation_json a = None
           \<and> transition s n (if accepted report then SUCCEEDED else REJECTED) = Inr s'
           \<and> persisted L t g d' s' \<and> gmove L d d'
           \<and> workflow_graph_artifacts d' = update_where (\<lambda>x. ga_id x = ga_id a)
               (\<lambda>x. x\<lparr>ga_accepted := accepted report, ga_validation_json := Some (canonical_json L report)\<rparr>)
               (workflow_graph_artifacts d))"
proof (rule disjCI)
  assume ne: "\<not> (\<exists>s s' row a. persisted L t g d s \<and> node_result t g n d = Some (row, a)
           \<and> nr_state row = AWAITING_VALIDATION \<and> ga_validation_json a = None
           \<and> transition s n (if accepted report then SUCCEEDED else REJECTED) = Inr s'
           \<and> persisted L t g d' s' \<and> gmove L d d'
           \<and> workflow_graph_artifacts d' = update_where (\<lambda>x. ga_id x = ga_id a)
               (\<lambda>x. x\<lparr>ga_accepted := accepted report, ga_validation_json := Some (canonical_json L report)\<rparr>)
               (workflow_graph_artifacts d))"
  obtain row a where na: "node_result t g n d = Some (row, a)"
    using assms(2) by (auto simp: validate_graph_node_def bind_r_eq_Inr split: option.splits)
  show "d' = d"
  proof (cases "ga_validation_json a")
    case (Some txt0)
    then show ?thesis using assms(2) na by (auto simp: validate_graph_node_def bind_r_eq_Inr)
  next
    case None
    let ?da = "d\<lparr>workflow_graph_artifacts := update_where (\<lambda>x. ga_id x = ga_id a)
               (\<lambda>x. x\<lparr>ga_accepted := accepted report, ga_validation_json := Some (canonical_json L report)\<rparr>)
               (workflow_graph_artifacts d)\<rparr>"
    let ?target = "if accepted report then SUCCEEDED else REJECTED"
    obtain s' where w: "nr_state row = AWAITING_VALIDATION"
      and t: "transition_graph_node L t g n ?target ?da = Inr (d', s')"
      using assms(2) na None unfolding validate_graph_node_def bind_r_eq_Inr
      by (auto simp del: if_split simp: bind_r_eq_Inr split: prod.splits)
    have same: "gmove L d ?da" "persisted L t g ?da s = persisted L t g d s" for s
      by (rule gmove_same, simp_all)+
    have nd: "nodes_distinct ?da" using gstore_okD(1) [OF assms(1)] by simp
    obtain s where "persisted L t g ?da s" "transition s n ?target = Inr s'" "persisted L t g d' s'"
        "gmove L ?da d'" "workflow_graph_artifacts d' = workflow_graph_artifacts ?da"
      by (rule transition_graph_nodeD [OF nd t])
    then show ?thesis using ne na w None same gmove_trans [OF same(1)] by auto
  qed
qed

section \<open>Cancellation and recovery\<close>

lemma cancel_node_move:
  assumes "gstore_ok L d" and "cancel_node L t g entry d = Inr d'"
  shows "gmove L d d'"
proof (cases "d' = d")
  case False
  then obtain d1 s1 where t: "transition_graph_node L t g (fst entry) CANCELLED d = Inr (d1, s1)"
    and d': "d' = fence_node t g (fst entry) d1"
    using assms(2) by (auto simp: cancel_node_def bind_r_eq_Inr split: if_splits option.splits prod.splits)
  have "gmove L d d1" by (rule transition_graph_nodeD [OF gstore_okD(1) [OF assms(1)] t])
  from gmove_trans [OF this fence_node_move(1)] show ?thesis by (simp add: d')
qed simp

lemma cancel_nodes_move:
  assumes "gstore_ok L d" and "foldM (cancel_node L t g) es d = Inr d'"
  shows "gmove L d d'"
  using assms(2)
proof (rule foldM_invariant [where P = "gmove L d"])
  fix e d1 d2
  assume "gmove L d d1" "cancel_node L t g e d1 = Inr d2"
  then show "gmove L d d2" using cancel_node_move gmove_ok [OF assms(1)] gmove_trans by blast
qed simp

lemma cancel_graph_move:
  assumes "gstore_ok L d" and "cancel_graph L t g d = Inr (d', s)"
  shows "gmove L d d'" and "persisted L t g d' s"
  using assms(2) cancel_nodes_move [OF assms(1)]
  by (auto simp: cancel_graph_def bind_r_eq_Inr persisted_def split: option.splits)

lemma recover_node_move:
  assumes "gstore_ok L d" and "recover_node L row d = Inr d'"
  shows "gmove L d d'"
proof -
  obtain d1 s1 where t: "transition_graph_node L (nr_tenant row) (nr_graph_id row) (nr_node_id row) UNCERTAIN d = Inr (d1, s1)"
    and d': "d' = fence_node (nr_tenant row) (nr_graph_id row) (nr_node_id row) d1"
    using assms(2) by (auto simp: recover_node_def bind_r_eq_Inr split: prod.splits)
  have "gmove L d d1" by (rule transition_graph_nodeD [OF gstore_okD(1) [OF assms(1)] t])
  from gmove_trans [OF this fence_node_move(1)] show ?thesis by (simp add: d')
qed

lemma recover_nodes_move:
  assumes "gstore_ok L d" and "foldM (recover_node L) rows d = Inr d'"
  shows "gmove L d d'"
  using assms(2)
proof (rule foldM_invariant [where P = "gmove L d"])
  fix e d1 d2
  assume "gmove L d d1" "recover_node L e d1 = Inr d2"
  then show "gmove L d d2" using recover_node_move gmove_ok [OF assms(1)] gmove_trans by blast
qed simp

lemma recover_graph_nodes_move:
  assumes "gstore_ok L d" and "recover_graph_nodes_startup L limit clk now d = Inr (d', rep)"
  shows "gmove L d d'"
  using assms(2) recover_nodes_move [OF assms(1)]
  by (auto simp: recover_graph_nodes_startup_def bind_r_eq_Inr Let_def map_r_eq_Inr)

section \<open>Budgets\<close>

lemma budgets_ok_update:
  assumes "budgets_ok d" and "\<And>b. b \<in> set (workflow_graph_budgets d) \<Longrightarrow> P b \<Longrightarrow> budget_ok b \<Longrightarrow> budget_ok (f b)"
    and "\<And>b. gb_graph_id (f b) = gb_graph_id b"
    and "workflow_graph_budgets d' = update_where P f (workflow_graph_budgets d)"
  shows "budgets_ok d'"
  using assms(1,2) map_update_where [of P gb_graph_id f "workflow_graph_budgets d"]
  by (auto simp: budgets_ok_def assms(3,4) update_where_mem)

lemma budget_unique:
  assumes "budgets_ok d" and "get_graph_budget t g d = Some b"
    and "x \<in> set (workflow_graph_budgets d)" and "budget_is t g x"
  shows "x = b"
  using assms find_SomeD [of "budget_is t g" "workflow_graph_budgets d" b]
    distinct_map_eq [of gb_graph_id "workflow_graph_budgets d" x b]
  by (auto simp: budgets_ok_def get_graph_budget_def budget_is_def)

lemma reserve_graph_attempt_ok:
  assumes "budgets_ok d" and "reserve_graph_attempt t g clk now d = Inr (d', b)"
  shows "budgets_ok d'" and "workflow_graph_nodes d' = workflow_graph_nodes d" and "workflow_graphs d' = workflow_graphs d"
proof -
  obtain row where row: "get_graph_budget t g d = Some row"
    using assms(2) by (auto simp: reserve_graph_attempt_def split: option.splits)
  show "budgets_ok d'"
  proof (cases "gb_attempts row < gb_max_attempts row \<and> b")
    case True
    then have "workflow_graph_budgets d' = update_where (budget_is t g)
        (\<lambda>r. r\<lparr>gb_attempts := gb_attempts r + 1\<rparr>) (workflow_graph_budgets d)"
      using assms(2) row by (auto simp: reserve_graph_attempt_def bind_r_eq_Inr split: if_splits)
    moreover have "budget_ok (x\<lparr>gb_attempts := gb_attempts x + 1\<rparr>)"
      if x: "x \<in> set (workflow_graph_budgets d)" "budget_is t g x" "budget_ok x" for x
      using budget_unique [OF assms(1) row x(1,2)] True x(3)
      by (auto simp: budget_ok_def split: option.splits)
    ultimately show ?thesis
      by (intro budgets_ok_update [OF assms(1), of "budget_is t g" "\<lambda>r. r\<lparr>gb_attempts := gb_attempts r + 1\<rparr>"]) simp_all
  next
    case False
    then show ?thesis
      using assms row by (auto simp: reserve_graph_attempt_def bind_r_eq_Inr split: if_splits)
  qed
  show "workflow_graph_nodes d' = workflow_graph_nodes d" and "workflow_graphs d' = workflow_graphs d"
    using assms(2) row by (auto simp: reserve_graph_attempt_def bind_r_eq_Inr split: if_splits)
qed

lemma record_graph_output_tokens_ok:
  assumes "budgets_ok d" and "record_graph_output_tokens t g count d = Inr (d', b)"
  shows "budgets_ok d'" and "workflow_graph_nodes d' = workflow_graph_nodes d" and "workflow_graphs d' = workflow_graphs d"
proof -
  show "workflow_graph_nodes d' = workflow_graph_nodes d" and "workflow_graphs d' = workflow_graphs d"
    using assms(2) by (auto simp: record_graph_output_tokens_def split: option.splits if_splits)
  show "budgets_ok d'"
  proof (cases "d' = d")
    case False
    then obtain n row where c: "count = Some n" "0 \<le> n" and row: "get_graph_budget t g d = Some row"
      and l: "\<not> (case gb_max_output_tokens row of None \<Rightarrow> False | Some limit \<Rightarrow> gb_output_tokens row + n > limit)"
      and d': "workflow_graph_budgets d' = update_where (budget_is t g)
        (\<lambda>r. r\<lparr>gb_output_tokens := gb_output_tokens r + n\<rparr>) (workflow_graph_budgets d)"
      using assms(2)
      by (auto simp: record_graph_output_tokens_def simp del: not_le split: option.splits if_splits)
    have "budget_ok (x\<lparr>gb_output_tokens := gb_output_tokens x + n\<rparr>)"
      if x: "x \<in> set (workflow_graph_budgets d)" "budget_is t g x" "budget_ok x" for x
      using budget_unique [OF assms(1) row x(1,2)] c(2) l x(3)
      by (auto simp: budget_ok_def split: option.splits)
    then show ?thesis using d'
      by (intro budgets_ok_update [OF assms(1), of "budget_is t g" "\<lambda>r. r\<lparr>gb_output_tokens := gb_output_tokens r + n\<rparr>"]) simp_all
  qed (use assms(1) in simp)
qed

lemma insert_budget_ok:
  assumes "budgets_ok d" and "insert_budget t g b deadline d = Inr d'" and "validate_graph_budget b = Inr ()"
  shows "budgets_ok d'" and "workflow_graph_nodes d' = workflow_graph_nodes d" and "workflow_graphs d' = workflow_graphs d"
  using assms
  by (auto simp: insert_budget_def map_r_eq_Inr insert_pk_eq_Inr budgets_ok_def budget_ok_def
      validate_graph_budget_def split: option.splits)

lemma bind_graph_budget_ok:
  assumes "budgets_ok d" and "bind_graph_budget L t g b clk now d = Inr (d', row)"
  shows "budgets_ok d'" and "workflow_graph_nodes d' = workflow_graph_nodes d" and "workflow_graphs d' = workflow_graphs d"
  using assms(2) insert_budget_ok [OF assms(1)] assms(1)
  by (auto simp: bind_graph_budget_def bind_r_eq_Inr split: option.splits if_splits)

lemma budget_step_ok:
  assumes "gstore_ok L d" and "budgets_ok d'"
    and "workflow_graph_nodes d' = workflow_graph_nodes d" and "workflow_graphs d' = workflow_graphs d"
  shows "gstore_ok L d'" and "gevolves L d d'"
proof -
  have "entries t g d' = entries t g d" for t g using assms(3) by (simp add: entries_def graph_node_rows_def)
  then show e: "gevolves L d d'" using persisted_cong [OF assms(4)] by (auto simp: gevolves_def)
  have "frame d d'" using assms(3,4) by (simp add: frame_def)
  then show "gstore_ok L d'" by (rule gstore_ok_frame [OF assms(1) _ e assms(2)])
qed

section \<open>Creation\<close>

definition new_node :: "string \<Rightarrow> string \<Rightarrow> string \<times> NodeState \<Rightarrow> node_row" where
  "new_node t g e = \<lparr>nr_graph_id = g, nr_node_id = fst e, nr_tenant = t, nr_state = snd e, nr_fence = 0,
     nr_owner = None, nr_lease_until = None, nr_result_artifact_id = None\<rparr>"

lemma insert_nodes_all:
  assumes "foldM (insert_nodes t g) es d = Inr d'" and "nodes_distinct d"
  shows "nodes_distinct d' \<and> workflow_graph_nodes d' = workflow_graph_nodes d @ map (new_node t g) es
    \<and> workflow_graphs d' = workflow_graphs d \<and> workflow_graph_budgets d' = workflow_graph_budgets d"
  using assms
proof (induction es arbitrary: d)
  case (Cons e es)
  obtain d1 where d1: "insert_nodes t g e d = Inr d1" "foldM (insert_nodes t g) es d1 = Inr d'"
    using Cons.prems(1) by (auto simp: bind_r_eq_Inr)
  have f: "workflow_graph_nodes d1 = workflow_graph_nodes d @ [new_node t g e]"
      "workflow_graphs d1 = workflow_graphs d" "workflow_graph_budgets d1 = workflow_graph_budgets d"
    using d1(1)
    by (auto simp: insert_nodes_def bind_r_eq_Inr insert_pk_eq_Inr graph_event_def new_node_def)
  have "\<forall>x \<in> set (workflow_graph_nodes d). node_key x \<noteq> node_key (new_node t g e)"
    using d1(1) by (auto simp: insert_nodes_def bind_r_eq_Inr insert_pk_eq_Inr new_node_def node_key_def)
  then have "nodes_distinct d1" using Cons.prems(2) f(1) by (auto simp del: not_None_eq)
  note I = Cons.IH [OF d1(2) this]
  have "workflow_graph_nodes d' = workflow_graph_nodes d @ map (new_node t g) (e # es)"
    using I [THEN conjunct2, THEN conjunct1] f(1) by simp
  then show ?case using I [THEN conjunct1] I [THEN conjunct2] f(2,3) by simp
qed simp

lemma entries_new:
  assumes nodes: "workflow_graph_nodes d' = workflow_graph_nodes d @ map (new_node t g) es"
  shows "(t', g') \<noteq> (t, g) \<Longrightarrow> entries t' g' d' = entries t' g' d"
    and "(\<forall>k \<in> set (workflow_graph_nodes d). nr_graph_id k \<noteq> g) \<Longrightarrow> sorted (map fst es) \<Longrightarrow> entries t g d' = es"
proof -
  have "filter (\<lambda>r. nr_tenant r = t' \<and> nr_graph_id r = g') (map (new_node t g) es) =
      (if (t', g') = (t, g) then map (new_node t g) es else [])" for t' g'
    by (induction es) (auto simp: new_node_def)
  note new = this
  show "entries t' g' d' = entries t' g' d" if "(t', g') \<noteq> (t, g)"
    using that new [of t' g'] by (auto simp: entries_def graph_node_rows_def nodes)
  assume none: "\<forall>k \<in> set (workflow_graph_nodes d). nr_graph_id k \<noteq> g" and sorted: "sorted (map fst es)"
  have "filter (\<lambda>r. nr_tenant r = t \<and> nr_graph_id r = g) (workflow_graph_nodes d) = []"
    using none by (auto simp: filter_empty_conv)
  moreover have "sort_key nr_node_id (map (new_node t g) es) = map (new_node t g) es"
    using sorted by (intro sort_key_id_if_sorted) (simp add: new_node_def comp_def)
  ultimately have "graph_node_rows t g d' = map (new_node t g) es"
    using new [of t g] by (simp add: graph_node_rows_def nodes)
  then show "entries t g d' = es" by (simp add: entries_def new_node_def comp_def)
qed

text \<open>The values the creation is called with: the graph came out of its constructor, and the floats in it
  print and read back.\<close>

definition storable :: "pylib \<Rightarrow> WorkflowGraph \<Rightarrow> bool" where
  "storable L graph \<longleftrightarrow> built_graph graph \<and> floats_ok L (graph_to_dict L graph)"

lemma create_graphD:
  assumes "iso_roundtrip L" and "built_graph graph"
    and "create_graph L t key graph budget binding clk now uuid d = Inr (d', i)"
  shows "(d' = d \<and> (\<exists>row \<in> set (workflow_graphs d). gr_tenant row = t \<and> gr_key row = key \<and> gr_id row = i
            \<and> gr_request_hash row = graph_digest L graph budget binding))
       \<or> (i = uuid \<and> (\<forall>r \<in> set (workflow_graphs d). gr_id r \<noteq> uuid \<and> \<not> (gr_tenant r = t \<and> gr_key r = key))
          \<and> (\<exists>initial d1 row. initial_state graph = Inr initial
               \<and> row = \<lparr>gr_id = uuid, gr_tenant = t, gr_key = key,
                   gr_request_hash = graph_digest L graph budget binding,
                   gr_graph_json = canonical_json L (graph_to_dict L graph),
                   gr_binding_json = map_option (canonical_json L) binding\<rparr>
               \<and> foldM (insert_nodes t uuid) (node_states initial) (d\<lparr>workflow_graphs := workflow_graphs d @ [row]\<rparr>) = Inr d1
               \<and> (budget = None \<and> d' = d1 \<or> (\<exists>b current. budget = Some b \<and> validate_graph_budget b = Inr ()
                    \<and> insert_budget t uuid b (current + seconds (number_value (bu_deadline_seconds b))) d1 = Inr d'))))"
proof (cases "List.find (\<lambda>r. gr_tenant r = t \<and> gr_key r = key) (workflow_graphs d)")
  case (Some row)
  then have row: "row \<in> set (workflow_graphs d)" "gr_tenant row = t" "gr_key row = key" using find_SomeD by fast+
  have "d' = d \<and> gr_id row = i \<and> gr_request_hash row = graph_digest L graph budget binding"
    using assms(3) graph_roundtrip(1) [OF assms(1,2)] Some
    by (auto simp: create_graph_def bind_r_eq_Inr Let_def split: if_splits)
  with row show ?thesis by blast
next
  case None
  then have "\<forall>r \<in> set (workflow_graphs d). \<not> (gr_tenant r = t \<and> gr_key r = key)" by (simp add: find_None)
  then show ?thesis
    using assms(3) graph_roundtrip(1) [OF assms(1,2)] None
    by (auto simp: create_graph_def bind_r_eq_Inr Let_def insert_pk_eq_Inr map_r_eq_Inr split: option.splits)
qed

lemma create_graph_row:
  assumes "iso_roundtrip L" and "built_graph graph" and "nodes_distinct d"
    and "create_graph L t key graph budget binding clk now uuid d = Inr (d', i)"
  shows "\<exists>row \<in> set (workflow_graphs d'). gr_tenant row = t \<and> gr_key row = key \<and> gr_id row = i
           \<and> gr_request_hash row = graph_digest L graph budget binding"
  using create_graphD [OF assms(1,2,4)]
proof (rule disjE, goal_cases)
  case 2
  then obtain initial d1 row where i: "i = uuid" and "initial_state graph = Inr initial"
    and row: "row = \<lparr>gr_id = uuid, gr_tenant = t, gr_key = key,
                 gr_request_hash = graph_digest L graph budget binding,
                 gr_graph_json = canonical_json L (graph_to_dict L graph),
                 gr_binding_json = map_option (canonical_json L) binding\<rparr>"
    and ins: "foldM (insert_nodes t uuid) (node_states initial) (d\<lparr>workflow_graphs := workflow_graphs d @ [row]\<rparr>) = Inr d1"
    and bu: "budget = None \<and> d' = d1 \<or> (\<exists>b current. budget = Some b \<and> validate_graph_budget b = Inr ()
                  \<and> insert_budget t uuid b (current + seconds (number_value (bu_deadline_seconds b))) d1 = Inr d')"
    by blast
  have nd: "nodes_distinct (d\<lparr>workflow_graphs := workflow_graphs d @ [row]\<rparr>)" using assms(3) by simp
  have "workflow_graphs d1 = workflow_graphs d @ [row]" using insert_nodes_all [OF ins nd] by simp
  moreover have "workflow_graphs d' = workflow_graphs d1" using bu by (auto simp: insert_budget_def map_r_eq_Inr)
  ultimately show ?case by (simp add: row i)
qed simp

lemma persisted_created:
  assumes lib: "loads_canonical L" "iso_roundtrip L" and g: "storable L graph"
    and fresh: "\<forall>r \<in> set (workflow_graphs d). gr_id r \<noteq> uuid"
      "\<forall>k \<in> set (workflow_graph_nodes d). nr_graph_id k \<noteq> uuid"
    and init: "initial_state graph = Inr initial"
    and d': "workflow_graphs d' = workflow_graphs d @ [row]"
      "workflow_graph_nodes d' = workflow_graph_nodes d @ map (new_node t uuid) (node_states initial)"
    and row: "gr_id row = uuid" "gr_tenant row = t" "gr_graph_json row = canonical_json L (graph_to_dict L graph)"
  shows "persisted L t uuid d' initial" and "persisted L t' g' d s \<Longrightarrow> persisted L t' g' d' s"
proof -
  have gok: "graph_ok graph" using g by (simp add: storable_def built_graph_def)
  have ini: "state_ok initial" "gs_graph initial = graph" using initial_state_ok [OF gok] init by auto
  have "find_graph t uuid d' = Some row"
    using fresh(1) row by (auto simp: find_graph_def graph_is_def d' find_append split: option.splits dest!: find_SomeD)
  moreover have "decode L (canonical_json L (graph_to_dict L graph)) = Inr (sort_keys (graph_to_dict L graph))"
    using lib(1) g by (simp add: decode_def loads_canonical_def storable_def)
  ultimately have "stored_graph L t uuid d' = Some graph"
    using graph_roundtrip(2) [OF lib(2), of graph] g row by (simp add: stored_graph_def storable_def)
  moreover have "entries t uuid d' = node_states initial"
    using state_ok_entries(1) [OF ini(1)] graph_okD(2) [OF gok] ini(2)
    by (intro entries_new(2) [OF d'(2) fresh(2)]) simp
  ultimately show "persisted L t uuid d' initial"
    using ini by (simp add: persisted_iff state_ok_def)
  assume p: "persisted L t' g' d s"
  then obtain r where r: "find_graph t' g' d = Some r"
    by (auto simp: persisted_def get_graph_state_def split: option.splits)
  then have "g' \<noteq> uuid" using fresh(1) by (auto simp: find_graph_def graph_is_def dest!: find_SomeD)
  then have "entries t' g' d' = entries t' g' d" by (intro entries_new(1) [OF d'(2)]) simp
  moreover have "stored_graph L t' g' d' = stored_graph L t' g' d"
    using r by (simp add: stored_graph_def find_graph_def d' find_append)
  ultimately show "persisted L t' g' d' s" using p by (simp add: persisted_iff)
qed

lemma create_graph_ok:
  assumes lib: "loads_canonical L" "iso_roundtrip L" and g: "storable L graph" and ok: "gstore_ok L d"
    and c: "create_graph L t key graph budget binding clk now uuid d = Inr (d', i)"
  shows "gstore_ok L d' \<and> gevolves L d d'"
proof -
  have b: "built_graph graph" using g by (simp add: storable_def)
  show ?thesis
  proof (cases "d' = d")
    case False
    then obtain initial d1 row where i: "i = uuid" and fresh: "\<forall>r \<in> set (workflow_graphs d). gr_id r \<noteq> uuid"
        "\<forall>r \<in> set (workflow_graphs d). \<not> (gr_tenant r = t \<and> gr_key r = key)"
      and init: "initial_state graph = Inr initial"
      and row: "row = \<lparr>gr_id = uuid, gr_tenant = t, gr_key = key,
                   gr_request_hash = graph_digest L graph budget binding,
                   gr_graph_json = canonical_json L (graph_to_dict L graph),
                   gr_binding_json = map_option (canonical_json L) binding\<rparr>"
      and ins: "foldM (insert_nodes t uuid) (node_states initial) (d\<lparr>workflow_graphs := workflow_graphs d @ [row]\<rparr>) = Inr d1"
      and bu: "budget = None \<and> d' = d1 \<or> (\<exists>b current. budget = Some b \<and> validate_graph_budget b = Inr ()
                    \<and> insert_budget t uuid b (current + seconds (number_value (bu_deadline_seconds b))) d1 = Inr d')"
      using create_graphD [OF lib(2) b c] by blast
    have nd: "nodes_distinct (d\<lparr>workflow_graphs := workflow_graphs d @ [row]\<rparr>)" using gstore_okD(1) [OF ok] by simp
    have I: "nodes_distinct d1" "workflow_graph_nodes d1 = workflow_graph_nodes d @ map (new_node t uuid) (node_states initial)"
        "workflow_graphs d1 = workflow_graphs d @ [row]" "workflow_graph_budgets d1 = workflow_graph_budgets d"
      using insert_nodes_all [OF ins nd, THEN conjunct1] insert_nodes_all [OF ins nd, THEN conjunct2] by simp_all
    have "budgets_ok d1" using gstore_okD(3) [OF ok] I(4) by (simp add: budgets_ok_def)
    then have B: "budgets_ok d'" "workflow_graph_nodes d' = workflow_graph_nodes d1" "workflow_graphs d' = workflow_graphs d1"
      using bu insert_budget_ok by auto
    have old: "\<forall>k \<in> set (workflow_graph_nodes d). nr_graph_id k \<noteq> uuid"
      using gstore_okD(6) [OF ok] fresh(1) by metis
    have G: "workflow_graphs d' = workflow_graphs d @ [row]" using B(3) I(3) by simp
    have N: "workflow_graph_nodes d' = workflow_graph_nodes d @ map (new_node t uuid) (node_states initial)"
      using B(2) I(2) by simp
    note P = persisted_created [OF lib g fresh(1) old init G N]
    have P1: "persisted L t uuid d' initial" using P(1) by (simp add: row)
    have P2: "persisted L t' g' d' s" if "persisted L t' g' d s" for t' g' s using P(2) that by (simp add: row)
    have "gstore_ok L d'"
      unfolding gstore_ok_def
    proof (intro conjI ballI)
      show "nodes_distinct d'" using I(1) B(2) by simp
      show "distinct (map gr_id (workflow_graphs d'))" using gstore_okD(2) [OF ok] fresh(1) by (auto simp: G row)
      show "distinct (map (\<lambda>r. (gr_tenant r, gr_key r)) (workflow_graphs d'))"
        using gstore_okD(4) [OF ok] fresh(2) by (auto simp: G row)
      show "budgets_ok d'" by (rule B(1))
      show "\<exists>s. persisted L (gr_tenant r) (gr_id r) d' s" if r: "r \<in> set (workflow_graphs d')" for r
      proof (cases "r = row")
        case True then show ?thesis using P1 by (auto simp: row)
      next
        case False
        then have "r \<in> set (workflow_graphs d)" using r by (simp add: G)
        then obtain s where "persisted L (gr_tenant r) (gr_id r) d s" using gstore_okD(5) [OF ok, of r] by blast
        then show ?thesis using P2 by blast
      qed
      show "\<exists>r \<in> set (workflow_graphs d'). gr_id r = nr_graph_id k \<and> gr_tenant r = nr_tenant k"
        if k: "k \<in> set (workflow_graph_nodes d')" for k
      proof (cases "k \<in> set (workflow_graph_nodes d)")
        case True then show ?thesis using gstore_okD(6) [OF ok, of k] by (auto simp: G)
      next
        case False then show ?thesis using k by (auto simp: G N new_node_def row)
      qed
    qed
    moreover have "gevolves L d d'" using P2 unfolding gevolves_def by blast
    ultimately show ?thesis by blast
  qed (use ok in simp)
qed

section \<open>The machine\<close>

inductive graph_store_step :: "pylib \<Rightarrow> db \<Rightarrow> db \<Rightarrow> bool" for L where
  gs_create: "storable L graph \<Longrightarrow> create_graph L t key graph budget binding clk now uuid d = Inr (d', i)
    \<Longrightarrow> graph_store_step L d d'"
| gs_transition: "transition_graph_node L t g n target d = Inr (d', s) \<Longrightarrow> graph_store_step L d d'"
| gs_bind: "bind_graph_budget L t g b clk now d = Inr (d', row) \<Longrightarrow> graph_store_step L d d'"
| gs_reserve: "reserve_graph_attempt t g clk now d = Inr (d', ok) \<Longrightarrow> graph_store_step L d d'"
| gs_tokens: "record_graph_output_tokens t g count d = Inr (d', ok) \<Longrightarrow> graph_store_step L d d'"
| gs_claim: "claim_graph_node t g n owner secs clk now d = Inr (d', fence) \<Longrightarrow> graph_store_step L d d'"
| gs_complete: "complete_graph_node L t g n owner fence result ok clk now uuid d = Inr (d', a)
    \<Longrightarrow> graph_store_step L d d'"
| gs_validate: "validate_graph_node L t g n policy d = Inr (d', report) \<Longrightarrow> graph_store_step L d d'"
| gs_cancel: "cancel_graph L t g d = Inr (d', s) \<Longrightarrow> graph_store_step L d d'"
| gs_recover: "recover_graph_nodes_startup L limit clk now d = Inr (d', rep) \<Longrightarrow> graph_store_step L d d'"

inductive_cases graph_store_stepE: "graph_store_step L d d'"

lemma gmove_good: "gstore_ok L d \<Longrightarrow> gmove L d d' \<Longrightarrow> gstore_ok L d' \<and> gevolves L d d'"
  using gmove_ok by (auto simp: gmove_def)

lemma graph_store_step_good:
  assumes "graph_store_step L d d'" and ok: "gstore_ok L d" and lib: "loads_canonical L" "iso_roundtrip L"
  shows "gstore_ok L d' \<and> gevolves L d d'"
  using assms(1)
proof cases
  case gs_create then show ?thesis using create_graph_ok [OF lib _ ok] by blast
next
  case (gs_transition t g n target s)
  have "gmove L d d'" by (rule transition_graph_nodeD [OF gstore_okD(1) [OF ok] gs_transition])
  then show ?thesis by (rule gmove_good [OF ok])
next
  case gs_bind
  from bind_graph_budget_ok [OF gstore_okD(3) [OF ok] this] show ?thesis using budget_step_ok [OF ok] by blast
next
  case gs_reserve
  from reserve_graph_attempt_ok [OF gstore_okD(3) [OF ok] this] show ?thesis using budget_step_ok [OF ok] by blast
next
  case gs_tokens
  from record_graph_output_tokens_ok [OF gstore_okD(3) [OF ok] this] show ?thesis using budget_step_ok [OF ok] by blast
next
  case gs_claim
  have "gmove L d d'" by (rule claim_graph_node_move [OF ok gs_claim])
  then show ?thesis by (rule gmove_good [OF ok])
next
  case gs_complete
  have "gmove L d d'" by (rule complete_graph_node_move [OF ok gs_complete])
  then show ?thesis by (rule gmove_good [OF ok])
next
  case gs_validate
  have "gmove L d d'" using validate_graph_nodeD [OF ok gs_validate] by auto
  then show ?thesis by (rule gmove_good [OF ok])
next
  case gs_cancel then show ?thesis using gmove_good [OF ok] cancel_graph_move(1) [OF ok] by blast
next
  case gs_recover then show ?thesis using gmove_good [OF ok] recover_graph_nodes_move [OF ok] by blast
qed

definition gstore_init :: "db \<Rightarrow> bool" where
  "gstore_init d \<longleftrightarrow> workflow_graphs d = [] \<and> workflow_graph_nodes d = [] \<and> workflow_graph_budgets d = []"

lemma gstore_init_ok: "gstore_init d \<Longrightarrow> gstore_ok L d"
  by (simp add: gstore_init_def gstore_ok_def budgets_ok_def)

definition lib_laws :: "pylib \<Rightarrow> bool" where
  "lib_laws L \<longleftrightarrow> loads_canonical L \<and> iso_roundtrip L"

interpretation graph_store: state_machine gstore_init
    "\<lambda>d d'. lib_laws L \<and> graph_store_step L d d'" "gstore_ok L" for L
  by unfold_locales (auto simp: lib_laws_def intro: gstore_init_ok dest: graph_store_step_good)

lemma graph_store_run_good:
  assumes "(graph_store_step L)\<^sup>*\<^sup>* d d'" and "lib_laws L" and "gstore_ok L d"
  shows "gstore_ok L d' \<and> gevolves L d d'"
  using assms(1)
proof (induction rule: rtranclp_induct)
  case (step b c)
  then have "gstore_ok L c \<and> gevolves L b c"
    using graph_store_step_good assms(2) by (auto simp: lib_laws_def)
  then show ?case using step.IH gevolves_trans by blast
qed (use assms(3) in simp)

section \<open>Nodes never go back\<close>

lemma graph_steps_rank:
  assumes "graph_step\<^sup>*\<^sup>* s s'" and "state_ok s"
  shows "state_ok s' \<and> node_rank (states_of s' i) \<le> node_rank (states_of s i)"
  using assms(1)
proof (induction rule: rtranclp_induct)
  case (step b c)
  obtain j target where t: "transition b j target = Inr c" using step.hyps(2) by (auto elim: graph_stepE)
  have ok: "state_ok b" using step.IH by blast
  obtain cur where cur: "states_of b j = Some cur" "target \<in> ALLOWED_TRANSITIONS cur" "state_ok c"
      "states_of c = after b j target"
    using transitionD [OF ok t] by blast
  have "node_rank (states_of c i) \<le> node_rank (states_of b i)"
    using after_target(1) [OF ok cur(1,2)] after_target(2) [OF ok cur(1,2), of i] allowed_rank [OF cur(2)] cur(1,4) by (cases "i = j") auto
  then show ?case using step.IH cur(3) by linarith
qed (use assms(2) in simp)

lemma persisted_rank:
  assumes "(graph_store_step L)\<^sup>*\<^sup>* d d'" and "lib_laws L" and "gstore_ok L d" and "persisted L t g d s"
  obtains s' where "persisted L t g d' s'" and "gstore_ok L d'" and "node_rank (states_of s' i) \<le> node_rank (states_of s i)"
proof -
  obtain s' where "persisted L t g d' s'" "graph_step\<^sup>*\<^sup>* s s'"
    using graph_store_run_good [OF assms(1-3)] assms(4) unfolding gevolves_def by blast
  then show thesis
    using that graph_steps_rank [OF _ persisted_ok [OF assms(4)]] graph_store_run_good [OF assms(1-3)] by blast
qed

lemma persisted_find_node:
  assumes "gstore_ok L d" and "persisted L t g d s"
  shows "states_of s n = map_option nr_state (find_node t g n d)"
  using entry_find_node [OF gstore_okD(1) [OF assms(1)], of t g n] assms(2)
  by (simp add: persisted_iff states_of_def)

lemma lease_refused:
  assumes "gstore_ok L d" and "persisted L t g d s" and "states_of s n \<noteq> Some RUNNING"
  shows "require_graph_lease t g n owner fence clk now d
     = Inl (WorkflowConflict ''Stale or unauthorized graph-node execution'')"
  using persisted_find_node [OF assms(1,2), of n] assms(3)
  by (auto simp: require_graph_lease_def Let_def split: option.splits)

lemma claim_refused:
  assumes "gstore_ok L d" and "persisted L t g d s" and "states_of s n \<noteq> Some READY"
  shows "\<exists>e. claim_graph_node t g n owner secs clk now d = Inl e"
proof (cases "claim_graph_node t g n owner secs clk now d")
  case (Inr x)
  then have "claim_graph_node t g n owner secs clk now d = Inr (fst x, snd x)" by simp
  then show ?thesis
    using persisted_find_node [OF assms(1,2), of n] assms(3) by (elim claim_graph_nodeD) auto
qed simp

section \<open>Cancelling everything\<close>

lemma cancelled_active:
  assumes ok: "state_ok s" and tr: "transition s i CANCELLED = Inr s'"
    and j: "states_of s' j = Some st" "st \<in> ACTIVE_NODE_STATES"
  shows "j \<noteq> i \<and> states_of s j = Some st"
proof -
  obtain cur where cur: "states_of s i = Some cur" "CANCELLED \<in> ALLOWED_TRANSITIONS cur" "state_ok s'"
      "gs_graph s' = gs_graph s" "states_of s' = after s i CANCELLED"
    using transitionD [OF ok tr] by blast
  have i: "states_of s' i = Some CANCELLED" using after_target(1) [OF ok cur(1,2)] cur(5) by simp
  then have ne: "j \<noteq> i" using j by (auto simp: ACTIVE_NODE_STATES_def)
  have other: "states_of s' k = states_of s k
      \<or> states_of s k = Some BLOCKED \<and> states_of s' k \<in> {Some READY, Some SKIPPED}" if "k \<noteq> i" for k
    using after_target(2) [OF ok cur(1,2) that] cur(5) by simp
  have "\<not> (states_of s j = Some BLOCKED \<and> states_of s' j = Some READY)"
  proof
    assume b: "states_of s j = Some BLOCKED \<and> states_of s' j = Some READY"
    obtain n where n: "n \<in> set (graph_nodes (gs_graph s))" "node_id n = j"
      using node_of_state [OF ok] b by blast
    have "sched_ok (states_of s') n" using state_ok_nodes(3) [OF cur(3)] n(1) cur(4) by simp
    then have "states_of s' k = Some SUCCEEDED" if "k \<in> set (depends_on n)" for k
      using sched_okD(3) that n(2) b by (auto simp: scheduled_def)
    then have "states_of s k = Some SUCCEEDED" if "k \<in> set (depends_on n)" for k
      using that other [of k] i by (cases "k = i") fastforce+
    moreover have "blocked_ok (states_of s) n" using state_ok_nodes(4) [OF ok] n(1) by simp
    ultimately show False using b n(2) by (simp add: blocked_ok_def)
  qed
  then show ?thesis using other [OF ne] j ne by (auto simp: ACTIVE_NODE_STATES_def)
qed

lemma active_cancellable: "st \<in> ACTIVE_NODE_STATES \<Longrightarrow> CANCELLED \<in> ALLOWED_TRANSITIONS st"
  by (auto simp: ACTIVE_NODE_STATES_def)

lemma cancel_node_active:
  assumes ok: "gstore_ok L d" and p: "persisted L t g d s" and st: "states_of s i = Some cur"
    and a: "cur \<in> ACTIVE_NODE_STATES" "st0 \<in> ACTIVE_NODE_STATES"
  obtains d' s' where "cancel_node L t g (i, st0) d = Inr d'" and "persisted L t g d' s'"
    and "gstore_ok L d'" and "transition s i CANCELLED = Inr s'"
proof -
  obtain s' where s': "transition s i CANCELLED = Inr s'"
    using transition_ok [OF persisted_ok [OF p] st active_cancellable [OF a(1)]] by blast
  note nd = gstore_okD(1) [OF ok]
  obtain xs where e: "transition_graph_node L t g i CANCELLED d = Inr (set_states t g (states_of s') xs d, s')"
    by (rule transition_graph_node_refines [OF nd p s'])
  let ?d = "fence_node t g i (set_states t g (states_of s') xs d)"
  have c: "cancel_node L t g (i, st0) d = Inr ?d"
    using p a st e by (simp add: cancel_node_def persisted_def state_of_def states_of_def)
  have "persisted L t g ?d s'"
    unfolding fence_node_move(2) by (rule transition_graph_nodeD [OF nd e])
  with c show thesis using that s' gmove_ok [OF ok cancel_node_move [OF ok c]] by blast
qed

lemma cancel_nodes_total:
  assumes "gstore_ok L d" and "persisted L t g d s"
    and "\<forall>(i, st0) \<in> set es. states_of s i \<noteq> None"
    and "\<forall>i st. states_of s i = Some st \<and> st \<in> ACTIVE_NODE_STATES \<longrightarrow> (\<exists>st0 \<in> ACTIVE_NODE_STATES. (i, st0) \<in> set es)"
  shows "\<exists>d' s'. foldM (cancel_node L t g) es d = Inr d' \<and> persisted L t g d' s' \<and> gstore_ok L d'
           \<and> (\<forall>i st. states_of s' i = Some st \<longrightarrow> st \<notin> ACTIVE_NODE_STATES)"
  using assms
proof (induction es arbitrary: d s)
  case (Cons e es)
  obtain i st0 where e: "e = (i, st0)" by (cases e)
  obtain cur where cur: "states_of s i = Some cur" using Cons.prems(3) e by auto
  show ?case
  proof (cases "st0 \<in> ACTIVE_NODE_STATES \<and> cur \<in> ACTIVE_NODE_STATES")
    case True
    obtain d1 s1 where d1: "cancel_node L t g (i, st0) d = Inr d1" "persisted L t g d1 s1" "gstore_ok L d1"
        and t: "transition s i CANCELLED = Inr s1"
      using cancel_node_active [OF Cons.prems(1,2) cur] True by blast
    note act = cancelled_active [OF persisted_ok [OF Cons.prems(2)] t]
    have "dom (states_of s1) = dom (states_of s)"
      using transitionD [OF persisted_ok [OF Cons.prems(2)] t] state_ok_nodes(5) persisted_ok [OF Cons.prems(2)] by metis
    then have 3: "\<forall>(i, st0) \<in> set es. states_of s1 i \<noteq> None" using Cons.prems(3) by auto
    have "\<forall>i st. states_of s1 i = Some st \<and> st \<in> ACTIVE_NODE_STATES \<longrightarrow> (\<exists>st0 \<in> ACTIVE_NODE_STATES. (i, st0) \<in> set es)"
      using Cons.prems(4) act e by fastforce
    from Cons.IH [OF d1(3,2) 3 this] show ?thesis using d1(1) e by simp
  next
    case False
    then have c: "cancel_node L t g e d = Inr d"
      using Cons.prems(2) cur by (auto simp: cancel_node_def e persisted_def state_of_def states_of_def)
    have "\<forall>i st. states_of s i = Some st \<and> st \<in> ACTIVE_NODE_STATES \<longrightarrow> (\<exists>st0 \<in> ACTIVE_NODE_STATES. (i, st0) \<in> set es)"
      using Cons.prems(4) False cur e by fastforce
    from Cons.IH [OF Cons.prems(1,2) _ this] show ?thesis using Cons.prems(3) c by simp
  qed
qed auto

section \<open>Recovering every expired lease\<close>

definition recovered :: "node_row \<Rightarrow> node_row" where
  "recovered r = r\<lparr>nr_state := UNCERTAIN, nr_fence := nr_fence r + 1, nr_owner := None, nr_lease_until := None\<rparr>"

lemma recovered_simps [simp]:
  "node_ref (recovered r) = node_ref r" "nr_state (recovered r) = UNCERTAIN"
  by (simp_all add: recovered_def node_ref_def)

lemma recover_node_running:
  assumes ok: "gstore_ok L d" and r: "r \<in> set (workflow_graph_nodes d)" "node_ref r = node_ref row" "nr_state r = RUNNING"
  obtains d' where "recover_node L row d = Inr d'" and "gstore_ok L d'"
    and "workflow_graph_nodes d' = update_where (\<lambda>x. node_ref x = node_ref row) recovered (workflow_graph_nodes d)"
proof -
  let ?t = "nr_tenant row" and ?g = "nr_graph_id row" and ?n = "nr_node_id row"
  note nd = gstore_okD(1) [OF ok]
  have f: "find_node ?t ?g ?n d = Some r"
    using find_node_iff [OF nd] r by (simp add: node_is_def node_ref_def)
  obtain s where s: "persisted L ?t ?g d s" "states_of s ?n = Some RUNNING"
    using find_graph_persisted [OF ok f] r(3) by metis
  have "UNCERTAIN \<in> ALLOWED_TRANSITIONS RUNNING" "UNCERTAIN \<notin> TERMINAL_NODE_STATES"
    by (simp_all add: TERMINAL_NODE_STATES_def)
  then obtain s' where t: "transition_graph_node L ?t ?g ?n UNCERTAIN d = Inr (set_state ?t ?g ?n UNCERTAIN d, s')"
    by (rule transition_graph_node_single [OF nd s])
  let ?d = "fence_node ?t ?g ?n (set_state ?t ?g ?n UNCERTAIN d)"
  have e: "recover_node L row d = Inr ?d" using t by (simp add: recover_node_def)
  have "workflow_graph_nodes ?d = update_where (\<lambda>x. node_ref x = node_ref row) recovered (workflow_graph_nodes d)"
    by (auto simp: fence_node_def set_state_nodes update_where_def recovered_def node_is_def node_ref_def)
  then show thesis using that e gmove_ok [OF ok recover_node_move [OF ok e]] by blast
qed

lemma recover_nodes_total:
  assumes "gstore_ok L d" and "distinct (map node_ref rows)"
    and "\<forall>row \<in> set rows. \<exists>r \<in> set (workflow_graph_nodes d). node_ref r = node_ref row \<and> nr_state r = RUNNING"
  shows "\<exists>d'. foldM (recover_node L) rows d = Inr d' \<and> workflow_graph_nodes d' =
           update_where (\<lambda>x. node_ref x \<in> node_ref ` set rows) recovered (workflow_graph_nodes d)"
  using assms
proof (induction rows arbitrary: d)
  case (Cons row rows)
  obtain r where r: "r \<in> set (workflow_graph_nodes d)" "node_ref r = node_ref row" "nr_state r = RUNNING"
    using Cons.prems(3) by auto
  obtain d1 where d1: "recover_node L row d = Inr d1" "gstore_ok L d1"
      "workflow_graph_nodes d1 = update_where (\<lambda>x. node_ref x = node_ref row) recovered (workflow_graph_nodes d)"
    by (rule recover_node_running [OF Cons.prems(1) r])
  have new: "node_ref q \<noteq> node_ref row" if "q \<in> set rows" for q using Cons.prems(2) that by (auto simp: image_iff)
  have "\<exists>r \<in> set (workflow_graph_nodes d1). node_ref r = node_ref q \<and> nr_state r = RUNNING" if q: "q \<in> set rows" for q
  proof -
    obtain x where x: "x \<in> set (workflow_graph_nodes d)" "node_ref x = node_ref q" "nr_state x = RUNNING"
      using Cons.prems(3) q by auto
    then have "x \<in> set (workflow_graph_nodes d1)" using new [OF q] by (force simp: d1(3) set_update_where)
    with x show ?thesis by blast
  qed
  then obtain d' where d': "foldM (recover_node L) rows d1 = Inr d'" "workflow_graph_nodes d' =
      update_where (\<lambda>x. node_ref x \<in> node_ref ` set rows) recovered (workflow_graph_nodes d1)"
    using Cons.IH [OF d1(2)] Cons.prems(2) by auto
  have "workflow_graph_nodes d' =
      update_where (\<lambda>x. node_ref x \<in> node_ref ` set (row # rows)) recovered (workflow_graph_nodes d)"
    using new by (auto simp: d'(2) d1(3) update_where_def dest!: new)
  then show ?case using d1(1) d'(1) by simp
qed (simp add: update_where_def)

end
