(* ===== verification/Samples.thy ===== *)
theory Samples
  imports JsonText GraphProps
begin

text \<open>
  The concrete packet and graph the witnesses of the development start from: a text task, and a
  graph of two nodes in which \<open>b\<close> depends on \<open>a\<close>.
\<close>

definition sample_packet :: TaskPacket where
  "sample_packet =
     \<lparr>tp_task = \<lparr>it_input = TextInput ''hi'',
        it_generation = \<lparr>gc_max_output_tokens = Some 16, gc_temperature = IntNum 0\<rparr>,
        it_requirements = \<lparr>requested_model = None, required_model = None,
          required_context_tokens = None, requires_structured_output = False,
          requires_streaming = False, required_accelerator = None, required_topology = None,
          required_data_location = None, production_only = False\<rparr>,
        it_trace = \<lparr>tc_request_id = ''r1'', tc_traceparent = None\<rparr>, it_deadline_at = None\<rparr>,
      tp_schema_version = 1\<rparr>"

lemma sample_packet_ok [simp]: "packet_ok sample_packet"
  by (simp add: sample_packet_def packet_ok_def TaskPacket_post_init_def task_ok_def
      InferenceTask_post_init_def TextInput_post_init_def GenerationConfig_post_init_def
      RoutingRequirements_post_init_def TraceContext_post_init_def optional_text_def
      require_text_def has_text_def strip_def py_space_def)

lemma sample_digest: "from_dict sample_lib (to_dict sample_lib sample_packet) = Inr sample_packet"
  by (rule from_dict_to_dict) simp_all

lemma sample_packet_floats: "floats_ok L (to_dict L sample_packet)"
  by (simp add: to_dict_def sample_packet_def generation_json_def requirements_json_def
      trace_json_def deadline_json_def)

lemma sample_packet_loads:
  "loads sample_lib (canonical_json sample_lib (to_dict sample_lib sample_packet))
     = Some (to_dict sample_lib sample_packet)"
  using sample_lib_laws(1) sample_packet_floats by (simp add: loads_canonical_def to_dict_def)

definition sample_node :: "string \<Rightarrow> string list \<Rightarrow> GraphNode" where
  "sample_node i deps = \<lparr>node_id = i, node_packet = sample_packet, depends_on = deps\<rparr>"

definition sample_graph :: WorkflowGraph where
  "sample_graph = \<lparr>graph_nodes = [sample_node ''a'' [], sample_node ''b'' [''a'']],
     graph_schema_version = 1\<rparr>"

end
