(* ===== verification/GraphTheorems.thy ===== *)
theory GraphTheorems
  imports Samples
begin

text \<open>
  What the graph scheduler promises: only acyclic graphs are built, a node runs after its
  dependencies have succeeded, transitions are total on the legal moves and refuse every other one,
  the scheduler cannot deadlock and every run ends.
\<close>

lemma sample_graph_ok: "graph_ok sample_graph"
  by (simp add: graph_ok_def WorkflowGraph_post_init_def sample_graph_def sample_node_def
      MAX_GRAPH_NODES_def identifiers_def check_edges_def require_acyclic_def eliminate.simps
      eliminable_def dependencies_def)

definition sample_state :: GraphState where
  "sample_state = \<lparr>gs_graph = sample_graph, node_states = [(''a'', READY), (''b'', BLOCKED)]\<rparr>"

lemma sample_state_init: "initial_state sample_graph = Inr sample_state"
  by (simp add: initial_state_def sample_graph_def sample_node_def GraphState_init_def
      GraphState_post_init_def check_node_state_def identifiers_def sample_state_def
      TERMINAL_NODE_STATES_def UNSUCCESSFUL_NODE_STATES_def)

lemma sample_state_reachable: "reachable graph_init graph_step sample_state"
  using reach_init [of graph_init sample_state graph_step] sample_graph_ok sample_state_init
  unfolding graph_init_def by blast

text \<open>The acyclicity check is exact: on a graph whose dependencies are nodes of it, the elimination
  loop of \<open>_require_acyclic\<close> accepts precisely the graphs whose dependency relation is well founded.\<close>

theorem acyclicity_check_exact:
  assumes "distinct (identifiers g)"
    and "\<forall>n \<in> set (graph_nodes g). set (depends_on n) \<subseteq> set (identifiers g)"
  shows "require_acyclic g = Inr () \<longleftrightarrow> wf (dependency_relation g)"
  using edges_dependency_relation [OF assms] by (simp add: require_acyclic_def eliminate_iff)

theorem acyclicity_check_exact_witness: "wf (dependency_relation sample_graph)"
proof -
  have "require_acyclic sample_graph = Inr ()"
    using sample_graph_ok by (simp add: graph_ok_def WorkflowGraph_post_init_def bind_r_eq_Inr)
  then show ?thesis
    using acyclicity_check_exact [of sample_graph]
    by (simp add: sample_graph_def sample_node_def identifiers_def)
qed

text \<open>C23. Dependencies first: in every state the scheduler can reach, a node that is ready, running or
  beyond has only succeeded dependencies, and a skipped node has an unsuccessful one.\<close>

theorem dependencies_first:
  assumes "reachable graph_init graph_step s" and "n \<in> set (graph_nodes (gs_graph s))"
    and "states_of s (node_id n) = Some st" and "st \<noteq> BLOCKED"
  shows "if st = SKIPPED
    then \<exists>d \<in> set (depends_on n). \<exists>u \<in> UNSUCCESSFUL_NODE_STATES. states_of s d = Some u
    else \<forall>d \<in> set (depends_on n). states_of s d = Some SUCCEEDED"
proof -
  have "state_ok s" using assms(1) by (rule scheduler.reachable_inv)
  then have ok: "sched_ok (states_of s) n" using assms(2) by (simp add: state_ok_iff)
  show ?thesis
  proof (cases "st = SKIPPED")
    case True
    with sched_okD(4) [OF ok] assms(3) show ?thesis by auto
  next
    case False
    then have "st \<in> scheduled" using assms(4) not_scheduled_iff by blast
    with False sched_okD(3) [OF ok] assms(3) show ?thesis by auto
  qed
qed

definition sample_ready :: GraphState where
  "sample_ready = \<lparr>gs_graph = sample_graph, node_states = [(''a'', SUCCEEDED), (''b'', READY)]\<rparr>"

lemma sample_ready_reachable: "reachable graph_init graph_step sample_ready"
proof -
  let ?s = "\<lambda>st. \<lparr>gs_graph = sample_graph, node_states = [(''a'', st), (''b'', BLOCKED)]\<rparr>"
  have "transition sample_state ''a'' RUNNING = Inr (?s RUNNING)"
    and "transition (?s RUNNING) ''a'' AWAITING_VALIDATION = Inr (?s AWAITING_VALIDATION)"
    and "transition (?s AWAITING_VALIDATION) ''a'' SUCCEEDED = Inr sample_ready"
    by (simp_all add: sample_state_def sample_ready_def transition_def state_of_def sample_graph_def
        sample_node_def node_entry_def GraphState_init_def GraphState_post_init_def check_node_state_def
        identifiers_def TERMINAL_NODE_STATES_def UNSUCCESSFUL_NODE_STATES_def refresh.simps Let_def)
  then show ?thesis
    using sample_state_reachable graph_step.intros reach_step by metis
qed

theorem dependencies_first_witness:
  "states_of sample_ready ''b'' = Some READY \<and> states_of sample_ready ''a'' = Some SUCCEEDED"
  using dependencies_first [OF sample_ready_reachable, of "sample_node ''b'' [''a'']" READY]
  by (simp add: sample_ready_def sample_graph_def sample_node_def states_of_def)

text \<open>Transitions: from a reachable state a transition of an existing node returns exactly for the
  allowed targets; it gives the node its new state, promotes or skips blocked nodes only, and the
  result is again a state the constructor accepts. Every other target is a \<open>ValueError\<close>.\<close>

theorem transition_spec:
  assumes "reachable graph_init graph_step s" and "states_of s i = Some cur"
  shows "if target \<in> ALLOWED_TRANSITIONS cur
    then \<exists>s'. transition s i target = Inr s' \<and> state_ok s' \<and> gs_graph s' = gs_graph s
           \<and> states_of s' i = Some target
           \<and> (\<forall>j. j \<noteq> i \<longrightarrow> states_of s' j = states_of s j
                \<or> states_of s j = Some BLOCKED \<and> states_of s' j \<in> {Some READY, Some SKIPPED})
    else \<exists>m. transition s i target = Inl (ValueError m)"
proof -
  have ok: "state_ok s" using assms(1) by (rule scheduler.reachable_inv)
  show ?thesis
  proof (cases "target \<in> ALLOWED_TRANSITIONS cur")
    case True
    from transition_ok [OF ok assms(2) True] obtain s' where s': "transition s i target = Inr s'"
        "state_ok s'" "gs_graph s' = gs_graph s" "states_of s' = after s i target" by blast
    with after_target [OF ok assms(2) True] True show ?thesis by auto
  next
    case False
    have "state_of s i = Inr cur"
      using assms(2) by (simp add: state_of_def states_of_def)
    with False transition_illegal show ?thesis by auto
  qed
qed

theorem transition_spec_witness:
  "\<exists>s'. transition sample_state ''a'' RUNNING = Inr s' \<and> states_of s' ''a'' = Some RUNNING"
  using transition_spec [OF sample_state_reachable, of "''a''" READY RUNNING]
  by (auto simp: sample_state_def states_of_def)

text \<open>C24. No deadlock: a reachable state that is not terminal has a node somebody can move, one that is
  ready, running, awaiting validation or uncertain.\<close>

theorem scheduler_progress:
  assumes "reachable graph_init graph_step s" and "\<not> terminal s"
  shows "\<exists>i. states_of s i \<in> {Some READY, Some RUNNING, Some AWAITING_VALIDATION, Some UNCERTAIN}"
  using scheduler.reachable_inv [OF assms(1)] assms(2) by (rule not_terminal_has_work)

theorem scheduler_progress_witness:
  "\<exists>i. states_of sample_state i \<in> {Some READY, Some RUNNING, Some AWAITING_VALIDATION, Some UNCERTAIN}"
  by (rule scheduler_progress [OF sample_state_reachable])
     (simp add: terminal_def sample_state_def TERMINAL_NODE_STATES_def)

text \<open>C25. Every run ends: a run of the scheduler has at most five transitions per node, so never more
  than five hundred.\<close>

theorem scheduler_runs_end:
  assumes "reachable graph_init graph_step s" and "run_from graph_step s ts"
  shows "length ts \<le> 5 * length (graph_nodes (gs_graph s)) \<and> length ts \<le> 500"
proof -
  have ok: "state_ok s" using assms(1) by (rule scheduler.reachable_inv)
  have "length ts \<le> graph_rank s" using scheduler.run_length [OF ok assms(2)] .
  moreover have "length (graph_nodes (gs_graph s)) \<le> 100"
    using ok graph_okD(4) by (auto simp: state_ok_iff)
  ultimately show ?thesis using graph_rank_bound [of s] by linarith
qed

theorem scheduler_runs_end_witness:
  "\<exists>s'. run_from graph_step sample_state [s'] \<and> length [s'] \<le> 500"
proof -
  obtain s' where "transition sample_state ''a'' RUNNING = Inr s'"
    using transition_ok [of sample_state "''a''" READY RUNNING]
      scheduler.reachable_inv [OF sample_state_reachable]
    by (auto simp: sample_state_def states_of_def)
  then have "run_from graph_step sample_state [s']" by (auto intro: graph_step.intros)
  with scheduler_runs_end [OF sample_state_reachable this] show ?thesis by blast
qed

end
