(* ===== verification/GraphStoreTheorems.thy ===== *)
theory GraphStoreTheorems
  imports GraphStoreSteps GraphTheorems
begin

text \<open>
  What the persisted scheduler promises: the stored transition is the transition of the scheduler,
  every interleaving of operations keeps the tables consistent, budgets are never overdrawn, a claim
  gives one owner the node until its lease ends, and cancellation and recovery shut old owners out.
\<close>

section \<open>A sample history\<close>

lemma sample_names [simp]: "identifier_ok ''t''" "identifier_ok ''k''" "identifier_ok ''w1''" "identifier_ok ''w2''"
  "identifier_ok ''a''" "identifier_ok ''b''"
  by (simp_all add: identifier_ok_def strip_def py_space_def)

lemma sample_graph_storable: "storable sample_lib sample_graph"
proof -
  have n: "GraphNode_post_init (sample_node ''a'' []) = Inr ()" "GraphNode_post_init (sample_node ''b'' [''a'']) = Inr ()"
    by (simp_all add: GraphNode_post_init_def sample_node_def)
  have b: "built_graph sample_graph"
    using sample_graph_ok n by (auto simp: built_graph_def sample_graph_def sample_node_def)
  have "floats_ok sample_lib (graph_to_dict sample_lib sample_graph)"
    using sample_packet_floats [of sample_lib]
    by (simp add: graph_to_dict_def sample_graph_def sample_node_def node_to_dict_def)
  with b show ?thesis by (simp add: storable_def)
qed

definition sample_budget :: graph_budget where
  "sample_budget = \<lparr>bu_deadline_seconds = IntNum 60, bu_max_attempts = 2, bu_max_output_tokens = Some 100\<rparr>"

definition sample_graph_row :: graph_row where
  "sample_graph_row = \<lparr>gr_id = ''g1'', gr_tenant = ''t'', gr_key = ''k'',
     gr_request_hash = graph_digest sample_lib sample_graph (Some sample_budget) None,
     gr_graph_json = canonical_json sample_lib (graph_to_dict sample_lib sample_graph),
     gr_binding_json = None\<rparr>"

definition sample_budget_row :: graph_budget_row where
  "sample_budget_row = \<lparr>gb_graph_id = ''g1'', gb_tenant = ''t'', gb_deadline_at = 60000000,
     gb_max_attempts = 2, gb_max_output_tokens = Some 100, gb_attempts = 0, gb_output_tokens = 0\<rparr>"

definition sample_gdb :: db where
  "sample_gdb = empty_db\<lparr>workflow_graphs := [sample_graph_row],
     workflow_graph_nodes := map (new_node ''t'' ''g1'') [(''a'', READY), (''b'', BLOCKED)],
     workflow_graph_events :=
       [\<lparr>ge_graph_id = ''g1'', ge_node_id = ''a'', ge_tenant = ''t'', ge_state = READY\<rparr>,
        \<lparr>ge_graph_id = ''g1'', ge_node_id = ''b'', ge_tenant = ''t'', ge_state = BLOCKED\<rparr>],
     workflow_graph_budgets := [sample_budget_row]\<rparr>"

lemma sample_create_graph:
  "create_graph sample_lib ''t'' ''k'' sample_graph (Some sample_budget) None 0 None ''g1'' empty_db
     = Inr (sample_gdb, ''g1'')"
proof -
  have "built_graph sample_graph" using sample_graph_storable by (simp add: storable_def)
  from graph_roundtrip(1) [OF sample_lib_laws(2) this] show ?thesis
    by (simp add: create_graph_def check_identifier_def Let_def sample_state_init sample_state_def
        validate_graph_budget_def sample_budget_def empty_db_def insert_pk_def insert_nodes_def
        insert_budget_def graph_event_def sample_gdb_def sample_graph_row_def sample_budget_row_def new_node_def)
qed

lemma sample_gdb_reachable: "reachable gstore_init (\<lambda>d d'. lib_laws sample_lib \<and> graph_store_step sample_lib d d') sample_gdb"
proof (rule reach_step)
  show "reachable gstore_init (\<lambda>d d'. lib_laws sample_lib \<and> graph_store_step sample_lib d d') empty_db"
    by (rule reach_init) (simp add: gstore_init_def empty_db_def)
  show "lib_laws sample_lib \<and> graph_store_step sample_lib empty_db sample_gdb"
    using gs_create [OF sample_graph_storable sample_create_graph] by (simp add: lib_laws_def)
qed

lemma sample_gdb_ok: "gstore_ok sample_lib sample_gdb"
  using sample_gdb_reachable by (rule graph_store.reachable_inv)

lemma sample_gdb_persisted: "persisted sample_lib ''t'' ''g1'' sample_gdb sample_state"
proof -
  have "sample_gdb \<noteq> empty_db" by (simp add: sample_gdb_def empty_db_def)
  have "persisted sample_lib ''t'' ''g1'' sample_gdb sample_state"
    by (rule persisted_created(1) [where d = empty_db and row = sample_graph_row, OF sample_lib_laws sample_graph_storable])
       (simp_all add: empty_db_def sample_state_init sample_gdb_def sample_graph_row_def sample_state_def)
  then show ?thesis .
qed

section \<open>Refinement of the scheduler\<close>

text \<open>The stored transition is the scheduler's: on a stored graph \<open>transition_graph_node\<close> returns exactly
  when \<open>GraphState.transition\<close> does, with the same state, which is the state the next read returns; any
  other request is the conflict of an illegal transition, so the concurrency and ordering errors of the
  code cannot occur inside one transaction.\<close>

theorem stored_transition_refines:
  assumes "gstore_ok L d" and "get_graph_state L t g d = Inr (Some s)"
  shows "case transition s n target of
      Inr s' \<Rightarrow> \<exists>d'. transition_graph_node L t g n target d = Inr (d', s') \<and> get_graph_state L t g d' = Inr (Some s')
    | Inl _ \<Rightarrow> transition_graph_node L t g n target d = Inl (WorkflowConflict ''Illegal workflow graph transition'')"
proof (cases "transition s n target")
  case (Inr s')
  have p: "persisted L t g d s" using assms(2) by (simp add: persisted_def)
  note nd = gstore_okD(1) [OF assms(1)]
  obtain xs where e: "transition_graph_node L t g n target d = Inr (set_states t g (states_of s') xs d, s')"
    by (rule transition_graph_node_refines [OF nd p Inr])
  have "persisted L t g (set_states t g (states_of s') xs d) s'"
    by (rule transition_graph_nodeD [OF nd e])
  then show ?thesis using Inr e by (simp add: persisted_def)
next
  case (Inl e)
  have p: "persisted L t g d s" using assms(2) by (simp add: persisted_def)
  have "\<exists>m. e = ValueError m"
  proof (cases "states_of s n")
    case None
    then show ?thesis using Inl by (auto simp: transition_def state_of_def states_of_def)
  next
    case (Some cur)
    then have "state_of s n = Inr cur" by (simp add: state_of_def states_of_def)
    then show ?thesis
      using Inl transition_ok [OF persisted_ok [OF p] Some, of target] transition_illegal [of s n cur target] by force
  qed
  moreover have "require_graph L t g d = Inr s" using p by (simp only: require_graph_persisted)
  ultimately show ?thesis using Inl by (auto simp: transition_graph_node_def)
qed

theorem stored_transition_refines_witness:
  "transition_graph_node sample_lib ''t'' ''g1'' ''a'' SUCCEEDED sample_gdb
     = Inl (WorkflowConflict ''Illegal workflow graph transition'')"
  using stored_transition_refines [OF sample_gdb_ok, of "''t''" "''g1''" sample_state "''a''" SUCCEEDED]
    sample_gdb_persisted
  by (simp add: persisted_def transition_def state_of_def sample_state_def)

text \<open>C27. Every interleaving of the graph operations refines the scheduler: the tables stay consistent, no
  stored graph disappears, and its state only moves along transitions of the scheduler.\<close>

theorem graph_store_refines_scheduler:
  assumes "lib_laws L" and "gstore_ok L d" and "(graph_store_step L)\<^sup>*\<^sup>* d d'"
    and "get_graph_state L t g d = Inr (Some s)"
  shows "gstore_ok L d' \<and> (\<exists>s'. get_graph_state L t g d' = Inr (Some s') \<and> graph_step\<^sup>*\<^sup>* s s')"
  using graph_store_run_good [OF assms(3,1,2)] assms(4) unfolding gevolves_def persisted_def by blast

text \<open>C29. Budgets are never overdrawn: in every reachable store the attempts charged to a graph are between
  zero and its maximum, and the output tokens between zero and its limit, when it has one.\<close>

theorem graph_budget_bounds:
  assumes "reachable gstore_init (\<lambda>d d'. lib_laws L \<and> graph_store_step L d d') d"
    and "get_graph_budget t g d = Some b"
  shows "0 \<le> gb_attempts b \<and> gb_attempts b \<le> gb_max_attempts b \<and> 0 \<le> gb_output_tokens b
     \<and> (case gb_max_output_tokens b of None \<Rightarrow> True | Some limit \<Rightarrow> gb_output_tokens b \<le> limit)"
proof -
  have "gstore_ok L d" using assms(1) by (rule graph_store.reachable_inv)
  then have "budgets_ok d" by (rule gstore_okD(3))
  moreover have "b \<in> set (workflow_graph_budgets d)"
    using assms(2) find_SomeD unfolding get_graph_budget_def by fast
  ultimately show ?thesis by (simp add: budgets_ok_def budget_ok_def)
qed

theorem graph_budget_bounds_witness:
  "get_graph_budget ''t'' ''g1'' sample_gdb = Some sample_budget_row
     \<and> gb_attempts sample_budget_row \<le> gb_max_attempts sample_budget_row"
proof
  show b: "get_graph_budget ''t'' ''g1'' sample_gdb = Some sample_budget_row"
    by (simp add: get_graph_budget_def sample_gdb_def budget_is_def sample_budget_row_def)
  show "gb_attempts sample_budget_row \<le> gb_max_attempts sample_budget_row"
    using graph_budget_bounds [OF sample_gdb_reachable b] by simp
qed

section \<open>Claims and completions\<close>

definition sample_claimed_gdb :: db where
  "sample_claimed_gdb = graph_event ''t'' ''g1'' ''a'' RUNNING (sample_gdb\<lparr>workflow_graph_nodes :=
     [(new_node ''t'' ''g1'' (''a'', RUNNING))\<lparr>nr_fence := 1, nr_owner := Some ''w1'', nr_lease_until := Some 31000000\<rparr>,
      new_node ''t'' ''g1'' (''b'', BLOCKED)]\<rparr>)"

lemma sample_claim_node:
  "claim_graph_node ''t'' ''g1'' ''a'' ''w1'' 30 1000000 None sample_gdb = Inr (sample_claimed_gdb, 1)"
  by (simp add: claim_graph_node_def check_identifier_def get_graph_budget_def budget_is_def find_node_def
      node_is_def sample_gdb_def sample_budget_row_def new_node_def sample_claimed_gdb_def Let_def
      update_where_def graph_event_def seconds_of_int [of 30, simplified])

lemma sample_claim_run: "(graph_store_step sample_lib)\<^sup>*\<^sup>* sample_gdb sample_claimed_gdb"
  using gs_claim [OF sample_claim_node] by blast

lemma sample_lib_both [simp]: "lib_laws sample_lib"
  by (simp add: lib_laws_def)

theorem graph_store_refines_scheduler_witness:
  "\<exists>s'. get_graph_state sample_lib ''t'' ''g1'' sample_claimed_gdb = Inr (Some s') \<and> graph_step\<^sup>*\<^sup>* sample_state s'"
  using graph_store_refines_scheduler [OF sample_lib_both sample_gdb_ok sample_claim_run] sample_gdb_persisted
  by (simp add: persisted_def)

text \<open>A claim gives the node to one owner until the lease ends: right after it, the lease check passes for
  exactly the claiming owner, the returned fence and the times before the expiry; everybody else gets the
  conflict of a stale execution.\<close>

theorem graph_claim_exclusive:
  assumes "claim_graph_node t g n owner secs clk now d = Inr (d', fence)" and "utc_now clk now = Inr current"
  shows "require_graph_lease t g n owner' fence' clk' (Some (Aware u)) d' =
    (if owner' = owner \<and> fence' = fence \<and> u < current + secs * 1000000 then Inr ()
     else Inl (WorkflowConflict ''Stale or unauthorized graph-node execution''))"
proof (rule claim_graph_nodeD [OF assms(1)])
  fix row c b
  assume row: "find_node t g n d = Some row" "nr_state row = READY" and c: "utc_now clk now = Inr c"
    and d': "d' = graph_event t g n RUNNING (d\<lparr>workflow_graph_nodes := update_where
           (\<lambda>r. node_is t g n r \<and> nr_state r = READY \<and> nr_fence r = nr_fence row)
           (\<lambda>r. r\<lparr>nr_state := RUNNING, nr_fence := fence, nr_owner := Some owner,
                  nr_lease_until := Some (c + secs * 1000000)\<rparr>) (workflow_graph_nodes d)\<rparr>)"
  have "node_is t g n row" using row(1) find_SomeD unfolding find_node_def by fast
  then have "find_node t g n d' = Some (row\<lparr>nr_state := RUNNING, nr_fence := fence, nr_owner := Some owner,
      nr_lease_until := Some (c + secs * 1000000)\<rparr>)"
    using row find_update_where [of "\<lambda>r. node_is t g n r \<and> nr_state r = READY \<and> nr_fence r = nr_fence row"
        "node_is t g n" "\<lambda>r. r\<lparr>nr_state := RUNNING, nr_fence := fence, nr_owner := Some owner,
          nr_lease_until := Some (c + secs * 1000000)\<rparr>" "workflow_graph_nodes d"]
    by (simp add: d' find_node_def graph_event_def node_is_def)
  then show ?thesis using assms(2) c by (auto simp: require_graph_lease_def require_def Let_def)
qed

theorem graph_claim_exclusive_witness:
  "require_graph_lease ''t'' ''g1'' ''a'' ''w2'' 1 0 (Some (Aware 2000000)) sample_claimed_gdb
     = Inl (WorkflowConflict ''Stale or unauthorized graph-node execution'')
   \<and> require_graph_lease ''t'' ''g1'' ''a'' ''w1'' 1 0 (Some (Aware 2000000)) sample_claimed_gdb = Inr ()"
  using graph_claim_exclusive [OF sample_claim_node, of 1000000 "''w2''" 1 0 2000000]
    graph_claim_exclusive [OF sample_claim_node, of 1000000 "''w1''" 1 0 2000000] by simp

text \<open>A graph node is executed at most once: after a claim no later state of the store admits another claim
  of the node, whatever operations run in between, recovery included.\<close>

theorem graph_node_claimed_once:
  assumes "lib_laws L" and "gstore_ok L d" and "claim_graph_node t g n owner secs clk now d = Inr (d1, fence)"
    and "(graph_store_step L)\<^sup>*\<^sup>* d1 d2"
  shows "\<exists>e. claim_graph_node t g n owner' secs' clk' now' d2 = Inl e"
proof -
  obtain s s1 where p: "persisted L t g d s" and t: "transition s n RUNNING = Inr s1" and p1: "persisted L t g d1 s1"
      and m: "gmove L d d1"
    by (rule claim_graph_node_move [OF assms(2,3)])
  have ok1: "gstore_ok L d1" using gmove_ok [OF assms(2) m] .
  have "states_of s1 n = Some RUNNING"
    using transitionD [OF persisted_ok [OF p] t] after_target(1) [OF persisted_ok [OF p]] by fastforce
  then obtain s2 where s2: "persisted L t g d2 s2" "gstore_ok L d2" "node_rank (states_of s2 n) \<le> 3"
    using persisted_rank [OF assms(4,1) ok1 p1, of n] by auto
  then have "states_of s2 n \<noteq> Some READY" by auto
  then show ?thesis by (rule claim_refused [OF s2(2,1)])
qed

theorem graph_node_claimed_once_witness:
  "\<exists>e. claim_graph_node ''t'' ''g1'' ''a'' ''w2'' 30 2000000 None sample_claimed_gdb = Inl e"
  using graph_node_claimed_once [OF sample_lib_both sample_gdb_ok sample_claim_node rtranclp.rtrancl_refl] by blast

text \<open>C28. A result is committed at most once, by the owner of a live lease: when a completion returns, the stored row of
  the node is running, names the caller as its owner, carries the caller's fence, and its lease ends after the time
  of the call; and no later state of the store accepts another completion of the node, whoever makes it.\<close>

theorem graph_node_completed_once:
  assumes "lib_laws L" and "gstore_ok L d"
    and "complete_graph_node L t g n owner fence result ok clk now uuid d = Inr (d1, a)"
    and "(graph_store_step L)\<^sup>*\<^sup>* d1 d2"
  shows "(\<exists>row lease current. find_node t g n d = Some row \<and> nr_state row = RUNNING \<and> nr_owner row = Some owner
        \<and> nr_fence row = fence \<and> nr_lease_until row = Some lease \<and> utc_now clk now = Inr current \<and> current < lease)
     \<and> (\<exists>e. complete_graph_node L t g n owner' fence' result' ok' clk' now' uuid' d2 = Inl e)"
proof
  have "require_graph_lease t g n owner fence clk now d = Inr ()"
    using assms(3) by (auto simp: complete_graph_node_def bind_r_eq_Inr Let_def)
  then show "\<exists>row lease current. find_node t g n d = Some row \<and> nr_state row = RUNNING \<and> nr_owner row = Some owner
        \<and> nr_fence row = fence \<and> nr_lease_until row = Some lease \<and> utc_now clk now = Inr current \<and> current < lease"
    by (auto simp: require_graph_lease_def Let_def bind_r_eq_Inr require_eq_Inr split: option.splits if_splits)
  let ?target = "if ok then AWAITING_VALIDATION else FAILED"
  obtain s s1 where p: "persisted L t g d s" and t: "transition s n ?target = Inr s1" and p1: "persisted L t g d1 s1"
      and m: "gmove L d d1"
    by (rule complete_graph_node_move [OF assms(2,3)])
  have ok1: "gstore_ok L d1" using gmove_ok [OF assms(2) m] .
  have "states_of s1 n = Some ?target"
    using transitionD [OF persisted_ok [OF p] t] after_target(1) [OF persisted_ok [OF p]] by fastforce
  then have low: "node_rank (states_of s1 n) \<le> 1" by (cases ok) simp_all
  obtain s2 where s2: "persisted L t g d2 s2" "gstore_ok L d2" "node_rank (states_of s2 n) \<le> node_rank (states_of s1 n)"
    by (rule persisted_rank [OF assms(4,1) ok1 p1])
  with low have "states_of s2 n \<noteq> Some RUNNING" by auto
  note lease_refused [OF s2(2,1) this]
  then show "\<exists>e. complete_graph_node L t g n owner' fence' result' ok' clk' now' uuid' d2 = Inl e"
    by (cases "is_dict result'") (auto simp: complete_graph_node_def Let_def)
qed

definition sample_result :: json where
  "sample_result = JObj [(''text'', JStr ''done'')]"

lemma sample_claimed_ok: "gstore_ok sample_lib sample_claimed_gdb"
  using graph_store_run_good [OF sample_claim_run sample_lib_both sample_gdb_ok] by blast

lemma sample_complete_node:
  "\<exists>d' a. complete_graph_node sample_lib ''t'' ''g1'' ''a'' ''w1'' 1 sample_result True 2000000 None ''a1'' sample_claimed_gdb
     = Inr (d', a)"
proof -
  let ?d = "sample_claimed_gdb\<lparr>workflow_graph_artifacts := [\<lparr>ga_id = ''a1'', ga_graph_id = ''g1'', ga_node_id = ''a'',
    ga_tenant = ''t'', ga_schema_version = 1, ga_sha256 = sha256_hex sample_lib (canonical_json sample_lib sample_result),
    ga_size_bytes = utf8_len (canonical_json sample_lib sample_result), ga_content_json = canonical_json sample_lib sample_result,
    ga_accepted = False, ga_validation_json = None\<rparr>]\<rparr>"
  have l: "require_graph_lease ''t'' ''g1'' ''a'' ''w1'' 1 2000000 None sample_claimed_gdb = Inr ()"
    by (simp add: require_graph_lease_def find_node_def node_is_def sample_claimed_gdb_def graph_event_def new_node_def)
  have m: "gmove sample_lib sample_claimed_gdb ?d" by (rule gmove_same) simp_all
  have ok: "gstore_ok sample_lib ?d" using gmove_ok [OF sample_claimed_ok m] .
  have "find_node ''t'' ''g1'' ''a'' ?d = Some ((new_node ''t'' ''g1'' (''a'', RUNNING))\<lparr>nr_fence := 1,
      nr_owner := Some ''w1'', nr_lease_until := Some 31000000\<rparr>)"
    by (simp add: find_node_def node_is_def sample_claimed_gdb_def graph_event_def new_node_def)
  from find_graph_persisted [OF ok this] obtain s where s: "persisted sample_lib ''t'' ''g1'' ?d s" "states_of s ''a'' = Some RUNNING"
    by (auto simp: new_node_def)
  have "AWAITING_VALIDATION \<in> ALLOWED_TRANSITIONS RUNNING" "AWAITING_VALIDATION \<notin> TERMINAL_NODE_STATES"
    by (simp_all add: TERMINAL_NODE_STATES_def)
  then obtain d1 s1 where "transition_graph_node sample_lib ''t'' ''g1'' ''a'' AWAITING_VALIDATION ?d = Inr (d1, s1)"
    by (rule transition_graph_node_single [OF gstore_okD(1) [OF ok] s])
  moreover have "workflow_graph_artifacts sample_claimed_gdb = []" "is_dict sample_result"
    by (simp_all add: sample_claimed_gdb_def graph_event_def sample_gdb_def empty_db_def sample_result_def)
  ultimately show ?thesis using l by (simp add: complete_graph_node_def Let_def insert_pk_def artifact_ref_def)
qed

theorem graph_node_completed_once_witness:
  "\<exists>d' a. complete_graph_node sample_lib ''t'' ''g1'' ''a'' ''w1'' 1 sample_result True 2000000 None ''a1'' sample_claimed_gdb = Inr (d', a)
     \<and> (\<exists>e. complete_graph_node sample_lib ''t'' ''g1'' ''a'' ''w1'' 1 sample_result True 2000001 None ''a2'' d' = Inl e)"
proof -
  obtain d' a where c: "complete_graph_node sample_lib ''t'' ''g1'' ''a'' ''w1'' 1 sample_result True 2000000 None ''a1''
      sample_claimed_gdb = Inr (d', a)" using sample_complete_node by blast
  with graph_node_completed_once [OF sample_lib_both sample_claimed_ok c rtranclp.rtrancl_refl] show ?thesis by blast
qed

text \<open>Cancellation is complete and always succeeds: cancelling a stored graph returns, leaves no node
  ready, running or awaiting validation, and no lease on any node of the graph is honoured afterwards.\<close>

theorem cancel_graph_total:
  assumes "gstore_ok L d" and "get_graph_state L t g d = Inr (Some s)"
  shows "\<exists>d' s'. cancel_graph L t g d = Inr (d', s') \<and> gstore_ok L d'
     \<and> (\<forall>i. states_of s' i \<notin> Some ` ACTIVE_NODE_STATES)
     \<and> (\<forall>i owner fence clk now. require_graph_lease t g i owner fence clk now d'
           = Inl (WorkflowConflict ''Stale or unauthorized graph-node execution''))"
proof -
  have p: "persisted L t g d s" using assms(2) by (simp add: persisted_def)
  have e: "\<forall>(i, st0) \<in> set (node_states s). states_of s i \<noteq> None"
    using weak_map_of_SomeI unfolding states_of_def by fastforce
  have "\<forall>i st. states_of s i = Some st \<and> st \<in> ACTIVE_NODE_STATES \<longrightarrow> (\<exists>st0 \<in> ACTIVE_NODE_STATES. (i, st0) \<in> set (node_states s))"
    using map_of_SomeD unfolding states_of_def by fast
  then obtain d' s' where f: "foldM (cancel_node L t g) (node_states s) d = Inr d'" "persisted L t g d' s'" "gstore_ok L d'"
      and none: "\<forall>i st. states_of s' i = Some st \<longrightarrow> st \<notin> ACTIVE_NODE_STATES"
    using cancel_nodes_total [OF assms(1) p e] by blast
  have r: "require_graph L t g d = Inr s" using p by (simp only: require_graph_persisted)
  have "cancel_graph L t g d = Inr (d', s')"
    unfolding cancel_graph_def r using f by (simp add: persisted_def)
  moreover have "states_of s' i \<noteq> Some RUNNING" for i using none by (auto simp: ACTIVE_NODE_STATES_def)
  then have "require_graph_lease t g i owner fence clk now d'
      = Inl (WorkflowConflict ''Stale or unauthorized graph-node execution'')" for i owner fence clk now
    using lease_refused [OF f(3,2)] by blast
  ultimately show ?thesis using f(3) none by fastforce
qed

theorem cancel_graph_total_witness:
  "\<exists>d' s'. cancel_graph sample_lib ''t'' ''g1'' sample_gdb = Inr (d', s') \<and> gstore_ok sample_lib d'"
  using cancel_graph_total [OF sample_gdb_ok] sample_gdb_persisted unfolding persisted_def by blast

text \<open>Startup recovery is complete: when the expired leases fit the scan limit it returns, and it fences
  exactly the running nodes whose lease has ended: they become uncertain, lose owner and lease and get a new
  fence, and every other row stays as it was.\<close>

theorem graph_recovery_complete:
  assumes "gstore_ok L d" and "1 \<le> limit" and "limit \<le> 100000"
    and "int (length (filter (node_lease_expired current) (workflow_graph_nodes d))) \<le> limit"
  shows "\<exists>d' report. recover_graph_nodes_startup L limit current None d = Inr (d', report)
     \<and> workflow_graph_nodes d' = update_where (node_lease_expired current) recovered (workflow_graph_nodes d)"
proof -
  let ?rows = "filter (node_lease_expired current) (workflow_graph_nodes d)"
  note nd = gstore_okD(1) [OF assms(1)]
  have full: "take (nat (limit + 1)) ?rows = ?rows" using assms(4) by simp
  have inj: "inj_on node_ref (set (workflow_graph_nodes d))" "distinct (workflow_graph_nodes d)"
    using nd node_unique [OF nd] by (auto simp: inj_on_def node_ref_def distinct_map)
  then have "distinct (map node_ref ?rows)" by (auto simp: distinct_map inj_on_def)
  moreover have "\<forall>row \<in> set ?rows. \<exists>r \<in> set (workflow_graph_nodes d). node_ref r = node_ref row \<and> nr_state r = RUNNING"
    by (auto simp: node_lease_expired_def)
  ultimately obtain d' where d': "foldM (recover_node L) ?rows d = Inr d'" "workflow_graph_nodes d' =
      update_where (\<lambda>x. node_ref x \<in> node_ref ` set ?rows) recovered (workflow_graph_nodes d)"
    using recover_nodes_total [OF assms(1)] by blast
  have "update_where (\<lambda>x. node_ref x \<in> node_ref ` set ?rows) recovered (workflow_graph_nodes d)
      = update_where (node_lease_expired current) recovered (workflow_graph_nodes d)"
    unfolding update_where_def using inj(1) by (intro map_cong) (auto simp: inj_on_def)
  with d' show ?thesis
    using assms(2-4) full by (simp add: recover_graph_nodes_startup_def Let_def)
qed

theorem graph_recovery_complete_witness:
  "\<exists>d' report. recover_graph_nodes_startup sample_lib 10 31000000 None sample_claimed_gdb = Inr (d', report)
     \<and> map nr_state (workflow_graph_nodes d') = [UNCERTAIN, BLOCKED]"
  using graph_recovery_complete [OF sample_claimed_ok, of 10 31000000]
  by (auto simp: sample_claimed_gdb_def graph_event_def node_lease_expired_def new_node_def update_where_def)

text \<open>Graph creation is idempotent: repeating a creation returns the same identifier and changes nothing,
  whatever fresh identifier and clock the repetition draws, and the same key with another request is refused.\<close>

theorem create_graph_idempotent:
  assumes "lib_laws L" and "storable L graph" and "gstore_ok L d"
    and "create_graph L t key graph budget binding clk now uuid d = Inr (d1, i)"
    and "storable L graph'" and "case budget' of None \<Rightarrow> True | Some b \<Rightarrow> validate_graph_budget b = Inr ()"
  shows "create_graph L t key graph' budget' binding' clk' now' uuid' d1 =
    (if graph_digest L graph' budget' binding' = graph_digest L graph budget binding then Inr (d1, i)
     else Inl (WorkflowConflict ''Graph idempotency key conflicts with existing input''))"
proof -
  have lib: "loads_canonical L" "iso_roundtrip L" using assms(1) by (simp_all add: lib_laws_def)
  have b: "built_graph graph" "built_graph graph'" using assms(2,5) by (simp_all add: storable_def)
  have ids: "check_identifier t = Inr ()" "check_identifier key = Inr ()"
    using assms(4) by (auto simp: create_graph_def bind_r_eq_Inr)
  obtain row where row: "row \<in> set (workflow_graphs d1)" "gr_tenant row = t" "gr_key row = key" "gr_id row = i"
      "gr_request_hash row = graph_digest L graph budget binding"
    using create_graph_row [OF lib(2) b(1) gstore_okD(1) [OF assms(3)] assms(4)] by blast
  have "gstore_ok L d1" using create_graph_ok [OF lib assms(2,3,4)] by blast
  then have "List.find (\<lambda>r. gr_tenant r = t \<and> gr_key r = key) (workflow_graphs d1) = Some row"
    using row(1-3) distinct_map_eq [OF gstore_okD(4)] by (subst find_Some_iff_unique) auto
  moreover obtain s where "initial_state graph' = Inr s"
    using initial_state_ok [of graph'] b(2) by (auto simp: built_graph_def)
  ultimately show ?thesis
    using ids row(4,5) graph_roundtrip(1) [OF lib(2) b(2)] assms(6)
    by (auto simp: create_graph_def Let_def split: option.splits)
qed

theorem create_graph_idempotent_witness:
  "create_graph sample_lib ''t'' ''k'' sample_graph (Some sample_budget) None 5 None ''g2'' sample_gdb
     = Inr (sample_gdb, ''g1'')"
proof -
  have "gstore_ok sample_lib empty_db" by (rule gstore_init_ok) (simp add: gstore_init_def empty_db_def)
  from create_graph_idempotent [OF sample_lib_both sample_graph_storable this sample_create_graph sample_graph_storable,
      of "Some sample_budget" None 5 None "''g2''"]
  show ?thesis by (simp add: validate_graph_budget_def sample_budget_def)
qed

end
