(* ===== verification/WorkflowStoreProps.thy ===== *)
theory WorkflowStoreProps
  imports WorkflowStore "HOL-Library.Multiset" "HOL-Library.Sublist"
begin

text \<open>
  The correctness of the single-task store. \<open>lifecycle\<close> is the abstract state machine of one
  workflow; \<open>store_ok\<close> is the invariant of the tables: keys are unique, every child row belongs to
  a workflow, and the rows of one workflow (its \<open>cluster\<close>) agree with its state. Every operation
  keeps the invariant and moves workflows only along \<open>lifecycle\<close>.
\<close>

section \<open>The lifecycle of one workflow\<close>

inductive lifecycle :: "workflow_state \<times> int \<Rightarrow> workflow_state \<times> int \<Rightarrow> bool" where
  lc_claim: "lifecycle (Ready, n) (Running, n + 1)"
| lc_finish: "s \<in> {AwaitingValidation, Failed} \<Longrightarrow> lifecycle (Running, n) (s, n)"
| lc_expire: "lifecycle (Running, n) (Uncertain, n + 1)"
| lc_reconcile: "s \<in> {AwaitingValidation, Failed} \<Longrightarrow> lifecycle (Uncertain, n) (s, n)"
| lc_judge: "s \<in> {Succeeded, Rejected} \<Longrightarrow> lifecycle (AwaitingValidation, n) (s, n)"
| lc_cancel: "s \<in> {Ready, Running, AwaitingValidation} \<Longrightarrow> lifecycle (s, n) (Cancelled, n + 1)"

inductive_cases lifecycle_from: "lifecycle (s, n) t"
inductive_simps lifecycle_simp: "lifecycle (s, n) (s', n')"

definition FINAL_STATES :: "workflow_state set" where
  "FINAL_STATES = {Succeeded, Failed, Rejected, Cancelled}"

lemma lifecycle_final: "lifecycle\<^sup>*\<^sup>* a b \<Longrightarrow> fst a \<in> FINAL_STATES \<Longrightarrow> b = a"
proof (induction rule: converse_rtranclp_induct)
  case (step a c)
  then show ?case by (cases a) (auto simp: FINAL_STATES_def elim: lifecycle_from)
qed simp

lemma lifecycle_fence: "lifecycle\<^sup>*\<^sup>* a b \<Longrightarrow> snd a \<le> snd b"
  by (induction rule: rtranclp_induct) (auto elim!: lifecycle.cases)

text \<open>Nothing returns to \<open>Ready\<close>, and nothing but a claim starts an execution.\<close>

lemma lifecycle_not_ready: "lifecycle\<^sup>*\<^sup>* a b \<Longrightarrow> fst b = Ready \<Longrightarrow> b = a"
  by (induction rule: rtranclp_induct) (auto elim!: lifecycle.cases)

lemma lifecycle_running: "lifecycle\<^sup>*\<^sup>* a b \<Longrightarrow> fst b = Running \<Longrightarrow> fst a \<in> {Ready, Running}"
proof (induction rule: rtranclp_induct)
  case (step b c)
  then have "fst b = Ready" by (cases b; cases c) (auto simp: lifecycle_simp)
  with step.hyps(1) show ?case using lifecycle_not_ready by fastforce
qed simp

lemma lifecycle_running_same:
  "lifecycle\<^sup>*\<^sup>* a b \<Longrightarrow> fst a = Running \<Longrightarrow> fst b = Running \<Longrightarrow> b = a"
proof (induction rule: rtranclp_induct)
  case (step b c)
  then have "fst b = Ready" by (cases b; cases c) (auto simp: lifecycle_simp)
  with step.hyps(1) have "b = a" using lifecycle_not_ready by blast
  with \<open>fst b = Ready\<close> step.prems(1) show ?case by simp
qed simp

section \<open>The invariant\<close>

definition cluster ::
    "string \<Rightarrow> db \<Rightarrow> dispatch_row list \<times> artifact_row list \<times> validation_row list \<times> binding_row list" where
  "cluster k d =
     (filter (\<lambda>j. di_workflow_id j = k) (workflow_dispatches d),
      filter (\<lambda>a. wa_workflow_id a = k) (workflow_artifacts d),
      filter (\<lambda>v. va_workflow_id v = k) (workflow_validations d),
      filter (\<lambda>b. bi_workflow_id b = k) (workflow_bindings d))"

text \<open>A running workflow has an owner and a lease, no other has; the fence counts the claim and the
  fencing off; a result is present exactly once execution has ended.\<close>

definition row_ok :: "workflow_row \<Rightarrow> bool" where
  "row_ok r \<longleftrightarrow>
     (if wf_state r = Running then wf_owner r \<noteq> None \<and> wf_lease_until r \<noteq> None
      else wf_owner r = None \<and> wf_lease_until r = None)
     \<and> (wf_result r = None \<longleftrightarrow> wf_result_artifact_id r = None)
     \<and> (case wf_state r of
          Ready \<Rightarrow> wf_fence r = 0 \<and> wf_result r = None
        | Running \<Rightarrow> wf_fence r = 1 \<and> wf_result r = None
        | Uncertain \<Rightarrow> wf_fence r = 2 \<and> wf_result r = None
        | Cancelled \<Rightarrow> wf_fence r \<in> {1, 2, 3}
        | _ \<Rightarrow> wf_fence r \<in> {1, 2} \<and> wf_result r \<noteq> None)"

definition outcome_ok :: "pylib \<Rightarrow> dispatch_row \<Rightarrow> bool" where
  "outcome_ok L j \<longleftrightarrow>
     (case di_outcome_json j of
        None \<Rightarrow> di_outcome_sha256 j = None \<and> di_succeeded j = None
      | Some text \<Rightarrow> (\<exists>result. is_dict result \<and> text = canonical_json L result)
          \<and> di_outcome_sha256 j = Some (sha256_hex L text) \<and> di_succeeded j \<in> {Some 0, Some 1})"

definition dispatches_ok :: "pylib \<Rightarrow> workflow_row \<Rightarrow> dispatch_row list \<Rightarrow> bool" where
  "dispatches_ok L r js \<longleftrightarrow> length js \<le> 1
     \<and> (\<forall>j \<in> set js. di_tenant j = wf_tenant r \<and> di_fence j = 1 \<and> 1 \<le> wf_fence r \<and> outcome_ok L j)"

definition artifacts_ok :: "pylib \<Rightarrow> workflow_row \<Rightarrow> artifact_row list \<Rightarrow> bool" where
  "artifacts_ok L r as \<longleftrightarrow>
     (case wf_result_artifact_id r of
        None \<Rightarrow> as = []
      | Some a \<Rightarrow> (\<exists>result. is_dict result \<and> wf_result r = Some (canonical_json L result)
          \<and> as = [\<lparr>wa_id = a, wa_workflow_id = wf_id r, wa_tenant = wf_tenant r,
                   wa_schema_version = 1, wa_sha256 = sha256_hex L (canonical_json L result),
                   wa_size_bytes = utf8_len (canonical_json L result),
                   wa_content_json = canonical_json L result\<rparr>]))"

definition validations_ok :: "pylib \<Rightarrow> workflow_row \<Rightarrow> validation_row list \<Rightarrow> bool" where
  "validations_ok L r vs \<longleftrightarrow>
     (if wf_state r \<in> {Succeeded, Rejected}
      then \<exists>report. vs = [\<lparr>va_workflow_id = wf_id r, va_tenant = wf_tenant r,
                           va_report_json = canonical_json L report\<rparr>]
             \<and> (accepted report \<longleftrightarrow> wf_state r = Succeeded)
      else vs = [])"

definition bindings_ok :: "workflow_row \<Rightarrow> binding_row list \<Rightarrow> bool" where
  "bindings_ok r bs \<longleftrightarrow> length bs \<le> 1 \<and> (\<forall>b \<in> set bs. bi_tenant b = wf_tenant r)"

definition cluster_ok where
  "cluster_ok L r c \<longleftrightarrow> (case c of (js, as, vs, bs) \<Rightarrow>
     row_ok r \<and> dispatches_ok L r js \<and> artifacts_ok L r as \<and> validations_ok L r vs \<and> bindings_ok r bs)"

definition store_ok :: "pylib \<Rightarrow> db \<Rightarrow> bool" where
  "store_ok L d \<longleftrightarrow>
     distinct (map wf_id (workflows d))
     \<and> distinct (map (\<lambda>r. (wf_tenant r, wf_key r)) (workflows d))
     \<and> distinct (map wa_id (workflow_artifacts d))
     \<and> (\<forall>k. k \<notin> wf_id ` set (workflows d) \<longrightarrow> cluster k d = ([], [], [], []))
     \<and> (\<forall>r \<in> set (workflows d). cluster_ok L r (cluster (wf_id r) d))"

lemmas cluster_defs = row_ok_def dispatches_ok_def artifacts_ok_def validations_ok_def
  bindings_ok_def outcome_ok_def

lemma store_okD:
  assumes "store_ok L d"
  shows "distinct (map wf_id (workflows d))"
    and "distinct (map (\<lambda>r. (wf_tenant r, wf_key r)) (workflows d))"
    and "distinct (map wa_id (workflow_artifacts d))"
    and "k \<notin> wf_id ` set (workflows d) \<Longrightarrow> cluster k d = ([], [], [], [])"
    and "r \<in> set (workflows d) \<Longrightarrow> cluster_ok L r (cluster (wf_id r) d)"
  using assms by (auto simp: store_ok_def)

lemma event_tables [simp]:
  "workflows (event t i s n d) = workflows d"
  "workflow_artifacts (event t i s n d) = workflow_artifacts d"
  "workflow_dispatches (event t i s n d) = workflow_dispatches d"
  "workflow_validations (event t i s n d) = workflow_validations d"
  "workflow_bindings (event t i s n d) = workflow_bindings d"
  "find_workflow t' i' (event t i s n d) = find_workflow t' i' d"
  "cluster k (event t i s n d) = cluster k d"
  by (simp_all add: event_def find_workflow_def cluster_def)

lemma store_ok_event [simp]: "store_ok L (event t i s n d) = store_ok L d"
  by (simp add: store_ok_def)

lemma find_workflowD:
  "find_workflow t i d = Some r \<Longrightarrow> r \<in> set (workflows d) \<and> wf_tenant r = t \<and> wf_id r = i"
  by (auto simp: find_workflow_def wf_is_def dest: find_SomeD)

lemma find_workflow_iff:
  assumes "store_ok L d"
  shows "find_workflow t i d = Some r \<longleftrightarrow> r \<in> set (workflows d) \<and> wf_tenant r = t \<and> wf_id r = i"
  unfolding find_workflow_def
  by (subst find_Some_iff_unique)
     (auto simp: wf_is_def dest: distinct_map_eq [OF store_okD(1) [OF assms]])

lemma wf_is_unique:
  assumes "store_ok L d" and "find_workflow t i d = Some r" and "x \<in> set (workflows d)"
  shows "wf_is t i x \<longleftrightarrow> x = r" and "wf_id x = i \<longleftrightarrow> x = r"
  using assms find_workflowD [OF assms(2)] distinct_map_eq [OF store_okD(1) [OF assms(1)]]
  by (auto simp: wf_is_def)

lemma find_workflow_update:
  assumes "workflows d' = update_where (wf_is t i) f (workflows d)"
    and "\<And>r. wf_id (f r) = wf_id r \<and> wf_tenant (f r) = wf_tenant r"
  shows "find_workflow t' i' d' =
    (if (t', i') = (t, i) then map_option f (find_workflow t i d) else find_workflow t' i' d)"
proof -
  have "find_workflow t' i' d' =
      map_option (\<lambda>r. if wf_is t i r then f r else r) (find_workflow t' i' d)"
    unfolding find_workflow_def assms(1)
    by (rule find_update_where) (use assms(2) in \<open>simp add: wf_is_def\<close>)
  then show ?thesis
    using find_workflowD [of t' i' d] by (cases "find_workflow t' i' d") (auto simp: wf_is_def)
qed

text \<open>The one argument behind every operation that touches an existing workflow.\<close>

lemma store_ok_update:
  assumes ok: "store_ok L d" and row: "find_workflow t i d = Some r"
    and ws: "workflows d' = update_where (wf_is t i) f (workflows d)"
    and keys: "\<And>r. wf_id (f r) = wf_id r \<and> wf_tenant (f r) = wf_tenant r \<and> wf_key (f r) = wf_key r"
    and other: "\<And>k. k \<noteq> i \<Longrightarrow> cluster k d' = cluster k d"
    and arts: "distinct (map wa_id (workflow_artifacts d'))"
    and this_ok: "cluster_ok L (f r) (cluster i d')"
  shows "store_ok L d'"
proof -
  have ids: "map wf_id (workflows d') = map wf_id (workflows d)"
    and ks: "map (\<lambda>r. (wf_tenant r, wf_key r)) (workflows d')
             = map (\<lambda>r. (wf_tenant r, wf_key r)) (workflows d)"
    unfolding ws by (simp_all add: map_update_where keys)
  have idset: "wf_id ` set (workflows d') = wf_id ` set (workflows d)"
    by (metis ids list.set_map)
  have i: "i \<in> wf_id ` set (workflows d)" using find_workflowD [OF row] by auto
  have "cluster_ok L x (cluster (wf_id x) d')" if x: "x \<in> set (workflows d')" for x
  proof -
    obtain x0 where x0: "x0 \<in> set (workflows d)" "x = (if wf_is t i x0 then f x0 else x0)"
      using x ws by (auto simp: update_where_mem)
    show ?thesis
      using wf_is_unique [OF ok row x0(1)] x0 keys this_ok other store_okD(5) [OF ok x0(1)]
        find_workflowD [OF row]
      by (cases "x0 = r") simp_all
  qed
  moreover have "cluster k d' = ([], [], [], [])" if "k \<notin> wf_id ` set (workflows d')" for k
    using that i other store_okD(4) [OF ok] unfolding idset by metis
  ultimately show ?thesis
    using store_okD(1,2) [OF ok] arts by (simp add: store_ok_def ids ks)
qed

lemma store_ok_children:
  assumes ok: "store_ok L d" and row: "find_workflow t i d = Some r"
    and ws: "workflows d' = workflows d"
    and other: "\<And>k. k \<noteq> i \<Longrightarrow> cluster k d' = cluster k d"
    and arts: "distinct (map wa_id (workflow_artifacts d'))"
    and this_ok: "cluster_ok L r (cluster i d')"
  shows "store_ok L d'"
  by (rule store_ok_update [OF ok row, where f = "\<lambda>r. r"])
     (use ws other arts this_ok in \<open>auto simp: update_where_def\<close>)

lemma singleton_list: "x \<in> set xs \<Longrightarrow> length xs \<le> 1 \<Longrightarrow> xs = [x]"
  by (cases xs) auto

lemma row_cluster:
  assumes "store_ok L d" and "find_workflow t i d = Some r"
  shows "cluster_ok L r (cluster i d)"
  using store_okD(5) [OF assms(1)] find_workflowD [OF assms(2)] by auto

lemma dispatches_ok_mono:
  "dispatches_ok L r js \<Longrightarrow> wf_tenant r' = wf_tenant r \<Longrightarrow> wf_fence r \<le> wf_fence r' \<Longrightarrow> dispatches_ok L r' js"
  unfolding dispatches_ok_def by fastforce

lemma cluster_row: "cluster_ok L r c \<Longrightarrow> row_ok r"
  by (auto simp: cluster_ok_def)

lemma artifacts_ok_cong:
  "wf_id r' = wf_id r \<Longrightarrow> wf_tenant r' = wf_tenant r \<Longrightarrow> wf_result r' = wf_result r \<Longrightarrow>
   wf_result_artifact_id r' = wf_result_artifact_id r \<Longrightarrow> artifacts_ok L r' as = artifacts_ok L r as"
  by (simp add: artifacts_ok_def cong: option.case_cong)

lemma bindings_ok_cong: "wf_tenant r' = wf_tenant r \<Longrightarrow> bindings_ok r' bs = bindings_ok r bs"
  by (simp add: bindings_ok_def)

lemma cluster_ok_move:
  assumes "cluster_ok L r c" and "row_ok r'"
    and "wf_id r' = wf_id r" and "wf_tenant r' = wf_tenant r" and "wf_fence r \<le> wf_fence r'"
    and "wf_result r' = wf_result r" and "wf_result_artifact_id r' = wf_result_artifact_id r"
    and "wf_state r \<notin> {Succeeded, Rejected}" and "wf_state r' \<notin> {Succeeded, Rejected}"
  shows "cluster_ok L r' c"
proof -
  obtain js as vs bs where c: "c = (js, as, vs, bs)" by (cases c)
  have "dispatches_ok L r js" and "validations_ok L r vs"
    using assms(1) by (auto simp: c cluster_ok_def)
  then have "dispatches_ok L r' js" and "validations_ok L r' vs"
    using assms dispatches_ok_mono by (blast, simp add: validations_ok_def)
  then show ?thesis
    using assms artifacts_ok_cong [of r' r L as] bindings_ok_cong [of r' r bs]
    by (simp add: c cluster_ok_def)
qed

lemma filter_snoc_other: "key x \<noteq> k \<Longrightarrow> filter (\<lambda>y. key y = k) (xs @ [x]) = filter (\<lambda>y. key y = k) xs"
  by simp

lemma filter_update_where_same:
  "(\<And>r. key (f r) = key r) \<Longrightarrow>
   filter (\<lambda>y. key y = k) (update_where P f rows) = update_where P f (filter (\<lambda>y. key y = k) rows)"
  by (induction rows) (auto simp: update_where_def)

section \<open>What each operation does when it returns\<close>

lemma require_leaseD:
  assumes "require_lease t i owner n clk now d = Inr ()"
  shows "\<exists>r lease current. find_workflow t i d = Some r \<and> wf_state r = Running
    \<and> wf_owner r = Some owner \<and> wf_fence r = n \<and> wf_lease_until r = Some lease
    \<and> utc_now clk now = Inr current \<and> current < lease"
  using assms
  by (auto simp: require_lease_def Let_def bind_r_eq_Inr split: option.splits if_splits)

lemma claimD:
  assumes "claim L t i owner secs clk now d = Inr (d', n)"
  obtains r current where "find_workflow t i d = Some r" and "wf_state r = Ready"
    and "n = wf_fence r + 1" and "utc_now clk now = Inr current"
    and "d' = event t i (State Running) n (d\<lparr>workflows := update_where (wf_is t i)
           (\<lambda>r. r\<lparr>wf_state := Running, wf_fence := n, wf_owner := Some owner,
                  wf_lease_until := Some (current + seconds (of_int secs))\<rparr>) (workflows d)\<rparr>)"
  using assms by (auto simp: claim_def Let_def bind_r_eq_Inr split: option.splits)

lemma find_dispatchD:
  "find_dispatch t i d = Some j \<Longrightarrow> j \<in> set (workflow_dispatches d) \<and> di_tenant j = t \<and> di_workflow_id j = i"
  by (auto simp: find_dispatch_def dest: find_SomeD)

lemma begin_dispatchD:
  assumes "begin_dispatch L t i owner n budget clk now d = Inr (d', u)"
  shows "require_lease t i owner n clk now d = Inr ()"
    and "\<forall>j \<in> set (workflow_dispatches d). di_workflow_id j \<noteq> i"
    and "d' = event t i DispatchStarted n (d\<lparr>workflow_dispatches := workflow_dispatches d @
           [\<lparr>di_workflow_id = i, di_tenant = t, di_fence = n, di_budget_json = canonical_json L budget,
             di_outcome_json = None, di_outcome_sha256 = None, di_succeeded = None\<rparr>]\<rparr>)"
  using assms by (auto simp: begin_dispatch_def bind_r_eq_Inr list_ex_iff)

lemma record_outcomeD:
  assumes "record_outcome L t i owner n result ok clk now d = Inr (d', u)"
  obtains j where "is_dict result" and "require_lease t i owner n clk now d = Inr ()"
    and "find_dispatch t i d = Some j" and "di_fence j = n"
    and "(di_outcome_json j = Some (canonical_json L result)
            \<and> di_succeeded j = Some (int_of_bool ok) \<and> d' = d)
         \<or> (di_outcome_json j = None
            \<and> d' = event t i OutcomeRecorded n (d\<lparr>workflow_dispatches := update_where
                (\<lambda>j. di_tenant j = t \<and> di_workflow_id j = i)
                (\<lambda>j. j\<lparr>di_outcome_json := Some (canonical_json L result),
                       di_outcome_sha256 := Some (sha256_hex L (canonical_json L result)),
                       di_succeeded := Some (int_of_bool ok)\<rparr>) (workflow_dispatches d)\<rparr>))"
  using assms
  by (auto simp: record_outcome_def Let_def bind_r_eq_Inr split: option.splits if_splits)

lemma commit_resultD:
  assumes "commit_result L t i n encoded ok uuid d = Inr (d', a)"
  shows "\<forall>x \<in> set (workflow_artifacts d). wa_id x \<noteq> uuid"
    and "a = artifact_ref L uuid i encoded"
    and "d' = event t i (State (if ok then AwaitingValidation else Failed)) n
           (d\<lparr>workflow_artifacts := workflow_artifacts d @
                [\<lparr>wa_id = uuid, wa_workflow_id = i, wa_tenant = t, wa_schema_version = 1,
                  wa_sha256 = sha256_hex L encoded, wa_size_bytes = utf8_len encoded,
                  wa_content_json = encoded\<rparr>],
              workflows := update_where (wf_is t i)
                (\<lambda>r. r\<lparr>wf_state := if ok then AwaitingValidation else Failed,
                       wf_result := Some encoded, wf_result_artifact_id := Some uuid,
                       wf_owner := None, wf_lease_until := None\<rparr>) (workflows d)\<rparr>)"
  using assms
  by (auto simp: commit_result_def Let_def bind_r_eq_Inr insert_pk_eq_Inr artifact_ref_def)

lemma completeD:
  assumes "complete L t i owner n result ok clk now uuid d = Inr (d', a)"
  shows "is_dict result" and "require_lease t i owner n clk now d = Inr ()"
    and "commit_result L t i n (canonical_json L result) ok uuid d = Inr (d', a)"
    and "find_dispatch t i d = Some j \<Longrightarrow> di_outcome_json j = Some (canonical_json L result)
           \<and> di_succeeded j = Some (int_of_bool ok) \<and> di_fence j = n"
  using assms by (auto simp: complete_def Let_def bind_r_eq_Inr)

definition judged :: "pylib \<Rightarrow> string \<Rightarrow> string \<Rightarrow> workflow_row \<Rightarrow> json \<Rightarrow> db \<Rightarrow> db" where
  "judged L t i r report d = (let state = (if accepted report then Succeeded else Rejected) in
     event t i (State state) (wf_fence r)
       (d\<lparr>workflow_validations := workflow_validations d @
            [\<lparr>va_workflow_id = i, va_tenant = t, va_report_json = canonical_json L report\<rparr>],
          workflows := update_where (wf_is t i) (\<lambda>r. r\<lparr>wf_state := state\<rparr>) (workflows d)\<rparr>))"

lemma validateD:
  assumes "validate L t i policy d = Inr (d', report)"
  obtains r binding snapshot artifact where "find_workflow t i d = Some r"
    and "get_binding L t i d = Inr binding" and "bound_snapshot binding policy = Inr snapshot"
    and "get_artifact L t i (wf_result_artifact_id r) d = Inr (Some artifact)"
    and "(\<exists>v. d' = d \<and> find_validation t i d = Some v \<and> decode L (va_report_json v) = Inr report)
         \<or> (wf_state r = AwaitingValidation \<and> find_validation t i d = None
            \<and> (\<forall>v \<in> set (workflow_validations d). va_workflow_id v \<noteq> i)
            \<and> validate_artifact L artifact snapshot = Inr report
            \<and> d' = judged L t i r report d)"
proof -
  from assms obtain binding snapshot where 1: "get_binding L t i d = Inr binding"
      "bound_snapshot binding policy = Inr snapshot"
    by (auto simp: validate_def bind_r_eq_Inr)
  from assms obtain r where 2: "find_workflow t i d = Some r"
    by (cases "find_workflow t i d") (auto simp: validate_def bind_r_eq_Inr)
  from assms 1 2 obtain artifact where
      3: "get_artifact L t i (wf_result_artifact_id r) d = Inr (Some artifact)"
    by (auto simp: validate_def bind_r_eq_Inr split: option.splits)
  show thesis
  proof (cases "find_validation t i d")
    case None
    with assms 1 2 3 show thesis
      by (intro that [OF 2 1 3])
         (auto simp: validate_def judged_def Let_def bind_r_eq_Inr insert_pk_eq_Inr)
  next
    case (Some v)
    with assms 1 2 3 show thesis
      by (intro that [OF 2 1 3]) (auto simp: validate_def bind_r_eq_Inr)
  qed
qed

lemma cancelD:
  assumes "cancel t i d = Inr (d', b)"
  shows "d' = d \<and> (b \<longleftrightarrow> (\<exists>r. find_workflow t i d = Some r \<and> wf_state r = Cancelled))
    \<or> b \<and> (\<exists>r. find_workflow t i d = Some r \<and> wf_state r \<in> {Ready, Running, AwaitingValidation}
         \<and> d' = event t i (State Cancelled) (wf_fence r + 1)
             (d\<lparr>workflows := update_where (wf_is t i)
                  (\<lambda>x. x\<lparr>wf_state := Cancelled, wf_fence := wf_fence r + 1, wf_owner := None,
                         wf_lease_until := None\<rparr>) (workflows d)\<rparr>))"
  using assms by (auto simp: cancel_def Let_def split: option.splits if_splits)

section \<open>Every operation keeps the invariant\<close>

lemma cluster_workflows [simp]: "cluster k (d\<lparr>workflows := ws\<rparr>) = cluster k d"
  by (simp add: cluster_def)

lemma move_ok:
  assumes ok: "store_ok L d" and r: "find_workflow t i d = Some r"
    and f: "\<And>r. wf_id (f r) = wf_id r \<and> wf_tenant (f r) = wf_tenant r \<and> wf_key (f r) = wf_key r
            \<and> wf_result (f r) = wf_result r \<and> wf_result_artifact_id (f r) = wf_result_artifact_id r"
    and "row_ok (f r)" and "wf_fence r \<le> wf_fence (f r)"
    and "wf_state r \<notin> {Succeeded, Rejected}" and "wf_state (f r) \<notin> {Succeeded, Rejected}"
  shows "store_ok L (event t i s n (d\<lparr>workflows := update_where (wf_is t i) f (workflows d)\<rparr>))"
proof (rule store_ok_update [OF ok r, where f = f])
  show "cluster_ok L (f r)
     (cluster i (event t i s n (d\<lparr>workflows := update_where (wf_is t i) f (workflows d)\<rparr>)))"
    using cluster_ok_move [OF row_cluster [OF ok r] assms(4)] assms(5-7) f by simp
qed (use store_okD(3) [OF ok] f in auto)

lemma claim_ok:
  assumes "store_ok L d" and "claim L t i owner secs clk now d = Inr (d', n)"
  shows "store_ok L d'"
proof (rule claimD [OF assms(2)])
  fix r current
  assume r: "find_workflow t i d = Some r" "wf_state r = Ready" "n = wf_fence r + 1"
    and d': "d' = event t i (State Running) n (d\<lparr>workflows := update_where (wf_is t i)
           (\<lambda>r. r\<lparr>wf_state := Running, wf_fence := n, wf_owner := Some owner,
                  wf_lease_until := Some (current + seconds (of_int secs))\<rparr>) (workflows d)\<rparr>)"
  have "row_ok r" using row_cluster [OF assms(1) r(1)] by (rule cluster_row)
  then show ?thesis
    unfolding d' by (intro move_ok [OF assms(1) r(1)]) (use r in \<open>auto simp: row_ok_def\<close>)
qed

lemma begin_dispatch_ok:
  assumes "store_ok L d" and "begin_dispatch L t i owner n budget clk now d = Inr (d', u)"
  shows "store_ok L d'"
proof -
  note D = begin_dispatchD [OF assms(2)]
  obtain r where r: "find_workflow t i d = Some r" "wf_state r = Running" "wf_fence r = n"
    using require_leaseD [OF D(1)] by auto
  have none: "filter (\<lambda>j. di_workflow_id j = i) (workflow_dispatches d) = []"
    using D(2) by (auto simp: filter_empty_conv)
  have c: "cluster_ok L r (cluster i d')"
    using row_cluster [OF assms(1) r(1)] r none find_workflowD [OF r(1)]
    by (auto simp: D(3) cluster_ok_def cluster_def cluster_defs)
  show ?thesis
    by (rule store_ok_children [OF assms(1) r(1)])
       (use c store_okD(3) [OF assms(1)] in \<open>auto simp: D(3) cluster_def\<close>)
qed

lemma dispatch_cluster:
  assumes "store_ok L d" and "find_workflow t i d = Some r" and "find_dispatch t i d = Some j"
  shows "filter (\<lambda>j. di_workflow_id j = i) (workflow_dispatches d) = [j]"
    and "di_fence j = 1" and "outcome_ok L j"
proof -
  let ?js = "filter (\<lambda>j. di_workflow_id j = i) (workflow_dispatches d)"
  have j: "j \<in> set ?js" using find_dispatchD [OF assms(3)] by simp
  have ok: "dispatches_ok L r ?js"
    using row_cluster [OF assms(1,2)] by (simp add: cluster_ok_def cluster_def)
  then have "length ?js \<le> 1" by (simp only: dispatches_ok_def)
  with j show "?js = [j]" by (rule singleton_list)
  from j ok show "di_fence j = 1" and "outcome_ok L j" unfolding dispatches_ok_def by blast+
qed

lemma record_outcome_ok:
  assumes "store_ok L d" and "record_outcome L t i owner n result ok clk now d = Inr (d', u)"
  shows "store_ok L d'"
proof (rule record_outcomeD [OF assms(2)])
  fix j
  let ?f = "\<lambda>j. j\<lparr>di_outcome_json := Some (canonical_json L result),
                 di_outcome_sha256 := Some (sha256_hex L (canonical_json L result)),
                 di_succeeded := Some (int_of_bool ok)\<rparr>"
  assume A: "is_dict result" "require_lease t i owner n clk now d = Inr ()"
      "find_dispatch t i d = Some j"
    and "(di_outcome_json j = Some (canonical_json L result)
            \<and> di_succeeded j = Some (int_of_bool ok) \<and> d' = d)
         \<or> (di_outcome_json j = None
            \<and> d' = event t i OutcomeRecorded n (d\<lparr>workflow_dispatches := update_where
                (\<lambda>j. di_tenant j = t \<and> di_workflow_id j = i) ?f (workflow_dispatches d)\<rparr>))"
  then consider "d' = d" | (new) "d' = event t i OutcomeRecorded n (d\<lparr>workflow_dispatches :=
      update_where (\<lambda>j. di_tenant j = t \<and> di_workflow_id j = i) ?f (workflow_dispatches d)\<rparr>)"
    by blast
  then show ?thesis
  proof cases
    case new
    obtain r where r: "find_workflow t i d = Some r" using require_leaseD [OF A(2)] by auto
    note j = dispatch_cluster [OF assms(1) r A(3)]
    obtain as vs bs where cl: "cluster i d = ([j], as, vs, bs)"
      using j(1) by (simp add: cluster_def)
    have "filter (\<lambda>j. di_workflow_id j = i) (workflow_dispatches d') = [?f j]"
      using find_dispatchD [OF A(3)] by (simp add: new filter_update_where_same j(1)) (simp add: update_where_def)
    then have cl': "cluster i d' = ([?f j], as, vs, bs)"
      using cl by (simp add: new cluster_def)
    have "outcome_ok L (?f j)" using A(1) by (auto simp: outcome_ok_def int_of_bool_def)
    then have c: "cluster_ok L r (cluster i d')"
      using row_cluster [OF assms(1) r] unfolding cl cl'
      by (simp add: cluster_ok_def dispatches_ok_def)
    show ?thesis
      by (rule store_ok_children [OF assms(1) r])
         (use c store_okD(3) [OF assms(1)] in
          \<open>auto simp: new cluster_def intro!: filter_update_where_other\<close>)
  qed (use assms(1) in simp)
qed

lemma commit_result_ok:
  assumes "store_ok L d" and "commit_result L t i n encoded ok uuid d = Inr (d', a)"
    and r: "find_workflow t i d = Some r" "wf_state r \<in> {Running, Uncertain}"
    and enc: "is_dict result" "encoded = canonical_json L result"
  shows "store_ok L d'"
proof -
  note D = commit_resultD [OF assms(2)]
  let ?f = "\<lambda>r. r\<lparr>wf_state := if ok then AwaitingValidation else Failed, wf_result := Some encoded,
              wf_result_artifact_id := Some uuid, wf_owner := None, wf_lease_until := None\<rparr>"
  obtain js bs where c: "cluster i d = (js, [], [], bs)"
      "dispatches_ok L r js" "bindings_ok r bs" "row_ok r"
    using row_cluster [OF assms(1) r(1)] r(2)
    by (cases "cluster i d")
       (auto simp: cluster_ok_def artifacts_ok_def validations_ok_def row_ok_def)
  show ?thesis
  proof (rule store_ok_update [OF assms(1) r(1), where f = ?f])
    have "cluster i d' = (js, [\<lparr>wa_id = uuid, wa_workflow_id = i, wa_tenant = t,
        wa_schema_version = 1, wa_sha256 = sha256_hex L encoded, wa_size_bytes = utf8_len encoded,
        wa_content_json = encoded\<rparr>], [], bs)"
      using c(1) by (auto simp: D(3) cluster_def)
    moreover have "row_ok (?f r)" using c(4) r(2) by (auto simp: row_ok_def)
    moreover have "dispatches_ok L (?f r) js" by (rule dispatches_ok_mono [OF c(2)]) simp_all
    ultimately show "cluster_ok L (?f r) (cluster i d')"
      using c(3) enc find_workflowD [OF r(1)] bindings_ok_cong [of "?f r" r bs]
      by (auto simp: cluster_ok_def artifacts_ok_def validations_ok_def)
  qed (use D(1) store_okD(3) [OF assms(1)] in \<open>auto simp: D(3) cluster_def\<close>)
qed

lemma validate_ok:
  assumes "store_ok L d" and "validate L t i policy d = Inr (d', report)"
  shows "store_ok L d'"
proof (rule validateD [OF assms(2)])
  fix r artifact snapshot
  assume r: "find_workflow t i d = Some r"
    and "(\<exists>v. d' = d \<and> find_validation t i d = Some v \<and> decode L (va_report_json v) = Inr report)
         \<or> (wf_state r = AwaitingValidation \<and> find_validation t i d = None
            \<and> (\<forall>v \<in> set (workflow_validations d). va_workflow_id v \<noteq> i)
            \<and> validate_artifact L artifact snapshot = Inr report
            \<and> d' = judged L t i r report d)"
  then consider "d' = d" | (new) "wf_state r = AwaitingValidation" "d' = judged L t i r report d"
    by blast
  then show ?thesis
  proof cases
    case new
    let ?f = "\<lambda>r. r\<lparr>wf_state := if accepted report then Succeeded else Rejected\<rparr>"
    obtain js as bs where c: "cluster i d = (js, as, [], bs)"
        "dispatches_ok L r js" "artifacts_ok L r as" "bindings_ok r bs" "row_ok r"
      using row_cluster [OF assms(1) r] new(1)
      by (cases "cluster i d") (auto simp: cluster_ok_def validations_ok_def)
    show ?thesis
    proof (rule store_ok_update [OF assms(1) r, where f = ?f])
      have "cluster i d' = (js, as, [\<lparr>va_workflow_id = i, va_tenant = t,
              va_report_json = canonical_json L report\<rparr>], bs)"
        using c(1) by (auto simp: new(2) judged_def Let_def cluster_def)
      moreover have "row_ok (?f r)" using c(5) new(1) by (auto simp: row_ok_def)
      moreover have "dispatches_ok L (?f r) js" by (rule dispatches_ok_mono [OF c(2)]) simp_all
      ultimately show "cluster_ok L (?f r) (cluster i d')"
        using c(3,4) find_workflowD [OF r] artifacts_ok_cong [of "?f r" r L as]
          bindings_ok_cong [of "?f r" r bs]
        by (auto simp: cluster_ok_def validations_ok_def)
    qed (use store_okD(3) [OF assms(1)] in \<open>auto simp: new(2) judged_def Let_def cluster_def\<close>)
  qed (use assms(1) in simp)
qed

lemma cancel_ok:
  assumes "store_ok L d" and "cancel t i d = Inr (d', b)"
  shows "store_ok L d'"
  using cancelD [OF assms(2)]
proof (elim disjE conjE exE)
  fix r
  assume r: "find_workflow t i d = Some r" "wf_state r \<in> {Ready, Running, AwaitingValidation}"
    and d': "d' = event t i (State Cancelled) (wf_fence r + 1)
             (d\<lparr>workflows := update_where (wf_is t i)
                  (\<lambda>x. x\<lparr>wf_state := Cancelled, wf_fence := wf_fence r + 1, wf_owner := None,
                         wf_lease_until := None\<rparr>) (workflows d)\<rparr>)"
  have "row_ok r" using row_cluster [OF assms(1) r(1)] by (rule cluster_row)
  then show ?thesis
    unfolding d' by (intro move_ok [OF assms(1) r(1)]) (use r(2) in \<open>auto simp: row_ok_def\<close>)
qed (use assms in simp)

lemma createD:
  assumes "create L t key packet binding uuid d = Inr (d', i)"
  obtains (known) r where "r \<in> set (workflows d)" and "wf_key_is t key r" and "d' = d" and "i = wf_id r"
  | (fresh) validated bs where
      "from_dict L (to_dict L packet) = Inr validated"
      and "\<forall>r \<in> set (workflows d). \<not> wf_key_is t key r \<and> wf_id r \<noteq> uuid" and "i = uuid"
      and "bs = (case binding of None \<Rightarrow> []
                 | Some b \<Rightarrow> [\<lparr>bi_workflow_id = uuid, bi_tenant = t, bi_binding_json = canonical_json L b\<rparr>])"
      and "d' = event t uuid (State Ready) 0
             (d\<lparr>workflows := workflows d @
                  [\<lparr>wf_id = uuid, wf_tenant = t, wf_key = key,
                    wf_request_hash = request_digest L validated binding,
                    wf_packet = canonical_json L (to_dict L validated), wf_state = Ready, wf_fence = 0,
                    wf_owner = None, wf_lease_until = None, wf_result = None,
                    wf_result_artifact_id = None\<rparr>],
                workflow_bindings := workflow_bindings d @ bs\<rparr>)"
proof (cases "List.find (wf_key_is t key) (workflows d)")
  case None
  obtain validated where "from_dict L (to_dict L packet) = Inr validated"
    using assms by (auto simp: create_def bind_r_eq_Inr)
  with assms None show thesis
    by (intro fresh [of validated, OF _ _ _ refl])
       (auto simp: create_def bind_r_eq_Inr Let_def insert_pk_eq_Inr find_None split: option.splits)
next
  case (Some r)
  with assms show thesis
    by (intro known [of r])
       (auto simp: create_def bind_r_eq_Inr Let_def dest: find_SomeD split: if_splits)
qed

lemma create_ok:
  assumes "store_ok L d" and "create L t key packet binding uuid d = Inr (d', i)"
  shows "store_ok L d'"
  using assms(2)
proof (cases rule: createD)
  case (fresh validated bs)
  let ?r = "\<lparr>wf_id = uuid, wf_tenant = t, wf_key = key,
             wf_request_hash = request_digest L validated binding,
             wf_packet = canonical_json L (to_dict L validated), wf_state = Ready, wf_fence = 0,
             wf_owner = None, wf_lease_until = None, wf_result = None, wf_result_artifact_id = None\<rparr>"
  have new: "uuid \<notin> wf_id ` set (workflows d)" using fresh(2) by auto
  have ws: "workflows d' = workflows d @ [?r]" by (simp add: fresh)
  have bs: "filter (\<lambda>b. bi_workflow_id b = k) bs = (if k = uuid then bs else [])" for k
    by (auto simp: fresh(4) split: option.splits)
  have c: "cluster k d' = (if k = uuid then ([], [], [], bs) else cluster k d)" for k
    using store_okD(4) [OF assms(1) new] bs [of k] by (auto simp: fresh(5) cluster_def)
  have "cluster_ok L ?r ([], [], [], bs)"
    by (auto simp: cluster_ok_def cluster_defs fresh(4) split: option.splits)
  moreover have "distinct (map (\<lambda>r. (wf_tenant r, wf_key r)) (workflows d'))"
    using store_okD(2) [OF assms(1)] fresh(2) by (auto simp: ws wf_key_is_def)
  ultimately show ?thesis
    using store_okD [OF assms(1)] new
    by (auto simp: store_ok_def c ws) (auto simp: fresh(5))
qed (use assms(1) in simp)

section \<open>Fencing off expired executions\<close>

definition fenced :: "workflow_row \<Rightarrow> workflow_row" where
  "fenced r = r\<lparr>wf_state := Uncertain, wf_fence := wf_fence r + 1, wf_owner := None,
                wf_lease_until := None\<rparr>"

lemma fenced_keys [simp]:
  "wf_id (fenced r) = wf_id r" "wf_tenant (fenced r) = wf_tenant r" "wf_key (fenced r) = wf_key r"
  "wf_state (fenced r) = Uncertain" "wf_fence (fenced r) = wf_fence r + 1"
  by (simp_all add: fenced_def)

lemma fence_off_ok:
  assumes ok: "store_ok L d" and r: "r \<in> set (workflows d)" "wf_state r = Running"
  shows "store_ok L (fence_off r d)"
    and "workflows (fence_off r d) = map (\<lambda>x. if x = r then fenced r else x) (workflows d)"
    and "workflow_dispatches (fence_off r d) = workflow_dispatches d"
    and "workflow_artifacts (fence_off r d) = workflow_artifacts d"
proof -
  have f: "find_workflow (wf_tenant r) (wf_id r) d = Some r"
    using r(1) by (simp add: find_workflow_iff [OF ok])
  have "row_ok r" using row_cluster [OF ok f] by (rule cluster_row)
  then show "store_ok L (fence_off r d)"
    unfolding fence_off_def Let_def
    by (intro move_ok [OF ok f]) (use r(2) in \<open>auto simp: row_ok_def\<close>)
  show "workflows (fence_off r d) = map (\<lambda>x. if x = r then fenced r else x) (workflows d)"
    using wf_is_unique(1) [OF ok f]
    by (auto simp: fence_off_def Let_def update_where_def fenced_def)
qed (simp_all add: fence_off_def Let_def)

lemma fold_fence_off:
  assumes "store_ok L d" and "distinct rows"
    and "\<forall>r \<in> set rows. r \<in> set (workflows d) \<and> wf_state r = Running"
  shows "store_ok L (fold fence_off rows d)
    \<and> workflows (fold fence_off rows d) = map (\<lambda>x. if x \<in> set rows then fenced x else x) (workflows d)
    \<and> workflow_dispatches (fold fence_off rows d) = workflow_dispatches d
    \<and> workflow_artifacts (fold fence_off rows d) = workflow_artifacts d"
  using assms
proof (induction rows arbitrary: d)
  case (Cons r rows)
  note F = fence_off_ok [OF Cons.prems(1), of r]
  have r: "r \<in> set (workflows d)" "wf_state r = Running" using Cons.prems(3) by auto
  have "wf_state (fenced r) \<noteq> Running" by simp
  then have "fenced r \<notin> set rows" using Cons.prems(3) by fastforce
  moreover have "x \<in> set (workflows (fence_off r d)) \<and> wf_state x = Running" if "x \<in> set rows" for x
    using that Cons.prems(2,3) F(2) [OF r] by force
  ultimately show ?case
    using Cons.IH [OF F(1) [OF r]] Cons.prems(2) F(2-4) [OF r] by (auto simp: comp_def)
qed simp

lemma fold_fence_off_other:
  assumes "store_ok L d" and "distinct rows"
    and "\<forall>r \<in> set rows. r \<in> set (workflows d) \<and> wf_state r = Running"
    and "(t, i) \<notin> (\<lambda>r. (wf_tenant r, wf_id r)) ` set rows"
  shows "find_workflow t i (fold fence_off rows d) = find_workflow t i d"
proof -
  have ws: "workflows (fold fence_off rows d) = map (\<lambda>x. if x \<in> set rows then fenced x else x) (workflows d)"
    using fold_fence_off [OF assms(1-3)] by blast
  have "List.find (wf_is t i) (map (\<lambda>x. if x \<in> set rows then fenced x else x) ws) = List.find (wf_is t i) ws"
    for ws using assms(4) by (induction ws) (auto simp: wf_is_def)
  then show ?thesis by (simp add: find_workflow_def ws)
qed

section \<open>Simulation of the lifecycle\<close>

definition abs_state :: "string \<Rightarrow> string \<Rightarrow> db \<Rightarrow> (workflow_state \<times> int) option" where
  "abs_state t i d = map_option (\<lambda>r. (wf_state r, wf_fence r)) (find_workflow t i d)"

definition evolves :: "db \<Rightarrow> db \<Rightarrow> bool" where
  "evolves d d' \<longleftrightarrow> (\<forall>t i.
     (case abs_state t i d of
        Some a \<Rightarrow> \<exists>b. abs_state t i d' = Some b \<and> lifecycle\<^sup>*\<^sup>* a b
      | None \<Rightarrow> (\<forall>b. abs_state t i d' = Some b \<longrightarrow> lifecycle\<^sup>*\<^sup>* (Ready, 0) b)))"

lemma evolves_refl [simp]: "evolves d d"
  by (auto simp: evolves_def split: option.splits)

lemma evolvesD:
  "evolves d d' \<Longrightarrow> abs_state t i d = Some a \<Longrightarrow> \<exists>b. abs_state t i d' = Some b \<and> lifecycle\<^sup>*\<^sup>* a b"
  "evolves d d' \<Longrightarrow> abs_state t i d = None \<Longrightarrow> abs_state t i d' = Some b \<Longrightarrow> lifecycle\<^sup>*\<^sup>* (Ready, 0) b"
  by (drule evolves_def [THEN iffD1, THEN spec [of _ t], THEN spec [of _ i]], simp)+

lemma evolves_trans:
  assumes "evolves d1 d2" and "evolves d2 d3"
  shows "evolves d1 d3"
proof -
  have "case abs_state t i d1 of
        Some a \<Rightarrow> \<exists>b. abs_state t i d3 = Some b \<and> lifecycle\<^sup>*\<^sup>* a b
      | None \<Rightarrow> (\<forall>b. abs_state t i d3 = Some b \<longrightarrow> lifecycle\<^sup>*\<^sup>* (Ready, 0) b)" for t i
  proof (cases "abs_state t i d1")
    case None
    show ?thesis
    proof (cases "abs_state t i d2")
      case (Some b)
      then obtain c where c: "abs_state t i d3 = Some c" "lifecycle\<^sup>*\<^sup>* b c"
        using evolvesD(1) [OF assms(2)] by blast
      from evolvesD(2) [OF assms(1) None Some] c(2) have "lifecycle\<^sup>*\<^sup>* (Ready, 0) c"
        by (rule rtranclp_trans)
      with None c(1) show ?thesis by simp
    qed (use None evolvesD(2) [OF assms(2)] in auto)
  next
    case (Some a)
    then obtain b where "abs_state t i d2 = Some b" "lifecycle\<^sup>*\<^sup>* a b"
      using evolvesD [OF assms(1)] by blast
    moreover from this obtain c where "abs_state t i d3 = Some c" "lifecycle\<^sup>*\<^sup>* b c"
      using evolvesD(1) [OF assms(2)] by blast
    ultimately show ?thesis using Some by (simp add: rtranclp_trans)
  qed
  then show ?thesis by (simp add: evolves_def)
qed

lemma evolves_update:
  assumes ok: "store_ok L d" and row: "find_workflow t i d = Some r"
    and ws: "workflows d' = update_where (wf_is t i) f (workflows d)"
    and keys: "\<And>r. wf_id (f r) = wf_id r \<and> wf_tenant (f r) = wf_tenant r"
    and step: "lifecycle (wf_state r, wf_fence r) (wf_state (f r), wf_fence (f r))"
  shows "evolves d d'"
proof -
  have "abs_state t' i' d' = (if (t', i') = (t, i) then Some (wf_state (f r), wf_fence (f r))
                              else abs_state t' i' d)" for t' i'
    using find_workflow_update [OF ws keys] row by (simp add: abs_state_def)
  moreover have "abs_state t i d = Some (wf_state r, wf_fence r)" using row by (simp add: abs_state_def)
  ultimately show ?thesis using step by (auto simp: evolves_def split: option.splits)
qed

lemma evolves_move:
  assumes "store_ok L d" and "find_workflow t i d = Some r"
    and "\<And>r. wf_id (f r) = wf_id r \<and> wf_tenant (f r) = wf_tenant r"
    and "lifecycle (wf_state r, wf_fence r) (wf_state (f r), wf_fence (f r))"
  shows "evolves d (event t i s n (d\<lparr>workflows := update_where (wf_is t i) f (workflows d)\<rparr>))"
  by (rule evolves_update [OF assms(1,2) _ assms(3,4)]) simp

lemma evolves_same: "workflows d' = workflows d \<Longrightarrow> evolves d d'"
  by (auto simp: evolves_def abs_state_def find_workflow_def split: option.splits)

lemma create_evolves:
  assumes "create L t key packet binding uuid d = Inr (d', i)"
  shows "evolves d d'"
  using assms
proof (cases rule: createD)
  case (fresh validated bs)
  show ?thesis
    by (auto simp: fresh(5) evolves_def abs_state_def find_workflow_def find_append
             split: option.splits if_splits)
qed simp

lemma claim_evolves:
  assumes "store_ok L d" and "claim L t i owner secs clk now d = Inr (d', n)"
  shows "evolves d d'"
  using assms(2)
  by (rule claimD) (simp, rule evolves_move [OF assms(1)], auto simp: lifecycle_simp)

lemma commit_result_evolves:
  assumes "store_ok L d" and "commit_result L t i n encoded ok uuid d = Inr (d', a)"
    and "find_workflow t i d = Some r" and "wf_state r \<in> {Running, Uncertain}"
  shows "evolves d d'"
  by (rule evolves_update [OF assms(1,3), where
        f = "\<lambda>r. r\<lparr>wf_state := if ok then AwaitingValidation else Failed, wf_result := Some encoded,
               wf_result_artifact_id := Some uuid, wf_owner := None, wf_lease_until := None\<rparr>"])
     (use assms(4) in \<open>auto simp: commit_resultD(3) [OF assms(2)] lifecycle_simp\<close>)

lemma validate_evolves:
  assumes "store_ok L d" and "validate L t i policy d = Inr (d', report)"
  shows "evolves d d'"
proof (rule validateD [OF assms(2)])
  fix r artifact snapshot
  assume r: "find_workflow t i d = Some r"
    and "(\<exists>v. d' = d \<and> find_validation t i d = Some v \<and> decode L (va_report_json v) = Inr report)
         \<or> (wf_state r = AwaitingValidation \<and> find_validation t i d = None
            \<and> (\<forall>v \<in> set (workflow_validations d). va_workflow_id v \<noteq> i)
            \<and> validate_artifact L artifact snapshot = Inr report
            \<and> d' = judged L t i r report d)"
  then consider "d' = d" | (new) "wf_state r = AwaitingValidation" "d' = judged L t i r report d"
    by blast
  then show ?thesis
  proof cases
    case new
    show ?thesis
      by (rule evolves_update [OF assms(1) r, where
            f = "\<lambda>r. r\<lparr>wf_state := if accepted report then Succeeded else Rejected\<rparr>"])
         (use new in \<open>auto simp: judged_def Let_def lifecycle_simp\<close>)
  qed simp
qed

lemma cancel_evolves:
  assumes "store_ok L d" and "cancel t i d = Inr (d', b)"
  shows "evolves d d'"
  using cancelD [OF assms(2)]
proof (elim disjE conjE exE)
  fix r
  assume r: "find_workflow t i d = Some r" "wf_state r \<in> {Ready, Running, AwaitingValidation}"
    and d': "d' = event t i (State Cancelled) (wf_fence r + 1)
             (d\<lparr>workflows := update_where (wf_is t i)
                  (\<lambda>x. x\<lparr>wf_state := Cancelled, wf_fence := wf_fence r + 1, wf_owner := None,
                         wf_lease_until := None\<rparr>) (workflows d)\<rparr>)"
  show ?thesis
    unfolding d' by (rule evolves_move [OF assms(1) r(1)]) (use r(2) in \<open>auto simp: lifecycle_simp\<close>)
qed simp

lemma fence_off_evolves:
  assumes ok: "store_ok L d" and "r \<in> set (workflows d)" and "wf_state r = Running"
  shows "evolves d (fence_off r d)"
proof -
  have "find_workflow (wf_tenant r) (wf_id r) d = Some r"
    using assms(2) by (simp add: find_workflow_iff [OF ok])
  then show ?thesis
    unfolding fence_off_def Let_def
    by (rule evolves_update [OF ok, where f = "\<lambda>x. x\<lparr>wf_state := Uncertain,
          wf_fence := wf_fence r + 1, wf_owner := None, wf_lease_until := None\<rparr>"])
       (use assms(3) in \<open>auto simp: lifecycle_simp\<close>)
qed

lemma fold_fence_off_evolves:
  assumes "store_ok L d" and "distinct rows"
    and "\<forall>r \<in> set rows. r \<in> set (workflows d) \<and> wf_state r = Running"
  shows "evolves d (fold fence_off rows d)"
  using assms
proof (induction rows arbitrary: d)
  case (Cons r rows)
  have r: "r \<in> set (workflows d)" "wf_state r = Running" using Cons.prems(3) by auto
  note F = fence_off_ok [OF Cons.prems(1) r]
  have "x \<in> set (workflows (fence_off r d)) \<and> wf_state x = Running" if "x \<in> set rows" for x
    using that Cons.prems(2,3) F(2) by force
  then have "evolves (fence_off r d) (fold fence_off rows (fence_off r d))"
    using Cons.IH [OF F(1)] Cons.prems(2) by simp
  with fence_off_evolves [OF Cons.prems(1) r] show ?case by (simp add: evolves_trans)
qed simp

section \<open>Reconciliation and startup recovery\<close>

text \<open>An outcome in the journal of a consistent store is evidence; the result is committed from it.\<close>

lemma commit_from_journal:
  assumes ok: "store_ok L d" and row: "find_workflow t i d = Some r" "wf_state r = Uncertain"
    and j: "find_dispatch t i d = Some j" "di_outcome_json j = Some encoded"
    and c: "commit_result L t i n encoded b uuid d = Inr (d', a)"
  shows "store_ok L d'" and "evolves d d'"
    and "find_workflow t i d' = Some (r\<lparr>wf_state := if b then AwaitingValidation else Failed,
           wf_result := Some encoded, wf_result_artifact_id := Some uuid, wf_owner := None,
           wf_lease_until := None\<rparr>)"
    and "(t', i') \<noteq> (t, i) \<Longrightarrow> find_workflow t' i' d' = find_workflow t' i' d"
    and "workflow_dispatches d' = workflow_dispatches d"
proof -
  obtain result where "is_dict result" "encoded = canonical_json L result"
    using dispatch_cluster(3) [OF ok row(1) j(1)] j(2) by (auto simp: outcome_ok_def)
  then show "store_ok L d'" using commit_result_ok [OF ok c row(1)] row(2) by simp
  show "evolves d d'" using commit_result_evolves [OF ok c row(1)] row(2) by simp
  have "workflows d' = update_where (wf_is t i) (\<lambda>r. r\<lparr>wf_state := if b then AwaitingValidation
      else Failed, wf_result := Some encoded, wf_result_artifact_id := Some uuid, wf_owner := None,
      wf_lease_until := None\<rparr>) (workflows d)"
    unfolding commit_resultD(3) [OF c] by simp
  note find = find_workflow_update [OF this]
  show "find_workflow t i d' = Some (r\<lparr>wf_state := if b then AwaitingValidation else Failed,
           wf_result := Some encoded, wf_result_artifact_id := Some uuid, wf_owner := None,
           wf_lease_until := None\<rparr>)"
    using row(1) find by simp
  show "find_workflow t' i' d' = find_workflow t' i' d" if "(t', i') \<noteq> (t, i)"
    using that find by auto
qed (simp add: commit_resultD(3) [OF c])

lemma reconcile_uncertainD:
  assumes "reconcile_uncertain L t i uuid d = Inr (d', s)"
  obtains (unchanged) r where "find_workflow t i d = Some r" and "d' = d" and "s = wf_state r"
  | (committed) r j encoded a where "find_workflow t i d = Some r" and "wf_state r = Uncertain"
      and "find_dispatch t i d = Some j" and "di_outcome_json j = Some encoded"
      and "commit_result L t i (wf_fence r) encoded (di_succeeded j = Some 1) uuid d = Inr (d', a)"
      and "s = (if di_succeeded j = Some 1 then AwaitingValidation else Failed)"
  using assms
  by (auto simp: reconcile_uncertain_def Let_def bind_r_eq_Inr split: option.splits if_splits)

lemma reconcile_ok:
  assumes "store_ok L d" and "reconcile_uncertain L t i uuid d = Inr (d', s)"
  shows "store_ok L d'" and "evolves d d'"
proof -
  have "store_ok L d' \<and> evolves d d'"
    using assms(2)
  proof (cases rule: reconcile_uncertainD)
    case (committed r j encoded a)
    from commit_from_journal(1,2) [OF assms(1) committed(1-5)] show ?thesis ..
  qed (use assms(1) in simp)
  then show "store_ok L d'" and "evolves d d'" by auto
qed

definition candidate_result ::
    "pylib \<Rightarrow> string \<Rightarrow> string \<Rightarrow> db \<Rightarrow> startup_report \<Rightarrow> db \<Rightarrow> startup_report \<Rightarrow> bool" where
  "candidate_result L t i d rep d' rep' \<longleftrightarrow>
     (\<exists>reason. d' = d \<and> rep' = rep\<lparr>sr_unresolved := sr_unresolved rep @ [(t, i, reason)]\<rparr>)
   \<or> (\<exists>s r'. s \<in> {AwaitingValidation, Failed} \<and> find_workflow t i d' = Some r' \<and> wf_state r' = s
        \<and> (\<forall>t' i'. (t', i') \<noteq> (t, i) \<longrightarrow> find_workflow t' i' d' = find_workflow t' i' d)
        \<and> rep' = rep\<lparr>sr_reconciled := sr_reconciled rep @ [(t, i, s)]\<rparr>)"

lemma recover_candidate_ok:
  assumes ok: "store_ok L d" and row: "find_workflow (wf_tenant c) (wf_id c) d = Some r"
      "wf_state r = Uncertain"
    and step: "recover_candidate L uuid c (d, rep) = Inr (d', rep')"
  shows "store_ok L d' \<and> evolves d d' \<and> candidate_result L (wf_tenant c) (wf_id c) d rep d' rep'"
proof (cases "\<exists>reason. d' = d \<and> rep' = rep\<lparr>sr_unresolved := sr_unresolved rep @ [(wf_tenant c, wf_id c, reason)]\<rparr>")
  case True
  then show ?thesis using ok by (auto simp: candidate_result_def)
next
  case False
  let ?ok = "\<lambda>j. di_succeeded j = Some 1"
  obtain j encoded a where j: "find_dispatch (wf_tenant c) (wf_id c) d = Some j"
      "di_outcome_json j = Some encoded"
      "commit_result L (wf_tenant c) (wf_id c) (wf_fence r) encoded (?ok j) (uuid (wf_id c)) d = Inr (d', a)"
      "rep' = rep\<lparr>sr_reconciled := sr_reconciled rep @
                 [(wf_tenant c, wf_id c, if ?ok j then AwaitingValidation else Failed)]\<rparr>"
    using step row(1) False
    by (auto simp: recover_candidate_def Let_def bind_r_eq_Inr split: option.splits if_splits)
  note C = commit_from_journal [OF ok row j(1-3)]
  show ?thesis using C(1,2,3) C(4) j(4) by (auto simp: candidate_result_def)
qed

abbreviation wf_ref :: "workflow_row \<Rightarrow> string \<times> string" where
  "wf_ref c \<equiv> (wf_tenant c, wf_id c)"

abbreviation report_ref :: "string \<times> string \<times> 'a \<Rightarrow> string \<times> string" where
  "report_ref e \<equiv> (fst e, fst (snd e))"

definition report_ok :: "workflow_row list \<Rightarrow> db \<Rightarrow> startup_report \<Rightarrow> bool" where
  "report_ok cands d' rep' \<longleftrightarrow>
     mset (map report_ref (sr_reconciled rep')) + mset (map report_ref (sr_unresolved rep'))
       = mset (map wf_ref cands)
     \<and> (\<forall>(t, i, s) \<in> set (sr_reconciled rep').
          s \<in> {AwaitingValidation, Failed} \<and> (\<exists>r. find_workflow t i d' = Some r \<and> wf_state r = s))
     \<and> (\<forall>(t, i, reason) \<in> set (sr_unresolved rep').
          \<exists>r. find_workflow t i d' = Some r \<and> wf_state r = Uncertain)"

lemma report_ok_refs:
  assumes "report_ok cands d rep"
  shows "report_ref ` set (sr_reconciled rep) \<union> report_ref ` set (sr_unresolved rep) = wf_ref ` set cands"
proof -
  have "set_mset (mset (map report_ref (sr_reconciled rep)) + mset (map report_ref (sr_unresolved rep)))
        = set_mset (mset (map wf_ref cands))"
    using assms by (simp only: report_ok_def)
  then show ?thesis by simp
qed

lemma report_ok_step:
  assumes "report_ok done d rep" and "wf_ref c \<notin> wf_ref ` set done"
    and "find_workflow (wf_tenant c) (wf_id c) d = Some r" and "wf_state r = Uncertain"
    and "candidate_result L (wf_tenant c) (wf_id c) d rep d' rep'"
  shows "report_ok (done @ [c]) d' rep'"
  using assms(5) unfolding candidate_result_def
proof (elim disjE exE conjE)
  fix reason
  assume "d' = d" "rep' = rep\<lparr>sr_unresolved := sr_unresolved rep @ [(wf_tenant c, wf_id c, reason)]\<rparr>"
  then show ?thesis using assms(1,3,4) by (auto simp: report_ok_def)
next
  fix s r'
  assume new: "s \<in> {AwaitingValidation, Failed}" "find_workflow (wf_tenant c) (wf_id c) d' = Some r'"
      "wf_state r' = s" "rep' = rep\<lparr>sr_reconciled := sr_reconciled rep @ [(wf_tenant c, wf_id c, s)]\<rparr>"
    and same: "\<forall>t' i'. (t', i') \<noteq> wf_ref c \<longrightarrow> find_workflow t' i' d' = find_workflow t' i' d"
  have old: "find_workflow t i d' = find_workflow t i d" if "(t, i) \<in> wf_ref ` set done" for t i
    using that same assms(2) by metis
  have refs: "(t, i) \<in> wf_ref ` set done"
    if "(t, i) \<in> report_ref ` set (sr_reconciled rep) \<union> report_ref ` set (sr_unresolved rep)" for t i
    using that report_ok_refs [OF assms(1)] by (simp only:)
  have "\<forall>(t, i, s') \<in> set (sr_reconciled rep).
      s' \<in> {AwaitingValidation, Failed} \<and> (\<exists>r. find_workflow t i d' = Some r \<and> wf_state r = s')"
  proof (clarify, intro conjI)
    fix t i s' assume e: "(t, i, s') \<in> set (sr_reconciled rep)"
    then have "(t, i) \<in> wf_ref ` set done" by (intro refs) force
    with old e assms(1) show "s' \<in> {AwaitingValidation, Failed}"
      and "\<exists>r. find_workflow t i d' = Some r \<and> wf_state r = s'"
      unfolding report_ok_def by fastforce+
  qed
  moreover have "\<forall>(t, i, reason) \<in> set (sr_unresolved rep).
      \<exists>r. find_workflow t i d' = Some r \<and> wf_state r = Uncertain"
  proof clarify
    fix t i reason assume e: "(t, i, reason) \<in> set (sr_unresolved rep)"
    then have "(t, i) \<in> wf_ref ` set done" by (intro refs) force
    with old e assms(1) show "\<exists>r. find_workflow t i d' = Some r \<and> wf_state r = Uncertain"
      unfolding report_ok_def by fastforce
  qed
  ultimately show ?thesis using new(1-3) assms(1) by (simp add: report_ok_def new(4) ball_Un)
qed

lemma recover_candidates_ok:
  assumes "store_ok L d" and "distinct (map wf_ref (done @ cands))"
    and "\<forall>c \<in> set cands. \<exists>r. find_workflow (wf_tenant c) (wf_id c) d = Some r \<and> wf_state r = Uncertain"
    and "report_ok done d rep"
    and "foldM (recover_candidate L uuid) cands (d, rep) = Inr (d', rep')"
  shows "store_ok L d' \<and> evolves d d' \<and> report_ok (done @ cands) d' rep'
    \<and> sr_scanned rep' = sr_scanned rep \<and> sr_expired rep' = sr_expired rep
    \<and> (\<forall>t i. (t, i) \<notin> wf_ref ` set cands \<longrightarrow> find_workflow t i d' = find_workflow t i d)"
  using assms
proof (induction cands arbitrary: d rep "done")
  case (Cons c cands)
  obtain d1 rep1 where 1: "recover_candidate L uuid c (d, rep) = Inr (d1, rep1)"
      "foldM (recover_candidate L uuid) cands (d1, rep1) = Inr (d', rep')"
    using Cons.prems(5) by (auto simp: bind_r_eq_Inr)
  obtain r where r: "find_workflow (wf_tenant c) (wf_id c) d = Some r" "wf_state r = Uncertain"
    using Cons.prems(3) by auto
  note S = recover_candidate_ok [OF Cons.prems(1) r 1(1)]
  have rep: "report_ok (done @ [c]) d1 rep1"
    by (rule report_ok_step [OF Cons.prems(4) _ r S [THEN conjunct2, THEN conjunct2]])
       (use Cons.prems(2) in auto)
  have "find_workflow (wf_tenant x) (wf_id x) d1 = find_workflow (wf_tenant x) (wf_id x) d"
    if "x \<in> set cands" for x
  proof -
    have "wf_ref c \<notin> wf_ref ` set cands" using Cons.prems(2) by simp
    moreover have "wf_ref x \<in> wf_ref ` set cands" using that by (rule imageI)
    ultimately have "wf_ref x \<noteq> wf_ref c" by (intro notI) (simp only:)
    then show ?thesis
      using S [THEN conjunct2, THEN conjunct2] unfolding candidate_result_def by blast
  qed
  then have rest: "\<forall>c \<in> set cands. \<exists>r. find_workflow (wf_tenant c) (wf_id c) d1 = Some r \<and> wf_state r = Uncertain"
    using Cons.prems(3) by simp
  have "sr_scanned rep1 = sr_scanned rep \<and> sr_expired rep1 = sr_expired rep"
    using S by (auto simp: candidate_result_def)
  moreover have "store_ok L d' \<and> evolves d1 d' \<and> report_ok ((done @ [c]) @ cands) d' rep'
      \<and> sr_scanned rep' = sr_scanned rep1 \<and> sr_expired rep' = sr_expired rep1
      \<and> (\<forall>t i. (t, i) \<notin> wf_ref ` set cands \<longrightarrow> find_workflow t i d' = find_workflow t i d1)"
    by (rule Cons.IH [OF _ _ rest rep 1(2)]) (use S Cons.prems(2) in auto)
  moreover have "evolves d d1" using S by blast
  moreover have "find_workflow t i d1 = find_workflow t i d" if "(t, i) \<noteq> wf_ref c" for t i
    using that S [THEN conjunct2, THEN conjunct2] unfolding candidate_result_def by blast
  ultimately show ?case using evolves_trans [of d d1 d'] by simp
qed simp

lemma recovery_candidates_wf:
  assumes "store_ok L d"
  shows "distinct (map wf_ref (recovery_candidates current d))"
    and "distinct (recovery_candidates current d)"
    and "set (recovery_candidates current d) \<subseteq> set (workflows d)"
proof -
  have "distinct (map wf_id (recovery_candidates current d))"
    unfolding recovery_candidates_def by (rule distinct_map_filter [OF store_okD(1) [OF assms]])
  then have "distinct (map wf_ref (recovery_candidates current d))"
    by (auto simp: distinct_map inj_on_def)
  then show "distinct (map wf_ref (recovery_candidates current d))"
    and "distinct (recovery_candidates current d)"
    by (auto simp: distinct_map)
  show "set (recovery_candidates current d) \<subseteq> set (workflows d)"
    by (auto simp: recovery_candidates_def)
qed

lemma recover_startupD:
  assumes "recover_startup L limit clk now uuid d = Inr (d', rep)"
  obtains current where "utc_now clk now = Inr current" and "1 \<le> limit"
    and "int (length (recovery_candidates current d)) \<le> limit"
    and "foldM (recover_candidate L uuid) (recovery_candidates current d)
           (fold fence_off (filter (\<lambda>r. wf_state r = Running) (recovery_candidates current d)) d,
            \<lparr>sr_scanned = length (recovery_candidates current d),
             sr_expired = map wf_ref (filter (\<lambda>r. wf_state r = Running) (recovery_candidates current d)),
             sr_reconciled = [], sr_unresolved = []\<rparr>) = Inr (d', rep)"
proof -
  from assms obtain current where c: "utc_now clk now = Inr current" "1 \<le> limit"
      "\<not> limit < int (length (take (nat (limit + 1)) (recovery_candidates current d)))"
    by (auto simp: recover_startup_def bind_r_eq_Inr Let_def)
  then have len: "int (length (recovery_candidates current d)) \<le> limit" by (auto simp: min_def split: if_splits)
  then have "take (nat (limit + 1)) (recovery_candidates current d) = recovery_candidates current d"
    by simp
  with assms c(1,2) len show thesis
    by (intro that [OF c(1,2)]) (auto simp: recover_startup_def bind_r_eq_Inr Let_def)
qed

lemma candidate_uncertain:
  assumes ok: "store_ok L d" and c: "c \<in> set (recovery_candidates current d)"
  defines "expired \<equiv> filter (\<lambda>r. wf_state r = Running) (recovery_candidates current d)"
  shows "\<exists>r. find_workflow (wf_tenant c) (wf_id c) (fold fence_off expired d) = Some r \<and> wf_state r = Uncertain"
proof -
  note C = recovery_candidates_wf [OF ok, of current]
  let ?c = "if c \<in> set expired then fenced c else c"
  have e: "distinct expired" "\<forall>r \<in> set expired. r \<in> set (workflows d) \<and> wf_state r = Running"
    using C by (auto simp: expired_def)
  note F = fold_fence_off [OF ok e]
  have "workflows (fold fence_off expired d) = map (\<lambda>x. if x \<in> set expired then fenced x else x) (workflows d)"
    using F by blast
  then have "?c \<in> set (workflows (fold fence_off expired d))" using c C(3) by auto
  moreover have "wf_tenant ?c = wf_tenant c \<and> wf_id ?c = wf_id c" by simp
  moreover have "wf_state ?c = Uncertain"
    using c by (auto simp: expired_def recovery_candidates_def lease_expired_def)
  moreover have "store_ok L (fold fence_off expired d)" using F by blast
  ultimately show ?thesis using find_workflow_iff by blast
qed

lemma recover_startup_ok:
  assumes ok: "store_ok L d" and step: "recover_startup L limit clk now uuid d = Inr (d', rep)"
  obtains current where "utc_now clk now = Inr current" and "store_ok L d'" and "evolves d d'"
    and "report_ok (recovery_candidates current d) d' rep"
    and "sr_scanned rep = length (recovery_candidates current d)"
    and "sr_expired rep = map wf_ref (filter (\<lambda>r. wf_state r = Running) (recovery_candidates current d))"
    and "\<And>t i. (t, i) \<notin> wf_ref ` set (recovery_candidates current d) \<Longrightarrow>
           find_workflow t i d' = find_workflow t i d"
proof (rule recover_startupD [OF step])
  fix current
  let ?cands = "recovery_candidates current d"
  let ?expired = "filter (\<lambda>r. wf_state r = Running) ?cands"
  let ?d1 = "fold fence_off ?expired d"
  let ?rep = "\<lparr>sr_scanned = length ?cands, sr_expired = map wf_ref ?expired,
               sr_reconciled = [], sr_unresolved = []\<rparr>"
  assume now: "utc_now clk now = Inr current"
    and run: "foldM (recover_candidate L uuid) ?cands (?d1, ?rep) = Inr (d', rep)"
  note C = recovery_candidates_wf [OF ok, of current]
  have e: "distinct ?expired" "\<forall>r \<in> set ?expired. r \<in> set (workflows d) \<and> wf_state r = Running"
    using C by auto
  note F = fold_fence_off [OF ok e]
  have "\<exists>r. find_workflow (wf_tenant c) (wf_id c) ?d1 = Some r \<and> wf_state r = Uncertain"
    if "c \<in> set ?cands" for c using candidate_uncertain [OF ok that] .
  then have "store_ok L d' \<and> evolves ?d1 d' \<and> report_ok ([] @ ?cands) d' rep
      \<and> sr_scanned rep = sr_scanned ?rep \<and> sr_expired rep = sr_expired ?rep
      \<and> (\<forall>t i. (t, i) \<notin> wf_ref ` set ?cands \<longrightarrow> find_workflow t i d' = find_workflow t i ?d1)"
    by (intro recover_candidates_ok [OF _ _ _ _ run]) (use F C in \<open>auto simp: report_ok_def\<close>)
  moreover have "find_workflow t i ?d1 = find_workflow t i d" if "(t, i) \<notin> wf_ref ` set ?cands" for t i
    using that by (intro fold_fence_off_other [OF ok e]) auto
  ultimately show thesis
    using evolves_trans [OF fold_fence_off_evolves [OF ok e]] by (intro that [OF now]) auto
qed

lemma recover_expired_ok:
  assumes "store_ok L d" and "recover_expired t clk now d = Inr (d', n)"
  shows "store_ok L d'" and "evolves d d'"
proof -
  obtain current where d': "d' = fold fence_off
      (filter (\<lambda>r. wf_tenant r = t \<and> lease_expired current r) (workflows d)) d"
    using assms(2) by (auto simp: recover_expired_def bind_r_eq_Inr Let_def)
  have "distinct (workflows d)" using store_okD(1) [OF assms(1)] by (simp add: distinct_map)
  then show "store_ok L d'" and "evolves d d'"
    unfolding d' using fold_fence_off [OF assms(1)] fold_fence_off_evolves [OF assms(1)]
    by (auto simp: lease_expired_def)
qed

section \<open>The store as a state machine\<close>

inductive store_step :: "pylib \<Rightarrow> db \<Rightarrow> db \<Rightarrow> bool" for L where
  st_create: "create L t key packet binding uuid d = Inr (d', i) \<Longrightarrow> store_step L d d'"
| st_claim: "claim L t i owner secs clk now d = Inr (d', n) \<Longrightarrow> store_step L d d'"
| st_dispatch: "begin_dispatch L t i owner n budget clk now d = Inr (d', ()) \<Longrightarrow> store_step L d d'"
| st_outcome: "record_outcome L t i owner n result ok clk now d = Inr (d', ()) \<Longrightarrow> store_step L d d'"
| st_complete: "complete L t i owner n result ok clk now uuid d = Inr (d', a) \<Longrightarrow> store_step L d d'"
| st_validate: "validate L t i policy d = Inr (d', report) \<Longrightarrow> store_step L d d'"
| st_cancel: "cancel t i d = Inr (d', b) \<Longrightarrow> store_step L d d'"
| st_reconcile: "reconcile_uncertain L t i uuid d = Inr (d', s) \<Longrightarrow> store_step L d d'"
| st_expired: "recover_expired t clk now d = Inr (d', k) \<Longrightarrow> store_step L d d'"
| st_startup: "recover_startup L limit clk now uuids d = Inr (d', rep) \<Longrightarrow> store_step L d d'"

definition store_init :: "db \<Rightarrow> bool" where
  "store_init d \<longleftrightarrow> open_store empty_db = Inr d"

lemma store_init_ok: "store_init d \<Longrightarrow> store_ok L d"
  by (auto simp: store_init_def open_store_def empty_db_def store_ok_def cluster_def)

lemma complete_ok:
  assumes "store_ok L d" and "complete L t i owner n result b clk now uuid d = Inr (d', a)"
  shows "store_ok L d'" and "evolves d d'"
proof -
  note C = completeD [OF assms(2)]
  obtain r where "find_workflow t i d = Some r" "wf_state r = Running"
    using require_leaseD [OF C(2)] by auto
  then show "store_ok L d'" and "evolves d d'"
    using commit_result_ok [OF assms(1) C(3) _ _ C(1)] commit_result_evolves [OF assms(1) C(3)]
    by auto
qed

lemma store_step_ok: "store_step L d d' \<Longrightarrow> store_ok L d \<Longrightarrow> store_ok L d'"
  by (induction rule: store_step.induct)
     (auto intro: create_ok claim_ok begin_dispatch_ok record_outcome_ok complete_ok(1) validate_ok
        cancel_ok reconcile_ok(1) recover_expired_ok(1) elim: recover_startup_ok)

lemma dispatch_journal_evolves:
  "begin_dispatch L t i owner n budget clk now d = Inr (d', u) \<Longrightarrow> evolves d d'"
  "record_outcome L t i owner n result ok clk now d = Inr (d', u) \<Longrightarrow> evolves d d'"
  by (rule evolves_same, drule begin_dispatchD(3), simp)
     (rule evolves_same, auto elim!: record_outcomeD)

lemma store_step_evolves: "store_step L d d' \<Longrightarrow> store_ok L d \<Longrightarrow> evolves d d'"
  by (induction rule: store_step.induct)
     (auto intro: create_evolves claim_evolves dispatch_journal_evolves complete_ok(2) validate_evolves
        cancel_evolves reconcile_ok(2) recover_expired_ok(2) elim: recover_startup_ok)

interpretation store_machine: state_machine store_init "store_step L" "store_ok L" for L
  by unfold_locales (auto intro: store_init_ok store_step_ok)

lemma run_evolves: "(store_step L)\<^sup>*\<^sup>* d d' \<Longrightarrow> store_ok L d \<Longrightarrow> store_ok L d' \<and> evolves d d'"
proof (induction rule: rtranclp_induct)
  case (step b c)
  then show ?case using store_step_ok store_step_evolves evolves_trans by blast
qed simp

section \<open>The tables only grow\<close>

definition wf_identity :: "workflow_row \<Rightarrow> string \<times> string \<times> string \<times> string \<times> string" where
  "wf_identity r = (wf_id r, wf_tenant r, wf_key r, wf_request_hash r, wf_packet r)"

definition grows :: "db \<Rightarrow> db \<Rightarrow> bool" where
  "grows d d' \<longleftrightarrow>
     prefix (map wf_identity (workflows d)) (map wf_identity (workflows d'))
     \<and> prefix (workflow_artifacts d) (workflow_artifacts d')
     \<and> prefix (workflow_validations d) (workflow_validations d')
     \<and> prefix (workflow_bindings d) (workflow_bindings d')
     \<and> prefix (map di_workflow_id (workflow_dispatches d)) (map di_workflow_id (workflow_dispatches d'))
     \<and> prefix (workflow_events d) (workflow_events d')"

lemma grows_refl [simp]: "grows d d"
  by (simp add: grows_def)

lemma grows_trans: "grows d1 d2 \<Longrightarrow> grows d2 d3 \<Longrightarrow> grows d1 d3"
  unfolding grows_def by (meson prefix_order.trans)

lemma identity_update:
  "(\<And>r. wf_identity (f r) = wf_identity r) \<Longrightarrow>
   map wf_identity (update_where P f rows) = map wf_identity rows"
  by (simp add: update_where_def)

lemma workflow_events_event [simp]:
  "workflow_events (event t i s n d) =
     workflow_events d @ [\<lparr>ev_workflow_id = i, ev_tenant = t, ev_state = s, ev_fence = n\<rparr>]"
  by (simp add: event_def)

lemma commit_result_grows: "commit_result L t i n encoded ok uuid d = Inr (d', a) \<Longrightarrow> grows d d'"
  by (drule commit_resultD(3)) (simp add: grows_def identity_update wf_identity_def)

lemma fence_off_grows: "grows d (fence_off r d)"
  by (simp add: grows_def fence_off_def Let_def identity_update wf_identity_def)

lemma fold_fence_off_grows: "grows d (fold fence_off rows d)"
proof (induction rows arbitrary: d)
  case (Cons r rows)
  from grows_trans [OF fence_off_grows Cons.IH] show ?case by simp
qed simp

lemma recover_candidate_grows:
  assumes "recover_candidate L uuid c (d, rep) = Inr (d', rep')"
  shows "grows d d'"
  using assms
  by (auto simp: recover_candidate_def Let_def bind_r_eq_Inr intro: commit_result_grows
           split: option.splits if_splits)

lemma dispatch_ids_update:
  "(\<And>j. di_workflow_id (f j) = di_workflow_id j) \<Longrightarrow>
   map di_workflow_id (update_where P f js) = map di_workflow_id js"
  by (simp add: update_where_def)

lemma store_step_grows: "store_step L d d' \<Longrightarrow> grows d d'"
proof (induction rule: store_step.induct)
  case (st_create t key packet binding uuid d d' i)
  then show ?case by (cases rule: createD) (simp_all add: grows_def)
next
  case (st_claim t i owner secs clk now d d' n)
  then show ?case
    by (elim claimD) (simp add: grows_def identity_update wf_identity_def)
next
  case (st_dispatch t i owner n budget clk now d d')
  from begin_dispatchD(3) [OF this] show ?case by (simp add: grows_def)
next
  case (st_outcome t i owner n result ok clk now d d')
  then show ?case
    by (elim record_outcomeD disjE conjE) (simp_all add: grows_def dispatch_ids_update)
next
  case (st_complete t i owner n result ok clk now uuid d d' a)
  from completeD(3) [OF this] show ?case by (rule commit_result_grows)
next
  case (st_validate t i policy d d' report)
  then show ?case
    by (elim validateD disjE conjE exE)
       (simp_all add: grows_def judged_def Let_def identity_update wf_identity_def)
next
  case (st_cancel t i d d' b)
  from cancelD [OF this] show ?case
    by (elim disjE conjE exE) (simp_all add: grows_def identity_update wf_identity_def)
next
  case (st_reconcile t i uuid d d' s)
  then show ?case by (cases rule: reconcile_uncertainD) (auto intro: commit_result_grows)
next
  case (st_expired t clk now d d' k)
  then show ?case
    by (auto simp: recover_expired_def bind_r_eq_Inr Let_def fold_fence_off_grows)
next
  case (st_startup limit clk now uuids d d' rep)
  then show ?case
  proof (rule recover_startupD)
    fix current
    let ?cands = "recovery_candidates current d"
    assume "foldM (recover_candidate L uuids) ?cands
        (fold fence_off (filter (\<lambda>r. wf_state r = Running) ?cands) d,
         \<lparr>sr_scanned = length ?cands, sr_expired = map wf_ref (filter (\<lambda>r. wf_state r = Running) ?cands),
          sr_reconciled = [], sr_unresolved = []\<rparr>) = Inr (d', rep)"
    then have "grows d (fst (d', rep))"
      by (rule foldM_invariant)
         (auto intro: fold_fence_off_grows grows_trans [OF _ recover_candidate_grows])
    then show ?thesis by simp
  qed
qed

lemma run_grows: "(store_step L)\<^sup>*\<^sup>* d d' \<Longrightarrow> grows d d'"
  by (induction rule: rtranclp_induct) (auto intro: grows_trans store_step_grows)

text \<open>A recorded outcome is never changed or dropped.\<close>

definition outcomes :: "db \<Rightarrow> dispatch_row set" where
  "outcomes d = {j \<in> set (workflow_dispatches d). di_outcome_json j \<noteq> None}"

lemma commit_result_dispatches:
  "commit_result L t i n encoded ok uuid d = Inr (d', a) \<Longrightarrow> workflow_dispatches d' = workflow_dispatches d"
  by (drule commit_resultD(3)) simp

lemma fold_fence_off_dispatches: "workflow_dispatches (fold fence_off rows d) = workflow_dispatches d"
  by (induction rows arbitrary: d) (simp_all add: fence_off_def Let_def)

lemma recover_startup_dispatches:
  assumes "recover_startup L limit clk now uuid d = Inr (d', rep)"
  shows "workflow_dispatches d' = workflow_dispatches d"
proof (rule recover_startupD [OF assms])
  fix current
  let ?cands = "recovery_candidates current d"
  assume "foldM (recover_candidate L uuid) ?cands
      (fold fence_off (filter (\<lambda>r. wf_state r = Running) ?cands) d,
       \<lparr>sr_scanned = length ?cands, sr_expired = map wf_ref (filter (\<lambda>r. wf_state r = Running) ?cands),
        sr_reconciled = [], sr_unresolved = []\<rparr>) = Inr (d', rep)"
  then have "workflow_dispatches (fst (d', rep)) = workflow_dispatches d"
    by (rule foldM_invariant)
       (auto simp: fold_fence_off_dispatches recover_candidate_def Let_def bind_r_eq_Inr
             dest!: commit_result_dispatches split: option.splits if_splits)
  then show ?thesis by simp
qed

lemma record_outcome_outcomes:
  assumes "store_ok L d" and "record_outcome L t i owner n result ok clk now d = Inr (d', u)"
  shows "outcomes d \<subseteq> outcomes d'"
proof (rule record_outcomeD [OF assms(2)])
  fix j
  assume l: "require_lease t i owner n clk now d = Inr ()" and j: "find_dispatch t i d = Some j"
    and or: "(di_outcome_json j = Some (canonical_json L result)
            \<and> di_succeeded j = Some (int_of_bool ok) \<and> d' = d)
         \<or> (di_outcome_json j = None
            \<and> d' = event t i OutcomeRecorded n (d\<lparr>workflow_dispatches := update_where
                (\<lambda>j. di_tenant j = t \<and> di_workflow_id j = i)
                (\<lambda>j. j\<lparr>di_outcome_json := Some (canonical_json L result),
                       di_outcome_sha256 := Some (sha256_hex L (canonical_json L result)),
                       di_succeeded := Some (int_of_bool ok)\<rparr>) (workflow_dispatches d)\<rparr>))"
  obtain r where r: "find_workflow t i d = Some r" using require_leaseD [OF l] by auto
  have "x = j" if "x \<in> set (workflow_dispatches d)" "di_workflow_id x = i" for x
  proof -
    have "x \<in> set (filter (\<lambda>j. di_workflow_id j = i) (workflow_dispatches d))" using that by simp
    then show ?thesis unfolding dispatch_cluster(1) [OF assms(1) r j] by simp
  qed
  with or show ?thesis by (force simp: outcomes_def update_where_mem)
qed

lemma store_step_outcomes: "store_step L d d' \<Longrightarrow> store_ok L d \<Longrightarrow> outcomes d \<subseteq> outcomes d'"
proof (induction rule: store_step.induct)
  case (st_create t key packet binding uuid d d' i)
  from st_create(1) show ?case by (cases rule: createD) (simp_all add: outcomes_def)
next
  case (st_claim t i owner secs clk now d d' n)
  from st_claim(1) show ?case by (elim claimD) (simp add: outcomes_def)
next
  case (st_dispatch t i owner n budget clk now d d')
  from begin_dispatchD(3) [OF st_dispatch(1)] show ?case by (auto simp: outcomes_def)
next
  case (st_outcome t i owner n result ok clk now d d')
  then show ?case by (intro record_outcome_outcomes)
next
  case (st_complete t i owner n result ok clk now uuid d d' a)
  from commit_result_dispatches [OF completeD(3) [OF st_complete(1)]] show ?case
    by (simp add: outcomes_def)
next
  case (st_validate t i policy d d' report)
  from st_validate(1) show ?case
    by (elim validateD disjE conjE exE) (simp_all add: outcomes_def judged_def Let_def)
next
  case (st_cancel t i d d' b)
  from cancelD [OF st_cancel(1)] show ?case by (elim disjE conjE exE) (simp_all add: outcomes_def)
next
  case (st_reconcile t i uuid d d' s)
  from st_reconcile(1) show ?case
    by (cases rule: reconcile_uncertainD) (auto simp: outcomes_def dest: commit_result_dispatches)
next
  case (st_expired t clk now d d' k)
  then show ?case
    by (auto simp: outcomes_def recover_expired_def bind_r_eq_Inr Let_def fold_fence_off_dispatches)
next
  case (st_startup limit clk now uuids d d' rep)
  from recover_startup_dispatches [OF st_startup(1)] show ?case by (simp add: outcomes_def)
qed

lemma run_outcomes: "(store_step L)\<^sup>*\<^sup>* d d' \<Longrightarrow> store_ok L d \<Longrightarrow> outcomes d \<subseteq> outcomes d'"
proof (induction rule: rtranclp_induct)
  case (step b c)
  then show ?case using store_step_outcomes run_evolves by blast
qed simp

end
