(* ===== verification/StoreTheorems.thy ===== *)
theory StoreTheorems
  imports WorkflowStoreProps Samples
begin

text \<open>
  What the single-task store promises, as theorems over its operations: executed at most once,
  fenced owners shut out, creation idempotent, results read back, decisions justified, recovery
  complete. \<open>sample_db\<close> and its successors are the concrete histories of the witnesses.
\<close>

section \<open>A sample history\<close>

definition sample_db :: db where
  "sample_db = empty_db\<lparr>workflow_schema := [8]\<rparr>"

lemma sample_db_init [simp]: "store_init sample_db"
  by (simp add: store_init_def open_store_def sample_db_def empty_db_def)

definition sample_row :: workflow_row where
  "sample_row = \<lparr>wf_id = ''w1'', wf_tenant = ''acme'', wf_key = ''k1'',
     wf_request_hash = request_digest sample_lib sample_packet None,
     wf_packet = canonical_json sample_lib (to_dict sample_lib sample_packet), wf_state = Ready,
     wf_fence = 0, wf_owner = None, wf_lease_until = None, wf_result = None,
     wf_result_artifact_id = None\<rparr>"

definition sample_created :: db where
  "sample_created = event ''acme'' ''w1'' (State Ready) 0 (sample_db\<lparr>workflows := [sample_row]\<rparr>)"

lemma sample_ids [simp]: "identifier_ok ''acme''" "identifier_ok ''k1''" "identifier_ok ''node-a''"
  by (simp_all add: identifier_ok_def strip_def py_space_def)

lemma sample_create:
  "create sample_lib ''acme'' ''k1'' sample_packet None ''w1'' sample_db = Inr (sample_created, ''w1'')"
  by (simp add: create_def check_identifier_def sample_digest sample_created_def sample_db_def
      empty_db_def sample_row_def insert_pk_def)

definition sample_running :: "string \<Rightarrow> workflow_row" where
  "sample_running owner = sample_row\<lparr>wf_state := Running, wf_fence := 1, wf_owner := Some owner,
     wf_lease_until := Some 30000000\<rparr>"

definition sample_claimed :: db where
  "sample_claimed = event ''acme'' ''w1'' (State Running) 1
     (sample_created\<lparr>workflows := [sample_running ''node-a'']\<rparr>)"

lemma sample_claim:
  "claim sample_lib ''acme'' ''w1'' ''node-a'' 30 0 None sample_created = Inr (sample_claimed, 1)"
  by (simp add: claim_def check_identifier_def decode_def find_workflow_def sample_created_def
      wf_is_def sample_row_def sample_packet_loads sample_digest sample_claimed_def
      sample_running_def update_where_def event_def seconds_of_int [of 30, simplified])

lemma sample_reachable:
  "reachable store_init (store_step sample_lib) sample_db"
  "reachable store_init (store_step sample_lib) sample_created"
  "reachable store_init (store_step sample_lib) sample_claimed"
proof -
  show db: "reachable store_init (store_step sample_lib) sample_db"
    by (rule reach_init) simp
  show created: "reachable store_init (store_step sample_lib) sample_created"
    by (rule reach_step [OF db st_create [OF sample_create]])
  show "reachable store_init (store_step sample_lib) sample_claimed"
    by (rule reach_step [OF created st_claim [OF sample_claim]])
qed

lemma sample_run: "(store_step sample_lib)\<^sup>*\<^sup>* sample_created sample_claimed"
  using st_claim [OF sample_claim] by blast

section \<open>The lifecycle\<close>

text \<open>In every state reachable from a new store by its operations the tables are consistent:
  keys are unique, child rows belong to their workflow, exactly the running rows have an owner and a
  lease, the fence counts claims and fencings, and exactly the validated rows have a report that
  agrees with their state.\<close>

theorem store_invariant:
  "reachable store_init (store_step L) d \<Longrightarrow> store_ok L d"
  by (rule store_machine.reachable_inv)

theorem store_invariant_witness: "store_ok sample_lib sample_claimed"
  using store_invariant [OF sample_reachable(3)] .

text \<open>C2. Refinement: whatever sequence of operations runs, each workflow's state and fence move
  along the abstract lifecycle only.\<close>

theorem store_refines_lifecycle:
  assumes "reachable store_init (store_step L) d" and "(store_step L)\<^sup>*\<^sup>* d d'"
    and "abs_state t i d = Some a"
  shows "\<exists>b. abs_state t i d' = Some b \<and> lifecycle\<^sup>*\<^sup>* a b"
  using run_evolves [OF assms(2) store_machine.reachable_inv [OF assms(1)]] assms(3) evolvesD(1)
  by blast

lemma sample_created_state: "abs_state ''acme'' ''w1'' sample_created = Some (Ready, 0)"
  by (simp add: abs_state_def find_workflow_def sample_created_def wf_is_def sample_row_def)

theorem store_refines_lifecycle_witness:
  "\<exists>b. abs_state ''acme'' ''w1'' sample_claimed = Some b \<and> lifecycle\<^sup>*\<^sup>* (Ready, 0) b"
  by (rule store_refines_lifecycle [OF sample_reachable(2) sample_run sample_created_state])

text \<open>C1. A workflow is executed at most once: a claim returns fence 1, and no later state of the
  store admits another claim of it.\<close>

theorem claimed_once:
  assumes "reachable store_init (store_step L) d"
    and claim: "claim L t i owner secs clk now d = Inr (d1, n)"
    and run: "(store_step L)\<^sup>*\<^sup>* d1 d2"
  shows "n = 1 \<and> (\<exists>e. claim L t i owner' secs' clk' now' d2 = Inl e)"
proof -
  have ok: "store_ok L d" using assms(1) by (rule store_machine.reachable_inv)
  obtain r where r: "find_workflow t i d = Some r" "wf_state r = Ready" "n = wf_fence r + 1"
      and f: "find_workflow t i d1 \<noteq> None" and running: "abs_state t i d1 = Some (Running, n)"
  proof (rule claimD [OF claim])
    fix r current
    assume r: "find_workflow t i d = Some r" "wf_state r = Ready" "n = wf_fence r + 1"
      and d1: "d1 = event t i (State Running) n (d\<lparr>workflows := update_where (wf_is t i)
           (\<lambda>r. r\<lparr>wf_state := Running, wf_fence := n, wf_owner := Some owner,
                  wf_lease_until := Some (current + seconds (of_int secs))\<rparr>) (workflows d)\<rparr>)"
    have "find_workflow t i d1 = map_option (\<lambda>r. r\<lparr>wf_state := Running, wf_fence := n,
        wf_owner := Some owner, wf_lease_until := Some (current + seconds (of_int secs))\<rparr>)
        (find_workflow t i d)"
      by (subst find_workflow_update [where t = t and i = i]) (auto simp: d1)
    with r show thesis by (intro that [OF r]) (simp_all add: abs_state_def)
  qed
  have "row_ok r" using row_cluster [OF ok r(1)] by (rule cluster_row)
  with r have n: "n = 1" by (simp add: row_ok_def)
  have "store_ok L d1" using claim_ok [OF ok claim] .
  then obtain b where b: "abs_state t i d2 = Some b" "lifecycle\<^sup>*\<^sup>* (Running, n) b"
    using run_evolves [OF run] evolvesD(1) [OF _ running] by blast
  have "fst b \<noteq> Ready" using lifecycle_not_ready [OF b(2)] by fastforce
  moreover have "\<exists>e. claim L t i owner' secs' clk' now' d2 = Inl e"
  proof (cases "claim L t i owner' secs' clk' now' d2")
    case (Inr x)
    then have "claim L t i owner' secs' clk' now' d2 = Inr (fst x, snd x)" by simp
    then show ?thesis using b(1) calculation by (elim claimD) (auto simp: abs_state_def)
  qed simp
  ultimately show ?thesis using n by simp
qed

theorem claimed_once_witness:
  "\<exists>e. claim sample_lib ''acme'' ''w1'' ''node-b'' 30 5 None sample_claimed = Inl e"
  using claimed_once [OF sample_reachable(2) sample_claim rtranclp.rtrancl_refl] by blast

lemma no_lease:
  assumes "find_workflow t i d = Some r" and "wf_state r \<noteq> Running"
  shows "require_lease t i owner n clk now d = Inl (WorkflowConflict ''Stale or unauthorized workflow execution'')"
  using assms by (simp add: require_lease_def Let_def)

lemma ended_rows_are_not_running:
  assumes "reachable store_init (store_step L) d"
    and "find_workflow t i d = Some r" and "wf_state r \<notin> {Ready, Running}"
    and run: "(store_step L)\<^sup>*\<^sup>* d d'"
  obtains r' where "find_workflow t i d' = Some r'" and "wf_state r' \<noteq> Running"
proof -
  have "abs_state t i d = Some (wf_state r, wf_fence r)" using assms(2) by (simp add: abs_state_def)
  then obtain b where b: "abs_state t i d' = Some b" "lifecycle\<^sup>*\<^sup>* (wf_state r, wf_fence r) b"
    using run_evolves [OF run store_machine.reachable_inv [OF assms(1)]] evolvesD(1) by blast
  have "fst b \<noteq> Running" using lifecycle_running [OF b(2)] assms(3) by auto
  with b(1) show thesis by (auto simp: abs_state_def intro: that)
qed

text \<open>Fencing: once a workflow has left execution, by completion, cancellation or expiry, no
  owner with any fence can journal a dispatch, record an outcome or complete it, ever after.\<close>

theorem ended_execution_is_shut:
  assumes "reachable store_init (store_step L) d"
    and "find_workflow t i d = Some r" and "wf_state r \<notin> {Ready, Running}"
    and "(store_step L)\<^sup>*\<^sup>* d d'" and "is_dict result"
  shows "begin_dispatch L t i owner n budget clk now d'
           = Inl (WorkflowConflict ''Stale or unauthorized workflow execution'')
    \<and> record_outcome L t i owner n result ok clk now d'
           = Inl (WorkflowConflict ''Stale or unauthorized workflow execution'')
    \<and> complete L t i owner n result ok clk now uuid d'
           = Inl (WorkflowConflict ''Stale or unauthorized workflow execution'')"
proof (rule ended_rows_are_not_running [OF assms(1-4)])
  fix r' assume "find_workflow t i d' = Some r'" "wf_state r' \<noteq> Running"
  note L = no_lease [OF this]
  show ?thesis
    using assms(5) by (simp add: begin_dispatch_def record_outcome_def complete_def L Let_def)
qed

definition sample_cancelled :: db where
  "sample_cancelled = event ''acme'' ''w1'' (State Cancelled) 2
     (sample_claimed\<lparr>workflows := [sample_row\<lparr>wf_state := Cancelled, wf_fence := 2\<rparr>]\<rparr>)"

lemma sample_cancel: "cancel ''acme'' ''w1'' sample_claimed = Inr (sample_cancelled, True)"
  by (simp add: cancel_def find_workflow_def sample_claimed_def wf_is_def sample_running_def
      sample_row_def sample_cancelled_def update_where_def event_def)

lemma sample_cancelled_row:
  "find_workflow ''acme'' ''w1'' sample_cancelled = Some (sample_row\<lparr>wf_state := Cancelled, wf_fence := 2\<rparr>)"
  by (simp add: find_workflow_def sample_cancelled_def wf_is_def sample_row_def)

theorem ended_execution_is_shut_witness:
  "complete sample_lib ''acme'' ''w1'' ''node-a'' 1 (JObj []) True 5 None ''a1'' sample_cancelled
     = Inl (WorkflowConflict ''Stale or unauthorized workflow execution'')"
  using ended_execution_is_shut
      [OF reach_step [OF sample_reachable(3) st_cancel [OF sample_cancel]] sample_cancelled_row _
          rtranclp.rtrancl_refl, of "JObj []"] by simp

text \<open>Final states are final: a workflow that succeeded, failed, was rejected or cancelled keeps
  its state and fence under every sequence of operations.\<close>

theorem final_states_are_final:
  assumes "reachable store_init (store_step L) d"
    and "find_workflow t i d = Some r" and "wf_state r \<in> FINAL_STATES"
    and "(store_step L)\<^sup>*\<^sup>* d d'"
  shows "\<exists>r'. find_workflow t i d' = Some r' \<and> wf_state r' = wf_state r \<and> wf_fence r' = wf_fence r"
proof -
  have "abs_state t i d = Some (wf_state r, wf_fence r)" using assms(2) by (simp add: abs_state_def)
  then obtain b where "abs_state t i d' = Some b" "lifecycle\<^sup>*\<^sup>* (wf_state r, wf_fence r) b"
    using run_evolves [OF assms(4) store_machine.reachable_inv [OF assms(1)]] evolvesD(1) by blast
  then show ?thesis using lifecycle_final assms(3) by (fastforce simp: abs_state_def)
qed

theorem final_states_are_final_witness:
  "\<exists>r'. find_workflow ''acme'' ''w1'' sample_cancelled = Some r' \<and> wf_state r' = Cancelled \<and> wf_fence r' = 2"
  using final_states_are_final
    [OF reach_step [OF sample_reachable(3) st_cancel [OF sample_cancel]] sample_cancelled_row _
        rtranclp.rtrancl_refl] by (simp add: FINAL_STATES_def)

section \<open>Creation\<close>

lemma created_row:
  assumes "create L t key packet binding uuid d = Inr (d', i)" and "iso_roundtrip L" and "packet_ok packet"
  shows "identifier_ok t \<and> identifier_ok key
    \<and> (\<exists>r \<in> set (workflows d'). wf_key_is t key r \<and> wf_id r = i
         \<and> wf_request_hash r = request_digest L packet binding)"
proof -
  have v: "from_dict L (to_dict L packet) = Inr packet" by (rule from_dict_to_dict [OF assms(2,3)])
  have ids: "identifier_ok t \<and> identifier_ok key"
    using assms(1) by (auto simp: create_def check_identifier_def bind_r_eq_Inr)
  show ?thesis
    using assms(1)
  proof (cases rule: createD)
    case (known r)
    have "List.find (wf_key_is t key) (workflows d) \<noteq> None" using known by (auto simp: find_None)
    then obtain y where y: "List.find (wf_key_is t key) (workflows d) = Some y" by blast
    then show ?thesis
      using assms(1) ids v find_SomeD [OF y]
      by (auto simp: create_def check_identifier_def Let_def split: if_splits)
  next
    case (fresh validated bs)
    then show ?thesis using ids v by (auto simp: wf_key_is_def)
  qed
qed

text \<open>Creation is idempotent: at any later time the same tenant, key and input return the same
  workflow and change nothing, and another input under the key is refused.\<close>

theorem create_idempotent:
  assumes "reachable store_init (store_step L) d" and "iso_roundtrip L"
    and "packet_ok packet" and "packet_ok packet'"
    and c: "create L t key packet binding uuid d = Inr (d1, i)" and run: "(store_step L)\<^sup>*\<^sup>* d1 d2"
  shows "create L t key packet' binding' uuid' d2 =
    (if request_digest L packet' binding' = request_digest L packet binding then Inr (d2, i)
     else Inl (WorkflowConflict ''Idempotency key conflicts with existing input''))"
proof -
  obtain r where ids: "identifier_ok t" "identifier_ok key"
    and r: "r \<in> set (workflows d1)" "wf_key_is t key r" "wf_id r = i"
      "wf_request_hash r = request_digest L packet binding"
    using created_row [OF c assms(2,3)] by blast
  have "store_ok L d1" using create_ok [OF store_machine.reachable_inv [OF assms(1)] c] .
  then have ok: "store_ok L d2" using run_evolves [OF run] by blast
  have "wf_identity r \<in> set (map wf_identity (workflows d2))"
    using set_mono_prefix run_grows [OF run] r(1) unfolding grows_def by fastforce
  then obtain r' where r': "r' \<in> set (workflows d2)" "wf_identity r' = wf_identity r" by auto
  then have r'': "wf_key_is t key r'" "wf_id r' = i" "wf_request_hash r' = request_digest L packet binding"
    using r by (auto simp: wf_identity_def wf_key_is_def)
  have "List.find (wf_key_is t key) (workflows d2) = Some r'"
    by (subst find_Some_iff_unique)
       (use r' r'' distinct_map_eq [OF store_okD(2) [OF ok]] in \<open>auto simp: wf_key_is_def\<close>)
  then show ?thesis
    using ids r'' from_dict_to_dict [OF assms(2,4)]
    by (auto simp: create_def check_identifier_def Let_def)
qed

theorem create_idempotent_witness:
  "create sample_lib ''acme'' ''k1'' sample_packet None ''w2'' sample_claimed = Inr (sample_claimed, ''w1'')"
  using create_idempotent [OF sample_reachable(1) sample_lib_laws(2) sample_packet_ok sample_packet_ok
      sample_create sample_run, of None "''w2''"] by simp

section \<open>Results\<close>

lemma stored_artifact_reads:
  assumes "store_ok L d"
    and a: "\<lparr>wa_id = uuid, wa_workflow_id = i, wa_tenant = t, wa_schema_version = 1,
             wa_sha256 = sha256_hex L text, wa_size_bytes = utf8_len text, wa_content_json = text\<rparr>
            \<in> set (workflow_artifacts d)"
    and "loads L text = Some v" and "is_dict v"
  shows "get_artifact L t i (Some uuid) d =
    Inr (Some \<lparr>sa_ref = artifact_ref L uuid i text, sa_content_json = text\<rparr>)"
proof -
  let ?a = "\<lparr>wa_id = uuid, wa_workflow_id = i, wa_tenant = t, wa_schema_version = 1,
             wa_sha256 = sha256_hex L text, wa_size_bytes = utf8_len text, wa_content_json = text\<rparr>"
  have "List.find (\<lambda>a. wa_tenant a = t \<and> wa_workflow_id a = i \<and> Some uuid = Some (wa_id a))
          (workflow_artifacts d) = Some ?a"
    by (subst find_Some_iff_unique)
       (use a distinct_map_eq [OF store_okD(3) [OF assms(1)]] in auto)
  then show ?thesis
    using assms(3,4) by (simp add: get_artifact_def StoredArtifact_init_def artifact_ref_def)
qed

lemma is_dict_sort_keys [simp]: "is_dict (sort_keys v) = is_dict v"
  by (cases v) simp_all

lemma loads_canonicalD: "loads_canonical L \<Longrightarrow> floats_ok L v \<Longrightarrow> loads L (canonical_json L v) = Some (sort_keys v)"
  by (simp add: loads_canonical_def)

text \<open>Round trip: the artifact a completion returns can be read back, at any later time, with the
  digest and size of its text and the completed result as its payload.\<close>

theorem completed_result_reads_back:
  assumes "reachable store_init (store_step L) d" and "loads_canonical L" and "floats_ok L result"
    and c: "complete L t i owner n result ok clk now uuid d = Inr (d1, a)"
    and run: "(store_step L)\<^sup>*\<^sup>* d1 d2"
  shows "\<exists>s. get_artifact L t i (Some (af_artifact_id a)) d2 = Inr (Some s) \<and> sa_ref s = a
    \<and> payload L s = Inr (sort_keys result)"
proof -
  let ?text = "canonical_json L result"
  note C = completeD [OF c]
  note D = commit_resultD [OF C(3)]
  have "store_ok L d1" using complete_ok(1) [OF store_machine.reachable_inv [OF assms(1)] c] .
  then have ok: "store_ok L d2" using run_evolves [OF run] by blast
  have "\<lparr>wa_id = uuid, wa_workflow_id = i, wa_tenant = t, wa_schema_version = 1,
          wa_sha256 = sha256_hex L ?text, wa_size_bytes = utf8_len ?text, wa_content_json = ?text\<rparr>
        \<in> set (workflow_artifacts d1)" by (simp add: D(3))
  then have "\<lparr>wa_id = uuid, wa_workflow_id = i, wa_tenant = t, wa_schema_version = 1,
          wa_sha256 = sha256_hex L ?text, wa_size_bytes = utf8_len ?text, wa_content_json = ?text\<rparr>
        \<in> set (workflow_artifacts d2)"
    using set_mono_prefix run_grows [OF run] unfolding grows_def by blast
  from stored_artifact_reads [OF ok this loads_canonicalD [OF assms(2,3)]] C(1)
  show ?thesis
    using loads_canonicalD [OF assms(2,3)] by (simp add: D(2) payload_def artifact_ref_def)
qed

definition sample_result :: json where
  "sample_result = JObj [(''output'', JObj [(''text'', JStr ''ok'')])]"

lemma sample_result_dict [simp]: "is_dict sample_result" "floats_ok L sample_result"
  "sort_keys sample_result = sample_result"
  by (simp_all add: sample_result_def)

definition sample_done :: db where
  "sample_done = fst (projr (complete sample_lib ''acme'' ''w1'' ''node-a'' 1 sample_result True 5 None
     ''a1'' sample_claimed))"

lemma sample_complete:
  "complete sample_lib ''acme'' ''w1'' ''node-a'' 1 sample_result True 5 None ''a1'' sample_claimed =
     Inr (sample_done, artifact_ref sample_lib ''a1'' ''w1'' (canonical_json sample_lib sample_result))"
  by (simp add: sample_done_def complete_def sample_result_dict require_lease_def find_workflow_def
      sample_claimed_def wf_is_def sample_running_def sample_row_def find_dispatch_def event_def
      sample_created_def sample_db_def empty_db_def commit_result_def insert_pk_def Let_def)

theorem completed_result_reads_back_witness:
  "\<exists>s. get_artifact sample_lib ''acme'' ''w1'' (Some ''a1'') sample_done = Inr (Some s)
     \<and> payload sample_lib s = Inr sample_result"
  using completed_result_reads_back [OF sample_reachable(3) sample_lib_laws(1) _ sample_complete
      rtranclp.rtrancl_refl]
  by (auto simp: artifact_ref_def)

lemma insert_pk_fresh: "key r \<notin> key ` set rows \<Longrightarrow> insert_pk key r rows = Inr (rows @ [r])"
  by (simp add: insert_pk_eq_Inr) (metis imageI)

lemma commit_result_total:
  assumes "uuid \<notin> wa_id ` set (workflow_artifacts d)"
  obtains d' a where "commit_result L t i n encoded ok uuid d = Inr (d', a)"
  using assms by (auto simp: commit_result_def Let_def insert_pk_fresh)

text \<open>Durable outcomes: once an outcome is recorded, then whatever happens to the execution, if the
  workflow ends up uncertain its reconciliation commits exactly the recorded result, without running
  anything again.\<close>

theorem recorded_outcome_survives:
  assumes "reachable store_init (store_step L) d" and "loads_canonical L" and "floats_ok L result"
    and o: "record_outcome L t i owner n result ok clk now d = Inr (d1, ())"
    and run: "(store_step L)\<^sup>*\<^sup>* d1 d2"
    and r: "find_workflow t i d2 = Some r" "wf_state r = Uncertain"
    and fresh: "uuid \<notin> wa_id ` set (workflow_artifacts d2)"
  shows "\<exists>d3 r'. reconcile_uncertain L t i uuid d2 = Inr (d3, if ok then AwaitingValidation else Failed)
    \<and> find_workflow t i d3 = Some r' \<and> wf_result r' = Some (canonical_json L result)"
proof -
  let ?text = "canonical_json L result"
  have ok1: "store_ok L d1" using record_outcome_ok [OF store_machine.reachable_inv [OF assms(1)] o] .
  have ok2: "store_ok L d2" using run_evolves [OF run ok1] by blast
  have d: "is_dict result" using o by (elim record_outcomeD)
  obtain j where j: "j \<in> outcomes d1" "di_tenant j = t" "di_workflow_id j = i"
      "di_outcome_json j = Some ?text" "di_succeeded j = Some (int_of_bool ok)"
    using o
  proof (elim record_outcomeD disjE conjE)
    fix j assume "find_dispatch t i d = Some j" "di_outcome_json j = Some ?text"
      "di_succeeded j = Some (int_of_bool ok)" "d1 = d"
    then show thesis by (intro that [of j]) (auto simp: outcomes_def dest: find_dispatchD)
  next
    fix j
    let ?f = "\<lambda>j. j\<lparr>di_outcome_json := Some ?text, di_outcome_sha256 := Some (sha256_hex L ?text),
                   di_succeeded := Some (int_of_bool ok)\<rparr>"
    assume "find_dispatch t i d = Some j" "d1 = event t i OutcomeRecorded n
      (d\<lparr>workflow_dispatches := update_where (\<lambda>j. di_tenant j = t \<and> di_workflow_id j = i) ?f
           (workflow_dispatches d)\<rparr>)"
    then show thesis
      using find_dispatchD by (intro that [of "?f j"]) (auto simp: outcomes_def update_where_mem)
  qed
  have j2: "j \<in> set (workflow_dispatches d2)"
    using run_outcomes [OF run ok1] j(1) by (auto simp: outcomes_def)
  then have f: "find_dispatch t i d2 \<noteq> None"
    using j by (auto simp: find_dispatch_def find_None)
  then obtain j' where j': "find_dispatch t i d2 = Some j'" by blast
  have "j \<in> set (filter (\<lambda>j. di_workflow_id j = i) (workflow_dispatches d2))" using j2 j(3) by simp
  then have jj: "j' = j" unfolding dispatch_cluster(1) [OF ok2 r(1) j'] by simp
  note J = dispatch_cluster(2,3) [OF ok2 r(1) j', unfolded jj]
  have "row_ok r" using row_cluster [OF ok2 r(1)] by (rule cluster_row)
  then have jok: "journal_ok L (wf_fence r) j ?text"
    using J j(4,5) r(2) by (auto simp: journal_ok_def row_ok_def outcome_ok_def int_of_bool_def)
  obtain d3 a where c: "commit_result L t i (wf_fence r) ?text (di_succeeded j = Some 1) uuid d2 = Inr (d3, a)"
    by (rule commit_result_total [OF fresh])
  have s: "(di_succeeded j = Some 1) = ok" using j(5) by (simp add: int_of_bool_def)
  have "reconcile_uncertain L t i uuid d2 = Inr (d3, if ok then AwaitingValidation else Failed)"
    using r j' jj j(4) jok c d s loads_canonicalD [OF assms(2,3)]
    by (simp add: reconcile_uncertain_def Let_def decode_def)
  moreover have "find_dispatch t i d2 = Some j" using j' jj by simp
  ultimately show ?thesis using commit_from_journal(3) [OF ok2 r _ j(4) c] by simp
qed

definition sample_recorded :: "db" where
  "sample_recorded = fst (projr (bind_r
     (begin_dispatch sample_lib ''acme'' ''w1'' ''node-a'' 1 (JObj []) 4 None sample_claimed) (\<lambda>(d, u).
     record_outcome sample_lib ''acme'' ''w1'' ''node-a'' 1 sample_result True 5 None d)))"

definition sample_uncertain :: "db" where
  "sample_uncertain = fst (projr (recover_expired ''acme'' 40000000 None sample_recorded))"

lemmas sample_defs = sample_claimed_def sample_running_def sample_row_def sample_created_def
  sample_db_def empty_db_def event_def wf_is_def

lemma sample_steps:
  obtains d where
    "begin_dispatch sample_lib ''acme'' ''w1'' ''node-a'' 1 (JObj []) 4 None sample_claimed = Inr (d, ())"
    and "record_outcome sample_lib ''acme'' ''w1'' ''node-a'' 1 sample_result True 5 None d = Inr (sample_recorded, ())"
    and "recover_expired ''acme'' 40000000 None sample_recorded = Inr (sample_uncertain, 1)"
    and "find_workflow ''acme'' ''w1'' sample_uncertain = Some (fenced (sample_running ''node-a''))"
    and "workflow_artifacts sample_uncertain = []"
  by (simp add: sample_uncertain_def sample_recorded_def begin_dispatch_def record_outcome_def
      require_lease_def find_workflow_def find_dispatch_def update_where_def Let_def
      recover_expired_def lease_expired_def fence_off_def fenced_def int_of_bool_def sample_defs)

theorem recorded_outcome_survives_witness:
  "\<exists>d3. reconcile_uncertain sample_lib ''acme'' ''w1'' ''a1'' sample_uncertain = Inr (d3, AwaitingValidation)"
proof (rule sample_steps)
  fix d
  assume A: "begin_dispatch sample_lib ''acme'' ''w1'' ''node-a'' 1 (JObj []) 4 None sample_claimed = Inr (d, ())"
    "record_outcome sample_lib ''acme'' ''w1'' ''node-a'' 1 sample_result True 5 None d = Inr (sample_recorded, ())"
    "recover_expired ''acme'' 40000000 None sample_recorded = Inr (sample_uncertain, 1)"
    "find_workflow ''acme'' ''w1'' sample_uncertain = Some (fenced (sample_running ''node-a''))"
    "workflow_artifacts sample_uncertain = []"
  have run: "(store_step sample_lib)\<^sup>*\<^sup>* sample_recorded sample_uncertain"
    using st_expired [OF A(3)] by blast
  show ?thesis
    using recorded_outcome_survives [OF reach_step [OF sample_reachable(3) st_dispatch [OF A(1)]]
        sample_lib_laws(1) sample_result_dict(2) A(2) run A(4)] A(5) by auto
qed

section \<open>Validation\<close>

lemma find_filter: "List.find P (filter Q xs) = List.find (\<lambda>x. P x \<and> Q x) xs"
  by (induction xs) auto

lemma result_artifact:
  assumes ok: "store_ok L d" and r: "find_workflow t i d = Some r" "wf_result r = Some text"
    and a: "get_artifact L t i (wf_result_artifact_id r) d = Inr (Some artifact)"
  shows "sa_content_json artifact = text"
proof -
  obtain js as vs bs where c: "cluster i d = (js, as, vs, bs)" "artifacts_ok L r as"
    using row_cluster [OF ok r(1)] by (cases "cluster i d") (auto simp: cluster_ok_def)
  have "row_ok r" using row_cluster [OF ok r(1)] by (rule cluster_row)
  then obtain aid where aid: "wf_result_artifact_id r = Some aid" using r(2) by (auto simp: row_ok_def)
  have as: "as = [\<lparr>wa_id = aid, wa_workflow_id = i, wa_tenant = t, wa_schema_version = 1,
      wa_sha256 = sha256_hex L text, wa_size_bytes = utf8_len text, wa_content_json = text\<rparr>]"
    using c(2) aid r(2) find_workflowD [OF r(1)] by (auto simp: artifacts_ok_def)
  have "hd as \<in> set (filter (\<lambda>a. wa_workflow_id a = i) (workflow_artifacts d))"
    using c(1) as by (simp add: cluster_def)
  then have "List.find (\<lambda>a. wa_tenant a = t \<and> wa_workflow_id a = i \<and> Some aid = Some (wa_id a))
      (workflow_artifacts d) = Some (hd as)"
    by (subst find_Some_iff_unique)
       (use distinct_map_eq [OF store_okD(3) [OF ok]] in \<open>auto simp: as\<close>)
  then show ?thesis
    using a as unfolding aid
    by (auto simp: get_artifact_def StoredArtifact_init_def map_r_eq_Inr split: option.splits if_splits)
qed

lemma unvalidated:
  assumes "store_ok L d" and "find_workflow t i d = Some r" and "wf_state r = AwaitingValidation"
  shows "find_validation t i d = None"
proof -
  have "filter (\<lambda>v. va_workflow_id v = i) (workflow_validations d) = []"
    using row_cluster [OF assms(1,2)] assms(3) by (simp add: cluster_ok_def cluster_def validations_ok_def)
  then show ?thesis by (auto simp: find_validation_def find_None filter_empty_conv)
qed

text \<open>The decision: a first validation succeeds or rejects the workflow exactly as the checks of
  the bound policy, run on the text of the stored result, find nothing or something.\<close>

theorem validation_decides:
  assumes "reachable store_init (store_step L) d" and "loads_canonical L"
    and v: "validate L t i policy d = Inr (d', report)"
    and r: "find_workflow t i d = Some r" "wf_state r = AwaitingValidation"
      "wf_result r = Some (canonical_json L result)" and "floats_ok L result"
  shows "\<exists>binding snapshot p r'. get_binding L t i d = Inr binding
    \<and> bound_snapshot binding policy = Inr snapshot \<and> validation_policy_from_snapshot snapshot = Inr p
    \<and> find_workflow t i d' = Some r'
    \<and> wf_state r' = (if artifact_findings L (output_text (sort_keys result)) p = [] then Succeeded else Rejected)"
proof (rule validateD [OF v])
  fix r0 binding snapshot artifact
  assume A: "find_workflow t i d = Some r0" "get_binding L t i d = Inr binding"
      "bound_snapshot binding policy = Inr snapshot"
      "get_artifact L t i (wf_result_artifact_id r0) d = Inr (Some artifact)"
    and B: "(\<exists>v. d' = d \<and> find_validation t i d = Some v \<and> decode L (va_report_json v) = Inr report)
         \<or> (wf_state r0 = AwaitingValidation \<and> find_validation t i d = None
            \<and> (\<forall>v \<in> set (workflow_validations d). va_workflow_id v \<noteq> i)
            \<and> validate_artifact L artifact snapshot = Inr report
            \<and> d' = judged L t i r0 report d)"
  have ok: "store_ok L d" using assms(1) by (rule store_machine.reachable_inv)
  have "r0 = r" using A(1) r(1) by simp
  note art = result_artifact [OF ok r(1,3) A(4) [unfolded \<open>r0 = r\<close>]]
  from B have rep: "validate_artifact L artifact snapshot = Inr report" "d' = judged L t i r report d"
    using \<open>r0 = r\<close> unvalidated [OF ok r(1,2)] by auto
  from rep(1) obtain p where p: "validation_policy_from_snapshot snapshot = Inr p"
      "accepted report \<longleftrightarrow> artifact_findings L (output_text (sort_keys result)) p = []"
    using loads_canonicalD [OF assms(2) \<open>floats_ok L result\<close>]
    by (auto simp: validate_artifact_def bind_r_eq_Inr payload_def art)
  have "find_workflow t i d' = map_option
      (\<lambda>r. r\<lparr>wf_state := if accepted report then Succeeded else Rejected\<rparr>) (find_workflow t i d)"
    by (subst find_workflow_update [where t = t and i = i]) (auto simp: rep(2) judged_def Let_def)
  then show ?thesis using A(2,3) p r(1) by auto
qed

text \<open>Success is justified: a succeeded workflow has a recorded validation report whose decision
  is acceptance.\<close>

theorem success_is_justified:
  assumes "reachable store_init (store_step L) d"
    and "find_workflow t i d = Some r" and "wf_state r = Succeeded"
  shows "\<exists>report. accepted report
    \<and> find_validation t i d = Some \<lparr>va_workflow_id = i, va_tenant = t, va_report_json = canonical_json L report\<rparr>"
proof -
  have ok: "store_ok L d" using assms(1) by (rule store_machine.reachable_inv)
  obtain report where rep: "accepted report" and vs: "filter (\<lambda>v. va_workflow_id v = i) (workflow_validations d)
      = [\<lparr>va_workflow_id = i, va_tenant = t, va_report_json = canonical_json L report\<rparr>]"
    using row_cluster [OF ok assms(2)] assms(3) find_workflowD [OF assms(2)]
    by (auto simp: cluster_ok_def cluster_def validations_ok_def)
  have "find_validation t i d = List.find (\<lambda>v. va_tenant v = t)
      (filter (\<lambda>v. va_workflow_id v = i) (workflow_validations d))"
    by (simp add: find_validation_def find_filter)
  with rep vs show ?thesis by auto
qed

definition sample_policy :: ValidationPolicy where
  "sample_policy = \<lparr>vp_required_sections = [], vp_require_citations = False, vp_minimum_chars = 1,
     vp_maximum_chars = 100, vp_language = Some ''ascii'', vp_forbidden_phrases = [''no''],
     vp_output_schema = None\<rparr>"

definition sample_accepted :: db where
  "sample_accepted = fst (projr (validate sample_lib ''acme'' ''w1'' (Some sample_policy) sample_done))"

lemma sample_done_row:
  "find_workflow ''acme'' ''w1'' sample_done = Some (sample_row\<lparr>wf_state := AwaitingValidation, wf_fence := 1,
     wf_result := Some (canonical_json sample_lib sample_result), wf_result_artifact_id := Some ''a1''\<rparr>)"
  unfolding commit_resultD(3) [OF completeD(3) [OF sample_complete]]
  by (simp add: find_workflow_def update_where_def sample_defs)

lemma sample_done_tables:
  "workflow_bindings sample_done = []" "workflow_validations sample_done = []"
  "workflow_artifacts sample_done = [\<lparr>wa_id = ''a1'', wa_workflow_id = ''w1'', wa_tenant = ''acme'',
     wa_schema_version = 1, wa_sha256 = sha256_hex sample_lib (canonical_json sample_lib sample_result),
     wa_size_bytes = utf8_len (canonical_json sample_lib sample_result),
     wa_content_json = canonical_json sample_lib sample_result\<rparr>]"
  unfolding commit_resultD(3) [OF completeD(3) [OF sample_complete]]
  by (simp_all add: sample_defs)

lemma sample_snapshot:
  "\<exists>s. policy_snapshot sample_policy = Inr s \<and> validation_policy_from_snapshot s = Inr sample_policy"
  by (simp add: policy_snapshot_def sample_policy_def has_text_def strip_def py_space_def
      validation_policy_from_snapshot_def decode_policy_def policy_json_def decode_simps Let_def
      ValidationPolicy_post_init_def)

lemma sample_findings: "artifact_findings L (output_text sample_result) sample_policy = []"
  by (simp add: artifact_findings_Nil validate_output_Nil sample_result_def output_text_def
      dict_get_def sample_policy_def has_text_def strip_def py_space_def is_ascii_def contains_def
      casefold_def lower_def secret_search_def token_from_def starts_with_def)

lemma sample_validate:
  "\<exists>report. validate sample_lib ''acme'' ''w1'' (Some sample_policy) sample_done = Inr (sample_accepted, report)
     \<and> accepted report"
proof -
  obtain s where s: "policy_snapshot sample_policy = Inr s" "validation_policy_from_snapshot s = Inr sample_policy"
    using sample_snapshot by blast
  have a: "get_artifact sample_lib ''acme'' ''w1'' (Some ''a1'') sample_done = Inr (Some
      \<lparr>sa_ref = artifact_ref sample_lib ''a1'' ''w1'' (canonical_json sample_lib sample_result),
       sa_content_json = canonical_json sample_lib sample_result\<rparr>)"
    using loads_canonicalD [OF sample_lib_laws(1) sample_result_dict(2)]
    by (simp add: get_artifact_def sample_done_tables StoredArtifact_init_def artifact_ref_def)
  have "validate_artifact sample_lib \<lparr>sa_ref = ref, sa_content_json = canonical_json sample_lib sample_result\<rparr> s
      = Inr (report_json ref s [])" for ref
    using s(2) loads_canonicalD [OF sample_lib_laws(1) sample_result_dict(2)]
    by (simp add: validate_artifact_def payload_def sample_findings)
  then show ?thesis
    using s(1) a
    by (simp add: validate_def get_binding_def sample_done_tables bound_snapshot_def sample_done_row
        find_validation_def insert_pk_def sample_accepted_def Let_def)
qed

lemma sample_done_reachable: "reachable store_init (store_step sample_lib) sample_done"
  by (rule reach_step [OF sample_reachable(3) st_complete [OF sample_complete]])

theorem validation_decides_witness:
  "\<exists>r'. find_workflow ''acme'' ''w1'' sample_accepted = Some r' \<and> wf_state r' \<in> {Succeeded, Rejected}"
proof -
  obtain report where "validate sample_lib ''acme'' ''w1'' (Some sample_policy) sample_done
      = Inr (sample_accepted, report)" using sample_validate by blast
  from validation_decides [OF sample_done_reachable sample_lib_laws(1) this sample_done_row _ _
      sample_result_dict(2)]
  show ?thesis by auto
qed

lemma sample_accepted_row:
  "\<exists>r. find_workflow ''acme'' ''w1'' sample_accepted = Some r \<and> wf_state r = Succeeded"
proof -
  obtain report where v: "validate sample_lib ''acme'' ''w1'' (Some sample_policy) sample_done
      = Inr (sample_accepted, report)" "accepted report" using sample_validate by blast
  from v(1) show ?thesis
  proof (elim validateD disjE exE conjE)
    fix r assume e: "sample_accepted = judged sample_lib ''acme'' ''w1'' r report sample_done"
    have "workflows sample_accepted = update_where (wf_is ''acme'' ''w1'')
        (\<lambda>r. r\<lparr>wf_state := Succeeded\<rparr>) (workflows sample_done)"
      unfolding e using v(2) by (simp add: judged_def)
    from find_workflow_update [OF this, of "''acme''" "''w1''"] show ?thesis
      by (simp add: sample_done_row)
  qed (simp add: find_validation_def sample_done_tables)
qed

theorem success_is_justified_witness:
  "\<exists>report. accepted report \<and> find_validation ''acme'' ''w1'' sample_accepted =
     Some \<lparr>va_workflow_id = ''w1'', va_tenant = ''acme'', va_report_json = canonical_json sample_lib report\<rparr>"
proof -
  obtain report where "validate sample_lib ''acme'' ''w1'' (Some sample_policy) sample_done
      = Inr (sample_accepted, report)" using sample_validate by blast
  then have "reachable store_init (store_step sample_lib) sample_accepted"
    by (intro reach_step [OF sample_done_reachable]) (rule st_validate)
  then show ?thesis using success_is_justified sample_accepted_row by blast
qed

section \<open>Startup recovery\<close>

text \<open>Startup recovery: afterwards no running workflow has an expired lease; the report names each
  uncertain or expired workflow once, the reconciled ones with the state they now have, the others
  still uncertain; no other workflow has changed.\<close>

theorem startup_recovery:
  assumes "reachable store_init (store_step L) d"
    and step: "recover_startup L limit clk now uuid d = Inr (d', rep)"
    and now: "utc_now clk now = Inr current"
  shows "(\<forall>r \<in> set (workflows d'). \<not> lease_expired current r)
    \<and> report_ok (recovery_candidates current d) d' rep
    \<and> sr_scanned rep = length (recovery_candidates current d)
    \<and> (\<forall>t i. (t, i) \<notin> wf_ref ` set (recovery_candidates current d)
             \<longrightarrow> find_workflow t i d' = find_workflow t i d)"
proof -
  have ok: "store_ok L d" using assms(1) by (rule store_machine.reachable_inv)
  obtain ok': "store_ok L d'" and rep: "report_ok (recovery_candidates current d) d' rep"
    and n: "sr_scanned rep = length (recovery_candidates current d)"
    and other: "\<And>t i. (t, i) \<notin> wf_ref ` set (recovery_candidates current d) \<Longrightarrow>
           find_workflow t i d' = find_workflow t i d"
    using recover_startup_ok [OF ok step] now by auto
  have "\<forall>r \<in> set (workflows d'). \<not> lease_expired current r"
  proof
    fix r assume r: "r \<in> set (workflows d')"
    then have f': "find_workflow (wf_tenant r) (wf_id r) d' = Some r"
      by (simp add: find_workflow_iff [OF ok'])
    show "\<not> lease_expired current r"
    proof (cases "wf_ref r \<in> wf_ref ` set (recovery_candidates current d)")
      case True
      then have "wf_ref r \<in> report_ref ` set (sr_reconciled rep) \<union> report_ref ` set (sr_unresolved rep)"
        by (simp only: report_ok_refs [OF rep])
      then have "wf_state r \<noteq> Running" using rep f' unfolding report_ok_def by fastforce
      then show ?thesis by (simp add: lease_expired_def)
    next
      case False
      then have "r \<in> set (workflows d)" using other f' find_workflowD by metis
      with False show ?thesis by (auto simp: recovery_candidates_def)
    qed
  qed
  with rep n other show ?thesis by blast
qed

lemma recover_candidates_total:
  assumes "store_ok L d" and "distinct (map wf_ref cands)"
    and "\<forall>c \<in> set cands. \<exists>r. find_workflow (wf_tenant c) (wf_id c) d = Some r \<and> wf_state r = Uncertain"
    and "inj uuid" and "distinct (map wf_id cands)"
    and "\<forall>c \<in> set cands. uuid (wf_id c) \<notin> wa_id ` set (workflow_artifacts d)"
  shows "\<exists>s. foldM (recover_candidate L uuid) cands (d, rep) = Inr s"
  using assms
proof (induction cands arbitrary: d rep)
  case (Cons c cands)
  obtain r where r: "find_workflow (wf_tenant c) (wf_id c) d = Some r" "wf_state r = Uncertain"
    using Cons.prems(3) by auto
  have "\<exists>d1 rep1. recover_candidate L uuid c (d, rep) = Inr (d1, rep1)
      \<and> wa_id ` set (workflow_artifacts d1) \<subseteq> insert (uuid (wf_id c)) (wa_id ` set (workflow_artifacts d))"
    using r(1) Cons.prems(6)
    by (auto simp: recover_candidate_def Let_def commit_result_def insert_pk_fresh split: option.splits)
  then obtain d1 rep1 where 1: "recover_candidate L uuid c (d, rep) = Inr (d1, rep1)"
    and a: "wa_id ` set (workflow_artifacts d1) \<subseteq> insert (uuid (wf_id c)) (wa_id ` set (workflow_artifacts d))"
    by blast
  note S = recover_candidate_ok [OF Cons.prems(1) r 1]
  have nc: "wf_id x \<noteq> wf_id c" if "x \<in> set cands" for x
    using that Cons.prems(5) by (simp, metis imageI)
  have "find_workflow (wf_tenant x) (wf_id x) d1 = find_workflow (wf_tenant x) (wf_id x) d"
    if "x \<in> set cands" for x
    using nc [OF that] S [THEN conjunct2, THEN conjunct2] unfolding candidate_result_def by blast
  moreover have "uuid (wf_id x) \<notin> wa_id ` set (workflow_artifacts d1)" if "x \<in> set cands" for x
  proof -
    have "uuid (wf_id x) \<noteq> uuid (wf_id c)" using nc [OF that] Cons.prems(4) by (auto dest: injD)
    moreover have "uuid (wf_id x) \<notin> wa_id ` set (workflow_artifacts d)" using Cons.prems(6) that by simp
    ultimately show ?thesis using a by blast
  qed
  ultimately show ?case
    using Cons.IH [of d1 rep1] S Cons.prems 1 by simp
qed simp

text \<open>Startup recovery cannot be stopped by what it finds: with a clock, a sufficient scan limit and
  fresh identifiers it returns a report, whatever the journal holds.\<close>

theorem startup_recovery_returns:
  assumes "reachable store_init (store_step L) d"
    and now: "utc_now clk now = Inr current"
    and "1 \<le> limit" and "limit \<le> 100000" and "int (length (recovery_candidates current d)) \<le> limit"
    and "inj uuid" and "range uuid \<inter> wa_id ` set (workflow_artifacts d) = {}"
  shows "\<exists>d' rep. recover_startup L limit clk now uuid d = Inr (d', rep)"
proof -
  have ok: "store_ok L d" using assms(1) by (rule store_machine.reachable_inv)
  let ?cands = "recovery_candidates current d"
  let ?expired = "filter (\<lambda>r. wf_state r = Running) ?cands"
  note C = recovery_candidates_wf [OF ok, of current]
  have e: "distinct ?expired" "\<forall>r \<in> set ?expired. r \<in> set (workflows d) \<and> wf_state r = Running"
    using C by auto
  note F = fold_fence_off [OF ok e]
  have u: "\<exists>r. find_workflow (wf_tenant c) (wf_id c) (fold fence_off ?expired d) = Some r \<and> wf_state r = Uncertain"
    if "c \<in> set ?cands" for c using candidate_uncertain [OF ok that] .
  have ids: "distinct (map wf_id ?cands)"
    unfolding recovery_candidates_def by (rule distinct_map_filter [OF store_okD(1) [OF ok]])
  have "workflow_artifacts (fold fence_off ?expired d) = workflow_artifacts d" using F by blast
  then have "\<forall>c \<in> set ?cands. uuid (wf_id c) \<notin> wa_id ` set (workflow_artifacts (fold fence_off ?expired d))"
    using assms(7) by auto
  then have "\<exists>s. foldM (recover_candidate L uuid) ?cands (fold fence_off ?expired d, rep) = Inr s" for rep
    by (intro recover_candidates_total [OF F [THEN conjunct1] C(1) _ assms(6) ids]) (use u in blast)
  moreover have "take (nat (limit + 1)) ?cands = ?cands" using assms(5) by simp
  ultimately show ?thesis
    using now assms(3-5) by (auto simp: recover_startup_def Let_def)
qed

lemma sample_uncertain_reachable: "reachable store_init (store_step sample_lib) sample_uncertain"
proof (rule sample_steps)
  fix d
  assume A: "begin_dispatch sample_lib ''acme'' ''w1'' ''node-a'' 1 (JObj []) 4 None sample_claimed = Inr (d, ())"
    "record_outcome sample_lib ''acme'' ''w1'' ''node-a'' 1 sample_result True 5 None d = Inr (sample_recorded, ())"
    "recover_expired ''acme'' 40000000 None sample_recorded = Inr (sample_uncertain, 1)"
  show ?thesis
    by (rule reach_step [OF reach_step [OF reach_step [OF sample_reachable(3) st_dispatch [OF A(1)]]
          st_outcome [OF A(2)]] st_expired [OF A(3)]])
qed

lemma sample_uncertain_tables: "workflow_artifacts sample_uncertain = []"
  "length (recovery_candidates t sample_uncertain) \<le> 1"
proof -
  show "workflow_artifacts sample_uncertain = []" by (rule sample_steps)
  have "length (workflows sample_uncertain) = 1"
    by (simp add: sample_uncertain_def sample_recorded_def begin_dispatch_def record_outcome_def
      require_lease_def find_workflow_def find_dispatch_def update_where_def Let_def
      recover_expired_def lease_expired_def fence_off_def sample_defs)
  then show "length (recovery_candidates t sample_uncertain) \<le> 1"
    by (metis length_filter_le recovery_candidates_def)
qed

theorem startup_recovery_returns_witness:
  "\<exists>d' rep. recover_startup sample_lib 10 50000000 None (\<lambda>i. ''a-'' @ i) sample_uncertain = Inr (d', rep)"
  by (rule startup_recovery_returns [OF sample_uncertain_reachable])
     (use sample_uncertain_tables(1) sample_uncertain_tables(2) [of 50000000] in \<open>auto simp: inj_def\<close>)

theorem startup_recovery_witness:
  "\<exists>d' rep. recover_startup sample_lib 10 50000000 None (\<lambda>i. ''a-'' @ i) sample_uncertain = Inr (d', rep)
     \<and> (\<forall>r \<in> set (workflows d'). \<not> lease_expired 50000000 r)"
proof -
  have "\<exists>d' rep. recover_startup sample_lib 10 50000000 None (\<lambda>i. ''a-'' @ i) sample_uncertain = Inr (d', rep)"
    by (auto simp: recover_startup_def Let_def sample_uncertain_def sample_recorded_def begin_dispatch_def
      record_outcome_def require_lease_def find_workflow_def find_dispatch_def update_where_def
      recover_expired_def lease_expired_def fence_off_def sample_defs recovery_candidates_def
      recover_candidate_def int_of_bool_def commit_result_def insert_pk_def)
  then show ?thesis using startup_recovery [OF sample_uncertain_reachable] utc_now_None by blast
qed

section \<open>Isolation and the journal\<close>

text \<open>At most one dispatch per workflow: once intent is journalled, every later attempt to journal
  another dispatch of the workflow is refused.\<close>

theorem dispatched_once:
  assumes "begin_dispatch L t i owner n budget clk now d = Inr (d1, ())"
    and "(store_step L)\<^sup>*\<^sup>* d1 d2"
  shows "\<exists>e. begin_dispatch L t' i owner' n' budget' clk' now' d2 = Inl e"
proof -
  have "i \<in> set (map di_workflow_id (workflow_dispatches d1))"
    unfolding begin_dispatchD(3) [OF assms(1)] by simp
  then have "i \<in> set (map di_workflow_id (workflow_dispatches d2))"
    using set_mono_prefix run_grows [OF assms(2)] unfolding grows_def by blast
  then have "list_ex (\<lambda>j. di_workflow_id j = i) (workflow_dispatches d2)" by (auto simp: list_ex_iff)
  then show ?thesis
    by (cases "require_lease t' i owner' n' clk' now' d2") (simp_all add: begin_dispatch_def)
qed

theorem dispatched_once_witness:
  "\<exists>d e. begin_dispatch sample_lib ''acme'' ''w1'' ''node-a'' 1 (JObj []) 4 None sample_claimed = Inr (d, ())
     \<and> begin_dispatch sample_lib ''acme'' ''w1'' ''node-a'' 1 (JObj []) 4 None d = Inl e"
proof (rule sample_steps)
  fix d
  assume A: "begin_dispatch sample_lib ''acme'' ''w1'' ''node-a'' 1 (JObj []) 4 None sample_claimed = Inr (d, ())"
  with dispatched_once [OF A rtranclp.rtrancl_refl] show ?thesis by blast
qed

text \<open>The operations called for one tenant.\<close>

inductive tenant_step :: "pylib \<Rightarrow> string \<Rightarrow> db \<Rightarrow> db \<Rightarrow> bool" for L t where
  tn_create: "create L t key packet binding uuid d = Inr (d', i) \<Longrightarrow> tenant_step L t d d'"
| tn_claim: "claim L t i owner secs clk now d = Inr (d', n) \<Longrightarrow> tenant_step L t d d'"
| tn_dispatch: "begin_dispatch L t i owner n budget clk now d = Inr (d', ()) \<Longrightarrow> tenant_step L t d d'"
| tn_outcome: "record_outcome L t i owner n result ok clk now d = Inr (d', ()) \<Longrightarrow> tenant_step L t d d'"
| tn_complete: "complete L t i owner n result ok clk now uuid d = Inr (d', a) \<Longrightarrow> tenant_step L t d d'"
| tn_validate: "validate L t i policy d = Inr (d', report) \<Longrightarrow> tenant_step L t d d'"
| tn_cancel: "cancel t i d = Inr (d', b) \<Longrightarrow> tenant_step L t d d'"
| tn_reconcile: "reconcile_uncertain L t i uuid d = Inr (d', s) \<Longrightarrow> tenant_step L t d d'"
| tn_expired: "recover_expired t clk now d = Inr (d', k) \<Longrightarrow> tenant_step L t d d'"

definition tenant_rows :: "string \<Rightarrow> db \<Rightarrow> workflow_row list" where
  "tenant_rows t d = filter (\<lambda>r. wf_tenant r = t) (workflows d)"

lemma tenant_rows_update:
  assumes "u \<noteq> t" and "\<And>r. wf_tenant (f r) = wf_tenant r"
  shows "filter (\<lambda>r. wf_tenant r = u) (update_where (wf_is t i) f rows) = filter (\<lambda>r. wf_tenant r = u) rows"
  by (rule filter_update_where_other) (use assms in \<open>auto simp: wf_is_def\<close>)

lemma commit_result_isolated:
  "commit_result L t i n encoded ok uuid d = Inr (d', a) \<Longrightarrow> u \<noteq> t \<Longrightarrow> tenant_rows u d' = tenant_rows u d"
  by (drule commit_resultD(3)) (simp add: tenant_rows_def tenant_rows_update)

lemma fence_off_isolated: "wf_tenant r \<noteq> u \<Longrightarrow> tenant_rows u (fence_off r d) = tenant_rows u d"
  by (simp add: tenant_rows_def fence_off_def Let_def tenant_rows_update)

lemma fold_fence_off_isolated:
  "(\<forall>r \<in> set rows. wf_tenant r \<noteq> u) \<Longrightarrow> tenant_rows u (fold fence_off rows d) = tenant_rows u d"
  by (induction rows arbitrary: d) (simp_all add: fence_off_isolated)

text \<open>Tenant isolation: an operation called for one tenant leaves the workflows of every other
  tenant as they are.\<close>

theorem tenants_are_isolated:
  assumes "tenant_step L t d d'" and "u \<noteq> t"
  shows "tenant_rows u d' = tenant_rows u d"
  using assms(1)
proof cases
  case (tn_create key packet binding uuid i)
  then show ?thesis using assms(2) by (cases rule: createD) (simp_all add: tenant_rows_def)
next
  case (tn_claim i owner secs clk now n)
  then show ?thesis
    by (elim claimD) (simp add: tenant_rows_def tenant_rows_update [OF assms(2)])
next
  case (tn_dispatch i owner n budget clk now)
  from begin_dispatchD(3) [OF this] show ?thesis by (simp add: tenant_rows_def)
next
  case (tn_outcome i owner n result ok clk now)
  then show ?thesis by (elim record_outcomeD disjE conjE) (simp_all add: tenant_rows_def)
next
  case (tn_complete i owner n result ok clk now uuid a)
  from commit_result_isolated [OF completeD(3) [OF this] assms(2)] show ?thesis .
next
  case (tn_validate i policy report)
  then show ?thesis
    by (elim validateD disjE exE conjE)
       (simp_all add: judged_def Let_def tenant_rows_def tenant_rows_update [OF assms(2)])
next
  case (tn_cancel i b)
  from cancelD [OF this] show ?thesis
    by (elim disjE exE conjE) (simp_all add: tenant_rows_def tenant_rows_update [OF assms(2)])
next
  case (tn_reconcile i uuid s)
  then show ?thesis
    by (cases rule: reconcile_uncertainD) (auto dest: commit_result_isolated [OF _ assms(2)])
next
  case (tn_expired clk now k)
  then show ?thesis
    using assms(2)
    by (auto simp: recover_expired_def bind_r_eq_Inr Let_def intro!: fold_fence_off_isolated)
qed

theorem tenants_are_isolated_witness:
  "tenant_rows ''other'' sample_cancelled = tenant_rows ''other'' sample_claimed"
  by (rule tenants_are_isolated [OF tn_cancel [OF sample_cancel, of sample_lib]]) simp

end
