(* ===== verification/PacketTheorems.thy ===== *)
theory PacketTheorems
  imports StoreSchema Samples
begin

text \<open>
  Packets on the wire: what is decoded is well typed and canonical, and what is encoded reads back.
\<close>

lemma dec_message_ok: "dec_message v = Some m \<Longrightarrow> ChatMessage_post_init m = Inr ()"
  by (auto simp: dec_message_def bind_eq_Some_conv Let_def split: if_splits)

lemma dec_all_ok: "dec_all f vs = Some xs \<Longrightarrow> (\<And>v x. f v = Some x \<Longrightarrow> P x) \<Longrightarrow> list_all P xs"
  by (induction vs arbitrary: xs) (auto simp: bind_eq_Some_conv)

lemma kw_dec:
  "kw ms k None f = Some x \<Longrightarrow> \<exists>v. f v = Some x"
  by (auto simp: kw_def split: option.splits)

lemma dec_input_ok: "dec_input v = Some i \<Longrightarrow> input_ok i"
proof -
  assume d: "dec_input v = Some i"
  have ms: "list_all (\<lambda>m. ChatMessage_post_init m = Inr ()) ms" if "dec_messages w = Some ms" for w ms
    using that dec_all_ok [OF _ dec_message_ok] by (cases w) auto
  show ?thesis
    using d by (auto simp: dec_input_def bind_eq_Some_conv split: if_splits dest!: kw_dec ms)
qed

lemma dec_parts_ok:
  "dec_generation v = Some g \<Longrightarrow> GenerationConfig_post_init g = Inr ()"
  "dec_requirements v = Some r \<Longrightarrow> RoutingRequirements_post_init r = Inr ()"
  "dec_trace v = Some t \<Longrightarrow> TraceContext_post_init t = Inr ()"
  by (auto simp: dec_generation_def dec_requirements_def dec_trace_def bind_eq_Some_conv Let_def split: if_splits)

lemma dec_task_ok: "dec_task L v = Some t \<Longrightarrow> task_ok t"
  by (auto simp: dec_task_def bind_eq_Some_conv Let_def task_ok_def dec_parts_ok
      split: if_splits dest!: kw_dec dec_input_ok dec_parts_ok)

text \<open>C38. Decoding is well typed: a packet \<open>TaskPacket.from_dict\<close> accepts passes the checks of every constructor it
  is built from, and its own encoding is the canonical text of what was read, so nothing was coerced,
  defaulted or dropped on the way.\<close>

theorem packet_decoding_typed:
  assumes "from_dict L v = Inr p"
  shows "packet_ok p \<and> canonical_json L (to_dict L p) = canonical_json L v"
  using assms
  by (auto simp: from_dict_def Let_def bind_eq_Some_conv packet_ok_def
      split: option.splits if_splits dest!: kw_dec dec_task_ok)

theorem packet_decoding_typed_witness: "packet_ok sample_packet"
  using packet_decoding_typed [OF sample_digest] by blast

text \<open>C39. Round trip: the canonical text of a packet parses and decodes to the packet itself.\<close>

theorem packet_roundtrip:
  assumes "iso_roundtrip L" and "loads_canonical L" and "packet_ok p" and "floats_ok L (to_dict L p)"
  shows "bind_r (decode L (canonical_json L (to_dict L p))) (from_dict L) = Inr p"
proof -
  have "sort_keys (to_dict L p) = to_dict L p" by (simp add: to_dict_def)
  then have "decode L (canonical_json L (to_dict L p)) = Inr (to_dict L p)"
    using assms(2,4) by (simp add: decode_def loads_canonical_def)
  then show ?thesis using from_dict_to_dict [OF assms(1,3)] by simp
qed

theorem packet_roundtrip_witness:
  "bind_r (decode sample_lib (canonical_json sample_lib (to_dict sample_lib sample_packet))) (from_dict sample_lib)
     = Inr sample_packet"
  by (rule packet_roundtrip) (simp_all add: sample_packet_floats)

end
