(* ===== verification/Capabilities.thy ===== *)
theory Capabilities
  imports Contracts
begin

text \<open>
  Capability claims and the eligibility of a deployment for a task
  (\<open>src/backend/inference/capabilities.py\<close>). The wall clock is read once for each requirement that
  is checked; the parameter \<open>clk\<close> gives the reading made for a requirement.
\<close>

section \<open>Claims\<close>

datatype EvidenceSource = DECLARED | CONFIGURED | DISCOVERED | MEASURED

datatype TaskKind = TEXT | CHAT

datatype RejectionReason = UNKNOWN | UNSUPPORTED | MISMATCHED | INSUFFICIENT

record 'a CapabilityClaim =
  cc_value :: 'a
  cc_source :: EvidenceSource
  cc_scope :: string
  cc_runtime_version :: "string option"
  cc_observed_at :: "datetime option"
  cc_expires_at :: "datetime option"
  cc_confidence :: rat

definition CapabilityClaim_post_init :: "'a CapabilityClaim \<Rightarrow> exn + unit" where
  "CapabilityClaim_post_init c =
     bind_r (require (strip (cc_scope c) \<noteq> [])
       (ValueError ''Capability claim scope must not be blank.'')) (\<lambda>_.
     bind_r (require (0 \<le> cc_confidence c \<and> cc_confidence c \<le> 1)
       (ValueError ''Capability confidence must be between 0 and 1.'')) (\<lambda>_.
     bind_r (each (\<lambda>timestamp. require (case timestamp of None \<Rightarrow> True | Some t \<Rightarrow> is_aware t)
         (ValueError ''Capability timestamps must include timezone information.''))
       [cc_observed_at c, cc_expires_at c]) (\<lambda>_.
     require (\<not> (case (cc_observed_at c, cc_expires_at c) of
                   (Some ob, Some ex) \<Rightarrow> instant_of ex < instant_of ob | _ \<Rightarrow> False))
       (ValueError ''Capability expiry cannot precede observation.''))))"

record DeploymentCapabilities =
  dc_task_kinds :: "TaskKind set CapabilityClaim option"
  dc_served_models :: "string set CapabilityClaim option"
  dc_max_context_tokens :: "int CapabilityClaim option"
  dc_structured_output :: "bool CapabilityClaim option"
  dc_streaming :: "bool CapabilityClaim option"
  dc_accelerators :: "string set CapabilityClaim option"
  dc_topologies :: "string set CapabilityClaim option"
  dc_data_locations :: "string set CapabilityClaim option"
  dc_production_eligible :: "bool CapabilityClaim option"

definition DeploymentCapabilities_default :: DeploymentCapabilities where
  "DeploymentCapabilities_default = \<lparr>dc_task_kinds = None, dc_served_models = None,
     dc_max_context_tokens = None, dc_structured_output = None, dc_streaming = None,
     dc_accelerators = None, dc_topologies = None, dc_data_locations = None,
     dc_production_eligible = None\<rparr>"

record ConstraintRejection =
  rj_code :: string
  rj_requirement :: string
  rj_reason :: RejectionReason

record EligibilityDecision =
  ed_eligible :: bool
  ed_rejections :: "ConstraintRejection list"

definition configured_claim :: "'a \<Rightarrow> string \<Rightarrow> string option \<Rightarrow> exn + 'a CapabilityClaim" where
  "configured_claim value scope version =
     (let c = \<lparr>cc_value = value, cc_source = CONFIGURED, cc_scope = scope,
               cc_runtime_version = version, cc_observed_at = None, cc_expires_at = None,
               cc_confidence = 1\<rparr> in
      bind_r (CapabilityClaim_post_init c) (\<lambda>_. Inr c))"

section \<open>Eligibility\<close>

type_synonym requirement_clock = "string \<Rightarrow> instant"

definition current :: "instant \<Rightarrow> 'a CapabilityClaim option \<Rightarrow> bool" where
  "current now claim = (case claim of
     None \<Rightarrow> False
   | Some c \<Rightarrow> (case cc_expires_at c of None \<Rightarrow> True | Some ex \<Rightarrow> instant_of ex > now))"

definition unknown :: "ConstraintRejection list \<Rightarrow> string \<Rightarrow> ConstraintRejection list" where
  "unknown rejections requirement = rejections @
     [\<lparr>rj_code = ''unknown_'' @ requirement, rj_requirement = requirement, rj_reason = UNKNOWN\<rparr>]"

definition require_member ::
    "requirement_clock \<Rightarrow> ConstraintRejection list \<Rightarrow> string \<Rightarrow> 'a \<Rightarrow> 'a set CapabilityClaim option \<Rightarrow> bool \<Rightarrow>
       ConstraintRejection list" where
  "require_member clk rejections requirement required claim mismatch =
     (if \<not> current (clk requirement) claim then unknown rejections requirement
      else case claim of
        None \<Rightarrow> rejections
      | Some c \<Rightarrow>
          if required \<notin> cc_value c \<and> mismatch then rejections @
            [\<lparr>rj_code = ''mismatched_'' @ requirement, rj_requirement = requirement, rj_reason = MISMATCHED\<rparr>]
          else if required \<notin> cc_value c then rejections @
            [\<lparr>rj_code = ''unsupported_'' @ requirement, rj_requirement = requirement, rj_reason = UNSUPPORTED\<rparr>]
          else rejections)"

definition require_bool ::
    "requirement_clock \<Rightarrow> ConstraintRejection list \<Rightarrow> string \<Rightarrow> bool \<Rightarrow> bool CapabilityClaim option \<Rightarrow>
       ConstraintRejection list" where
  "require_bool clk rejections requirement required claim =
     (if \<not> required then rejections
      else if \<not> current (clk requirement) claim then unknown rejections requirement
      else case claim of
        None \<Rightarrow> rejections
      | Some c \<Rightarrow>
          if \<not> cc_value c then rejections @
            [\<lparr>rj_code = ''unsupported_'' @ requirement, rj_requirement = requirement, rj_reason = UNSUPPORTED\<rparr>]
          else rejections)"

definition require_context ::
    "requirement_clock \<Rightarrow> ConstraintRejection list \<Rightarrow> int \<Rightarrow> int CapabilityClaim option \<Rightarrow> ConstraintRejection list" where
  "require_context clk rejections required claim =
     (case claim of
        None \<Rightarrow> unknown rejections ''context_capacity''
      | Some c \<Rightarrow>
          if \<not> current (clk ''context_capacity'') claim then unknown rejections ''context_capacity''
          else if cc_value c < required then rejections @
            [\<lparr>rj_code = ''insufficient_context_capacity'', rj_requirement = ''context_capacity'',
              rj_reason = INSUFFICIENT\<rparr>]
          else rejections)"

definition task_kind :: "InferenceTask \<Rightarrow> TaskKind" where
  "task_kind t = (case it_input t of TextInput _ \<Rightarrow> TEXT | ChatInput _ \<Rightarrow> CHAT)"

definition require_optional_member ::
    "requirement_clock \<Rightarrow> string \<times> 'a option \<times> 'a set CapabilityClaim option \<Rightarrow>
       ConstraintRejection list \<Rightarrow> ConstraintRejection list" where
  "require_optional_member clk item rejections =
     (case item of (name, required, set_claim) \<Rightarrow>
        (case required of None \<Rightarrow> rejections
         | Some r \<Rightarrow> require_member clk rejections name r set_claim False))"

definition evaluate_capabilities ::
    "requirement_clock \<Rightarrow> InferenceTask \<Rightarrow> DeploymentCapabilities \<Rightarrow> EligibilityDecision" where
  "evaluate_capabilities clk task caps =
     (let r = it_requirements task;
          r1 = require_member clk [] ''task_kind'' (task_kind task) (dc_task_kinds caps) False;
          r2 = (case required_model r of None \<Rightarrow> r1
                | Some model \<Rightarrow> require_member clk r1 ''served_model'' model (dc_served_models caps) True);
          r3 = (case required_context_tokens r of None \<Rightarrow> r2
                | Some n \<Rightarrow> require_context clk r2 n (dc_max_context_tokens caps));
          r4 = require_bool clk r3 ''structured_output'' (requires_structured_output r) (dc_structured_output caps);
          r5 = require_bool clk r4 ''streaming'' (requires_streaming r) (dc_streaming caps);
          r6 = fold (require_optional_member clk)
                 [(''accelerator'', required_accelerator r, dc_accelerators caps),
                  (''topology'', required_topology r, dc_topologies caps),
                  (''data_location'', required_data_location r, dc_data_locations caps)] r5;
          r7 = require_bool clk r6 ''production_eligible'' (production_only r) (dc_production_eligible caps)
      in \<lparr>ed_eligible = (r7 = []), ed_rejections = r7\<rparr>)"

section \<open>What eligible means\<close>

text \<open>The requirement a claim meets: it is there, has not expired, and its value is as wanted.\<close>

definition claimed :: "instant \<Rightarrow> ('a \<Rightarrow> bool) \<Rightarrow> 'a CapabilityClaim option \<Rightarrow> bool" where
  "claimed now P claim \<longleftrightarrow> (\<exists>c. claim = Some c \<and> P (cc_value c)
     \<and> (\<forall>ex. cc_expires_at c = Some ex \<longrightarrow> now < instant_of ex))"

definition meets :: "requirement_clock \<Rightarrow> InferenceTask \<Rightarrow> DeploymentCapabilities \<Rightarrow> bool" where
  "meets clk task caps \<longleftrightarrow> (let r = it_requirements task in
     claimed (clk ''task_kind'') (\<lambda>kinds. task_kind task \<in> kinds) (dc_task_kinds caps)
     \<and> (\<forall>m. required_model r = Some m \<longrightarrow> claimed (clk ''served_model'') (\<lambda>ms. m \<in> ms) (dc_served_models caps))
     \<and> (\<forall>n. required_context_tokens r = Some n \<longrightarrow>
          claimed (clk ''context_capacity'') (\<lambda>size. n \<le> size) (dc_max_context_tokens caps))
     \<and> (requires_structured_output r \<longrightarrow> claimed (clk ''structured_output'') id (dc_structured_output caps))
     \<and> (requires_streaming r \<longrightarrow> claimed (clk ''streaming'') id (dc_streaming caps))
     \<and> (\<forall>a. required_accelerator r = Some a \<longrightarrow> claimed (clk ''accelerator'') (\<lambda>s. a \<in> s) (dc_accelerators caps))
     \<and> (\<forall>a. required_topology r = Some a \<longrightarrow> claimed (clk ''topology'') (\<lambda>s. a \<in> s) (dc_topologies caps))
     \<and> (\<forall>a. required_data_location r = Some a \<longrightarrow> claimed (clk ''data_location'') (\<lambda>s. a \<in> s) (dc_data_locations caps))
     \<and> (production_only r \<longrightarrow> claimed (clk ''production_eligible'') id (dc_production_eligible caps)))"

lemma current_iff: "current now claim \<longleftrightarrow> claimed now (\<lambda>_. True) claim"
  by (auto simp: current_def claimed_def split: option.splits)

lemma unknown_ne [simp]: "unknown rs n \<noteq> []"
  by (simp add: unknown_def)

lemma require_member_Nil [simp]:
  "require_member clk rs n x claim m = [] \<longleftrightarrow> rs = [] \<and> claimed (clk n) (\<lambda>s. x \<in> s) claim"
  by (auto simp: require_member_def current_def claimed_def split: option.splits)

lemma require_bool_Nil [simp]:
  "require_bool clk rs n b claim = [] \<longleftrightarrow> rs = [] \<and> (b \<longrightarrow> claimed (clk n) id claim)"
  by (auto simp: require_bool_def current_def claimed_def split: option.splits)

lemma require_context_Nil [simp]:
  "require_context clk rs n claim = [] \<longleftrightarrow> rs = [] \<and> claimed (clk ''context_capacity'') (\<lambda>size. n \<le> size) claim"
  by (auto simp: require_context_def current_def claimed_def split: option.splits)

lemma require_optional_member_Nil [simp]:
  "require_optional_member clk (n, x, claim) rs = [] \<longleftrightarrow>
     rs = [] \<and> (\<forall>a. x = Some a \<longrightarrow> claimed (clk n) (\<lambda>s. a \<in> s) claim)"
  by (auto simp: require_optional_member_def split: option.splits)

lemma eligible_meets: "ed_eligible (evaluate_capabilities clk task caps) \<longleftrightarrow> meets clk task caps"
  by (auto simp: evaluate_capabilities_def meets_def Let_def split: option.splits)

end
