(* ===== verification/Policy.thy ===== *)
theory Policy
  imports Capabilities "HOL-Library.Multiset" "HOL-Library.Product_Lexorder"
begin

text \<open>
  The deterministic routing policy (\<open>src/backend/inference/policy.py\<close>): a score per candidate, its
  components in the order of the source, and the ranking by total and registration index. Floats are
  rationals: the only one is the recent failure rate, a quotient of at most twenty attempts, on which
  \<open>round(20 * (1 - rate))\<close> agrees with the exact value.
\<close>

section \<open>Scores\<close>

definition POLICY_VERSION :: string where
  "POLICY_VERSION = ''ryuk-deterministic-v1''"

datatype CostClass = COST_UNKNOWN | COST_HIGH | COST_MEDIUM | COST_LOW

datatype LatencyClass = LATENCY_UNKNOWN | LATENCY_HIGH | LATENCY_MEDIUM | LATENCY_LOW

record RoutingPolicyProfile =
  pp_cost_class :: CostClass
  pp_latency_class :: LatencyClass
  pp_text_suitability :: int
  pp_chat_suitability :: int

definition RoutingPolicyProfile_post_init :: "RoutingPolicyProfile \<Rightarrow> exn + unit" where
  "RoutingPolicyProfile_post_init p =
     each (\<lambda>value. require (-10 \<le> value \<and> value \<le> 10)
       (ValueError ''Suitability must be between -10 and 10.''))
     [pp_text_suitability p, pp_chat_suitability p]"

record PolicyRuntime =
  pr_routable :: bool
  pr_fresh :: bool
  pr_recent_failure_rate :: "rat option"
  pr_capacity_available :: bool

record PolicyCandidate =
  pc_deployment_id :: string
  pc_engine_name :: string
  pc_registration_index :: int
  pc_capabilities :: DeploymentCapabilities
  pc_profile :: RoutingPolicyProfile
  pc_runtime :: "PolicyRuntime option"

definition context_score :: "InferenceTask \<Rightarrow> DeploymentCapabilities \<Rightarrow> int" where
  "context_score task caps =
     (case (required_context_tokens (it_requirements task), dc_max_context_tokens caps) of
        (Some required, Some claim) \<Rightarrow> if cc_value claim \<ge> required * 2 then 10 else 5
      | _ \<Rightarrow> 0)"

fun cost_score :: "CostClass \<Rightarrow> int" where
  "cost_score COST_LOW = 10"
| "cost_score COST_MEDIUM = 5"
| "cost_score _ = 0"

fun latency_score :: "LatencyClass \<Rightarrow> int" where
  "latency_score LATENCY_LOW = 10"
| "latency_score LATENCY_MEDIUM = 5"
| "latency_score _ = 0"

definition preferred_score :: "PolicyCandidate \<Rightarrow> string option \<Rightarrow> int" where
  "preferred_score candidate preferred_engine =
     (case preferred_engine of None \<Rightarrow> 0
      | Some e \<Rightarrow> if lower (pc_engine_name candidate) = lower e then 100 else 0)"

definition reliability_score :: "PolicyRuntime option \<Rightarrow> int" where
  "reliability_score runtime =
     (case runtime of None \<Rightarrow> 0
      | Some r \<Rightarrow> (case pr_recent_failure_rate r of None \<Rightarrow> 0 | Some rate \<Rightarrow> py_round (20 * (1 - rate))))"

definition flag_score :: "int \<Rightarrow> (PolicyRuntime \<Rightarrow> bool) \<Rightarrow> PolicyRuntime option \<Rightarrow> int" where
  "flag_score points flag runtime = (case runtime of None \<Rightarrow> 0 | Some r \<Rightarrow> if flag r then points else 0)"

definition score_components :: "InferenceTask \<Rightarrow> PolicyCandidate \<Rightarrow> string option \<Rightarrow> (string \<times> int) list" where
  "score_components task candidate preferred_engine =
     [(''preference'', preferred_score candidate preferred_engine),
      (''readiness'', flag_score 20 pr_routable (pc_runtime candidate)),
      (''freshness'', flag_score 5 pr_fresh (pc_runtime candidate)),
      (''reliability'', reliability_score (pc_runtime candidate)),
      (''capacity'', flag_score 10 pr_capacity_available (pc_runtime candidate)),
      (''context_headroom'', context_score task (pc_capabilities candidate)),
      (''cost'', cost_score (pp_cost_class (pc_profile candidate))),
      (''latency'', latency_score (pp_latency_class (pc_profile candidate))),
      (''task_suitability'',
         if task_kind task = TEXT then pp_text_suitability (pc_profile candidate)
         else pp_chat_suitability (pc_profile candidate))]"

definition score :: "InferenceTask \<Rightarrow> string option \<Rightarrow> PolicyCandidate \<Rightarrow> RoutingScore" where
  "score task preferred_engine candidate =
     (let components = score_components task candidate preferred_engine in
      \<lparr>rs_deployment_id = pc_deployment_id candidate, rs_total = sum_list (map snd components),
       rs_components = components,
       rs_explanation = map (\<lambda>(name, value). name @ ''='' @ string_of_int value) components\<rparr>)"

text \<open>The dictionary \<open>by_id\<close> keeps the last candidate of an identifier.\<close>

definition candidate_index :: "PolicyCandidate list \<Rightarrow> string \<Rightarrow> int" where
  "candidate_index candidates i =
     (case map_of (map (\<lambda>c. (pc_deployment_id c, pc_registration_index c)) (rev candidates)) i of
        None \<Rightarrow> 0 | Some n \<Rightarrow> n)"

definition rank_candidates :: "InferenceTask \<Rightarrow> PolicyCandidate list \<Rightarrow> string option \<Rightarrow> RoutingDecision" where
  "rank_candidates task candidates preferred_engine =
     (let scored = sort_key (\<lambda>s. (- rs_total s, candidate_index candidates (rs_deployment_id s)))
                     (map (score task preferred_engine) candidates) in
      \<lparr>rd_policy_version = POLICY_VERSION,
       rd_ordered_deployment_ids = map rs_deployment_id scored, rd_candidates = scored\<rparr>)"

section \<open>Properties of the ranking\<close>

lemma score_id [simp]: "rs_deployment_id (score task p c) = pc_deployment_id c"
  by (simp add: score_def Let_def)

lemma candidate_index_eq:
  assumes "distinct (map pc_deployment_id cs)" and "c \<in> set cs"
  shows "candidate_index cs (pc_deployment_id c) = pc_registration_index c"
proof -
  have "map_of (map (\<lambda>c. (pc_deployment_id c, pc_registration_index c)) (rev cs)) (pc_deployment_id c)
      = Some (pc_registration_index c)"
    using assms by (intro map_of_is_SomeI) (auto simp: comp_def rev_map [symmetric])
  then show ?thesis by (simp add: candidate_index_def)
qed

definition rank_key :: "InferenceTask \<Rightarrow> string option \<Rightarrow> PolicyCandidate \<Rightarrow> int \<times> int" where
  "rank_key task p c = (- rs_total (score task p c), pc_registration_index c)"

lemma sort_key_map: "sort_key k (map f xs) = map f (sort_key (k \<circ> f) xs)"
proof -
  have "insort_key k (f x) (map f ys) = map f (insort_key (k \<circ> f) x ys)" for x ys
    by (induction ys) auto
  then show ?thesis by (induction xs) auto
qed

lemma sort_key_cong: "(\<And>x. x \<in> set xs \<Longrightarrow> k x = k' x) \<Longrightarrow> sort_key k xs = sort_key k' xs"
proof (induction xs)
  case (Cons x xs)
  have "insort_key k x ys = insort_key k' x ys" if "set ys \<subseteq> set xs" for ys
    using that Cons.prems by (induction ys) auto
  then show ?case using Cons by simp
qed simp

lemma rank_candidates_sorted:
  assumes "distinct (map pc_deployment_id cs)"
  shows "rd_candidates (rank_candidates task cs p) = map (score task p) (sort_key (rank_key task p) cs)"
proof -
  have "sort_key ((\<lambda>s. (- rs_total s, candidate_index cs (rs_deployment_id s))) \<circ> score task p) cs
      = sort_key (rank_key task p) cs"
    by (rule sort_key_cong) (simp add: rank_key_def candidate_index_eq [OF assms])
  then show ?thesis by (simp add: rank_candidates_def Let_def sort_key_map)
qed

lemma rank_ids:
  "rd_ordered_deployment_ids (rank_candidates task cs p) = map rs_deployment_id (rd_candidates (rank_candidates task cs p))"
  by (simp add: rank_candidates_def Let_def)

lemma sort_key_unique:
  assumes "mset xs = mset ys" and "inj_on k (set xs)"
  shows "sort_key k ys = sort_key k xs"
proof (rule properties_for_sort_key)
  show "mset (sort_key k xs) = mset ys" using assms(1) by simp
  show "sorted (map k (sort_key k xs))" by simp
  fix x assume x: "x \<in> set (sort_key k xs)"
  have "filter (\<lambda>y. k x = k y) zs = replicate (count (mset zs) x) x"
    if "set zs \<subseteq> set xs" "x \<in> set xs" for zs
    using that assms(2) by (induction zs) (auto simp: inj_on_def)
  note R = this
  have set: "set xs = set ys" using assms(1) by (rule mset_eq_setD)
  show "filter (\<lambda>y. k x = k y) (sort_key k xs) = filter (\<lambda>y. k x = k y) ys"
    using R [of "sort_key k xs"] R [of ys] x set assms(1) by simp
qed

lemma rank_candidates_perm:
  assumes "distinct (map pc_deployment_id cs)" and "inj_on pc_registration_index (set cs)" and "mset cs' = mset cs"
  shows "rank_candidates task cs' p = rank_candidates task cs p"
proof -
  have d': "distinct (map pc_deployment_id cs')"
    using assms(1,3) by (metis mset_eq_imp_distinct_iff mset_map)
  have "inj_on (rank_key task p) (set cs)" using assms(2) by (auto simp: inj_on_def rank_key_def)
  from sort_key_unique [OF assms(3) [symmetric] this]
  have "rd_candidates (rank_candidates task cs' p) = rd_candidates (rank_candidates task cs p)"
    using rank_candidates_sorted [OF assms(1), of task p] rank_candidates_sorted [OF d', of task p] by simp
  then show ?thesis by (simp add: rank_candidates_def Let_def)
qed

lemma runtime_score_bounds:
  assumes "RoutingPolicyProfile_post_init (pc_profile c) = Inr ()"
    and "\<forall>r rate. pc_runtime c = Some r \<and> pr_recent_failure_rate r = Some rate \<longrightarrow> 0 \<le> rate \<and> rate \<le> 1"
  shows "preferred_score c p - 10 \<le> rs_total (score task p c) \<and> rs_total (score task p c) \<le> preferred_score c p + 95"
    and "pc_runtime c = None \<Longrightarrow> rs_total (score task p c) \<le> preferred_score c p + 40"
proof -
  have rel: "0 \<le> reliability_score (pc_runtime c) \<and> reliability_score (pc_runtime c) \<le> 20"
  proof (cases "\<exists>r rate. pc_runtime c = Some r \<and> pr_recent_failure_rate r = Some rate")
    case True
    then obtain r rate where r: "pc_runtime c = Some r" "pr_recent_failure_rate r = Some rate" by blast
    have "0 \<le> rate" "rate \<le> 1" using assms(2) r by auto
    then have "of_int 0 \<le> 20 * (1 - rate)" "20 * (1 - rate) \<le> of_int 20" by simp_all
    from py_round_in [OF this] show ?thesis by (simp add: reliability_score_def r)
  next
    case False
    then show ?thesis by (auto simp: reliability_score_def split: option.splits)
  qed
  have cost: "0 \<le> cost_score x \<and> cost_score x \<le> 10" for x by (cases x) auto
  have lat: "0 \<le> latency_score x \<and> latency_score x \<le> 10" for x by (cases x) auto
  have ctx: "0 \<le> context_score task x \<and> context_score task x \<le> 10" for x
    by (simp add: context_score_def split: option.splits)
  have flag: "0 \<le> flag_score n P x \<and> flag_score n P x \<le> n" if "0 \<le> n" for n P x
    using that by (simp add: flag_score_def split: option.splits)
  have suit: "-10 \<le> pp_text_suitability (pc_profile c)" "pp_text_suitability (pc_profile c) \<le> 10"
      "-10 \<le> pp_chat_suitability (pc_profile c)" "pp_chat_suitability (pc_profile c) \<le> 10"
    using assms(1) by (auto simp: RoutingPolicyProfile_post_init_def bind_r_eq_Inr)
  show "preferred_score c p - 10 \<le> rs_total (score task p c) \<and> rs_total (score task p c) \<le> preferred_score c p + 95"
    using rel cost [of "pp_cost_class (pc_profile c)"] lat [of "pp_latency_class (pc_profile c)"]
      ctx [of "pc_capabilities c"] flag [of 20 pr_routable "pc_runtime c"] flag [of 5 pr_fresh "pc_runtime c"]
      flag [of 10 pr_capacity_available "pc_runtime c"] suit
    by (auto simp: score_def score_components_def Let_def)
  show "rs_total (score task p c) \<le> preferred_score c p + 40" if "pc_runtime c = None"
    using that cost [of "pp_cost_class (pc_profile c)"] lat [of "pp_latency_class (pc_profile c)"]
      ctx [of "pc_capabilities c"] suit
    by (auto simp: score_def score_components_def Let_def flag_score_def reliability_score_def)
qed

end
