(* ===== verification/Dict.thy ===== *)
theory Dict
  imports Prelude "HOL-Library.AList"
begin

text \<open>
  Python's dictionaries. A \<open>dict\<close> keeps its entries in insertion order, and writing an existing key
  keeps its place; an association list with \<^const>\<open>AList.update\<close> does the same. What the components
  rely on is stated once, as the locale \<open>dictionary\<close>, and interpreted on that representation.
\<close>

definition dict_put :: "'k \<Rightarrow> 'v \<Rightarrow> ('k \<times> 'v) list \<Rightarrow> ('k \<times> 'v) list" where
  "dict_put k v d = AList.update k v d"

definition dict_pop :: "'k \<Rightarrow> ('k \<times> 'v) list \<Rightarrow> ('k \<times> 'v) list" where
  "dict_pop k d = AList.delete k d"

definition dict_ok :: "('k \<times> 'v) list \<Rightarrow> bool" where
  "dict_ok d = distinct (map fst d)"

locale dictionary =
  fixes lookup :: "'d \<Rightarrow> 'k \<Rightarrow> 'v option"
    and put :: "'k \<Rightarrow> 'v \<Rightarrow> 'd \<Rightarrow> 'd"
    and entries_of :: "'d \<Rightarrow> ('k \<times> 'v) list"
    and ok :: "'d \<Rightarrow> bool"
  assumes lookup_put: "lookup (put k v d) k' = (if k' = k then Some v else lookup d k')"
    and ok_put: "ok d \<Longrightarrow> ok (put k v d)"
    and entries_lookup: "ok d \<Longrightarrow> (k, v) \<in> set (entries_of d) \<longleftrightarrow> lookup d k = Some v"
    and entries_distinct: "ok d \<Longrightarrow> distinct (map fst (entries_of d))"
begin

definition put_all :: "('k \<times> 'v) list \<Rightarrow> 'd \<Rightarrow> 'd" where
  "put_all kvs d = fold (\<lambda>(k, v). put k v) kvs d"

lemma ok_put_all: "ok d \<Longrightarrow> ok (put_all kvs d)"
  unfolding put_all_def by (induction kvs arbitrary: d) (auto intro: ok_put)

lemma lookup_put_all:
  "distinct (map fst kvs) \<Longrightarrow>
   lookup (put_all kvs d) k = (case map_of kvs k of None \<Rightarrow> lookup d k | Some v \<Rightarrow> Some v)"
proof (induction kvs arbitrary: d)
  case (Cons kv kvs)
  obtain k0 v0 where kv: "kv = (k0, v0)" by (cases kv)
  have "map_of kvs k0 = None" using Cons.prems kv by (auto simp: map_of_eq_None_iff)
  then show ?case using Cons kv by (auto simp: put_all_def lookup_put split: option.splits)
qed (simp add: put_all_def)

text \<open>Writes to different keys commute, as far as anybody can look.\<close>

lemma put_all_order:
  assumes "distinct (map fst kvs)" and "set kvs' = set kvs" and "distinct (map fst kvs')"
  shows "lookup (put_all kvs d) k = lookup (put_all kvs' d) k"
proof -
  have "map_of kvs k = map_of kvs' k" using assms by (metis map_of_inject_set)
  then show ?thesis using assms by (simp add: lookup_put_all)
qed

end

interpretation alist_dict: dictionary map_of dict_put id dict_ok
proof unfold_locales
  show "map_of (dict_put k v d) k' = (if k' = k then Some v else map_of d k')" for k k' and v :: 'b and d
    by (simp add: dict_put_def update_conv')
  show "dict_ok (dict_put k v d)" if "dict_ok d" for k and v :: 'b and d
    using that by (simp add: dict_ok_def dict_put_def distinct_update)
  show "(k, v) \<in> set (id d) \<longleftrightarrow> map_of d k = Some v" if "dict_ok d" for k and v :: 'b and d
    using that by (simp add: dict_ok_def)
  show "distinct (map fst (id d))" if "dict_ok d" for d :: "('a \<times> 'b) list"
    using that by (simp add: dict_ok_def)
qed

lemma dict_put_new: "k \<notin> fst ` set d \<Longrightarrow> dict_put k v d = d @ [(k, v)]"
  unfolding dict_put_def by (induction d) auto

lemma dict_pop_simps:
  "map_of (dict_pop k d) k' = (if k' = k then None else map_of d k')"
  "dict_ok d \<Longrightarrow> dict_ok (dict_pop k d)"
  by (simp_all add: dict_pop_def dict_ok_def delete_conv' distinct_delete)

lemma dict_put_mem:
  "(k', v') \<in> set (dict_put k v d) \<Longrightarrow> k' = k \<and> v' = v \<or> (k', v') \<in> set d"
  unfolding dict_put_def by (induction d) (auto split: if_splits)

end
