(* ===== verification/Registry.thy ===== *)
theory Registry
  imports Policy Dict
begin

text \<open>
  Registered deployments and the two registries (\<open>src/backend/inference/registry.py\<close>), the adapter
  contract (\<open>base.py\<close>) and the legacy request of \<open>compat.py\<close>. An engine is the part of the object the
  code looks at; what its coroutines answer is external and a parameter where they are awaited.
\<close>

section \<open>Engines and failures\<close>

definition quoted :: "string \<Rightarrow> string" where
  "quoted s = CHR 0x27 # s @ [CHR 0x27]"

definition name_list :: "string list \<Rightarrow> string" where
  "name_list names = (let listed = join '', '' names in if listed = [] then ''none'' else listed)"

record engine =
  eng_name :: string
  eng_typed :: bool
  eng_discovers :: bool
  eng_closing :: bool

record failure =
  fl_class :: failure_class
  fl_retry :: RetryClassification
  fl_deployment_id :: "string option"
  fl_attempt_id :: "string option"

definition failure_of :: "failure_class \<Rightarrow> string option \<Rightarrow> string option \<Rightarrow> failure" where
  "failure_of c deployment attempt =
     \<lparr>fl_class = c, fl_retry = failure_retry c, fl_deployment_id = deployment, fl_attempt_id = attempt\<rparr>"

text \<open>What awaiting a coroutine gives: a value, a typed failure, a timeout, a cancellation, or any other
  exception, which the code does not catch.\<close>

datatype 'a reply = Reply 'a | Failure failure | TimedOut | Cancelled | Crash exn

record InferenceRequest =
  rq_prompt :: string
  rq_model :: string
  rq_max_tokens :: "int option"
  rq_temperature :: number
  rq_metadata :: "(string \<times> string) list"

record DeploymentProvenance =
  dp_deployment_id :: string
  dp_engine_name :: string
  dp_model_artifact_id :: "string option"
  dp_model_revision :: "string option"
  dp_model_verification :: IdentityVerification
  dp_engine_version :: "string option"
  dp_serving_runtime :: "string option"

record InferenceResponse =
  ir_text :: string
  ir_model :: "string option"
  ir_engine :: string
  ir_latency_ms :: "rat option"
  ir_input_tokens :: "int option"
  ir_output_tokens :: "int option"
  ir_metadata :: metadata
  ir_provenance :: "DeploymentProvenance option"

definition task_to_legacy_request :: "InferenceTask \<Rightarrow> failure + InferenceRequest" where
  "task_to_legacy_request task =
     (case it_input task of
        ChatInput _ \<Rightarrow> Inl (failure_of UnsupportedTaskFailure None None)
      | TextInput text \<Rightarrow>
          Inr \<lparr>rq_prompt = text,
               rq_model = (case requested_model (it_requirements task) of None \<Rightarrow> '''' | Some m \<Rightarrow> m),
               rq_max_tokens = gc_max_output_tokens (it_generation task),
               rq_temperature = gc_temperature (it_generation task),
               rq_metadata = (''request_id'', tc_request_id (it_trace task))
                 # (case tc_traceparent (it_trace task) of None \<Rightarrow> [] | Some p \<Rightarrow> [(''traceparent'', p)])\<rparr>)"

section \<open>Registered deployments\<close>

record RegisteredDeployment =
  rg_ref :: DeploymentRef
  rg_engine :: engine
  rg_capabilities :: DeploymentCapabilities
  rg_policy_profile :: RoutingPolicyProfile

abbreviation rg_id :: "RegisteredDeployment \<Rightarrow> string" where
  "rg_id r \<equiv> dr_deployment_id (rg_ref r)"

definition RegisteredDeployment_post_init :: "RegisteredDeployment \<Rightarrow> exn + unit" where
  "RegisteredDeployment_post_init r =
     require (lower (dr_engine_name (rg_ref r)) = lower (eng_name (rg_engine r)))
       (ValueError ''Deployment engine_name must match the registered engine name.'')"

record IdentityInspection =
  ii_assessment :: IdentityAssessment
  ii_discovery_error :: "string option"

definition inspect_identity ::
    "RegisteredDeployment \<Rightarrow> ModelIdentityObservation reply \<Rightarrow> IdentityInspection reply" where
  "inspect_identity r discovery =
     (let expected = dr_model (rg_ref r) in
      if \<not> eng_discovers (rg_engine r)
      then Reply \<lparr>ii_assessment = assess_model_identity expected None,
                  ii_discovery_error = Some ''identity_discovery_not_supported''\<rparr>
      else case discovery of
        Failure _ \<Rightarrow> Reply \<lparr>ii_assessment = assess_model_identity expected None,
                          ii_discovery_error = Some ''identity_discovery_failed''\<rparr>
      | Reply observation \<Rightarrow> Reply \<lparr>ii_assessment = assess_model_identity expected (Some observation),
                                  ii_discovery_error = None\<rparr>
      | TimedOut \<Rightarrow> TimedOut
      | Cancelled \<Rightarrow> Cancelled
      | Crash e \<Rightarrow> Crash e)"

section \<open>The deployment registry\<close>

type_synonym DeploymentRegistry = "(string \<times> RegisteredDeployment) list"

definition register_deployment :: "RegisteredDeployment \<Rightarrow> DeploymentRegistry \<Rightarrow> exn + DeploymentRegistry" where
  "register_deployment r reg =
     (let key = lower (rg_id r) in
      if map_of reg key \<noteq> None
      then Inl (ValueError (''Deployment '' @ quoted (rg_id r) @ '' is already registered.''))
      else Inr (dict_put key r reg))"

definition get_deployment :: "DeploymentRegistry \<Rightarrow> string \<Rightarrow> exn + RegisteredDeployment" where
  "get_deployment reg deployment_id =
     (case map_of reg (lower (strip deployment_id)) of
        None \<Rightarrow> Inl (KeyError (''Deployment '' @ quoted deployment_id
                  @ '' is not registered. Registered deployments: '' @ name_list (sort (map fst reg))))
      | Some r \<Rightarrow> Inr r)"

definition all_deployments :: "DeploymentRegistry \<Rightarrow> RegisteredDeployment list" where
  "all_deployments reg = map snd reg"

definition deployment_ids :: "DeploymentRegistry \<Rightarrow> string list" where
  "deployment_ids reg = sort (map fst reg)"

section \<open>The engine registry\<close>

type_synonym EngineRegistry = "(string \<times> engine) list"

definition register_engine :: "engine \<Rightarrow> EngineRegistry \<Rightarrow> exn + EngineRegistry" where
  "register_engine e reg =
     (let name = lower (strip (eng_name e)) in
      if name = [] then Inl (ValueError ''Inference engine must define a non-empty name.'')
      else Inr (dict_put name e reg))"

definition unregister_engine :: "string \<Rightarrow> EngineRegistry \<Rightarrow> EngineRegistry" where
  "unregister_engine name reg = dict_pop (lower (strip name)) reg"

definition get_engine :: "EngineRegistry \<Rightarrow> string \<Rightarrow> exn + engine" where
  "get_engine reg name = (case map_of reg (lower (strip name)) of
     None \<Rightarrow> Inl (KeyError (''Inference engine '' @ quoted name
               @ '' is not registered. Registered engines: '' @ name_list (sort (map fst reg))))
   | Some e \<Rightarrow> Inr e)"

definition all_engines :: "EngineRegistry \<Rightarrow> engine list" where
  "all_engines reg = map snd reg"

definition engine_names :: "EngineRegistry \<Rightarrow> string list" where
  "engine_names reg = sort (map fst reg)"

definition register_many :: "engine list \<Rightarrow> EngineRegistry \<Rightarrow> exn + EngineRegistry" where
  "register_many engines reg = foldM register_engine engines reg"

definition engine_registered :: "string \<Rightarrow> EngineRegistry \<Rightarrow> bool" where
  "engine_registered name reg = (map_of reg (lower (strip name)) \<noteq> None)"

definition engine_registry_from_deployments :: "DeploymentRegistry \<Rightarrow> exn + EngineRegistry" where
  "engine_registry_from_deployments reg =
     foldM (\<lambda>r. register_engine (rg_engine r)) (all_deployments reg) []"

section \<open>Invariant\<close>

definition registry_ok :: "DeploymentRegistry \<Rightarrow> bool" where
  "registry_ok reg \<longleftrightarrow> dict_ok reg
     \<and> (\<forall>(k, r) \<in> set reg. k = lower (rg_id r) \<and> DeploymentRef_post_init (rg_ref r) = Inr ()
          \<and> RegisteredDeployment_post_init r = Inr ())"

lemma strip_identifier: "identifier_ok s \<Longrightarrow> strip s = s"
  by (simp add: identifier_ok_def)

lemma deployment_id_ok: "DeploymentRef_post_init d = Inr () \<Longrightarrow> identifier_ok (dr_deployment_id d)"
  by (auto simp: DeploymentRef_post_init_def bind_r_eq_Inr require_identifier_def)

lemma register_deployment_eq:
  "register_deployment r reg = Inr reg' \<longleftrightarrow> map_of reg (lower (rg_id r)) = None \<and> reg' = reg @ [(lower (rg_id r), r)]"
  by (auto simp: register_deployment_def Let_def dict_put_new map_of_eq_None_iff)

lemma register_deployment_ok:
  assumes "registry_ok reg" and "register_deployment r reg = Inr reg'"
    and "DeploymentRef_post_init (rg_ref r) = Inr ()" and "RegisteredDeployment_post_init r = Inr ()"
  shows "registry_ok reg'"
  using assms by (auto simp: register_deployment_eq registry_ok_def dict_ok_def map_of_eq_None_iff image_iff)

lemma registry_ids_distinct:
  assumes "registry_ok reg"
  shows "distinct (map rg_id (all_deployments reg))"
proof -
  have "map fst reg = map (\<lambda>r. lower (rg_id r)) (all_deployments reg)"
    using assms by (auto simp: registry_ok_def all_deployments_def)
  then have "distinct (map lower (map rg_id (all_deployments reg)))"
    using assms by (simp add: registry_ok_def dict_ok_def comp_def)
  then show ?thesis by (auto simp: distinct_map inj_on_def)
qed

end
