(* ===== verification/Runtime.thy ===== *)
theory Runtime
  imports Registry
begin

text \<open>
  Runtime state of the deployments (\<open>src/backend/inference/runtime.py\<close>): the snapshots the router
  reads, the summary of the last twenty attempts, and the probes of the collector. The clock readings
  and the answers of the engines are parameters. The probes of \<open>refresh\<close> run concurrently and each
  writes one entry when it ends; the model folds them in the order in which they end.
\<close>

section \<open>States\<close>

datatype Liveness = LIVE_UNKNOWN | UP | DOWN

datatype Readiness = READINESS_UNKNOWN | ENGINE_READY | NOT_READY

datatype AdmissionState = ADMISSION_UNKNOWN | ACCEPTING | REJECTING

datatype CapacityState = CAPACITY_UNKNOWN | AVAILABLE | EXHAUSTED

record RuntimeSummary =
  su_attempt_count :: int
  su_failure_count :: int
  su_recent_failure_rate :: "rat option"
  su_last_attempt_latency_ms :: "rat option"
  su_last_failure_code :: "string option"

definition RuntimeSummary_default :: RuntimeSummary where
  "RuntimeSummary_default = \<lparr>su_attempt_count = 0, su_failure_count = 0, su_recent_failure_rate = None,
     su_last_attempt_latency_ms = None, su_last_failure_code = None\<rparr>"

record DeploymentRuntimeState =
  rs_id :: string
  rs_liveness :: Liveness
  rs_readiness :: Readiness
  rs_admission :: AdmissionState
  rs_capacity :: CapacityState
  rs_observed_at :: "instant option"
  rs_expires_at :: "instant option"
  rs_probe_latency_ms :: "rat option"
  rs_probe_error :: "string option"
  rs_summary :: RuntimeSummary

definition DeploymentRuntimeState_default :: "string \<Rightarrow> DeploymentRuntimeState" where
  "DeploymentRuntimeState_default i = \<lparr>rs_id = i, rs_liveness = LIVE_UNKNOWN,
     rs_readiness = READINESS_UNKNOWN, rs_admission = ADMISSION_UNKNOWN, rs_capacity = CAPACITY_UNKNOWN,
     rs_observed_at = None, rs_expires_at = None, rs_probe_latency_ms = None, rs_probe_error = None,
     rs_summary = RuntimeSummary_default\<rparr>"

definition is_stale :: "instant \<Rightarrow> DeploymentRuntimeState \<Rightarrow> bool" where
  "is_stale now s = (case rs_expires_at s of None \<Rightarrow> True | Some ex \<Rightarrow> ex \<le> now)"

definition is_routable :: "instant \<Rightarrow> DeploymentRuntimeState \<Rightarrow> bool" where
  "is_routable now s = (\<not> is_stale now s \<and> rs_liveness s = UP \<and> rs_readiness s = ENGINE_READY
     \<and> rs_admission s = ACCEPTING \<and> rs_capacity s \<noteq> EXHAUSTED)"

section \<open>The store\<close>

record RuntimeStateStore =
  st_states :: "(string \<times> DeploymentRuntimeState) list"
  st_attempt_history :: "(string \<times> bool list) list"

definition RuntimeStateStore_init :: "string list \<Rightarrow> RuntimeStateStore" where
  "RuntimeStateStore_init ids =
     \<lparr>st_states = fold (\<lambda>i. dict_put i (DeploymentRuntimeState_default i)) ids [],
      st_attempt_history = fold (\<lambda>i. dict_put i []) ids []\<rparr>"

definition get_state :: "RuntimeStateStore \<Rightarrow> string \<Rightarrow> DeploymentRuntimeState" where
  "get_state store i = (case map_of (st_states store) i of
     None \<Rightarrow> DeploymentRuntimeState_default i | Some s \<Rightarrow> s)"

definition all_states :: "RuntimeStateStore \<Rightarrow> DeploymentRuntimeState list" where
  "all_states store = map snd (st_states store)"

definition put_state :: "DeploymentRuntimeState \<Rightarrow> RuntimeStateStore \<Rightarrow> RuntimeStateStore" where
  "put_state s store = store\<lparr>st_states := dict_put (rs_id s) s (st_states store)\<rparr>"

definition history_of :: "RuntimeStateStore \<Rightarrow> string \<Rightarrow> bool list" where
  "history_of store i = (case map_of (st_attempt_history store) i of None \<Rightarrow> [] | Some h \<Rightarrow> h)"

text \<open>\<open>history.append(...)\<close>, then \<open>del history[:-20]\<close>.\<close>

definition extend_history :: "bool list \<Rightarrow> bool \<Rightarrow> bool list" where
  "extend_history h failed = (let h' = h @ [failed] in drop (length h' - 20) h')"

definition summarize :: "bool list \<Rightarrow> ExecutionAttempt \<Rightarrow> RuntimeSummary" where
  "summarize history attempt =
     (let attempts = length history; failed = length (filter id history) in
      \<lparr>su_attempt_count = int attempts, su_failure_count = int failed,
       su_recent_failure_rate = Some (of_nat failed / of_nat attempts),
       su_last_attempt_latency_ms = Some (ea_duration_ms attempt),
       su_last_failure_code = (if ea_outcome attempt = FAILED then ea_failure_code attempt else None)\<rparr>)"

definition apply_attempt :: "ExecutionAttempt \<Rightarrow> DeploymentRuntimeState \<Rightarrow> DeploymentRuntimeState" where
  "apply_attempt attempt s =
     (if ea_outcome attempt = SUCCEEDED then s\<lparr>rs_admission := ACCEPTING, rs_capacity := AVAILABLE\<rparr>
      else if ea_failure_code attempt = Some ''capacity_exceeded''
      then s\<lparr>rs_admission := REJECTING, rs_capacity := EXHAUSTED\<rparr>
      else if ea_failure_code attempt = Some ''deployment_unavailable''
      then s\<lparr>rs_liveness := DOWN, rs_readiness := NOT_READY, rs_admission := REJECTING\<rparr>
      else s)"

definition record_attempt :: "ExecutionAttempt \<Rightarrow> RuntimeStateStore \<Rightarrow> RuntimeStateStore" where
  "record_attempt attempt store =
     (let i = ea_deployment_id attempt; state = get_state store i;
          history = extend_history (history_of store i) (ea_outcome attempt = FAILED) in
      put_state ((apply_attempt attempt state)\<lparr>rs_summary := summarize history attempt\<rparr>)
        (store\<lparr>st_attempt_history := dict_put i history (st_attempt_history store)\<rparr>))"

section \<open>The collector\<close>

text \<open>The answer of one probe: the clock readings around it and what \<open>wait_for\<close> gave, a truth value or the
  name of the exception's type.\<close>

record probe =
  pb_deployment_id :: string
  pb_observed_at :: instant
  pb_started :: rat
  pb_finished :: rat
  pb_answer :: "string + bool"

definition probe_available :: "probe \<Rightarrow> bool" where
  "probe_available p = (case pb_answer p of Inl _ \<Rightarrow> False | Inr b \<Rightarrow> b)"

definition probe_state :: "rat \<Rightarrow> probe \<Rightarrow> RuntimeSummary \<Rightarrow> DeploymentRuntimeState" where
  "probe_state ttl p summary =
     (let available = probe_available p in
      \<lparr>rs_id = pb_deployment_id p,
       rs_liveness = (if available then UP else DOWN),
       rs_readiness = (if available then ENGINE_READY else NOT_READY),
       rs_admission = (if available then ACCEPTING else REJECTING),
       rs_capacity = CAPACITY_UNKNOWN, rs_observed_at = Some (pb_observed_at p),
       rs_expires_at = Some (pb_observed_at p + seconds ttl),
       rs_probe_latency_ms = Some ((pb_finished p - pb_started p) * 1000),
       rs_probe_error = (case pb_answer p of Inl e \<Rightarrow> Some e | Inr _ \<Rightarrow> None),
       rs_summary = summary\<rparr>)"

definition run_probe :: "rat \<Rightarrow> probe \<Rightarrow> RuntimeStateStore \<Rightarrow> RuntimeStateStore" where
  "run_probe ttl p store =
     put_state (probe_state ttl p (rs_summary (get_state store (pb_deployment_id p)))) store"

definition run_refresh :: "rat \<Rightarrow> probe list \<Rightarrow> RuntimeStateStore \<Rightarrow> RuntimeStateStore" where
  "run_refresh ttl probes store = fold (run_probe ttl) probes store"

definition collector_entry :: "rat \<Rightarrow> instant \<Rightarrow> RegisteredDeployment \<Rightarrow> RuntimeStateStore \<Rightarrow> RuntimeStateStore" where
  "collector_entry ttl now r store =
     (if dr_serving_runtime (rg_ref r) = Some ''in_process''
      then put_state ((DeploymentRuntimeState_default (rg_id r))\<lparr>rs_liveness := UP,
             rs_readiness := ENGINE_READY, rs_admission := ACCEPTING, rs_observed_at := Some now,
             rs_expires_at := Some (now + seconds ttl)\<rparr>) store
      else store)"

definition collector_init :: "DeploymentRegistry \<Rightarrow> rat \<Rightarrow> instant \<Rightarrow> RuntimeStateStore" where
  "collector_init reg ttl now =
     fold (collector_entry ttl now) (all_deployments reg) (RuntimeStateStore_init (deployment_ids reg))"

section \<open>Reading after writing\<close>

lemma get_put_state: "get_state (put_state s store) i = (if i = rs_id s then s else get_state store i)"
  by (simp add: get_state_def put_state_def alist_dict.lookup_put)

lemma rs_id_apply [simp]: "rs_id (apply_attempt a s) = rs_id s"
  by (simp add: apply_attempt_def)

definition summary_ok :: "RuntimeSummary \<Rightarrow> bool" where
  "summary_ok s \<longleftrightarrow> 0 \<le> su_failure_count s \<and> su_failure_count s \<le> su_attempt_count s \<and> su_attempt_count s \<le> 20
     \<and> (\<forall>rate. su_recent_failure_rate s = Some rate \<longrightarrow> 0 \<le> rate \<and> rate \<le> 1)"

definition runtime_ok :: "RuntimeStateStore \<Rightarrow> bool" where
  "runtime_ok store \<longleftrightarrow> (\<forall>i. rs_id (get_state store i) = i \<and> summary_ok (rs_summary (get_state store i))
     \<and> length (history_of store i) \<le> 20)"

lemma summary_default_ok [simp]: "summary_ok RuntimeSummary_default"
  by (simp add: summary_ok_def RuntimeSummary_default_def)

lemma state_default_simps [simp]:
  "rs_id (DeploymentRuntimeState_default i) = i"
  "rs_summary (DeploymentRuntimeState_default i) = RuntimeSummary_default"
  by (simp_all add: DeploymentRuntimeState_default_def)

lemma get_state_init: "get_state (RuntimeStateStore_init ids) i = DeploymentRuntimeState_default i"
proof -
  have "map_of (fold (\<lambda>i. dict_put i (DeploymentRuntimeState_default i)) ids d) i
      = (if i \<in> set ids then Some (DeploymentRuntimeState_default i) else map_of d i)" for d
    by (induction ids arbitrary: d) (auto simp: alist_dict.lookup_put)
  then show ?thesis by (simp add: get_state_def RuntimeStateStore_init_def)
qed

lemma history_init: "history_of (RuntimeStateStore_init ids) i = []"
proof -
  have "map_of (fold (\<lambda>i. dict_put i []) ids d) i = (if i \<in> set ids then Some [] else map_of d i)"
    for d :: "(string \<times> bool list) list"
    by (induction ids arbitrary: d) (auto simp: alist_dict.lookup_put)
  then show ?thesis by (simp add: history_of_def RuntimeStateStore_init_def)
qed

lemma runtime_init_ok: "runtime_ok (RuntimeStateStore_init ids)"
  by (simp add: runtime_ok_def get_state_init history_init)

lemma extend_history_length: "length h \<le> 20 \<Longrightarrow> 1 \<le> length (extend_history h b) \<and> length (extend_history h b) \<le> 20"
  by (auto simp: extend_history_def Let_def)

lemma summarize_ok: "1 \<le> length h \<Longrightarrow> length h \<le> 20 \<Longrightarrow> summary_ok (summarize h a)"
proof -
  assume h: "1 \<le> length h" "length h \<le> 20"
  have l: "length (filter id h) \<le> length h" by simp
  then have "(of_nat (length (filter id h)) :: rat) / of_nat (length h) \<le> 1" by (simp add: divide_le_eq_1)
  then show ?thesis using h l by (simp add: summary_ok_def summarize_def Let_def)
qed

lemma history_put [simp]: "history_of (put_state s store) i = history_of store i"
  by (simp add: history_of_def put_state_def)

lemma get_state_history [simp]:
  "get_state (store\<lparr>st_attempt_history := h\<rparr>) i = get_state store i"
  by (simp add: get_state_def)

lemma record_attempt_get:
  assumes "rs_id (get_state store (ea_deployment_id a)) = ea_deployment_id a"
  shows "get_state (record_attempt a store) i = (if i = ea_deployment_id a
     then (apply_attempt a (get_state store i))\<lparr>rs_summary :=
            summarize (extend_history (history_of store i) (ea_outcome a = FAILED)) a\<rparr>
     else get_state store i)"
  using assms by (simp add: record_attempt_def Let_def get_put_state)

lemma record_attempt_history:
  "history_of (record_attempt a store) i = (if i = ea_deployment_id a
     then extend_history (history_of store i) (ea_outcome a = FAILED) else history_of store i)"
  by (simp add: record_attempt_def Let_def) (simp add: history_of_def alist_dict.lookup_put)

lemma record_attempt_ok: "runtime_ok store \<Longrightarrow> runtime_ok (record_attempt a store)"
proof -
  assume ok: "runtime_ok store"
  have id: "rs_id (get_state store i) = i" for i using ok by (simp add: runtime_ok_def)
  have h: "length (history_of store i) \<le> 20" for i using ok by (simp add: runtime_ok_def)
  have "summary_ok (summarize (extend_history (history_of store i) b) a)" for i b
    using extend_history_length [OF h] by (intro summarize_ok) blast+
  then show ?thesis
    using ok extend_history_length [OF h] id
    by (simp add: runtime_ok_def record_attempt_get record_attempt_history)
qed

lemma run_probe_get:
  "get_state (run_probe ttl p store) i = (if i = pb_deployment_id p
     then probe_state ttl p (rs_summary (get_state store i)) else get_state store i)"
  by (auto simp: run_probe_def get_put_state probe_state_def Let_def)

lemma run_probe_ok: "runtime_ok store \<Longrightarrow> runtime_ok (run_probe ttl p store)"
  unfolding runtime_ok_def
  by (auto simp: run_probe_get) (auto simp: probe_state_def Let_def run_probe_def)

lemma run_refresh_ok: "runtime_ok store \<Longrightarrow> runtime_ok (run_refresh ttl probes store)"
  unfolding run_refresh_def by (induction probes arbitrary: store) (auto intro: run_probe_ok)

lemma collector_init_ok: "runtime_ok (collector_init reg ttl now)"
proof -
  have "runtime_ok (fold (collector_entry ttl now) rs store)" if "runtime_ok store" for rs store
    using that
  proof (induction rs arbitrary: store)
    case (Cons r rs)
    have "runtime_ok (collector_entry ttl now r store)"
      using Cons.prems by (auto simp: runtime_ok_def collector_entry_def get_put_state)
    then show ?case using Cons.IH by simp
  qed simp
  then show ?thesis using runtime_init_ok by (simp add: collector_init_def)
qed

text \<open>Reading after a refresh: the probe of the deployment decides, whatever order the probes end in.\<close>

lemma run_refresh_get:
  assumes "distinct (map pb_deployment_id probes)"
  shows "get_state (run_refresh ttl probes store) i =
    (case List.find (\<lambda>p. pb_deployment_id p = i) probes of
       None \<Rightarrow> get_state store i | Some p \<Rightarrow> probe_state ttl p (rs_summary (get_state store i)))"
  using assms unfolding run_refresh_def
proof (induction probes arbitrary: store)
  case (Cons p probes)
  have "List.find (\<lambda>q. pb_deployment_id q = pb_deployment_id p) probes = None"
    using Cons.prems by (auto simp: find_None image_iff)
  then show ?case using Cons by (auto simp: run_probe_get split: option.splits)
qed simp

section \<open>Steps\<close>

inductive runtime_step :: "RuntimeStateStore \<Rightarrow> RuntimeStateStore \<Rightarrow> bool" where
  rt_attempt: "runtime_step store (record_attempt a store)"
| rt_probe: "runtime_step store (run_probe ttl p store)"

inductive_cases runtime_stepE: "runtime_step s t"

definition runtime_init :: "RuntimeStateStore \<Rightarrow> bool" where
  "runtime_init store \<longleftrightarrow> (\<exists>reg ttl now. store = collector_init reg ttl now)"

interpretation runtime_machine: state_machine runtime_init runtime_step runtime_ok
  by unfold_locales
     (auto simp: runtime_init_def collector_init_ok elim!: runtime_stepE intro: record_attempt_ok run_probe_ok)

end
