(* ===== verification/Budget.thy ===== *)
theory Budget
  imports Contracts
begin

text \<open>
  Execution budgets. The router spends a budget it is given through four operations; what it relies on
  is the locale \<open>attempt_budget\<close>. Two components provide it: the in-memory \<open>WorkflowBudget\<close>
  (\<open>src/backend/workflows/budget.py\<close>), here, and the stored budget of a graph
  (\<open>src/backend/workflows/graph_budget.py\<close>), in its own theory.
\<close>

section \<open>The interface\<close>

record clock =
  mono :: rat
  wall :: instant

record 'b budget_ops =
  op_remaining :: "clock \<Rightarrow> 'b \<Rightarrow> exn + rat"
  op_reserve :: "clock \<Rightarrow> 'b \<Rightarrow> exn + ('b \<times> bool)"
  op_record :: "int option \<Rightarrow> 'b \<Rightarrow> exn + ('b \<times> bool)"
  op_attempts :: "'b \<Rightarrow> exn + int"
  op_output_tokens :: "'b \<Rightarrow> exn + int"

text \<open>The laws leave room for other users of the same budget: what one user is granted is counted, and
  nothing that was counted is forgotten.\<close>

locale attempt_budget =
  fixes ops :: "'b budget_ops"
    and valid :: "'b \<Rightarrow> bool"
    and limit :: "'b \<Rightarrow> int"
    and spent :: "'b \<Rightarrow> int"
    and token_limit :: "'b \<Rightarrow> int option"
    and tokens :: "'b \<Rightarrow> int"
  assumes spent_bounds: "valid b \<Longrightarrow> 0 \<le> spent b \<and> spent b \<le> limit b"
    and token_bounds: "valid b \<Longrightarrow> 0 \<le> tokens b \<and> (\<forall>m. token_limit b = Some m \<longrightarrow> tokens b \<le> m)"
    and reserve_law: "valid b \<Longrightarrow> op_reserve ops c b = Inr (b', ok) \<Longrightarrow>
      valid b' \<and> limit b' = limit b \<and> token_limit b' = token_limit b \<and> tokens b \<le> tokens b'
      \<and> spent b + (if ok then 1 else 0) \<le> spent b'"
    and record_law: "valid b \<Longrightarrow> op_record ops n b = Inr (b', ok) \<Longrightarrow>
      valid b' \<and> limit b' = limit b \<and> token_limit b' = token_limit b \<and> spent b \<le> spent b'
      \<and> tokens b + (if ok then (case n of None \<Rightarrow> 0 | Some k \<Rightarrow> k) else 0) \<le> tokens b'"
begin

text \<open>A session of uses of the budget, each a reservation or a charge of tokens.\<close>

inductive uses :: "'b \<Rightarrow> nat \<Rightarrow> int \<Rightarrow> 'b \<Rightarrow> bool" where
  uses_none: "uses b 0 0 b"
| uses_reserve: "uses b n k b1 \<Longrightarrow> op_reserve ops c b1 = Inr (b2, ok) \<Longrightarrow> uses b (if ok then Suc n else n) k b2"
| uses_record: "uses b n k b1 \<Longrightarrow> op_record ops m b1 = Inr (b2, ok) \<Longrightarrow>
    uses b n (k + (if ok then (case m of None \<Rightarrow> 0 | Some j \<Rightarrow> j) else 0)) b2"

lemma uses_accounts:
  "uses b n k b' \<Longrightarrow> valid b \<Longrightarrow> valid b' \<and> limit b' = limit b \<and> token_limit b' = token_limit b
     \<and> spent b + int n \<le> spent b' \<and> tokens b + k \<le> tokens b'"
proof (induction rule: uses.induct)
  case (uses_reserve b n k b1 c b2 ok)
  then show ?case using reserve_law [of b1 c b2 ok] by auto
next
  case (uses_record b n k b1 m b2 ok)
  then show ?case using record_law [of b1 m b2 ok] by auto
qed simp

text \<open>However it is used, a budget grants at most its limit of attempts and of tokens.\<close>

lemma uses_bounded:
  assumes "uses b n k b'" and "valid b"
  shows "int n \<le> limit b - spent b" and "token_limit b = Some m \<Longrightarrow> tokens b + k \<le> m"
  using uses_accounts [OF assms] spent_bounds [of b'] token_bounds [of b'] by auto

end

section \<open>The in-memory budget\<close>

record WorkflowBudget =
  wb_deadline_seconds :: rat
  wb_max_attempts :: int
  wb_max_output_tokens :: "int option"
  wb_started :: rat
  wb_attempts :: int
  wb_output_tokens :: int

definition WorkflowBudget_post_init :: "WorkflowBudget \<Rightarrow> exn + unit" where
  "WorkflowBudget_post_init b =
     bind_r (require (\<not> wb_deadline_seconds b \<le> 0) (ValueError ''deadline_seconds must be positive'')) (\<lambda>_.
     bind_r (require (\<not> wb_max_attempts b < 1) (ValueError ''max_attempts must be positive'')) (\<lambda>_.
     require (\<not> (case wb_max_output_tokens b of None \<Rightarrow> False | Some n \<Rightarrow> n < 1))
       (ValueError ''max_output_tokens must be positive when provided'')))"

definition WorkflowBudget_init :: "rat \<Rightarrow> int \<Rightarrow> int option \<Rightarrow> clock \<Rightarrow> exn + WorkflowBudget" where
  "WorkflowBudget_init deadline_seconds max_attempts max_output_tokens now =
     (let b = \<lparr>wb_deadline_seconds = deadline_seconds, wb_max_attempts = max_attempts,
               wb_max_output_tokens = max_output_tokens, wb_started = mono now, wb_attempts = 0,
               wb_output_tokens = 0\<rparr> in
      bind_r (WorkflowBudget_post_init b) (\<lambda>_. Inr b))"

definition remaining_seconds :: "clock \<Rightarrow> WorkflowBudget \<Rightarrow> rat" where
  "remaining_seconds now b = max 0 (wb_deadline_seconds b - (mono now - wb_started b))"

definition reserve_attempt :: "clock \<Rightarrow> WorkflowBudget \<Rightarrow> WorkflowBudget \<times> bool" where
  "reserve_attempt now b =
     (if remaining_seconds now b \<le> 0 \<or> wb_attempts b \<ge> wb_max_attempts b then (b, False)
      else (b\<lparr>wb_attempts := wb_attempts b + 1\<rparr>, True))"

definition record_output_tokens :: "int option \<Rightarrow> WorkflowBudget \<Rightarrow> exn + (WorkflowBudget \<times> bool)" where
  "record_output_tokens count b =
     (case count of
        None \<Rightarrow> Inr (b, True)
      | Some n \<Rightarrow>
          if n < 0 then Inl (ValueError ''output token count cannot be negative'')
          else if (case wb_max_output_tokens b of None \<Rightarrow> False | Some m \<Rightarrow> wb_output_tokens b + n > m)
          then Inr (b, False)
          else Inr (b\<lparr>wb_output_tokens := wb_output_tokens b + n\<rparr>, True))"

definition workflow_budget_ops :: "WorkflowBudget budget_ops" where
  "workflow_budget_ops =
     \<lparr>op_remaining = (\<lambda>c b. Inr (remaining_seconds c b)),
      op_reserve = (\<lambda>c b. Inr (reserve_attempt c b)),
      op_record = record_output_tokens,
      op_attempts = (\<lambda>b. Inr (wb_attempts b)),
      op_output_tokens = (\<lambda>b. Inr (wb_output_tokens b))\<rparr>"

definition wb_ok :: "WorkflowBudget \<Rightarrow> bool" where
  "wb_ok b \<longleftrightarrow> 0 \<le> wb_attempts b \<and> wb_attempts b \<le> wb_max_attempts b \<and> 0 \<le> wb_output_tokens b
     \<and> (\<forall>m. wb_max_output_tokens b = Some m \<longrightarrow> wb_output_tokens b \<le> m)"

lemma WorkflowBudget_init_ok: "WorkflowBudget_init s n m c = Inr b \<Longrightarrow> wb_ok b"
  by (auto simp: WorkflowBudget_init_def WorkflowBudget_post_init_def wb_ok_def Let_def bind_r_eq_Inr)

interpretation workflow_budget: attempt_budget workflow_budget_ops wb_ok wb_max_attempts wb_attempts
    wb_max_output_tokens wb_output_tokens
proof unfold_locales
  show "wb_ok b \<Longrightarrow> 0 \<le> wb_attempts b \<and> wb_attempts b \<le> wb_max_attempts b" for b
    by (simp add: wb_ok_def)
  show "wb_ok b \<Longrightarrow> 0 \<le> wb_output_tokens b \<and> (\<forall>m. wb_max_output_tokens b = Some m \<longrightarrow> wb_output_tokens b \<le> m)" for b
    by (simp add: wb_ok_def)
  show "wb_ok b' \<and> wb_max_attempts b' = wb_max_attempts b \<and> wb_max_output_tokens b' = wb_max_output_tokens b
      \<and> wb_output_tokens b \<le> wb_output_tokens b' \<and> wb_attempts b + (if ok then 1 else 0) \<le> wb_attempts b'"
    if "wb_ok b" "op_reserve workflow_budget_ops c b = Inr (b', ok)" for b c b' ok
    using that by (auto simp: workflow_budget_ops_def reserve_attempt_def wb_ok_def split: if_splits)
  show "wb_ok b' \<and> wb_max_attempts b' = wb_max_attempts b \<and> wb_max_output_tokens b' = wb_max_output_tokens b
      \<and> wb_attempts b \<le> wb_attempts b'
      \<and> wb_output_tokens b + (if ok then (case n of None \<Rightarrow> 0 | Some k \<Rightarrow> k) else 0) \<le> wb_output_tokens b'"
    if "wb_ok b" "op_record workflow_budget_ops n b = Inr (b', ok)" for b n b' ok
    using that
    by (auto simp: workflow_budget_ops_def record_output_tokens_def wb_ok_def split: option.splits if_splits)
qed

end
