(* ===== verification/Router.thy ===== *)
theory Router
  imports Runtime Budget
begin

text \<open>
  The router (\<open>src/backend/inference/router.py\<close>): hard constraints, ranking, and the execution loop
  with retries, failover, deadlines, circuit breakers and budgets. Engines, clocks and fresh
  identifiers are external: a turn of the loop gets a \<open>turn\<close>, which holds the clock readings the turn
  makes (in program order) and what the awaited engine calls answer. Exceptions the router does not
  catch escape; the ones it raises carry the attempts and the routing decision.
\<close>

section \<open>Configuration and results\<close>

record ExecutionPolicy =
  ep_max_attempts :: int
  ep_default_deadline_seconds :: rat
  ep_backoff_seconds :: "rat list"

definition ExecutionPolicy_post_init :: "ExecutionPolicy \<Rightarrow> exn + unit" where
  "ExecutionPolicy_post_init p =
     bind_r (require (\<not> ep_max_attempts p < 1) (ValueError ''max_attempts must be positive.'')) (\<lambda>_.
     bind_r (require (\<not> ep_default_deadline_seconds p \<le> 0)
       (ValueError ''default_deadline_seconds must be positive.'')) (\<lambda>_.
     require (\<not> list_ex (\<lambda>delay. delay < 0) (ep_backoff_seconds p))
       (ValueError ''backoff_seconds cannot contain negative values.'')))"

datatype registry = Deployments DeploymentRegistry | Engines EngineRegistry

record router =
  ro_registry :: registry
  ro_policy :: ExecutionPolicy
  ro_circuit_open :: "string set"

record InferenceResult =
  re_text :: string
  re_finish_reason :: FinishReason
  re_usage :: TokenUsage
  re_total_ms :: "rat option"
  re_provenance :: DeploymentProvenance
  re_metadata :: metadata
  re_reasoning :: "string option"
  re_attempts :: "ExecutionAttempt list"
  re_routing_decision :: "RoutingDecision option"

record router_failure =
  rf_failure :: failure
  rf_attempts :: "ExecutionAttempt list"
  rf_decision :: "RoutingDecision option"
  rf_rejections :: "(string \<times> ConstraintRejection) list"

datatype 'r outcome = Done 'r | Raised router_failure | EscapedFailure failure | EscapedCancel
  | EscapedTimeout | EscapedError exn

definition bare :: "failure \<Rightarrow> router_failure" where
  "bare f = \<lparr>rf_failure = f, rf_attempts = [], rf_decision = None, rf_rejections = []\<rparr>"

section \<open>Hard constraints and ranking\<close>

record routing_clocks =
  rc_requirement :: "string \<Rightarrow> requirement_clock"
  rc_routable :: "string \<Rightarrow> instant"
  rc_stale :: "string \<Rightarrow> instant"

definition prefers :: "string \<Rightarrow> RegisteredDeployment \<Rightarrow> bool" where
  "prefers e r = (lower (eng_name (rg_engine r)) = lower e)"

definition preference_order :: "string option \<Rightarrow> RegisteredDeployment list \<Rightarrow> failure + RegisteredDeployment list" where
  "preference_order preferred deployments =
     (case preferred of
        None \<Rightarrow> Inr deployments
      | Some e \<Rightarrow>
          let first = filter (prefers e) deployments in
          if first = [] then Inl (failure_of UnknownEnginePreferenceFailure None None)
          else Inr (first @ filter (\<lambda>r. r \<notin> set first) deployments))"

definition eligible_for :: "routing_clocks \<Rightarrow> InferenceTask \<Rightarrow> RegisteredDeployment \<Rightarrow> bool" where
  "eligible_for rc task r = ed_eligible (evaluate_capabilities (rc_requirement rc (rg_id r)) task (rg_capabilities r))"

definition public_rejections ::
    "routing_clocks \<Rightarrow> InferenceTask \<Rightarrow> RegisteredDeployment list \<Rightarrow> (string \<times> ConstraintRejection) list" where
  "public_rejections rc task deployments =
     concat (map (\<lambda>r. map (Pair (rg_id r))
       (ed_rejections (evaluate_capabilities (rc_requirement rc (rg_id r)) task (rg_capabilities r))))
     (filter (\<lambda>r. \<not> eligible_for rc task r) deployments))"

definition policy_runtime :: "routing_clocks \<Rightarrow> DeploymentRuntimeState \<Rightarrow> PolicyRuntime" where
  "policy_runtime rc s =
     \<lparr>pr_routable = is_routable (rc_routable rc (rs_id s)) s,
      pr_fresh = (\<not> is_stale (rc_stale rc (rs_id s)) s),
      pr_recent_failure_rate = su_recent_failure_rate (rs_summary s),
      pr_capacity_available = (rs_capacity s = AVAILABLE)\<rparr>"

definition policy_candidate ::
    "routing_clocks \<Rightarrow> RuntimeStateStore option \<Rightarrow> nat \<Rightarrow> RegisteredDeployment \<Rightarrow> PolicyCandidate" where
  "policy_candidate rc states index r =
     \<lparr>pc_deployment_id = rg_id r, pc_engine_name = eng_name (rg_engine r),
      pc_registration_index = int index, pc_capabilities = rg_capabilities r,
      pc_profile = rg_policy_profile r,
      pc_runtime = map_option (\<lambda>store. policy_runtime rc (get_state store (rg_id r))) states\<rparr>"

definition find_deployment :: "RegisteredDeployment list \<Rightarrow> string \<Rightarrow> exn + RegisteredDeployment" where
  "find_deployment eligible i =
     (case map_of (map (\<lambda>r. (rg_id r, r)) (rev eligible)) i of None \<Rightarrow> Inl (KeyError i) | Some r \<Rightarrow> Inr r)"

definition ordered_deployments ::
    "routing_clocks \<Rightarrow> RuntimeStateStore option \<Rightarrow> DeploymentRegistry \<Rightarrow> InferenceTask \<Rightarrow> string option \<Rightarrow>
       InferenceResult outcome + (RegisteredDeployment list \<times> RoutingDecision)" where
  "ordered_deployments rc states reg task preferred =
     (case preference_order preferred (all_deployments reg) of
        Inl f \<Rightarrow> Inl (Raised (bare f))
      | Inr deployments \<Rightarrow>
          let eligible = filter (eligible_for rc task) deployments in
          if eligible = []
          then Inl (Raised ((bare (failure_of CapabilityMismatchFailure None None))
                 \<lparr>rf_rejections := public_rejections rc task deployments\<rparr>))
          else let candidates = map (\<lambda>(n, r). policy_candidate rc states n r) (enumerate 0 eligible);
                   decision = rank_candidates task candidates preferred in
               case traverse (find_deployment eligible) (rd_ordered_deployment_ids decision) of
                 Inl e \<Rightarrow> Inl (EscapedError e)
               | Inr ordered \<Rightarrow> Inr (ordered, decision))"

section \<open>One execution\<close>

record turn =
  tn_clock :: "nat \<Rightarrow> clock"
  tn_available :: "RegisteredDeployment \<Rightarrow> bool reply"
  tn_attempt_id :: string
  tn_discovery :: "RegisteredDeployment \<Rightarrow> ModelIdentityObservation reply"
  tn_typed :: "RegisteredDeployment \<Rightarrow> InferenceTask \<Rightarrow> AdapterInferenceResult reply"
  tn_legacy :: "RegisteredDeployment \<Rightarrow> InferenceRequest \<Rightarrow> InferenceResponse reply"

fun bind_reply :: "'a reply \<Rightarrow> ('a \<Rightarrow> 'b reply) \<Rightarrow> 'b reply" where
  "bind_reply (Reply x) f = f x"
| "bind_reply (Failure e) f = Failure e"
| "bind_reply TimedOut f = TimedOut"
| "bind_reply Cancelled f = Cancelled"
| "bind_reply (Crash e) f = Crash e"

definition legacy_finish_reason :: "metadata \<Rightarrow> FinishReason" where
  "legacy_finish_reason md =
     (let reason = Option.bind (map_of md ''sglang_finish_reason'') id in
      if reason = Some ''stop'' then STOP
      else if reason = Some ''length'' then LENGTH
      else if reason = Some ''cancelled'' \<or> reason = Some ''abort'' then CANCELLED_FINISH
      else UNKNOWN_FINISH)"

definition normalize_legacy_response :: "InferenceResponse \<Rightarrow> exn + AdapterInferenceResult" where
  "normalize_legacy_response resp =
     (let usage = \<lparr>tu_input_tokens = ir_input_tokens resp, tu_output_tokens = ir_output_tokens resp\<rparr> in
      bind_r (TokenUsage_post_init usage) (\<lambda>_.
      bind_r (InferenceTiming_post_init (ir_latency_ms resp)) (\<lambda>_.
      Inr \<lparr>ar_text = ir_text resp, ar_finish_reason = legacy_finish_reason (ir_metadata resp),
           ar_usage = usage, ar_total_ms = ir_latency_ms resp, ar_metadata = ir_metadata resp,
           ar_reasoning = None\<rparr>)))"

definition execute_task ::
    "turn \<Rightarrow> RegisteredDeployment \<Rightarrow> InferenceTask \<Rightarrow> (AdapterInferenceResult \<times> IdentityAssessment) reply" where
  "execute_task tn r task =
     bind_reply (inspect_identity r (tn_discovery tn r)) (\<lambda>inspection.
     if ia_status (ii_assessment inspection) = MISMATCH
     then Failure (failure_of IdentityMismatchFailure (Some (rg_id r)) None)
     else bind_reply
       (if eng_typed (rg_engine r) then tn_typed tn r task
        else case task_to_legacy_request task of
               Inl f \<Rightarrow> Failure f
             | Inr request \<Rightarrow> bind_reply (tn_legacy tn r request) (\<lambda>response.
                 case normalize_legacy_response response of Inl e \<Rightarrow> Crash e | Inr result \<Rightarrow> Reply result))
       (\<lambda>result. Reply (result, ii_assessment inspection)))"

definition within_budget :: "'a reply \<Rightarrow> rat option \<Rightarrow> 'a reply" where
  "within_budget awaited remaining =
     (case remaining of None \<Rightarrow> awaited | Some s \<Rightarrow> if max s 0 \<le> 0 then TimedOut else awaited)"

definition monotonic_deadline :: "ExecutionPolicy \<Rightarrow> InferenceTask \<Rightarrow> instant \<Rightarrow> rat \<Rightarrow> rat" where
  "monotonic_deadline policy task wall_now mono_now =
     (case it_deadline_at task of
        None \<Rightarrow> mono_now + ep_default_deadline_seconds policy
      | Some d \<Rightarrow> mono_now + max (of_int (instant_of d - wall_now) / 1000000) 0)"

definition remaining_until :: "rat option \<Rightarrow> clock \<Rightarrow> rat option" where
  "remaining_until deadline c = map_option (\<lambda>d. d - mono c) deadline"

definition remaining_with ::
    "'b budget_ops \<Rightarrow> 'b option \<Rightarrow> rat option \<Rightarrow> clock \<Rightarrow> clock \<Rightarrow> exn + rat option" where
  "remaining_with ops budget deadline c1 c2 =
     (case budget of
        None \<Rightarrow> Inr (remaining_until deadline c1)
      | Some b \<Rightarrow> bind_r (op_remaining ops c2 b) (\<lambda>left.
          Inr (Some (case remaining_until deadline c1 of None \<Rightarrow> left | Some s \<Rightarrow> min s left))))"

definition build_provenance :: "RegisteredDeployment \<Rightarrow> IdentityAssessment \<Rightarrow> DeploymentProvenance" where
  "build_provenance r identity =
     (let effective = (case ia_observed identity of None \<Rightarrow> dr_model (rg_ref r) | Some ob \<Rightarrow> Some (mo_model ob)) in
      \<lparr>dp_deployment_id = rg_id r, dp_engine_name = dr_engine_name (rg_ref r),
       dp_model_artifact_id = map_option artifact_id effective,
       dp_model_revision = Option.bind effective revision,
       dp_model_verification = ia_status identity,
       dp_engine_version = dr_engine_version (rg_ref r),
       dp_serving_runtime = dr_serving_runtime (rg_ref r)\<rparr>)"

section \<open>The execution loop\<close>

record 'b run =
  run_budget :: "'b option"
  run_states :: "RuntimeStateStore option"
  run_attempts :: "ExecutionAttempt list"
  run_last :: "failure option"

datatype 'b turn_result = Skip | Again "'b run" | Onward "'b run" | Stop "'b run" "InferenceResult outcome"

definition raised :: "RoutingDecision \<Rightarrow> ExecutionAttempt list \<Rightarrow> failure \<Rightarrow> InferenceResult outcome" where
  "raised decision attempts f =
     Raised \<lparr>rf_failure = f, rf_attempts = attempts, rf_decision = Some decision, rf_rejections = []\<rparr>"

definition terminal_deadline :: "RoutingDecision \<Rightarrow> ExecutionAttempt list \<Rightarrow> InferenceResult outcome" where
  "terminal_deadline decision attempts = raised decision attempts (failure_of DeadlineExceededFailure None None)"

definition availability ::
    "'b budget_ops \<Rightarrow> RoutingDecision \<Rightarrow> rat option \<Rightarrow> turn \<Rightarrow> RegisteredDeployment \<Rightarrow> 'b run \<Rightarrow>
       InferenceResult outcome + bool" where
  "availability ops decision deadline tn r st =
     (case run_states st of
        Some store \<Rightarrow> Inr (is_routable (wall (tn_clock tn 0)) (get_state store (rg_id r)))
      | None \<Rightarrow>
          (case remaining_with ops (run_budget st) deadline (tn_clock tn 0) (tn_clock tn 1) of
             Inl e \<Rightarrow> Inl (EscapedError e)
           | Inr remaining \<Rightarrow>
               if (case remaining of None \<Rightarrow> False | Some s \<Rightarrow> s \<le> 0)
               then Inl (terminal_deadline decision (run_attempts st))
               else (case within_budget (tn_available tn r) remaining of
                       Reply b \<Rightarrow> Inr b
                     | TimedOut \<Rightarrow> Inl (terminal_deadline decision (run_attempts st))
                     | Failure f \<Rightarrow> Inl (EscapedFailure f)
                     | Cancelled \<Rightarrow> Inl EscapedCancel
                     | Crash e \<Rightarrow> Inl (EscapedError e))))"

definition reserve_turn :: "'b budget_ops \<Rightarrow> turn \<Rightarrow> 'b run \<Rightarrow> exn + ('b run \<times> bool)" where
  "reserve_turn ops tn st =
     (case run_budget st of
        None \<Rightarrow> Inr (st, True)
      | Some b \<Rightarrow> map_r (\<lambda>(b', granted). (st\<lparr>run_budget := Some b'\<rparr>, granted))
                   (op_reserve ops (tn_clock tn 2) b))"

definition budget_exceeded ::
    "('b \<Rightarrow> exn + int) \<Rightarrow> RoutingDecision \<Rightarrow> 'b run \<Rightarrow> InferenceResult outcome" where
  "budget_exceeded reading decision st =
     (case run_budget st of
        None \<Rightarrow> raised decision (run_attempts st) (failure_of WorkflowBudgetExceededFailure None None)
      | Some b \<Rightarrow> (case reading b of
            Inl e \<Rightarrow> EscapedError e
          | Inr _ \<Rightarrow> raised decision (run_attempts st) (failure_of WorkflowBudgetExceededFailure None None)))"

definition make_attempt ::
    "turn \<Rightarrow> RegisteredDeployment \<Rightarrow> int \<Rightarrow> failure option \<Rightarrow> exn + ExecutionAttempt" where
  "make_attempt tn r sequence failed =
     (let a = \<lparr>ea_attempt_id = tn_attempt_id tn, ea_sequence = sequence, ea_deployment_id = rg_id r,
               ea_started_at = Aware (wall (tn_clock tn 3)), ea_finished_at = Aware (wall (tn_clock tn 6)),
               ea_duration_ms = (mono (tn_clock tn 7) - mono (tn_clock tn 3)) * 1000,
               ea_outcome = (if failed = None then SUCCEEDED else FAILED),
               ea_failure_code = map_option (\<lambda>f. failure_code (fl_class f)) failed,
               ea_retry_classification = map_option fl_retry failed,
               ea_schema_version = 2, ea_configured_deployment = Some (rg_ref r)\<rparr> in
      bind_r (ExecutionAttempt_post_init a) (\<lambda>_. Inr a))"

definition add_attempt :: "ExecutionAttempt \<Rightarrow> 'b run \<Rightarrow> 'b run" where
  "add_attempt a st = st\<lparr>run_attempts := run_attempts st @ [a],
     run_states := map_option (record_attempt a) (run_states st)\<rparr>"

definition owned :: "string option \<Rightarrow> string \<Rightarrow> string option" where
  "owned given own = (case given of None \<Rightarrow> Some own | Some s \<Rightarrow> Some (if s = [] then own else s))"

definition backoff ::
    "ExecutionPolicy \<Rightarrow> RoutingDecision \<Rightarrow> rat option \<Rightarrow> clock \<Rightarrow> ExecutionAttempt list \<Rightarrow> InferenceResult outcome option" where
  "backoff policy decision deadline c attempts =
     (let delays = ep_backoff_seconds policy in
      if delays = [] then None
      else let delay = delays ! min (length attempts - 1) (length delays - 1) in
        if (case remaining_until deadline c of None \<Rightarrow> False | Some s \<Rightarrow> delay \<ge> s)
        then Some (terminal_deadline decision attempts) else None)"

definition fail_turn ::
    "RoutingDecision \<Rightarrow> turn \<Rightarrow> RegisteredDeployment \<Rightarrow> failure \<Rightarrow> 'b run \<Rightarrow> ('b run \<Rightarrow> 'b turn_result) \<Rightarrow> 'b turn_result" where
  "fail_turn decision tn r f st continue =
     (case make_attempt tn r (int (length (run_attempts st)) + 1) (Some f) of
        Inl e \<Rightarrow> Stop st (EscapedError e)
      | Inr a \<Rightarrow> continue (add_attempt a st))"

definition stop_failed :: "RoutingDecision \<Rightarrow> failure \<Rightarrow> 'b run \<Rightarrow> 'b turn_result" where
  "stop_failed decision f st = Stop st (raised decision (run_attempts st) f)"

definition handle_failure ::
    "ExecutionPolicy \<Rightarrow> RoutingDecision \<Rightarrow> rat option \<Rightarrow> turn \<Rightarrow> RegisteredDeployment \<Rightarrow> failure \<Rightarrow> 'b run \<Rightarrow> 'b turn_result" where
  "handle_failure policy decision deadline tn r f st =
     (let f' = f\<lparr>fl_deployment_id := owned (fl_deployment_id f) (rg_id r),
                  fl_attempt_id := owned (fl_attempt_id f) (tn_attempt_id tn)\<rparr> in
      fail_turn decision tn r f' (st\<lparr>run_last := Some f'\<rparr>) (\<lambda>st'.
        if fl_retry f' = NEVER then stop_failed decision f' st'
        else case backoff policy decision deadline (tn_clock tn 8) (run_attempts st') of
               Some out \<Rightarrow> Stop st' out
             | None \<Rightarrow> if fl_retry f' = SAME_DEPLOYMENT then Again st' else Onward st'))"

definition succeed_turn ::
    "'b budget_ops \<Rightarrow> RoutingDecision \<Rightarrow> turn \<Rightarrow> RegisteredDeployment \<Rightarrow> AdapterInferenceResult \<Rightarrow> IdentityAssessment \<Rightarrow>
       'b run \<Rightarrow> 'b turn_result" where
  "succeed_turn ops decision tn r result identity st =
     (case make_attempt tn r (int (length (run_attempts st)) + 1) None of
        Inl e \<Rightarrow> Stop st (EscapedError e)
      | Inr a \<Rightarrow>
          let st' = add_attempt a st;
              done = Done \<lparr>re_text = ar_text result, re_finish_reason = ar_finish_reason result,
                       re_usage = ar_usage result, re_total_ms = ar_total_ms result,
                       re_provenance = build_provenance r identity, re_metadata = ar_metadata result, re_reasoning = ar_reasoning result,
                       re_attempts = run_attempts st', re_routing_decision = Some decision\<rparr> in
          (case run_budget st' of
             None \<Rightarrow> Stop st' done
           | Some b \<Rightarrow> (case op_record ops (tu_output_tokens (ar_usage result)) b of
                 Inl e \<Rightarrow> Stop st' (EscapedError e)
               | Inr (b', False) \<Rightarrow>
                   let st2 = st'\<lparr>run_budget := Some b'\<rparr> in
                   Stop st2 (budget_exceeded (op_output_tokens ops) decision st2)
               | Inr (b', True) \<Rightarrow> Stop (st'\<lparr>run_budget := Some b'\<rparr>) done)))"

definition conclude ::
    "router \<Rightarrow> 'b budget_ops \<Rightarrow> RoutingDecision \<Rightarrow> rat option \<Rightarrow> turn \<Rightarrow> RegisteredDeployment \<Rightarrow>
       (AdapterInferenceResult \<times> IdentityAssessment) reply \<Rightarrow> 'b run \<Rightarrow> 'b turn_result" where
  "conclude ro ops decision deadline tn r answer st =
     (case answer of
        TimedOut \<Rightarrow>
          let f = failure_of DeadlineExceededFailure (Some (rg_id r)) (Some (tn_attempt_id tn)) in
          fail_turn decision tn r f st (stop_failed decision f)
      | Cancelled \<Rightarrow>
          let f = failure_of CancelledFailure (Some (rg_id r)) (Some (tn_attempt_id tn)) in
          fail_turn decision tn r f st (stop_failed decision f)
      | Failure f \<Rightarrow> handle_failure (ro_policy ro) decision deadline tn r f st
      | Crash e \<Rightarrow> Stop st (EscapedError e)
      | Reply (result, identity) \<Rightarrow> succeed_turn ops decision tn r result identity st)"

definition run_turn ::
    "router \<Rightarrow> 'b budget_ops \<Rightarrow> InferenceTask \<Rightarrow> RoutingDecision \<Rightarrow> rat option \<Rightarrow> turn \<Rightarrow> RegisteredDeployment \<Rightarrow>
       'b run \<Rightarrow> 'b turn_result" where
  "run_turn ro ops task decision deadline tn r st =
     (if rg_id r \<in> ro_circuit_open ro then Skip
      else case availability ops decision deadline tn r st of
        Inl out \<Rightarrow> Stop st out
      | Inr False \<Rightarrow> Skip
      | Inr True \<Rightarrow>
          (case reserve_turn ops tn st of
             Inl e \<Rightarrow> Stop st (EscapedError e)
           | Inr (st1, False) \<Rightarrow> Stop st1 (budget_exceeded (op_attempts ops) decision st1)
           | Inr (st1, True) \<Rightarrow>
               (case remaining_with ops (run_budget st1) deadline (tn_clock tn 4) (tn_clock tn 5) of
                  Inl e \<Rightarrow> Stop st1 (EscapedError e)
                | Inr remaining \<Rightarrow>
                    conclude ro ops decision deadline tn r (within_budget (execute_task tn r task) remaining) st1)))"

text \<open>A turn that goes on with an attempt has recorded exactly one more.\<close>

lemma fail_turn_cases:
  assumes "fail_turn decision tn r f st continue = res"
  obtains (raises) e where "make_attempt tn r (int (length (run_attempts st)) + 1) (Some f) = Inl e" and "res = Stop st (EscapedError e)"
  | (goes) a where "make_attempt tn r (int (length (run_attempts st)) + 1) (Some f) = Inr a" and "res = continue (add_attempt a st)"
  using assms unfolding fail_turn_def by (cases "make_attempt tn r (int (length (run_attempts st)) + 1) (Some f)") auto

lemma run_attempts_add [simp]: "run_attempts (add_attempt a st) = run_attempts st @ [a]"
  by (simp add: add_attempt_def)

lemma reserve_turn_attempts: "reserve_turn ops tn st = Inr (st1, b) \<Longrightarrow> run_attempts st1 = run_attempts st"
  by (auto simp: reserve_turn_def map_r_eq_Inr split: option.splits)

lemma handle_failure_attempts:
  "handle_failure policy decision deadline tn r f st = Again st' \<or> handle_failure policy decision deadline tn r f st = Onward st' \<Longrightarrow>
     \<exists>a. run_attempts st' = run_attempts st @ [a]"
  by (auto simp: handle_failure_def Let_def fail_turn_def stop_failed_def split: sum.splits if_splits option.splits)

lemma conclude_goes_on:
  assumes "conclude ro ops decision deadline tn r answer st = Again st' \<or> conclude ro ops decision deadline tn r answer st = Onward st'"
  obtains f where "answer = Failure f"
    and "handle_failure (ro_policy ro) decision deadline tn r f st = conclude ro ops decision deadline tn r answer st"
  using assms
  by (cases answer)
     (auto simp: conclude_def Let_def fail_turn_def stop_failed_def succeed_turn_def
           split: sum.splits option.splits prod.splits bool.splits)

lemma run_turn_goes_on:
  assumes "run_turn ro ops task decision deadline tn r st = Again st' \<or> run_turn ro ops task decision deadline tn r st = Onward st'"
  shows "length (run_attempts st') = Suc (length (run_attempts st))"
proof -
  obtain st1 answer where r: "reserve_turn ops tn st = Inr (st1, True)"
    and c: "run_turn ro ops task decision deadline tn r st = conclude ro ops decision deadline tn r answer st1"
    using assms by (auto simp: run_turn_def split: if_splits sum.splits bool.splits prod.splits)
  obtain f where "handle_failure (ro_policy ro) decision deadline tn r f st1 = conclude ro ops decision deadline tn r answer st1"
    using conclude_goes_on assms c by metis
  then have "\<exists>a. run_attempts st' = run_attempts st1 @ [a]"
    using handle_failure_attempts assms c by metis
  then show ?thesis using reserve_turn_attempts [OF r] by auto
qed

function attempt_loop ::
    "router \<Rightarrow> 'b budget_ops \<Rightarrow> InferenceTask \<Rightarrow> RoutingDecision \<Rightarrow> rat option \<Rightarrow> (nat \<Rightarrow> turn) \<Rightarrow> nat \<Rightarrow>
       RegisteredDeployment list \<Rightarrow> 'b run \<Rightarrow> 'b run \<times> InferenceResult outcome" where
  "attempt_loop ro ops task decision deadline turns k ds st =
     (case ds of
        r # rest \<Rightarrow>
          if int (length (run_attempts st)) < ep_max_attempts (ro_policy ro)
          then (case run_turn ro ops task decision deadline (turns k) r st of
                  Skip \<Rightarrow> attempt_loop ro ops task decision deadline turns (Suc k) rest st
                | Again st' \<Rightarrow> attempt_loop ro ops task decision deadline turns (Suc k) ds st'
                | Onward st' \<Rightarrow> attempt_loop ro ops task decision deadline turns (Suc k) rest st'
                | Stop st' out \<Rightarrow> (st', out))
          else (st, raised decision (run_attempts st)
                  (case run_last st of None \<Rightarrow> failure_of DeploymentUnavailableFailure None None | Some f \<Rightarrow> f))
      | [] \<Rightarrow> (st, raised decision (run_attempts st)
                  (case run_last st of None \<Rightarrow> failure_of DeploymentUnavailableFailure None None | Some f \<Rightarrow> f)))"
  by pat_completeness auto
termination
proof (relation "measure (\<lambda>(ro, ops, task, decision, deadline, turns, k, ds, st).
    length ds + nat (ep_max_attempts (ro_policy ro) - int (length (run_attempts st))))", goal_cases)
  case (3 ro ops task decision deadline turns k ds st r rest st')
  then show ?case using run_turn_goes_on [of ro ops task decision deadline "turns k" r st st'] by simp
next
  case (4 ro ops task decision deadline turns k ds st r rest st')
  then show ?case using run_turn_goes_on [of ro ops task decision deadline "turns k" r st st'] by simp
qed auto

declare attempt_loop.simps [simp del]

definition generate_task ::
    "router \<Rightarrow> 'b budget_ops \<Rightarrow> routing_clocks \<Rightarrow> clock \<Rightarrow> (nat \<Rightarrow> turn) \<Rightarrow> RuntimeStateStore option \<Rightarrow> InferenceTask \<Rightarrow>
       string option \<Rightarrow> 'b option \<Rightarrow> 'b run \<times> InferenceResult outcome" where
  "generate_task ro ops rc start turns states task preferred budget =
     (let st = \<lparr>run_budget = budget, run_states = states, run_attempts = [], run_last = None\<rparr> in
      case ro_registry ro of
        Engines _ \<Rightarrow> (st, EscapedError (TypeError ''Typed task execution requires a DeploymentRegistry.''))
      | Deployments reg \<Rightarrow>
          (case ordered_deployments rc states reg task preferred of
             Inl out \<Rightarrow> (st, out)
           | Inr (ordered, decision) \<Rightarrow>
               attempt_loop ro ops task decision
                 (Some (monotonic_deadline (ro_policy ro) task (wall start) (mono start))) turns 0 ordered st))"

section \<open>Selection for the legacy contract\<close>

text \<open>Awaiting \<open>is_available\<close> without a time limit: everything but an answer escapes.\<close>

fun escape :: "'a reply \<Rightarrow> 'r outcome + 'a" where
  "escape (Reply x) = Inr x"
| "escape (Failure f) = Inl (EscapedFailure f)"
| "escape TimedOut = Inl EscapedTimeout"
| "escape Cancelled = Inl EscapedCancel"
| "escape (Crash e) = Inl (EscapedError e)"

definition deployment_available ::
    "RuntimeStateStore option \<Rightarrow> (string \<Rightarrow> instant) \<Rightarrow> (RegisteredDeployment \<Rightarrow> bool reply) \<Rightarrow>
       RegisteredDeployment \<Rightarrow> 'r outcome + bool" where
  "deployment_available states now probe_of r =
     (case states of
        Some store \<Rightarrow> Inr (is_routable (now (rg_id r)) (get_state store (rg_id r)))
      | None \<Rightarrow> escape (probe_of r))"

fun first_available :: "('a \<Rightarrow> 'r outcome + bool) \<Rightarrow> 'a list \<Rightarrow> 'r outcome + 'a option" where
  "first_available available [] = Inr None"
| "first_available available (x # xs) =
     bind_r (available x) (\<lambda>b. if b then Inr (Some x) else first_available available xs)"

definition no_available :: "'r outcome" where
  "no_available = Raised (bare (failure_of DeploymentUnavailableFailure None None))"

definition unknown_preference :: "'r outcome" where
  "unknown_preference = Raised (bare (failure_of UnknownEnginePreferenceFailure None None))"

definition skipped_by :: "string option \<Rightarrow> string \<Rightarrow> bool" where
  "skipped_by preferred name = (case preferred of None \<Rightarrow> False
     | Some e \<Rightarrow> e \<noteq> [] \<and> lower name = lower e)"

definition then_others :: "('a \<Rightarrow> 'r outcome + bool) \<Rightarrow> 'a list \<Rightarrow> 'a list \<Rightarrow> 'r outcome + 'a" where
  "then_others available first others =
     bind_r (first_available available first) (\<lambda>found.
     case found of
       Some x \<Rightarrow> Inr x
     | None \<Rightarrow> bind_r (first_available available others) (\<lambda>found.
         case found of Some x \<Rightarrow> Inr x | None \<Rightarrow> Inl no_available))"

definition select_deployment ::
    "router \<Rightarrow> (RegisteredDeployment \<Rightarrow> 'r outcome + bool) \<Rightarrow> string option \<Rightarrow> 'r outcome + RegisteredDeployment" where
  "select_deployment ro available preferred =
     (case ro_registry ro of
        Engines _ \<Rightarrow> Inl (EscapedError (TypeError ''Deployment selection requires a DeploymentRegistry.''))
      | Deployments reg \<Rightarrow>
          let deployments = all_deployments reg;
              first = (case preferred of None \<Rightarrow> [] | Some e \<Rightarrow> filter (prefers e) deployments) in
          if preferred \<noteq> None \<and> first = [] then Inl unknown_preference
          else then_others available first
                 (filter (\<lambda>r. \<not> skipped_by preferred (eng_name (rg_engine r))) deployments))"

definition select_engine ::
    "router \<Rightarrow> (RegisteredDeployment \<Rightarrow> 'r outcome + bool) \<Rightarrow> (engine \<Rightarrow> 'r outcome + bool) \<Rightarrow> string option \<Rightarrow>
       'r outcome + engine" where
  "select_engine ro available engine_available preferred =
     (case ro_registry ro of
        Deployments _ \<Rightarrow> map_r rg_engine (select_deployment ro available preferred)
      | Engines reg \<Rightarrow>
          (case preferred of
             None \<Rightarrow> then_others engine_available [] (all_engines reg)
           | Some e \<Rightarrow> (case get_engine reg e of
                 Inl _ \<Rightarrow> Inl unknown_preference
               | Inr first \<Rightarrow> then_others engine_available [first]
                   (filter (\<lambda>x. \<not> skipped_by preferred (eng_name x)) (all_engines reg)))))"

definition typed_to_legacy_response :: "InferenceResult \<Rightarrow> InferenceResponse" where
  "typed_to_legacy_response result =
     \<lparr>ir_text = re_text result, ir_model = dp_model_artifact_id (re_provenance result),
      ir_engine = dp_engine_name (re_provenance result), ir_latency_ms = re_total_ms result,
      ir_input_tokens = tu_input_tokens (re_usage result),
      ir_output_tokens = tu_output_tokens (re_usage result),
      ir_metadata = re_metadata result, ir_provenance = Some (re_provenance result)\<rparr>"

text \<open>\<open>generate\<close> for a legacy request: the selected deployment answers and its identity is attached.\<close>

definition generate_legacy ::
    "router \<Rightarrow> (RegisteredDeployment \<Rightarrow> InferenceResponse outcome + bool) \<Rightarrow> (engine \<Rightarrow> InferenceResponse outcome + bool) \<Rightarrow>
       turn \<Rightarrow> (engine \<Rightarrow> InferenceRequest \<Rightarrow> InferenceResponse reply) \<Rightarrow> InferenceRequest \<Rightarrow> string option \<Rightarrow>
       InferenceResponse outcome" where
  "generate_legacy ro available engine_available tn answer request preferred =
     (case ro_registry ro of
        Deployments _ \<Rightarrow>
          (case bind_r (select_deployment ro available preferred) (\<lambda>r.
                bind_r (escape (inspect_identity r (tn_discovery tn r))) (\<lambda>inspection.
                bind_r (escape (tn_legacy tn r request)) (\<lambda>response.
                case normalize_legacy_response response of
                  Inl e \<Rightarrow> Inl (EscapedError e)
                | Inr result \<Rightarrow> Inr (typed_to_legacy_response
                    \<lparr>re_text = ar_text result, re_finish_reason = ar_finish_reason result,
                     re_usage = ar_usage result, re_total_ms = ar_total_ms result,
                     re_provenance = build_provenance r (ii_assessment inspection),
                     re_metadata = ar_metadata result, re_reasoning = ar_reasoning result, re_attempts = [], re_routing_decision = None\<rparr>)))) of
             Inl out \<Rightarrow> out | Inr response \<Rightarrow> Done response)
      | Engines _ \<Rightarrow>
          (case bind_r (select_engine ro available engine_available preferred) (\<lambda>e. escape (answer e request)) of
             Inl out \<Rightarrow> out | Inr response \<Rightarrow> Done response))"

end
