(* ===== verification/RouterProps.thy ===== *)
theory RouterProps
  imports Router
begin

text \<open>
  What the execution loop does, turn by turn, and by induction over the loop. The budget part is proved
  once over the interface of budgets and holds for both providers.
\<close>

section \<open>Turns\<close>

definition attempted :: "router \<Rightarrow> RegisteredDeployment \<Rightarrow> ExecutionAttempt list \<Rightarrow> ExecutionAttempt \<Rightarrow> bool" where
  "attempted ro r earlier a \<longleftrightarrow> ExecutionAttempt_post_init a = Inr () \<and> ea_sequence a = int (length earlier) + 1
     \<and> ea_deployment_id a = rg_id r \<and> rg_id r \<notin> ro_circuit_open ro"

definition retryable_failure :: "ExecutionAttempt \<Rightarrow> bool" where
  "retryable_failure a \<longleftrightarrow> ea_outcome a = FAILED
     \<and> ea_retry_classification a \<in> {Some SAME_DEPLOYMENT, Some OTHER_DEPLOYMENT}"

lemma make_attemptD:
  assumes "make_attempt tn r n failed = Inr a"
  shows "ExecutionAttempt_post_init a = Inr ()" and "ea_sequence a = n" and "ea_deployment_id a = rg_id r"
    and "ea_outcome a = (if failed = None then SUCCEEDED else FAILED)"
    and "ea_retry_classification a = map_option fl_retry failed"
  using assms by (auto simp: make_attempt_def Let_def bind_r_eq_Inr)

definition reported :: "ExecutionAttempt list \<Rightarrow> InferenceResult outcome \<Rightarrow> bool" where
  "reported as out \<longleftrightarrow> (case out of
     Done res \<Rightarrow> re_attempts res = as \<and> as \<noteq> [] \<and> ea_outcome (last as) = SUCCEEDED
       \<and> dp_deployment_id (re_provenance res) = ea_deployment_id (last as)
       \<and> dp_model_verification (re_provenance res) \<noteq> MISMATCH
   | Raised rf \<Rightarrow> rf_attempts rf = as
   | _ \<Rightarrow> True)"

lemma reported_simps [simp]:
  "reported as (raised decision as f)" "reported as (terminal_deadline decision as)" "reported as (EscapedError e)"
  by (simp_all add: reported_def raised_def terminal_deadline_def)

lemma reported_budget [simp]: "reported (run_attempts st) (budget_exceeded reading decision st)"
  by (simp add: budget_exceeded_def split: option.splits sum.splits)

lemma reserve_turnD:
  assumes "reserve_turn ops tn st = Inr (st1, b)"
  shows "run_attempts st1 = run_attempts st" and "run_states st1 = run_states st" and "run_last st1 = run_last st"
    and "run_budget st = None \<and> st1 = st \<and> b \<or>
      (\<exists>b0 b1. run_budget st = Some b0 \<and> op_reserve ops (tn_clock tn 2) b0 = Inr (b1, b) \<and> run_budget st1 = Some b1)"
  using assms by (auto simp: reserve_turn_def map_r_eq_Inr split: option.splits)

lemma availability_reported: "availability ops decision deadline tn r st = Inl out \<Longrightarrow> reported (run_attempts st) out"
  by (auto simp: availability_def reported_def terminal_deadline_def raised_def
      split: option.splits sum.splits if_splits reply.splits)

lemma execute_identity:
  assumes "within_budget (execute_task tn r task) remaining = Reply (result, identity)"
  shows "ia_status identity \<noteq> MISMATCH"
proof -
  have "execute_task tn r task = Reply (result, identity)"
    using assms by (auto simp: within_budget_def split: option.splits if_splits)
  then obtain ins where i: "inspect_identity r (tn_discovery tn r) = Reply ins"
    and e: "(if ia_status (ii_assessment ins) = MISMATCH
       then Failure (failure_of IdentityMismatchFailure (Some (rg_id r)) None)
       else bind_reply
         (if eng_typed (rg_engine r) then tn_typed tn r task
          else case task_to_legacy_request task of
                 Inl f \<Rightarrow> Failure f
               | Inr request \<Rightarrow> bind_reply (tn_legacy tn r request) (\<lambda>response.
                   case normalize_legacy_response response of Inl e \<Rightarrow> Crash e | Inr result \<Rightarrow> Reply result))
         (\<lambda>result. Reply (result, ii_assessment ins))) = Reply (result, identity)"
    unfolding execute_task_def by (cases "inspect_identity r (tn_discovery tn r)") auto
  have bind: "bind_reply m (\<lambda>x. Reply (x, y)) = Reply (x0, y0) \<Longrightarrow> y0 = y"
    for m :: "'z reply" and x0 and y y0 :: IdentityAssessment by (cases m) auto
  from e show ?thesis by (cases "ia_status (ii_assessment ins) = MISMATCH") (auto dest: bind)
qed

text \<open>The three ways a turn can end.\<close>

definition turn_ok :: "router \<Rightarrow> RegisteredDeployment \<Rightarrow> ExecutionAttempt list \<Rightarrow> 'b turn_result \<Rightarrow> bool" where
  "turn_ok ro r earlier res \<longleftrightarrow> (case res of
     Skip \<Rightarrow> True
   | Again st' \<Rightarrow> \<exists>a. run_attempts st' = earlier @ [a] \<and> attempted ro r earlier a \<and> retryable_failure a
   | Onward st' \<Rightarrow> \<exists>a. run_attempts st' = earlier @ [a] \<and> attempted ro r earlier a \<and> retryable_failure a
   | Stop st' out \<Rightarrow> reported (run_attempts st') out
       \<and> (run_attempts st' = earlier \<or> (\<exists>a. run_attempts st' = earlier @ [a] \<and> attempted ro r earlier a)))"

lemma attempted_made:
  "make_attempt tn r (int (length earlier) + 1) failed = Inr a \<Longrightarrow> rg_id r \<notin> ro_circuit_open ro \<Longrightarrow> attempted ro r earlier a"
  using make_attemptD(1-3) by (fastforce simp: attempted_def)

lemma succeed_turn_ok:
  assumes "rg_id r \<notin> ro_circuit_open ro" and "ia_status identity \<noteq> MISMATCH"
  shows "turn_ok ro r (run_attempts st) (succeed_turn ops decision tn r result identity st)"
proof (cases "make_attempt tn r (int (length (run_attempts st)) + 1) None")
  case (Inl e)
  then show ?thesis by (simp add: succeed_turn_def turn_ok_def)
next
  case (Inr a)
  have at: "attempted ro r (run_attempts st) a" using attempted_made [OF Inr assms(1)] .
  let ?st = "add_attempt a st"
  define finished where "finished = Done \<lparr>re_text = ar_text result, re_finish_reason = ar_finish_reason result,
      re_usage = ar_usage result, re_total_ms = ar_total_ms result,
      re_provenance = build_provenance r identity, re_metadata = ar_metadata result,
      re_reasoning = ar_reasoning result, re_attempts = run_attempts ?st, re_routing_decision = Some decision\<rparr>"
  have fin: "reported (run_attempts st @ [a]) finished"
    using make_attemptD(3,4) [OF Inr] assms(2) by (simp add: reported_def finished_def build_provenance_def Let_def)
  have S: "succeed_turn ops decision tn r result identity st =
      (case run_budget ?st of
         None \<Rightarrow> Stop ?st finished
       | Some b \<Rightarrow> (case op_record ops (tu_output_tokens (ar_usage result)) b of
             Inl e \<Rightarrow> Stop ?st (EscapedError e)
           | Inr (b', False) \<Rightarrow> Stop (?st\<lparr>run_budget := Some b'\<rparr>)
               (budget_exceeded (op_output_tokens ops) decision (?st\<lparr>run_budget := Some b'\<rparr>))
           | Inr (b', True) \<Rightarrow> Stop (?st\<lparr>run_budget := Some b'\<rparr>) finished))"
    unfolding succeed_turn_def Inr finished_def Let_def by simp
  have "reported (run_attempts st @ [a]) (budget_exceeded reading decision (?st\<lparr>run_budget := x\<rparr>))" for reading x
    using reported_budget [of "?st\<lparr>run_budget := x\<rparr>" reading decision] by simp
  then show ?thesis unfolding S
    using fin at by (auto simp: turn_ok_def split: option.splits sum.splits prod.splits bool.splits)
qed

lemma fail_turn_ok:
  assumes "rg_id r \<notin> ro_circuit_open ro"
    and "\<And>a. make_attempt tn r (int (length (run_attempts st)) + 1) (Some f) = Inr a \<Longrightarrow>
      turn_ok ro r (run_attempts st) (continue (add_attempt a st))"
  shows "turn_ok ro r (run_attempts st) (fail_turn decision tn r f st continue)"
  using assms(2)
  by (cases "make_attempt tn r (int (length (run_attempts st)) + 1) (Some f)") (auto simp: fail_turn_def turn_ok_def)

lemma backoff_reported: "backoff policy decision deadline c as = Some out \<Longrightarrow> reported as out"
  by (auto simp: backoff_def Let_def split: if_splits)

lemma handle_failure_ok:
  assumes "rg_id r \<notin> ro_circuit_open ro"
  shows "turn_ok ro r (run_attempts st) (handle_failure policy decision deadline tn r f st)"
proof -
  let ?f = "f\<lparr>fl_deployment_id := owned (fl_deployment_id f) (rg_id r), fl_attempt_id := owned (fl_attempt_id f) (tn_attempt_id tn)\<rparr>"
  let ?st = "st\<lparr>run_last := Some ?f\<rparr>"
  have "turn_ok ro r (run_attempts ?st) (fail_turn decision tn r ?f ?st (\<lambda>st'.
        if fl_retry ?f = NEVER then stop_failed decision ?f st'
        else case backoff policy decision deadline (tn_clock tn 8) (run_attempts st') of
               Some out \<Rightarrow> Stop st' out
             | None \<Rightarrow> if fl_retry ?f = SAME_DEPLOYMENT then Again st' else Onward st'))"
  proof (rule fail_turn_ok [OF assms])
    fix a assume m: "make_attempt tn r (int (length (run_attempts ?st)) + 1) (Some ?f) = Inr a"
    have at: "attempted ro r (run_attempts st) a" using attempted_made [OF m assms] by simp
    have "retryable_failure a" if "fl_retry f \<noteq> NEVER"
      using make_attemptD(4,5) [OF m] that by (cases "fl_retry f") (auto simp: retryable_failure_def)
    then show "turn_ok ro r (run_attempts ?st) (if fl_retry ?f = NEVER then stop_failed decision ?f (add_attempt a ?st)
        else case backoff policy decision deadline (tn_clock tn 8) (run_attempts (add_attempt a ?st)) of
               Some out \<Rightarrow> Stop (add_attempt a ?st) out
             | None \<Rightarrow> if fl_retry ?f = SAME_DEPLOYMENT then Again (add_attempt a ?st) else Onward (add_attempt a ?st))"
      using at by (auto simp: turn_ok_def stop_failed_def backoff_reported split: option.splits)
  qed
  then show ?thesis by (simp add: handle_failure_def Let_def)
qed

lemma fail_stop_ok:
  assumes "rg_id r \<notin> ro_circuit_open ro"
  shows "turn_ok ro r (run_attempts st) (fail_turn decision tn r f st (stop_failed decision f))"
proof (rule fail_turn_ok [OF assms])
  fix a assume "make_attempt tn r (int (length (run_attempts st)) + 1) (Some f) = Inr a"
  from attempted_made [OF this assms] show "turn_ok ro r (run_attempts st) (stop_failed decision f (add_attempt a st))"
    by (simp add: turn_ok_def stop_failed_def)
qed

lemma conclude_ok:
  assumes "rg_id r \<notin> ro_circuit_open ro"
    and "\<And>result identity. answer = Reply (result, identity) \<Longrightarrow> ia_status identity \<noteq> MISMATCH"
  shows "turn_ok ro r (run_attempts st) (conclude ro ops decision deadline tn r answer st)"
proof (cases answer)
  case (Reply p)
  obtain result identity where p: "p = (result, identity)" by (cases p)
  have "ia_status identity \<noteq> MISMATCH" using assms(2) Reply p by blast
  from succeed_turn_ok [OF assms(1) this] show ?thesis by (simp add: conclude_def Reply p)
next
  case (Failure f)
  then show ?thesis using handle_failure_ok [OF assms(1)] by (simp add: conclude_def)
next
  case TimedOut
  then show ?thesis using fail_stop_ok [OF assms(1)] by (simp add: conclude_def Let_def)
next
  case Cancelled
  then show ?thesis using fail_stop_ok [OF assms(1)] by (simp add: conclude_def Let_def)
next
  case (Crash e)
  then show ?thesis by (simp add: conclude_def turn_ok_def)
qed

lemma run_turn_ok: "turn_ok ro r (run_attempts st) (run_turn ro ops task decision deadline tn r st)"
proof (cases "rg_id r \<in> ro_circuit_open ro")
  case True then show ?thesis by (simp add: run_turn_def turn_ok_def)
next
  case closed: False
  show ?thesis
  proof (cases "availability ops decision deadline tn r st")
    case (Inl out)
    then show ?thesis using availability_reported [OF Inl] closed by (simp add: run_turn_def turn_ok_def)
  next
    case av: (Inr b)
    show ?thesis
    proof (cases "b \<and> (\<exists>st1. reserve_turn ops tn st = Inr (st1, True))")
      case True
      then obtain st1 where r: "reserve_turn ops tn st = Inr (st1, True)" by blast
      note R = reserve_turnD(1) [OF r]
      show ?thesis
      proof (cases "remaining_with ops (run_budget st1) deadline (tn_clock tn 4) (tn_clock tn 5)")
        case (Inl e)
        then show ?thesis using closed av True r R by (simp add: run_turn_def turn_ok_def)
      next
        case (Inr remaining)
        have "run_turn ro ops task decision deadline tn r st =
            conclude ro ops decision deadline tn r (within_budget (execute_task tn r task) remaining) st1"
          using closed av True r Inr by (simp add: run_turn_def)
        then show ?thesis
          using conclude_ok [OF closed, of "within_budget (execute_task tn r task) remaining" st1] execute_identity R
          by metis
      qed
    next
      case False
      show ?thesis
      proof (cases "reserve_turn ops tn st")
        case (Inl e)
        then show ?thesis using closed av by (cases b) (simp_all add: run_turn_def turn_ok_def)
      next
        case (Inr p)
        obtain st1 c where p: "p = (st1, c)" by (cases p)
        have "b \<Longrightarrow> \<not> c" using False Inr p by auto
        then show ?thesis
          using closed av Inr p reserve_turnD(1) [of ops tn st st1 c] reported_budget [of st1 "op_attempts ops" decision]
          by (cases b) (auto simp: run_turn_def turn_ok_def)
      qed
    qed
  qed
qed

section \<open>The loop\<close>

definition trace_ok :: "router \<Rightarrow> string set \<Rightarrow> ExecutionAttempt list \<Rightarrow> bool" where
  "trace_ok ro ids as \<longleftrightarrow> (\<forall>i < length as. ea_sequence (as ! i) = int i + 1)
     \<and> (\<forall>a \<in> set as. ExecutionAttempt_post_init a = Inr () \<and> ea_deployment_id a \<in> ids - ro_circuit_open ro)
     \<and> (\<forall>a \<in> set (butlast as). retryable_failure a)"

definition within_attempts :: "router \<Rightarrow> ExecutionAttempt list \<Rightarrow> bool" where
  "within_attempts ro as \<longleftrightarrow> int (length as) \<le> max 0 (ep_max_attempts (ro_policy ro))"

lemma trace_snoc:
  assumes "trace_ok ro ids as" and "\<forall>a \<in> set as. retryable_failure a" and "attempted ro r as a" and "rg_id r \<in> ids"
  shows "trace_ok ro ids (as @ [a])"
  using assms by (auto simp: trace_ok_def attempted_def nth_append less_Suc_eq)

lemma attempt_loop_done:
  "ds = [] \<or> \<not> int (length (run_attempts st)) < ep_max_attempts (ro_policy ro) \<Longrightarrow>
   attempt_loop ro ops task decision deadline turns k ds st = (st, raised decision (run_attempts st)
     (case run_last st of None \<Rightarrow> failure_of DeploymentUnavailableFailure None None | Some f \<Rightarrow> f))"
  by (subst attempt_loop.simps) (auto split: list.splits)

lemma attempt_loop_step:
  "int (length (run_attempts st)) < ep_max_attempts (ro_policy ro) \<Longrightarrow>
   attempt_loop ro ops task decision deadline turns k (r # rest) st =
     (case run_turn ro ops task decision deadline (turns k) r st of
        Skip \<Rightarrow> attempt_loop ro ops task decision deadline turns (Suc k) rest st
      | Again st' \<Rightarrow> attempt_loop ro ops task decision deadline turns (Suc k) (r # rest) st'
      | Onward st' \<Rightarrow> attempt_loop ro ops task decision deadline turns (Suc k) rest st'
      | Stop st' out \<Rightarrow> (st', out))"
  by (subst attempt_loop.simps) simp

lemma attempt_loop_trace:
  assumes "attempt_loop ro ops task decision deadline turns k ds st = (st', out)"
    and "rg_id ` set ds \<subseteq> ids" and "trace_ok ro ids (run_attempts st)"
    and "\<forall>a \<in> set (run_attempts st). retryable_failure a" and "within_attempts ro (run_attempts st)"
  shows "trace_ok ro ids (run_attempts st') \<and> within_attempts ro (run_attempts st') \<and> reported (run_attempts st') out"
  using assms
proof (induction ro ops task decision deadline turns k ds st rule: attempt_loop.induct)
  case (1 ro ops task decision deadline turns k ds st)
  show ?case
  proof (cases ds)
    case Nil
    then show ?thesis using 1 by (auto simp: attempt_loop_done)
  next
    case (Cons r rest)
    let ?as = "run_attempts st"
    show ?thesis
    proof (cases "int (length ?as) < ep_max_attempts (ro_policy ro)")
      case False
      then show ?thesis using 1 Cons by (auto simp: attempt_loop_done)
    next
      case True
      note T = run_turn_ok [of ro r st ops task decision deadline "turns k"]
      have rid: "rg_id r \<in> ids" and rest: "rg_id ` set rest \<subseteq> ids" using 1(5) Cons by auto
      have snoc: "trace_ok ro ids (?as @ [a])" "within_attempts ro (?as @ [a])" if "attempted ro r ?as a" for a
        using trace_snoc [OF 1(6) 1(7) that rid] True by (simp_all add: within_attempts_def)
      have next_ok: "trace_ok ro ids (run_attempts st1) \<and> (\<forall>a \<in> set (run_attempts st1). retryable_failure a)
          \<and> within_attempts ro (run_attempts st1)"
        if ex: "\<exists>a. run_attempts st1 = ?as @ [a] \<and> attempted ro r ?as a \<and> retryable_failure a" for st1 :: "'a run"
        using ex snoc 1(7) by auto
      show ?thesis
      proof (cases "run_turn ro ops task decision deadline (turns k) r st")
        case Skip
        then have "attempt_loop ro ops task decision deadline turns (Suc k) rest st = (st', out)"
          using 1(4) Cons True by (simp add: attempt_loop_step)
        then show ?thesis using 1(1) [OF Cons True Skip _ rest] 1(6,7,8) by simp
      next
        case (Again st1)
        then have "attempt_loop ro ops task decision deadline turns (Suc k) ds st1 = (st', out)"
          using 1(4) Cons True by (simp add: attempt_loop_step)
        then show ?thesis using 1(2) [OF Cons True Again _ 1(5)] next_ok T Again by (simp add: turn_ok_def)
      next
        case (Onward st1)
        then have "attempt_loop ro ops task decision deadline turns (Suc k) rest st1 = (st', out)"
          using 1(4) Cons True by (simp add: attempt_loop_step)
        then show ?thesis using 1(3) [OF Cons True Onward _ rest] next_ok T Onward by (simp add: turn_ok_def)
      next
        case (Stop st1 out1)
        then have "st' = st1" "out = out1"
          using 1(4) Cons True by (simp_all add: attempt_loop_step)
        then show ?thesis using T Stop snoc 1(6,8) by (auto simp: turn_ok_def)
      qed
    qed
  qed
qed

text \<open>The loop makes at most one turn per deployment and one per attempt it may still make.\<close>

lemma attempt_loop_turns:
  assumes "\<forall>j < k + length ds + nat (ep_max_attempts (ro_policy ro) - int (length (run_attempts st))). turns j = turns' j"
  shows "attempt_loop ro ops task decision deadline turns k ds st = attempt_loop ro ops task decision deadline turns' k ds st"
  using assms
proof (induction ro ops task decision deadline turns k ds st rule: attempt_loop.induct)
  case (1 ro ops task decision deadline turns k ds st)
  show ?case
  proof (cases "\<exists>r rest. ds = r # rest \<and> int (length (run_attempts st)) < ep_max_attempts (ro_policy ro)")
    case False
    then show ?thesis by (cases ds) (auto simp: attempt_loop_done)
  next
    case True
    then obtain r rest where ds: "ds = r # rest" and m: "int (length (run_attempts st)) < ep_max_attempts (ro_policy ro)"
      by blast
    have k: "turns' k = turns k" using 1(4) ds by simp
    let ?t = "run_turn ro ops task decision deadline (turns k) r st"
    have grow: "length (run_attempts st') = Suc (length (run_attempts st))" if "?t = Again st' \<or> ?t = Onward st'" for st'
      using run_turn_goes_on [OF that] .
    show ?thesis
    proof (cases ?t)
      case Skip
      have "\<forall>j < Suc k + length rest + nat (ep_max_attempts (ro_policy ro) - int (length (run_attempts st))). turns j = turns' j"
        using 1(4) ds by simp
      from 1(1) [OF ds m Skip this] show ?thesis using ds m Skip k by (simp add: attempt_loop_step)
    next
      case (Again st')
      have "\<forall>j < Suc k + length ds + nat (ep_max_attempts (ro_policy ro) - int (length (run_attempts st'))). turns j = turns' j"
        using 1(4) m grow [of st'] Again by simp
      from 1(2) [OF ds m Again this] show ?thesis using ds m Again k by (simp add: attempt_loop_step)
    next
      case (Onward st')
      have "\<forall>j < Suc k + length rest + nat (ep_max_attempts (ro_policy ro) - int (length (run_attempts st'))). turns j = turns' j"
        using 1(4) m grow [of st'] Onward ds by simp
      from 1(3) [OF ds m Onward this] show ?thesis using ds m Onward k by (simp add: attempt_loop_step)
    next
      case (Stop st' out)
      then show ?thesis using ds m k by (simp add: attempt_loop_step)
    qed
  qed
qed

section \<open>Spending a budget\<close>

context attempt_budget
begin

definition accounted :: "'b run \<Rightarrow> 'b run \<Rightarrow> bool" where
  "accounted st st' \<longleftrightarrow> (case (run_budget st, run_budget st') of
     (None, None) \<Rightarrow> True
   | (Some b, Some b') \<Rightarrow> valid b' \<and> limit b' = limit b
       \<and> int (length (run_attempts st')) - int (length (run_attempts st)) \<le> spent b' - spent b
   | _ \<Rightarrow> False)"

definition valid_run :: "'b run \<Rightarrow> bool" where
  "valid_run st \<longleftrightarrow> (\<forall>b. run_budget st = Some b \<longrightarrow> valid b)"

lemma accounted_refl: "valid_run st \<Longrightarrow> accounted st st"
  by (auto simp: accounted_def valid_run_def split: option.splits)

lemma accounted_trans: "accounted st1 st2 \<Longrightarrow> accounted st2 st3 \<Longrightarrow> accounted st1 st3"
  by (auto simp: accounted_def split: option.splits)

lemma accounted_valid: "accounted st st' \<Longrightarrow> valid_run st'"
  by (auto simp: accounted_def valid_run_def split: option.splits)

text \<open>A granted reservation pays for the attempt the turn makes.\<close>

definition granted :: "'b run \<Rightarrow> 'b run \<Rightarrow> bool" where
  "granted st st1 \<longleftrightarrow> run_attempts st1 = run_attempts st \<and> (case (run_budget st, run_budget st1) of
     (None, None) \<Rightarrow> True
   | (Some b, Some b') \<Rightarrow> valid b' \<and> limit b' = limit b \<and> spent b + 1 \<le> spent b'
   | _ \<Rightarrow> False)"

lemma reserve_granted: "reserve_turn ops tn st = Inr (st1, True) \<Longrightarrow> valid_run st \<Longrightarrow> granted st st1"
  using reserve_turnD(1,4) [of ops tn st st1 True] reserve_law
  by (fastforce simp: granted_def valid_run_def split: option.splits)

lemma reserve_refused: "reserve_turn ops tn st = Inr (st1, False) \<Longrightarrow> valid_run st \<Longrightarrow> accounted st st1"
  using reserve_turnD(1,4) [of ops tn st st1 False] reserve_law
  by (fastforce simp: accounted_def valid_run_def split: option.splits)

lemma granted_pays:
  assumes "granted st st1" and "run_budget st' = run_budget st1"
    and "run_attempts st' = run_attempts st1 \<or> (\<exists>a. run_attempts st' = run_attempts st1 @ [a])"
  shows "accounted st st'"
  using assms by (auto simp: granted_def accounted_def split: option.splits)

definition result_state :: "'b run \<Rightarrow> 'b turn_result \<Rightarrow> 'b run" where
  "result_state st res = (case res of Skip \<Rightarrow> st | Again st' \<Rightarrow> st' | Onward st' \<Rightarrow> st' | Stop st' _ \<Rightarrow> st')"

lemma fail_turn_budget:
  assumes "\<And>a. run_budget (result_state st (continue (add_attempt a st))) = run_budget st
      \<and> run_attempts (result_state st (continue (add_attempt a st))) = run_attempts st @ [a]"
  shows "run_budget (result_state st (fail_turn decision tn r f st continue)) = run_budget st
    \<and> (run_attempts (result_state st (fail_turn decision tn r f st continue)) = run_attempts st
       \<or> (\<exists>a. run_attempts (result_state st (fail_turn decision tn r f st continue)) = run_attempts st @ [a]))"
  using assms by (auto simp: fail_turn_def result_state_def split: sum.splits)

lemma add_attempt_budget [simp]: "run_budget (add_attempt a st) = run_budget st"
  by (simp add: add_attempt_def)

lemma stop_failed_state: "result_state st0 (stop_failed decision f st) = st"
  by (simp add: stop_failed_def result_state_def)

lemma handle_failure_budget:
  fixes st :: "'b run"
  shows "run_budget (result_state st (handle_failure policy decision deadline tn r f st)) = run_budget st
    \<and> (run_attempts (result_state st (handle_failure policy decision deadline tn r f st)) = run_attempts st
       \<or> (\<exists>a. run_attempts (result_state st (handle_failure policy decision deadline tn r f st)) = run_attempts st @ [a]))"
  by (auto simp: handle_failure_def Let_def fail_turn_def stop_failed_def result_state_def
      split: sum.splits option.splits if_splits)

lemma succeed_turn_budget:
  assumes "granted st0 st"
  shows "accounted st0 (result_state st (succeed_turn ops decision tn r result identity st))"
proof (cases "make_attempt tn r (int (length (run_attempts st)) + 1) None")
  case (Inl e)
  then show ?thesis using granted_pays [OF assms, of st] by (simp add: succeed_turn_def result_state_def)
next
  case (Inr a)
  have paid: "accounted st0 (add_attempt a st)" by (rule granted_pays [OF assms]) simp_all
  show ?thesis
  proof (cases "run_budget st")
    case None
    then show ?thesis using Inr paid by (simp add: succeed_turn_def Let_def result_state_def)
  next
    case (Some b)
    have vb: "valid b" using accounted_valid [OF paid] Some by (simp add: valid_run_def)
    show ?thesis
    proof (cases "op_record ops (tu_output_tokens (ar_usage result)) b")
      case (Inl e)
      then show ?thesis using Inr Some paid by (simp add: succeed_turn_def Let_def result_state_def)
    next
      case rec: (Inr p)
      obtain b' c where p: "p = (b', c)" by (cases p)
      have law: "valid b' \<and> limit b' = limit b \<and> spent b \<le> spent b'"
        using record_law [OF vb, of "tu_output_tokens (ar_usage result)" b' c] rec p by blast
      have st2: "accounted st0 ((add_attempt a st)\<lparr>run_budget := Some b'\<rparr>)"
        using paid Some law by (auto simp: accounted_def split: option.splits)
      then show ?thesis using Inr Some rec p by (cases c) (simp_all add: succeed_turn_def Let_def result_state_def)
    qed
  qed
qed

lemma conclude_budget:
  assumes "granted st0 st"
  shows "accounted st0 (result_state st (conclude ro ops decision deadline tn r answer st))"
proof (cases answer)
  case (Reply p)
  then show ?thesis using succeed_turn_budget [OF assms] by (cases p) (simp add: conclude_def)
next
  case (Failure f)
  show ?thesis
    unfolding conclude_def Failure reply.case
    using handle_failure_budget [of st "ro_policy ro" decision deadline tn r f] by (intro granted_pays [OF assms]) blast+
next
  case TimedOut
  then show ?thesis
    unfolding conclude_def TimedOut reply.case Let_def
    using fail_turn_budget [of st "stop_failed decision (failure_of DeadlineExceededFailure (Some (rg_id r)) (Some (tn_attempt_id tn)))"]
    by (intro granted_pays [OF assms]) (simp_all add: stop_failed_state)
next
  case Cancelled
  then show ?thesis
    unfolding conclude_def Cancelled reply.case Let_def
    using fail_turn_budget [of st "stop_failed decision (failure_of CancelledFailure (Some (rg_id r)) (Some (tn_attempt_id tn)))"]
    by (intro granted_pays [OF assms]) (simp_all add: stop_failed_state)
next
  case (Crash e)
  then show ?thesis using granted_pays [OF assms, of st] by (simp add: conclude_def result_state_def)
qed

lemma result_state_other: "result_state st (conclude ro ops decision deadline tn r answer st1) =
    result_state st1 (conclude ro ops decision deadline tn r answer st1)"
proof -
  have "conclude ro ops decision deadline tn r answer st1 \<noteq> Skip"
    by (auto simp: conclude_def Let_def fail_turn_def stop_failed_def succeed_turn_def handle_failure_def
        split: reply.splits sum.splits option.splits prod.splits bool.splits if_splits)
  then show ?thesis by (cases "conclude ro ops decision deadline tn r answer st1") (auto simp: result_state_def)
qed

lemma run_turn_budget:
  assumes "valid_run st"
  shows "accounted st (result_state st (run_turn ro ops task decision deadline tn r st))"
proof -
  note refl = accounted_refl [OF assms]
  have conc: "accounted st (result_state st (conclude ro ops decision deadline tn r answer st1))"
    if "reserve_turn ops tn st = Inr (st1, True)" for st1 answer
    using conclude_budget [OF reserve_granted [OF that assms]] result_state_other by metis
  have early: "accounted st st1" if r: "reserve_turn ops tn st = Inr (st1, True)" for st1
    using granted_pays [OF reserve_granted [OF r assms], of st1] by simp
  show ?thesis
    using refl conc early reserve_refused [OF _ assms]
    by (auto simp: run_turn_def result_state_def [where res = Skip] result_state_def [where res = "Stop _ _"]
        split: sum.splits bool.splits prod.splits)
qed

lemma attempt_loop_budget:
  assumes "attempt_loop ro ops task decision deadline turns k ds st = (st', out)" and "valid_run st"
  shows "accounted st st'"
  using assms
proof (induction "length ds + nat (ep_max_attempts (ro_policy ro) - int (length (run_attempts st)))"
       arbitrary: k ds st rule: less_induct)
  case less
  show ?case
  proof (cases "\<exists>r rest. ds = r # rest \<and> int (length (run_attempts st)) < ep_max_attempts (ro_policy ro)")
    case False
    then have "st' = st" using less(2) by (cases ds) (auto simp: attempt_loop_done)
    then show ?thesis using accounted_refl [OF less(3)] by simp
  next
    case True
    then obtain r rest where ds: "ds = r # rest" and m: "int (length (run_attempts st)) < ep_max_attempts (ro_policy ro)"
      by blast
    let ?t = "run_turn ro ops task decision deadline (turns k) r st"
    have acc: "accounted st (result_state st ?t)" by (rule run_turn_budget [OF less(3)])
    note go = less(2) [unfolded ds attempt_loop_step [OF m]]
    have grow: "length (run_attempts st1) = Suc (length (run_attempts st))" if "?t = Again st1 \<or> ?t = Onward st1" for st1
      using run_turn_goes_on [OF that] .
    show ?thesis
    proof (cases ?t)
      case Skip
      then have "attempt_loop ro ops task decision deadline turns (Suc k) rest st = (st', out)" using go by simp
      from less(1) [OF _ this less(3)] show ?thesis using ds by simp
    next
      case (Again st1)
      then have "attempt_loop ro ops task decision deadline turns (Suc k) ds st1 = (st', out)" using go ds by simp
      moreover have "accounted st st1" using acc Again by (simp add: result_state_def)
      ultimately show ?thesis
        using less(1) [of ds st1 "Suc k"] grow [of st1] Again m accounted_valid accounted_trans by auto
    next
      case (Onward st1)
      then have "attempt_loop ro ops task decision deadline turns (Suc k) rest st1 = (st', out)" using go by simp
      moreover have "accounted st st1" using acc Onward by (simp add: result_state_def)
      ultimately show ?thesis
        using less(1) [of rest st1 "Suc k"] grow [of st1] Onward m ds accounted_valid accounted_trans by auto
    next
      case (Stop st1 out1)
      then show ?thesis using go acc by (simp add: result_state_def)
    qed
  qed
qed

lemma router_spends:
  assumes "generate_task ro ops rc start turns states task preferred (Some b) = (st', out)" and "valid b"
  shows "int (length (run_attempts st')) \<le> limit b - spent b"
    and "\<exists>b'. run_budget st' = Some b' \<and> valid b' \<and> limit b' = limit b"
proof -
  let ?st = "\<lparr>run_budget = Some b, run_states = states, run_attempts = [], run_last = None\<rparr>"
  have v: "valid_run ?st" using assms(2) by (simp add: valid_run_def)
  have "accounted ?st st'"
    using assms(1) attempt_loop_budget [OF _ v] accounted_refl [OF v]
    by (auto simp: generate_task_def Let_def split: registry.splits sum.splits prod.splits)
  then obtain b' where "run_budget st' = Some b'" "valid b'" "limit b' = limit b"
      "int (length (run_attempts st')) \<le> spent b' - spent b"
    by (auto simp: accounted_def split: option.splits)
  then show "int (length (run_attempts st')) \<le> limit b - spent b"
    and "\<exists>b'. run_budget st' = Some b' \<and> valid b' \<and> limit b' = limit b"
    using spent_bounds [of b'] by auto
qed

end

section \<open>The deployments in the order of the ranking\<close>

lemma preference_order_mset:
  "preference_order preferred ds = Inr ds' \<Longrightarrow> mset ds' = mset ds"
proof (cases preferred)
  case (Some e)
  assume p: "preference_order preferred ds = Inr ds'"
  have "filter (\<lambda>r. r \<notin> set (filter (prefers e) ds)) ds = filter (\<lambda>r. \<not> prefers e r) ds"
    by (rule filter_cong) auto
  then have "ds' = filter (prefers e) ds @ filter (\<lambda>r. \<not> prefers e r) ds"
    using p Some by (auto simp: preference_order_def Let_def split: if_splits)
  then show ?thesis by simp
qed (auto simp: preference_order_def)

lemma find_deployment_eq:
  assumes "distinct (map rg_id ds)" and "r \<in> set ds"
  shows "find_deployment ds (rg_id r) = Inr r"
proof -
  have "map_of (map (\<lambda>r. (rg_id r, r)) (rev ds)) (rg_id r) = Some r"
    using assms by (intro map_of_is_SomeI) (auto simp: comp_def rev_map [symmetric])
  then show ?thesis by (simp add: find_deployment_def)
qed

lemma candidates_ids:
  "map pc_deployment_id (map (\<lambda>(n, r). policy_candidate rc states n r) (enumerate k ds)) = map rg_id ds"
  by (induction ds arbitrary: k) (auto simp: policy_candidate_def)

lemma ordered_deployments_spec:
  assumes "registry_ok reg" and "preference_order preferred (all_deployments reg) = Inr deployments"
    and "filter (eligible_for rc task) deployments \<noteq> []"
  obtains ordered where "ordered_deployments rc states reg task preferred = Inr (ordered, rank_candidates task
      (map (\<lambda>(n, r). policy_candidate rc states n r) (enumerate 0 (filter (eligible_for rc task) deployments))) preferred)"
    and "mset ordered = mset (filter (eligible_for rc task) (all_deployments reg))"
    and "distinct (map rg_id ordered)"
proof -
  let ?el = "filter (eligible_for rc task) deployments"
  let ?cs = "map (\<lambda>(n, r). policy_candidate rc states n r) (enumerate 0 ?el)"
  let ?d = "rank_candidates task ?cs preferred"
  note perm = preference_order_mset [OF assms(2)]
  have "mset (map rg_id deployments) = mset (map rg_id (all_deployments reg))" using perm by (simp add: mset_map)
  then have "distinct (map rg_id deployments)"
    using registry_ids_distinct [OF assms(1)] mset_eq_imp_distinct_iff by blast
  then have el: "distinct (map rg_id ?el)" by (rule distinct_map_filter)
  have ids: "map pc_deployment_id ?cs = map rg_id ?el" by (rule candidates_ids)
  then have rank: "rd_ordered_deployment_ids ?d = map pc_deployment_id (sort_key (rank_key task preferred) ?cs)"
    using el by (simp add: rank_ids rank_candidates_sorted comp_def)
  have mids: "mset (rd_ordered_deployment_ids ?d) = mset (map rg_id ?el)"
    unfolding rank ids [symmetric] by (simp only: mset_map mset_sort)
  define g where "g = (\<lambda>i. case find_deployment ?el i of Inl _ \<Rightarrow> hd ?el | Inr r \<Rightarrow> r)"
  have g: "find_deployment ?el i = Inr (g i) \<and> rg_id (g i) = i \<and> g i \<in> set ?el"
    if "i \<in> set (rd_ordered_deployment_ids ?d)" for i
  proof -
    have "i \<in> rg_id ` set ?el" using that mset_eq_setD [OF mids] by simp
    then obtain r where r: "r \<in> set ?el" "i = rg_id r" by blast
    then show ?thesis using find_deployment_eq [OF el r(1)] by (simp add: g_def)
  qed
  let ?ordered = "map g (rd_ordered_deployment_ids ?d)"
  have t: "traverse (find_deployment ?el) (rd_ordered_deployment_ids ?d) = Inr ?ordered"
    using g by (intro traverse_map) blast
  have mid: "map rg_id ?ordered = rd_ordered_deployment_ids ?d" using g by (simp add: map_idI)
  have dist: "distinct (map rg_id ?ordered)"
    unfolding mid using el mset_eq_imp_distinct_iff [OF mids] by blast
  have "set ?ordered = set ?el"
  proof
    show "set ?ordered \<subseteq> set ?el" using g by auto
    show "set ?el \<subseteq> set ?ordered"
    proof
      fix r assume r: "r \<in> set ?el"
      then have "rg_id r \<in> set (rd_ordered_deployment_ids ?d)" using mset_eq_setD [OF mids] by simp
      moreover have "g (rg_id r) = r" using find_deployment_eq [OF el r] by (simp add: g_def)
      ultimately show "r \<in> set ?ordered" by (metis image_eqI list.set_map)
    qed
  qed
  moreover have "distinct ?ordered" "distinct ?el" using dist el by (simp_all only: distinct_map)
  ultimately have "mset ?ordered = mset ?el" by (simp only: set_eq_iff_mset_eq_distinct)
  moreover have "mset ?el = mset (filter (eligible_for rc task) (all_deployments reg))"
    using perm by (simp add: mset_filter)
  ultimately show thesis
    using that [of ?ordered] assms(2,3) t dist by (simp add: ordered_deployments_def Let_def)
qed

lemma ordered_deployments_eligible:
  assumes "registry_ok reg" and "ordered_deployments rc states reg task preferred = Inr (ordered, decision)"
  shows "set ordered = {r \<in> set (all_deployments reg). eligible_for rc task r}"
proof -
  obtain ds where ds: "preference_order preferred (all_deployments reg) = Inr ds" "filter (eligible_for rc task) ds \<noteq> []"
    using assms(2) by (auto simp: ordered_deployments_def Let_def split: sum.splits if_splits)
  obtain o' where o: "ordered_deployments rc states reg task preferred = Inr (o', rank_candidates task
      (map (\<lambda>(n, r). policy_candidate rc states n r) (enumerate 0 (filter (eligible_for rc task) ds))) preferred)"
      "mset o' = mset (filter (eligible_for rc task) (all_deployments reg))"
    by (rule ordered_deployments_spec [OF assms(1) ds])
  then have "o' = ordered" using assms(2) by simp
  then show ?thesis using mset_eq_setD [OF o(2)] by (simp add: set_filter)
qed

text \<open>A run that ends before the loop has no attempts and reports none.\<close>

lemma generate_task_trace:
  assumes "ro_registry ro = Deployments reg" and "registry_ok reg"
    and "generate_task ro ops rc start turns states task preferred budget = (st', out)"
  shows "trace_ok ro (rg_id ` {r \<in> set (all_deployments reg). eligible_for rc task r}) (run_attempts st')
    \<and> within_attempts ro (run_attempts st') \<and> reported (run_attempts st') out"
proof (cases "ordered_deployments rc states reg task preferred")
  case (Inl out0)
  have "reported [] out0"
    using Inl by (auto simp: ordered_deployments_def Let_def reported_def bare_def split: sum.splits if_splits)
  then show ?thesis
    using assms(1,3) Inl by (auto simp: generate_task_def trace_ok_def within_attempts_def)
next
  case (Inr p)
  obtain ordered decision where p: "p = (ordered, decision)" by (cases p)
  have "set ordered = {r \<in> set (all_deployments reg). eligible_for rc task r}"
    using ordered_deployments_eligible [OF assms(2)] Inr p by simp
  note ids = this
  have loop: "attempt_loop ro ops task decision (Some (monotonic_deadline (ro_policy ro) task (wall start) (mono start)))
      turns 0 ordered \<lparr>run_budget = budget, run_states = states, run_attempts = [], run_last = None\<rparr> = (st', out)"
    using assms(1,3) Inr p by (simp add: generate_task_def)
  show ?thesis by (rule attempt_loop_trace [OF loop]) (simp_all add: ids trace_ok_def within_attempts_def)
qed

end
