(* ===== verification/DurableBudget.thy ===== *)
theory DurableBudget
  imports Budget GraphStoreSteps
begin

text \<open>
  The durable budget of a graph (\<open>src/backend/workflows/graph_budget.py\<close>): the same interface over the
  row in the workflow store. The state of the budget is the database.
\<close>

definition DurableGraphBudget_init :: "string \<Rightarrow> string \<Rightarrow> db \<Rightarrow> exn + unit" where
  "DurableGraphBudget_init tenant graph_id d =
     require (get_graph_budget tenant graph_id d \<noteq> None) (WorkflowConflict ''Graph budget is not bound'')"

definition snapshot :: "string \<Rightarrow> string \<Rightarrow> db \<Rightarrow> exn + graph_budget_row" where
  "snapshot tenant graph_id d = (case get_graph_budget tenant graph_id d of
     None \<Rightarrow> Inl (WorkflowConflict ''Graph budget is not bound'') | Some row \<Rightarrow> Inr row)"

definition durable_remaining :: "string \<Rightarrow> string \<Rightarrow> clock \<Rightarrow> db \<Rightarrow> exn + rat" where
  "durable_remaining tenant graph_id now d =
     map_r (\<lambda>row. max 0 (of_int (gb_deadline_at row - wall now) / 1000000)) (snapshot tenant graph_id d)"

definition durable_budget_ops :: "string \<Rightarrow> string \<Rightarrow> db budget_ops" where
  "durable_budget_ops tenant graph_id =
     \<lparr>op_remaining = durable_remaining tenant graph_id,
      op_reserve = (\<lambda>c. reserve_graph_attempt tenant graph_id (wall c) None),
      op_record = record_graph_output_tokens tenant graph_id,
      op_attempts = (\<lambda>d. map_r gb_attempts (snapshot tenant graph_id d)),
      op_output_tokens = (\<lambda>d. map_r gb_output_tokens (snapshot tenant graph_id d))\<rparr>"

definition durable_ok :: "string \<Rightarrow> string \<Rightarrow> db \<Rightarrow> bool" where
  "durable_ok t g d \<longleftrightarrow> budgets_ok d \<and> get_graph_budget t g d \<noteq> None"

definition bound_row :: "string \<Rightarrow> string \<Rightarrow> db \<Rightarrow> graph_budget_row" where
  "bound_row t g d = the (get_graph_budget t g d)"

lemma durable_okD:
  assumes "durable_ok t g d"
  shows "get_graph_budget t g d = Some (bound_row t g d)" and "budget_ok (bound_row t g d)"
proof -
  show r: "get_graph_budget t g d = Some (bound_row t g d)" using assms by (auto simp: durable_ok_def bound_row_def)
  then have "bound_row t g d \<in> set (workflow_graph_budgets d)"
    unfolding get_graph_budget_def using find_SomeD by fast
  then show "budget_ok (bound_row t g d)" using assms by (simp add: durable_ok_def budgets_ok_def)
qed

lemma get_graph_budget_update:
  assumes "\<And>r. budget_is t g (f r) = budget_is t g r"
    and "workflow_graph_budgets d' = update_where (budget_is t g) f (workflow_graph_budgets d)"
  shows "get_graph_budget t g d' = map_option f (get_graph_budget t g d)"
proof -
  have "List.find (budget_is t g) (update_where (budget_is t g) f rows)
      = map_option (\<lambda>r. if budget_is t g r then f r else r) (List.find (budget_is t g) rows)" for rows
    using assms(1) by (intro find_update_where)
  then show ?thesis
    using find_SomeD by (cases "get_graph_budget t g d") (fastforce simp: get_graph_budget_def assms(2))+
qed

lemma durable_reserve:
  assumes "durable_ok t g d" and "reserve_graph_attempt t g clk now d = Inr (d', ok)"
  shows "durable_ok t g d' \<and> bound_row t g d' =
    (bound_row t g d)\<lparr>gb_attempts := gb_attempts (bound_row t g d) + (if ok then 1 else 0)\<rparr>"
proof (cases ok)
  case False
  then have "d' = d"
    using assms(2) by (auto simp: reserve_graph_attempt_def bind_r_eq_Inr split: option.splits if_splits)
  then show ?thesis using False assms(1) by simp
next
  case True
  let ?f = "\<lambda>r. r\<lparr>gb_attempts := gb_attempts r + 1\<rparr>"
  have b: "workflow_graph_budgets d' = update_where (budget_is t g) ?f (workflow_graph_budgets d)"
    using assms(2) True by (auto simp: reserve_graph_attempt_def bind_r_eq_Inr split: option.splits if_splits)
  have "get_graph_budget t g d' = map_option ?f (get_graph_budget t g d)"
    by (rule get_graph_budget_update [OF _ b]) (simp add: budget_is_def)
  moreover obtain row where "get_graph_budget t g d = Some row" using assms(1) by (auto simp: durable_ok_def)
  moreover have "budgets_ok d'" using reserve_graph_attempt_ok(1) [OF _ assms(2)] assms(1) by (simp add: durable_ok_def)
  ultimately show ?thesis using True by (simp add: durable_ok_def bound_row_def)
qed

lemma durable_record:
  assumes "durable_ok t g d" and "record_graph_output_tokens t g n d = Inr (d', ok)"
  shows "durable_ok t g d' \<and> bound_row t g d' = (bound_row t g d)\<lparr>gb_output_tokens :=
    gb_output_tokens (bound_row t g d) + (if ok then (case n of None \<Rightarrow> 0 | Some k \<Rightarrow> k) else 0)\<rparr>"
proof (cases "ok \<and> n \<noteq> None")
  case False
  then have "d' = d"
    using assms(2) by (auto simp: record_graph_output_tokens_def split: option.splits if_splits)
  then show ?thesis using False assms(1) by (cases n) auto
next
  case True
  then obtain k where k: "n = Some k" by blast
  let ?f = "\<lambda>r. r\<lparr>gb_output_tokens := gb_output_tokens r + k\<rparr>"
  have b: "workflow_graph_budgets d' = update_where (budget_is t g) ?f (workflow_graph_budgets d)"
    using assms(2) True k by (auto simp: record_graph_output_tokens_def split: option.splits if_splits)
  have "get_graph_budget t g d' = map_option ?f (get_graph_budget t g d)"
    by (rule get_graph_budget_update [OF _ b]) (simp add: budget_is_def)
  moreover obtain row where "get_graph_budget t g d = Some row" using assms(1) by (auto simp: durable_ok_def)
  moreover have "budgets_ok d'" using record_graph_output_tokens_ok(1) [OF _ assms(2)] assms(1) by (simp add: durable_ok_def)
  ultimately show ?thesis using True k by (simp add: durable_ok_def bound_row_def)
qed

interpretation durable_budget: attempt_budget "durable_budget_ops t g" "durable_ok t g"
    "\<lambda>d. gb_max_attempts (bound_row t g d)" "\<lambda>d. gb_attempts (bound_row t g d)"
    "\<lambda>d. gb_max_output_tokens (bound_row t g d)" "\<lambda>d. gb_output_tokens (bound_row t g d)" for t g
proof unfold_locales
  fix d assume ok: "durable_ok t g d"
  show "0 \<le> gb_attempts (bound_row t g d) \<and> gb_attempts (bound_row t g d) \<le> gb_max_attempts (bound_row t g d)"
    and "0 \<le> gb_output_tokens (bound_row t g d) \<and>
      (\<forall>m. gb_max_output_tokens (bound_row t g d) = Some m \<longrightarrow> gb_output_tokens (bound_row t g d) \<le> m)"
    using durable_okD(2) [OF ok] by (auto simp: budget_ok_def)
next
  fix d c d' b assume "durable_ok t g d" "op_reserve (durable_budget_ops t g) c d = Inr (d', b)"
  then show "durable_ok t g d' \<and> gb_max_attempts (bound_row t g d') = gb_max_attempts (bound_row t g d)
      \<and> gb_max_output_tokens (bound_row t g d') = gb_max_output_tokens (bound_row t g d)
      \<and> gb_output_tokens (bound_row t g d) \<le> gb_output_tokens (bound_row t g d')
      \<and> gb_attempts (bound_row t g d) + (if b then 1 else 0) \<le> gb_attempts (bound_row t g d')"
    using durable_reserve [of t g d "wall c" None d' b] by (simp add: durable_budget_ops_def)
next
  fix d n d' b assume "durable_ok t g d" "op_record (durable_budget_ops t g) n d = Inr (d', b)"
  then show "durable_ok t g d' \<and> gb_max_attempts (bound_row t g d') = gb_max_attempts (bound_row t g d)
      \<and> gb_max_output_tokens (bound_row t g d') = gb_max_output_tokens (bound_row t g d)
      \<and> gb_attempts (bound_row t g d) \<le> gb_attempts (bound_row t g d')
      \<and> gb_output_tokens (bound_row t g d) + (if b then (case n of None \<Rightarrow> 0 | Some k \<Rightarrow> k) else 0)
          \<le> gb_output_tokens (bound_row t g d')"
    using durable_record [of t g d n d' b] by (simp add: durable_budget_ops_def)
qed

end
