(* ===== verification/RouterTheorems.thy ===== *)
theory RouterTheorems
  imports RouterProps DurableBudget GraphStoreTheorems
begin

text \<open>
  What routing promises: eligibility is exactly the stated requirements, the ranking is deterministic,
  only eligible deployments behind closed circuits are called, attempts and budgets stay within their
  limits, the loop ends, and results and failures carry the whole history of the run.
\<close>

section \<open>Bounds used below\<close>

lemma routable_score:
  assumes "RoutingPolicyProfile_post_init (pc_profile c) = Inr ()"
    and "\<forall>r rate. pc_runtime c = Some r \<and> pr_recent_failure_rate r = Some rate \<longrightarrow> 0 \<le> rate \<and> rate \<le> 1"
    and "lower (pc_engine_name c) = lower e" and "pc_runtime c = Some r" and "pr_routable r"
  shows "110 \<le> rs_total (score task (Some e) c)"
proof -
  have rel: "0 \<le> reliability_score (Some r)"
  proof (cases "pr_recent_failure_rate r")
    case (Some rate)
    then have "of_int 0 \<le> 20 * (1 - rate)" "20 * (1 - rate) \<le> of_int 20" using assms(2,4) by auto
    from py_round_in [OF this] show ?thesis by (simp add: reliability_score_def Some)
  qed (simp add: reliability_score_def)
  have cost: "0 \<le> cost_score x" for x by (cases x) auto
  have lat: "0 \<le> latency_score x" for x by (cases x) auto
  have ctx: "0 \<le> context_score task x" for x by (simp add: context_score_def split: option.splits)
  have suit: "-10 \<le> pp_text_suitability (pc_profile c)" "-10 \<le> pp_chat_suitability (pc_profile c)"
    using assms(1) by (auto simp: RoutingPolicyProfile_post_init_def bind_r_eq_Inr)
  have flags: "0 \<le> flag_score 5 pr_fresh (Some r)" "0 \<le> flag_score 10 pr_capacity_available (Some r)"
    by (simp_all add: flag_score_def)
  have "preferred_score c (Some e) = 100" "flag_score 20 pr_routable (Some r) = 20"
    using assms(3,5) by (simp_all add: preferred_score_def flag_score_def)
  then show ?thesis
    using rel flags cost [of "pp_cost_class (pc_profile c)"] lat [of "pp_latency_class (pc_profile c)"]
      ctx [of "pc_capabilities c"] suit assms(4)
    by (auto simp: score_def score_components_def Let_def)
qed

lemma ordered_length:
  assumes "registry_ok reg" and "ordered_deployments rc states reg task preferred = Inr (ordered, decision)"
  shows "length ordered \<le> length (all_deployments reg)"
proof -
  obtain ds where ds: "preference_order preferred (all_deployments reg) = Inr ds" "filter (eligible_for rc task) ds \<noteq> []"
    using assms(2) by (auto simp: ordered_deployments_def Let_def split: sum.splits if_splits)
  obtain o' where o: "ordered_deployments rc states reg task preferred = Inr (o', rank_candidates task
      (map (\<lambda>(n, r). policy_candidate rc states n r) (enumerate 0 (filter (eligible_for rc task) ds))) preferred)"
      "mset o' = mset (filter (eligible_for rc task) (all_deployments reg))"
    by (rule ordered_deployments_spec [OF assms(1) ds])
  then have "length ordered = length (filter (eligible_for rc task) (all_deployments reg))"
    using assms(2) mset_eq_length [OF o(2)] by simp
  then show ?thesis by simp
qed

section \<open>A sample deployment\<close>

definition sample_claim :: "'a \<Rightarrow> 'a CapabilityClaim" where
  "sample_claim v = \<lparr>cc_value = v, cc_source = CONFIGURED, cc_scope = ''deployment'', cc_runtime_version = None,
     cc_observed_at = None, cc_expires_at = None, cc_confidence = 1\<rparr>"

definition sample_deployment :: "string \<Rightarrow> RegisteredDeployment" where
  "sample_deployment i =
     \<lparr>rg_ref = \<lparr>dr_deployment_id = i, dr_model = None, dr_engine_name = ''mock'', dr_endpoint_id = ''ep'',
               dr_engine_version = None, dr_serving_runtime = None\<rparr>,
      rg_engine = \<lparr>eng_name = ''mock'', eng_typed = True, eng_discovers = False, eng_closing = False\<rparr>,
      rg_capabilities = DeploymentCapabilities_default\<lparr>dc_task_kinds := Some (sample_claim {TEXT})\<rparr>,
      rg_policy_profile = \<lparr>pp_cost_class = COST_LOW, pp_latency_class = LATENCY_LOW,
                           pp_text_suitability = 0, pp_chat_suitability = 0\<rparr>\<rparr>"

definition sample_registry :: DeploymentRegistry where
  "sample_registry = [(''a'', sample_deployment ''a'')]"

lemma more_sample_names [simp]: "identifier_ok ''mock''" "identifier_ok ''ep''"
  by (simp_all add: identifier_ok_def strip_def py_space_def)

lemma lower_ab [simp]: "lower ''a'' = ''a''" "lower ''b'' = ''b''"
  by (simp_all add: lower_def)

lemma sample_registry_ok: "registry_ok sample_registry"
  by (simp add: registry_ok_def sample_registry_def dict_ok_def sample_deployment_def
      DeploymentRef_post_init_def require_identifier_def validate_optional_identifier_def
      RegisteredDeployment_post_init_def)

definition sample_task :: InferenceTask where
  "sample_task = tp_task sample_packet"

definition sample_router :: router where
  "sample_router = \<lparr>ro_registry = Deployments sample_registry,
     ro_policy = \<lparr>ep_max_attempts = 3, ep_default_deadline_seconds = 120, ep_backoff_seconds = [0]\<rparr>,
     ro_circuit_open = {}\<rparr>"

definition sample_clocks :: routing_clocks where
  "sample_clocks = \<lparr>rc_requirement = (\<lambda>_ _. 0), rc_routable = (\<lambda>_. 0), rc_stale = (\<lambda>_. 0)\<rparr>"

definition sample_turn :: turn where
  "sample_turn = \<lparr>tn_clock = (\<lambda>_. \<lparr>mono = 0, wall = 0\<rparr>), tn_available = (\<lambda>_. Reply True),
     tn_attempt_id = ''at1'', tn_discovery = (\<lambda>_. TimedOut),
     tn_typed = (\<lambda>_ _. Reply \<lparr>ar_text = ''ok'', ar_finish_reason = STOP,
       ar_usage = \<lparr>tu_input_tokens = None, tu_output_tokens = Some 5\<rparr>, ar_total_ms = None,
       ar_metadata = [], ar_reasoning = None\<rparr>),
     tn_legacy = (\<lambda>_ _. TimedOut)\<rparr>"

section \<open>Eligibility and ranking\<close>

text \<open>C36. The hard constraints are exact: a deployment is eligible for a task precisely when every requirement
  of the task is met by a claim that is present, not expired at the moment it is checked, and has the
  required value; unknown or expired evidence never makes a deployment eligible.\<close>

theorem eligibility_exact:
  "ed_eligible (evaluate_capabilities clk task caps) = meets clk task caps"
  by (rule eligible_meets)

text \<open>C37. The ranking is deterministic: with distinct identifiers and registration indices the decision does not
  depend on the order the candidates are listed in, it contains exactly their scores, and it lists them by
  falling total, ties in registration order.\<close>

theorem ranking_deterministic:
  assumes "distinct (map pc_deployment_id cs)" and "inj_on pc_registration_index (set cs)" and "mset cs' = mset cs"
  shows "rank_candidates task cs' p = rank_candidates task cs p
    \<and> mset (rd_candidates (rank_candidates task cs p)) = image_mset (score task p) (mset cs)
    \<and> sorted (map (\<lambda>c. (- rs_total (score task p c), pc_registration_index c)) (sort_key (rank_key task p) cs))
    \<and> rd_candidates (rank_candidates task cs p) = map (score task p) (sort_key (rank_key task p) cs)"
proof -
  have "sorted (map (rank_key task p) (sort_key (rank_key task p) cs))" by simp
  then show ?thesis
    using rank_candidates_perm [OF assms] rank_candidates_sorted [OF assms(1), of task p] by (simp add: rank_key_def [abs_def])
qed

definition sample_candidate :: "string \<Rightarrow> int \<Rightarrow> PolicyCandidate" where
  "sample_candidate i n = \<lparr>pc_deployment_id = i, pc_engine_name = i, pc_registration_index = n,
     pc_capabilities = DeploymentCapabilities_default, pc_profile = rg_policy_profile (sample_deployment i),
     pc_runtime = None\<rparr>"

theorem ranking_deterministic_witness:
  "rank_candidates sample_task [sample_candidate ''b'' 1, sample_candidate ''a'' 0] None
     = rank_candidates sample_task [sample_candidate ''a'' 0, sample_candidate ''b'' 1] None"
  using ranking_deterministic [of "[sample_candidate ''a'' 0, sample_candidate ''b'' 1]"
      "[sample_candidate ''b'' 1, sample_candidate ''a'' 0]" sample_task None]
  by (simp add: sample_candidate_def)

text \<open>The preference is not dominant: the documentation calls it so, but an eligible candidate that is
  routable, fresh, reliable and cheap outranks a preferred one the runtime state knows nothing good of.\<close>

lemma preference_not_dominant:
  "let good = (sample_candidate ''good'' 1)\<lparr>pc_profile := \<lparr>pp_cost_class = COST_LOW, pp_latency_class = LATENCY_LOW,
         pp_text_suitability = 10, pp_chat_suitability = 10\<rparr>,
         pc_runtime := Some \<lparr>pr_routable = True, pr_fresh = True, pr_recent_failure_rate = Some 0,
           pr_capacity_available = True\<rparr>,
         pc_capabilities := DeploymentCapabilities_default\<lparr>dc_max_context_tokens := Some (sample_claim 100)\<rparr>\<rparr>;
       wanted = (sample_candidate ''wanted'' 0)\<lparr>pc_profile := \<lparr>pp_cost_class = COST_HIGH, pp_latency_class = LATENCY_HIGH,
         pp_text_suitability = -10, pp_chat_suitability = -10\<rparr>,
         pc_runtime := Some \<lparr>pr_routable = False, pr_fresh = False, pr_recent_failure_rate = Some 1,
           pr_capacity_available = False\<rparr>\<rparr>;
       task = sample_task\<lparr>it_requirements := (it_requirements sample_task)\<lparr>required_context_tokens := Some 10\<rparr>\<rparr>
   in rs_total (score task (Some ''wanted'') wanted) = 90 \<and> rs_total (score task (Some ''wanted'') good) = 95"
  by (simp add: Let_def score_def score_components_def sample_candidate_def preferred_score_def flag_score_def
      reliability_score_def context_score_def sample_claim_def task_kind_def sample_task_def sample_packet_def
      lower_def py_round_def DeploymentCapabilities_default_def)

text \<open>A routable preferred deployment goes first: when a candidate runs on the preferred engine and is
  routable, the ranking starts with a candidate of the preferred engine, whatever the other scores are.\<close>

theorem routable_preference_first:
  assumes "distinct (map pc_deployment_id cs)"
    and "\<forall>c \<in> set cs. RoutingPolicyProfile_post_init (pc_profile c) = Inr ()"
    and "\<forall>c \<in> set cs. \<forall>r rate. pc_runtime c = Some r \<and> pr_recent_failure_rate r = Some rate \<longrightarrow> 0 \<le> rate \<and> rate \<le> 1"
    and "c \<in> set cs" and "lower (pc_engine_name c) = lower e" and "pc_runtime c = Some r" and "pr_routable r"
  shows "\<exists>c' \<in> set cs. lower (pc_engine_name c') = lower e
    \<and> hd (rd_ordered_deployment_ids (rank_candidates task cs (Some e))) = pc_deployment_id c'"
proof -
  let ?k = "rank_key task (Some e)" and ?s = "sort_key (rank_key task (Some e)) cs"
  have ids: "rd_ordered_deployment_ids (rank_candidates task cs (Some e)) = map pc_deployment_id ?s"
    by (simp add: rank_ids rank_candidates_sorted [OF assms(1)])
  have ne: "?s \<noteq> []" using assms(4) by (metis empty_iff empty_set set_sort)
  then have h: "hd ?s \<in> set cs" by (metis hd_in_set set_sort)
  have sorted: "sorted (map ?k ?s)" by simp
  have "?k (hd ?s) \<le> ?k c"
  proof -
    have "c \<in> set ?s" using assms(4) by simp
    then show ?thesis using sorted ne by (cases ?s) auto
  qed
  then have le: "rs_total (score task (Some e) c) \<le> rs_total (score task (Some e) (hd ?s))"
    by (auto simp: rank_key_def less_eq_prod_def less_prod_def)
  have "110 \<le> rs_total (score task (Some e) c)"
    using routable_score [of c e r task] assms by blast
  moreover have "rs_total (score task (Some e) (hd ?s)) \<le> preferred_score (hd ?s) (Some e) + 95"
    using runtime_score_bounds(1) [of "hd ?s" "Some e" task] assms(2,3) h by blast
  ultimately have "preferred_score (hd ?s) (Some e) \<noteq> 0" using le by linarith
  then have "lower (pc_engine_name (hd ?s)) = lower e" by (auto simp: preferred_score_def split: if_splits)
  then show ?thesis using h ids ne by (auto simp: hd_map)
qed

definition sample_routable :: PolicyCandidate where
  "sample_routable = (sample_candidate ''a'' 0)\<lparr>pc_runtime := Some \<lparr>pr_routable = True, pr_fresh = True,
     pr_recent_failure_rate = None, pr_capacity_available = False\<rparr>\<rparr>"

theorem routable_preference_first_witness:
  "hd (rd_ordered_deployment_ids (rank_candidates sample_task [sample_candidate ''b'' 1, sample_routable] (Some ''a''))) = ''a''"
  using routable_preference_first [of "[sample_candidate ''b'' 1, sample_routable]" sample_routable "''a''"
      "\<lparr>pr_routable = True, pr_fresh = True, pr_recent_failure_rate = None, pr_capacity_available = False\<rparr>" sample_task]
  by (simp add: sample_routable_def sample_candidate_def sample_deployment_def RoutingPolicyProfile_post_init_def)

section \<open>Execution\<close>

definition sample_start :: clock where
  "sample_start = \<lparr>mono = 0, wall = 0\<rparr>"

definition sample_run ::  "WorkflowBudget run \<times> InferenceResult outcome" where
  "sample_run = generate_task sample_router workflow_budget_ops sample_clocks sample_start (\<lambda>_. sample_turn) None
     sample_task None None"

lemma sample_meets: "meets clk sample_task (rg_capabilities (sample_deployment i))"
  by (simp add: meets_def claimed_def sample_deployment_def sample_task_def sample_packet_def sample_claim_def
      task_kind_def DeploymentCapabilities_default_def)

lemma sample_turn_done:
  "\<exists>st res. run_turn sample_router workflow_budget_ops sample_task decision (Some 120) sample_turn (sample_deployment ''a'')
     \<lparr>run_budget = None, run_states = None, run_attempts = [], run_last = None\<rparr> = Stop st (Done res)
   \<and> map ea_deployment_id (run_attempts st) = [''a'']"
proof -
  have txts: "has_text ''at1''" "has_text ''a''" by (simp_all add: has_text_def strip_def py_space_def)
  have e: "execute_task sample_turn (sample_deployment ''a'') sample_task = Reply (\<lparr>ar_text = ''ok'', ar_finish_reason = STOP,
       ar_usage = \<lparr>tu_input_tokens = None, tu_output_tokens = Some 5\<rparr>, ar_total_ms = None,
       ar_metadata = [], ar_reasoning = None\<rparr>, assess_model_identity None None)"
    by (simp add: execute_task_def inspect_identity_def sample_deployment_def sample_turn_def assess_model_identity_def)
  have m: "\<exists>a. make_attempt sample_turn (sample_deployment ''a'') 1 None = Inr a \<and> ea_deployment_id a = ''a''"
    using txts by (simp add: make_attempt_def sample_turn_def sample_deployment_def ExecutionAttempt_post_init_def
        require_text_def Let_def)
  have "ro_circuit_open sample_router = {}" by (simp add: sample_router_def)
  moreover have "tn_clock sample_turn n = \<lparr>mono = 0, wall = 0\<rparr>" "tn_available sample_turn r = Reply True" for n r
    by (simp_all add: sample_turn_def)
  ultimately show ?thesis
    using e m
    by (auto simp: run_turn_def availability_def remaining_with_def remaining_until_def within_budget_def reserve_turn_def
        conclude_def succeed_turn_def Let_def add_attempt_def)
qed

lemma sample_run_done: "\<exists>st res. sample_run = (st, Done res) \<and> map ea_deployment_id (run_attempts st) = [''a'']"
proof -
  let ?ds = "[sample_deployment ''a'']"
  have all: "all_deployments sample_registry = ?ds" by (simp add: all_deployments_def sample_registry_def)
  have pref: "preference_order None (all_deployments sample_registry) = Inr ?ds"
    by (simp add: preference_order_def all)
  have el: "filter (eligible_for sample_clocks sample_task) ?ds = ?ds"
    using sample_meets by (simp add: eligible_for_def eligible_meets)
  obtain ordered decision where o: "ordered_deployments sample_clocks None sample_registry sample_task None = Inr (ordered, decision)"
      and m: "mset ordered = mset (filter (eligible_for sample_clocks sample_task) (all_deployments sample_registry))"
    by (rule ordered_deployments_spec [OF sample_registry_ok pref, of sample_clocks sample_task None])
       (simp_all only: el, simp_all)
  have "ordered = ?ds" using m el all by simp
  with o have o: "ordered_deployments sample_clocks None sample_registry sample_task None = Inr (?ds, decision)" by simp
  have d: "monotonic_deadline (ro_policy sample_router) sample_task (wall sample_start) (mono sample_start) = 120"
    by (simp add: monotonic_deadline_def sample_router_def sample_task_def sample_packet_def sample_start_def)
  from sample_turn_done [of decision]
  obtain st res where t: "run_turn sample_router workflow_budget_ops sample_task decision (Some 120) sample_turn (sample_deployment ''a'')
     \<lparr>run_budget = None, run_states = None, run_attempts = [], run_last = None\<rparr> = Stop st (Done res)"
     "map ea_deployment_id (run_attempts st) = [''a'']"
    by auto
  have "ro_registry sample_router = Deployments sample_registry" by (simp add: sample_router_def)
  moreover have "0 < ep_max_attempts (ro_policy sample_router)" by (simp add: sample_router_def)
  ultimately show ?thesis
    using o d t by (simp add: sample_run_def generate_task_def Let_def attempt_loop_step)
qed

text \<open>C30. Only eligible deployments are called, and never behind an open circuit: every attempt of a run was made on
  a registered deployment that met the requirements of the task when the run started, whose circuit is
  closed; all attempts but the last failed with a class that allows a retry; and there are at most
  \<open>max_attempts\<close> of them.\<close>

theorem router_calls_eligible_only:
  assumes "ro_registry ro = Deployments reg" and "registry_ok reg" and "ExecutionPolicy_post_init (ro_policy ro) = Inr ()"
    and "generate_task ro ops rc start turns states task preferred budget = (st', out)"
  shows "int (length (run_attempts st')) \<le> ep_max_attempts (ro_policy ro)
    \<and> ea_deployment_id ` set (run_attempts st')
        \<subseteq> {rg_id r | r. r \<in> set (all_deployments reg) \<and> meets (rc_requirement rc (rg_id r)) task (rg_capabilities r)}
           - ro_circuit_open ro
    \<and> list_all retryable_failure (butlast (run_attempts st'))"
proof -
  have "0 \<le> ep_max_attempts (ro_policy ro)" using assms(3) by (auto simp: ExecutionPolicy_post_init_def bind_r_eq_Inr)
  then show ?thesis
    using generate_task_trace [OF assms(1,2,4)]
    by (auto simp: trace_ok_def within_attempts_def list_all_iff eligible_for_def eligible_meets)
qed

lemma sample_router_setup:
  "ro_registry sample_router = Deployments sample_registry" "ExecutionPolicy_post_init (ro_policy sample_router) = Inr ()"
  by (simp_all add: sample_router_def ExecutionPolicy_post_init_def)

theorem router_calls_eligible_only_witness:
  "\<exists>st res. sample_run = (st, Done res) \<and> int (length (run_attempts st)) \<le> ep_max_attempts (ro_policy sample_router)"
proof -
  obtain st res where r: "sample_run = (st, Done res)" using sample_run_done by blast
  show ?thesis
    using router_calls_eligible_only [OF sample_router_setup(1) sample_registry_ok sample_router_setup(2)
        r [unfolded sample_run_def]] r by blast
qed

text \<open>Recorded attempts are well typed: each attempt of a run passes the checks of its constructor, and they are
  numbered from one in the order they were made.\<close>

theorem router_attempts_typed:
  assumes "ro_registry ro = Deployments reg" and "registry_ok reg"
    and "generate_task ro ops rc start turns states task preferred budget = (st', out)"
  shows "list_all (\<lambda>a. ExecutionAttempt_post_init a = Inr ()) (run_attempts st')
    \<and> map ea_sequence (run_attempts st') = map (\<lambda>i. int i + 1) [0..<length (run_attempts st')]"
  using generate_task_trace [OF assms]
  by (auto simp: trace_ok_def list_all_iff intro: nth_equalityI)

theorem router_attempts_typed_witness:
  "\<exists>st res. sample_run = (st, Done res) \<and> map ea_sequence (run_attempts st) = [1]"
proof -
  obtain st res where r: "sample_run = (st, Done res)" "map ea_deployment_id (run_attempts st) = [''a'']"
    using sample_run_done by auto
  have "length (run_attempts st) = 1" using r(2) by (metis length_map length_Cons list.size(3) One_nat_def)
  then have "map ea_sequence (run_attempts st) = [1]"
    using router_attempts_typed [OF sample_router_setup(1) sample_registry_ok r(1) [unfolded sample_run_def]] by simp
  with r(1) show ?thesis by (intro exI conjI)
qed

text \<open>Results and failures carry the whole history: a result lists every attempt made, the last one succeeded on
  the deployment named in the provenance, and the identity of that deployment did not contradict its
  configuration; a failure the router raises lists every attempt made.\<close>

theorem router_reports_history:
  assumes "ro_registry ro = Deployments reg" and "registry_ok reg"
    and "generate_task ro ops rc start turns states task preferred budget = (st', out)"
  shows "case out of
      Done res \<Rightarrow> re_attempts res = run_attempts st' \<and> run_attempts st' \<noteq> []
        \<and> ea_outcome (last (run_attempts st')) = AttemptOutcome.SUCCEEDED
        \<and> dp_deployment_id (re_provenance res) = ea_deployment_id (last (run_attempts st'))
        \<and> dp_model_verification (re_provenance res) \<noteq> MISMATCH
    | Raised rf \<Rightarrow> rf_attempts rf = run_attempts st'
    | _ \<Rightarrow> True"
  using generate_task_trace [OF assms] by (simp add: reported_def)

theorem router_reports_history_witness:
  "\<exists>st res. sample_run = (st, Done res) \<and> re_attempts res = run_attempts st
     \<and> dp_deployment_id (re_provenance res) = ea_deployment_id (last (run_attempts st))"
proof -
  obtain st res where r: "sample_run = (st, Done res)" using sample_run_done by blast
  show ?thesis
    using router_reports_history [OF sample_router_setup(1) sample_registry_ok r [unfolded sample_run_def]] r by auto
qed

text \<open>A run is finite: whatever the engines answer, the outcome depends on at most one turn per registered
  deployment and one per allowed attempt.\<close>

theorem router_turns_bounded:
  assumes "ro_registry ro = Deployments reg" and "registry_ok reg"
    and "\<forall>j < length (all_deployments reg) + nat (ep_max_attempts (ro_policy ro)). turns j = turns' j"
  shows "generate_task ro ops rc start turns states task preferred budget
    = generate_task ro ops rc start turns' states task preferred budget"
proof (cases "ordered_deployments rc states reg task preferred")
  case (Inr p)
  obtain ordered decision where p: "p = (ordered, decision)" by (cases p)
  have o: "ordered_deployments rc states reg task preferred = Inr (ordered, decision)" using Inr p by simp
  have "length ordered \<le> length (all_deployments reg)"
    using ordered_length [OF assms(2) o] .
  then show ?thesis
    using assms(1,3) o attempt_loop_turns [of 0 ordered ro
        "\<lparr>run_budget = budget, run_states = states, run_attempts = [], run_last = None\<rparr>" turns turns' ops task decision
        "Some (monotonic_deadline (ro_policy ro) task (wall start) (mono start))"]
    by (simp add: generate_task_def)
qed (use assms(1) in \<open>simp add: generate_task_def\<close>)

theorem router_turns_bounded_witness:
  "sample_run = generate_task sample_router workflow_budget_ops sample_clocks sample_start
     (\<lambda>j. if j < 4 then sample_turn else sample_turn\<lparr>tn_attempt_id := ''other''\<rparr>) None sample_task None None"
  unfolding sample_run_def
  by (rule router_turns_bounded [OF sample_router_setup(1) sample_registry_ok])
     (simp add: all_deployments_def sample_registry_def sample_router_def)

text \<open>The router never overdraws the stored budget of a graph: a run that spends the durable budget makes at most
  the attempts that were left in the row, and leaves a consistent budget with the same limits behind.\<close>

theorem router_spends_graph_budget:
  assumes "budgets_ok d" and "get_graph_budget t g d = Some row"
    and "generate_task ro (durable_budget_ops t g) rc start turns states task preferred (Some d) = (st', out)"
  shows "int (length (run_attempts st')) \<le> gb_max_attempts row - gb_attempts row
    \<and> (\<exists>d'. run_budget st' = Some d' \<and> budgets_ok d' \<and> gb_max_attempts (bound_row t g d') = gb_max_attempts row)"
proof -
  have v: "durable_ok t g d" using assms(1,2) by (simp add: durable_ok_def)
  have b: "bound_row t g d = row" using assms(2) by (simp add: bound_row_def)
  from attempt_budget.router_spends [OF durable_budget.attempt_budget_axioms assms(3) v] show ?thesis by (auto simp: b durable_ok_def)
qed

theorem router_spends_graph_budget_witness:
  "int (length (run_attempts (fst (generate_task sample_router (durable_budget_ops ''t'' ''g1'') sample_clocks sample_start
     (\<lambda>_. sample_turn) None sample_task None (Some sample_gdb))))) \<le> 2"
proof -
  have "budgets_ok sample_gdb" using gstore_okD(3) [OF sample_gdb_ok] .
  moreover have "get_graph_budget ''t'' ''g1'' sample_gdb = Some sample_budget_row"
    by (simp add: get_graph_budget_def sample_gdb_def budget_is_def sample_budget_row_def)
  ultimately show ?thesis
    using router_spends_graph_budget [OF _ _ prod.collapse [symmetric]] by (fastforce simp: sample_budget_row_def)
qed

text \<open>Refusals before any call: when no registered deployment meets the requirements the router raises the
  capability mismatch with the rejections of every deployment; a preferred engine nobody runs is the
  unknown preference; in both cases no engine is called and no budget is spent, whatever they would answer.\<close>

theorem router_refuses:
  assumes "ro_registry ro = Deployments reg"
    and "\<forall>r \<in> set (all_deployments reg). \<not> meets (rc_requirement rc (rg_id r)) task (rg_capabilities r)"
  shows "\<exists>rf. generate_task ro ops rc start turns states task preferred budget
      = (\<lparr>run_budget = budget, run_states = states, run_attempts = [], run_last = None\<rparr>, Raised rf)
    \<and> (case preferred of
        None \<Rightarrow> fl_class (rf_failure rf) = CapabilityMismatchFailure
          \<and> rf_rejections rf = public_rejections rc task (all_deployments reg)
      | Some e \<Rightarrow> fl_class (rf_failure rf) = (if list_ex (prefers e) (all_deployments reg)
          then CapabilityMismatchFailure else UnknownEnginePreferenceFailure))"
proof -
  have none: "filter (eligible_for rc task) ds = []" if "set ds \<subseteq> set (all_deployments reg)" for ds
    using assms(2) that by (auto simp: filter_empty_conv eligible_for_def eligible_meets)
  show ?thesis
  proof (cases preferred)
    case None
    then show ?thesis
      using assms(1) none [of "all_deployments reg"]
      by (simp add: generate_task_def ordered_deployments_def preference_order_def Let_def bare_def failure_of_def)
  next
    case (Some e)
    show ?thesis
    proof (cases "filter (prefers e) (all_deployments reg) = []")
      case True
      then have "\<not> list_ex (prefers e) (all_deployments reg)" by (auto simp: list_ex_iff filter_empty_conv)
      then show ?thesis
        using assms(1) Some True
        by (simp add: generate_task_def ordered_deployments_def preference_order_def Let_def bare_def failure_of_def)
    next
      case False
      then have "list_ex (prefers e) (all_deployments reg)" by (auto simp: list_ex_iff filter_empty_conv)
      moreover obtain ds where ds: "preference_order preferred (all_deployments reg) = Inr ds"
        using Some False by (simp add: preference_order_def Let_def)
      moreover have "filter (eligible_for rc task) ds = []"
        using none [of ds] mset_eq_setD [OF preference_order_mset [OF ds]] by simp
      ultimately show ?thesis
        using assms(1) Some by (simp add: generate_task_def ordered_deployments_def Let_def bare_def failure_of_def)
    qed
  qed
qed

theorem router_refuses_witness:
  "\<exists>rf. generate_task (sample_router\<lparr>ro_registry := Deployments []\<rparr>) workflow_budget_ops sample_clocks sample_start
      (\<lambda>_. sample_turn) None sample_task (Some ''vllm'') None
      = (\<lparr>run_budget = None, run_states = None, run_attempts = [], run_last = None\<rparr>, Raised rf)
    \<and> fl_class (rf_failure rf) = UnknownEnginePreferenceFailure"
  using router_refuses [of "sample_router\<lparr>ro_registry := Deployments []\<rparr>" "[]" sample_clocks sample_task
      workflow_budget_ops sample_start "\<lambda>_. sample_turn" None "Some ''vllm''" None]
  by (simp add: all_deployments_def)

section \<open>Registry and runtime state\<close>

text \<open>Lookup after registration: once a deployment is registered it is found under its identifier in any case
  and with outer whitespace, every other entry stays, and a second registration of the identifier in any
  case is refused.\<close>

theorem registry_roundtrip:
  assumes "registry_ok reg" and "register_deployment r reg = Inr reg'"
    and "DeploymentRef_post_init (rg_ref r) = Inr ()" and "RegisteredDeployment_post_init r = Inr ()"
  shows "registry_ok reg' \<and> all_deployments reg' = all_deployments reg @ [r]
    \<and> get_deployment reg' (rg_id r) = Inr r
    \<and> (\<forall>i. get_deployment reg' i = (if lower (strip i) = lower (rg_id r) then Inr r
           else case map_of reg (lower (strip i)) of
             None \<Rightarrow> Inl (KeyError (''Deployment '' @ quoted i @ '' is not registered. Registered deployments: ''
                       @ name_list (deployment_ids reg')))
           | Some x \<Rightarrow> Inr x))
    \<and> (\<exists>e. register_deployment r reg' = Inl (ValueError e))"
proof -
  have id: "strip (rg_id r) = rg_id r" using deployment_id_ok [OF assms(3)] by (rule strip_identifier)
  have reg': "reg' = reg @ [(lower (rg_id r), r)]" "map_of reg (lower (rg_id r)) = None"
    using assms(2) by (simp_all add: register_deployment_eq)
  have ok: "registry_ok reg'" using register_deployment_ok [OF assms] .
  have look: "map_of reg' k = (if k = lower (rg_id r) then Some r else map_of reg k)" for k
    using reg' by (auto simp: map_add_def split: option.splits)
  show ?thesis
    using ok reg' id look by (simp add: all_deployments_def get_deployment_def deployment_ids_def
        register_deployment_def Let_def split: option.splits)
qed

theorem registry_roundtrip_witness:
  "\<exists>reg'. register_deployment (sample_deployment ''b'') sample_registry = Inr reg'
     \<and> get_deployment reg' ''b'' = Inr (sample_deployment ''b'')"
proof -
  have r: "register_deployment (sample_deployment ''b'') sample_registry = Inr (sample_registry @ [(''b'', sample_deployment ''b'')])"
    by (simp add: register_deployment_eq sample_registry_def sample_deployment_def)
  have "DeploymentRef_post_init (rg_ref (sample_deployment ''b'')) = Inr ()"
      "RegisteredDeployment_post_init (sample_deployment ''b'') = Inr ()" "rg_id (sample_deployment ''b'') = ''b''"
    by (simp_all add: sample_deployment_def DeploymentRef_post_init_def require_identifier_def
        validate_optional_identifier_def RegisteredDeployment_post_init_def)
  then show ?thesis using registry_roundtrip [OF sample_registry_ok r] r by auto
qed

text \<open>Runtime summaries stay in range: in every state the collector, its probes and the recorded attempts can
  reach, each deployment has at most twenty remembered attempts, no more failures than attempts, a failure
  rate between zero and one, and its own identifier.\<close>

theorem runtime_state_bounds:
  assumes "reachable runtime_init runtime_step store"
  shows "rs_id (get_state store i) = i \<and> length (history_of store i) \<le> 20
    \<and> 0 \<le> su_failure_count (rs_summary (get_state store i))
    \<and> su_failure_count (rs_summary (get_state store i)) \<le> su_attempt_count (rs_summary (get_state store i))
    \<and> su_attempt_count (rs_summary (get_state store i)) \<le> 20
    \<and> (case su_recent_failure_rate (rs_summary (get_state store i)) of None \<Rightarrow> True | Some rate \<Rightarrow> 0 \<le> rate \<and> rate \<le> 1)"
proof -
  have "runtime_ok store" using assms by (rule runtime_machine.reachable_inv)
  then show ?thesis by (auto simp: runtime_ok_def summary_ok_def split: option.splits)
qed

theorem runtime_state_bounds_witness:
  "length (history_of (run_probe 15 \<lparr>pb_deployment_id = ''a'', pb_observed_at = 0, pb_started = 0, pb_finished = 1, pb_answer = Inr True\<rparr>
      (collector_init sample_registry 15 0)) ''a'') \<le> 20"
proof -
  have "reachable runtime_init runtime_step (collector_init sample_registry 15 0)"
    by (rule reach_init) (auto simp: runtime_init_def)
  from runtime_state_bounds [OF reach_step [OF this rt_probe]] show ?thesis by blast
qed

text \<open>Concurrent probes do not interfere: when every deployment is probed once, what the router reads after a
  refresh is the same whatever order the probes end in, and it is the answer of the deployment's own probe.\<close>

theorem refresh_order_irrelevant:
  assumes "distinct (map pb_deployment_id probes)" and "mset probes' = mset probes"
  shows "get_state (run_refresh ttl probes' store) i = get_state (run_refresh ttl probes store) i
    \<and> get_state (run_refresh ttl probes store) i = (case List.find (\<lambda>p. pb_deployment_id p = i) probes of
        None \<Rightarrow> get_state store i | Some p \<Rightarrow> probe_state ttl p (rs_summary (get_state store i)))"
proof -
  have d': "distinct (map pb_deployment_id probes')" using assms by (metis mset_eq_imp_distinct_iff mset_map)
  have set: "set probes' = set probes" using assms(2) by (rule mset_eq_setD)
  have u: "p = q" if "p \<in> set probes" "q \<in> set probes" "pb_deployment_id p = i" "pb_deployment_id q = i" for p q
    using distinct_map_eq [OF assms(1)] that by simp
  have "List.find (\<lambda>p. pb_deployment_id p = i) probes' = List.find (\<lambda>p. pb_deployment_id p = i) probes"
  proof (cases "List.find (\<lambda>p. pb_deployment_id p = i) probes")
    case None
    then have "List.find (\<lambda>p. pb_deployment_id p = i) probes' = None"
      using set unfolding find_None_iff by auto
    with None show ?thesis by simp
  next
    case (Some p)
    then have p: "p \<in> set probes" "pb_deployment_id p = i" using find_SomeD [OF Some] by auto
    then have "List.find (\<lambda>p. pb_deployment_id p = i) probes' \<noteq> None"
      using set unfolding find_None_iff by auto
    then obtain q where q: "List.find (\<lambda>p. pb_deployment_id p = i) probes' = Some q" by auto
    with find_SomeD [OF q] u [OF p(1) _ p(2)] set Some show ?thesis by auto
  qed
  then show ?thesis by (simp add: run_refresh_get [OF assms(1)] run_refresh_get [OF d'])
qed

theorem refresh_order_irrelevant_witness:
  "get_state (run_refresh 15 [\<lparr>pb_deployment_id = ''b'', pb_observed_at = 0, pb_started = 0, pb_finished = 1, pb_answer = Inr True\<rparr>,
      \<lparr>pb_deployment_id = ''a'', pb_observed_at = 0, pb_started = 0, pb_finished = 1, pb_answer = Inl ''TimeoutError''\<rparr>]
      (RuntimeStateStore_init [''a'', ''b''])) ''a''
   = get_state (run_refresh 15 [\<lparr>pb_deployment_id = ''a'', pb_observed_at = 0, pb_started = 0, pb_finished = 1, pb_answer = Inl ''TimeoutError''\<rparr>,
      \<lparr>pb_deployment_id = ''b'', pb_observed_at = 0, pb_started = 0, pb_finished = 1, pb_answer = Inr True\<rparr>]
      (RuntimeStateStore_init [''a'', ''b''])) ''a''"
  by (rule refresh_order_irrelevant [THEN conjunct1]) simp_all

end
