(* ===== verification/Executor.thy ===== *)
theory Executor
  imports Router WorkflowStoreProps DurableBudget
begin

text \<open>
  The executors, which join the router to the store: \<open>WorkflowExecutor\<close>
  (\<open>src/backend/workflows/executor.py\<close>) for one queued task and \<open>GraphNodeExecutor\<close>
  (\<open>src/backend/workflows/graph_executor.py\<close>) for one ready node of a graph, with the attempt history
  they store (\<open>src/backend/inference/attempts.py\<close>).

  Every call of the store is a transaction of its own, so a failing call leaves the effects of the
  calls before it: an execution returns the database together with its outcome. The only point where an
  execution waits is the call of the router. What other tasks do to the database meanwhile is the
  parameter \<open>others\<close>; for a graph node the budget of the router is the database itself, and other
  executions of the same graph may act before each use of it.
\<close>

section \<open>What is stored about an execution\<close>

fun FinishReason_value :: "FinishReason \<Rightarrow> string" where
  "FinishReason_value STOP = ''stop''"
| "FinishReason_value FinishReason.LENGTH = ''length''"
| "FinishReason_value CANCELLED_FINISH = ''cancelled''"
| "FinishReason_value ERROR_FINISH = ''error''"
| "FinishReason_value UNKNOWN_FINISH = ''unknown''"

fun AttemptOutcome_value :: "AttemptOutcome \<Rightarrow> string" where
  "AttemptOutcome_value AttemptOutcome.SUCCEEDED = ''succeeded''"
| "AttemptOutcome_value AttemptOutcome.FAILED = ''failed''"

fun RetryClassification_value :: "RetryClassification \<Rightarrow> string" where
  "RetryClassification_value NEVER = ''never''"
| "RetryClassification_value SAME_DEPLOYMENT = ''same_deployment''"
| "RetryClassification_value OTHER_DEPLOYMENT = ''other_deployment''"

fun IdentityVerification_value :: "IdentityVerification \<Rightarrow> string" where
  "IdentityVerification_value VERIFIED = ''verified''"
| "IdentityVerification_value OBSERVED = ''observed''"
| "IdentityVerification_value CONFIGURED_ONLY = ''configured_only''"
| "IdentityVerification_value UNVERIFIED = ''unverified''"
| "IdentityVerification_value MISMATCH = ''mismatch''"

definition model_json :: "ModelRef \<Rightarrow> json" where
  "model_json m = JObj [(''artifact_id'', JStr (artifact_id m)), (''revision'', jopt JStr (revision m)),
     (''served_name'', jopt JStr (served_name m))]"

definition deployment_json :: "DeploymentRef \<Rightarrow> json" where
  "deployment_json r = JObj [(''deployment_id'', JStr (dr_deployment_id r)), (''model'', jopt model_json (dr_model r)),
     (''engine_name'', JStr (dr_engine_name r)), (''endpoint_id'', JStr (dr_endpoint_id r)),
     (''engine_version'', jopt JStr (dr_engine_version r)), (''serving_runtime'', jopt JStr (dr_serving_runtime r))]"

definition serialize_attempt :: "pylib \<Rightarrow> ExecutionAttempt \<Rightarrow> json" where
  "serialize_attempt L a = JObj
     [(''attempt_id'', JStr (ea_attempt_id a)), (''sequence'', JInt (ea_sequence a)),
      (''deployment_id'', JStr (ea_deployment_id a)),
      (''started_at'', JStr (isoformat L (instant_of (ea_started_at a)))),
      (''finished_at'', JStr (isoformat L (instant_of (ea_finished_at a)))),
      (''duration_ms'', JFloat (ea_duration_ms a)), (''outcome'', JStr (AttemptOutcome_value (ea_outcome a))),
      (''failure_code'', jopt JStr (ea_failure_code a)),
      (''retry_classification'', jopt (JStr \<circ> RetryClassification_value) (ea_retry_classification a)),
      (''schema_version'', JInt (ea_schema_version a)),
      (''configured_deployment'', jopt deployment_json (ea_configured_deployment a))]"

definition provenance_json :: "DeploymentProvenance \<Rightarrow> json" where
  "provenance_json p = JObj
     [(''deployment_id'', JStr (dp_deployment_id p)), (''engine_name'', JStr (dp_engine_name p)),
      (''model_artifact_id'', jopt JStr (dp_model_artifact_id p)),
      (''model_revision'', jopt JStr (dp_model_revision p)),
      (''model_verification'', JStr (IdentityVerification_value (dp_model_verification p))),
      (''engine_version'', jopt JStr (dp_engine_version p)), (''serving_runtime'', jopt JStr (dp_serving_runtime p))]"

definition result_payload :: "pylib \<Rightarrow> InferenceResult \<Rightarrow> (string \<times> json) list" where
  "result_payload L res =
     [(''output'', JObj [(''text'', JStr (re_text res))]),
      (''reasoning'', jopt (\<lambda>r. JObj [(''text'', JStr r)]) (re_reasoning res)),
      (''finish_reason'', JStr (FinishReason_value (re_finish_reason res))),
      (''usage'', JObj [(''input_tokens'', jopt JInt (tu_input_tokens (re_usage res))),
                       (''output_tokens'', jopt JInt (tu_output_tokens (re_usage res)))]),
      (''timing'', JObj [(''total_ms'', jopt JFloat (re_total_ms res))]),
      (''provenance'', provenance_json (re_provenance res)),
      (''attempts'', JArr (map (serialize_attempt L) (re_attempts res)))]"

definition budget_payload :: "int \<Rightarrow> int \<Rightarrow> int \<Rightarrow> string \<times> json" where
  "budget_payload limit attempts tokens = (''budget'', JObj [(''max_attempts'', JInt limit),
     (''attempts'', JInt attempts), (''output_tokens'', JInt tokens)])"

definition failure_payload :: "pylib \<Rightarrow> failure \<Rightarrow> ExecutionAttempt list \<Rightarrow> (string \<times> json) list" where
  "failure_payload L f attempts =
     [(''failure_code'', JStr (failure_code (fl_class f))),
      (''attempts'', JArr (map (serialize_attempt L) attempts))]"

record WorkflowExecution =
  we_workflow_id :: string
  we_artifact :: ArtifactRef
  we_state :: string

section \<open>Calls of the store and of the router\<close>

definition persist :: "db \<Rightarrow> exn + (db \<times> 'a) \<Rightarrow> (db \<Rightarrow> 'a \<Rightarrow> db \<times> 'r outcome) \<Rightarrow> db \<times> 'r outcome" where
  "persist d r k = (case r of Inl e \<Rightarrow> (d, EscapedError e) | Inr (d', x) \<Rightarrow> k d' x)"

definition consult :: "db \<Rightarrow> exn + 'a \<Rightarrow> ('a \<Rightarrow> db \<times> 'r outcome) \<Rightarrow> db \<times> 'r outcome" where
  "consult d r k = (case r of Inl e \<Rightarrow> (d, EscapedError e) | Inr x \<Rightarrow> k x)"

text \<open>What the router object and its surroundings contribute to one call of \<open>generate_task\<close>.\<close>

record routing =
  rt_router :: router
  rt_clocks :: routing_clocks
  rt_start :: clock
  rt_turns :: "nat \<Rightarrow> turn"
  rt_states :: "RuntimeStateStore option"

definition route ::
    "routing \<Rightarrow> 'b budget_ops \<Rightarrow> InferenceTask \<Rightarrow> string option \<Rightarrow> 'b \<Rightarrow> 'b run \<times> InferenceResult outcome" where
  "route rt ops task preferred b =
     generate_task (rt_router rt) ops (rt_clocks rt) (rt_start rt) (rt_turns rt) (rt_states rt) task preferred (Some b)"

section \<open>The single-task executor\<close>

text \<open>The clock readings of one execution, in program order, and the identifier of its artifact.\<close>

record execution_clock =
  xc_budget :: clock
  xc_claim :: instant
  xc_remaining :: clock
  xc_dispatch :: instant
  xc_outcome :: instant
  xc_complete :: instant
  xc_uuid :: string

text \<open>\<open>WorkflowBudget(**binding["budget"])\<close>: the limits come from the strict model of
  \<open>workflows/governance.py\<close>, so other types than these do not occur.\<close>

definition bound_budget :: "clock \<Rightarrow> json \<Rightarrow> exn + WorkflowBudget" where
  "bound_budget now binding =
     bind_r (dict_item binding ''budget'') (\<lambda>b.
     if is_dict b \<and> keys_within (members b) [''deadline_seconds'', ''max_attempts'', ''max_output_tokens'']
     then case (kw (members b) ''deadline_seconds'' None dec_number, kw (members b) ''max_attempts'' None dec_int,
                kw (members b) ''max_output_tokens'' (Some None) (dec_opt dec_int)) of
            (Some s, Some n, Some m) \<Rightarrow> WorkflowBudget_init (number_value s) n m now
          | _ \<Rightarrow> Inl (TypeError ''WorkflowBudget.__init__'')
     else Inl (TypeError ''WorkflowBudget.__init__''))"

definition choose_budget :: "clock \<Rightarrow> json option \<Rightarrow> WorkflowBudget option \<Rightarrow> exn + WorkflowBudget" where
  "choose_budget now binding given =
     (case binding of
        Some b \<Rightarrow>
          if given \<noteq> None then Inl (WorkflowConflict ''Bound workflow budgets cannot be overridden'')
          else bound_budget now b
      | None \<Rightarrow> (case given of None \<Rightarrow> Inl (ValueError ''A WorkflowBudget is required'') | Some b \<Rightarrow> Inr b))"

definition dispatch_json :: "clock \<Rightarrow> WorkflowBudget \<Rightarrow> json" where
  "dispatch_json now b = JObj [(''max_attempts'', JInt (wb_max_attempts b)),
     (''max_output_tokens'', jopt JInt (wb_max_output_tokens b)),
     (''remaining_seconds_at_dispatch'', JFloat (remaining_seconds now b)),
     (''attempts'', JInt (wb_attempts b)), (''output_tokens'', JInt (wb_output_tokens b))]"

text \<open>Up to the call of the router: the fence of the claim, the packet and the budget.\<close>

definition prepare_execution ::
    "pylib \<Rightarrow> string \<Rightarrow> string \<Rightarrow> string \<Rightarrow> WorkflowBudget option \<Rightarrow> int \<Rightarrow> execution_clock \<Rightarrow> db \<Rightarrow>
       db \<times> (int \<times> TaskPacket \<times> WorkflowBudget) outcome" where
  "prepare_execution L tenant workflow_id owner given lease_seconds xc d =
     consult d (get_binding L tenant workflow_id d) (\<lambda>binding.
     consult d (choose_budget (xc_budget xc) binding given) (\<lambda>budget.
     persist d (claim L tenant workflow_id owner lease_seconds (xc_claim xc) None d) (\<lambda>d1 fence.
     consult d1 (get_packet L tenant workflow_id d1) (\<lambda>found.
     case found of
       None \<Rightarrow> (d1, EscapedError (WorkflowConflict ''Workflow disappeared after claim''))
     | Some packet \<Rightarrow>
         persist d1 (begin_dispatch L tenant workflow_id owner fence (dispatch_json (xc_remaining xc) budget)
             (xc_dispatch xc) None d1) (\<lambda>d2 _. (d2, Done (fence, packet, budget)))))))"

definition record_and_complete ::
    "pylib \<Rightarrow> string \<Rightarrow> string \<Rightarrow> string \<Rightarrow> int \<Rightarrow> json \<Rightarrow> bool \<Rightarrow> string \<Rightarrow> execution_clock \<Rightarrow> db \<Rightarrow>
       db \<times> WorkflowExecution outcome" where
  "record_and_complete L tenant workflow_id owner fence content succeeded state xc d =
     persist d (record_outcome L tenant workflow_id owner fence content succeeded (xc_outcome xc) None d) (\<lambda>d1 _.
     persist d1 (complete L tenant workflow_id owner fence content succeeded (xc_complete xc) None (xc_uuid xc) d1)
       (\<lambda>d2 artifact. (d2, Done \<lparr>we_workflow_id = workflow_id, we_artifact = artifact, we_state = state\<rparr>)))"

definition spent_payload :: "WorkflowBudget \<Rightarrow> string \<times> json" where
  "spent_payload b = budget_payload (wb_max_attempts b) (wb_attempts b) (wb_output_tokens b)"

definition finish_execution ::
    "pylib \<Rightarrow> string \<Rightarrow> string \<Rightarrow> string \<Rightarrow> int \<Rightarrow> WorkflowBudget \<Rightarrow> InferenceResult outcome \<Rightarrow> execution_clock \<Rightarrow> db \<Rightarrow>
       db \<times> WorkflowExecution outcome" where
  "finish_execution L tenant workflow_id owner fence b out xc d =
     (case out of
        Done res \<Rightarrow> record_and_complete L tenant workflow_id owner fence
          (JObj (result_payload L res @ [spent_payload b])) True ''awaiting_validation'' xc d
      | Raised rf \<Rightarrow> record_and_complete L tenant workflow_id owner fence
          (JObj (failure_payload L (rf_failure rf) (rf_attempts rf) @ [spent_payload b])) False ''failed'' xc d
      | EscapedFailure f \<Rightarrow> record_and_complete L tenant workflow_id owner fence
          (JObj (failure_payload L f [] @ [spent_payload b])) False ''failed'' xc d
      | EscapedCancel \<Rightarrow> (d, EscapedCancel)
      | EscapedTimeout \<Rightarrow> (d, EscapedTimeout)
      | EscapedError e \<Rightarrow> (d, EscapedError e))"

definition execute ::
    "pylib \<Rightarrow> routing \<Rightarrow> string \<Rightarrow> string \<Rightarrow> string \<Rightarrow> WorkflowBudget option \<Rightarrow> int \<Rightarrow> string option \<Rightarrow> execution_clock \<Rightarrow>
       (db \<Rightarrow> db) \<Rightarrow> db \<Rightarrow> db \<times> WorkflowExecution outcome" where
  "execute L rt tenant workflow_id owner given lease_seconds preferred xc others d =
     (case prepare_execution L tenant workflow_id owner given lease_seconds xc d of
        (d1, Done (fence, packet, budget)) \<Rightarrow>
          let (st, out) = route rt workflow_budget_ops (tp_task packet) preferred budget;
              spent = (case run_budget st of None \<Rightarrow> budget | Some b \<Rightarrow> b) in
          finish_execution L tenant workflow_id owner fence spent out xc (others d1)
      | (d1, Raised rf) \<Rightarrow> (d1, Raised rf)
      | (d1, EscapedFailure f) \<Rightarrow> (d1, EscapedFailure f)
      | (d1, EscapedCancel) \<Rightarrow> (d1, EscapedCancel)
      | (d1, EscapedTimeout) \<Rightarrow> (d1, EscapedTimeout)
      | (d1, EscapedError e) \<Rightarrow> (d1, EscapedError e))"

section \<open>The executor of graph nodes\<close>

definition dependency_json :: "pylib \<Rightarrow> string \<times> StoredArtifact \<Rightarrow> exn + json" where
  "dependency_json L dep =
     (case dep of (node, artifact) \<Rightarrow>
        bind_r (payload L artifact) (\<lambda>content.
        bind_r (require (is_dict content) (AttributeError ''get'')) (\<lambda>_.
        Inr (JObj [(''node_id'', JStr node), (''artifact_id'', JStr (af_artifact_id (sa_ref artifact))),
                   (''sha256'', JStr (af_sha256 (sa_ref artifact))),
                   (''output'', case dict_get content ''output'' of None \<Rightarrow> JNull | Some v \<Rightarrow> v)]))))"

definition dependency_marker :: "pylib \<Rightarrow> json list \<Rightarrow> string" where
  "dependency_marker L deps = ''RYUK_ACCEPTED_DEPENDENCIES_JSON:'' @ [CHR 0x0A] @
     canonical_json L (JObj [(''schema_version'', JInt 1), (''accepted_dependencies'', JArr deps)])"

definition bind_dependency_artifacts ::
    "pylib \<Rightarrow> TaskPacket \<Rightarrow> (string \<times> StoredArtifact) list \<Rightarrow> exn + TaskPacket" where
  "bind_dependency_artifacts L packet accepted_deps =
     (if accepted_deps = [] then Inr packet
      else bind_r (traverse (dependency_json L) accepted_deps) (\<lambda>deps.
        let marker = dependency_marker L deps; task = tp_task packet in
        bind_r (case it_input task of
            TextInput text \<Rightarrow>
              let bound = text @ [CHR 0x0A, CHR 0x0A] @ marker in
              bind_r (TextInput_post_init bound) (\<lambda>_. Inr (TextInput bound))
          | ChatInput messages \<Rightarrow>
              let m = \<lparr>cm_role = USER, cm_content = marker\<rparr>; bound = messages @ [m] in
              bind_r (ChatMessage_post_init m) (\<lambda>_.
              bind_r (ChatInput_post_init bound) (\<lambda>_. Inr (ChatInput bound)))) (\<lambda>bound_input.
        let bound = task\<lparr>it_input := bound_input\<rparr>; p = \<lparr>tp_task = bound, tp_schema_version = 1\<rparr> in
        bind_r (InferenceTask_post_init bound) (\<lambda>_. bind_r (TaskPacket_post_init p) (\<lambda>_. Inr p)))))"

definition prepare_node ::
    "pylib \<Rightarrow> string \<Rightarrow> string \<Rightarrow> string \<Rightarrow> string \<Rightarrow> int \<Rightarrow> instant \<Rightarrow> db \<Rightarrow> db \<times> (int \<times> TaskPacket) outcome" where
  "prepare_node L tenant graph_id node owner lease_seconds clk d =
     consult d (DurableGraphBudget_init tenant graph_id d) (\<lambda>_.
     persist d (claim_graph_node tenant graph_id node owner lease_seconds clk None d) (\<lambda>d1 fence.
     consult d1 (get_graph_node_packet L tenant graph_id node d1) (\<lambda>found.
     case found of
       None \<Rightarrow> (d1, EscapedError (WorkflowConflict ''Graph node disappeared after claim''))
     | Some packet \<Rightarrow>
         consult d1 (accepted_dependency_artifacts L tenant graph_id node d1) (\<lambda>dependencies.
         consult d1 (bind_dependency_artifacts L packet dependencies) (\<lambda>bound.
         (d1, Done (fence, bound)))))))"

text \<open>The durable budget as the router uses it while other executions use the same database.\<close>

definition shared_budget_ops :: "(nat \<Rightarrow> db \<Rightarrow> db) \<Rightarrow> string \<Rightarrow> string \<Rightarrow> (nat \<times> db) budget_ops" where
  "shared_budget_ops others tenant graph_id =
     (let ops = durable_budget_ops tenant graph_id in
      \<lparr>op_remaining = (\<lambda>c (n, d). op_remaining ops c d),
       op_reserve = (\<lambda>c (n, d). map_r (\<lambda>(d', ok). ((Suc n, d'), ok)) (op_reserve ops c (others n d))),
       op_record = (\<lambda>k (n, d). map_r (\<lambda>(d', ok). ((Suc n, d'), ok)) (op_record ops k (others n d))),
       op_attempts = (\<lambda>(n, d). op_attempts ops d),
       op_output_tokens = (\<lambda>(n, d). op_output_tokens ops d)\<rparr>)"

definition complete_node ::
    "pylib \<Rightarrow> string \<Rightarrow> string \<Rightarrow> string \<Rightarrow> string \<Rightarrow> int \<Rightarrow> (string \<times> json) list \<Rightarrow> bool \<Rightarrow> instant \<Rightarrow> string \<Rightarrow> db \<Rightarrow>
       (db \<Rightarrow> ArtifactRef \<Rightarrow> db \<times> WorkflowExecution outcome) \<Rightarrow> db \<times> WorkflowExecution outcome" where
  "complete_node L tenant graph_id node owner fence content succeeded clk uuid d continue =
     consult d (snapshot tenant graph_id d) (\<lambda>row.
     persist d (complete_graph_node L tenant graph_id node owner fence
         (JObj (content @ [budget_payload (gb_max_attempts row) (gb_attempts row) (gb_output_tokens row)]))
         succeeded clk None uuid d) continue)"

definition node_failed ::
    "pylib \<Rightarrow> string \<Rightarrow> string \<Rightarrow> string \<Rightarrow> string \<Rightarrow> int \<Rightarrow> failure \<Rightarrow> ExecutionAttempt list \<Rightarrow> instant \<Rightarrow> string \<Rightarrow> db \<Rightarrow>
       db \<times> WorkflowExecution outcome" where
  "node_failed L tenant graph_id node owner fence f attempts clk uuid d =
     complete_node L tenant graph_id node owner fence (failure_payload L f attempts) False clk uuid d
       (\<lambda>d' artifact. (d', Done \<lparr>we_workflow_id = graph_id, we_artifact = artifact, we_state = ''failed''\<rparr>))"

definition finish_node ::
    "pylib \<Rightarrow> string \<Rightarrow> string \<Rightarrow> string \<Rightarrow> string \<Rightarrow> ValidationPolicy \<Rightarrow> int \<Rightarrow> InferenceResult outcome \<Rightarrow> instant \<Rightarrow> string \<Rightarrow>
       db \<Rightarrow> db \<times> WorkflowExecution outcome" where
  "finish_node L tenant graph_id node owner policy fence out clk uuid d =
     (case out of
        Done res \<Rightarrow>
          complete_node L tenant graph_id node owner fence (result_payload L res) True clk uuid d (\<lambda>d1 artifact.
          persist d1 (validate_graph_node L tenant graph_id node policy d1) (\<lambda>d2 report.
          consult d2 (dict_item report ''decision'') (\<lambda>decision.
          (d2, Done \<lparr>we_workflow_id = graph_id, we_artifact = artifact,
                     we_state = (if decision = JStr ''accepted'' then ''succeeded'' else ''rejected'')\<rparr>))))
      | Raised rf \<Rightarrow> node_failed L tenant graph_id node owner fence (rf_failure rf) (rf_attempts rf) clk uuid d
      | EscapedFailure f \<Rightarrow> node_failed L tenant graph_id node owner fence f [] clk uuid d
      | EscapedCancel \<Rightarrow> (d, EscapedCancel)
      | EscapedTimeout \<Rightarrow> (d, EscapedTimeout)
      | EscapedError e \<Rightarrow> (d, EscapedError e))"

definition execute_node ::
    "pylib \<Rightarrow> routing \<Rightarrow> string \<Rightarrow> string \<Rightarrow> string \<Rightarrow> string \<Rightarrow> ValidationPolicy \<Rightarrow> int \<Rightarrow> string option \<Rightarrow> instant \<Rightarrow> instant \<Rightarrow>
       string \<Rightarrow> (nat \<Rightarrow> db \<Rightarrow> db) \<Rightarrow> db \<Rightarrow> db \<times> WorkflowExecution outcome" where
  "execute_node L rt tenant graph_id node owner policy lease_seconds preferred claim_clk finish_clk uuid others d =
     (case prepare_node L tenant graph_id node owner lease_seconds claim_clk d of
        (d1, Done (fence, packet)) \<Rightarrow>
          let (st, out) = route rt (shared_budget_ops others tenant graph_id) (tp_task packet) preferred (0, d1);
              (n, d2) = (case run_budget st of None \<Rightarrow> (0, d1) | Some b \<Rightarrow> b) in
          finish_node L tenant graph_id node owner policy fence out finish_clk uuid (others n d2)
      | (d1, Raised rf) \<Rightarrow> (d1, Raised rf)
      | (d1, EscapedFailure f) \<Rightarrow> (d1, EscapedFailure f)
      | (d1, EscapedCancel) \<Rightarrow> (d1, EscapedCancel)
      | (d1, EscapedTimeout) \<Rightarrow> (d1, EscapedTimeout)
      | (d1, EscapedError e) \<Rightarrow> (d1, EscapedError e))"

end
