(* ===== verification/WholeStore.thy ===== *)
theory WholeStore
  imports WorkflowStoreProps GraphStoreSteps
begin

text \<open>
  The workflow store as a whole. Single-task workflows and workflow graphs share one database
  (\<open>src/backend/workflows/store.py\<close>): each half works on tables of its own, so their invariants hold
  together under every interleaving of the operations of both.
\<close>

section \<open>The tables of the two halves\<close>

definition task_tables ::
    "db \<Rightarrow> workflow_row list \<times> event_row list \<times> artifact_row list \<times> validation_row list \<times> dispatch_row list
       \<times> binding_row list" where
  "task_tables d = (workflows d, workflow_events d, workflow_artifacts d, workflow_validations d,
     workflow_dispatches d, workflow_bindings d)"

definition graph_tables ::
    "db \<Rightarrow> graph_row list \<times> node_row list \<times> graph_event_row list \<times> graph_budget_row list \<times> graph_artifact_row list" where
  "graph_tables d = (workflow_graphs d, workflow_graph_nodes d, workflow_graph_events d,
     workflow_graph_budgets d, workflow_graph_artifacts d)"

lemma graph_tables_event [simp]: "graph_tables (event t i s n d) = graph_tables d"
  by (simp add: graph_tables_def event_def)

lemma task_tables_graph_event [simp]: "task_tables (graph_event t g n s d) = task_tables d"
  by (simp add: task_tables_def graph_event_def)

lemma graph_tables_task_update [simp]:
  "graph_tables (d\<lparr>workflows := x1\<rparr>) = graph_tables d"
  "graph_tables (d\<lparr>workflow_artifacts := x2\<rparr>) = graph_tables d"
  "graph_tables (d\<lparr>workflow_validations := x3\<rparr>) = graph_tables d"
  "graph_tables (d\<lparr>workflow_dispatches := x4\<rparr>) = graph_tables d"
  "graph_tables (d\<lparr>workflow_bindings := x5\<rparr>) = graph_tables d"
  by (simp_all add: graph_tables_def)

lemma task_tables_graph_update [simp]:
  "task_tables (d\<lparr>workflow_graphs := x1\<rparr>) = task_tables d"
  "task_tables (d\<lparr>workflow_graph_nodes := x2\<rparr>) = task_tables d"
  "task_tables (d\<lparr>workflow_graph_budgets := x3\<rparr>) = task_tables d"
  "task_tables (d\<lparr>workflow_graph_artifacts := x4\<rparr>) = task_tables d"
  by (simp_all add: task_tables_def)

section \<open>Each half leaves the other alone\<close>

lemma fold_fence_off_graph_tables: "graph_tables (fold fence_off rows d) = graph_tables d"
  by (induction rows arbitrary: d) (simp_all add: fence_off_def Let_def)

lemma commit_result_graph_tables:
  "commit_result L t i n encoded ok uuid d = Inr (d', a) \<Longrightarrow> graph_tables d' = graph_tables d"
  by (auto simp: commit_result_def Let_def bind_r_eq_Inr)

lemma recover_candidate_graph_tables:
  "recover_candidate L uuid c st = Inr st' \<Longrightarrow> graph_tables (fst st') = graph_tables (fst st)"
  by (auto simp: recover_candidate_def Let_def bind_r_eq_Inr split: option.splits if_splits prod.splits
      dest: commit_result_graph_tables)

lemma recover_startup_graph_tables:
  assumes "recover_startup L limit clk now uuid d = Inr (d', rep)"
  shows "graph_tables d' = graph_tables d"
proof -
  obtain rows cs rep0 where f: "foldM (recover_candidate L uuid) cs (fold fence_off rows d, rep0) = Inr (d', rep)"
    using assms by (auto simp: recover_startup_def Let_def bind_r_eq_Inr)
  have "graph_tables (fst (d', rep)) = graph_tables (fold fence_off rows d)"
    by (rule foldM_invariant [OF f]) (auto dest: recover_candidate_graph_tables)
  then show ?thesis by (simp add: fold_fence_off_graph_tables)
qed

lemma store_step_graph_tables: "store_step L d d' \<Longrightarrow> graph_tables d' = graph_tables d"
proof (induction rule: store_step.induct)
  case (st_create t key packet binding uuid d d' i)
  then show ?case
    by (auto simp: create_def Let_def bind_r_eq_Inr split: option.splits if_splits)
next
  case (st_claim t i owner secs clk now d d' n)
  then show ?case by (elim claimD) simp
next
  case (st_dispatch t i owner n budget clk now d d')
  from begin_dispatchD(3) [OF this] show ?case by simp
next
  case (st_outcome t i owner n result ok clk now d d')
  then show ?case by (elim record_outcomeD disjE conjE) simp_all
next
  case (st_complete t i owner n result ok clk now uuid d d' a)
  from completeD(3) [OF this] show ?case by (rule commit_result_graph_tables)
next
  case (st_validate t i policy d d' report)
  then show ?case by (elim validateD disjE conjE exE) (simp_all add: judged_def Let_def)
next
  case (st_cancel t i d d' b)
  from cancelD [OF this] show ?case by (elim disjE conjE exE) simp_all
next
  case (st_reconcile t i uuid d d' s)
  then show ?case by (cases rule: reconcile_uncertainD) (auto dest: commit_result_graph_tables)
next
  case (st_expired t clk now d d' k)
  then show ?case by (auto simp: recover_expired_def bind_r_eq_Inr Let_def fold_fence_off_graph_tables)
next
  case (st_startup limit clk now uuids d d' rep)
  then show ?case by (rule recover_startup_graph_tables)
qed

lemma write_change_task_tables:
  "write_change t g before later n d = Inr d' \<Longrightarrow> task_tables d' = task_tables d"
  by (auto simp: write_change_def Let_def split: option.splits if_splits)

lemma transition_graph_node_task_tables:
  assumes "transition_graph_node L t g n target d = Inr (d', s)"
  shows "task_tables d' = task_tables d"
proof -
  obtain before later ns where "foldM (write_change t g before later) ns d = Inr d'"
    using assms by (auto simp: transition_graph_node_def Let_def bind_r_eq_Inr map_r_eq_Inr)
  then show ?thesis by (rule foldM_invariant) (auto dest: write_change_task_tables)
qed

lemma insert_nodes_task_tables:
  assumes "foldM (insert_nodes t g) es d = Inr d'"
  shows "task_tables d' = task_tables d"
  by (rule foldM_invariant [OF assms]) (auto simp: insert_nodes_def bind_r_eq_Inr)

lemma insert_budget_task_tables: "insert_budget t g b deadline d = Inr d' \<Longrightarrow> task_tables d' = task_tables d"
  by (auto simp: insert_budget_def map_r_eq_Inr)

lemma cancel_node_task_tables: "cancel_node L t g e d = Inr d' \<Longrightarrow> task_tables d' = task_tables d"
  by (auto simp: cancel_node_def bind_r_eq_Inr fence_node_def split: option.splits if_splits
      dest: transition_graph_node_task_tables)

lemma recover_node_task_tables: "recover_node L row d = Inr d' \<Longrightarrow> task_tables d' = task_tables d"
  by (auto simp: recover_node_def bind_r_eq_Inr fence_node_def dest: transition_graph_node_task_tables)

lemma cancel_graph_task_tables:
  assumes "cancel_graph L t g d = Inr (d', s)"
  shows "task_tables d' = task_tables d"
proof -
  obtain es where "foldM (cancel_node L t g) es d = Inr d'"
    using assms by (auto simp: cancel_graph_def bind_r_eq_Inr split: option.splits)
  then show ?thesis by (rule foldM_invariant) (auto dest: cancel_node_task_tables)
qed

lemma recover_graph_nodes_task_tables:
  assumes "recover_graph_nodes_startup L limit clk now d = Inr (d', rep)"
  shows "task_tables d' = task_tables d"
proof -
  obtain rows where "foldM (recover_node L) rows d = Inr d'"
    using assms by (auto simp: recover_graph_nodes_startup_def Let_def bind_r_eq_Inr map_r_eq_Inr)
  then show ?thesis by (rule foldM_invariant) (auto dest: recover_node_task_tables)
qed

lemma create_graph_task_tables:
  "create_graph L t key graph budget binding clk now uuid d = Inr (d', i) \<Longrightarrow> task_tables d' = task_tables d"
  by (auto simp: create_graph_def Let_def bind_r_eq_Inr map_r_eq_Inr split: option.splits if_splits
      dest!: insert_nodes_task_tables insert_budget_task_tables)

lemma graph_store_step_task_tables: "graph_store_step L d d' \<Longrightarrow> task_tables d' = task_tables d"
proof (induction rule: graph_store_step.induct)
  case gs_create then show ?case by (auto dest: create_graph_task_tables)
next
  case gs_transition then show ?case by (rule transition_graph_node_task_tables)
next
  case gs_bind
  then show ?case
    by (auto simp: bind_graph_budget_def bind_r_eq_Inr split: option.splits if_splits dest: insert_budget_task_tables)
next
  case gs_reserve
  then show ?case by (auto simp: reserve_graph_attempt_def bind_r_eq_Inr split: option.splits if_splits)
next
  case gs_tokens
  then show ?case by (auto simp: record_graph_output_tokens_def split: option.splits if_splits)
next
  case gs_claim
  then show ?case by (auto simp: claim_graph_node_def Let_def bind_r_eq_Inr split: option.splits)
next
  case gs_complete
  then show ?case
    by (auto simp: complete_graph_node_def Let_def bind_r_eq_Inr dest: transition_graph_node_task_tables)
next
  case gs_validate
  then show ?case
    by (auto simp: validate_graph_node_def bind_r_eq_Inr split: option.splits prod.splits
        dest: transition_graph_node_task_tables)
next
  case gs_cancel then show ?case by (rule cancel_graph_task_tables)
next
  case gs_recover then show ?case by (rule recover_graph_nodes_task_tables)
qed

section \<open>Both invariants together\<close>

lemma store_ok_cong: "task_tables d' = task_tables d \<Longrightarrow> store_ok L d' = store_ok L d"
  by (simp add: task_tables_def store_ok_def cluster_def)

lemma evolves_cong: "task_tables d' = task_tables d \<Longrightarrow> evolves d d'"
  by (rule evolves_same) (simp add: task_tables_def)

lemma gmove_cong: "graph_tables d' = graph_tables d \<Longrightarrow> gmove L d d'"
  by (rule gmove_same(1)) (simp_all add: graph_tables_def)

inductive whole_step :: "pylib \<Rightarrow> db \<Rightarrow> db \<Rightarrow> bool" for L where
  ws_task: "store_step L d d' \<Longrightarrow> whole_step L d d'"
| ws_graph: "graph_store_step L d d' \<Longrightarrow> whole_step L d d'"

definition whole_ok :: "pylib \<Rightarrow> db \<Rightarrow> bool" where
  "whole_ok L d \<longleftrightarrow> store_ok L d \<and> gstore_ok L d"

lemma whole_step_good:
  assumes "whole_step L d d'" and "lib_laws L" and "whole_ok L d"
  shows "whole_ok L d' \<and> evolves d d' \<and> gevolves L d d'"
  using assms(1)
proof cases
  case ws_task
  have g: "gmove L d d'" using gmove_cong [OF store_step_graph_tables [OF ws_task]] .
  have ok: "store_ok L d" "gstore_ok L d" using assms(3) by (simp_all add: whole_ok_def)
  have "store_ok L d'" using store_step_ok ws_task ok(1) by blast
  moreover have "evolves d d'" using store_step_evolves ws_task ok(1) by blast
  ultimately show ?thesis using gmove_good [OF ok(2) g] by (simp add: whole_ok_def)
next
  case ws_graph
  have t: "task_tables d' = task_tables d" by (rule graph_store_step_task_tables [OF ws_graph])
  have "gstore_ok L d' \<and> gevolves L d d'"
    using graph_store_step_good [OF ws_graph] assms(2,3) by (simp add: whole_ok_def lib_laws_def)
  then show ?thesis using store_ok_cong [OF t] evolves_cong [OF t] assms(3) by (simp add: whole_ok_def)
qed

lemma whole_run_good:
  assumes "(whole_step L)\<^sup>*\<^sup>* d d'" and "lib_laws L" and "whole_ok L d"
  shows "whole_ok L d' \<and> evolves d d' \<and> gevolves L d d'"
  using assms(1)
proof (induction rule: rtranclp_induct)
  case (step b c)
  from whole_step_good [OF step.hyps(2) assms(2)] step.IH show ?case
    using evolves_trans gevolves_trans by blast
qed (use assms(3) in simp)

lemma whole_init_ok: "store_init d \<Longrightarrow> whole_ok L d"
proof -
  assume "store_init d"
  moreover from this have "gstore_init d"
    by (auto simp: store_init_def open_store_def empty_db_def gstore_init_def)
  ultimately show ?thesis using store_init_ok gstore_init_ok by (simp add: whole_ok_def)
qed

interpretation whole_store: state_machine store_init "\<lambda>d d'. lib_laws L \<and> whole_step L d d'" "whole_ok L" for L
  by unfold_locales (auto intro: whole_init_ok dest: whole_step_good)

section \<open>Budgets under interference\<close>

text \<open>The stored budget of a graph is never removed, its limits never change, and what has been charged
  is never given back.\<close>

definition budget_advances :: "graph_budget_row \<Rightarrow> graph_budget_row \<Rightarrow> bool" where
  "budget_advances b b' \<longleftrightarrow> gb_max_attempts b' = gb_max_attempts b
     \<and> gb_max_output_tokens b' = gb_max_output_tokens b \<and> gb_deadline_at b' = gb_deadline_at b
     \<and> gb_attempts b \<le> gb_attempts b' \<and> gb_output_tokens b \<le> gb_output_tokens b'"

definition budget_kept :: "db \<Rightarrow> db \<Rightarrow> bool" where
  "budget_kept d d' \<longleftrightarrow> (\<forall>t g b. get_graph_budget t g d = Some b \<longrightarrow>
     (\<exists>b'. get_graph_budget t g d' = Some b' \<and> budget_advances b b'))"

lemma budget_kept_same: "workflow_graph_budgets d' = workflow_graph_budgets d \<Longrightarrow> budget_kept d d'"
  by (simp add: budget_kept_def get_graph_budget_def budget_advances_def)

lemma budget_kept_trans: "budget_kept d1 d2 \<Longrightarrow> budget_kept d2 d3 \<Longrightarrow> budget_kept d1 d3"
proof -
  have "budget_advances a c" if "budget_advances a b" "budget_advances b c" for a b c
    using that by (auto simp: budget_advances_def)
  then show "budget_kept d1 d2 \<Longrightarrow> budget_kept d2 d3 \<Longrightarrow> budget_kept d1 d3"
    unfolding budget_kept_def by meson
qed

lemma budget_kept_append:
  "workflow_graph_budgets d' = workflow_graph_budgets d @ rows \<Longrightarrow> budget_kept d d'"
  by (simp add: budget_kept_def get_graph_budget_def find_append budget_advances_def)

lemma budget_kept_update:
  assumes "workflow_graph_budgets d' = update_where P f (workflow_graph_budgets d)"
    and "\<And>r. P r \<Longrightarrow> gb_tenant (f r) = gb_tenant r \<and> gb_graph_id (f r) = gb_graph_id r \<and> budget_advances r (f r)"
  shows "budget_kept d d'"
proof -
  have find: "List.find (budget_is t g) (update_where P f rows)
      = map_option (\<lambda>r. if P r then f r else r) (List.find (budget_is t g) rows)" for t g rows
    using assms(2) by (intro find_update_where) (simp add: budget_is_def)
  have "budget_advances r (if P r then f r else r)" for r
    using assms(2) by (simp add: budget_advances_def)
  then show ?thesis by (simp add: budget_kept_def get_graph_budget_def assms(1) find)
qed

lemma budget_kept_set:
  "(\<And>r. P r \<Longrightarrow> gb_tenant (f r) = gb_tenant r \<and> gb_graph_id (f r) = gb_graph_id r \<and> budget_advances r (f r))
     \<Longrightarrow> budget_kept d (d\<lparr>workflow_graph_budgets := update_where P f (workflow_graph_budgets d)\<rparr>)"
  by (rule budget_kept_update [of _ P f]) simp_all

lemma gmove_budget_kept: "gmove L d d' \<Longrightarrow> budget_kept d d'"
  by (rule budget_kept_same) (simp add: gmove_def)

lemma insert_budget_kept: "insert_budget t g b deadline d = Inr d' \<Longrightarrow> budget_kept d d'"
  by (rule budget_kept_append) (auto simp: insert_budget_def map_r_eq_Inr insert_pk_eq_Inr)

lemma insert_nodes_budgets:
  assumes "foldM (insert_nodes t g) es d = Inr d'"
  shows "workflow_graph_budgets d' = workflow_graph_budgets d"
  by (rule foldM_invariant [OF assms]) (auto simp: insert_nodes_def bind_r_eq_Inr graph_event_def)

lemma insert_budget_kept_after:
  "insert_budget t g b deadline d1 = Inr d' \<Longrightarrow> workflow_graph_budgets d1 = workflow_graph_budgets d \<Longrightarrow> budget_kept d d'"
  using insert_budget_kept budget_kept_same budget_kept_trans by blast

lemma create_graph_budget_kept:
  assumes "create_graph L t key graph budget binding clk now uuid d = Inr (d', i)"
  shows "budget_kept d d'"
  using assms
  by (auto simp: create_graph_def Let_def bind_r_eq_Inr map_r_eq_Inr budget_kept_same split: option.splits if_splits
      dest!: insert_nodes_budgets intro: insert_budget_kept_after)

lemma bind_graph_budget_kept: "bind_graph_budget L t g b clk now d = Inr (d', row) \<Longrightarrow> budget_kept d d'"
  by (auto simp: bind_graph_budget_def bind_r_eq_Inr budget_kept_same split: option.splits if_splits
      dest: insert_budget_kept)

lemma reserve_graph_attempt_kept: "reserve_graph_attempt t g clk now d = Inr (d', ok) \<Longrightarrow> budget_kept d d'"
  by (auto simp: reserve_graph_attempt_def bind_r_eq_Inr budget_kept_same budget_advances_def
      split: option.splits if_splits intro!: budget_kept_set)

lemma record_graph_output_tokens_kept: "record_graph_output_tokens t g n d = Inr (d', ok) \<Longrightarrow> budget_kept d d'"
  by (auto simp: record_graph_output_tokens_def budget_kept_same budget_advances_def
      split: option.splits if_splits intro!: budget_kept_set)

lemma graph_store_step_budget_kept:
  assumes "graph_store_step L d d'" and ok: "gstore_ok L d"
  shows "budget_kept d d'"
  using assms(1)
proof cases
  case gs_create then show ?thesis by (auto dest: create_graph_budget_kept)
next
  case gs_transition
  show ?thesis by (rule gmove_budget_kept, rule transition_graph_nodeD [OF gstore_okD(1) [OF ok] gs_transition])
next
  case gs_bind then show ?thesis by (rule bind_graph_budget_kept)
next
  case gs_reserve then show ?thesis by (rule reserve_graph_attempt_kept)
next
  case gs_tokens then show ?thesis by (rule record_graph_output_tokens_kept)
next
  case gs_claim
  show ?thesis by (rule gmove_budget_kept, rule claim_graph_node_move [OF ok gs_claim])
next
  case gs_complete
  show ?thesis by (rule gmove_budget_kept, rule complete_graph_node_move [OF ok gs_complete])
next
  case gs_validate
  show ?thesis using validate_graph_nodeD [OF ok gs_validate] gmove_budget_kept by auto
next
  case gs_cancel then show ?thesis using gmove_budget_kept cancel_graph_move(1) [OF ok] by blast
next
  case gs_recover then show ?thesis using gmove_budget_kept recover_graph_nodes_move [OF ok] by blast
qed

lemma whole_step_budget_kept:
  assumes "whole_step L d d'" and "whole_ok L d"
  shows "budget_kept d d'"
  using assms(1)
proof cases
  case ws_task
  from store_step_graph_tables [OF ws_task] show ?thesis by (intro budget_kept_same) (simp add: graph_tables_def)
next
  case ws_graph
  then show ?thesis using graph_store_step_budget_kept assms(2) by (simp add: whole_ok_def)
qed

lemma whole_run_budget_kept:
  assumes "(whole_step L)\<^sup>*\<^sup>* d d'" and "lib_laws L" and "whole_ok L d"
  shows "budget_kept d d'"
  using assms(1)
proof (induction rule: rtranclp_induct)
  case (step b c)
  have "whole_ok L b" using whole_run_good [OF step.hyps(1) assms(2,3)] by blast
  then show ?case using step whole_step_budget_kept budget_kept_trans by blast
qed (simp add: budget_kept_same)

end
