(* ===== verification/ExecutorProps.thy ===== *)
theory ExecutorProps
  imports Executor RouterProps WholeStore
begin

text \<open>
  The executors as clients of the store: whatever an execution does to the database is a run of
  operations of the store, so the invariants of the store hold throughout; and the laws of the shared
  budget under interference.
\<close>

section \<open>Executions are runs of the store\<close>

abbreviation steps :: "pylib \<Rightarrow> db \<Rightarrow> db \<Rightarrow> bool" where
  "steps L \<equiv> (whole_step L)\<^sup>*\<^sup>*"

lemma consult_cases:
  assumes "consult d r k = (d', out)"
  obtains (raises) e where "r = Inl e" and "d' = d" and "out = EscapedError e"
  | (goes) x where "r = Inr x" and "k x = (d', out)"
  using assms by (cases r) (auto simp: consult_def)

lemma persist_cases:
  assumes "persist d r k = (d', out)"
  obtains (raises) e where "r = Inl e" and "d' = d" and "out = EscapedError e"
  | (goes) d1 x where "r = Inr (d1, x)" and "k d1 x = (d', out)"
  using assms by (cases r) (auto simp: persist_def)

lemma consult_steps:
  "consult d r k = (d', out) \<Longrightarrow> (\<And>x. r = Inr x \<Longrightarrow> k x = (d', out) \<Longrightarrow> steps L d d') \<Longrightarrow> steps L d d'"
  by (erule consult_cases) simp_all

lemma persist_steps:
  assumes "persist d r k = (d', out)" and "\<And>d1 x. r = Inr (d1, x) \<Longrightarrow> whole_step L d d1"
    and "\<And>d1 x. r = Inr (d1, x) \<Longrightarrow> k d1 x = (d', out) \<Longrightarrow> steps L d1 d'"
  shows "steps L d d'"
  using assms(1)
proof (cases rule: persist_cases)
  case (goes d1 x)
  from converse_rtranclp_into_rtranclp [OF assms(2) [OF goes(1)] assms(3) [OF goes]] show ?thesis .
qed simp

lemma consult_Done [simp]: "consult d r k = (d', Done x) \<longleftrightarrow> (\<exists>y. r = Inr y \<and> k y = (d', Done x))"
  by (cases r) (auto simp: consult_def)

lemma persist_Done [simp]:
  "persist d r k = (d', Done x) \<longleftrightarrow> (\<exists>d1 y. r = Inr (d1, y) \<and> k d1 y = (d', Done x))"
  by (cases r) (auto simp: persist_def)

lemma executor_calls:
  "claim L t i owner secs clk now d = Inr (d', n) \<Longrightarrow> whole_step L d d'"
  "begin_dispatch L t i owner n content clk now d = Inr (d', u) \<Longrightarrow> whole_step L d d'"
  "record_outcome L t i owner n content ok clk now d = Inr (d', u) \<Longrightarrow> whole_step L d d'"
  "complete L t i owner n content ok clk now uuid d = Inr (d', a) \<Longrightarrow> whole_step L d d'"
  "claim_graph_node t g k owner secs clk now d = Inr (d', n) \<Longrightarrow> whole_step L d d'"
  "complete_graph_node L t g k owner n content ok clk now uuid d = Inr (d', a) \<Longrightarrow> whole_step L d d'"
  "validate_graph_node L t g k policy d = Inr (d', report) \<Longrightarrow> whole_step L d d'"
  by (auto intro: ws_task st_claim st_dispatch st_outcome st_complete ws_graph gs_claim gs_complete gs_validate)

lemma prepare_execution_steps:
  assumes "prepare_execution L t i owner given secs xc d = (d', out)"
  shows "steps L d d'"
  using assms unfolding prepare_execution_def
  by (elim consult_steps persist_steps) (auto intro: executor_calls elim!: consult_steps persist_steps split: option.splits)

lemma record_and_complete_steps:
  assumes "record_and_complete L t i owner fence content ok state xc d = (d', out)"
  shows "steps L d d'"
  using assms unfolding record_and_complete_def
  by (elim persist_steps) (auto intro: executor_calls)

lemma finish_execution_steps:
  assumes "finish_execution L t i owner fence b out xc d = (d', res)"
  shows "steps L d d'"
  using assms by (auto simp: finish_execution_def split: outcome.splits intro: record_and_complete_steps)

lemma prepare_node_steps:
  assumes "prepare_node L t g k owner secs clk d = (d', out)"
  shows "steps L d d'"
  using assms unfolding prepare_node_def
  by (elim consult_steps persist_steps) (auto intro: executor_calls elim!: consult_steps split: option.splits)

lemma complete_node_steps:
  assumes "complete_node L t g k owner fence content ok clk uuid d continue = (d', out)"
    and "\<And>d1 a. continue d1 a = (d', out) \<Longrightarrow> steps L d1 d'"
  shows "steps L d d'"
  using assms(1) unfolding complete_node_def
  by (elim consult_steps persist_steps) (auto intro: executor_calls assms(2))

lemma finish_node_steps:
  assumes "finish_node L t g k owner policy fence out clk uuid d = (d', res)"
  shows "steps L d d'"
  using assms
  by (auto simp: finish_node_def node_failed_def split: outcome.splits elim!: complete_node_steps consult_steps persist_steps
      intro: executor_calls)

section \<open>The shared budget\<close>

text \<open>Other executions only run operations of the store.\<close>

definition well_behaved :: "pylib \<Rightarrow> (nat \<Rightarrow> db \<Rightarrow> db) \<Rightarrow> bool" where
  "well_behaved L others \<longleftrightarrow> (\<forall>n d. steps L d (others n d))"

definition shared_ok :: "pylib \<Rightarrow> db \<Rightarrow> string \<Rightarrow> string \<Rightarrow> nat \<times> db \<Rightarrow> bool" where
  "shared_ok L d0 t g b \<longleftrightarrow> steps L d0 (snd b) \<and> whole_ok L (snd b) \<and> get_graph_budget t g (snd b) \<noteq> None"

lemma shared_okD:
  assumes "shared_ok L d0 t g b"
  shows "durable_ok t g (snd b)" and "whole_ok L (snd b)" and "steps L d0 (snd b)"
  using assms gstore_okD(3) by (auto simp: shared_ok_def durable_ok_def whole_ok_def)

lemma shared_run:
  assumes "shared_ok L d0 t g (n, d)" and "steps L d d'" and "lib_laws L"
  shows "shared_ok L d0 t g (n', d')" and "budget_advances (bound_row t g d) (bound_row t g d')"
proof -
  have k: "budget_kept d d'" using whole_run_budget_kept [OF assms(2,3)] assms(1) by (simp add: shared_ok_def)
  obtain b where b: "get_graph_budget t g d = Some b" using assms(1) by (auto simp: shared_ok_def)
  from k b obtain b' where b': "get_graph_budget t g d' = Some b'" "budget_advances b b'"
    unfolding budget_kept_def by blast
  show "shared_ok L d0 t g (n', d')"
    using assms(1,2) whole_run_good [OF assms(2,3)] b'(1) rtranclp_trans [of "whole_step L" d0 d d']
    by (simp add: shared_ok_def)
  show "budget_advances (bound_row t g d) (bound_row t g d')"
    using b b' by (simp add: bound_row_def)
qed

lemma shared_attempt_budget:
  assumes lib: "lib_laws L" and others: "well_behaved L others"
  shows "attempt_budget (shared_budget_ops others t g) (shared_ok L d0 t g)
    (\<lambda>b. gb_max_attempts (bound_row t g (snd b))) (\<lambda>b. gb_attempts (bound_row t g (snd b)))
    (\<lambda>b. gb_max_output_tokens (bound_row t g (snd b))) (\<lambda>b. gb_output_tokens (bound_row t g (snd b)))"
proof
  fix b assume "shared_ok L d0 t g b"
  from shared_okD(1) [OF this] show
      "0 \<le> gb_attempts (bound_row t g (snd b)) \<and> gb_attempts (bound_row t g (snd b)) \<le> gb_max_attempts (bound_row t g (snd b))"
      "0 \<le> gb_output_tokens (bound_row t g (snd b)) \<and> (\<forall>m. gb_max_output_tokens (bound_row t g (snd b)) = Some m
         \<longrightarrow> gb_output_tokens (bound_row t g (snd b)) \<le> m)"
    using durable_budget.spent_bounds durable_budget.token_bounds by blast+
next
  fix b c b' ok assume v: "shared_ok L d0 t g b" and r: "op_reserve (shared_budget_ops others t g) c b = Inr (b', ok)"
  obtain n d where b: "b = (n, d)" by (cases b)
  let ?d = "others n d"
  have m: "steps L d ?d" using others by (simp add: well_behaved_def)
  note i = shared_run [OF v [unfolded b] m lib]
  obtain d' where d': "b' = (Suc n, d')" and rg: "reserve_graph_attempt t g (wall c) None ?d = Inr (d', ok)"
    using r by (auto simp: shared_budget_ops_def Let_def b durable_budget_ops_def map_r_eq_Inr)
  have s: "steps L ?d d'" using ws_graph [OF gs_reserve [OF rg]] by blast
  have "gb_attempts (bound_row t g ?d) + (if ok then 1 else 0) = gb_attempts (bound_row t g d')"
    using durable_reserve [OF shared_okD(1) [OF i(1), simplified] rg] by simp
  then show "shared_ok L d0 t g b' \<and> gb_max_attempts (bound_row t g (snd b')) = gb_max_attempts (bound_row t g (snd b))
      \<and> gb_max_output_tokens (bound_row t g (snd b')) = gb_max_output_tokens (bound_row t g (snd b))
      \<and> gb_output_tokens (bound_row t g (snd b)) \<le> gb_output_tokens (bound_row t g (snd b'))
      \<and> gb_attempts (bound_row t g (snd b)) + (if ok then 1 else 0) \<le> gb_attempts (bound_row t g (snd b'))"
    using i(2) shared_run(1) [OF i(1) [of n] s lib, of "Suc n"] shared_run(2) [OF i(1) [of n] s lib] by (auto simp: b d' budget_advances_def)
next
  fix b k b' ok assume v: "shared_ok L d0 t g b" and r: "op_record (shared_budget_ops others t g) k b = Inr (b', ok)"
  obtain n d where b: "b = (n, d)" by (cases b)
  let ?d = "others n d"
  have m: "steps L d ?d" using others by (simp add: well_behaved_def)
  note i = shared_run [OF v [unfolded b] m lib]
  obtain d' where d': "b' = (Suc n, d')" and rg: "record_graph_output_tokens t g k ?d = Inr (d', ok)"
    using r by (auto simp: shared_budget_ops_def Let_def b durable_budget_ops_def map_r_eq_Inr)
  have s: "steps L ?d d'" using ws_graph [OF gs_tokens [OF rg]] by blast
  have "gb_output_tokens (bound_row t g ?d) + (if ok then (case k of None \<Rightarrow> 0 | Some j \<Rightarrow> j) else 0)
      = gb_output_tokens (bound_row t g d')"
    using durable_record [OF shared_okD(1) [OF i(1), simplified] rg] by simp
  then show "shared_ok L d0 t g b' \<and> gb_max_attempts (bound_row t g (snd b')) = gb_max_attempts (bound_row t g (snd b))
      \<and> gb_max_output_tokens (bound_row t g (snd b')) = gb_max_output_tokens (bound_row t g (snd b))
      \<and> gb_attempts (bound_row t g (snd b)) \<le> gb_attempts (bound_row t g (snd b'))
      \<and> gb_output_tokens (bound_row t g (snd b)) + (if ok then (case k of None \<Rightarrow> 0 | Some j \<Rightarrow> j) else 0)
          \<le> gb_output_tokens (bound_row t g (snd b'))"
    using i(2) shared_run(1) [OF i(1) [of n] s lib, of "Suc n"] shared_run(2) [OF i(1) [of n] s lib] by (auto simp: b d' budget_advances_def)
qed

end
