(* ===== verification/ExecutorTheorems.thy ===== *)
theory ExecutorTheorems
  imports ExecutorProps StoreTheorems RouterTheorems GraphStoreTheorems
begin

text \<open>
  What the executors promise over the shared store: the engines are called at most once for a workflow
  and for a node, only after the claim is on record, within the budget whatever runs beside them, and
  the outcome of a call is what the store keeps.
\<close>

section \<open>Reachable stores\<close>

lemma whole_reachable_ok:
  assumes "reachable store_init (whole_step L) d" and "lib_laws L"
  shows "whole_ok L d"
  using assms(1)
  by (induction rule: reachable.induct) (use whole_init_ok whole_step_good [OF _ assms(2)] in blast)+

lemma steps_lift: "(store_step L)\<^sup>*\<^sup>* d d' \<Longrightarrow> steps L d d'"
  by (induction rule: rtranclp_induct) (auto intro: rtranclp.rtrancl_into_rtrancl ws_task)

lemma reachable_lift: "reachable store_init (store_step L) d \<Longrightarrow> reachable store_init (whole_step L) d"
  by (induction rule: reachable.induct) (auto intro: reach_init reach_step ws_task)

text \<open>C17. The two halves of the store do not disturb each other: in every state reached by interleaved operations of
  single-task workflows and of workflow graphs, and by the executors on top of them, both sets of tables
  are consistent.\<close>

theorem whole_store_invariant:
  assumes "lib_laws L" and "reachable store_init (whole_step L) d"
  shows "store_ok L d \<and> gstore_ok L d"
  using whole_reachable_ok [OF assms(2,1)] by (simp add: whole_ok_def)

lemma sample_laws: "lib_laws sample_lib"
  using sample_lib_laws by (simp add: lib_laws_def)

lemmas sample_whole = sample_reachable [THEN reachable_lift]

theorem whole_store_invariant_witness: "store_ok sample_lib sample_claimed"
  using whole_store_invariant [OF sample_laws sample_whole(3)] by blast

section \<open>The single-task executor\<close>

lemma prepare_executionD:
  assumes "prepare_execution L t i owner given secs xc d = (d1, Done (fence, packet, budget))"
  obtains d0 binding where "get_binding L t i d = Inr binding"
    and "choose_budget (xc_budget xc) binding given = Inr budget"
    and "claim L t i owner secs (xc_claim xc) None d = Inr (d0, fence)"
    and "get_packet L t i d0 = Inr (Some packet)"
    and "begin_dispatch L t i owner fence (dispatch_json (xc_remaining xc) budget) (xc_dispatch xc) None d0 = Inr (d1, ())"
  using assms by (auto simp: prepare_execution_def split: option.splits)

lemma claim_abs:
  assumes "store_ok L d" and "claim L t i owner secs clk now d = Inr (d1, n)"
  shows "n = 1" and "abs_state t i d = Some (Ready, 0)" and "abs_state t i d1 = Some (Running, 1)"
proof -
  obtain r current where r: "find_workflow t i d = Some r" "wf_state r = Ready" "n = wf_fence r + 1"
      and d1: "d1 = event t i (State Running) n (d\<lparr>workflows := update_where (wf_is t i)
           (\<lambda>r. r\<lparr>wf_state := Running, wf_fence := n, wf_owner := Some owner,
                  wf_lease_until := Some (current + seconds (of_int secs))\<rparr>) (workflows d)\<rparr>)"
    by (rule claimD [OF assms(2)]) blast
  have "row_ok r" using row_cluster [OF assms(1) r(1)] by (rule cluster_row)
  then have z: "wf_fence r = 0" using r(2) by (simp add: row_ok_def)
  then show "n = 1" using r(3) by simp
  show "abs_state t i d = Some (Ready, 0)" using r z by (simp add: abs_state_def)
  have "find_workflow t i d1 = map_option (\<lambda>r. r\<lparr>wf_state := Running, wf_fence := n,
      wf_owner := Some owner, wf_lease_until := Some (current + seconds (of_int secs))\<rparr>) (find_workflow t i d)"
    by (subst find_workflow_update [where t = t and i = i]) (auto simp: d1)
  then show "abs_state t i d1 = Some (Running, 1)" using r z by (simp add: abs_state_def)
qed

lemma claim_needs_ready:
  "abs_state t i d = Some a \<Longrightarrow> fst a \<noteq> Ready \<Longrightarrow> \<exists>e. claim L t i owner secs clk now d = Inl e"
proof (cases "claim L t i owner secs clk now d")
  case (Inr x)
  assume "abs_state t i d = Some a" "fst a \<noteq> Ready"
  moreover have "claim L t i owner secs clk now d = Inr (fst x, snd x)" using Inr by simp
  ultimately show ?thesis by (elim claimD) (auto simp: abs_state_def)
qed simp

lemma refused_claim_prepares_nothing:
  assumes "claim L t i owner secs (xc_claim xc) None d = Inl e"
  shows "\<exists>e. prepare_execution L t i owner given secs xc d = (d, EscapedError e)"
  by (cases "get_binding L t i d"; cases "choose_budget (xc_budget xc) (projr (get_binding L t i d)) given")
     (simp_all add: prepare_execution_def consult_def persist_def assms)

text \<open>C3. The engines are called at most once for a workflow: once an execution has got as far as the call of the
  router, in every later state, whatever operations, recoveries and restarts come between, every other
  execution of the workflow ends with an error before the call and leaves the database as it was.\<close>

theorem execution_dispatched_once:
  assumes "lib_laws L" and "reachable store_init (whole_step L) d"
    and "prepare_execution L t i owner given secs xc d = (d1, Done x)" and "(whole_step L)\<^sup>*\<^sup>* d1 d2"
  shows "\<exists>e. prepare_execution L t i owner' given' secs' xc' d2 = (d2, EscapedError e)"
proof -
  have ok: "whole_ok L d" using whole_reachable_ok [OF assms(2,1)] .
  obtain fence packet budget where x: "x = (fence, packet, budget)" by (cases x)
  obtain d0 where c: "claim L t i owner secs (xc_claim xc) None d = Inr (d0, fence)"
      and b: "begin_dispatch L t i owner fence (dispatch_json (xc_remaining xc) budget) (xc_dispatch xc) None d0 = Inr (d1, ())"
    using prepare_executionD [OF assms(3) [unfolded x]] by metis
  have "abs_state t i d0 = Some (Running, 1)"
    using claim_abs(3) [OF _ c] ok by (auto simp: whole_ok_def)
  then have "abs_state t i d1 = Some (Running, 1)"
    using begin_dispatchD(3) [OF b] by (simp add: abs_state_def find_workflow_def)
  moreover have "whole_ok L d1"
    using whole_run_good [OF prepare_execution_steps [OF assms(3)] assms(1) ok] by blast
  ultimately obtain a where a: "abs_state t i d2 = Some a" "lifecycle\<^sup>*\<^sup>* (Running, 1) a"
    using whole_run_good [OF assms(4,1)] evolvesD(1) by blast
  have "fst a \<noteq> Ready" using lifecycle_not_ready [OF a(2)] by fastforce
  then obtain e where "claim L t i owner' secs' (xc_claim xc') None d2 = Inl e"
    using claim_needs_ready [OF a(1)] by blast
  then show ?thesis by (rule refused_claim_prepares_nothing)
qed

definition sample_xc :: execution_clock where
  "sample_xc = \<lparr>xc_budget = sample_start, xc_claim = 0, xc_remaining = sample_start, xc_dispatch = 4, xc_outcome = 5,
     xc_complete = 6, xc_uuid = ''a1''\<rparr>"

definition sample_wb :: WorkflowBudget where
  "sample_wb = \<lparr>wb_deadline_seconds = 60, wb_max_attempts = 2, wb_max_output_tokens = None, wb_started = 0,
     wb_attempts = 0, wb_output_tokens = 0\<rparr>"

definition sample_dispatched :: db where
  "sample_dispatched = event ''acme'' ''w1'' DispatchStarted 1 (sample_claimed\<lparr>workflow_dispatches :=
     [\<lparr>di_workflow_id = ''w1'', di_tenant = ''acme'', di_fence = 1,
       di_budget_json = canonical_json sample_lib (dispatch_json sample_start sample_wb), di_outcome_json = None,
       di_outcome_sha256 = None, di_succeeded = None\<rparr>]\<rparr>)"

lemma sample_prepare:
  "prepare_execution sample_lib ''acme'' ''w1'' ''node-a'' (Some sample_wb) 30 sample_xc sample_created
     = (sample_dispatched, Done (1, sample_packet, sample_wb))"
proof -
  have "get_binding sample_lib ''acme'' ''w1'' sample_created = Inr None"
    by (simp add: get_binding_def sample_created_def sample_defs)
  moreover have "get_packet sample_lib ''acme'' ''w1'' sample_claimed = Inr (Some sample_packet)"
    by (simp add: get_packet_def get_def decode_def find_workflow_def find_validation_def sample_claimed_def sample_created_def
        sample_running_def sample_defs sample_row_def sample_packet_loads sample_digest)
  moreover have "begin_dispatch sample_lib ''acme'' ''w1'' ''node-a'' 1 (dispatch_json sample_start sample_wb) 4 None sample_claimed
      = Inr (sample_dispatched, ())"
    by (simp add: begin_dispatch_def require_lease_def find_workflow_def Let_def sample_dispatched_def sample_claimed_def
        sample_created_def sample_running_def sample_defs sample_row_def)
  ultimately show ?thesis
    by (simp add: prepare_execution_def choose_budget_def consult_def persist_def sample_claim sample_xc_def)
qed

theorem execution_dispatched_once_witness:
  "\<exists>e. prepare_execution sample_lib ''acme'' ''w1'' ''node-b'' None 30 sample_xc sample_dispatched
     = (sample_dispatched, EscapedError e)"
  by (rule execution_dispatched_once [OF sample_laws sample_whole(2) sample_prepare rtranclp.rtrancl_refl])

text \<open>What an execution stores for an outcome of the router, and whether it counts as a success.\<close>

fun outcome_content :: "pylib \<Rightarrow> InferenceResult outcome \<Rightarrow> ((string \<times> json) list \<times> bool) option" where
  "outcome_content L (Done res) = Some (result_payload L res, True)"
| "outcome_content L (Raised rf) = Some (failure_payload L (rf_failure rf) (rf_attempts rf), False)"
| "outcome_content L (EscapedFailure f) = Some (failure_payload L f [], False)"
| "outcome_content L _ = None"

lemma finish_execution_Done:
  assumes "finish_execution L t i owner fence b out xc d = (d', Done ex)"
  obtains c ok where "outcome_content L out = Some (c, ok)"
    and "record_and_complete L t i owner fence (JObj (c @ [spent_payload b])) ok
           (if ok then ''awaiting_validation'' else ''failed'') xc d = (d', Done ex)"
  using assms by (cases out) (auto simp: finish_execution_def)

lemma executeD:
  assumes "execute L rt t i owner given secs preferred xc others d = (d', Done ex)"
  obtains d1 fence packet budget st out
  where "prepare_execution L t i owner given secs xc d = (d1, Done (fence, packet, budget))"
    and "route rt workflow_budget_ops (tp_task packet) preferred budget = (st, out)"
    and "finish_execution L t i owner fence (case run_budget st of None \<Rightarrow> budget | Some b \<Rightarrow> b) out xc (others d1) = (d', Done ex)"
proof -
  obtain d1 p where p: "prepare_execution L t i owner given secs xc d = (d1, p)" by (cases "prepare_execution L t i owner given secs xc d")
  obtain fence packet budget where x: "p = Done (fence, packet, budget)"
    using assms p by (cases p) (auto simp: execute_def)
  obtain st out where r: "route rt workflow_budget_ops (tp_task packet) preferred budget = (st, out)"
    by (cases "route rt workflow_budget_ops (tp_task packet) preferred budget")
  show thesis using that [OF p [unfolded x] r] assms p x r by (simp add: execute_def)
qed

text \<open>C4. What an execution returns is what the store holds: an execution that returns was the one claim of a ready
  workflow; the stored result is the outcome of its call of the router with all attempts and the spent
  budget, under the returned artifact; the workflow awaits validation exactly when the router succeeded
  and has failed otherwise; and a budget bound to the workflow limits the attempts of the call.\<close>

theorem execution_recorded:
  assumes "lib_laws L" and "reachable store_init (whole_step L) d" and "\<forall>d. (whole_step L)\<^sup>*\<^sup>* d (others d)"
    and "execute L rt t i owner given secs preferred xc others d = (d', Done ex)"
  shows "\<exists>d1 packet budget st out content ok r.
      abs_state t i d = Some (Ready, 0)
    \<and> prepare_execution L t i owner given secs xc d = (d1, Done (1, packet, budget))
    \<and> route rt workflow_budget_ops (tp_task packet) preferred budget = (st, out)
    \<and> outcome_content L out = Some (content, ok)
    \<and> find_workflow t i d' = Some r \<and> wf_fence r = 1
    \<and> wf_state r = (if ok then AwaitingValidation else Failed)
    \<and> we_state ex = (if ok then ''awaiting_validation'' else ''failed'')
    \<and> wf_result_artifact_id r = Some (af_artifact_id (we_artifact ex))
    \<and> wf_result r = Some (canonical_json L (JObj (content
         @ [spent_payload (case run_budget st of None \<Rightarrow> budget | Some b \<Rightarrow> b)])))
    \<and> (given = None \<longrightarrow> int (length (run_attempts st)) \<le> wb_max_attempts budget)"
proof -
  have ok: "whole_ok L d" using whole_reachable_ok [OF assms(2,1)] .
  obtain d1 fence packet budget st out
    where p: "prepare_execution L t i owner given secs xc d = (d1, Done (fence, packet, budget))"
      and r: "route rt workflow_budget_ops (tp_task packet) preferred budget = (st, out)"
      and f: "finish_execution L t i owner fence (case run_budget st of None \<Rightarrow> budget | Some b \<Rightarrow> b) out xc (others d1) = (d', Done ex)"
    by (rule executeD [OF assms(4)])
  obtain d0 binding where b: "choose_budget (xc_budget xc) binding given = Inr budget"
      and c: "claim L t i owner secs (xc_claim xc) None d = Inr (d0, fence)"
    using prepare_executionD [OF p] by metis
  have one: "fence = 1" "abs_state t i d = Some (Ready, 0)"
    using claim_abs(1,2) [OF _ c] ok by (auto simp: whole_ok_def)
  obtain content s where o: "outcome_content L out = Some (content, s)"
      and fin: "record_and_complete L t i owner fence (JObj (content @ [spent_payload (case run_budget st of None \<Rightarrow> budget | Some b \<Rightarrow> b)])) s
           (if s then ''awaiting_validation'' else ''failed'') xc (others d1) = (d', Done ex)"
    by (rule finish_execution_Done [OF f])
  let ?c = "JObj (content @ [spent_payload (case run_budget st of None \<Rightarrow> budget | Some b \<Rightarrow> b)])"
  obtain d2 where comp: "complete L t i owner fence ?c s (xc_complete xc) None (xc_uuid xc) d2 = Inr (d', we_artifact ex)"
      and st: "we_state ex = (if s then ''awaiting_validation'' else ''failed'')"
    using fin by (auto simp: record_and_complete_def)
  obtain r0 where r0: "find_workflow t i d2 = Some r0" "wf_fence r0 = fence"
    using require_leaseD [OF completeD(2) [OF comp]] by blast
  note cr = commit_resultD [OF completeD(3) [OF comp]]
  let ?r = "r0\<lparr>wf_state := if s then AwaitingValidation else Failed, wf_result := Some (canonical_json L ?c),
      wf_result_artifact_id := Some (xc_uuid xc), wf_owner := None, wf_lease_until := None\<rparr>"
  have "find_workflow t i d' = map_option (\<lambda>r. r\<lparr>wf_state := if s then AwaitingValidation else Failed,
      wf_result := Some (canonical_json L ?c), wf_result_artifact_id := Some (xc_uuid xc), wf_owner := None,
      wf_lease_until := None\<rparr>) (find_workflow t i d2)"
    by (subst find_workflow_update [where t = t and i = i]) (auto simp: cr(3))
  moreover have "af_artifact_id (we_artifact ex) = xc_uuid xc" by (simp add: cr(2) artifact_ref_def)
  moreover have "int (length (run_attempts st)) \<le> wb_max_attempts budget" if unbound: "given = None"
  proof -
    obtain n a m where "WorkflowBudget_init n a m (xc_budget xc) = Inr budget"
      using b unbound by (auto simp: choose_budget_def bound_budget_def bind_r_eq_Inr split: option.splits if_splits)
    then have "wb_ok budget" "wb_attempts budget = 0"
      using WorkflowBudget_init_ok by (auto simp: WorkflowBudget_init_def Let_def bind_r_eq_Inr)
    then show ?thesis
      using workflow_budget.router_spends(1) [OF r [unfolded route_def]] by simp
  qed
  ultimately show ?thesis
    using p r o one r0 st
    by (intro exI [of _ d1] exI [of _ packet] exI [of _ budget] exI [of _ st] exI [of _ out] exI [of _ content] exI [of _ s]
        exI [of _ ?r]) simp
qed

definition sample_refusing :: routing where
  "sample_refusing = \<lparr>rt_router = sample_router\<lparr>ro_registry := Deployments []\<rparr>, rt_clocks = sample_clocks,
     rt_start = sample_start, rt_turns = (\<lambda>_. sample_turn), rt_states = None\<rparr>"

lemma sample_route:
  "route sample_refusing workflow_budget_ops sample_task None sample_wb =
     (\<lparr>run_budget = Some sample_wb, run_states = None, run_attempts = [], run_last = None\<rparr>,
      Raised (bare (failure_of CapabilityMismatchFailure None None)))"
  by (simp add: route_def sample_refusing_def generate_task_def ordered_deployments_def preference_order_def
      all_deployments_def public_rejections_def Let_def bare_def)

lemma sample_execute:
  "\<exists>d' ex. execute sample_lib sample_refusing ''acme'' ''w1'' ''node-a'' (Some sample_wb) 30 None sample_xc id sample_created
     = (d', Done ex) \<and> we_state ex = ''failed''"
proof -
  have c: "\<exists>d'. record_outcome sample_lib ''acme'' ''w1'' ''node-a'' 1 (JObj ms) False 5 None sample_dispatched = Inr (d', ())
      \<and> (\<exists>d2 a. complete sample_lib ''acme'' ''w1'' ''node-a'' 1 (JObj ms) False 6 None ''a1'' d' = Inr (d2, a))" for ms
    by (simp add: record_outcome_def complete_def commit_result_def require_lease_def find_workflow_def find_dispatch_def
        update_where_def Let_def sample_dispatched_def sample_claimed_def sample_created_def sample_running_def sample_row_def
        sample_defs insert_pk_def)
  have "\<exists>d' ex. record_and_complete sample_lib ''acme'' ''w1'' ''node-a'' 1 (JObj ms) False ''failed'' sample_xc sample_dispatched
      = (d', Done ex) \<and> we_state ex = ''failed''" for ms
    using c [of ms] by (auto simp: record_and_complete_def persist_def sample_xc_def)
  then show ?thesis
    by (simp add: execute_def sample_prepare sample_route [unfolded sample_task_def] finish_execution_def bare_def)
qed

theorem execution_recorded_witness:
  "\<exists>d' ex r. execute sample_lib sample_refusing ''acme'' ''w1'' ''node-a'' (Some sample_wb) 30 None sample_xc id sample_created
     = (d', Done ex) \<and> find_workflow ''acme'' ''w1'' d' = Some r \<and> wf_fence r = 1
     \<and> wf_result_artifact_id r = Some (af_artifact_id (we_artifact ex))"
proof -
  obtain d' ex where e: "execute sample_lib sample_refusing ''acme'' ''w1'' ''node-a'' (Some sample_wb) 30 None sample_xc id sample_created
     = (d', Done ex)"
    using sample_execute by blast
  have "\<forall>d. (whole_step sample_lib)\<^sup>*\<^sup>* d (id d)" by simp
  from execution_recorded [OF sample_laws sample_whole(2) this e] e show ?thesis by blast
qed

text \<open>An execution that comes too late changes nothing: when the workflow is no longer running, its fence has moved
  on or its lease has ended while the router was called, the execution ends with an error and the
  database stays as the others left it.\<close>

theorem late_execution_refused:
  assumes "find_workflow t i d = Some r"
    and "wf_state r \<noteq> Running \<or> wf_owner r \<noteq> Some owner \<or> wf_fence r \<noteq> fence
         \<or> (\<exists>lease. wf_lease_until r = Some lease \<and> lease \<le> xc_outcome xc)"
  shows "fst (finish_execution L t i owner fence b out xc d) = d
    \<and> (\<forall>ex. snd (finish_execution L t i owner fence b out xc d) \<noteq> Done ex)"
proof -
  have "\<exists>e. require_lease t i owner fence (xc_outcome xc) None d = Inl e"
    using assms by (auto simp: require_lease_def Let_def utc_now_def split: option.splits)
  then have "\<exists>e. record_outcome L t i owner fence (JObj ms) ok (xc_outcome xc) None d = Inl e" for ms ok
    by (auto simp: record_outcome_def Let_def)
  then have "\<exists>e. record_and_complete L t i owner fence (JObj ms) ok state xc d = (d, EscapedError e)" for ms ok state
    by (metis (no_types, lifting) persist_def record_and_complete_def sum.simps(5))
  then have "\<exists>e. record_and_complete L t i owner fence (JObj ms) ok state xc d = (d, EscapedError e)" for ms ok state .
  note late = this
  show ?thesis
  proof (cases out)
    case (Done res)
    then show ?thesis using late [of "result_payload L res @ [spent_payload b]" True "''awaiting_validation''"]
      by (auto simp: finish_execution_def)
  next
    case (Raised rf)
    then show ?thesis using late [of "failure_payload L (rf_failure rf) (rf_attempts rf) @ [spent_payload b]" False "''failed''"]
      by (auto simp: finish_execution_def)
  next
    case (EscapedFailure f)
    then show ?thesis using late [of "failure_payload L f [] @ [spent_payload b]" False "''failed''"]
      by (auto simp: finish_execution_def)
  qed (simp_all add: finish_execution_def)
qed

theorem late_execution_refused_witness:
  "fst (finish_execution sample_lib ''acme'' ''w1'' ''node-a'' 1 sample_wb EscapedCancel sample_xc sample_created) = sample_created"
  by (rule late_execution_refused [where r = sample_row, THEN conjunct1])
     (simp_all add: find_workflow_def sample_created_def sample_defs sample_row_def)

section \<open>The executor of graph nodes\<close>

lemma prepare_nodeD:
  assumes "prepare_node L t g k owner secs clk d = (d1, Done (fence, bound))"
  obtains packet deps where "claim_graph_node t g k owner secs clk None d = Inr (d1, fence)"
    and "get_graph_node_packet L t g k d1 = Inr (Some packet)"
    and "accepted_dependency_artifacts L t g k d1 = Inr deps"
    and "bind_dependency_artifacts L packet deps = Inr bound"
  using assms by (auto simp: prepare_node_def split: option.splits)

lemma claimed_running:
  assumes "gstore_ok L d" and "claim_graph_node t g k owner secs clk now d = Inr (d1, fence)"
  obtains s1 where "persisted L t g d1 s1" and "states_of s1 k = Some RUNNING" and "gstore_ok L d1"
proof -
  obtain s s1 where p: "persisted L t g d s" and tr: "transition s k RUNNING = Inr s1" and p1: "persisted L t g d1 s1"
      and m: "gmove L d d1"
    by (rule claim_graph_node_move [OF assms])
  have "states_of s1 k = Some RUNNING"
    using transitionD [OF persisted_ok [OF p] tr] after_target(1) [OF persisted_ok [OF p]] by fastforce
  with p1 show thesis using that gmove_ok [OF assms(1) m] by blast
qed

text \<open>What the prompt of a node with dependencies is to carry: per dependency its name, the identity and digest of the
  accepted artifact and the output in its content, all in one envelope after the node's own input.\<close>

definition accepted_entry :: "string \<Rightarrow> graph_artifact_row \<Rightarrow> json \<Rightarrow> json" where
  "accepted_entry i y content = JObj [(''node_id'', JStr i), (''artifact_id'', JStr (ga_id y)),
     (''sha256'', JStr (ga_sha256 y)), (''output'', case dict_get content ''output'' of None \<Rightarrow> JNull | Some v \<Rightarrow> v)]"

definition extended_input :: "pylib \<Rightarrow> json list \<Rightarrow> task_input \<Rightarrow> task_input" where
  "extended_input L es input =
     (let envelope = ''RYUK_ACCEPTED_DEPENDENCIES_JSON:'' @ [CHR 0x0A]
            @ canonical_json L (JObj [(''schema_version'', JInt 1), (''accepted_dependencies'', JArr es)]) in
      if es = [] then input
      else case input of
             TextInput prompt \<Rightarrow> TextInput (prompt @ [CHR 0x0A, CHR 0x0A] @ envelope)
           | ChatInput ms \<Rightarrow> ChatInput (ms @ [\<lparr>cm_role = USER, cm_content = envelope\<rparr>]))"

lemma bind_dependency_artifactsD:
  assumes "bind_dependency_artifacts L packet deps = Inr bound"
  obtains es where "list_all2 (\<lambda>dep e. dependency_json L dep = Inr e) deps es"
    and "tp_task bound = (tp_task packet)\<lparr>it_input := extended_input L es (it_input (tp_task packet))\<rparr>"
proof (cases "deps = []")
  case True
  then have "bound = packet" using assms by (simp add: bind_dependency_artifacts_def)
  then show thesis using that [of "[]"] True by (simp add: extended_input_def)
next
  case False
  then obtain es where es: "list_all2 (\<lambda>dep e. dependency_json L dep = Inr e) deps es"
    using assms by (auto simp: bind_dependency_artifacts_def bind_r_eq_Inr traverse_eq_Inr)
  then have t: "traverse (dependency_json L) deps = Inr es" and "es \<noteq> []"
    using False by (auto simp: traverse_eq_Inr)
  then have "tp_task bound = (tp_task packet)\<lparr>it_input := extended_input L es (it_input (tp_task packet))\<rparr>"
    using assms False by (auto simp: bind_dependency_artifacts_def bind_r_eq_Inr Let_def dependency_marker_def
        extended_input_def split: task_input.splits)
  with es show thesis by (rule that)
qed

lemma dependency_entry:
  assumes "gstore_ok L d" and "dependency_artifact L t g d s i = Inr p" and "dependency_json L p = Inr e"
  shows "states_of s i = Some SUCCEEDED \<and> (\<exists>x y content. find_node t g i d = Some x \<and> y \<in> set (workflow_graph_artifacts d)
    \<and> nr_result_artifact_id x = Some (ga_id y) \<and> ga_accepted y
    \<and> sha256_hex L (ga_content_json y) = ga_sha256 y \<and> utf8_len (ga_content_json y) = ga_size_bytes y
    \<and> loads L (ga_content_json y) = Some content \<and> is_dict content \<and> e = accepted_entry i y content)"
proof -
  have "state_of s i = Inr SUCCEEDED"
    using assms(2) by (auto simp: dependency_artifact_def bind_r_eq_Inr)
  then have st: "states_of s i = Some SUCCEEDED"
    by (auto simp: state_of_def states_of_def split: option.splits)
  obtain x y a where xy: "accepted_node_result t g i d = Some (x, y)" "stored_graph_artifact L y = Inr a" "p = (i, a)"
    using assms(2) by (auto simp: dependency_artifact_def bind_r_eq_Inr map_r_eq_Inr split: option.splits)
  have row: "x \<in> set (workflow_graph_nodes d)" "node_is t g i x" "y \<in> set (workflow_graph_artifacts d)"
      "nr_result_artifact_id x = Some (ga_id y)" "ga_accepted y"
    using find_SomeD [OF xy(1) [unfolded accepted_node_result_def]] by auto
  have f: "find_node t g i d = Some x"
    using find_node_iff [OF gstore_okD(1) [OF assms(1)]] row(1,2) by blast
  obtain content where a: "sha256_hex L (ga_content_json y) = ga_sha256 y" "utf8_len (ga_content_json y) = ga_size_bytes y"
      "loads L (ga_content_json y) = Some content" "is_dict content"
      "sa_content_json a = ga_content_json y" "af_artifact_id (sa_ref a) = ga_id y" "af_sha256 (sa_ref a) = ga_sha256 y"
    using xy(2) by (auto simp: stored_graph_artifact_def StoredArtifact_init_def split: if_splits option.splits)
  then have "e = accepted_entry i y content"
    using assms(3) xy(3) by (simp add: dependency_json_def payload_def accepted_entry_def)
  then show ?thesis using st f row a by blast
qed

text \<open>C15. A node runs on accepted inputs only: when the executor calls the router for a node, the node has just been
  claimed out of \<open>ready\<close>, every dependency has succeeded, and the input is the node's own, followed, if it has
  dependencies, by one envelope with an entry for each of them in their order: its name, the identity and the digest
  of the accepted artifact the row of the dependency names, and the output in that artifact, whose stored text has
  that digest and length. Nothing else of the task is changed.\<close>

theorem node_runs_on_accepted_inputs:
  assumes "whole_ok L d" and "prepare_node L t g k owner secs clk d = (d1, Done (fence, bound))"
  shows "\<exists>row s n es. find_node t g k d = Some row \<and> nr_state row = READY \<and> fence = nr_fence row + 1
    \<and> persisted L t g d1 s \<and> states_of s k = Some RUNNING
    \<and> n \<in> set (graph_nodes (gs_graph s)) \<and> node_id n = k
    \<and> list_all2 (\<lambda>i e. states_of s i = Some SUCCEEDED \<and> (\<exists>x y content. find_node t g i d1 = Some x
         \<and> y \<in> set (workflow_graph_artifacts d1) \<and> nr_result_artifact_id x = Some (ga_id y) \<and> ga_accepted y
         \<and> sha256_hex L (ga_content_json y) = ga_sha256 y \<and> utf8_len (ga_content_json y) = ga_size_bytes y
         \<and> loads L (ga_content_json y) = Some content \<and> is_dict content \<and> e = accepted_entry i y content))
       (depends_on n) es
    \<and> tp_task bound = (tp_task (node_packet n))\<lparr>it_input := extended_input L es (it_input (tp_task (node_packet n)))\<rparr>"
proof -
  obtain packet deps where c: "claim_graph_node t g k owner secs clk None d = Inr (d1, fence)"
    and gp: "get_graph_node_packet L t g k d1 = Inr (Some packet)"
    and ad: "accepted_dependency_artifacts L t g k d1 = Inr deps"
    and b: "bind_dependency_artifacts L packet deps = Inr bound"
    by (rule prepare_nodeD [OF assms(2)])
  have ok: "gstore_ok L d" using assms(1) by (simp add: whole_ok_def)
  obtain s where s: "persisted L t g d1 s" "states_of s k = Some RUNNING" and ok1: "gstore_ok L d1"
    by (rule claimed_running [OF ok c])
  obtain row where row: "find_node t g k d = Some row" "nr_state row = READY" "fence = nr_fence row + 1"
    by (rule claim_graph_nodeD [OF c])
  have gs: "get_graph_state L t g d1 = Inr (Some s)" using s(1) by (simp add: persisted_def)
  obtain n where n: "List.find (\<lambda>n. node_id n = k) (graph_nodes (gs_graph s)) = Some n" "packet = node_packet n"
    using gp gs by (auto simp: get_graph_node_packet_def)
  have "traverse (dependency_artifact L t g d1 s) (depends_on n) = Inr deps"
    using ad n(1) s(1) by (simp add: accepted_dependency_artifacts_def require_graph_persisted [THEN iffD2])
  then have all: "list_all2 (\<lambda>i p. dependency_artifact L t g d1 s i = Inr p) (depends_on n) deps"
    by (simp add: traverse_eq_Inr)
  obtain es where es: "list_all2 (\<lambda>dep e. dependency_json L dep = Inr e) deps es"
      and bound: "tp_task bound = (tp_task packet)\<lparr>it_input := extended_input L es (it_input (tp_task packet))\<rparr>"
    by (rule bind_dependency_artifactsD [OF b])
  show ?thesis
  proof (intro exI conjI)
    show "n \<in> set (graph_nodes (gs_graph s))" "node_id n = k" using find_SomeD [OF n(1)] by auto
    show "tp_task bound = (tp_task (node_packet n))\<lparr>it_input := extended_input L es (it_input (tp_task (node_packet n)))\<rparr>"
      using bound n(2) by simp
  qed (rule row s list_all2_trans [OF dependency_entry [OF ok1] all es]; assumption)+
qed

lemma sample_whole_ok: "whole_ok sample_lib sample_gdb"
proof -
  have tables: "task_tables sample_gdb = task_tables empty_db" by (simp add: task_tables_def sample_gdb_def)
  have "store_ok sample_lib empty_db" by (simp add: store_ok_def cluster_def empty_db_def)
  then show ?thesis using store_ok_cong [OF tables, of sample_lib] sample_gdb_ok by (simp add: whole_ok_def)
qed

lemma sample_prepare_node:
  "prepare_node sample_lib ''t'' ''g1'' ''a'' ''w1'' 30 1000000 sample_gdb = (sample_claimed_gdb, Done (1, sample_packet))"
proof -
  obtain s where s: "persisted sample_lib ''t'' ''g1'' sample_claimed_gdb s"
    by (rule claimed_running [OF sample_gdb_ok sample_claim_node])
  have "workflow_graphs sample_claimed_gdb = workflow_graphs sample_gdb"
    by (simp add: sample_claimed_gdb_def graph_event_def)
  then have "stored_graph sample_lib ''t'' ''g1'' sample_claimed_gdb = stored_graph sample_lib ''t'' ''g1'' sample_gdb"
    by (simp add: stored_graph_def find_graph_def)
  then have g: "gs_graph s = sample_graph"
    using s sample_gdb_persisted by (simp add: persisted_iff sample_state_def)
  have f: "List.find (\<lambda>n. node_id n = ''a'') (graph_nodes sample_graph) = Some (sample_node ''a'' [])"
    by (simp add: sample_graph_def sample_node_def)
  have "get_graph_node_packet sample_lib ''t'' ''g1'' ''a'' sample_claimed_gdb = Inr (Some sample_packet)"
    using s f g by (simp add: get_graph_node_packet_def persisted_def sample_node_def)
  moreover have "accepted_dependency_artifacts sample_lib ''t'' ''g1'' ''a'' sample_claimed_gdb = Inr []"
    using s f g by (simp add: accepted_dependency_artifacts_def require_graph_persisted [THEN iffD2] sample_node_def)
  moreover have "DurableGraphBudget_init ''t'' ''g1'' sample_gdb = Inr ()"
    by (simp add: DurableGraphBudget_init_def get_graph_budget_def sample_gdb_def budget_is_def sample_budget_row_def)
  ultimately show ?thesis
    using sample_claim_node by (simp add: prepare_node_def consult_def persist_def bind_dependency_artifacts_def)
qed

text \<open>A history in which the dependency has been accepted: \<open>a\<close> has succeeded and \<open>b\<close> is ready.\<close>

definition sample_output :: json where
  "sample_output = JObj [(''output'', JStr ''done'')]"

definition sample_artifact_row :: graph_artifact_row where
  "sample_artifact_row = \<lparr>ga_id = ''a1'', ga_graph_id = ''g1'', ga_node_id = ''a'', ga_tenant = ''t'', ga_schema_version = 1,
     ga_sha256 = sha256_hex sample_lib (canonical_json sample_lib sample_output),
     ga_size_bytes = utf8_len (canonical_json sample_lib sample_output),
     ga_content_json = canonical_json sample_lib sample_output, ga_accepted = True, ga_validation_json = None\<rparr>"

definition sample_accepted_gdb :: db where
  "sample_accepted_gdb = sample_gdb\<lparr>workflow_graph_nodes :=
     [(new_node ''t'' ''g1'' (''a'', SUCCEEDED))\<lparr>nr_fence := 1, nr_result_artifact_id := Some ''a1''\<rparr>,
      new_node ''t'' ''g1'' (''b'', READY)], workflow_graph_artifacts := [sample_artifact_row]\<rparr>"

lemma sample_accepted_persisted: "persisted sample_lib ''t'' ''g1'' sample_accepted_gdb sample_ready"
proof -
  have "stored_graph sample_lib ''t'' ''g1'' sample_accepted_gdb = stored_graph sample_lib ''t'' ''g1'' sample_gdb"
    by (rule stored_graph_cong) (simp add: sample_accepted_gdb_def)
  then have "stored_graph sample_lib ''t'' ''g1'' sample_accepted_gdb = Some sample_graph"
    using sample_gdb_persisted by (simp add: persisted_iff sample_state_def)
  moreover have "GraphState_post_init sample_ready = Inr ()"
    by (simp add: sample_ready_def GraphState_post_init_def check_node_state_def sample_graph_def sample_node_def
        node_entry_def identifiers_def state_of_def TERMINAL_NODE_STATES_def UNSUCCESSFUL_NODE_STATES_def)
  ultimately show ?thesis
    by (simp add: persisted_iff sample_ready_def entries_def graph_node_rows_def sample_accepted_gdb_def new_node_def)
qed

lemma sample_accepted_ok: "whole_ok sample_lib sample_accepted_gdb"
proof -
  have "task_tables sample_accepted_gdb = task_tables empty_db"
    by (simp add: task_tables_def sample_accepted_gdb_def sample_gdb_def)
  moreover have "store_ok sample_lib empty_db" by (simp add: store_ok_def cluster_def empty_db_def)
  ultimately have "store_ok sample_lib sample_accepted_gdb" using store_ok_cong by blast
  moreover have "budgets_ok sample_accepted_gdb"
    using gstore_okD(3) [OF sample_gdb_ok] by (simp add: budgets_ok_def sample_accepted_gdb_def)
  moreover have "workflow_graphs sample_accepted_gdb = [sample_graph_row]"
    by (simp add: sample_accepted_gdb_def sample_gdb_def)
  ultimately show ?thesis using sample_accepted_persisted
    by (auto simp: whole_ok_def gstore_ok_def sample_graph_row_def sample_accepted_gdb_def new_node_def node_key_def)
qed

lemma sample_bound_text: "has_text (''hi'' @ rest)"
  by (auto simp: has_text_def strip_def py_space_def dropWhile_append)

lemma sample_prepare_dependent:
  "\<exists>d1 bound. prepare_node sample_lib ''t'' ''g1'' ''b'' ''w1'' 30 1000000 sample_accepted_gdb = (d1, Done (1, bound))
     \<and> workflow_graph_nodes d1 = [(new_node ''t'' ''g1'' (''a'', SUCCEEDED))\<lparr>nr_fence := 1, nr_result_artifact_id := Some ''a1''\<rparr>,
         (new_node ''t'' ''g1'' (''b'', RUNNING))\<lparr>nr_fence := 1, nr_owner := Some ''w1'', nr_lease_until := Some 31000000\<rparr>]
     \<and> workflow_graph_artifacts d1 = [sample_artifact_row] \<and> workflow_graphs d1 = [sample_graph_row]"
proof -
  have ok: "gstore_ok sample_lib sample_accepted_gdb" using sample_accepted_ok by (simp add: whole_ok_def)
  define d1 where "d1 = graph_event ''t'' ''g1'' ''b'' RUNNING (sample_accepted_gdb\<lparr>workflow_graph_nodes :=
    [(new_node ''t'' ''g1'' (''a'', SUCCEEDED))\<lparr>nr_fence := 1, nr_result_artifact_id := Some ''a1''\<rparr>,
     (new_node ''t'' ''g1'' (''b'', RUNNING))\<lparr>nr_fence := 1, nr_owner := Some ''w1'', nr_lease_until := Some 31000000\<rparr>]\<rparr>)"
  have c: "claim_graph_node ''t'' ''g1'' ''b'' ''w1'' 30 1000000 None sample_accepted_gdb = Inr (d1, 1)"
    by (simp add: claim_graph_node_def check_identifier_def get_graph_budget_def budget_is_def find_node_def
        node_is_def sample_accepted_gdb_def sample_gdb_def sample_budget_row_def new_node_def d1_def Let_def
        update_where_def graph_event_def seconds_of_int [of 30, simplified])
  obtain s where s: "persisted sample_lib ''t'' ''g1'' d1 s" by (rule claimed_running [OF ok c])
  have tables: "workflow_graphs d1 = [sample_graph_row]" "workflow_graph_artifacts d1 = [sample_artifact_row]"
    by (simp_all add: d1_def graph_event_def sample_accepted_gdb_def sample_gdb_def)
  then have "stored_graph sample_lib ''t'' ''g1'' d1 = stored_graph sample_lib ''t'' ''g1'' sample_gdb"
    by (intro stored_graph_cong) (simp add: sample_gdb_def)
  then have g: "gs_graph s = sample_graph" and e: "node_states s = entries ''t'' ''g1'' d1"
    using s sample_gdb_persisted by (simp_all add: persisted_iff sample_state_def)
  have es: "node_states s = [(''a'', SUCCEEDED), (''b'', RUNNING)]"
    by (simp add: e entries_def graph_node_rows_def d1_def graph_event_def new_node_def)
  have f: "List.find (\<lambda>n. node_id n = ''b'') (graph_nodes sample_graph) = Some (sample_node ''b'' [''a''])"
    by (simp add: sample_graph_def sample_node_def)
  have l: "loads sample_lib (canonical_json sample_lib sample_output) = Some sample_output"
    using sample_lib_laws(1) by (simp add: loads_canonical_def sample_output_def)
  define a where "a = \<lparr>sa_ref = \<lparr>af_artifact_id = ''a1'', af_workflow_id = ''g1'', af_sha256 = ga_sha256 sample_artifact_row,
      af_size_bytes = ga_size_bytes sample_artifact_row, af_schema_version = 1, af_media_type = ''application/json''\<rparr>,
    sa_content_json = canonical_json sample_lib sample_output\<rparr>"
  have "stored_graph_artifact sample_lib sample_artifact_row = Inr a"
    using l by (simp add: stored_graph_artifact_def StoredArtifact_init_def sample_artifact_row_def sample_output_def a_def)
  moreover have "accepted_node_result ''t'' ''g1'' ''a'' d1 = Some (hd (workflow_graph_nodes d1), sample_artifact_row)"
    by (simp add: accepted_node_result_def tables) (simp add: node_is_def new_node_def d1_def graph_event_def sample_artifact_row_def)
  ultimately have "dependency_artifact sample_lib ''t'' ''g1'' d1 s ''a'' = Inr (''a'', a)"
    by (simp add: dependency_artifact_def state_of_def es)
  then have "accepted_dependency_artifacts sample_lib ''t'' ''g1'' ''b'' d1 = Inr [(''a'', a)]"
    using s f g by (simp add: accepted_dependency_artifacts_def require_graph_persisted [THEN iffD2] sample_node_def)
  moreover have "\<exists>e. dependency_json sample_lib (''a'', a) = Inr e"
    using l by (simp add: dependency_json_def payload_def a_def sample_output_def)
  then have "\<exists>bound. bind_dependency_artifacts sample_lib sample_packet [(''a'', a)] = Inr bound"
    using sample_bound_text by (auto simp: bind_dependency_artifacts_def Let_def sample_packet_def TextInput_post_init_def
        require_text_def InferenceTask_post_init_def TaskPacket_post_init_def)
  moreover have "get_graph_node_packet sample_lib ''t'' ''g1'' ''b'' d1 = Inr (Some sample_packet)"
    using s f g by (simp add: get_graph_node_packet_def persisted_def sample_node_def)
  moreover have "DurableGraphBudget_init ''t'' ''g1'' sample_accepted_gdb = Inr ()"
    by (simp add: DurableGraphBudget_init_def get_graph_budget_def sample_accepted_gdb_def sample_gdb_def budget_is_def
        sample_budget_row_def)
  ultimately show ?thesis
    using c tables by (auto simp: prepare_node_def consult_def persist_def d1_def graph_event_def)
qed

theorem node_runs_on_accepted_inputs_witness:
  "\<exists>d1 bound. prepare_node sample_lib ''t'' ''g1'' ''b'' ''w1'' 30 1000000 sample_accepted_gdb = (d1, Done (1, bound))
     \<and> it_input (tp_task bound) = extended_input sample_lib [JObj [(''node_id'', JStr ''a''), (''artifact_id'', JStr ''a1''),
         (''sha256'', JStr (sha256_hex sample_lib (canonical_json sample_lib sample_output))), (''output'', JStr ''done'')]]
         (TextInput ''hi'')"
proof -
  obtain d1 bound where p: "prepare_node sample_lib ''t'' ''g1'' ''b'' ''w1'' 30 1000000 sample_accepted_gdb = (d1, Done (1, bound))"
    and r: "workflow_graph_artifacts d1 = [sample_artifact_row]" "workflow_graphs d1 = [sample_graph_row]"
    using sample_prepare_dependent by blast
  obtain s n es where s: "persisted sample_lib ''t'' ''g1'' d1 s" and n: "n \<in> set (graph_nodes (gs_graph s))" "node_id n = ''b''"
    and es: "list_all2 (\<lambda>i e. \<exists>y content. y \<in> set (workflow_graph_artifacts d1)
          \<and> loads sample_lib (ga_content_json y) = Some content \<and> e = accepted_entry i y content) (depends_on n) es"
    and b: "tp_task bound = (tp_task (node_packet n))\<lparr>it_input := extended_input sample_lib es (it_input (tp_task (node_packet n)))\<rparr>"
    using node_runs_on_accepted_inputs [OF sample_accepted_ok p] by (elim exE conjE) (rule that, auto elim!: list_all2_mono)
  have "stored_graph sample_lib ''t'' ''g1'' d1 = stored_graph sample_lib ''t'' ''g1'' sample_gdb"
    by (rule stored_graph_cong) (simp add: r sample_gdb_def)
  then have "gs_graph s = sample_graph"
    using s sample_gdb_persisted by (simp add: persisted_iff sample_state_def)
  then have "n = sample_node ''b'' [''a'']" using n by (auto simp: sample_graph_def sample_node_def)
  moreover have "loads sample_lib (canonical_json sample_lib sample_output) = Some sample_output"
    using sample_lib_laws(1) by (simp add: loads_canonical_def sample_output_def)
  ultimately have "es = [JObj [(''node_id'', JStr ''a''), (''artifact_id'', JStr ''a1''),
      (''sha256'', JStr (sha256_hex sample_lib (canonical_json sample_lib sample_output))), (''output'', JStr ''done'')]]"
    using es r by (auto simp: sample_node_def list_all2_Cons1 sample_artifact_row_def accepted_entry_def sample_output_def dict_get_def)
  then show ?thesis using p b \<open>n = _\<close> by (auto simp: sample_node_def sample_packet_def)
qed

text \<open>The engines are called at most once for a node: after an execution of a node has got as far as the call of the
  router, every later execution of it ends with an error before the call.\<close>

theorem node_dispatched_once:
  assumes "lib_laws L" and "whole_ok L d" and "prepare_node L t g k owner secs clk d = (d1, Done x)"
    and "(whole_step L)\<^sup>*\<^sup>* d1 d2"
  shows "\<exists>e. prepare_node L t g k owner' secs' clk' d2 = (d2, EscapedError e)"
proof -
  obtain fence bound where x: "x = (fence, bound)" by (cases x)
  have c: "claim_graph_node t g k owner secs clk None d = Inr (d1, fence)"
    using prepare_nodeD [OF assms(3) [unfolded x]] by blast
  obtain s1 where s1: "persisted L t g d1 s1" "states_of s1 k = Some RUNNING"
    using claimed_running [OF _ c] assms(2) by (auto simp: whole_ok_def)
  have ok1: "whole_ok L d1" using whole_run_good [OF prepare_node_steps [OF assms(3)] assms(1,2)] by blast
  have g2: "whole_ok L d2" "gevolves L d1 d2" using whole_run_good [OF assms(4,1) ok1] by blast+
  then obtain s2 where s2: "persisted L t g d2 s2" "graph_step\<^sup>*\<^sup>* s1 s2" using s1(1) unfolding gevolves_def by blast
  have "node_rank (states_of s2 k) \<le> node_rank (states_of s1 k)"
    using graph_steps_rank [OF s2(2) persisted_ok [OF s1(1)]] by blast
  then have "states_of s2 k \<noteq> Some READY" using s1(2) by auto
  then obtain e where "claim_graph_node t g k owner' secs' clk' None d2 = Inl e"
    using claim_refused [OF g2(1) [unfolded whole_ok_def, THEN conjunct2] s2(1)] by blast
  then show ?thesis
    by (cases "DurableGraphBudget_init t g d2") (simp_all add: prepare_node_def consult_def persist_def)
qed

theorem node_dispatched_once_witness:
  "\<exists>e. prepare_node sample_lib ''t'' ''g1'' ''a'' ''w2'' 30 2000000 sample_claimed_gdb = (sample_claimed_gdb, EscapedError e)"
  by (rule node_dispatched_once [OF sample_laws sample_whole_ok sample_prepare_node rtranclp.rtrancl_refl])

text \<open>C16. Concurrent executions cannot overdraw the budget of a graph: whatever other executions do to the store
  between the steps of the router, one call of it makes at most the attempts that were left when the node
  was claimed, and everything the execution does is a run of operations of the store.\<close>

theorem node_execution_within_budget:
  assumes "lib_laws L" and "whole_ok L d" and "\<forall>n d. (whole_step L)\<^sup>*\<^sup>* d (others n d)"
    and "prepare_node L t g k owner secs clk d = (d1, Done (fence, bound))"
    and "route rt (shared_budget_ops others t g) (tp_task bound) preferred (0, d1) = (st, out)"
  shows "\<exists>row n d2. get_graph_budget t g d = Some row \<and> run_budget st = Some (n, d2)
    \<and> int (length (run_attempts st)) \<le> gb_max_attempts row - gb_attempts row
    \<and> (whole_step L)\<^sup>*\<^sup>* d d2 \<and> whole_ok L d2
    \<and> (whole_step L)\<^sup>*\<^sup>* d (fst (execute_node L rt t g k owner policy secs preferred clk clk' uuid others d))"
proof -
  have wb: "well_behaved L others" using assms(3) by (simp add: well_behaved_def)
  have s1: "steps L d d1" by (rule prepare_node_steps [OF assms(4)])
  have c: "claim_graph_node t g k owner secs clk None d = Inr (d1, fence)"
    using prepare_nodeD [OF assms(4)] by blast
  obtain row where row: "get_graph_budget t g d = Some row" by (rule claim_graph_nodeD [OF c])
  have same: "get_graph_budget t g d1 = Some row"
    by (rule claim_graph_nodeD [OF c]) (use row in \<open>simp add: get_graph_budget_def graph_event_def\<close>)
  have v: "shared_ok L d1 t g (0, d1)"
    using whole_run_good [OF s1 assms(1,2)] same by (simp add: shared_ok_def)
  note spends = attempt_budget.router_spends [OF shared_attempt_budget [OF assms(1) wb] assms(5) [unfolded route_def] v]
  obtain n d2 where b: "run_budget st = Some (n, d2)" "shared_ok L d1 t g (n, d2)" using spends(2) by auto
  have "int (length (run_attempts st)) \<le> gb_max_attempts row - gb_attempts row"
    using spends(1) same by (simp add: bound_row_def)
  moreover have s2: "steps L d d2" using s1 shared_okD(3) [OF b(2)] by simp
  moreover have "steps L d (fst (execute_node L rt t g k owner policy secs preferred clk clk' uuid others d))"
  proof -
    let ?d = "others n d2"
    have e: "execute_node L rt t g k owner policy secs preferred clk clk' uuid others d
        = finish_node L t g k owner policy fence out clk' uuid ?d"
      using assms(4,5) b(1) by (simp add: execute_node_def)
    have "steps L d ?d" using s2 assms(3) rtranclp_trans by metis
    moreover have "steps L ?d (fst (finish_node L t g k owner policy fence out clk' uuid ?d))"
      by (rule finish_node_steps [OF prod.collapse [symmetric]])
    ultimately show ?thesis unfolding e by (rule rtranclp_trans)
  qed
  ultimately show ?thesis using row b shared_okD(2) [OF b(2)] by auto
qed

definition sample_routing :: routing where
  "sample_routing = sample_refusing\<lparr>rt_router := sample_router\<rparr>"

theorem node_execution_within_budget_witness:
  "\<exists>row. get_graph_budget ''t'' ''g1'' sample_gdb = Some row
    \<and> int (length (run_attempts (fst (route sample_routing (shared_budget_ops (\<lambda>_ d. d) ''t'' ''g1'') (tp_task sample_packet) None
        (0, sample_claimed_gdb))))) \<le> gb_max_attempts row - gb_attempts row"
proof -
  have "\<forall>n d. (whole_step sample_lib)\<^sup>*\<^sup>* d ((\<lambda>_ d. d) (n :: nat) d)" by simp
  from node_execution_within_budget [OF sample_laws sample_whole_ok this sample_prepare_node prod.collapse [symmetric]]
  show ?thesis by blast
qed

end
