(* ===== verification/Dispatcher.thy ===== *)
theory Dispatcher
  imports Executor JsonText
begin

text \<open>
  The local dispatchers (\<open>src/backend/workflows/dispatcher.py\<close>). \<open>LocalWorkflowDispatcher\<close> and
  \<open>LocalGraphDispatcher\<close> have the same state and the same coordinator loop and differ in the work they
  list and in what a task does, so one state machine serves both: it is parameterised by the kind of
  work item, and what it needs of the listing is the locale \<open>work_source\<close>, interpreted on the two
  listings of the store. The atomic steps are the pieces of the coroutines between two awaits: a pass of the
  coordinator loop, the end of a task, a reap, \<open>start\<close>, \<open>stop\<close> and the final drain.
\<close>

section \<open>Configuration and state\<close>

record dispatcher_config =
  dc_owner_prefix :: string
  dc_concurrency :: int
  dc_poll_interval :: rat
  dc_lease_seconds :: int
  dc_preferred_engine :: "string option"

definition LocalWorkflowDispatcher_init :: "dispatcher_config \<Rightarrow> exn + unit" where
  "LocalWorkflowDispatcher_init c =
     bind_r (require (identifier_ok (dc_owner_prefix c))
       (ValueError ''Owner prefix must be nonempty without outer whitespace'')) (\<lambda>_.
     bind_r (require (1 \<le> dc_concurrency c \<and> dc_concurrency c \<le> 64)
       (ValueError ''Concurrency must be between 1 and 64'')) (\<lambda>_.
     bind_r (require (1 / 1000 \<le> dc_poll_interval c \<and> dc_poll_interval c \<le> 60)
       (ValueError ''Poll interval must be between 0.001 and 60 seconds'')) (\<lambda>_.
     bind_r (require (1 \<le> dc_lease_seconds c \<and> dc_lease_seconds c \<le> 3600)
       (ValueError ''Lease must be between 1 and 3600 seconds'')) (\<lambda>_.
     require (case dc_preferred_engine c of None \<Rightarrow> True | Some e \<Rightarrow> strip e \<noteq> [])
       (ValueError ''Preferred engine must be a nonblank string'')))))"

definition LocalGraphDispatcher_init :: "dispatcher_config \<Rightarrow> exn + unit" where
  "LocalGraphDispatcher_init c =
     bind_r (require (identifier_ok (dc_owner_prefix c))
       (ValueError ''Owner prefix must be canonical nonblank text'')) (\<lambda>_.
     bind_r (require (1 \<le> dc_concurrency c \<and> dc_concurrency c \<le> 64)
       (ValueError ''Concurrency must be between 1 and 64'')) (\<lambda>_.
     bind_r (require (1 / 1000 \<le> dc_poll_interval c \<and> dc_poll_interval c \<le> 60)
       (ValueError ''Poll interval must be between 0.001 and 60 seconds'')) (\<lambda>_.
     require (1 \<le> dc_lease_seconds c \<and> dc_lease_seconds c \<le> 3600)
       (ValueError ''Lease must be between 1 and 3600 seconds''))))"

datatype dispatcher_state = New | Started | Stopping | Stopped

record DispatcherFailure =
  df_tenant :: string
  df_workflow_id :: string
  df_code :: string

text \<open>A task is known by the sequence number it was created under.\<close>

record 'k dispatch_task =
  dt_sequence :: int
  dt_item :: 'k
  dt_done :: bool

record 'k dispatcher =
  ds_state :: dispatcher_state
  ds_sequence :: int
  ds_dispatched :: int
  ds_completed :: int
  ds_workflow_conflicts :: int
  ds_execution_failures :: int
  ds_recent_failures :: "DispatcherFailure list"
  ds_active :: "'k dispatch_task list"
  ds_stop :: bool

definition dispatcher_new :: "'k dispatcher" where
  "dispatcher_new = \<lparr>ds_state = New, ds_sequence = 0, ds_dispatched = 0, ds_completed = 0,
     ds_workflow_conflicts = 0, ds_execution_failures = 0, ds_recent_failures = [], ds_active = [], ds_stop = False\<rparr>"

record DispatcherSnapshot =
  sn_state :: dispatcher_state
  sn_active :: nat
  sn_dispatched :: int
  sn_completed :: int
  sn_workflow_conflicts :: int
  sn_execution_failures :: int
  sn_recent_failures :: "DispatcherFailure list"

definition dispatcher_snapshot :: "'k dispatcher \<Rightarrow> DispatcherSnapshot" where
  "dispatcher_snapshot s = \<lparr>sn_state = ds_state s, sn_active = length (ds_active s), sn_dispatched = ds_dispatched s,
     sn_completed = ds_completed s, sn_workflow_conflicts = ds_workflow_conflicts s,
     sn_execution_failures = ds_execution_failures s, sn_recent_failures = ds_recent_failures s\<rparr>"

section \<open>Operations\<close>

definition dispatcher_start :: "'k dispatcher \<Rightarrow> exn + 'k dispatcher" where
  "dispatcher_start s = (if ds_state s \<noteq> New then Inl (RuntimeError ''Dispatcher can only be started once'')
     else Inr (s\<lparr>ds_state := Started\<rparr>))"

text \<open>\<open>stop\<close> up to its await.\<close>

definition dispatcher_stop :: "'k dispatcher \<Rightarrow> 'k dispatcher" where
  "dispatcher_stop s = (case ds_state s of
     New \<Rightarrow> s\<lparr>ds_state := Stopped\<rparr>
   | Stopped \<Rightarrow> s
   | _ \<Rightarrow> s\<lparr>ds_state := Stopping, ds_stop := True\<rparr>)"

definition reap :: "'k dispatcher \<Rightarrow> 'k dispatcher" where
  "reap s = s\<lparr>ds_active := filter (\<lambda>t. \<not> dt_done t) (ds_active s)\<rparr>"

definition record_failure :: "string \<Rightarrow> string \<Rightarrow> string \<Rightarrow> 'k dispatcher \<Rightarrow> 'k dispatcher" where
  "record_failure tenant workflow_id code s =
     (let recent = ds_recent_failures s @ [\<lparr>df_tenant = tenant, df_workflow_id = workflow_id, df_code = code\<rparr>] in
      s\<lparr>ds_recent_failures := drop (length recent - 100) recent\<rparr>)"

definition owner_of :: "dispatcher_config \<Rightarrow> int \<Rightarrow> string" where
  "owner_of c n = dc_owner_prefix c @ '':'' @ string_of_int n"

definition create_task :: "'k \<Rightarrow> 'k dispatcher \<Rightarrow> 'k dispatcher" where
  "create_task item s =
     (if ds_stop s then s
      else let n = ds_sequence s + 1 in
           s\<lparr>ds_sequence := n, ds_active := ds_active s @ [\<lparr>dt_sequence = n, dt_item = item, dt_done = False\<rparr>],
             ds_dispatched := ds_dispatched s + 1\<rparr>)"

text \<open>One pass of the coordinator loop, up to its await; \<open>ready\<close> lists the work that is ready now.\<close>

definition coordinator_pass ::
    "dispatcher_config \<Rightarrow> (int \<Rightarrow> exn + 'k list) \<Rightarrow> 'k dispatcher \<Rightarrow> exn + 'k dispatcher" where
  "coordinator_pass c ready s =
     (let s1 = reap s; slots = dc_concurrency c - int (length (ds_active s1)) in
      if slots = 0 then Inr s1
      else map_r (\<lambda>items. fold create_task items s1) (ready slots))"

text \<open>The end of \<open>_execute\<close>: how the outcome of a task is counted. A cancelled task is not counted.\<close>

definition count_outcome :: "string \<Rightarrow> string \<Rightarrow> 'r outcome \<Rightarrow> 'k dispatcher \<Rightarrow> 'k dispatcher" where
  "count_outcome tenant workflow_id out s =
     (case out of
        Done _ \<Rightarrow> s\<lparr>ds_completed := ds_completed s + 1\<rparr>
      | EscapedError (WorkflowConflict _) \<Rightarrow>
          record_failure tenant workflow_id ''workflow_conflict'' (s\<lparr>ds_workflow_conflicts := ds_workflow_conflicts s + 1\<rparr>)
      | EscapedCancel \<Rightarrow> s
      | _ \<Rightarrow> record_failure tenant workflow_id ''unexpected_execution_failure''
               (s\<lparr>ds_execution_failures := ds_execution_failures s + 1\<rparr>))"

definition task_ended :: "int \<Rightarrow> string \<Rightarrow> string \<Rightarrow> 'r outcome \<Rightarrow> 'k dispatcher \<Rightarrow> 'k dispatcher" where
  "task_ended n tenant workflow_id out s =
     (count_outcome tenant workflow_id out s)\<lparr>ds_active :=
        map (\<lambda>t. if dt_sequence t = n then t\<lparr>dt_done := True\<rparr> else t) (ds_active s)\<rparr>"

text \<open>The test of \<open>wait_idle\<close> in one round of its loop.\<close>

definition is_idle :: "(int \<Rightarrow> exn + 'k list) \<Rightarrow> 'k dispatcher \<Rightarrow> exn + bool" where
  "is_idle ready s = (if ds_active (reap s) \<noteq> [] then Inr False else map_r (\<lambda>items. items = []) (ready 1))"

text \<open>The \<open>finally\<close> block once every active task has ended.\<close>

definition drained :: "'k dispatcher \<Rightarrow> 'k dispatcher" where
  "drained s = (reap s)\<lparr>ds_state := Stopped\<rparr>"

section \<open>What the tasks do\<close>

definition run_workflow_task ::
    "pylib \<Rightarrow> routing \<Rightarrow> dispatcher_config \<Rightarrow> string \<times> string \<Rightarrow> int \<Rightarrow> execution_clock \<Rightarrow> (db \<Rightarrow> db) \<Rightarrow> db \<Rightarrow>
       db \<times> WorkflowExecution outcome" where
  "run_workflow_task L rt c item n xc others d =
     execute L rt (fst item) (snd item) (owner_of c n) None (dc_lease_seconds c) (dc_preferred_engine c) xc others d"

definition run_graph_task ::
    "pylib \<Rightarrow> routing \<Rightarrow> dispatcher_config \<Rightarrow> string \<times> string \<times> string \<Rightarrow> int \<Rightarrow> instant \<Rightarrow> instant \<Rightarrow> string \<Rightarrow>
       (nat \<Rightarrow> db \<Rightarrow> db) \<Rightarrow> db \<Rightarrow> db \<times> WorkflowExecution outcome" where
  "run_graph_task L rt c item n clk finish_clk uuid others d =
     (case item of (tenant, graph_id, node) \<Rightarrow>
        consult d (get_graph_binding L tenant graph_id d) (\<lambda>found.
        case found of
          None \<Rightarrow> (d, EscapedError (WorkflowConflict ''Graph has no bound validation policy''))
        | Some binding \<Rightarrow>
            consult d (dict_item binding ''policy'') (\<lambda>snapshot.
            consult d (validation_policy_from_snapshot snapshot) (\<lambda>policy.
            execute_node L rt tenant graph_id node (owner_of c n) policy (dc_lease_seconds c) None clk finish_clk uuid
              others d))))"

section \<open>The interface to the store\<close>

locale work_source =
  fixes ready :: "'d \<Rightarrow> int \<Rightarrow> exn + 'k list"
  assumes ready_bounded: "ready d n = Inr items \<Longrightarrow> int (length items) \<le> n"
    and ready_total: "1 \<le> n \<Longrightarrow> n \<le> 1000 \<Longrightarrow> \<exists>items. ready d n = Inr items"

interpretation workflow_source: work_source "\<lambda>d n. list_ready n d"
  by unfold_locales (auto simp: list_ready_def split: if_splits)

interpretation graph_source: work_source "\<lambda>d n. list_ready_graph_nodes n d"
  by unfold_locales (auto simp: list_ready_graph_nodes_def split: if_splits)

section \<open>The state machine\<close>

text \<open>The coordinator runs between \<open>start\<close> and the drain; \<open>d\<close> is the database a pass looks at.\<close>

inductive dispatcher_step ::
    "('d \<Rightarrow> int \<Rightarrow> exn + 'k list) \<Rightarrow> dispatcher_config \<Rightarrow> 'k dispatcher \<Rightarrow> 'k dispatcher \<Rightarrow> bool"
    for ready c where
  dp_start: "dispatcher_start s = Inr s' \<Longrightarrow> dispatcher_step ready c s s'"
| dp_stop: "dispatcher_step ready c s (dispatcher_stop s)"
| dp_pass: "ds_state s = Started \<Longrightarrow> \<not> ds_stop s \<Longrightarrow> coordinator_pass c (ready d) s = Inr s' \<Longrightarrow> dispatcher_step ready c s s'"
| dp_reap: "dispatcher_step ready c s (reap s)"
| dp_ended: "t \<in> set (ds_active s) \<Longrightarrow> \<not> dt_done t \<Longrightarrow>
    dispatcher_step ready c s (task_ended (dt_sequence t) tenant workflow_id (out :: WorkflowExecution outcome) s)"
| dp_drained: "ds_state s = Stopping \<Longrightarrow> list_all dt_done (ds_active s) \<Longrightarrow> dispatcher_step ready c s (drained s)"

definition pending :: "'k dispatcher \<Rightarrow> 'k dispatch_task list" where
  "pending s = filter (\<lambda>t. \<not> dt_done t) (ds_active s)"

definition dispatcher_ok :: "dispatcher_config \<Rightarrow> 'k dispatcher \<Rightarrow> bool" where
  "dispatcher_ok c s \<longleftrightarrow> int (length (ds_active s)) \<le> dc_concurrency c
     \<and> distinct (map dt_sequence (ds_active s)) \<and> (\<forall>t \<in> set (ds_active s). 1 \<le> dt_sequence t \<and> dt_sequence t \<le> ds_sequence s)
     \<and> 0 \<le> ds_sequence s \<and> ds_dispatched s = ds_sequence s
     \<and> 0 \<le> ds_completed s \<and> 0 \<le> ds_workflow_conflicts s \<and> 0 \<le> ds_execution_failures s
     \<and> ds_completed s + ds_workflow_conflicts s + ds_execution_failures s + int (length (pending s)) \<le> ds_dispatched s
     \<and> int (length (ds_recent_failures s)) = min 100 (ds_workflow_conflicts s + ds_execution_failures s)
     \<and> (ds_state s = New \<longrightarrow> ds_active s = []) \<and> (ds_state s = Stopped \<longrightarrow> pending s = [])
     \<and> (ds_stop s \<longrightarrow> ds_state s \<in> {Stopping, Stopped})"

end
