(* ===== verification/DispatcherProps.thy ===== *)
theory DispatcherProps
  imports Dispatcher
begin

text \<open>The invariant of the dispatchers, proved once for every source of work.\<close>

lemmas dispatcher_ok_rules = dispatcher_ok_def pending_def

lemma reap_ok:
  assumes "dispatcher_ok c s"
  shows "dispatcher_ok c (reap s)" and "pending (reap s) = pending s"
proof -
  have len: "int (length (filter (\<lambda>t. \<not> dt_done t) (ds_active s))) \<le> dc_concurrency c"
    using assms length_filter_le [of "\<lambda>t. \<not> dt_done t" "ds_active s"] by (simp add: dispatcher_ok_def del: length_filter_le)
  have "distinct (map dt_sequence (filter (\<lambda>t. \<not> dt_done t) (ds_active s)))"
    using assms by (simp add: dispatcher_ok_def distinct_map_filter)
  then show "dispatcher_ok c (reap s)"
    using assms len by (auto simp: dispatcher_ok_rules reap_def)
  show "pending (reap s) = pending s" by (simp add: pending_def reap_def)
qed

lemma create_task_ok:
  assumes "dispatcher_ok c s" and "int (length (ds_active s)) < dc_concurrency c" and "ds_state s = Started"
  shows "dispatcher_ok c (create_task k s)" and "ds_state (create_task k s) = Started"
    and "length (ds_active (create_task k s)) \<le> Suc (length (ds_active s))"
  using assms by (auto simp: dispatcher_ok_rules create_task_def Let_def)

lemma create_tasks_ok:
  assumes "dispatcher_ok c s" and "int (length (ds_active s)) + int (length ks) \<le> dc_concurrency c" and "ds_state s = Started"
  shows "dispatcher_ok c (fold create_task ks s)"
  using assms
proof (induction ks arbitrary: s)
  case (Cons k ks)
  note new = create_task_ok [OF Cons.prems(1) _ Cons.prems(3), of k]
  show ?case using Cons.IH [of "create_task k s"] new Cons.prems(2) by simp
qed simp

lemma count_outcome_fields [simp]:
  "ds_state (count_outcome t i out s) = ds_state s" "ds_active (count_outcome t i out s) = ds_active s"
  "ds_sequence (count_outcome t i out s) = ds_sequence s" "ds_dispatched (count_outcome t i out s) = ds_dispatched s"
  "ds_stop (count_outcome t i out s) = ds_stop s"
  by (simp_all add: count_outcome_def record_failure_def Let_def split: outcome.splits exn.splits)

lemma count_outcome_counts:
  fixes s :: "'k dispatcher"
  assumes "int (length (ds_recent_failures s)) = min 100 (ds_workflow_conflicts s + ds_execution_failures s)"
    and "0 \<le> ds_completed s" and "0 \<le> ds_workflow_conflicts s" and "0 \<le> ds_execution_failures s"
  shows "let s' = count_outcome t i out s in
    int (length (ds_recent_failures s')) = min 100 (ds_workflow_conflicts s' + ds_execution_failures s')
    \<and> 0 \<le> ds_completed s' \<and> 0 \<le> ds_workflow_conflicts s' \<and> 0 \<le> ds_execution_failures s'
    \<and> ds_completed s' + ds_workflow_conflicts s' + ds_execution_failures s'
        \<le> ds_completed s + ds_workflow_conflicts s + ds_execution_failures s + 1"
  using assms by (auto simp: count_outcome_def record_failure_def Let_def split: outcome.splits exn.splits)

lemma mark_done_pending:
  assumes "distinct (map dt_sequence ts)" and "t \<in> set ts" and "\<not> dt_done t"
  shows "Suc (length (filter (\<lambda>t. \<not> dt_done t) (map (\<lambda>x. if dt_sequence x = dt_sequence t then x\<lparr>dt_done := True\<rparr> else x) ts)))
    = length (filter (\<lambda>t. \<not> dt_done t) ts)"
  using assms
proof (induction ts)
  case (Cons a ts)
  show ?case
  proof (cases "a = t")
    case True
    then have "\<forall>x \<in> set ts. dt_sequence x \<noteq> dt_sequence t"
      using Cons.prems(1) True by (metis distinct.simps(2) image_eqI list.set_map list.simps(9))
    then have "map (\<lambda>x. if dt_sequence x = dt_sequence t then x\<lparr>dt_done := True\<rparr> else x) ts = ts"
      by (simp add: map_idI)
    then show ?thesis using True Cons.prems(3) by simp
  next
    case False
    then have t: "t \<in> set ts" using Cons.prems(2) by simp
    then have "dt_sequence a \<noteq> dt_sequence t"
      using Cons.prems(1) by (metis distinct.simps(2) image_eqI list.set_map list.simps(9))
    then show ?thesis using Cons.IH t Cons.prems by simp
  qed
qed simp

lemma task_ended_ok:
  assumes "dispatcher_ok c s" and "t \<in> set (ds_active s)" and "\<not> dt_done t"
  shows "dispatcher_ok c (task_ended (dt_sequence t) ten i out s)"
proof -
  let ?s = "task_ended (dt_sequence t) ten i out s"
  have d: "distinct (map dt_sequence (ds_active s))" using assms(1) by (simp add: dispatcher_ok_def)
  have seqs: "map dt_sequence (ds_active ?s) = map dt_sequence (ds_active s)"
    by (simp add: task_ended_def)
  have p: "Suc (length (pending ?s)) = length (pending s)"
    using mark_done_pending [OF d assms(2,3)] by (simp add: pending_def task_ended_def)
  have "\<forall>x \<in> set (ds_active ?s). dt_sequence x \<in> dt_sequence ` set (ds_active s)"
    using seqs by (metis image_eqI list.set_map)
  then have r: "\<forall>x \<in> set (ds_active ?s). 1 \<le> dt_sequence x \<and> dt_sequence x \<le> ds_sequence s"
    using assms(1) by (force simp: dispatcher_ok_def)
  have l: "length (ds_active ?s) = length (ds_active s)" by (simp add: task_ended_def)
  have ne: "pending s \<noteq> []" using p by auto
  let ?c = "count_outcome ten i out s"
  have fields: "ds_state ?s = ds_state s" "ds_sequence ?s = ds_sequence s" "ds_dispatched ?s = ds_dispatched s"
      "ds_stop ?s = ds_stop s" "ds_completed ?s = ds_completed ?c" "ds_workflow_conflicts ?s = ds_workflow_conflicts ?c"
      "ds_execution_failures ?s = ds_execution_failures ?c" "ds_recent_failures ?s = ds_recent_failures ?c"
    by (simp_all add: task_ended_def)
  have old: "ds_state s \<noteq> New" "ds_state s \<noteq> Stopped"
    using assms(1,2) ne by (auto simp: dispatcher_ok_def)
  have c: "int (length (ds_recent_failures ?c)) = min 100 (ds_workflow_conflicts ?c + ds_execution_failures ?c)"
      "0 \<le> ds_completed ?c" "0 \<le> ds_workflow_conflicts ?c" "0 \<le> ds_execution_failures ?c"
      "ds_completed ?c + ds_workflow_conflicts ?c + ds_execution_failures ?c
        \<le> ds_completed s + ds_workflow_conflicts s + ds_execution_failures s + 1"
    using count_outcome_counts [of s ten i out] assms(1) by (simp_all add: dispatcher_ok_def Let_def)
  show ?thesis
    using assms(1) unfolding dispatcher_ok_def fields l seqs using c r p old by simp
qed

context work_source
begin

lemma pass_ok:
  assumes "dispatcher_ok c s" and "coordinator_pass c (ready d) s = Inr s'" and "ds_state s = Started"
  shows "dispatcher_ok c s'"
proof -
  let ?s = "reap s" and ?slots = "dc_concurrency c - int (length (ds_active (reap s)))"
  have ok: "dispatcher_ok c ?s" by (rule reap_ok(1) [OF assms(1)])
  have st: "ds_state ?s = Started" using assms(3) by (simp add: reap_def)
  show ?thesis
  proof (cases "?slots = 0")
    case True
    then show ?thesis using assms(2) ok by (simp add: coordinator_pass_def Let_def)
  next
    case False
    then obtain items where i: "ready d ?slots = Inr items" "s' = fold create_task items ?s"
      using assms(2) by (auto simp: coordinator_pass_def Let_def map_r_eq_Inr)
    show ?thesis unfolding i(2)
      by (rule create_tasks_ok [OF ok _ st]) (use ready_bounded [OF i(1)] in linarith)
  qed
qed

text \<open>A pass never raises: the slots it asks for are within the limits of the listing.\<close>

lemma pass_returns:
  assumes "dispatcher_ok c s" and "dc_concurrency c \<le> 64"
  shows "\<exists>s'. coordinator_pass c (ready d) s = Inr s'"
proof -
  let ?slots = "dc_concurrency c - int (length (ds_active (reap s)))"
  have "0 \<le> ?slots" "?slots \<le> 64" using reap_ok(1) [OF assms(1)] assms(2) by (simp_all add: dispatcher_ok_def)
  then show ?thesis
    using ready_total [of ?slots d] by (cases "?slots = 0") (auto simp: coordinator_pass_def Let_def)
qed

lemma dispatcher_step_ok:
  assumes "dispatcher_step ready c s s'" and "dispatcher_ok c s"
  shows "dispatcher_ok c s'"
  using assms(1)
proof cases
  case dp_start
  then show ?thesis using assms(2) by (auto simp: dispatcher_ok_rules dispatcher_start_def split: if_splits)
next
  case dp_stop
  then show ?thesis
    using assms(2) by (auto simp: dispatcher_ok_rules dispatcher_stop_def split: dispatcher_state.splits)
next
  case (dp_pass d)
  then show ?thesis using pass_ok [OF assms(2)] by blast
next
  case dp_reap
  then show ?thesis using reap_ok(1) [OF assms(2)] by simp
next
  case dp_ended
  then show ?thesis using task_ended_ok [OF assms(2)] by blast
next
  case dp_drained
  have "pending s = []" using dp_drained(3) by (auto simp: pending_def filter_empty_conv list_all_iff)
  then show ?thesis
    using reap_ok [OF assms(2)] dp_drained(1,2) by (auto simp: drained_def dispatcher_ok_rules reap_def)
qed

lemma dispatcher_reachable_ok:
  assumes "reachable (\<lambda>s. s = dispatcher_new) (dispatcher_step ready c) s" and "0 \<le> dc_concurrency c"
  shows "dispatcher_ok c s"
  using assms(1)
proof (induction rule: reachable.induct)
  case (reach_init s)
  then show ?case using assms(2) by (simp add: dispatcher_ok_rules dispatcher_new_def)
next
  case (reach_step s t)
  then show ?case using dispatcher_step_ok by blast
qed

text \<open>A stopped dispatcher starts nothing any more.\<close>

lemma stopped_step:
  assumes "dispatcher_step ready c s s'" and "ds_state s = Stopped" and "pending s = []"
  shows "ds_state s' = Stopped \<and> pending s' = [] \<and> ds_dispatched s' = ds_dispatched s"
  using assms(1)
proof cases
  case (dp_ended t tenant i out)
  then have "t \<in> set (pending s)" by (simp add: pending_def)
  then show ?thesis using assms(3) by simp
qed (use assms(2,3) in \<open>auto simp: dispatcher_start_def dispatcher_stop_def reap_def pending_def\<close>)

lemma stopped_forever:
  assumes "(dispatcher_step ready c)\<^sup>*\<^sup>* s s'" and "ds_state s = Stopped" and "pending s = []"
  shows "ds_state s' = Stopped \<and> pending s' = [] \<and> ds_dispatched s' = ds_dispatched s"
  using assms(1)
proof (induction rule: rtranclp_induct)
  case (step b c')
  then show ?case using stopped_step by auto
qed (use assms(2,3) in simp)

end

end
