(* ===== verification/DispatcherTheorems.thy ===== *)
theory DispatcherTheorems
  imports DispatcherProps ExecutorTheorems
begin

text \<open>What the two dispatchers promise: bounded concurrency, owners that differ, accounts that add up, and a final stop.\<close>

lemma owner_of_inj: "owner_of c m = owner_of c n \<longleftrightarrow> m = n"
proof
  assume "owner_of c m = owner_of c n"
  then have "string_of_int m = string_of_int n" by (simp add: owner_of_def)
  then have "read_int (string_of_int m) = read_int (string_of_int n)" by simp
  then show "m = n" by (simp add: read_int_string_of_int)
qed simp

lemma reachable_dispatchers:
  assumes "LocalWorkflowDispatcher_init c = Inr () \<or> LocalGraphDispatcher_init c = Inr ()"
  shows "1 \<le> dc_concurrency c" and "dc_concurrency c \<le> 64"
  using assms
  by (auto simp: LocalWorkflowDispatcher_init_def LocalGraphDispatcher_init_def bind_r_eq_Inr)

lemma dispatcher_ok_promises:
  assumes "dispatcher_ok c s"
  shows "int (sn_active (dispatcher_snapshot s)) \<le> dc_concurrency c
    \<and> length (sn_recent_failures (dispatcher_snapshot s)) \<le> 100
    \<and> sn_completed (dispatcher_snapshot s) + sn_workflow_conflicts (dispatcher_snapshot s)
        + sn_execution_failures (dispatcher_snapshot s) + int (length (pending s)) \<le> sn_dispatched (dispatcher_snapshot s)
    \<and> distinct (map (owner_of c \<circ> dt_sequence) (ds_active s))"
proof -
  have "distinct (map (owner_of c) (map dt_sequence (ds_active s)))"
    unfolding distinct_map [of "owner_of c"] using assms by (simp add: dispatcher_ok_def inj_on_def owner_of_inj)
  moreover have "int (length (ds_recent_failures s)) \<le> 100" using assms unfolding dispatcher_ok_def by linarith
  ultimately show ?thesis using assms by (simp add: dispatcher_ok_def dispatcher_snapshot_def comp_def)
qed

text \<open>Dispatching is bounded: in every state a dispatcher with an accepted configuration reaches, on the queue of
  workflows and on that of graph nodes, it runs at most the configured number of tasks, their owners
  differ, it remembers at most a hundred failures, never more tasks have ended than were dispatched, and
  a pass of its loop does not raise.\<close>

theorem dispatchers_bounded:
  assumes "LocalWorkflowDispatcher_init c = Inr () \<or> LocalGraphDispatcher_init c = Inr ()"
    and "reachable (\<lambda>s. s = dispatcher_new) (dispatcher_step (\<lambda>d n. list_ready n d) c) s"
    and "reachable (\<lambda>s. s = dispatcher_new) (dispatcher_step (\<lambda>d n. list_ready_graph_nodes n d) c) s'"
  shows "int (sn_active (dispatcher_snapshot s)) \<le> dc_concurrency c
    \<and> int (sn_active (dispatcher_snapshot s')) \<le> dc_concurrency c
    \<and> length (sn_recent_failures (dispatcher_snapshot s)) \<le> 100
    \<and> length (sn_recent_failures (dispatcher_snapshot s')) \<le> 100
    \<and> sn_completed (dispatcher_snapshot s) + sn_workflow_conflicts (dispatcher_snapshot s)
        + sn_execution_failures (dispatcher_snapshot s) + int (length (pending s)) \<le> sn_dispatched (dispatcher_snapshot s)
    \<and> sn_completed (dispatcher_snapshot s') + sn_workflow_conflicts (dispatcher_snapshot s')
        + sn_execution_failures (dispatcher_snapshot s') + int (length (pending s')) \<le> sn_dispatched (dispatcher_snapshot s')
    \<and> distinct (map (owner_of c \<circ> dt_sequence) (ds_active s))
    \<and> distinct (map (owner_of c \<circ> dt_sequence) (ds_active s'))
    \<and> (\<exists>t. coordinator_pass c (\<lambda>n. list_ready n d) s = Inr t)
    \<and> (\<exists>t. coordinator_pass c (\<lambda>n. list_ready_graph_nodes n d) s' = Inr t)"
proof -
  note b = reachable_dispatchers [OF assms(1)]
  have ok: "dispatcher_ok c s" "dispatcher_ok c s'"
    using workflow_source.work_source_axioms graph_source.work_source_axioms b(1)
    by (auto intro: work_source.dispatcher_reachable_ok [OF _ assms(2)] work_source.dispatcher_reachable_ok [OF _ assms(3)])
  show ?thesis
    using dispatcher_ok_promises [OF ok(1)] dispatcher_ok_promises [OF ok(2)]
      work_source.pass_returns [OF workflow_source.work_source_axioms ok(1) b(2)]
      work_source.pass_returns [OF graph_source.work_source_axioms ok(2) b(2)]
    by blast
qed

definition sample_config :: dispatcher_config where
  "sample_config = \<lparr>dc_owner_prefix = ''w1'', dc_concurrency = 2, dc_poll_interval = 1, dc_lease_seconds = 30,
     dc_preferred_engine = None\<rparr>"

lemma sample_config_ok: "LocalWorkflowDispatcher_init sample_config = Inr ()"
  by (simp add: LocalWorkflowDispatcher_init_def sample_config_def)

definition sample_passed :: "(string \<times> string) dispatcher" where
  "sample_passed = dispatcher_new\<lparr>ds_state := Started, ds_sequence := 1, ds_dispatched := 1,
     ds_active := [\<lparr>dt_sequence = 1, dt_item = (''acme'', ''w1''), dt_done = False\<rparr>]\<rparr>"

lemma sample_passed_reachable:
  "reachable (\<lambda>s. s = dispatcher_new) (dispatcher_step (\<lambda>d n. list_ready n d) sample_config) sample_passed"
proof -
  let ?step = "dispatcher_step (\<lambda>d n. list_ready n d) sample_config"
  have "dispatcher_start dispatcher_new = Inr (dispatcher_new\<lparr>ds_state := Started\<rparr>)"
    by (simp add: dispatcher_start_def dispatcher_new_def)
  then have started: "reachable (\<lambda>s. s = dispatcher_new) ?step (dispatcher_new\<lparr>ds_state := Started\<rparr>)"
    using reach_step [of "\<lambda>s. s = dispatcher_new" ?step dispatcher_new] reach_init [of "\<lambda>s. s = dispatcher_new"] dp_start
    by blast
  have "coordinator_pass sample_config (\<lambda>n. list_ready n sample_created) (dispatcher_new\<lparr>ds_state := Started\<rparr>)
      = Inr sample_passed"
    by (simp add: coordinator_pass_def reap_def dispatcher_new_def Let_def sample_config_def list_ready_def sample_created_def
        sample_defs sample_row_def create_task_def sample_passed_def)
  then have "?step (dispatcher_new\<lparr>ds_state := Started\<rparr>) sample_passed"
    by (intro dp_pass [where d = sample_created]) (simp_all add: dispatcher_new_def)
  with started show ?thesis by (rule reach_step)
qed

lemma new_reachable: "reachable (\<lambda>s. s = dispatcher_new) step dispatcher_new"
  by (rule reach_init) simp

theorem dispatchers_bounded_witness: "int (sn_active (dispatcher_snapshot sample_passed)) \<le> 2"
  using dispatchers_bounded [OF disjI1 [OF sample_config_ok] sample_passed_reachable new_reachable]
  by (simp add: sample_config_def)

text \<open>A stop is final: once a dispatcher has stopped nothing runs any more, and it never starts another task.\<close>

theorem dispatcher_stop_final:
  assumes "1 \<le> dc_concurrency c"
    and "reachable (\<lambda>s. s = dispatcher_new) (dispatcher_step (\<lambda>d n. list_ready n d) c) s" and "ds_state s = Stopped"
    and "(dispatcher_step (\<lambda>d n. list_ready n d) c)\<^sup>*\<^sup>* s s'"
  shows "ds_state s' = Stopped \<and> pending s' = [] \<and> ds_dispatched s' = ds_dispatched s
    \<and> (\<exists>e. dispatcher_start s' = Inl (RuntimeError e))"
proof -
  have "dispatcher_ok c s"
    using work_source.dispatcher_reachable_ok [OF workflow_source.work_source_axioms assms(2)] assms(1) by simp
  then have "pending s = []" using assms(3) by (simp add: dispatcher_ok_def)
  from work_source.stopped_forever [OF workflow_source.work_source_axioms assms(4,3) this]
  show ?thesis by (simp add: dispatcher_start_def)
qed

theorem dispatcher_stop_final_witness:
  "\<exists>e. dispatcher_start (dispatcher_stop (dispatcher_new :: (string \<times> string) dispatcher)) = Inl (RuntimeError e)"
proof -
  have "reachable (\<lambda>s. s = dispatcher_new) (dispatcher_step (\<lambda>d n. list_ready n d) sample_config)
      (dispatcher_stop (dispatcher_new :: (string \<times> string) dispatcher))"
    by (rule reach_step [OF new_reachable]) (rule dp_stop)
  from dispatcher_stop_final [OF _ this _ rtranclp.rtrancl_refl] show ?thesis
    by (simp add: sample_config_def dispatcher_stop_def dispatcher_new_def)
qed

text \<open>C35. A workflow queued without a bound budget is never fenced: every task the dispatcher starts for it ends as an
  unexpected failure and leaves the database as it was, so the next listing of the ready work names it as the last
  one did. The task is not counted as completed: the counter of failures grows by one and the list of recent
  failures ends with an entry that names the tenant, the workflow and the code \<open>unexpected_execution_failure\<close>.\<close>

theorem unbound_workflow_stays_queued:
  assumes "get_binding L t i d = Inr None"
    and "run_workflow_task L rt c (t, i) n xc others d = (d', out)" and "s' = task_ended m t i out s"
  shows "out = EscapedError (ValueError ''A WorkflowBudget is required'') \<and> d' = d \<and> list_ready limit d' = list_ready limit d
    \<and> ds_completed s' = ds_completed s \<and> ds_execution_failures s' = ds_execution_failures s + 1
    \<and> ds_recent_failures s' \<noteq> []
    \<and> last (ds_recent_failures s') = \<lparr>df_tenant = t, df_workflow_id = i, df_code = ''unexpected_execution_failure''\<rparr>
    \<and> butlast (ds_recent_failures s') = drop (length (ds_recent_failures s) - 99) (ds_recent_failures s)"
proof -
  have "run_workflow_task L rt c (t, i) n xc others d = (d, EscapedError (ValueError ''A WorkflowBudget is required''))"
    using assms(1) by (simp add: run_workflow_task_def execute_def prepare_execution_def consult_def choose_budget_def)
  with assms(2) have r: "out = EscapedError (ValueError ''A WorkflowBudget is required'')" "d' = d" by simp_all
  have "ds_recent_failures s' = drop (length (ds_recent_failures s) - 99) (ds_recent_failures s)
      @ [\<lparr>df_tenant = t, df_workflow_id = i, df_code = ''unexpected_execution_failure''\<rparr>]"
    by (simp add: assms(3) r(1) task_ended_def count_outcome_def record_failure_def Let_def)
  then show ?thesis using r assms(3) by (simp add: task_ended_def count_outcome_def record_failure_def Let_def)
qed

theorem unbound_workflow_stays_queued_witness:
  "last (ds_recent_failures (task_ended 1 ''acme'' ''w1''
       (snd (run_workflow_task sample_lib sample_refusing sample_config (''acme'', ''w1'') 1 sample_xc id sample_created))
       (dispatcher_new :: (string \<times> string) dispatcher)))
     = \<lparr>df_tenant = ''acme'', df_workflow_id = ''w1'', df_code = ''unexpected_execution_failure''\<rparr>"
proof -
  have b: "get_binding sample_lib ''acme'' ''w1'' sample_created = Inr None"
    by (simp add: get_binding_def sample_created_def sample_defs)
  show ?thesis using unbound_workflow_stays_queued [OF b prod.collapse [symmetric] refl] by blast
qed

end
