(* ===== verification/Admission.thy ===== *)
theory Admission
  imports Dict
begin

text \<open>
  Admission control (\<open>src/backend/control/admission.py\<close>): per-tenant quotas on requests, tokens and
  concurrent requests, in one process (\<open>AdmissionController\<close>) and over Redis
  (\<open>RedisAdmissionController\<close>, whose two Lua scripts are part of the source and are read here command by
  command on one hash per tenant). Both provide the locale \<open>admission_control\<close>, whose client is the request
  handler: it releases what it was granted, and the number of requests in flight never exceeds the limit.
\<close>

section \<open>The interface\<close>

locale admission_control =
  fixes admit :: "'e \<Rightarrow> string \<Rightarrow> int \<Rightarrow> 's \<Rightarrow> 's \<times> bool"
    and release :: "'e \<Rightarrow> string \<Rightarrow> 's \<Rightarrow> 's"
    and elapses :: "'s \<Rightarrow> 's \<Rightarrow> bool"
    and valid :: "'s \<Rightarrow> bool"
    and held :: "'s \<Rightarrow> string \<Rightarrow> int"
    and limit :: "string \<Rightarrow> int"
  assumes held_bounds: "valid s \<Longrightarrow> 0 \<le> held s t \<and> held s t \<le> limit t"
    and admit_law: "valid s \<Longrightarrow> admit e t n s = (s', ok) \<Longrightarrow>
      valid s' \<and> (\<forall>u. held s u + (if ok \<and> u = t then 1 else 0) \<le> held s' u)"
    and release_law: "valid s \<Longrightarrow>
      valid (release e t s) \<and> (\<forall>u. held s u - (if u = t then 1 else 0) \<le> held (release e t s) u)"
    and elapses_law: "valid s \<Longrightarrow> elapses s s' \<Longrightarrow> valid s' \<and> (\<forall>u. held s u \<le> held s' u)"
begin

text \<open>The requests in flight: granted and not yet released.\<close>

inductive serving :: "'s \<Rightarrow> 's \<Rightarrow> (string \<Rightarrow> nat) \<Rightarrow> bool" for s0 where
  sv_idle: "serving s0 s0 (\<lambda>_. 0)"
| sv_admit: "serving s0 s k \<Longrightarrow> admit e t n s = (s', ok) \<Longrightarrow> serving s0 s' (k(t := k t + (if ok then 1 else 0)))"
| sv_release: "serving s0 s k \<Longrightarrow> 0 < k t \<Longrightarrow> serving s0 (release e t s) (k(t := k t - 1))"
| sv_time: "serving s0 s k \<Longrightarrow> elapses s s' \<Longrightarrow> serving s0 s' k"

lemma serving_held: "serving s0 s k \<Longrightarrow> valid s0 \<Longrightarrow> valid s \<and> (\<forall>t. int (k t) \<le> held s t)"
proof (induction rule: serving.induct)
  case sv_idle
  then show ?case using held_bounds by simp
next
  case (sv_admit s k e t n s' ok)
  then have v: "valid s" and h: "int (k u) \<le> held s u" for u by auto
  note law = admit_law [OF v sv_admit.hyps(2)]
  have "int ((k(t := k t + (if ok then 1 else 0))) u) \<le> held s' u" for u
    using conjunct2 [OF law, THEN spec, of u] h [of u] by (auto split: if_splits)
  then show ?case using law by blast
next
  case (sv_release s k t e)
  then have v: "valid s" and h: "int (k u) \<le> held s u" for u by auto
  note law = release_law [OF v, of e t]
  have "int ((k(t := k t - 1)) u) \<le> held (release e t s) u" for u
    using conjunct2 [OF law, THEN spec, of u] h [of u] sv_release.hyps(2) by (auto split: if_splits)
  then show ?case using law by blast
next
  case (sv_time s k s')
  then have v: "valid s" and h: "int (k u) \<le> held s u" for u by auto
  have "int (k u) \<le> held s' u" for u
    using elapses_law [OF v sv_time.hyps(2)] h [of u] by (meson order_trans)
  then show ?case using elapses_law [OF v sv_time.hyps(2)] by blast
qed

lemma serving_bounded:
  assumes "serving s0 s k" and "valid s0"
  shows "int (k t) \<le> limit t"
proof -
  have "valid s" and "int (k t) \<le> held s t" using serving_held [OF assms] by auto
  then show ?thesis using held_bounds [of s t] by linarith
qed

end

section \<open>Quotas\<close>

record QuotaPolicy =
  qp_requests_per_minute :: int
  qp_concurrent_requests :: int
  qp_tokens_per_minute :: int

definition QuotaPolicy_post_init :: "QuotaPolicy \<Rightarrow> exn + unit" where
  "QuotaPolicy_post_init p =
     require (\<not> min (qp_requests_per_minute p) (min (qp_concurrent_requests p) (qp_tokens_per_minute p)) < 1)
       (ValueError ''Quota limits must be positive.'')"

type_synonym quotas = "(string \<times> QuotaPolicy) list"

definition configured_tenants :: "quotas \<Rightarrow> string set" where
  "configured_tenants policies = fst ` set policies"

text \<open>The concurrency a tenant may reach: none without a policy.\<close>

definition concurrency_limit :: "quotas \<Rightarrow> string \<Rightarrow> int" where
  "concurrency_limit policies t = (case map_of policies t of None \<Rightarrow> 0 | Some p \<Rightarrow> qp_concurrent_requests p)"

definition policies_ok :: "quotas \<Rightarrow> bool" where
  "policies_ok policies \<longleftrightarrow> (\<forall>t p. map_of policies t = Some p \<longrightarrow> QuotaPolicy_post_init p = Inr ())"

lemma policies_okD:
  assumes "policies_ok policies" and "map_of policies t = Some p"
  shows "1 \<le> qp_requests_per_minute p" and "1 \<le> qp_concurrent_requests p" and "1 \<le> qp_tokens_per_minute p"
proof -
  have "QuotaPolicy_post_init p = Inr ()" using assms by (auto simp: policies_ok_def)
  then have "\<not> min (qp_requests_per_minute p) (min (qp_concurrent_requests p) (qp_tokens_per_minute p)) < 1"
    by (simp add: QuotaPolicy_post_init_def require_def split: if_splits)
  then show "1 \<le> qp_requests_per_minute p" and "1 \<le> qp_concurrent_requests p" and "1 \<le> qp_tokens_per_minute p"
    by linarith+
qed

section \<open>In one process\<close>

record TenantUsage =
  us_window_started :: rat
  us_requests :: int
  us_tokens :: int
  us_concurrent :: int

type_synonym usages = "(string \<times> TenantUsage) list"

definition fresh_usage :: "rat \<Rightarrow> TenantUsage" where
  "fresh_usage now = \<lparr>us_window_started = now, us_requests = 0, us_tokens = 0, us_concurrent = 0\<rparr>"

definition roll_window :: "rat \<Rightarrow> TenantUsage \<Rightarrow> TenantUsage" where
  "roll_window now u = (if now - us_window_started u \<ge> 60
     then u\<lparr>us_window_started := now, us_requests := 0, us_tokens := 0\<rparr> else u)"

definition admit :: "quotas \<Rightarrow> rat \<Rightarrow> string \<Rightarrow> int \<Rightarrow> usages \<Rightarrow> usages \<times> bool" where
  "admit policies now tenant estimated_tokens usage =
     (case map_of policies tenant of
        None \<Rightarrow> (usage, False)
      | Some p \<Rightarrow>
          if estimated_tokens < 0 then (usage, False)
          else let u = roll_window now (case map_of usage tenant of None \<Rightarrow> fresh_usage now | Some u \<Rightarrow> u) in
               if us_requests u \<ge> qp_requests_per_minute p
                  \<or> us_tokens u + estimated_tokens > qp_tokens_per_minute p
                  \<or> us_concurrent u \<ge> qp_concurrent_requests p
               then (dict_put tenant u usage, False)
               else (dict_put tenant (u\<lparr>us_requests := us_requests u + 1, us_tokens := us_tokens u + estimated_tokens,
                        us_concurrent := us_concurrent u + 1\<rparr>) usage, True))"

definition release :: "string \<Rightarrow> usages \<Rightarrow> usages" where
  "release tenant usage =
     (case map_of usage tenant of
        None \<Rightarrow> usage
      | Some u \<Rightarrow> if us_concurrent u > 0 then dict_put tenant (u\<lparr>us_concurrent := us_concurrent u - 1\<rparr>) usage else usage)"

definition usage_within :: "QuotaPolicy \<Rightarrow> TenantUsage \<Rightarrow> bool" where
  "usage_within p u \<longleftrightarrow> 0 \<le> us_requests u \<and> us_requests u \<le> qp_requests_per_minute p
     \<and> 0 \<le> us_tokens u \<and> us_tokens u \<le> qp_tokens_per_minute p
     \<and> 0 \<le> us_concurrent u \<and> us_concurrent u \<le> qp_concurrent_requests p"

definition usages_ok :: "quotas \<Rightarrow> usages \<Rightarrow> bool" where
  "usages_ok policies usage \<longleftrightarrow> policies_ok policies
     \<and> (\<forall>t u. map_of usage t = Some u \<longrightarrow> (\<exists>p. map_of policies t = Some p \<and> usage_within p u))"

definition in_flight :: "usages \<Rightarrow> string \<Rightarrow> int" where
  "in_flight usage t = (case map_of usage t of None \<Rightarrow> 0 | Some u \<Rightarrow> us_concurrent u)"

lemma usages_okD:
  assumes "usages_ok policies usage"
  shows "map_of usage t = Some u \<Longrightarrow> \<exists>p. map_of policies t = Some p \<and> usage_within p u"
    and "policies_ok policies"
  using assms by (auto simp: usages_ok_def)

lemma usages_ok_put:
  assumes "usages_ok policies usage" and "map_of policies t = Some p" and "usage_within p u"
  shows "usages_ok policies (dict_put t u usage)" and "in_flight (dict_put t u usage) t = us_concurrent u"
    and "v \<noteq> t \<Longrightarrow> in_flight (dict_put t u usage) v = in_flight usage v"
  using assms by (auto simp: usages_ok_def in_flight_def dict_put_def update_conv')

lemma current_usage:
  assumes "usages_ok policies usage" and "map_of policies t = Some p"
    and "u = roll_window now (case map_of usage t of None \<Rightarrow> fresh_usage now | Some u \<Rightarrow> u)"
  shows "usage_within p u" and "us_concurrent u = in_flight usage t"
  using usages_okD(1) [OF assms(1), of t] policies_okD [OF usages_okD(2) [OF assms(1)] assms(2)] assms(2,3)
  by (auto simp: roll_window_def fresh_usage_def usage_within_def in_flight_def split: option.splits)

interpretation process_admission: admission_control "admit policies" "\<lambda>_. release" "(=)" "usages_ok policies" in_flight
    "concurrency_limit policies" for policies
proof
  fix s t assume "usages_ok policies s"
  note ok = usages_okD [OF this]
  show "0 \<le> in_flight s t \<and> in_flight s t \<le> concurrency_limit policies t"
    using ok(1) [of t] policies_okD(2) [OF ok(2), of t]
    by (cases "map_of s t"; cases "map_of policies t") (auto simp: in_flight_def concurrency_limit_def usage_within_def)
next
  fix s e t n s' ok assume v: "usages_ok policies s" and a: "admit policies e t n s = (s', ok)"
  show "usages_ok policies s' \<and> (\<forall>u. in_flight s u + (if ok \<and> u = t then 1 else 0) \<le> in_flight s' u)"
  proof (cases "\<exists>p. map_of policies t = Some p \<and> 0 \<le> n")
    case False
    then have "s' = s \<and> \<not> ok" using a by (auto simp: admit_def split: option.splits if_splits)
    then show ?thesis using v by simp
  next
    case True
    then obtain p where p: "map_of policies t = Some p" "0 \<le> n" by blast
    define u where "u = roll_window e (case map_of s t of None \<Rightarrow> fresh_usage e | Some u \<Rightarrow> u)"
    note c = current_usage [OF v p(1) u_def]
    let ?u = "u\<lparr>us_requests := us_requests u + 1, us_tokens := us_tokens u + n, us_concurrent := us_concurrent u + 1\<rparr>"
    have "s' = dict_put t u s \<and> \<not> ok \<or> s' = dict_put t ?u s \<and> ok \<and> usage_within p ?u"
      using a p c(1) by (auto simp: admit_def Let_def u_def [symmetric] usage_within_def split: if_splits)
    then consider "s' = dict_put t u s" "\<not> ok" | "s' = dict_put t ?u s" "ok" "usage_within p ?u" by blast
    then show ?thesis
    proof cases
      case 1
      have "in_flight s v \<le> in_flight s' v" for v
        using usages_ok_put(2,3) [OF v p(1) c(1)] c(2) 1(1) by (cases "v = t") auto
      then show ?thesis using usages_ok_put(1) [OF v p(1) c(1)] 1 by simp
    next
      case 2
      have "in_flight s v + (if v = t then 1 else 0) \<le> in_flight s' v" for v
        using usages_ok_put(2,3) [OF v p(1) 2(3)] c(2) 2(1) by (cases "v = t") auto
      then show ?thesis using usages_ok_put(1) [OF v p(1) 2(3)] 2 by simp
    qed
  qed
next
  fix s t assume v: "usages_ok policies s"
  show "usages_ok policies (release t s) \<and> (\<forall>u. in_flight s u - (if u = t then 1 else 0) \<le> in_flight (release t s) u)"
  proof (cases "\<exists>u. map_of s t = Some u \<and> us_concurrent u > 0")
    case True
    then obtain u where u: "map_of s t = Some u" "us_concurrent u > 0" by blast
    obtain p where p: "map_of policies t = Some p" "usage_within p u" using usages_okD(1) [OF v u(1)] by blast
    have "usage_within p (u\<lparr>us_concurrent := us_concurrent u - 1\<rparr>)" using p(2) u(2) by (simp add: usage_within_def)
    note put = usages_ok_put [OF v p(1) this]
    have "in_flight s v - (if v = t then 1 else 0) \<le> in_flight (release t s) v" for v
      using put(2,3) u by (cases "v = t") (auto simp: release_def in_flight_def [of s t])
    then show ?thesis using put(1) u by (simp add: release_def)
  qed (use v in \<open>auto simp: release_def split: option.splits\<close>)
qed auto

end
