(* ===== verification/RedisAdmission.thy ===== *)
theory RedisAdmission
  imports Admission
begin

text \<open>
  Admission over Redis (\<open>src/backend/control/admission.py\<close>, \<open>RedisAdmissionController\<close>). The two Lua scripts
  are part of the source; each runs atomically on one hash per tenant and is read here command by command.
  What is not under the source is the client: a call of \<open>eval\<close> may fail before the script has run, or after it
  (the reply is lost). Both cases are an input of the operations. The server drops a key whose expiry has passed.
  Numbers of the scripts are integers here; the server keeps them exact below \<open>2 ^ 53\<close>.
\<close>

section \<open>Keys and commands of the server\<close>

record redis_key =
  rk_fields :: "(string \<times> int) list"
  rk_expires :: "rat option"

type_synonym redis = "(string \<times> redis_key) list"

definition hget :: "redis \<Rightarrow> string \<Rightarrow> string \<Rightarrow> int option" where
  "hget r key field = (case map_of r key of None \<Rightarrow> None | Some k \<Rightarrow> map_of (rk_fields k) field)"

definition key_of :: "redis \<Rightarrow> string \<Rightarrow> redis_key" where
  "key_of r key = (case map_of r key of None \<Rightarrow> \<lparr>rk_fields = [], rk_expires = None\<rparr> | Some k \<Rightarrow> k)"

definition hset :: "string \<Rightarrow> string \<Rightarrow> int \<Rightarrow> redis \<Rightarrow> redis" where
  "hset key field v r = (let k = key_of r key in dict_put key (k\<lparr>rk_fields := dict_put field v (rk_fields k)\<rparr>) r)"

definition hincrby :: "string \<Rightarrow> string \<Rightarrow> int \<Rightarrow> redis \<Rightarrow> redis" where
  "hincrby key field n r = hset key field ((case hget r key field of None \<Rightarrow> 0 | Some v \<Rightarrow> v) + n) r"

definition persist_key :: "string \<Rightarrow> redis \<Rightarrow> redis" where
  "persist_key key r = (case map_of r key of None \<Rightarrow> r | Some k \<Rightarrow> dict_put key (k\<lparr>rk_expires := None\<rparr>) r)"

definition expire_key :: "string \<Rightarrow> rat \<Rightarrow> redis \<Rightarrow> redis" where
  "expire_key key when r = (case map_of r key of None \<Rightarrow> r | Some k \<Rightarrow> dict_put key (k\<lparr>rk_expires := Some when\<rparr>) r)"

definition stored_number :: "redis \<Rightarrow> string \<Rightarrow> string \<Rightarrow> int \<Rightarrow> int" where
  "stored_number r key field other = (case hget r key field of None \<Rightarrow> other | Some v \<Rightarrow> v)"

text \<open>The server drops keys whose time has passed, at any moment after it.\<close>

definition drop_expired :: "rat \<Rightarrow> redis \<Rightarrow> redis" where
  "drop_expired now r = filter (\<lambda>(key, k). case rk_expires k of None \<Rightarrow> True | Some when \<Rightarrow> now < when) r"

section \<open>The scripts\<close>

definition admit_script :: "rat \<Rightarrow> string \<Rightarrow> int \<Rightarrow> int \<Rightarrow> int \<Rightarrow> int \<Rightarrow> redis \<Rightarrow> redis \<times> int" where
  "admit_script now key max_requests max_concurrent max_tokens estimated r =
     (let minute = \<lfloor>rat_of_int \<lfloor>now\<rfloor> / 60\<rfloor>;
          r1 = (if stored_number r key ''minute'' (-1) \<noteq> minute
                then hset key ''tokens'' 0 (hset key ''requests'' 0 (hset key ''minute'' minute r)) else r);
          requests = stored_number r1 key ''requests'' 0;
          tokens = stored_number r1 key ''tokens'' 0;
          concurrent = stored_number r1 key ''concurrent'' 0
      in if requests \<ge> max_requests \<or> tokens + estimated > max_tokens \<or> concurrent \<ge> max_concurrent
         then (r1, 0)
         else (persist_key key (hincrby key ''concurrent'' 1 (hincrby key ''tokens'' estimated
                 (hincrby key ''requests'' 1 r1))), 1))"

definition release_script :: "rat \<Rightarrow> string \<Rightarrow> redis \<Rightarrow> redis \<times> int" where
  "release_script now key r =
     (if stored_number r key ''concurrent'' 0 > 0
      then let r1 = hincrby key ''concurrent'' (-1) r in
           (if stored_number r1 key ''concurrent'' 0 = 0 then expire_key key (now + 180) r1 else r1, 1)
      else (r, 1))"

section \<open>The controller\<close>

record redis_call =
  rc_time :: rat
  rc_executed :: bool
  rc_replied :: bool

text \<open>\<open>eval\<close>: the script runs or does not, and the reply arrives or the client raises.\<close>

definition run_eval :: "redis_call \<Rightarrow> (rat \<Rightarrow> redis \<Rightarrow> redis \<times> int) \<Rightarrow> redis \<Rightarrow> redis \<times> int option" where
  "run_eval c script r =
     (if rc_executed c
      then let (r', reply) = script (rc_time c) r in (r', if rc_replied c then Some reply else None)
      else (r, None))"

definition redis_admission_key :: "string \<Rightarrow> string \<Rightarrow> string" where
  "redis_admission_key key_prefix tenant = key_prefix @ '':'' @ tenant"

definition redis_admit :: "string \<Rightarrow> quotas \<Rightarrow> redis_call \<Rightarrow> string \<Rightarrow> int \<Rightarrow> redis \<Rightarrow> redis \<times> bool" where
  "redis_admit key_prefix policies c tenant estimated_tokens r =
     (case map_of policies tenant of
        None \<Rightarrow> (r, False)
      | Some p \<Rightarrow>
          if estimated_tokens < 0 then (r, False)
          else let (r', result) = run_eval c (\<lambda>now. admit_script now (redis_admission_key key_prefix tenant)
                     (qp_requests_per_minute p) (qp_concurrent_requests p) (qp_tokens_per_minute p) estimated_tokens) r in
               (r', result = Some 1))"

definition redis_release :: "string \<Rightarrow> redis_call \<Rightarrow> string \<Rightarrow> redis \<Rightarrow> redis" where
  "redis_release key_prefix c tenant r =
     fst (run_eval c (\<lambda>now. release_script now (redis_admission_key key_prefix tenant)) r)"

definition redis_health :: "bool option \<Rightarrow> bool \<times> bool" where
  "redis_health ping = (ping = Some True, True)"

section \<open>What the scripts keep\<close>

definition fields_within :: "QuotaPolicy \<Rightarrow> redis \<Rightarrow> string \<Rightarrow> bool" where
  "fields_within p r key \<longleftrightarrow>
     0 \<le> stored_number r key ''requests'' 0 \<and> stored_number r key ''requests'' 0 \<le> qp_requests_per_minute p
     \<and> 0 \<le> stored_number r key ''tokens'' 0 \<and> stored_number r key ''tokens'' 0 \<le> qp_tokens_per_minute p
     \<and> 0 \<le> stored_number r key ''concurrent'' 0 \<and> stored_number r key ''concurrent'' 0 \<le> qp_concurrent_requests p"

text \<open>An active permit never expires: a key with an expiry holds none.\<close>

definition idle_expiry :: "redis \<Rightarrow> string \<Rightarrow> bool" where
  "idle_expiry r key \<longleftrightarrow> (rk_expires (key_of r key) \<noteq> None \<longrightarrow> stored_number r key ''concurrent'' 0 = 0)"

definition redis_ok :: "string \<Rightarrow> quotas \<Rightarrow> redis \<Rightarrow> bool" where
  "redis_ok key_prefix policies r \<longleftrightarrow> dict_ok r \<and> policies_ok policies
     \<and> (\<forall>t. idle_expiry r (redis_admission_key key_prefix t)
        \<and> (case map_of policies t of
             None \<Rightarrow> stored_number r (redis_admission_key key_prefix t) ''concurrent'' 0 = 0
           | Some p \<Rightarrow> fields_within p r (redis_admission_key key_prefix t)))"

definition permits :: "string \<Rightarrow> redis \<Rightarrow> string \<Rightarrow> int" where
  "permits key_prefix r t = stored_number r (redis_admission_key key_prefix t) ''concurrent'' 0"

lemma map_of_put: "map_of (dict_put k v d) k' = (if k' = k then Some v else map_of d k')"
  by (rule alist_dict.lookup_put)

lemma key_inject [simp]: "redis_admission_key p t = redis_admission_key p u \<longleftrightarrow> t = u"
  by (simp add: redis_admission_key_def)

lemma hget_hset [simp]:
  "hget (hset key f v r) key' f' = (if key' = key \<and> f' = f then Some v else hget r key' f')"
  by (auto simp: hget_def hset_def key_of_def Let_def map_of_put split: option.splits)

lemma hget_marks [simp]:
  "hget (persist_key key r) key' f = hget r key' f" "hget (expire_key key when r) key' f = hget r key' f"
  by (auto simp: hget_def persist_key_def expire_key_def map_of_put split: option.splits)

lemma number_hset [simp]:
  "stored_number (hset key f v r) key' f' d = (if key' = key \<and> f' = f then v else stored_number r key' f' d)"
  "stored_number (hincrby key f v r) key' f' 0 = (if key' = key \<and> f' = f then stored_number r key f 0 + v else stored_number r key' f' 0)"
  "stored_number (persist_key key r) key' f' d = stored_number r key' f' d"
  "stored_number (expire_key key when r) key' f' d = stored_number r key' f' d"
  by (auto simp: stored_number_def hincrby_def)

lemma expires_hset [simp]: "rk_expires (key_of (hset key f v r) key') = rk_expires (key_of r key')"
  by (auto simp: hset_def key_of_def Let_def map_of_put split: option.splits)

lemma expires_hincrby [simp]: "rk_expires (key_of (hincrby key f v r) key') = rk_expires (key_of r key')"
  by (simp add: hincrby_def)

lemma expires_marks [simp]:
  "rk_expires (key_of (persist_key key r) key') = (if key' = key then None else rk_expires (key_of r key'))"
  "key' \<noteq> key \<Longrightarrow> rk_expires (key_of (expire_key key when r) key') = rk_expires (key_of r key')"
  by (auto simp: persist_key_def expire_key_def key_of_def map_of_put split: option.splits)

lemma dict_ok_commands [simp]:
  assumes "dict_ok r"
  shows "dict_ok (hset key f v r)" "dict_ok (hincrby key f v r)" "dict_ok (persist_key key r)"
    "dict_ok (expire_key key when r)"
  using assms alist_dict.ok_put
  by (auto simp: hset_def hincrby_def persist_key_def expire_key_def Let_def split: option.splits)

text \<open>A script touches its own key only; what has to be shown is what it does there.\<close>

definition own_key :: "string \<Rightarrow> redis \<Rightarrow> redis \<Rightarrow> bool" where
  "own_key key r r' \<longleftrightarrow> (dict_ok r \<longrightarrow> dict_ok r')
     \<and> (\<forall>key'. key' \<noteq> key \<longrightarrow> rk_expires (key_of r' key') = rk_expires (key_of r key')
          \<and> (\<forall>f. stored_number r' key' f 0 = stored_number r key' f 0))"

lemma own_keyD:
  assumes "own_key key r r'" and "key' \<noteq> key"
  shows "stored_number r' key' f 0 = stored_number r key' f 0" and "idle_expiry r' key' = idle_expiry r key'"
    and "fields_within p r' key' = fields_within p r key'"
  using assms by (simp_all add: own_key_def idle_expiry_def fields_within_def)

lemma redis_ok_own:
  assumes ok: "redis_ok kp policies r" and own: "own_key (redis_admission_key kp t) r r'"
    and idle: "idle_expiry r' (redis_admission_key kp t)"
    and here: "case map_of policies t of None \<Rightarrow> stored_number r' (redis_admission_key kp t) ''concurrent'' 0 = 0
        | Some p \<Rightarrow> fields_within p r' (redis_admission_key kp t)"
  shows "redis_ok kp policies r'"
proof -
  have "idle_expiry r' (redis_admission_key kp u) \<and> (case map_of policies u of
      None \<Rightarrow> stored_number r' (redis_admission_key kp u) ''concurrent'' 0 = 0
    | Some p \<Rightarrow> fields_within p r' (redis_admission_key kp u))" for u
  proof (cases "u = t")
    case True
    show ?thesis unfolding True using idle here by simp
  next
    case False
    then have "redis_admission_key kp u \<noteq> redis_admission_key kp t" by simp
    from own_keyD [OF own this] show ?thesis using ok by (simp add: redis_ok_def cong: option.case_cong)
  qed
  then show ?thesis using ok own by (simp add: redis_ok_def own_key_def)
qed

lemma redis_okD:
  assumes "redis_ok kp policies r"
  shows "idle_expiry r (redis_admission_key kp t)" and "policies_ok policies"
    and "map_of policies t = Some p \<Longrightarrow> fields_within p r (redis_admission_key kp t)"
    and "map_of policies t = None \<Longrightarrow> permits kp r t = 0"
  using assms by (auto simp: redis_ok_def permits_def dest: spec [of _ t])

lemma admit_script_law:
  assumes "admit_script now key mr mc mt n r = (r', a)" and "0 \<le> n"
    and "fields_within p r key" and "idle_expiry r key"
    and "mr = qp_requests_per_minute p" "mc = qp_concurrent_requests p" "mt = qp_tokens_per_minute p"
    and "1 \<le> mr" "1 \<le> mt"
  shows "own_key key r r'" and "fields_within p r' key" and "idle_expiry r' key"
    and "stored_number r' key ''concurrent'' 0 = stored_number r key ''concurrent'' 0 + a" and "a = 0 \<or> a = 1"
  using assms by (auto simp: admit_script_def Let_def own_key_def fields_within_def idle_expiry_def split: if_splits)

lemma release_script_law:
  assumes "release_script now key r = (r', a)" and "idle_expiry r key"
  shows "own_key key r r'" and "fields_within p r key \<Longrightarrow> fields_within p r' key" and "idle_expiry r' key"
    and "stored_number r' key ''concurrent'' 0
       = stored_number r key ''concurrent'' 0 - (if 0 < stored_number r key ''concurrent'' 0 then 1 else 0)"
  using assms by (auto simp: release_script_def Let_def own_key_def fields_within_def idle_expiry_def split: if_splits)


section \<open>The contract\<close>

lemma drop_expired_lookup:
  assumes "dict_ok r"
  shows "map_of (drop_expired now r) key = (case map_of r key of None \<Rightarrow> None
    | Some k \<Rightarrow> if (case rk_expires k of None \<Rightarrow> True | Some when \<Rightarrow> now < when) then Some k else None)"
  using assms unfolding drop_expired_def dict_ok_def
  by (induction r) (auto split: option.splits if_splits simp: map_of_eq_None_iff)

lemma redis_ok_drop:
  assumes "redis_ok kp policies r"
  shows "redis_ok kp policies (drop_expired now r)" and "permits kp (drop_expired now r) t = permits kp r t"
proof -
  have d: "dict_ok r" using assms by (simp add: redis_ok_def)
  have same: "map_of (drop_expired now r) (redis_admission_key kp u) = map_of r (redis_admission_key kp u)
      \<or> map_of (drop_expired now r) (redis_admission_key kp u) = None
        \<and> stored_number r (redis_admission_key kp u) ''concurrent'' 0 = 0" for u
    using redis_okD(1) [OF assms, of u]
    by (auto simp: drop_expired_lookup [OF d] idle_expiry_def key_of_def split: option.splits)
  have here: "idle_expiry (drop_expired now r) (redis_admission_key kp u)
      \<and> permits kp (drop_expired now r) u = permits kp r u
      \<and> (\<forall>p. map_of policies u = Some p \<longrightarrow> fields_within p (drop_expired now r) (redis_admission_key kp u))" for u
    using same [of u] redis_okD(1,3) [OF assms, of u] policies_okD [OF redis_okD(2) [OF assms], of u]
    by (auto simp: idle_expiry_def permits_def stored_number_def hget_def key_of_def fields_within_def)
  have "dict_ok (drop_expired now r)"
    using d by (auto simp: dict_ok_def drop_expired_def distinct_map inj_on_def)
  then show "redis_ok kp policies (drop_expired now r)"
    using here assms redis_okD(4) [OF assms]
    by (auto simp: redis_ok_def permits_def split: option.splits)
  show "permits kp (drop_expired now r) t = permits kp r t" using here by blast
qed

lemma permits_own:
  assumes "own_key (redis_admission_key kp t) r r'" and "u \<noteq> t"
  shows "permits kp r' u = permits kp r u"
  using own_keyD(1) [OF assms(1), of "redis_admission_key kp u"] assms(2) by (simp add: permits_def)

lemma redis_admit_law:
  assumes v: "redis_ok kp policies s" and a: "redis_admit kp policies e t n s = (s', ok)"
  shows "redis_ok kp policies s' \<and> (\<forall>u. permits kp s u + (if ok \<and> u = t then 1 else 0) \<le> permits kp s' u)"
proof (cases "(\<exists>p. map_of policies t = Some p) \<and> 0 \<le> n \<and> rc_executed e")
  case False
  then have "s' = s \<and> \<not> ok"
    using a by (auto simp: redis_admit_def run_eval_def Let_def split: option.splits if_splits)
  then show ?thesis using v by simp
next
  case True
  then obtain p where p: "map_of policies t = Some p" "0 \<le> n" "rc_executed e" by blast
  let ?key = "redis_admission_key kp t"
  obtain b where sc: "admit_script (rc_time e) ?key (qp_requests_per_minute p) (qp_concurrent_requests p)
      (qp_tokens_per_minute p) n s = (s', b)" and ok: "ok \<longrightarrow> b = 1"
    using a p by (auto simp: redis_admit_def run_eval_def Let_def split: prod.splits if_splits)
  note pos = policies_okD [OF redis_okD(2) [OF v] p(1)]
  note law = admit_script_law [OF sc p(2) redis_okD(3) [OF v p(1)] redis_okD(1) [OF v] refl refl refl pos(1,3)]
  have "permits kp s u + (if ok \<and> u = t then 1 else 0) \<le> permits kp s' u" for u
    using permits_own [OF law(1), of u] law(4,5) ok by (cases "u = t") (auto simp: permits_def)
  then show ?thesis using redis_ok_own [OF v law(1,3)] law(2) p(1) by simp
qed

lemma redis_release_law:
  assumes v: "redis_ok kp policies s"
  shows "redis_ok kp policies (redis_release kp e t s)
    \<and> (\<forall>u. permits kp s u - (if u = t then 1 else 0) \<le> permits kp (redis_release kp e t s) u)"
proof (cases "rc_executed e")
  case False
  then show ?thesis using v by (simp add: redis_release_def run_eval_def)
next
  case True
  let ?key = "redis_admission_key kp t"
  obtain s' b where sc: "release_script (rc_time e) ?key s = (s', b)" by fastforce
  have r: "redis_release kp e t s = s'" using True sc by (simp add: redis_release_def run_eval_def)
  note law = release_script_law [OF sc redis_okD(1) [OF v]]
  have "permits kp s u - (if u = t then 1 else 0) \<le> permits kp s' u" for u
    using permits_own [OF law(1), of u] law(4) by (cases "u = t") (auto simp: permits_def)
  moreover have "case map_of policies t of None \<Rightarrow> stored_number s' ?key ''concurrent'' 0 = 0
      | Some p \<Rightarrow> fields_within p s' ?key"
    using redis_okD(3,4) [OF v, of t] law(2,4) by (auto simp: permits_def split: option.splits)
  ultimately show ?thesis using redis_ok_own [OF v law(1,3)] r by simp
qed

interpretation redis_admission: admission_control "redis_admit kp policies" "redis_release kp"
    "\<lambda>s s'. \<exists>now. s' = drop_expired now s" "redis_ok kp policies" "permits kp" "concurrency_limit policies"
  for kp policies
proof
  fix s t assume v: "redis_ok kp policies s"
  show "0 \<le> permits kp s t \<and> permits kp s t \<le> concurrency_limit policies t"
    using redis_okD(3,4) [OF v, of t]
    by (cases "map_of policies t") (auto simp: permits_def concurrency_limit_def fields_within_def)
next
  fix s s' assume "redis_ok kp policies s" and "\<exists>now. s' = drop_expired now s"
  then show "redis_ok kp policies s' \<and> (\<forall>u. permits kp s u \<le> permits kp s' u)"
    using redis_ok_drop by fastforce
qed (rule redis_admit_law redis_release_law; assumption)+

end
