(* ===== verification/AdmissionTheorems.thy ===== *)
theory AdmissionTheorems
  imports RedisAdmission
begin

text \<open>
  What admission control promises the request handlers, for both controllers: the limits hold whatever the
  interleaving of requests, lost replies and expiring keys.
\<close>

definition one_each :: quotas where
  "one_each = [(''a'', \<lparr>qp_requests_per_minute = 5, qp_concurrent_requests = 1, qp_tokens_per_minute = 50\<rparr>)]"

lemma one_each_ok: "policies_ok one_each"
  by (auto simp: policies_ok_def one_each_def QuotaPolicy_post_init_def split: if_splits)

text \<open>
  The controller of one process: from its empty state on, the requests of a tenant that were admitted and not yet
  released are never more than the tenant's limit; a tenant without a policy has none.
\<close>

theorem admission_bounded:
  assumes "policies_ok policies" and "process_admission.serving policies [] s k"
  shows "int (k t) \<le> concurrency_limit policies t"
  using process_admission.serving_bounded [OF assms(2)] assms(1) by (simp add: usages_ok_def)

theorem admission_bounded_witness:
  "int (((\<lambda>_. 0)(''a'' := (0::nat) + 1)) ''a'') \<le> concurrency_limit one_each ''a''"
proof -
  have a: "admit one_each 0 ''a'' 7 [] = (fst (admit one_each 0 ''a'' 7 []), True)"
    by (simp add: admit_def one_each_def roll_window_def fresh_usage_def)
  have "process_admission.serving one_each [] (fst (admit one_each 0 ''a'' 7 []))
      ((\<lambda>_. 0)(''a'' := (\<lambda>_. 0::nat) ''a'' + (if True then 1 else 0)))"
    by (rule process_admission.serving.sv_admit [OF process_admission.serving.sv_idle a])
  from admission_bounded [OF one_each_ok this, of "''a''"] show ?thesis by simp
qed

text \<open>C34. 
  The controller over Redis: the same limit holds for all processes that share the server, when replies are lost
  (a permit may leak, capacity is never reopened), when calls fail, and when idle keys expire between requests.
\<close>

theorem redis_admission_bounded:
  assumes "policies_ok policies" and "redis_admission.serving key_prefix policies [] s k"
  shows "int (k t) \<le> concurrency_limit policies t"
proof -
  have "redis_ok key_prefix policies []"
    using policies_okD [OF assms(1)] assms(1)
    by (fastforce simp: redis_ok_def dict_ok_def idle_expiry_def key_of_def stored_number_def hget_def fields_within_def
        split: option.splits)
  from redis_admission.serving_bounded [OF assms(2) this] show ?thesis .
qed

definition redis_at :: "rat \<Rightarrow> redis_call" where
  "redis_at now = \<lparr>rc_time = now, rc_executed = True, rc_replied = True\<rparr>"

definition first_permit :: redis where
  "first_permit = [(''p:a'', \<lparr>rk_fields = [(''minute'', 0), (''requests'', 1), (''tokens'', 1), (''concurrent'', 1)],
     rk_expires = None\<rparr>)]"

lemma first_permit_granted: "redis_admit ''p'' one_each (redis_at 7) ''a'' 1 [] = (first_permit, True)"
  by code_simp

theorem redis_admission_bounded_witness:
  "int (((\<lambda>_. 0)(''a'' := (0::nat) + 1)) ''a'') \<le> concurrency_limit one_each ''a''"
proof -
  have "redis_admission.serving ''p'' one_each [] first_permit
      ((\<lambda>_. 0)(''a'' := (\<lambda>_. 0::nat) ''a'' + (if True then 1 else 0)))"
    by (rule redis_admission.serving.sv_admit [OF redis_admission.serving.sv_idle first_permit_granted])
  from redis_admission_bounded [OF one_each_ok this, of "''a''"] show ?thesis by simp
qed

end
