(* ===== verification/Context.thy ===== *)
theory Context
  imports Packets Dict "HOL-Library.Product_Lexorder"
begin

text \<open>
  The context contracts (\<open>src/backend/context/contracts.py\<close>) and the preparation of a context for one
  candidate (\<open>src/backend/context/preparation.py\<close>). The token counter is a protocol whose implementations are
  supplied by the deployments; it is the argument \<open>counter\<close>, a function that may raise.
\<close>

section \<open>Contracts\<close>

definition context_identifier :: "string \<Rightarrow> string \<Rightarrow> exn + unit" where
  "context_identifier value field =
     require (identifier_ok value) (ValueError (field @ '' must be non-empty without outer whitespace.''))"

datatype ContextTrust = POLICY_TRUST | USER_TRUST | SOURCE | TOOL_OUTPUT | GENERATED_SUMMARY | ASSISTANT_HISTORY

fun ContextTrust_value :: "ContextTrust \<Rightarrow> string" where
  "ContextTrust_value POLICY_TRUST = ''policy''"
| "ContextTrust_value USER_TRUST = ''user''"
| "ContextTrust_value SOURCE = ''source''"
| "ContextTrust_value TOOL_OUTPUT = ''tool_output''"
| "ContextTrust_value GENERATED_SUMMARY = ''generated_summary''"
| "ContextTrust_value ASSISTANT_HISTORY = ''assistant_history''"

datatype ContextScope = USER_SCOPE | PROJECT_SCOPE

record ContextPrincipal =
  cp_tenant_id :: string
  cp_user_id :: string
  cp_project_ids :: "string set"

text \<open>The loop over the memberships raises for any that is not an identifier; the message is the same.\<close>

definition ContextPrincipal_post_init :: "ContextPrincipal \<Rightarrow> exn + unit" where
  "ContextPrincipal_post_init p =
     bind_r (context_identifier (cp_tenant_id p) ''tenant_id'') (\<lambda>_.
     bind_r (context_identifier (cp_user_id p) ''user_id'') (\<lambda>_.
     require (\<forall>q \<in> cp_project_ids p. identifier_ok q)
       (ValueError ''project_id must be non-empty without outer whitespace.'')))"

record ConversationRecord =
  cr_conversation_id :: string
  cr_tenant_id :: string
  cr_project_id :: string
  cr_owner_id :: string
  cr_scope :: ContextScope
  cr_created_at :: instant

record ContextSourceRef =
  sf_source_id :: string
  sf_revision :: string
  sf_required :: bool
  sf_priority :: int

definition ContextSourceRef_post_init :: "ContextSourceRef \<Rightarrow> exn + unit" where
  "ContextSourceRef_post_init r =
     bind_r (context_identifier (sf_source_id r) ''source_id'') (\<lambda>_.
     context_identifier (sf_revision r) ''revision'')"

datatype TokenCountMethod = EXACT | ESTIMATED

datatype CountConfidence = HIGH_CONFIDENCE | MEDIUM_CONFIDENCE | LOW_CONFIDENCE

datatype ContextCapacityEvidence = ADVERTISED | CONTRACT_TESTED | VERIFIED_CAPACITY

record ContextSegment =
  sg_source_id :: string
  sg_source_revision :: string
  sg_role :: ChatRole
  sg_content :: string
  sg_trust :: ContextTrust
  sg_required :: bool
  sg_priority :: int

definition ContextSegment_post_init :: "ContextSegment \<Rightarrow> exn + unit" where
  "ContextSegment_post_init s =
     bind_r (context_identifier (sg_source_id s) ''source_id'') (\<lambda>_.
     bind_r (context_identifier (sg_source_revision s) ''source_revision'') (\<lambda>_.
     bind_r (require (has_text (sg_content s))
       (ValueError ''Context content must contain non-whitespace text.'')) (\<lambda>_.
     bind_r (require (\<not> (sg_role s = SYSTEM \<and> sg_trust s \<noteq> POLICY_TRUST))
       (ValueError ''Only trusted policy content may use the system role.'')) (\<lambda>_.
     bind_r (require (\<not> (sg_role s \<noteq> SYSTEM \<and> sg_trust s = POLICY_TRUST))
       (ValueError ''Trusted policy content must use the system role.'')) (\<lambda>_.
     bind_r (require (\<not> (sg_trust s = POLICY_TRUST \<and> \<not> sg_required s))
       (ValueError ''Policy context must be required and cannot be dropped.'')) (\<lambda>_.
     if sg_trust s = ASSISTANT_HISTORY
     then require (sg_role s = ASSISTANT) (ValueError ''Assistant history must use the assistant role.'')
     else require (\<not> (sg_trust s \<noteq> POLICY_TRUST \<and> sg_role s \<noteq> USER))
       (ValueError ''Non-policy context must use the user role.'')))))))"

definition segment_ok :: "ContextSegment \<Rightarrow> bool" where
  "segment_ok s \<longleftrightarrow> ContextSegment_post_init s = Inr ()"

record BuiltContext =
  bc_conversation_id :: string
  bc_tenant_id :: string
  bc_project_id :: string
  bc_segments :: "ContextSegment list"

record ContextPreparationProfile =
  pp_profile_id :: string
  pp_profile_revision :: string
  pp_model_id :: string
  pp_model_revision :: "string option"
  pp_max_context_tokens :: int
  pp_reserved_output_tokens :: int
  pp_safety_margin_tokens :: int
  pp_capacity_evidence :: ContextCapacityEvidence
  pp_capacity_evidence_ref :: string
  pp_counter_id :: string
  pp_counter_revision :: string
  pp_template_id :: string
  pp_template_revision :: string

definition ContextPreparationProfile_post_init :: "ContextPreparationProfile \<Rightarrow> exn + unit" where
  "ContextPreparationProfile_post_init p =
     bind_r (each (\<lambda>(value, field). context_identifier value field)
       [(pp_profile_id p, ''profile_id''), (pp_profile_revision p, ''profile_revision''), (pp_model_id p, ''model_id''),
        (pp_counter_id p, ''counter_id''), (pp_counter_revision p, ''counter_revision''),
        (pp_template_id p, ''template_id''), (pp_template_revision p, ''template_revision''),
        (pp_capacity_evidence_ref p, ''capacity_evidence_ref'')]) (\<lambda>_.
     bind_r (case pp_model_revision p of None \<Rightarrow> Inr () | Some v \<Rightarrow> context_identifier v ''model_revision'') (\<lambda>_.
     bind_r (require (\<not> pp_max_context_tokens p < 1) (ValueError ''max_context_tokens must be positive.'')) (\<lambda>_.
     bind_r (require (\<not> pp_reserved_output_tokens p < 1) (ValueError ''reserved_output_tokens must be positive.'')) (\<lambda>_.
     bind_r (require (\<not> pp_safety_margin_tokens p < 0) (ValueError ''safety_margin_tokens cannot be negative.'')) (\<lambda>_.
     require (\<not> pp_reserved_output_tokens p + pp_safety_margin_tokens p \<ge> pp_max_context_tokens p)
       (ValueError ''Output reserve and safety margin exhaust context.''))))))"

record TokenCount =
  tk_tokens :: int
  tk_method :: TokenCountMethod
  tk_confidence :: CountConfidence
  tk_counter_id :: string
  tk_counter_revision :: string
  tk_template_id :: string
  tk_template_revision :: string

definition TokenCount_post_init :: "TokenCount \<Rightarrow> exn + unit" where
  "TokenCount_post_init c =
     bind_r (require (\<not> tk_tokens c < 0) (ValueError ''Token count cannot be negative.'')) (\<lambda>_.
     bind_r (each (\<lambda>(value, field). context_identifier value field)
       [(tk_counter_id c, ''counter_id''), (tk_counter_revision c, ''counter_revision''),
        (tk_template_id c, ''template_id''), (tk_template_revision c, ''template_revision'')]) (\<lambda>_.
     require (\<not> (tk_method c = EXACT \<and> tk_confidence c \<noteq> HIGH_CONFIDENCE))
       (ValueError ''Exact counts must report high confidence.'')))"

type_synonym counter = "ChatMessage list \<Rightarrow> exn + TokenCount"

datatype ExclusionReason = DUPLICATE | OVER_BUDGET

record ExcludedContextSource =
  ex_source_id :: string
  ex_source_revision :: string
  ex_reason :: ExclusionReason
  ex_duplicate_of :: "string option"

record PreparedContext =
  pc_chat :: "ChatMessage list"
  pc_profile :: ContextPreparationProfile
  pc_input_tokens :: int
  pc_total_reserved_tokens :: int
  pc_count_method :: TokenCountMethod
  pc_count_confidence :: CountConfidence
  pc_included_source_ids :: "string list"
  pc_included_source_revisions :: "(string \<times> string) list"
  pc_excluded_sources :: "ExcludedContextSource list"
  pc_payload_sha256 :: string

definition overflow_text :: "int \<Rightarrow> int \<Rightarrow> string" where
  "overflow_text required_tokens available =
     ''Required context uses '' @ string_of_int required_tokens @ '' tokens, but only ''
       @ string_of_int available @ '' input tokens are available.''"

section \<open>Preparation\<close>

definition validate_counter :: "TokenCount \<Rightarrow> ContextPreparationProfile \<Rightarrow> exn + unit" where
  "validate_counter count profile =
     require ((tk_counter_id count, tk_counter_revision count, tk_template_id count, tk_template_revision count)
        = (pp_counter_id profile, pp_counter_revision profile, pp_template_id profile, pp_template_revision profile))
       (ValueError ''Token counter does not match the candidate profile.'')"

definition segment_key :: "ContextSegment \<Rightarrow> string \<times> string \<times> string" where
  "segment_key s = (ChatRole_value (sg_role s), ContextTrust_value (sg_trust s), sg_content s)"

definition choose_segment ::
    "ContextSegment \<Rightarrow> ((string \<times> string \<times> string) \<times> ContextSegment) list \<Rightarrow> ((string \<times> string \<times> string) \<times> ContextSegment) list" where
  "choose_segment s chosen =
     (case map_of chosen (segment_key s) of
        None \<Rightarrow> dict_put (segment_key s) s chosen
      | Some current \<Rightarrow> if sg_priority s > sg_priority current then dict_put (segment_key s) s chosen else chosen)"

definition optional_segments :: "ContextSegment list \<Rightarrow> ContextSegment list" where
  "optional_segments segments = filter (\<lambda>s. \<not> sg_required s) segments"

definition deduplicate_optional :: "ContextSegment list \<Rightarrow> ContextSegment list \<times> ExcludedContextSource list" where
  "deduplicate_optional segments =
     (let optional = optional_segments segments;
          chosen = fold choose_segment optional [];
          kept_optional = map snd chosen
      in (filter (\<lambda>s. sg_required s \<or> s \<in> set kept_optional) segments,
          map (\<lambda>s. \<lparr>ex_source_id = sg_source_id s, ex_source_revision = sg_source_revision s, ex_reason = DUPLICATE,
                 ex_duplicate_of = map_option sg_source_id (map_of chosen (segment_key s))\<rparr>)
            (filter (\<lambda>s. s \<notin> set kept_optional) optional)))"

definition message_of :: "ContextSegment \<Rightarrow> ChatMessage" where
  "message_of s = \<lparr>cm_role = sg_role s, cm_content = sg_content s\<rparr>"

definition chat :: "ContextSegment list \<Rightarrow> exn + ChatMessage list" where
  "chat segments =
     bind_r (each (\<lambda>s. ChatMessage_post_init (message_of s)) segments) (\<lambda>_.
     bind_r (ChatInput_post_init (map message_of segments)) (\<lambda>_.
     Inr (map message_of segments)))"

text \<open>\<open>json.dumps\<close> with \<open>ensure_ascii=False\<close>: code points from 127 on are written as they are.\<close>

definition escape_raw :: "char \<Rightarrow> string" where
  "escape_raw c = (if (of_char c :: nat) \<ge> 127 then [c] else escape_char c)"

definition print_raw :: "string \<Rightarrow> string" where
  "print_raw s = [CHR 0x22] @ concat (map escape_raw s) @ [CHR 0x22]"

definition payload_digest :: "pylib \<Rightarrow> ChatMessage list \<Rightarrow> string" where
  "payload_digest L messages = sha256_hex L (''['' @ join '','' (map (\<lambda>m.
     ''{'' @ print_raw ''role'' @ '':'' @ print_raw (ChatRole_value (cm_role m)) @ '','' @ print_raw ''content'' @ '':''
       @ print_raw (cm_content m) @ ''}'') messages) @ '']'')"

definition count_kept :: "counter \<Rightarrow> ContextPreparationProfile \<Rightarrow> ContextSegment list \<Rightarrow> exn + TokenCount" where
  "count_kept counter profile kept =
     bind_r (chat kept) (\<lambda>c. bind_r (counter c) (\<lambda>counted.
     bind_r (validate_counter counted profile) (\<lambda>_. Inr counted)))"

definition drop_order :: "ContextSegment list \<Rightarrow> ContextSegment list" where
  "drop_order kept = map snd (sort_key (\<lambda>(index, s). (sg_priority s, - int index))
     (filter (\<lambda>(index, s). \<not> sg_required s) (enumerate 0 kept)))"

text \<open>The loop over the drop order: what is kept, the identifiers dropped, and the last count.\<close>

fun drop_until_fit ::
    "counter \<Rightarrow> ContextPreparationProfile \<Rightarrow> int \<Rightarrow> ContextSegment list \<Rightarrow> ContextSegment list \<Rightarrow> string list \<Rightarrow> TokenCount \<Rightarrow>
       exn + (ContextSegment list \<times> string list \<times> TokenCount)" where
  "drop_until_fit counter profile available [] kept dropped counted = Inr (kept, dropped, counted)"
| "drop_until_fit counter profile available (s # order) kept dropped counted =
     (let kept' = filter (\<lambda>item. sg_source_id item \<noteq> sg_source_id s) kept;
          dropped' = dropped @ [sg_source_id s] in
      bind_r (count_kept counter profile kept') (\<lambda>counted'.
      if tk_tokens counted' \<le> available then Inr (kept', dropped', counted')
      else drop_until_fit counter profile available order kept' dropped' counted'))"

definition available_tokens :: "ContextPreparationProfile \<Rightarrow> int" where
  "available_tokens p = pp_max_context_tokens p - pp_reserved_output_tokens p - pp_safety_margin_tokens p"

definition check_segments :: "ContextSegment list \<Rightarrow> exn + unit" where
  "check_segments segments =
     bind_r (require (segments \<noteq> []) (ValueError ''At least one context segment is required.'')) (\<lambda>_.
     bind_r (require (distinct (map sg_source_id segments))
       (ValueError ''Context source identifiers must be unique.'')) (\<lambda>_.
     require (list_ex sg_required segments)
       (ValueError ''At least one required context segment is required.'')))"

definition over_budget :: "ContextSegment list \<Rightarrow> string list \<Rightarrow> ExcludedContextSource list" where
  "over_budget order dropped =
     map (\<lambda>s. \<lparr>ex_source_id = sg_source_id s, ex_source_revision = sg_source_revision s, ex_reason = OVER_BUDGET,
            ex_duplicate_of = None\<rparr>)
       (filter (\<lambda>s. sg_source_id s \<in> set dropped) order)"

definition fit_segments ::
    "counter \<Rightarrow> ContextPreparationProfile \<Rightarrow> ContextSegment list \<Rightarrow>
       exn + (ContextSegment list \<times> ExcludedContextSource list \<times> TokenCount)" where
  "fit_segments counter profile kept =
     bind_r (count_kept counter profile kept) (\<lambda>counted.
     if tk_tokens counted > available_tokens profile
     then bind_r (drop_until_fit counter profile (available_tokens profile) (drop_order kept) kept [] counted)
            (\<lambda>(kept', dropped, counted'). Inr (kept', over_budget (drop_order kept) dropped, counted'))
     else Inr (kept, [], counted))"

definition prepare_context ::
    "pylib \<Rightarrow> counter \<Rightarrow> ContextPreparationProfile \<Rightarrow> ContextSegment list \<Rightarrow> exn + PreparedContext" where
  "prepare_context L counter profile segments =
     bind_r (check_segments segments) (\<lambda>_.
     let available = available_tokens profile; (kept0, excluded0) = deduplicate_optional segments in
     bind_r (fit_segments counter profile kept0) (\<lambda>(kept, excluded, counted).
     bind_r (require (\<not> tk_tokens counted > available) (ContextOverflow (tk_tokens counted) available)) (\<lambda>_.
     bind_r (chat kept) (\<lambda>c.
     Inr \<lparr>pc_chat = c, pc_profile = profile, pc_input_tokens = tk_tokens counted,
          pc_total_reserved_tokens = tk_tokens counted + pp_reserved_output_tokens profile + pp_safety_margin_tokens profile,
          pc_count_method = tk_method counted, pc_count_confidence = tk_confidence counted,
          pc_included_source_ids = map sg_source_id kept,
          pc_included_source_revisions = map (\<lambda>s. (sg_source_id s, sg_source_revision s)) kept,
          pc_excluded_sources = excluded0 @ excluded, pc_payload_sha256 = payload_digest L c\<rparr>))))"

end
