(* ===== verification/ContextStore.thy ===== *)
theory ContextStore
  imports Context StoreSchema
begin

text \<open>
  The context store (\<open>src/backend/context/store.py\<close>, \<open>SQLiteContextStore\<close>) and the context builder
  (\<open>src/backend/context/builder.py\<close>, \<open>ContextBuilder\<close>). The database is the record of its tables; an operation
  that writes returns the new tables or the exception that rolled its transaction back. Identifiers made by
  \<open>uuid4\<close> and the clock are arguments. The columns with enumerations have the enumerations as types, so the
  conversions by value cannot fail; timestamps are stored and never read by the code.
\<close>

section \<open>Tables\<close>

definition MAX_CONTEXT_SOURCE_CHARS :: int where
  "MAX_CONTEXT_SOURCE_CHARS = 200000"

record source_row =
  so_tenant_id :: string
  so_source_id :: string
  so_revision :: string
  so_project_id :: string
  so_owner_id :: string
  so_scope :: ContextScope
  so_role :: ChatRole
  so_trust :: ContextTrust
  so_content :: string
  so_content_sha256 :: string
  so_created_at :: instant

record entry_row =
  en_tenant_id :: string
  en_conversation_id :: string
  en_sequence :: int
  en_source_id :: string
  en_source_revision :: string
  en_created_at :: instant

record context_db =
  context_schema :: "int list"
  context_conversations :: "ConversationRecord list"
  context_sources :: "source_row list"
  context_entries :: "entry_row list"

definition context_empty :: context_db where
  "context_empty = \<lparr>context_schema = [], context_conversations = [], context_sources = [], context_entries = []\<rparr>"

definition open_context_store :: "context_db \<Rightarrow> exn + context_db" where
  "open_context_store d =
     (let versions = context_schema d in
      if versions \<noteq> [] \<and> versions \<noteq> [1] then Inl (ValueError ''Unsupported context schema version'')
      else Inr (if versions = [] then d\<lparr>context_schema := [1]\<rparr> else d))"

definition conversation_key :: "ConversationRecord \<Rightarrow> string \<times> string" where
  "conversation_key r = (cr_tenant_id r, cr_conversation_id r)"

definition source_key :: "source_row \<Rightarrow> string \<times> string \<times> string" where
  "source_key r = (so_tenant_id r, so_source_id r, so_revision r)"

definition entry_key :: "entry_row \<Rightarrow> string \<times> string \<times> int" where
  "entry_key e = (en_tenant_id e, en_conversation_id e, en_sequence e)"

definition entry_source :: "entry_row \<Rightarrow> string \<times> string \<times> string" where
  "entry_source e = (en_tenant_id e, en_source_id e, en_source_revision e)"

definition find_source :: "string \<Rightarrow> string \<Rightarrow> string \<Rightarrow> context_db \<Rightarrow> source_row option" where
  "find_source tenant source_id rv d = List.find (\<lambda>r. source_key r = (tenant, source_id, rv)) (context_sources d)"

text \<open>An insertion checks the constraints of its table.\<close>

definition insert_source :: "source_row \<Rightarrow> context_db \<Rightarrow> exn + context_db" where
  "insert_source r d =
     bind_r (require (so_role r \<noteq> SYSTEM \<and> so_trust r \<noteq> POLICY_TRUST) (IntegrityError ''CHECK constraint failed'')) (\<lambda>_.
     map_r (\<lambda>rows. d\<lparr>context_sources := rows\<rparr>) (insert_pk source_key r (context_sources d)))"

definition insert_entry :: "entry_row \<Rightarrow> context_db \<Rightarrow> exn + context_db" where
  "insert_entry e d =
     bind_r (require (\<forall>x \<in> set (context_entries d). (en_conversation_id x, entry_source x) \<noteq> (en_conversation_id e, entry_source e))
       (IntegrityError ''UNIQUE constraint failed'')) (\<lambda>_.
     bind_r (require ((\<exists>r \<in> set (context_conversations d). conversation_key r = (en_tenant_id e, en_conversation_id e))
         \<and> (\<exists>r \<in> set (context_sources d). source_key r = entry_source e))
       (IntegrityError ''FOREIGN KEY constraint failed'')) (\<lambda>_.
     map_r (\<lambda>rows. d\<lparr>context_entries := rows\<rparr>) (insert_pk entry_key e (context_entries d))))"

section \<open>Authorization\<close>

definition denied :: exn where
  "denied = ContextAccessDenied ''Context is not accessible.''"

definition project_member :: "ContextPrincipal \<Rightarrow> string \<Rightarrow> exn + unit" where
  "project_member actor project_id =
     bind_r (context_identifier project_id ''project_id'') (\<lambda>_. require (project_id \<in> cp_project_ids actor) denied)"

definition conversation_allowed :: "ContextPrincipal \<Rightarrow> ConversationRecord \<Rightarrow> bool" where
  "conversation_allowed actor r =
     (if cr_tenant_id r \<noteq> cp_tenant_id actor then False
      else if cr_scope r = USER_SCOPE then cr_owner_id r = cp_user_id actor
      else cr_project_id r \<in> cp_project_ids actor)"

definition conversation_row :: "ContextPrincipal \<Rightarrow> string \<Rightarrow> context_db \<Rightarrow> exn + ConversationRecord option" where
  "conversation_row actor conversation_id d =
     bind_r (context_identifier conversation_id ''conversation_id'') (\<lambda>_.
     Inr (case List.find (\<lambda>r. conversation_key r = (cp_tenant_id actor, conversation_id)) (context_conversations d) of
            None \<Rightarrow> None
          | Some r \<Rightarrow> if conversation_allowed actor r then Some r else None))"

definition require_conversation :: "ContextPrincipal \<Rightarrow> string \<Rightarrow> context_db \<Rightarrow> exn + ConversationRecord" where
  "require_conversation actor conversation_id d =
     bind_r (conversation_row actor conversation_id d) (\<lambda>found. case found of None \<Rightarrow> Inl denied | Some r \<Rightarrow> Inr r)"

definition source_allowed :: "ContextPrincipal \<Rightarrow> source_row \<Rightarrow> bool" where
  "source_allowed actor r =
     (if so_tenant_id r \<noteq> cp_tenant_id actor then False
      else if so_scope r = USER_SCOPE then so_owner_id r = cp_user_id actor
      else so_project_id r \<in> cp_project_ids actor)"

text \<open>The test that attaching, resolving and reading recent messages share.\<close>

definition source_fits :: "ContextPrincipal \<Rightarrow> ConversationRecord \<Rightarrow> source_row \<Rightarrow> bool" where
  "source_fits actor conversation r \<longleftrightarrow>
     \<not> (so_project_id r \<noteq> cr_project_id conversation \<or> \<not> source_allowed actor r
        \<or> cr_scope conversation = PROJECT_SCOPE \<and> so_scope r \<noteq> PROJECT_SCOPE)"

definition next_sequence :: "string \<Rightarrow> string \<Rightarrow> context_db \<Rightarrow> int" where
  "next_sequence tenant conversation_id d =
     (let rows = filter (\<lambda>e. (en_tenant_id e, en_conversation_id e) = (tenant, conversation_id)) (context_entries d) in
      (if rows = [] then 0 else Max (set (map en_sequence rows))) + 1)"

section \<open>Operations\<close>

definition create_conversation ::
    "ContextPrincipal \<Rightarrow> string \<Rightarrow> ContextScope \<Rightarrow> string \<Rightarrow> instant \<Rightarrow> context_db \<Rightarrow> exn + (context_db \<times> ConversationRecord)" where
  "create_conversation actor project_id scope uuid created_at d =
     bind_r (project_member actor project_id) (\<lambda>_.
     let r = \<lparr>cr_conversation_id = uuid, cr_tenant_id = cp_tenant_id actor, cr_project_id = project_id,
              cr_owner_id = cp_user_id actor, cr_scope = scope, cr_created_at = created_at\<rparr> in
     map_r (\<lambda>rows. (d\<lparr>context_conversations := rows\<rparr>, r)) (insert_pk conversation_key r (context_conversations d)))"

definition get_conversation :: "ContextPrincipal \<Rightarrow> string \<Rightarrow> context_db \<Rightarrow> exn + ConversationRecord option" where
  "get_conversation actor conversation_id d = conversation_row actor conversation_id d"

definition segment_of :: "bool \<Rightarrow> int \<Rightarrow> source_row \<Rightarrow> ContextSegment" where
  "segment_of required priority r =
     \<lparr>sg_source_id = so_source_id r, sg_source_revision = so_revision r, sg_role = so_role r, sg_content = so_content r,
      sg_trust = so_trust r, sg_required = required, sg_priority = priority\<rparr>"

definition source_ref :: "string \<Rightarrow> string \<Rightarrow> ContextSourceRef" where
  "source_ref source_id rv = \<lparr>sf_source_id = source_id, sf_revision = rv, sf_required = False, sf_priority = 0\<rparr>"

definition same_source :: "source_row \<Rightarrow> source_row \<Rightarrow> bool" where
  "same_source existing r \<longleftrightarrow> so_project_id existing = so_project_id r \<and> so_owner_id existing = so_owner_id r
     \<and> so_scope existing = so_scope r \<and> so_role existing = so_role r \<and> so_trust existing = so_trust r
     \<and> so_content_sha256 existing = so_content_sha256 r \<and> so_content existing = so_content r"

definition add_source ::
    "pylib \<Rightarrow> ContextPrincipal \<Rightarrow> string \<Rightarrow> string \<Rightarrow> ChatRole \<Rightarrow> ContextTrust \<Rightarrow> string \<Rightarrow> ContextScope \<Rightarrow> string option \<Rightarrow>
       string \<Rightarrow> instant \<Rightarrow> context_db \<Rightarrow> exn + (context_db \<times> ContextSourceRef)" where
  "add_source L actor project_id rv role trust content scope given uuid created_at d =
     bind_r (project_member actor project_id) (\<lambda>_.
     let source_id = (case given of None \<Rightarrow> uuid | Some i \<Rightarrow> i);
         r = \<lparr>so_tenant_id = cp_tenant_id actor, so_source_id = source_id, so_revision = rv, so_project_id = project_id,
              so_owner_id = cp_user_id actor, so_scope = scope, so_role = role, so_trust = trust, so_content = content,
              so_content_sha256 = sha256_hex L content, so_created_at = created_at\<rparr> in
     bind_r (context_identifier source_id ''source_id'') (\<lambda>_.
     bind_r (context_identifier rv ''revision'') (\<lambda>_.
     bind_r (require (\<not> int (length content) > MAX_CONTEXT_SOURCE_CHARS)
       (ValueError ''Context source exceeds the offline size limit.'')) (\<lambda>_.
     bind_r (ContextSegment_post_init (segment_of False 0 r)) (\<lambda>_.
     bind_r (require (trust \<noteq> POLICY_TRUST) (ValueError ''Policy is server configuration, not a content source.'')) (\<lambda>_.
     case find_source (cp_tenant_id actor) source_id rv d of
       Some existing \<Rightarrow>
         if \<not> same_source existing r then Inl (ContextConflict ''Context source revision is immutable.'')
         else Inr (d, source_ref source_id rv)
     | None \<Rightarrow> map_r (\<lambda>d'. (d', source_ref source_id rv)) (insert_source r d)))))))"

definition append_message ::
    "pylib \<Rightarrow> ContextPrincipal \<Rightarrow> string \<Rightarrow> ChatRole \<Rightarrow> string \<Rightarrow> string \<Rightarrow> instant \<Rightarrow> context_db \<Rightarrow>
       exn + (context_db \<times> ContextSourceRef)" where
  "append_message L actor conversation_id role content uuid created_at d =
     bind_r (require (role = USER \<or> role = ASSISTANT)
       (ValueError ''Conversation messages must be user or assistant turns.'')) (\<lambda>_.
     let trust = (if role = USER then USER_TRUST else ASSISTANT_HISTORY);
         r = (\<lambda>c. \<lparr>so_tenant_id = cp_tenant_id actor, so_source_id = uuid, so_revision = ''1'', so_project_id = cr_project_id c,
              so_owner_id = cp_user_id actor, so_scope = cr_scope c, so_role = role, so_trust = trust, so_content = content,
              so_content_sha256 = sha256_hex L content, so_created_at = created_at\<rparr>) in
     bind_r (ContextSegment_post_init \<lparr>sg_source_id = uuid, sg_source_revision = ''1'', sg_role = role, sg_content = content,
       sg_trust = trust, sg_required = False, sg_priority = 0\<rparr>) (\<lambda>_.
     bind_r (require (\<not> int (length content) > MAX_CONTEXT_SOURCE_CHARS)
       (ValueError ''Conversation message exceeds the offline size limit.'')) (\<lambda>_.
     bind_r (require_conversation actor conversation_id d) (\<lambda>c.
     bind_r (insert_source (r c) d) (\<lambda>d1.
     map_r (\<lambda>d2. (d2, source_ref uuid ''1''))
       (insert_entry \<lparr>en_tenant_id = cp_tenant_id actor, en_conversation_id = conversation_id,
          en_sequence = next_sequence (cp_tenant_id actor) conversation_id d1, en_source_id = uuid,
          en_source_revision = ''1'', en_created_at = created_at\<rparr> d1))))))"

definition attach_source ::
    "ContextPrincipal \<Rightarrow> string \<Rightarrow> ContextSourceRef \<Rightarrow> instant \<Rightarrow> context_db \<Rightarrow> exn + (context_db \<times> unit)" where
  "attach_source actor conversation_id ref created_at d =
     bind_r (require_conversation actor conversation_id d) (\<lambda>c.
     case find_source (cp_tenant_id actor) (sf_source_id ref) (sf_revision ref) d of
       None \<Rightarrow> Inl denied
     | Some source \<Rightarrow>
         if \<not> source_fits actor c source then Inl denied
         else (case insert_entry \<lparr>en_tenant_id = cp_tenant_id actor, en_conversation_id = conversation_id,
                  en_sequence = next_sequence (cp_tenant_id actor) conversation_id d, en_source_id = sf_source_id ref,
                  en_source_revision = sf_revision ref, en_created_at = created_at\<rparr> d of
                 Inl (IntegrityError m) \<Rightarrow> Inl (ContextConflict ''Source is already attached to conversation.'')
               | Inl e \<Rightarrow> Inl e
               | Inr d' \<Rightarrow> Inr (d', ())))"

definition validate_source_integrity :: "pylib \<Rightarrow> source_row \<Rightarrow> exn + unit" where
  "validate_source_integrity L r = require (sha256_hex L (so_content r) = so_content_sha256 r)
     (ContextIntegrityError ''Stored context source failed integrity check.'')"

definition as_segment :: "pylib \<Rightarrow> bool \<Rightarrow> int \<Rightarrow> source_row \<Rightarrow> exn + ContextSegment" where
  "as_segment L required priority r =
     bind_r (validate_source_integrity L r) (\<lambda>_.
     bind_r (ContextSegment_post_init (segment_of required priority r)) (\<lambda>_. Inr (segment_of required priority r)))"

definition load_segment :: "pylib \<Rightarrow> string \<Rightarrow> string \<Rightarrow> string \<Rightarrow> bool \<Rightarrow> int \<Rightarrow> context_db \<Rightarrow> exn + ContextSegment" where
  "load_segment L tenant source_id rv required priority d =
     (case find_source tenant source_id rv d of
        None \<Rightarrow> Inl denied
      | Some r \<Rightarrow> as_segment L required priority r)"

definition authorize_ref :: "ContextPrincipal \<Rightarrow> ConversationRecord \<Rightarrow> context_db \<Rightarrow> ContextSourceRef \<Rightarrow> exn + unit" where
  "authorize_ref actor conversation d ref =
     (case find_source (cp_tenant_id actor) (sf_source_id ref) (sf_revision ref) d of
        None \<Rightarrow> Inl denied
      | Some r \<Rightarrow> require (source_fits actor conversation r) denied)"

definition resolve_sources ::
    "pylib \<Rightarrow> ContextPrincipal \<Rightarrow> string \<Rightarrow> ContextSourceRef list \<Rightarrow> context_db \<Rightarrow> exn + ContextSegment list" where
  "resolve_sources L actor conversation_id refs d =
     bind_r (require_conversation actor conversation_id d) (\<lambda>conversation.
     bind_r (each (authorize_ref actor conversation d) refs) (\<lambda>_.
     traverse (\<lambda>ref. load_segment L (cp_tenant_id actor) (sf_source_id ref) (sf_revision ref)
       (sf_required ref) (sf_priority ref) d) refs))"

text \<open>The rows of the join, newest entry first.\<close>

definition joined_entries :: "string \<Rightarrow> string \<Rightarrow> context_db \<Rightarrow> source_row list" where
  "joined_entries tenant conversation_id d =
     List.map_filter (\<lambda>e. find_source tenant (en_source_id e) (en_source_revision e) d)
       (sort_key (\<lambda>e. - en_sequence e)
         (filter (\<lambda>e. (en_tenant_id e, en_conversation_id e) = (tenant, conversation_id)) (context_entries d)))"

definition recent_messages ::
    "pylib \<Rightarrow> ContextPrincipal \<Rightarrow> string \<Rightarrow> int \<Rightarrow> int \<Rightarrow> context_db \<Rightarrow> exn + ContextSegment list" where
  "recent_messages L actor conversation_id limit priority d =
     bind_r (require (0 \<le> limit \<and> limit \<le> 100) (ValueError ''Recent message limit must be between 0 and 100.'')) (\<lambda>_.
     bind_r (require_conversation actor conversation_id d) (\<lambda>conversation.
     if limit = 0 then Inr []
     else let rows = take (nat limit) (joined_entries (cp_tenant_id actor) conversation_id d) in
          if list_ex (\<lambda>r. \<not> source_fits actor conversation r) rows then Inl denied
          else traverse (\<lambda>r. load_segment L (cp_tenant_id actor) (so_source_id r) (so_revision r) False priority d)
                 (rev rows)))"

section \<open>The builder\<close>

type_synonym policies = "((string \<times> string) \<times> ContextSegment list) list"

record ContextBuilder =
  cb_policies :: policies
  cb_recent_message_priority :: int

definition check_policy :: "(string \<times> string) \<times> ContextSegment list \<Rightarrow> exn + unit" where
  "check_policy item =
     (case item of ((tenant, project), policy) \<Rightarrow>
        bind_r (require (identifier_ok tenant \<and> identifier_ok project)
          (ValueError ''Trusted policy keys must be tenant/project identifiers.'')) (\<lambda>_.
        bind_r (require (\<not> (policy = [] \<or> list_ex (\<lambda>s. sg_trust s \<noteq> POLICY_TRUST \<or> \<not> sg_required s) policy))
          (ValueError ''Configured context policy must be non-empty and required.'')) (\<lambda>_.
        require (distinct (map sg_source_id policy))
          (ValueError ''Configured policy source identifiers must be unique.''))))"

definition ContextBuilder_init :: "policies \<Rightarrow> int \<Rightarrow> exn + ContextBuilder" where
  "ContextBuilder_init trusted_policies recent_message_priority =
     map_r (\<lambda>ps. \<lparr>cb_policies = ps, cb_recent_message_priority = recent_message_priority\<rparr>)
       (foldM (\<lambda>item ps. bind_r (check_policy item) (\<lambda>_. Inr (dict_put (fst item) (snd item) ps))) trusted_policies [])"

definition append_unique ::
    "ContextSegment \<Rightarrow> ContextSegment list \<times> (string \<times> nat) list \<Rightarrow> exn + ContextSegment list \<times> (string \<times> nat) list" where
  "append_unique s st =
     (case st of (destination, index_by_id) \<Rightarrow>
        case map_of index_by_id (sg_source_id s) of
          None \<Rightarrow> Inr (destination @ [s], dict_put (sg_source_id s) (length destination) index_by_id)
        | Some index \<Rightarrow>
            let current = destination ! index in
            if sg_source_revision current \<noteq> sg_source_revision s \<or> sg_role current \<noteq> sg_role s
               \<or> sg_content current \<noteq> sg_content s \<or> sg_trust current \<noteq> sg_trust s
            then Inl (ContextConflict ''Selected context source identifiers conflict.'')
            else let merged = current\<lparr>sg_required := sg_required current \<or> sg_required s,
                       sg_priority := max (sg_priority current) (sg_priority s)\<rparr> in
                 bind_r (ContextSegment_post_init merged) (\<lambda>_. Inr (destination[index := merged], index_by_id)))"

definition build ::
    "pylib \<Rightarrow> ContextBuilder \<Rightarrow> ContextPrincipal \<Rightarrow> string \<Rightarrow> ContextSourceRef list \<Rightarrow> int \<Rightarrow> context_db \<Rightarrow> exn + BuiltContext" where
  "build L b actor conversation_id sources recent_message_limit d =
     bind_r (get_conversation actor conversation_id d) (\<lambda>found.
     case found of
       None \<Rightarrow> Inl denied
     | Some conversation \<Rightarrow>
         bind_r (require (cr_project_id conversation \<in> cp_project_ids actor) denied) (\<lambda>_.
         case map_of (cb_policies b) (cr_tenant_id conversation, cr_project_id conversation) of
           None \<Rightarrow> Inl (ContextPolicyUnavailable ''No trusted context policy is configured for this scope.'')
         | Some policy \<Rightarrow>
             bind_r (require (\<not> (sources = [] \<or> \<not> list_ex sf_required sources))
               (ValueError ''At least one required objective/criteria source is required.'')) (\<lambda>_.
             bind_r (resolve_sources L actor conversation_id sources d) (\<lambda>resolved.
             bind_r (recent_messages L actor conversation_id recent_message_limit (cb_recent_message_priority b) d) (\<lambda>recent.
             bind_r (foldM append_unique
                 (policy @ filter sg_required resolved @ recent @ filter (\<lambda>s. \<not> sg_required s) resolved) ([], [])) (\<lambda>(ordered, _).
             Inr \<lparr>bc_conversation_id = conversation_id, bc_tenant_id = cr_tenant_id conversation,
                  bc_project_id = cr_project_id conversation, bc_segments = ordered\<rparr>))))))"

end
