(* ===== verification/ContextStoreProps.thy ===== *)
theory ContextStoreProps
  imports ContextStore
begin

text \<open>
  The invariant of the context store, kept by every operation, and what an actor can see of it. An operation only
  adds rows, so what has been stored under a source revision stays.
\<close>

section \<open>The invariant\<close>

definition source_ok :: "pylib \<Rightarrow> source_row \<Rightarrow> bool" where
  "source_ok L r \<longleftrightarrow> so_content_sha256 r = sha256_hex L (so_content r) \<and> so_role r \<noteq> SYSTEM \<and> so_trust r \<noteq> POLICY_TRUST
     \<and> segment_ok (segment_of False 0 r)"

text \<open>An entry belongs to a conversation and shows a source of the same project that is no more private.\<close>

definition entry_ok :: "context_db \<Rightarrow> entry_row \<Rightarrow> bool" where
  "entry_ok d e \<longleftrightarrow> (\<exists>c \<in> set (context_conversations d). \<exists>r \<in> set (context_sources d).
     conversation_key c = (en_tenant_id e, en_conversation_id e) \<and> source_key r = entry_source e
     \<and> so_project_id r = cr_project_id c \<and> (cr_scope c = PROJECT_SCOPE \<longrightarrow> so_scope r = PROJECT_SCOPE))"

definition context_ok :: "pylib \<Rightarrow> context_db \<Rightarrow> bool" where
  "context_ok L d \<longleftrightarrow> distinct (map conversation_key (context_conversations d))
     \<and> distinct (map source_key (context_sources d)) \<and> distinct (map entry_key (context_entries d))
     \<and> (\<forall>r \<in> set (context_sources d). source_ok L r) \<and> (\<forall>e \<in> set (context_entries d). entry_ok d e)"

definition extends :: "context_db \<Rightarrow> context_db \<Rightarrow> bool" where
  "extends d d' \<longleftrightarrow> (\<exists>cs ss es. context_conversations d' = context_conversations d @ cs
     \<and> context_sources d' = context_sources d @ ss \<and> context_entries d' = context_entries d @ es)"

lemma extends_refl [simp]: "extends d d"
  by (simp add: extends_def)

lemma extends_trans: "extends d d' \<Longrightarrow> extends d' d'' \<Longrightarrow> extends d d''"
  by (auto simp: extends_def)

lemma entry_ok_extends: "extends d d' \<Longrightarrow> entry_ok d e \<Longrightarrow> entry_ok d' e"
  unfolding extends_def entry_ok_def by fastforce

text \<open>The rows an operation of one actor may add.\<close>

definition adds :: "ContextPrincipal \<Rightarrow> context_db \<Rightarrow> context_db \<Rightarrow> bool" where
  "adds actor d d' \<longleftrightarrow> (\<exists>cs ss es. context_conversations d' = context_conversations d @ cs
     \<and> context_sources d' = context_sources d @ ss \<and> context_entries d' = context_entries d @ es
     \<and> (\<forall>c \<in> set cs. cr_tenant_id c = cp_tenant_id actor) \<and> (\<forall>r \<in> set ss. so_tenant_id r = cp_tenant_id actor)
     \<and> (\<forall>e \<in> set es. en_tenant_id e = cp_tenant_id actor))"

lemma adds_extends: "adds actor d d' \<Longrightarrow> extends d d'"
  unfolding adds_def extends_def by blast

lemma adds_refl [simp]: "adds actor d d"
  by (simp add: adds_def)

lemma adds_trans: "adds actor d d' \<Longrightarrow> adds actor d' d'' \<Longrightarrow> adds actor d d''"
  unfolding adds_def by (auto simp: ball_Un)

lemma find_source_eq:
  assumes "context_ok L d"
  shows "find_source t i v d = Some r \<longleftrightarrow> r \<in> set (context_sources d) \<and> source_key r = (t, i, v)"
  unfolding find_source_def
  using assms by (intro find_Some_iff_unique) (auto simp: context_ok_def dest: distinct_map_eq)

lemma conversation_row_eq:
  assumes "context_ok L d"
  shows "conversation_row actor i d = Inr (Some c) \<longleftrightarrow> identifier_ok i \<and> c \<in> set (context_conversations d)
    \<and> conversation_key c = (cp_tenant_id actor, i) \<and> conversation_allowed actor c"
proof -
  have "List.find (\<lambda>r. conversation_key r = (cp_tenant_id actor, i)) (context_conversations d) = Some x
      \<longleftrightarrow> x \<in> set (context_conversations d) \<and> conversation_key x = (cp_tenant_id actor, i)" for x
    using assms by (intro find_Some_iff_unique) (auto simp: context_ok_def dest: distinct_map_eq)
  moreover have "conversation_row actor i d = Inr (Some c) \<longleftrightarrow> identifier_ok i
      \<and> List.find (\<lambda>r. conversation_key r = (cp_tenant_id actor, i)) (context_conversations d) = Some c
      \<and> conversation_allowed actor c"
    by (auto simp: conversation_row_def context_identifier_def bind_r_eq_Inr split: option.splits if_splits)
  ultimately show ?thesis by simp
qed

lemma require_conversation_eq [result_simps]:
  "require_conversation actor i d = Inr c \<longleftrightarrow> conversation_row actor i d = Inr (Some c)"
  by (auto simp: require_conversation_def bind_r_eq_Inr split: option.splits)

section \<open>Operations keep the invariant\<close>

lemma insert_source_ok:
  assumes "context_ok L d" and "insert_source r d = Inr d'" and "source_ok L r" and "so_tenant_id r = cp_tenant_id actor"
  shows "context_ok L d' \<and> adds actor d d' \<and> r \<in> set (context_sources d') \<and> context_conversations d' = context_conversations d
    \<and> context_entries d' = context_entries d"
proof -
  have d': "d' = d\<lparr>context_sources := context_sources d @ [r]\<rparr>" and new: "\<forall>x \<in> set (context_sources d). source_key x \<noteq> source_key r"
    using assms(2) by (auto simp: insert_source_def bind_r_eq_Inr map_r_eq_Inr insert_pk_eq_Inr)
  have a: "adds actor d d'" using assms(4) by (auto simp: adds_def d')
  have "\<forall>e \<in> set (context_entries d). entry_ok d' e"
    using entry_ok_extends [OF adds_extends [OF a]] assms(1) by (auto simp: context_ok_def)
  then show ?thesis using assms(1,3) new a by (auto simp: context_ok_def d')
qed

lemma insert_entry_ok:
  assumes "context_ok L d" and "insert_entry e d = Inr d'" and "entry_ok d e" and "en_tenant_id e = cp_tenant_id actor"
  shows "context_ok L d' \<and> adds actor d d'"
proof -
  have d': "d' = d\<lparr>context_entries := context_entries d @ [e]\<rparr>" and new: "\<forall>x \<in> set (context_entries d). entry_key x \<noteq> entry_key e"
    using assms(2) by (auto simp: insert_entry_def bind_r_eq_Inr map_r_eq_Inr insert_pk_eq_Inr)
  have a: "adds actor d d'" using assms(4) by (auto simp: adds_def d')
  have "\<forall>e \<in> set (context_entries d'). entry_ok d' e"
    using entry_ok_extends [OF adds_extends [OF a]] assms(1,3) by (auto simp: context_ok_def d')
  then show ?thesis using assms(1) new a by (auto simp: context_ok_def d')
qed

lemma create_conversation_ok:
  assumes "context_ok L d" and "create_conversation actor p scope uuid clk d = Inr (d', c)"
  shows "context_ok L d' \<and> adds actor d d'"
proof -
  have d': "d' = d\<lparr>context_conversations := context_conversations d @ [c]\<rparr>"
    and new: "\<forall>x \<in> set (context_conversations d). conversation_key x \<noteq> conversation_key c"
    and t: "cr_tenant_id c = cp_tenant_id actor"
    using assms(2) by (auto simp: create_conversation_def Let_def bind_r_eq_Inr map_r_eq_Inr insert_pk_eq_Inr)
  have a: "adds actor d d'" using t by (auto simp: adds_def d')
  have "\<forall>e \<in> set (context_entries d'). entry_ok d' e"
    using entry_ok_extends [OF adds_extends [OF a]] assms(1) by (auto simp: context_ok_def d')
  then show ?thesis using assms(1) new a by (auto simp: context_ok_def d')
qed

lemma segment_not_system:
  "ContextSegment_post_init s = Inr () \<Longrightarrow> sg_trust s \<noteq> POLICY_TRUST \<Longrightarrow> sg_role s \<noteq> SYSTEM"
  by (auto simp: ContextSegment_post_init_def bind_r_eq_Inr)

text \<open>What a successful \<open>add_source\<close> leaves: the stored row, and either a new row or the one from before.\<close>

lemma add_source_ok:
  assumes "context_ok L d" and "add_source L actor p v role trust content scope given uuid clk d = Inr (d', ref)"
  shows "context_ok L d' \<and> adds actor d d' \<and> p \<in> cp_project_ids actor \<and> ref = source_ref (case given of None \<Rightarrow> uuid | Some i \<Rightarrow> i) v
    \<and> (\<exists>r. find_source (cp_tenant_id actor) (sf_source_id ref) v d' = Some r \<and> so_content r = content \<and> so_role r = role
        \<and> so_trust r = trust \<and> so_project_id r = p \<and> so_scope r = scope \<and> so_owner_id r = cp_user_id actor)"
proof -
  let ?i = "case given of None \<Rightarrow> uuid | Some i \<Rightarrow> i"
  let ?r = "\<lparr>so_tenant_id = cp_tenant_id actor, so_source_id = ?i, so_revision = v, so_project_id = p,
     so_owner_id = cp_user_id actor, so_scope = scope, so_role = role, so_trust = trust, so_content = content,
     so_content_sha256 = sha256_hex L content, so_created_at = clk\<rparr>"
  have p: "p \<in> cp_project_ids actor"
    using assms(2) by (auto simp: add_source_def project_member_def bind_r_eq_Inr)
  have seg: "ContextSegment_post_init (segment_of False 0 ?r) = Inr ()" and trust: "trust \<noteq> POLICY_TRUST"
    using assms(2) by (auto simp: add_source_def Let_def bind_r_eq_Inr)
  have ok: "source_ok L ?r"
    using seg trust segment_not_system [OF seg] by (auto simp: source_ok_def segment_ok_def segment_of_def)
  show ?thesis
  proof (cases "find_source (cp_tenant_id actor) ?i v d")
    case None
    have ins: "insert_source ?r d = Inr d'" and ref: "ref = source_ref ?i v"
      using assms(2) None by (auto simp: add_source_def Let_def bind_r_eq_Inr map_r_eq_Inr)
    from insert_source_ok [OF assms(1) ins ok, of actor]
    have "context_ok L d'" and "adds actor d d'" and "?r \<in> set (context_sources d')" by simp_all
    then show ?thesis using p ref find_source_eq [of L d' "cp_tenant_id actor" ?i v ?r]
      by (auto simp: source_key_def source_ref_def)
  next
    case (Some r)
    then show ?thesis using assms p
      by (auto simp: add_source_def Let_def bind_r_eq_Inr same_source_def source_ref_def split: if_splits)
  qed
qed

lemma append_message_ok:
  assumes "context_ok L d" and "append_message L actor i role content uuid clk d = Inr (d', ref)"
  shows "context_ok L d' \<and> adds actor d d'"
proof -
  let ?trust = "if role = USER then USER_TRUST else ASSISTANT_HISTORY"
  obtain c d1 where c: "conversation_row actor i d = Inr (Some c)"
    and ins: "insert_source \<lparr>so_tenant_id = cp_tenant_id actor, so_source_id = uuid, so_revision = ''1'',
      so_project_id = cr_project_id c, so_owner_id = cp_user_id actor, so_scope = cr_scope c, so_role = role,
      so_trust = ?trust, so_content = content, so_content_sha256 = sha256_hex L content, so_created_at = clk\<rparr> d = Inr d1"
    and ent: "insert_entry \<lparr>en_tenant_id = cp_tenant_id actor, en_conversation_id = i,
      en_sequence = next_sequence (cp_tenant_id actor) i d1, en_source_id = uuid,
      en_source_revision = ''1'', en_created_at = clk\<rparr> d1 = Inr d'"
    and seg: "ContextSegment_post_init \<lparr>sg_source_id = uuid, sg_source_revision = ''1'', sg_role = role, sg_content = content,
       sg_trust = ?trust, sg_required = False, sg_priority = 0\<rparr> = Inr ()"
    using assms(2) by (auto simp: append_message_def Let_def bind_r_eq_Inr map_r_eq_Inr require_conversation_eq)
  let ?r = "\<lparr>so_tenant_id = cp_tenant_id actor, so_source_id = uuid, so_revision = ''1'',
      so_project_id = cr_project_id c, so_owner_id = cp_user_id actor, so_scope = cr_scope c, so_role = role,
      so_trust = ?trust, so_content = content, so_content_sha256 = sha256_hex L content, so_created_at = clk\<rparr>"
  have ok: "source_ok L ?r"
    using seg segment_not_system [OF seg] by (auto simp: source_ok_def segment_ok_def segment_of_def split: if_splits)
  note 1 = insert_source_ok [OF assms(1) ins ok, of actor, simplified]
  have c': "c \<in> set (context_conversations d1)" "conversation_key c = (cp_tenant_id actor, i)"
    using c 1 conversation_row_eq [OF assms(1), of actor i c] by auto
  have "entry_ok d1 \<lparr>en_tenant_id = cp_tenant_id actor, en_conversation_id = i,
      en_sequence = next_sequence (cp_tenant_id actor) i d1, en_source_id = uuid,
      en_source_revision = ''1'', en_created_at = clk\<rparr>"
    unfolding entry_ok_def using 1 c'
    by (intro bexI [of _ c] bexI [of _ ?r]) (auto simp: source_key_def entry_source_def)
  from insert_entry_ok [OF _ ent this, of L actor] 1 show ?thesis by (auto intro: adds_trans)
qed

lemma attach_source_ok:
  assumes "context_ok L d" and "attach_source actor i ref clk d = Inr (d', u)"
  shows "context_ok L d' \<and> adds actor d d'"
proof -
  let ?e = "\<lparr>en_tenant_id = cp_tenant_id actor, en_conversation_id = i,
      en_sequence = next_sequence (cp_tenant_id actor) i d, en_source_id = sf_source_id ref,
      en_source_revision = sf_revision ref, en_created_at = clk\<rparr>"
  obtain c r where c: "conversation_row actor i d = Inr (Some c)"
    and r: "find_source (cp_tenant_id actor) (sf_source_id ref) (sf_revision ref) d = Some r" "source_fits actor c r"
    and ent: "insert_entry ?e d = Inr d'"
    using assms(2)
    by (auto simp: attach_source_def bind_r_eq_Inr require_conversation_eq split: option.splits if_splits sum.splits exn.splits)
  have "entry_ok d ?e"
    unfolding entry_ok_def using r c conversation_row_eq [OF assms(1), of actor i c] find_source_eq [OF assms(1)]
    by (intro bexI [of _ c] bexI [of _ r]) (auto simp: source_fits_def entry_source_def)
  from insert_entry_ok [OF assms(1) ent this, of actor] show ?thesis by simp
qed

section \<open>The store as a state machine\<close>

inductive context_step :: "pylib \<Rightarrow> ContextPrincipal \<Rightarrow> context_db \<Rightarrow> context_db \<Rightarrow> bool" for L actor where
  cx_create: "create_conversation actor p scope uuid clk d = Inr (d', c) \<Longrightarrow> context_step L actor d d'"
| cx_add: "add_source L actor p v role trust content scope given uuid clk d = Inr (d', ref) \<Longrightarrow> context_step L actor d d'"
| cx_append: "append_message L actor i role content uuid clk d = Inr (d', ref) \<Longrightarrow> context_step L actor d d'"
| cx_attach: "attach_source actor i ref clk d = Inr (d', u) \<Longrightarrow> context_step L actor d d'"
| cx_reopen: "open_context_store d = Inr d' \<Longrightarrow> context_step L actor d d'"

definition context_init :: "context_db \<Rightarrow> bool" where
  "context_init d \<longleftrightarrow> open_context_store context_empty = Inr d"

lemma reopen_ok: "context_ok L d \<Longrightarrow> open_context_store d = Inr d' \<Longrightarrow> context_ok L d' \<and> adds actor d d'"
  by (auto simp: open_context_store_def Let_def context_ok_def entry_ok_def adds_def split: if_splits)

lemma context_step_ok: "context_step L actor d d' \<Longrightarrow> context_ok L d \<Longrightarrow> context_ok L d' \<and> adds actor d d'"
  by (induction rule: context_step.induct)
     (use create_conversation_ok add_source_ok append_message_ok attach_source_ok reopen_ok in metis)+

interpretation context_machine: state_machine context_init "\<lambda>d d'. \<exists>actor. context_step L actor d d'" "context_ok L" for L
  by unfold_locales
     (auto simp: context_init_def open_context_store_def context_empty_def context_ok_def dest: context_step_ok)

end
