(* ===== verification/ContextViews.thy ===== *)
theory ContextViews
  imports ContextStoreProps
begin

text \<open>
  What an actor can see of the context store, and that reading it through the store's operations tells nothing
  more: every reading operation is a function of the visible rows alone, its errors included.
\<close>

section \<open>Views\<close>

definition visible_conversations :: "ContextPrincipal \<Rightarrow> context_db \<Rightarrow> ConversationRecord list" where
  "visible_conversations actor d = filter (conversation_allowed actor) (context_conversations d)"

definition visible_sources :: "ContextPrincipal \<Rightarrow> context_db \<Rightarrow> source_row list" where
  "visible_sources actor d = filter (source_allowed actor) (context_sources d)"

definition visible_entries :: "ContextPrincipal \<Rightarrow> context_db \<Rightarrow> entry_row list" where
  "visible_entries actor d = filter (\<lambda>e. \<exists>c \<in> set (visible_conversations actor d).
     conversation_key c = (en_tenant_id e, en_conversation_id e)) (context_entries d)"

definition context_view ::
    "ContextPrincipal \<Rightarrow> context_db \<Rightarrow> ConversationRecord list \<times> source_row list \<times> entry_row list" where
  "context_view actor d = (visible_conversations actor d, visible_sources actor d, visible_entries actor d)"

section \<open>A contract for confined reads\<close>

text \<open>Reads that depend on the reader's view only are not affected by steps that keep the view.\<close>

locale confined_reads =
  fixes ok :: "'s \<Rightarrow> bool"
    and view :: "'a \<Rightarrow> 's \<Rightarrow> 'v"
    and foreign :: "'a \<Rightarrow> 's \<Rightarrow> 's \<Rightarrow> bool"
    and read :: "'a \<Rightarrow> 'q \<Rightarrow> 's \<Rightarrow> 'r"
  assumes read_law: "ok s \<Longrightarrow> ok s' \<Longrightarrow> view a s = view a s' \<Longrightarrow> read a q s = read a q s'"
    and foreign_law: "ok s \<Longrightarrow> foreign a s s' \<Longrightarrow> ok s' \<and> view a s' = view a s"
begin

lemma foreign_run_view: "(foreign a)\<^sup>*\<^sup>* s s' \<Longrightarrow> ok s \<Longrightarrow> ok s' \<and> view a s' = view a s"
proof (induction rule: rtranclp_induct)
  case (step t u)
  then show ?case using foreign_law [of t a u] by simp
qed simp

lemma foreign_run_read: "(foreign a)\<^sup>*\<^sup>* s s' \<Longrightarrow> ok s \<Longrightarrow> read a q s' = read a q s"
  using foreign_run_view read_law by metis

end

section \<open>Reads as functions of the view\<close>

lemma find_filter_unique:
  assumes "\<And>r r'. r \<in> set rows \<Longrightarrow> r' \<in> set rows \<Longrightarrow> P r \<Longrightarrow> P r' \<Longrightarrow> r = r'"
  shows "List.find P (filter Q rows) = (case List.find P rows of None \<Rightarrow> None | Some r \<Rightarrow> if Q r then Some r else None)"
  using assms
proof (induction rows)
  case (Cons x rows)
  have "List.find P (filter Q rows) = None" if "P x" "\<not> Q x"
  proof (rule ccontr)
    assume "List.find P (filter Q rows) \<noteq> None"
    then obtain y where "List.find P (filter Q rows) = Some y" by blast
    then have "y \<in> set rows" "P y" "Q y" using find_SomeD by fastforce+
    then show False using Cons.prems [of x y] that by auto
  qed
  then show ?case using Cons by (auto split: option.splits)
qed simp

definition seen_source :: "ContextPrincipal \<Rightarrow> string \<Rightarrow> string \<Rightarrow> source_row list \<Rightarrow> source_row option" where
  "seen_source actor i v ss = List.find (\<lambda>r. source_key r = (cp_tenant_id actor, i, v)) ss"

lemma seen_source_eq:
  assumes "context_ok L d"
  shows "seen_source actor i v (visible_sources actor d) =
     (case find_source (cp_tenant_id actor) i v d of None \<Rightarrow> None | Some r \<Rightarrow> if source_allowed actor r then Some r else None)"
  unfolding seen_source_def visible_sources_def find_source_def
  using assms by (intro find_filter_unique) (auto simp: context_ok_def dest: distinct_map_eq)

lemma conversation_row_view:
  assumes "context_ok L d"
  shows "conversation_row actor i d = bind_r (context_identifier i ''conversation_id'') (\<lambda>_.
     Inr (List.find (\<lambda>r. conversation_key r = (cp_tenant_id actor, i)) (visible_conversations actor d)))"
proof -
  have "List.find (\<lambda>r. conversation_key r = (cp_tenant_id actor, i)) (visible_conversations actor d) =
      (case List.find (\<lambda>r. conversation_key r = (cp_tenant_id actor, i)) (context_conversations d) of
         None \<Rightarrow> None | Some r \<Rightarrow> if conversation_allowed actor r then Some r else None)"
    unfolding visible_conversations_def
    using assms by (intro find_filter_unique) (auto simp: context_ok_def dest: distinct_map_eq)
  then show ?thesis by (simp add: conversation_row_def)
qed

lemma same_conversation:
  assumes "context_ok L d" and "context_ok L d'" and "context_view actor d = context_view actor d'"
  shows "conversation_row actor i d = conversation_row actor i d'"
    and "require_conversation actor i d = require_conversation actor i d'"
proof -
  show "conversation_row actor i d = conversation_row actor i d'"
    using assms by (simp add: conversation_row_view context_view_def)
  then show "require_conversation actor i d = require_conversation actor i d'" by (simp add: require_conversation_def)
qed

lemma authorize_ref_view:
  assumes "context_ok L d"
  shows "authorize_ref actor c d ref =
     (case seen_source actor (sf_source_id ref) (sf_revision ref) (visible_sources actor d) of
        None \<Rightarrow> Inl denied | Some r \<Rightarrow> require (source_fits actor c r) denied)"
  by (auto simp: authorize_ref_def seen_source_eq [OF assms] source_fits_def split: option.splits)

text \<open>A source that was authorized is loaded from the view.\<close>

lemma load_segment_view:
  assumes "context_ok L d" and "find_source (cp_tenant_id actor) i v d = Some r" and "source_allowed actor r"
  shows "load_segment L (cp_tenant_id actor) i v q n d =
     (case seen_source actor i v (visible_sources actor d) of None \<Rightarrow> Inl denied | Some r \<Rightarrow> as_segment L q n r)"
  using assms(2,3) by (simp add: load_segment_def seen_source_eq [OF assms(1)])

definition resolve_seen ::
    "pylib \<Rightarrow> ContextPrincipal \<Rightarrow> ContextSourceRef list \<Rightarrow> ConversationRecord \<Rightarrow> source_row list \<Rightarrow> exn + ContextSegment list" where
  "resolve_seen L actor refs c ss =
     bind_r (each (\<lambda>ref. case seen_source actor (sf_source_id ref) (sf_revision ref) ss of
        None \<Rightarrow> Inl denied | Some r \<Rightarrow> require (source_fits actor c r) denied) refs) (\<lambda>_.
     traverse (\<lambda>ref. case seen_source actor (sf_source_id ref) (sf_revision ref) ss of
        None \<Rightarrow> Inl denied | Some r \<Rightarrow> as_segment L (sf_required ref) (sf_priority ref) r) refs)"

lemma traverse_cong: "(\<And>x. x \<in> set xs \<Longrightarrow> f x = g x) \<Longrightarrow> traverse f xs = traverse g xs"
  by (induction xs) (auto intro: arg_cong2 [where f = bind_r])

lemma resolve_sources_view:
  assumes "context_ok L d"
  shows "resolve_sources L actor i refs d =
     bind_r (require_conversation actor i d) (\<lambda>c. resolve_seen L actor refs c (visible_sources actor d))"
proof -
  have "bind_r (each (authorize_ref actor c d) refs) (\<lambda>_. traverse (\<lambda>ref. load_segment L (cp_tenant_id actor)
      (sf_source_id ref) (sf_revision ref) (sf_required ref) (sf_priority ref) d) refs)
    = resolve_seen L actor refs c (visible_sources actor d)" for c
  proof (cases "each (authorize_ref actor c d) refs")
    case (Inl e)
    then show ?thesis by (simp add: resolve_seen_def authorize_ref_view [OF assms, symmetric])
  next
    case (Inr u)
    have "load_segment L (cp_tenant_id actor) (sf_source_id ref) (sf_revision ref) (sf_required ref) (sf_priority ref) d
        = (case seen_source actor (sf_source_id ref) (sf_revision ref) (visible_sources actor d) of
             None \<Rightarrow> Inl denied | Some r \<Rightarrow> as_segment L (sf_required ref) (sf_priority ref) r)" if "ref \<in> set refs" for ref
    proof -
      have "authorize_ref actor c d ref = Inr ()" using Inr that by (simp add: each_eq_Inr)
      then obtain r where "find_source (cp_tenant_id actor) (sf_source_id ref) (sf_revision ref) d = Some r"
        and "source_allowed actor r"
        by (auto simp: authorize_ref_def source_fits_def split: option.splits)
      from load_segment_view [OF assms this] show ?thesis .
    qed
    then show ?thesis
      using Inr by (simp add: resolve_seen_def authorize_ref_view [OF assms, symmetric] cong: traverse_cong)
  qed
  then show ?thesis by (simp add: resolve_sources_def)
qed

section \<open>Recent messages\<close>

definition newest_first :: "string \<Rightarrow> string \<Rightarrow> entry_row list \<Rightarrow> entry_row list" where
  "newest_first tenant i es =
     sort_key (\<lambda>e. - en_sequence e) (filter (\<lambda>e. (en_tenant_id e, en_conversation_id e) = (tenant, i)) es)"

lemma visible_entries_of:
  assumes "c \<in> set (visible_conversations actor d)" and "conversation_key c = (t, i)"
  shows "newest_first t i (visible_entries actor d) = newest_first t i (context_entries d)"
proof -
  have "filter (\<lambda>e. (en_tenant_id e, en_conversation_id e) = (t, i)) (visible_entries actor d)
      = filter (\<lambda>e. (en_tenant_id e, en_conversation_id e) = (t, i)) (context_entries d)"
    unfolding visible_entries_def filter_filter using assms by (intro filter_cong) auto
  then show ?thesis by (simp add: newest_first_def)
qed

lemma entry_source_found:
  assumes "context_ok L d" and "e \<in> set (newest_first t i (context_entries d))"
  shows "\<exists>r. find_source t (en_source_id e) (en_source_revision e) d = Some r"
proof -
  have "e \<in> set (context_entries d)" and "en_tenant_id e = t" using assms(2) by (auto simp: newest_first_def)
  then obtain r where "r \<in> set (context_sources d)" and "source_key r = (t, en_source_id e, en_source_revision e)"
    using assms(1) by (auto simp: context_ok_def entry_ok_def entry_source_def)
  then show ?thesis using find_source_eq [OF assms(1)] by blast
qed

lemma map_filter_total: "(\<And>x. x \<in> set xs \<Longrightarrow> f x \<noteq> None) \<Longrightarrow> List.map_filter f xs = map (\<lambda>x. the (f x)) xs"
  by (induction xs) (auto simp: List.map_filter_simps split: option.splits)

lemma joined_entries_eq:
  assumes "context_ok L d"
  shows "joined_entries t i d = map (\<lambda>e. the (find_source t (en_source_id e) (en_source_revision e) d))
     (newest_first t i (context_entries d))"
  unfolding joined_entries_def newest_first_def [symmetric]
  using entry_source_found [OF assms] by (intro map_filter_total) fastforce

definition recent_seen ::
    "pylib \<Rightarrow> ContextPrincipal \<Rightarrow> nat \<Rightarrow> int \<Rightarrow> ConversationRecord \<Rightarrow> source_row list \<Rightarrow> entry_row list \<Rightarrow> exn + ContextSegment list" where
  "recent_seen L actor n priority c ss es =
     (let found = map (\<lambda>e. seen_source actor (en_source_id e) (en_source_revision e) ss) (take n es) in
      if list_ex (\<lambda>x. case x of None \<Rightarrow> True | Some r \<Rightarrow> \<not> source_fits actor c r) found then Inl denied
      else traverse (\<lambda>x. as_segment L False priority (the x)) (rev found))"

lemma traverse_map_comp: "traverse f (map g xs) = traverse (\<lambda>x. f (g x)) xs"
  by (induction xs) auto

lemma recent_seen_eq:
  assumes ok: "context_ok L d"
  shows "(let rows = take n (joined_entries (cp_tenant_id actor) i d) in
       if list_ex (\<lambda>r. \<not> source_fits actor c r) rows then Inl denied
       else traverse (\<lambda>r. load_segment L (cp_tenant_id actor) (so_source_id r) (so_revision r) False priority d) (rev rows))
    = recent_seen L actor n priority c (visible_sources actor d) (newest_first (cp_tenant_id actor) i (context_entries d))"
proof -
  let ?t = "cp_tenant_id actor"
  let ?es = "take n (newest_first ?t i (context_entries d))"
  let ?row = "\<lambda>e. the (find_source ?t (en_source_id e) (en_source_revision e) d)"
  let ?seen = "\<lambda>e. seen_source actor (en_source_id e) (en_source_revision e) (visible_sources actor d)"
  have row: "find_source ?t (en_source_id e) (en_source_revision e) d = Some (?row e)" if "e \<in> set ?es" for e
    using entry_source_found [OF ok, of e ?t i] that by (fastforce dest: in_set_takeD)
  have seen: "?seen e = (if source_allowed actor (?row e) then Some (?row e) else None)" if "e \<in> set ?es" for e
    unfolding seen_source_eq [OF ok] by (subst row [OF that]) simp
  have bad: "list_ex (\<lambda>e. \<not> source_fits actor c (?row e)) ?es
      \<longleftrightarrow> list_ex (\<lambda>e. case ?seen e of None \<Rightarrow> True | Some r \<Rightarrow> \<not> source_fits actor c r) ?es"
    using seen by (auto simp: list_ex_iff source_fits_def split: if_splits)
  have load: "load_segment L ?t (so_source_id (?row e)) (so_revision (?row e)) False priority d
      = as_segment L False priority (the (?seen e))" if e: "e \<in> set ?es" and fits: "source_fits actor c (?row e)" for e
  proof -
    have mem: "?row e \<in> set (context_sources d)" and t: "so_tenant_id (?row e) = ?t"
      using row [OF e] find_source_eq [OF ok] by (auto simp: source_key_def)
    have "find_source ?t (so_source_id (?row e)) (so_revision (?row e)) d = Some (?row e)"
      using mem t find_source_eq [OF ok] by (simp add: source_key_def)
    then show ?thesis using seen [OF e] fits by (simp add: load_segment_def source_fits_def)
  qed
  have rows: "take n (joined_entries ?t i d) = map ?row ?es" by (simp add: joined_entries_eq [OF ok] take_map)
  show ?thesis
  proof (cases "list_ex (\<lambda>e. \<not> source_fits actor c (?row e)) ?es")
    case True
    then show ?thesis using bad by (simp add: rows recent_seen_def Let_def list_ex_iff)
  next
    case False
    then have "traverse (\<lambda>e. load_segment L ?t (so_source_id (?row e)) (so_revision (?row e)) False priority d) (rev ?es)
        = traverse (\<lambda>e. as_segment L False priority (the (?seen e))) (rev ?es)"
      using load by (intro traverse_cong) (auto simp: list_ex_iff)
    then show ?thesis using False bad
      by (simp add: rows recent_seen_def Let_def list_ex_iff rev_map traverse_map_comp)
  qed
qed

lemma recent_messages_view:
  assumes ok: "context_ok L d"
  shows "recent_messages L actor i limit priority d =
     bind_r (require (0 \<le> limit \<and> limit \<le> 100) (ValueError ''Recent message limit must be between 0 and 100.'')) (\<lambda>_.
     bind_r (require_conversation actor i d) (\<lambda>c.
     if limit = 0 then Inr []
     else recent_seen L actor (nat limit) priority c (visible_sources actor d)
            (newest_first (cp_tenant_id actor) i (visible_entries actor d))))"
proof (cases "require_conversation actor i d")
  case (Inl e)
  then show ?thesis by (simp add: recent_messages_def)
next
  case (Inr c)
  then have "c \<in> set (visible_conversations actor d)" and "conversation_key c = (cp_tenant_id actor, i)"
    using conversation_row_eq [OF ok, of actor i c] by (auto simp: require_conversation_eq visible_conversations_def)
  from visible_entries_of [OF this] show ?thesis
    using recent_seen_eq [OF ok] by (simp add: recent_messages_def Inr)
qed

section \<open>The builder sees the view only\<close>

lemma same_reads:
  assumes "context_ok L d" and "context_ok L d'" and "context_view actor d = context_view actor d'"
  shows "resolve_sources L actor i refs d = resolve_sources L actor i refs d'"
    and "recent_messages L actor i limit priority d = recent_messages L actor i limit priority d'"
proof -
  have v: "visible_sources actor d = visible_sources actor d'" "visible_entries actor d = visible_entries actor d'"
    using assms(3) by (simp_all add: context_view_def)
  show "resolve_sources L actor i refs d = resolve_sources L actor i refs d'"
    unfolding resolve_sources_view [OF assms(1)] resolve_sources_view [OF assms(2)] same_conversation(2) [OF assms] v ..
  show "recent_messages L actor i limit priority d = recent_messages L actor i limit priority d'"
    unfolding recent_messages_view [OF assms(1)] recent_messages_view [OF assms(2)] same_conversation(2) [OF assms] v ..
qed

lemma same_build:
  assumes "context_ok L d" and "context_ok L d'" and "context_view actor d = context_view actor d'"
  shows "build L b actor i refs limit d = build L b actor i refs limit d'"
proof -
  show ?thesis
    unfolding build_def get_conversation_def same_conversation(1) [OF assms, of i] same_reads(1) [OF assms, of i refs]
      same_reads(2) [OF assms, of i limit "cb_recent_message_priority b"] ..
qed

text \<open>Operations of another tenant's actors.\<close>

definition foreign_step :: "pylib \<Rightarrow> ContextPrincipal \<Rightarrow> context_db \<Rightarrow> context_db \<Rightarrow> bool" where
  "foreign_step L actor d d' \<longleftrightarrow> (\<exists>other. cp_tenant_id other \<noteq> cp_tenant_id actor \<and> context_step L other d d')"

lemma adds_view:
  assumes "adds other d d'" and "cp_tenant_id other \<noteq> cp_tenant_id actor"
  shows "context_view actor d' = context_view actor d"
proof -
  obtain cs ss es where a: "context_conversations d' = context_conversations d @ cs"
      "context_sources d' = context_sources d @ ss" "context_entries d' = context_entries d @ es"
      "\<forall>c \<in> set cs. cr_tenant_id c = cp_tenant_id other" "\<forall>r \<in> set ss. so_tenant_id r = cp_tenant_id other"
      "\<forall>e \<in> set es. en_tenant_id e = cp_tenant_id other"
    using assms(1) unfolding adds_def by blast
  have c: "visible_conversations actor d' = visible_conversations actor d"
    using a(1,4) assms(2) by (auto simp: visible_conversations_def conversation_allowed_def filter_empty_conv)
  have s: "visible_sources actor d' = visible_sources actor d"
    using a(2,5) assms(2) by (auto simp: visible_sources_def source_allowed_def filter_empty_conv)
  have "filter (\<lambda>e. \<exists>c \<in> set (visible_conversations actor d). conversation_key c = (en_tenant_id e, en_conversation_id e)) es = []"
    using a(6) assms(2)
    by (auto simp: filter_empty_conv visible_conversations_def conversation_allowed_def conversation_key_def split: if_splits)
  then have "visible_entries actor d' = visible_entries actor d" by (simp add: visible_entries_def a(3) c)
  with c s show ?thesis by (simp add: context_view_def)
qed

interpretation builder_reads: confined_reads "context_ok L" context_view "foreign_step L"
    "\<lambda>actor (b, i, refs, limit) d. build L b actor i refs limit d" for L
proof
  fix d d' actor and q :: "ContextBuilder \<times> string \<times> ContextSourceRef list \<times> int"
  assume "context_ok L d" "context_ok L d'" "context_view actor d = context_view actor d'"
  from same_build [OF this]
  show "(case q of (b, i, refs, limit) \<Rightarrow> \<lambda>d. build L b actor i refs limit d) d
      = (case q of (b, i, refs, limit) \<Rightarrow> \<lambda>d. build L b actor i refs limit d) d'"
    by (auto split: prod.splits)
next
  fix d actor d' assume "context_ok L d" and "foreign_step L actor d d'"
  then show "context_ok L d' \<and> context_view actor d' = context_view actor d"
    using context_step_ok adds_view unfolding foreign_step_def by metis
qed

end
