(* ===== verification/ContextProps.thy ===== *)
theory ContextProps
  imports Context "HOL-Library.Multiset"
begin

text \<open>
  Lemmas on context preparation: which duplicates are removed, the order in which optional segments are dropped,
  and what the dropping loop computes.
\<close>

section \<open>Duplicates\<close>

definition duplicate_winners :: "ContextSegment list \<Rightarrow> ((string \<times> string \<times> string) \<times> ContextSegment) list" where
  "duplicate_winners segments = fold choose_segment (optional_segments segments) []"

text \<open>What the dictionary of winners holds after some optional segments: for every key seen the segment with
  the highest priority.\<close>

definition winners_of :: "ContextSegment set \<Rightarrow> ((string \<times> string \<times> string) \<times> ContextSegment) list \<Rightarrow> bool" where
  "winners_of seen chosen \<longleftrightarrow> dict_ok chosen
     \<and> (\<forall>s \<in> seen. \<exists>w. map_of chosen (segment_key s) = Some w \<and> sg_priority s \<le> sg_priority w)
     \<and> (\<forall>k w. map_of chosen k = Some w \<longrightarrow> k = segment_key w \<and> w \<in> seen)"

lemma winners_ofD:
  assumes "winners_of seen chosen"
  shows "dict_ok chosen" and "map_of chosen k = Some w \<Longrightarrow> k = segment_key w" and "map_of chosen k = Some w \<Longrightarrow> w \<in> seen"
    and "s \<in> seen \<Longrightarrow> \<exists>w. map_of chosen (segment_key s) = Some w \<and> sg_priority s \<le> sg_priority w"
  using assms unfolding winners_of_def by blast+

lemma choose_winners: "winners_of seen chosen \<Longrightarrow> winners_of (insert s seen) (choose_segment s chosen)"
  unfolding winners_of_def choose_segment_def
  by (auto simp: alist_dict.ok_put alist_dict.lookup_put split: option.splits)

lemma fold_winners: "winners_of seen chosen \<Longrightarrow> winners_of (seen \<union> set xs) (fold choose_segment xs chosen)"
proof (induction xs arbitrary: seen chosen)
  case (Cons s xs)
  from Cons.IH [OF choose_winners [OF Cons.prems, of s]] show ?case by simp
qed simp

lemma duplicate_winners: "winners_of (set (optional_segments segments)) (duplicate_winners segments)"
proof -
  have "winners_of {} []" by (simp add: winners_of_def dict_ok_def)
  from fold_winners [OF this, of "optional_segments segments"] show ?thesis by (simp add: duplicate_winners_def)
qed

lemma winner_mem:
  assumes "winners_of seen chosen"
  shows "w \<in> snd ` set chosen \<longleftrightarrow> map_of chosen (segment_key w) = Some w"
proof -
  have "(k, w) \<in> set chosen \<longleftrightarrow> map_of chosen k = Some w" for k
    using alist_dict.entries_lookup [of chosen k w] winners_ofD(1) [OF assms] by simp
  then have "w \<in> snd ` set chosen \<longleftrightarrow> (\<exists>k. map_of chosen k = Some w)" by force
  then show ?thesis using winners_ofD(2) [OF assms] by blast
qed

definition kept_after_duplicates :: "ContextSegment list \<Rightarrow> ContextSegment \<Rightarrow> bool" where
  "kept_after_duplicates segments s \<longleftrightarrow> sg_required s \<or> s \<in> snd ` set (duplicate_winners segments)"

lemma deduplicate_optional_eq:
  "deduplicate_optional segments =
     (filter (kept_after_duplicates segments) segments,
      map (\<lambda>s. \<lparr>ex_source_id = sg_source_id s, ex_source_revision = sg_source_revision s, ex_reason = DUPLICATE,
             ex_duplicate_of = map_option sg_source_id (map_of (duplicate_winners segments) (segment_key s))\<rparr>)
        (filter (\<lambda>s. \<not> kept_after_duplicates segments s) segments))"
  unfolding deduplicate_optional_def duplicate_winners_def kept_after_duplicates_def Let_def optional_segments_def
  by (simp add: conj_commute)

text \<open>A removed duplicate is as good as its winner: same role, trust and content, no higher priority.\<close>

lemma duplicate_winner:
  assumes "s \<in> set segments" and "\<not> kept_after_duplicates segments s"
  shows "\<exists>w \<in> set segments. map_of (duplicate_winners segments) (segment_key s) = Some w \<and> \<not> sg_required w
    \<and> kept_after_duplicates segments w \<and> segment_key w = segment_key s \<and> sg_priority s \<le> sg_priority w"
proof -
  note w = duplicate_winners [of segments]
  have "s \<in> set (optional_segments segments)"
    using assms by (auto simp: optional_segments_def kept_after_duplicates_def)
  then obtain v where v: "map_of (duplicate_winners segments) (segment_key s) = Some v" "sg_priority s \<le> sg_priority v"
    using winners_ofD(4) [OF w] by blast
  then have "segment_key v = segment_key s" and "v \<in> set (optional_segments segments)"
    using winners_ofD(2,3) [OF w v(1)] by simp_all
  moreover from this have "kept_after_duplicates segments v"
    using v winner_mem [OF w, of v] by (simp add: kept_after_duplicates_def)
  ultimately show ?thesis using v by (auto simp: optional_segments_def)
qed

section \<open>The drop order\<close>

lemma drop_order_mset: "mset (drop_order kept) = mset (optional_segments kept)"
proof -
  have "mset (drop_order kept) = mset (map snd (filter (\<lambda>(i, s). \<not> sg_required s) (enumerate 0 kept)))"
    by (simp add: drop_order_def)
  also have "map snd (filter (\<lambda>(i, s). \<not> sg_required s) (enumerate n kept)) = optional_segments kept" for n
    unfolding optional_segments_def by (induction kept arbitrary: n) auto
  finally show ?thesis .
qed

lemma drop_order_set: "set (drop_order kept) = {s \<in> set kept. \<not> sg_required s}"
  using arg_cong [OF drop_order_mset, of set_mset kept] by (auto simp: optional_segments_def)

lemma drop_order_distinct:
  assumes "distinct (map sg_source_id kept)"
  shows "distinct (map sg_source_id (drop_order kept))"
proof -
  have "distinct (map sg_source_id (optional_segments kept))"
    using assms by (simp add: optional_segments_def distinct_map_filter)
  moreover have "mset (map sg_source_id (drop_order kept)) = mset (map sg_source_id (optional_segments kept))"
    using drop_order_mset [of kept] by simp
  ultimately show ?thesis using mset_eq_imp_distinct_iff by blast
qed

text \<open>What is left when the first \<open>k\<close> segments of the drop order are gone.\<close>

definition kept_without :: "ContextSegment list \<Rightarrow> nat \<Rightarrow> ContextSegment list" where
  "kept_without kept k =
     filter (\<lambda>s. sg_source_id s \<notin> sg_source_id ` set (take k (drop_order kept))) kept"

lemma kept_without_0 [simp]: "kept_without kept 0 = kept"
  by (simp add: kept_without_def)

definition over_limit :: "counter \<Rightarrow> ContextPreparationProfile \<Rightarrow> ContextSegment list \<Rightarrow> bool" where
  "over_limit counter profile kept \<longleftrightarrow>
     (\<exists>c. count_kept counter profile kept = Inr c \<and> available_tokens profile < tk_tokens c)"

lemma drop_until_fit_spec:
  assumes "drop_until_fit counter profile (available_tokens profile) (drop k (drop_order kept)) (kept_without kept k)
      (map sg_source_id (take k (drop_order kept))) counted = Inr (kept', dropped, counted')"
    and "count_kept counter profile (kept_without kept k) = Inr counted" and "available_tokens profile < tk_tokens counted"
    and "\<forall>j < k. over_limit counter profile (kept_without kept j)" and "k \<le> length (drop_order kept)"
  shows "\<exists>n \<le> length (drop_order kept). kept' = kept_without kept n \<and> dropped = map sg_source_id (take n (drop_order kept))
    \<and> count_kept counter profile kept' = Inr counted' \<and> (\<forall>j < n. over_limit counter profile (kept_without kept j))
    \<and> (tk_tokens counted' \<le> available_tokens profile \<or> n = length (drop_order kept))"
  using assms
proof (induction "length (drop_order kept) - k" arbitrary: k counted)
  case 0
  then show ?case by auto
next
  case (Suc m)
  then have k: "k < length (drop_order kept)" by simp
  let ?s = "drop_order kept ! k"
  have d: "drop k (drop_order kept) = ?s # drop (Suc k) (drop_order kept)" using k by (rule Cons_nth_drop_Suc [symmetric])
  have t: "take (Suc k) (drop_order kept) = take k (drop_order kept) @ [?s]" using k by (rule take_Suc_conv_app_nth)
  have f: "filter (\<lambda>item. sg_source_id item \<noteq> sg_source_id ?s) (kept_without kept k) = kept_without kept (Suc k)"
    by (auto simp: kept_without_def t intro!: filter_cong)
  have over: "\<forall>j < Suc k. over_limit counter profile (kept_without kept j)"
    using Suc.prems(2-4) less_Suc_eq by (auto simp: over_limit_def)
  obtain c where c: "count_kept counter profile (kept_without kept (Suc k)) = Inr c"
    using Suc.prems(1) by (auto simp: d f bind_r_eq_Inr Let_def)
  show ?case
  proof (cases "tk_tokens c \<le> available_tokens profile")
    case True
    then show ?thesis using Suc.prems(1) c over k
      by (intro exI [of _ "Suc k"]) (simp add: d f t)
  next
    case False
    then show ?thesis
      using Suc.hyps(1) [of "Suc k" c] Suc.hyps(2) Suc.prems(1) c over k by (simp add: d f t)
  qed
qed

text \<open>The fitting as a whole: the least number of drops that fits, or all of them.\<close>

lemma fit_segments_spec:
  assumes "fit_segments counter profile kept = Inr (kept', excluded, counted)"
  shows "\<exists>n \<le> length (drop_order kept). kept' = kept_without kept n
    \<and> excluded = over_budget (drop_order kept) (map sg_source_id (take n (drop_order kept)))
    \<and> count_kept counter profile kept' = Inr counted \<and> (\<forall>j < n. over_limit counter profile (kept_without kept j))
    \<and> (tk_tokens counted \<le> available_tokens profile \<or> n = length (drop_order kept))"
proof -
  obtain c where c: "count_kept counter profile kept = Inr c"
    using assms by (auto simp: fit_segments_def bind_r_eq_Inr)
  show ?thesis
  proof (cases "available_tokens profile < tk_tokens c")
    case False
    then show ?thesis using assms c
      by (intro exI [of _ 0]) (auto simp: fit_segments_def over_budget_def)
  next
    case True
    then obtain dropped where "drop_until_fit counter profile (available_tokens profile) (drop_order kept) kept [] c
        = Inr (kept', dropped, counted)" and "excluded = over_budget (drop_order kept) dropped"
      using assms c by (auto simp: fit_segments_def bind_r_eq_Inr)
    then show ?thesis
      using drop_until_fit_spec [of counter profile 0 kept c kept' dropped counted] c True by auto
  qed
qed

lemma over_budget_take:
  assumes "distinct (map sg_source_id order)"
  shows "map ex_source_id (over_budget order (map sg_source_id (take n order))) = map sg_source_id (take n order)"
proof -
  have "filter (\<lambda>s. sg_source_id s \<in> sg_source_id ` set (take n order)) order = take n order"
  proof -
    have "filter (\<lambda>s. sg_source_id s \<in> sg_source_id ` set (take n order)) (take n order @ drop n order) = take n order"
    proof -
      have "sg_source_id s \<notin> sg_source_id ` set (take n order)" if "s \<in> set (drop n order)" for s
        using assms that append_take_drop_id [of n "map sg_source_id order"]
        by (metis IntI distinct_append empty_iff image_eqI list.set_map take_map drop_map)
      then show ?thesis unfolding filter_append by (auto simp: filter_empty_conv)
    qed
    then show ?thesis by simp
  qed
  then show ?thesis by (simp add: over_budget_def comp_def)
qed

lemma kept_without_mset:
  assumes "distinct (map sg_source_id kept)"
  shows "mset (map sg_source_id (kept_without kept n)) + mset (map sg_source_id (take n (drop_order kept)))
     = mset (map sg_source_id kept)"
proof -
  let ?gone = "set (take n (drop_order kept))"
  have sub: "?gone \<subseteq> set kept" using drop_order_set [of kept] set_take_subset [of n "drop_order kept"] by blast
  have inj: "inj_on sg_source_id (set kept)" using assms by (simp add: distinct_map)
  have "filter (\<lambda>s. sg_source_id s \<notin> sg_source_id ` ?gone) kept = filter (\<lambda>s. s \<notin> ?gone) kept"
    using inj_on_image_mem_iff [OF inj _ sub] by (intro filter_cong refl) simp
  then have k: "mset (kept_without kept n) = filter_mset (\<lambda>s. s \<notin> ?gone) (mset kept)"
    by (simp add: kept_without_def)
  have d: "distinct kept" using assms by (simp add: distinct_map)
  have dt: "distinct (take n (drop_order kept))"
    using drop_order_distinct [OF assms] by (auto simp: distinct_map)
  have "mset (take n (drop_order kept)) = filter_mset (\<lambda>s. s \<in> ?gone) (mset kept)"
  proof -
    have "mset (take n (drop_order kept)) = mset_set ?gone" using dt by (simp add: mset_set_set)
    also have "?gone = {s \<in> set kept. s \<in> ?gone}" using sub by blast
    also have "mset_set \<dots> = filter_mset (\<lambda>s. s \<in> ?gone) (mset_set (set kept))"
      by (rule filter_mset_mset_set [symmetric]) simp
    also have "mset_set (set kept) = mset kept" using d by (simp add: mset_set_set)
    finally show ?thesis .
  qed
  then have "mset (kept_without kept n) + mset (take n (drop_order kept)) = mset kept"
    using k multiset_partition [of "mset kept" "\<lambda>s. s \<in> ?gone"] by (simp add: add.commute)
  then show ?thesis by (metis image_mset_union mset_map)
qed

lemma chat_eq_Inr: "chat segments = Inr c \<Longrightarrow> c = map message_of segments"
  by (auto simp: chat_def bind_r_eq_Inr)

lemma chat_ok: "segments \<noteq> [] \<Longrightarrow> \<forall>s \<in> set segments. segment_ok s \<Longrightarrow> chat segments = Inr (map message_of segments)"
proof -
  assume ne: "segments \<noteq> []" and ok: "\<forall>s \<in> set segments. segment_ok s"
  have "each (\<lambda>s. ChatMessage_post_init (message_of s)) segments = Inr ()"
    using ok unfolding each_eq_Inr
    by (auto simp: segment_ok_def ContextSegment_post_init_def ChatMessage_post_init_def message_of_def require_text_def
        bind_r_eq_Inr)
  then show ?thesis using ne by (simp add: chat_def ChatInput_post_init_def)
qed

end
