(* ===== verification/PreparationTheorems.thy ===== *)
theory PreparationTheorems
  imports ContextProps
begin

text \<open>
  What the preparation of a context guarantees: it fits the candidate, keeps what is required, drops as little as
  possible in the documented order, and accounts for everything it leaves out.
\<close>

section \<open>The shape of a result\<close>

lemma prepare_contextD:
  assumes "prepare_context L counter profile segments = Inr p"
  obtains kept0 n counted where "kept0 = filter (kept_after_duplicates segments) segments"
    and "n \<le> length (drop_order kept0)" and "distinct (map sg_source_id segments)" and "list_ex sg_required segments"
    and "count_kept counter profile (kept_without kept0 n) = Inr counted" and "tk_tokens counted \<le> available_tokens profile"
    and "\<forall>j < n. over_limit counter profile (kept_without kept0 j)"
    and "pc_chat p = map message_of (kept_without kept0 n)" and "pc_included_source_ids p = map sg_source_id (kept_without kept0 n)"
    and "pc_input_tokens p = tk_tokens counted"
    and "pc_total_reserved_tokens p = tk_tokens counted + pp_reserved_output_tokens profile + pp_safety_margin_tokens profile"
    and "pc_excluded_sources p = snd (deduplicate_optional segments)
       @ over_budget (drop_order kept0) (map sg_source_id (take n (drop_order kept0)))"
proof -
  let ?k = "filter (kept_after_duplicates segments) segments"
  have k0: "fst (deduplicate_optional segments) = ?k" by (simp add: deduplicate_optional_eq)
  have chk: "distinct (map sg_source_id segments)" "list_ex sg_required segments"
    using assms by (auto simp: prepare_context_def check_segments_def bind_r_eq_Inr)
  obtain kept excluded counted c where fit: "fit_segments counter profile ?k = Inr (kept, excluded, counted)"
    and fits: "tk_tokens counted \<le> available_tokens profile" and c: "chat kept = Inr c"
    and p: "pc_chat p = c" "pc_included_source_ids p = map sg_source_id kept" "pc_input_tokens p = tk_tokens counted"
      "pc_total_reserved_tokens p = tk_tokens counted + pp_reserved_output_tokens profile + pp_safety_margin_tokens profile"
      "pc_excluded_sources p = snd (deduplicate_optional segments) @ excluded"
    using assms k0 by (auto simp: prepare_context_def bind_r_eq_Inr Let_def split: prod.splits)
  from fit_segments_spec [OF fit] show thesis
    using that [of ?k] chk fits p chat_eq_Inr [OF c] by blast
qed

lemma kept_without_filter:
  "kept_without (filter P segments) n
     = filter (\<lambda>s. P s \<and> sg_source_id s \<notin> sg_source_id ` set (take n (drop_order (filter P segments)))) segments"
  by (simp add: kept_without_def)

lemma required_kept:
  assumes "distinct (map sg_source_id segments)" and "s \<in> set segments" and "sg_required s"
  shows "sg_source_id s \<notin> sg_source_id ` set (take n (drop_order (filter P segments)))"
proof
  assume "sg_source_id s \<in> sg_source_id ` set (take n (drop_order (filter P segments)))"
  then obtain x where "x \<in> set (drop_order (filter P segments))" and "sg_source_id x = sg_source_id s"
    by (auto dest: in_set_takeD)
  then show False
    using distinct_map_eq [OF assms(1), of x s] assms(2,3) by (auto simp: drop_order_set)
qed

lemma prepare_fits:
  assumes "prepare_context L counter profile segments = Inr p"
  shows "pc_total_reserved_tokens p \<le> pp_max_context_tokens profile
    \<and> (\<exists>c. counter (pc_chat p) = Inr c \<and> tk_tokens c = pc_input_tokens p)
    \<and> (\<exists>keep. (\<forall>s \<in> set segments. sg_required s \<longrightarrow> keep s) \<and> pc_chat p = map message_of (filter keep segments)
        \<and> pc_included_source_ids p = map sg_source_id (filter keep segments))"
  using assms
proof (rule prepare_contextD)
  fix kept0 n counted
  assume k0: "kept0 = filter (kept_after_duplicates segments) segments" and d: "distinct (map sg_source_id segments)"
    and count: "count_kept counter profile (kept_without kept0 n) = Inr counted"
    and fit: "tk_tokens counted \<le> available_tokens profile"
    and p: "pc_chat p = map message_of (kept_without kept0 n)" "pc_included_source_ids p = map sg_source_id (kept_without kept0 n)"
      "pc_input_tokens p = tk_tokens counted"
      "pc_total_reserved_tokens p = tk_tokens counted + pp_reserved_output_tokens profile + pp_safety_margin_tokens profile"
  let ?keep = "\<lambda>s. kept_after_duplicates segments s
     \<and> sg_source_id s \<notin> sg_source_id ` set (take n (drop_order (filter (kept_after_duplicates segments) segments)))"
  have "\<forall>s \<in> set segments. sg_required s \<longrightarrow> ?keep s"
    using required_kept [OF d] by (auto simp: kept_after_duplicates_def)
  moreover have "counter (pc_chat p) = Inr counted"
    using count p(1) by (auto simp: count_kept_def bind_r_eq_Inr dest: chat_eq_Inr)
  moreover have "pc_total_reserved_tokens p \<le> pp_max_context_tokens profile"
    using fit p(4) by (simp add: available_tokens_def)
  moreover have "pc_chat p = map message_of (filter ?keep segments)" "pc_included_source_ids p = map sg_source_id (filter ?keep segments)"
    using p(1,2) unfolding k0 kept_without_filter by blast+
  ultimately show ?thesis using p(3) by (intro conjI exI [of _ counted] exI [of _ ?keep]) simp_all
qed

text \<open>C14. 
  A prepared context fits its candidate: input, reserved output and safety margin together stay within the
  candidate's window, and the counted input is the very chat that is returned. The chat is made of the given
  segments in their order, and of all of them that are required.
\<close>

theorem prepared_context_fits:
  assumes "prepare_context L counter profile segments = Inr p"
  shows "pc_total_reserved_tokens p \<le> pp_max_context_tokens profile
    \<and> (\<exists>c. counter (pc_chat p) = Inr c \<and> tk_tokens c = pc_input_tokens p)
    \<and> (\<exists>keep. (\<forall>s \<in> set segments. sg_required s \<longrightarrow> keep s) \<and> pc_chat p = map message_of (filter keep segments)
        \<and> pc_included_source_ids p = map sg_source_id (filter keep segments))"
  using prepare_fits [OF assms] .

section \<open>Samples\<close>

definition sample_profile :: ContextPreparationProfile where
  "sample_profile = \<lparr>pp_profile_id = ''p'', pp_profile_revision = ''1'', pp_model_id = ''m'', pp_model_revision = None,
     pp_max_context_tokens = 20, pp_reserved_output_tokens = 5, pp_safety_margin_tokens = 5,
     pp_capacity_evidence = ADVERTISED, pp_capacity_evidence_ref = ''r'', pp_counter_id = ''c'', pp_counter_revision = ''1'',
     pp_template_id = ''t'', pp_template_revision = ''1''\<rparr>"

text \<open>A counter that counts characters.\<close>

definition char_counter :: counter where
  "char_counter messages = Inr \<lparr>tk_tokens = int (sum_list (map (\<lambda>m. length (cm_content m)) messages)), tk_method = ESTIMATED,
     tk_confidence = LOW_CONFIDENCE, tk_counter_id = ''c'', tk_counter_revision = ''1'', tk_template_id = ''t'',
     tk_template_revision = ''1''\<rparr>"

definition sample_segment :: "string \<Rightarrow> string \<Rightarrow> bool \<Rightarrow> int \<Rightarrow> ContextSegment" where
  "sample_segment i text required priority = \<lparr>sg_source_id = i, sg_source_revision = ''1'', sg_role = USER, sg_content = text,
     sg_trust = SOURCE, sg_required = required, sg_priority = priority\<rparr>"

definition sample_segments :: "ContextSegment list" where
  "sample_segments = [sample_segment ''a'' ''goal'' True 0, sample_segment ''b'' ''four'' False 1,
     sample_segment ''c'' ''five'' False 1, sample_segment ''d'' ''four'' False 2]"

definition sample_hash :: pylib where
  "sample_hash = \<lparr>float_repr = (\<lambda>_. ''''), loads = (\<lambda>_. None), loads_pairs = (\<lambda>_. None), sha256_hex = (\<lambda>s. s),
     isoformat = (\<lambda>_. ''''), fromisoformat = (\<lambda>_. None)\<rparr>"

text \<open>Twelve characters do not fit ten: the duplicate goes, then the segment with the lower priority.\<close>

lemma sample_prepared:
  "\<exists>p. prepare_context sample_hash char_counter sample_profile sample_segments = Inr p
     \<and> pc_included_source_ids p = [''a'', ''d''] \<and> map ex_source_id (pc_excluded_sources p) = [''b'', ''c'']"
proof -
  have "map_r (\<lambda>p. (pc_included_source_ids p, map ex_source_id (pc_excluded_sources p)))
      (prepare_context sample_hash char_counter sample_profile sample_segments) = Inr ([''a'', ''d''], [''b'', ''c''])"
    by code_simp
  then show ?thesis by (auto simp: map_r_eq_Inr)
qed

theorem prepared_context_fits_witness:
  "\<exists>p. prepare_context sample_hash char_counter sample_profile sample_segments = Inr p \<and> pc_total_reserved_tokens p \<le> 20"
proof -
  obtain p where "prepare_context sample_hash char_counter sample_profile sample_segments = Inr p"
    using sample_prepared by blast
  with prepared_context_fits [OF this] show ?thesis by (auto simp: sample_profile_def)
qed

section \<open>Nothing is lost\<close>

text \<open>
  Every given source is accounted for exactly once, as included or as excluded with its reason, and a source that is
  excluded as a duplicate names another given source with the same role, trust and content and no lower priority.
\<close>

theorem prepared_context_accounts:
  assumes "prepare_context L counter profile segments = Inr p"
  shows "mset (pc_included_source_ids p) + mset (map ex_source_id (pc_excluded_sources p)) = mset (map sg_source_id segments)
    \<and> (\<forall>x \<in> set (pc_excluded_sources p). ex_reason x = DUPLICATE \<longrightarrow>
         (\<exists>s \<in> set segments. \<exists>w \<in> set segments. sg_source_id s = ex_source_id x \<and> ex_duplicate_of x = Some (sg_source_id w)
            \<and> segment_key w = segment_key s \<and> w \<noteq> s \<and> \<not> sg_required s \<and> sg_priority s \<le> sg_priority w))"
  using assms
proof (rule prepare_contextD)
  fix kept0 n counted
  assume k0: "kept0 = filter (kept_after_duplicates segments) segments" and d: "distinct (map sg_source_id segments)"
    and inc: "pc_included_source_ids p = map sg_source_id (kept_without kept0 n)"
    and ex: "pc_excluded_sources p = snd (deduplicate_optional segments)
       @ over_budget (drop_order kept0) (map sg_source_id (take n (drop_order kept0)))"
  have d0: "distinct (map sg_source_id kept0)" using d k0 by (simp add: distinct_map_filter)
  have dups: "map ex_source_id (snd (deduplicate_optional segments))
      = map sg_source_id (filter (\<lambda>s. \<not> kept_after_duplicates segments s) segments)"
    by (simp add: deduplicate_optional_eq comp_def)
  have "mset (pc_included_source_ids p) + mset (map ex_source_id (pc_excluded_sources p))
      = mset (map sg_source_id kept0) + mset (map sg_source_id (filter (\<lambda>s. \<not> kept_after_duplicates segments s) segments))"
    using kept_without_mset [OF d0, of n]
    unfolding inc ex map_append mset_append dups over_budget_take [OF drop_order_distinct [OF d0]]
    by (simp add: ac_simps)
  also have "\<dots> = image_mset sg_source_id (mset segments)"
    using arg_cong [OF multiset_partition [of "mset segments" "kept_after_duplicates segments"], of "image_mset sg_source_id"]
    by (simp only: k0 mset_map mset_filter image_mset_union)
  also have "\<dots> = mset (map sg_source_id segments)" by simp
  finally have 1: "mset (pc_included_source_ids p) + mset (map ex_source_id (pc_excluded_sources p)) = mset (map sg_source_id segments)" .
  have "\<exists>s \<in> set segments. \<exists>w \<in> set segments. sg_source_id s = ex_source_id x \<and> ex_duplicate_of x = Some (sg_source_id w)
      \<and> segment_key w = segment_key s \<and> w \<noteq> s \<and> \<not> sg_required s \<and> sg_priority s \<le> sg_priority w"
    if x: "x \<in> set (pc_excluded_sources p)" and dup: "ex_reason x = DUPLICATE" for x
  proof -
    obtain s where s: "s \<in> set segments" "\<not> kept_after_duplicates segments s" "sg_source_id s = ex_source_id x"
      "ex_duplicate_of x = map_option sg_source_id (map_of (duplicate_winners segments) (segment_key s))"
      using x dup unfolding ex by (auto simp: deduplicate_optional_eq over_budget_def)
    from duplicate_winner [OF s(1,2)] s show ?thesis by (metis kept_after_duplicates_def option.simps(9))
  qed
  with 1 show ?thesis by blast
qed

theorem prepared_context_accounts_witness:
  "\<exists>p. prepare_context sample_hash char_counter sample_profile sample_segments = Inr p
     \<and> mset (pc_included_source_ids p) + mset (map ex_source_id (pc_excluded_sources p)) = {#''a'', ''b'', ''c'', ''d''#}"
proof -
  obtain p where "prepare_context sample_hash char_counter sample_profile sample_segments = Inr p"
    using sample_prepared by blast
  with prepared_context_accounts [OF this] show ?thesis by (auto simp: sample_segments_def sample_segment_def)
qed

section \<open>As little as possible is dropped\<close>

lemma count_total:
  assumes "\<forall>s \<in> set segments. segment_ok s" and "list_ex sg_required kept" and "set kept \<subseteq> set segments"
    and "\<forall>c. \<exists>k. counter c = Inr k \<and> validate_counter k profile = Inr ()"
  shows "\<exists>k. counter (map message_of kept) = Inr k \<and> count_kept counter profile kept = Inr k"
proof -
  have "chat kept = Inr (map message_of kept)" using assms(1-3) by (intro chat_ok) (auto simp: list_ex_iff)
  then show ?thesis using assms(4) by (fastforce simp: count_kept_def)
qed

lemma drop_until_fit_total:
  assumes "\<forall>k \<le> length order. \<exists>c. count_kept counter profile
      (filter (\<lambda>s. sg_source_id s \<notin> sg_source_id ` set (take k order)) kept) = Inr c"
  shows "\<exists>x. drop_until_fit counter profile available order kept dropped counted = Inr x"
  using assms
proof (induction order arbitrary: kept dropped counted)
  case (Cons s order)
  let ?kept = "filter (\<lambda>item. sg_source_id item \<noteq> sg_source_id s) kept"
  obtain c where c: "count_kept counter profile ?kept = Inr c" using Cons.prems by (auto dest: spec [of _ 1])
  have "\<forall>k \<le> length order. \<exists>c. count_kept counter profile
      (filter (\<lambda>s. sg_source_id s \<notin> sg_source_id ` set (take k order)) ?kept) = Inr c"
  proof (intro allI impI)
    fix k assume "k \<le> length order"
    then have "\<exists>c. count_kept counter profile
        (filter (\<lambda>x. sg_source_id x \<notin> sg_source_id ` set (take (Suc k) (s # order))) kept) = Inr c"
      using Cons.prems by (metis Suc_le_mono length_Cons)
    then show "\<exists>c. count_kept counter profile
        (filter (\<lambda>s. sg_source_id s \<notin> sg_source_id ` set (take k order)) ?kept) = Inr c"
      by (simp add: conj_commute)
  qed
  from Cons.IH [OF this] c show ?case by (auto simp: Let_def)
qed simp

lemma prepare_decides:
  assumes "check_segments segments = Inr ()" and "\<forall>s \<in> set segments. segment_ok s"
    and "\<forall>c. \<exists>k. counter c = Inr k \<and> validate_counter k profile = Inr ()"
    and "kept0 = fst (deduplicate_optional segments)"
    and "tokens = (\<lambda>j. case counter (map message_of (kept_without kept0 j)) of Inl _ \<Rightarrow> 0 | Inr k \<Rightarrow> tk_tokens k)"
  shows "(\<exists>n \<le> length (drop_order kept0). tokens n \<le> available_tokens profile \<and> (\<forall>j < n. available_tokens profile < tokens j)
       \<and> (\<exists>p. prepare_context L counter profile segments = Inr p \<and> pc_chat p = map message_of (kept_without kept0 n)))
    \<or> (\<forall>n \<le> length (drop_order kept0). available_tokens profile < tokens n)
       \<and> kept_without kept0 (length (drop_order kept0)) = filter sg_required segments
       \<and> prepare_context L counter profile segments
           = Inl (ContextOverflow (tokens (length (drop_order kept0))) (available_tokens profile))"
proof -
  have d: "distinct (map sg_source_id segments)" and req: "list_ex sg_required segments"
    using assms(1) by (auto simp: check_segments_def bind_r_eq_Inr)
  have k0: "kept0 = filter (kept_after_duplicates segments) segments" by (simp add: assms(4) deduplicate_optional_eq)
  have sub: "set (kept_without kept0 j) \<subseteq> set segments" for j by (auto simp: kept_without_def k0)
  have rk: "list_ex sg_required (kept_without kept0 j)" for j
  proof -
    obtain s where s: "s \<in> set segments" "sg_required s" using req by (auto simp: list_ex_iff)
    then have "s \<in> set (kept_without kept0 j)"
      using required_kept [OF d s] unfolding k0 kept_without_filter by (simp add: kept_after_duplicates_def)
    then show ?thesis using s by (auto simp: list_ex_iff)
  qed
  have count: "\<exists>k. counter (map message_of (kept_without kept0 j)) = Inr k \<and> count_kept counter profile (kept_without kept0 j) = Inr k" for j
    using count_total [OF assms(2) rk sub assms(3)] .
  then have tok: "count_kept counter profile (kept_without kept0 j) = Inr k \<Longrightarrow> tokens j = tk_tokens k" for j k
    unfolding assms(5) using count [of j] by auto
  have over: "over_limit counter profile (kept_without kept0 j) \<Longrightarrow> available_tokens profile < tokens j" for j
    using tok by (auto simp: over_limit_def)
  have "\<exists>x. drop_until_fit counter profile (available_tokens profile) (drop_order kept0) kept0 [] c = Inr x" for c
    using count unfolding kept_without_def by (intro drop_until_fit_total) blast
  then have total: "\<exists>k' dr c'. drop_until_fit counter profile (available_tokens profile) (drop_order kept0) kept0 [] c = Inr (k', dr, c')" for c
    by (metis prod_cases3)
  obtain k where "count_kept counter profile kept0 = Inr k" using count [of 0] by auto
  with total [of k] have "\<exists>kept excluded counted. fit_segments counter profile kept0 = Inr (kept, excluded, counted)"
    by (cases "available_tokens profile < tk_tokens k") (auto simp: fit_segments_def)
  then obtain kept excluded counted where fit: "fit_segments counter profile kept0 = Inr (kept, excluded, counted)" by blast
  from fit_segments_spec [OF fit] obtain n where n: "n \<le> length (drop_order kept0)" "kept = kept_without kept0 n"
      "count_kept counter profile kept = Inr counted" "\<forall>j < n. over_limit counter profile (kept_without kept0 j)"
      "tk_tokens counted \<le> available_tokens profile \<or> n = length (drop_order kept0)" by blast
  have t: "tokens n = tk_tokens counted" using tok n(2,3) by blast
  have ch: "chat kept = Inr (map message_of kept)"
    using n(3) by (auto simp: count_kept_def bind_r_eq_Inr dest: chat_eq_Inr)
  have split: "deduplicate_optional segments = (kept0, snd (deduplicate_optional segments))" by (simp add: assms(4))
  show ?thesis
  proof (cases "tk_tokens counted \<le> available_tokens profile")
    case True
    then have "\<exists>p. prepare_context L counter profile segments = Inr p \<and> pc_chat p = map message_of kept"
      unfolding prepare_context_def by (subst split) (simp add: assms(1) fit ch Let_def)
    then show ?thesis using True n t over by (intro disjI1 exI [of _ n]) auto
  next
    case False
    then have all: "n = length (drop_order kept0)" using n(5) by blast
    have "filter (kept_after_duplicates segments) segments = kept0" by (simp add: k0)
    have "kept_without kept0 n = filter sg_required segments"
    proof -
      have "kept_after_duplicates segments s \<and> sg_source_id s \<notin> sg_source_id ` set (drop_order kept0) \<longleftrightarrow> sg_required s"
        if s: "s \<in> set segments" for s
        using required_kept [OF d s, of "length (drop_order kept0)" "kept_after_duplicates segments"] s
        by (auto simp: drop_order_set k0 kept_after_duplicates_def)
      then show ?thesis unfolding all k0 kept_without_filter by (intro filter_cong) (simp_all add: k0)
    qed
    moreover have "prepare_context L counter profile segments = Inl (ContextOverflow (tk_tokens counted) (available_tokens profile))"
      unfolding prepare_context_def by (subst split) (use False in \<open>simp add: assms(1) fit Let_def\<close>)
    moreover have "\<forall>j \<le> length (drop_order kept0). available_tokens profile < tokens j"
      using over n(4) all False t by (metis linorder_not_less nat_less_le)
    ultimately show ?thesis using all t by simp
  qed
qed

text \<open>C40. 
  With a counter that answers for the candidate, preparation decides exactly whether some number of drops in the
  documented order fits, takes the least such number, and otherwise raises the overflow with the count of the
  required segments alone.
\<close>

theorem prepared_context_minimal:
  assumes "check_segments segments = Inr ()" and "\<forall>s \<in> set segments. segment_ok s"
    and "\<forall>c. \<exists>k. counter c = Inr k \<and> validate_counter k profile = Inr ()"
    and "kept0 = fst (deduplicate_optional segments)"
    and "tokens = (\<lambda>j. case counter (map message_of (kept_without kept0 j)) of Inl _ \<Rightarrow> 0 | Inr k \<Rightarrow> tk_tokens k)"
  shows "(\<exists>n \<le> length (drop_order kept0). tokens n \<le> available_tokens profile \<and> (\<forall>j < n. available_tokens profile < tokens j)
       \<and> (\<exists>p. prepare_context L counter profile segments = Inr p \<and> pc_chat p = map message_of (kept_without kept0 n)))
    \<or> (\<forall>n \<le> length (drop_order kept0). available_tokens profile < tokens n)
       \<and> kept_without kept0 (length (drop_order kept0)) = filter sg_required segments
       \<and> prepare_context L counter profile segments
           = Inl (ContextOverflow (tokens (length (drop_order kept0))) (available_tokens profile))"
  using prepare_decides [OF assms] .

theorem prepared_context_minimal_witness:
  "\<exists>n \<le> length (drop_order (fst (deduplicate_optional sample_segments))). \<exists>p.
     prepare_context sample_hash char_counter sample_profile sample_segments = Inr p
     \<and> pc_chat p = map message_of (kept_without (fst (deduplicate_optional sample_segments)) n)"
proof -
  have chk: "check_segments sample_segments = Inr ()" and ok: "\<forall>s \<in> set sample_segments. segment_ok s" by code_simp+
  have "\<forall>c. \<exists>k. char_counter c = Inr k \<and> validate_counter k sample_profile = Inr ()"
    by (simp add: char_counter_def validate_counter_def sample_profile_def)
  from prepared_context_minimal [OF chk ok this refl refl, of sample_hash] sample_prepared show ?thesis by auto
qed

end
