(* ===== verification/ContextTheorems.thy ===== *)
theory ContextTheorems
  imports ContextViews PreparationTheorems
begin

text \<open>
  What the context store and the builder promise: an actor learns nothing of what it may not see, stored sources
  never change, only configured policy speaks with the system role, and what the builder hands over can be prepared.
\<close>

section \<open>Building the ordered list\<close>

text \<open>The part of a segment that merging keeps.\<close>

definition segment_core :: "ContextSegment \<Rightarrow> string \<times> string \<times> ChatRole \<times> string \<times> ContextTrust" where
  "segment_core s = (sg_source_id s, sg_source_revision s, sg_role s, sg_content s, sg_trust s)"

definition ordered_ok :: "ContextSegment list \<Rightarrow> ContextSegment list \<times> (string \<times> nat) list \<Rightarrow> bool" where
  "ordered_ok xs st \<longleftrightarrow> (case st of (dest, idx) \<Rightarrow>
     (\<forall>i j. map_of idx i = Some j \<longrightarrow> j < length dest \<and> sg_source_id (dest ! j) = i)
     \<and> (\<forall>s \<in> set dest. map_of idx (sg_source_id s) \<noteq> None) \<and> distinct (map sg_source_id dest)
     \<and> set (map segment_core dest) = set (map segment_core xs)
     \<and> (\<forall>s \<in> set dest. segment_ok s)
     \<and> (\<forall>s \<in> set xs. sg_required s \<longrightarrow> (\<exists>x \<in> set dest. segment_core x = segment_core s \<and> sg_required x)))"

lemma append_unique_ok:
  assumes ok: "ordered_ok xs (dest, idx)" and a: "append_unique s (dest, idx) = Inr (dest', idx')" and s: "segment_ok s"
  shows "ordered_ok (xs @ [s]) (dest', idx') \<and> (\<exists>cs. map segment_core dest' = map segment_core dest @ cs)"
proof (cases "map_of idx (sg_source_id s)")
  case None
  then have st: "dest' = dest @ [s]" "idx' = dict_put (sg_source_id s) (length dest) idx"
    using a by (auto simp: append_unique_def)
  have "sg_source_id s \<notin> sg_source_id ` set dest" using ok None by (auto simp: ordered_ok_def)
  then show ?thesis
    using ok s None unfolding st
    by (auto simp: ordered_ok_def alist_dict.lookup_put nth_append less_Suc_eq split: if_splits)
next
  case (Some j)
  let ?c = "dest ! j"
  let ?m = "?c\<lparr>sg_required := sg_required ?c \<or> sg_required s, sg_priority := max (sg_priority ?c) (sg_priority s)\<rparr>"
  have j: "j < length dest" "sg_source_id ?c = sg_source_id s" using ok Some by (auto simp: ordered_ok_def)
  have core: "segment_core ?c = segment_core s" and m: "ContextSegment_post_init ?m = Inr ()"
    and st: "dest' = dest[j := ?m]" "idx' = idx"
    using a Some j(2) by (auto simp: append_unique_def Let_def bind_r_eq_Inr segment_core_def split: if_splits)
  have mc: "segment_core ?m = segment_core ?c" by (simp add: segment_core_def)
  have cores: "map segment_core dest' = map segment_core dest"
    using j(1) mc by (simp add: st map_update list_update_same_conv)
  then have ids: "map sg_source_id dest' = map sg_source_id dest"
  proof -
    have "map fst (map segment_core xs) = map sg_source_id xs" for xs by (simp add: segment_core_def)
    with arg_cong [OF cores, of "map fst"] show ?thesis by metis
  qed
  have idj: "sg_source_id (dest' ! k) = sg_source_id (dest ! k)" if "k < length dest" for k
    using ids that by (metis length_map nth_map)
  have len: "length dest' = length dest" by (simp add: st)
  have "\<exists>x \<in> set dest'. segment_core x = segment_core t \<and> sg_required x"
    if t: "t \<in> set (xs @ [s])" "sg_required t" for t
  proof (cases "t = s")
    case True
    then show ?thesis using t j(1) mc core by (intro bexI [of _ ?m]) (auto simp: st set_update_memI)
  next
    case False
    then obtain x where x: "x \<in> set dest" "segment_core x = segment_core t" "sg_required x"
      using ok t by (auto simp: ordered_ok_def)
    then obtain k where k: "k < length dest" "x = dest ! k" by (auto simp: in_set_conv_nth)
    show ?thesis
    proof (cases "k = j")
      case True
      then show ?thesis using x k mc j(1) by (intro bexI [of _ ?m]) (auto simp: st set_update_memI)
    next
      case False
      then have "dest' ! k = x" using k by (simp add: st)
      then show ?thesis using x k len by (metis nth_mem)
    qed
  qed
  moreover have "\<forall>x \<in> set dest'. segment_ok x"
    using ok m by (auto simp: ordered_ok_def st segment_ok_def dest!: set_update_subset_insert [THEN subsetD])
  moreover have "\<forall>x \<in> set dest'. map_of idx (sg_source_id x) \<noteq> None"
  proof
    fix x assume "x \<in> set dest'"
    then have "sg_source_id x \<in> set (map sg_source_id dest)" using ids by (metis image_eqI list.set_map)
    then show "map_of idx (sg_source_id x) \<noteq> None" using ok by (auto simp: ordered_ok_def)
  qed
  moreover have "\<forall>i k. map_of idx i = Some k \<longrightarrow> k < length dest' \<and> sg_source_id (dest' ! k) = i"
    using ok idj len by (auto simp: ordered_ok_def)
  moreover have "segment_core s \<in> set (map segment_core dest)" using core j(1) by (metis length_map nth_map nth_mem)
  moreover have "segment_core ` set dest' = segment_core ` set dest" using arg_cong [OF cores, of set] by simp
  ultimately show ?thesis using ok ids cores st(2)
    unfolding ordered_ok_def by (simp add: insert_absorb)
qed

lemma foldM_append_unique:
  assumes "foldM append_unique ys st = Inr st'" and "ordered_ok xs st" and "\<forall>s \<in> set ys. segment_ok s"
  shows "ordered_ok (xs @ ys) st' \<and> (\<exists>cs. map segment_core (fst st') = map segment_core (fst st) @ cs)"
  using assms
proof (induction ys arbitrary: xs st)
  case (Cons y ys)
  obtain st1 where 1: "append_unique y st = Inr st1" "foldM append_unique ys st1 = Inr st'"
    using Cons.prems(1) by (auto simp: bind_r_eq_Inr)
  obtain dest idx dest1 idx1 where [simp]: "st = (dest, idx)" "st1 = (dest1, idx1)" by fastforce
  from append_unique_ok [of xs dest idx y dest1 idx1] Cons.prems 1
  have 2: "ordered_ok (xs @ [y]) st1" "\<exists>cs. map segment_core (fst st1) = map segment_core (fst st) @ cs" by auto
  from Cons.IH [OF 1(2) 2(1)] Cons.prems(3) 2(2) show ?case by auto
qed simp

text \<open>Appending segments with new identifiers never fails and keeps them as they are.\<close>

lemma foldM_append_fresh:
  assumes "distinct (map sg_source_id (dest @ ys))" and "\<forall>i. map_of idx i \<noteq> None \<longrightarrow> i \<in> sg_source_id ` set dest"
  shows "\<exists>idx'. foldM append_unique ys (dest, idx) = Inr (dest @ ys, idx')"
  using assms
proof (induction ys arbitrary: dest idx)
  case (Cons y ys)
  have "map_of idx (sg_source_id y) = None" using Cons.prems by fastforce
  then have "append_unique y (dest, idx) = Inr (dest @ [y], dict_put (sg_source_id y) (length dest) idx)"
    by (simp add: append_unique_def)
  moreover have "\<exists>idx'. foldM append_unique ys (dest @ [y], dict_put (sg_source_id y) (length dest) idx)
      = Inr ((dest @ [y]) @ ys, idx')"
    using Cons.prems by (intro Cons.IH) (auto simp: alist_dict.lookup_put)
  ultimately show ?case by simp
qed simp

section \<open>What is read\<close>

lemma load_segmentD:
  assumes "context_ok L d" and "load_segment L t i v q n d = Inr s"
  shows "\<exists>r \<in> set (context_sources d). find_source t i v d = Some r \<and> s = segment_of q n r \<and> segment_ok s"
  using assms find_source_eq [OF assms(1), of t i v]
  by (auto simp: load_segment_def as_segment_def bind_r_eq_Inr segment_ok_def split: option.splits)

text \<open>A segment that comes from a source the actor may read in this conversation.\<close>

definition readable :: "ContextPrincipal \<Rightarrow> ConversationRecord \<Rightarrow> context_db \<Rightarrow> ContextSegment \<Rightarrow> bool" where
  "readable actor c d s \<longleftrightarrow> (\<exists>r \<in> set (context_sources d). source_fits actor c r
     \<and> segment_core s = (so_source_id r, so_revision r, so_role r, so_content r, so_trust r))"

lemma resolve_readable:
  assumes ok: "context_ok L d" and "resolve_sources L actor i refs d = Inr ss" and s: "s \<in> set ss"
    and c: "conversation_row actor i d = Inr (Some c)"
  shows "readable actor c d s \<and> segment_ok s"
proof -
  have auth: "\<forall>ref \<in> set refs. authorize_ref actor c d ref = Inr ()"
    and tr: "list_all2 (\<lambda>ref s. load_segment L (cp_tenant_id actor) (sf_source_id ref) (sf_revision ref)
       (sf_required ref) (sf_priority ref) d = Inr s) refs ss"
    using assms(2) c by (auto simp: resolve_sources_def bind_r_eq_Inr require_conversation_eq each_eq_Inr traverse_eq_Inr)
  obtain ref where "ref \<in> set refs" and "load_segment L (cp_tenant_id actor) (sf_source_id ref) (sf_revision ref)
       (sf_required ref) (sf_priority ref) d = Inr s"
    using list_all2_mem [OF tr s] by blast
  then show ?thesis
    using auth load_segmentD [OF ok]
    by (fastforce simp: authorize_ref_def readable_def segment_core_def segment_of_def split: option.splits)
qed

lemma recent_readable:
  assumes ok: "context_ok L d" and "recent_messages L actor i limit n d = Inr ss" and s: "s \<in> set ss"
    and c: "conversation_row actor i d = Inr (Some c)"
  shows "readable actor c d s \<and> segment_ok s"
proof -
  define rows where "rows = take (nat limit) (joined_entries (cp_tenant_id actor) i d)"
  have fits: "\<forall>r \<in> set rows. source_fits actor c r"
    and tr: "list_all2 (\<lambda>r s. load_segment L (cp_tenant_id actor) (so_source_id r) (so_revision r) False n d = Inr s) (rev rows) ss"
    using assms(2) s c
    by (auto simp: recent_messages_def bind_r_eq_Inr require_conversation_eq Let_def rows_def list_ex_iff traverse_eq_Inr
        split: if_splits)
  obtain r where r: "r \<in> set rows" "load_segment L (cp_tenant_id actor) (so_source_id r) (so_revision r) False n d = Inr s"
    using list_all2_mem [OF tr s] by auto
  have "r \<in> set (context_sources d)"
  proof -
    have "r \<in> set (joined_entries (cp_tenant_id actor) i d)" using r(1) by (auto simp: rows_def dest: in_set_takeD)
    then obtain e :: entry_row where "find_source (cp_tenant_id actor) (en_source_id e) (en_source_revision e) d = Some r"
      by (auto simp: joined_entries_def List.map_filter_def)
    then show ?thesis using find_source_eq [OF ok] by blast
  qed
  moreover have "so_tenant_id r = cp_tenant_id actor"
    using fits r(1) by (auto simp: source_fits_def source_allowed_def split: if_splits)
  ultimately have "find_source (cp_tenant_id actor) (so_source_id r) (so_revision r) d = Some r"
    using find_source_eq [OF ok] by (simp add: source_key_def)
  then show ?thesis using load_segmentD [OF ok r(2)] fits r(1)
    by (auto simp: readable_def segment_core_def segment_of_def)
qed

lemma context_reachable_ok:
  "reachable context_init (\<lambda>d d'. \<exists>actor. context_step L actor d d') d \<Longrightarrow> context_ok L d"
  by (rule context_machine.reachable_inv)

section \<open>A small store\<close>

definition alice :: ContextPrincipal where
  "alice = \<lparr>cp_tenant_id = ''acme'', cp_user_id = ''alice'', cp_project_ids = {''p''}\<rparr>"

definition carol :: ContextPrincipal where
  "carol = \<lparr>cp_tenant_id = ''other'', cp_user_id = ''bob'', cp_project_ids = {''p''}\<rparr>"

definition bob :: ContextPrincipal where
  "bob = \<lparr>cp_tenant_id = ''acme'', cp_user_id = ''bob'', cp_project_ids = {''p''}\<rparr>"

definition opened :: context_db where
  "opened = context_empty\<lparr>context_schema := [1]\<rparr>"

definition with_note :: context_db where
  "with_note = opened\<lparr>context_sources := [\<lparr>so_tenant_id = ''acme'', so_source_id = ''n'', so_revision = ''1'',
     so_project_id = ''p'', so_owner_id = ''bob'', so_scope = USER_SCOPE, so_role = USER, so_trust = SOURCE,
     so_content = ''secret'', so_content_sha256 = ''secret'', so_created_at = 0\<rparr>]\<rparr>"

lemma opened_reachable: "reachable context_init (\<lambda>d d'. \<exists>other. context_step L other d d') opened"
  by (rule reach_init) (simp add: context_init_def open_context_store_def context_empty_def opened_def)

lemma with_note_step: "context_step sample_hash bob opened with_note"
proof (rule cx_add)
  show "add_source sample_hash bob ''p'' ''1'' USER SOURCE ''secret'' USER_SCOPE (Some ''n'') [] 0 opened
     = Inr (with_note, source_ref ''n'' ''1'')"
    by code_simp
qed

lemma with_note_reachable: "reachable context_init (\<lambda>d d'. \<exists>other. context_step sample_hash other d d') with_note"
  using reach_step [OF opened_reachable [of sample_hash], of with_note] with_note_step by blast

definition with_chat :: context_db where
  "with_chat = with_note\<lparr>context_conversations := [\<lparr>cr_conversation_id = ''c'', cr_tenant_id = ''acme'', cr_project_id = ''p'',
     cr_owner_id = ''bob'', cr_scope = USER_SCOPE, cr_created_at = 0\<rparr>]\<rparr>"

definition house_policy :: "ContextSegment list" where
  "house_policy = [\<lparr>sg_source_id = ''rules'', sg_source_revision = ''1'', sg_role = SYSTEM, sg_content = ''be kind'',
     sg_trust = POLICY_TRUST, sg_required = True, sg_priority = 0\<rparr>]"

definition house_builder :: ContextBuilder where
  "house_builder = \<lparr>cb_policies = [((''acme'', ''p''), house_policy)], cb_recent_message_priority = 50\<rparr>"

lemma with_chat_reachable: "reachable context_init (\<lambda>d d'. \<exists>other. context_step sample_hash other d d') with_chat"
proof -
  have "create_conversation bob ''p'' USER_SCOPE ''c'' 0 with_note = Inr (with_chat, hd (context_conversations with_chat))"
    by code_simp
  then have "\<exists>other. context_step sample_hash other with_note with_chat" by (intro exI [of _ bob] cx_create)
  with reach_step [OF with_note_reachable, of with_chat] show ?thesis by blast
qed

lemma house_builder_ok:
  "ContextBuilder_init [((''acme'', ''p''), house_policy)] 50 = Inr house_builder"
  "\<forall>(k, ss) \<in> set [((''acme'', ''p''), house_policy)]. \<forall>s \<in> set ss. segment_ok s"
  by code_simp+

definition house_context :: BuiltContext where
  "house_context = \<lparr>bc_conversation_id = ''c'', bc_tenant_id = ''acme'', bc_project_id = ''p'',
     bc_segments = house_policy @ [\<lparr>sg_source_id = ''n'', sg_source_revision = ''1'', sg_role = USER, sg_content = ''secret'',
        sg_trust = SOURCE, sg_required = True, sg_priority = 0\<rparr>]\<rparr>"

lemma house_built:
  "build sample_hash house_builder bob ''c'' [source_ref ''n'' ''1''\<lparr>sf_required := True\<rparr>] 5 with_chat = Inr house_context"
  by code_simp

text \<open>The store after another user of the tenant, or somebody of another tenant, has added a source.\<close>

definition with_private :: "ContextPrincipal \<Rightarrow> context_db" where
  "with_private actor = with_chat\<lparr>context_sources := context_sources with_chat @ [\<lparr>so_tenant_id = cp_tenant_id actor, so_source_id = ''m'',
     so_revision = ''1'', so_project_id = ''p'', so_owner_id = cp_user_id actor, so_scope = USER_SCOPE, so_role = USER, so_trust = SOURCE,
     so_content = ''mine'', so_content_sha256 = ''mine'', so_created_at = 0\<rparr>]\<rparr>"

lemma private_step:
  assumes "actor \<in> {alice, carol}"
  shows "context_step sample_hash actor with_chat (with_private actor)"
proof (rule cx_add)
  show "add_source sample_hash actor ''p'' ''1'' USER SOURCE ''mine'' USER_SCOPE (Some ''m'') [] 0 with_chat
     = Inr (with_private actor, source_ref ''m'' ''1'')"
    using assms by (elim insertE emptyE; hypsubst) code_simp+
qed

lemma private_reachable:
  "actor \<in> {alice, carol} \<Longrightarrow> reachable context_init (\<lambda>d d'. \<exists>other. context_step sample_hash other d d') (with_private actor)"
  using reach_step [OF with_chat_reachable, of "with_private actor"] private_step by blast

section \<open>Confidentiality\<close>

text \<open>C13. 
  What is built for an actor depends on the rows the actor may see and on nothing else: two reachable stores that
  agree on these give the same context or the same error. In particular it does not show whether a conversation or a
  source of somebody else exists.
\<close>

theorem context_confidential:
  assumes "reachable context_init (\<lambda>d d'. \<exists>other. context_step L other d d') d"
    and "reachable context_init (\<lambda>d d'. \<exists>other. context_step L other d d') d'"
    and "visible_conversations actor d = visible_conversations actor d'"
    and "visible_sources actor d = visible_sources actor d'" and "visible_entries actor d = visible_entries actor d'"
  shows "build L b actor i refs limit d = build L b actor i refs limit d'"
  using builder_reads.read_law [OF context_reachable_ok [OF assms(1)] context_reachable_ok [OF assms(2)], of actor "(b, i, refs, limit)"]
    assms(3-5) by (simp add: context_view_def)

theorem context_confidential_witness:
  "build sample_hash house_builder bob ''c'' [source_ref ''n'' ''1''\<lparr>sf_required := True\<rparr>] 5 (with_private alice) = Inr house_context"
proof -
  have "visible_conversations bob (with_private alice) = visible_conversations bob with_chat"
    and "visible_sources bob (with_private alice) = visible_sources bob with_chat"
    and "visible_entries bob (with_private alice) = visible_entries bob with_chat"
    by code_simp+
  from context_confidential [OF private_reachable with_chat_reachable this] house_built show ?thesis by simp
qed

text \<open>
  Tenants do not influence each other: whatever the actors of other tenants do, what is built for an actor stays the same.
\<close>

theorem context_tenants_isolated:
  assumes "reachable context_init (\<lambda>d d'. \<exists>other. context_step L other d d') d"
    and "(\<lambda>d d'. \<exists>other. cp_tenant_id other \<noteq> cp_tenant_id actor \<and> context_step L other d d')\<^sup>*\<^sup>* d d'"
  shows "build L b actor i refs limit d' = build L b actor i refs limit d"
proof -
  have "foreign_step L actor = (\<lambda>d d'. \<exists>other. cp_tenant_id other \<noteq> cp_tenant_id actor \<and> context_step L other d d')"
    by (intro ext) (simp add: foreign_step_def)
  with builder_reads.foreign_run_read [of L actor d d' "(b, i, refs, limit)"] context_reachable_ok [OF assms(1)] assms(2)
  show ?thesis by simp
qed

theorem context_tenants_isolated_witness:
  "build sample_hash house_builder bob ''c'' [source_ref ''n'' ''1''\<lparr>sf_required := True\<rparr>] 5 (with_private carol) = Inr house_context"
proof -
  have "cp_tenant_id carol \<noteq> cp_tenant_id bob" by (simp add: bob_def carol_def)
  then have "(\<lambda>d d'. \<exists>other. cp_tenant_id other \<noteq> cp_tenant_id bob \<and> context_step sample_hash other d d')\<^sup>*\<^sup>* with_chat (with_private carol)"
    using private_step [of carol] by (intro r_into_rtranclp) blast
  from context_tenants_isolated [OF with_chat_reachable this] house_built show ?thesis by simp
qed

section \<open>Stored sources stay\<close>

lemma find_source_extends: "extends d d' \<Longrightarrow> find_source t i v d = Some r \<Longrightarrow> find_source t i v d' = Some r"
  by (auto simp: extends_def find_source_def find_append)

lemma context_run:
  assumes "(\<lambda>d d'. \<exists>other. context_step L other d d')\<^sup>*\<^sup>* d d'" and "context_ok L d"
  shows "context_ok L d' \<and> extends d d'"
  using assms
proof (induction rule: rtranclp_induct)
  case (step y z)
  then show ?case using context_step_ok adds_extends extends_trans by blast
qed simp

lemma as_segment_stored:
  assumes "context_ok L d" and "r \<in> set (context_sources d)"
  shows "as_segment L q n r = Inr (segment_of q n r)"
proof -
  have "source_ok L r" using assms by (simp add: context_ok_def)
  then show ?thesis
    by (auto simp: as_segment_def validate_source_integrity_def source_ok_def segment_ok_def ContextSegment_post_init_def
        segment_of_def bind_r_eq_Inr split: if_splits)
qed

text \<open>
  A source reads back as it was added, at any later time, in every conversation of its project that is not more
  public than the source; adding other content under its identifier and revision is refused for ever.
\<close>

theorem source_reads_back:
  assumes "reachable context_init (\<lambda>d d'. \<exists>other. context_step L other d d') d"
    and add: "add_source L actor p v role trust content scope given uuid clk d = Inr (d1, ref)"
    and "(\<lambda>d d'. \<exists>other. context_step L other d d')\<^sup>*\<^sup>* d1 d2"
    and conv: "conversation_row actor i d2 = Inr (Some c)"
    and fits: "cr_project_id c = p" "cr_scope c = PROJECT_SCOPE \<longrightarrow> scope = PROJECT_SCOPE"
  shows "resolve_sources L actor i [ref\<lparr>sf_required := q, sf_priority := n\<rparr>] d2
      = Inr [\<lparr>sg_source_id = sf_source_id ref, sg_source_revision = v, sg_role = role, sg_content = content, sg_trust = trust,
              sg_required = q, sg_priority = n\<rparr>]
    \<and> (content' \<noteq> content \<longrightarrow>
        (\<exists>e. add_source L actor p' v role' trust' content' scope' (Some (sf_source_id ref)) uuid' clk' d2 = Inl e))"
proof -
  note a = add_source_ok [OF context_reachable_ok [OF assms(1)] add]
  then obtain r where r: "find_source (cp_tenant_id actor) (sf_source_id ref) v d1 = Some r" "so_content r = content"
      "so_role r = role" "so_trust r = trust" "so_project_id r = p" "so_scope r = scope" "so_owner_id r = cp_user_id actor" by blast
  have p: "p \<in> cp_project_ids actor" and rv: "sf_revision ref = v" using a by (auto simp: source_ref_def)
  have ok: "context_ok L d2" and "extends d1 d2" using context_run [OF assms(3)] a by auto
  then have f: "find_source (cp_tenant_id actor) (sf_source_id ref) v d2 = Some r" using find_source_extends r(1) by blast
  then have key: "r \<in> set (context_sources d2)" "source_key r = (cp_tenant_id actor, sf_source_id ref, v)"
    using find_source_eq [OF ok] by auto
  have "source_fits actor c r"
    using r fits p key(2) by (auto simp: source_fits_def source_allowed_def source_key_def)
  moreover have "segment_of q n r = \<lparr>sg_source_id = sf_source_id ref, sg_source_revision = v, sg_role = role,
      sg_content = content, sg_trust = trust, sg_required = q, sg_priority = n\<rparr>"
    using r key(2) by (simp add: segment_of_def source_key_def)
  moreover have "require_conversation actor i d2 = Inr c" using conv by (simp add: require_conversation_eq)
  ultimately have "resolve_sources L actor i [ref\<lparr>sf_required := q, sf_priority := n\<rparr>] d2
      = Inr [\<lparr>sg_source_id = sf_source_id ref, sg_source_revision = v, sg_role = role, sg_content = content, sg_trust = trust,
              sg_required = q, sg_priority = n\<rparr>]"
    using f rv as_segment_stored [OF ok key(1), of q n]
    by (simp add: resolve_sources_def authorize_ref_def load_segment_def)
  moreover have "\<exists>e. add_source L actor p' v role' trust' content' scope' (Some (sf_source_id ref)) uuid' clk' d2 = Inl e"
    if "content' \<noteq> content"
  proof (rule ccontr)
    assume "\<nexists>e. add_source L actor p' v role' trust' content' scope' (Some (sf_source_id ref)) uuid' clk' d2 = Inl e"
    then obtain d3 ref3 where again: "add_source L actor p' v role' trust' content' scope' (Some (sf_source_id ref)) uuid' clk' d2
        = Inr (d3, ref3)"
      by (metis old.sum.exhaust prod_cases3 surj_pair)
    note b = add_source_ok [OF ok again]
    from b have "find_source (cp_tenant_id actor) (sf_source_id ref) v d3 = Some r"
      using find_source_extends [OF adds_extends f] by blast
    then show False using b r(2) that by (auto simp: source_ref_def)
  qed
  ultimately show ?thesis by blast
qed

theorem source_reads_back_witness:
  "resolve_sources sample_hash bob ''c'' [source_ref ''n'' ''1''\<lparr>sf_required := True, sf_priority := 3\<rparr>] with_chat
     = Inr [\<lparr>sg_source_id = ''n'', sg_source_revision = ''1'', sg_role = USER, sg_content = ''secret'', sg_trust = SOURCE,
             sg_required = True, sg_priority = 3\<rparr>]"
proof -
  have add: "add_source sample_hash bob ''p'' ''1'' USER SOURCE ''secret'' USER_SCOPE (Some ''n'') [] 0 opened
     = Inr (with_note, source_ref ''n'' ''1'')" by code_simp
  have "create_conversation bob ''p'' USER_SCOPE ''c'' 0 with_note = Inr (with_chat, hd (context_conversations with_chat))"
    by code_simp
  then have run: "(\<lambda>d d'. \<exists>other. context_step sample_hash other d d')\<^sup>*\<^sup>* with_note with_chat"
    by (intro r_into_rtranclp exI [of _ bob] cx_create)
  have conv: "conversation_row bob ''c'' with_chat = Inr (Some (hd (context_conversations with_chat)))" by code_simp
  have "cr_project_id (hd (context_conversations with_chat)) = ''p''"
    and "cr_scope (hd (context_conversations with_chat)) = PROJECT_SCOPE \<longrightarrow> USER_SCOPE = PROJECT_SCOPE"
    by (simp_all add: with_chat_def)
  from source_reads_back [OF opened_reachable add run conv this, where q = True and n = 3] show ?thesis
    by (simp add: source_ref_def)
qed

section \<open>Trust\<close>

lemma builder_policies:
  assumes "ContextBuilder_init ps n = Inr b" and "map_of (cb_policies b) k = Some policy"
  shows "(k, policy) \<in> set ps \<and> check_policy (k, policy) = Inr ()"
proof -
  obtain qs where f: "foldM (\<lambda>item qs. bind_r (check_policy item) (\<lambda>_. Inr (dict_put (fst item) (snd item) qs))) ps [] = Inr qs"
    and b: "cb_policies b = qs"
    using assms(1) by (auto simp: ContextBuilder_init_def map_r_eq_Inr)
  have "\<forall>k v. map_of qs k = Some v \<longrightarrow> (k, v) \<in> set ps \<and> check_policy (k, v) = Inr ()"
    by (rule foldM_invariant [OF f])
       (auto simp: bind_r_eq_Inr alist_dict.lookup_put split: if_splits)
  then show ?thesis using assms(2) b by blast
qed

lemma readable_not_system: "context_ok L d \<Longrightarrow> readable actor c d s \<Longrightarrow> sg_role s \<noteq> SYSTEM"
  by (auto simp: readable_def segment_core_def context_ok_def source_ok_def)

lemma buildD:
  assumes ok: "context_ok L d" and init: "ContextBuilder_init ps n = Inr b" and ps: "\<forall>(k, ss) \<in> set ps. \<forall>s \<in> set ss. segment_ok s"
    and "build L b actor i refs limit d = Inr ctx"
  obtains c policy rest where "conversation_row actor i d = Inr (Some c)" and "cr_project_id c \<in> cp_project_ids actor"
    and "map_of (cb_policies b) (cr_tenant_id c, cr_project_id c) = Some policy"
    and "bc_tenant_id ctx = cr_tenant_id c" and "bc_project_id ctx = cr_project_id c" and "policy \<noteq> []"
    and "\<forall>s \<in> set policy. sg_required s" and "\<forall>s \<in> set rest. readable actor c d s"
    and "\<exists>idx. ordered_ok (policy @ rest) (bc_segments ctx, idx)"
    and "\<exists>cs. map segment_core (bc_segments ctx) = map segment_core policy @ cs"
proof -
  obtain c where c: "conversation_row actor i d = Inr (Some c)"
    using assms(4) by (auto simp: build_def get_conversation_def bind_r_eq_Inr split: option.splits)
  obtain policy where pol: "map_of (cb_policies b) (cr_tenant_id c, cr_project_id c) = Some policy"
    using assms(4) by (cases "map_of (cb_policies b) (cr_tenant_id c, cr_project_id c)")
      (auto simp: build_def get_conversation_def c bind_r_eq_Inr)
  obtain resolved recent ordered idx where mem: "cr_project_id c \<in> cp_project_ids actor"
    and res: "resolve_sources L actor i refs d = Inr resolved"
    and rec: "recent_messages L actor i limit (cb_recent_message_priority b) d = Inr recent"
    and fold: "foldM append_unique (policy @ filter sg_required resolved @ recent @ filter (\<lambda>s. \<not> sg_required s) resolved) ([], [])
        = Inr (ordered, idx)"
    and ctx: "bc_segments ctx = ordered" "bc_tenant_id ctx = cr_tenant_id c" "bc_project_id ctx = cr_project_id c"
    using assms(4) by (auto simp: build_def get_conversation_def c pol bind_r_eq_Inr)
  let ?rest = "filter sg_required resolved @ recent @ filter (\<lambda>s. \<not> sg_required s) resolved"
  note chk = builder_policies [OF init pol]
  have policy: "policy \<noteq> []" "\<forall>s \<in> set policy. sg_required s" "distinct (map sg_source_id policy)"
    using chk by (auto simp: check_policy_def bind_r_eq_Inr list_ex_iff)
  have pok: "\<forall>s \<in> set policy. segment_ok s" using chk ps by auto
  have rest: "\<forall>s \<in> set ?rest. readable actor c d s \<and> segment_ok s"
    using resolve_readable [OF ok res _ c] recent_readable [OF ok rec _ c] by auto
  obtain idx0 where "foldM append_unique policy ([], []) = Inr (policy, idx0)"
    using foldM_append_fresh [of "[]" policy "[]"] policy(3) by auto
  then have f1: "foldM append_unique ?rest (policy, idx0) = Inr (ordered, idx)" "ordered_ok policy (policy, idx0)"
    using fold foldM_append_unique [of policy "([], [])" "(policy, idx0)" "[]"] pok
    by (auto simp: foldM_append ordered_ok_def)
  have "ordered_ok (policy @ ?rest) (ordered, idx)" and "\<exists>cs. map segment_core ordered = map segment_core policy @ cs"
    using foldM_append_unique [OF f1] rest by auto
  then show thesis using that [OF c mem pol _ _ policy(1,2), of ?rest] rest ctx by blast
qed

lemma built_shape:
  assumes "context_ok L d"
    and "ContextBuilder_init ps n = Inr b" and "\<forall>(k, ss) \<in> set ps. \<forall>s \<in> set ss. segment_ok s"
    and "build L b actor i refs limit d = Inr ctx"
  shows "\<exists>c policy cs. conversation_row actor i d = Inr (Some c) \<and> cr_project_id c \<in> cp_project_ids actor
    \<and> bc_tenant_id ctx = cr_tenant_id c \<and> bc_project_id ctx = cr_project_id c
    \<and> map_of (cb_policies b) (cr_tenant_id c, cr_project_id c) = Some policy
    \<and> map segment_core (bc_segments ctx) = map segment_core policy @ cs
    \<and> (\<forall>s \<in> set (bc_segments ctx). segment_core s \<in> segment_core ` set policy \<longrightarrow> sg_required s)
    \<and> (\<forall>s \<in> set (bc_segments ctx). segment_core s \<in> segment_core ` set policy \<or> readable actor c d s \<and> sg_role s \<noteq> SYSTEM)
    \<and> check_segments (bc_segments ctx) = Inr () \<and> (\<forall>s \<in> set (bc_segments ctx). segment_ok s)"
  using assms
proof (rule buildD)
  fix c policy rest
  assume c: "conversation_row actor i d = Inr (Some c)" "cr_project_id c \<in> cp_project_ids actor"
    "map_of (cb_policies b) (cr_tenant_id c, cr_project_id c) = Some policy"
    "bc_tenant_id ctx = cr_tenant_id c" "bc_project_id ctx = cr_project_id c"
    and pol: "policy \<noteq> []" "\<forall>s \<in> set policy. sg_required s" and rest: "\<forall>s \<in> set rest. readable actor c d s"
    and "\<exists>idx. ordered_ok (policy @ rest) (bc_segments ctx, idx)"
    and cs: "\<exists>cs. map segment_core (bc_segments ctx) = map segment_core policy @ cs"
  then have o: "segment_core ` set (bc_segments ctx) = segment_core ` set policy \<union> segment_core ` set rest"
      "distinct (map sg_source_id (bc_segments ctx))" "\<forall>s \<in> set (bc_segments ctx). segment_ok s"
      "\<forall>s \<in> set policy. \<exists>x \<in> set (bc_segments ctx). segment_core x = segment_core s \<and> sg_required x"
    by (auto simp: ordered_ok_def image_Un)
  have src: "segment_core s \<in> segment_core ` set policy \<or> readable actor c d s \<and> sg_role s \<noteq> SYSTEM"
    if s: "s \<in> set (bc_segments ctx)" for s
  proof (cases "segment_core s \<in> segment_core ` set policy")
    case False
    then obtain t where "t \<in> set rest" "segment_core s = segment_core t" using o(1) s by blast
    then have "readable actor c d s" using rest by (auto simp: readable_def)
    then show ?thesis using readable_not_system [OF assms(1)] by blast
  qed simp
  have "list_ex sg_required (bc_segments ctx)" using o(4) pol(1) by (cases policy) (auto simp: list_ex_iff)
  moreover from this have "bc_segments ctx \<noteq> []" by auto
  ultimately have "check_segments (bc_segments ctx) = Inr ()" using o(2) by (simp add: check_segments_def)
  moreover have "sg_required s" if s: "s \<in> set (bc_segments ctx)" "segment_core s \<in> segment_core ` set policy" for s
  proof -
    obtain x where "x \<in> set (bc_segments ctx)" "segment_core x = segment_core s" "sg_required x" using o(4) s(2) by force
    then show ?thesis using distinct_map_eq [OF o(2), of x s] s(1) by (auto simp: segment_core_def)
  qed
  ultimately show ?thesis using c cs src o(3) by blast
qed

text \<open>
  A built context starts with the policy configured for the tenant and project of the conversation; no other segment
  has the system role, and every other segment comes from a source the actor may read in that conversation. The
  identifiers are unique and a required segment is there, as preparation demands.
\<close>

theorem built_context_trusted:
  assumes "reachable context_init (\<lambda>d d'. \<exists>other. context_step L other d d') d"
    and "ContextBuilder_init ps n = Inr b" and "\<forall>(k, ss) \<in> set ps. \<forall>s \<in> set ss. segment_ok s"
    and "build L b actor i refs limit d = Inr ctx"
  shows "\<exists>c policy cs. conversation_row actor i d = Inr (Some c) \<and> cr_project_id c \<in> cp_project_ids actor
    \<and> bc_tenant_id ctx = cr_tenant_id c \<and> bc_project_id ctx = cr_project_id c
    \<and> map_of (cb_policies b) (cr_tenant_id c, cr_project_id c) = Some policy
    \<and> map segment_core (bc_segments ctx) = map segment_core policy @ cs
    \<and> (\<forall>s \<in> set (bc_segments ctx). segment_core s \<in> segment_core ` set policy \<or> readable actor c d s \<and> sg_role s \<noteq> SYSTEM)
    \<and> check_segments (bc_segments ctx) = Inr () \<and> (\<forall>s \<in> set (bc_segments ctx). segment_ok s)"
  using built_shape [OF context_reachable_ok [OF assms(1)] assms(2-4)] by blast

theorem built_context_trusted_witness:
  "(\<exists>cs. map segment_core (bc_segments house_context) = map segment_core house_policy @ cs)
    \<and> check_segments (bc_segments house_context) = Inr ()"
proof -
  have "map_of (cb_policies house_builder) (bc_tenant_id house_context, bc_project_id house_context) = Some house_policy" by code_simp
  with built_context_trusted [OF with_chat_reachable house_builder_ok house_built] show ?thesis by auto
qed

lemma policy_in_front:
  assumes cs: "map segment_core segs = map segment_core policy @ cs"
    and req: "\<forall>s \<in> set segs. segment_core s \<in> segment_core ` set policy \<longrightarrow> sg_required s"
    and src: "\<forall>s \<in> set segs. segment_core s \<in> segment_core ` set policy \<or> readable actor c d s \<and> sg_role s \<noteq> SYSTEM"
    and chk: "check_segments segs = Inr ()" and keep: "\<forall>s \<in> set segs. sg_required s \<longrightarrow> keep s"
  shows "\<exists>rest. map message_of (filter keep segs) = map message_of policy @ rest \<and> (\<forall>m \<in> set rest. cm_role m \<noteq> SYSTEM)"
proof -
  let ?A = "take (length policy) segs" and ?B = "drop (length policy) segs"
  have d: "distinct (map sg_source_id segs)" using chk by (auto simp: check_segments_def bind_r_eq_Inr)
  have A: "map segment_core ?A = map segment_core policy"
    using arg_cong [OF cs, of "take (length policy)"] by (simp add: take_map)
  have mem: "segment_core a \<in> segment_core ` set policy" if "a \<in> set ?A" for a
    using arg_cong [OF A, of set] that by auto
  then have "filter keep ?A = ?A" using req keep by (auto simp: filter_id_conv dest: in_set_takeD)
  moreover have "map message_of ?A = map message_of policy"
  proof -
    have "map message_of xs = map (\<lambda>(i, v, role, content, trust). \<lparr>cm_role = role, cm_content = content\<rparr>) (map segment_core xs)" for xs
      by (simp add: message_of_def segment_core_def)
    then show ?thesis using A by metis
  qed
  moreover have "map message_of (filter keep segs) = map message_of (filter keep ?A) @ map message_of (filter keep ?B)"
    by (metis append_take_drop_id filter_append map_append)
  moreover have "sg_role s \<noteq> SYSTEM" if s: "s \<in> set ?B" for s
  proof -
    have "segment_core s \<notin> segment_core ` set policy"
    proof
      assume "segment_core s \<in> segment_core ` set policy"
      then obtain a where a: "a \<in> set ?A" "segment_core a = segment_core s" using arg_cong [OF A, of set]
        by (metis (no_types, lifting) imageE list.set_map)
      have "a = s" using distinct_map_eq [OF d, of a s] a s by (auto simp: segment_core_def dest: in_set_takeD in_set_dropD)
      then show False using a s distinct_map [of sg_source_id segs] d
        by (metis append_take_drop_id disjoint_iff distinct_append)
    qed
    then show ?thesis using src s by (auto dest: in_set_dropD)
  qed
  ultimately show ?thesis by (auto simp: message_of_def)
qed

text \<open>
  Building and preparing compose: with a counter that answers for the candidate, what the builder returns is either
  prepared, with the messages of the policy in front, or refused with the overflow, and never for another reason.
\<close>

theorem built_context_prepares:
  assumes "reachable context_init (\<lambda>d d'. \<exists>other. context_step L other d d') d"
    and "ContextBuilder_init ps n = Inr b" and "\<forall>(k, ss) \<in> set ps. \<forall>s \<in> set ss. segment_ok s"
    and "build L b actor i refs limit d = Inr ctx"
    and "\<forall>c. \<exists>k. counter c = Inr k \<and> validate_counter k profile = Inr ()"
  shows "(\<exists>p policy rest. prepare_context L counter profile (bc_segments ctx) = Inr p
      \<and> map_of (cb_policies b) (bc_tenant_id ctx, bc_project_id ctx) = Some policy
      \<and> pc_chat p = map message_of policy @ rest \<and> (\<forall>m \<in> set rest. cm_role m \<noteq> SYSTEM)
      \<and> pc_total_reserved_tokens p \<le> pp_max_context_tokens profile)
    \<or> (\<exists>k. prepare_context L counter profile (bc_segments ctx) = Inl (ContextOverflow k (available_tokens profile)))"
proof -
  note ok = context_reachable_ok [OF assms(1)]
  from built_shape [OF ok assms(2-4)] obtain c policy cs where
      t: "bc_tenant_id ctx = cr_tenant_id c" "bc_project_id ctx = cr_project_id c"
      "map_of (cb_policies b) (cr_tenant_id c, cr_project_id c) = Some policy"
    and cs: "map segment_core (bc_segments ctx) = map segment_core policy @ cs"
    and req: "\<forall>s \<in> set (bc_segments ctx). segment_core s \<in> segment_core ` set policy \<longrightarrow> sg_required s"
    and src: "\<forall>s \<in> set (bc_segments ctx). segment_core s \<in> segment_core ` set policy \<or> readable actor c d s \<and> sg_role s \<noteq> SYSTEM"
    and chk: "check_segments (bc_segments ctx) = Inr ()" "\<forall>s \<in> set (bc_segments ctx). segment_ok s"
    by blast
  from prepare_decides [OF chk assms(5) refl refl, of L] consider
      p where "prepare_context L counter profile (bc_segments ctx) = Inr p"
    | k where "prepare_context L counter profile (bc_segments ctx) = Inl (ContextOverflow k (available_tokens profile))"
    by blast
  then show ?thesis
  proof cases
    case p: 1
    from prepare_fits [OF p] obtain keep where fit: "pc_total_reserved_tokens p \<le> pp_max_context_tokens profile"
      and keep: "\<forall>s \<in> set (bc_segments ctx). sg_required s \<longrightarrow> keep s" "pc_chat p = map message_of (filter keep (bc_segments ctx))"
      by blast
    from policy_in_front [OF cs req src chk(1) keep(1)] keep(2)
    obtain rest where "pc_chat p = map message_of policy @ rest" and "\<forall>m \<in> set rest. cm_role m \<noteq> SYSTEM" by auto
    then show ?thesis using p fit t by auto
  qed blast
qed

theorem built_context_prepares_witness:
  "(\<exists>p. prepare_context sample_hash char_counter sample_profile (bc_segments house_context) = Inr p
      \<and> pc_total_reserved_tokens p \<le> 20)
   \<or> (\<exists>k. prepare_context sample_hash char_counter sample_profile (bc_segments house_context) = Inl (ContextOverflow k 10))"
proof -
  have "\<forall>c. \<exists>k. char_counter c = Inr k \<and> validate_counter k sample_profile = Inr ()"
    by (simp add: char_counter_def validate_counter_def sample_profile_def)
  from built_context_prepares [OF with_chat_reachable house_builder_ok house_built this]
  show ?thesis by (auto simp: sample_profile_def available_tokens_def)
qed

end
