(* ===== verification/Security.thy ===== *)
theory Security
  imports Packets Dict
begin

text \<open>
  Principals, API keys and secret references (\<open>src/backend/control/security.py\<close>). Random tokens are arguments. The
  key derivation \<open>hashlib.scrypt\<close> is the argument \<open>digest\<close>; it raises for a salt that is not hexadecimal.
  The environment and the HTTP client of the Vault manager are arguments as well.
\<close>

section \<open>Strings\<close>

text \<open>\<open>str.split(sep, n)\<close> and \<open>str.partition(sep)\<close> for a separator of one character.\<close>

fun split_max :: "char \<Rightarrow> nat \<Rightarrow> string \<Rightarrow> string list" where
  "split_max c 0 s = [s]"
| "split_max c (Suc n) s =
     (case dropWhile (\<lambda>x. x \<noteq> c) s of
        [] \<Rightarrow> [s]
      | _ # rest \<Rightarrow> takeWhile (\<lambda>x. x \<noteq> c) s # split_max c n rest)"

definition partition_at :: "char \<Rightarrow> string \<Rightarrow> string \<times> bool \<times> string" where
  "partition_at c s =
     (case dropWhile (\<lambda>x. x \<noteq> c) s of
        [] \<Rightarrow> (s, False, [])
      | _ # rest \<Rightarrow> (takeWhile (\<lambda>x. x \<noteq> c) s, True, rest))"

definition lstrip_char :: "char \<Rightarrow> string \<Rightarrow> string" where
  "lstrip_char c s = dropWhile (\<lambda>x. x = c) s"

definition rstrip_char :: "char \<Rightarrow> string \<Rightarrow> string" where
  "rstrip_char c s = rev (dropWhile (\<lambda>x. x = c) (rev s))"

definition prefixed :: "string \<Rightarrow> string \<Rightarrow> bool" where
  "prefixed p s = (take (length p) s = p)"

section \<open>Principals\<close>

datatype Role = INFERENCE | OPERATOR | ADMIN

record Principal =
  pr_principal_id :: string
  pr_tenant_id :: string
  pr_roles :: "Role set"

definition Principal_post_init :: "Principal \<Rightarrow> exn + unit" where
  "Principal_post_init p =
     require (\<not> (strip (pr_principal_id p) = [] \<or> strip (pr_tenant_id p) = [] \<or> pr_roles p = {}))
       (ValueError ''Principal identity and roles are required.'')"

definition authorize :: "Principal \<Rightarrow> string \<Rightarrow> Role \<Rightarrow> bool" where
  "authorize who tenant_id role \<longleftrightarrow>
     pr_tenant_id who = tenant_id \<and> (role \<in> pr_roles who \<or> ADMIN \<in> pr_roles who)"

section \<open>API keys\<close>

record APIKeyRecord =
  ak_key_id :: string
  ak_salt :: string
  ak_digest :: string
  ak_principal :: Principal
  ak_expires_at :: "datetime option"
  ak_revoked_at :: "datetime option"

definition APIKeyRecord_post_init :: "APIKeyRecord \<Rightarrow> exn + unit" where
  "APIKeyRecord_post_init r =
     each (\<lambda>value. case value of
         None \<Rightarrow> Inr ()
       | Some t \<Rightarrow> require (is_aware t) (ValueError ''API key lifecycle timestamps require timezone data.''))
       [ak_expires_at r, ak_revoked_at r]"

type_synonym digest = "string \<Rightarrow> string \<Rightarrow> exn + string"

definition issue_api_key ::
    "digest \<Rightarrow> string \<Rightarrow> string \<Rightarrow> string \<Rightarrow> Principal \<Rightarrow> datetime option \<Rightarrow> exn + (string \<times> APIKeyRecord)" where
  "issue_api_key digest key_id secret salt who expires_at =
     bind_r (digest secret salt) (\<lambda>dg.
     let r = \<lparr>ak_key_id = key_id, ak_salt = salt, ak_digest = dg, ak_principal = who,
              ak_expires_at = expires_at, ak_revoked_at = None\<rparr> in
     bind_r (APIKeyRecord_post_init r) (\<lambda>_. Inr (''ryuk_'' @ key_id @ ''_'' @ secret, r)))"

text \<open>Python compares two datetimes only when both carry a time zone or neither does.\<close>

fun datetime_ge :: "datetime \<Rightarrow> datetime \<Rightarrow> exn + bool" where
  "datetime_ge (Aware a) (Aware b) = Inr (a \<ge> b)"
| "datetime_ge (Naive a) (Naive b) = Inr (a \<ge> b)"
| "datetime_ge _ _ = Inl (TypeError ''can't compare offset-naive and offset-aware datetimes'')"

definition key_ended :: "APIKeyRecord \<Rightarrow> datetime \<Rightarrow> exn + bool" where
  "key_ended r current =
     (if ak_revoked_at r \<noteq> None then Inr True
      else case ak_expires_at r of None \<Rightarrow> Inr False | Some t \<Rightarrow> datetime_ge current t)"

definition authenticate_api_key ::
    "digest \<Rightarrow> string \<Rightarrow> (string \<times> APIKeyRecord) list \<Rightarrow> instant \<Rightarrow> datetime option \<Rightarrow> exn + Principal option" where
  "authenticate_api_key digest value records clk now =
     (case split_max (CHR ''_'') 2 value of
        [scheme, key_id, secret] \<Rightarrow>
          if scheme \<noteq> ''ryuk'' then Inr None
          else (case map_of records key_id of
                  None \<Rightarrow> Inr None
                | Some r \<Rightarrow>
                    bind_r (digest secret (ak_salt r)) (\<lambda>dg.
                    if dg \<noteq> ak_digest r then Inr None
                    else bind_r (key_ended r (case now of None \<Rightarrow> Aware clk | Some t \<Rightarrow> t)) (\<lambda>ended.
                      Inr (if ended then None else Some (ak_principal r)))))
      | _ \<Rightarrow> Inr None)"

section \<open>Secret references\<close>

record SecretRef =
  sr_provider :: string
  sr_reference :: string

definition SecretRef_post_init :: "SecretRef \<Rightarrow> exn + unit" where
  "SecretRef_post_init s =
     bind_r (require (\<not> (strip (sr_provider s) = [] \<or> strip (sr_reference s) = []))
       (ValueError ''Secret references must not be blank.'')) (\<lambda>_.
     require (\<not> list_ex (\<lambda>marker. contains (casefold (sr_reference s)) marker) [''secret='', ''token='', ''password=''])
       (ValueError ''SecretRef stores a locator, never secret material.''))"

type_synonym secret_manager = "string \<Rightarrow> exn + string"

definition environment_resolve :: "(string \<times> string) list \<Rightarrow> secret_manager" where
  "environment_resolve environ reference =
     (case map_of environ reference of
        None \<Rightarrow> Inl (ValueError ''The referenced secret is unavailable.'')
      | Some s \<Rightarrow> if s = [] then Inl (ValueError ''The referenced secret is unavailable.'') else Inr s)"

record VaultSecretManager =
  vm_address :: string
  vm_token :: string

definition VaultSecretManager_init :: "(string \<times> string) list \<Rightarrow> string \<Rightarrow> string \<Rightarrow> exn + VaultSecretManager" where
  "VaultSecretManager_init environ address token_env =
     bind_r (require (prefixed ''https://'' address) (ValueError ''Vault requires an HTTPS address.'')) (\<lambda>_.
     case map_of environ token_env of
       None \<Rightarrow> Inl (ValueError ''The Vault authentication token is unavailable.'')
     | Some t \<Rightarrow> if t = [] then Inl (ValueError ''The Vault authentication token is unavailable.'')
                 else Inr \<lparr>vm_address = rstrip_char (CHR ''/'') address, vm_token = t\<rparr>)"

text \<open>The client takes the URL and the token and returns the decoded body of a successful response, or raises.\<close>

definition vault_field :: "json \<Rightarrow> string \<Rightarrow> exn + string" where
  "vault_field body field =
     (let data = (if is_dict body then dict_get body ''data'' else None);
          data' = (case data of
              None \<Rightarrow> None
            | Some dt \<Rightarrow> if is_dict dt \<and> (case dict_get dt ''data'' of None \<Rightarrow> False | Some v \<Rightarrow> is_dict v)
                        then dict_get dt ''data'' else Some dt);
          secret = (case data' of None \<Rightarrow> None | Some dt \<Rightarrow> if is_dict dt then dict_get dt field else None)
      in case secret of
           Some (JStr s) \<Rightarrow> if s = [] then Inl (ValueError ''The referenced Vault secret field is unavailable.'') else Inr s
         | _ \<Rightarrow> Inl (ValueError ''The referenced Vault secret field is unavailable.''))"

definition vault_resolve :: "(string \<Rightarrow> string \<Rightarrow> exn + json) \<Rightarrow> VaultSecretManager \<Rightarrow> secret_manager" where
  "vault_resolve client v reference =
     (case partition_at (CHR ''#'') reference of (path, found, field) \<Rightarrow>
        if \<not> found \<or> strip path = [] \<or> strip field = []
        then Inl (ValueError ''Vault references use the '<path>#<field>' format.'')
        else bind_r (client (vm_address v @ ''/v1/'' @ lstrip_char (CHR ''/'') path) (vm_token v)) (\<lambda>body.
             vault_field body field))"

definition resolve_secret_ref :: "(string \<times> secret_manager) list \<Rightarrow> (string \<times> string) list \<Rightarrow> string \<Rightarrow> exn + string" where
  "resolve_secret_ref managers environ value =
     (case partition_at (CHR '':'') value of (provider, found, reference) \<Rightarrow>
        if \<not> found then Inl (ValueError ''Secret references use the '<provider>:<reference>' format.'')
        else let ref = \<lparr>sr_provider = provider, sr_reference = reference\<rparr> in
             bind_r (SecretRef_post_init ref) (\<lambda>_.
             case map_of (if managers = [] then [(''env'', environment_resolve environ)] else managers) (sr_provider ref) of
               None \<Rightarrow> Inl (ValueError ''Unsupported secret reference provider.'')
             | Some manager \<Rightarrow> manager (sr_reference ref)))"

section \<open>Splitting\<close>

lemma split_max_append:
  assumes "c \<notin> set a"
  shows "split_max c (Suc n) (a @ c # b) = a # split_max c n b"
proof -
  have "dropWhile (\<lambda>x. x \<noteq> c) (a @ c # b) = c # b" using assms by (induction a) auto
  moreover have "takeWhile (\<lambda>x. x \<noteq> c) (a @ c # b) = a" using assms by (induction a) auto
  ultimately show ?thesis by simp
qed

lemma split_max_parts:
  assumes "split_max c 2 s = [a, b, r]"
  shows "s = a @ c # b @ c # r \<and> c \<notin> set a \<and> c \<notin> set b"
proof -
  have part: "s = takeWhile (\<lambda>x. x \<noteq> c) s @ c # rest \<and> c \<notin> set (takeWhile (\<lambda>x. x \<noteq> c) s)"
    if "dropWhile (\<lambda>x. x \<noteq> c) s = x # rest" for s x rest
  proof -
    have "x = c" using that by (metis (mono_tags, lifting) dropWhile_eq_Cons_conv)
    moreover have "s = takeWhile (\<lambda>x. x \<noteq> c) s @ x # rest" using that by (metis takeWhile_dropWhile_id)
    moreover have "c \<notin> set (takeWhile (\<lambda>x. x \<noteq> c) s)" by (auto dest: set_takeWhileD)
    ultimately show ?thesis by simp
  qed
  obtain x rest where 1: "dropWhile (\<lambda>x. x \<noteq> c) s = x # rest" "takeWhile (\<lambda>x. x \<noteq> c) s = a" "split_max c 1 rest = [b, r]"
    using assms by (auto simp: numeral_2_eq_2 split: list.splits)
  obtain y rest' where 2: "dropWhile (\<lambda>x. x \<noteq> c) rest = y # rest'" "takeWhile (\<lambda>x. x \<noteq> c) rest = b" "rest' = r"
    using 1(3) by (auto simp: One_nat_def split: list.splits)
  show ?thesis using part [OF 1(1)] part [OF 2(1)] 1(2) 2(2,3) by simp
qed

end
