(* ===== verification/Control.thy ===== *)
theory Control
  imports Security
begin

text \<open>
  The deployment lifecycle (\<open>src/backend/control/deployments.py\<close>), data and artifact governance
  (\<open>governance.py\<close>) and the attributes of control events (\<open>observability.py\<close>). The bytes of an artifact file are
  read as a text and hashed by the digest of \<open>pylib\<close>.
\<close>

section \<open>Deployment lifecycle\<close>

datatype DeploymentState = DRAFT | VALIDATING | READY_STATE | ACTIVE | DRAINING | RETIRED | FAILED_STATE

fun DeploymentState_value :: "DeploymentState \<Rightarrow> string" where
  "DeploymentState_value DRAFT = ''draft''"
| "DeploymentState_value VALIDATING = ''validating''"
| "DeploymentState_value READY_STATE = ''ready''"
| "DeploymentState_value ACTIVE = ''active''"
| "DeploymentState_value DRAINING = ''draining''"
| "DeploymentState_value RETIRED = ''retired''"
| "DeploymentState_value FAILED_STATE = ''failed''"

fun TRANSITIONS :: "DeploymentState \<Rightarrow> DeploymentState set" where
  "TRANSITIONS DRAFT = {VALIDATING}"
| "TRANSITIONS VALIDATING = {READY_STATE, FAILED_STATE}"
| "TRANSITIONS READY_STATE = {ACTIVE, RETIRED}"
| "TRANSITIONS ACTIVE = {DRAINING, FAILED_STATE}"
| "TRANSITIONS DRAINING = {RETIRED, FAILED_STATE}"
| "TRANSITIONS FAILED_STATE = {VALIDATING, RETIRED}"
| "TRANSITIONS RETIRED = {}"

record DeploymentActivationEvidence =
  ae_artifact_deployable :: bool
  ae_compatibility_tests_passed :: bool
  ae_identity_verified :: bool

definition approved :: "DeploymentActivationEvidence \<Rightarrow> bool" where
  "approved e = (ae_artifact_deployable e \<and> ae_compatibility_tests_passed e \<and> ae_identity_verified e)"

record DeploymentLifecycle =
  dl_deployment_id :: string
  dl_tenant_id :: string
  dl_state :: DeploymentState

definition lifecycle_transition ::
    "DeploymentLifecycle \<Rightarrow> DeploymentState \<Rightarrow> DeploymentActivationEvidence option \<Rightarrow> exn + DeploymentLifecycle" where
  "lifecycle_transition d target evidence =
     bind_r (require (target \<in> TRANSITIONS (dl_state d))
       (ValueError (''Invalid deployment transition: '' @ DeploymentState_value (dl_state d) @ '' -> ''
          @ DeploymentState_value target))) (\<lambda>_.
     bind_r (require (\<not> (target = ACTIVE \<and> (case evidence of None \<Rightarrow> True | Some e \<Rightarrow> \<not> approved e)))
       (ValueError ''Deployment activation requires complete verified evidence.'')) (\<lambda>_.
     Inr \<lparr>dl_deployment_id = dl_deployment_id d, dl_tenant_id = dl_tenant_id d, dl_state = target\<rparr>))"

section \<open>Data and artifact governance\<close>

datatype DataClassification = PUBLIC | INTERNAL | CONFIDENTIAL | RESTRICTED

record DataGovernancePolicy =
  gp_classification :: DataClassification
  gp_allowed_locations :: "string set"
  gp_retention :: int
  gp_log_payloads :: bool

definition DataGovernancePolicy_post_init :: "DataGovernancePolicy \<Rightarrow> exn + unit" where
  "DataGovernancePolicy_post_init p =
     bind_r (require (\<not> (gp_allowed_locations p = {} \<or> gp_retention p \<le> 0))
       (ValueError ''Governance requires locations and positive retention.'')) (\<lambda>_.
     require (\<not> (gp_classification p = RESTRICTED \<and> gp_log_payloads p))
       (ValueError ''Restricted payloads cannot be logged.''))"

record ArtifactManifest =
  am_artifact_id :: string
  am_sha256 :: string
  am_signature_verified :: bool
  am_scan_passed :: bool
  am_provenance_uri :: string
  am_sbom_uri :: string
  am_attestation_verified :: bool
  am_image_digest :: string

text \<open>\<open>re.fullmatch\<close> of \<open>[0-9a-f]{64}\<close>.\<close>

definition hex64 :: "string \<Rightarrow> bool" where
  "hex64 s = (length s = 64 \<and> list_all (\<lambda>c. c \<in> set ''0123456789abcdef'') s)"

definition ArtifactManifest_post_init :: "ArtifactManifest \<Rightarrow> exn + unit" where
  "ArtifactManifest_post_init m =
     bind_r (require (strip (am_artifact_id m) \<noteq> []) (ValueError ''Artifact identifiers must not be blank.'')) (\<lambda>_.
     bind_r (require (hex64 (am_sha256 m)) (ValueError ''Artifact SHA-256 must be 64 lowercase hex characters.'')) (\<lambda>_.
     bind_r (require (prefixed ''sha256:'' (am_image_digest m) \<and> hex64 (drop 7 (am_image_digest m)))
       (ValueError ''Container images must use immutable SHA-256 digests.'')) (\<lambda>_.
     bind_r (require (prefixed ''https://'' (am_provenance_uri m))
       (ValueError ''Artifact provenance requires an HTTPS URI.'')) (\<lambda>_.
     require (prefixed ''https://'' (am_sbom_uri m)) (ValueError ''Artifact SBOM requires an HTTPS URI.'')))))"

definition deployable :: "ArtifactManifest \<Rightarrow> bool" where
  "deployable m = (am_signature_verified m \<and> am_attestation_verified m \<and> am_scan_passed m)"

definition verify_artifact :: "pylib \<Rightarrow> string \<Rightarrow> ArtifactManifest \<Rightarrow> bool" where
  "verify_artifact L content m = (deployable m \<and> sha256_hex L content = am_sha256 m)"

section \<open>Control events\<close>

record ControlEvent =
  ce_event_name :: string
  ce_tenant_id :: string
  ce_request_id :: "string option"
  ce_occurred_at :: datetime
  ce_attributes :: "(string \<times> json) list"

fun safe_string :: "json \<Rightarrow> bool" where
  "safe_string (JStr s) = (length s \<le> 256 \<and> \<not> list_ex (\<lambda>c. (of_char c :: nat) < 32) s)"
| "safe_string _ = False"

fun safe_count :: "json \<Rightarrow> bool" where
  "safe_count (JInt n) = (n \<ge> 0)"
| "safe_count _ = False"

definition safe_attributes :: "ControlEvent \<Rightarrow> (string \<times> json) list" where
  "safe_attributes e = filter (\<lambda>(key, value).
       key \<in> set [''deployment_id'', ''operation'', ''status'', ''failure_code'', ''path'', ''required_role''] \<and> safe_string value
     \<or> key \<in> set [''estimated_tokens'', ''deployment_count''] \<and> safe_count value) (ce_attributes e)"

end
