(* ===== verification/ControlTheorems.thy ===== *)
theory ControlTheorems
  imports Control
begin

text \<open>
  What the control plane promises: an issued key authenticates its owner and nothing else does, and a deployment
  becomes active only through validation and with complete evidence.
\<close>

section \<open>API keys\<close>

text \<open>
  An issued key authenticates: as long as its record is stored and not revoked and its time has not come, the text
  handed out returns the owner, whatever the secret is made of. The identifier is hexadecimal, so it has no
  underscore; the secret may have some.
\<close>

lemma issued_key_authenticates:
  assumes "issue_api_key digest key_id secret salt who expires_at = Inr (key, r)"
    and "CHR ''_'' \<notin> set key_id" and "map_of records key_id = Some r"
    and "case expires_at of None \<Rightarrow> True | Some t \<Rightarrow> clk < instant_of t"
  shows "authenticate_api_key digest key records clk None = Inr (Some who)"
proof -
  obtain dg where dg: "digest secret salt = Inr dg" and key: "key = ''ryuk_'' @ key_id @ ''_'' @ secret"
    and r: "r = \<lparr>ak_key_id = key_id, ak_salt = salt, ak_digest = dg, ak_principal = who, ak_expires_at = expires_at, ak_revoked_at = None\<rparr>"
    and aware: "case expires_at of None \<Rightarrow> True | Some t \<Rightarrow> is_aware t"
    using assms(1) by (auto simp: issue_api_key_def Let_def bind_r_eq_Inr APIKeyRecord_post_init_def split: option.splits)
  have "split_max (CHR ''_'') 2 key = [''ryuk'', key_id, secret]"
    using split_max_append [of "CHR ''_''" "''ryuk''" 1 "key_id @ ''_'' @ secret"] split_max_append [OF assms(2), of 0 secret]
    by (simp add: key numeral_2_eq_2)
  moreover have "key_ended r (Aware clk) = Inr False"
    using assms(4) aware by (auto simp: key_ended_def r split: option.splits elim: is_aware.elims)
  ultimately show ?thesis using assms(3) dg by (simp add: authenticate_api_key_def r)
qed

definition operator :: Principal where
  "operator = \<lparr>pr_principal_id = ''op'', pr_tenant_id = ''acme'', pr_roles = {OPERATOR}\<rparr>"

definition sample_digest :: digest where
  "sample_digest secret salt = Inr (salt @ secret)"

definition operator_key :: APIKeyRecord where
  "operator_key = \<lparr>ak_key_id = ''ab'', ak_salt = ''00'', ak_digest = ''00s_e_c'', ak_principal = operator,
     ak_expires_at = Some (Aware 100), ak_revoked_at = None\<rparr>"

text \<open>
  Nothing else authenticates: a text that returns a principal is made of the identifier of a stored record and of a
  secret with the stored digest, and the record is neither revoked nor past its time.
\<close>

lemma authenticates_live_key:
  assumes "authenticate_api_key digest value records clk None = Inr (Some who)"
    and "\<forall>(k, r) \<in> set records. APIKeyRecord_post_init r = Inr ()"
  shows "\<exists>key_id secret r. value = ''ryuk_'' @ key_id @ ''_'' @ secret \<and> map_of records key_id = Some r
    \<and> digest secret (ak_salt r) = Inr (ak_digest r) \<and> ak_principal r = who \<and> ak_revoked_at r = None
    \<and> (\<forall>t. ak_expires_at r = Some t \<longrightarrow> clk < instant_of t)"
proof -
  obtain key_id secret r where sp: "split_max (CHR ''_'') 2 value = [''ryuk'', key_id, secret]"
    and r: "map_of records key_id = Some r" "digest secret (ak_salt r) = Inr (ak_digest r)" "ak_principal r = who"
      "key_ended r (Aware clk) = Inr False"
    using assms(1)
    by (auto simp: authenticate_api_key_def bind_r_eq_Inr split: list.splits option.splits if_splits)
  have "APIKeyRecord_post_init r = Inr ()" using assms(2) map_of_SomeD [OF r(1)] by auto
  then have "\<forall>t. ak_expires_at r = Some t \<longrightarrow> is_aware t"
    by (auto simp: APIKeyRecord_post_init_def bind_r_eq_Inr)
  then have "ak_revoked_at r = None \<and> (\<forall>t. ak_expires_at r = Some t \<longrightarrow> clk < instant_of t)"
    using r(4) by (auto simp: key_ended_def split: if_splits option.splits elim!: is_aware.elims)
  moreover have "value = ''ryuk_'' @ key_id @ ''_'' @ secret" using split_max_parts [OF sp] by simp
  ultimately show ?thesis using r by blast
qed

section \<open>Deployment lifecycle\<close>

inductive lifecycle_step :: "DeploymentLifecycle \<Rightarrow> DeploymentLifecycle \<Rightarrow> bool" where
  "lifecycle_transition d target evidence = Inr d' \<Longrightarrow> lifecycle_step d d'"

lemma lifecycle_stepD: "lifecycle_step d d' \<Longrightarrow> dl_state d' \<in> TRANSITIONS (dl_state d)
    \<and> dl_deployment_id d' = dl_deployment_id d \<and> dl_tenant_id d' = dl_tenant_id d"
  by (auto simp: lifecycle_transition_def bind_r_eq_Inr elim!: lifecycle_step.cases)

text \<open>The states a run goes through, from the start on.\<close>

fun visited :: "DeploymentLifecycle list \<Rightarrow> DeploymentState list" where
  "visited ds = map dl_state ds"

lemma run_to_active:
  assumes "run_from lifecycle_step d ds" and "dl_state (last (d # ds)) \<in> {READY_STATE, ACTIVE, DRAINING}"
    and "dl_state d \<in> {DRAFT, FAILED_STATE, VALIDATING}"
  shows "VALIDATING \<in> set (visited (d # ds)) \<and> READY_STATE \<in> set (visited (d # ds))"
  using assms
proof (induction ds arbitrary: d)
  case (Cons e ds)
  then have step: "dl_state e \<in> TRANSITIONS (dl_state d)" and run: "run_from lifecycle_step e ds"
    and last: "dl_state (last (e # ds)) \<in> {READY_STATE, ACTIVE, DRAINING}"
    using lifecycle_stepD by auto
  have "ds \<noteq> []" if "dl_state e = RETIRED" using last that by auto
  have "\<not> run_from lifecycle_step e ds \<or> ds = []" if "dl_state e = RETIRED"
    using that lifecycle_stepD [of e] by (cases ds) auto
  then have "dl_state e \<noteq> RETIRED" using run last by auto
  then have "dl_state e \<in> {VALIDATING, READY_STATE, FAILED_STATE}" using step Cons.prems(3) by auto
  then show ?case
  proof (cases "dl_state e = READY_STATE")
    case True
    then show ?thesis using step Cons.prems(3) by auto
  next
    case False
    then have "dl_state e \<in> {DRAFT, FAILED_STATE, VALIDATING}"
      using \<open>dl_state e \<in> {VALIDATING, READY_STATE, FAILED_STATE}\<close> by auto
    from Cons.IH [OF run last this] show ?thesis by auto
  qed
qed auto

text \<open>
  A deployment becomes active only through validation: every run from a draft that ends active has been validating
  and ready before, and the step from ready to active is taken exactly with complete evidence.
\<close>

theorem activation_is_validated:
  assumes "dl_state d = DRAFT" and "run_from lifecycle_step d (ds @ [e, f])" and "dl_state f = ACTIVE"
  shows "VALIDATING \<in> set (map dl_state (ds @ [e])) \<and> dl_state e = READY_STATE
    \<and> (\<forall>evidence. lifecycle_transition e ACTIVE evidence = Inr f \<longleftrightarrow>
         (\<exists>v. evidence = Some v \<and> ae_artifact_deployable v \<and> ae_compatibility_tests_passed v \<and> ae_identity_verified v))
    \<and> dl_deployment_id f = dl_deployment_id d \<and> dl_tenant_id f = dl_tenant_id d"
proof -
  have split: "run_from lifecycle_step x (xs @ ys) \<longleftrightarrow> run_from lifecycle_step x xs \<and> run_from lifecycle_step (last (x # xs)) ys" for x xs ys
    by (induction xs arbitrary: x) auto
  have 1: "run_from lifecycle_step d (ds @ [e])" and 2: "lifecycle_step e f"
    using assms(2) split [of d "ds @ [e]" "[f]"] by auto
  have e: "dl_state e = READY_STATE" using lifecycle_stepD [OF 2] assms(3) by (cases "dl_state e") auto
  have "VALIDATING \<in> set (map dl_state (d # ds @ [e]))"
    using run_to_active [OF 1] assms(1) e by simp
  moreover have "dl_deployment_id (last (d # xs)) = dl_deployment_id d \<and> dl_tenant_id (last (d # xs)) = dl_tenant_id d"
    if "run_from lifecycle_step d xs" for xs
    using that
  proof (induction xs arbitrary: d)
    case (Cons x xs)
    then show ?case using lifecycle_stepD [of d x] by (cases xs) auto
  qed simp
  from this [OF 1] lifecycle_stepD [OF 2]
  have ids: "dl_deployment_id f = dl_deployment_id d \<and> dl_tenant_id f = dl_tenant_id d" by simp
  have f: "f = \<lparr>dl_deployment_id = dl_deployment_id e, dl_tenant_id = dl_tenant_id e, dl_state = ACTIVE\<rparr>"
    using lifecycle_stepD [OF 2] assms(3) by simp
  have "lifecycle_transition e ACTIVE evidence = Inr f \<longleftrightarrow> (\<exists>v. evidence = Some v \<and> approved v)" for evidence
    using e f by (auto simp: lifecycle_transition_def bind_r_eq_Inr split: option.splits)
  then show ?thesis using calculation assms(1) e ids by (auto simp: approved_def)
qed

definition stage :: "DeploymentState \<Rightarrow> DeploymentLifecycle" where
  "stage s = \<lparr>dl_deployment_id = ''d'', dl_tenant_id = ''t'', dl_state = s\<rparr>"

theorem activation_is_validated_witness:
  "\<forall>evidence. lifecycle_transition (stage READY_STATE) ACTIVE evidence = Inr (stage ACTIVE) \<longleftrightarrow>
     (\<exists>v. evidence = Some v \<and> ae_artifact_deployable v \<and> ae_compatibility_tests_passed v \<and> ae_identity_verified v)"
proof -
  let ?v = "\<lparr>ae_artifact_deployable = True, ae_compatibility_tests_passed = True, ae_identity_verified = True\<rparr>"
  have "lifecycle_transition (stage DRAFT) VALIDATING None = Inr (stage VALIDATING)"
    and "lifecycle_transition (stage VALIDATING) READY_STATE None = Inr (stage READY_STATE)"
    and "lifecycle_transition (stage READY_STATE) ACTIVE (Some ?v) = Inr (stage ACTIVE)"
    by (simp_all add: lifecycle_transition_def stage_def approved_def)
  then have "run_from lifecycle_step (stage DRAFT) ([stage VALIDATING] @ [stage READY_STATE, stage ACTIVE])"
    by (auto intro: lifecycle_step.intros)
  from activation_is_validated [OF _ this] show ?thesis by (simp add: stage_def)
qed

end
