(* ===== verification/Records.thy ===== *)
theory Records
  imports JsonText Dict
begin

text \<open>
  Execution records (\<open>src/backend/control/records.py\<close>): append-only records per tenant and request, in SQLite
  (\<open>SQLiteExecutionRecordStore\<close>) and in PostgreSQL (\<open>PostgreSQLExecutionRecordStore\<close>). Both provide the locale
  \<open>record_store\<close>: what was put last under a tenant and request is what is read. A table is the list of its
  rows in the order of their sequence numbers. The \<open>JSONB\<close> column is the argument \<open>jsonb\<close>, from the text that is
  inserted to the value the driver returns.
\<close>

section \<open>Records\<close>

record ExecutionRecord =
  er_request_id :: string
  er_tenant_id :: string
  er_status :: string
  er_policy_version :: string
  er_payload :: json
  er_created_at :: datetime

definition ExecutionRecord_post_init :: "ExecutionRecord \<Rightarrow> exn + unit" where
  "ExecutionRecord_post_init r = require (is_aware (er_created_at r))
     (ValueError ''Execution record timestamps require timezone data.'')"

definition record_key :: "ExecutionRecord \<Rightarrow> string \<times> string" where
  "record_key r = (er_tenant_id r, er_request_id r)"

text \<open>Equal up to the order of the members of the payload.\<close>

definition same_record :: "ExecutionRecord \<Rightarrow> ExecutionRecord \<Rightarrow> bool" where
  "same_record r r' \<longleftrightarrow> r'\<lparr>er_payload := er_payload r\<rparr> = r \<and> sort_keys (er_payload r') = sort_keys (er_payload r)"

text \<open>\<open>json.dumps(payload, sort_keys=True)\<close> with the separators of the default.\<close>

fun print_spaced :: "pylib \<Rightarrow> json \<Rightarrow> string"
  and print_spaced_list :: "pylib \<Rightarrow> json list \<Rightarrow> string list"
  and print_spaced_members :: "pylib \<Rightarrow> (string \<times> json) list \<Rightarrow> string list" where
  "print_spaced L (JArr xs) = ''['' @ join '', '' (print_spaced_list L xs) @ '']''"
| "print_spaced L (JObj ms) = ''{'' @ join '', '' (print_spaced_members L ms) @ ''}''"
| "print_spaced L v = print_json L v"
| "print_spaced_list L [] = []"
| "print_spaced_list L (x # xs) = print_spaced L x # print_spaced_list L xs"
| "print_spaced_members L [] = []"
| "print_spaced_members L ((k, v) # ms) = (print_string k @ '': '' @ print_spaced L v) # print_spaced_members L ms"

definition dumps_sorted :: "pylib \<Rightarrow> json \<Rightarrow> string" where
  "dumps_sorted L v = print_spaced L (sort_keys v)"

section \<open>The interface\<close>

locale record_store =
  fixes ok :: "'s \<Rightarrow> bool"
    and put :: "ExecutionRecord \<Rightarrow> 's \<Rightarrow> 's"
    and get :: "string \<Rightarrow> string \<Rightarrow> 's \<Rightarrow> exn + ExecutionRecord option"
    and storable :: "ExecutionRecord \<Rightarrow> bool"
  assumes put_ok: "ok s \<Longrightarrow> ok (put r s)"
    and get_put_same: "ok s \<Longrightarrow> storable r \<Longrightarrow>
      \<exists>r'. get (er_tenant_id r) (er_request_id r) (put r s) = Inr (Some r') \<and> same_record r r'"
    and get_put_other: "ok s \<Longrightarrow> record_key r \<noteq> (t, q) \<Longrightarrow> get t q (put r s) = get t q s"
begin

lemma put_all_ok: "ok s \<Longrightarrow> ok (fold put rs s)"
  by (induction rs arbitrary: s) (auto intro: put_ok)

text \<open>After any sequence of puts the record that is read is the last one put for its key.\<close>

lemma latest_record:
  assumes "ok s" and "\<forall>r \<in> set rs. storable r"
  shows "case List.find (\<lambda>r. record_key r = (t, q)) (rev rs) of
      None \<Rightarrow> get t q (fold put rs s) = get t q s
    | Some r \<Rightarrow> \<exists>r'. get t q (fold put rs s) = Inr (Some r') \<and> same_record r r'"
  using assms
proof (induction rs rule: rev_induct)
  case (snoc r rs)
  have ok: "ok (fold put rs s)" using put_all_ok snoc.prems(1) .
  show ?case
  proof (cases "record_key r = (t, q)")
    case True
    then show ?thesis using get_put_same [OF ok, of r] snoc.prems(2) by (auto simp: record_key_def)
  next
    case False
    then show ?thesis using get_put_other [OF ok False] snoc by (auto split: option.splits)
  qed
qed simp

end

section \<open>SQLite\<close>

record record_row =
  rr_request_id :: string
  rr_tenant_id :: string
  rr_status :: string
  rr_policy_version :: string
  rr_payload_json :: string
  rr_created_at :: string

record records_db =
  rd_schema_meta :: "int list"
  rd_records :: "record_row list option"
  rd_records_v1 :: "record_row list option"

text \<open>\<open>_migrate\<close>. A missing table and a name that is taken are errors of SQLite.\<close>

definition create_records_table :: "records_db \<Rightarrow> records_db" where
  "create_records_table d = (if rd_records d = None then d\<lparr>rd_records := Some []\<rparr> else d)"

definition migrate_v1 :: "records_db \<Rightarrow> exn + records_db" where
  "migrate_v1 d =
     (case rd_records d of
        None \<Rightarrow> Inl (OperationalError ''no such table: execution_records'')
      | Some rows \<Rightarrow>
          if rd_records_v1 d \<noteq> None
          then Inl (OperationalError ''there is already another table or index with this name: execution_records_v1'')
          else Inr (d\<lparr>rd_records := Some rows, rd_records_v1 := None, rd_schema_meta := map (\<lambda>_. 2) (rd_schema_meta d)\<rparr>))"

definition migrate_records :: "records_db \<Rightarrow> exn + records_db" where
  "migrate_records d =
     map_r create_records_table
       (case rd_schema_meta d of
          [] \<Rightarrow> Inr (d\<lparr>rd_schema_meta := [2]\<rparr>)
        | v # _ \<Rightarrow>
            if v = 1 then migrate_v1 d
            else if v \<noteq> 2 then Inl (RuntimeError ''Unsupported execution-record schema version.'')
            else Inr d)"

text \<open>Migration leaves the table in place, so that a put finds it.\<close>

definition put_record :: "pylib \<Rightarrow> ExecutionRecord \<Rightarrow> records_db \<Rightarrow> records_db" where
  "put_record L r d = d\<lparr>rd_records := map_option (\<lambda>rows. rows @ [\<lparr>rr_request_id = er_request_id r, rr_tenant_id = er_tenant_id r,
     rr_status = er_status r, rr_policy_version = er_policy_version r, rr_payload_json = dumps_sorted L (er_payload r),
     rr_created_at = isoformat L (instant_of (er_created_at r))\<rparr>]) (rd_records d)\<rparr>"

definition record_of_row :: "pylib \<Rightarrow> record_row \<Rightarrow> exn + ExecutionRecord" where
  "record_of_row L row =
     (case loads L (rr_payload_json row) of
        None \<Rightarrow> Inl (ValueError ''JSONDecodeError'')
      | Some content \<Rightarrow>
          (case fromisoformat L (rr_created_at row) of
             None \<Rightarrow> Inl (ValueError ''Invalid isoformat string'')
           | Some created \<Rightarrow>
               let r = \<lparr>er_request_id = rr_request_id row, er_tenant_id = rr_tenant_id row, er_status = rr_status row,
                        er_policy_version = rr_policy_version row, er_payload = content, er_created_at = created\<rparr> in
               bind_r (ExecutionRecord_post_init r) (\<lambda>_. Inr r)))"

definition get_record :: "pylib \<Rightarrow> string \<Rightarrow> string \<Rightarrow> records_db \<Rightarrow> exn + ExecutionRecord option" where
  "get_record L tenant_id request_id d =
     (case rd_records d of
        None \<Rightarrow> Inl (OperationalError ''no such table: execution_records'')
      | Some rows \<Rightarrow>
          (case List.find (\<lambda>row. rr_tenant_id row = tenant_id \<and> rr_request_id row = request_id) (rev rows) of
             None \<Rightarrow> Inr None
           | Some row \<Rightarrow> map_r Some (record_of_row L row)))"

text \<open>A record the columns can hold: the standard library reads back what it printed.\<close>

definition record_storable :: "pylib \<Rightarrow> ExecutionRecord \<Rightarrow> bool" where
  "record_storable L r \<longleftrightarrow> is_aware (er_created_at r) \<and> loads L (dumps_sorted L (er_payload r)) = Some (sort_keys (er_payload r))
     \<and> fromisoformat L (isoformat L (instant_of (er_created_at r))) = Some (Aware (instant_of (er_created_at r)))"

lemma aware_instant: "is_aware t \<Longrightarrow> Aware (instant_of t) = t"
  by (cases t) auto

interpretation sqlite_records: record_store "\<lambda>d. rd_records d \<noteq> None" "put_record L" "get_record L" "record_storable L" for L
proof
  fix d :: records_db and r assume "rd_records d \<noteq> None" and "record_storable L r"
  then show "\<exists>r'. get_record L (er_tenant_id r) (er_request_id r) (put_record L r d) = Inr (Some r') \<and> same_record r r'"
    using aware_instant [of "er_created_at r"]
    by (auto simp: get_record_def put_record_def record_of_row_def record_storable_def same_record_def Let_def
        ExecutionRecord_post_init_def map_r_def)
qed (auto simp: put_record_def get_record_def record_key_def)

text \<open>The process may die while it migrates. The driver opens a transaction before an insertion, not before a
  statement that changes the schema: the renaming and the creation are committed at once, all that follows is
  committed together at the end. What is found at the next start has the old version and both tables.\<close>

definition migration_interrupted :: "records_db \<Rightarrow> records_db" where
  "migration_interrupted d = d\<lparr>rd_records_v1 := rd_records d, rd_records := Some []\<rparr>"

lemma migration_not_resumable:
  assumes "rd_schema_meta d = [1]" and "rd_records d = Some rows"
  shows "\<exists>m. migrate_records (migration_interrupted d) = Inl (OperationalError m)"
  using assms by (simp add: migrate_records_def migrate_v1_def migration_interrupted_def)

section \<open>PostgreSQL\<close>

record pg_row =
  pg_request_id :: string
  pg_tenant_id :: string
  pg_status :: string
  pg_policy_version :: string
  pg_payload :: json
  pg_created_at :: datetime

record pg_db =
  pg_schema_meta :: "(string \<times> int) list"
  pg_records :: "pg_row list option"

definition pg_migrate :: "pg_db \<Rightarrow> exn + pg_db" where
  "pg_migrate d =
     (let found = map_of (pg_schema_meta d) ''execution_records'' in
      bind_r (require (\<not> (case found of None \<Rightarrow> False | Some v \<Rightarrow> v \<noteq> 1))
        (RuntimeError ''Unsupported PostgreSQL record schema version.'')) (\<lambda>_.
      Inr (d\<lparr>pg_records := (if pg_records d = None then Some [] else pg_records d),
             pg_schema_meta := (if found = None then dict_put ''execution_records'' 1 (pg_schema_meta d) else pg_schema_meta d)\<rparr>)))"

definition pg_put :: "pylib \<Rightarrow> (string \<Rightarrow> json) \<Rightarrow> ExecutionRecord \<Rightarrow> pg_db \<Rightarrow> pg_db" where
  "pg_put L jsonb r d = d\<lparr>pg_records := map_option (\<lambda>rows. rows @ [\<lparr>pg_request_id = er_request_id r, pg_tenant_id = er_tenant_id r,
     pg_status = er_status r, pg_policy_version = er_policy_version r, pg_payload = jsonb (dumps_sorted L (er_payload r)),
     pg_created_at = er_created_at r\<rparr>]) (pg_records d)\<rparr>"

definition pg_record_of_row :: "pylib \<Rightarrow> pg_row \<Rightarrow> exn + ExecutionRecord" where
  "pg_record_of_row L row =
     bind_r (if is_dict (pg_payload row) then Inr (pg_payload row)
             else case pg_payload row of
                    JStr s \<Rightarrow> (case loads L s of None \<Rightarrow> Inl (ValueError ''JSONDecodeError'') | Some v \<Rightarrow> Inr v)
                  | _ \<Rightarrow> Inl (TypeError ''the JSON object must be str, bytes or bytearray'')) (\<lambda>content.
     let r = \<lparr>er_request_id = pg_request_id row, er_tenant_id = pg_tenant_id row, er_status = pg_status row,
              er_policy_version = pg_policy_version row, er_payload = content, er_created_at = pg_created_at row\<rparr> in
     bind_r (ExecutionRecord_post_init r) (\<lambda>_. Inr r))"

definition pg_get :: "pylib \<Rightarrow> string \<Rightarrow> string \<Rightarrow> pg_db \<Rightarrow> exn + ExecutionRecord option" where
  "pg_get L tenant_id request_id d =
     (case pg_records d of
        None \<Rightarrow> Inl (OperationalError ''relation execution_records does not exist'')
      | Some rows \<Rightarrow>
          (case List.find (\<lambda>row. pg_tenant_id row = tenant_id \<and> pg_request_id row = request_id) (rev rows) of
             None \<Rightarrow> Inr None
           | Some row \<Rightarrow> map_r Some (pg_record_of_row L row)))"

text \<open>The column keeps the value of a document, not the order of its members.\<close>

definition pg_storable :: "pylib \<Rightarrow> (string \<Rightarrow> json) \<Rightarrow> ExecutionRecord \<Rightarrow> bool" where
  "pg_storable L jsonb r \<longleftrightarrow> is_aware (er_created_at r) \<and> is_dict (jsonb (dumps_sorted L (er_payload r)))
     \<and> sort_keys (jsonb (dumps_sorted L (er_payload r))) = sort_keys (er_payload r)"

interpretation postgres_records: record_store "\<lambda>d. pg_records d \<noteq> None" "pg_put L jsonb" "pg_get L" "pg_storable L jsonb"
  for L jsonb
proof
  fix d :: pg_db and r assume "pg_records d \<noteq> None" and "pg_storable L jsonb r"
  then show "\<exists>r'. pg_get L (er_tenant_id r) (er_request_id r) (pg_put L jsonb r d) = Inr (Some r') \<and> same_record r r'"
    by (auto simp: pg_get_def pg_put_def pg_record_of_row_def pg_storable_def same_record_def Let_def
        ExecutionRecord_post_init_def map_r_def)
qed (auto simp: pg_put_def pg_get_def record_key_def)

section \<open>What both promise\<close>

text \<open>
  The record that is read is the last one put for the tenant and the request, in both stores and after any sequence of
  puts: a put for another tenant or another request never shows, and a request never put has none.
\<close>

theorem latest_record_is_read:
  assumes "migrate_records d0 = Inr d" and "pg_migrate g0 = Inr g"
    and "\<forall>r \<in> set rs. record_storable L r \<and> pg_storable L jsonb r"
  shows "case List.find (\<lambda>r. record_key r = (t, q)) (rev rs) of
      None \<Rightarrow> get_record L t q (fold (put_record L) rs d) = get_record L t q d
        \<and> pg_get L t q (fold (pg_put L jsonb) rs g) = pg_get L t q g
    | Some r \<Rightarrow> \<exists>r' r''. get_record L t q (fold (put_record L) rs d) = Inr (Some r') \<and> same_record r r'
        \<and> pg_get L t q (fold (pg_put L jsonb) rs g) = Inr (Some r'') \<and> same_record r r''"
proof -
  have "rd_records d \<noteq> None" using assms(1) by (auto simp: migrate_records_def map_r_eq_Inr create_records_table_def)
  moreover have "pg_records g \<noteq> None" using assms(2) by (auto simp: pg_migrate_def Let_def bind_r_eq_Inr)
  ultimately show ?thesis
    using sqlite_records.latest_record [of d rs L t q] postgres_records.latest_record [of g rs L jsonb t q] assms(3)
    by (auto split: option.splits)
qed

definition sample_record :: "string \<Rightarrow> ExecutionRecord" where
  "sample_record status = \<lparr>er_request_id = ''r'', er_tenant_id = ''t'', er_status = status, er_policy_version = ''v1'',
     er_payload = JObj [(''b'', JInt 1), (''a'', JArr [JStr ''x'', JNull])], er_created_at = Aware 5\<rparr>"

definition sample_jsonb :: "string \<Rightarrow> json" where
  "sample_jsonb s = (case json_loads s of None \<Rightarrow> JNull | Some v \<Rightarrow> v)"

theorem latest_record_is_read_witness:
  "\<exists>r'. get_record sample_lib ''t'' ''r'' (fold (put_record sample_lib) [sample_record ''started'', sample_record ''done'']
      \<lparr>rd_schema_meta = [2], rd_records = Some [], rd_records_v1 = None\<rparr>) = Inr (Some r') \<and> same_record (sample_record ''done'') r'"
proof -
  have "record_storable sample_lib (sample_record ''started'') \<and> pg_storable sample_lib sample_jsonb (sample_record ''started'')"
    and "record_storable sample_lib (sample_record ''done'') \<and> pg_storable sample_lib sample_jsonb (sample_record ''done'')"
    by code_simp+
  then have s: "\<forall>r \<in> set [sample_record ''started'', sample_record ''done''].
      record_storable sample_lib r \<and> pg_storable sample_lib sample_jsonb r" by simp
  have m: "migrate_records \<lparr>rd_schema_meta = [], rd_records = None, rd_records_v1 = None\<rparr>
      = Inr \<lparr>rd_schema_meta = [2], rd_records = Some [], rd_records_v1 = None\<rparr>"
    "pg_migrate \<lparr>pg_schema_meta = [], pg_records = None\<rparr> = Inr \<lparr>pg_schema_meta = [(''execution_records'', 1)], pg_records = Some []\<rparr>"
    by code_simp+
  have "record_key (sample_record ''done'') = (''t'', ''r'')" by (simp add: record_key_def sample_record_def)
  with latest_record_is_read [OF m s, of "''t''" "''r''"] show ?thesis by auto
qed

end
