(* ===== verification/Evaluation.thy ===== *)
theory Evaluation
  imports Validation Policy
begin

text \<open>
  Audit reports and the evaluation policy (\<open>src/backend/audit/contracts.py\<close>, \<open>audit/policy.py\<close>), the replay of a
  routing corpus (\<open>evaluation/routing.py\<close>), of an audit corpus (\<open>evaluation/audit.py\<close>) and the gate for serving
  candidates (\<open>evaluation/serving.py\<close>). A corpus is given as parsed values: reading the JSON files and calling the
  constructors on their members is not modelled. Floats are rationals.
\<close>

section \<open>Audit reports\<close>

record AuditIdentity =
  ai_deployment_id :: string
  ai_model_artifact_id :: string
  ai_model_revision :: "string option"

definition AuditIdentity_post_init :: "AuditIdentity \<Rightarrow> exn + unit" where
  "AuditIdentity_post_init a =
     require (\<not> (strip (ai_deployment_id a) = [] \<or> strip (ai_model_artifact_id a) = []))
       (ValueError ''Audit identities must not be blank.'')"

record ClaimAssessment =
  ca_claim :: string
  ca_evidence_required :: bool
  ca_supported :: "bool option"
  ca_uncertainty :: rat

definition ClaimAssessment_post_init :: "ClaimAssessment \<Rightarrow> exn + unit" where
  "ClaimAssessment_post_init c =
     require (\<not> (strip (ca_claim c) = [] \<or> \<not> (0 \<le> ca_uncertainty c \<and> ca_uncertainty c \<le> 1)))
       (ValueError ''Claim assessment is invalid.'')"

record AuditReport =
  rp_report_version :: string
  rp_generator :: AuditIdentity
  rp_auditor :: "AuditIdentity option"
  rp_deterministic_findings :: "AuditFinding list"
  rp_claims :: "ClaimAssessment list"
  rp_instruction_failures :: "string list"
  rp_contradictions :: "string list"
  rp_uncertainty :: rat

definition AuditReport_post_init :: "AuditReport \<Rightarrow> exn + unit" where
  "AuditReport_post_init r =
     require (\<not> (strip (rp_report_version r) = [] \<or> \<not> (0 \<le> rp_uncertainty r \<and> rp_uncertainty r \<le> 1)))
       (ValueError ''Audit report version or uncertainty is invalid.'')"

definition maximum_severity :: "AuditReport \<Rightarrow> int" where
  "maximum_severity r =
     (let severities = map (\<lambda>f. severity_value (fi_severity f)) (rp_deterministic_findings r)
            @ (if rp_instruction_failures r \<noteq> [] \<or> rp_contradictions r \<noteq> [] then [severity_value ERROR] else [])
      in if severities = [] then severity_value INFO else Max (set severities))"

section \<open>The evaluation policy\<close>

datatype EvaluationAction = ACCEPT | REVISE | REGENERATE | VERIFY | REROUTE | ESCALATE

record EvaluationContext =
  ec_iteration :: int
  ec_maximum_iterations :: int
  ec_high_risk :: bool
  ec_independent_verification_complete :: bool

definition EvaluationContext_post_init :: "EvaluationContext \<Rightarrow> exn + unit" where
  "EvaluationContext_post_init c =
     require (\<not> (ec_iteration c < 0 \<or> ec_maximum_iterations c < 0))
       (ValueError ''Evaluation iteration values cannot be negative.'')"

record EvaluationDecision =
  dn_policy_version :: string
  dn_action :: EvaluationAction
  dn_reasons :: "string list"
  dn_iteration :: int

definition decide :: "AuditReport \<Rightarrow> EvaluationContext \<Rightarrow> EvaluationDecision" where
  "decide report context =
     (let (action, reason) =
        (if ec_iteration context \<ge> ec_maximum_iterations context then (ESCALATE, ''loop_bound_reached'')
         else if ec_high_risk context \<and> \<not> ec_independent_verification_complete context
         then (VERIFY, ''independent_verification_required'')
         else if maximum_severity report \<ge> severity_value CRITICAL then (REROUTE, ''critical_finding'')
         else if rp_contradictions report \<noteq> [] then (REGENERATE, ''contradiction'')
         else if rp_instruction_failures report \<noteq> [] \<or> maximum_severity report \<ge> severity_value ERROR
         then (REVISE, ''correctable_failure'')
         else if rp_uncertainty report \<ge> 1 / 2 \<or> list_ex (\<lambda>c. ca_supported c = None) (rp_claims report)
         then (VERIFY, ''verification_needed'')
         else (ACCEPT, ''acceptance_rules_satisfied''))
      in \<lparr>dn_policy_version = ''ryuk-audit-v1'', dn_action = action, dn_reasons = [reason], dn_iteration = ec_iteration context\<rparr>)"

section \<open>The audit corpus\<close>

record audit_case =
  ac_output :: string
  ac_policy :: ValidationPolicy
  ac_expected_action :: EvaluationAction

record AuditEvaluationReport =
  av_corpus_version :: string
  av_count :: int
  av_action_accuracy :: rat
  av_false_accept_rate :: rat
  av_accepted :: bool

definition case_action :: "pylib \<Rightarrow> audit_case \<Rightarrow> EvaluationAction" where
  "case_action L c =
     dn_action (decide \<lparr>rp_report_version = ''ryuk-audit-report-v1'',
         rp_generator = \<lparr>ai_deployment_id = ''fixture-generator'', ai_model_artifact_id = ''fixture-model'', ai_model_revision = Some ''v1''\<rparr>,
         rp_auditor = None, rp_deterministic_findings = validate_output L (ac_output c) (ac_policy c), rp_claims = [],
         rp_instruction_failures = [], rp_contradictions = [], rp_uncertainty = 0\<rparr>
       \<lparr>ec_iteration = 0, ec_maximum_iterations = 2, ec_high_risk = False, ec_independent_verification_complete = False\<rparr>)"

definition evaluate_audit_corpus ::
    "pylib \<Rightarrow> string \<Rightarrow> audit_case list \<Rightarrow> rat \<Rightarrow> rat \<Rightarrow> exn + AuditEvaluationReport" where
  "evaluate_audit_corpus L version cases minimum_action_accuracy maximum_false_accept_rate =
     (let correct = length (filter (\<lambda>c. case_action L c = ac_expected_action c) cases);
          false_accepts = length (filter (\<lambda>c. case_action L c = ACCEPT \<and> ac_expected_action c \<noteq> ACCEPT) cases);
          count = length cases in
      if count = 0 then Inl (ZeroDivisionError ''division by zero'')
      else let accuracy = of_nat correct / of_nat count; false_accept_rate = of_nat false_accepts / of_nat count in
           Inr \<lparr>av_corpus_version = version, av_count = int count, av_action_accuracy = accuracy,
                av_false_accept_rate = false_accept_rate,
                av_accepted = (accuracy \<ge> minimum_action_accuracy \<and> false_accept_rate \<le> maximum_false_accept_rate)\<rparr>)"

section \<open>The serving gate\<close>

datatype DecisionStatus = ADOPT | HOLD

record ServingBenchmark =
  sb_candidate :: string
  sb_workload_id :: string
  sb_hardware_id :: string
  sb_successful_requests :: int
  sb_failed_requests :: int
  sb_ttft_p95_ms :: rat
  sb_inter_token_p95_ms :: rat
  sb_output_tokens_per_second :: rat
  sb_recovery_seconds :: "rat option"
  sb_kv_reuse_ratio :: "rat option"

definition ServingBenchmark_post_init :: "ServingBenchmark \<Rightarrow> exn + unit" where
  "ServingBenchmark_post_init b =
     bind_r (require (\<not> (strip (sb_candidate b) = [] \<or> strip (sb_workload_id b) = [] \<or> strip (sb_hardware_id b) = []))
       (ValueError ''Benchmark identity fields must not be blank.'')) (\<lambda>_.
     bind_r (require (\<not> (sb_successful_requests b < 1 \<or> sb_failed_requests b < 0))
       (ValueError ''A benchmark needs successful requests and valid counts.'')) (\<lambda>_.
     bind_r (each (\<lambda>value. require (\<not> value < 0) (ValueError ''Benchmark measurements cannot be negative.''))
       [sb_ttft_p95_ms b, sb_inter_token_p95_ms b, sb_output_tokens_per_second b]) (\<lambda>_.
     bind_r (require (\<not> (case sb_recovery_seconds b of None \<Rightarrow> False | Some x \<Rightarrow> x < 0))
       (ValueError ''Recovery time cannot be negative.'')) (\<lambda>_.
     require (\<not> (case sb_kv_reuse_ratio b of None \<Rightarrow> False | Some x \<Rightarrow> \<not> (0 \<le> x \<and> x \<le> 1)))
       (ValueError ''KV reuse ratio must be between zero and one.'')))))"

record AdoptionDecision =
  ad_status :: DecisionStatus
  ad_reasons :: "string list"

definition adoption_reasons :: "ServingBenchmark \<Rightarrow> ServingBenchmark \<Rightarrow> rat \<Rightarrow> rat \<Rightarrow> string list" where
  "adoption_reasons baseline candidate minimum_throughput_gain maximum_ttft_regression =
     (if (sb_workload_id baseline, sb_hardware_id baseline) \<noteq> (sb_workload_id candidate, sb_hardware_id candidate)
      then [''non_comparable_environment''] else [])
     @ (if sb_output_tokens_per_second baseline \<le> 0 then [''invalid_baseline_throughput'']
        else if sb_output_tokens_per_second candidate / sb_output_tokens_per_second baseline - 1 < minimum_throughput_gain
        then [''insufficient_throughput_gain''] else [])
     @ (if sb_ttft_p95_ms baseline \<le> 0 then [''invalid_baseline_ttft'']
        else if sb_ttft_p95_ms candidate > sb_ttft_p95_ms baseline * (1 + maximum_ttft_regression)
        then [''ttft_regression''] else [])
     @ (if sb_failed_requests candidate > sb_failed_requests baseline then [''reliability_regression''] else [])
     @ (if sb_recovery_seconds candidate = None then [''recovery_not_measured''] else [])"

definition evaluate_candidate :: "ServingBenchmark \<Rightarrow> ServingBenchmark \<Rightarrow> rat \<Rightarrow> rat \<Rightarrow> AdoptionDecision" where
  "evaluate_candidate baseline candidate minimum_throughput_gain maximum_ttft_regression =
     (let reasons = adoption_reasons baseline candidate minimum_throughput_gain maximum_ttft_regression in
      \<lparr>ad_status = (if reasons \<noteq> [] then HOLD else ADOPT),
       ad_reasons = (if reasons \<noteq> [] then reasons else [''measured_acceptance_thresholds_met''])\<rparr>)"

section \<open>The routing corpus\<close>

record scenario_outcome =
  oc_completed :: bool
  oc_deadline_met :: "bool option"
  oc_cost :: "rat option"
  oc_latency_ms :: "rat option"

record scenario =
  sc_id :: string
  sc_task :: InferenceTask
  sc_candidates :: "(PolicyCandidate \<times> scenario_outcome option) list"
  sc_preferred_engine :: "string option"
  sc_expected_eligible :: "string list"
  sc_expected_selected :: "string option"

record ScenarioResult =
  sn_scenario_id :: string
  sn_expected_eligible :: "string list"
  sn_actual_eligible :: "string list"
  sn_expected_selected :: "string option"
  sn_selected :: "string option"
  sn_attempt_plan :: "string list"
  sn_completed :: "bool option"
  sn_deadline_met :: "bool option"
  sn_accepted_cost :: "rat option"
  sn_latency_ms :: "rat option"
  sn_failover_recovered :: "bool option"
  sn_stable :: bool
  sn_counterfactual_selections :: "(string \<times> string option) list"

definition first_id :: "RoutingDecision \<Rightarrow> string option" where
  "first_id decision = (case rd_ordered_deployment_ids decision of [] \<Rightarrow> None | i # _ \<Rightarrow> Some i)"

text \<open>The loop over the ranked deployments: the plan, and the outcome it stops at.\<close>

fun follow_plan ::
    "(string \<Rightarrow> scenario_outcome option) \<Rightarrow> string list \<Rightarrow> string list \<Rightarrow> bool option \<Rightarrow>
       string list \<times> bool option \<times> scenario_outcome option" where
  "follow_plan outcomes [] plan completed = (plan, completed, None)"
| "follow_plan outcomes (i # ids) plan completed =
     (case outcomes i of
        None \<Rightarrow> follow_plan outcomes ids plan completed
      | Some outcome \<Rightarrow>
          if oc_completed outcome then (plan @ [i], Some True, Some outcome)
          else follow_plan outcomes ids (plan @ [i]) (Some False))"

definition scenario_eligible :: "requirement_clock \<Rightarrow> scenario \<Rightarrow> PolicyCandidate list" where
  "scenario_eligible clk sc = filter (\<lambda>c. ed_eligible (evaluate_capabilities clk (sc_task sc) (pc_capabilities c)))
     (map fst (sc_candidates sc))"

text \<open>The dictionary of outcomes keeps the last of an identifier; a candidate is removed by identity, which its
  registration index tells.\<close>

definition evaluate_scenario :: "requirement_clock \<Rightarrow> scenario \<Rightarrow> ScenarioResult" where
  "evaluate_scenario clk sc =
     (let eligible = scenario_eligible clk sc;
          decision = rank_candidates (sc_task sc) eligible (sc_preferred_engine sc);
          outcomes = (\<lambda>i. case map_of (map (\<lambda>(c, out). (pc_deployment_id c, out)) (rev (sc_candidates sc))) i of
             None \<Rightarrow> None | Some out \<Rightarrow> out);
          (plan, completed, final) = follow_plan outcomes (rd_ordered_deployment_ids decision) [] None;
          replay = rank_candidates (sc_task sc) (rev eligible) (sc_preferred_engine sc)
      in \<lparr>sn_scenario_id = sc_id sc, sn_expected_eligible = sc_expected_eligible sc,
          sn_actual_eligible = map pc_deployment_id eligible, sn_expected_selected = sc_expected_selected sc,
          sn_selected = first_id decision, sn_attempt_plan = plan, sn_completed = completed,
          sn_deadline_met = Option.bind final oc_deadline_met, sn_accepted_cost = Option.bind final oc_cost,
          sn_latency_ms = Option.bind final oc_latency_ms,
          sn_failover_recovered = (if length plan > 1 then Some (completed = Some True) else None),
          sn_stable = (rd_ordered_deployment_ids replay = rd_ordered_deployment_ids decision),
          sn_counterfactual_selections = map (\<lambda>removed. (pc_deployment_id removed, first_id (rank_candidates (sc_task sc)
             (filter (\<lambda>c. pc_registration_index c \<noteq> pc_registration_index removed) eligible) (sc_preferred_engine sc)))) eligible\<rparr>)"

record EvaluationMetrics =
  em_scenario_count :: int
  em_eligibility_accuracy :: rat
  em_selection_accuracy :: "rat option"
  em_constraint_violation_rate :: rat
  em_completion_success_rate :: "rat option"
  em_deadline_success_rate :: "rat option"
  em_average_cost_per_accepted_result :: "rat option"
  em_average_latency_ms :: "rat option"
  em_failover_recovery_rate :: "rat option"
  em_decision_stability_rate :: rat
  em_outcome_coverage :: rat
  em_quality_label_coverage :: rat
  em_uncertainty_count :: int

definition rate :: "bool list \<Rightarrow> rat option" where
  "rate values = (if values = [] then None else Some (of_nat (length (filter id values)) / of_nat (length values)))"

definition average :: "rat list \<Rightarrow> rat option" where
  "average values = (if values = [] then None else Some (sum_list values / of_nat (length values)))"

definition fraction :: "('a \<Rightarrow> bool) \<Rightarrow> 'a list \<Rightarrow> rat" where
  "fraction P xs = of_nat (length (filter P xs)) / of_nat (length xs)"

definition metrics :: "ScenarioResult list \<Rightarrow> exn + EvaluationMetrics" where
  "metrics results =
     (let labeled = filter (\<lambda>r. sn_expected_selected r \<noteq> None) results;
          completed = List.map_filter sn_completed results in
      if results = [] then Inl (ZeroDivisionError ''division by zero'')
      else Inr \<lparr>em_scenario_count = int (length results),
          em_eligibility_accuracy = fraction (\<lambda>r. sn_actual_eligible r = sn_expected_eligible r) results,
          em_selection_accuracy = (if labeled = [] then None else Some (fraction (\<lambda>r. sn_selected r = sn_expected_selected r) labeled)),
          em_constraint_violation_rate = fraction (\<lambda>r. case sn_selected r of None \<Rightarrow> False
             | Some i \<Rightarrow> i \<notin> set (sn_actual_eligible r)) results,
          em_completion_success_rate = rate completed,
          em_deadline_success_rate = rate (List.map_filter sn_deadline_met results),
          em_average_cost_per_accepted_result = average (List.map_filter sn_accepted_cost results),
          em_average_latency_ms = average (List.map_filter sn_latency_ms results),
          em_failover_recovery_rate = rate (List.map_filter sn_failover_recovered results),
          em_decision_stability_rate = fraction sn_stable results,
          em_outcome_coverage = of_nat (length completed) / of_nat (length results),
          em_quality_label_coverage = 0,
          em_uncertainty_count = int (length (filter (\<lambda>r. sn_completed r = None) results))\<rparr>)"

text \<open>\<open>getattr(metrics, name)\<close>.\<close>

definition metric_value :: "EvaluationMetrics \<Rightarrow> string \<Rightarrow> exn + rat option" where
  "metric_value m name =
     (case map_of [(''scenario_count'', Some (of_int (em_scenario_count m))),
        (''eligibility_accuracy'', Some (em_eligibility_accuracy m)), (''selection_accuracy'', em_selection_accuracy m),
        (''constraint_violation_rate'', Some (em_constraint_violation_rate m)),
        (''completion_success_rate'', em_completion_success_rate m), (''deadline_success_rate'', em_deadline_success_rate m),
        (''average_cost_per_accepted_result'', em_average_cost_per_accepted_result m),
        (''average_latency_ms'', em_average_latency_ms m), (''failover_recovery_rate'', em_failover_recovery_rate m),
        (''decision_stability_rate'', Some (em_decision_stability_rate m)), (''outcome_coverage'', Some (em_outcome_coverage m)),
        (''quality_label_coverage'', Some (em_quality_label_coverage m)),
        (''uncertainty_count'', Some (of_int (em_uncertainty_count m)))] name of
        None \<Rightarrow> Inl (AttributeError name)
      | Some v \<Rightarrow> Inr v)"

text \<open>A failure names the metric, its value and the limit it misses.\<close>

datatype acceptance_failure = Below string "rat option" rat | Above string "rat option" rat

definition acceptance_failures ::
    "EvaluationMetrics \<Rightarrow> (string \<times> rat) list \<Rightarrow> (string \<times> rat) list \<Rightarrow> exn + acceptance_failure list" where
  "acceptance_failures m minimum maximum =
     bind_r (traverse (\<lambda>(name, limit). map_r (\<lambda>v. case v of None \<Rightarrow> [Below name v limit]
         | Some x \<Rightarrow> if x < limit then [Below name v limit] else []) (metric_value m name)) minimum) (\<lambda>low.
     bind_r (traverse (\<lambda>(name, limit). map_r (\<lambda>v. case v of None \<Rightarrow> [Above name v limit]
         | Some x \<Rightarrow> if x > limit then [Above name v limit] else []) (metric_value m name)) maximum) (\<lambda>high.
     Inr (concat low @ concat high)))"

record EvaluationReport =
  ev_corpus_version :: string
  ev_policy_version :: string
  ev_metrics :: EvaluationMetrics
  ev_accepted :: bool
  ev_acceptance_failures :: "acceptance_failure list"
  ev_scenarios :: "ScenarioResult list"

definition evaluate_corpus ::
    "requirement_clock \<Rightarrow> string \<Rightarrow> string \<Rightarrow> scenario list \<Rightarrow> (string \<times> rat) list \<Rightarrow> (string \<times> rat) list \<Rightarrow> exn + EvaluationReport" where
  "evaluate_corpus clk corpus_version policy_version scenarios minimum maximum =
     bind_r (require (policy_version = POLICY_VERSION)
       (ValueError ''Corpus policy_version does not match the active policy.'')) (\<lambda>_.
     let results = map (evaluate_scenario clk) scenarios in
     bind_r (metrics results) (\<lambda>m.
     bind_r (acceptance_failures m minimum maximum) (\<lambda>failures.
     Inr \<lparr>ev_corpus_version = corpus_version, ev_policy_version = POLICY_VERSION, ev_metrics = m,
          ev_accepted = (failures = []), ev_acceptance_failures = failures, ev_scenarios = results\<rparr>)))"

end
