(* ===== verification/EvaluationTheorems.thy ===== *)
theory EvaluationTheorems
  imports Evaluation Samples
begin

text \<open>
  What the evaluation of the routing policy measures follows from the ranking: its decisions are stable and never
  violate a constraint. The other gates accept exactly when nothing speaks against it.
\<close>

section \<open>Gates\<close>

lemma max_severity_le: "maximum_severity r < n \<longleftrightarrow> 1 < n
    \<and> (\<forall>f \<in> set (rp_deterministic_findings r). severity_value (fi_severity f) < n)
    \<and> (rp_instruction_failures r \<noteq> [] \<or> rp_contradictions r \<noteq> [] \<longrightarrow> 3 < n)"
proof -
  have pos: "1 \<le> severity_value x" for x by (cases x) auto
  show ?thesis
    by (auto simp: maximum_severity_def Let_def Max_less_iff neq_Nil_conv dest: order.strict_trans1 [OF pos])
qed

text \<open>
  An output is accepted exactly when the loop has iterations left, a high risk has been verified independently, no
  finding is an error, nothing is contradicted or not followed, and no claim is open.
\<close>

lemma accepts_exactly:
  "dn_action (decide r c) = ACCEPT \<longleftrightarrow>
     ec_iteration c < ec_maximum_iterations c \<and> (ec_high_risk c \<longrightarrow> ec_independent_verification_complete c)
     \<and> (\<forall>f \<in> set (rp_deterministic_findings r). fi_severity f \<in> {INFO, WARNING})
     \<and> rp_contradictions r = [] \<and> rp_instruction_failures r = [] \<and> rp_uncertainty r < 1 / 2
     \<and> (\<forall>x \<in> set (rp_claims r). ca_supported x \<noteq> None)"
proof -
  have sev: "severity_value x < 3 \<longleftrightarrow> x \<in> {INFO, WARNING}" for x by (cases x) auto
  have "dn_action (decide r c) = ACCEPT \<longleftrightarrow>
     ec_iteration c < ec_maximum_iterations c \<and> (ec_high_risk c \<longrightarrow> ec_independent_verification_complete c)
     \<and> maximum_severity r < 3 \<and> rp_contradictions r = [] \<and> rp_instruction_failures r = [] \<and> rp_uncertainty r < 1 / 2
     \<and> (\<forall>x \<in> set (rp_claims r). ca_supported x \<noteq> None)"
    by (auto simp: decide_def Let_def list_ex_iff not_le not_less split: if_splits)
  then show ?thesis using max_severity_le [of r 3] sev by auto
qed

lemma adopts_exactly:
  "ad_status (evaluate_candidate b c gain regression) = ADOPT \<longleftrightarrow>
     sb_workload_id b = sb_workload_id c \<and> sb_hardware_id b = sb_hardware_id c \<and> 0 < sb_output_tokens_per_second b
     \<and> sb_output_tokens_per_second b * (1 + gain) \<le> sb_output_tokens_per_second c \<and> 0 < sb_ttft_p95_ms b
     \<and> sb_ttft_p95_ms c \<le> sb_ttft_p95_ms b * (1 + regression) \<and> sb_failed_requests c \<le> sb_failed_requests b
     \<and> sb_recovery_seconds c \<noteq> None"
proof -
  have "x / y - 1 < gain \<longleftrightarrow> \<not> y * (1 + gain) \<le> x" if "0 < y" for x y :: rat
    using that by (simp add: field_simps not_le)
  from this [of "sb_output_tokens_per_second b" "sb_output_tokens_per_second c"] show ?thesis
    by (auto simp: evaluate_candidate_def adoption_reasons_def Let_def not_le not_less)
qed

section \<open>The routing corpus\<close>

definition scenario_ok :: "scenario \<Rightarrow> bool" where
  "scenario_ok sc \<longleftrightarrow> distinct (map (\<lambda>(c, _). pc_deployment_id c) (sc_candidates sc))
     \<and> distinct (map (\<lambda>(c, _). pc_registration_index c) (sc_candidates sc))"

lemma first_id_mem: "first_id (rank_candidates task cs p) = Some i \<Longrightarrow> i \<in> pc_deployment_id ` set cs"
proof -
  assume "first_id (rank_candidates task cs p) = Some i"
  then have "i \<in> set (rd_ordered_deployment_ids (rank_candidates task cs p))"
    by (auto simp: first_id_def split: list.splits)
  then show ?thesis by (auto simp: rank_candidates_def Let_def)
qed

lemma scenario_stable:
  assumes "scenario_ok sc"
  shows "sn_stable (evaluate_scenario clk sc)"
proof -
  let ?el = "scenario_eligible clk sc"
  have d: "distinct (map pc_deployment_id (map fst (sc_candidates sc)))" "distinct (map pc_registration_index (map fst (sc_candidates sc)))"
    using assms by (simp_all add: scenario_ok_def case_prod_unfold comp_def)
  have "distinct (map pc_deployment_id ?el)" unfolding scenario_eligible_def by (rule distinct_map_filter [OF d(1)])
  moreover have "inj_on pc_registration_index (set ?el)"
    using distinct_map_filter [OF d(2)] by (simp add: scenario_eligible_def distinct_map)
  ultimately have "rank_candidates (sc_task sc) (rev ?el) (sc_preferred_engine sc) = rank_candidates (sc_task sc) ?el (sc_preferred_engine sc)"
    by (rule rank_candidates_perm) simp
  then show ?thesis by (simp add: evaluate_scenario_def Let_def split: prod.splits)
qed

lemma scenario_selects_eligible:
  "sn_selected (evaluate_scenario clk sc) = Some i \<Longrightarrow> i \<in> set (sn_actual_eligible (evaluate_scenario clk sc))"
  by (auto simp: evaluate_scenario_def Let_def dest: first_id_mem split: prod.splits)

lemma fraction_all: "xs \<noteq> [] \<Longrightarrow> \<forall>x \<in> set xs. P x \<Longrightarrow> fraction P xs = 1"
  by (simp add: fraction_def)

lemma fraction_none: "\<forall>x \<in> set xs. \<not> P x \<Longrightarrow> fraction P xs = 0"
  by (simp add: fraction_def)

lemma traverse_concat_Nil:
  fixes f :: "'a \<Rightarrow> exn + 'b list"
  shows "(\<exists>ys. traverse f xs = Inr ys \<and> concat ys = []) \<longleftrightarrow> (\<forall>x \<in> set xs. f x = Inr [])"
proof (induction xs)
  case (Cons x xs)
  then show ?case by (cases "f x") (auto simp: bind_r_eq_Inr)
qed simp

lemma metric_limits:
  "acceptance_failures m lo hi = Inr [] \<longleftrightarrow>
     (\<forall>(name, limit) \<in> set lo. \<exists>x. metric_value m name = Inr (Some x) \<and> limit \<le> x)
     \<and> (\<forall>(name, limit) \<in> set hi. \<exists>x. metric_value m name = Inr (Some x) \<and> x \<le> limit)"
proof -
  define low :: "string \<times> rat \<Rightarrow> exn + acceptance_failure list" where
    "low = (\<lambda>(name, limit). map_r (\<lambda>v. case v of None \<Rightarrow> [Below name v limit]
       | Some x \<Rightarrow> if x < limit then [Below name v limit] else []) (metric_value m name))"
  define high :: "string \<times> rat \<Rightarrow> exn + acceptance_failure list" where
    "high = (\<lambda>(name, limit). map_r (\<lambda>v. case v of None \<Rightarrow> [Above name v limit]
       | Some x \<Rightarrow> if x > limit then [Above name v limit] else []) (metric_value m name))"
  have "acceptance_failures m lo hi = Inr [] \<longleftrightarrow>
      (\<exists>ys. traverse low lo = Inr ys \<and> concat ys = []) \<and> (\<exists>ys. traverse high hi = Inr ys \<and> concat ys = [])"
    unfolding acceptance_failures_def low_def [symmetric] high_def [symmetric]
    by (cases "traverse low lo"; cases "traverse high hi") auto
  also have "\<dots> \<longleftrightarrow> (\<forall>x \<in> set lo. low x = Inr []) \<and> (\<forall>x \<in> set hi. high x = Inr [])"
    by (simp only: traverse_concat_Nil)
  also have "(\<forall>x \<in> set lo. low x = Inr []) \<longleftrightarrow> (\<forall>(name, limit) \<in> set lo. \<exists>x. metric_value m name = Inr (Some x) \<and> limit \<le> x)"
  proof (intro ball_cong refl, clarify)
    fix name limit
    show "low (name, limit) = Inr [] \<longleftrightarrow> (\<exists>x. metric_value m name = Inr (Some x) \<and> limit \<le> x)"
    proof (cases "metric_value m name")
      case (Inr v)
      then show ?thesis by (cases v) (auto simp: low_def)
    qed (simp add: low_def)
  qed
  also have "(\<forall>x \<in> set hi. high x = Inr []) \<longleftrightarrow> (\<forall>(name, limit) \<in> set hi. \<exists>x. metric_value m name = Inr (Some x) \<and> x \<le> limit)"
  proof (intro ball_cong refl, clarify)
    fix name limit
    show "high (name, limit) = Inr [] \<longleftrightarrow> (\<exists>x. metric_value m name = Inr (Some x) \<and> x \<le> limit)"
    proof (cases "metric_value m name")
      case (Inr v)
      then show ?thesis by (cases v) (auto simp: high_def)
    qed (simp add: high_def)
  qed
  finally show ?thesis .
qed

text \<open>
  Every corpus confirms two promises of the policy: decisions do not depend on the order of the candidates, and no
  ineligible deployment is selected. The report is accepted exactly when every limit of the corpus is met.
\<close>

theorem evaluation_confirms_policy:
  assumes "evaluate_corpus clk cv pv scenarios lo hi = Inr report" and "\<forall>sc \<in> set scenarios. scenario_ok sc"
  shows "em_decision_stability_rate (ev_metrics report) = 1 \<and> em_constraint_violation_rate (ev_metrics report) = 0
    \<and> (ev_accepted report \<longleftrightarrow>
        (\<forall>(name, limit) \<in> set lo. \<exists>x. metric_value (ev_metrics report) name = Inr (Some x) \<and> limit \<le> x)
        \<and> (\<forall>(name, limit) \<in> set hi. \<exists>x. metric_value (ev_metrics report) name = Inr (Some x) \<and> x \<le> limit))"
proof -
  let ?rs = "map (evaluate_scenario clk) scenarios"
  obtain m failures where m: "metrics ?rs = Inr m" and f: "acceptance_failures m lo hi = Inr failures"
    and r: "ev_metrics report = m" "ev_accepted report = (failures = [])"
    using assms(1) by (auto simp: evaluate_corpus_def Let_def bind_r_eq_Inr)
  have ne: "?rs \<noteq> []" and rates: "em_decision_stability_rate m = fraction sn_stable ?rs"
      "em_constraint_violation_rate m = fraction (\<lambda>r. case sn_selected r of None \<Rightarrow> False
             | Some i \<Rightarrow> i \<notin> set (sn_actual_eligible r)) ?rs"
    using m by (auto simp: metrics_def Let_def split: if_splits)
  have "fraction sn_stable ?rs = 1"
    using scenario_stable assms(2) by (intro fraction_all [OF ne]) auto
  moreover have "fraction (\<lambda>r. case sn_selected r of None \<Rightarrow> False | Some i \<Rightarrow> i \<notin> set (sn_actual_eligible r)) ?rs = 0"
    using scenario_selects_eligible by (intro fraction_none) (auto split: option.splits)
  moreover have "failures = [] \<longleftrightarrow> acceptance_failures m lo hi = Inr []" using f by simp
  ultimately show ?thesis using rates r metric_limits [of m lo hi] by simp
qed

definition sample_scenario :: scenario where
  "sample_scenario = \<lparr>sc_id = ''s'', sc_task = tp_task sample_packet,
     sc_candidates = [], sc_preferred_engine = None, sc_expected_eligible = [], sc_expected_selected = None\<rparr>"

theorem evaluation_confirms_policy_witness:
  "\<exists>report. evaluate_corpus (\<lambda>_. 0) ''c'' POLICY_VERSION [sample_scenario] [(''decision_stability_rate'', 1)] [] = Inr report
     \<and> em_decision_stability_rate (ev_metrics report) = 1 \<and> ev_accepted report"
proof -
  obtain report where e: "evaluate_corpus (\<lambda>_. 0) ''c'' POLICY_VERSION [sample_scenario] [(''decision_stability_rate'', 1)] [] = Inr report"
  proof -
    have "map_r (\<lambda>_. ()) (evaluate_corpus (\<lambda>_. 0) ''c'' POLICY_VERSION [sample_scenario] [(''decision_stability_rate'', 1)] []) = Inr ()"
      by code_simp
    then show thesis using that by (auto simp: map_r_eq_Inr)
  qed
  have ok: "\<forall>sc \<in> set [sample_scenario]. scenario_ok sc" by (simp add: scenario_ok_def sample_scenario_def)
  from evaluation_confirms_policy [OF e ok] e show ?thesis by (auto simp: metric_value_def)
qed

end
