(* ===== verification/ControlPlane.thy ===== *)
theory ControlPlane
  imports Security Control Records Admission RedisAdmission Executor
begin

text \<open>
  The control plane every request passes (\<open>src/backend/control/api.py\<close>, \<open>APIControlPlane\<close>) and the
  functions of \<open>src/backend/main.py\<close> around it: authentication and role check of a request, admission against
  the quota, and the terminal record of the outcome. A request acts on the \<open>world\<close>: the state of the admission
  coordinator, the store of execution records, the log and the workflow database. The two protocols of the module
  are records of operations, with the four implementations of the repository as their instances.
\<close>

section \<open>Actions of a request\<close>

text \<open>What a request ends with when it does not return: a response made by a handler of \<open>main.py\<close>, a failure of
  the router, or an exception nobody catches.\<close>

datatype api_error = ControlPlaneFailure int string string
  | RouterRaised router_failure | RouterFailure failure | RouterCancelled | RouterTimeout | Uncaught exn

record log_entry =
  lg_event_name :: string
  lg_tenant_id :: string
  lg_request_id :: "string option"
  lg_attributes :: "(string \<times> json) list"

record ('s, 'r) world =
  wo_admission :: 's
  wo_records :: 'r
  wo_log :: "log_entry list"
  wo_store :: "db option"
  wo_states :: "RuntimeStateStore option"

type_synonym ('s, 'r, 'a) action = "('s, 'r) world \<Rightarrow> ('s, 'r) world \<times> (api_error + 'a)"

text \<open>The state stays when an action raises. In \<open>try ... finally\<close> the cleanup sees how the body ended, and an
  exception of the cleanup takes the place of the outcome.\<close>

definition and_then :: "('s, 'r, 'a) action \<Rightarrow> ('a \<Rightarrow> ('s, 'r, 'b) action) \<Rightarrow> ('s, 'r, 'b) action" where
  "and_then m k w = (case m w of (w1, Inl e) \<Rightarrow> (w1, Inl e) | (w1, Inr x) \<Rightarrow> k x w1)"

definition with_cleanup :: "('s, 'r, 'a) action \<Rightarrow> (api_error + 'a \<Rightarrow> ('s, 'r, unit) action) \<Rightarrow> ('s, 'r, 'a) action" where
  "with_cleanup m c w =
     (case m w of (w1, r) \<Rightarrow> (case c r w1 of (w2, Inl e) \<Rightarrow> (w2, Inl e) | (w2, Inr _) \<Rightarrow> (w2, r)))"

definition lift_exn :: "exn + 'a \<Rightarrow> api_error + 'a" where
  "lift_exn r = (case r of Inl e \<Rightarrow> Inl (Uncaught e) | Inr x \<Rightarrow> Inr x)"

section \<open>The protocols and their implementations\<close>

record ('e, 's) AdmissionCoordinator =
  co_configured_tenants :: "string set"
  co_admit :: "'e \<Rightarrow> string \<Rightarrow> int \<Rightarrow> 's \<Rightarrow> 's \<times> bool"
  co_release :: "'e \<Rightarrow> string \<Rightarrow> 's \<Rightarrow> 's"
  co_health :: "(bool \<times> bool) option"

definition process_coordinator :: "quotas \<Rightarrow> (rat, usages) AdmissionCoordinator" where
  "process_coordinator policies = \<lparr>co_configured_tenants = configured_tenants policies, co_admit = admit policies,
     co_release = (\<lambda>_. release), co_health = None\<rparr>"

definition redis_coordinator :: "string \<Rightarrow> quotas \<Rightarrow> bool option \<Rightarrow> (redis_call, redis) AdmissionCoordinator" where
  "redis_coordinator key_prefix policies ping = \<lparr>co_configured_tenants = configured_tenants policies,
     co_admit = redis_admit key_prefix policies, co_release = redis_release key_prefix, co_health = Some (redis_health ping)\<rparr>"

text \<open>A put may fail for reasons of the database, before or after the row is there. \<open>health\<close> returns the entries
  \<open>ready\<close>, \<open>durable\<close> and \<open>distributed\<close>; an entry that is missing counts as false.\<close>

record 'r ExecutionRecordWriter =
  rw_put :: "ExecutionRecord \<Rightarrow> 'r \<Rightarrow> 'r \<times> exn option"
  rw_health :: "('r \<Rightarrow> exn + bool \<times> bool \<times> bool) option"

definition sqlite_health :: "records_db \<Rightarrow> exn + bool \<times> bool \<times> bool" where
  "sqlite_health d = (case rd_schema_meta d of [] \<Rightarrow> Inl (TypeError ''NoneType'') | _ \<Rightarrow> Inr (True, True, False))"

definition pg_health :: "bool \<Rightarrow> pg_db \<Rightarrow> exn + bool \<times> bool \<times> bool" where
  "pg_health answers d = Inr (answers, True, True)"

definition sqlite_writer :: "pylib \<Rightarrow> records_db ExecutionRecordWriter" where
  "sqlite_writer L = \<lparr>rw_put = (\<lambda>r d. (put_record L r d, None)), rw_health = Some sqlite_health\<rparr>"

definition pg_writer :: "pylib \<Rightarrow> (string \<Rightarrow> json) \<Rightarrow> bool \<Rightarrow> pg_db ExecutionRecordWriter" where
  "pg_writer L jsonb answers =
     \<lparr>rw_put = (\<lambda>r d. if answers then (pg_put L jsonb r d, None) else (d, Some (OperationalError ''connection''))),
      rw_health = Some (pg_health answers)\<rparr>"

record ('e, 's, 'r) APIControlPlane =
  ap_api_keys :: "(string \<times> APIKeyRecord) list"
  ap_admission :: "('e, 's) AdmissionCoordinator"
  ap_records :: "'r ExecutionRecordWriter option"

section \<open>The control plane\<close>

definition control_authenticate ::
    "digest \<Rightarrow> ('e, 's, 'r) APIControlPlane \<Rightarrow> instant \<Rightarrow> string option \<Rightarrow> api_error + Principal" where
  "control_authenticate digest P clk authorization =
     (case authorization of
        None \<Rightarrow> Inl (ControlPlaneFailure 401 ''authentication_required'' ''Authentication required.'')
      | Some header \<Rightarrow>
          (case partition_at (CHR '' '') header of (scheme, found, value) \<Rightarrow>
             if \<not> found \<or> casefold scheme \<noteq> ''bearer'' \<or> strip value = []
             then Inl (ControlPlaneFailure 401 ''invalid_credentials'' ''Invalid credentials.'')
             else bind_r (lift_exn (authenticate_api_key digest (strip value) (ap_api_keys P) clk None)) (\<lambda>found.
                  case found of
                    None \<Rightarrow> Inl (ControlPlaneFailure 401 ''invalid_credentials'' ''Invalid credentials.'')
                  | Some who \<Rightarrow> Inr who)))"

definition control_require_role :: "Principal \<Rightarrow> Role \<Rightarrow> string option \<Rightarrow> api_error + unit" where
  "control_require_role who role tenant_id =
     (let target_tenant = (case tenant_id of None \<Rightarrow> pr_tenant_id who | Some t \<Rightarrow> t) in
      require (authorize who target_tenant role) (ControlPlaneFailure 403 ''forbidden'' ''Operation not permitted.''))"

definition active_record :: "datetime \<Rightarrow> APIKeyRecord \<Rightarrow> exn + bool" where
  "active_record instant r =
     (if ak_revoked_at r \<noteq> None then Inr False
      else case ak_expires_at r of None \<Rightarrow> Inr True | Some t \<Rightarrow> map_r Not (datetime_ge instant t))"

definition verify_production_ready ::
    "('e, 's, 'r) APIControlPlane \<Rightarrow> instant \<Rightarrow> datetime option \<Rightarrow> ('s, 'r) world \<Rightarrow> exn + unit" where
  "verify_production_ready P clk now w =
     bind_r (traverse (\<lambda>(_, r). map_r (Pair r) (active_record (case now of None \<Rightarrow> Aware clk | Some t \<Rightarrow> t) r)) (ap_api_keys P))
       (\<lambda>checked.
     let active_records = map fst (filter snd checked) in
     bind_r (require (active_records \<noteq> []) (RuntimeError ''Production requires at least one active API key.'')) (\<lambda>_.
     bind_r (require (list_all (\<lambda>r. pr_tenant_id (ak_principal r) \<in> co_configured_tenants (ap_admission P)) active_records)
       (RuntimeError ''Production requires quota policies for every credential tenant.'')) (\<lambda>_.
     case ap_records P of
       None \<Rightarrow> Inl (RuntimeError ''Production requires a durable execution-record store.'')
     | Some rw \<Rightarrow>
         (case rw_health rw of
            None \<Rightarrow> Inl (RuntimeError ''Production execution-record store has no health check.'')
          | Some health \<Rightarrow>
              bind_r (health (wo_records w)) (\<lambda>(ready, durable, distributed).
              bind_r (require (ready \<and> durable \<and> distributed)
                (RuntimeError ''Production execution-record store is not ready.'')) (\<lambda>_.
              case co_health (ap_admission P) of
                None \<Rightarrow> Inl (RuntimeError ''Production admission coordinator has no health check.'')
              | Some (ready, distributed) \<Rightarrow>
                  require (ready \<and> distributed)
                    (RuntimeError ''Production admission coordinator is not ready.'')))))))"

record AdmissionPermit =
  pm_tenant_id :: string
  pm_released :: bool

definition control_admit ::
    "('e, 's, 'r) APIControlPlane \<Rightarrow> 'e \<Rightarrow> Principal \<Rightarrow> int \<Rightarrow> ('s, 'r, AdmissionPermit) action" where
  "control_admit P env who estimated_tokens w =
     (case co_admit (ap_admission P) env (pr_tenant_id who) estimated_tokens (wo_admission w) of (s, ok) \<Rightarrow>
        (w\<lparr>wo_admission := s\<rparr>,
         if ok then Inr \<lparr>pm_tenant_id = pr_tenant_id who, pm_released = False\<rparr>
         else Inl (ControlPlaneFailure 429 ''quota_exceeded'' ''Request quota exceeded.'')))"

definition release_permit :: "('e, 's, 'r) APIControlPlane \<Rightarrow> 'e \<Rightarrow> AdmissionPermit \<Rightarrow> ('s, 'r, AdmissionPermit) action" where
  "release_permit P env permit w =
     (if pm_released permit then (w, Inr permit)
      else (w\<lparr>wo_admission := co_release (ap_admission P) env (pm_tenant_id permit) (wo_admission w)\<rparr>,
            Inr (permit\<lparr>pm_released := True\<rparr>)))"

definition emit :: "instant \<Rightarrow> string \<Rightarrow> string \<Rightarrow> string option \<Rightarrow> (string \<times> json) list \<Rightarrow> ('s, 'r) world \<Rightarrow> ('s, 'r) world" where
  "emit clk event_name tenant_id request_id attributes w =
     (let event = \<lparr>ce_event_name = event_name, ce_tenant_id = tenant_id, ce_request_id = request_id,
                   ce_occurred_at = Aware clk, ce_attributes = attributes\<rparr> in
      w\<lparr>wo_log := wo_log w @ [\<lparr>lg_event_name = ce_event_name event, lg_tenant_id = ce_tenant_id event,
          lg_request_id = ce_request_id event, lg_attributes = safe_attributes event\<rparr>]\<rparr>)"

definition control_record :: "('e, 's, 'r) APIControlPlane \<Rightarrow> instant \<Rightarrow> ExecutionRecord \<Rightarrow> ('s, 'r, unit) action" where
  "control_record P clk r w =
     (case ap_records P of
        None \<Rightarrow> (w, Inr ())
      | Some rw \<Rightarrow>
          (case rw_put rw r (wo_records w) of
             (rs, None) \<Rightarrow> (w\<lparr>wo_records := rs\<rparr>, Inr ())
           | (rs, Some _) \<Rightarrow>
               (emit clk ''api.record.failed'' (er_tenant_id r) (Some (er_request_id r))
                  [(''status'', JStr (er_status r)), (''failure_code'', JStr ''record_unavailable'')] (w\<lparr>wo_records := rs\<rparr>),
                Inl (ControlPlaneFailure 503 ''record_unavailable''
                  ''Execution history could not be committed; execution may have occurred.''))))"

section \<open>Around a request\<close>

text \<open>What a request brings: its identifier and path, the headers the code reads, the clock and what the admission
  coordinator meets when it is called for the admission and for the release.\<close>

record 'e request =
  hr_request_id :: string
  hr_path :: string
  hr_authorization :: "string option"
  hr_tenant :: "string option"
  hr_traceparent :: "string option"
  hr_now :: instant
  hr_admit_env :: 'e
  hr_release_env :: 'e

fun Role_value :: "Role \<Rightarrow> string" where
  "Role_value INFERENCE = ''inference''"
| "Role_value OPERATOR = ''operator''"
| "Role_value ADMIN = ''admin''"

definition require_role ::
    "digest \<Rightarrow> ('e, 's, 'r) APIControlPlane \<Rightarrow> Role \<Rightarrow> 'e request \<Rightarrow> ('s, 'r, Principal) action" where
  "require_role digest P role q w =
     (case bind_r (control_authenticate digest P (hr_now q) (hr_authorization q)) (\<lambda>who.
           bind_r (control_require_role who role (hr_tenant q)) (\<lambda>_. Inr who)) of
        Inl e \<Rightarrow> (w, Inl e)
      | Inr who \<Rightarrow>
          (emit (hr_now q) ''api.request.authorized'' (pr_tenant_id who) (Some (hr_request_id q))
             [(''path'', JStr (hr_path q)), (''required_role'', JStr (Role_value role))] w, Inr who))"

definition record_terminal ::
    "('e, 's, 'r) APIControlPlane \<Rightarrow> 'e request \<Rightarrow> Principal \<Rightarrow> string \<Rightarrow> string \<Rightarrow> (string \<times> json) list \<Rightarrow> ('s, 'r, unit) action" where
  "record_terminal P q who operation status details w =
     (let r = \<lparr>er_request_id = hr_request_id q, er_tenant_id = pr_tenant_id who, er_status = status,
               er_policy_version = ''api-control-v2'', er_payload = JObj ((''operation'', JStr operation) # details),
               er_created_at = Aware (hr_now q)\<rparr> in
      case lift_exn (ExecutionRecord_post_init r) of
        Inl e \<Rightarrow> (w, Inl e)
      | Inr _ \<Rightarrow>
          (case control_record P (hr_now q) r w of
             (w1, Inl e) \<Rightarrow> (w1, if status = ''accepted'' then Inl e else Inr ())
           | (w1, Inr _) \<Rightarrow>
               (emit (hr_now q) ''api.request.terminal'' (pr_tenant_id who) (Some (hr_request_id q))
                  [(''operation'', JStr operation), (''status'', JStr status)] w1, Inr ())))"

definition admit_request ::
    "('e, 's, 'r) APIControlPlane \<Rightarrow> 'e request \<Rightarrow> Principal \<Rightarrow> string \<Rightarrow> int \<Rightarrow> ('s, 'r, AdmissionPermit) action" where
  "admit_request P q who operation estimated_tokens w =
     (case control_admit P (hr_admit_env q) who estimated_tokens w of
        (w1, Inr permit) \<Rightarrow>
          (emit (hr_now q) ''api.admission.accepted'' (pr_tenant_id who) (Some (hr_request_id q))
             [(''operation'', JStr operation), (''estimated_tokens'', JInt estimated_tokens)] w1, Inr permit)
      | (w1, Inl (ControlPlaneFailure status code message)) \<Rightarrow>
          let w2 = emit (hr_now q) ''api.admission.rejected'' (pr_tenant_id who) (Some (hr_request_id q))
                     [(''operation'', JStr operation), (''failure_code'', JStr code)] w1 in
          (case record_terminal P q who operation ''rejected'' [(''failure_code'', JStr code)] w2 of
             (w3, Inl e) \<Rightarrow> (w3, Inl e)
           | (w3, Inr _) \<Rightarrow> (w3, Inl (ControlPlaneFailure status code message)))
      | (w1, Inl e) \<Rightarrow> (w1, Inl e))"

text \<open>The shape of every handler: admission, the body, and in \<open>finally\<close> the release and the terminal record, whose
  details may depend on how the body ended.\<close>

definition ended_well :: "'x + 'a \<Rightarrow> string" where
  "ended_well r = (case r of Inl _ \<Rightarrow> ''failed'' | Inr _ \<Rightarrow> ''accepted'')"

definition close_request ::
    "('e, 's, 'r) APIControlPlane \<Rightarrow> 'e request \<Rightarrow> Principal \<Rightarrow> string \<Rightarrow> AdmissionPermit \<Rightarrow>
       (api_error + 'a \<Rightarrow> (string \<times> json) list) \<Rightarrow> api_error + 'a \<Rightarrow> ('s, 'r, unit) action" where
  "close_request P q who operation permit details r =
     and_then (release_permit P (hr_release_env q) permit) (\<lambda>_.
     record_terminal P q who operation (ended_well r) (details r))"

definition guarded ::
    "('e, 's, 'r) APIControlPlane \<Rightarrow> 'e request \<Rightarrow> Principal \<Rightarrow> string \<Rightarrow> int \<Rightarrow>
       (api_error + 'a \<Rightarrow> (string \<times> json) list) \<Rightarrow> ('s, 'r, 'a) action \<Rightarrow> ('s, 'r, 'a) action" where
  "guarded P q who operation estimated_tokens details body =
     and_then (admit_request P q who operation estimated_tokens) (\<lambda>permit.
     with_cleanup body (close_request P q who operation permit details))"

section \<open>What the parts leave alone\<close>

lemma emit_frame [simp]:
  "wo_admission (emit clk n t i as w) = wo_admission w" "wo_records (emit clk n t i as w) = wo_records w"
  "wo_store (emit clk n t i as w) = wo_store w" "wo_states (emit clk n t i as w) = wo_states w"
  by (simp_all add: emit_def Let_def)

text \<open>The records after a put, and whether the put succeeded. Without a store there is nothing to fail.\<close>

definition after_put :: "('e, 's, 'r) APIControlPlane \<Rightarrow> ExecutionRecord \<Rightarrow> 'r \<Rightarrow> 'r" where
  "after_put P r rs = (case ap_records P of None \<Rightarrow> rs | Some rw \<Rightarrow> fst (rw_put rw r rs))"

definition put_succeeds :: "('e, 's, 'r) APIControlPlane \<Rightarrow> ExecutionRecord \<Rightarrow> 'r \<Rightarrow> bool" where
  "put_succeeds P r rs = (case ap_records P of None \<Rightarrow> True | Some rw \<Rightarrow> snd (rw_put rw r rs) = None)"

lemma control_record_frame:
  assumes "control_record P clk r w = (w', out)"
  shows "wo_admission w' = wo_admission w \<and> wo_store w' = wo_store w \<and> wo_states w' = wo_states w
    \<and> wo_records w' = after_put P r (wo_records w)
    \<and> (out = Inr () \<longleftrightarrow> put_succeeds P r (wo_records w))
    \<and> (out = Inr () \<or> (\<exists>m. out = Inl (ControlPlaneFailure 503 ''record_unavailable'' m)))"
  using assms by (auto simp: control_record_def after_put_def put_succeeds_def split: option.splits prod.splits)

text \<open>The record that is put for a request.\<close>

definition terminal_record :: "'e request \<Rightarrow> Principal \<Rightarrow> string \<Rightarrow> string \<Rightarrow> (string \<times> json) list \<Rightarrow> ExecutionRecord" where
  "terminal_record q who operation status details =
     \<lparr>er_request_id = hr_request_id q, er_tenant_id = pr_tenant_id who, er_status = status,
      er_policy_version = ''api-control-v2'', er_payload = JObj ((''operation'', JStr operation) # details),
      er_created_at = Aware (hr_now q)\<rparr>"

lemma record_terminal_frame:
  assumes "record_terminal P q who op status details w = (w', out)"
  shows "wo_admission w' = wo_admission w \<and> wo_store w' = wo_store w \<and> wo_states w' = wo_states w
    \<and> wo_records w' = after_put P (terminal_record q who op status details) (wo_records w)
    \<and> (out = Inr () \<longleftrightarrow> status \<noteq> ''accepted'' \<or> put_succeeds P (terminal_record q who op status details) (wo_records w))
    \<and> (out = Inr () \<or> (\<exists>m. out = Inl (ControlPlaneFailure 503 ''record_unavailable'' m)))"
proof -
  let ?r = "terminal_record q who op status details"
  obtain w1 o1 where c: "control_record P (hr_now q) ?r w = (w1, o1)" by fastforce
  have "lift_exn (ExecutionRecord_post_init ?r) = Inr ()"
    by (simp add: lift_exn_def ExecutionRecord_post_init_def terminal_record_def)
  then have "(w', out) = (case o1 of Inl e \<Rightarrow> (w1, if status = ''accepted'' then Inl e else Inr ())
      | Inr _ \<Rightarrow> (emit (hr_now q) ''api.request.terminal'' (pr_tenant_id who) (Some (hr_request_id q))
          [(''operation'', JStr op), (''status'', JStr status)] w1, Inr ()))"
    using assms c by (simp add: record_terminal_def terminal_record_def Let_def split: sum.splits)
  with control_record_frame [OF c] show ?thesis by (auto split: sum.splits if_splits)
qed

lemma admit_request_cases:
  assumes "admit_request P q who op n w = (w', out)"
  shows "wo_store w' = wo_store w \<and> wo_states w' = wo_states w
    \<and> wo_admission w' = fst (co_admit (ap_admission P) (hr_admit_env q) (pr_tenant_id who) n (wo_admission w))
    \<and> (if snd (co_admit (ap_admission P) (hr_admit_env q) (pr_tenant_id who) n (wo_admission w))
       then out = Inr \<lparr>pm_tenant_id = pr_tenant_id who, pm_released = False\<rparr> \<and> wo_records w' = wo_records w
       else out = Inl (ControlPlaneFailure 429 ''quota_exceeded'' ''Request quota exceeded.''))"
proof -
  obtain s ok where a: "co_admit (ap_admission P) (hr_admit_env q) (pr_tenant_id who) n (wo_admission w) = (s, ok)" by fastforce
  show ?thesis
  proof (cases ok)
    case True
    then show ?thesis using assms a by (auto simp: admit_request_def control_admit_def)
  next
    case False
    let ?w2 = "emit (hr_now q) ''api.admission.rejected'' (pr_tenant_id who) (Some (hr_request_id q))
        [(''operation'', JStr op), (''failure_code'', JStr ''quota_exceeded'')] (w\<lparr>wo_admission := s\<rparr>)"
    obtain w3 o3 where r: "record_terminal P q who op ''rejected'' [(''failure_code'', JStr ''quota_exceeded'')] ?w2 = (w3, o3)"
      by fastforce
    have "o3 = Inr ()" and "wo_admission w3 = s" and "wo_store w3 = wo_store w" and "wo_states w3 = wo_states w"
      using record_terminal_frame [OF r] by simp_all
    then show ?thesis using assms a False r by (simp add: admit_request_def control_admit_def Let_def)
  qed
qed

text \<open>One release for one grant, and the terminal record is put before a value is returned.\<close>

lemma close_request_frame:
  assumes "close_request P q who op permit details r w = (w', out)" and "\<not> pm_released permit"
  shows "wo_admission w' = co_release (ap_admission P) (hr_release_env q) (pm_tenant_id permit) (wo_admission w)
    \<and> wo_store w' = wo_store w \<and> wo_states w' = wo_states w
    \<and> wo_records w' = after_put P (terminal_record q who op (ended_well r) (details r)) (wo_records w)
    \<and> (out = Inr () \<longleftrightarrow> ended_well r \<noteq> ''accepted'' \<or> put_succeeds P (terminal_record q who op (ended_well r) (details r)) (wo_records w))
    \<and> (out = Inr () \<or> (\<exists>m. out = Inl (ControlPlaneFailure 503 ''record_unavailable'' m)))"
proof -
  let ?w = "w\<lparr>wo_admission := co_release (ap_admission P) (hr_release_env q) (pm_tenant_id permit) (wo_admission w)\<rparr>"
  have "record_terminal P q who op (ended_well r) (details r) ?w = (w', out)"
    using assms by (simp add: close_request_def and_then_def release_permit_def)
  from record_terminal_frame [OF this] show ?thesis by auto
qed

lemma guarded_cases:
  assumes "guarded P q who op n details body w = (w', out)"
    and adm: "co_admit (ap_admission P) (hr_admit_env q) (pr_tenant_id who) n (wo_admission w) = (s, ok)"
  shows "if ok then
      \<exists>w1 w2 r. wo_admission w1 = s \<and> wo_store w1 = wo_store w \<and> wo_states w1 = wo_states w \<and> wo_records w1 = wo_records w
        \<and> body w1 = (w2, r)
        \<and> wo_admission w' = co_release (ap_admission P) (hr_release_env q) (pr_tenant_id who) (wo_admission w2)
        \<and> wo_store w' = wo_store w2 \<and> wo_states w' = wo_states w2
        \<and> wo_records w' = after_put P (terminal_record q who op (ended_well r) (details r)) (wo_records w2)
        \<and> (out = r \<or> ended_well r = ''accepted'' \<and> (\<exists>m. out = Inl (ControlPlaneFailure 503 ''record_unavailable'' m)))
        \<and> (\<forall>x. out = Inr x \<longrightarrow> r = Inr x \<and> put_succeeds P (terminal_record q who op ''accepted'' (details r)) (wo_records w2))
    else wo_admission w' = s \<and> wo_store w' = wo_store w \<and> wo_states w' = wo_states w
      \<and> out = Inl (ControlPlaneFailure 429 ''quota_exceeded'' ''Request quota exceeded.'')"
proof -
  obtain w1 o1 where a: "admit_request P q who op n w = (w1, o1)" by fastforce
  note ac = admit_request_cases [OF a, unfolded adm, simplified]
  show ?thesis
  proof (cases ok)
    case False
    then show ?thesis using ac assms(1) a by (auto simp: guarded_def and_then_def)
  next
    case True
    let ?permit = "\<lparr>pm_tenant_id = pr_tenant_id who, pm_released = False\<rparr>"
    have o1: "o1 = Inr ?permit" using ac True by simp
    obtain w2 r where b: "body w1 = (w2, r)" by fastforce
    obtain w3 o3 where c: "close_request P q who op ?permit details r w2 = (w3, o3)" by fastforce
    have out: "w' = w3 \<and> out = (case o3 of Inl e \<Rightarrow> Inl e | Inr _ \<Rightarrow> r)"
      using assms(1) a o1 b c by (auto simp: guarded_def and_then_def with_cleanup_def split: sum.splits)
    have acc: "ended_well r = ''accepted'' \<longleftrightarrow> (\<exists>x. r = Inr x)" by (auto simp: ended_well_def split: sum.splits)
    note cf = close_request_frame [OF c, simplified]
    have o3: "out = r \<or> ended_well r = ''accepted'' \<and> (\<exists>m. out = Inl (ControlPlaneFailure 503 ''record_unavailable'' m))"
      using cf out by (cases o3) auto
    have "r = Inr x \<and> put_succeeds P (terminal_record q who op ''accepted'' (details r)) (wo_records w2)"
      if "out = Inr x" for x
    proof -
      have "o3 = Inr ()" and r: "r = Inr x" using out that by (cases o3; auto)+
      with cf show ?thesis by (simp add: ended_well_def)
    qed
    with o3 show ?thesis using True ac b cf out by (simp, intro exI [of _ w1] exI [of _ w2] exI [of _ r]) auto
  qed
qed

end
