(* ===== verification/Governance.thy ===== *)
theory Governance
  imports Executor
begin

text \<open>
  The configured workflow policies (\<open>src/backend/workflows/governance.py\<close>). The classes are pydantic models: the
  validation of a JSON value against the declared fields is done by that library, which is the argument
  \<open>model_validate\<close>; what the declarations promise of an accepted value, the bounds of the fields and the
  validator \<open>supported\<close>, is \<open>declared\<close>. A validated policy hands a workflow its binding, from which the
  executor later takes the budget and the store the acceptance rules.
\<close>

section \<open>The models\<close>

record AcceptanceRules =
  al_required_sections :: "string list"
  al_forbidden_phrases :: "string list"
  al_require_citations :: bool
  al_minimum_chars :: int
  al_maximum_chars :: int
  al_language :: "string option"

definition AcceptanceRules_fields :: "AcceptanceRules \<Rightarrow> bool" where
  "AcceptanceRules_fields r \<longleftrightarrow> length (al_required_sections r) \<le> 32 \<and> length (al_forbidden_phrases r) \<le> 32
     \<and> 0 \<le> al_minimum_chars r \<and> 1 \<le> al_maximum_chars r \<and> al_maximum_chars r \<le> 100000
     \<and> (al_language r = Some ''ascii'' \<or> al_language r = None)"

definition acceptance_policy :: "AcceptanceRules \<Rightarrow> exn + ValidationPolicy" where
  "acceptance_policy r =
     (let p = \<lparr>vp_required_sections = al_required_sections r, vp_require_citations = al_require_citations r,
              vp_minimum_chars = al_minimum_chars r, vp_maximum_chars = al_maximum_chars r,
              vp_language = al_language r, vp_forbidden_phrases = al_forbidden_phrases r, vp_output_schema = None\<rparr> in
      bind_r (ValidationPolicy_post_init p) (\<lambda>_. Inr p))"

definition supported :: "AcceptanceRules \<Rightarrow> exn + AcceptanceRules" where
  "supported r = bind_r (acceptance_policy r) (\<lambda>p. bind_r (policy_snapshot p) (\<lambda>_. Inr r))"

record WorkflowLimits =
  wl_deadline_seconds :: rat
  wl_max_attempts :: int
  wl_max_output_tokens :: int

definition WorkflowLimits_fields :: "WorkflowLimits \<Rightarrow> bool" where
  "WorkflowLimits_fields w \<longleftrightarrow> 0 < wl_deadline_seconds w \<and> wl_deadline_seconds w \<le> 3600
     \<and> 1 \<le> wl_max_attempts w \<and> wl_max_attempts w \<le> 10 \<and> 1 \<le> wl_max_output_tokens w \<and> wl_max_output_tokens w \<le> 32768"

definition limits_json :: "WorkflowLimits \<Rightarrow> json" where
  "limits_json w = JObj [(''deadline_seconds'', JFloat (wl_deadline_seconds w)), (''max_attempts'', JInt (wl_max_attempts w)),
     (''max_output_tokens'', JInt (wl_max_output_tokens w))]"

record WorkflowPolicy =
  wp_version :: string
  wp_acceptance :: AcceptanceRules
  wp_budget :: WorkflowLimits

definition declared :: "WorkflowPolicy \<Rightarrow> bool" where
  "declared p \<longleftrightarrow> 1 \<le> length (wp_version p) \<and> length (wp_version p) \<le> 128 \<and> AcceptanceRules_fields (wp_acceptance p)
     \<and> supported (wp_acceptance p) = Inr (wp_acceptance p) \<and> WorkflowLimits_fields (wp_budget p)"

definition binding :: "WorkflowPolicy \<Rightarrow> exn + json" where
  "binding p =
     bind_r (acceptance_policy (wp_acceptance p)) (\<lambda>vp.
     bind_r (policy_snapshot vp) (\<lambda>snapshot.
     Inr (JObj [(''version'', JStr (wp_version p)), (''policy'', snapshot), (''budget'', limits_json (wp_budget p))])))"

section \<open>Loading\<close>

text \<open>The content of the configuration file, when one is configured.\<close>

definition load_workflow_policies ::
    "pylib \<Rightarrow> (json \<Rightarrow> exn + WorkflowPolicy) \<Rightarrow> string option \<Rightarrow> exn + (string \<times> WorkflowPolicy) list" where
  "load_workflow_policies L model_validate file =
     (case file of
        None \<Rightarrow> Inr []
      | Some content \<Rightarrow>
          bind_r (decode L content) (\<lambda>document.
          bind_r (require (is_dict document \<and> list_all (\<lambda>(tenant, _). has_text tenant) (members document))
            (ValueError ''Workflow policy configuration must map tenants to policies'')) (\<lambda>_.
          traverse (\<lambda>(tenant, policy). map_r (Pair tenant) (model_validate policy)) (members document))))"

section \<open>What a binding promises\<close>

lemma dec_opt_sort_str [simp]: "dec_opt dec_str (sort_keys (jopt JStr x)) = Some x"
  by (cases x) auto

lemma snapshot_reads_back:
  assumes "policy_snapshot p = Inr s" and "ValidationPolicy_post_init p = Inr ()" and "vp_output_schema p = None"
  shows "validation_policy_from_snapshot s = Inr p \<and> validation_policy_from_snapshot (sort_keys s) = Inr p"
proof -
  have s: "s = sort_keys (policy_json p)" using assms(1) by (auto simp: policy_snapshot_def Let_def bind_r_eq_Inr)
  have "decode_policy s = Some p"
    using assms(2,3)
    by (cases p) (simp add: s decode_policy_def policy_json_def decode_simps accept_def)
  moreover have "sort_keys s = s" by (simp add: s sort_keys_idem)
  ultimately show ?thesis using assms(1) by (simp add: validation_policy_from_snapshot_def)
qed

lemma binding_usable:
  assumes "declared p"
  shows "\<exists>b vp. binding p = Inr b \<and> acceptance_policy (wp_acceptance p) = Inr vp
    \<and> (\<exists>s. dict_item (sort_keys b) ''policy'' = Inr s \<and> validation_policy_from_snapshot s = Inr vp)
    \<and> dict_item (sort_keys b) ''version'' = Inr (JStr (wp_version p))
    \<and> bound_budget now (sort_keys b) = Inr \<lparr>wb_deadline_seconds = wl_deadline_seconds (wp_budget p),
        wb_max_attempts = wl_max_attempts (wp_budget p), wb_max_output_tokens = Some (wl_max_output_tokens (wp_budget p)),
        wb_started = mono now, wb_attempts = 0, wb_output_tokens = 0\<rparr>"
proof -
  obtain vp s where vp: "acceptance_policy (wp_acceptance p) = Inr vp" and s: "policy_snapshot vp = Inr s"
    using assms by (auto simp: declared_def supported_def bind_r_eq_Inr)
  have post: "ValidationPolicy_post_init vp = Inr ()" "vp_output_schema vp = None"
    using vp by (auto simp: acceptance_policy_def Let_def bind_r_eq_Inr)
  have "binding p = Inr (JObj [(''version'', JStr (wp_version p)), (''policy'', s), (''budget'', limits_json (wp_budget p))])"
    (is "_ = Inr ?b") using vp s by (simp add: binding_def)
  moreover have "dict_item (sort_keys ?b) ''policy'' = Inr (sort_keys s)"
    and "dict_item (sort_keys ?b) ''version'' = Inr (JStr (wp_version p))"
    by (simp_all add: dict_item_def decode_simps)
  moreover have "bound_budget now (sort_keys ?b) = Inr \<lparr>wb_deadline_seconds = wl_deadline_seconds (wp_budget p),
        wb_max_attempts = wl_max_attempts (wp_budget p), wb_max_output_tokens = Some (wl_max_output_tokens (wp_budget p)),
        wb_started = mono now, wb_attempts = 0, wb_output_tokens = 0\<rparr>"
    using assms by (simp add: bound_budget_def dict_item_def decode_simps limits_json_def declared_def
        WorkflowLimits_fields_def WorkflowBudget_init_def WorkflowBudget_post_init_def)
  ultimately show ?thesis using vp snapshot_reads_back [OF s post] by blast
qed

lemma loaded_declared:
  assumes "load_workflow_policies L model_validate file = Inr policies"
    and "\<forall>v p. model_validate v = Inr p \<longrightarrow> declared p" and "(tenant, p) \<in> set policies"
  shows "declared p \<and> has_text tenant"
proof -
  obtain content document where "decode L content = Inr document"
    and keys: "list_all (\<lambda>(tenant, _). has_text tenant) (members document)"
    and tr: "traverse (\<lambda>(tenant, policy). map_r (Pair tenant) (model_validate policy)) (members document) = Inr policies"
    using assms(1,3) by (auto simp: load_workflow_policies_def bind_r_eq_Inr split: option.splits)
  obtain m where "m \<in> set (members document)" and "(case m of (t, v) \<Rightarrow> map_r (Pair t) (model_validate v)) = Inr (tenant, p)"
    using list_all2_mem [OF tr [unfolded traverse_eq_Inr] assms(3)] by blast
  then show ?thesis using keys assms(2) by (fastforce simp: map_r_eq_Inr list_all_iff)
qed

end
