(* ===== verification/WorkflowApi.thy ===== *)
theory WorkflowApi
  imports ControlPlane Governance GraphStore
begin

text \<open>
  The routes of the offline workflows (\<open>src/backend/workflows/api.py\<close>) and of the workflow graphs
  (\<open>src/backend/workflows/graph_api.py\<close>). A request is read by a pydantic model, whose declared fields and
  validators are the predicates \<open>..._fields\<close>; the principal comes from \<open>require_role\<close>. A route is the body of the
  context manager \<open>operation\<close>: it runs on the store of the process between admission and terminal record. The
  function \<open>uuid5\<close> of the standard library is an argument.
\<close>

section \<open>Requests\<close>

record CreateWorkflowRequest =
  cw_idempotency_key :: string
  cw_prompt :: string
  cw_model :: string
  cw_max_tokens :: int
  cw_temperature :: rat

definition CreateWorkflowRequest_fields :: "CreateWorkflowRequest \<Rightarrow> bool" where
  "CreateWorkflowRequest_fields r \<longleftrightarrow>
     1 \<le> length (cw_idempotency_key r) \<and> length (cw_idempotency_key r) \<le> 128
     \<and> 1 \<le> length (cw_prompt r) \<and> length (cw_prompt r) \<le> 100000
     \<and> 1 \<le> length (cw_model r) \<and> length (cw_model r) \<le> 256
     \<and> 1 \<le> cw_max_tokens r \<and> cw_max_tokens r \<le> 32768 \<and> 0 \<le> cw_temperature r \<and> cw_temperature r \<le> 2
     \<and> has_text (cw_idempotency_key r) \<and> has_text (cw_prompt r) \<and> has_text (cw_model r)
     \<and> strip (cw_idempotency_key r) = cw_idempotency_key r"

record CreateGraphNodeRequest =
  cg_node_id :: string
  cg_prompt :: string
  cg_model :: string
  cg_max_tokens :: int
  cg_temperature :: rat
  cg_depends_on :: "string list"

definition CreateGraphNodeRequest_fields :: "CreateGraphNodeRequest \<Rightarrow> bool" where
  "CreateGraphNodeRequest_fields r \<longleftrightarrow>
     1 \<le> length (cg_node_id r) \<and> length (cg_node_id r) \<le> 128
     \<and> 1 \<le> length (cg_prompt r) \<and> length (cg_prompt r) \<le> 100000
     \<and> 1 \<le> length (cg_model r) \<and> length (cg_model r) \<le> 256
     \<and> 1 \<le> cg_max_tokens r \<and> cg_max_tokens r \<le> 32768 \<and> 0 \<le> cg_temperature r \<and> cg_temperature r \<le> 2
     \<and> length (cg_depends_on r) \<le> 100
     \<and> has_text (cg_node_id r) \<and> has_text (cg_prompt r) \<and> has_text (cg_model r)
     \<and> strip (cg_node_id r) = cg_node_id r
     \<and> list_all (\<lambda>item. item \<noteq> [] \<and> item = strip item) (cg_depends_on r) \<and> distinct (cg_depends_on r)"

record CreateWorkflowGraphRequest =
  cq_idempotency_key :: string
  cq_nodes :: "CreateGraphNodeRequest list"

definition CreateWorkflowGraphRequest_fields :: "CreateWorkflowGraphRequest \<Rightarrow> bool" where
  "CreateWorkflowGraphRequest_fields r \<longleftrightarrow>
     1 \<le> length (cq_idempotency_key r) \<and> length (cq_idempotency_key r) \<le> 128
     \<and> 1 \<le> length (cq_nodes r) \<and> length (cq_nodes r) \<le> 100 \<and> list_all CreateGraphNodeRequest_fields (cq_nodes r)
     \<and> has_text (cq_idempotency_key r) \<and> strip (cq_idempotency_key r) = cq_idempotency_key r"

section \<open>Operations on the store\<close>

text \<open>The exceptions of the second \<open>except\<close> clause: errors of SQLite, and the three classes with their subclasses.\<close>

fun store_failure :: "exn \<Rightarrow> bool" where
  "store_failure (ValueError _) = True"
| "store_failure (TypeError _) = True"
| "store_failure (KeyError _) = True"
| "store_failure (IntegrityError _) = True"
| "store_failure (OperationalError _) = True"
| "store_failure (WorkflowConflict _) = True"
| "store_failure (ContextConflict _) = True"
| "store_failure (ContextIntegrityError _) = True"
| "store_failure _ = False"

fun translate :: "string \<times> string \<times> string \<Rightarrow> api_error \<Rightarrow> api_error" where
  "translate (code, conflict, unavailable) (Uncaught (WorkflowConflict _)) = ControlPlaneFailure 409 code conflict"
| "translate (code, conflict, unavailable) (Uncaught e) =
     (if store_failure e then ControlPlaneFailure 503 ''workflow_store_unavailable'' unavailable else Uncaught e)"
| "translate _ e = e"

definition on_store ::
    "string \<times> string \<times> string \<Rightarrow> (db \<Rightarrow> db \<times> (api_error + 'a)) \<Rightarrow> ('s, 'r, 'a) action" where
  "on_store messages body w =
     (case wo_store w of
        None \<Rightarrow> (w, Inl (ControlPlaneFailure 503 ''workflows_disabled'' ''Offline workflows are not enabled.''))
      | Some d \<Rightarrow> (case body d of (d', r) \<Rightarrow> (w\<lparr>wo_store := Some d'\<rparr>, map_sum (translate messages) id r)))"

definition operation ::
    "('e, 's, 'r) APIControlPlane \<Rightarrow> string \<times> string \<times> string \<Rightarrow> 'e request \<Rightarrow> Principal \<Rightarrow> string \<Rightarrow> int \<Rightarrow>
       (db \<Rightarrow> db \<times> (api_error + 'a)) \<Rightarrow> ('s, 'r, 'a) action" where
  "operation P messages q who name tokens body = guarded P q who name tokens (\<lambda>_. []) (on_store messages body)"

text \<open>A call that changes the store inside a route.\<close>

definition store_call :: "exn + (db \<times> 'a) \<Rightarrow> ('a \<Rightarrow> db \<Rightarrow> db \<times> (api_error + 'b)) \<Rightarrow> db \<Rightarrow> db \<times> (api_error + 'b)" where
  "store_call r k d = (case r of Inl e \<Rightarrow> (d, Inl (Uncaught e)) | Inr (d', x) \<Rightarrow> k x d')"

text \<open>The packet of a prompt; the trace is made of the names that identify the request.\<close>

definition api_packet ::
    "pylib \<Rightarrow> (string \<Rightarrow> string) \<Rightarrow> string list \<Rightarrow> string \<Rightarrow> string \<Rightarrow> int \<Rightarrow> rat \<Rightarrow> exn + TaskPacket" where
  "api_packet L uuid5 names prompt model max_tokens temperature =
     (let trace = \<lparr>tc_request_id = uuid5 (canonical_json L (JArr (map JStr names))), tc_traceparent = None\<rparr>;
          generation = \<lparr>gc_max_output_tokens = Some max_tokens, gc_temperature = FloatNum temperature\<rparr>;
          requirements = \<lparr>requested_model = Some model, required_model = None, required_context_tokens = None,
            requires_structured_output = False, requires_streaming = False, required_accelerator = None,
            required_topology = None, required_data_location = None, production_only = False\<rparr>;
          task = \<lparr>it_input = TextInput prompt, it_generation = generation, it_requirements = requirements,
            it_trace = trace, it_deadline_at = None\<rparr>;
          p = \<lparr>tp_task = task, tp_schema_version = 1\<rparr> in
      bind_r (TextInput_post_init prompt) (\<lambda>_.
      bind_r (GenerationConfig_post_init generation) (\<lambda>_.
      bind_r (RoutingRequirements_post_init requirements) (\<lambda>_.
      bind_r (TraceContext_post_init trace) (\<lambda>_.
      bind_r (InferenceTask_post_init task) (\<lambda>_.
      bind_r (TaskPacket_post_init p) (\<lambda>_. Inr p)))))))"

section \<open>Workflows\<close>

definition workflow_messages :: "string \<times> string \<times> string" where
  "workflow_messages = (''workflow_conflict'', ''Workflow operation conflicts with saved state.'',
     ''Workflow state could not be verified.'')"

definition not_found :: api_error where
  "not_found = ControlPlaneFailure 404 ''workflow_not_found'' ''Workflow not found.''"

definition saved_workflow :: "pylib \<Rightarrow> Principal \<Rightarrow> string \<Rightarrow> db \<Rightarrow> api_error + workflow_view" where
  "saved_workflow L who workflow_id d =
     bind_r (lift_exn (get_binding L (pr_tenant_id who) workflow_id d)) (\<lambda>bound.
     bind_r (require (bound \<noteq> None) not_found) (\<lambda>_.
     bind_r (lift_exn (get L (pr_tenant_id who) workflow_id d)) (\<lambda>row.
     case row of None \<Rightarrow> Inl not_found | Some r \<Rightarrow> Inr r)))"

record workflow_summary =
  su_workflow_id :: string
  su_state :: workflow_state
  su_policy_version :: json
  su_result_available :: bool

definition summary :: "pylib \<Rightarrow> string \<Rightarrow> workflow_view \<Rightarrow> db \<Rightarrow> api_error + workflow_summary" where
  "summary L tenant row d =
     bind_r (lift_exn (get_binding L tenant (wf_id (vw_row row)) d)) (\<lambda>bound.
     case bound of
       None \<Rightarrow> Inl (Uncaught AssertionError)
     | Some b \<Rightarrow>
         bind_r (lift_exn (dict_item b ''version'')) (\<lambda>version.
         Inr \<lparr>su_workflow_id = wf_id (vw_row row), su_state = wf_state (vw_row row), su_policy_version = version,
              su_result_available = (wf_state (vw_row row) = Succeeded)\<rparr>))"

definition saved_summary :: "pylib \<Rightarrow> Principal \<Rightarrow> string \<Rightarrow> db \<Rightarrow> api_error + workflow_summary" where
  "saved_summary L who workflow_id d =
     bind_r (saved_workflow L who workflow_id d) (\<lambda>row. summary L (pr_tenant_id who) row d)"

text \<open>The limits are the largest prompt and the largest number of tokens of the settings.\<close>

definition create_workflow ::
    "pylib \<Rightarrow> (string \<Rightarrow> string) \<Rightarrow> ('e, 's, 'r) APIControlPlane \<Rightarrow> (string \<times> WorkflowPolicy) list \<Rightarrow> int \<times> int \<Rightarrow>
       string \<Rightarrow> CreateWorkflowRequest \<Rightarrow> 'e request \<Rightarrow> Principal \<Rightarrow> ('s, 'r, workflow_summary) action" where
  "create_workflow L uuid5 P policies limits uuid r q who =
     (let policy = map_of policies (pr_tenant_id who);
          tokens = (case policy of None \<Rightarrow> 0 | Some p \<Rightarrow> cw_max_tokens r * wl_max_attempts (wp_budget p)) in
      operation P workflow_messages q who ''workflow.create'' tokens (\<lambda>d.
        case policy of
          None \<Rightarrow> (d, Inl (ControlPlaneFailure 403 ''workflow_policy_required'' ''No authorized workflow policy.''))
        | Some p \<Rightarrow>
            if int (length (cw_prompt r)) > fst limits
               \<or> cw_max_tokens r > min (wl_max_output_tokens (wp_budget p)) (snd limits)
            then (d, Inl (ControlPlaneFailure 422 ''workflow_limit_exceeded'' ''Workflow input exceeds configured limits.''))
            else store_call
              (bind_r (api_packet L uuid5 [pr_tenant_id who, cw_idempotency_key r] (cw_prompt r) (cw_model r)
                 (cw_max_tokens r) (cw_temperature r)) (\<lambda>packet.
               bind_r (binding p) (\<lambda>b.
               create L (pr_tenant_id who) (cw_idempotency_key r) packet (Some b) uuid d)))
              (\<lambda>workflow_id d'. (d', saved_summary L who workflow_id d')) d))"

definition workflow_status ::
    "pylib \<Rightarrow> ('e, 's, 'r) APIControlPlane \<Rightarrow> string \<Rightarrow> 'e request \<Rightarrow> Principal \<Rightarrow> ('s, 'r, workflow_summary) action" where
  "workflow_status L P workflow_id q who =
     operation P workflow_messages q who ''workflow.status'' 0 (\<lambda>d. (d, saved_summary L who workflow_id d))"

definition cancel_workflow ::
    "pylib \<Rightarrow> ('e, 's, 'r) APIControlPlane \<Rightarrow> string \<Rightarrow> 'e request \<Rightarrow> Principal \<Rightarrow> ('s, 'r, workflow_summary) action" where
  "cancel_workflow L P workflow_id q who =
     operation P workflow_messages q who ''workflow.cancel'' 0 (\<lambda>d.
       case saved_workflow L who workflow_id d of
         Inl e \<Rightarrow> (d, Inl e)
       | Inr _ \<Rightarrow>
           store_call (cancel (pr_tenant_id who) workflow_id d) (\<lambda>ok d'.
             if ok then (d', saved_summary L who workflow_id d')
             else (d', Inl (Uncaught (WorkflowConflict ''Workflow cannot be cancelled'')))) d)"

definition workflow_result ::
    "pylib \<Rightarrow> ('e, 's, 'r) APIControlPlane \<Rightarrow> string \<Rightarrow> 'e request \<Rightarrow> Principal \<Rightarrow>
       ('s, 'r, workflow_summary \<times> json option \<times> json) action" where
  "workflow_result L P workflow_id q who =
     operation P workflow_messages q who ''workflow.result'' 0 (\<lambda>d.
       case saved_workflow L who workflow_id d of
         Inl e \<Rightarrow> (d, Inl e)
       | Inr row \<Rightarrow>
           if wf_state (vw_row row) \<noteq> Succeeded \<or> vw_validation row = None
           then (d, Inl (Uncaught (WorkflowConflict ''Workflow has no accepted result'')))
           else store_call (validate L (pr_tenant_id who) workflow_id None d) (\<lambda>report d'.
             (d', bind_r (lift_exn (dict_item report ''decision'')) (\<lambda>decision.
                  bind_r (require (decision = JStr ''accepted'')
                    (Uncaught (WorkflowConflict ''Workflow result is not accepted''))) (\<lambda>_.
                  bind_r (summary L (pr_tenant_id who) row d') (\<lambda>s. Inr (s, vw_result row, report)))))) d)"

section \<open>Graphs\<close>

definition graph_messages :: "string \<times> string \<times> string" where
  "graph_messages = (''workflow_graph_conflict'', ''Workflow graph operation conflicts with saved state.'',
     ''Workflow graph state could not be verified.'')"

definition graph_not_found :: api_error where
  "graph_not_found = ControlPlaneFailure 404 ''workflow_graph_not_found'' ''Graph not found.''"

definition saved_graph :: "pylib \<Rightarrow> Principal \<Rightarrow> string \<Rightarrow> db \<Rightarrow> api_error + GraphState" where
  "saved_graph L who graph_id d =
     bind_r (lift_exn (get_graph_binding L (pr_tenant_id who) graph_id d)) (\<lambda>bound.
     bind_r (require (bound \<noteq> None) graph_not_found) (\<lambda>_.
     bind_r (lift_exn (get_graph_state L (pr_tenant_id who) graph_id d)) (\<lambda>state.
     case state of None \<Rightarrow> Inl graph_not_found | Some s \<Rightarrow> Inr s)))"

record graph_summary =
  gy_graph_id :: string
  gy_state :: string
  gy_terminal :: bool
  gy_nodes :: "(string \<times> NodeState) list"

definition aggregate :: "GraphState \<Rightarrow> string" where
  "aggregate s =
     (if terminal s
      then if list_all (\<lambda>(_, value). value = SUCCEEDED) (node_states s) then ''succeeded'' else ''completed_with_failures''
      else ''active'')"

definition summary_of_graph :: "pylib \<Rightarrow> string \<Rightarrow> string \<Rightarrow> db \<Rightarrow> api_error + graph_summary" where
  "summary_of_graph L tenant graph_id d =
     bind_r (lift_exn (get_graph_state L tenant graph_id d)) (\<lambda>state.
     case state of
       None \<Rightarrow> Inl (Uncaught AssertionError)
     | Some s \<Rightarrow> Inr \<lparr>gy_graph_id = graph_id, gy_state = aggregate s, gy_terminal = terminal s, gy_nodes = node_states s\<rparr>)"

definition api_node ::
    "pylib \<Rightarrow> (string \<Rightarrow> string) \<Rightarrow> string \<Rightarrow> string \<Rightarrow> CreateGraphNodeRequest \<Rightarrow> exn + GraphNode" where
  "api_node L uuid5 tenant key r =
     bind_r (api_packet L uuid5 [tenant, key, cg_node_id r] (cg_prompt r) (cg_model r) (cg_max_tokens r) (cg_temperature r))
       (\<lambda>packet.
     let n = \<lparr>node_id = cg_node_id r, node_packet = packet, depends_on = sort (cg_depends_on r)\<rparr> in
     bind_r (GraphNode_post_init n) (\<lambda>_. Inr n))"

definition api_graph ::
    "pylib \<Rightarrow> (string \<Rightarrow> string) \<Rightarrow> string \<Rightarrow> CreateWorkflowGraphRequest \<Rightarrow> api_error + WorkflowGraph" where
  "api_graph L uuid5 tenant r =
     bind_r (lift_exn (traverse (api_node L uuid5 tenant (cq_idempotency_key r)) (sort_key cg_node_id (cq_nodes r)))) (\<lambda>nodes.
     let g = \<lparr>graph_nodes = nodes, graph_schema_version = 1\<rparr> in
     case WorkflowGraph_post_init g of
       Inr _ \<Rightarrow> Inr g
     | Inl (ValueError _) \<Rightarrow> Inl (ControlPlaneFailure 422 ''invalid_workflow_graph'' ''Workflow graph is invalid.'')
     | Inl e \<Rightarrow> Inl (Uncaught e))"

definition policy_budget :: "WorkflowPolicy \<Rightarrow> graph_budget" where
  "policy_budget p = \<lparr>bu_deadline_seconds = FloatNum (wl_deadline_seconds (wp_budget p)),
     bu_max_attempts = wl_max_attempts (wp_budget p), bu_max_output_tokens = Some (wl_max_output_tokens (wp_budget p))\<rparr>"

definition create_workflow_graph ::
    "pylib \<Rightarrow> (string \<Rightarrow> string) \<Rightarrow> ('e, 's, 'r) APIControlPlane \<Rightarrow> (string \<times> WorkflowPolicy) list \<Rightarrow> int \<times> int \<Rightarrow>
       string \<Rightarrow> instant \<Rightarrow> CreateWorkflowGraphRequest \<Rightarrow> 'e request \<Rightarrow> Principal \<Rightarrow> ('s, 'r, graph_summary) action" where
  "create_workflow_graph L uuid5 P policies limits uuid clk r q who =
     (let policy = map_of policies (pr_tenant_id who);
          tokens = (case policy of None \<Rightarrow> 0 | Some p \<Rightarrow> wl_max_output_tokens (wp_budget p)) in
      operation P graph_messages q who ''workflow_graph.create'' tokens (\<lambda>d.
        case policy of
          None \<Rightarrow> (d, Inl (ControlPlaneFailure 403 ''workflow_policy_required'' ''No authorized workflow policy.''))
        | Some p \<Rightarrow>
            if list_ex (\<lambda>node. int (length (cg_prompt node)) > fst limits
                 \<or> cg_max_tokens node > min (wl_max_output_tokens (wp_budget p)) (snd limits)) (cq_nodes r)
            then (d, Inl (ControlPlaneFailure 422 ''workflow_limit_exceeded''
                   ''Workflow graph input exceeds configured limits.''))
            else (case api_graph L uuid5 (pr_tenant_id who) r of
                    Inl e \<Rightarrow> (d, Inl e)
                  | Inr graph \<Rightarrow>
                      store_call
                        (bind_r (binding p) (\<lambda>b.
                         create_graph L (pr_tenant_id who) (cq_idempotency_key r) graph (Some (policy_budget p)) (Some b) clk None
                           uuid d))
                        (\<lambda>graph_id d'. (d', summary_of_graph L (pr_tenant_id who) graph_id d')) d)))"

definition workflow_graph_status ::
    "pylib \<Rightarrow> ('e, 's, 'r) APIControlPlane \<Rightarrow> string \<Rightarrow> 'e request \<Rightarrow> Principal \<Rightarrow> ('s, 'r, graph_summary) action" where
  "workflow_graph_status L P graph_id q who =
     operation P graph_messages q who ''workflow_graph.status'' 0 (\<lambda>d.
       (d, bind_r (saved_graph L who graph_id d) (\<lambda>_. summary_of_graph L (pr_tenant_id who) graph_id d)))"

definition cancel_workflow_graph ::
    "pylib \<Rightarrow> ('e, 's, 'r) APIControlPlane \<Rightarrow> string \<Rightarrow> 'e request \<Rightarrow> Principal \<Rightarrow> ('s, 'r, graph_summary) action" where
  "cancel_workflow_graph L P graph_id q who =
     operation P graph_messages q who ''workflow_graph.cancel'' 0 (\<lambda>d.
       case saved_graph L who graph_id d of
         Inl e \<Rightarrow> (d, Inl e)
       | Inr _ \<Rightarrow>
           store_call (cancel_graph L (pr_tenant_id who) graph_id d) (\<lambda>_ d'.
             (d', summary_of_graph L (pr_tenant_id who) graph_id d')) d)"

definition workflow_graph_result ::
    "pylib \<Rightarrow> ('e, 's, 'r) APIControlPlane \<Rightarrow> string \<Rightarrow> 'e request \<Rightarrow> Principal \<Rightarrow>
       ('s, 'r, graph_summary \<times> (string \<times> json \<times> json) list) action" where
  "workflow_graph_result L P graph_id q who =
     operation P graph_messages q who ''workflow_graph.result'' 0 (\<lambda>d.
       (d, bind_r (saved_graph L who graph_id d) (\<lambda>_.
           bind_r (lift_exn (accepted_graph_results L (pr_tenant_id who) graph_id d)) (\<lambda>results.
           bind_r (summary_of_graph L (pr_tenant_id who) graph_id d) (\<lambda>s.
           bind_r (lift_exn (traverse (\<lambda>(node, artifact, validation).
             map_r (\<lambda>content. (node, content, validation)) (payload L artifact)) results)) (\<lambda>rendered.
           Inr (s, rendered)))))))"

end
