(* ===== verification/CreationTheorems.thy ===== *)
theory CreationTheorems
  imports WorkflowApi ExecutorTheorems ControlTheorems
begin

text \<open>
  From the request to the router: a workflow that a client creates can be executed, with the prompt of the request and
  within the limits of the policy of its tenant, and a request for a graph is turned down exactly when it is not one.
\<close>

section \<open>A ready workflow can be executed\<close>

lemma ready_cluster:
  assumes "store_ok L d" and r: "find_workflow t i d = Some r" and "wf_state r = Ready"
  shows "wf_fence r = 0" and "wf_result r = None" and "wf_result_artifact_id r = None"
    and "\<not> list_ex (\<lambda>j. di_workflow_id j = i) (workflow_dispatches d)" and "find_validation t i d = None"
proof -
  have mem: "r \<in> set (workflows d)" "wf_id r = i" using find_workflowD [OF r] by auto
  have c: "cluster_ok L r (cluster i d)" using store_okD(5) [OF assms(1) mem(1)] mem(2) by simp
  then show "wf_fence r = 0" and "wf_result r = None" and "wf_result_artifact_id r = None"
    using assms(3) by (auto simp: cluster_ok_def row_ok_def cluster_def)
  have "filter (\<lambda>j. di_workflow_id j = i) (workflow_dispatches d) = []"
    using c \<open>wf_fence r = 0\<close>
    by (cases "filter (\<lambda>j. di_workflow_id j = i) (workflow_dispatches d)")
       (auto simp: cluster_ok_def cluster_def dispatches_ok_def)
  then show "\<not> list_ex (\<lambda>j. di_workflow_id j = i) (workflow_dispatches d)" by (simp add: list_ex_iff filter_empty_conv)
  have "filter (\<lambda>v. va_workflow_id v = i) (workflow_validations d) = []"
    using c assms(3) by (auto simp: cluster_ok_def cluster_def validations_ok_def)
  then show "find_validation t i d = None" by (auto simp: find_validation_def find_None filter_empty_conv)
qed

lemma ready_prepares:
  assumes ok: "store_ok L d" and r: "find_workflow t i d = Some r" "wf_state r = Ready"
    and packet: "loads L (wf_packet r) = Some v" "from_dict L v = Inr packet"
    and budget: "get_binding L t i d = Inr bnd" "choose_budget (xc_budget xc) bnd given = Inr b"
    and owner: "identifier_ok owner" "1 \<le> secs" "secs \<le> 3600" "xc_dispatch xc < xc_claim xc + seconds (of_int secs)"
  shows "\<exists>d'. prepare_execution L t i owner given secs xc d = (d', Done (1, packet, b))"
proof -
  note c = ready_cluster [OF ok r]
  define lease where "lease = xc_claim xc + seconds (of_int secs)"
  define f where "f = (\<lambda>r :: workflow_row. r\<lparr>wf_state := Running, wf_fence := 1, wf_owner := Some owner, wf_lease_until := Some lease\<rparr>)"
  define d1 where "d1 = event t i (State Running) 1 (d\<lparr>workflows := update_where (wf_is t i) f (workflows d)\<rparr>)"
  have claim: "claim L t i owner secs (xc_claim xc) None d = Inr (d1, 1)"
    using r packet owner(1-3) c(1) by (simp add: claim_def check_identifier_def decode_def d1_def f_def lease_def)
  have found: "find_workflow t i d1 = Some (f r)"
    using r(1) find_workflow_update [of d1 t i f d t i] by (simp add: d1_def f_def)
  have tables: "workflow_dispatches d1 = workflow_dispatches d" "find_validation t i d1 = None"
    using c(5) by (simp_all add: find_validation_def d1_def)
  have get: "get_packet L t i d1 = Inr (Some packet)"
    using packet c(2,3) by (simp add: get_packet_def get_def found decode_def tables f_def)
  obtain d' where "begin_dispatch L t i owner 1 (dispatch_json (xc_remaining xc) b) (xc_dispatch xc) None d1 = Inr (d', ())"
    using owner(4) c(4) by (simp add: begin_dispatch_def require_lease_def found tables f_def lease_def)
  then show ?thesis
    using budget claim get by (simp add: prepare_execution_def consult_def persist_def)
qed

section \<open>What creation stores stays\<close>

lemma whole_step_grows: "whole_step L d d' \<Longrightarrow> grows d d'"
proof (induction rule: whole_step.induct)
  case (ws_task d d')
  then show ?case by (rule store_step_grows)
next
  case (ws_graph d d')
  from graph_store_step_task_tables [OF this] show ?case by (simp add: grows_def task_tables_def)
qed

lemma whole_run_grows: "(whole_step L)\<^sup>*\<^sup>* d d' \<Longrightarrow> grows d d'"
  by (induction rule: rtranclp_induct) (auto intro: grows_trans whole_step_grows)

text \<open>A fresh row and its binding, at any later time.\<close>

lemma fresh_stays:
  assumes laws: "lib_laws L" and ok: "whole_ok L d" and c: "create L t key packet (Some b) uuid d = Inr (d1, i)"
    and new: "\<forall>x \<in> set (workflows d). \<not> wf_key_is t key x" and p: "packet_ok packet"
    and run: "(whole_step L)\<^sup>*\<^sup>* d1 d2"
  shows "i = uuid \<and> whole_ok L d2 \<and> (\<exists>r. find_workflow t i d2 = Some r \<and> wf_packet r = canonical_json L (to_dict L packet))
    \<and> List.find (\<lambda>x. bi_tenant x = t \<and> bi_workflow_id x = i) (workflow_bindings d2)
        = Some \<lparr>bi_workflow_id = i, bi_tenant = t, bi_binding_json = canonical_json L b\<rparr>"
  using c
proof (cases rule: createD)
  case (known r)
  then show ?thesis using new by blast
next
  case (fresh validated bs)
  let ?row = "\<lparr>bi_workflow_id = i, bi_tenant = t, bi_binding_json = canonical_json L b\<rparr>"
  have v: "validated = packet" using fresh(1) from_dict_to_dict [OF _ p, of L] laws by (simp add: lib_laws_def)
  have step: "whole_step L d d1" using c by (intro ws_task st_create)
  have ok2: "whole_ok L d2"
    using whole_run_good [of L d d2] converse_rtranclp_into_rtranclp [OF step run] laws ok by blast
  have grow: "grows d1 d2" by (rule whole_run_grows [OF run])
  have "cluster uuid d = ([], [], [], [])"
    using store_okD(4) [of L d uuid] ok fresh(2) by (auto simp: whole_ok_def)
  then have none: "\<forall>x \<in> set (workflow_bindings d). bi_workflow_id x \<noteq> uuid"
    by (auto simp: cluster_def filter_empty_conv)
  obtain zs where "workflow_bindings d2 = workflow_bindings d @ [?row] @ zs"
    using grow fresh(3-5) by (auto simp: grows_def prefix_def)
  moreover have "List.find (\<lambda>x. bi_tenant x = t \<and> bi_workflow_id x = i) (workflow_bindings d) = None"
    using none fresh(3) by (auto simp: find_None)
  ultimately have f: "List.find (\<lambda>x. bi_tenant x = t \<and> bi_workflow_id x = i) (workflow_bindings d2) = Some ?row"
    by (simp add: find_append)
  obtain ids where "map wf_identity (workflows d2) = map wf_identity (workflows d1) @ ids"
    using grow by (auto simp: grows_def prefix_def)
  moreover have "(uuid, t, key, request_digest L packet (Some b), canonical_json L (to_dict L packet)) \<in> set (map wf_identity (workflows d1))"
    using fresh(5) v by (auto simp: wf_identity_def)
  ultimately have "(uuid, t, key, request_digest L packet (Some b), canonical_json L (to_dict L packet)) \<in> wf_identity ` set (workflows d2)"
    by (metis Un_iff set_append set_map)
  then obtain r where r: "r \<in> set (workflows d2)" "wf_id r = uuid" "wf_tenant r = t" "wf_packet r = canonical_json L (to_dict L packet)"
    by (auto simp: wf_identity_def)
  then have "find_workflow t i d2 = Some r"
    using find_workflow_iff [of L d2 t i r] ok2 fresh(3) by (simp add: whole_ok_def)
  then show ?thesis using ok2 f r(4) fresh(3) by blast
qed

section \<open>What the route stores\<close>

lemma operation_store:
  fixes w :: "('s, 'r) world"
  assumes "operation P messages q who name n body w = (w', Inr x)" and "wo_store w = Some d"
  shows "\<exists>d1. body d = (d1, Inr x) \<and> wo_store w' = Some d1"
proof -
  obtain s ok where a: "co_admit (ap_admission P) (hr_admit_env q) (pr_tenant_id who) n (wo_admission w) = (s, ok)" by fastforce
  note g = guarded_cases [OF assms(1) [unfolded operation_def] a]
  then have ok by (cases ok) auto
  with g obtain w1 w2 :: "('s, 'r) world" where w: "wo_store w1 = Some d" "on_store messages body w1 = (w2, Inr x)" "wo_store w' = wo_store w2"
    using assms(2) by auto
  obtain d1 r where b: "body d = (d1, r)" by fastforce
  then have "wo_store w2 = Some d1" and "map_sum (translate messages) id r = Inr x"
    using w by (auto simp: on_store_def)
  then show ?thesis using b w(3) by (cases r) auto
qed

lemma api_packetD:
  assumes "api_packet L uuid5 names prompt model n temp = Inr p"
  shows "packet_ok p \<and> it_input (tp_task p) = TextInput prompt \<and> gc_max_output_tokens (it_generation (tp_task p)) = Some n
    \<and> requested_model (it_requirements (tp_task p)) = Some model \<and> (float_ok L temp \<longrightarrow> floats_ok L (to_dict L p))"
proof -
  have p: "packet_ok p \<and> it_input (tp_task p) = TextInput prompt \<and> gc_max_output_tokens (it_generation (tp_task p)) = Some n
      \<and> requested_model (it_requirements (tp_task p)) = Some model"
    using assms by (auto simp: api_packet_def Let_def bind_r_eq_Inr packet_ok_def task_ok_def)
  have "floats_ok L (to_dict L p)" if "float_ok L temp"
    using assms that
    by (auto simp: api_packet_def Let_def bind_r_eq_Inr to_dict_def floats_ok_sort_keys generation_json_def
        requirements_json_def trace_json_def deadline_json_def)
  with p show ?thesis by blast
qed

lemma binding_floats:
  assumes "binding p = Inr b" and "float_ok L (wl_deadline_seconds (wp_budget p))"
  shows "floats_ok L b"
proof -
  obtain vp s where s: "acceptance_policy (wp_acceptance p) = Inr vp" "policy_snapshot vp = Inr s"
    and b: "b = JObj [(''version'', JStr (wp_version p)), (''policy'', s), (''budget'', limits_json (wp_budget p))]"
    using assms(1) by (auto simp: binding_def bind_r_eq_Inr)
  have "vp_output_schema vp = None" using s(1) by (auto simp: acceptance_policy_def Let_def bind_r_eq_Inr)
  moreover have "s = sort_keys (policy_json vp)" using s(2) by (auto simp: policy_snapshot_def Let_def bind_r_eq_Inr)
  moreover have "floats_ok_list L (map JStr xs)" for xs by (induction xs) auto
  moreover have "floats_ok L (jopt JStr x)" for x by (cases x) auto
  ultimately have "floats_ok L s" by (simp add: floats_ok_sort_keys policy_json_def)
  then show ?thesis using assms(2) by (simp add: b limits_json_def)
qed

lemma get_row: "get L t i d = Inr (Some v) \<Longrightarrow> find_workflow t i d = Some (vw_row v)"
  by (auto simp: get_def bind_r_eq_Inr split: option.splits)

lemma saved_workflowD:
  assumes "saved_workflow L who i d = Inr v"
  shows "get L (pr_tenant_id who) i d = Inr (Some v) \<and> find_workflow (pr_tenant_id who) i d = Some (vw_row v)
    \<and> wf_id (vw_row v) = i \<and> (\<exists>b. get_binding L (pr_tenant_id who) i d = Inr (Some b))"
proof -
  have "get L (pr_tenant_id who) i d = Inr (Some v)" and "\<exists>b. get_binding L (pr_tenant_id who) i d = Inr (Some b)"
    using assms by (auto simp: saved_workflow_def lift_exn_def bind_r_eq_Inr split: sum.splits option.splits)
  then show ?thesis using get_row find_workflowD by blast
qed

lemma saved_summaryD:
  assumes "saved_summary L who i d = Inr s"
  shows "su_workflow_id s = i \<and> (\<exists>row. find_workflow (pr_tenant_id who) i d = Some row \<and> su_state s = wf_state row)"
proof -
  obtain v where v: "saved_workflow L who i d = Inr v" "summary L (pr_tenant_id who) v d = Inr s"
    using assms by (auto simp: saved_summary_def bind_r_eq_Inr)
  show ?thesis using saved_workflowD [OF v(1)] v(2) by (auto simp: summary_def bind_r_eq_Inr split: option.splits)
qed

text \<open>A created workflow, as the store has it.\<close>

lemma create_workflowD:
  assumes "create_workflow L uuid5 P policies limits uuid r q who w = (w', Inr s)" and "wo_store w = Some d"
  obtains p packet b d1 where "map_of policies (pr_tenant_id who) = Some p"
    and "int (length (cw_prompt r)) \<le> fst limits" and "cw_max_tokens r \<le> wl_max_output_tokens (wp_budget p)"
    and "api_packet L uuid5 [pr_tenant_id who, cw_idempotency_key r] (cw_prompt r) (cw_model r) (cw_max_tokens r) (cw_temperature r) = Inr packet"
    and "binding p = Inr b" and "create L (pr_tenant_id who) (cw_idempotency_key r) packet (Some b) uuid d = Inr (d1, su_workflow_id s)"
    and "wo_store w' = Some d1"
proof -
  let ?t = "pr_tenant_id who"
  define body where "body = (\<lambda>d. case map_of policies ?t of
        None \<Rightarrow> (d, Inl (ControlPlaneFailure 403 ''workflow_policy_required'' ''No authorized workflow policy.''))
      | Some p \<Rightarrow>
          if int (length (cw_prompt r)) > fst limits
             \<or> cw_max_tokens r > min (wl_max_output_tokens (wp_budget p)) (snd limits)
          then (d, Inl (ControlPlaneFailure 422 ''workflow_limit_exceeded'' ''Workflow input exceeds configured limits.''))
          else store_call
            (bind_r (api_packet L uuid5 [?t, cw_idempotency_key r] (cw_prompt r) (cw_model r)
               (cw_max_tokens r) (cw_temperature r)) (\<lambda>packet.
             bind_r (binding p) (\<lambda>b. create L ?t (cw_idempotency_key r) packet (Some b) uuid d)))
            (\<lambda>workflow_id d'. (d', saved_summary L who workflow_id d')) d)"
  obtain n where op: "operation P workflow_messages q who ''workflow.create'' n body w = (w', Inr s)"
    using assms(1) by (auto simp: create_workflow_def Let_def body_def)
  obtain d1 where b: "body d = (d1, Inr s)" and w': "wo_store w' = Some d1"
    using operation_store [OF op assms(2)] by blast
  obtain p where p: "map_of policies ?t = Some p" using b by (cases "map_of policies ?t") (auto simp: body_def)
  have lim: "int (length (cw_prompt r)) \<le> fst limits" "cw_max_tokens r \<le> wl_max_output_tokens (wp_budget p)"
    using b p by (auto simp: body_def split: if_splits)
  obtain packet bd i where c: "api_packet L uuid5 [?t, cw_idempotency_key r] (cw_prompt r) (cw_model r) (cw_max_tokens r)
        (cw_temperature r) = Inr packet" "binding p = Inr bd" "create L ?t (cw_idempotency_key r) packet (Some bd) uuid d = Inr (d1, i)"
    and s: "saved_summary L who i d1 = Inr s"
    using b p by (auto simp: body_def store_call_def bind_r_eq_Inr split: if_splits sum.splits)
  have "su_workflow_id s = i" using saved_summaryD [OF s] by blast
  with c show thesis by (intro that [OF p lim c(1,2) _ w']) simp
qed

text \<open>C5. 
  A workflow that a client creates can be executed. Whenever it is still ready, at any later time and by any worker
  with a proper lease, the execution reaches the router with the prompt, the model and the number of tokens of the
  request and with a fresh budget of exactly the limits of the policy of the tenant; the result will be judged by
  the acceptance rules of that policy.
\<close>

theorem created_workflow_executes:
  assumes "lib_laws L" and "reachable store_init (whole_step L) d" and "wo_store w = Some d"
    and "create_workflow L uuid5 P policies limits uuid r q who w = (w', Inr s)" and "\<forall>(t, p) \<in> set policies. declared p"
    and "\<forall>x \<in> set (workflows d). \<not> wf_key_is (pr_tenant_id who) (cw_idempotency_key r) x"
    and "float_ok L (cw_temperature r)" and "\<forall>(t, p) \<in> set policies. float_ok L (wl_deadline_seconds (wp_budget p))"
    and "wo_store w' = Some d1" and "(whole_step L)\<^sup>*\<^sup>* d1 d2" and "\<exists>row. find_workflow (pr_tenant_id who) (su_workflow_id s) d2 = Some row \<and> wf_state row = Ready"
    and "identifier_ok owner" "1 \<le> secs" "secs \<le> 3600" "xc_dispatch xc < xc_claim xc + seconds (of_int secs)"
  shows "\<exists>p d3 packet b vp. map_of policies (pr_tenant_id who) = Some p
    \<and> prepare_execution L (pr_tenant_id who) (su_workflow_id s) owner None secs xc d2 = (d3, Done (1, packet, b))
    \<and> it_input (tp_task packet) = TextInput (cw_prompt r) \<and> requested_model (it_requirements (tp_task packet)) = Some (cw_model r)
    \<and> gc_max_output_tokens (it_generation (tp_task packet)) = Some (cw_max_tokens r)
    \<and> cw_max_tokens r \<le> wl_max_output_tokens (wp_budget p)
    \<and> b = \<lparr>wb_deadline_seconds = wl_deadline_seconds (wp_budget p), wb_max_attempts = wl_max_attempts (wp_budget p),
           wb_max_output_tokens = Some (wl_max_output_tokens (wp_budget p)), wb_started = mono (xc_budget xc), wb_attempts = 0,
           wb_output_tokens = 0\<rparr>
    \<and> acceptance_policy (wp_acceptance p) = Inr vp
    \<and> (\<exists>bnd snapshot. get_binding L (pr_tenant_id who) (su_workflow_id s) d2 = Inr bnd \<and> bound_snapshot bnd None = Inr snapshot
         \<and> validation_policy_from_snapshot snapshot = Inr vp)"
  using assms(4,3)
proof (rule create_workflowD)
  let ?t = "pr_tenant_id who" and ?i = "su_workflow_id s"
  fix p packet bd d1'
  assume p: "map_of policies ?t = Some p" and lim: "cw_max_tokens r \<le> wl_max_output_tokens (wp_budget p)"
    and pk: "api_packet L uuid5 [?t, cw_idempotency_key r] (cw_prompt r) (cw_model r) (cw_max_tokens r) (cw_temperature r) = Inr packet"
    and bd: "binding p = Inr bd" and c: "create L ?t (cw_idempotency_key r) packet (Some bd) uuid d = Inr (d1', ?i)"
    and "wo_store w' = Some d1'"
  then have d1: "d1' = d1" using assms(9) by simp
  note pkD = api_packetD [OF pk]
  have ok: "whole_ok L d" by (rule whole_reachable_ok [OF assms(2,1)])
  note st = fresh_stays [OF assms(1) ok c [unfolded d1] assms(6) conjunct1 [OF pkD] assms(10)]
  obtain row where row: "find_workflow ?t ?i d2 = Some row" "wf_state row = Ready" using assms(11) by blast
  have laws: "loads_canonical L" "iso_roundtrip L" using assms(1) by (auto simp: lib_laws_def)
  have packet: "loads L (wf_packet row) = Some (to_dict L packet)" "from_dict L (to_dict L packet) = Inr packet"
    using st row(1) pkD assms(7) laws from_dict_to_dict [OF laws(2), of packet]
    by (auto simp: loads_canonical_def to_dict_sorted)
  have "declared p" using assms(5) map_of_SomeD [OF p] by blast
  from binding_usable [OF this, of "xc_budget xc"] bd obtain vp snapshot
    where vp: "acceptance_policy (wp_acceptance p) = Inr vp" "dict_item (sort_keys bd) ''policy'' = Inr snapshot"
      "validation_policy_from_snapshot snapshot = Inr vp"
    and budget: "bound_budget (xc_budget xc) (sort_keys bd) = Inr \<lparr>wb_deadline_seconds = wl_deadline_seconds (wp_budget p),
        wb_max_attempts = wl_max_attempts (wp_budget p), wb_max_output_tokens = Some (wl_max_output_tokens (wp_budget p)),
        wb_started = mono (xc_budget xc), wb_attempts = 0, wb_output_tokens = 0\<rparr>" by auto
  have "loads L (canonical_json L bd) = Some (sort_keys bd)"
    using binding_floats [OF bd, of L] assms(8) map_of_SomeD [OF p] laws(1) by (auto simp: loads_canonical_def)
  then have gb: "get_binding L ?t ?i d2 = Inr (Some (sort_keys bd))"
    using conjunct2 [OF conjunct2 [OF conjunct2 [OF st]]] by (simp add: get_binding_def decode_def)
  have sok: "store_ok L d2" using st by (simp add: whole_ok_def)
  obtain d3 where prep: "prepare_execution L ?t ?i owner None secs xc d2 = (d3, Done (1, packet, \<lparr>wb_deadline_seconds = wl_deadline_seconds (wp_budget p),
        wb_max_attempts = wl_max_attempts (wp_budget p), wb_max_output_tokens = Some (wl_max_output_tokens (wp_budget p)),
        wb_started = mono (xc_budget xc), wb_attempts = 0, wb_output_tokens = 0\<rparr>))"
    using ready_prepares [OF sok row packet gb _ assms(12-15), where given = None] budget by (auto simp: choose_budget_def)
  moreover have "bound_snapshot (Some (sort_keys bd)) None = Inr snapshot" using vp(2) by (simp add: bound_snapshot_def)
  ultimately show ?thesis using p lim pkD vp(1,3) gb by blast
qed

definition client_policy :: WorkflowPolicy where
  "client_policy = \<lparr>wp_version = ''v1'',
     wp_acceptance = \<lparr>al_required_sections = [], al_forbidden_phrases = [''secret''], al_require_citations = False,
       al_minimum_chars = 1, al_maximum_chars = 100, al_language = None\<rparr>,
     wp_budget = \<lparr>wl_deadline_seconds = 60, wl_max_attempts = 2, wl_max_output_tokens = 50\<rparr>\<rparr>"

definition client_plane :: "(rat, usages, records_db) APIControlPlane" where
  "client_plane = \<lparr>ap_api_keys = [(''ab'', operator_key)],
     ap_admission = process_coordinator [(''acme'', \<lparr>qp_requests_per_minute = 5, qp_concurrent_requests = 1, qp_tokens_per_minute = 500\<rparr>)],
     ap_records = Some (sqlite_writer sample_lib)\<rparr>"

definition client_world :: "(usages, records_db) world" where
  "client_world = \<lparr>wo_admission = [], wo_records = \<lparr>rd_schema_meta = [2], rd_records = Some [], rd_records_v1 = None\<rparr>, wo_log = [],
     wo_store = Some sample_db, wo_states = None\<rparr>"

definition client_http :: "rat request" where
  "client_http = \<lparr>hr_request_id = ''r1'', hr_path = ''/v1/workflows'', hr_authorization = Some ''Bearer ryuk_ab_s_e_c'', hr_tenant = None,
     hr_traceparent = None, hr_now = 0, hr_admit_env = 0, hr_release_env = 0\<rparr>"

definition client_request :: CreateWorkflowRequest where
  "client_request = \<lparr>cw_idempotency_key = ''k1'', cw_prompt = ''hi'', cw_model = ''m'', cw_max_tokens = 10, cw_temperature = 1\<rparr>"

definition client_packet :: TaskPacket where
  "client_packet = \<lparr>tp_task = \<lparr>it_input = TextInput ''hi'',
       it_generation = \<lparr>gc_max_output_tokens = Some 10, gc_temperature = FloatNum 1\<rparr>,
       it_requirements = \<lparr>requested_model = Some ''m'', required_model = None, required_context_tokens = None,
         requires_structured_output = False, requires_streaming = False, required_accelerator = None,
         required_topology = None, required_data_location = None, production_only = False\<rparr>,
       it_trace = \<lparr>tc_request_id = ''trace'', tc_traceparent = None\<rparr>, it_deadline_at = None\<rparr>, tp_schema_version = 1\<rparr>"

definition client_binding :: json where
  "client_binding = (case binding client_policy of Inr b \<Rightarrow> b | Inl _ \<Rightarrow> JNull)"

definition client_db :: db where
  "client_db = event ''acme'' ''w1'' (State Ready) 0 (sample_db\<lparr>
     workflows := [\<lparr>wf_id = ''w1'', wf_tenant = ''acme'', wf_key = ''k1'',
       wf_request_hash = request_digest sample_lib client_packet (Some client_binding),
       wf_packet = canonical_json sample_lib (to_dict sample_lib client_packet), wf_state = Ready, wf_fence = 0, wf_owner = None,
       wf_lease_until = None, wf_result = None, wf_result_artifact_id = None\<rparr>],
     workflow_bindings := [\<lparr>bi_workflow_id = ''w1'', bi_tenant = ''acme'', bi_binding_json = canonical_json sample_lib client_binding\<rparr>]\<rparr>)"

lemma client_api:
  "api_packet sample_lib (\<lambda>_. ''trace'') [''acme'', ''k1''] ''hi'' ''m'' 10 1 = Inr client_packet"
  "binding client_policy = Inr client_binding" "declared client_policy" "float_ok sample_lib 1" "float_ok sample_lib 60"
  by code_simp+

lemma client_create:
  "create sample_lib ''acme'' ''k1'' client_packet (Some client_binding) ''w1'' sample_db = Inr (client_db, ''w1'')"
proof -
  have "from_dict sample_lib (to_dict sample_lib client_packet) = Inr client_packet"
    using api_packetD [OF client_api(1)] by (intro from_dict_to_dict) auto
  then show ?thesis
    by (simp add: create_def check_identifier_def client_db_def sample_db_def empty_db_def insert_pk_def)
qed

lemma client_summary:
  "\<exists>s. saved_summary sample_lib operator ''w1'' client_db = Inr s \<and> su_workflow_id s = ''w1''"
proof -
  have "decode sample_lib (canonical_json sample_lib (to_dict sample_lib client_packet)) = Inr (sort_keys (to_dict sample_lib client_packet))"
    and "decode sample_lib (canonical_json sample_lib client_binding) = Inr (sort_keys client_binding)"
    using api_packetD [OF client_api(1)] binding_floats [OF client_api(2), of sample_lib] client_api(4,5) sample_lib_laws(1)
    by (auto simp: decode_def loads_canonical_def client_policy_def)
  moreover have "\<exists>v. dict_item (sort_keys client_binding) ''version'' = Inr v"
    using binding_usable [OF client_api(3)] client_api(2) by fastforce
  ultimately show ?thesis
    by (auto simp: saved_summary_def saved_workflow_def summary_def get_def get_binding_def client_db_def sample_db_def empty_db_def
        find_workflow_def wf_is_def find_validation_def operator_def lift_exn_def)
qed

definition client_call :: "(usages, records_db) world \<times> (api_error + workflow_summary)" where
  "client_call = create_workflow sample_lib (\<lambda>_. ''trace'') client_plane [(''acme'', client_policy)] (100, 100) ''w1'' client_request
     client_http operator client_world"

lemma client_created: "\<exists>w s. client_call = (w, Inr s) \<and> su_workflow_id s = ''w1'' \<and> wo_store w = Some client_db"
proof -
  obtain s where s: "saved_summary sample_lib operator ''w1'' client_db = Inr s" "su_workflow_id s = ''w1''"
    using client_summary by blast
  show ?thesis
    using s client_create
    by (simp add: client_call_def create_workflow_def operation_def guarded_def and_then_def with_cleanup_def on_store_def store_call_def
        admit_request_def control_admit_def client_plane_def process_coordinator_def client_world_def client_http_def client_request_def
        client_policy_def [THEN arg_cong [of _ _ wp_budget]] operator_def admit_def roll_window_def fresh_usage_def client_api Let_def
        close_request_def release_permit_def record_terminal_def control_record_def ExecutionRecord_post_init_def sqlite_writer_def
        ended_well_def lift_exn_def)
qed

theorem created_workflow_executes_witness:
  "\<exists>d3 packet b. prepare_execution sample_lib ''acme'' ''w1'' ''node-a'' None 30 sample_xc client_db = (d3, Done (1, packet, b))
     \<and> it_input (tp_task packet) = TextInput ''hi'' \<and> wb_max_attempts b = 2 \<and> wb_max_output_tokens b = Some 50"
proof -
  obtain w s where w: "client_call = (w, Inr s)" "su_workflow_id s = ''w1''" "wo_store w = Some client_db" using client_created by blast
  have reach: "reachable store_init (whole_step sample_lib) sample_db" by (rule reach_init) simp
  have row: "\<exists>row. find_workflow (pr_tenant_id operator) (su_workflow_id s) client_db = Some row \<and> wf_state row = Ready"
    by (simp add: w(2) find_workflow_def wf_is_def client_db_def sample_db_def operator_def)
  have "\<forall>(t, p) \<in> set [(''acme'', client_policy)]. declared p"
    and "\<forall>(t, p) \<in> set [(''acme'', client_policy)]. float_ok sample_lib (wl_deadline_seconds (wp_budget p))"
    and "\<forall>x \<in> set (workflows sample_db). \<not> wf_key_is (pr_tenant_id operator) (cw_idempotency_key client_request) x"
    and "float_ok sample_lib (cw_temperature client_request)" and "wo_store client_world = Some sample_db"
    and "identifier_ok ''node-a''" and "xc_dispatch sample_xc < xc_claim sample_xc + seconds (of_int 30)"
    using client_api by (simp_all add: client_policy_def sample_db_def empty_db_def client_request_def client_world_def sample_xc_def)
  note h = this
  from created_workflow_executes [OF sample_laws reach h(5) w(1) [unfolded client_call_def] h(1,3,4,2) w(3) rtranclp.rtrancl_refl row h(6) _ _ h(7)]
  obtain p d3 packet b where "map_of [(''acme'', client_policy)] ''acme'' = Some p"
    and "prepare_execution sample_lib ''acme'' ''w1'' ''node-a'' None 30 sample_xc client_db = (d3, Done (1, packet, b))"
    and "it_input (tp_task packet) = TextInput ''hi''" and "wb_max_attempts b = wl_max_attempts (wp_budget p)"
    and "wb_max_output_tokens b = Some (wl_max_output_tokens (wp_budget p))"
    by (auto simp: w(2) operator_def client_request_def)
  then show ?thesis by (auto simp: client_policy_def)
qed

section \<open>Graphs\<close>

text \<open>The nodes of a request depend on each other as its graph does.\<close>

lemma api_nodeD:
  assumes "api_node L uuid5 t key r = Inr n"
  shows "node_id n = cg_node_id r \<and> depends_on n = sort (cg_depends_on r)"
  using assms by (auto simp: api_node_def Let_def bind_r_eq_Inr)

lemma api_node_ok:
  assumes "CreateGraphNodeRequest_fields r" and "\<forall>x. has_text (uuid5 x)"
  shows "\<exists>n. api_node L uuid5 t key r = Inr n"
proof -
  have "has_text (cg_prompt r)" "has_text (cg_model r)" "1 \<le> cg_max_tokens r" "0 \<le> cg_temperature r" "cg_temperature r \<le> 2"
    "strip (cg_node_id r) = cg_node_id r" "has_text (cg_node_id r)"
    "list_all (\<lambda>item. item \<noteq> [] \<and> item = strip item) (cg_depends_on r)" "distinct (cg_depends_on r)"
    using assms(1) by (simp_all add: CreateGraphNodeRequest_fields_def)
  then show ?thesis
    using assms(2)
    by (auto simp: api_node_def api_packet_def Let_def TextInput_post_init_def require_text_def GenerationConfig_post_init_def
        RoutingRequirements_post_init_def optional_text_def TraceContext_post_init_def InferenceTask_post_init_def
        TaskPacket_post_init_def GraphNode_post_init_def identifier_ok_def list_all_iff has_text_def sorted_sort_id)
qed

text \<open>The dependencies as the request has them, and when they make a graph.\<close>

definition request_edges :: "CreateWorkflowGraphRequest \<Rightarrow> (string \<times> string) set" where
  "request_edges r = {(d, cg_node_id n) | d n. n \<in> set (cq_nodes r) \<and> d \<in> set (cg_depends_on n)}"

lemma request_edges_UN: "request_edges r = (\<Union>x \<in> set (cq_nodes r). (\<lambda>d. (d, cg_node_id x)) ` set (cg_depends_on x))"
  by (auto simp: request_edges_def)

definition request_is_graph :: "CreateWorkflowGraphRequest \<Rightarrow> bool" where
  "request_is_graph r \<longleftrightarrow> distinct (map cg_node_id (cq_nodes r))
     \<and> (\<forall>n \<in> set (cq_nodes r). set (cg_depends_on n) \<subseteq> cg_node_id ` set (cq_nodes r)) \<and> wf (request_edges r)"

lemma eliminate_error: "eliminate deps R = Inl e \<Longrightarrow> \<exists>m. e = ValueError m"
  by (induction deps R rule: eliminate.induct) (auto simp: eliminate.simps Let_def split: if_splits)

lemma graph_error:
  assumes "WorkflowGraph_post_init g = Inl e"
  shows "\<exists>m. e = ValueError m"
proof -
  have "each (check_edges known) ns = Inl e \<Longrightarrow> \<exists>m. e = ValueError m" for known ns
    by (induction ns) (auto simp: check_edges_def bind_r_eq_Inl require_def split: if_splits)
  then show ?thesis using assms eliminate_error
    by (auto simp: WorkflowGraph_post_init_def bind_r_eq_Inl require_def require_acyclic_def split: if_splits)
qed

lemma graph_ok_iff:
  "graph_ok g \<longleftrightarrow> graph_schema_version g = 1 \<and> graph_nodes g \<noteq> [] \<and> int (length (graph_nodes g)) \<le> MAX_GRAPH_NODES
     \<and> distinct (identifiers g) \<and> sorted (identifiers g)
     \<and> (\<forall>n \<in> set (graph_nodes g). set (depends_on n) \<subseteq> set (identifiers g)) \<and> wf (dependency_relation g)"
  (is "_ \<longleftrightarrow> ?R")
proof
  assume ok: "graph_ok g"
  then have "graph_schema_version g = 1" and "1 \<le> int (length (graph_nodes g))" and "int (length (graph_nodes g)) \<le> MAX_GRAPH_NODES"
    by (simp_all add: graph_ok_def WorkflowGraph_post_init_def bind_r_eq_Inr)
  then show ?R using graph_okD(1,2,5) [OF ok] graph_ok_wf [OF ok] by auto
next
  assume R: ?R
  then have "require_acyclic g = Inr ()"
    using edges_dependency_relation [of g] by (simp add: require_acyclic_def eliminate_iff)
  moreover have "node_id n \<notin> set (depends_on n)" if "n \<in> set (graph_nodes g)" for n
    using R that wf_irrefl [of "dependency_relation g" "node_id n"] by (auto simp: dependency_relation_def)
  then have "each (check_edges (identifiers g)) (graph_nodes g) = Inr ()"
    using R by (auto simp: each_eq_Inr check_edges_def list_all_iff bind_r_eq_Inr)
  ultimately show "graph_ok g" using R by (simp add: graph_ok_def WorkflowGraph_post_init_def sorted_sort_id Suc_le_eq)
qed

lemma api_nodes:
  assumes "CreateWorkflowGraphRequest_fields r" and "\<forall>x. has_text (uuid5 x)"
  obtains f where "traverse (api_node L uuid5 t key) (sort_key cg_node_id (cq_nodes r)) = Inr (map f (sort_key cg_node_id (cq_nodes r)))"
    and "\<forall>x \<in> set (cq_nodes r). node_id (f x) = cg_node_id x \<and> set (depends_on (f x)) = set (cg_depends_on x)"
proof -
  define f where "f = (\<lambda>x. projr (api_node L uuid5 t key x))"
  have "api_node L uuid5 t key x = Inr (f x)" if "x \<in> set (cq_nodes r)" for x
    using api_node_ok [of x uuid5 L t key] assms that
    by (auto simp: CreateWorkflowGraphRequest_fields_def list_all_iff f_def)
  then show thesis using api_nodeD by (intro that [of f] traverse_map) fastforce+
qed

text \<open>C26. 
  A request for a graph is turned down exactly when it is not a graph: two nodes share a name, a dependency is not a
  node of the request, or the dependencies have a cycle; the answer is the one response 422. Otherwise the graph has
  the nodes of the request in the order of their names, with their dependencies.
\<close>

theorem graph_request_exact:
  assumes "CreateWorkflowGraphRequest_fields r" and "\<forall>x. has_text (uuid5 x)"
  shows "if request_is_graph r
    then \<exists>g. api_graph L uuid5 t r = Inr g \<and> identifiers g = sort (map cg_node_id (cq_nodes r)) \<and> dependency_relation g = request_edges r
    else api_graph L uuid5 t r = Inl (ControlPlaneFailure 422 ''invalid_workflow_graph'' ''Workflow graph is invalid.'')"
proof -
  let ?xs = "sort_key cg_node_id (cq_nodes r)"
  obtain f where f: "traverse (api_node L uuid5 t (cq_idempotency_key r)) ?xs = Inr (map f ?xs)"
    and fx: "\<forall>x \<in> set (cq_nodes r). node_id (f x) = cg_node_id x \<and> set (depends_on (f x)) = set (cg_depends_on x)"
    using api_nodes [OF assms] by blast
  define g where "g = \<lparr>graph_nodes = map f ?xs, graph_schema_version = 1\<rparr>"
  have ids: "identifiers g = sort (map cg_node_id (cq_nodes r))"
  proof -
    have "identifiers g = map cg_node_id ?xs" using fx by (simp add: identifiers_def g_def)
    moreover have "sort (map cg_node_id (cq_nodes r)) = map cg_node_id ?xs"
      by (rule properties_for_sort) simp_all
    ultimately show ?thesis by simp
  qed
  have rel: "dependency_relation g = request_edges r"
  proof -
    have "dependency_relation g = (\<Union>x \<in> set (cq_nodes r). (\<lambda>d. (d, node_id (f x))) ` set (depends_on (f x)))"
      by (auto simp: dependency_relation_def g_def)
    also have "\<dots> = request_edges r"
      unfolding request_edges_UN using fx by (intro SUP_cong refl) simp
    finally show ?thesis .
  qed
  have size: "1 \<le> length (cq_nodes r)" "length (cq_nodes r) \<le> 100"
    using assms(1) by (simp_all add: CreateWorkflowGraphRequest_fields_def)
  have "length (graph_nodes g) = length (cq_nodes r)" and "graph_schema_version g = 1" by (simp_all add: g_def)
  moreover from this(1) size have "graph_nodes g \<noteq> []" and "int (length (graph_nodes g)) \<le> MAX_GRAPH_NODES"
    by (auto simp: MAX_GRAPH_NODES_def)
  moreover have "(\<forall>n \<in> set (graph_nodes g). set (depends_on n) \<subseteq> set (identifiers g))
      \<longleftrightarrow> (\<forall>n \<in> set (cq_nodes r). set (cg_depends_on n) \<subseteq> cg_node_id ` set (cq_nodes r))"
    using fx by (simp add: ids) (simp add: g_def)
  ultimately have "graph_ok g \<longleftrightarrow> request_is_graph r"
    by (simp add: graph_ok_iff request_is_graph_def ids rel)
  moreover have "api_graph L uuid5 t r = (case WorkflowGraph_post_init g of Inr _ \<Rightarrow> Inr g
      | Inl (ValueError _) \<Rightarrow> Inl (ControlPlaneFailure 422 ''invalid_workflow_graph'' ''Workflow graph is invalid.'')
      | Inl e \<Rightarrow> Inl (Uncaught e))"
    unfolding g_def by (simp add: api_graph_def f lift_exn_def Let_def)
  moreover have "\<exists>m. e = ValueError m" if "WorkflowGraph_post_init g = Inl e" for e using that by (rule graph_error)
  ultimately show ?thesis using ids rel by (cases "WorkflowGraph_post_init g") (fastforce simp: graph_ok_def)+
qed

definition client_graph :: "string list \<Rightarrow> CreateWorkflowGraphRequest" where
  "client_graph deps = \<lparr>cq_idempotency_key = ''k'', cq_nodes =
     [\<lparr>cg_node_id = ''b'', cg_prompt = ''hi'', cg_model = ''m'', cg_max_tokens = 10, cg_temperature = 1, cg_depends_on = [''a'']\<rparr>,
      \<lparr>cg_node_id = ''a'', cg_prompt = ''ho'', cg_model = ''m'', cg_max_tokens = 10, cg_temperature = 1, cg_depends_on = deps\<rparr>]\<rparr>"

theorem graph_request_exact_witness:
  "(\<exists>g. api_graph sample_lib (\<lambda>_. ''trace'') ''acme'' (client_graph []) = Inr g \<and> identifiers g = [''a'', ''b''])
    \<and> api_graph sample_lib (\<lambda>_. ''trace'') ''acme'' (client_graph [''b''])
      = Inl (ControlPlaneFailure 422 ''invalid_workflow_graph'' ''Workflow graph is invalid.'')"
proof -
  have strips: "strip ''a'' = ''a''" "strip ''b'' = ''b''" "strip ''k'' = ''k''" "strip ''m'' = ''m''" "strip ''hi'' = ''hi''" "strip ''ho'' = ''ho''"
    by code_simp+
  have f: "CreateWorkflowGraphRequest_fields (client_graph [])" "CreateWorkflowGraphRequest_fields (client_graph [''b''])"
    using strips
    by (simp_all add: CreateWorkflowGraphRequest_fields_def CreateGraphNodeRequest_fields_def client_graph_def has_text_def)
  have "has_text ''trace''" by code_simp
  then have u: "\<forall>x. has_text ((\<lambda>_ :: string. ''trace'') x)" by simp
  have e: "request_edges (client_graph []) = {(''a'', ''b'')}" "{(''a'', ''b''), (''b'', ''a'')} \<subseteq> request_edges (client_graph [''b''])"
    by (simp_all add: request_edges_UN client_graph_def)
  have "wf {(''a'', ''b'')}" by (rule wf_insert [THEN iffD2]) simp
  then have "request_is_graph (client_graph [])" using e(1) by (simp add: request_is_graph_def client_graph_def)
  moreover have "\<not> wf (request_edges (client_graph [''b'']))"
    using e(2) wf_asym [of "request_edges (client_graph [''b''])" "''a''" "''b''"] by blast
  then have "\<not> request_is_graph (client_graph [''b''])" by (simp add: request_is_graph_def)
  moreover have "sort (map cg_node_id (cq_nodes (client_graph []))) = [''a'', ''b'']" by code_simp
  ultimately show ?thesis
    using graph_request_exact [OF f(1) u, of sample_lib "''acme''"] graph_request_exact [OF f(2) u, of sample_lib "''acme''"] by auto
qed

end
