(* ===== verification/MainApi.thy ===== *)
theory MainApi
  imports ControlPlane Evaluation GraphStore
begin

text \<open>
  The routes of \<open>src/backend/main.py\<close>: inference by prompt and by chat, the audit of an output, the reports of the
  startup recovery (\<open>src/backend/workflows/recovery.py\<close>), and the startup itself (\<open>lifespan\<close>). The settings are
  the ones these functions read. While a task is routed other requests go on: what they do to the world is the
  argument \<open>others\<close>. An inference route returns the result of the router; its rendering as JSON is not modelled.
\<close>

section \<open>Requests\<close>

record Settings =
  se_max_prompt_chars :: int
  se_max_generation_tokens :: int
  se_production :: bool
  se_workflow_recovery_scan_limit :: int

record request_options =
  op_preferred_engine :: "string option"
  op_max_tokens :: "int option"
  op_temperature :: rat
  op_deadline_at :: "datetime option"
  op_required_model :: "string option"
  op_required_context_tokens :: "int option"
  op_requires_structured_output :: bool
  op_requires_streaming :: bool
  op_required_accelerator :: "string option"
  op_required_topology :: "string option"
  op_required_data_location :: "string option"
  op_production_only :: bool

definition nonempty :: "string option \<Rightarrow> bool" where
  "nonempty s = (case s of None \<Rightarrow> True | Some t \<Rightarrow> 1 \<le> length t)"

definition options_fields :: "Settings \<Rightarrow> request_options \<Rightarrow> bool" where
  "options_fields S o' \<longleftrightarrow>
     (case op_max_tokens o' of None \<Rightarrow> True | Some n \<Rightarrow> 1 \<le> n \<and> n \<le> se_max_generation_tokens S)
     \<and> 0 \<le> op_temperature o' \<and> op_temperature o' \<le> 2
     \<and> (case op_deadline_at o' of None \<Rightarrow> True | Some t \<Rightarrow> is_aware t)
     \<and> nonempty (op_required_model o')
     \<and> (case op_required_context_tokens o' of None \<Rightarrow> True | Some n \<Rightarrow> 1 \<le> n)
     \<and> nonempty (op_required_accelerator o') \<and> nonempty (op_required_topology o') \<and> nonempty (op_required_data_location o')"

record GenerateRequest =
  gq_prompt :: string
  gq_model :: string
  gq_options :: request_options

definition GenerateRequest_fields :: "Settings \<Rightarrow> GenerateRequest \<Rightarrow> bool" where
  "GenerateRequest_fields S r \<longleftrightarrow> 1 \<le> length (gq_prompt r) \<and> int (length (gq_prompt r)) \<le> se_max_prompt_chars S
     \<and> 1 \<le> length (gq_model r) \<and> options_fields S (gq_options r)"

record ChatGenerateRequest =
  hc_messages :: "(ChatRole \<times> string) list"
  hc_model :: "string option"
  hc_options :: request_options

definition ChatGenerateRequest_fields :: "Settings \<Rightarrow> ChatGenerateRequest \<Rightarrow> bool" where
  "ChatGenerateRequest_fields S r \<longleftrightarrow> 1 \<le> length (hc_messages r)
     \<and> list_all (\<lambda>(_, content). 1 \<le> length content \<and> has_text content) (hc_messages r)
     \<and> nonempty (hc_model r) \<and> options_fields S (hc_options r)"

section \<open>Inference\<close>

definition api_task ::
    "Settings \<Rightarrow> 'e request \<Rightarrow> exn + task_input \<Rightarrow> string option \<Rightarrow> request_options \<Rightarrow> exn + InferenceTask" where
  "api_task S q input model o' =
     bind_r input (\<lambda>i.
     let generation = \<lparr>gc_max_output_tokens = op_max_tokens o', gc_temperature = FloatNum (op_temperature o')\<rparr>;
         requirements = \<lparr>requested_model = model, required_model = op_required_model o',
           required_context_tokens = op_required_context_tokens o',
           requires_structured_output = op_requires_structured_output o', requires_streaming = op_requires_streaming o',
           required_accelerator = op_required_accelerator o', required_topology = op_required_topology o',
           required_data_location = op_required_data_location o',
           production_only = (op_production_only o' \<or> se_production S)\<rparr>;
         trace = \<lparr>tc_request_id = hr_request_id q, tc_traceparent = hr_traceparent q\<rparr>;
         task = \<lparr>it_input = i, it_generation = generation, it_requirements = requirements, it_trace = trace,
           it_deadline_at = op_deadline_at o'\<rparr> in
     bind_r (GenerationConfig_post_init generation) (\<lambda>_.
     bind_r (RoutingRequirements_post_init requirements) (\<lambda>_.
     bind_r (TraceContext_post_init trace) (\<lambda>_.
     bind_r (InferenceTask_post_init task) (\<lambda>_. Inr task)))))"

definition prompt_input :: "string \<Rightarrow> exn + task_input" where
  "prompt_input prompt = bind_r (TextInput_post_init prompt) (\<lambda>_. Inr (TextInput prompt))"

definition chat_input :: "(ChatRole \<times> string) list \<Rightarrow> exn + task_input" where
  "chat_input messages =
     bind_r (traverse (\<lambda>(role, content). let m = \<lparr>cm_role = role, cm_content = content\<rparr> in
       bind_r (ChatMessage_post_init m) (\<lambda>_. Inr m)) messages) (\<lambda>ms.
     bind_r (ChatInput_post_init ms) (\<lambda>_. Inr (ChatInput ms)))"

definition route_task ::
    "routing \<Rightarrow> (('s, 'r) world \<Rightarrow> ('s, 'r) world) \<Rightarrow> InferenceTask \<Rightarrow> string option \<Rightarrow> ('s, 'r, InferenceResult) action" where
  "route_task rt others task preferred w =
     (case generate_task (rt_router rt) workflow_budget_ops (rt_clocks rt) (rt_start rt) (rt_turns rt) (wo_states w) task preferred None of
        (st, out) \<Rightarrow>
          (others (w\<lparr>wo_states := run_states st\<rparr>),
           case out of Done res \<Rightarrow> Inr res | Raised rf \<Rightarrow> Inl (RouterRaised rf) | EscapedFailure f \<Rightarrow> Inl (RouterFailure f)
           | EscapedCancel \<Rightarrow> Inl RouterCancelled | EscapedTimeout \<Rightarrow> Inl RouterTimeout | EscapedError e \<Rightarrow> Inl (Uncaught e)))"

text \<open>The details of the terminal record.\<close>

definition inference_details :: "pylib \<Rightarrow> api_error + InferenceResult \<Rightarrow> (string \<times> json) list" where
  "inference_details L r =
     (case r of
        Inr res \<Rightarrow>
          [(''deployment_id'', JStr (dp_deployment_id (re_provenance res))),
           (''model_artifact_id'', jopt JStr (dp_model_artifact_id (re_provenance res))),
           (''finish_reason'', JStr (FinishReason_value (re_finish_reason res))),
           (''provenance'', provenance_json (re_provenance res)),
           (''attempts'', JArr (map (serialize_attempt L) (re_attempts res)))]
      | Inl (RouterRaised rf) \<Rightarrow> failure_payload L (rf_failure rf) (rf_attempts rf)
      | Inl (RouterFailure f) \<Rightarrow> failure_payload L f []
      | Inl _ \<Rightarrow> [])"

definition infer ::
    "pylib \<Rightarrow> Settings \<Rightarrow> ('e, 's, 'r) APIControlPlane \<Rightarrow> routing \<Rightarrow> (('s, 'r) world \<Rightarrow> ('s, 'r) world) \<Rightarrow> string \<Rightarrow>
       exn + InferenceTask \<Rightarrow> request_options \<Rightarrow> 'e request \<Rightarrow> Principal \<Rightarrow> ('s, 'r, InferenceResult) action" where
  "infer L S P rt others operation task o' q who =
     and_then (admit_request P q who operation
         (case op_max_tokens o' of None \<Rightarrow> se_max_generation_tokens S
          | Some n \<Rightarrow> if n = 0 then se_max_generation_tokens S else n)) (\<lambda>permit w.
     case task of
       Inl e \<Rightarrow> (w, Inl (Uncaught e))
     | Inr t \<Rightarrow> with_cleanup (route_task rt others t (op_preferred_engine o'))
                 (close_request P q who operation permit (inference_details L)) w)"

definition inference_generate ::
    "pylib \<Rightarrow> Settings \<Rightarrow> ('e, 's, 'r) APIControlPlane \<Rightarrow> routing \<Rightarrow> (('s, 'r) world \<Rightarrow> ('s, 'r) world) \<Rightarrow>
       GenerateRequest \<Rightarrow> 'e request \<Rightarrow> Principal \<Rightarrow> ('s, 'r, InferenceResult) action" where
  "inference_generate L S P rt others r q who =
     infer L S P rt others ''inference.generate''
       (api_task S q (prompt_input (gq_prompt r)) (Some (gq_model r)) (gq_options r)) (gq_options r) q who"

definition inference_chat ::
    "pylib \<Rightarrow> Settings \<Rightarrow> ('e, 's, 'r) APIControlPlane \<Rightarrow> routing \<Rightarrow> (('s, 'r) world \<Rightarrow> ('s, 'r) world) \<Rightarrow>
       ChatGenerateRequest \<Rightarrow> 'e request \<Rightarrow> Principal \<Rightarrow> ('s, 'r, InferenceResult) action" where
  "inference_chat L S P rt others r q who =
     infer L S P rt others ''inference.chat''
       (api_task S q (chat_input (hc_messages r)) (hc_model r) (hc_options r)) (hc_options r) q who"

section \<open>Audit\<close>

record AuditValidationRequest =
  aq_output :: string
  aq_generator :: AuditIdentity
  aq_required_sections :: "string list"
  aq_require_citations :: bool
  aq_minimum_chars :: int
  aq_maximum_chars :: int
  aq_language :: "string option"
  aq_forbidden_phrases :: "string list"
  aq_high_risk :: bool

definition audit_output :: "pylib \<Rightarrow> AuditValidationRequest \<Rightarrow> exn + AuditFinding list \<times> EvaluationDecision" where
  "audit_output L r =
     (let policy = \<lparr>vp_required_sections = aq_required_sections r, vp_require_citations = aq_require_citations r,
            vp_minimum_chars = aq_minimum_chars r, vp_maximum_chars = aq_maximum_chars r, vp_language = aq_language r,
            vp_forbidden_phrases = aq_forbidden_phrases r, vp_output_schema = None\<rparr>;
          findings = validate_output L (aq_output r) policy;
          report = \<lparr>rp_report_version = ''ryuk-audit-report-v1'', rp_generator = aq_generator r, rp_auditor = None,
            rp_deterministic_findings = findings, rp_claims = [], rp_instruction_failures = [], rp_contradictions = [],
            rp_uncertainty = 0\<rparr>;
          context = \<lparr>ec_iteration = 0, ec_maximum_iterations = 2, ec_high_risk = aq_high_risk r,
            ec_independent_verification_complete = False\<rparr> in
      bind_r (ValidationPolicy_post_init policy) (\<lambda>_.
      bind_r (AuditIdentity_post_init (aq_generator r)) (\<lambda>_.
      bind_r (AuditReport_post_init report) (\<lambda>_.
      bind_r (EvaluationContext_post_init context) (\<lambda>_.
      Inr (findings, decide report context))))))"

fun EvaluationAction_value :: "EvaluationAction \<Rightarrow> string" where
  "EvaluationAction_value ACCEPT = ''accept''"
| "EvaluationAction_value REVISE = ''revise''"
| "EvaluationAction_value REGENERATE = ''regenerate''"
| "EvaluationAction_value VERIFY = ''verify''"
| "EvaluationAction_value REROUTE = ''reroute''"
| "EvaluationAction_value ESCALATE = ''escalate''"

definition audit_validate ::
    "pylib \<Rightarrow> ('e, 's, 'r) APIControlPlane \<Rightarrow> AuditValidationRequest \<Rightarrow> 'e request \<Rightarrow> Principal \<Rightarrow>
       ('s, 'r, AuditFinding list \<times> EvaluationDecision) action" where
  "audit_validate L P r q who =
     guarded P q who ''audit.validate'' (max 1 (int (length (aq_output r)) div 4))
       (\<lambda>res. [(''decision_action'', case res of Inl _ \<Rightarrow> JNull
          | Inr (_, d) \<Rightarrow> JStr (EvaluationAction_value (dn_action d)))])
       (\<lambda>w. (w, lift_exn (audit_output L r)))"

section \<open>Recovery reports\<close>

record recovery_status =
  ry_scanned :: nat
  ry_expired :: nat
  ry_reconciled :: "(string \<times> workflow_state) list"
  ry_unresolved :: "(string \<times> string) list"

text \<open>\<open>recover_workflows_at_startup\<close> wraps the report of the store in typed records.\<close>

definition recover_workflows_at_startup ::
    "pylib \<Rightarrow> int \<Rightarrow> instant \<Rightarrow> (string \<Rightarrow> string) \<Rightarrow> db \<Rightarrow> exn + (db \<times> startup_report)" where
  "recover_workflows_at_startup L limit clk uuid d = recover_startup L limit clk None uuid d"

definition tenant_report :: "string \<Rightarrow> startup_report \<Rightarrow> recovery_status" where
  "tenant_report tenant report =
     (let expired = filter (\<lambda>(t, _). t = tenant) (sr_expired report);
          reconciled = filter (\<lambda>(t, _, _). t = tenant) (sr_reconciled report);
          unresolved = filter (\<lambda>(t, _, _). t = tenant) (sr_unresolved report) in
      \<lparr>ry_scanned = card (snd ` set expired \<union> (\<lambda>(_, i, _). i) ` set reconciled \<union> (\<lambda>(_, i, _). i) ` set unresolved),
       ry_expired = length expired, ry_reconciled = map snd reconciled, ry_unresolved = map snd unresolved\<rparr>)"

definition workflow_recovery_status ::
    "('e, 's, 'r) APIControlPlane \<Rightarrow> startup_report option \<Rightarrow> 'e request \<Rightarrow> Principal \<Rightarrow> ('s, 'r, recovery_status) action" where
  "workflow_recovery_status P report q who =
     guarded P q who ''workflow.recovery.status'' 0 (\<lambda>_. []) (\<lambda>w.
       (w, case (wo_store w, report) of
             (Some _, Some rep) \<Rightarrow> Inr (tenant_report (pr_tenant_id who) rep)
           | _ \<Rightarrow> Inl (ControlPlaneFailure 503 ''workflow_recovery_unavailable'' ''Workflow startup recovery is not available.'')))"

definition workflow_graph_recovery_status ::
    "('e, 's, 'r) APIControlPlane \<Rightarrow> (string \<times> string \<times> string \<times> string) list option \<Rightarrow> 'e request \<Rightarrow> Principal \<Rightarrow>
       ('s, 'r, nat \<times> (string \<times> string \<times> string) list) action" where
  "workflow_graph_recovery_status P report q who =
     guarded P q who ''workflow_graph.recovery.status'' 0 (\<lambda>_. []) (\<lambda>w.
       (w, case (wo_store w, report) of
             (Some _, Some rep) \<Rightarrow>
               let unresolved = map snd (filter (\<lambda>(t, _). t = pr_tenant_id who) rep) in
               Inr (length unresolved, unresolved)
           | _ \<Rightarrow> Inl (ControlPlaneFailure 503 ''workflow_graph_recovery_unavailable''
                    ''Workflow graph startup recovery is not available.'')))"

section \<open>Startup\<close>

text \<open>The identity of a deployment is what its discovery replies.\<close>

definition production_candidates :: "DeploymentRegistry \<Rightarrow> RegisteredDeployment list" where
  "production_candidates reg =
     filter (\<lambda>r. case dc_production_eligible (rg_capabilities r) of None \<Rightarrow> False | Some c \<Rightarrow> cc_value c) (all_deployments reg)"

definition verify_deployment ::
    "(RegisteredDeployment \<Rightarrow> ModelIdentityObservation reply) \<Rightarrow> RegisteredDeployment \<Rightarrow> api_error + unit" where
  "verify_deployment discovery r =
     (case inspect_identity r (discovery r) of
        Reply i \<Rightarrow>
          require (ia_status (ii_assessment i) = VERIFIED)
            (Uncaught (RuntimeError (''Production deployment identity verification failed for '' @ [CHR 0x27] @ rg_id r @ [CHR 0x27] @ ''.'')))
      | Failure f \<Rightarrow> Inl (RouterFailure f)
      | TimedOut \<Rightarrow> Inl RouterTimeout
      | reply.Cancelled \<Rightarrow> Inl RouterCancelled
      | Crash e \<Rightarrow> Inl (Uncaught e))"

definition verify_production_deployments ::
    "Settings \<Rightarrow> (RegisteredDeployment \<Rightarrow> ModelIdentityObservation reply) \<Rightarrow> DeploymentRegistry \<Rightarrow> api_error + unit" where
  "verify_production_deployments S discovery reg =
     (if \<not> se_production S then Inr ()
      else bind_r (require (production_candidates reg \<noteq> [])
             (Uncaught (RuntimeError ''Production requires an eligible inference deployment.''))) (\<lambda>_.
           each (verify_deployment discovery) (production_candidates reg)))"

text \<open>Up to the \<open>yield\<close> of \<open>lifespan\<close>: the checks, then the two recoveries.\<close>

definition startup ::
    "pylib \<Rightarrow> Settings \<Rightarrow> ('e, 's, 'r) APIControlPlane \<Rightarrow> (RegisteredDeployment \<Rightarrow> ModelIdentityObservation reply) \<Rightarrow>
       DeploymentRegistry \<Rightarrow> instant \<Rightarrow> instant \<Rightarrow> (string \<Rightarrow> string) \<Rightarrow>
       ('s, 'r, startup_report option \<times> (string \<times> string \<times> string \<times> string) list option) action" where
  "startup L S P discovery reg clk clk' uuid w =
     (case bind_r (lift_exn (if se_production S then verify_production_ready P clk None w else Inr ())) (\<lambda>_.
           verify_production_deployments S discovery reg) of
        Inl e \<Rightarrow> (w, Inl e)
      | Inr _ \<Rightarrow>
          (case wo_store w of
             None \<Rightarrow> (w, Inr (None, None))
           | Some d \<Rightarrow>
               (case recover_workflows_at_startup L (se_workflow_recovery_scan_limit S) clk uuid d of
                  Inl e \<Rightarrow> (w, Inl (Uncaught e))
                | Inr (d1, report) \<Rightarrow>
                    (case recover_graph_nodes_startup L (se_workflow_recovery_scan_limit S) clk' None d1 of
                       Inl e \<Rightarrow> (w\<lparr>wo_store := Some d1\<rparr>, Inl (Uncaught e))
                     | Inr (d2, graph_report) \<Rightarrow> (w\<lparr>wo_store := Some d2\<rparr>, Inr (Some report, Some graph_report))))))"

end
