(* ===== verification/ControlConfig.thy ===== *)
theory ControlConfig
  imports ControlPlane
begin

text \<open>
  The configuration of the control plane (\<open>load_api_control\<close> of \<open>src/backend/control/api.py\<close>): the keys and the quotas
  of a document whose members have the types the code declares for them. Reading the file, and opening the connections
  to Redis and to the record stores, are not modelled; which implementation is chosen is.
\<close>

section \<open>Keys\<close>

record key_item =
  ki_key_id :: string
  ki_salt :: string
  ki_digest :: string
  ki_principal_id :: string
  ki_tenant_id :: string
  ki_roles :: "string list"
  ki_expires_at :: "string option"
  ki_revoked_at :: "string option"

definition role_of :: "string \<Rightarrow> exn + Role" where
  "role_of value' =
     (case List.find (\<lambda>role. Role_value role = value') [INFERENCE, OPERATOR, ADMIN] of
        None \<Rightarrow> Inl (ValueError ''is not a valid Role'') | Some role \<Rightarrow> Inr role)"

definition optional_datetime :: "pylib \<Rightarrow> string option \<Rightarrow> exn + datetime option" where
  "optional_datetime L value' =
     (case value' of
        None \<Rightarrow> Inr None
      | Some s \<Rightarrow> (case fromisoformat L s of
            None \<Rightarrow> Inl (ValueError ''Invalid isoformat string'') | Some t \<Rightarrow> Inr (Some t)))"

definition load_key :: "pylib \<Rightarrow> key_item \<Rightarrow> exn + APIKeyRecord" where
  "load_key L item =
     bind_r (traverse role_of (ki_roles item)) (\<lambda>roles.
     let who = \<lparr>pr_principal_id = ki_principal_id item, pr_tenant_id = ki_tenant_id item, pr_roles = set roles\<rparr> in
     bind_r (Principal_post_init who) (\<lambda>_.
     bind_r (optional_datetime L (ki_expires_at item)) (\<lambda>expires_at.
     bind_r (optional_datetime L (ki_revoked_at item)) (\<lambda>revoked_at.
     let r = \<lparr>ak_key_id = ki_key_id item, ak_salt = ki_salt item, ak_digest = ki_digest item, ak_principal = who,
              ak_expires_at = expires_at, ak_revoked_at = revoked_at\<rparr> in
     bind_r (APIKeyRecord_post_init r) (\<lambda>_. Inr r)))))"

fun load_keys :: "pylib \<Rightarrow> key_item list \<Rightarrow> (string \<times> APIKeyRecord) list \<Rightarrow> exn + (string \<times> APIKeyRecord) list" where
  "load_keys L [] keys = Inr keys"
| "load_keys L (item # items) keys =
     bind_r (load_key L item) (\<lambda>r.
     bind_r (require (ak_key_id r \<notin> fst ` set keys) (ValueError ''API key identifiers must be unique.'')) (\<lambda>_.
     load_keys L items (dict_put (ak_key_id r) r keys)))"

section \<open>Quotas\<close>

definition load_policies :: "(string \<times> int \<times> int \<times> int) list \<Rightarrow> exn + quotas" where
  "load_policies quotas =
     traverse (\<lambda>(tenant_id, requests, concurrent, tokens).
       let p = \<lparr>qp_requests_per_minute = requests, qp_concurrent_requests = concurrent, qp_tokens_per_minute = tokens\<rparr> in
       bind_r (QuotaPolicy_post_init p) (\<lambda>_. Inr (tenant_id, p))) quotas"

text \<open>The document; and the choice between the implementations, by the configured addresses.\<close>

record control_document =
  cd_api_keys :: "key_item list"
  cd_quotas :: "(string \<times> int \<times> int \<times> int) list"

datatype admission_choice = RedisAdmission | ProcessAdmission
datatype records_choice = PostgreSQLRecords | SQLiteRecords | NoRecords

definition load_api_control ::
    "pylib \<Rightarrow> control_document option \<Rightarrow> bool \<Rightarrow> string \<Rightarrow> string \<Rightarrow>
       exn + (string \<times> APIKeyRecord) list \<times> quotas \<times> admission_choice \<times> records_choice" where
  "load_api_control L config record_path database_url redis_url =
     (case config of
        None \<Rightarrow> Inr ([], [], ProcessAdmission, NoRecords)
      | Some document \<Rightarrow>
          bind_r (load_keys L (cd_api_keys document) []) (\<lambda>keys.
          bind_r (load_policies (cd_quotas document)) (\<lambda>policies.
          Inr (keys, policies, if strip redis_url \<noteq> [] then RedisAdmission else ProcessAdmission,
               if strip database_url \<noteq> [] then PostgreSQLRecords else if record_path then SQLiteRecords else NoRecords))))"

section \<open>What is loaded\<close>

definition keys_ok :: "(string \<times> APIKeyRecord) list \<Rightarrow> bool" where
  "keys_ok keys \<longleftrightarrow> dict_ok keys \<and> (\<forall>(k, r) \<in> set keys. ak_key_id r = k \<and> APIKeyRecord_post_init r = Inr ()
     \<and> Principal_post_init (ak_principal r) = Inr ())"

lemma load_keyD:
  assumes "load_key L item = Inr r"
  shows "APIKeyRecord_post_init r = Inr () \<and> Principal_post_init (ak_principal r) = Inr ()"
  using assms by (auto simp: load_key_def Let_def bind_r_eq_Inr)

lemma load_keys_ok: "load_keys L items keys = Inr keys' \<Longrightarrow> keys_ok keys \<Longrightarrow> keys_ok keys'"
proof (induction L items keys rule: load_keys.induct)
  case (2 L item items keys)
  then obtain r where r: "load_key L item = Inr r" "ak_key_id r \<notin> fst ` set keys"
    and rest: "load_keys L items (dict_put (ak_key_id r) r keys) = Inr keys'"
    by (auto simp: bind_r_eq_Inr)
  have "keys_ok (dict_put (ak_key_id r) r keys)"
    using 2(3) r(2) load_keyD [OF r(1)] by (auto simp: keys_ok_def dict_put_new dict_ok_def)
  with 2(1) [OF rest] show ?case .
qed simp

lemma load_policies_ok:
  assumes "load_policies quotas = Inr policies"
  shows "policies_ok policies"
proof -
  have "QuotaPolicy_post_init p = Inr ()" if "(t, p) \<in> set policies" for t p
    using assms that by (auto simp: load_policies_def traverse_eq_Inr Let_def bind_r_eq_Inr dest!: list_all2_mem)
  then show ?thesis by (auto simp: policies_ok_def dest: map_of_SomeD)
qed

lemma loaded_ok:
  assumes "load_api_control L config record_path database_url redis_url = Inr (keys, policies, a, r)"
  shows "keys_ok keys" and "policies_ok policies"
proof -
  have "keys_ok []" and "policies_ok []" by (simp_all add: keys_ok_def policies_ok_def dict_ok_def)
  then show "keys_ok keys" and "policies_ok policies"
    using assms by (auto simp: load_api_control_def bind_r_eq_Inr load_keys_ok load_policies_ok split: option.splits)
qed

end
