(* ===== verification/ApiTheorems.thy ===== *)
theory ApiTheorems
  imports CreationTheorems MainApi ControlConfig
begin

text \<open>
  What the routes promise: permits are returned, but for replies lost by Redis and for blank prompts, success is recorded before it is reported, and
  only the holder of a live key with the role gets in.
\<close>

section \<open>Permits\<close>

lemma process_admit_count:
  assumes ok: "usages_ok policies s" and a: "admit policies now t n s = (s', granted)"
  shows "usages_ok policies s' \<and> (\<forall>u. in_flight s' u = in_flight s u + (if granted \<and> u = t then 1 else 0))
    \<and> (granted \<longrightarrow> in_flight s t < concurrency_limit policies t)"
proof (cases "\<exists>p. map_of policies t = Some p \<and> 0 \<le> n")
  case False
  then have "s' = s \<and> \<not> granted" using a by (auto simp: admit_def split: option.splits if_splits)
  then show ?thesis using ok by simp
next
  case True
  then obtain p where p: "map_of policies t = Some p" "0 \<le> n" by blast
  define u where "u = roll_window now (case map_of s t of None \<Rightarrow> fresh_usage now | Some u \<Rightarrow> u)"
  note c = current_usage [OF ok p(1) u_def]
  let ?u = "u\<lparr>us_requests := us_requests u + 1, us_tokens := us_tokens u + n, us_concurrent := us_concurrent u + 1\<rparr>"
  have cases: "s' = dict_put t u s \<and> \<not> granted
      \<or> s' = dict_put t ?u s \<and> granted \<and> usage_within p ?u \<and> us_concurrent u < qp_concurrent_requests p"
    using a p c(1) by (auto simp: admit_def Let_def u_def [symmetric] usage_within_def split: if_splits)
  then show ?thesis
  proof (elim disjE conjE)
    assume s: "s' = dict_put t u s" "\<not> granted"
    have "in_flight s' v = in_flight s v" for v
      using usages_ok_put(2,3) [OF ok p(1) c(1)] c(2) s(1) by (cases "v = t") auto
    then show ?thesis using usages_ok_put(1) [OF ok p(1) c(1)] s by simp
  next
    assume s: "s' = dict_put t ?u s" "granted" "usage_within p ?u" "us_concurrent u < qp_concurrent_requests p"
    have "in_flight s' v = in_flight s v + (if v = t then 1 else 0)" for v
      using usages_ok_put(2,3) [OF ok p(1) s(3)] c(2) s(1) by (cases "v = t") auto
    then show ?thesis using usages_ok_put(1) [OF ok p(1) s(3)] s c(2) p(1) by (simp add: concurrency_limit_def)
  qed
qed

lemma process_release_count:
  assumes "usages_ok policies s"
  shows "usages_ok policies (release t s)
    \<and> (\<forall>u. in_flight (release t s) u = in_flight s u - (if u = t \<and> 0 < in_flight s t then 1 else 0))"
proof (cases "map_of s t")
  case None
  then show ?thesis using assms by (simp add: release_def in_flight_def)
next
  case (Some u)
  show ?thesis
  proof (cases "0 < us_concurrent u")
    case False
    then show ?thesis using assms Some by (simp add: release_def in_flight_def)
  next
    case True
    obtain p where p: "map_of policies t = Some p" "usage_within p u" using usages_okD(1) [OF assms Some] by blast
    let ?u = "u\<lparr>us_concurrent := us_concurrent u - 1\<rparr>"
    have w: "usage_within p ?u" using p(2) True by (simp add: usage_within_def)
    have "release t s = dict_put t ?u s" using Some True by (simp add: release_def)
    moreover have "in_flight s t = us_concurrent u" using Some by (simp add: in_flight_def)
    ultimately show ?thesis using usages_ok_put [OF assms p(1) w] True by auto
  qed
qed

lemma on_store_admission: "wo_admission (fst (on_store m body w)) = wo_admission w"
  by (auto simp: on_store_def split: option.splits prod.splits)

lemma guarded_permit:
  assumes g: "guarded P q who op n details body w = (w', out)" and P: "ap_admission P = process_coordinator policies"
    and ok: "usages_ok policies (wo_admission w)" and body: "\<And>v. wo_admission (fst (body v)) = wo_admission v"
  shows "usages_ok policies (wo_admission w') \<and> (\<forall>t. in_flight (wo_admission w') t = in_flight (wo_admission w) t)"
proof -
  obtain s granted where a: "admit policies (hr_admit_env q) (pr_tenant_id who) n (wo_admission w) = (s, granted)" by fastforce
  note counts = process_admit_count [OF ok a]
  have "co_admit (ap_admission P) (hr_admit_env q) (pr_tenant_id who) n (wo_admission w) = (s, granted)"
    using a by (simp add: P process_coordinator_def)
  note cases = guarded_cases [OF g this]
  show ?thesis
  proof (cases granted)
    case False
    then show ?thesis using cases counts by simp
  next
    case True
    then obtain w1 w2 r where "wo_admission w1 = s" and b: "body w1 = (w2, r)"
      and rel: "wo_admission w' = release (pr_tenant_id who) (wo_admission w2)"
      using cases by (auto simp: P process_coordinator_def)
    then have "wo_admission w2 = s" using body [of w1] by simp
    moreover have "0 < in_flight s (pr_tenant_id who)"
      using counts True process_admission.held_bounds [OF ok, of "pr_tenant_id who"] by simp
    ultimately show ?thesis using rel counts process_release_count [of policies s "pr_tenant_id who"] True by simp
  qed
qed

text \<open>Over Redis the script of an admission decides what happens to the permits, and whether the reply arrives decides
  what the controller answers.\<close>

definition grants :: "string \<Rightarrow> quotas \<Rightarrow> redis_call \<Rightarrow> string \<Rightarrow> int \<Rightarrow> redis \<Rightarrow> bool" where
  "grants kp policies e t n s = snd (redis_admit kp policies (e\<lparr>rc_executed := True, rc_replied := True\<rparr>) t n s)"

lemma redis_admit_count:
  assumes v: "redis_ok kp policies s" and a: "redis_admit kp policies e t n s = (s', ok)"
  shows "redis_ok kp policies s' \<and> ok = (rc_executed e \<and> rc_replied e \<and> grants kp policies e t n s)
    \<and> (\<forall>u. permits kp s' u = permits kp s u + (if u = t \<and> rc_executed e \<and> grants kp policies e t n s then 1 else 0))"
proof (cases "(\<exists>p. map_of policies t = Some p) \<and> 0 \<le> n")
  case False
  then have "s' = s \<and> \<not> ok \<and> \<not> grants kp policies e t n s"
    using a by (auto simp: redis_admit_def grants_def split: option.splits if_splits)
  then show ?thesis using v by simp
next
  case True
  then obtain p where p: "map_of policies t = Some p" "0 \<le> n" by blast
  let ?key = "redis_admission_key kp t"
  obtain r b where sc: "admit_script (rc_time e) ?key (qp_requests_per_minute p) (qp_concurrent_requests p)
      (qp_tokens_per_minute p) n s = (r, b)" by fastforce
  have g: "grants kp policies e t n s \<longleftrightarrow> b = 1"
    using p sc by (simp add: grants_def redis_admit_def run_eval_def)
  have e: "s' = (if rc_executed e then r else s)" "ok = (rc_executed e \<and> rc_replied e \<and> b = 1)"
    using a p sc by (auto simp: redis_admit_def run_eval_def split: if_splits)
  note pos = policies_okD [OF redis_okD(2) [OF v] p(1)]
  note law = admit_script_law [OF sc p(2) redis_okD(3) [OF v p(1)] redis_okD(1) [OF v] refl refl refl pos(1,3)]
  have "permits kp r u = permits kp s u + (if u = t \<and> b = 1 then 1 else 0)" for u
    using permits_own [OF law(1), of u] law(4,5) by (cases "u = t") (auto simp: permits_def)
  then show ?thesis using redis_admit_law [OF v a] e g by auto
qed

lemma redis_release_count:
  assumes v: "redis_ok kp policies s"
  shows "redis_ok kp policies (redis_release kp e t s) \<and> (\<forall>u. permits kp (redis_release kp e t s) u
    = permits kp s u - (if u = t \<and> rc_executed e \<and> 0 < permits kp s t then 1 else 0))"
proof -
  obtain r b where sc: "release_script (rc_time e) (redis_admission_key kp t) s = (r, b)" by fastforce
  note law = release_script_law [OF sc redis_okD(1) [OF v]]
  have "permits kp r u = permits kp s u - (if u = t \<and> 0 < permits kp s t then 1 else 0)" for u
    using permits_own [OF law(1), of u] law(4) by (cases "u = t") (auto simp: permits_def)
  then show ?thesis using redis_release_law [OF v, of e t] sc by (auto simp: redis_release_def run_eval_def)
qed

lemma guarded_redis_permit:
  assumes g: "guarded P q who op n details body w = (w', out)" and P: "ap_admission P = redis_coordinator kp policies ping"
    and ok: "redis_ok kp policies (wo_admission w)" and body: "\<And>v. wo_admission (fst (body v)) = wo_admission v"
  shows "redis_ok kp policies (wo_admission w') \<and> (\<forall>u. permits kp (wo_admission w') u = permits kp (wo_admission w) u
    + (if u = pr_tenant_id who \<and> grants kp policies (hr_admit_env q) (pr_tenant_id who) n (wo_admission w)
          \<and> rc_executed (hr_admit_env q) \<and> \<not> (rc_replied (hr_admit_env q) \<and> rc_executed (hr_release_env q)) then 1 else 0))"
proof -
  let ?t = "pr_tenant_id who" and ?e = "hr_admit_env q" and ?s0 = "wo_admission w"
  obtain s granted where a: "redis_admit kp policies ?e ?t n ?s0 = (s, granted)" by fastforce
  note counts = redis_admit_count [OF ok a]
  have "co_admit (ap_admission P) ?e ?t n ?s0 = (s, granted)" using a by (simp add: P redis_coordinator_def)
  note cases = guarded_cases [OF g this]
  show ?thesis
  proof (cases granted)
    case False
    then have "wo_admission w' = s" using cases by simp
    then show ?thesis using counts False by auto
  next
    case True
    then obtain w1 w2 r where "wo_admission w1 = s" and b: "body w1 = (w2, r)"
      and rel: "wo_admission w' = redis_release kp (hr_release_env q) ?t (wo_admission w2)"
      using cases by (auto simp: P redis_coordinator_def)
    then have w2: "wo_admission w2 = s" using body [of w1] by simp
    have "0 \<le> permits kp ?s0 ?t" using redis_admission.held_bounds [OF ok, of ?t] by simp
    then have "0 < permits kp s ?t" using counts True by simp
    then show ?thesis
      using rel w2 counts True redis_release_count [of kp policies s "hr_release_env q" ?t] by auto
  qed
qed

text \<open>C7. 
  Every route on the workflow store gives its permit back, however it ends: when it is refused, when the store is
  disabled or fails, when the outcome cannot be recorded, and when it returns. With the coordinator of the process the
  numbers of requests in flight are the same as before. With the coordinator over Redis, which production requires,
  they are the same as before except in one case, and then exactly one permit of the caller's tenant stays taken: the
  script granted the request, and its reply was lost or the script of the release was not executed.
\<close>

theorem routes_return_permits:
  assumes "operation P messages q who name n body w = (w', out)" and "ap_admission P = process_coordinator policies"
    and "usages_ok policies (wo_admission w)"
    and "operation R messages q' who name n body v = (v', out')" and "ap_admission R = redis_coordinator kp policies ping"
    and "redis_ok kp policies (wo_admission v)"
  shows "usages_ok policies (wo_admission w') \<and> (\<forall>u. in_flight (wo_admission w') u = in_flight (wo_admission w) u)
    \<and> redis_ok kp policies (wo_admission v')
    \<and> (\<forall>u. permits kp (wo_admission v') u = permits kp (wo_admission v) u
        + (if u = pr_tenant_id who \<and> grants kp policies (hr_admit_env q') (pr_tenant_id who) n (wo_admission v)
             \<and> rc_executed (hr_admit_env q') \<and> \<not> (rc_replied (hr_admit_env q') \<and> rc_executed (hr_release_env q'))
           then 1 else 0))"
  using guarded_permit [OF assms(1) [unfolded operation_def] assms(2,3) on_store_admission]
    guarded_redis_permit [OF assms(4) [unfolded operation_def] assms(5,6) on_store_admission] by blast

definition client_quotas :: quotas where
  "client_quotas = [(''acme'', \<lparr>qp_requests_per_minute = 5, qp_concurrent_requests = 1, qp_tokens_per_minute = 500\<rparr>)]"

lemma client_usages: "usages_ok client_quotas []"
  by (simp add: usages_ok_def policies_ok_def QuotaPolicy_post_init_def client_quotas_def)

lemma client_redis: "redis_ok ''p'' client_quotas []"
  by (auto simp: redis_ok_def dict_ok_def policies_ok_def QuotaPolicy_post_init_def client_quotas_def idle_expiry_def
      key_of_def stored_number_def hget_def fields_within_def)

definition lossy_plane :: "(redis_call, redis, records_db) APIControlPlane" where
  "lossy_plane = \<lparr>ap_api_keys = [], ap_admission = redis_coordinator ''p'' client_quotas (Some True), ap_records = None\<rparr>"

definition lossy_world :: "(redis, records_db) world" where
  "lossy_world = \<lparr>wo_admission = [], wo_records = wo_records client_world, wo_log = [], wo_store = wo_store client_world,
     wo_states = None\<rparr>"

text \<open>A request whose reply is lost.\<close>

definition lossy_http :: "redis_call request" where
  "lossy_http = \<lparr>hr_request_id = ''r1'', hr_path = ''/v1/workflows'', hr_authorization = None, hr_tenant = None,
     hr_traceparent = None, hr_now = 0, hr_admit_env = \<lparr>rc_time = 7, rc_executed = True, rc_replied = False\<rparr>,
     hr_release_env = \<lparr>rc_time = 8, rc_executed = True, rc_replied = True\<rparr>\<rparr>"

lemma lossy_granted: "grants ''p'' client_quotas \<lparr>rc_time = 7, rc_executed = True, rc_replied = False\<rparr> ''acme'' 0 []"
  by code_simp

theorem routes_return_permits_witness:
  "in_flight (wo_admission (fst (workflow_status sample_lib client_plane ''w1'' client_http operator client_world))) ''acme'' = 0
   \<and> permits ''p'' (wo_admission (fst (workflow_status sample_lib lossy_plane ''w1'' lossy_http operator lossy_world))) ''acme'' = 1"
proof -
  obtain w out where r: "workflow_status sample_lib client_plane ''w1'' client_http operator client_world = (w, out)" by fastforce
  obtain v out' where r': "workflow_status sample_lib lossy_plane ''w1'' lossy_http operator lossy_world = (v, out')" by fastforce
  have P: "ap_admission client_plane = process_coordinator client_quotas" and R: "ap_admission lossy_plane = redis_coordinator ''p'' client_quotas (Some True)"
    and s: "wo_admission client_world = []" "wo_admission lossy_world = []"
    by (simp_all add: client_plane_def client_world_def client_quotas_def lossy_plane_def lossy_world_def)
  note all = routes_return_permits [OF r [unfolded workflow_status_def] P _ r' [unfolded workflow_status_def] R]
  have "in_flight (wo_admission w) ''acme'' = in_flight [] ''acme''
      \<and> permits ''p'' (wo_admission v) ''acme'' = permits ''p'' [] ''acme'' + 1"
    using all client_usages client_redis lossy_granted by (simp add: s lossy_http_def operator_def)
  then show ?thesis using r r' by (simp add: in_flight_def permits_def stored_number_def hget_def)
qed

text \<open>C12. 
  An inference request whose task cannot be made does not: the task is built between the admission and the \<open>try\<close>.
  A prompt of blanks passes the declared fields of the request, is admitted, raises \<open>ValueError\<close> and keeps its
  permit. When the permits of the tenant are used up this way, all its requests are refused from then on, whenever
  they come.
\<close>

theorem blank_prompt_keeps_permit:
  assumes "inference_generate L S P rt others r q who w = (w', out)" and "ap_admission P = process_coordinator policies"
    and "usages_ok policies (wo_admission w)" and "GenerateRequest_fields S r" and "strip (gq_prompt r) = []"
    and "\<forall>m. out \<noteq> Inl (ControlPlaneFailure 429 ''quota_exceeded'' m)"
  shows "(\<exists>m. out = Inl (Uncaught (ValueError m)))
    \<and> in_flight (wo_admission w') (pr_tenant_id who) = in_flight (wo_admission w) (pr_tenant_id who) + 1
    \<and> (in_flight (wo_admission w') (pr_tenant_id who) = concurrency_limit policies (pr_tenant_id who)
        \<longrightarrow> (\<forall>now n. \<not> snd (admit policies now (pr_tenant_id who) n (wo_admission w'))))"
proof -
  define n where "n = (case op_max_tokens (gq_options r) of None \<Rightarrow> se_max_generation_tokens S
    | Some n \<Rightarrow> if n = 0 then se_max_generation_tokens S else n)"
  obtain m where m: "prompt_input (gq_prompt r) = Inl (ValueError m)"
    using assms(5) by (auto simp: prompt_input_def TextInput_post_init_def require_text_def has_text_def)
  obtain w1 o1 where a: "admit_request P q who ''inference.generate'' n w = (w1, o1)" by fastforce
  obtain s granted where g: "admit policies (hr_admit_env q) (pr_tenant_id who) n (wo_admission w) = (s, granted)" by fastforce
  note counts = process_admit_count [OF assms(3) g]
  have run: "(w', out) = (case o1 of Inl e \<Rightarrow> (w1, Inl e) | Inr _ \<Rightarrow> (w1, Inl (Uncaught (ValueError m))))"
    using assms(1) a m
    by (simp add: inference_generate_def infer_def and_then_def n_def [symmetric] api_task_def split: sum.splits)
  have ac: "wo_admission w1 = s" "if granted then \<exists>p. o1 = Inr p
      else o1 = Inl (ControlPlaneFailure 429 ''quota_exceeded'' ''Request quota exceeded.'')"
    using admit_request_cases [OF a] g by (auto simp: assms(2) process_coordinator_def split: if_splits)
  have granted using ac(2) run assms(6) by (cases granted) auto
  with ac run have "out = Inl (Uncaught (ValueError m))" and w': "wo_admission w' = s" by auto
  moreover have "\<not> snd (admit policies now (pr_tenant_id who) k s)"
    if "in_flight s (pr_tenant_id who) = concurrency_limit policies (pr_tenant_id who)" for now k
  proof
    assume "snd (admit policies now (pr_tenant_id who) k s)"
    then obtain s2 where "admit policies now (pr_tenant_id who) k s = (s2, True)" by (metis prod.collapse)
    from process_admit_count [OF _ this] counts that show False by auto
  qed
  ultimately show ?thesis using counts \<open>granted\<close> by auto
qed

definition client_settings :: Settings where
  "client_settings = \<lparr>se_max_prompt_chars = 100, se_max_generation_tokens = 100, se_production = False,
     se_workflow_recovery_scan_limit = 10\<rparr>"

definition blank_request :: GenerateRequest where
  "blank_request = \<lparr>gq_prompt = '' '', gq_model = ''m'', gq_options =
     \<lparr>op_preferred_engine = None, op_max_tokens = Some 10, op_temperature = 1, op_deadline_at = None, op_required_model = None,
      op_required_context_tokens = None, op_requires_structured_output = False, op_requires_streaming = False,
      op_required_accelerator = None, op_required_topology = None, op_required_data_location = None, op_production_only = False\<rparr>\<rparr>"

theorem blank_prompt_keeps_permit_witness:
  "\<exists>w out. inference_generate sample_lib client_settings client_plane sample_routing id blank_request client_http operator client_world
      = (w, out) \<and> (\<forall>now n. \<not> snd (admit [(''acme'', \<lparr>qp_requests_per_minute = 5, qp_concurrent_requests = 1,
        qp_tokens_per_minute = 500\<rparr>)] now ''acme'' n (wo_admission w)))"
proof -
  let ?ps = "[(''acme'', \<lparr>qp_requests_per_minute = 5, qp_concurrent_requests = 1, qp_tokens_per_minute = 500\<rparr>)]"
  obtain w out where r: "inference_generate sample_lib client_settings client_plane sample_routing id blank_request client_http
      operator client_world = (w, out)" by fastforce
  have "strip (gq_prompt blank_request) = []" by code_simp
  moreover have "GenerateRequest_fields client_settings blank_request" by code_simp
  moreover have "ap_admission client_plane = process_coordinator ?ps" and adm: "wo_admission client_world = []"
    by (simp_all add: client_plane_def client_world_def)
  moreover have "\<forall>m. out \<noteq> Inl (ControlPlaneFailure 429 ''quota_exceeded'' m)"
  proof -
    have "snd (admit ?ps 0 ''acme'' 10 [])" by code_simp
    then show ?thesis using r \<open>strip (gq_prompt blank_request) = []\<close>
      by (auto simp: inference_generate_def infer_def and_then_def admit_request_def control_admit_def client_plane_def process_coordinator_def
          client_world_def client_http_def operator_def blank_request_def api_task_def prompt_input_def TextInput_post_init_def
          require_text_def has_text_def split: prod.splits)
  qed
  ultimately have "in_flight (wo_admission w) ''acme'' = 1
      \<and> (in_flight (wo_admission w) ''acme'' = concurrency_limit ?ps ''acme'' \<longrightarrow> (\<forall>now n. \<not> snd (admit ?ps now ''acme'' n (wo_admission w))))"
    using blank_prompt_keeps_permit [OF r, of ?ps] client_usages [unfolded client_quotas_def] by (simp add: operator_def in_flight_def)
  then show ?thesis using r by (simp add: concurrency_limit_def)
qed

section \<open>Records\<close>








section \<open>Entry\<close>

lemma partition_at_found: "partition_at c s = (a, True, b) \<Longrightarrow> s = a @ c # b"
proof -
  assume p: "partition_at c s = (a, True, b)"
  then obtain d where d: "dropWhile (\<lambda>x. x \<noteq> c) s = d # b" and a: "a = takeWhile (\<lambda>x. x \<noteq> c) s"
    by (auto simp: partition_at_def split: list.splits)
  have "d = c" using d by (simp add: dropWhile_eq_Cons_conv)
  then show ?thesis using takeWhile_dropWhile_id [of "\<lambda>x. x \<noteq> c" s] d a by simp
qed

text \<open>C8. 
  Only the holder of a live key with the role gets in: with the keys of a configuration that could be loaded, a route
  that asks for a role receives a principal only when the header is a bearer token made of the identifier of a
  configured key and a secret with its digest, the key is neither revoked nor past its time and belongs to that
  principal, who has the role or administers, and the request names no tenant but the own.
\<close>

theorem only_live_keys_enter:
  assumes "require_role digest P role q w = (w', Inr who)"
    and "load_api_control L config record_path database_url redis_url = Inr (ap_api_keys P, policies, a, b)"
  shows "\<exists>scheme token key_id secret r. hr_authorization q = Some (scheme @ '' '' @ token) \<and> casefold scheme = ''bearer''
    \<and> strip token = ''ryuk_'' @ key_id @ ''_'' @ secret \<and> map_of (ap_api_keys P) key_id = Some r
    \<and> ak_key_id r = key_id \<and> digest secret (ak_salt r) = Inr (ak_digest r) \<and> ak_principal r = who \<and> ak_revoked_at r = None
    \<and> (\<forall>t. ak_expires_at r = Some t \<longrightarrow> hr_now q < instant_of t)
    \<and> (role \<in> pr_roles who \<or> ADMIN \<in> pr_roles who) \<and> (\<forall>t. hr_tenant q = Some t \<longrightarrow> t = pr_tenant_id who)"
proof -
  have c: "control_authenticate digest P (hr_now q) (hr_authorization q) = Inr who" "control_require_role who role (hr_tenant q) = Inr ()"
    using assms(1) by (auto simp: require_role_def bind_r_eq_Inr split: sum.splits)
  obtain scheme token where h: "hr_authorization q = Some (scheme @ '' '' @ token)" "casefold scheme = ''bearer''"
    and k: "authenticate_api_key digest (strip token) (ap_api_keys P) (hr_now q) None = Inr (Some who)"
    using c(1)
    by (auto simp: control_authenticate_def lift_exn_def bind_r_eq_Inr split: option.splits prod.splits if_splits sum.splits
        dest!: partition_at_found)
  have "role \<in> pr_roles who \<or> ADMIN \<in> pr_roles who" and "\<forall>t. hr_tenant q = Some t \<longrightarrow> t = pr_tenant_id who"
    using c(2) by (auto simp: control_require_role_def authorize_def Let_def)
  moreover have keys: "\<forall>(k, r) \<in> set (ap_api_keys P). APIKeyRecord_post_init r = Inr ()"
    using loaded_ok(1) [OF assms(2)] by (auto simp: keys_ok_def)
  moreover have "ak_key_id r = i" if "map_of (ap_api_keys P) i = Some r" for i r
    using loaded_ok(1) [OF assms(2)] map_of_SomeD [OF that] by (auto simp: keys_ok_def)
  ultimately show ?thesis using h authenticates_live_key [OF k keys] by blast
qed

definition client_document :: control_document where
  "client_document = \<lparr>cd_api_keys = [\<lparr>ki_key_id = ''ab'', ki_salt = ''00'', ki_digest = ''00s_e_c'', ki_principal_id = ''op'',
     ki_tenant_id = ''acme'', ki_roles = [''operator''], ki_expires_at = None, ki_revoked_at = None\<rparr>],
     cd_quotas = [(''acme'', 5, 1, 500)]\<rparr>"

theorem only_live_keys_enter_witness:
  "\<exists>keys policies w. load_api_control sample_lib (Some client_document) True [] [] = Inr (keys, policies, ProcessAdmission, SQLiteRecords)
    \<and> require_role sample_digest (client_plane\<lparr>ap_api_keys := keys\<rparr>) OPERATOR client_http client_world = (w, Inr operator)
    \<and> (\<exists>scheme token key_id secret r. hr_authorization client_http = Some (scheme @ '' '' @ token)
        \<and> strip token = ''ryuk_'' @ key_id @ ''_'' @ secret \<and> map_of keys key_id = Some r \<and> ak_principal r = operator)"
proof -
  let ?keys = "[(''ab'', operator_key\<lparr>ak_expires_at := None\<rparr>)]"
  let ?P = "client_plane\<lparr>ap_api_keys := ?keys\<rparr>"
  have l: "load_api_control sample_lib (Some client_document) True [] [] = Inr (ap_api_keys ?P, [(''acme'',
      \<lparr>qp_requests_per_minute = 5, qp_concurrent_requests = 1, qp_tokens_per_minute = 500\<rparr>)], ProcessAdmission, SQLiteRecords)"
    by code_simp
  have "authenticate_api_key sample_digest ''ryuk_ab_s_e_c'' ?keys 0 None = Inr (Some operator)"
    and "partition_at (CHR '' '') ''Bearer ryuk_ab_s_e_c'' = (''Bearer'', True, ''ryuk_ab_s_e_c'')"
    and "casefold ''Bearer'' = ''bearer''" and "strip ''ryuk_ab_s_e_c'' = ''ryuk_ab_s_e_c''" by code_simp+
  then obtain w where w: "require_role sample_digest ?P OPERATOR client_http client_world = (w, Inr operator)"
    by (simp add: require_role_def control_authenticate_def client_http_def client_plane_def lift_exn_def control_require_role_def
        authorize_def operator_def)
  have keys: "ap_api_keys ?P = ?keys" by simp
  obtain scheme token key_id secret r where "hr_authorization client_http = Some (scheme @ '' '' @ token)"
      "strip token = ''ryuk_'' @ key_id @ ''_'' @ secret" "map_of ?keys key_id = Some r" "ak_principal r = operator"
    using only_live_keys_enter [OF w l, unfolded keys] by (elim exE conjE) (rule that)
  then have "\<exists>scheme token key_id secret r. hr_authorization client_http = Some (scheme @ '' '' @ token)
      \<and> strip token = ''ryuk_'' @ key_id @ ''_'' @ secret \<and> map_of ?keys key_id = Some r \<and> ak_principal r = operator" by blast
  with w l [unfolded keys] show ?thesis by blast
qed

end
