(* ===== verification/Engines.thy ===== *)
theory Engines
  imports Executor
begin

text \<open>
  The adapters of inference servers (\<open>src/backend/inference/engines/\<close>): the managed HTTP adapter and its three
  products, the SGLang adapter, the adapter of the vLLM worker, and the mock. The HTTP client is outside: what a
  request meets is an argument, as is \<open>json.loads\<close> on the bytes of a body. An adapter turns it into a reply for the
  router. The context of a failure is for the log and is not modelled.
\<close>

section \<open>Replies of a server\<close>

text \<open>A response is streamed: its status, the chunks of its body, and how the stream ends. A timeout or a transport
  error of the client can come before the status or while the body is read.\<close>

datatype stream_end = Complete | StreamTimeout | StreamError

datatype http_reply = ConnectTimeout | ConnectError | RequestCancelled | Responded int "string list" stream_end

datatype body_read = Body string | TooLarge | BodyTimeout | BodyError

fun read_body :: "int \<Rightarrow> string \<Rightarrow> string list \<Rightarrow> stream_end \<Rightarrow> body_read" where
  "read_body limit body [] Complete = Body body"
| "read_body limit body [] StreamTimeout = BodyTimeout"
| "read_body limit body [] StreamError = BodyError"
| "read_body limit body (chunk # chunks) e =
     (if int (length (body @ chunk)) > limit then TooLarge else read_body limit (body @ chunk) chunks e)"

definition plain_failure :: "failure_class \<Rightarrow> 'a reply" where
  "plain_failure c = Failure (failure_of c None None)"

definition timeout_failure :: "string \<Rightarrow> 'a reply" where
  "timeout_failure op =
     plain_failure (if op = ''generation'' then DeadlineExceededFailure else DeploymentUnavailableFailure)"

definition is_success :: "int \<Rightarrow> bool" where
  "is_success status \<longleftrightarrow> 200 \<le> status \<and> status < 300"

text \<open>The shape all three adapters share: the status is judged before the body is read.\<close>

definition read_reply ::
    "int \<Rightarrow> string \<Rightarrow> (int \<Rightarrow> failure_class option) \<Rightarrow> (int \<Rightarrow> string \<Rightarrow> 'a reply) \<Rightarrow> http_reply \<Rightarrow> 'a reply" where
  "read_reply limit op status_failure use r =
     (case r of
        ConnectTimeout \<Rightarrow> timeout_failure op
      | ConnectError \<Rightarrow> plain_failure DeploymentUnavailableFailure
      | RequestCancelled \<Rightarrow> reply.Cancelled
      | Responded status chunks e \<Rightarrow>
          (case status_failure status of
             Some c \<Rightarrow> plain_failure c
           | None \<Rightarrow>
               (case read_body limit [] chunks e of
                  TooLarge \<Rightarrow> plain_failure UpstreamProtocolFailure
                | BodyTimeout \<Rightarrow> timeout_failure op
                | BodyError \<Rightarrow> plain_failure DeploymentUnavailableFailure
                | Body body \<Rightarrow> use status body)))"

definition generation_status :: "int \<Rightarrow> failure_class option" where
  "generation_status status =
     (if is_success status then None
      else if status \<in> {429, 503} then Some CapacityExceededFailure
      else if status \<in> {408, 504} then Some DeadlineExceededFailure
      else if status \<ge> 500 then Some GenerationFailure
      else Some UpstreamProtocolFailure)"

section \<open>The managed adapter\<close>

text \<open>The three products, with what they pin.\<close>

datatype hosted_profile = KIMI_K3 | DEEPSEEK_V4_FLASH_0731 | DEEPSEEK_V4_1_FLASH

fun hosted_profile_value :: "hosted_profile \<Rightarrow> string" where
  "hosted_profile_value KIMI_K3 = ''moonshotai/kimi-k3''"
| "hosted_profile_value DEEPSEEK_V4_FLASH_0731 = ''deepseek-ai/deepseek-v4-flash-0731''"
| "hosted_profile_value DEEPSEEK_V4_1_FLASH = ''deepseek-ai/deepseek-v4.1-flash''"

datatype product =
    Dynamo (dy_topology: string) (dy_runtime_version: string)
  | HostedNIM (hn_profile: hosted_profile) (hn_reasoning_effort: "string option")
  | NIM (ni_release: string) (ni_profile_id: string)

record managed_engine =
  me_model :: string
  me_max_response_bytes :: int
  me_product :: product

fun managed_name :: "product \<Rightarrow> string" where
  "managed_name (Dynamo _ _) = ''dynamo''"
| "managed_name (HostedNIM _ _) = ''nvidia-hosted-nim''"
| "managed_name (NIM _ _) = ''nim''"

fun readiness_path :: "product \<Rightarrow> string" where
  "readiness_path (Dynamo _ _) = ''/health''"
| "readiness_path (HostedNIM _ _) = ''/v1/models''"
| "readiness_path (NIM _ _) = ''/v1/health/ready''"

definition managed_init :: "string \<Rightarrow> int \<Rightarrow> product \<Rightarrow> exn + managed_engine" where
  "managed_init model max_response_bytes p =
     bind_r (require (strip model \<noteq> []) (ValueError ''A served model is required.'')) (\<lambda>_.
     bind_r (require (\<not> max_response_bytes < 1) (ValueError ''max_response_bytes must be positive.'')) (\<lambda>_.
     Inr \<lparr>me_model = model, me_max_response_bytes = max_response_bytes, me_product = p\<rparr>))"

definition dynamo_init :: "string \<Rightarrow> string \<Rightarrow> string \<Rightarrow> int \<Rightarrow> exn + managed_engine" where
  "dynamo_init topology runtime_version model max_response_bytes =
     bind_r (require (topology \<in> {''aggregated'', ''disaggregated''})
       (ValueError ''Dynamo topology must be aggregated or disaggregated.'')) (\<lambda>_.
     bind_r (require (strip runtime_version \<noteq> []) (ValueError ''Dynamo runtime version must be pinned.'')) (\<lambda>_.
     managed_init model max_response_bytes (Dynamo topology runtime_version)))"

definition hosted_init :: "string option \<Rightarrow> string \<Rightarrow> int \<Rightarrow> exn + managed_engine" where
  "hosted_init reasoning_effort model max_response_bytes =
     bind_r (require (reasoning_effort \<in> {None, Some ''low'', Some ''high'', Some ''max''})
       (ValueError ''reasoning_effort must be low, high, max, or omitted.'')) (\<lambda>_.
     case List.find (\<lambda>p. hosted_profile_value p = model) [KIMI_K3, DEEPSEEK_V4_FLASH_0731, DEEPSEEK_V4_1_FLASH] of
       None \<Rightarrow> Inl (ValueError ''The hosted NIM adapter requires a supported exact model profile.'')
     | Some p \<Rightarrow>
         bind_r (require (\<not> (p = DEEPSEEK_V4_1_FLASH \<and> reasoning_effort \<noteq> None))
           (ValueError (''DeepSeek V4.1 Flash reasoning effort is not supported until ''
              @ ''the hosted numeric request mapping is contract-tested.''))) (\<lambda>_.
         managed_init model max_response_bytes (HostedNIM p reasoning_effort)))"

definition nim_init :: "string \<Rightarrow> string \<Rightarrow> string \<Rightarrow> int \<Rightarrow> exn + managed_engine" where
  "nim_init expected_release profile_id model max_response_bytes =
     bind_r (require (\<not> (strip expected_release = [] \<or> strip profile_id = []))
       (ValueError ''NIM release and profile ID must be pinned.'')) (\<lambda>_.
     managed_init model max_response_bytes (NIM expected_release profile_id))"

definition managed_is_available :: "http_reply \<Rightarrow> bool reply" where
  "managed_is_available r =
     (case r of
        Responded status _ Complete \<Rightarrow> Reply (is_success status)
      | RequestCancelled \<Rightarrow> reply.Cancelled
      | _ \<Rightarrow> Reply False)"

text \<open>\<open>_json\<close>: an accepted but unfinished request is not a result, whatever its body is.\<close>

definition managed_json :: "(string \<Rightarrow> json option) \<Rightarrow> managed_engine \<Rightarrow> string \<Rightarrow> http_reply \<Rightarrow> json reply" where
  "managed_json loads_body e op =
     read_reply (me_max_response_bytes e) op generation_status (\<lambda>status body.
       case loads_body body of
         None \<Rightarrow> plain_failure (if status = 202 then AsynchronousResultPendingFailure else UpstreamProtocolFailure)
       | Some result \<Rightarrow>
           if status = 202 then plain_failure AsynchronousResultPendingFailure
           else if is_dict result then Reply result
           else plain_failure UpstreamProtocolFailure)"

section \<open>Generation\<close>

fun request_parameters :: "product \<Rightarrow> (string \<times> json) list" where
  "request_parameters (HostedNIM profile (Some effort)) =
     (if profile = DEEPSEEK_V4_FLASH_0731
      then [(''chat_template_kwargs'', JObj [(''thinking'', JBool True), (''reasoning_effort'', JStr effort)])]
      else [(''reasoning_effort'', JStr effort)])"
| "request_parameters _ = []"

definition managed_request :: "managed_engine \<Rightarrow> InferenceTask \<Rightarrow> string \<times> json" where
  "managed_request e task =
     (let payload = [(''model'', JStr (me_model e)), (''temperature'', number_json (gc_temperature (it_generation task))),
            (''stream'', JBool False)]
            @ (case gc_max_output_tokens (it_generation task) of None \<Rightarrow> [] | Some n \<Rightarrow> [(''max_tokens'', JInt n)])
            @ request_parameters (me_product e) in
      case it_input task of
        TextInput text \<Rightarrow> (''/v1/completions'', JObj (payload @ [(''prompt'', JStr text)]))
      | ChatInput messages \<Rightarrow> (''/v1/chat/completions'', JObj (payload @ [(''messages'', JArr (map message_json messages))])))"

definition finish_reason_of :: "json option \<Rightarrow> FinishReason" where
  "finish_reason_of v =
     (case v of
        Some (JStr s) \<Rightarrow>
          (case List.find (\<lambda>f. FinishReason_value f = s) [STOP, FinishReason.LENGTH, CANCELLED_FINISH, ERROR_FINISH, UNKNOWN_FINISH] of
             None \<Rightarrow> UNKNOWN_FINISH | Some f \<Rightarrow> f)
      | _ \<Rightarrow> UNKNOWN_FINISH)"

definition optional_count :: "json option \<Rightarrow> int option" where
  "optional_count v = (case v of Some (JInt n) \<Rightarrow> if n \<ge> 0 then Some n else None | _ \<Rightarrow> None)"

text \<open>\<open>result.get(...) or {}\<close>.\<close>

fun falsy :: "json \<Rightarrow> bool" where
  "falsy JNull = True"
| "falsy (JBool b) = (\<not> b)"
| "falsy (JInt n) = (n = 0)"
| "falsy (JFloat x) = (x = 0)"
| "falsy (JStr s) = (s = [])"
| "falsy (JArr xs) = (xs = [])"
| "falsy (JObj ms) = (ms = [])"

definition get_or_empty :: "json \<Rightarrow> string \<Rightarrow> json" where
  "get_or_empty v k = (case dict_get v k of None \<Rightarrow> JObj [] | Some x \<Rightarrow> if falsy x then JObj [] else x)"

definition choice_text :: "task_input \<Rightarrow> json \<Rightarrow> json option" where
  "choice_text input choice =
     (case input of
        ChatInput _ \<Rightarrow> (case dict_get choice ''message'' of
            Some m \<Rightarrow> if is_dict m then dict_get m ''content'' else None | None \<Rightarrow> None)
      | TextInput _ \<Rightarrow> dict_get choice ''text'')"

text \<open>The metadata is recorded under the name of the product. The hosted product looks at the model the server names.\<close>

definition response_metadata :: "managed_engine \<Rightarrow> json \<Rightarrow> metadata reply" where
  "response_metadata e result =
     (let entry = Reply [(managed_name (me_product e), None)] in
      case me_product e of
        HostedNIM _ _ \<Rightarrow>
          (case dict_get result ''model'' of
             Some (JStr model) \<Rightarrow>
               if strip model = [] then plain_failure UpstreamProtocolFailure
               else if model \<noteq> me_model e then plain_failure IdentityMismatchFailure
               else entry
           | _ \<Rightarrow> plain_failure UpstreamProtocolFailure)
      | _ \<Rightarrow> entry)"

fun first_reasoning :: "json \<Rightarrow> string list \<Rightarrow> string option reply" where
  "first_reasoning message [] = Reply None"
| "first_reasoning message (k # ks) =
     (case dict_get message k of
        None \<Rightarrow> first_reasoning message ks
      | Some JNull \<Rightarrow> first_reasoning message ks
      | Some (JStr s) \<Rightarrow>
          (case require_text s ''reasoning text'' of
             Inr _ \<Rightarrow> Reply (Some s) | Inl _ \<Rightarrow> plain_failure UpstreamProtocolFailure)
      | Some _ \<Rightarrow> plain_failure UpstreamProtocolFailure)"

definition reasoning_output :: "managed_engine \<Rightarrow> json \<Rightarrow> string option reply" where
  "reasoning_output e choice =
     (case me_product e of
        HostedNIM _ _ \<Rightarrow>
          (case dict_get choice ''message'' of
             Some m \<Rightarrow> if is_dict m then first_reasoning m [''reasoning_content'', ''reasoning''] else Reply None
           | None \<Rightarrow> Reply None)
      | _ \<Rightarrow> Reply None)"

text \<open>The two readings of the performance counter are \<open>elapsed\<close> seconds apart.\<close>

definition managed_result :: "managed_engine \<Rightarrow> rat \<Rightarrow> InferenceTask \<Rightarrow> json \<Rightarrow> AdapterInferenceResult reply" where
  "managed_result e elapsed task result =
     (case dict_get result ''choices'' of
        Some (JArr (choice # _)) \<Rightarrow>
          if \<not> is_dict choice then plain_failure UpstreamProtocolFailure
          else (case choice_text (it_input task) choice of
            Some (JStr text) \<Rightarrow>
              let usage = get_or_empty result ''usage'';
                  counts = \<lparr>tu_input_tokens = optional_count (dict_get usage ''prompt_tokens''),
                            tu_output_tokens = optional_count (dict_get usage ''completion_tokens'')\<rparr> in
              if \<not> is_dict usage then plain_failure UpstreamProtocolFailure
              else (case bind_r (TokenUsage_post_init counts) (\<lambda>_. InferenceTiming_post_init (Some (elapsed * 1000))) of
                  Inl ex \<Rightarrow> Crash ex
                | Inr _ \<Rightarrow>
                    bind_reply (response_metadata e result) (\<lambda>md.
                    bind_reply (reasoning_output e choice) (\<lambda>reasoning.
                    Reply \<lparr>ar_text = text, ar_finish_reason = finish_reason_of (dict_get choice ''finish_reason''),
                           ar_usage = counts, ar_total_ms = Some (elapsed * 1000), ar_metadata = md, ar_reasoning = reasoning\<rparr>)))
          | _ \<Rightarrow> plain_failure UpstreamProtocolFailure)
      | _ \<Rightarrow> plain_failure UpstreamProtocolFailure)"

definition managed_generate ::
    "(string \<Rightarrow> json option) \<Rightarrow> (string \<Rightarrow> json \<Rightarrow> http_reply) \<Rightarrow> rat \<Rightarrow> managed_engine \<Rightarrow> InferenceTask \<Rightarrow> AdapterInferenceResult reply" where
  "managed_generate loads_body post elapsed e task =
     (case (me_product e, it_input task) of
        (HostedNIM _ _, TextInput _) \<Rightarrow> plain_failure UnsupportedTaskFailure
      | _ \<Rightarrow> (case managed_request e task of (path, request) \<Rightarrow>
               bind_reply (managed_json loads_body e ''generation'' (post path request)) (managed_result e elapsed task)))"

section \<open>Identity of the managed products\<close>

definition checked :: "exn + unit \<Rightarrow> 'a \<Rightarrow> 'a reply" where
  "checked r x = (case r of Inl ex \<Rightarrow> Crash ex | Inr _ \<Rightarrow> Reply x)"

definition observation_of :: "ModelRef \<Rightarrow> instant \<Rightarrow> string \<Rightarrow> ModelIdentityObservation reply" where
  "observation_of model clk source =
     (let ob = \<lparr>mo_model = model, mo_observed_at = Aware clk, mo_source = source, mo_catalog_only = False\<rparr> in
      checked (bind_r (ModelRef_post_init model) (\<lambda>_. ModelIdentityObservation_post_init ob)) ob)"

definition managed_models :: "(string \<Rightarrow> json option) \<Rightarrow> (string \<Rightarrow> http_reply) \<Rightarrow> instant \<Rightarrow> managed_engine \<Rightarrow> ModelIdentityObservation reply" where
  "managed_models loads_body http clk e =
     bind_reply (managed_json loads_body e ''identity'' (http ''/v1/models'')) (\<lambda>result.
     case dict_get result ''data'' of
       Some (JArr data) \<Rightarrow>
         if Some (JStr (me_model e)) \<notin> set (map (\<lambda>item. dict_get item ''id'') (filter is_dict data))
         then plain_failure UpstreamProtocolFailure
         else observation_of \<lparr>artifact_id = me_model e, revision = None, served_name = Some (me_model e)\<rparr> clk
           (managed_name (me_product e) @ '':/v1/models'')
     | _ \<Rightarrow> plain_failure UpstreamProtocolFailure)"

fun find_string :: "json \<Rightarrow> string list \<Rightarrow> string option" where
  "find_string v [] = None"
| "find_string v (k # ks) =
     (case dict_get v k of Some (JStr s) \<Rightarrow> if s \<noteq> [] then Some s else find_string v ks | _ \<Rightarrow> find_string v ks)"

definition managed_discover ::
    "(string \<Rightarrow> json option) \<Rightarrow> (string \<Rightarrow> http_reply) \<Rightarrow> instant \<Rightarrow> managed_engine \<Rightarrow> ModelIdentityObservation reply" where
  "managed_discover loads_body http clk e =
     bind_reply (managed_models loads_body http clk e) (\<lambda>ob.
     case me_product e of
       Dynamo _ _ \<Rightarrow> Reply ob
     | HostedNIM _ _ \<Rightarrow> checked (ModelIdentityObservation_post_init (ob\<lparr>mo_catalog_only := True\<rparr>)) (ob\<lparr>mo_catalog_only := True\<rparr>)
     | NIM release profile_id \<Rightarrow>
         bind_reply (managed_json loads_body e ''identity'' (http ''/v1/version'')) (\<lambda>version.
         bind_reply (managed_json loads_body e ''identity'' (http ''/v1/metadata'')) (\<lambda>metadata.
         if find_string version [''version'', ''nim_version''] \<noteq> Some release then plain_failure UpstreamProtocolFailure
         else if find_string metadata [''profile_id'', ''model_profile'', ''model_profile_id''] \<noteq> Some profile_id
         then plain_failure UpstreamProtocolFailure
         else Reply ob)))"

section \<open>The vLLM worker\<close>

definition worker_is_available :: "(string \<Rightarrow> json option) \<Rightarrow> http_reply \<Rightarrow> bool reply" where
  "worker_is_available loads_body r =
     (case r of
        Responded status chunks Complete \<Rightarrow>
          if status \<noteq> 200 then Reply False
          else (case loads_body (concat chunks) of
                  None \<Rightarrow> Reply False
                | Some (JObj ms) \<Rightarrow> Reply (dict_get (JObj ms) ''ready'' = Some (JBool True))
                | Some _ \<Rightarrow> Crash (AttributeError ''get''))
      | RequestCancelled \<Rightarrow> reply.Cancelled
      | _ \<Rightarrow> Reply False)"

definition worker_status :: "int \<Rightarrow> failure_class option" where
  "worker_status status =
     (if status \<in> {429, 503} then Some CapacityExceededFailure
      else if status \<in> {408, 504} then Some DeadlineExceededFailure
      else if status \<ge> 500 then Some GenerationFailure
      else if \<not> is_success status then Some UpstreamProtocolFailure
      else None)"

definition worker_json :: "(string \<Rightarrow> json option) \<Rightarrow> int \<Rightarrow> string \<Rightarrow> http_reply \<Rightarrow> json reply" where
  "worker_json loads_body limit op =
     read_reply limit op worker_status (\<lambda>_ body.
       case loads_body body of
         None \<Rightarrow> plain_failure UpstreamProtocolFailure
       | Some result \<Rightarrow> if is_dict result then Reply result else plain_failure UpstreamProtocolFailure)"

definition worker_discover :: "(string \<Rightarrow> json option) \<Rightarrow> int \<Rightarrow> instant \<Rightarrow> http_reply \<Rightarrow> ModelIdentityObservation reply" where
  "worker_discover loads_body limit clk r =
     bind_reply (worker_json loads_body limit ''identity'' r) (\<lambda>result.
     case dict_get result ''model_artifact_id'' of
       Some (JStr artifact) \<Rightarrow>
         if artifact = [] then plain_failure UpstreamProtocolFailure
         else (case dict_get result ''model_revision'' of
                 None \<Rightarrow> observation_of \<lparr>artifact_id = artifact, revision = None, served_name = None\<rparr> clk ''vllm-worker:/ryuk/v1/identity''
               | Some JNull \<Rightarrow> observation_of \<lparr>artifact_id = artifact, revision = None, served_name = None\<rparr> clk ''vllm-worker:/ryuk/v1/identity''
               | Some (JStr rv) \<Rightarrow> observation_of \<lparr>artifact_id = artifact, revision = Some rv, served_name = None\<rparr> clk ''vllm-worker:/ryuk/v1/identity''
               | Some _ \<Rightarrow> plain_failure UpstreamProtocolFailure)
     | _ \<Rightarrow> plain_failure UpstreamProtocolFailure)"

definition worker_request :: "InferenceTask \<Rightarrow> json" where
  "worker_request task = JObj
     [(''request_id'', JStr (tc_request_id (it_trace task))),
      (''input'', case it_input task of
          TextInput text \<Rightarrow> JObj [(''kind'', JStr ''text''), (''text'', JStr text)]
        | ChatInput messages \<Rightarrow> JObj [(''kind'', JStr ''chat''), (''messages'', JArr (map message_json messages))]),
      (''generation'', JObj [(''max_output_tokens'', jopt JInt (gc_max_output_tokens (it_generation task))),
         (''temperature'', number_json (gc_temperature (it_generation task)))])]"

text \<open>A count or a duration the constructors accept: what is not \<open>None\<close> is compared with zero, so a number of any kind
  that is not negative goes through, and what is not a number raises \<open>TypeError\<close>.\<close>

fun compared_with_zero :: "string \<Rightarrow> json option \<Rightarrow> exn + number option" where
  "compared_with_zero field None = Inr None"
| "compared_with_zero field (Some JNull) = Inr None"
| "compared_with_zero field (Some (JBool b)) = Inr (Some (IntNum (if b then 1 else 0)))"
| "compared_with_zero field (Some (JInt n)) =
     (if n < 0 then Inl (ValueError (field @ '' cannot be negative.'')) else Inr (Some (IntNum n)))"
| "compared_with_zero field (Some (JFloat x)) =
     (if x < 0 then Inl (ValueError (field @ '' cannot be negative.'')) else Inr (Some (FloatNum x)))"
| "compared_with_zero field (Some _) = Inl (TypeError ''< not supported'')"

record worker_result =
  wr_text :: string
  wr_finish_reason :: FinishReason
  wr_input_tokens :: "number option"
  wr_output_tokens :: "number option"
  wr_total_ms :: "number option"

definition worker_generate ::
    "(string \<Rightarrow> json option) \<Rightarrow> int \<Rightarrow> (json \<Rightarrow> http_reply) \<Rightarrow> rat \<Rightarrow> InferenceTask \<Rightarrow> worker_result reply" where
  "worker_generate loads_body limit post elapsed task =
     bind_reply (worker_json loads_body limit ''generation'' (post (worker_request task))) (\<lambda>result.
     let usage = (case dict_get result ''usage'' of None \<Rightarrow> JObj [] | Some u \<Rightarrow> u) in
     case dict_get result ''text'' of
       Some (JStr text) \<Rightarrow>
         if \<not> is_dict usage then plain_failure UpstreamProtocolFailure
         else (case bind_r (compared_with_zero ''input_tokens'' (dict_get usage ''input_tokens'')) (\<lambda>input.
                    bind_r (compared_with_zero ''output_tokens'' (dict_get usage ''output_tokens'')) (\<lambda>output.
                    bind_r (case dict_get result ''latency_ms'' of
                        None \<Rightarrow> compared_with_zero ''total_ms'' (Some (JFloat (elapsed * 1000)))
                      | Some v \<Rightarrow> compared_with_zero ''total_ms'' (Some (if falsy v then JFloat (elapsed * 1000) else v))) (\<lambda>total.
                    Inr \<lparr>wr_text = text, wr_finish_reason = finish_reason_of (dict_get result ''finish_reason''),
                         wr_input_tokens = input, wr_output_tokens = output, wr_total_ms = total\<rparr>))) of
                 Inl ex \<Rightarrow> Crash ex
               | Inr res \<Rightarrow> Reply res)
     | _ \<Rightarrow> plain_failure UpstreamProtocolFailure)"

section \<open>SGLang\<close>

definition sglang_status :: "string \<Rightarrow> int \<Rightarrow> failure_class option" where
  "sglang_status op status =
     (if is_success status then None
      else if op = ''identity''
      then Some (if status \<in> {429, 503} then DeploymentUnavailableFailure else UpstreamProtocolFailure)
      else generation_status status)"

definition sglang_json :: "(string \<Rightarrow> json option) \<Rightarrow> int \<Rightarrow> string \<Rightarrow> http_reply \<Rightarrow> json reply" where
  "sglang_json loads_body limit op =
     read_reply limit op (sglang_status op) (\<lambda>_ body.
       case loads_body body of
         None \<Rightarrow> plain_failure UpstreamProtocolFailure
       | Some result \<Rightarrow> if is_dict result then Reply result else plain_failure UpstreamProtocolFailure)"

definition model_info_string :: "json \<Rightarrow> string \<Rightarrow> string option reply" where
  "model_info_string result field =
     (case dict_get result field of
        None \<Rightarrow> Reply None
      | Some JNull \<Rightarrow> Reply None
      | Some (JStr s) \<Rightarrow> if identifier_ok s then Reply (Some s) else plain_failure UpstreamProtocolFailure
      | Some _ \<Rightarrow> plain_failure UpstreamProtocolFailure)"

definition sglang_discover ::
    "(string \<Rightarrow> json option) \<Rightarrow> int \<Rightarrow> bool \<Rightarrow> instant \<Rightarrow> http_reply \<Rightarrow> ModelIdentityObservation reply" where
  "sglang_discover loads_body limit use_weight_version_as_revision clk r =
     bind_reply (sglang_json loads_body limit ''identity'' r) (\<lambda>result.
     bind_reply (model_info_string result ''model_path'') (\<lambda>model_path.
     case model_path of
       None \<Rightarrow> plain_failure UpstreamProtocolFailure
     | Some path \<Rightarrow>
         bind_reply (model_info_string result ''served_model_name'') (\<lambda>served.
         bind_reply (model_info_string result ''weight_version'') (\<lambda>rv.
         observation_of \<lparr>artifact_id = path, revision = (if use_weight_version_as_revision then rv else None), served_name = served\<rparr>
           clk ''sglang:/model_info''))))"

definition sglang_request :: "InferenceRequest \<Rightarrow> json" where
  "sglang_request r = JObj
     ([(''text'', JStr (rq_prompt r)),
       (''sampling_params'', JObj ([(''temperature'', number_json (rq_temperature r))]
          @ (case rq_max_tokens r of None \<Rightarrow> [] | Some n \<Rightarrow> [(''max_new_tokens'', JInt n)])))]
      @ (case map_of (rq_metadata r) ''request_id'' of
           None \<Rightarrow> [] | Some i \<Rightarrow> if i \<noteq> [] then [(''rid'', JStr i)] else []))"

definition nonnegative_int :: "json \<Rightarrow> string \<Rightarrow> int option reply" where
  "nonnegative_int meta field =
     (case dict_get meta field of
        None \<Rightarrow> Reply None
      | Some JNull \<Rightarrow> Reply None
      | Some (JInt n) \<Rightarrow> if n < 0 then plain_failure UpstreamProtocolFailure else Reply (Some n)
      | Some _ \<Rightarrow> plain_failure UpstreamProtocolFailure)"

definition sglang_meta :: "json \<Rightarrow> json" where
  "sglang_meta result = (case dict_get result ''meta_info'' of None \<Rightarrow> JObj [] | Some m \<Rightarrow> m)"

definition sglang_finish :: "json \<Rightarrow> string option reply" where
  "sglang_finish meta =
     (case dict_get meta ''finish_reason'' of
        None \<Rightarrow> Reply None
      | Some JNull \<Rightarrow> Reply None
      | Some (JStr f) \<Rightarrow> Reply (Some f)
      | Some _ \<Rightarrow> plain_failure UpstreamProtocolFailure)"

definition sglang_response :: "rat \<Rightarrow> InferenceRequest \<Rightarrow> json \<Rightarrow> InferenceResponse reply" where
  "sglang_response elapsed r result =
     (case dict_get result ''text'' of
        Some (JStr text) \<Rightarrow>
          if \<not> is_dict (sglang_meta result) then plain_failure UpstreamProtocolFailure
          else bind_reply (nonnegative_int (sglang_meta result) ''prompt_tokens'') (\<lambda>input.
               bind_reply (nonnegative_int (sglang_meta result) ''completion_tokens'') (\<lambda>output.
               bind_reply (sglang_finish (sglang_meta result)) (\<lambda>finish.
               Reply \<lparr>ir_text = text, ir_model = Some (rq_model r), ir_engine = ''sglang'',
                 ir_latency_ms = Some (elapsed * 1000), ir_input_tokens = input, ir_output_tokens = output,
                 ir_metadata = [(''sglang_meta'', None), (''sglang_finish_reason'', finish)], ir_provenance = None\<rparr>)))
      | _ \<Rightarrow> plain_failure UpstreamProtocolFailure)"

definition sglang_generate ::
    "(string \<Rightarrow> json option) \<Rightarrow> int \<Rightarrow> (json \<Rightarrow> http_reply) \<Rightarrow> rat \<Rightarrow> InferenceRequest \<Rightarrow> InferenceResponse reply" where
  "sglang_generate loads_body limit post elapsed r =
     bind_reply (sglang_json loads_body limit ''generation'' (post (sglang_request r))) (sglang_response elapsed r)"

definition sglang_is_available :: "http_reply \<Rightarrow> bool reply" where
  "sglang_is_available r =
     (case r of
        Responded status _ Complete \<Rightarrow> Reply (is_success status)
      | RequestCancelled \<Rightarrow> reply.Cancelled
      | _ \<Rightarrow> Reply False)"

definition sglang_assess ::
    "(string \<Rightarrow> json option) \<Rightarrow> int \<Rightarrow> bool \<Rightarrow> instant \<Rightarrow> http_reply \<Rightarrow> ModelRef option \<Rightarrow> IdentityAssessment reply" where
  "sglang_assess loads_body limit use_weight_version_as_revision clk r expected =
     bind_reply (sglang_discover loads_body limit use_weight_version_as_revision clk r) (\<lambda>ob.
     Reply (assess_model_identity expected (Some ob)))"

section \<open>The mock\<close>

definition mock_discover :: "instant \<Rightarrow> ModelIdentityObservation reply" where
  "mock_discover clk = observation_of \<lparr>artifact_id = ''ryuk/mock'', revision = None, served_name = Some ''mock''\<rparr> clk ''mock:configuration''"

definition mock_generate :: "InferenceTask \<Rightarrow> AdapterInferenceResult" where
  "mock_generate task =
     \<lparr>ar_text = (case it_input task of TextInput text \<Rightarrow> ''Mock response for: '' @ text
        | ChatInput messages \<Rightarrow> ''Mock chat response for: '' @ cm_content (last messages)),
      ar_finish_reason = STOP, ar_usage = \<lparr>tu_input_tokens = None, tu_output_tokens = None\<rparr>, ar_total_ms = Some 1,
      ar_metadata = [(''mock'', None), (''production'', None),
        (''input_kind'', Some (case it_input task of TextInput _ \<Rightarrow> ''text'' | ChatInput _ \<Rightarrow> ''chat'')),
        (''warning'', Some ''Deterministic development output; no model executed.'')],
      ar_reasoning = None\<rparr>"

definition mock_legacy :: "InferenceRequest \<Rightarrow> InferenceResponse" where
  "mock_legacy r =
     \<lparr>ir_text = ''Mock response for: '' @ rq_prompt r, ir_model = Some (rq_model r), ir_engine = ''mock'', ir_latency_ms = Some 1,
      ir_input_tokens = None, ir_output_tokens = None,
      ir_metadata = [(''mock'', None), (''production'', None), (''warning'', Some ''Deterministic development output; no model executed.'')],
      ir_provenance = None\<rparr>"

end
