(* ===== verification/EngineTheorems.thy ===== *)
theory EngineTheorems
  imports Engines RouterTheorems
begin

text \<open>
  What the adapters promise the router: whatever a server answers, a managed adapter returns a well-formed result or a
  typed failure, and an identity it reports as verified has been pinned. The adapter of the vLLM worker does not keep
  the first promise.
\<close>

section \<open>Typed replies\<close>

fun typed_reply :: "'a reply \<Rightarrow> bool" where
  "typed_reply (Reply _) = True"
| "typed_reply (Failure _) = True"
| "typed_reply reply.Cancelled = True"
| "typed_reply _ = False"

named_theorems reply_rules \<open>replies that are a value, a typed failure or a cancellation\<close>

lemma typed_bind [reply_rules]:
  "typed_reply x \<Longrightarrow> (\<And>v. x = Reply v \<Longrightarrow> typed_reply (f v)) \<Longrightarrow> typed_reply (bind_reply x f)"
  by (cases x) auto

lemma typed_failure [simp]: "typed_reply (plain_failure c)" "typed_reply (timeout_failure op)"
  by (simp_all add: plain_failure_def timeout_failure_def)

lemma plain_not_reply [simp]: "plain_failure c \<noteq> Reply x" "timeout_failure op \<noteq> Reply x"
  by (simp_all add: plain_failure_def timeout_failure_def)

lemma bind_reply_Reply: "bind_reply x f = Reply y \<longleftrightarrow> (\<exists>v. x = Reply v \<and> f v = Reply y)"
  by (cases x) auto

lemma checked_Reply: "checked c x = Reply y \<longleftrightarrow> c = Inr () \<and> x = y"
  by (auto simp: checked_def split: sum.splits)

lemma read_reply_typed [reply_rules]:
  "(\<And>status body. typed_reply (use status body)) \<Longrightarrow> typed_reply (read_reply limit op sf use r)"
  by (auto simp: read_reply_def split: http_reply.splits option.splits body_read.splits)

lemma read_reply_Reply:
  assumes "read_reply limit op sf use r = Reply x"
  obtains status chunks body where "r = Responded status chunks Complete" and "sf status = None"
    and "read_body limit [] chunks Complete = Body body" and "use status body = Reply x"
proof -
  have complete: "e = Complete" if "read_body limit b chunks e = Body body" for b chunks e body
    using that by (induction limit b chunks e rule: read_body.induct) (auto split: if_splits)
  obtain status chunks e body where r: "r = Responded status chunks e" "sf status = None" "read_body limit [] chunks e = Body body"
    "use status body = Reply x"
    using assms by (auto simp: read_reply_def split: http_reply.splits option.splits body_read.splits)
  with complete [OF r(3)] show thesis by (intro that) auto
qed

text \<open>What is read has the bytes of the chunks, and not more of them than allowed.\<close>

lemma read_body_Body: "read_body limit b chunks e = Body body \<Longrightarrow> body = b @ concat chunks \<and> (chunks \<noteq> [] \<longrightarrow> int (length body) \<le> limit)"
proof (induction limit b chunks e rule: read_body.induct)
  case (4 limit b chunk chunks e)
  then have "\<not> int (length (b @ chunk)) > limit" and "body = (b @ chunk) @ concat chunks \<and> (chunks \<noteq> [] \<longrightarrow> int (length body) \<le> limit)"
    by (auto split: if_splits)
  then show ?case by (cases chunks) auto
qed auto

section \<open>The managed adapter\<close>










lemma observation_typed: "ModelRef_post_init m = Inr () \<Longrightarrow> identifier_ok source \<Longrightarrow> typed_reply (observation_of m clk source)"
  by (simp add: observation_of_def Let_def checked_def ModelIdentityObservation_post_init_def require_identifier_def)



lemma managed_models_Reply:
  assumes "managed_models loads_body http clk e = Reply ob"
  shows "(\<exists>v data item. managed_json loads_body e ''identity'' (http ''/v1/models'') = Reply v \<and> dict_get v ''data'' = Some (JArr data)
      \<and> item \<in> set data \<and> dict_get item ''id'' = Some (JStr (me_model e)))
    \<and> ob = \<lparr>mo_model = \<lparr>artifact_id = me_model e, revision = None, served_name = Some (me_model e)\<rparr>, mo_observed_at = Aware clk,
        mo_source = managed_name (me_product e) @ '':/v1/models'', mo_catalog_only = False\<rparr>"
proof -
  obtain v where j: "managed_json loads_body e ''identity'' (http ''/v1/models'') = Reply v" 
    using assms unfolding managed_models_def bind_reply_Reply by blast
  then obtain data where v: "managed_json loads_body e ''identity'' (http ''/v1/models'') = Reply v" "dict_get v ''data'' = Some (JArr data)"
    and mem: "Some (JStr (me_model e)) \<in> set (map (\<lambda>item. dict_get item ''id'') (filter is_dict data))"
    and ob: "observation_of \<lparr>artifact_id = me_model e, revision = None, served_name = Some (me_model e)\<rparr> clk
        (managed_name (me_product e) @ '':/v1/models'') = Reply ob"
    using assms by (simp add: managed_models_def split: option.splits json.splits if_splits)
  from mem obtain item where "item \<in> set data" "dict_get item ''id'' = Some (JStr (me_model e))" by auto
  moreover have "ob = \<lparr>mo_model = \<lparr>artifact_id = me_model e, revision = None, served_name = Some (me_model e)\<rparr>, mo_observed_at = Aware clk,
        mo_source = managed_name (me_product e) @ '':/v1/models'', mo_catalog_only = False\<rparr>"
    using ob unfolding observation_of_def Let_def checked_Reply by (elim conjE) (rule sym)
  ultimately show ?thesis using v by blast
qed


section \<open>What the router sees\<close>




definition sample_answer :: http_reply where
  "sample_answer = Responded 200 [''{'', ''}''] Complete"



lemma verified_assessment:
  assumes "ia_status (assess_model_identity expected observed) = VERIFIED"
  shows "\<exists>m ob. expected = Some m \<and> observed = Some ob \<and> \<not> mo_catalog_only ob \<and> artifact_id m = artifact_id (mo_model ob)
    \<and> (revision m \<noteq> None \<longrightarrow> revision (mo_model ob) \<noteq> None)"
proof -
  obtain m ob where m: "expected = Some m" "observed = Some ob"
    using assms by (cases expected; cases observed) (auto simp: assess_model_identity_def)
  obtain mm missing where c: "compare_identity identity_fields m (mo_model ob) = (mm, missing)" by fastforce
  have "mm = []" and "\<not> missing" and "\<not> mo_catalog_only ob"
    using assms m c by (auto simp: assess_model_identity_def split: if_splits)
  then show ?thesis
    using m compare_identity_mismatches [of identity_fields m "mo_model ob"] compare_identity_missing [of identity_fields m "mo_model ob"] c
    by (auto simp: identity_fields_def filter_empty_conv split: if_splits)
qed

text \<open>
  A verified identity is pinned: when the inspection of a managed deployment says so, the server listed the configured
  model under the very name the deployment expects, it is not the hosted catalog, and a NIM server reported the pinned
  release and the pinned profile.
\<close>

lemma verified_identity_pinned:
  assumes "eng_discovers (rg_engine r)" and "inspect_identity r (managed_discover loads_body http clk e) = Reply i"
    and "ia_status (ii_assessment i) = VERIFIED"
  shows "(\<exists>m. dr_model (rg_ref r) = Some m \<and> artifact_id m = me_model e \<and> revision m = None)
    \<and> (\<exists>v data item. managed_json loads_body e ''identity'' (http ''/v1/models'') = Reply v \<and> dict_get v ''data'' = Some (JArr data)
        \<and> item \<in> set data \<and> dict_get item ''id'' = Some (JStr (me_model e)))
    \<and> (case me_product e of
         Dynamo _ _ \<Rightarrow> True
       | HostedNIM _ _ \<Rightarrow> False
       | NIM release profile_id \<Rightarrow> \<exists>v v'. managed_json loads_body e ''identity'' (http ''/v1/version'') = Reply v
           \<and> find_string v [''version'', ''nim_version''] = Some release
           \<and> managed_json loads_body e ''identity'' (http ''/v1/metadata'') = Reply v'
           \<and> find_string v' [''profile_id'', ''model_profile'', ''model_profile_id''] = Some profile_id)"
proof -
  obtain obs where a: "ia_status (assess_model_identity (dr_model (rg_ref r)) obs) = VERIFIED"
    and obs: "obs \<noteq> None \<longrightarrow> managed_discover loads_body http clk e = Reply (the obs)"
    using assms by (cases "managed_discover loads_body http clk e") (auto simp: inspect_identity_def Let_def)
  obtain m ob where m: "dr_model (rg_ref r) = Some m" and "obs = Some ob"
    and ob': "\<not> mo_catalog_only ob" "artifact_id m = artifact_id (mo_model ob)" "revision m \<noteq> None \<longrightarrow> revision (mo_model ob) \<noteq> None"
    using verified_assessment [OF a] by blast
  then have ob: "managed_discover loads_body http clk e = Reply ob" using obs by simp
  obtain ob0 where ob0: "managed_models loads_body http clk e = Reply ob0" and "mo_model ob = mo_model ob0"
    using ob by (cases "me_product e") (auto simp: managed_discover_def bind_reply_Reply checked_Reply simp del: find_string.simps split: if_splits)
  then have "artifact_id m = me_model e" and "revision m = None"
    using managed_models_Reply [OF ob0] ob' by (auto split: option.splits)
  moreover have "case me_product e of Dynamo _ _ \<Rightarrow> True | HostedNIM _ _ \<Rightarrow> False
       | NIM release profile_id \<Rightarrow> \<exists>v v'. managed_json loads_body e ''identity'' (http ''/v1/version'') = Reply v
           \<and> find_string v [''version'', ''nim_version''] = Some release
           \<and> managed_json loads_body e ''identity'' (http ''/v1/metadata'') = Reply v'
           \<and> find_string v' [''profile_id'', ''model_profile'', ''model_profile_id''] = Some profile_id"
    using ob ob' by (cases "me_product e") (auto simp: managed_discover_def bind_reply_Reply checked_Reply simp del: find_string.simps split: if_splits)
  ultimately show ?thesis using m conjunct1 [OF managed_models_Reply [OF ob0]] by blast
qed

section \<open>SGLang\<close>

lemma sglang_json_typed: "typed_reply (sglang_json loads_body limit op r)"
  unfolding sglang_json_def by (rule read_reply_typed) (auto split: option.splits)

lemma model_info_typed: "typed_reply (model_info_string v f)"
  by (auto simp: model_info_string_def split: option.splits json.splits)

lemma model_info_Reply: "model_info_string v f = Reply (Some s) \<Longrightarrow> identifier_ok s"
  by (auto simp: model_info_string_def split: option.splits json.splits if_splits)

lemma sglang_source: "identifier_ok ''sglang:/model_info''"
  by (simp add: identifier_ok_iff py_space_def)

lemma sglang_discover_typed: "typed_reply (sglang_discover loads_body limit use clk r)"
proof -
  have "typed_reply (observation_of \<lparr>artifact_id = p, revision = (if use then rv else None), served_name = sn\<rparr> clk ''sglang:/model_info'')"
    if "model_info_string v a = Reply (Some p)" "model_info_string v b = Reply sn" "model_info_string v c = Reply rv" for v a b c p sn rv
    using model_info_Reply that
    by (intro observation_typed) (auto simp: ModelRef_post_init_def require_identifier_def validate_optional_identifier_def
        bind_r_eq_Inr sglang_source split: option.splits)
  then show ?thesis
    by (auto simp: sglang_discover_def intro!: typed_bind sglang_json_typed model_info_typed split: option.splits)
qed

lemma nonnegative_int_typed: "typed_reply (nonnegative_int v f)"
  by (auto simp: nonnegative_int_def split: option.splits json.splits)

lemma nonnegative_int_Reply: "nonnegative_int v f = Reply (Some n) \<Longrightarrow> 0 \<le> n"
  by (auto simp: nonnegative_int_def split: option.splits json.splits if_splits)

lemma sglang_finish_typed: "typed_reply (sglang_finish meta)"
  by (auto simp: sglang_finish_def split: option.splits json.splits)

lemma sglang_generate_typed: "typed_reply (sglang_generate loads_body limit post elapsed r)"
  by (auto simp: sglang_generate_def sglang_response_def
      intro!: typed_bind sglang_json_typed nonnegative_int_typed sglang_finish_typed split: option.splits json.splits)

lemma sglang_generate_Reply:
  assumes "sglang_generate loads_body limit post elapsed r = Reply response" and "0 \<le> elapsed"
  shows "\<exists>result. normalize_legacy_response response = Inr result"
proof -
  obtain v where v: "sglang_response elapsed r v = Reply response" using assms(1) by (auto simp: sglang_generate_def bind_reply_Reply)
  then have "nonnegative_int (sglang_meta v) ''prompt_tokens'' = Reply (ir_input_tokens response)"
    and "nonnegative_int (sglang_meta v) ''completion_tokens'' = Reply (ir_output_tokens response)"
    and "ir_latency_ms response = Some (elapsed * 1000)"
    unfolding sglang_response_def by (simp_all add: bind_reply_Reply split: option.splits json.splits if_splits) auto
  then have "\<forall>n. ir_input_tokens response = Some n \<longrightarrow> 0 \<le> n" and "\<forall>n. ir_output_tokens response = Some n \<longrightarrow> 0 \<le> n"
    and "ir_latency_ms response = Some (elapsed * 1000)"
    using nonnegative_int_Reply [of "sglang_meta v" "''prompt_tokens''"] nonnegative_int_Reply [of "sglang_meta v" "''completion_tokens''"] by auto
  then show ?thesis using assms(2)
    by (auto simp: normalize_legacy_response_def Let_def bind_r_eq_Inr TokenUsage_post_init_def InferenceTiming_post_init_def split: option.splits)
qed

lemma inspect_typed: "typed_reply d \<Longrightarrow> typed_reply (inspect_identity r d)"
  by (cases d) (simp_all add: inspect_identity_def Let_def)

text \<open>The same for SGLang, which answers the legacy contract.\<close>

lemma sglang_turns_typed:
  assumes "\<not> eng_typed (rg_engine r)" and "tn_discovery tn r = sglang_discover loads_body limit use clk identity"
    and "\<And>request. tn_legacy tn r request = sglang_generate loads_body limit post elapsed request" and "0 \<le> elapsed"
  shows "typed_reply (execute_task tn r task)"
proof -
  have "typed_reply (bind_reply (tn_legacy tn r request) (\<lambda>response. case normalize_legacy_response response of Inl e \<Rightarrow> Crash e | Inr result \<Rightarrow> Reply result))"
    for request
    using sglang_generate_Reply [OF _ assms(4)] unfolding assms(3)
    by (intro typed_bind sglang_generate_typed) fastforce
  then show ?thesis
    unfolding execute_task_def assms(2)
    by (intro typed_bind inspect_typed sglang_discover_typed) (simp_all add: assms(1) typed_bind split: sum.splits)
qed

section \<open>The worker\<close>

text \<open>C33. 
  The adapter of the vLLM worker hands the counts of the answer to the constructor unchecked. A worker that reports a
  negative number of tokens raises \<open>ValueError\<close> in the middle of the turn, which the router does not catch: the run
  ends there, without an attempt in its history and without a try of the next deployment.
\<close>

theorem worker_count_ends_run:
  assumes "eng_typed (rg_engine r)" and "tn_typed tn r task = bind_reply (worker_generate loads_body limit post elapsed task) convert"
    and "inspect_identity r (tn_discovery tn r) = Reply i" and "ia_status (ii_assessment i) \<noteq> MISMATCH"
    and "worker_json loads_body limit ''generation'' (post (worker_request task)) = Reply v" and "dict_get v ''text'' = Some (JStr text')"
    and "dict_get v ''usage'' = Some u" and "is_dict u" and "dict_get u ''input_tokens'' = Some (JInt n)" and "n < 0"
    and "rg_id r \<notin> ro_circuit_open ro" and "availability ops decision deadline tn r st = Inr True"
    and "reserve_turn ops tn st = Inr (st1, True)" and "remaining_with ops (run_budget st1) deadline (tn_clock tn 4) (tn_clock tn 5) = Inr left"
    and "case left of None \<Rightarrow> True | Some s \<Rightarrow> 0 < s"
  shows "\<exists>m. run_turn ro ops task decision deadline tn r st = Stop st1 (EscapedError (ValueError m)) \<and> run_attempts st1 = run_attempts st"
proof -
  have "worker_generate loads_body limit post elapsed task = Crash (ValueError ''input_tokens cannot be negative.'')"
    using assms(5-10) by (simp add: worker_generate_def)
  then have e: "execute_task tn r task = Crash (ValueError ''input_tokens cannot be negative.'')"
    using assms(1-4) by (simp add: execute_task_def)
  have "within_budget (execute_task tn r task) left = Crash (ValueError ''input_tokens cannot be negative.'')"
    using e assms(15) by (auto simp: within_budget_def split: option.splits)
  then show ?thesis
    using assms(11-14) reserve_turn_attempts [OF assms(13)] by (simp add: run_turn_def conclude_def)
qed

definition sample_worker_body :: json where
  "sample_worker_body = JObj [(''text'', JStr ''ok''), (''usage'', JObj [(''input_tokens'', JInt (-1))])]"

definition worker_turn :: turn where
  "worker_turn = sample_turn\<lparr>tn_typed := (\<lambda>_ task. bind_reply
     (worker_generate (\<lambda>_. Some sample_worker_body) 100 (\<lambda>_. sample_answer) 1 task) (\<lambda>_. TimedOut))\<rparr>"

theorem worker_count_ends_run_witness:
  "\<exists>m. run_turn sample_router workflow_budget_ops sample_task \<lparr>rd_policy_version = [], rd_ordered_deployment_ids = [], rd_candidates = []\<rparr> (Some 120)
     worker_turn (sample_deployment ''a'') \<lparr>run_budget = None, run_states = None, run_attempts = [], run_last = None\<rparr>
     = Stop \<lparr>run_budget = None, run_states = None, run_attempts = [], run_last = None\<rparr> (EscapedError (ValueError m))"
proof -
  let ?st = "\<lparr>run_budget = None, run_states = None, run_attempts = [], run_last = None\<rparr> :: WorkflowBudget run"
  let ?decision = "\<lparr>rd_policy_version = [], rd_ordered_deployment_ids = [], rd_candidates = []\<rparr>"
  have c: "tn_clock worker_turn k = \<lparr>mono = 0, wall = 0\<rparr>" "tn_available worker_turn r = Reply True" for k r
    by (simp_all add: worker_turn_def sample_turn_def)
  have j: "worker_json (\<lambda>_. Some sample_worker_body) 100 ''generation'' sample_answer = Reply sample_worker_body"
    by (simp add: worker_json_def read_reply_def sample_answer_def worker_status_def is_success_def sample_worker_body_def)
  obtain i where i: "inspect_identity (sample_deployment ''a'') (tn_discovery worker_turn (sample_deployment ''a'')) = Reply i"
    "ia_status (ii_assessment i) \<noteq> MISMATCH"
    by (simp add: inspect_identity_def sample_deployment_def assess_model_identity_def)
  have g: "eng_typed (rg_engine (sample_deployment ''a''))" "rg_id (sample_deployment ''a'') \<notin> ro_circuit_open sample_router"
    "tn_typed worker_turn (sample_deployment ''a'') sample_task = bind_reply
       (worker_generate (\<lambda>_. Some sample_worker_body) 100 (\<lambda>_. sample_answer) 1 sample_task) (\<lambda>_. TimedOut)"
    by (simp_all add: sample_deployment_def sample_router_def worker_turn_def)
  have b: "dict_get sample_worker_body ''text'' = Some (JStr ''ok'')" "dict_get sample_worker_body ''usage'' = Some (JObj [(''input_tokens'', JInt (-1))])"
    "dict_get (JObj [(''input_tokens'', JInt (-1))]) ''input_tokens'' = Some (JInt (-1))"
    by (simp_all add: sample_worker_body_def dict_get_def)
  have t: "availability workflow_budget_ops ?decision (Some 120) worker_turn (sample_deployment ''a'') ?st = Inr True"
    "reserve_turn workflow_budget_ops worker_turn ?st = Inr (?st, True)"
    "remaining_with workflow_budget_ops (run_budget ?st) (Some 120) (tn_clock worker_turn 4) (tn_clock worker_turn 5) = Inr (Some 120)"
    by (simp_all add: availability_def remaining_with_def remaining_until_def within_budget_def reserve_turn_def c)
  have "\<exists>m. run_turn sample_router workflow_budget_ops sample_task ?decision (Some 120) worker_turn (sample_deployment ''a'') ?st
      = Stop ?st (EscapedError (ValueError m)) \<and> run_attempts ?st = run_attempts ?st"
    by (rule worker_count_ends_run [OF g(1,3) i j b(1,2) _ b(3) _ g(2) t]) simp_all
  then show ?thesis by blast
qed

end
