(* ===== verification/Config.thy ===== *)
theory Config
  imports Engines ControlPlane ControlConfig
begin

text \<open>
  The settings (\<open>src/backend/config.py\<close>) and the deployments built from them (\<open>build_deployment_registry\<close> of
  \<open>src/backend/inference/registry.py\<close>). The flat fields of \<open>Settings\<close> are grouped by their prefixes. Addresses and
  timeouts that only reach the HTTP clients are left out; the literal types of the cost and latency classes are the
  enumerations they are turned into. pydantic reads the environment; what it is declared to check is
  \<open>AppSettings_fields\<close> and the two validators.
\<close>

section \<open>Settings\<close>

datatype AppEnvironment = DEVELOPMENT | TEST | PRODUCTION

record sglang_settings =
  sl_enabled :: bool
  sl_deployment_id :: string
  sl_endpoint_id :: string
  sl_model_artifact_id :: string
  sl_model_revision :: string
  sl_served_model_name :: string
  sl_engine_version :: string
  sl_serving_runtime :: string
  sl_max_response_bytes :: int
  sl_max_context_tokens :: "int option"
  sl_accelerators :: string
  sl_topology :: string
  sl_data_locations :: string
  sl_production_eligible :: bool
  sl_cost_class :: CostClass
  sl_latency_class :: LatencyClass
  sl_text_suitability :: int

record vllm_settings =
  vl_enabled :: bool
  vl_deployment_id :: string
  vl_endpoint_id :: string
  vl_model_artifact_id :: string
  vl_model_revision :: string
  vl_engine_version :: string
  vl_max_context_tokens :: "int option"
  vl_accelerators :: string
  vl_topology :: string
  vl_data_locations :: string
  vl_production_eligible :: bool
  vl_cost_class :: CostClass
  vl_latency_class :: LatencyClass
  vl_text_suitability :: int
  vl_chat_suitability :: int

record dynamo_settings =
  dn_enabled :: bool
  dn_deployment_id :: string
  dn_endpoint_id :: string
  dn_model_artifact_id :: string
  dn_model_revision :: string
  dn_runtime_version :: string
  dn_topology :: string
  dn_max_context_tokens :: "int option"
  dn_accelerators :: string
  dn_data_locations :: string
  dn_production_eligible :: bool
  dn_cost_class :: CostClass
  dn_latency_class :: LatencyClass

record nim_settings =
  ns_enabled :: bool
  ns_api_key :: string
  ns_secret_ref :: string
  ns_deployment_id :: string
  ns_endpoint_id :: string
  ns_model_artifact_id :: string
  ns_model_revision :: string
  ns_release :: string
  ns_profile_id :: string
  ns_backend :: string
  ns_max_context_tokens :: "int option"
  ns_accelerators :: string
  ns_topology :: string
  ns_data_locations :: string
  ns_production_eligible :: bool
  ns_cost_class :: CostClass
  ns_latency_class :: LatencyClass

record AppSettings =
  as_app_env :: AppEnvironment
  as_max_prompt_chars :: int
  as_max_request_body_bytes :: int
  as_max_generation_tokens :: int
  as_control_plane_config_path :: "string option"
  as_execution_record_path :: "string option"
  as_workflow_store_path :: "string option"
  as_workflow_policy_config_path :: "string option"
  as_workflow_recovery_scan_limit :: int
  as_kimi_api_key :: string
  as_nvidia_api_key :: string
  as_sglang :: sglang_settings
  as_vllm :: vllm_settings
  as_dynamo :: dynamo_settings
  as_nim :: nim_settings
  as_tensorrt_llm_enabled :: bool
  as_mock_enabled :: bool
  as_mock_deployment_id :: string
  as_database_url :: string
  as_redis_url :: string
  as_vault_address :: string
  as_vault_token_env :: string

definition positive_if_given :: "int option \<Rightarrow> bool" where
  "positive_if_given n = (case n of None \<Rightarrow> True | Some k \<Rightarrow> 1 \<le> k)"

definition AppSettings_fields :: "AppSettings \<Rightarrow> bool" where
  "AppSettings_fields c \<longleftrightarrow>
     1 \<le> as_max_prompt_chars c \<and> 1 \<le> as_max_request_body_bytes c \<and> 1 \<le> as_max_generation_tokens c
     \<and> 1 \<le> as_workflow_recovery_scan_limit c \<and> as_workflow_recovery_scan_limit c \<le> 100000
     \<and> 1 \<le> sl_max_response_bytes (as_sglang c) \<and> positive_if_given (sl_max_context_tokens (as_sglang c))
     \<and> -10 \<le> sl_text_suitability (as_sglang c) \<and> sl_text_suitability (as_sglang c) \<le> 10
     \<and> positive_if_given (vl_max_context_tokens (as_vllm c))
     \<and> -10 \<le> vl_text_suitability (as_vllm c) \<and> vl_text_suitability (as_vllm c) \<le> 10
     \<and> -10 \<le> vl_chat_suitability (as_vllm c) \<and> vl_chat_suitability (as_vllm c) \<le> 10
     \<and> dn_topology (as_dynamo c) \<in> {''aggregated'', ''disaggregated''} \<and> positive_if_given (dn_max_context_tokens (as_dynamo c))
     \<and> positive_if_given (ns_max_context_tokens (as_nim c))"

definition workflow_configuration :: "AppSettings \<Rightarrow> exn + unit" where
  "workflow_configuration c =
     bind_r (require ((as_workflow_store_path c = None) = (as_workflow_policy_config_path c = None))
       (ValueError ''Workflow store and policy paths must be configured together'')) (\<lambda>_.
     require (\<not> (as_app_env c = PRODUCTION \<and> as_workflow_store_path c \<noteq> None))
       (ValueError ''Offline workflows cannot be enabled in production''))"

definition validate_mock_environment :: "AppSettings \<Rightarrow> exn + unit" where
  "validate_mock_environment c =
     (let production = (as_app_env c = PRODUCTION); nim = as_nim c in
      bind_r (require (\<not> (as_mock_enabled c \<and> production)) (ValueError ''MOCK_ENABLED must be false in production.'')) (\<lambda>_.
      bind_r (require (\<not> (production \<and> (as_control_plane_config_path c = None \<or> strip (as_database_url c) = [] \<or> strip (as_redis_url c) = [])))
        (ValueError ''Production requires CONTROL_PLANE_CONFIG_PATH, DATABASE_URL, and REDIS_URL.'')) (\<lambda>_.
      bind_r (require (\<not> (production \<and> list_ex (\<lambda>v. strip v \<noteq> []) [as_kimi_api_key c, as_nvidia_api_key c, ns_api_key nim]))
        (ValueError ''Production provider credentials must use secret references.'')) (\<lambda>_.
      bind_r (require (\<not> (production \<and> ns_enabled nim \<and> strip (ns_secret_ref nim) = []))
        (ValueError ''Production NIM requires NIM_SECRET_REF.'')) (\<lambda>_.
      bind_r (require (\<not> (production \<and> ns_enabled nim
            \<and> (\<not> prefixed ''vault:'' (ns_secret_ref nim) \<or> \<not> prefixed ''https://'' (as_vault_address c))))
        (ValueError ''Production NIM requires a vault: secret reference and HTTPS VAULT_ADDRESS.'')) (\<lambda>_.
      bind_r (require (\<not> (vl_enabled (as_vllm c) \<and> strip (vl_model_artifact_id (as_vllm c)) = []))
        (ValueError ''VLLM_MODEL_ARTIFACT_ID is required when VLLM is enabled.'')) (\<lambda>_.
      bind_r (require (\<not> (dn_enabled (as_dynamo c) \<and> strip (dn_model_artifact_id (as_dynamo c)) = []))
        (ValueError ''DYNAMO_MODEL_ARTIFACT_ID is required when Dynamo is enabled.'')) (\<lambda>_.
      bind_r (require (\<not> dn_production_eligible (as_dynamo c))
        (ValueError ''Dynamo production eligibility is held by ADR-006 until its measured adoption gate passes.'')) (\<lambda>_.
      bind_r (require (\<not> (ns_enabled nim \<and> (strip (ns_model_artifact_id nim) = [] \<or> strip (ns_profile_id nim) = [])))
        (ValueError ''NIM_MODEL_ARTIFACT_ID and NIM_PROFILE_ID are required when NIM is enabled.'')) (\<lambda>_.
      require (\<not> as_tensorrt_llm_enabled c)
        (ValueError ''TensorRT-LLM is held by the G3 decision gate; no adapter is approved.'')))))))))))"

definition AppSettings_validate :: "AppSettings \<Rightarrow> exn + unit" where
  "AppSettings_validate c = bind_r (workflow_configuration c) (\<lambda>_. validate_mock_environment c)"

section \<open>Deployments from settings\<close>

definition optional_identifier :: "string \<Rightarrow> string option" where
  "optional_identifier s = (let stripped = strip s in if stripped = [] then None else Some stripped)"

fun split_on :: "char \<Rightarrow> string \<Rightarrow> string list" where
  "split_on c [] = [[]]"
| "split_on c (x # xs) =
     (if x = c then [] # split_on c xs
      else case split_on c xs of [] \<Rightarrow> [[x]] | part # parts \<Rightarrow> (x # part) # parts)"

definition configured_set_claim :: "string \<Rightarrow> exn + string set CapabilityClaim option" where
  "configured_set_claim s =
     (let values = set (filter (\<lambda>item. item \<noteq> []) (map strip (split_on (CHR '','') s))) in
      if values = {} then Inr None else map_r Some (configured_claim values ''deployment'' None))"

definition optional_claim :: "'a option \<Rightarrow> string option \<Rightarrow> exn + 'a CapabilityClaim option" where
  "optional_claim v version = (case v of None \<Rightarrow> Inr None | Some x \<Rightarrow> map_r Some (configured_claim x ''deployment'' version))"

text \<open>The arguments are the kinds of tasks, the served models, the window and their versions, the three sets, the
  eligibility and the version of the remaining claims.\<close>

definition build_capabilities ::
    "TaskKind set \<Rightarrow> string option \<Rightarrow> string set option \<Rightarrow> string option \<Rightarrow> int option \<Rightarrow> string option \<Rightarrow>
       string \<Rightarrow> string \<Rightarrow> string \<Rightarrow> bool \<Rightarrow> string option \<Rightarrow> exn + DeploymentCapabilities" where
  "build_capabilities kinds kinds_version models models_version tokens tokens_version accelerators topology locations eligible version =
     bind_r (configured_claim kinds ''deployment'' kinds_version) (\<lambda>task_kinds.
     bind_r (optional_claim models models_version) (\<lambda>served_models.
     bind_r (optional_claim tokens tokens_version) (\<lambda>max_context_tokens.
     bind_r (configured_claim False ''deployment'' version) (\<lambda>structured_output.
     bind_r (configured_claim False ''deployment'' version) (\<lambda>streaming.
     bind_r (configured_set_claim accelerators) (\<lambda>accs.
     bind_r (configured_set_claim topology) (\<lambda>tops.
     bind_r (configured_set_claim locations) (\<lambda>locs.
     bind_r (configured_claim eligible ''deployment'' version) (\<lambda>production_eligible.
     Inr \<lparr>dc_task_kinds = Some task_kinds, dc_served_models = served_models, dc_max_context_tokens = max_context_tokens,
          dc_structured_output = Some structured_output, dc_streaming = Some streaming, dc_accelerators = accs,
          dc_topologies = tops, dc_data_locations = locs, dc_production_eligible = Some production_eligible\<rparr>)))))))))"

definition sglang_model :: "sglang_settings \<Rightarrow> exn + ModelRef option" where
  "sglang_model s =
     (case optional_identifier (sl_model_artifact_id s) of
        None \<Rightarrow> Inr None
      | Some artifact \<Rightarrow>
          let m = \<lparr>artifact_id = artifact, revision = optional_identifier (sl_model_revision s),
                   served_name = optional_identifier (sl_served_model_name s)\<rparr> in
          bind_r (ModelRef_post_init m) (\<lambda>_. Inr (Some m)))"

definition sglang_capabilities :: "sglang_settings \<Rightarrow> exn + DeploymentCapabilities" where
  "sglang_capabilities s =
     bind_r (sglang_model s) (\<lambda>model.
     build_capabilities {TEXT} None
       (map_option (\<lambda>m. {artifact_id m} \<union> (case served_name m of None \<Rightarrow> {} | Some n \<Rightarrow> {n})) model)
       (if sl_engine_version s = [] then None else Some (sl_engine_version s))
       (sl_max_context_tokens s) None (sl_accelerators s) (sl_topology s) (sl_data_locations s) (sl_production_eligible s) None)"

definition mock_capabilities :: "exn + DeploymentCapabilities" where
  "mock_capabilities = build_capabilities {TEXT, CHAT} None (Some {''ryuk/mock'', ''mock''}) None None None [] [] [] False None"

definition vllm_capabilities :: "vllm_settings \<Rightarrow> exn + DeploymentCapabilities" where
  "vllm_capabilities s =
     build_capabilities {TEXT, CHAT} (Some ''0.26.0'') (map_option (\<lambda>m. {m}) (optional_identifier (vl_model_artifact_id s))) None
       (vl_max_context_tokens s) None (vl_accelerators s) (vl_topology s) (vl_data_locations s) (vl_production_eligible s) None"

definition managed_capabilities :: "string \<Rightarrow> string \<Rightarrow> int option \<Rightarrow> string \<Rightarrow> string \<Rightarrow> string \<Rightarrow> bool \<Rightarrow> exn + DeploymentCapabilities" where
  "managed_capabilities model version tokens accelerators topology locations eligible =
     build_capabilities {TEXT, CHAT} (Some version) (Some {model}) (Some version) tokens (Some version)
       accelerators topology locations eligible (Some version)"

text \<open>The last steps of every construction: the reference has been checked, the adapter has been made.\<close>

definition registered :: "DeploymentRef \<Rightarrow> engine \<Rightarrow> exn + DeploymentCapabilities \<Rightarrow> RoutingPolicyProfile \<Rightarrow> exn + RegisteredDeployment" where
  "registered ref e capabilities profile =
     bind_r capabilities (\<lambda>caps.
     bind_r (RoutingPolicyProfile_post_init profile) (\<lambda>_.
     let r = \<lparr>rg_ref = ref, rg_engine = e, rg_capabilities = caps, rg_policy_profile = profile\<rparr> in
     bind_r (RegisteredDeployment_post_init r) (\<lambda>_. Inr r)))"

definition checked_ref :: "exn + ModelRef option \<Rightarrow> (ModelRef option \<Rightarrow> DeploymentRef) \<Rightarrow> exn + DeploymentRef" where
  "checked_ref model ref = bind_r model (\<lambda>m. bind_r (DeploymentRef_post_init (ref m)) (\<lambda>_. Inr (ref m)))"

definition checked_model :: "string \<Rightarrow> string option \<Rightarrow> exn + ModelRef option" where
  "checked_model artifact rv =
     (let m = \<lparr>artifact_id = artifact, revision = rv, served_name = None\<rparr> in bind_r (ModelRef_post_init m) (\<lambda>_. Inr (Some m)))"

definition adapter :: "string \<Rightarrow> bool \<Rightarrow> bool \<Rightarrow> engine" where
  "adapter name typed closing = \<lparr>eng_name = name, eng_typed = typed, eng_discovers = True, eng_closing = closing\<rparr>"

text \<open>The default limit of a response of a managed server.\<close>

definition default_max_response_bytes :: int where
  "default_max_response_bytes = 16 * 1024 * 1024"

definition dynamo_deployment :: "dynamo_settings \<Rightarrow> exn + RegisteredDeployment \<times> managed_engine" where
  "dynamo_deployment s =
     (let model_id = strip (dn_model_artifact_id s) in
      bind_r (checked_ref (checked_model model_id (optional_identifier (dn_model_revision s)))
        (\<lambda>m. \<lparr>dr_deployment_id = dn_deployment_id s, dr_model = m, dr_engine_name = ''dynamo'', dr_endpoint_id = dn_endpoint_id s,
             dr_engine_version = Some (dn_runtime_version s), dr_serving_runtime = Some (''dynamo_'' @ dn_topology s)\<rparr>)) (\<lambda>ref.
      bind_r (dynamo_init (dn_topology s) (dn_runtime_version s) model_id default_max_response_bytes) (\<lambda>e.
      bind_r (registered ref (adapter ''dynamo'' True True)
        (managed_capabilities model_id (dn_runtime_version s) (dn_max_context_tokens s) (dn_accelerators s) (dn_topology s)
           (dn_data_locations s) (dn_production_eligible s))
        \<lparr>pp_cost_class = dn_cost_class s, pp_latency_class = dn_latency_class s, pp_text_suitability = 5, pp_chat_suitability = 5\<rparr>) (\<lambda>r.
      Inr (r, e)))))"

definition provider_secret ::
    "(string \<times> string) list \<Rightarrow> (string \<Rightarrow> string \<Rightarrow> exn + json) \<Rightarrow> AppSettings \<Rightarrow> string \<Rightarrow> exn + string" where
  "provider_secret environ client c reference =
     (if prefixed ''vault:'' reference
      then bind_r (VaultSecretManager_init environ (as_vault_address c) (as_vault_token_env c)) (\<lambda>manager.
           resolve_secret_ref [(''vault'', vault_resolve client manager)] environ reference)
      else resolve_secret_ref [] environ reference)"

definition nim_secret :: "(string \<times> string) list \<Rightarrow> (string \<Rightarrow> string \<Rightarrow> exn + json) \<Rightarrow> AppSettings \<Rightarrow> exn + string" where
  "nim_secret environ client c =
     (if strip (ns_secret_ref (as_nim c)) \<noteq> [] then provider_secret environ client c (ns_secret_ref (as_nim c))
      else Inr (ns_api_key (as_nim c)))"

definition nim_deployment ::
    "(string \<times> string) list \<Rightarrow> (string \<Rightarrow> string \<Rightarrow> exn + json) \<Rightarrow> AppSettings \<Rightarrow> exn + RegisteredDeployment \<times> managed_engine \<times> string" where
  "nim_deployment environ client c =
     (let s = as_nim c; model_id = strip (ns_model_artifact_id s) in
      bind_r (checked_ref (checked_model model_id (optional_identifier (ns_model_revision s)))
        (\<lambda>m. \<lparr>dr_deployment_id = ns_deployment_id s, dr_model = m, dr_engine_name = ''nim'', dr_endpoint_id = ns_endpoint_id s,
             dr_engine_version = Some (ns_release s), dr_serving_runtime = Some (''nim_'' @ ns_backend s)\<rparr>)) (\<lambda>ref.
      bind_r (nim_secret environ client c) (\<lambda>api_key.
      bind_r (nim_init (ns_release s) (ns_profile_id s) model_id default_max_response_bytes) (\<lambda>e.
      bind_r (registered ref (adapter ''nim'' True True)
        (managed_capabilities model_id (ns_release s) (ns_max_context_tokens s) (ns_accelerators s) (ns_topology s)
           (ns_data_locations s) (ns_production_eligible s))
        \<lparr>pp_cost_class = ns_cost_class s, pp_latency_class = ns_latency_class s, pp_text_suitability = 5, pp_chat_suitability = 5\<rparr>) (\<lambda>r.
      Inr (r, e, api_key))))))"

definition vllm_deployment :: "vllm_settings \<Rightarrow> exn + RegisteredDeployment" where
  "vllm_deployment s =
     bind_r (checked_ref
        (case optional_identifier (vl_model_artifact_id s) of
           None \<Rightarrow> Inr None | Some m \<Rightarrow> checked_model m (optional_identifier (vl_model_revision s)))
        (\<lambda>m. \<lparr>dr_deployment_id = vl_deployment_id s, dr_model = m, dr_engine_name = ''vllm'', dr_endpoint_id = vl_endpoint_id s,
             dr_engine_version = Some (vl_engine_version s), dr_serving_runtime = Some ''ryuk_vllm_worker''\<rparr>)) (\<lambda>ref.
     registered ref (adapter ''vllm'' True True) (vllm_capabilities s)
       \<lparr>pp_cost_class = vl_cost_class s, pp_latency_class = vl_latency_class s,
        pp_text_suitability = vl_text_suitability s, pp_chat_suitability = vl_chat_suitability s\<rparr>)"

definition sglang_deployment :: "sglang_settings \<Rightarrow> exn + RegisteredDeployment" where
  "sglang_deployment s =
     bind_r (checked_ref (sglang_model s)
        (\<lambda>m. \<lparr>dr_deployment_id = sl_deployment_id s, dr_model = m, dr_engine_name = ''sglang'', dr_endpoint_id = sl_endpoint_id s,
             dr_engine_version = optional_identifier (sl_engine_version s), dr_serving_runtime = Some (sl_serving_runtime s)\<rparr>)) (\<lambda>ref.
     bind_r (require (\<not> sl_max_response_bytes s < 1) (ValueError ''max_response_bytes must be positive.'')) (\<lambda>_.
     registered ref (adapter ''sglang'' False True) (sglang_capabilities s)
       \<lparr>pp_cost_class = sl_cost_class s, pp_latency_class = sl_latency_class s,
        pp_text_suitability = sl_text_suitability s, pp_chat_suitability = 0\<rparr>))"

definition mock_deployment :: "string \<Rightarrow> exn + RegisteredDeployment" where
  "mock_deployment deployment_id =
     bind_r (checked_ref
        (let m = \<lparr>artifact_id = ''ryuk/mock'', revision = None, served_name = Some ''mock''\<rparr> in
         bind_r (ModelRef_post_init m) (\<lambda>_. Inr (Some m)))
        (\<lambda>m. \<lparr>dr_deployment_id = deployment_id, dr_model = m, dr_engine_name = ''mock'', dr_endpoint_id = ''mock-in-process'',
             dr_engine_version = None, dr_serving_runtime = Some ''in_process''\<rparr>)) (\<lambda>ref.
     registered ref (adapter ''mock'' True False) mock_capabilities
       \<lparr>pp_cost_class = COST_LOW, pp_latency_class = LATENCY_LOW, pp_text_suitability = -10, pp_chat_suitability = -10\<rparr>)"

definition add_when :: "bool \<Rightarrow> exn + RegisteredDeployment \<Rightarrow> DeploymentRegistry \<Rightarrow> exn + DeploymentRegistry" where
  "add_when enabled deployment reg = (if enabled then bind_r deployment (\<lambda>r. register_deployment r reg) else Inr reg)"

definition build_deployment_registry ::
    "(string \<times> string) list \<Rightarrow> (string \<Rightarrow> string \<Rightarrow> exn + json) \<Rightarrow> AppSettings \<Rightarrow> exn + DeploymentRegistry" where
  "build_deployment_registry environ client c =
     bind_r (add_when (dn_enabled (as_dynamo c)) (map_r fst (dynamo_deployment (as_dynamo c))) []) (\<lambda>reg.
     bind_r (add_when (ns_enabled (as_nim c)) (map_r fst (nim_deployment environ client c)) reg) (\<lambda>reg.
     bind_r (add_when (vl_enabled (as_vllm c)) (vllm_deployment (as_vllm c)) reg) (\<lambda>reg.
     bind_r (add_when (sl_enabled (as_sglang c)) (sglang_deployment (as_sglang c)) reg) (\<lambda>reg.
     add_when (as_mock_enabled c \<and> as_app_env c \<in> {DEVELOPMENT, TEST}) (mock_deployment (as_mock_deployment_id c)) reg))))"

definition build_engine_registry ::
    "(string \<times> string) list \<Rightarrow> (string \<Rightarrow> string \<Rightarrow> exn + json) \<Rightarrow> AppSettings \<Rightarrow> exn + EngineRegistry" where
  "build_engine_registry environ client c = bind_r (build_deployment_registry environ client c) engine_registry_from_deployments"

end
