(* ===== verification/ConfigTheorems.thy ===== *)
theory ConfigTheorems
  imports Config EngineTheorems MainApi
begin

text \<open>
  From the settings to a running service: what validated settings guarantee in production, for the registry that is
  built from them and for the control plane, and what a startup that succeeds has checked.
\<close>

section \<open>What is built\<close>

definition deployment_ok :: "RegisteredDeployment \<Rightarrow> bool" where
  "deployment_ok r \<longleftrightarrow> DeploymentRef_post_init (rg_ref r) = Inr () \<and> RegisteredDeployment_post_init r = Inr ()"

definition claims_production :: "RegisteredDeployment \<Rightarrow> bool" where
  "claims_production r = (case dc_production_eligible (rg_capabilities r) of None \<Rightarrow> False | Some c \<Rightarrow> cc_value c)"

lemma configured_claim_value: "configured_claim v scope version = Inr c \<Longrightarrow> cc_value c = v"
  by (auto simp: configured_claim_def Let_def bind_r_eq_Inr)

lemma build_capabilities_eligible:
  assumes "build_capabilities kinds kv models mv tokens tv accs tops locs eligible v = Inr caps"
  shows "\<exists>c. dc_production_eligible caps = Some c \<and> cc_value c = eligible"
  using assms by (auto simp: build_capabilities_def bind_r_eq_Inr dest: configured_claim_value)

lemma registeredD:
  assumes "registered ref e caps profile = Inr r"
  shows "rg_ref r = ref \<and> rg_engine r = e \<and> RegisteredDeployment_post_init r = Inr () \<and> caps = Inr (rg_capabilities r)"
  using assms by (auto simp: registered_def Let_def bind_r_eq_Inr)

lemma checked_refD:
  assumes "checked_ref model ref = Inr x"
  shows "DeploymentRef_post_init x = Inr () \<and> (\<exists>m. model = Inr m \<and> x = ref m)"
  using assms by (auto simp: checked_ref_def bind_r_eq_Inr)

lemmas built_simps = bind_r_eq_Inr deployment_ok_def claims_production_def adapter_def

lemma dynamo_deploymentD:
  assumes "dynamo_deployment s = Inr (r, e)"
  shows "deployment_ok r \<and> eng_name (rg_engine r) = ''dynamo'' \<and> (claims_production r \<longleftrightarrow> dn_production_eligible s)"
  using assms
  by (auto simp: dynamo_deployment_def Let_def managed_capabilities_def built_simps
      dest!: registeredD checked_refD build_capabilities_eligible)

lemma nim_deploymentD:
  assumes "nim_deployment environ client c = Inr (r, e, key)"
  shows "deployment_ok r \<and> eng_name (rg_engine r) = ''nim'' \<and> eng_discovers (rg_engine r)
    \<and> (claims_production r \<longleftrightarrow> ns_production_eligible (as_nim c))
    \<and> nim_secret environ client c = Inr key \<and> me_model e = strip (ns_model_artifact_id (as_nim c))
    \<and> me_product e = NIM (ns_release (as_nim c)) (ns_profile_id (as_nim c))
    \<and> dr_model (rg_ref r) = Some \<lparr>artifact_id = strip (ns_model_artifact_id (as_nim c)),
        revision = optional_identifier (ns_model_revision (as_nim c)), served_name = None\<rparr>"
  using assms
  by (auto simp: nim_deployment_def Let_def managed_capabilities_def built_simps nim_init_def managed_init_def checked_model_def
      dest!: registeredD checked_refD build_capabilities_eligible)

lemma vllm_deploymentD:
  assumes "vllm_deployment s = Inr r"
  shows "deployment_ok r \<and> eng_name (rg_engine r) = ''vllm''"
  using assms by (auto simp: vllm_deployment_def built_simps dest!: registeredD checked_refD)

lemma sglang_deploymentD:
  assumes "sglang_deployment s = Inr r"
  shows "deployment_ok r \<and> eng_name (rg_engine r) = ''sglang''"
  using assms by (auto simp: sglang_deployment_def built_simps dest!: registeredD checked_refD)

lemma mock_deploymentD:
  assumes "mock_deployment i = Inr r"
  shows "deployment_ok r \<and> eng_name (rg_engine r) = ''mock'' \<and> \<not> claims_production r"
  using assms by (auto simp: mock_deployment_def mock_capabilities_def built_simps dest!: registeredD checked_refD build_capabilities_eligible)

text \<open>Adding a deployment keeps the registry in order and keeps what is in it.\<close>

lemma add_whenD:
  assumes "add_when b d reg = Inr reg'" and "registry_ok reg" and "\<forall>r. d = Inr r \<longrightarrow> deployment_ok r"
  shows "registry_ok reg' \<and> set (all_deployments reg) \<subseteq> set (all_deployments reg')
    \<and> (\<forall>r \<in> set (all_deployments reg'). r \<in> set (all_deployments reg) \<or> b \<and> d = Inr r)
    \<and> (\<forall>r. b \<and> d = Inr r \<longrightarrow> r \<in> set (all_deployments reg'))"
proof (cases b)
  case False
  then show ?thesis using assms by (simp add: add_when_def)
next
  case True
  then obtain r where r: "d = Inr r" "register_deployment r reg = Inr reg'" using assms(1) by (auto simp: add_when_def bind_r_eq_Inr)
  have "registry_ok reg'" using register_deployment_ok [OF assms(2) r(2)] assms(3) r(1) by (simp add: deployment_ok_def)
  then show ?thesis using r True by (auto simp: register_deployment_eq all_deployments_def)
qed

lemma built_registry:
  assumes "build_deployment_registry environ client c = Inr reg"
  shows "registry_ok reg" (is ?ok)
    and "r \<in> set (all_deployments reg) \<Longrightarrow>
        dn_enabled (as_dynamo c) \<and> (\<exists>e. dynamo_deployment (as_dynamo c) = Inr (r, e))
      \<or> ns_enabled (as_nim c) \<and> (\<exists>e k. nim_deployment environ client c = Inr (r, e, k))
      \<or> vl_enabled (as_vllm c) \<and> vllm_deployment (as_vllm c) = Inr r \<or> sl_enabled (as_sglang c) \<and> sglang_deployment (as_sglang c) = Inr r
      \<or> as_mock_enabled c \<and> as_app_env c \<noteq> PRODUCTION \<and> mock_deployment (as_mock_deployment_id c) = Inr r"
    and "ns_enabled (as_nim c) \<Longrightarrow> \<exists>r e k. nim_deployment environ client c = Inr (r, e, k) \<and> r \<in> set (all_deployments reg)"
proof -
  obtain g1 g2 g3 g4 where
    b1: "add_when (dn_enabled (as_dynamo c)) (map_r fst (dynamo_deployment (as_dynamo c))) [] = Inr g1" and
    b2: "add_when (ns_enabled (as_nim c)) (map_r fst (nim_deployment environ client c)) g1 = Inr g2" and
    b3: "add_when (vl_enabled (as_vllm c)) (vllm_deployment (as_vllm c)) g2 = Inr g3" and
    b4: "add_when (sl_enabled (as_sglang c)) (sglang_deployment (as_sglang c)) g3 = Inr g4" and
    b5: "add_when (as_mock_enabled c \<and> as_app_env c \<in> {DEVELOPMENT, TEST}) (mock_deployment (as_mock_deployment_id c)) g4 = Inr reg"
    using assms by (auto simp: build_deployment_registry_def bind_r_eq_Inr)
  have r0: "registry_ok []" by (simp add: registry_ok_def dict_ok_def)
  have d1: "\<forall>r. map_r fst (dynamo_deployment (as_dynamo c)) = Inr r \<longrightarrow> deployment_ok r"
    and d2: "\<forall>r. map_r fst (nim_deployment environ client c) = Inr r \<longrightarrow> deployment_ok r"
    using dynamo_deploymentD nim_deploymentD by (auto simp: map_r_eq_Inr)
  have d3: "\<forall>r. vllm_deployment (as_vllm c) = Inr r \<longrightarrow> deployment_ok r"
    and d4: "\<forall>r. sglang_deployment (as_sglang c) = Inr r \<longrightarrow> deployment_ok r"
    and d5: "\<forall>r. mock_deployment (as_mock_deployment_id c) = Inr r \<longrightarrow> deployment_ok r"
    using vllm_deploymentD sglang_deploymentD mock_deploymentD by blast+
  note s1 = add_whenD [OF b1 r0 d1]
  note s2 = add_whenD [OF b2 conjunct1 [OF s1] d2]
  note s3 = add_whenD [OF b3 conjunct1 [OF s2] d3]
  note s4 = add_whenD [OF b4 conjunct1 [OF s3] d4]
  note s5 = add_whenD [OF b5 conjunct1 [OF s4] d5]
  show ?ok using s5 by blast
  have dev: "as_app_env c \<in> {DEVELOPMENT, TEST} \<Longrightarrow> as_app_env c \<noteq> PRODUCTION" by auto
  show "dn_enabled (as_dynamo c) \<and> (\<exists>e. dynamo_deployment (as_dynamo c) = Inr (r, e))
      \<or> ns_enabled (as_nim c) \<and> (\<exists>e k. nim_deployment environ client c = Inr (r, e, k))
      \<or> vl_enabled (as_vllm c) \<and> vllm_deployment (as_vllm c) = Inr r \<or> sl_enabled (as_sglang c) \<and> sglang_deployment (as_sglang c) = Inr r
      \<or> as_mock_enabled c \<and> as_app_env c \<noteq> PRODUCTION \<and> mock_deployment (as_mock_deployment_id c) = Inr r"
    if r: "r \<in> set (all_deployments reg)"
  proof -
    have "dn_enabled (as_dynamo c) \<and> map_r fst (dynamo_deployment (as_dynamo c)) = Inr r
      \<or> ns_enabled (as_nim c) \<and> map_r fst (nim_deployment environ client c) = Inr r
      \<or> vl_enabled (as_vllm c) \<and> vllm_deployment (as_vllm c) = Inr r \<or> sl_enabled (as_sglang c) \<and> sglang_deployment (as_sglang c) = Inr r
      \<or> (as_mock_enabled c \<and> as_app_env c \<in> {DEVELOPMENT, TEST}) \<and> mock_deployment (as_mock_deployment_id c) = Inr r"
    proof -
      have "r \<in> set (all_deployments g4) \<or> (as_mock_enabled c \<and> as_app_env c \<in> {DEVELOPMENT, TEST}) \<and> mock_deployment (as_mock_deployment_id c) = Inr r"
        using s5 r by blast
      moreover have "r \<in> set (all_deployments g3) \<or> sl_enabled (as_sglang c) \<and> sglang_deployment (as_sglang c) = Inr r"
        if "r \<in> set (all_deployments g4)" using s4 that by blast
      moreover have "r \<in> set (all_deployments g2) \<or> vl_enabled (as_vllm c) \<and> vllm_deployment (as_vllm c) = Inr r"
        if "r \<in> set (all_deployments g3)" using s3 that by blast
      moreover have "r \<in> set (all_deployments g1) \<or> ns_enabled (as_nim c) \<and> map_r fst (nim_deployment environ client c) = Inr r"
        if "r \<in> set (all_deployments g2)" using s2 that by blast
      moreover have "dn_enabled (as_dynamo c) \<and> map_r fst (dynamo_deployment (as_dynamo c)) = Inr r"
        if "r \<in> set (all_deployments g1)" using s1 that by (auto simp: all_deployments_def)
      ultimately show ?thesis by argo
    qed
    then show ?thesis using dev by (auto simp: map_r_eq_Inr)
  qed
  assume n: "ns_enabled (as_nim c)"
  then obtain r e k where "nim_deployment environ client c = Inr (r, e, k)" using b2 by (auto simp: add_when_def bind_r_eq_Inr map_r_eq_Inr)
  then show "\<exists>r e k. nim_deployment environ client c = Inr (r, e, k) \<and> r \<in> set (all_deployments reg)"
    using n s2 s3 s4 s5 by (auto simp: map_r_eq_Inr)
qed

section \<open>Production\<close>

lemma validated:
  assumes "AppSettings_validate c = Inr ()" and "as_app_env c = PRODUCTION"
  shows "as_workflow_store_path c = None" and "\<not> as_mock_enabled c" and "\<not> dn_production_eligible (as_dynamo c)"
    and "as_control_plane_config_path c \<noteq> None" and "strip (as_database_url c) \<noteq> []" and "strip (as_redis_url c) \<noteq> []"
    and "ns_enabled (as_nim c) \<Longrightarrow> prefixed ''vault:'' (ns_secret_ref (as_nim c)) \<and> strip (ns_secret_ref (as_nim c)) \<noteq> []"
  using assms by (auto simp: AppSettings_validate_def workflow_configuration_def validate_mock_environment_def Let_def bind_r_eq_Inr)

text \<open>C9. 
  Validated settings keep production closed. The registry that is built has no mock; a deployment that claims to be
  eligible for production is not a Dynamo deployment, which is held back; the key of a NIM deployment came out of
  Vault, not out of the settings; there are no offline workflows; and the control plane is configured with admission
  over Redis and records in PostgreSQL.
\<close>

theorem production_settings_safe:
  assumes "AppSettings_validate c = Inr ()" and "as_app_env c = PRODUCTION" and "build_deployment_registry environ client c = Inr reg"
    and "load_api_control L config (as_execution_record_path c \<noteq> None) (as_database_url c) (as_redis_url c) = Inr (keys, policies, a, b)"
    and "config = None \<longleftrightarrow> as_control_plane_config_path c = None"
  shows "registry_ok reg \<and> a = RedisAdmission \<and> b = PostgreSQLRecords \<and> as_workflow_store_path c = None
    \<and> (\<forall>r \<in> set (all_deployments reg). eng_name (rg_engine r) \<in> {''dynamo'', ''nim'', ''vllm'', ''sglang''}
        \<and> (claims_production r \<longrightarrow> eng_name (rg_engine r) \<noteq> ''dynamo''))
    \<and> (ns_enabled (as_nim c) \<longrightarrow> (\<exists>r e key manager path. r \<in> set (all_deployments reg) \<and> nim_deployment environ client c = Inr (r, e, key)
        \<and> ns_secret_ref (as_nim c) = ''vault:'' @ path
        \<and> VaultSecretManager_init environ (as_vault_address c) (as_vault_token_env c) = Inr manager \<and> vault_resolve client manager path = Inr key))"
proof -
  note v = validated [OF assms(1,2)]
  have ab: "a = RedisAdmission" "b = PostgreSQLRecords"
    using assms(4,5) v(4-6) by (auto simp: load_api_control_def bind_r_eq_Inr)
  have mem: "eng_name (rg_engine r) \<in> {''dynamo'', ''nim'', ''vllm'', ''sglang''} \<and> (claims_production r \<longrightarrow> eng_name (rg_engine r) \<noteq> ''dynamo'')"
    if "r \<in> set (all_deployments reg)" for r
    using built_registry(2) [OF assms(3) that] v(2,3) dynamo_deploymentD nim_deploymentD vllm_deploymentD sglang_deploymentD
    by fastforce
  have nim: "\<exists>r e key manager path. r \<in> set (all_deployments reg) \<and> nim_deployment environ client c = Inr (r, e, key)
        \<and> ns_secret_ref (as_nim c) = ''vault:'' @ path
        \<and> VaultSecretManager_init environ (as_vault_address c) (as_vault_token_env c) = Inr manager \<and> vault_resolve client manager path = Inr key"
    if n: "ns_enabled (as_nim c)"
  proof -
    obtain r e key where r: "nim_deployment environ client c = Inr (r, e, key)" "r \<in> set (all_deployments reg)"
      using built_registry(3) [OF assms(3) n] by blast
    define path where "path = drop (length ''vault:'') (ns_secret_ref (as_nim c))"
    have path: "ns_secret_ref (as_nim c) = ''vault:'' @ path"
      using v(7) [OF n] append_take_drop_id [of "length ''vault:''" "ns_secret_ref (as_nim c)"] by (simp add: prefixed_def path_def)
    have "nim_secret environ client c = Inr key" using nim_deploymentD [OF r(1)] by blast
    then obtain manager where m: "VaultSecretManager_init environ (as_vault_address c) (as_vault_token_env c) = Inr manager"
      and "resolve_secret_ref [(''vault'', vault_resolve client manager)] environ (''vault:'' @ path) = Inr key"
      using v(7) [OF n] path by (auto simp: nim_secret_def provider_secret_def bind_r_eq_Inr)
    then have "vault_resolve client manager path = Inr key"
      by (auto simp: resolve_secret_ref_def partition_at_def Let_def bind_r_eq_Inr)
    then show ?thesis using r path m by blast
  qed
  show ?thesis using ab mem nim v(1) built_registry(1) [OF assms(3)] by blast
qed

definition sample_settings :: AppSettings where
  "sample_settings = \<lparr>as_app_env = PRODUCTION, as_max_prompt_chars = 100, as_max_request_body_bytes = 1000, as_max_generation_tokens = 100,
     as_control_plane_config_path = Some ''control.json'', as_execution_record_path = None, as_workflow_store_path = None,
     as_workflow_policy_config_path = None, as_workflow_recovery_scan_limit = 10, as_kimi_api_key = [], as_nvidia_api_key = [],
     as_sglang = \<lparr>sl_enabled = False, sl_deployment_id = [], sl_endpoint_id = [], sl_model_artifact_id = [], sl_model_revision = [],
       sl_served_model_name = [], sl_engine_version = [], sl_serving_runtime = [], sl_max_response_bytes = 1, sl_max_context_tokens = None,
       sl_accelerators = [], sl_topology = [], sl_data_locations = [], sl_production_eligible = False, sl_cost_class = COST_LOW,
       sl_latency_class = LATENCY_LOW, sl_text_suitability = 0\<rparr>,
     as_vllm = \<lparr>vl_enabled = False, vl_deployment_id = [], vl_endpoint_id = [], vl_model_artifact_id = [], vl_model_revision = [],
       vl_engine_version = [], vl_max_context_tokens = None, vl_accelerators = [], vl_topology = [], vl_data_locations = [],
       vl_production_eligible = False, vl_cost_class = COST_LOW, vl_latency_class = LATENCY_LOW, vl_text_suitability = 0,
       vl_chat_suitability = 0\<rparr>,
     as_dynamo = \<lparr>dn_enabled = False, dn_deployment_id = [], dn_endpoint_id = [], dn_model_artifact_id = [], dn_model_revision = [],
       dn_runtime_version = [], dn_topology = ''aggregated'', dn_max_context_tokens = None, dn_accelerators = [], dn_data_locations = [],
       dn_production_eligible = False, dn_cost_class = COST_LOW, dn_latency_class = LATENCY_LOW\<rparr>,
     as_nim = \<lparr>ns_enabled = True, ns_api_key = [], ns_secret_ref = ''vault:p#f'', ns_deployment_id = ''n'', ns_endpoint_id = ''ep'',
       ns_model_artifact_id = ''m'', ns_model_revision = [], ns_release = ''2'', ns_profile_id = ''q'', ns_backend = ''b'',
       ns_max_context_tokens = None, ns_accelerators = [], ns_topology = [], ns_data_locations = ''eu, us'', ns_production_eligible = True,
       ns_cost_class = COST_LOW, ns_latency_class = LATENCY_LOW\<rparr>,
     as_tensorrt_llm_enabled = False, as_mock_enabled = False, as_mock_deployment_id = [], as_database_url = ''pg'', as_redis_url = ''rd'',
     as_vault_address = ''https://v'', as_vault_token_env = ''T''\<rparr>"

definition sample_vault :: "string \<Rightarrow> string \<Rightarrow> exn + json" where
  "sample_vault url token = Inr (JObj [(''data'', JObj [(''f'', JStr ''key'')])])"

definition sample_environ :: "(string \<times> string) list" where
  "sample_environ = [(''T'', ''token'')]"

lemma sample_settings_ok: "AppSettings_validate sample_settings = Inr ()"
  by code_simp

definition sample_nim_engine :: managed_engine where
  "sample_nim_engine = \<lparr>me_model = ''m'', me_max_response_bytes = default_max_response_bytes, me_product = NIM ''2'' ''q''\<rparr>"

lemma sample_nim: "\<exists>r. nim_deployment sample_environ sample_vault sample_settings = Inr (r, sample_nim_engine, ''key'') \<and> rg_id r = ''n''"
proof -
  have "map_r (\<lambda>(r, e, key). (rg_id r, e, key)) (nim_deployment sample_environ sample_vault sample_settings)
    = Inr (''n'', sample_nim_engine, ''key'')"
    by code_simp
  then show ?thesis by (auto simp: map_r_eq_Inr)
qed

lemma sample_built: "\<exists>r. nim_deployment sample_environ sample_vault sample_settings = Inr (r, sample_nim_engine, ''key'')
    \<and> build_deployment_registry sample_environ sample_vault sample_settings = Inr [(''n'', r)]"
proof -
  obtain r where r: "nim_deployment sample_environ sample_vault sample_settings = Inr (r, sample_nim_engine, ''key'')" "rg_id r = ''n''"
    using sample_nim by blast
  have b: "dn_enabled (as_dynamo sample_settings) = False" "ns_enabled (as_nim sample_settings) = True"
    "vl_enabled (as_vllm sample_settings) = False" "sl_enabled (as_sglang sample_settings) = False" "as_mock_enabled sample_settings = False"
    by (simp_all add: sample_settings_def)
  have "lower ''n'' = ''n''" by code_simp
  then have "register_deployment r [] = Inr [(''n'', r)]" using r(2) by (simp add: register_deployment_eq)
  then show ?thesis using r(1) by (simp add: build_deployment_registry_def add_when_def b map_r_def)
qed

definition sample_document :: control_document where
  "sample_document = \<lparr>cd_api_keys = [], cd_quotas = []\<rparr>"

theorem production_settings_safe_witness:
  "\<exists>reg r e key. build_deployment_registry sample_environ sample_vault sample_settings = Inr reg \<and> r \<in> set (all_deployments reg)
    \<and> nim_deployment sample_environ sample_vault sample_settings = Inr (r, e, key)"
proof -
  obtain reg where b: "build_deployment_registry sample_environ sample_vault sample_settings = Inr reg" using sample_built by blast
  have l: "load_api_control sample_lib (Some sample_document) (as_execution_record_path sample_settings \<noteq> None)
      (as_database_url sample_settings) (as_redis_url sample_settings) = Inr ([], [], RedisAdmission, PostgreSQLRecords)"
    by code_simp
  have e: "as_app_env sample_settings = PRODUCTION" "ns_enabled (as_nim sample_settings)"
    "Some sample_document = None \<longleftrightarrow> as_control_plane_config_path sample_settings = None" by (simp_all add: sample_settings_def)
  show ?thesis using production_settings_safe [OF sample_settings_ok e(1) b l e(3)] e(2) b by blast
qed

text \<open>The settings the routes and the startup read.\<close>

definition api_settings :: "AppSettings \<Rightarrow> Settings" where
  "api_settings c = \<lparr>se_max_prompt_chars = as_max_prompt_chars c, se_max_generation_tokens = as_max_generation_tokens c,
     se_production = (as_app_env c = PRODUCTION), se_workflow_recovery_scan_limit = as_workflow_recovery_scan_limit c\<rparr>"

text \<open>C10. 
  A production service that has started knows what it serves. When the startup succeeds with a NIM deployment that
  claims to be eligible, the server listed the configured model and reported the configured release and profile, and
  no revision was configured: no managed server reports one, so with a revision the startup never succeeds. This is
  not what \<open>docs/integrations/nim-compatibility.md\<close> asks for: a production deployment is to pin the revision
  of the model too, and pinning it in \<open>nim_model_revision\<close> keeps the service from starting.
\<close>

theorem production_start_pinned:
  assumes "startup L (api_settings c) P discovery reg clk clk' uuid w = (w', Inr x)" and "as_app_env c = PRODUCTION"
    and "build_deployment_registry environ client c = Inr reg" and "ns_enabled (as_nim c)" and "ns_production_eligible (as_nim c)"
    and "nim_deployment environ client c = Inr (r, e, key)" and "discovery r = managed_discover loads_body http now e"
  shows "strip (ns_model_revision (as_nim c)) = []
    \<and> (\<exists>v data item. managed_json loads_body e ''identity'' (http ''/v1/models'') = Reply v \<and> dict_get v ''data'' = Some (JArr data)
        \<and> item \<in> set data \<and> dict_get item ''id'' = Some (JStr (strip (ns_model_artifact_id (as_nim c)))))
    \<and> (\<exists>v. managed_json loads_body e ''identity'' (http ''/v1/version'') = Reply v
        \<and> find_string v [''version'', ''nim_version''] = Some (ns_release (as_nim c)))
    \<and> (\<exists>v. managed_json loads_body e ''identity'' (http ''/v1/metadata'') = Reply v
        \<and> find_string v [''profile_id'', ''model_profile'', ''model_profile_id''] = Some (ns_profile_id (as_nim c)))"
proof -
  note d = nim_deploymentD [OF assms(6)]
  have "r \<in> set (all_deployments reg)" using built_registry(3) [OF assms(3,4)] assms(6) by auto
  then have cand: "r \<in> set (production_candidates reg)" using d assms(5) by (simp add: production_candidates_def claims_production_def)
  have "verify_production_deployments (api_settings c) discovery reg = Inr ()"
    using assms(1) by (auto simp: startup_def bind_r_eq_Inr split: sum.splits)
  then have "verify_deployment discovery r = Inr ()"
    using cand assms(2) by (simp add: verify_production_deployments_def api_settings_def bind_r_eq_Inr each_eq_Inr)
  then obtain i where i: "inspect_identity r (managed_discover loads_body http now e) = Reply i" "ia_status (ii_assessment i) = VERIFIED"
    by (auto simp: verify_deployment_def assms(7) split: reply.splits)
  have disc: "eng_discovers (rg_engine r)" using d by blast
  note p = verified_identity_pinned [OF disc i]
  have "optional_identifier (ns_model_revision (as_nim c)) = None" using p d by auto
  then have "strip (ns_model_revision (as_nim c)) = []" by (simp add: optional_identifier_def Let_def split: if_splits)
  then show ?thesis using p d by auto
qed

definition nim_body :: json where
  "nim_body = JObj [(''data'', JArr [JObj [(''id'', JStr ''m'')]]), (''version'', JStr ''2''), (''profile_id'', JStr ''q'')]"

definition nim_discovery :: "RegisteredDeployment \<Rightarrow> ModelIdentityObservation reply" where
  "nim_discovery r = managed_discover (\<lambda>_. Some nim_body) (\<lambda>_. sample_answer) 0 sample_nim_engine"

definition production_plane :: "(redis_call, redis, pg_db) APIControlPlane" where
  "production_plane = \<lparr>ap_api_keys = [(''ab'', \<lparr>ak_key_id = ''ab'', ak_salt = ''s'', ak_digest = ''d'',
       ak_principal = \<lparr>pr_principal_id = ''p'', pr_tenant_id = ''acme'', pr_roles = {OPERATOR}\<rparr>, ak_expires_at = None, ak_revoked_at = None\<rparr>)],
     ap_admission = redis_coordinator ''ryuk'' [(''acme'', \<lparr>qp_requests_per_minute = 5, qp_concurrent_requests = 1, qp_tokens_per_minute = 500\<rparr>)] (Some True),
     ap_records = Some (pg_writer sample_lib (\<lambda>_. JNull) True)\<rparr>"

lemma nim_discovered: "nim_discovery r = Reply \<lparr>mo_model = \<lparr>artifact_id = ''m'', revision = None, served_name = Some ''m''\<rparr>,
    mo_observed_at = Aware 0, mo_source = ''nim:/v1/models'', mo_catalog_only = False\<rparr>"
  by (simp add: nim_discovery_def managed_discover_def managed_models_def managed_json_def read_reply_def sample_answer_def generation_status_def
      is_success_def sample_nim_engine_def default_max_response_bytes_def nim_body_def dict_get_def observation_of_def checked_def ModelRef_post_init_def
      require_identifier_def validate_optional_identifier_def ModelIdentityObservation_post_init_def identifier_ok_iff py_space_def)

lemma production_ready: "verify_production_ready production_plane 0 None w = Inr ()"
  by (simp add: verify_production_ready_def production_plane_def active_record_def redis_coordinator_def configured_tenants_def
      pg_writer_def pg_health_def redis_health_def)

definition production_world :: "(redis, pg_db) world" where
  "production_world = \<lparr>wo_admission = [], wo_records = \<lparr>pg_schema_meta = [(''execution_records'', 1)], pg_records = Some []\<rparr>, wo_log = [],
     wo_store = None, wo_states = None\<rparr>"

theorem production_start_pinned_witness:
  "\<exists>reg v. build_deployment_registry sample_environ sample_vault sample_settings = Inr reg
    \<and> startup sample_lib (api_settings sample_settings) production_plane nim_discovery reg 0 0 id production_world = (production_world, Inr (None, None))
    \<and> managed_json (\<lambda>_. Some nim_body) sample_nim_engine ''identity'' sample_answer = Reply v
    \<and> find_string v [''version'', ''nim_version''] = Some ''2''"
proof -
  obtain r where r: "nim_deployment sample_environ sample_vault sample_settings = Inr (r, sample_nim_engine, ''key'')"
    and reg: "build_deployment_registry sample_environ sample_vault sample_settings = Inr [(''n'', r)]"
    using sample_built by blast
  note d = nim_deploymentD [OF r]
  have s: "ns_enabled (as_nim sample_settings)" "ns_production_eligible (as_nim sample_settings)"
    "ns_release (as_nim sample_settings) = ''2''" "as_app_env sample_settings = PRODUCTION"
    by (simp_all add: sample_settings_def)
  have m: "dr_model (rg_ref r) = Some \<lparr>artifact_id = ''m'', revision = None, served_name = None\<rparr>"
    using d by (simp add: sample_settings_def optional_identifier_def strip_def py_space_def)
  have "verify_deployment nim_discovery r = Inr ()"
    using d by (simp add: verify_deployment_def inspect_identity_def nim_discovered m assess_model_identity_def identity_fields_def)
  moreover have "production_candidates [(''n'', r)] = [r]"
    using d s(2) by (simp add: production_candidates_def all_deployments_def claims_production_def)
  ultimately have start: "startup sample_lib (api_settings sample_settings) production_plane nim_discovery [(''n'', r)] 0 0 id production_world
      = (production_world, Inr (None, None))"
    using s(4) by (simp add: startup_def api_settings_def production_ready lift_exn_def verify_production_deployments_def production_world_def)
  have n: "nim_discovery r = managed_discover (\<lambda>_. Some nim_body) (\<lambda>_. sample_answer) 0 sample_nim_engine" by (simp add: nim_discovery_def)
  from production_start_pinned [OF start s(4) reg s(1,2) r n] s(3) reg start show ?thesis by auto
qed

end
