(* ===== verification/Middleware.thy ===== *)
theory Middleware
  imports Records
begin

text \<open>
  The two pieces of ASGI middleware (\<open>src/backend/middleware.py\<close>) and their composition in \<open>main.py\<close>. An application
  is what it does between the calls of \<open>receive\<close> and \<open>send\<close>; a middleware turns an application into another. Bytes are
  characters. Every path of an application is finite: one that never ends its response is outside.
\<close>

section \<open>Applications\<close>

datatype incoming = RequestBody string | OtherIncoming

datatype outgoing = ResponseStart (os_status: int) (os_headers: "(string \<times> string) list") | ResponseBody string | OtherOutgoing

datatype asgi_exn = RequestBodyTooLarge | AppError exn

text \<open>A call of \<open>receive\<close> returns a message, or raises in the application, which may catch it.\<close>

datatype received = Delivered incoming | Exceeded

datatype asgi = Receive "received \<Rightarrow> asgi" | Send outgoing asgi | Return | Raise asgi_exn

record asgi_scope =
  sc_type :: string
  sc_headers :: "(string \<times> string) list"
  sc_request_id :: "string option"
  sc_traceparent :: "string option"

text \<open>What a run on given messages sends and how it ends; without a message the application waits.\<close>

datatype app_end = Returned | Raised asgi_exn | Waiting

primrec run_app :: "asgi \<Rightarrow> received list \<Rightarrow> outgoing list \<times> app_end" where
  "run_app (Receive k) = (\<lambda>ins. case ins of [] \<Rightarrow> ([], Waiting) | r # rs \<Rightarrow> run_app (k r) rs)"
| "run_app (Send m a) = (\<lambda>ins. case run_app a ins of (out, e) \<Rightarrow> (m # out, e))"
| "run_app Return = (\<lambda>_. ([], Returned))"
| "run_app (Raise x) = (\<lambda>_. ([], Raised x))"

section \<open>Headers\<close>

definition lower_bytes :: "string \<Rightarrow> string" where
  "lower_bytes s = map (\<lambda>c. let n = (of_char c :: nat) in if 65 \<le> n \<and> n \<le> 90 then char_of (n + 32) else c) s"

definition decode_ascii :: "string \<Rightarrow> string" where
  "decode_ascii s = filter (\<lambda>c. (of_char c :: nat) < 128) s"

text \<open>A dictionary by name: of several headers of a name the last counts.\<close>

definition header_of :: "asgi_scope \<Rightarrow> string \<Rightarrow> string option" where
  "header_of scope name = map_of (rev (map (\<lambda>(n, v). (lower_bytes n, v)) (sc_headers scope))) name"

definition request_id_char :: "char \<Rightarrow> bool" where
  "request_id_char c = (let n = (of_char c :: nat) in
     65 \<le> n \<and> n \<le> 90 \<or> 97 \<le> n \<and> n \<le> 122 \<or> 48 \<le> n \<and> n \<le> 57 \<or> c \<in> {CHR ''.'', CHR ''_'', CHR ''-''})"

definition request_id_pattern :: "string \<Rightarrow> bool" where
  "request_id_pattern s \<longleftrightarrow> 1 \<le> length s \<and> length s \<le> 128 \<and> list_all request_id_char s"

definition hex_char :: "char \<Rightarrow> bool" where
  "hex_char c = (let n = (of_char c :: nat) in 48 \<le> n \<and> n \<le> 57 \<or> 97 \<le> n \<and> n \<le> 102)"

definition traceparent_pattern :: "string \<Rightarrow> bool" where
  "traceparent_pattern s =
     (let version = take 2 s; trace = take 32 (drop 3 s); parent = take 16 (drop 36 s); flags = drop 53 s in
      length s = 55 \<and> s = version @ ''-'' @ trace @ ''-'' @ parent @ ''-'' @ flags
      \<and> list_all hex_char (version @ trace @ parent @ flags)
      \<and> version \<noteq> ''ff'' \<and> trace \<noteq> replicate 32 (CHR ''0'') \<and> parent \<noteq> replicate 16 (CHR ''0''))"

definition safe_request_id :: "string \<Rightarrow> string option \<Rightarrow> string" where
  "safe_request_id uuid raw_value =
     (case raw_value of
        None \<Rightarrow> uuid
      | Some raw \<Rightarrow> let value = decode_ascii raw in if request_id_pattern value then value else uuid)"

section \<open>The context of a request\<close>

definition tag_response :: "string \<Rightarrow> outgoing \<Rightarrow> outgoing" where
  "tag_response request_id m =
     (case m of
        ResponseStart status headers \<Rightarrow> ResponseStart status (headers @ [(''x-request-id'', request_id)])
      | _ \<Rightarrow> m)"

primrec tagged :: "string \<Rightarrow> asgi \<Rightarrow> asgi" where
  "tagged i (Receive k) = Receive (\<lambda>r. tagged i (k r))"
| "tagged i (Send m a) = Send (tag_response i m) (tagged i a)"
| "tagged i Return = Return"
| "tagged i (Raise x) = Raise x"

definition attach :: "string \<Rightarrow> asgi_scope \<Rightarrow> asgi_scope" where
  "attach request_id scope =
     (let scope' = scope\<lparr>sc_request_id := Some request_id\<rparr> in
      case header_of scope ''traceparent'' of
        None \<Rightarrow> scope'
      | Some raw \<Rightarrow>
          let traceparent = lower_bytes (decode_ascii raw) in
          if traceparent_pattern traceparent then scope'\<lparr>sc_traceparent := Some traceparent\<rparr> else scope')"

definition RequestContextMiddleware :: "string \<Rightarrow> (asgi_scope \<Rightarrow> asgi) \<Rightarrow> asgi_scope \<Rightarrow> asgi" where
  "RequestContextMiddleware uuid app scope =
     (if sc_type scope \<noteq> ''http'' then app scope
      else let request_id = safe_request_id uuid (header_of scope ''x-request-id'') in
           tagged request_id (app (attach request_id scope)))"

section \<open>The limit of a body\<close>

text \<open>\<open>int\<close> on bytes: outer whitespace, a sign, digits with single underscores between them, at most 4300 digits.\<close>

definition byte_space :: "char \<Rightarrow> bool" where
  "byte_space c = (let n = (of_char c :: nat) in 9 \<le> n \<and> n \<le> 13 \<or> n = 32)"

definition decimal :: "char \<Rightarrow> bool" where
  "decimal c = (let n = (of_char c :: nat) in 48 \<le> n \<and> n \<le> 57)"

fun digits_of :: "bool \<Rightarrow> int \<Rightarrow> string \<Rightarrow> int option" where
  "digits_of after_digit n [] = (if after_digit then Some n else None)"
| "digits_of after_digit n (c # cs) =
     (if decimal c then digits_of True (10 * n + (of_char c - 48)) cs
      else if c = CHR ''_'' \<and> after_digit then digits_of False n cs
      else None)"

definition int_of_bytes :: "string \<Rightarrow> int option" where
  "int_of_bytes s =
     (let t = rev (dropWhile byte_space (rev (dropWhile byte_space s))) in
      if length (filter decimal t) > 4300 then None
      else case t of
        [] \<Rightarrow> None
      | c # cs \<Rightarrow>
          if c = CHR ''-'' then map_option uminus (digits_of False 0 cs)
          else if c = CHR ''+'' then digits_of False 0 cs
          else digits_of False 0 t)"

definition too_large_body :: string where
  "too_large_body = ''{'' @ [CHR 0x22] @ ''detail'' @ [CHR 0x22] @ '': '' @ [CHR 0x22] @ ''Request body too large.'' @ [CHR 0x22] @ ''}''"

definition too_large_messages :: "outgoing list" where
  "too_large_messages =
     [ResponseStart 413 [(''content-type'', ''application/json''), (''content-length'', ''37'')], ResponseBody too_large_body]"

definition send_too_large :: asgi where
  "send_too_large = foldr Send too_large_messages Return"

primrec limited :: "int \<Rightarrow> asgi \<Rightarrow> int \<Rightarrow> asgi" where
  "limited max_bytes (Receive k) = (\<lambda>received_bytes. Receive (\<lambda>r.
     case r of
       Delivered (RequestBody body) \<Rightarrow>
         let received_bytes' = received_bytes + int (length body) in
         limited max_bytes (k (if received_bytes' > max_bytes then Exceeded else r)) received_bytes'
     | _ \<Rightarrow> limited max_bytes (k r) received_bytes))"
| "limited max_bytes (Send m a) = (\<lambda>received_bytes. Send m (limited max_bytes a received_bytes))"
| "limited max_bytes Return = (\<lambda>_. Return)"
| "limited max_bytes (Raise x) = (\<lambda>_. if x = RequestBodyTooLarge then send_too_large else Raise x)"

definition RequestBodyLimitMiddleware :: "int \<Rightarrow> (asgi_scope \<Rightarrow> asgi) \<Rightarrow> asgi_scope \<Rightarrow> asgi" where
  "RequestBodyLimitMiddleware max_bytes app scope =
     (if sc_type scope \<noteq> ''http'' then app scope
      else case Option.bind (header_of scope ''content-length'') int_of_bytes of
        Some n \<Rightarrow> if n > max_bytes then send_too_large else limited max_bytes (app scope) 0
      | None \<Rightarrow> limited max_bytes (app scope) 0)"

text \<open>The middleware added last is the outermost.\<close>

definition service :: "string \<Rightarrow> int \<Rightarrow> (asgi_scope \<Rightarrow> asgi) \<Rightarrow> asgi_scope \<Rightarrow> asgi" where
  "service uuid max_bytes app = RequestContextMiddleware uuid (RequestBodyLimitMiddleware max_bytes app)"

section \<open>The limit, exactly\<close>

text \<open>What the application receives behind the limit, and what becomes of the way it ends.\<close>

fun gate :: "int \<Rightarrow> int \<Rightarrow> received list \<Rightarrow> received list" where
  "gate max_bytes n [] = []"
| "gate max_bytes n (Delivered (RequestBody body) # rs) =
     (if n + int (length body) > max_bytes then Exceeded else Delivered (RequestBody body))
       # gate max_bytes (n + int (length body)) rs"
| "gate max_bytes n (r # rs) = r # gate max_bytes n rs"

definition body_size :: "received list \<Rightarrow> int" where
  "body_size rs = sum_list (map (\<lambda>r. case r of Delivered (RequestBody body) \<Rightarrow> int (length body) | _ \<Rightarrow> 0) rs)"

fun answered :: "outgoing list \<times> app_end \<Rightarrow> outgoing list \<times> app_end" where
  "answered (out, Raised RequestBodyTooLarge) = (out @ too_large_messages, Returned)"
| "answered r = r"

lemma body_size_simps [simp]:
  "body_size [] = 0" "body_size (Delivered (RequestBody body) # rs) = int (length body) + body_size rs"
  "body_size (Delivered OtherIncoming # rs) = body_size rs" "body_size (Exceeded # rs) = body_size rs"
  by (simp_all add: body_size_def)

lemma body_size_nonneg: "0 \<le> body_size rs"
  by (induction rs) (auto simp: body_size_def split: received.splits incoming.splits)

lemma gate_closed: "n > max_bytes \<Longrightarrow> body_size (gate max_bytes n rs) = 0"
  by (induction max_bytes n rs rule: gate.induct) auto

lemma gate_size: "n \<le> max_bytes \<Longrightarrow> n + body_size (gate max_bytes n rs) \<le> max_bytes"
proof (induction max_bytes n rs rule: gate.induct)
  case (2 max_bytes n body rs)
  then show ?case using gate_closed [of max_bytes "n + int (length body)" rs] by (cases "n + int (length body) > max_bytes") auto
qed auto

lemma gate_open: "n + body_size rs \<le> max_bytes \<Longrightarrow> gate max_bytes n rs = rs"
proof (induction max_bytes n rs rule: gate.induct)
  case (2 max_bytes n body rs)
  then show ?case using body_size_nonneg [of rs] by auto
qed auto

text \<open>The declared length of the refusal is the length of its body.\<close>

lemma too_large_length: "length too_large_body = 37"
  by (simp add: too_large_body_def)

lemma send_too_large_run: "run_app send_too_large ins = (too_large_messages, Returned)"
  by (simp add: send_too_large_def too_large_messages_def)

lemma answered_Cons: "answered (m # out, e) = (case answered (out, e) of (out', e') \<Rightarrow> (m # out', e'))"
  by (cases "(out, e)" rule: answered.cases) auto

lemma limited_run: "run_app (limited max_bytes a n) ins = answered (run_app a (gate max_bytes n ins))"
proof (induction a arbitrary: n ins)
  case (Receive k)
  have IH: "run_app (limited max_bytes (k r) n) ins = answered (run_app (k r) (gate max_bytes n ins))" for r n ins
    using Receive by blast
  show ?case
  proof (cases ins)
    case Nil then show ?thesis by simp
  next
    case (Cons r rs)
    then show ?thesis by (cases "(max_bytes, n, r # rs)" rule: gate.cases) (simp_all add: IH Let_def)
  qed
next
  case (Send m a)
  then show ?case by (simp add: answered_Cons split: prod.splits)
next
  case (Raise x)
  then show ?case by (cases x) (simp_all add: send_too_large_run)
qed simp

text \<open>C11. 
  The limit of a body. An application behind it sees the messages of the server, except that from the first body on that
  takes the total above the limit every body raises in \<open>receive\<close>: it never holds more bytes than the limit, and a
  request within the limit reaches it unchanged. It is not called at all for a declared length above the limit. When it
  lets the exception through, the answer 413 is sent.
\<close>

theorem body_limit_exact:
  assumes "0 \<le> max_bytes" and "sc_type scope = ''http''"
  shows "run_app (RequestBodyLimitMiddleware max_bytes app scope) ins =
      (if \<exists>n. Option.bind (header_of scope ''content-length'') int_of_bytes = Some n \<and> n > max_bytes then (too_large_messages, Returned)
       else answered (run_app (app scope) (gate max_bytes 0 ins)))
    \<and> body_size (gate max_bytes 0 ins) \<le> max_bytes
    \<and> (body_size ins \<le> max_bytes \<longrightarrow> gate max_bytes 0 ins = ins)"
  using assms gate_size [of 0 max_bytes ins] gate_open [of 0 ins max_bytes]
  by (auto simp: RequestBodyLimitMiddleware_def limited_run send_too_large_run split: option.splits)

text \<open>An application that reads two pieces of a body and answers with a status.\<close>

definition sample_app :: "asgi_scope \<Rightarrow> asgi" where
  "sample_app scope = Receive (\<lambda>r. if r = Exceeded then Raise RequestBodyTooLarge
     else Receive (\<lambda>r. if r = Exceeded then Raise RequestBodyTooLarge else Send (ResponseStart 200 []) Return))"

definition sample_scope :: asgi_scope where
  "sample_scope = \<lparr>sc_type = ''http'', sc_headers = [(''Content-Length'', ''3''), (''X-Request-Id'', ''r 1'')], sc_request_id = None,
     sc_traceparent = None\<rparr>"

theorem body_limit_exact_witness:
  "run_app (RequestBodyLimitMiddleware 3 sample_app sample_scope) [Delivered (RequestBody ''ab''), Delivered (RequestBody ''cd'')]
    = (too_large_messages, Returned)"
proof -
  have h: "Option.bind (header_of sample_scope ''content-length'') int_of_bytes = Some 3" by code_simp
  have "sc_type sample_scope = ''http''" by (simp add: sample_scope_def)
  from body_limit_exact [OF _ this, of 3 sample_app "[Delivered (RequestBody ''ab''), Delivered (RequestBody ''cd'')]"] show ?thesis
    by (simp add: h sample_app_def)
qed

section \<open>Identification\<close>

definition uuid_text :: "string \<Rightarrow> bool" where
  "uuid_text u \<longleftrightarrow> length u = 36 \<and> list_all (\<lambda>c. hex_char c \<or> c = CHR ''-'') u"

lemma hex_request_id_char: "hex_char c \<Longrightarrow> request_id_char c"
  by (auto simp: hex_char_def request_id_char_def Let_def)

lemma safe_request_id_pattern: "uuid_text u \<Longrightarrow> request_id_pattern (safe_request_id u raw)"
  by (auto simp: safe_request_id_def uuid_text_def request_id_pattern_def Let_def list_all_iff hex_request_id_char
      request_id_char_def [of "CHR ''-''"] split: option.splits)

lemma tagged_run: "run_app (tagged i a) ins = (case run_app a ins of (out, e) \<Rightarrow> (map (tag_response i) out, e))"
proof (induction a arbitrary: ins)
  case (Receive k)
  then show ?case by (auto split: list.splits)
next
  case (Send m a)
  then show ?case by (simp split: prod.splits)
qed auto

lemma attach_request_id: "sc_request_id (attach i scope) = Some i"
  by (simp add: attach_def Let_def split: option.splits)

lemma attach_traceparent:
  "sc_traceparent scope = None \<Longrightarrow> sc_traceparent (attach i scope) = Some t \<Longrightarrow> traceparent_pattern t"
  by (auto simp: attach_def Let_def split: option.splits if_splits)

lemma request_id_not_space: "request_id_char c \<Longrightarrow> \<not> py_space c"
  by (auto simp: request_id_char_def py_space_def Let_def)

text \<open>
  Every answer to a request, the refusal of its body included, carries the identifier the application found in the state of
  the request. Whatever headers the client sent it is between 1 and 128 letters, digits, dots, underscores and hyphens, so a
  trace can be made of it, and a trace parent in the state has the form of the standard.
\<close>

theorem answers_identified:
  assumes "uuid_text uuid" and "sc_type scope = ''http''" and "sc_traceparent scope = None"
  shows "\<exists>scope'. run_app (service uuid max_bytes app scope) ins =
        (case run_app (RequestBodyLimitMiddleware max_bytes app scope') ins of
           (out, e) \<Rightarrow> (map (tag_response (the (sc_request_id scope'))) out, e))
    \<and> sc_headers scope' = sc_headers scope \<and> sc_type scope' = ''http''
    \<and> (\<exists>i. sc_request_id scope' = Some i \<and> request_id_pattern i
        \<and> TraceContext_post_init \<lparr>tc_request_id = i, tc_traceparent = sc_traceparent scope'\<rparr> = Inr ()
        \<and> (\<forall>m \<in> set (fst (run_app (service uuid max_bytes app scope) ins)). \<forall>status headers.
             m = ResponseStart status headers \<longrightarrow> (''x-request-id'', i) \<in> set headers))
    \<and> (\<forall>t. sc_traceparent scope' = Some t \<longrightarrow> traceparent_pattern t)"
proof -
  define i where "i = safe_request_id uuid (header_of scope ''x-request-id'')"
  have i: "request_id_pattern i" using safe_request_id_pattern [OF assms(1)] by (simp add: i_def)
  have run: "run_app (service uuid max_bytes app scope) ins =
      (case run_app (RequestBodyLimitMiddleware max_bytes app (attach i scope)) ins of (out, e) \<Rightarrow> (map (tag_response i) out, e))"
    using assms(2) by (simp add: service_def RequestContextMiddleware_def i_def tagged_run Let_def)
  have "has_text i" using i request_id_not_space by (cases i) (auto simp: has_text_iff request_id_pattern_def)
  then have trace: "TraceContext_post_init \<lparr>tc_request_id = i, tc_traceparent = t\<rparr> = Inr ()" for t
    by (simp add: TraceContext_post_init_def require_text_def)
  have tag: "(''x-request-id'', i) \<in> set headers"
    if "ResponseStart status headers \<in> set (fst (run_app (service uuid max_bytes app scope) ins))" for status headers
    using that by (auto simp: run tag_response_def split: prod.splits outgoing.splits)
  have rest: "sc_headers (attach i scope) = sc_headers scope" "sc_type (attach i scope) = ''http''"
    using assms(2) by (simp_all add: attach_def Let_def split: option.splits)
  show ?thesis
    using run i trace tag rest attach_request_id [of i scope] attach_traceparent [OF assms(3)] by (intro exI [of _ "attach i scope"]) auto
qed

definition sample_uuid :: string where
  "sample_uuid = ''00000000-0000-4000-8000-000000000000''"

theorem answers_identified_witness:
  "\<exists>i headers. request_id_pattern i \<and> (''x-request-id'', i) \<in> set headers
    \<and> ResponseStart 413 headers \<in> set (fst (run_app (service sample_uuid 1 sample_app sample_scope) []))"
proof -
  have u: "uuid_text sample_uuid" by code_simp
  have s: "sc_type sample_scope = ''http''" "sc_traceparent sample_scope = None" by (simp_all add: sample_scope_def)
  have "fst (run_app (service sample_uuid 1 sample_app sample_scope) []) = [ResponseStart 413 [(''content-type'', ''application/json''),
      (''content-length'', ''37''), (''x-request-id'', sample_uuid)], ResponseBody too_large_body]"
    by code_simp
  then have "ResponseStart 413 [(''content-type'', ''application/json''), (''content-length'', ''37''), (''x-request-id'', sample_uuid)]
      \<in> set (fst (run_app (service sample_uuid 1 sample_app sample_scope) []))" by simp
  with answers_identified [OF u s, of 1 sample_app "[]"] show ?thesis by blast
qed

end
