(* ===== verification/Worker.thy ===== *)
theory Worker
  imports EngineTheorems Middleware
begin

text \<open>
  The vLLM worker (\<open>src/workers/vllm/app.py\<close>), the server at the other end of the adapter of \<open>vllm_worker.py\<close>, and the
  contract of the two. The engine and the tokenizer of vLLM are a parameter, \<open>native_engine\<close>; either may raise. A body is decoded when its
  members have the declared types; the conversions of pydantic are left out. FastAPI turns an exception into a status.
\<close>

section \<open>Requests\<close>

record Generation =
  gn_max_output_tokens :: "int option"
  gn_temperature :: rat

record WorkerInput =
  wi_kind :: string
  wi_text :: "string option"
  wi_messages :: "(string \<times> string) list list option"

record WorkerRequest =
  wq_request_id :: string
  wq_input :: WorkerInput
  wq_generation :: Generation

definition object_of :: "json \<Rightarrow> (string \<times> json) list option" where
  "object_of v = (if is_dict v then Some (members v) else None)"

fun dec_temperature :: "json \<Rightarrow> rat option" where
  "dec_temperature v = map_option number_value (dec_number v)"

fun dec_list :: "(json \<Rightarrow> 'a option) \<Rightarrow> json \<Rightarrow> 'a list option" where
  "dec_list f (JArr vs) = dec_all f vs"
| "dec_list f _ = None"

definition dec_text_members :: "json \<Rightarrow> (string \<times> string) list option" where
  "dec_text_members v = Option.bind (object_of v) (dec_all (\<lambda>(k, x). map_option (Pair k) (dec_str x)))"

definition worker_generation :: "json \<Rightarrow> Generation option" where
  "worker_generation v =
     Option.bind (object_of v) (\<lambda>ms.
     Option.bind (kw ms ''max_output_tokens'' (Some None) (dec_opt dec_int)) (\<lambda>m.
     Option.bind (kw ms ''temperature'' (Some (7 / 10)) dec_temperature) (\<lambda>t.
     Some \<lparr>gn_max_output_tokens = m, gn_temperature = t\<rparr>)))"

definition worker_input :: "json \<Rightarrow> WorkerInput option" where
  "worker_input v =
     Option.bind (object_of v) (\<lambda>ms.
     Option.bind (kw ms ''kind'' None dec_str) (\<lambda>k.
     Option.bind (kw ms ''text'' (Some None) (dec_opt dec_str)) (\<lambda>t.
     Option.bind (kw ms ''messages'' (Some None) (dec_opt (dec_list dec_text_members))) (\<lambda>m.
     Some \<lparr>wi_kind = k, wi_text = t, wi_messages = m\<rparr>))))"

definition decoded_request :: "json \<Rightarrow> WorkerRequest option" where
  "decoded_request v =
     Option.bind (object_of v) (\<lambda>ms.
     Option.bind (kw ms ''request_id'' None dec_str) (\<lambda>i.
     Option.bind (kw ms ''input'' None worker_input) (\<lambda>inp.
     Option.bind (kw ms ''generation'' None worker_generation) (\<lambda>g.
     Some \<lparr>wq_request_id = i, wq_input = inp, wq_generation = g\<rparr>))))"

section \<open>The engine\<close>

record completion =
  cp_text :: string
  cp_finish_reason :: "string option"
  cp_token_ids :: "int list"

record request_output =
  vo_prompt_token_ids :: "int list"
  vo_outputs :: "completion list"

text \<open>The chat template of the tokenizer, which raises for a model without one, and the outputs an engine yields in turn for
  a prompt, a temperature, a limit of tokens and an identifier; it may raise, as may the constructor of its parameters.\<close>

record native_engine =
  ve_apply_chat_template :: "(string \<times> string) list list \<Rightarrow> exn + string"
  ve_generate :: "string \<Rightarrow> rat \<Rightarrow> int \<Rightarrow> string \<Rightarrow> exn + request_output list"

record NativeVLLM =
  nv_model :: string
  nv_revision :: "string option"
  nv_engine :: native_engine

datatype worker_response = Answer json | HTTPException int string | Unhandled

text \<open>\<open>int\<close> of a text; the bytes of a text without its outer white space are read alike.\<close>

definition int_of_text :: "string \<Rightarrow> int option" where
  "int_of_text s = int_of_bytes (strip s)"

text \<open>The model, its revision and the number of GPUs come from the environment; loading the engine and the tokenizer may
  raise.\<close>

definition NativeVLLM_init ::
    "(string \<times> string) list \<Rightarrow> (string \<Rightarrow> string option \<Rightarrow> int \<Rightarrow> exn + native_engine) \<Rightarrow> exn + NativeVLLM" where
  "NativeVLLM_init environ load =
     (case map_of environ ''RYUK_VLLM_MODEL'' of
        None \<Rightarrow> Inl (KeyError ''RYUK_VLLM_MODEL'')
      | Some model \<Rightarrow>
          let rv = map_of environ ''RYUK_VLLM_MODEL_REVISION'' in
          case int_of_text (case map_of environ ''RYUK_VLLM_TENSOR_PARALLEL_SIZE'' of None \<Rightarrow> ''1'' | Some n \<Rightarrow> n) of
            None \<Rightarrow> Inl (ValueError ''invalid literal for int()'')
          | Some gpus \<Rightarrow> bind_r (load model rv gpus) (\<lambda>e. Inr \<lparr>nv_model = model, nv_revision = rv, nv_engine = e\<rparr>))"

text \<open>The prompt, or the response of the request when there is none.\<close>

definition templated :: "native_engine \<Rightarrow> (string \<times> string) list list option \<Rightarrow> worker_response + string" where
  "templated e messages =
     (case messages of
        None \<Rightarrow> Inl (HTTPException 422 ''Invalid worker input.'')
      | Some ms \<Rightarrow> (case ve_apply_chat_template e ms of Inl _ \<Rightarrow> Inl Unhandled | Inr prompt \<Rightarrow> Inr prompt))"

definition worker_prompt :: "native_engine \<Rightarrow> WorkerInput \<Rightarrow> worker_response + string" where
  "worker_prompt e inp =
     (case (wi_kind inp = ''text'', wi_text inp) of
        (True, Some prompt) \<Rightarrow> Inr prompt
      | _ \<Rightarrow> if wi_kind inp = ''chat'' then templated e (wi_messages inp)
             else Inl (HTTPException 422 ''Invalid worker input.''))"

text \<open>\<open>max_output_tokens or 128\<close> and \<open>finish_reason or "unknown"\<close>.\<close>

definition token_limit :: "int option \<Rightarrow> int" where
  "token_limit m = (case m of None \<Rightarrow> 128 | Some n \<Rightarrow> if n = 0 then 128 else n)"

definition finish_text :: "string option \<Rightarrow> string" where
  "finish_text f = (case f of None \<Rightarrow> ''unknown'' | Some s \<Rightarrow> if s = [] then ''unknown'' else s)"

definition completion_json :: "rat \<Rightarrow> WorkerRequest \<Rightarrow> request_output \<Rightarrow> completion \<Rightarrow> json" where
  "completion_json elapsed q final c = JObj
     [(''text'', JStr (cp_text c)), (''finish_reason'', JStr (finish_text (cp_finish_reason c))),
      (''usage'', JObj [(''input_tokens'', JInt (int (length (vo_prompt_token_ids final)))),
                       (''output_tokens'', JInt (int (length (cp_token_ids c))))]),
      (''latency_ms'', JFloat (elapsed * 1000)),
      (''metadata'', JObj [(''runtime'', JStr ''vllm''), (''vllm_request_id'', JStr (wq_request_id q))])]"

definition NativeVLLM_generate :: "NativeVLLM \<Rightarrow> rat \<Rightarrow> WorkerRequest \<Rightarrow> worker_response" where
  "NativeVLLM_generate v elapsed q =
     (case worker_prompt (nv_engine v) (wq_input q) of
        Inl response \<Rightarrow> response
      | Inr prompt \<Rightarrow>
          (case ve_generate (nv_engine v) prompt (gn_temperature (wq_generation q))
                  (token_limit (gn_max_output_tokens (wq_generation q))) (wq_request_id q) of
             Inl _ \<Rightarrow> Unhandled
           | Inr [] \<Rightarrow> HTTPException 502 ''Engine returned no output.''
           | Inr (o1 # os) \<Rightarrow>
               (case vo_outputs (last (o1 # os)) of
                  [] \<Rightarrow> Unhandled
                | c # _ \<Rightarrow> Answer (completion_json elapsed q (last (o1 # os)) c))))"

section \<open>Routes\<close>

definition health :: "NativeVLLM option \<Rightarrow> worker_response" where
  "health worker = Answer (JObj [(''ready'', JBool (worker \<noteq> None))])"

definition identity :: "string \<Rightarrow> NativeVLLM option \<Rightarrow> worker_response" where
  "identity vllm_version worker =
     (case worker of
        None \<Rightarrow> HTTPException 503 ''Worker is not ready.''
      | Some v \<Rightarrow> Answer (JObj [(''model_artifact_id'', JStr (nv_model v)), (''model_revision'', jopt JStr (nv_revision v)),
          (''engine_version'', JStr vllm_version), (''runtime'', JStr ''async_llm'')]))"

definition generate_route :: "NativeVLLM option \<Rightarrow> rat \<Rightarrow> json \<Rightarrow> worker_response" where
  "generate_route worker elapsed body =
     (case decoded_request body of
        None \<Rightarrow> HTTPException 422 ''validation''
      | Some q \<Rightarrow>
          (case worker of
             None \<Rightarrow> HTTPException 503 ''Worker is not ready.''
           | Some v \<Rightarrow> NativeVLLM_generate v elapsed q))"

text \<open>The response, and the identifiers whose requests the engine was told to abort.\<close>

definition cancel_route :: "NativeVLLM option \<Rightarrow> string \<Rightarrow> worker_response \<times> string list" where
  "cancel_route worker request_id =
     (case worker of
        None \<Rightarrow> (HTTPException 503 ''Worker is not ready.'', [])
      | Some _ \<Rightarrow> (Answer (JObj [(''cancelled'', JBool True), (''request_id'', JStr request_id)]), [request_id]))"

text \<open>What the client of the adapter meets, when the connection holds.\<close>

definition over_http :: "(json \<Rightarrow> string) \<Rightarrow> worker_response \<Rightarrow> http_reply" where
  "over_http encode r =
     (case r of
        Answer v \<Rightarrow> Responded 200 [encode v] Complete
      | HTTPException status detail \<Rightarrow> Responded status [encode (JObj [(''detail'', JStr detail)])] Complete
      | Unhandled \<Rightarrow> Responded 500 [encode (JStr ''Internal Server Error'')] Complete)"

section \<open>The contract\<close>

text \<open>The request the worker decodes from what the adapter sends for a task.\<close>

definition expected_request :: "InferenceTask \<Rightarrow> WorkerRequest" where
  "expected_request task =
     \<lparr>wq_request_id = tc_request_id (it_trace task),
      wq_input = (case it_input task of
          TextInput text \<Rightarrow> \<lparr>wi_kind = ''text'', wi_text = Some text, wi_messages = None\<rparr>
        | ChatInput messages \<Rightarrow> \<lparr>wi_kind = ''chat'', wi_text = None,
            wi_messages = Some (map (\<lambda>m. [(''role'', ChatRole_value (cm_role m)), (''content'', cm_content m)]) messages)\<rparr>),
      wq_generation = \<lparr>gn_max_output_tokens = gc_max_output_tokens (it_generation task),
        gn_temperature = number_value (gc_temperature (it_generation task))\<rparr>\<rparr>"

lemma dec_text_members_messages:
  "dec_all dec_text_members (map message_json ms) = Some (map (\<lambda>m. [(''role'', ChatRole_value (cm_role m)), (''content'', cm_content m)]) ms)"
  by (induction ms) (simp_all add: dec_text_members_def object_of_def message_json_def)

lemma worker_number_decoded: "dec_number (number_json n) = Some n"
  by (cases n) simp_all

lemma worker_limit_decoded: "dec_opt dec_int (jopt JInt m) = Some m"
  by (cases m) simp_all

lemma adapter_request_decoded: "decoded_request (worker_request task) = Some (expected_request task)"
proof -
  have g: "worker_generation (JObj [(''max_output_tokens'', jopt JInt m), (''temperature'', number_json t)])
      = Some \<lparr>gn_max_output_tokens = m, gn_temperature = number_value t\<rparr>" for m t
    by (simp add: worker_generation_def object_of_def kw_def worker_number_decoded worker_limit_decoded)
  have i: "worker_input (case it_input task of
          TextInput text \<Rightarrow> JObj [(''kind'', JStr ''text''), (''text'', JStr text)]
        | ChatInput messages \<Rightarrow> JObj [(''kind'', JStr ''chat''), (''messages'', JArr (map message_json messages))])
      = Some (wq_input (expected_request task))"
    by (cases "it_input task") (simp_all add: worker_input_def object_of_def kw_def expected_request_def dec_text_members_messages)
  show ?thesis
    by (simp add: decoded_request_def worker_request_def object_of_def kw_def g i) (simp add: expected_request_def)
qed

definition prompt_of :: "native_engine \<Rightarrow> task_input \<Rightarrow> exn + string" where
  "prompt_of e inp = (case inp of TextInput text \<Rightarrow> Inr text
     | ChatInput messages \<Rightarrow> ve_apply_chat_template e (map (\<lambda>m. [(''role'', ChatRole_value (cm_role m)), (''content'', cm_content m)]) messages))"

lemma expected_prompt:
  "worker_prompt e (wq_input (expected_request task))
    = (case prompt_of e (it_input task) of Inl _ \<Rightarrow> Inl Unhandled | Inr prompt \<Rightarrow> Inr prompt)"
  by (cases "it_input task") (simp_all add: worker_prompt_def templated_def expected_request_def prompt_of_def)

text \<open>What the adapter makes of an answer of the engine; the answer of the worker must fit the limit of the adapter.\<close>

definition adapted :: "(json \<Rightarrow> string) \<Rightarrow> int \<Rightarrow> rat \<Rightarrow> rat \<Rightarrow> WorkerRequest \<Rightarrow> request_output \<Rightarrow> completion \<Rightarrow> worker_result reply" where
  "adapted encode limit served elapsed q final c =
     (if int (length (encode (completion_json served q final c))) > limit then plain_failure UpstreamProtocolFailure
      else Reply \<lparr>wr_text = cp_text c, wr_finish_reason = finish_reason_of (Some (JStr (finish_text (cp_finish_reason c)))),
        wr_input_tokens = Some (IntNum (int (length (vo_prompt_token_ids final)))),
        wr_output_tokens = Some (IntNum (int (length (cp_token_ids c)))),
        wr_total_ms = Some (FloatNum ((if served = 0 then elapsed else served) * 1000))\<rparr>)"

lemma failing_status:
  "worker_json loads_body limit op (over_http encode (HTTPException 503 d)) = plain_failure CapacityExceededFailure"
  "worker_json loads_body limit op (over_http encode (HTTPException 502 d)) = plain_failure GenerationFailure"
  "worker_json loads_body limit op (over_http encode Unhandled) = plain_failure GenerationFailure"
  by (simp_all add: worker_json_def read_reply_def over_http_def worker_status_def)

lemma answered_json:
  assumes "loads_body (encode v) = Some v" and "is_dict v"
  shows "worker_json loads_body limit op (over_http encode (Answer v))
    = (if int (length (encode v)) > limit then plain_failure UpstreamProtocolFailure else Reply v)"
  using assms by (simp add: worker_json_def read_reply_def over_http_def worker_status_def is_success_def)

lemma bind_plain [simp]: "bind_reply (plain_failure c) f = plain_failure c"
  by (simp add: plain_failure_def)

lemma completion_dict [simp]: "is_dict (completion_json served q final c)"
  by (simp add: completion_json_def)

lemma adapter_reads_completion:
  assumes "loads_body (encode (completion_json served q final c)) = Some (completion_json served q final c)"
    and "0 \<le> served" and "0 \<le> elapsed" and "post (worker_request task) = over_http encode (Answer (completion_json served q final c))"
  shows "worker_generate loads_body limit post elapsed task = adapted encode limit served elapsed q final c"
proof (cases "int (length (encode (completion_json served q final c))) > limit")
  case True
  then show ?thesis using answered_json [of loads_body encode, OF assms(1)] assms(4) by (simp add: worker_generate_def adapted_def)
next
  case False
  have j: "worker_json loads_body limit ''generation'' (post (worker_request task)) = Reply (completion_json served q final c)"
    using answered_json [of loads_body encode, OF assms(1)] assms(4) False by simp
  have f: "dict_get (completion_json served q final c) ''text'' = Some (JStr (cp_text c))"
    "dict_get (completion_json served q final c) ''finish_reason'' = Some (JStr (finish_text (cp_finish_reason c)))"
    "dict_get (completion_json served q final c) ''latency_ms'' = Some (JFloat (served * 1000))"
    "dict_get (completion_json served q final c) ''usage'' = Some (JObj [(''input_tokens'', JInt (int (length (vo_prompt_token_ids final)))),
        (''output_tokens'', JInt (int (length (cp_token_ids c))))])"
    by (simp_all add: completion_json_def dict_get_def)
  have u: "dict_get (JObj [(''input_tokens'', a), (''output_tokens'', b)]) ''input_tokens'' = Some a"
    "dict_get (JObj [(''input_tokens'', a), (''output_tokens'', b)]) ''output_tokens'' = Some b" for a b
    by (simp_all add: dict_get_def)
  show ?thesis using assms(2,3) False by (simp add: worker_generate_def j f u adapted_def)
qed

text \<open>The response of the worker to what its engine did.\<close>

definition engine_response :: "rat \<Rightarrow> WorkerRequest \<Rightarrow> exn + request_output list \<Rightarrow> worker_response" where
  "engine_response served q r = (case r of
       Inl _ \<Rightarrow> Unhandled
     | Inr [] \<Rightarrow> HTTPException 502 ''Engine returned no output.''
     | Inr (o1 # os) \<Rightarrow> (case vo_outputs (last (o1 # os)) of
           [] \<Rightarrow> Unhandled
         | c # _ \<Rightarrow> Answer (completion_json served q (last (o1 # os)) c)))"

lemma adapter_reads_engine:
  assumes g: "generate_route worker served (worker_request task) = engine_response served q r"
    and law: "\<And>v. engine_response served q r = Answer v \<Longrightarrow> loads_body (encode v) = Some v"
    and "0 \<le> served" and "0 \<le> elapsed"
  shows "worker_generate loads_body limit (\<lambda>body. over_http encode (generate_route worker served body)) elapsed task =
      (case r of Inl _ \<Rightarrow> plain_failure GenerationFailure
       | Inr outs \<Rightarrow> if outs = [] \<or> vo_outputs (last outs) = [] then plain_failure GenerationFailure
              else adapted encode limit served elapsed q (last outs) (hd (vo_outputs (last outs))))"
proof (cases r)
  case (Inl e)
  then show ?thesis by (simp add: worker_generate_def g engine_response_def failing_status)
next
  case (Inr outs)
  show ?thesis
  proof (cases "outs = [] \<or> vo_outputs (last outs) = []")
    case True
    then show ?thesis using Inr by (cases outs) (simp_all add: worker_generate_def g engine_response_def failing_status)
  next
    case False
    then obtain o1 os c cs where o: "outs = o1 # os" "vo_outputs (last outs) = c # cs" by (cases outs; cases "vo_outputs (last outs)") auto
    then have a: "engine_response served q r = Answer (completion_json served q (last outs) c)"
      using Inr by (simp add: engine_response_def)
    then have "over_http encode (generate_route worker served (worker_request task)) = over_http encode (Answer (completion_json served q (last outs) c))"
      using g by simp
    then have "worker_generate loads_body limit (\<lambda>body. over_http encode (generate_route worker served body)) elapsed task
        = adapted encode limit served elapsed q (last outs) c"
      by (rule adapter_reads_completion [of loads_body encode served q "last outs" c, OF law [OF a] assms(3,4)])
    then show ?thesis using Inr False o by simp
  qed
qed

text \<open>C32. 
  The adapter and the worker keep one contract. When the answer is read back as it was written, a task sent through the
  adapter reaches the engine as its own prompt, or the chat template of its own messages, at its temperature, under its
  identifier and with its limit of tokens, 128 when it has none. The adapter returns the text of the last output with the
  lengths of the token lists as counts, or a typed failure: a template that raises and an engine that raises or yields
  nothing are a failed generation, and no answer raises in the adapter.
\<close>

theorem worker_contract:
  assumes "\<And>v. generate_route worker served (worker_request task) = Answer v \<Longrightarrow> loads_body (encode v) = Some v"
    and "0 \<le> served" and "0 \<le> elapsed" and "GenerationConfig_post_init (it_generation task) = Inr ()"
  shows "worker_generate loads_body limit (\<lambda>body. over_http encode (generate_route worker served body)) elapsed task =
    (case worker of
       None \<Rightarrow> plain_failure CapacityExceededFailure
     | Some v \<Rightarrow>
         (case prompt_of (nv_engine v) (it_input task) of
            Inl _ \<Rightarrow> plain_failure GenerationFailure
          | Inr prompt \<Rightarrow>
         (case ve_generate (nv_engine v) prompt (number_value (gc_temperature (it_generation task)))
             (case gc_max_output_tokens (it_generation task) of None \<Rightarrow> 128 | Some n \<Rightarrow> n) (tc_request_id (it_trace task)) of
            Inl _ \<Rightarrow> plain_failure GenerationFailure
          | Inr outs \<Rightarrow>
              if outs = [] \<or> vo_outputs (last outs) = [] then plain_failure GenerationFailure
              else adapted encode limit served elapsed (expected_request task) (last outs) (hd (vo_outputs (last outs))))))"
proof (cases worker)
  case None
  then show ?thesis by (simp add: worker_generate_def generate_route_def adapter_request_decoded failing_status)
next
  case (Some v)
  note worker = Some
  let ?q = "expected_request task"
  have "\<forall>n. gc_max_output_tokens (it_generation task) = Some n \<longrightarrow> \<not> n < 1"
    using assms(4) by (auto simp: GenerationConfig_post_init_def bind_r_eq_Inr)
  then have t: "token_limit (gn_max_output_tokens (wq_generation ?q)) = (case gc_max_output_tokens (it_generation task) of None \<Rightarrow> 128 | Some n \<Rightarrow> n)"
    by (auto simp: token_limit_def expected_request_def split: option.splits)
  have q: "gn_temperature (wq_generation ?q) = number_value (gc_temperature (it_generation task))" "wq_request_id ?q = tc_request_id (it_trace task)"
    by (simp_all add: expected_request_def)
  show ?thesis
  proof (cases "prompt_of (nv_engine v) (it_input task)")
    case (Inl e)
    then have "generate_route worker served (worker_request task) = Unhandled"
      by (simp add: generate_route_def adapter_request_decoded worker NativeVLLM_generate_def expected_prompt)
    then show ?thesis using worker Inl by (simp add: worker_generate_def failing_status)
  next
    case (Inr prompt)
    note prompt = Inr
    define r where "r = ve_generate (nv_engine v) prompt (number_value (gc_temperature (it_generation task)))
             (case gc_max_output_tokens (it_generation task) of None \<Rightarrow> 128 | Some n \<Rightarrow> n) (tc_request_id (it_trace task))"
    have g: "generate_route worker served (worker_request task) = engine_response served ?q r"
      by (simp only: generate_route_def adapter_request_decoded worker option.case NativeVLLM_generate_def expected_prompt prompt
          sum.case t q r_def engine_response_def)
    have "worker_generate loads_body limit (\<lambda>body. over_http encode (generate_route worker served body)) elapsed task =
      (case r of Inl _ \<Rightarrow> plain_failure GenerationFailure
       | Inr outs \<Rightarrow> if outs = [] \<or> vo_outputs (last outs) = [] then plain_failure GenerationFailure
              else adapted encode limit served elapsed ?q (last outs) (hd (vo_outputs (last outs))))"
      by (rule adapter_reads_engine [OF g assms(1) [unfolded g] assms(2,3)])
    then show ?thesis using worker prompt by (simp add: r_def)
  qed
qed

definition sample_vllm :: NativeVLLM where
  "sample_vllm = \<lparr>nv_model = ''m'', nv_revision = None, nv_engine = \<lparr>ve_apply_chat_template = (\<lambda>_. Inl (ValueError ''chat template'')),
     ve_generate = (\<lambda>prompt _ _ _. Inr [\<lparr>vo_prompt_token_ids = [1, 2], vo_outputs = [\<lparr>cp_text = prompt, cp_finish_reason = Some ''stop'',
       cp_token_ids = [7]\<rparr>]\<rparr>])\<rparr>\<rparr>"

definition sample_completion :: json where
  "sample_completion = completion_json 1 (expected_request sample_task) \<lparr>vo_prompt_token_ids = [1, 2], vo_outputs = []\<rparr>
     \<lparr>cp_text = ''hi'', cp_finish_reason = Some ''stop'', cp_token_ids = [7]\<rparr>"

theorem worker_contract_witness:
  "worker_generate (\<lambda>_. Some sample_completion) 100 (\<lambda>body. over_http (\<lambda>_. ''{}'') (generate_route (Some sample_vllm) 1 body)) 1 sample_task
    = Reply \<lparr>wr_text = ''hi'', wr_finish_reason = STOP, wr_input_tokens = Some (IntNum 2), wr_output_tokens = Some (IntNum 1),
        wr_total_ms = Some (FloatNum 1000)\<rparr>"
proof -
  let ?q = "expected_request sample_task"
  have e: "worker_prompt (nv_engine sample_vllm) (wq_input ?q) = Inr ''hi''" and p: "prompt_of (nv_engine sample_vllm) (it_input sample_task) = Inr ''hi''"
    by (simp_all add: expected_prompt prompt_of_def sample_task_def sample_packet_def)
  have o: "ve_generate (nv_engine sample_vllm) prompt t n i = Inr [\<lparr>vo_prompt_token_ids = [1, 2],
      vo_outputs = [\<lparr>cp_text = prompt, cp_finish_reason = Some ''stop'', cp_token_ids = [7]\<rparr>]\<rparr>]" for prompt t n i
    by (simp add: sample_vllm_def)
  have a: "x = sample_completion" if "generate_route (Some sample_vllm) 1 (worker_request sample_task) = Answer x" for x
    using that by (simp add: generate_route_def adapter_request_decoded NativeVLLM_generate_def e o sample_completion_def completion_json_def)
  have g: "GenerationConfig_post_init (it_generation sample_task) = Inr ()" by code_simp
  have f: "finish_reason_of (Some (JStr (finish_text (Some ''stop'')))) = STOP" by code_simp
  have "(\<lambda>_. Some sample_completion) ((\<lambda>_. ''{}'') v) = Some v"
    if "generate_route (Some sample_vllm) 1 (worker_request sample_task) = Answer v" for v
    using a [OF that] by simp
  from worker_contract [of "Some sample_vllm" 1 sample_task "\<lambda>_. Some sample_completion" "\<lambda>_. ''{}''" 1 100, OF this _ _ g]
  have "worker_generate (\<lambda>_. Some sample_completion) 100 (\<lambda>body. over_http (\<lambda>_. ''{}'') (generate_route (Some sample_vllm) 1 body)) 1 sample_task
    = adapted (\<lambda>_. ''{}'') 100 1 1 ?q \<lparr>vo_prompt_token_ids = [1, 2], vo_outputs = [\<lparr>cp_text = ''hi'',
        cp_finish_reason = Some ''stop'', cp_token_ids = [7]\<rparr>]\<rparr> \<lparr>cp_text = ''hi'',
        cp_finish_reason = Some ''stop'', cp_token_ids = [7]\<rparr>"
    by (simp add: o p)
  then show ?thesis by (simp add: adapted_def f)
qed
section \<open>Identity\<close>

text \<open>The adapter reports the model and the revision the worker was started with, and a deployment that is configured with
  exactly these is verified.\<close>

lemma same_model_verified:
  assumes "mo_model ob = m" and "\<not> mo_catalog_only ob"
  shows "ia_status (assess_model_identity (Some m) (Some ob)) = VERIFIED"
  using assms by (simp add: assess_model_identity_def identity_fields_def split: option.splits)

lemma worker_identity_verified:
  assumes "identity version (Some v) = Answer x" and "loads_body (encode x) = Some x" and "int (length (encode x)) \<le> limit"
    and "identifier_ok (nv_model v)" and "case nv_revision v of None \<Rightarrow> True | Some rv \<Rightarrow> identifier_ok rv"
  shows "\<exists>ob. worker_discover loads_body limit clk (over_http encode (identity version (Some v))) = Reply ob
    \<and> ia_status (assess_model_identity (Some \<lparr>artifact_id = nv_model v, revision = nv_revision v, served_name = None\<rparr>) (Some ob)) = VERIFIED"
proof -
  let ?m = "\<lparr>artifact_id = nv_model v, revision = nv_revision v, served_name = None\<rparr>"
  let ?ob = "\<lparr>mo_model = ?m, mo_observed_at = Aware clk, mo_source = ''vllm-worker:/ryuk/v1/identity'', mo_catalog_only = False\<rparr>"
  have x: "is_dict x" "dict_get x ''model_artifact_id'' = Some (JStr (nv_model v))" "dict_get x ''model_revision'' = Some (jopt JStr (nv_revision v))"
    using assms(1) by (auto simp: identity_def dict_get_def)
  have j: "worker_json loads_body limit ''identity'' (over_http encode (identity version (Some v))) = Reply x"
    using answered_json [of loads_body encode, OF assms(2) x(1)] assms(1,3) by simp
  have n: "nv_model v \<noteq> []" using assms(4) by (simp add: identifier_ok_def)
  have "identifier_ok ''vllm-worker:/ryuk/v1/identity''" by (simp add: identifier_ok_iff py_space_def)
  then have o: "observation_of ?m clk ''vllm-worker:/ryuk/v1/identity'' = Reply ?ob"
    using assms(4,5) by (simp add: observation_of_def checked_def ModelRef_post_init_def require_identifier_def
        validate_optional_identifier_def ModelIdentityObservation_post_init_def split: option.splits)
  have "worker_discover loads_body limit clk (over_http encode (identity version (Some v))) = Reply ?ob"
    using n o by (cases "nv_revision v") (simp_all add: worker_discover_def j x)
  moreover have "ia_status (assess_model_identity (Some ?m) (Some ?ob)) = VERIFIED" by (rule same_model_verified) simp_all
  ultimately show ?thesis by blast
qed

end
