(* ===== verification/Rendering.thy ===== *)
theory Rendering
  imports ApiTheorems
begin

text \<open>
  What \<open>src/backend/main.py\<close> answers with: the JSON of results, capabilities and runtime states, the listing of the
  deployments, and the handlers that turn failures into responses. Times in the states of deployments are aware.
\<close>

section \<open>Failures\<close>

fun public_message :: "failure_class \<Rightarrow> string" where
  "public_message InferenceFailure = ''Inference failed.''"
| "public_message ConfigurationFailure = ''Inference service configuration is invalid.''"
| "public_message IdentityMismatchFailure = ''The deployment model identity does not match configuration.''"
| "public_message DeploymentUnavailableFailure = ''No inference deployment is currently available.''"
| "public_message UnsupportedTaskFailure = ''The selected deployment does not support this task.''"
| "public_message CapabilityMismatchFailure = ''No deployment satisfies the task requirements.''"
| "public_message CapacityExceededFailure = ''The inference deployment has no available capacity.''"
| "public_message DeadlineExceededFailure = ''The inference deadline was exceeded.''"
| "public_message AsynchronousResultPendingFailure = ''Inference was accepted asynchronously and remains pending.''"
| "public_message WorkflowBudgetExceededFailure = ''The workflow execution budget was exceeded.''"
| "public_message UpstreamProtocolFailure = ''The inference deployment returned an invalid response.''"
| "public_message GenerationFailure = ''The inference deployment failed to generate a result.''"
| "public_message CancelledFailure = ''Inference was cancelled.''"
| "public_message UnknownEnginePreferenceFailure = ''The requested inference engine is not registered.''"

fun RejectionReason_value :: "RejectionReason \<Rightarrow> string" where
  "RejectionReason_value UNKNOWN = ''unknown''"
| "RejectionReason_value UNSUPPORTED = ''unsupported''"
| "RejectionReason_value MISMATCHED = ''mismatched''"
| "RejectionReason_value INSUFFICIENT = ''insufficient''"

definition rejection_json :: "string \<times> ConstraintRejection \<Rightarrow> json" where
  "rejection_json r = JObj [(''deployment_id'', JStr (fst r)), (''code'', JStr (rj_code (snd r))),
     (''requirement'', JStr (rj_requirement (snd r))), (''reason'', JStr (RejectionReason_value (rj_reason (snd r))))]"

text \<open>The rejections are in the context of a capability mismatch the router raised.\<close>

definition public_payload :: "failure_class \<Rightarrow> (string \<times> ConstraintRejection) list option \<Rightarrow> string \<Rightarrow> json" where
  "public_payload c rejections request_id = JObj
     ([(''code'', JStr (failure_code c)), (''message'', JStr (public_message c)), (''retryable'', JBool (failure_retryable c)),
       (''request_id'', JStr request_id)]
      @ (case rejections of
           Some rs \<Rightarrow> if c = CapabilityMismatchFailure then [(''rejections'', JArr (map rejection_json rs))] else []
         | None \<Rightarrow> []))"

record json_response =
  jr_status :: int
  jr_headers :: "(string \<times> string) list"
  jr_content :: json

definition inference_failure_handler :: "failure_class \<Rightarrow> (string \<times> ConstraintRejection) list option \<Rightarrow> string \<Rightarrow> json_response" where
  "inference_failure_handler c rejections request_id =
     \<lparr>jr_status = failure_http_status c, jr_headers = [], jr_content = JObj [(''error'', public_payload c rejections request_id)]\<rparr>"

definition control_plane_failure_handler :: "int \<Rightarrow> string \<Rightarrow> string \<Rightarrow> string \<Rightarrow> json_response" where
  "control_plane_failure_handler status code message request_id =
     \<lparr>jr_status = status, jr_headers = (if status = 401 then [(''WWW-Authenticate'', ''Bearer'')] else []),
      jr_content = JObj [(''error'', JObj [(''code'', JStr code), (''message'', JStr message), (''request_id'', JStr request_id)])]\<rparr>"

text \<open>The handlers FastAPI finds for what a route raises; for the rest it finds none.\<close>

definition handled :: "string \<Rightarrow> api_error \<Rightarrow> json_response option" where
  "handled request_id e =
     (case e of
        ControlPlaneFailure status code message \<Rightarrow> Some (control_plane_failure_handler status code message request_id)
      | RouterRaised rf \<Rightarrow> Some (inference_failure_handler (fl_class (rf_failure rf)) (Some (rf_rejections rf)) request_id)
      | RouterFailure f \<Rightarrow> Some (inference_failure_handler (fl_class f) None request_id)
      | _ \<Rightarrow> None)"

section \<open>Results\<close>

definition routing_decision_json :: "RoutingDecision \<Rightarrow> json" where
  "routing_decision_json d = JObj
     [(''policy_version'', JStr (rd_policy_version d)),
      (''ordered_deployment_ids'', JArr (map JStr (rd_ordered_deployment_ids d))),
      (''candidates'', JArr (map (\<lambda>c. JObj
         [(''deployment_id'', JStr (rs_deployment_id c)), (''total'', JInt (rs_total c)),
          (''components'', JObj (map (\<lambda>(k, n). (k, JInt n)) (rs_components c))),
          (''explanation'', JArr (map JStr (rs_explanation c)))]) (rd_candidates d)))]"

text \<open>The metadata of the adapter is passed through; how it prints is the argument \<open>md\<close>.\<close>

definition serialize_inference_result :: "pylib \<Rightarrow> (metadata \<Rightarrow> json) \<Rightarrow> InferenceResult \<Rightarrow> json" where
  "serialize_inference_result L md res =
     (let p = re_provenance res in JObj
     [(''text'', JStr (re_text res)), (''model'', jopt JStr (dp_model_artifact_id p)), (''engine'', JStr (dp_engine_name p)),
      (''latency_ms'', jopt JFloat (re_total_ms res)), (''input_tokens'', jopt JInt (tu_input_tokens (re_usage res))),
      (''output_tokens'', jopt JInt (tu_output_tokens (re_usage res))), (''metadata'', md (re_metadata res)),
      (''finish_reason'', JStr (FinishReason_value (re_finish_reason res))),
      (''attempts'', JArr (map (serialize_attempt L) (re_attempts res))),
      (''routing_decision'', jopt routing_decision_json (re_routing_decision res)),
      (''provenance'', JObj
         [(''deployment_id'', JStr (dp_deployment_id p)), (''engine_name'', JStr (dp_engine_name p)),
          (''engine_version'', jopt JStr (dp_engine_version p)), (''serving_runtime'', jopt JStr (dp_serving_runtime p)),
          (''model_artifact_id'', jopt JStr (dp_model_artifact_id p)), (''model_revision'', jopt JStr (dp_model_revision p)),
          (''model_verification'', JStr (IdentityVerification_value (dp_model_verification p)))])])"

section \<open>Deployments\<close>

fun TaskKind_value :: "TaskKind \<Rightarrow> string" where
  "TaskKind_value TEXT = ''text''"
| "TaskKind_value CHAT = ''chat''"

fun EvidenceSource_value :: "EvidenceSource \<Rightarrow> string" where
  "EvidenceSource_value DECLARED = ''declared''"
| "EvidenceSource_value CONFIGURED = ''configured''"
| "EvidenceSource_value DISCOVERED = ''discovered''"
| "EvidenceSource_value MEASURED = ''measured''"

definition claim_json :: "pylib \<Rightarrow> ('a \<Rightarrow> json) \<Rightarrow> 'a CapabilityClaim option \<Rightarrow> json" where
  "claim_json L f given = jopt (\<lambda>c. JObj
     [(''value'', f (cc_value c)), (''source'', JStr (EvidenceSource_value (cc_source c))), (''scope'', JStr (cc_scope c)),
      (''runtime_version'', jopt JStr (cc_runtime_version c)),
      (''observed_at'', jopt (JStr \<circ> isoformat L \<circ> instant_of) (cc_observed_at c)),
      (''expires_at'', jopt (JStr \<circ> isoformat L \<circ> instant_of) (cc_expires_at c)),
      (''confidence'', JFloat (cc_confidence c))]) given"

definition sorted_texts :: "string set \<Rightarrow> json" where
  "sorted_texts s = JArr (map JStr (sorted_list_of_set s))"

definition serialize_capabilities :: "pylib \<Rightarrow> DeploymentCapabilities \<Rightarrow> json" where
  "serialize_capabilities L c = JObj
     [(''task_kinds'', claim_json L (sorted_texts \<circ> image TaskKind_value) (dc_task_kinds c)),
      (''served_models'', claim_json L sorted_texts (dc_served_models c)),
      (''max_context_tokens'', claim_json L JInt (dc_max_context_tokens c)),
      (''structured_output'', claim_json L JBool (dc_structured_output c)),
      (''streaming'', claim_json L JBool (dc_streaming c)),
      (''accelerators'', claim_json L sorted_texts (dc_accelerators c)),
      (''topologies'', claim_json L sorted_texts (dc_topologies c)),
      (''data_locations'', claim_json L sorted_texts (dc_data_locations c)),
      (''production_eligible'', claim_json L JBool (dc_production_eligible c))]"

fun Liveness_value :: "Liveness \<Rightarrow> string" where
  "Liveness_value LIVE_UNKNOWN = ''unknown''"
| "Liveness_value UP = ''up''"
| "Liveness_value DOWN = ''down''"

fun Readiness_value :: "Readiness \<Rightarrow> string" where
  "Readiness_value READINESS_UNKNOWN = ''unknown''"
| "Readiness_value ENGINE_READY = ''ready''"
| "Readiness_value NOT_READY = ''not_ready''"

fun AdmissionState_value :: "AdmissionState \<Rightarrow> string" where
  "AdmissionState_value ADMISSION_UNKNOWN = ''unknown''"
| "AdmissionState_value ACCEPTING = ''accepting''"
| "AdmissionState_value REJECTING = ''rejecting''"

fun CapacityState_value :: "CapacityState \<Rightarrow> string" where
  "CapacityState_value CAPACITY_UNKNOWN = ''unknown''"
| "CapacityState_value AVAILABLE = ''available''"
| "CapacityState_value EXHAUSTED = ''exhausted''"

definition serialize_runtime_state :: "pylib \<Rightarrow> instant \<Rightarrow> DeploymentRuntimeState \<Rightarrow> json" where
  "serialize_runtime_state L clk s = JObj
     [(''liveness'', JStr (Liveness_value (rs_liveness s))), (''readiness'', JStr (Readiness_value (rs_readiness s))),
      (''admission'', JStr (AdmissionState_value (rs_admission s))), (''capacity'', JStr (CapacityState_value (rs_capacity s))),
      (''observed_at'', jopt (JStr \<circ> isoformat L) (rs_observed_at s)), (''expires_at'', jopt (JStr \<circ> isoformat L) (rs_expires_at s)),
      (''stale'', JBool (is_stale clk s)), (''probe_latency_ms'', jopt JFloat (rs_probe_latency_ms s)),
      (''probe_error'', jopt JStr (rs_probe_error s)),
      (''summary'', let su = rs_summary s in JObj
         [(''attempt_count'', JInt (su_attempt_count su)), (''failure_count'', JInt (su_failure_count su)),
          (''recent_failure_rate'', jopt JFloat (su_recent_failure_rate su)),
          (''last_attempt_latency_ms'', jopt JFloat (su_last_attempt_latency_ms su)),
          (''last_failure_code'', jopt JStr (su_last_failure_code su))])]"

text \<open>An entry of the listing; the clock is read for the availability and again for the age of the state.\<close>

definition engine_entry :: "pylib \<Rightarrow> instant \<Rightarrow> instant \<Rightarrow> RuntimeStateStore \<Rightarrow> RegisteredDeployment \<Rightarrow> json" where
  "engine_entry L now1 now2 states r =
     (let s = get_state states (rg_id r) in JObj
     [(''name'', JStr (eng_name (rg_engine r))), (''deployment_id'', JStr (rg_id r)),
      (''configured_model'', jopt (JStr \<circ> artifact_id) (dr_model (rg_ref r))), (''available'', JBool (is_routable now1 s)),
      (''identity'', JNull), (''capabilities'', serialize_capabilities L (rg_capabilities r)),
      (''runtime'', serialize_runtime_state L now2 s)])"

definition inference_engines ::
    "pylib \<Rightarrow> ('e, 's, 'r) APIControlPlane \<Rightarrow> DeploymentRegistry \<Rightarrow> RuntimeStateStore \<Rightarrow> (string \<Rightarrow> instant \<times> instant) \<Rightarrow>
       'e request \<Rightarrow> Principal \<Rightarrow> ('s, 'r, json) action" where
  "inference_engines L P reg states clk q who =
     guarded P q who ''deployment.status'' 0
       (\<lambda>r. [(''deployment_count'', JInt (case r of Inl _ \<Rightarrow> 0 | Inr _ \<Rightarrow> int (length (all_deployments reg))))])
       (\<lambda>w. let es = map (\<lambda>r. engine_entry L (fst (clk (rg_id r))) (snd (clk (rg_id r))) states r) (all_deployments reg) in
            (w, Inr (JObj [(''count'', JInt (int (length es))), (''engines'', JArr es)])))"

section \<open>What an answer shows\<close>

text \<open>A failure shows its class, and for a capability mismatch the rejections: two failures that agree there are answered
  alike, whatever deployments, attempts and contexts they carry.\<close>

lemma failures_answered_alike:
  assumes "fl_class (rf_failure f) = fl_class (rf_failure g)" and "fl_class (rf_failure f) = CapabilityMismatchFailure \<longrightarrow> rf_rejections f = rf_rejections g"
  shows "handled i (RouterRaised f) = handled i (RouterRaised g)"
  using assms by (auto simp: handled_def inference_failure_handler_def public_payload_def)

lemma authentication_challenged:
  "handled i (ControlPlaneFailure status code message) = Some r \<Longrightarrow> (''WWW-Authenticate'', ''Bearer'') \<in> set (jr_headers r) \<longleftrightarrow> status = 401"
  by (auto simp: handled_def control_plane_failure_handler_def)

text \<open>A deployment is listed as available only on fresh evidence, and a deployment no probe has reported on never is.\<close>

lemma listed_available:
  assumes "dict_get (engine_entry L now1 now2 states r) ''available'' = Some (JBool True)"
  shows "\<exists>s ex. map_of (st_states states) (rg_id r) = Some s \<and> rs_expires_at s = Some ex \<and> now1 < ex \<and> rs_liveness s = UP \<and> rs_readiness s = ENGINE_READY"
proof -
  have "is_routable now1 (get_state states (rg_id r))" using assms by (simp add: engine_entry_def Let_def dict_get_def)
  then show ?thesis
    by (auto simp: is_routable_def is_stale_def get_state_def DeploymentRuntimeState_default_def split: option.splits)
qed

lemma engines_listed:
  assumes "inference_engines L P reg states clk q who w = (w', Inr v)"
  shows "dict_get v ''engines'' = Some (JArr (map (\<lambda>r. engine_entry L (fst (clk (rg_id r))) (snd (clk (rg_id r))) states r) (all_deployments reg)))
    \<and> dict_get v ''count'' = Some (JInt (int (length (all_deployments reg)))) \<and> wo_store w' = wo_store w"
proof -
  define es where "es = map (\<lambda>r. engine_entry L (fst (clk (rg_id r))) (snd (clk (rg_id r))) states r) (all_deployments reg)"
  define body where "body = (\<lambda>w :: ('a, 'b) world. (w, Inr (JObj [(''count'', JInt (int (length es))), (''engines'', JArr es)]) :: api_error + json))"
  obtain s ok where a: "co_admit (ap_admission P) (hr_admit_env q) (pr_tenant_id who) 0 (wo_admission w) = (s, ok)" by fastforce
  have g: "guarded P q who ''deployment.status'' 0
       (\<lambda>r. [(''deployment_count'', JInt (case r of Inl _ \<Rightarrow> 0 | Inr _ \<Rightarrow> int (length (all_deployments reg))))]) body w = (w', Inr v)"
    using assms by (simp add: inference_engines_def Let_def body_def es_def)
  from guarded_cases [OF g a] have "v = JObj [(''count'', JInt (int (length es))), (''engines'', JArr es)] \<and> wo_store w' = wo_store w"
    by (cases ok) (auto simp: body_def)
  then show ?thesis by (simp add: dict_get_def es_def)
qed

end
