(* ===== verification/Advanced.thy ===== *)
theory Advanced
  imports Validation "HOL-Library.Product_Lexorder" "HOL-Library.Multiset"
begin

text \<open>
  The contracts of the advanced tasks (\<open>src/backend/inference/advanced.py\<close>): structured and tool generation, images,
  embeddings, reranking, streams. \<open>validate_json_schema\<close> is in \<open>Validation\<close>. Whether a bracketed host is an address of
  version 6 is decided by \<open>ipaddress\<close>, the argument \<open>bracketed_ok\<close>.
\<close>

section \<open>Capabilities\<close>

datatype AdvancedTaskKind =
    STRUCTURED_GENERATION | TOOL_GENERATION | MULTIMODAL_GENERATION | EMBEDDING | RERANK

record AdvancedCapabilityProfile =
  av_task_kinds :: "AdvancedTaskKind set"
  av_streaming :: bool
  av_cancellation :: bool
  av_structured_output :: bool
  av_tool_calls :: bool
  av_image_media_types :: "string set"

definition advanced_capability_rejections ::
    "AdvancedCapabilityProfile \<Rightarrow> AdvancedTaskKind \<Rightarrow> bool \<Rightarrow> bool \<Rightarrow> string set \<Rightarrow> string list" where
  "advanced_capability_rejections profile task_kind needs_streaming needs_cancellation image_media_types =
     (if task_kind \<notin> av_task_kinds profile then [''unsupported_task_kind''] else [])
     @ (if needs_streaming \<and> \<not> av_streaming profile then [''unsupported_streaming''] else [])
     @ (if needs_cancellation \<and> \<not> av_cancellation profile then [''unsupported_cancellation''] else [])
     @ (if task_kind = STRUCTURED_GENERATION \<and> \<not> av_structured_output profile then [''unsupported_structured_output''] else [])
     @ (if task_kind = TOOL_GENERATION \<and> \<not> av_tool_calls profile then [''unsupported_tool_calls''] else [])
     @ (if \<not> image_media_types \<subseteq> av_image_media_types profile then [''unsupported_image_media_type''] else [])"

section \<open>Tools\<close>

record ToolDefinition =
  td_name :: string
  td_description :: string
  td_arguments :: json

text \<open>\<open>str.isalnum\<close> holds of a text that is not empty; below 256 its characters are the word characters less the underscore.\<close>

definition isalnum :: "string \<Rightarrow> bool" where
  "isalnum s \<longleftrightarrow> s \<noteq> [] \<and> list_all (\<lambda>c. word_char c \<and> c \<noteq> CHR ''_'') s"

definition ToolDefinition_post_init :: "ToolDefinition \<Rightarrow> exn + unit" where
  "ToolDefinition_post_init t =
     bind_r (require (\<not> (td_name t = [] \<or> \<not> isalnum (filter (\<lambda>c. c \<noteq> CHR ''_'') (td_name t))))
       (ValueError ''Tool names must be non-empty alphanumeric identifiers.'')) (\<lambda>_.
     require (strip (td_description t) \<noteq> []) (ValueError ''Tool descriptions must not be blank.''))"

record ToolCall =
  tl_call_id :: string
  tl_tool_name :: string
  tl_arguments :: "(string \<times> json) list"

section \<open>Images\<close>

record ImageInput =
  ii_media_type :: string
  ii_uri :: string

text \<open>\<open>urlparse\<close>, as far as the scheme and the network location.\<close>

definition scheme_char :: "char \<Rightarrow> bool" where
  "scheme_char c = (let n = (of_char c :: nat) in
     65 \<le> n \<and> n \<le> 90 \<or> 97 \<le> n \<and> n \<le> 122 \<or> 48 \<le> n \<and> n \<le> 57 \<or> c \<in> {CHR ''+'', CHR ''-'', CHR ''.''})"

definition ascii_alpha :: "char \<Rightarrow> bool" where
  "ascii_alpha c = (let n = (of_char c :: nat) in 65 \<le> n \<and> n \<le> 90 \<or> 97 \<le> n \<and> n \<le> 122)"

definition url_scheme :: "string \<Rightarrow> string \<times> string" where
  "url_scheme url =
     (let before = takeWhile (\<lambda>c. c \<noteq> CHR '':'') url in
      if length before < length url \<and> before \<noteq> [] \<and> ascii_alpha (hd before) \<and> list_all scheme_char before
      then (lower before, drop (Suc (length before)) url)
      else ([], url))"

definition urlparse :: "(string \<Rightarrow> bool) \<Rightarrow> string \<Rightarrow> exn + string \<times> string" where
  "urlparse bracketed_ok uri =
     (let url = filter (\<lambda>c. (of_char c :: nat) \<notin> {9, 10, 13}) (dropWhile (\<lambda>c. (of_char c :: nat) \<le> 32) uri) in
      case url_scheme url of (scheme, rest) \<Rightarrow>
      let netloc = (if take 2 rest = ''//'' then takeWhile (\<lambda>c. c \<notin> {CHR ''/'', CHR ''?'', CHR ''#''}) (drop 2 rest) else []);
          opened = CHR ''['' \<in> set netloc; closed = CHR '']'' \<in> set netloc in
      bind_r (require (opened = closed \<and> (opened \<longrightarrow> bracketed_ok netloc)) (ValueError ''Invalid IPv6 URL'')) (\<lambda>_.
      Inr (scheme, netloc)))"

text \<open>\<open>username\<close> is \<open>None\<close> unless the location has an at sign.\<close>

definition ImageInput_post_init :: "(string \<Rightarrow> bool) \<Rightarrow> ImageInput \<Rightarrow> exn + unit" where
  "ImageInput_post_init bracketed_ok i =
     bind_r (require (ii_media_type i \<in> {''image/jpeg'', ''image/png'', ''image/webp''}) (ValueError ''Unsupported image media type.'')) (\<lambda>_.
     bind_r (urlparse bracketed_ok (ii_uri i)) (\<lambda>(scheme, netloc).
     require (\<not> (scheme \<noteq> ''https'' \<or> netloc = [] \<or> CHR ''@'' \<in> set netloc))
       (ValueError ''Images require an HTTPS object URI without credentials.'')))"

record MultimodalInput =
  mi_text :: string
  mi_images :: "ImageInput list"

definition MultimodalInput_post_init :: "MultimodalInput \<Rightarrow> exn + unit" where
  "MultimodalInput_post_init m =
     bind_r (require (\<not> (strip (mi_text m) = [] \<or> mi_images m = []))
       (ValueError ''Multimodal input requires text and at least one image.'')) (\<lambda>_.
     require (\<not> length (mi_images m) > 8) (ValueError ''At most eight images are allowed per task.''))"

section \<open>Embeddings\<close>

record EmbeddingTask =
  et_texts :: "string list"
  et_model :: string

definition EmbeddingTask_post_init :: "EmbeddingTask \<Rightarrow> exn + unit" where
  "EmbeddingTask_post_init t =
     bind_r (require (\<not> (et_texts t = [] \<or> length (et_texts t) > 256))
       (ValueError ''Embedding batches must contain between 1 and 256 texts.'')) (\<lambda>_.
     require (\<not> (list_ex (\<lambda>v. strip v = []) (et_texts t) \<or> strip (et_model t) = []))
       (ValueError ''Embedding text and model values must not be blank.''))"

record EmbeddingResult =
  eb_vectors :: "rat list list"
  eb_model :: string

definition EmbeddingResult_post_init :: "EmbeddingResult \<Rightarrow> exn + unit" where
  "EmbeddingResult_post_init r =
     bind_r (require (\<not> (eb_vectors r = [] \<or> list_ex (\<lambda>v. v = []) (eb_vectors r)))
       (ValueError ''Embedding vectors must not be empty.'')) (\<lambda>_.
     require (card (set (map length (eb_vectors r))) = 1) (ValueError ''All embedding vectors must have equal dimensions.''))"

section \<open>Reranking\<close>

record RerankTask =
  rk_query :: string
  rk_documents :: "string list"
  rk_model :: string
  rk_top_n :: "int option"

definition RerankTask_post_init :: "RerankTask \<Rightarrow> exn + unit" where
  "RerankTask_post_init t =
     bind_r (require (\<not> (strip (rk_query t) = [] \<or> strip (rk_model t) = [] \<or> rk_documents t = []))
       (ValueError ''Reranking requires a query, model, and documents.'')) (\<lambda>_.
     bind_r (require (\<not> list_ex (\<lambda>v. strip v = []) (rk_documents t)) (ValueError ''Reranking documents must not be blank.'')) (\<lambda>_.
     require (case rk_top_n t of None \<Rightarrow> True | Some n \<Rightarrow> 1 \<le> n \<and> n \<le> int (length (rk_documents t)))
       (ValueError ''top_n must fit the document collection.'')))"

record RerankItem =
  ri_document_index :: int
  ri_score :: rat

record RerankResult =
  rr_items :: "RerankItem list"
  rr_model :: string

definition rerank_key :: "RerankItem \<Rightarrow> rat \<times> int" where
  "rerank_key i = (- ri_score i, ri_document_index i)"

definition RerankResult_post_init :: "RerankResult \<Rightarrow> exn + unit" where
  "RerankResult_post_init r =
     require (sort_key rerank_key (rr_items r) = rr_items r) (ValueError ''Rerank results must have deterministic descending order.'')"

section \<open>Streams and cancellation\<close>

datatype StreamEventKind = START_EVENT | DELTA_EVENT | END_EVENT

record InferenceStreamEvent =
  sv_sequence :: int
  sv_kind :: StreamEventKind
  sv_text_delta :: string

definition InferenceStreamEvent_post_init :: "InferenceStreamEvent \<Rightarrow> exn + unit" where
  "InferenceStreamEvent_post_init e =
     bind_r (require (\<not> sv_sequence e < 0) (ValueError ''Stream sequence cannot be negative.'')) (\<lambda>_.
     bind_r (require (\<not> (sv_kind e = DELTA_EVENT \<and> sv_text_delta e = [])) (ValueError ''Delta events require text.'')) (\<lambda>_.
     require (\<not> (sv_kind e \<noteq> DELTA_EVENT \<and> sv_text_delta e \<noteq> [])) (ValueError ''Only delta events may carry text.'')))"

text \<open>The event of a token: \<open>wait\<close> returns at once when it is set and is suspended otherwise.\<close>

type_synonym CancellationToken = bool

definition CancellationToken_init :: CancellationToken where
  "CancellationToken_init = False"

definition cancel_token :: "CancellationToken \<Rightarrow> CancellationToken" where
  "cancel_token token = True"

definition token_cancelled :: "CancellationToken \<Rightarrow> bool" where
  "token_cancelled token = token"

definition token_wait :: "CancellationToken \<Rightarrow> unit option" where
  "token_wait token = (if token then Some () else None)"

section \<open>Properties\<close>

lemma rerank_key_inj: "inj rerank_key"
  by (rule injI) (simp add: rerank_key_def)

lemma filter_same: "filter ((=) x) xs = replicate (count (mset xs) x) x"
  by (induction xs) auto

text \<open>
  The order of a reranking is no choice of the provider: two accepted results with the same items, in whatever orders a
  provider returned them, are the same list, and it falls in score and then rises in the index of the document.
\<close>

theorem rerank_order_unique:
  assumes "RerankResult_post_init r = Inr ()" and "RerankResult_post_init r' = Inr ()" and "mset (rr_items r) = mset (rr_items r')"
  shows "rr_items r = rr_items r' \<and> sorted (map rerank_key (rr_items r))"
proof -
  have s: "sort_key rerank_key (rr_items r) = rr_items r" "sort_key rerank_key (rr_items r') = rr_items r'"
    using assms(1,2) by (simp_all add: RerankResult_post_init_def)
  have "sort_key rerank_key (rr_items r) = rr_items r'"
    by (rule properties_for_sort_key)
      (use assms(3) s(2) sorted_sort_key [of rerank_key "rr_items r'"] in \<open>auto simp: inj_on_def inj_eq [OF rerank_key_inj] filter_same\<close>)
  then show ?thesis using s sorted_sort_key [of rerank_key "rr_items r"] by simp
qed

theorem rerank_order_unique_witness:
  "sorted (map rerank_key [\<lparr>ri_document_index = 1, ri_score = 2\<rparr>, \<lparr>ri_document_index = 0, ri_score = 1\<rparr>])"
  using rerank_order_unique [of "\<lparr>rr_items = [\<lparr>ri_document_index = 1, ri_score = 2\<rparr>, \<lparr>ri_document_index = 0, ri_score = 1\<rparr>], rr_model = ''m''\<rparr>"
      "\<lparr>rr_items = [\<lparr>ri_document_index = 1, ri_score = 2\<rparr>, \<lparr>ri_document_index = 0, ri_score = 1\<rparr>], rr_model = ''m''\<rparr>"]
  by (simp add: RerankResult_post_init_def rerank_key_def)

text \<open>An accepted image is fetched over HTTPS from a host, without credentials.\<close>

lemma image_location:
  assumes "ImageInput_post_init b i = Inr ()"
  shows "\<exists>netloc. urlparse b (ii_uri i) = Inr (''https'', netloc) \<and> netloc \<noteq> [] \<and> CHR ''@'' \<notin> set netloc
    \<and> CHR ''/'' \<notin> set netloc"
  using assms by (auto simp: ImageInput_post_init_def urlparse_def Let_def bind_r_eq_Inr dest: set_takeWhileD split: prod.splits)

end
