(* ===== verification/Profiles.thy ===== *)
theory Profiles
  imports Packets
begin

text \<open>
  Offline deployment profiles (\<open>src/backend/inference/profiles.py\<close>): evidence about models that have not been deployed. A
  profile is given with the declared types; addresses and dates are texts. What pydantic is declared to check of the fields
  and the two validators are below; reading a file is the argument \<open>read\<close>.
\<close>

datatype ProfileStatus = OFFLINE_CANDIDATE | CERTIFIED | PROFILE_REJECTED

datatype DeploymentMode = HOSTED | SELF_HOSTED

datatype EvidenceLevel = ADVERTISED | CONTRACT_TESTED | EVIDENCE_OBSERVED | EVIDENCE_VERIFIED | EVIDENCE_UNKNOWN

text \<open>The value of a claim is a text, a number, a boolean, or null.\<close>

record ProfileClaim =
  pc_name :: string
  pc_value :: json
  pc_evidence :: EvidenceLevel
  pc_source :: "string option"

definition ProfileClaim_fields :: "ProfileClaim \<Rightarrow> bool" where
  "ProfileClaim_fields c \<longleftrightarrow> pc_name c \<noteq> [] \<and> \<not> is_dict (pc_value c) \<and> (case pc_value c of JArr _ \<Rightarrow> False | _ \<Rightarrow> True)"

definition validate_evidence :: "ProfileClaim \<Rightarrow> exn + unit" where
  "validate_evidence c =
     (if pc_evidence c = EVIDENCE_UNKNOWN
      then require (\<not> (pc_value c \<noteq> JNull \<or> pc_source c \<noteq> None)) (ValueError ''Unknown claims cannot carry a value or source.'')
      else require (\<not> (pc_value c = JNull \<or> pc_source c = None)) (ValueError ''Known claims require both a value and source.''))"

record OfflineDeploymentProfile =
  of_schema_version :: int
  of_profile_id :: string
  of_status :: ProfileStatus
  of_provider :: string
  of_deployment_mode :: DeploymentMode
  of_base_url :: string
  of_generation_path :: string
  of_adapter_name :: string
  of_model_artifact_id :: string
  of_model_revision :: "string option"
  of_served_model_name :: string
  of_runtime_identity :: "string option"
  of_hardware_identity :: "string option"
  of_image_digest :: "string option"
  of_production_eligible :: bool
  of_contract_checked_on :: string
  of_sources :: "string list"
  of_claims :: "ProfileClaim list"

definition OfflineDeploymentProfile_fields :: "OfflineDeploymentProfile \<Rightarrow> bool" where
  "OfflineDeploymentProfile_fields p \<longleftrightarrow>
     of_schema_version p = 1 \<and> of_profile_id p \<noteq> [] \<and> of_provider p \<noteq> [] \<and> take 1 (of_generation_path p) = ''/''
     \<and> of_adapter_name p \<noteq> [] \<and> of_model_artifact_id p \<noteq> [] \<and> of_served_model_name p \<noteq> []
     \<and> of_sources p \<noteq> [] \<and> of_claims p \<noteq> [] \<and> list_all ProfileClaim_fields (of_claims p)"

definition validate_offline_profile :: "OfflineDeploymentProfile \<Rightarrow> exn + unit" where
  "validate_offline_profile p =
     bind_r (require (of_status p = OFFLINE_CANDIDATE) (ValueError ''Offline profiles must remain offline candidates.'')) (\<lambda>_.
     bind_r (require (\<not> of_production_eligible p) (ValueError ''Offline profiles cannot be production eligible.'')) (\<lambda>_.
     bind_r (require (\<not> (of_deployment_mode p = HOSTED
           \<and> list_ex (\<lambda>v. v \<noteq> None) [of_runtime_identity p, of_hardware_identity p, of_image_digest p]))
       (ValueError ''Hosted offline profiles cannot invent runtime, hardware, or image identity.'')) (\<lambda>_.
     bind_r (require (case of_model_revision p of None \<Rightarrow> True | Some rv \<Rightarrow> \<not> (strip rv = [] \<or> rv \<noteq> strip rv))
       (ValueError ''Model revision must be absent or a clean identifier.'')) (\<lambda>_.
     bind_r (require (distinct (map pc_name (of_claims p))) (ValueError ''Profile claim names must be unique.'')) (\<lambda>_.
     require (distinct (of_sources p)) (ValueError ''Profile sources must be unique.''))))))"

text \<open>\<open>model_validate_json\<close>: the fields, the validator of every claim, the validator of the profile.\<close>

definition profile_validate :: "OfflineDeploymentProfile \<Rightarrow> exn + unit" where
  "profile_validate p =
     bind_r (require (OfflineDeploymentProfile_fields p) (ValueError ''fields'')) (\<lambda>_.
     bind_r (each validate_evidence (of_claims p)) (\<lambda>_.
     validate_offline_profile p))"

definition load_offline_deployment_profile ::
    "(string \<Rightarrow> exn + OfflineDeploymentProfile) \<Rightarrow> string \<Rightarrow> exn + OfflineDeploymentProfile" where
  "load_offline_deployment_profile read path = bind_r (read path) (\<lambda>p. bind_r (profile_validate p) (\<lambda>_. Inr p))"

definition load_offline_deployment_profiles ::
    "(string \<Rightarrow> exn + OfflineDeploymentProfile) \<Rightarrow> string list \<Rightarrow> exn + OfflineDeploymentProfile list" where
  "load_offline_deployment_profiles read paths =
     bind_r (traverse (load_offline_deployment_profile read) (sort paths)) (\<lambda>profiles.
     bind_r (require (distinct (map of_profile_id profiles)) (ValueError ''Deployment profile identifiers must be unique.'')) (\<lambda>_.
     bind_r (require (distinct (map of_served_model_name profiles)) (ValueError ''Offline served-model names must be unique.'')) (\<lambda>_.
     Inr profiles)))"

text \<open>
  What is loaded stays evidence: one profile per file, in the order of the names, with identifiers and served names that are
  not shared, none eligible for production, and every claim either unknown and empty or known with a value and a source.
\<close>

theorem offline_profiles_inert:
  assumes "load_offline_deployment_profiles read paths = Inr profiles"
  shows "length profiles = length paths \<and> distinct (map of_profile_id profiles) \<and> distinct (map of_served_model_name profiles)
    \<and> (\<forall>p \<in> set profiles. \<not> of_production_eligible p \<and> of_status p = OFFLINE_CANDIDATE
        \<and> (\<forall>c \<in> set (of_claims p). (pc_evidence c = EVIDENCE_UNKNOWN) = (pc_value c = JNull) \<and> (pc_value c = JNull) = (pc_source c = None)))"
proof -
  have l: "list_all2 (\<lambda>path p. load_offline_deployment_profile read path = Inr p) (sort paths) profiles"
    and d: "distinct (map of_profile_id profiles)" "distinct (map of_served_model_name profiles)"
    using assms by (simp_all add: load_offline_deployment_profiles_def bind_r_eq_Inr traverse_eq_Inr)
  have "profile_validate p = Inr ()" if "p \<in> set profiles" for p
    using l that by (auto simp: list_all2_conv_all_nth in_set_conv_nth load_offline_deployment_profile_def bind_r_eq_Inr)
  then have v: "validate_offline_profile p = Inr () \<and> (\<forall>c \<in> set (of_claims p). validate_evidence c = Inr ())" if "p \<in> set profiles" for p
    using that by (simp add: profile_validate_def bind_r_eq_Inr each_eq_Inr)
  have "(pc_evidence c = EVIDENCE_UNKNOWN) = (pc_value c = JNull) \<and> (pc_value c = JNull) = (pc_source c = None)"
    if "validate_evidence c = Inr ()" for c
    using that by (auto simp: validate_evidence_def split: if_splits)
  then show ?thesis using v d list_all2_lengthD [OF l]
    by (auto simp: validate_offline_profile_def bind_r_eq_Inr)
qed

definition sample_profile :: OfflineDeploymentProfile where
  "sample_profile = \<lparr>of_schema_version = 1, of_profile_id = ''p'', of_status = OFFLINE_CANDIDATE, of_provider = ''nvidia'',
     of_deployment_mode = HOSTED, of_base_url = ''https://h'', of_generation_path = ''/v1'', of_adapter_name = ''nim'',
     of_model_artifact_id = ''m'', of_model_revision = None, of_served_model_name = ''m'', of_runtime_identity = None,
     of_hardware_identity = None, of_image_digest = None, of_production_eligible = False, of_contract_checked_on = ''2026-01-01'',
     of_sources = [''https://s''], of_claims = [\<lparr>pc_name = ''context'', pc_value = JInt 8, pc_evidence = ADVERTISED, pc_source = Some ''https://s''\<rparr>]\<rparr>"

theorem offline_profiles_inert_witness:
  "load_offline_deployment_profiles (\<lambda>_. Inr sample_profile) [''a.json''] = Inr [sample_profile] \<and> \<not> of_production_eligible sample_profile"
proof -
  have "profile_validate sample_profile = Inr ()" by code_simp
  then have l: "load_offline_deployment_profiles (\<lambda>_. Inr sample_profile) [''a.json''] = Inr [sample_profile]"
    by (simp add: load_offline_deployment_profiles_def load_offline_deployment_profile_def)
  from offline_profiles_inert [OF l] l show ?thesis by simp
qed

end
