(* ===== verification/AllocationStats.thy ===== *)
theory AllocationStats
  imports Prelude
begin

text \<open>
  The statistical gates of the model allocation evaluation (\<open>src/scripts/model_allocation_statistics.py\<close>, and the Wilson
  bound of \<open>model_allocation_governance.py\<close> and \<open>grade_model_allocation.py\<close>). Floats are real numbers; the quantile of
  the normal distribution is the argument \<open>inv_cdf\<close>.
\<close>

section \<open>Definitions\<close>

definition wilson_bounds :: "int \<Rightarrow> int \<Rightarrow> real \<Rightarrow> real \<times> real" where
  "wilson_bounds successes pairs z =
     (let proportion = of_int successes / of_int pairs;
          denominator = 1 + z * z / of_int pairs;
          center = (proportion + z * z / (2 * of_int pairs)) / denominator;
          radius = z * sqrt (proportion * (1 - proportion) / of_int pairs + z * z / (4 * of_int pairs * of_int pairs)) in
      (center - radius / denominator, center + radius / denominator))"

text \<open>\<open>math.sqrt\<close> raises for a negative argument.\<close>

definition math_sqrt :: "real \<Rightarrow> exn + real" where
  "math_sqrt x = (if x < 0 then Inl (ValueError ''math domain error'') else Inr (sqrt x))"

definition pair_rate :: "int \<Rightarrow> int \<Rightarrow> real" where
  "pair_rate k n = of_int k / of_int n"

record PairedInterval =
  pn_both_pass :: int
  pn_allocation_only :: int
  pn_baseline_only :: int
  pn_both_fail :: int
  pn_total :: int
  pn_difference :: real
  pn_confidence_level :: real
  pn_lower :: real
  pn_upper :: real

definition newcombe_correlation :: "int \<Rightarrow> int \<Rightarrow> int \<Rightarrow> int \<Rightarrow> real" where
  "newcombe_correlation e f g h =
     (let pairs = e + f + g + h;
          denominator = sqrt (of_int ((e + f) * (g + h) * (e + g) * (f + h)));
          raw_numerator = e * h - f * g in
      if denominator = 0 then 0
      else if raw_numerator > 0 then max (of_int raw_numerator - of_int pairs / 2) 0 / denominator
      else of_int raw_numerator / denominator)"

definition score_distance :: "real \<Rightarrow> real \<Rightarrow> real \<Rightarrow> exn + real" where
  "score_distance correlation x y = math_sqrt (x ^ 2 - 2 * correlation * x * y + y ^ 2)"

definition newcombe_paired_interval :: "(real \<Rightarrow> real) \<Rightarrow> int \<Rightarrow> int \<Rightarrow> int \<Rightarrow> int \<Rightarrow> real \<Rightarrow> exn + PairedInterval" where
  "newcombe_paired_interval inv_cdf e f g h confidence_level =
     bind_r (each (\<lambda>n. require (\<not> n < 0) (ValueError ''must be a nonnegative integer'')) [e, f, g, h]) (\<lambda>_.
     bind_r (require (0 < confidence_level \<and> confidence_level < 1)
       (ValueError ''confidence_level must be a float between zero and one'')) (\<lambda>_.
     let pairs = e + f + g + h in
     bind_r (require (pairs \<noteq> 0) (ValueError ''at least one pair is required'')) (\<lambda>_.
     let allocation_rate = pair_rate (e + f) pairs;
         baseline_rate = pair_rate (e + g) pairs;
         difference = allocation_rate - baseline_rate;
         z = inv_cdf (1 / 2 + confidence_level / 2);
         (allocation_lower, allocation_upper) = wilson_bounds (e + f) pairs z;
         (baseline_lower, baseline_upper) = wilson_bounds (e + g) pairs z;
         correlation = newcombe_correlation e f g h in
     bind_r (score_distance correlation (allocation_rate - allocation_lower) (baseline_upper - baseline_rate)) (\<lambda>lower_distance.
     bind_r (score_distance correlation (allocation_upper - allocation_rate) (baseline_rate - baseline_lower)) (\<lambda>upper_distance.
     Inr \<lparr>pn_both_pass = e, pn_allocation_only = f, pn_baseline_only = g, pn_both_fail = h, pn_total = pairs,
          pn_difference = difference, pn_confidence_level = confidence_level,
          pn_lower = max (-1) (difference - lower_distance), pn_upper = min 1 (difference + upper_distance)\<rparr>)))))"

record noninferiority =
  nf_margin :: real
  nf_required_lower_bound_above :: real
  nf_passed :: bool
  nf_interval :: PairedInterval

definition paired_noninferiority :: "PairedInterval \<Rightarrow> real \<Rightarrow> exn + noninferiority" where
  "paired_noninferiority interval margin =
     bind_r (require (0 \<le> margin \<and> margin < 1) (ValueError ''margin must be a float from zero up to, but not including, one'')) (\<lambda>_.
     Inr \<lparr>nf_margin = margin, nf_required_lower_bound_above = - margin, nf_passed = (pn_lower interval > - margin), nf_interval = interval\<rparr>)"

definition z_95 :: real where
  "z_95 = 1959963984540054 / 1000000000000000"

definition wilson_lower :: "int \<Rightarrow> int \<Rightarrow> real" where
  "wilson_lower passed pairs = max 0 (fst (wilson_bounds passed pairs z_95))"

definition wilson :: "int \<Rightarrow> int \<Rightarrow> (real \<times> real) option" where
  "wilson passed pairs =
     (if pairs = 0 then None
      else Some (max 0 (fst (wilson_bounds passed pairs z_95)), min 1 (snd (wilson_bounds passed pairs z_95))))"

definition minimum_passes :: "int \<Rightarrow> real \<Rightarrow> exn + int" where
  "minimum_passes pairs target =
     (case List.find (\<lambda>passed. wilson_lower passed pairs > target) [0..pairs] of
        None \<Rightarrow> Inl (ValueError ''No passing count can satisfy the requested lower bound'')
      | Some passed \<Rightarrow> Inr passed)"

section \<open>The Wilson interval\<close>

text \<open>With \<open>a = z\<^sup>2 / n\<close> the bounds are \<open>(p + a / 2 \<plusminus> score_root a p) / (1 + a)\<close>.\<close>

definition score_root :: "real \<Rightarrow> real \<Rightarrow> real" where
  "score_root a p = sqrt (a * (p * (1 - p)) + (a / 2) ^ 2)"

lemma root_arg: "0 \<le> (a :: real) \<Longrightarrow> 0 \<le> p \<Longrightarrow> p \<le> 1 \<Longrightarrow> 0 \<le> a * (p * (1 - p)) + (a / 2) ^ 2"
  by (simp add: mult_nonneg_nonneg)

lemma root_nonneg: "0 \<le> a \<Longrightarrow> 0 \<le> p \<Longrightarrow> p \<le> 1 \<Longrightarrow> 0 \<le> score_root a p"
  using root_arg by (simp add: score_root_def)

lemma root_square: "0 \<le> a \<Longrightarrow> 0 \<le> p \<Longrightarrow> p \<le> 1 \<Longrightarrow> score_root a p ^ 2 = a * (p * (1 - p)) + (a / 2) ^ 2"
  using root_arg by (simp add: score_root_def)

lemma root_upper:
  assumes "0 \<le> a" "0 \<le> p" "p \<le> 1" shows "score_root a p \<le> p + a / 2"
proof -
  have "(p + a / 2) ^ 2 - (a * (p * (1 - p)) + (a / 2) ^ 2) = p ^ 2 * (1 + a)" by (simp add: power2_eq_square algebra_simps)
  moreover have "0 \<le> p ^ 2 * (1 + a)" using assms by simp
  ultimately have "a * (p * (1 - p)) + (a / 2) ^ 2 \<le> (p + a / 2) ^ 2" by linarith
  then show ?thesis unfolding score_root_def using assms by (intro real_le_lsqrt) auto
qed

lemma root_lower:
  assumes "0 \<le> a" "0 \<le> p" "p \<le> 1" shows "\<bar>a / 2 - a * p\<bar> \<le> score_root a p"
proof -
  have "a * (p * (1 - p)) + (a / 2) ^ 2 - (a / 2 - a * p) ^ 2 = (a + a ^ 2) * (p * (1 - p))" by (simp add: power2_eq_square algebra_simps)
  moreover have "0 \<le> (a + a ^ 2) * (p * (1 - p))" using assms by simp
  ultimately have "(a / 2 - a * p) ^ 2 \<le> a * (p * (1 - p)) + (a / 2) ^ 2" by linarith
  then show ?thesis unfolding score_root_def by (metis real_sqrt_abs real_sqrt_le_iff)
qed

lemma root_symmetric: "score_root a (1 - p) = score_root a p"
  by (simp add: score_root_def mult.commute)

lemma root_growth:
  assumes "0 \<le> a" "0 \<le> p" "p \<le> q" "q \<le> 1" shows "score_root a q - score_root a p \<le> q - p"
proof (cases "score_root a q + score_root a p = 0")
  case True
  then show ?thesis using root_nonneg [of a p] root_nonneg [of a q] assms by auto
next
  case False
  let ?r = "score_root a p" and ?s = "score_root a q"
  have pos: "0 < ?s + ?r" using False root_nonneg [of a p] root_nonneg [of a q] assms by auto
  have "(?s - ?r) * (?s + ?r) = ?s ^ 2 - ?r ^ 2" by (simp add: power2_eq_square algebra_simps)
  also have "\<dots> = (q - p) * (a - a * p - a * q)"
    using root_square [of a p] root_square [of a q] assms by (simp add: algebra_simps)
  also have "\<dots> \<le> (q - p) * (?s + ?r)"
    using root_lower [of a p] root_lower [of a q] assms by (intro mult_left_mono) auto
  finally show ?thesis using pos by simp
qed

lemma wilson_bounds_eq:
  assumes "0 < n" and "0 \<le> z"
  shows "wilson_bounds k n z =
    (let p = of_int k / of_int n; a = z * z / of_int n in ((p + a / 2 - score_root a p) / (1 + a), (p + a / 2 + score_root a p) / (1 + a)))"
proof -
  define p a where "p = (of_int k / of_int n :: real)" and "a = z * z / of_int n"
  have "z * sqrt (p * (1 - p) / of_int n + z * z / (4 * of_int n * of_int n)) = sqrt (z * z * (p * (1 - p) / of_int n + z * z / (4 * of_int n * of_int n)))"
    using assms(2) by (simp add: real_sqrt_mult)
  also have "z * z * (p * (1 - p) / of_int n + z * z / (4 * of_int n * of_int n)) = a * (p * (1 - p)) + (a / 2) ^ 2"
    using assms(1) by (simp add: a_def power2_eq_square field_simps)
  finally have r: "z * sqrt (p * (1 - p) / of_int n + z * z / (4 * of_int n * of_int n)) = score_root a p" by (simp add: score_root_def)
  have c: "z * z / (2 * of_int n) = a / 2" by (simp add: a_def)
  show ?thesis
    unfolding wilson_bounds_def Let_def p_def [symmetric] r a_def [symmetric] c by (simp add: diff_divide_distrib add_divide_distrib)
qed

lemma wilson_order:
  assumes "0 < n" and "0 \<le> k" and "k \<le> n" and "0 \<le> z" and "wilson_bounds k n z = (l, u)"
  shows "0 \<le> l" and "l \<le> of_int k / of_int n" and "of_int k / of_int n \<le> u" and "u \<le> 1"
proof -
  define p a where "p = (of_int k / of_int n :: real)" and "a = z * z / of_int n"
  have p: "0 \<le> p" "p \<le> 1" and a: "0 \<le> a" using assms by (simp_all add: p_def a_def)
  have e: "l = (p + a / 2 - score_root a p) / (1 + a)" "u = (p + a / 2 + score_root a p) / (1 + a)"
    using wilson_bounds_eq [OF assms(1,4), of k] assms(5) by (simp_all add: Let_def p_def a_def)
  show "0 \<le> l" using root_upper [OF a p] a by (simp add: e)
  have "p + a / 2 - score_root a p \<le> p * (1 + a)" using root_lower [OF a p] by (simp add: algebra_simps)
  then have "l \<le> p" using a by (simp add: e divide_le_eq)
  then show "l \<le> of_int k / of_int n" by (simp add: p_def)
  have "p * (1 + a) \<le> p + a / 2 + score_root a p" using root_lower [OF a p] by (simp add: algebra_simps)
  then have "p \<le> u" using a by (simp add: e le_divide_eq)
  then show "of_int k / of_int n \<le> u" by (simp add: p_def)
  have "score_root a p \<le> 1 - p + a / 2" using root_upper [of a "1 - p"] root_symmetric [of a p] a p by simp
  then show "u \<le> 1" using a by (simp add: e divide_le_eq)
qed

lemma wilson_lower_mono:
  assumes "0 < n" and "0 \<le> k" and "k \<le> m" and "m \<le> n" and "0 \<le> z"
  shows "fst (wilson_bounds k n z) \<le> fst (wilson_bounds m n z)"
proof -
  define p q a where "p = (of_int k / of_int n :: real)" and "q = (of_int m / of_int n :: real)" and "a = z * z / of_int n"
  have "0 \<le> p" "p \<le> q" "q \<le> 1" "0 \<le> a" using assms by (simp_all add: p_def q_def a_def divide_right_mono)
  then have "p + a / 2 - score_root a p \<le> q + a / 2 - score_root a q" using root_growth [of a p q] by simp
  then show ?thesis using \<open>0 \<le> a\<close>
    by (simp add: wilson_bounds_eq [OF assms(1,5)] Let_def p_def [symmetric] q_def [symmetric] a_def [symmetric] divide_right_mono)
qed

lemma z_95_pos: "0 \<le> z_95"
  by (simp add: z_95_def)

lemma find_upto_least:
  assumes "List.find P [i..j] = Some m"
  shows "i \<le> m \<and> m \<le> j \<and> P m \<and> (\<forall>k. i \<le> k \<and> k < m \<longrightarrow> \<not> P k)"
proof -
  obtain n where n: "n < length [i..j]" "m = [i..j] ! n" "P m" "\<forall>l < n. \<not> P ([i..j] ! l)"
    using assms by (auto simp: find_Some_iff)
  have "\<not> P k" if "i \<le> k" "k < m" for k
  proof -
    have "nat (k - i) < n" and "[i..j] ! nat (k - i) = k" using that n(1,2) by (auto simp: nth_upto)
    then show ?thesis using n(4) by metis
  qed
  then show ?thesis using n(1-3) by (auto simp: nth_upto)
qed

text \<open>
  The count of passes that governance asks for is exact: it is the least one, and an arm reaches it if and only if the lower
  Wilson bound of its rate is above the target.
\<close>

theorem minimum_passes_exact:
  assumes "minimum_passes pairs target = Inr m" and "0 < pairs" and "0 \<le> passed" and "passed \<le> pairs"
  shows "m \<le> passed \<longleftrightarrow> target < wilson_lower passed pairs"
proof -
  have f: "List.find (\<lambda>passed. wilson_lower passed pairs > target) [0..pairs] = Some m"
    using assms(1) by (simp add: minimum_passes_def split: option.splits)
  note l = find_upto_least [OF f]
  have "wilson_lower m pairs \<le> wilson_lower passed pairs" if "m \<le> passed"
    using wilson_lower_mono [OF assms(2), of m passed z_95] that l assms(4) z_95_pos by (simp add: wilson_lower_def)
  then show ?thesis using l assms(3) by (smt (verit))
qed

text \<open>One pass of four is the least with a lower bound above zero.\<close>

theorem minimum_passes_exact_witness: "minimum_passes 4 0 = Inr 1 \<and> 0 < wilson_lower 3 4"
proof -
  have u: "[0..4] = [0, 1, 2, 3, 4 :: int]" by code_simp
  define a where "a = z_95 * z_95 / 4"
  have a: "0 < a" by (simp add: a_def z_95_def)
  have zero: "wilson_lower 0 4 = 0"
    using a by (simp add: wilson_lower_def wilson_bounds_eq z_95_pos Let_def score_root_def a_def [symmetric])
  have "score_root a (1 / 4) < 1 / 4 + a / 2"
  proof -
    have "a * (1 / 4 * (1 - 1 / 4)) + (a / 2) ^ 2 < (1 / 4 + a / 2) ^ 2" using a by (simp add: power2_eq_square algebra_simps)
    then show ?thesis unfolding score_root_def using a by (intro real_less_lsqrt) auto
  qed
  then have one: "0 < wilson_lower 1 4"
    using a by (simp add: wilson_lower_def wilson_bounds_eq z_95_pos Let_def a_def [symmetric] less_max_iff_disj)
  have m: "minimum_passes 4 0 = Inr 1" using zero one by (simp add: minimum_passes_def u)
  then show ?thesis using minimum_passes_exact [OF m, of 3] by simp
qed

section \<open>The paired interval\<close>

lemma correlation_bound:
  assumes "0 \<le> e" "0 \<le> f" "0 \<le> g" "0 \<le> h" shows "\<bar>newcombe_correlation e f g h\<bar> \<le> 1"
proof -
  define d where "d = sqrt (real_of_int ((e + f) * (g + h) * (e + g) * (f + h)))"
  have m: "0 \<le> e * g" "0 \<le> e * h" "0 \<le> f * g" "0 \<le> f * h" "0 \<le> e * f" "0 \<le> g * h" using assms by simp_all
  have "e * h + f * g \<le> (e + f) * (g + h)" and "e * h + f * g \<le> (e + g) * (f + h)" using m by (simp_all add: algebra_simps)
  then have "(e * h + f * g) * (e * h + f * g) \<le> ((e + f) * (g + h)) * ((e + g) * (f + h))" using m by (intro mult_mono) auto
  moreover have "(e * h - f * g) ^ 2 \<le> (e * h + f * g) * (e * h + f * g)"
  proof -
    have "(e * h + f * g) * (e * h + f * g) - (e * h - f * g) ^ 2 = 4 * ((e * h) * (f * g))" by (simp add: power2_eq_square algebra_simps)
    moreover have "0 \<le> (e * h) * (f * g)" using m by simp
    ultimately show ?thesis by linarith
  qed
  ultimately have "(e * h - f * g) ^ 2 \<le> (e + f) * (g + h) * (e + g) * (f + h)" by (simp add: mult.assoc)
  then have "(real_of_int (e * h - f * g)) ^ 2 \<le> real_of_int ((e + f) * (g + h) * (e + g) * (f + h))"
    by (metis of_int_le_iff of_int_power)
  then have d: "\<bar>real_of_int (e * h - f * g)\<bar> \<le> d" unfolding d_def using real_sqrt_le_iff [of "(real_of_int (e * h - f * g)) ^ 2"] by simp
  show ?thesis
  proof (cases "d = 0")
    case True
    then show ?thesis by (simp add: newcombe_correlation_def Let_def d_def)
  next
    case False
    then have pos: "0 < d" using d by linarith
    define t where "t = real_of_int (e + f + g + h) / 2"
    have t: "0 \<le> t" using assms by (simp add: t_def)
    let ?r = "real_of_int (e * h - f * g)"
    have "newcombe_correlation e f g h = (if e * h - f * g > 0 then max (?r - t) 0 / d else ?r / d)"
      using False by (simp add: newcombe_correlation_def Let_def d_def t_def)
    moreover have "\<bar>max (?r - t) 0\<bar> \<le> d" 
    proof -
      have "?r \<le> d" using d by linarith
      then show ?thesis using t pos by (auto simp: max_def)
    qed
    ultimately show ?thesis using d pos by (auto simp: abs_divide divide_le_eq)
  qed
qed

lemma distance_defined:
  assumes "\<bar>c\<bar> \<le> 1" shows "\<exists>d \<ge> 0. score_distance c x y = Inr d"
proof -
  have "x ^ 2 - 2 * c * x * y + y ^ 2 = (x - c * y) ^ 2 + (1 - c ^ 2) * y ^ 2" by (simp add: power2_eq_square algebra_simps)
  moreover have "c ^ 2 \<le> 1" using assms by (simp add: abs_square_le_1)
  ultimately have "0 \<le> x ^ 2 - 2 * c * x * y + y ^ 2" by simp
  then show ?thesis by (simp add: score_distance_def math_sqrt_def)
qed

lemma distance_symmetric: "score_distance c x y = score_distance c y x"
  by (simp add: score_distance_def algebra_simps)

lemma correlation_symmetric: "newcombe_correlation e g f h = newcombe_correlation e f g h"
  by (simp add: newcombe_correlation_def algebra_simps)

text \<open>
  The interval of Newcombe is computed for every table of counts: no square root of a negative number is taken. It lies within
  minus one and one and holds the observed difference of the rates, and exchanging the arms mirrors it, so the gate treats
  the arms alike.
\<close>

theorem newcombe_interval:
  assumes "0 \<le> e" "0 \<le> f" "0 \<le> g" "0 \<le> h" "0 < e + f + g + h" and "0 < c" "c < 1" and "0 \<le> inv_cdf (1 / 2 + c / 2)"
  shows "\<exists>i j. newcombe_paired_interval inv_cdf e f g h c = Inr i \<and> newcombe_paired_interval inv_cdf e g f h c = Inr j
    \<and> pn_difference i = of_int (f - g) / of_int (e + f + g + h)
    \<and> -1 \<le> pn_lower i \<and> pn_lower i \<le> pn_difference i \<and> pn_difference i \<le> pn_upper i \<and> pn_upper i \<le> 1
    \<and> pn_lower j = - pn_upper i \<and> pn_upper j = - pn_lower i"
proof -
  define n z where "n = e + f + g + h" and "z = inv_cdf (1 / 2 + c / 2)"
  define p q where "p = pair_rate (e + f) n" and "q = pair_rate (e + g) n"
  obtain al au bl bu where w: "wilson_bounds (e + f) n z = (al, au)" "wilson_bounds (e + g) n z = (bl, bu)" by fastforce
  define k where "k = newcombe_correlation e f g h"
  have k: "\<bar>k\<bar> \<le> 1" using correlation_bound assms(1-4) by (simp add: k_def)
  obtain d1 d2 where d: "score_distance k (p - al) (bu - q) = Inr d1" "0 \<le> d1" "score_distance k (au - p) (q - bl) = Inr d2" "0 \<le> d2"
    using distance_defined [OF k] by blast
  have d': "score_distance k (q - bl) (au - p) = Inr d2" "score_distance k (bu - q) (p - al) = Inr d1"
    using d distance_symmetric by metis+
  have n: "e + g + f + h = n" by (simp add: n_def)
  have c: "0 < n" using assms(5) by (simp add: n_def)
  have i: "newcombe_paired_interval inv_cdf e f g h c = Inr \<lparr>pn_both_pass = e, pn_allocation_only = f, pn_baseline_only = g,
      pn_both_fail = h, pn_total = n, pn_difference = p - q, pn_confidence_level = c, pn_lower = max (-1) (p - q - d1), pn_upper = min 1 (p - q + d2)\<rparr>"
    using assms c w d by (simp add: newcombe_paired_interval_def Let_def n_def [symmetric] z_def [symmetric] p_def [symmetric] q_def [symmetric] k_def [symmetric])
  have j: "newcombe_paired_interval inv_cdf e g f h c = Inr \<lparr>pn_both_pass = e, pn_allocation_only = g, pn_baseline_only = f,
      pn_both_fail = h, pn_total = n, pn_difference = q - p, pn_confidence_level = c, pn_lower = max (-1) (q - p - d2), pn_upper = min 1 (q - p + d1)\<rparr>"
    using assms c w d' by (simp add: newcombe_paired_interval_def Let_def n z_def [symmetric] p_def [symmetric] q_def [symmetric]
        correlation_symmetric k_def [symmetric])
  have "p - q = of_int (f - g) / of_int n" by (simp add: p_def q_def pair_rate_def diff_divide_distrib add_divide_distrib)
  moreover have "0 \<le> p" "p \<le> 1" "0 \<le> q" "q \<le> 1" using assms c by (simp_all add: p_def q_def pair_rate_def n_def)
  ultimately show ?thesis using i j d(2,4) by (auto simp: n_def max_def min_def)
qed

theorem newcombe_interval_witness:
  "\<exists>i. newcombe_paired_interval (\<lambda>_. z_95) 8 1 1 0 (95 / 100) = Inr i \<and> pn_lower i \<le> 0 \<and> 0 \<le> pn_upper i"
  using newcombe_interval [of 8 1 1 0 "95 / 100" "\<lambda>_. z_95"] z_95_pos by auto

end
