(* ===== verification/Allocation.thy ===== *)
theory Allocation
  imports AllocationStats Validation Dict
begin

text \<open>
  The documents of a model allocation evaluation: the manifest (\<open>src/scripts/model_allocation_manifest.py\<close>), the ledger of
  blinded reviews and the evidence of savings (\<open>model_allocation_evidence.py\<close>), and the governance record
  (\<open>model_allocation_governance.py\<close>). Documents are objects of JSON; files are given by the digests of their bytes.
  Decimals are exact.
\<close>

section \<open>Reading\<close>

text \<open>Python compares numbers by their values, a boolean is a number, and the order of the members does not count.\<close>

fun numbers_normal :: "json \<Rightarrow> json"
  and numbers_normal_list :: "json list \<Rightarrow> json list"
  and numbers_normal_members :: "(string \<times> json) list \<Rightarrow> (string \<times> json) list" where
  "numbers_normal (JBool b) = JFloat (if b then 1 else 0)"
| "numbers_normal (JInt n) = JFloat (of_int n)"
| "numbers_normal (JArr xs) = JArr (numbers_normal_list xs)"
| "numbers_normal (JObj ms) = JObj (numbers_normal_members ms)"
| "numbers_normal v = v"
| "numbers_normal_list [] = []"
| "numbers_normal_list (x # xs) = numbers_normal x # numbers_normal_list xs"
| "numbers_normal_members [] = []"
| "numbers_normal_members ((k, v) # ms) = (k, numbers_normal v) # numbers_normal_members ms"

definition py_equal :: "json \<Rightarrow> json \<Rightarrow> bool" where
  "py_equal v w \<longleftrightarrow> sort_keys (numbers_normal v) = sort_keys (numbers_normal w)"

text \<open>\<open>value[key]\<close> and \<open>value.get(key)\<close> on an object.\<close>

definition item_of :: "json \<Rightarrow> string \<Rightarrow> exn + json" where
  "item_of v k = (case dict_get v k of None \<Rightarrow> Inl (KeyError k) | Some x \<Rightarrow> Inr x)"

definition get_of :: "json \<Rightarrow> string \<Rightarrow> json" where
  "get_of v k = (case dict_get v k of None \<Rightarrow> JNull | Some x \<Rightarrow> x)"

definition exact :: "json \<Rightarrow> string list \<Rightarrow> string \<Rightarrow> exn + unit" where
  "exact v names name = require (set (map fst (members v)) = set names) (ValueError (name @ '' fields must be exactly''))"

definition text_of :: "json \<Rightarrow> string \<Rightarrow> exn + string" where
  "text_of v name =
     (case v of JStr s \<Rightarrow> if strip s = [] then Inl (ValueError (name @ '' must be a nonblank string'')) else Inr s
      | _ \<Rightarrow> Inl (ValueError (name @ '' must be a nonblank string'')))"

definition lower_hex :: "char \<Rightarrow> bool" where
  "lower_hex c = (let n = (of_char c :: nat) in 48 \<le> n \<and> n \<le> 57 \<or> 97 \<le> n \<and> n \<le> 102)"

definition sha_of :: "json \<Rightarrow> string \<Rightarrow> exn + string" where
  "sha_of v name =
     bind_r (text_of v name) (\<lambda>s.
     if length s = 64 \<and> list_all lower_hex s then Inr s else Inl (ValueError (name @ '' must be a lowercase SHA-256 value'')))"

text \<open>\<open>text.replace("Z", "+00:00")\<close>, then \<open>datetime.fromisoformat\<close>.\<close>

definition timestamp_of :: "pylib \<Rightarrow> json \<Rightarrow> string \<Rightarrow> exn + instant" where
  "timestamp_of L v name =
     bind_r (text_of v name) (\<lambda>s.
     case fromisoformat L (concat (map (\<lambda>c. if c = CHR ''Z'' then ''+00:00'' else [c]) s)) of
       None \<Rightarrow> Inl (ValueError (name @ '' must be an ISO-8601 timestamp''))
     | Some t \<Rightarrow> if is_aware t then Inr (instant_of t) else Inl (ValueError (name @ '' must include a timezone'')))"

fun blank_text :: "json \<Rightarrow> bool" where
  "blank_text (JStr s) = (strip s = [])"
| "blank_text _ = True"

fun texts_of :: "json \<Rightarrow> string list" where
  "texts_of (JArr vs) = List.map_filter (\<lambda>v. case v of JStr s \<Rightarrow> Some s | _ \<Rightarrow> None) vs"
| "texts_of _ = []"

text \<open>A list, not empty, of texts that are not blank.\<close>

definition nonblank_texts :: "json \<Rightarrow> bool" where
  "nonblank_texts v = (case v of JArr vs \<Rightarrow> vs \<noteq> [] \<and> \<not> list_ex blank_text vs | _ \<Rightarrow> False)"

section \<open>Manifests\<close>

text \<open>A task with its case and arm, once they have been checked.\<close>

definition compared_fields :: "string list" where
  "compared_fields = [''prompt'', ''expected'', ''checks'', ''review_criteria'', ''critical'', ''category'', ''stratum'', ''source'']"

definition check_compared_task :: "string list \<Rightarrow> json \<Rightarrow> string list \<times> (string \<times> json list) list \<Rightarrow> exn + string list \<times> (string \<times> json list) list" where
  "check_compared_task arms task st =
     (if \<not> is_dict task then Inl (AttributeError ''get'') else
      case st of (ids, grouped) \<Rightarrow>
      case (get_of task ''case_id'', get_of task ''arm'') of
        (JStr case_id, JStr arm) \<Rightarrow>
          if strip case_id = [] \<or> arm \<notin> set arms then Inl (ValueError ''Every comparison task needs a valid case_id and arm'')
          else (case get_of task ''id'' of
              JStr i \<Rightarrow>
                if strip i = [] \<or> i \<in> set ids then Inl (ValueError ''Comparison task IDs must be unique nonblank strings'')
                else Inr (i # ids, dict_put case_id ((case map_of grouped case_id of None \<Rightarrow> [] | Some ts \<Rightarrow> ts) @ [task]) grouped)
            | _ \<Rightarrow> Inl (ValueError ''Comparison task IDs must be unique nonblank strings''))
      | _ \<Rightarrow> Inl (ValueError ''Every comparison task needs a valid case_id and arm''))"

definition check_case :: "string list \<Rightarrow> string \<times> json list \<Rightarrow> exn + unit" where
  "check_case arms grouped =
     (case grouped of (case_id, tasks) \<Rightarrow>
      bind_r (require ((\<lambda>t. get_of t ''arm'') ` set tasks = JStr ` set arms \<and> length tasks = length arms)
        (ValueError (''Case '' @ case_id @ '' must occur exactly once in every arm''))) (\<lambda>_.
      each (\<lambda>task. each (\<lambda>field. require (py_equal (get_of task field) (get_of (hd tasks) field))
          (ValueError (''Case '' @ case_id @ '' differs across arms for field '' @ field))) compared_fields) (tl tasks)))"

definition validate_manifest :: "json \<Rightarrow> exn + unit" where
  "validate_manifest manifest =
     (case get_of manifest ''comparison'' of
        JNull \<Rightarrow> Inr ()
      | comparison \<Rightarrow>
          bind_r (require (is_dict comparison) (ValueError ''Comparison configuration must be an object'')) (\<lambda>_.
          let arms = get_of comparison ''arms'' in
          bind_r (require (nonblank_texts arms \<and> length (texts_of arms) \<ge> 2) (ValueError ''Comparison arms must be unique nonblank strings'')) (\<lambda>_.
          bind_r (require (distinct (texts_of arms)) (ValueError ''Comparison arms must be unique nonblank strings'')) (\<lambda>_.
          bind_r (require (get_of comparison ''require_complete_pairs'' = JBool True)
            (ValueError ''Matched comparison must require complete pairs'')) (\<lambda>_.
          bind_r (require (get_of comparison ''baseline_arm'' \<in> JStr ` set (texts_of arms))
            (ValueError ''Comparison baseline_arm must name a declared arm'')) (\<lambda>_.
          bind_r (item_of manifest ''tasks'') (\<lambda>tasks.
          case tasks of
            JArr ts \<Rightarrow>
              bind_r (foldM (check_compared_task (texts_of arms)) ts ([], [])) (\<lambda>(_, grouped).
              each (check_case (texts_of arms)) grouped)
          | _ \<Rightarrow> Inl (TypeError ''tasks''))))))))"

section \<open>The ledger of blinded reviews\<close>

text \<open>\<open>B001\<close> to \<open>B200\<close>.\<close>

definition blind_id_ok :: "string \<Rightarrow> bool" where
  "blind_id_ok s \<longleftrightarrow> s \<in> (\<lambda>n. ''B'' @ [char_of (48 + n div 100), char_of (48 + n div 10 mod 10), char_of (48 + n mod 10)]) ` {1..200 :: nat}"

definition id_of :: "json \<Rightarrow> exn + string" where
  "id_of t = bind_r (item_of t ''id'') (\<lambda>i. case i of JStr s \<Rightarrow> Inr s | _ \<Rightarrow> Inl (TypeError ''task id''))"

definition task_of :: "json \<Rightarrow> exn + string \<times> json" where
  "task_of t =
     bind_r (item_of t ''expected'') (\<lambda>e. bind_r (id_of t) (\<lambda>i. Inr (i, e)))"

definition tasks_with :: "(json \<Rightarrow> exn + 'a) \<Rightarrow> json \<Rightarrow> exn + 'a list" where
  "tasks_with f manifest =
     bind_r (item_of manifest ''tasks'') (\<lambda>tasks. case tasks of JArr ts \<Rightarrow> traverse f ts | _ \<Rightarrow> Inl (TypeError ''tasks''))"

text \<open>The digest of the response to a task, when there is a file.\<close>

definition response_set_sha256 :: "pylib \<Rightarrow> (string \<Rightarrow> string option) \<Rightarrow> string list \<Rightarrow> exn + string" where
  "response_set_sha256 L digest ids =
     bind_r (traverse (\<lambda>i. case digest i of None \<Rightarrow> Inl (ValueError ''Every task must have a response artifact'')
         | Some d \<Rightarrow> Inr (JObj [(''task_id'', JStr i), (''response_sha256'', JStr d)])) (sort ids)) (\<lambda>bindings.
     Inr (sha256_hex L (canonical_json L (JArr bindings))))"

type_synonym review_state = "string list \<times> string list \<times> json list"

definition check_review :: "(string \<Rightarrow> string option) option \<Rightarrow> json \<Rightarrow> review_state \<Rightarrow> exn + review_state" where
  "check_review digests review st =
     (case st of (aliases, task_ids, alias_map) \<Rightarrow>
      bind_r (require (is_dict review) (ValueError ''Every review must be an object'')) (\<lambda>_.
      bind_r (exact review [''blind_id'', ''task_id'', ''response_sha256'', ''verdict'', ''notes''] ''review'') (\<lambda>_.
      bind_r (text_of (get_of review ''blind_id'') ''blind_id'') (\<lambda>blind_id.
      bind_r (text_of (get_of review ''task_id'') ''task_id'') (\<lambda>task_id.
      bind_r (require (blind_id_ok blind_id \<and> blind_id \<notin> set aliases) (ValueError ''Blind IDs must be unique B001 through B200'')) (\<lambda>_.
      bind_r (require (task_id \<notin> set task_ids) (ValueError ''Review task IDs must be unique'')) (\<lambda>_.
      bind_r (sha_of (get_of review ''response_sha256'') ''response_sha256'') (\<lambda>sha.
      bind_r (require (case digests of None \<Rightarrow> True | Some digest \<Rightarrow> digest task_id = Some sha) (ValueError ''Review response hash mismatch'')) (\<lambda>_.
      bind_r (case get_of review ''verdict'' of JArr _ \<Rightarrow> Inl (TypeError ''unhashable'') | JObj _ \<Rightarrow> Inl (TypeError ''unhashable'')
              | v \<Rightarrow> require (v \<in> {JStr ''pass'', JStr ''fail'', JStr ''invalid_task''}) (ValueError ''Review verdict is unsupported'')) (\<lambda>_.
      bind_r (text_of (get_of review ''notes'') ''review notes'') (\<lambda>_.
      Inr (blind_id # aliases, task_id # task_ids,
           alias_map @ [JObj [(''blind_id'', JStr blind_id), (''task_id'', JStr task_id)]]))))))))))))"

definition check_authors :: "json \<Rightarrow> json \<Rightarrow> exn + unit" where
  "check_authors document manifest =
     bind_r (text_of (get_of document ''reviewer_id'') ''reviewer_id'') (\<lambda>reviewer.
     let authors = get_of document ''candidate_author_ids''; policy = get_of manifest ''review'' in
     bind_r (require (nonblank_texts authors \<and> distinct (texts_of authors))
       (ValueError ''candidate_author_ids must be unique nonblank strings'')) (\<lambda>_.
     bind_r (require (is_dict policy \<and> get_of policy ''require_independent'' = JBool True)
       (ValueError ''Manifest must require independent review'')) (\<lambda>_.
     bind_r (require (authors = get_of policy ''candidate_author_ids'')
       (ValueError ''Review candidate authors differ from the manifest'')) (\<lambda>_.
     require (get_of document ''independent'' = JBool True \<and> reviewer \<notin> set (texts_of authors))
       (ValueError ''Reviewer must be independent from candidate authors'')))))"

definition check_blinding :: "pylib \<Rightarrow> json \<Rightarrow> exn + unit" where
  "check_blinding L blinding =
     bind_r (require (is_dict blinding) (ValueError ''blinding must be an object'')) (\<lambda>_.
     bind_r (exact blinding [''alias_map_sha256'', ''arm_labels_hidden_until_scores_frozen'', ''scores_frozen_at'', ''unblinded_at''] ''blinding'') (\<lambda>_.
     bind_r (require (get_of blinding ''arm_labels_hidden_until_scores_frozen'' = JBool True)
       (ValueError ''Arm labels must stay hidden until scores are frozen'')) (\<lambda>_.
     bind_r (timestamp_of L (get_of blinding ''scores_frozen_at'') ''scores_frozen_at'') (\<lambda>frozen.
     bind_r (timestamp_of L (get_of blinding ''unblinded_at'') ''unblinded_at'') (\<lambda>unblinded.
     require (\<not> unblinded \<le> frozen) (ValueError ''Unblinding must occur after frozen scores''))))))"

definition bound_to :: "json \<Rightarrow> string \<Rightarrow> string \<Rightarrow> string \<Rightarrow> exn + unit" where
  "bound_to document field expected message =
     bind_r (sha_of (get_of document field) field) (\<lambda>s. require (s = expected) (ValueError message))"

definition validate_blinded_review_ledger ::
    "pylib \<Rightarrow> json \<Rightarrow> json \<Rightarrow> string \<Rightarrow> string \<Rightarrow> (string \<Rightarrow> string option) option \<Rightarrow> exn + unit" where
  "validate_blinded_review_ledger L document manifest manifest_sha256 run_sha256 digests =
     bind_r (exact document [''version'', ''manifest_sha256'', ''run_sha256'', ''response_set_sha256'', ''reviewer_id'',
       ''candidate_author_ids'', ''independent'', ''blinding'', ''reviews''] ''review ledger'') (\<lambda>_.
     bind_r (require (py_equal (get_of document ''version'') (JInt 1)) (ValueError ''Review ledger version must be 1'')) (\<lambda>_.
     bind_r (bound_to document ''manifest_sha256'' manifest_sha256 ''Review ledger is not bound to this manifest'') (\<lambda>_.
     bind_r (bound_to document ''run_sha256'' run_sha256 ''Review ledger is not bound to this run'') (\<lambda>_.
     bind_r (sha_of (get_of document ''response_set_sha256'') ''response_set_sha256'') (\<lambda>recorded.
     bind_r (case digests of None \<Rightarrow> Inr ()
             | Some digest \<Rightarrow> bind_r (tasks_with id_of manifest) (\<lambda>ids. bind_r (response_set_sha256 L digest ids) (\<lambda>d.
                 require (recorded = d) (ValueError ''Review ledger response set hash mismatch'')))) (\<lambda>_.
     bind_r (check_authors document manifest) (\<lambda>_.
     bind_r (check_blinding L (get_of document ''blinding'')) (\<lambda>_.
     bind_r (tasks_with task_of manifest) (\<lambda>ts.
     let required = set (map fst (filter (\<lambda>(_, e). e = JNull) ts)) in
     case get_of document ''reviews'' of
       JArr reviews \<Rightarrow>
         bind_r (require (length reviews = card required) (ValueError ''Review ledger must cover every review-required task'')) (\<lambda>_.
         bind_r (foldM (check_review digests) reviews ([], [], [])) (\<lambda>(_, task_ids, alias_map).
         bind_r (require (set task_ids = required) (ValueError ''Review task IDs do not match review-required tasks'')) (\<lambda>_.
         bound_to (get_of document ''blinding'') ''alias_map_sha256'' (sha256_hex L (canonical_json L (JArr alias_map)))
           ''Blinded alias map hash mismatch'')))
     | _ \<Rightarrow> Inl (ValueError ''Review ledger must cover every review-required task''))))))))))"

text \<open>
  What the grader reads of an accepted ledger: the notes of the invalid tasks, and the verdict of every other task. All are members
  of one object, whose member \<open>invalid_tasks\<close> is an object.
\<close>

fun string_or_empty :: "json \<Rightarrow> string" where
  "string_or_empty (JStr s) = s"
| "string_or_empty _ = []"

definition compile_review :: "json \<Rightarrow> (string \<times> json) list \<Rightarrow> (string \<times> json) list" where
  "compile_review item review =
     (let task_id = string_or_empty (get_of item ''task_id'') in
      if get_of item ''verdict'' = JStr ''invalid_task''
      then dict_put ''invalid_tasks'' (JObj (dict_put task_id (get_of item ''notes'') (members (get_of (JObj review) ''invalid_tasks'')))) review
      else dict_put task_id (JObj [(''pass'', JBool (get_of item ''verdict'' = JStr ''pass'')), (''notes'', get_of item ''notes''),
          (''response_sha256'', get_of item ''response_sha256'')]) review)"

definition compile_review_for_grader :: "json \<Rightarrow> json" where
  "compile_review_for_grader document =
     JObj (fold compile_review (case get_of document ''reviews'' of JArr items \<Rightarrow> items | _ \<Rightarrow> [])
       [(''_meta'', JObj [(''reviewer_id'', get_of document ''reviewer_id''),
           (''candidate_author_ids'', get_of document ''candidate_author_ids''), (''independent'', get_of document ''independent'')]),
        (''invalid_tasks'', JObj [])])"

end
