(* ===== verification/AllocationGates.thy ===== *)
theory AllocationGates
  imports Allocation
begin

text \<open>
  The gates of a model allocation evaluation: what the candidates used and what it cost (the rest of
  \<open>src/scripts/model_allocation_evidence.py\<close>) and the governance record (\<open>model_allocation_governance.py\<close>). Decimals and
  floats are exact.
\<close>

section \<open>Usage\<close>

definition token_fields :: "string list" where
  "token_fields = [''input_tokens'', ''cached_input_tokens'', ''output_tokens'', ''reasoning_output_tokens'']"

fun counter_ok :: "json \<Rightarrow> bool" where
  "counter_ok (JInt n) = (n \<ge> 0)"
| "counter_ok _ = False"

fun int_or_zero :: "json \<Rightarrow> int" where
  "int_or_zero (JInt n) = n"
| "int_or_zero _ = 0"

definition usage_of :: "json \<Rightarrow> string \<Rightarrow> exn + json" where
  "usage_of v name =
     bind_r (require (is_dict v \<and> set (map fst (members v)) = set token_fields) (ValueError (name @ '' must contain the four token counters''))) (\<lambda>_.
     bind_r (require (list_all (\<lambda>field. counter_ok (get_of v field)) token_fields)
       (ValueError (name @ '' token counters must be nonnegative integers''))) (\<lambda>_.
     bind_r (require (int_or_zero (get_of v ''cached_input_tokens'') \<le> int_or_zero (get_of v ''input_tokens''))
       (ValueError (name @ '' cached input cannot exceed input tokens''))) (\<lambda>_.
     Inr v)))"

text \<open>\<open>measurements\<close> holds what was read of the measurement of a task, when there is a file.\<close>

definition validate_measurement :: "(string \<Rightarrow> json option) \<Rightarrow> json \<Rightarrow> exn + unit" where
  "validate_measurement measurements task =
     bind_r (id_of task) (\<lambda>i.
     case measurements i of
       None \<Rightarrow> Inl (ValueError ''Every task must have a measurement artifact'')
     | Some m \<Rightarrow>
         let differs = ValueError ''Candidate measurement differs from the manifest'' in
         bind_r (require (is_dict m) (ValueError ''Every measurement must be an object'')) (\<lambda>_.
         bind_r (require (get_of m ''id'' = JStr i \<and> get_of m ''status'' = JStr ''completed'') differs) (\<lambda>_.
         bind_r (item_of task ''model'') (\<lambda>model.
         bind_r (require (py_equal (get_of m ''model_requested'') model) differs) (\<lambda>_.
         bind_r (item_of task ''effort'') (\<lambda>effort.
         bind_r (require (py_equal (get_of m ''effort'') effort) differs) (\<lambda>_.
         map_r (\<lambda>_. ()) (usage_of (get_of m ''usage'') ''candidate usage''))))))))"

definition validate_candidate_measurements :: "json \<Rightarrow> (string \<Rightarrow> json option) \<Rightarrow> exn + unit" where
  "validate_candidate_measurements manifest measurements =
     bind_r (item_of manifest ''tasks'') (\<lambda>tasks.
     case tasks of JArr ts \<Rightarrow> each (validate_measurement measurements) ts | _ \<Rightarrow> Inl (TypeError ''tasks''))"

section \<open>Rates\<close>

text \<open>\<open>(0|[1-9][0-9]*)(\.[0-9]+)?\<close>, and the number it denotes.\<close>

definition ascii_digit :: "char \<Rightarrow> bool" where
  "ascii_digit c = (let n = (of_char c :: nat) in 48 \<le> n \<and> n \<le> 57)"

definition digits_value :: "string \<Rightarrow> nat" where
  "digits_value s = foldl (\<lambda>n c. 10 * n + (of_char c - 48)) 0 s"

definition decimal_of :: "string \<Rightarrow> rat option" where
  "decimal_of s =
     (let whole = takeWhile (\<lambda>c. c \<noteq> CHR ''.'') s; rest = dropWhile (\<lambda>c. c \<noteq> CHR ''.'') s in
      if whole \<noteq> [] \<and> list_all ascii_digit whole \<and> (hd whole = CHR ''0'' \<longrightarrow> tl whole = [])
         \<and> (rest = [] \<or> tl rest \<noteq> [] \<and> list_all ascii_digit (tl rest))
      then Some (of_nat (digits_value whole) + of_nat (digits_value (tl rest)) / 10 ^ length (tl rest))
      else None)"

definition rate_of :: "json \<Rightarrow> string \<Rightarrow> exn + rat" where
  "rate_of v name =
     (case (case v of JStr s \<Rightarrow> decimal_of s | _ \<Rightarrow> None) of
        None \<Rightarrow> Inl (ValueError (name @ '' must be a nonnegative decimal string''))
      | Some r \<Rightarrow> Inr r)"

section \<open>Evidence of savings\<close>

definition evaluated_arms :: "string list" where
  "evaluated_arms = [''allocation'', ''all_astra_baseline'']"

definition overhead_categories :: "string list" where
  "overhead_categories = [''setup'', ''grading'', ''review'']"

definition rate_fields :: "string list" where
  "rate_fields = [''input_usd_per_million_tokens'', ''cached_input_usd_per_million_tokens'', ''output_usd_per_million_tokens'']"

text \<open>Lists and objects have no hash.\<close>

fun hashed :: "json \<Rightarrow> exn + json" where
  "hashed (JArr xs) = Inl (TypeError ''unhashable type'')"
| "hashed (JObj ms) = Inl (TypeError ''unhashable type'')"
| "hashed v = Inr v"

definition check_model_rate :: "string \<times> json \<Rightarrow> exn + unit" where
  "check_model_rate entry =
     (case entry of (model, prices) \<Rightarrow>
      bind_r (text_of (JStr model) ''billing model'') (\<lambda>_.
      bind_r (require (is_dict prices) (ValueError ''Every model rate must be an object'')) (\<lambda>_.
      bind_r (exact prices rate_fields ''model rate'') (\<lambda>_.
      each (\<lambda>(field, v). map_r (\<lambda>_. ()) (rate_of v field)) (members prices)))))"

definition check_billing :: "pylib \<Rightarrow> string \<Rightarrow> json \<Rightarrow> exn + unit" where
  "check_billing L billing_snapshot_id billing =
     bind_r (require (is_dict billing) (ValueError ''billing_snapshot must be an object'')) (\<lambda>_.
     bind_r (exact billing [''id'', ''captured_at'', ''currency'', ''source_reference'', ''applicable_to_run'',
       ''reasoning_output_billed_separately'', ''model_rates''] ''billing_snapshot'') (\<lambda>_.
     bind_r (text_of (get_of billing ''id'') ''billing snapshot id'') (\<lambda>i.
     bind_r (require (i = billing_snapshot_id) (ValueError ''Billing snapshot does not match governance'')) (\<lambda>_.
     bind_r (timestamp_of L (get_of billing ''captured_at'') ''billing captured_at'') (\<lambda>_.
     bind_r (require (get_of billing ''currency'' = JStr ''USD'' \<and> get_of billing ''applicable_to_run'' = JBool True)
       (ValueError ''Billing snapshot must be applicable USD evidence'')) (\<lambda>_.
     bind_r (require (get_of billing ''reasoning_output_billed_separately'' = JBool False)
       (ValueError ''Reasoning tokens must be included in output token billing'')) (\<lambda>_.
     bind_r (text_of (get_of billing ''source_reference'') ''billing source_reference'') (\<lambda>_.
     bind_r (require (is_dict (get_of billing ''model_rates'') \<and> members (get_of billing ''model_rates'') \<noteq> [])
       (ValueError ''Billing snapshot needs model rates'')) (\<lambda>_.
     each check_model_rate (members (get_of billing ''model_rates'')))))))))))"

text \<open>The rates of a model: \<open>model not in rates\<close>, then \<open>rates[model]\<close>.\<close>

definition rates_for :: "json \<Rightarrow> json \<Rightarrow> string \<Rightarrow> exn + json" where
  "rates_for rates model message =
     bind_r (hashed model) (\<lambda>m.
     case (case m of JStr s \<Rightarrow> dict_get rates s | _ \<Rightarrow> None) of
       None \<Rightarrow> Inl (ValueError message)
     | Some prices \<Rightarrow> Inr prices)"

definition check_overhead :: "json \<Rightarrow> json \<Rightarrow> (json \<times> json) list \<Rightarrow> exn + (json \<times> json) list" where
  "check_overhead rates item seen =
     bind_r (require (is_dict item) (ValueError ''Every overhead item must be an object'')) (\<lambda>_.
     bind_r (exact item [''arm'', ''category'', ''model'', ''usage''] ''overhead item'') (\<lambda>_.
     let arm = get_of item ''arm''; unsupported = ValueError ''Overhead arm or category is unsupported'' in
     bind_r (require (arm \<in> JStr ` set evaluated_arms) unsupported) (\<lambda>_.
     bind_r (hashed (get_of item ''category'')) (\<lambda>category.
     bind_r (require (category \<in> JStr ` set overhead_categories) unsupported) (\<lambda>_.
     bind_r (require ((arm, category) \<notin> set seen) (ValueError ''Overhead arm/category entries must be unique'')) (\<lambda>_.
     bind_r (rates_for rates (get_of item ''model'') ''Every overhead model needs a billing rate'') (\<lambda>_.
     bind_r (usage_of (get_of item ''usage'') ''overhead usage'') (\<lambda>_.
     Inr ((arm, category) # seen)))))))))"

definition validate_savings_evidence :: "pylib \<Rightarrow> json \<Rightarrow> string \<Rightarrow> string \<Rightarrow> string \<Rightarrow> string \<Rightarrow> exn + unit" where
  "validate_savings_evidence L document manifest_sha256 run_sha256 review_ledger_sha256 billing_snapshot_id =
     bind_r (exact document [''version'', ''manifest_sha256'', ''run_sha256'', ''review_ledger_sha256'', ''billing_snapshot'', ''overhead'']
       ''savings evidence'') (\<lambda>_.
     bind_r (require (py_equal (get_of document ''version'') (JInt 1)) (ValueError ''Savings evidence version must be 1'')) (\<lambda>_.
     bind_r (each (\<lambda>(field, expected). bound_to document field expected (''Savings evidence '' @ field @ '' binding mismatch''))
       [(''manifest_sha256'', manifest_sha256), (''run_sha256'', run_sha256), (''review_ledger_sha256'', review_ledger_sha256)]) (\<lambda>_.
     bind_r (check_billing L billing_snapshot_id (get_of document ''billing_snapshot'')) (\<lambda>_.
     case get_of document ''overhead'' of
       JArr items \<Rightarrow>
         bind_r (require (length items = 6) (ValueError ''Overhead must contain setup, grading, and review per arm'')) (\<lambda>_.
         bind_r (foldM (check_overhead (get_of (get_of document ''billing_snapshot'') ''model_rates'')) items []) (\<lambda>seen.
         require (set seen = set (List.product (map JStr evaluated_arms) (map JStr overhead_categories)))
           (ValueError ''Overhead coverage is incomplete'')))
     | _ \<Rightarrow> Inl (ValueError ''Overhead must contain setup, grading, and review per arm'')))))"

section \<open>Savings\<close>

definition cost :: "json \<Rightarrow> json \<Rightarrow> exn + rat" where
  "cost usage prices =
     (let cached = int_or_zero (get_of usage ''cached_input_tokens''); uncached = int_or_zero (get_of usage ''input_tokens'') - cached in
      bind_r (rate_of (get_of prices ''input_usd_per_million_tokens'') ''input'') (\<lambda>input_rate.
      bind_r (rate_of (get_of prices ''cached_input_usd_per_million_tokens'') ''cached input'') (\<lambda>cached_rate.
      bind_r (rate_of (get_of prices ''output_usd_per_million_tokens'') ''output'') (\<lambda>output_rate.
      Inr ((of_int uncached * input_rate + of_int cached * cached_rate
            + of_int (int_or_zero (get_of usage ''output_tokens'')) * output_rate) / 1000000)))))"

text \<open>The costs of the allocation and of the baseline.\<close>

definition add_cost :: "json \<Rightarrow> rat \<Rightarrow> rat \<times> rat \<Rightarrow> rat \<times> rat" where
  "add_cost arm c costs =
     (case costs of (allocation, baseline) \<Rightarrow>
      if arm = JStr ''allocation'' then (allocation + c, baseline) else (allocation, baseline + c))"

definition add_candidate :: "json \<Rightarrow> json \<Rightarrow> rat \<times> rat \<Rightarrow> exn + rat \<times> rat" where
  "add_candidate rates row costs =
     (let message = ''Every candidate call needs an arm and billing rate'' in
      bind_r (require (get_of row ''arm'' \<in> JStr ` set evaluated_arms) (ValueError message)) (\<lambda>_.
      bind_r (rates_for rates (get_of row ''model'') message) (\<lambda>rate.
      bind_r (usage_of (get_of row ''usage'') ''candidate usage'') (\<lambda>usage.
      map_r (\<lambda>c. add_cost (get_of row ''arm'') c costs) (cost usage rate)))))"

definition add_overhead :: "json \<Rightarrow> json \<Rightarrow> rat \<times> rat \<Rightarrow> exn + rat \<times> rat" where
  "add_overhead rates item costs =
     bind_r (rates_for rates (get_of item ''model'') ''model'') (\<lambda>rate.
     map_r (\<lambda>c. add_cost (get_of item ''arm'') c costs) (cost (get_of item ''usage'') rate))"

record savings =
  sv_quality_gate_passed_first :: bool
  sv_minimum_cost_reduction :: rat
  sv_allocation_cost_usd :: rat
  sv_baseline_cost_usd :: rat
  sv_cost_reduction :: rat
  sv_passed :: bool

definition evaluate_savings :: "json list \<Rightarrow> json \<Rightarrow> bool \<Rightarrow> rat \<Rightarrow> exn + savings" where
  "evaluate_savings results document quality_gate_passed threshold =
     (let rates = get_of (get_of document ''billing_snapshot'') ''model_rates'' in
      bind_r (foldM (add_candidate rates) results (0, 0)) (\<lambda>candidates.
      bind_r (foldM (add_overhead rates) (case get_of document ''overhead'' of JArr items \<Rightarrow> items | _ \<Rightarrow> []) candidates) (\<lambda>(allocation, baseline).
      bind_r (require (\<not> baseline \<le> 0) (ValueError ''Baseline all-in cost must be positive'')) (\<lambda>_.
      let reduction = (baseline - allocation) / baseline in
      Inr \<lparr>sv_quality_gate_passed_first = quality_gate_passed, sv_minimum_cost_reduction = threshold,
           sv_allocation_cost_usd = allocation, sv_baseline_cost_usd = baseline, sv_cost_reduction = reduction,
           sv_passed = (quality_gate_passed \<and> reduction \<ge> threshold)\<rparr>))))"

section \<open>The governance record\<close>

text \<open>\<open>value[key]\<close>, where the value need not be an object.\<close>

definition item_in :: "json \<Rightarrow> string \<Rightarrow> exn + json" where
  "item_in v k = (if is_dict v then item_of v k else Inl (TypeError k))"

text \<open>Every field is there and meets its condition.\<close>

definition gate_fields :: "json \<Rightarrow> string \<Rightarrow> (string \<times> (json \<Rightarrow> bool)) list \<Rightarrow> exn + unit" where
  "gate_fields v message conditions =
     each (\<lambda>(field, holds). bind_r (item_in v field) (\<lambda>x. require (holds x) (ValueError message))) conditions"

fun number_of :: "json \<Rightarrow> exn + rat" where
  "number_of (JBool b) = Inr (if b then 1 else 0)"
| "number_of (JInt n) = Inr (of_int n)"
| "number_of (JFloat x) = Inr x"
| "number_of v = Inl (TypeError ''sum'')"

fun positive_int :: "json \<Rightarrow> bool" where
  "positive_int (JInt n) = (n \<ge> 1)"
| "positive_int _ = False"

fun float_that :: "(rat \<Rightarrow> bool) \<Rightarrow> json \<Rightarrow> bool" where
  "float_that holds (JFloat x) = holds x"
| "float_that _ _ = False"

fun digest_text :: "json \<Rightarrow> bool" where
  "digest_text (JStr s) = (length s = 64 \<and> list_all lower_hex s)"
| "digest_text _ = False"

definition readiness_blockers :: "json \<Rightarrow> string list" where
  "readiness_blockers readiness = map fst (filter (\<lambda>(_, v). blank_text v) (members readiness))"

definition check_sample :: "json \<Rightarrow> exn + int" where
  "check_sample sample =
     bind_r (item_in sample ''matched_cases'') (\<lambda>cases.
     bind_r (item_in sample ''arms'') (\<lambda>arms.
     bind_r (require (positive_int cases) (ValueError ''matched_cases must be a positive integer'')) (\<lambda>_.
     bind_r (require (nonblank_texts arms \<and> length (texts_of arms) = 2 \<and> distinct (texts_of arms))
       (ValueError ''Exactly two unique matched arms are required'')) (\<lambda>_.
     bind_r (item_in sample ''planned_calls'') (\<lambda>planned.
     bind_r (require (py_equal planned (JInt (int_or_zero cases * 2))) (ValueError ''planned_calls must equal matched cases times arms'')) (\<lambda>_.
     bind_r (item_in sample ''strata'') (\<lambda>strata.
     bind_r (require (is_dict strata) (AttributeError ''values'')) (\<lambda>_.
     bind_r (traverse number_of (map snd (members strata))) (\<lambda>counts.
     bind_r (require (sum_list counts = of_int (int_or_zero cases) \<and> list_all positive_int (map snd (members strata)))
       (ValueError ''Positive stratum counts must sum to matched_cases'')) (\<lambda>_.
     bind_r (gate_fields sample ''Cases must be held-out synthetic/public inputs''
       [(''synthetic_or_public_only'', \<lambda>v. v = JBool True), (''held_out_from_candidates'', \<lambda>v. v = JBool True),
        (''case_reuse_from_v1_v2'', \<lambda>v. v = JBool False)]) (\<lambda>_.
     Inr (int_or_zero cases))))))))))))"

definition check_quality :: "json \<Rightarrow> int \<Rightarrow> exn + unit" where
  "check_quality quality cases =
     bind_r (item_in quality ''target_population_rate'') (\<lambda>target.
     case target of
       JFloat target_rate \<Rightarrow>
         bind_r (require (0 < target_rate \<and> target_rate < 1) (ValueError ''Population target must be a float between zero and one'')) (\<lambda>_.
         bind_r (item_in quality ''minimum_allocation_passes'') (\<lambda>recorded.
         bind_r (minimum_passes cases (of_rat target_rate)) (\<lambda>least.
         bind_r (require (py_equal recorded (JInt least)) (ValueError ''Minimum pass count does not satisfy the Wilson gate'')) (\<lambda>_.
         gate_fields quality ''Quality gate is incomplete or unsupported''
           [(''confidence_level'', \<lambda>v. py_equal v (JFloat (95 / 100))), (''critical_failures_allowed'', \<lambda>v. py_equal v (JInt 0)),
            (''all_pairs_must_be_graded'', \<lambda>v. v = JBool True),
            (''paired_interval_method'', \<lambda>v. v = JStr ''Newcombe score interval for paired proportions''),
            (''noninferiority_margin'', float_that (\<lambda>x. 0 \<le> x \<and> x < 1))]))))
     | _ \<Rightarrow> Inl (ValueError ''Population target must be a float between zero and one''))"

definition check_readiness :: "json \<Rightarrow> json \<Rightarrow> exn + string list" where
  "check_readiness document readiness =
     bind_r (require (is_dict readiness) (AttributeError ''items'')) (\<lambda>_.
     let blockers = readiness_blockers readiness; implementation_hash = get_of readiness ''paired_metric_implementation_sha256'' in
     bind_r (require (implementation_hash = JNull \<or> digest_text implementation_hash)
       (ValueError ''Paired metric hash must be a lowercase SHA-256 value'')) (\<lambda>_.
     bind_r (item_of document ''status'') (\<lambda>status.
     bind_r (require (status = JStr (if blockers = [] then ''ready'' else ''blocked''))
       (ValueError ''Governance status disagrees with readiness evidence'')) (\<lambda>_.
     if blockers \<noteq> [] then Inr blockers
     else
       bind_r (gate_fields readiness ''Readiness hashes must be lowercase SHA-256 values''
         [(''case_manifest_sha256'', digest_text), (''paired_metric_implementation_sha256'', digest_text)]) (\<lambda>_.
       bind_r (item_of readiness ''curator_id'') (\<lambda>curator.
       bind_r (item_of readiness ''reviewer_id'') (\<lambda>reviewer.
       bind_r (require (curator \<noteq> reviewer) (ValueError ''Case curator and independent reviewer must differ'')) (\<lambda>_.
       Inr blockers))))))))"

definition validate_governance :: "json \<Rightarrow> exn + string list" where
  "validate_governance document =
     bind_r (item_of document ''sample'') (\<lambda>sample.
     bind_r (item_of document ''quality_gate'') (\<lambda>quality.
     bind_r (item_of document ''savings_gate'') (\<lambda>saving.
     bind_r (item_of document ''review'') (\<lambda>review.
     bind_r (check_sample sample) (\<lambda>cases.
     bind_r (check_quality quality cases) (\<lambda>_.
     bind_r (gate_fields saving ''Savings gate must fail closed''
       [(''minimum_cost_reduction'', float_that (\<lambda>x. 0 < x \<and> x < 1)),
        (''require_complete_candidate_and_overhead_usage'', \<lambda>v. v = JBool True),
        (''require_applicable_billing_snapshot'', \<lambda>v. v = JBool True), (''quality_gate_must_pass_first'', \<lambda>v. v = JBool True)]) (\<lambda>_.
     bind_r (gate_fields review ''Independent blinded review is required''
       [(''independent_required'', \<lambda>v. v = JBool True), (''blind_to_arm_until_scores_are_frozen'', \<lambda>v. v = JBool True),
        (''candidate_author_ids_recorded'', \<lambda>v. v = JBool True)]) (\<lambda>_.
     bind_r (item_of document ''hard_stops'') (\<lambda>stops.
     bind_r (require (nonblank_texts stops \<and> distinct (texts_of stops)) (ValueError ''Unique hard-stop failures are required'')) (\<lambda>_.
     bind_r (item_of document ''readiness'') (check_readiness document)))))))))))"

definition load_governance :: "json \<Rightarrow> exn + string list" where
  "load_governance document =
     bind_r (require (is_dict document) (ValueError ''Governance record must be an object'')) (\<lambda>_. validate_governance document)"

end
