(* ===== verification/Grading.thy ===== *)
theory Grading
  imports AllocationGates Engines
begin

text \<open>
  The grader of a model allocation evaluation (\<open>src/scripts/grade_model_allocation.py\<close>): the grade of a task, and the summary
  with its gates. The artifacts of a task, the syntax tree of a candidate and the exit status of a script are arguments.
\<close>

section \<open>Grading a task\<close>

text \<open>The nodes of a syntax tree, in the order of \<open>ast.walk\<close>, that a source is judged by.\<close>

datatype ast_node =
    Import "string list"
  | ImportFrom "string option"
  | Attribute string
  | Name string
  | OtherNode

definition allowed_imports :: "string list" where
  "allowed_imports = [''math'', ''json'', ''hashlib'', ''sqlite3'']"

definition unapproved_builtins :: "string list" where
  "unapproved_builtins = [''exec'', ''eval'', ''compile'', ''open'', ''__import__'', ''globals'', ''locals'', ''getattr'', ''setattr'',
     ''input'', ''breakpoint'']"

fun safe_node :: "ast_node \<Rightarrow> bool" where
  "safe_node (Import names) = (set names \<subseteq> set allowed_imports)"
| "safe_node (ImportFrom m) = (case m of None \<Rightarrow> False | Some name \<Rightarrow> name \<in> set allowed_imports)"
| "safe_node (Attribute attr) = (take 2 attr \<noteq> ''__'')"
| "safe_node (Name i) = (i \<notin> set unapproved_builtins)"
| "safe_node OtherNode = True"

text \<open>What grading reads and runs. A failure of the parser or of the script is given by the name of its class.\<close>

record artifacts =
  af_measurement :: "json option"
  af_response :: "string option"

record grader =
  gr_parse :: "string \<Rightarrow> string + ast_node list"
  gr_run :: "string \<Rightarrow> string + int"

definition safe_source :: "grader \<Rightarrow> string \<Rightarrow> string + unit" where
  "safe_source g source =
     bind_r (gr_parse g source) (\<lambda>nodes. require (list_all safe_node nodes) ''ValueError'')"

text \<open>The script of a candidate: its source, a blank line, the checks of the task, each on a line.\<close>

fun join_lines :: "string list \<Rightarrow> string" where
  "join_lines [] = []"
| "join_lines [s] = s"
| "join_lines (s # t # ss) = s @ [char_of (10 :: nat)] @ join_lines (t # ss)"

definition candidate_script :: "string \<Rightarrow> string list \<Rightarrow> string" where
  "candidate_script source checks =
     source @ [char_of (10 :: nat), char_of (10 :: nat)] @ join_lines checks @ [char_of (10 :: nat)]"

definition graded :: "json \<Rightarrow> string \<Rightarrow> json \<Rightarrow> json" where
  "graded result grade reason = JObj (dict_put ''reason'' reason (dict_put ''grade'' (JStr grade) (members result)))"

definition verdict :: "bool \<Rightarrow> string" where
  "verdict passed = (if passed then ''pass'' else ''fail'')"

definition response_content :: "pylib \<Rightarrow> string option \<Rightarrow> exn + string option" where
  "response_content L response =
     (case Option.bind response (loads L) of
        None \<Rightarrow> Inr None
      | Some body \<Rightarrow>
          if \<not> is_dict body then Inl (TypeError ''content'')
          else (case get_of body ''content'' of
              JStr source \<Rightarrow> Inr (if length source > 50000 then None else Some source)
            | _ \<Rightarrow> Inr None))"

definition run_candidate :: "grader \<Rightarrow> json \<Rightarrow> json \<Rightarrow> string \<Rightarrow> exn + json" where
  "run_candidate g task result source =
     (case safe_source g source of
        Inl name \<Rightarrow> Inr (graded result ''fail'' (JStr name))
      | Inr _ \<Rightarrow>
          bind_r (item_of task ''checks'') (\<lambda>checks.
          case gr_run g (candidate_script source (texts_of checks)) of
            Inl name \<Rightarrow> Inr (graded result ''fail'' (JStr name))
          | Inr status \<Rightarrow> Inr (graded result (verdict (status = 0)) (JStr ''hidden_assertions_and_review''))))"

definition grade_reviewed :: "pylib \<Rightarrow> grader \<Rightarrow> json \<Rightarrow> string \<Rightarrow> json \<Rightarrow> json \<Rightarrow> string \<Rightarrow> exn + json" where
  "grade_reviewed L g task response inspected result source =
     (if falsy inspected then Inr (JObj (dict_put ''grade'' (JStr ''pending_review'') (members result)))
      else if \<not> is_dict inspected then Inl (AttributeError ''get'')
      else if get_of inspected ''response_sha256'' \<noteq> JStr (sha256_hex L response)
      then Inr (graded result ''pending_review'' (JStr ''review_hash_mismatch''))
      else
        bind_r (item_of inspected ''pass'') (\<lambda>passed.
        if falsy passed then bind_r (item_of inspected ''notes'') (\<lambda>notes. Inr (graded result ''fail'' notes))
        else
          bind_r (if get_of task ''review_criteria'' \<noteq> JNull then Inr True
                  else if dict_get task ''review_criteria'' = None then map_r (\<lambda>m. m = JStr ''gpt-6-astra'') (item_of task ''model'')
                  else Inr False) (\<lambda>by_review.
          if by_review then bind_r (item_of inspected ''notes'') (\<lambda>notes. Inr (graded result ''pass'' notes))
          else run_candidate g task result source)))"

text \<open>\<open>json.dumps(\<dots>, sort_keys=True)\<close> of two values are equal: \<open>1\<close>, \<open>1.0\<close> and \<open>true\<close> differ.\<close>

definition same_dump :: "pylib \<Rightarrow> json \<Rightarrow> json \<Rightarrow> bool" where
  "same_dump L v w \<longleftrightarrow> canonical_json L v = canonical_json L w"

definition task_row :: "json \<Rightarrow> exn + json" where
  "task_row task =
     bind_r (item_of task ''id'') (\<lambda>i.
     bind_r (item_of task ''model'') (\<lambda>model.
     bind_r (item_of task ''category'') (\<lambda>category.
     bind_r (item_of task ''critical'') (\<lambda>critical.
     let row = [(''id'', i), (''model'', model), (''category'', category), (''critical_task'', critical), (''grade'', JStr ''unrun'')] in
     case dict_get task ''case_id'' of
       None \<Rightarrow> Inr (JObj row)
     | Some case_id \<Rightarrow> bind_r (item_of task ''arm'') (\<lambda>arm. Inr (JObj (row @ [(''case_id'', case_id), (''arm'', arm)])))))))"

text \<open>The member \<open>invalid_tasks\<close> of a review, when it is there, is an object.\<close>

definition grade_task :: "pylib \<Rightarrow> grader \<Rightarrow> (string \<Rightarrow> artifacts) \<Rightarrow> json \<Rightarrow> json \<Rightarrow> exn + json" where
  "grade_task L g files review task =
     bind_r (id_of task) (\<lambda>i.
     bind_r (task_row task) (\<lambda>row.
     case af_measurement (files i) of
       None \<Rightarrow> Inr row
     | Some measurement \<Rightarrow>
         if \<not> is_dict measurement then Inl (AttributeError ''get'')
         else
           let result = JObj (members row @ [(''usage'', get_of measurement ''usage''), (''seconds'', get_of measurement ''seconds'')]) in
           bind_r (item_of measurement ''status'') (\<lambda>status.
           if status \<noteq> JStr ''completed'' then Inr (JObj (dict_put ''reason'' status (members result)))
           else case dict_get (get_of review ''invalid_tasks'') i of
             Some notes \<Rightarrow> Inr (graded result ''invalid_task'' notes)
           | None \<Rightarrow>
               if \<not> falsy (get_of measurement ''tool_items'') then Inr (graded result ''fail'' (JStr ''tool_use_violation''))
               else
                 bind_r (response_content L (af_response (files i))) (\<lambda>content.
                 case (content, af_response (files i)) of
                   (Some source, Some response) \<Rightarrow>
                     bind_r (item_of task ''expected'') (\<lambda>expected.
                     if expected \<noteq> JNull
                     then Inr (graded result (verdict (case loads L source of None \<Rightarrow> False | Some actual \<Rightarrow> same_dump L actual expected))
                       (JStr ''exact_json''))
                     else grade_reviewed L g task response (get_of review i) result source)
                 | _ \<Rightarrow> Inr (graded result ''fail'' (JStr ''invalid_response''))))))"

section \<open>Rows of a report\<close>

text \<open>\<open>row[key]\<close> over all the rows: the first row without the key raises. After it the fields are read with
  \<open>text_in\<close>; the rows are those \<open>grade_task\<close> makes, whose fields of this kind are texts.\<close>

definition keyed :: "string \<Rightarrow> json list \<Rightarrow> exn + unit" where
  "keyed key rows = each (\<lambda>row. map_r (\<lambda>_. ()) (item_of row key)) rows"

definition text_in :: "json \<Rightarrow> string \<Rightarrow> string" where
  "text_in v k = string_or_empty (get_of v k)"

definition grade_of :: "json \<Rightarrow> string" where
  "grade_of row = text_in row ''grade''"

definition count_grade :: "string \<Rightarrow> json list \<Rightarrow> int" where
  "count_grade grade rows = int (length (filter (\<lambda>row. grade_of row = grade) rows))"

text \<open>The integer a value is for \<open>isinstance(value, int)\<close>; a boolean is one.\<close>

fun int_like :: "json \<Rightarrow> int option" where
  "int_like (JInt n) = Some n"
| "int_like (JBool b) = Some (if b then 1 else 0)"
| "int_like _ = None"

text \<open>\<open>row["grade"] == "fail" and row["critical_task"]\<close>, as a number.\<close>

definition critical_failure :: "json \<Rightarrow> exn + int" where
  "critical_failure row =
     (if grade_of row \<noteq> ''fail'' then Inr 0
      else bind_r (item_of row ''critical_task'') (\<lambda>critical.
           case int_like critical of None \<Rightarrow> Inl (TypeError ''critical_task'') | Some n \<Rightarrow> Inr n))"

definition observed_rate :: "int \<Rightarrow> int \<Rightarrow> real option" where
  "observed_rate passed scored = (if scored = 0 then None else Some (pair_rate passed scored))"

definition all_or_none :: "int option list \<Rightarrow> int option" where
  "all_or_none vs = (if None \<in> set vs then None else Some (sum_list (List.map_filter id vs)))"

section \<open>Usage\<close>

definition usage_field :: "json \<Rightarrow> string \<Rightarrow> exn + int option" where
  "usage_field row field =
     (let usage = get_of row ''usage'' in
      if falsy usage then Inr None
      else if \<not> is_dict usage then Inl (AttributeError ''get'') else Inr (int_like (get_of usage field)))"

definition candidate_usage :: "json list \<Rightarrow> exn + (string \<times> int option) list" where
  "candidate_usage rows =
     traverse (\<lambda>field. map_r (\<lambda>vs. (field, all_or_none vs)) (traverse (\<lambda>row. usage_field row field) rows)) token_fields"

record model_usage =
  mu_calls_planned :: int
  mu_calls_with_usage :: int
  mu_calls_usage_unknown :: int
  mu_tokens :: "(string \<times> int option) list"

text \<open>Counters are integers, or \<open>null\<close>, which cannot be added.\<close>

definition recorded_sum :: "json list \<Rightarrow> string \<Rightarrow> exn + string \<times> int option" where
  "recorded_sum available field =
     (if available \<noteq> [] \<and> list_all (\<lambda>item. dict_get item field \<noteq> None) available
      then map_r (\<lambda>ns. (field, Some (sum_list ns)))
        (traverse (\<lambda>item. case int_like (get_of item field) of None \<Rightarrow> Inl (TypeError ''sum'') | Some n \<Rightarrow> Inr n) available)
      else Inr (field, None))"

definition usage_of_model :: "json list \<Rightarrow> exn + model_usage" where
  "usage_of_model rows =
     (let available = filter is_dict (map (\<lambda>row. get_of row ''usage'') rows) in
      map_r (\<lambda>tokens. \<lparr>mu_calls_planned = int (length rows), mu_calls_with_usage = int (length available),
          mu_calls_usage_unknown = int (length rows) - int (length available), mu_tokens = tokens\<rparr>)
        (traverse (recorded_sum available) token_fields))"

fun strict_int :: "json \<Rightarrow> int option" where
  "strict_int (JInt n) = Some n"
| "strict_int _ = None"

definition total_usage :: "(string \<times> int option) list \<Rightarrow> (string \<times> json) list option \<Rightarrow> exn + (string \<times> int option) list" where
  "total_usage usage overhead =
     (case overhead of
        None \<Rightarrow> Inr (map (\<lambda>(field, _). (field, None)) usage)
      | Some categories \<Rightarrow>
          traverse (\<lambda>(field, used). map_r (\<lambda>vs. (field, all_or_none (used # map strict_int vs)))
            (traverse (\<lambda>(_, item). item_of item field) categories)) usage)"

section \<open>Strata and pairs\<close>

record stratum =
  st_planned :: int
  st_passed :: int
  st_failed :: int
  st_ungraded :: int
  st_observed_rate :: "real option"
  st_wilson_95_interval :: "(real \<times> real) option"

definition stratum_of :: "json list \<Rightarrow> stratum" where
  "stratum_of rows =
     (let p = count_grade ''pass'' rows; f = count_grade ''fail'' rows in
      \<lparr>st_planned = int (length rows), st_passed = p, st_failed = f, st_ungraded = int (length rows) - p - f,
       st_observed_rate = observed_rate p (p + f), st_wilson_95_interval = wilson p (p + f)\<rparr>)"

text \<open>The values of a field, sorted, each with its rows.\<close>

definition grouped_by :: "string \<Rightarrow> json list \<Rightarrow> (string \<times> json list) list" where
  "grouped_by field rows =
     map (\<lambda>v. (v, filter (\<lambda>row. text_in row field = v) rows)) (sort (remdups (map (\<lambda>row. text_in row field) rows)))"

record arm_summary =
  as_planned :: int
  as_passed :: int
  as_failed :: int
  as_ungraded :: int

definition arm_summary_of :: "json list \<Rightarrow> arm_summary" where
  "arm_summary_of rows =
     (let p = count_grade ''pass'' rows; f = count_grade ''fail'' rows in
      \<lparr>as_planned = int (length rows), as_passed = p, as_failed = f, as_ungraded = int (length rows) - p - f\<rparr>)"

fun join_slash :: "string list \<Rightarrow> string" where
  "join_slash [] = []"
| "join_slash [s] = s"
| "join_slash (s # t # ss) = s @ ''/'' @ join_slash (t # ss)"

type_synonym pairs = "int \<times> int \<times> (string \<times> int) list"

text \<open>The last row of every arm.\<close>

definition rows_by_arm :: "json list \<Rightarrow> (string \<times> json) list" where
  "rows_by_arm rows = fold (\<lambda>row. dict_put (text_in row ''arm'') row) rows []"

definition arm_grade :: "(string \<times> json) list \<Rightarrow> string \<Rightarrow> string" where
  "arm_grade rows arm = (case map_of rows arm of None \<Rightarrow> [] | Some row \<Rightarrow> grade_of row)"

definition pair_case :: "string list \<Rightarrow> json list \<Rightarrow> pairs \<Rightarrow> pairs" where
  "pair_case arms rows paired =
     (case paired of (complete_pairs, incomplete_pairs, tally) \<Rightarrow>
      let by_arm = rows_by_arm rows in
      if set (map fst by_arm) \<noteq> set arms \<or> list_ex (\<lambda>arm. arm_grade by_arm arm \<notin> {''pass'', ''fail''}) arms
      then (complete_pairs, incomplete_pairs + 1, tally)
      else
        let key = join_slash (map (\<lambda>arm. arm @ '':'' @ arm_grade by_arm arm) arms) in
        (complete_pairs + 1, incomplete_pairs, dict_put key ((case map_of tally key of None \<Rightarrow> 0 | Some n \<Rightarrow> n) + 1) tally))"

definition pair_cases :: "string list \<Rightarrow> json list \<Rightarrow> pairs" where
  "pair_cases arms rows = fold (\<lambda>(_, subset). pair_case arms subset) (grouped_by ''case_id'' rows) (0, 0, [])"

definition outcome_count :: "(string \<times> int) list \<Rightarrow> string \<Rightarrow> string \<Rightarrow> string \<Rightarrow> string \<Rightarrow> int" where
  "outcome_count tally allocation ga baseline gb =
     (case map_of tally (allocation @ '':'' @ ga @ ''/'' @ baseline @ '':'' @ gb) of None \<Rightarrow> 0 | Some n \<Rightarrow> n)"

section \<open>The summary\<close>

record threshold =
  th_planned_tasks :: int
  th_minimum_first_pass :: int
  th_critical_failures_allowed :: int

definition default_threshold :: threshold where
  "default_threshold = \<lparr>th_planned_tasks = 26, th_minimum_first_pass = 23, th_critical_failures_allowed = 0\<rparr>"

record matched =
  mt_complete_pairs :: int
  mt_incomplete_pairs :: int
  mt_outcomes :: "(string \<times> int) list"
  mt_noninferiority :: "noninferiority option"

record grading_summary =
  sm_planned :: int
  sm_passed :: int
  sm_failed :: int
  sm_invalid_tasks :: int
  sm_unrun :: int
  sm_ungraded :: int
  sm_complete :: bool
  sm_critical_failures :: int
  sm_valid_scored_tasks :: int
  sm_observed_rate :: "real option"
  sm_pilot_gate_passed :: bool
  sm_wilson_95_interval :: "(real \<times> real) option"
  sm_lower_bound_exceeds_87_percent :: bool
  sm_population_claim_valid :: bool
  sm_by_model :: "(string \<times> stratum) list"
  sm_candidate_usage :: "(string \<times> int option) list"
  sm_recorded_candidate_usage_by_model :: "(string \<times> model_usage) list"
  sm_total_recorded_usage :: "(string \<times> int option) list"
  sm_usage_complete :: bool
  sm_by_arm :: "(string \<times> arm_summary) list"
  sm_matched_comparison :: "matched option"
  sm_matched_quality_gate_passed :: "bool option"

definition summarize_rows :: "threshold \<Rightarrow> json list \<Rightarrow> (string \<times> json) list option \<Rightarrow> exn + grading_summary" where
  "summarize_rows threshold results overhead =
     (let passed = count_grade ''pass'' results; failed = count_grade ''fail'' results;
          invalid = count_grade ''invalid_task'' results; pairs = int (length results);
          unrun = pairs - passed - failed - invalid; complete = (unrun = 0); interval = wilson passed (passed + failed);
          models = grouped_by ''model'' results in
      bind_r (keyed ''grade'' results) (\<lambda>_.
      bind_r (traverse critical_failure results) (\<lambda>criticals.
      bind_r (keyed ''model'' results) (\<lambda>_.
      bind_r (candidate_usage results) (\<lambda>usage.
      bind_r (traverse (\<lambda>(model, subset). map_r (Pair model) (usage_of_model subset)) models) (\<lambda>by_model_usage.
      bind_r (total_usage usage overhead) (\<lambda>used.
      Inr \<lparr>sm_planned = pairs, sm_passed = passed, sm_failed = failed, sm_invalid_tasks = invalid, sm_unrun = unrun,
           sm_ungraded = invalid + unrun, sm_complete = complete, sm_critical_failures = sum_list criticals,
           sm_valid_scored_tasks = passed + failed, sm_observed_rate = observed_rate passed (passed + failed),
           sm_pilot_gate_passed = (complete \<and> pairs = th_planned_tasks threshold \<and> invalid = 0
             \<and> passed \<ge> th_minimum_first_pass threshold \<and> sum_list criticals \<le> th_critical_failures_allowed threshold),
           sm_wilson_95_interval = interval,
           sm_lower_bound_exceeds_87_percent = (complete \<and> invalid = 0 \<and> (case interval of None \<Rightarrow> False | Some (l, _) \<Rightarrow> l > 87 / 100)),
           sm_population_claim_valid = False,
           sm_by_model = map (\<lambda>(model, subset). (model, stratum_of subset)) models,
           sm_candidate_usage = usage, sm_recorded_candidate_usage_by_model = by_model_usage,
           sm_total_recorded_usage = used, sm_usage_complete = list_all (\<lambda>(_, n). n \<noteq> None) used,
           sm_by_arm = [], sm_matched_comparison = None, sm_matched_quality_gate_passed = None\<rparr>)))))))"

definition summarize_grades ::
    "(real \<Rightarrow> real) \<Rightarrow> json list \<Rightarrow> threshold option \<Rightarrow> string list option \<Rightarrow> (string \<times> json) list option \<Rightarrow> real option \<Rightarrow> int option
      \<Rightarrow> exn + grading_summary" where
  "summarize_grades inv_cdf results threshold comparison overhead margin minimum_allocation_passes =
     (let limits = (case threshold of None \<Rightarrow> default_threshold | Some th \<Rightarrow> th) in
      bind_r (summarize_rows limits results overhead) (\<lambda>s.
      case comparison of
        None \<Rightarrow> Inr s
      | Some arms \<Rightarrow>
          bind_r (if arms = [] then Inr () else keyed ''arm'' results) (\<lambda>_.
          bind_r (keyed ''case_id'' results) (\<lambda>_.
          bind_r (keyed ''arm'' results) (\<lambda>_.
          let by_arm = map (\<lambda>arm. (arm, arm_summary_of (filter (\<lambda>row. text_in row ''arm'' = arm) results))) arms in
          case pair_cases arms results of (complete_pairs, incomplete_pairs, tally) \<Rightarrow>
          let paired = \<lparr>mt_complete_pairs = complete_pairs, mt_incomplete_pairs = incomplete_pairs, mt_outcomes = tally,
                mt_noninferiority = None\<rparr>;
              s1 = s\<lparr>sm_by_arm := by_arm, sm_matched_comparison := Some paired\<rparr> in
          case margin of
            None \<Rightarrow> Inr s1
          | Some m \<Rightarrow>
              let s2 = s1\<lparr>sm_matched_quality_gate_passed := Some False, sm_pilot_gate_passed := False\<rparr> in
              if \<not> (incomplete_pairs = 0 \<and> complete_pairs > 0) then Inr s2
              else (case arms of
                [allocation, baseline] \<Rightarrow>
                  let count = (\<lambda>ga gb. outcome_count tally allocation ga baseline gb) in
                  bind_r (newcombe_paired_interval inv_cdf (count ''pass'' ''pass'') (count ''pass'' ''fail'') (count ''fail'' ''pass'')
                    (count ''fail'' ''fail'') (95 / 100)) (\<lambda>interval.
                  bind_r (paired_noninferiority interval m) (\<lambda>result.
                  case minimum_allocation_passes of
                    None \<Rightarrow> Inl (ValueError ''A matched minimum pass count is required with a margin'')
                  | Some least \<Rightarrow>
                      let gate = (sm_complete s \<and> sm_planned s = th_planned_tasks limits \<and> sm_invalid_tasks s = 0
                            \<and> sm_critical_failures s \<le> th_critical_failures_allowed limits
                            \<and> as_passed (arm_summary_of (filter (\<lambda>row. text_in row ''arm'' = allocation) results)) \<ge> least
                            \<and> nf_passed result) in
                      Inr (s2\<lparr>sm_matched_comparison := Some (paired\<lparr>mt_noninferiority := Some result\<rparr>),
                              sm_matched_quality_gate_passed := Some gate, sm_pilot_gate_passed := gate\<rparr>)))
              | _ \<Rightarrow> Inl (ValueError ''unpack'')))))))"

section \<open>Declarations and the ledger of overhead\<close>

definition validate_review_declaration :: "json \<Rightarrow> json \<Rightarrow> exn + unit" where
  "validate_review_declaration manifest review =
     (let policy = get_or_empty manifest ''review'' in
      bind_r (require (is_dict policy) (ValueError ''Review policy must be an object'')) (\<lambda>_.
      if falsy (get_of policy ''require_independent'') then Inr ()
      else
        let metadata = get_of review ''_meta''; reviewer = get_of metadata ''reviewer_id''; authors = get_of metadata ''candidate_author_ids'' in
        bind_r (require (is_dict metadata) (ValueError ''Independent review metadata is required'')) (\<lambda>_.
        require (get_of metadata ''independent'' = JBool True \<and> \<not> blank_text reviewer \<and> nonblank_texts authors
            \<and> string_or_empty reviewer \<notin> set (texts_of authors))
          (ValueError ''Independent review declaration is invalid''))))"

definition load_overhead :: "json option \<Rightarrow> exn + (string \<times> json) list option" where
  "load_overhead ledger =
     (case ledger of
        None \<Rightarrow> Inr None
      | Some v \<Rightarrow>
          bind_r (require (is_dict v \<and> members v \<noteq> []) (ValueError ''Overhead ledger must contain named categories'')) (\<lambda>_.
          bind_r (each (\<lambda>(category, usage).
              bind_r (require (strip category \<noteq> [] \<and> is_dict usage) (ValueError ''Invalid overhead category'')) (\<lambda>_.
              require (set (map fst (members usage)) = set token_fields
                  \<and> list_all (\<lambda>(_, item). item = JNull \<or> counter_ok item) (members usage))
                (ValueError ''Overhead usage fields must be nonnegative integers or null''))) (members v)) (\<lambda>_.
          Inr (Some (members v)))))"

section \<open>A report\<close>

text \<open>What \<open>main\<close> reads: the resolved manifest with its digest, and the documents with the digests of their files.\<close>

record grading_input =
  gi_manifest :: json
  gi_manifest_sha256 :: string
  gi_governance :: "json option"
  gi_run :: json
  gi_run_sha256 :: string
  gi_review :: json
  gi_review_sha256 :: string
  gi_savings :: "json option"
  gi_overhead :: "json option"
  gi_files :: "string \<Rightarrow> artifacts"

definition governance_for :: "json \<Rightarrow> string \<Rightarrow> json option \<Rightarrow> exn + json" where
  "governance_for manifest manifest_sha256 document =
     (case document of
        None \<Rightarrow> Inl (ValueError ''Version 3 grading requires a governance record'')
      | Some governance \<Rightarrow>
          bind_r (load_governance governance) (\<lambda>blockers.
          bind_r (require (blockers = []) (ValueError ''Version 3 grading requires complete governance'')) (\<lambda>_.
          bind_r (require (get_of (get_of governance ''readiness'') ''case_manifest_sha256'' = JStr manifest_sha256)
            (ValueError ''Governance is not bound to this manifest'')) (\<lambda>_.
          Inr governance))))"

text \<open>The review, the evidence and the overhead that a run of version 3 is graded by.\<close>

definition evidence_for :: "pylib \<Rightarrow> grading_input \<Rightarrow> json \<Rightarrow> exn + json \<times> json \<times> (string \<times> json) list" where
  "evidence_for L inp governance =
     (let readiness = get_of governance ''readiness'' in
      bind_r (require (gi_overhead inp = None) (ValueError ''V3 overhead must come from savings evidence'')) (\<lambda>_.
      case gi_savings inp of
        None \<Rightarrow> Inl (ValueError ''Version 3 grading requires savings evidence'')
      | Some evidence \<Rightarrow>
          bind_r (validate_blinded_review_ledger L (gi_review inp) (gi_manifest inp) (gi_manifest_sha256 inp) (gi_run_sha256 inp)
            (Some (\<lambda>i. map_option (sha256_hex L) (af_response (gi_files inp i))))) (\<lambda>_.
          bind_r (item_of readiness ''reviewer_id'') (\<lambda>reviewer.
          bind_r (require (get_of (gi_review inp) ''reviewer_id'' = reviewer)
            (ValueError ''Review ledger reviewer does not match governance'')) (\<lambda>_.
          bind_r (item_of readiness ''billing_snapshot_id'') (\<lambda>billing_id.
          bind_r (validate_savings_evidence L evidence (gi_manifest_sha256 inp) (gi_run_sha256 inp) (gi_review_sha256 inp)
            (string_or_empty billing_id)) (\<lambda>_.
          let items = (case get_of evidence ''overhead'' of JArr items \<Rightarrow> items | _ \<Rightarrow> []) in
          Inr (compile_review_for_grader (gi_review inp), evidence,
               fold (\<lambda>item. dict_put (text_in item ''arm'' @ '':'' @ text_in item ''category'') (get_of item ''usage'')) items []))))))))"

definition threshold_of :: "json \<Rightarrow> threshold option" where
  "threshold_of v =
     (if falsy v then None
      else Some \<lparr>th_planned_tasks = int_or_zero (get_of v ''planned_tasks''),
                 th_minimum_first_pass = int_or_zero (get_of v ''minimum_first_pass''),
                 th_critical_failures_allowed = int_or_zero (get_of v ''critical_failures_allowed'')\<rparr>)"

definition comparison_of :: "json \<Rightarrow> string list option" where
  "comparison_of manifest =
     (case get_of manifest ''comparison'' of JNull \<Rightarrow> None | comparison \<Rightarrow> Some (texts_of (get_of comparison ''arms'')))"

fun float_or_zero :: "json \<Rightarrow> rat" where
  "float_or_zero (JFloat x) = x"
| "float_or_zero _ = 0"

text \<open>The rows, their summary, and for version 3 the savings, which need the matched gate.\<close>

definition grade_report ::
    "pylib \<Rightarrow> grader \<Rightarrow> (real \<Rightarrow> real) \<Rightarrow> grading_input \<Rightarrow> exn + json list \<times> grading_summary \<times> savings option" where
  "grade_report L g inv_cdf inp =
     (let manifest = gi_manifest inp; v3 = py_equal (get_of manifest ''version'') (JInt 3) in
      bind_r (if v3 then map_r Some (governance_for manifest (gi_manifest_sha256 inp) (gi_governance inp)) else Inr None) (\<lambda>governance.
      bind_r (item_of (gi_run inp) ''manifest_sha256'') (\<lambda>recorded.
      bind_r (require (recorded = JStr (gi_manifest_sha256 inp)) (ValueError ''Manifest changed after run began'')) (\<lambda>_.
      bind_r (case governance of
          Some gov \<Rightarrow> map_r (\<lambda>(review, evidence, overhead). (review, Some evidence, Some overhead)) (evidence_for L inp gov)
        | None \<Rightarrow> map_r (\<lambda>overhead. (gi_review inp, None, overhead)) (load_overhead (gi_overhead inp))) (\<lambda>(review, evidence, overhead).
      bind_r (validate_review_declaration manifest review) (\<lambda>_.
      bind_r (tasks_with (grade_task L g (gi_files inp) review) manifest) (\<lambda>results.
      bind_r (item_of manifest ''threshold'') (\<lambda>limits.
      let quality = (\<lambda>gov. get_of gov ''quality_gate'') in
      bind_r (summarize_grades inv_cdf results (threshold_of limits) (comparison_of manifest) overhead
        (map_option (\<lambda>gov. of_rat (float_or_zero (get_of (quality gov) ''noninferiority_margin''))) governance)
        (map_option (\<lambda>gov. int_or_zero (get_of (quality gov) ''minimum_allocation_passes'')) governance)) (\<lambda>s.
      case (evidence, governance) of
        (Some ev, Some gov) \<Rightarrow>
          (case sm_matched_quality_gate_passed s of
             None \<Rightarrow> Inl (KeyError ''matched_quality_gate_passed'')
           | Some passed \<Rightarrow>
               map_r (\<lambda>sv. (results, s, Some sv))
                 (evaluate_savings results ev passed (float_or_zero (get_of (get_of gov ''savings_gate'') ''minimum_cost_reduction''))))
      | _ \<Rightarrow> Inr (results, s, None))))))))))"

end
