(* ===== verification/AllocationTheorems.thy ===== *)
theory AllocationTheorems
  imports Allocation
begin

text \<open>
  What accepted documents of an evaluation guarantee: every case is put to every arm with the same task, and every task
  that needs a review has exactly one, by a reviewer who wrote no candidate and did not know the arms.
\<close>

section \<open>Matched cases\<close>

definition case_of :: "json \<Rightarrow> json" where
  "case_of t = get_of t ''case_id''"

definition arm_of :: "json \<Rightarrow> json" where
  "arm_of t = get_of t ''arm''"

lemma check_compared_taskD:
  assumes "check_compared_task arms t (ids, grouped) = Inr (ids', grouped')"
  shows "\<exists>c i. case_of t = JStr c \<and> arm_of t \<in> JStr ` set arms \<and> get_of t ''id'' = JStr i \<and> i \<notin> set ids \<and> ids' = i # ids
    \<and> grouped' = dict_put c ((case map_of grouped c of None \<Rightarrow> [] | Some ts \<Rightarrow> ts) @ [t]) grouped"
  using assms by (auto simp: check_compared_task_def case_of_def arm_of_def split: json.splits if_splits)

lemma grouped_tasks:
  assumes "foldM (check_compared_task arms) ts (ids, grouped) = Inr (ids', grouped')"
    and "\<forall>c. map_of grouped c = (let l = filter (\<lambda>t. case_of t = JStr c) done in if l = [] then None else Some l)"
  shows "(\<forall>c. map_of grouped' c = (let l = filter (\<lambda>t. case_of t = JStr c) (done @ ts) in if l = [] then None else Some l))
    \<and> (\<forall>t \<in> set ts. (\<exists>c. case_of t = JStr c) \<and> (\<exists>i. get_of t ''id'' = JStr i))
    \<and> (distinct ids \<longrightarrow> distinct ids') \<and> ids' = rev (map (\<lambda>t. string_or_empty (get_of t ''id'')) ts) @ ids"
  using assms
proof (induction ts arbitrary: ids grouped "done")
  case Nil
  then show ?case by simp
next
  case (Cons t ts)
  obtain ids1 g1 where c: "check_compared_task arms t (ids, grouped) = Inr (ids1, g1)"
    and f: "foldM (check_compared_task arms) ts (ids1, g1) = Inr (ids', grouped')"
    using Cons.prems(1) by (auto simp: bind_r_eq_Inr)
  obtain k i where d: "case_of t = JStr k" "arm_of t \<in> JStr ` set arms" "get_of t ''id'' = JStr i" "i \<notin> set ids" "ids1 = i # ids"
    "g1 = dict_put k ((case map_of grouped k of None \<Rightarrow> [] | Some ts \<Rightarrow> ts) @ [t]) grouped"
    using check_compared_taskD [OF c] by (elim exE conjE) (rule that)
  have "(case map_of grouped k of None \<Rightarrow> [] | Some ts \<Rightarrow> ts) = filter (\<lambda>t. case_of t = JStr k) done"
    using Cons.prems(2) by (simp add: Let_def)
  then have "map_of g1 = (map_of grouped)(k \<mapsto> filter (\<lambda>t. case_of t = JStr k) done @ [t])"
    by (simp add: d(6) dict_put_def update_conv')
  then have g: "\<forall>c. map_of g1 c = (let l = filter (\<lambda>t. case_of t = JStr c) (done @ [t]) in if l = [] then None else Some l)"
    using Cons.prems(2) d(1) by (simp add: Let_def)
  note IH = Cons.IH [OF f g]
  have "distinct ids \<longrightarrow> distinct ids1" using d(4,5) by simp
  then have di: "distinct ids \<longrightarrow> distinct ids'" using IH by blast
  have "ids' = rev (map (\<lambda>t. string_or_empty (get_of t ''id'')) ts) @ i # ids" using IH d(5) by simp
  then have e: "ids' = rev (map (\<lambda>t. string_or_empty (get_of t ''id'')) (t # ts)) @ ids" by (simp add: d(3))
  have a: "\<forall>t \<in> set (t # ts). (\<exists>c. case_of t = JStr c) \<and> (\<exists>i. get_of t ''id'' = JStr i)" using IH d(1,3) by simp
  have "\<forall>c. map_of grouped' c = (let l = filter (\<lambda>t. case_of t = JStr c) (done @ t # ts) in if l = [] then None else Some l)"
    using IH by simp
  then show ?case using a di e by blast
qed

lemma exactly_once:
  assumes "length xs = length ys" and "f ` set xs = set ys" and "distinct ys"
  shows "distinct (map f xs)"
  using assms by (metis card_distinct distinct_card length_map list.set_map)

lemma filter_one:
  assumes "distinct (map f xs)" and "x \<in> set xs" shows "filter (\<lambda>v. f v = f x) xs = [x]"
proof -
  obtain ys zs where l: "xs = ys @ x # zs" using split_list [OF assms(2)] by blast
  then have "f x \<notin> f ` (set ys \<union> set zs)" using assms(1) by auto
  then have "\<forall>v \<in> set ys \<union> set zs. f v \<noteq> f x" by (metis imageI)
  then show ?thesis by (auto simp: l filter_empty_conv)
qed

text \<open>
  In an accepted manifest with a comparison the identifiers of the tasks are distinct, and every case of a task occurs in every
  arm exactly once, with the same prompt, expectation, checks and criteria.
\<close>

theorem manifest_matched:
  assumes "validate_manifest manifest = Inr ()" and "get_of manifest ''comparison'' = comparison" and "comparison \<noteq> JNull"
  shows "\<exists>ts. dict_get manifest ''tasks'' = Some (JArr ts) \<and> distinct (map (\<lambda>t. get_of t ''id'') ts)
    \<and> (\<forall>t \<in> set ts. \<forall>arm \<in> set (texts_of (get_of comparison ''arms'')).
        \<exists>u. filter (\<lambda>u. case_of u = case_of t \<and> arm_of u = JStr arm) ts = [u]
          \<and> (\<forall>field \<in> set compared_fields. py_equal (get_of u field) (get_of t field)))"
proof -
  let ?arms = "texts_of (get_of comparison ''arms'')"
  have "(case comparison of JNull \<Rightarrow> False | _ \<Rightarrow> True)" using assms(3) by (cases comparison) auto
  then obtain tasks where arms: "distinct ?arms" and i: "item_of manifest ''tasks'' = Inr tasks"
    and t: "(case tasks of JArr ts \<Rightarrow> bind_r (foldM (check_compared_task ?arms) ts ([], [])) (\<lambda>(_, grouped). each (check_case ?arms) grouped)
          | _ \<Rightarrow> Inl (TypeError ''tasks'')) = Inr ()"
    using assms(1,2) by (cases comparison) (auto simp: validate_manifest_def Let_def bind_r_eq_Inr)
  obtain ts ids grouped where ts: "tasks = JArr ts" and f: "foldM (check_compared_task ?arms) ts ([], []) = Inr (ids, grouped)"
    and e: "each (check_case ?arms) grouped = Inr ()"
    using t by (auto simp: bind_r_eq_Inr split: json.splits)
  have "\<forall>c. map_of ([] :: (string \<times> json list) list) c = (let l = filter (\<lambda>t. case_of t = JStr c) [] in if l = [] then None else Some l)" by simp
  note g = grouped_tasks [OF f this, unfolded append_Nil append_Nil2]
  have str: "get_of t ''id'' = JStr (string_or_empty (get_of t ''id''))" if "t \<in> set ts" for t
    using g that by fastforce
  have once: "\<exists>u. filter (\<lambda>u. case_of u = case_of t \<and> arm_of u = JStr arm) ts = [u]
          \<and> (\<forall>field \<in> set compared_fields. py_equal (get_of u field) (get_of t field))"
    if tm: "t \<in> set ts" and am: "arm \<in> set ?arms" for t arm
  proof -
    obtain c where c: "case_of t = JStr c" using g tm by blast
    define l where "l = filter (\<lambda>u. case_of u = JStr c) ts"
    have tl: "t \<in> set l" using tm c by (simp add: l_def)
    then have "l \<noteq> []" by auto
    then have "map_of grouped c = Some l" using g by (simp add: l_def Let_def)
    then have "check_case ?arms (c, l) = Inr ()" using e by (auto simp: each_eq_Inr dest: map_of_SomeD)
    then have img: "arm_of ` set l = set (map JStr ?arms)" and len: "length l = length (map JStr ?arms)"
      and same: "\<forall>u \<in> set (tl l). \<forall>field \<in> set compared_fields. py_equal (get_of u field) (get_of (hd l) field)"
      by (auto simp: check_case_def bind_r_eq_Inr each_eq_Inr arm_of_def)
    have "distinct (map JStr ?arms)" using arms by (simp add: distinct_map inj_on_def)
    then have dist: "distinct (map arm_of l)" using exactly_once [OF len img] by blast
    obtain u where u: "u \<in> set l" "arm_of u = JStr arm" using img am by force
    have f1: "filter (\<lambda>v. arm_of v = JStr arm) l = [u]" using filter_one [OF dist u(1)] u(2) by simp
    have f2: "filter (\<lambda>u. case_of u = case_of t \<and> arm_of u = JStr arm) ts = filter (\<lambda>v. arm_of v = JStr arm) l"
      by (simp add: l_def c conj_commute)
    have all: "py_equal (get_of v field) (get_of (hd l) field)" if "v \<in> set l" "field \<in> set compared_fields" for v field
    proof (cases l)
      case Nil
      then show ?thesis using that(1) by simp
    next
      case (Cons x xs)
      then have "v = x \<or> v \<in> set xs" using that(1) by simp
      then show ?thesis
      proof
        assume "v = x"
        then show ?thesis by (simp add: Cons py_equal_def)
      next
        assume "v \<in> set xs"
        then show ?thesis using same that(2) by (simp add: Cons)
      qed
    qed
    have "py_equal (get_of u field) (get_of t field)" if "field \<in> set compared_fields" for field
      using all [OF u(1) that] all [OF tl that] by (simp add: py_equal_def)
    then show ?thesis using f1 f2 by auto
  qed
  have "distinct ids" and "ids = rev (map (\<lambda>t. string_or_empty (get_of t ''id'')) ts)" using g by auto
  then have "distinct (map (\<lambda>t. string_or_empty (get_of t ''id'')) ts)" by simp
  then have "distinct (map (\<lambda>t. get_of t ''id'') ts)"
    by (auto simp: distinct_map inj_on_def)
  then show ?thesis using once i ts by (auto simp: item_of_def split: option.splits)
qed

definition sample_arm_task :: "string \<Rightarrow> string \<Rightarrow> json" where
  "sample_arm_task i arm = JObj [(''id'', JStr i), (''case_id'', JStr ''c1''), (''arm'', JStr arm), (''prompt'', JStr ''p''),
     (''expected'', JNull), (''critical'', JBool True)]"

definition sample_manifest :: json where
  "sample_manifest = JObj [(''comparison'', JObj [(''arms'', JArr [JStr ''base'', JStr ''new'']), (''baseline_arm'', JStr ''base''),
       (''require_complete_pairs'', JBool True)]),
     (''review'', JObj [(''require_independent'', JBool True), (''candidate_author_ids'', JArr [JStr ''author''])]),
     (''tasks'', JArr [sample_arm_task ''t1'' ''base'', sample_arm_task ''t2'' ''new''])]"

lemma sample_manifest_accepted: "validate_manifest sample_manifest = Inr ()" "get_of sample_manifest ''comparison'' \<noteq> JNull"
  by code_simp+

lemma manifest_matched_witness:
  "\<exists>ts. dict_get sample_manifest ''tasks'' = Some (JArr ts) \<and> distinct (map (\<lambda>t. get_of t ''id'') ts)
    \<and> (\<forall>t \<in> set ts. \<forall>arm \<in> set (texts_of (get_of (get_of sample_manifest ''comparison'') ''arms'')).
        \<exists>u. filter (\<lambda>u. case_of u = case_of t \<and> arm_of u = JStr arm) ts = [u]
          \<and> (\<forall>field \<in> set compared_fields. py_equal (get_of u field) (get_of t field)))"
  by (rule manifest_matched [OF sample_manifest_accepted(1) refl sample_manifest_accepted(2)])

end
