(* ===== verification/GradingTheorems.thy ===== *)
theory GradingTheorems
  imports Grading AllocationTheorems JsonText
begin

text \<open>What a pass means: of a task, and of the gate over the matched pairs of an evaluation.\<close>

section \<open>The grade of a task\<close>

lemma get_put: "get_of (JObj (dict_put k v d)) k' = (if k' = k then v else get_of (JObj d) k')"
  by (simp add: get_of_def dict_get_def dict_put_def update_conv')

lemma grade_graded [simp]: "grade_of (graded result g reason) = g"
  by (simp add: grade_of_def text_in_def graded_def get_put)

lemma grade_put_other: "k \<noteq> ''grade'' \<Longrightarrow> grade_of (JObj (dict_put k v d)) = grade_of (JObj d)"
  by (simp add: grade_of_def text_in_def get_put)

lemma task_row_unrun:
  assumes "task_row task = Inr row"
  shows "grade_of row = ''unrun''" "grade_of (JObj (members row @ rest)) = ''unrun''"
  using assms by (auto simp: task_row_def bind_r_eq_Inr Let_def grade_of_def text_in_def get_of_def dict_get_def split: option.splits)

text \<open>How a task earns a pass.\<close>

definition matches_expected :: "pylib \<Rightarrow> json \<Rightarrow> string \<Rightarrow> bool" where
  "matches_expected L task source \<longleftrightarrow>
     get_of task ''expected'' \<noteq> JNull \<and> (\<exists>actual. loads L source = Some actual \<and> same_dump L actual (get_of task ''expected''))"

definition passed_review :: "pylib \<Rightarrow> json \<Rightarrow> string \<Rightarrow> bool" where
  "passed_review L inspected response \<longleftrightarrow>
     get_of inspected ''response_sha256'' = JStr (sha256_hex L response) \<and> \<not> falsy (get_of inspected ''pass'')"

definition passed_checks :: "grader \<Rightarrow> json \<Rightarrow> string \<Rightarrow> bool" where
  "passed_checks g task source \<longleftrightarrow>
     (\<exists>nodes. gr_parse g source = Inr nodes \<and> list_all safe_node nodes)
     \<and> gr_run g (candidate_script source (texts_of (get_of task ''checks''))) = Inr 0"

lemma item_get: "item_of v k = Inr x \<Longrightarrow> get_of v k = x"
  by (auto simp: item_of_def get_of_def split: option.splits)

lemma verdict_pass [simp]: "verdict b = ''pass'' \<longleftrightarrow> b"
  by (simp add: verdict_def)

lemma safe_source_Inr: "safe_source g source = Inr u \<longleftrightarrow> (\<exists>nodes. gr_parse g source = Inr nodes \<and> list_all safe_node nodes)"
  by (auto simp: safe_source_def bind_r_eq_Inr)

lemma run_candidate_pass:
  assumes "run_candidate g task result source = Inr row" and "grade_of row = ''pass''"
  shows "passed_checks g task source"
proof (cases "safe_source g source")
  case (Inl name)
  then show ?thesis using assms by (auto simp: run_candidate_def)
next
  case (Inr u)
  obtain checks where c: "item_of task ''checks'' = Inr checks"
    and r: "(case gr_run g (candidate_script source (texts_of checks)) of Inl name \<Rightarrow> Inr (graded result ''fail'' (JStr name))
        | Inr status \<Rightarrow> Inr (graded result (verdict (status = 0)) (JStr ''hidden_assertions_and_review''))) = (Inr row :: exn + json)"
    using assms(1) Inr by (auto simp: run_candidate_def bind_r_eq_Inr)
  show ?thesis
  proof (cases "gr_run g (candidate_script source (texts_of checks))")
    case (Inl name)
    then show ?thesis using r assms(2) by auto
  next
    case s: (Inr status)
    then have "status = 0" using r assms(2) by auto
    moreover have "\<exists>nodes. gr_parse g source = Inr nodes \<and> list_all safe_node nodes" using Inr by (simp add: safe_source_Inr)
    ultimately show ?thesis using s item_get [OF c] by (simp add: passed_checks_def)
  qed
qed

definition judged_by_review :: "json \<Rightarrow> bool" where
  "judged_by_review task \<longleftrightarrow> get_of task ''review_criteria'' \<noteq> JNull
     \<or> dict_get task ''review_criteria'' = None \<and> get_of task ''model'' = JStr ''gpt-6-astra''"

lemma grade_reviewed_pass:
  assumes "grade_reviewed L g task response inspected result source = Inr row" and "grade_of row = ''pass''"
  shows "passed_review L inspected response \<and> (judged_by_review task \<or> passed_checks g task source)"
proof -
  have p: "grade_of (JObj (dict_put ''grade'' (JStr ''pending_review'') (members result))) = ''pending_review''"
    by (simp add: grade_of_def text_in_def get_put)
  have f: "\<not> falsy inspected" "is_dict inspected" using assms by (auto simp: grade_reviewed_def p split: if_splits)
  have h: "get_of inspected ''response_sha256'' = JStr (sha256_hex L response)"
    using assms f by (auto simp: grade_reviewed_def split: if_splits)
  obtain passed where i: "item_of inspected ''pass'' = Inr passed"
    and k: "(if falsy passed then bind_r (item_of inspected ''notes'') (\<lambda>notes. Inr (graded result ''fail'' notes))
        else
          bind_r (if get_of task ''review_criteria'' \<noteq> JNull then Inr True
                  else if dict_get task ''review_criteria'' = None then map_r (\<lambda>m. m = JStr ''gpt-6-astra'') (item_of task ''model'')
                  else Inr False) (\<lambda>by_review.
          if by_review then bind_r (item_of inspected ''notes'') (\<lambda>notes. Inr (graded result ''pass'' notes))
          else run_candidate g task result source)) = Inr row"
    using assms(1) f h by (auto simp: grade_reviewed_def bind_r_eq_Inr)
  have np: "\<not> falsy passed" using k assms(2) by (auto simp: bind_r_eq_Inr split: if_splits)
  then obtain by_review where b: "(if get_of task ''review_criteria'' \<noteq> JNull then Inr True
                  else if dict_get task ''review_criteria'' = None then map_r (\<lambda>m. m = JStr ''gpt-6-astra'') (item_of task ''model'')
                  else Inr False) = (Inr by_review :: exn + bool)"
    and r: "(if by_review then bind_r (item_of inspected ''notes'') (\<lambda>notes. Inr (graded result ''pass'' notes))
          else run_candidate g task result source) = Inr row"
    using k by (auto simp only: if_False bind_r_eq_Inr)
  have "judged_by_review task \<or> passed_checks g task source"
  proof (cases by_review)
    case True
    then show ?thesis using b by (auto simp: judged_by_review_def map_r_eq_Inr dest: item_get split: if_splits)
  next
    case False
    then show ?thesis using r run_candidate_pass assms(2) by auto
  qed
  then show ?thesis using h np item_get [OF i] by (simp add: passed_review_def)
qed

lemma response_contentD:
  assumes "response_content L response = Inr (Some source)"
  shows "\<exists>text body. response = Some text \<and> loads L text = Some body \<and> get_of body ''content'' = JStr source \<and> length source \<le> 50000"
  using assms by (auto simp: response_content_def Option.bind_eq_Some_conv split: option.splits json.splits if_splits)

lemma id_ofD:
  assumes "id_of t = Inr i" shows "get_of t ''id'' = JStr i"
proof -
  obtain x where x: "item_of t ''id'' = Inr x" "(case x of JStr s \<Rightarrow> Inr s | _ \<Rightarrow> Inl (TypeError ''task id'')) = Inr i"
    using assms by (auto simp: id_of_def bind_r_eq_Inr)
  then have "x = JStr i" by (cases x) auto
  then show ?thesis using item_get [OF x(1)] by simp
qed

text \<open>C19. A task passes only on a completed measurement without tools, when the review does not call it invalid, with a response whose
  content is a text of at most 50000 characters: either the content is the expected JSON, or the review passed this very response
  and, unless the task is judged by its review alone, the checks ran on a source without a forbidden node and succeeded.
\<close>

theorem pass_is_earned:
  assumes "grade_task L g files review task = Inr row" and "grade_of row = ''pass''"
  shows "\<exists>i measurement text body source. get_of task ''id'' = JStr i \<and> af_measurement (files i) = Some measurement
    \<and> get_of measurement ''status'' = JStr ''completed'' \<and> falsy (get_of measurement ''tool_items'')
    \<and> dict_get (get_of review ''invalid_tasks'') i = None
    \<and> af_response (files i) = Some text \<and> loads L text = Some body \<and> get_of body ''content'' = JStr source \<and> length source \<le> 50000
    \<and> (matches_expected L task source
       \<or> get_of task ''expected'' = JNull \<and> passed_review L (get_of review i) text \<and> (judged_by_review task \<or> passed_checks g task source))"
proof -
  obtain i row0 where i: "id_of task = Inr i" and row0: "task_row task = Inr row0"
    using assms(1) by (auto simp: grade_task_def bind_r_eq_Inr)
  have gi: "get_of task ''id'' = JStr i" by (rule id_ofD [OF i])
  have u: "grade_of row0 = ''unrun''" by (rule task_row_unrun(1) [OF row0])
  obtain m where m: "af_measurement (files i) = Some m"
    using assms i row0 u by (auto simp: grade_task_def split: option.splits)
  have d: "is_dict m" using assms(1) i row0 m by (auto simp: grade_task_def split: if_splits)
  define result where "result = JObj (members row0 @ [(''usage'', get_of m ''usage''), (''seconds'', get_of m ''seconds'')])"
  have ur: "grade_of result = ''unrun''" unfolding result_def by (rule task_row_unrun(2) [OF row0])
  have pr: "grade_of (JObj (dict_put ''reason'' st (members result))) = ''unrun''" for st
    using ur by (simp add: grade_put_other result_def)
  obtain st where s: "item_of m ''status'' = Inr st"
    and k: "(if st \<noteq> JStr ''completed'' then Inr (JObj (dict_put ''reason'' st (members result)))
           else case dict_get (get_of review ''invalid_tasks'') i of
             Some notes \<Rightarrow> Inr (graded result ''invalid_task'' notes)
           | None \<Rightarrow>
               if \<not> falsy (get_of m ''tool_items'') then Inr (graded result ''fail'' (JStr ''tool_use_violation''))
               else
                 bind_r (response_content L (af_response (files i))) (\<lambda>content.
                 case (content, af_response (files i)) of
                   (Some source, Some response) \<Rightarrow>
                     bind_r (item_of task ''expected'') (\<lambda>expected.
                     if expected \<noteq> JNull
                     then Inr (graded result (verdict (case loads L source of None \<Rightarrow> False | Some actual \<Rightarrow> same_dump L actual expected))
                       (JStr ''exact_json''))
                     else grade_reviewed L g task response (get_of review i) result source)
                 | _ \<Rightarrow> Inr (graded result ''fail'' (JStr ''invalid_response'')))) = Inr row"
    using assms(1) i row0 m d unfolding grade_task_def result_def by (simp add: Let_def bind_r_eq_Inr) blast
  have st: "st = JStr ''completed''" using k assms(2) pr by (cases "st = JStr ''completed''") auto
  have inv: "dict_get (get_of review ''invalid_tasks'') i = None" using k st assms(2) by (auto split: option.splits)
  have tools: "falsy (get_of m ''tool_items'')" using k st inv assms(2) by (auto split: if_splits)
  obtain content where c: "response_content L (af_response (files i)) = Inr content"
    and k2: "(case (content, af_response (files i)) of
                   (Some source, Some response) \<Rightarrow>
                     bind_r (item_of task ''expected'') (\<lambda>expected.
                     if expected \<noteq> JNull
                     then Inr (graded result (verdict (case loads L source of None \<Rightarrow> False | Some actual \<Rightarrow> same_dump L actual expected))
                       (JStr ''exact_json''))
                     else grade_reviewed L g task response (get_of review i) result source)
                 | _ \<Rightarrow> Inr (graded result ''fail'' (JStr ''invalid_response''))) = Inr row"
    using k st inv tools by (simp add: bind_r_eq_Inr) blast
  obtain source where src: "content = Some source" using k2 assms(2) by (cases content) auto
  obtain raw body where b: "af_response (files i) = Some raw" "loads L raw = Some body" "get_of body ''content'' = JStr source" "length source \<le> 50000"
    using response_contentD c src by blast
  obtain expected where e: "item_of task ''expected'' = Inr expected"
    and k3: "(if expected \<noteq> JNull
                     then Inr (graded result (verdict (case loads L source of None \<Rightarrow> False | Some actual \<Rightarrow> same_dump L actual expected))
                       (JStr ''exact_json''))
                     else grade_reviewed L g task raw (get_of review i) result source) = Inr row"
    using k2 src b(1) by (simp add: bind_r_eq_Inr) blast
  have "matches_expected L task source
       \<or> get_of task ''expected'' = JNull \<and> passed_review L (get_of review i) raw \<and> (judged_by_review task \<or> passed_checks g task source)"
  proof (cases "expected = JNull")
    case True
    then show ?thesis using k3 grade_reviewed_pass assms(2) item_get [OF e] by auto
  next
    case False
    then show ?thesis using k3 assms(2) item_get [OF e] by (auto simp: matches_expected_def split: option.splits)
  qed
  then show ?thesis using gi m s st tools inv b item_get [OF s] by blast
qed

definition sample_exact_task :: json where
  "sample_exact_task = JObj [(''id'', JStr ''t''), (''model'', JStr ''m''), (''category'', JStr ''c''), (''critical'', JBool True), (''expected'', JInt 1)]"

definition sample_artifacts :: artifacts where
  "sample_artifacts = \<lparr>af_measurement = Some (JObj [(''status'', JStr ''completed'')]),
     af_response = Some ''response''\<rparr>"

definition sample_reader :: pylib where
  "sample_reader = sample_lib\<lparr>loads := (\<lambda>s. if s = ''response'' then Some (JObj [(''content'', JStr ''1'')]) else if s = ''1'' then Some (JInt 1) else None)\<rparr>"

definition sample_grader :: grader where
  "sample_grader = \<lparr>gr_parse = (\<lambda>_. Inr []), gr_run = (\<lambda>_. Inr 0)\<rparr>"

lemma sample_dump: "same_dump sample_reader (JInt 1) (JInt 1)"
  by (simp add: same_dump_def)

lemma sample_grade: "map_r grade_of (grade_task sample_reader sample_grader (\<lambda>_. sample_artifacts) (JObj []) sample_exact_task) = Inr ''pass''"
  by (simp add: grade_task_def id_of_def item_of_def dict_get_def sample_exact_task_def task_row_def Let_def sample_artifacts_def
      get_of_def response_content_def sample_reader_def verdict_def sample_dump [unfolded sample_reader_def])

theorem pass_is_earned_witness:
  "\<exists>row. grade_task sample_reader sample_grader (\<lambda>_. sample_artifacts) (JObj []) sample_exact_task = Inr row \<and> grade_of row = ''pass''
    \<and> (\<exists>i. get_of sample_exact_task ''id'' = JStr i)"
proof -
  obtain row where r: "grade_task sample_reader sample_grader (\<lambda>_. sample_artifacts) (JObj []) sample_exact_task = Inr row" and g: "grade_of row = ''pass''"
    using sample_grade by (auto simp: map_r_eq_Inr)
  from pass_is_earned [OF r g] r g show ?thesis by blast
qed

section \<open>The matched gate\<close>

text \<open>The tally of the pairs counts every case once.\<close>

definition pair_complete :: "string list \<Rightarrow> json list \<Rightarrow> bool" where
  "pair_complete arms rows \<longleftrightarrow> set (map fst (rows_by_arm rows)) = set arms
     \<and> (\<forall>arm \<in> set arms. arm_grade (rows_by_arm rows) arm \<in> {''pass'', ''fail''})"

definition pair_grades :: "string \<Rightarrow> string \<Rightarrow> json list \<Rightarrow> string \<times> string" where
  "pair_grades a b rows = (arm_grade (rows_by_arm rows) a, arm_grade (rows_by_arm rows) b)"

lemma pair_key_inject:
  assumes "ga \<in> {''pass'', ''fail''}" "gb \<in> {''pass'', ''fail''}" "ga' \<in> {''pass'', ''fail''}" "gb' \<in> {''pass'', ''fail''}"
  shows "a @ '':'' @ ga @ ''/'' @ b @ '':'' @ gb = a @ '':'' @ ga' @ ''/'' @ b @ '':'' @ gb' \<longleftrightarrow> ga = ga' \<and> gb = gb'"
  using assms by auto

lemma pair_case_step:
  "pair_case [a, b] rows (c, n, t) =
     (if pair_complete [a, b] rows
      then (c + 1, n, dict_put (a @ '':'' @ fst (pair_grades a b rows) @ ''/'' @ b @ '':'' @ snd (pair_grades a b rows))
         ((case map_of t (a @ '':'' @ fst (pair_grades a b rows) @ ''/'' @ b @ '':'' @ snd (pair_grades a b rows)) of None \<Rightarrow> 0 | Some n \<Rightarrow> n) + 1) t)
      else (c, n + 1, t))"
  by (auto simp: pair_case_def pair_complete_def pair_grades_def Let_def)

lemma pair_fold:
  assumes "fold (\<lambda>(_ :: string, subset). pair_case [a, b] subset) cases (c, n, t) = (c', n', t')"
  shows "c' = c + int (length (filter (\<lambda>(_, rows). pair_complete [a, b] rows) cases))
    \<and> n' = n + int (length (filter (\<lambda>(_, rows). \<not> pair_complete [a, b] rows) cases))
    \<and> (\<forall>ga \<in> {''pass'', ''fail''}. \<forall>gb \<in> {''pass'', ''fail''}.
        outcome_count t' a ga b gb = outcome_count t a ga b gb
          + int (length (filter (\<lambda>(_, rows). pair_complete [a, b] rows \<and> pair_grades a b rows = (ga, gb)) cases)))"
  using assms
proof (induction cases arbitrary: c n t)
  case Nil
  then show ?case by simp
next
  case (Cons x cases)
  obtain k rows where x: "x = (k, rows)" by (cases x)
  obtain c1 n1 t1 where s: "pair_case [a, b] rows (c, n, t) = (c1, n1, t1)" by (cases "pair_case [a, b] rows (c, n, t)") auto
  then have f: "fold (\<lambda>(_ :: string, subset). pair_case [a, b] subset) cases (c1, n1, t1) = (c', n', t')" using Cons.prems x by simp
  note IH = Cons.IH [OF f]
  show ?case
  proof (cases "pair_complete [a, b] rows")
    case False
    then show ?thesis using IH s x by (simp add: pair_case_step)
  next
    case True
    obtain ga0 gb0 where g0: "pair_grades a b rows = (ga0, gb0)" by (cases "pair_grades a b rows")
    have in0: "ga0 \<in> {''pass'', ''fail''}" "gb0 \<in> {''pass'', ''fail''}" using True g0 by (auto simp: pair_complete_def pair_grades_def)
    have t1: "outcome_count t1 a ga b gb = outcome_count t a ga b gb + (if (ga0, gb0) = (ga, gb) then 1 else 0)"
      if "ga \<in> {''pass'', ''fail''}" "gb \<in> {''pass'', ''fail''}" for ga gb
      using s True g0 pair_key_inject [OF in0 that, of a b] pair_key_inject [OF that in0, of a b]
      by (auto simp: pair_case_step outcome_count_def dict_put_def update_conv')
    have c1: "c1 = c + 1" "n1 = n" using s True by (simp_all add: pair_case_step)
    have "outcome_count t' a ga b gb = outcome_count t a ga b gb
          + int (length (filter (\<lambda>(_, rows). pair_complete [a, b] rows \<and> pair_grades a b rows = (ga, gb)) (x # cases)))"
      if "ga \<in> {''pass'', ''fail''}" "gb \<in> {''pass'', ''fail''}" for ga gb
    proof -
      have "outcome_count t' a ga b gb = outcome_count t1 a ga b gb
          + int (length (filter (\<lambda>(_, rows). pair_complete [a, b] rows \<and> pair_grades a b rows = (ga, gb)) cases))"
        using IH that by blast
      then show ?thesis using t1 [OF that] True g0 x by simp
    qed
    then have "\<forall>ga \<in> {''pass'', ''fail''}. \<forall>gb \<in> {''pass'', ''fail''}.
        outcome_count t' a ga b gb = outcome_count t a ga b gb
          + int (length (filter (\<lambda>(_, rows). pair_complete [a, b] rows \<and> pair_grades a b rows = (ga, gb)) (x # cases)))" by blast
    moreover have "c' = c + int (length (filter (\<lambda>(_, rows). pair_complete [a, b] rows) (x # cases)))"
      "n' = n + int (length (filter (\<lambda>(_, rows). \<not> pair_complete [a, b] rows) (x # cases)))"
      using IH c1 True x by simp_all
    ultimately show ?thesis by blast
  qed
qed

lemma pair_cases_counts:
  assumes "pair_cases [a, b] results = (c, n, t)"
  shows "c = int (length (filter (\<lambda>(_, rows). pair_complete [a, b] rows) (grouped_by ''case_id'' results)))"
    "n = int (length (filter (\<lambda>(_, rows). \<not> pair_complete [a, b] rows) (grouped_by ''case_id'' results)))"
    "ga \<in> {''pass'', ''fail''} \<Longrightarrow> gb \<in> {''pass'', ''fail''} \<Longrightarrow> outcome_count t a ga b gb
      = int (length (filter (\<lambda>(_, rows). pair_complete [a, b] rows \<and> pair_grades a b rows = (ga, gb)) (grouped_by ''case_id'' results)))"
proof -
  note f = pair_fold [of a b "grouped_by ''case_id'' results" 0 0 "[]", OF assms [unfolded pair_cases_def]]
  have z: "outcome_count [] a ga b gb = 0" for ga gb by (simp add: outcome_count_def)
  show "c = int (length (filter (\<lambda>(_, rows). pair_complete [a, b] rows) (grouped_by ''case_id'' results)))" using f by simp
  show "n = int (length (filter (\<lambda>(_, rows). \<not> pair_complete [a, b] rows) (grouped_by ''case_id'' results)))" using f by simp
  show "outcome_count t a ga b gb
      = int (length (filter (\<lambda>(_, rows). pair_complete [a, b] rows \<and> pair_grades a b rows = (ga, gb)) (grouped_by ''case_id'' results)))"
    if "ga \<in> {''pass'', ''fail''}" "gb \<in> {''pass'', ''fail''}"
  proof -
    have "outcome_count t a ga b gb = outcome_count [] a ga b gb
      + int (length (filter (\<lambda>(_, rows). pair_complete [a, b] rows \<and> pair_grades a b rows = (ga, gb)) (grouped_by ''case_id'' results)))"
      using f that by blast
    then show ?thesis by (simp only: z add_0)
  qed
qed

text \<open>How many cases have given grades in the two arms.\<close>

definition cases_graded :: "string \<Rightarrow> string \<Rightarrow> json list \<Rightarrow> string \<Rightarrow> string \<Rightarrow> int" where
  "cases_graded a b results ga gb =
     int (length (filter (\<lambda>(_, rows). pair_grades a b rows = (ga, gb)) (grouped_by ''case_id'' results)))"

lemma all_complete:
  assumes "pair_cases [a, b] results = (c, 0, t)"
  shows "\<forall>(i, rows) \<in> set (grouped_by ''case_id'' results). pair_complete [a, b] rows"
    "ga \<in> {''pass'', ''fail''} \<Longrightarrow> gb \<in> {''pass'', ''fail''} \<Longrightarrow> outcome_count t a ga b gb = cases_graded a b results ga gb"
proof -
  have "filter (\<lambda>(_, rows). \<not> pair_complete [a, b] rows) (grouped_by ''case_id'' results) = []"
    using pair_cases_counts(2) [OF assms] by simp
  then show all: "\<forall>(i, rows) \<in> set (grouped_by ''case_id'' results). pair_complete [a, b] rows"
    by (auto simp: filter_empty_conv)
  have "filter (\<lambda>(_, rows). pair_complete [a, b] rows \<and> pair_grades a b rows = (ga, gb)) (grouped_by ''case_id'' results)
      = filter (\<lambda>(_, rows). pair_grades a b rows = (ga, gb)) (grouped_by ''case_id'' results)"
    by (rule filter_cong) (use all in auto)
  then show "outcome_count t a ga b gb = cases_graded a b results ga gb" if "ga \<in> {''pass'', ''fail''}" "gb \<in> {''pass'', ''fail''}"
    using pair_cases_counts(3) [OF assms that] by (simp add: cases_graded_def)
qed

lemma summarize_rowsD:
  assumes "summarize_rows th results overhead = Inr s"
  shows "sm_matched_quality_gate_passed s = None" "sm_planned s = int (length results)"
    "sm_complete s \<longleftrightarrow> int (length results) = count_grade ''pass'' results + count_grade ''fail'' results + count_grade ''invalid_task'' results"
    "sm_invalid_tasks s = count_grade ''invalid_task'' results"
    "\<exists>cs. traverse critical_failure results = Inr cs \<and> sm_critical_failures s = sum_list cs"
  using assms by (auto simp: summarize_rows_def Let_def bind_r_eq_Inr)

lemma all_scored:
  assumes "int (length results) = count_grade ''pass'' results + count_grade ''fail'' results + count_grade ''invalid_task'' results"
    and "count_grade ''invalid_task'' results = 0"
  shows "\<forall>row \<in> set results. grade_of row \<in> {''pass'', ''fail''}"
proof -
  let ?g = "\<lambda>x. length (filter (\<lambda>row. grade_of row = x) results)"
  have e: "length (filter (\<lambda>row. grade_of row \<in> {''pass'', ''fail''}) rows)
      = length (filter (\<lambda>row. grade_of row = ''pass'') rows) + length (filter (\<lambda>row. grade_of row = ''fail'') rows)" for rows
    by (induction rows) auto
  have "int (length results) = int (?g ''pass'') + int (?g ''fail'')" using assms by (simp only: count_grade_def)
  then have "length (filter (\<lambda>row. grade_of row \<in> {''pass'', ''fail''}) results) = length results" unfolding e by linarith
  then show ?thesis by (metis (no_types, lifting) filter_id_conv filter_True length_filter_less nat_neq_iff)
qed

text \<open>C18. The matched gate passes only when every call was graded pass or fail, as many as planned, with no more critical failures than
  allowed; every case has one grade in each of the two arms; the allocation passed as often as required; and the lower bound of
  Newcombe's interval, taken over the grades of all the cases, is above the margin.
\<close>

theorem matched_gate_sound:
  assumes "summarize_grades inv_cdf results threshold (Some arms) overhead (Some margin) least = Inr s"
    and "sm_matched_quality_gate_passed s = Some True"
  shows "\<exists>a b minimum i criticals limits. arms = [a, b] \<and> least = Some minimum
    \<and> limits = (case threshold of None \<Rightarrow> default_threshold | Some th \<Rightarrow> th)
    \<and> (\<forall>row \<in> set results. grade_of row \<in> {''pass'', ''fail''}) \<and> int (length results) = th_planned_tasks limits
    \<and> traverse critical_failure results = Inr criticals \<and> sum_list criticals \<le> th_critical_failures_allowed limits
    \<and> (\<forall>(c, rows) \<in> set (grouped_by ''case_id'' results). pair_complete [a, b] rows)
    \<and> minimum \<le> count_grade ''pass'' (filter (\<lambda>row. text_in row ''arm'' = a) results)
    \<and> newcombe_paired_interval inv_cdf (cases_graded a b results ''pass'' ''pass'') (cases_graded a b results ''pass'' ''fail'')
        (cases_graded a b results ''fail'' ''pass'') (cases_graded a b results ''fail'' ''fail'') (95 / 100) = Inr i
    \<and> - margin < pn_lower i \<and> sm_pilot_gate_passed s"
proof -
  define limits where "limits = (case threshold of None \<Rightarrow> default_threshold | Some th \<Rightarrow> th)"
  obtain s0 where s0: "summarize_rows limits results overhead = Inr s0"
    using assms(1) by (auto simp: summarize_grades_def Let_def limits_def bind_r_eq_Inr)
  note r = summarize_rowsD [OF s0]
  have k: "keyed ''case_id'' results = Inr ()" "keyed ''arm'' results = Inr ()"
    using assms(1) s0 by (simp_all add: summarize_grades_def Let_def limits_def [symmetric] bind_r_eq_Inr)
  obtain c n t where p: "pair_cases arms results = (c, n, t)" by (cases "pair_cases arms results") auto
  have n0: "n = 0" and cpos: "c > 0"
    using assms s0 p by (auto simp: summarize_grades_def Let_def limits_def [symmetric] k split: if_splits)
  obtain a b where arms: "arms = [a, b]"
    using assms s0 p n0 cpos by (auto simp: summarize_grades_def Let_def limits_def [symmetric] k split: list.splits)
  obtain i result minimum where i: "newcombe_paired_interval inv_cdf (outcome_count t a ''pass'' b ''pass'') (outcome_count t a ''pass'' b ''fail'')
        (outcome_count t a ''fail'' b ''pass'') (outcome_count t a ''fail'' b ''fail'') (95 / 100) = Inr i"
    and ni: "paired_noninferiority i margin = Inr result" and least: "least = Some minimum"
    and gate: "sm_complete s0 \<and> sm_planned s0 = th_planned_tasks limits \<and> sm_invalid_tasks s0 = 0
      \<and> sm_critical_failures s0 \<le> th_critical_failures_allowed limits
      \<and> as_passed (arm_summary_of (filter (\<lambda>row. text_in row ''arm'' = a) results)) \<ge> minimum \<and> nf_passed result"
    and pilot: "sm_pilot_gate_passed s"
    using assms s0 p n0 cpos arms
    by (auto simp: summarize_grades_def Let_def limits_def [symmetric] k bind_r_eq_Inr split: option.splits)
  obtain cs where cs: "traverse critical_failure results = Inr cs" "sm_critical_failures s0 = sum_list cs" using r(5) by blast
  note q = p [unfolded arms n0]
  have "\<forall>row \<in> set results. grade_of row \<in> {''pass'', ''fail''}" by (rule all_scored) (use r gate in simp_all)
  moreover have "minimum \<le> count_grade ''pass'' (filter (\<lambda>row. text_in row ''arm'' = a) results)"
    using gate by (simp add: arm_summary_of_def Let_def)
  moreover have "- margin < pn_lower i" using gate ni by (auto simp: paired_noninferiority_def bind_r_eq_Inr)
  moreover have "newcombe_paired_interval inv_cdf (cases_graded a b results ''pass'' ''pass'') (cases_graded a b results ''pass'' ''fail'')
        (cases_graded a b results ''fail'' ''pass'') (cases_graded a b results ''fail'' ''fail'') (95 / 100) = Inr i"
    using i by (simp add: all_complete(2) [OF q])
  ultimately show ?thesis using arms least r(2) gate cs all_complete(1) [OF q] pilot
    by (intro exI [of _ a] exI [of _ b] exI [of _ minimum] exI [of _ i] exI [of _ cs] exI [of _ limits]) (simp add: limits_def)
qed

definition sample_grade_row :: "string \<Rightarrow> json" where
  "sample_grade_row arm = JObj [(''id'', JStr arm), (''model'', JStr ''m''), (''critical_task'', JBool True), (''grade'', JStr ''pass''),
     (''case_id'', JStr ''c1''), (''arm'', JStr arm)]"

definition sample_threshold :: threshold where
  "sample_threshold = \<lparr>th_planned_tasks = 2, th_minimum_first_pass = 1, th_critical_failures_allowed = 0\<rparr>"

lemma one_pair_bounds: "wilson_bounds 1 1 z_95 = (1 / (1 + z_95 * z_95), 1)"
proof -
  have q: "sqrt (z_95 * z_95 / 4) = z_95 / 2" using z_95_pos by (simp add: real_sqrt_divide)
  have s: "(1 + y / 2) / (1 + y) - y / 2 / (1 + y) = 1 / (1 + y)" "(1 + y / 2) / (1 + y) + y / 2 / (1 + y) = 1" if "0 \<le> y" for y :: real
  proof -
    have d: "1 + y \<noteq> 0" using that by linarith
    show "(1 + y / 2) / (1 + y) - y / 2 / (1 + y) = 1 / (1 + y)" by (subst diff_divide_distrib [symmetric]) simp
    show "(1 + y / 2) / (1 + y) + y / 2 / (1 + y) = 1" by (subst add_divide_distrib [symmetric]) (use d in simp)
  qed
  have "0 \<le> z_95 * z_95" by simp
  from s [OF this] show ?thesis by (simp add: wilson_bounds_def Let_def q)
qed

lemma one_pair_interval: "\<exists>i. newcombe_paired_interval (\<lambda>_. z_95) 1 0 0 0 (95 / 100) = Inr i \<and> - (9 / 10) < pn_lower i"
proof -
  let ?x = "1 - 1 / (1 + z_95 * z_95)"
  have x: "0 \<le> ?x" "?x < 9 / 10" by (simp_all add: z_95_def)
  have "newcombe_correlation 1 0 0 0 = 0" by (simp add: newcombe_correlation_def Let_def)
  then have i: "newcombe_paired_interval (\<lambda>_. z_95) 1 0 0 0 (95 / 100) = Inr \<lparr>pn_both_pass = 1, pn_allocation_only = 0, pn_baseline_only = 0,
      pn_both_fail = 0, pn_total = 1, pn_difference = 0, pn_confidence_level = 95 / 100, pn_lower = max (- 1) (0 - sqrt (?x ^ 2)),
      pn_upper = min 1 (0 + sqrt (?x ^ 2))\<rparr>"
    by (simp add: newcombe_paired_interval_def Let_def one_pair_bounds score_distance_def math_sqrt_def pair_rate_def)
  have "sqrt (?x ^ 2) = ?x" using x(1) by (simp only: real_sqrt_abs abs_of_nonneg)
  then show ?thesis using x by (intro exI conjI) (rule i, simp)
qed

definition sample_rows :: "json list" where
  "sample_rows = [sample_grade_row ''a'', sample_grade_row ''b'']"

lemma sample_tally:
  "pair_cases [''a'', ''b''] sample_rows = (1, 0, [(''a:pass/b:pass'', 1)])"
  "traverse critical_failure sample_rows = Inr [0, 0]"
  "as_passed (arm_summary_of (filter (\<lambda>row. text_in row ''arm'' = ''a'') sample_rows)) = 1"
  "count_grade ''pass'' sample_rows = 2" "count_grade ''fail'' sample_rows = 0" "count_grade ''invalid_task'' sample_rows = 0"
  "length sample_rows = 2"
  "keyed ''grade'' sample_rows = Inr ()" "keyed ''model'' sample_rows = Inr ()"
  "keyed ''arm'' sample_rows = Inr ()" "keyed ''case_id'' sample_rows = Inr ()"
  "\<not> isl (candidate_usage sample_rows)"
  "\<not> isl (traverse (\<lambda>(model, subset). map_r (Pair model) (usage_of_model subset)) (grouped_by ''model'' sample_rows))"
  by code_simp+

lemma sample_gate:
  "\<exists>s. summarize_grades (\<lambda>_. z_95) sample_rows (Some sample_threshold) (Some [''a'', ''b'']) None (Some (9 / 10)) (Some 1) = Inr s
    \<and> sm_matched_quality_gate_passed s = Some True"
proof -
  obtain u m where u: "candidate_usage sample_rows = Inr u"
    and m: "traverse (\<lambda>(model, subset). map_r (Pair model) (usage_of_model subset)) (grouped_by ''model'' sample_rows) = Inr m"
    using sample_tally(12,13) by (metis sum.collapse(2))
  obtain i where i: "newcombe_paired_interval (\<lambda>_. z_95) 1 0 0 0 (95 / 100) = Inr i" "- (9 / 10) < pn_lower i"
    using one_pair_interval by blast
  have "outcome_count [(''a:pass/b:pass'', 1)] ''a'' ga ''b'' gb = (if ga = ''pass'' \<and> gb = ''pass'' then 1 else 0)"
    if "ga \<in> {''pass'', ''fail''}" "gb \<in> {''pass'', ''fail''}" for ga gb
    using that by (auto simp: outcome_count_def)
  then have c: "outcome_count [(''a:pass/b:pass'', 1)] ''a'' ''pass'' ''b'' ''pass'' = 1"
    "outcome_count [(''a:pass/b:pass'', 1)] ''a'' ''pass'' ''b'' ''fail'' = 0" "outcome_count [(''a:pass/b:pass'', 1)] ''a'' ''fail'' ''b'' ''pass'' = 0"
    "outcome_count [(''a:pass/b:pass'', 1)] ''a'' ''fail'' ''b'' ''fail'' = 0" by auto
  have n: "\<exists>r. paired_noninferiority i (9 / 10) = Inr r \<and> nf_passed r" using i(2) by (simp add: paired_noninferiority_def)
  then obtain r where r: "paired_noninferiority i (9 / 10) = Inr r" "nf_passed r" by blast
  show ?thesis
    using i(1) by (simp add: summarize_grades_def summarize_rows_def Let_def sample_tally(1-11) u m total_usage_def c r sample_threshold_def)
qed

theorem matched_gate_sound_witness:
  "\<exists>s. summarize_grades (\<lambda>_. z_95) sample_rows (Some sample_threshold) (Some [''a'', ''b'']) None (Some (9 / 10)) (Some 1) = Inr s
    \<and> (\<forall>row \<in> set sample_rows. grade_of row \<in> {''pass'', ''fail''}) \<and> sm_pilot_gate_passed s"
proof -
  obtain s where s: "summarize_grades (\<lambda>_. z_95) sample_rows (Some sample_threshold) (Some [''a'', ''b'']) None (Some (9 / 10)) (Some 1) = Inr s"
    "sm_matched_quality_gate_passed s = Some True" using sample_gate by blast
  from matched_gate_sound [OF s] s(1) show ?thesis by blast
qed

end
