(* ===== verification/SavingsTheorems.thy ===== *)
theory SavingsTheorems
  imports AllocationGates AllocationTheorems JsonText
begin

text \<open>
  What the savings of an evaluation are: the recorded usage of both arms with its overhead, at the rates of the evidence.
\<close>

section \<open>Prices\<close>

lemma decimal_value: "0 \<le> (of_nat a :: rat) + of_nat b / 10 ^ k"
  by simp

lemma decimal_nonnegative:
  assumes "decimal_of s = Some r" shows "0 \<le> r"
proof -
  obtain a b k where "r = of_nat a + of_nat b / 10 ^ k"
    using assms unfolding decimal_of_def Let_def by (metis (no_types, lifting) option.distinct(1) option.inject)
  then show ?thesis by (simp only: decimal_value)
qed

lemma rate_nonnegative: "rate_of v name = Inr r \<Longrightarrow> 0 \<le> r"
  by (auto simp: rate_of_def decimal_nonnegative split: option.splits json.splits)

text \<open>What a call or an item of overhead costs, at the rates of its model.\<close>

definition price :: "json \<Rightarrow> json \<Rightarrow> rat" where
  "price rates item =
     (case bind_r (rates_for rates (get_of item ''model'') []) (cost (get_of item ''usage'')) of Inl _ \<Rightarrow> 0 | Inr c \<Rightarrow> c)"

definition arm_total :: "json \<Rightarrow> string \<Rightarrow> json list \<Rightarrow> rat" where
  "arm_total rates arm items = sum_list (map (price rates) (filter (\<lambda>item. get_of item ''arm'' = JStr arm) items))"

lemma arm_total_simps [simp]:
  "arm_total rates arm [] = 0"
  "arm_total rates arm (i # items) = (if get_of i ''arm'' = JStr arm then price rates i else 0) + arm_total rates arm items"
  "arm_total rates arm (items @ others) = arm_total rates arm items + arm_total rates arm others"
  by (simp_all add: arm_total_def)

lemma costD:
  assumes "cost usage prices = Inr c"
  shows "\<exists>x y z. 0 \<le> x \<and> 0 \<le> y \<and> 0 \<le> z
    \<and> c = (of_int (int_or_zero (get_of usage ''input_tokens'') - int_or_zero (get_of usage ''cached_input_tokens'')) * x
        + of_int (int_or_zero (get_of usage ''cached_input_tokens'')) * y + of_int (int_or_zero (get_of usage ''output_tokens'')) * z) / 1000000"
proof -
  obtain x y z where r: "rate_of (get_of prices ''input_usd_per_million_tokens'') ''input'' = Inr x"
    "rate_of (get_of prices ''cached_input_usd_per_million_tokens'') ''cached input'' = Inr y"
    "rate_of (get_of prices ''output_usd_per_million_tokens'') ''output'' = Inr z"
    using assms unfolding cost_def Let_def bind_r_eq_Inr by (elim exE conjE) (rule that)
  then show ?thesis using assms rate_nonnegative [OF r(1)] rate_nonnegative [OF r(2)] rate_nonnegative [OF r(3)]
    by (intro exI [of _ x] exI [of _ y] exI [of _ z] conjI) (simp_all only: cost_def Let_def bind_r_Inr sum.inject)
qed

lemma counter_nonnegative: "counter_ok v \<Longrightarrow> 0 \<le> int_or_zero v"
  by (cases v) auto

lemma usage_ofD:
  assumes "usage_of usage name = Inr u"
  shows "u = usage" "0 \<le> int_or_zero (get_of usage ''cached_input_tokens'')" "0 \<le> int_or_zero (get_of usage ''output_tokens'')"
    "int_or_zero (get_of usage ''cached_input_tokens'') \<le> int_or_zero (get_of usage ''input_tokens'')"
proof -
  have u: "u = usage" "list_all (\<lambda>field. counter_ok (get_of usage field)) token_fields"
    and le: "int_or_zero (get_of usage ''cached_input_tokens'') \<le> int_or_zero (get_of usage ''input_tokens'')"
    using assms by (auto simp: usage_of_def bind_r_eq_Inr)
  show "u = usage" "int_or_zero (get_of usage ''cached_input_tokens'') \<le> int_or_zero (get_of usage ''input_tokens'')" by (fact u(1) le)+
  show "0 \<le> int_or_zero (get_of usage ''cached_input_tokens'')" "0 \<le> int_or_zero (get_of usage ''output_tokens'')"
    by (rule counter_nonnegative, use u(2) in \<open>simp add: token_fields_def\<close>)+
qed

lemma cost_nonnegative:
  assumes "cost usage prices = Inr c" and "usage_of usage name = Inr u"
  shows "0 \<le> c"
proof -
  note u = usage_ofD [OF assms(2)]
  obtain x y z where r: "0 \<le> x" "0 \<le> y" "0 \<le> z"
    and c: "c = (of_int (int_or_zero (get_of usage ''input_tokens'') - int_or_zero (get_of usage ''cached_input_tokens'')) * x
      + of_int (int_or_zero (get_of usage ''cached_input_tokens'')) * y + of_int (int_or_zero (get_of usage ''output_tokens'')) * z) / 1000000"
    using costD [OF assms(1)] by (elim exE conjE) (rule that)
  have "0 \<le> rat_of_int (int_or_zero (get_of usage ''input_tokens'') - int_or_zero (get_of usage ''cached_input_tokens'')) * x"
    by (rule mult_nonneg_nonneg) (use u(4) r in simp_all)
  moreover have "0 \<le> rat_of_int (int_or_zero (get_of usage ''cached_input_tokens'')) * y"
    by (rule mult_nonneg_nonneg) (use u(2) r in simp_all)
  moreover have "0 \<le> rat_of_int (int_or_zero (get_of usage ''output_tokens'')) * z"
    by (rule mult_nonneg_nonneg) (use u(3) r in simp_all)
  ultimately show ?thesis unfolding c by (intro divide_nonneg_pos add_nonneg_nonneg) simp_all
qed

lemma rates_for_message: "rates_for rates m x = Inr p \<Longrightarrow> rates_for rates m y = Inr p"
  by (cases m) (auto simp: rates_for_def bind_r_eq_Inr split: option.splits)

lemma priced:
  assumes "rates_for rates (get_of item ''model'') x = Inr p" and "cost (get_of item ''usage'') p = Inr c"
  shows "price rates item = c"
  using rates_for_message [OF assms(1), of "[]"] assms(2) by (simp add: price_def)

text \<open>The steps of both sums add the price of an item to its arm.\<close>

definition charges :: "json \<Rightarrow> json \<Rightarrow> rat \<times> rat \<Rightarrow> rat \<times> rat \<Rightarrow> bool" where
  "charges rates item st st' \<longleftrightarrow>
     0 \<le> price rates item \<and> st' = (fst st + arm_total rates ''allocation'' [item], snd st + arm_total rates ''all_astra_baseline'' [item])"

lemma add_cost_charges:
  assumes "get_of item ''arm'' \<in> JStr ` set evaluated_arms" and "0 \<le> price rates item"
  shows "charges rates item st (add_cost (get_of item ''arm'') (price rates item) st)"
  using assms by (cases st) (auto simp: charges_def add_cost_def evaluated_arms_def)

lemma candidate_charges:
  assumes "add_candidate rates row st = Inr st'" shows "charges rates row st st'"
proof -
  obtain p u c where arm: "get_of row ''arm'' \<in> JStr ` set evaluated_arms"
    and p: "rates_for rates (get_of row ''model'') ''Every candidate call needs an arm and billing rate'' = Inr p"
    and u: "usage_of (get_of row ''usage'') ''candidate usage'' = Inr u" and c: "cost u p = Inr c"
    and st: "st' = add_cost (get_of row ''arm'') c st"
    using assms unfolding add_candidate_def Let_def bind_r_eq_Inr map_r_eq_Inr require_eq_Inr by (elim exE conjE) (rule that)
  have c': "cost (get_of row ''usage'') p = Inr c" using c usage_ofD(1) [OF u] by simp
  show ?thesis unfolding st priced [OF p c', symmetric]
    by (rule add_cost_charges [OF arm]) (use cost_nonnegative [OF c' u] priced [OF p c'] in simp)
qed

definition overhead_ok :: "json \<Rightarrow> bool" where
  "overhead_ok item \<longleftrightarrow> get_of item ''arm'' \<in> JStr ` set evaluated_arms
     \<and> usage_of (get_of item ''usage'') ''overhead usage'' = Inr (get_of item ''usage'')"

lemma overhead_charges:
  assumes "add_overhead rates item st = Inr st'" and "overhead_ok item" shows "charges rates item st st'"
proof -
  obtain p c where p: "rates_for rates (get_of item ''model'') ''model'' = Inr p" and c: "cost (get_of item ''usage'') p = Inr c"
    and st: "st' = add_cost (get_of item ''arm'') c st"
    using assms(1) unfolding add_overhead_def bind_r_eq_Inr map_r_eq_Inr by (elim exE conjE) (rule that)
  have "usage_of (get_of item ''usage'') ''overhead usage'' = Inr (get_of item ''usage'')" using assms(2) by (simp add: overhead_ok_def)
  then have "0 \<le> price rates item" using cost_nonnegative [OF c] priced [OF p c] by simp
  then show ?thesis unfolding st priced [OF p c, symmetric] using assms(2) by (intro add_cost_charges) (simp_all add: overhead_ok_def)
qed

lemma charged_totals:
  assumes "foldM f items st = Inr st'" and "\<And>item st st'. item \<in> set items \<Longrightarrow> f item st = Inr st' \<Longrightarrow> charges rates item st st'"
  shows "st' = (fst st + arm_total rates ''allocation'' items, snd st + arm_total rates ''all_astra_baseline'' items)
    \<and> (\<forall>item \<in> set items. 0 \<le> price rates item)"
  using assms
proof (induction items arbitrary: st)
  case Nil
  then show ?case by simp
next
  case (Cons i items)
  obtain st1 where f: "f i st = Inr st1" and r: "foldM f items st1 = Inr st'" using Cons.prems(1) by (auto simp: bind_r_eq_Inr)
  have "charges rates i st st1" using Cons.prems(2) f by simp
  then have i: "0 \<le> price rates i"
    "st1 = (fst st + arm_total rates ''allocation'' [i], snd st + arm_total rates ''all_astra_baseline'' [i])" by (simp_all add: charges_def)
  have "st' = (fst st1 + arm_total rates ''allocation'' items, snd st1 + arm_total rates ''all_astra_baseline'' items)
    \<and> (\<forall>item \<in> set items. 0 \<le> price rates item)"
    using Cons.prems(2) by (intro Cons.IH [OF r]) simp
  then show ?case using i by simp
qed

lemma arm_total_nonnegative: "\<forall>item \<in> set items. 0 \<le> price rates item \<Longrightarrow> 0 \<le> arm_total rates arm items"
  by (auto simp: arm_total_def intro!: sum_list_nonneg)

section \<open>Overhead\<close>

lemma check_overheadD:
  assumes "check_overhead rates item seen = Inr seen'"
  shows "seen' = (get_of item ''arm'', get_of item ''category'') # seen" "(get_of item ''arm'', get_of item ''category'') \<notin> set seen" "overhead_ok item"
proof -
  obtain c u where arm: "get_of item ''arm'' \<in> JStr ` set evaluated_arms" and c: "hashed (get_of item ''category'') = Inr c"
    and n: "(get_of item ''arm'', c) \<notin> set seen" and u: "usage_of (get_of item ''usage'') ''overhead usage'' = Inr u"
    and s: "seen' = (get_of item ''arm'', c) # seen"
    using assms unfolding check_overhead_def Let_def bind_r_eq_Inr require_eq_Inr sum.inject by blast
  have "c = get_of item ''category''" using c by (cases "get_of item ''category''") simp_all
  then show "seen' = (get_of item ''arm'', get_of item ''category'') # seen" "(get_of item ''arm'', get_of item ''category'') \<notin> set seen" "overhead_ok item"
    using s n arm u usage_ofD(1) [OF u] by (simp_all add: overhead_ok_def)
qed

lemma overhead_seen:
  assumes "foldM (check_overhead rates) items seen = Inr seen'" and "distinct seen"
  shows "seen' = rev (map (\<lambda>i. (get_of i ''arm'', get_of i ''category'')) items) @ seen \<and> distinct seen' \<and> (\<forall>i \<in> set items. overhead_ok i)"
  using assms
proof (induction items arbitrary: seen)
  case Nil
  then show ?case by simp
next
  case (Cons i items)
  obtain seen1 where c: "check_overhead rates i seen = Inr seen1" and r: "foldM (check_overhead rates) items seen1 = Inr seen'"
    using Cons.prems(1) by (auto simp: bind_r_eq_Inr)
  have "distinct seen1" using check_overheadD(1,2) [OF c] Cons.prems(2) by simp
  note IH = Cons.IH [OF r this]
  then have e: "seen' = rev (map (\<lambda>i. (get_of i ''arm'', get_of i ''category'')) (i # items)) @ seen"
    using check_overheadD(1) [OF c] by simp
  show ?case using IH check_overheadD(3) [OF c] e by (metis set_ConsD)
qed

lemma savings_evidenceD:
  assumes "validate_savings_evidence L document manifest_sha256 run_sha256 review_sha256 billing_id = Inr ()"
  shows "\<exists>items. get_of document ''overhead'' = JArr items \<and> (\<forall>i \<in> set items. overhead_ok i)
    \<and> (\<forall>arm \<in> set evaluated_arms. \<forall>category \<in> set overhead_categories.
        \<exists>i. filter (\<lambda>i. get_of i ''arm'' = JStr arm \<and> get_of i ''category'' = JStr category) items = [i])"
proof -
  obtain items seen where o: "get_of document ''overhead'' = JArr items"
    and f: "foldM (check_overhead (get_of (get_of document ''billing_snapshot'') ''model_rates'')) items [] = Inr seen"
    and s: "set seen = set (List.product (map JStr evaluated_arms) (map JStr overhead_categories))"
    using assms by (auto simp: validate_savings_evidence_def bind_r_eq_Inr split: json.splits simp del: set_product)
  let ?f = "\<lambda>i. (get_of i ''arm'', get_of i ''category'')"
  have e: "seen = rev (map ?f items)" "distinct seen" "\<forall>i \<in> set items. overhead_ok i" using overhead_seen [OF f] by auto
  have "\<exists>i. filter (\<lambda>i. get_of i ''arm'' = JStr arm \<and> get_of i ''category'' = JStr category) items = [i]"
    if "arm \<in> set evaluated_arms" "category \<in> set overhead_categories" for arm category
  proof -
    have "(JStr arm, JStr category) \<in> set seen" unfolding s using that by simp
    then obtain i where i: "i \<in> set items" "?f i = (JStr arm, JStr category)" by (auto simp: e(1))
    have "distinct (map ?f items)" using e(1,2) by simp
    from filter_one [OF this i(1)] i(2) show ?thesis by auto
  qed
  then show ?thesis using o e(3) by blast
qed

text \<open>C21. Accepted evidence has exactly one item of overhead for every arm and category. An evaluation of it charges each arm with the price
  of all its calls and of its overhead, at the rates of the evidence; the baseline costs something, the allocation is never
  credited, and the gate is passed exactly when the quality gate was and the allocation costs at most what the threshold leaves
  of the baseline.
\<close>

theorem savings_exact:
  assumes "validate_savings_evidence L document manifest_sha256 run_sha256 review_sha256 billing_id = Inr ()"
    and "evaluate_savings results document quality threshold = Inr s"
  shows "\<exists>overhead. get_of document ''overhead'' = JArr overhead
    \<and> (\<forall>arm \<in> set evaluated_arms. \<forall>category \<in> set overhead_categories.
        \<exists>i. filter (\<lambda>i. get_of i ''arm'' = JStr arm \<and> get_of i ''category'' = JStr category) overhead = [i])
    \<and> (let rates = get_of (get_of document ''billing_snapshot'') ''model_rates'' in
        sv_allocation_cost_usd s = arm_total rates ''allocation'' (results @ overhead)
      \<and> sv_baseline_cost_usd s = arm_total rates ''all_astra_baseline'' (results @ overhead))
    \<and> 0 \<le> sv_allocation_cost_usd s \<and> 0 < sv_baseline_cost_usd s
    \<and> (sv_passed s \<longleftrightarrow> quality \<and> sv_allocation_cost_usd s \<le> (1 - threshold) * sv_baseline_cost_usd s)"
proof -
  define rates where "rates = get_of (get_of document ''billing_snapshot'') ''model_rates''"
  obtain overhead where o: "get_of document ''overhead'' = JArr overhead" and ok: "\<forall>i \<in> set overhead. overhead_ok i"
    and once: "\<forall>arm \<in> set evaluated_arms. \<forall>category \<in> set overhead_categories.
        \<exists>i. filter (\<lambda>i. get_of i ''arm'' = JStr arm \<and> get_of i ''category'' = JStr category) overhead = [i]"
    using savings_evidenceD [OF assms(1)] by blast
  obtain st a b where f1: "foldM (add_candidate rates) results (0, 0) = Inr st" and f2: "foldM (add_overhead rates) overhead st = Inr (a, b)"
    and pos: "0 < b" and s: "s = \<lparr>sv_quality_gate_passed_first = quality, sv_minimum_cost_reduction = threshold,
           sv_allocation_cost_usd = a, sv_baseline_cost_usd = b, sv_cost_reduction = (b - a) / b,
           sv_passed = (quality \<and> (b - a) / b \<ge> threshold)\<rparr>"
    using assms(2) by (auto simp: evaluate_savings_def Let_def bind_r_eq_Inr o rates_def [symmetric] not_le)
  have c1: "st = (arm_total rates ''allocation'' results, arm_total rates ''all_astra_baseline'' results)
    \<and> (\<forall>item \<in> set results. 0 \<le> price rates item)"
    using charged_totals [OF f1 candidate_charges] by simp
  have c2: "(a, b) = (fst st + arm_total rates ''allocation'' overhead, snd st + arm_total rates ''all_astra_baseline'' overhead)
    \<and> (\<forall>item \<in> set overhead. 0 \<le> price rates item)"
    by (rule charged_totals [OF f2]) (use ok overhead_charges in blast)
  have a: "a = arm_total rates ''allocation'' (results @ overhead)" and b: "b = arm_total rates ''all_astra_baseline'' (results @ overhead)"
    using c1 c2 by simp_all
  have "\<forall>item \<in> set (results @ overhead). 0 \<le> price rates item" using c1 c2 by auto
  then have "0 \<le> a" unfolding a by (rule arm_total_nonnegative)
  moreover have "threshold \<le> (b - a) / b \<longleftrightarrow> a \<le> (1 - threshold) * b" using pos by (simp add: field_simps)
  ultimately show ?thesis using o once a b pos by (intro exI [of _ overhead]) (simp add: s Let_def rates_def)
qed

section \<open>Sample evidence\<close>

definition sample_usage :: "int \<Rightarrow> json" where
  "sample_usage n = JObj [(''input_tokens'', JInt n), (''cached_input_tokens'', JInt 0), (''output_tokens'', JInt 0), (''reasoning_output_tokens'', JInt 0)]"

definition sample_overhead :: "string \<Rightarrow> string \<Rightarrow> json" where
  "sample_overhead arm category =
     JObj [(''arm'', JStr arm), (''category'', JStr category), (''model'', JStr ''m''), (''usage'', sample_usage 0)]"

definition sample_sha :: string where
  "sample_sha = replicate 64 CHR ''a''"

definition sample_evidence :: json where
  "sample_evidence = JObj [(''version'', JInt 1), (''manifest_sha256'', JStr sample_sha), (''run_sha256'', JStr sample_sha),
     (''review_ledger_sha256'', JStr sample_sha),
     (''billing_snapshot'', JObj [(''id'', JStr ''b1''), (''captured_at'', JStr ''5''), (''currency'', JStr ''USD''),
        (''source_reference'', JStr ''r''), (''applicable_to_run'', JBool True), (''reasoning_output_billed_separately'', JBool False),
        (''model_rates'', JObj [(''m'', JObj [(''input_usd_per_million_tokens'', JStr ''1.5''),
          (''cached_input_usd_per_million_tokens'', JStr ''0''), (''output_usd_per_million_tokens'', JStr ''2'')])])]),
     (''overhead'', JArr (concat (map (\<lambda>arm. map (sample_overhead arm) overhead_categories) evaluated_arms)))]"

definition sample_call :: "string \<Rightarrow> int \<Rightarrow> json" where
  "sample_call arm n = JObj [(''arm'', JStr arm), (''model'', JStr ''m''), (''usage'', sample_usage n)]"

lemma sample_evidence_accepted: "validate_savings_evidence sample_lib sample_evidence sample_sha sample_sha sample_sha ''b1'' = Inr ()"
  by code_simp

lemma sample_savings_result:
  "map_r sv_passed (evaluate_savings [sample_call ''allocation'' 2, sample_call ''all_astra_baseline'' 4] sample_evidence True (1 / 4)) = Inr True"
  by code_simp

theorem savings_exact_witness:
  "\<exists>s. evaluate_savings [sample_call ''allocation'' 2, sample_call ''all_astra_baseline'' 4] sample_evidence True (1 / 4) = Inr s
    \<and> 0 < sv_baseline_cost_usd s \<and> sv_allocation_cost_usd s \<le> (1 - 1 / 4) * sv_baseline_cost_usd s"
proof -
  obtain s where s: "evaluate_savings [sample_call ''allocation'' 2, sample_call ''all_astra_baseline'' 4] sample_evidence True (1 / 4) = Inr s"
    and p: "sv_passed s" using sample_savings_result by (auto simp: map_r_eq_Inr)
  from savings_exact [OF sample_evidence_accepted s] p s show ?thesis by blast
qed

end
