(* ===== verification/LedgerTheorems.thy ===== *)
theory LedgerTheorems
  imports SavingsTheorems
begin

text \<open>What an accepted ledger of blinded reviews holds.\<close>

definition review_task :: "json \<Rightarrow> string" where
  "review_task review = string_or_empty (get_of review ''task_id'')"

definition review_alias :: "json \<Rightarrow> string" where
  "review_alias review = string_or_empty (get_of review ''blind_id'')"

lemma text_of_string: "text_of v name = Inr s \<Longrightarrow> string_or_empty v = s"
  by (auto simp: text_of_def split: json.splits if_splits)

lemma sha_of_string: "sha_of v name = Inr s \<Longrightarrow> v = JStr s"
  by (auto simp: sha_of_def bind_r_eq_Inr text_of_def split: json.splits if_splits)

lemma check_reviewD:
  assumes "check_review digests review (aliases, ids, m) = Inr st"
  shows "\<exists>m'. st = (review_alias review # aliases, review_task review # ids, m')" "review_alias review \<notin> set aliases" "review_task review \<notin> set ids"
    "case digests of None \<Rightarrow> True | Some digest \<Rightarrow> \<exists>d. digest (review_task review) = Some d \<and> get_of review ''response_sha256'' = JStr d"
proof -
  obtain b t d where b: "text_of (get_of review ''blind_id'') ''blind_id'' = Inr b" and t: "text_of (get_of review ''task_id'') ''task_id'' = Inr t"
    and nb: "b \<notin> set aliases" and nt: "t \<notin> set ids" and d: "sha_of (get_of review ''response_sha256'') ''response_sha256'' = Inr d"
    and g: "case digests of None \<Rightarrow> True | Some digest \<Rightarrow> digest t = Some d"
    and st: "st = (b # aliases, t # ids, m @ [JObj [(''blind_id'', JStr b), (''task_id'', JStr t)]])"
    using assms unfolding check_review_def prod.case bind_r_eq_Inr require_eq_Inr sum.inject by blast
  have e: "review_alias review = b" "review_task review = t" using text_of_string b t by (simp_all add: review_alias_def review_task_def)
  show "\<exists>m'. st = (review_alias review # aliases, review_task review # ids, m')" "review_alias review \<notin> set aliases" "review_task review \<notin> set ids"
    using st nb nt by (simp_all add: e)
  show "case digests of None \<Rightarrow> True | Some digest \<Rightarrow> \<exists>d. digest (review_task review) = Some d \<and> get_of review ''response_sha256'' = JStr d"
    using g sha_of_string [OF d] by (simp add: e split: option.splits)
qed

lemma reviews_checked:
  assumes "foldM (check_review digests) reviews (aliases, ids, m) = Inr (aliases', ids', m')" and "distinct aliases" and "distinct ids"
  shows "aliases' = rev (map review_alias reviews) @ aliases \<and> ids' = rev (map review_task reviews) @ ids \<and> distinct aliases' \<and> distinct ids'
    \<and> (\<forall>r \<in> set reviews. case digests of None \<Rightarrow> True | Some digest \<Rightarrow> \<exists>d. digest (review_task r) = Some d \<and> get_of r ''response_sha256'' = JStr d)"
  using assms
proof (induction reviews arbitrary: aliases ids m)
  case Nil
  then show ?case by simp
next
  case (Cons r reviews)
  obtain st where c: "check_review digests r (aliases, ids, m) = Inr st" and f: "foldM (check_review digests) reviews st = Inr (aliases', ids', m')"
    using Cons.prems(1) by (auto simp: bind_r_eq_Inr)
  note d = check_reviewD [OF c]
  obtain m1 where st: "st = (review_alias r # aliases, review_task r # ids, m1)" using d(1) by blast
  have di: "distinct (review_alias r # aliases)" "distinct (review_task r # ids)" using d(2,3) Cons.prems(2,3) by simp_all
  note IH = Cons.IH [OF f [unfolded st] di]
  then have "aliases' = rev (map review_alias (r # reviews)) @ aliases" "ids' = rev (map review_task (r # reviews)) @ ids" by simp_all
  moreover have "\<forall>x \<in> set (r # reviews). case digests of None \<Rightarrow> True | Some digest \<Rightarrow> \<exists>d. digest (review_task x) = Some d \<and> get_of x ''response_sha256'' = JStr d"
    using IH d(4) by simp
  ultimately show ?case using IH by blast
qed

lemma check_blindingD:
  assumes "check_blinding L b = Inr ()"
  shows "\<exists>frozen unblinded. timestamp_of L (get_of b ''scores_frozen_at'') ''scores_frozen_at'' = Inr frozen
    \<and> timestamp_of L (get_of b ''unblinded_at'') ''unblinded_at'' = Inr unblinded \<and> frozen < unblinded"
  using assms by (auto simp: check_blinding_def bind_r_eq_Inr not_le)

lemma check_authorsD:
  assumes "check_authors document manifest = Inr ()"
  shows "string_or_empty (get_of document ''reviewer_id'') \<notin> set (texts_of (get_of (get_of manifest ''review'') ''candidate_author_ids''))"
proof -
  obtain reviewer where t: "text_of (get_of document ''reviewer_id'') ''reviewer_id'' = Inr reviewer"
    and a: "get_of document ''candidate_author_ids'' = get_of (get_of manifest ''review'') ''candidate_author_ids''"
    and n: "reviewer \<notin> set (texts_of (get_of document ''candidate_author_ids''))"
    using assms by (auto simp: check_authors_def Let_def bind_r_eq_Inr)
  show ?thesis using n a text_of_string [OF t] by simp
qed

lemma required_tasks: "set (map fst (filter (\<lambda>(_, e). e = JNull) tasks)) = {i. (i, JNull) \<in> set tasks}"
  by (induction tasks) auto

text \<open>C20. An accepted ledger has, under aliases of their own, exactly one review of every task without an expected result and none of
  another task, of the response that is on file; its reviewer wrote no candidate, and the arms were disclosed after the scores
  were frozen.
\<close>

theorem ledger_covers:
  assumes "validate_blinded_review_ledger L document manifest manifest_sha256 run_sha256 (Some digest) = Inr ()"
  shows "\<exists>reviews tasks frozen unblinded. get_of document ''reviews'' = JArr reviews \<and> tasks_with task_of manifest = Inr tasks
    \<and> distinct (map review_alias reviews) \<and> distinct (map review_task reviews)
    \<and> set (map review_task reviews) = {i. (i, JNull) \<in> set tasks}
    \<and> (\<forall>r \<in> set reviews. \<exists>d. digest (review_task r) = Some d \<and> get_of r ''response_sha256'' = JStr d)
    \<and> string_or_empty (get_of document ''reviewer_id'') \<notin> set (texts_of (get_of (get_of manifest ''review'') ''candidate_author_ids''))
    \<and> timestamp_of L (get_of (get_of document ''blinding'') ''scores_frozen_at'') ''scores_frozen_at'' = Inr frozen
    \<and> timestamp_of L (get_of (get_of document ''blinding'') ''unblinded_at'') ''unblinded_at'' = Inr unblinded \<and> frozen < unblinded"
proof -
  obtain tasks where a: "check_authors document manifest = Inr ()" and b: "check_blinding L (get_of document ''blinding'') = Inr ()"
    and t: "tasks_with task_of manifest = Inr tasks"
    and r: "(let required = set (map fst (filter (\<lambda>(_, e). e = JNull) tasks)) in
     case get_of document ''reviews'' of
       JArr reviews \<Rightarrow>
         bind_r (require (length reviews = card required) (ValueError ''Review ledger must cover every review-required task'')) (\<lambda>_.
         bind_r (foldM (check_review (Some digest)) reviews ([], [], [])) (\<lambda>(_, task_ids, alias_map).
         bind_r (require (set task_ids = required) (ValueError ''Review task IDs do not match review-required tasks'')) (\<lambda>_.
         bound_to (get_of document ''blinding'') ''alias_map_sha256'' (sha256_hex L (canonical_json L (JArr alias_map)))
           ''Blinded alias map hash mismatch'')))
     | _ \<Rightarrow> Inl (ValueError ''Review ledger must cover every review-required task'')) = Inr ()"
    using assms unfolding validate_blinded_review_ledger_def bind_r_eq_Inr by (elim exE conjE; intro that) (assumption | simp)+
  obtain reviews where j: "get_of document ''reviews'' = JArr reviews"
    using r by (cases "get_of document ''reviews''") (simp_all add: Let_def)
  obtain st where f0: "foldM (check_review (Some digest)) reviews ([], [], []) = Inr st"
    and k: "(case st of (_, task_ids, alias_map) \<Rightarrow>
         bind_r (require (set task_ids = set (map fst (filter (\<lambda>(_, e). e = JNull) tasks)))
           (ValueError ''Review task IDs do not match review-required tasks'')) (\<lambda>_.
         bound_to (get_of document ''blinding'') ''alias_map_sha256'' (sha256_hex L (canonical_json L (JArr alias_map)))
           ''Blinded alias map hash mismatch'')) = Inr ()"
    using r unfolding Let_def j json.case bind_r_eq_Inr by (elim exE conjE) (rule that)
  obtain aliases ids m where st: "st = (aliases, ids, m)" by (cases st)
  have s: "set ids = set (map fst (filter (\<lambda>(_, e). e = JNull) tasks))"
    using k unfolding st prod.case bind_r_eq_Inr require_eq_Inr by (elim exE conjE)
  note f = f0 [unfolded st]
  have c: "aliases = rev (map review_alias reviews)" "ids = rev (map review_task reviews)" "distinct aliases" "distinct ids"
    "\<forall>r \<in> set reviews. \<exists>d. digest (review_task r) = Some d \<and> get_of r ''response_sha256'' = JStr d"
    using reviews_checked [OF f] by auto
  have "set (map review_task reviews) = {i. (i, JNull) \<in> set tasks}"
    using s unfolding c(2) set_rev required_tasks .
  then show ?thesis using j t c check_blindingD [OF b] check_authorsD [OF a] by simp
qed

section \<open>A sample ledger\<close>

definition sample_hashes :: pylib where
  "sample_hashes = sample_lib\<lparr>sha256_hex := (\<lambda>_. sample_sha)\<rparr>"

definition sample_review :: "string \<Rightarrow> string \<Rightarrow> json" where
  "sample_review alias task = JObj [(''blind_id'', JStr alias), (''task_id'', JStr task), (''response_sha256'', JStr sample_sha),
     (''verdict'', JStr ''pass''), (''notes'', JStr ''n'')]"

definition sample_ledger :: json where
  "sample_ledger = JObj [(''version'', JInt 1), (''manifest_sha256'', JStr sample_sha), (''run_sha256'', JStr sample_sha),
     (''response_set_sha256'', JStr sample_sha), (''reviewer_id'', JStr ''reviewer''), (''candidate_author_ids'', JArr [JStr ''author'']),
     (''independent'', JBool True),
     (''blinding'', JObj [(''alias_map_sha256'', JStr sample_sha), (''arm_labels_hidden_until_scores_frozen'', JBool True),
        (''scores_frozen_at'', JStr ''5''), (''unblinded_at'', JStr ''6'')]),
     (''reviews'', JArr [sample_review ''B002'' ''t1'', sample_review ''B001'' ''t2''])]"

lemma sample_blind_ids: "blind_id_ok ''B001''" "blind_id_ok ''B002''"
proof -
  have d: "CHR ''0'' = char_of (48 :: nat)" "CHR ''1'' = char_of (49 :: nat)" "CHR ''2'' = char_of (50 :: nat)" by code_simp+
  show "blind_id_ok ''B001''" unfolding blind_id_ok_def by (rule image_eqI [of _ _ 1]) (simp_all add: d)
  show "blind_id_ok ''B002''" unfolding blind_id_ok_def by (rule image_eqI [of _ _ 2]) (simp_all add: d)
qed

lemma sample_sha_of: "sha_of (JStr sample_sha) name = Inr sample_sha"
  by code_simp

lemma sample_review_checked:
  assumes "blind_id_ok alias" and "alias \<notin> set aliases" and "task \<notin> set ids" and "strip alias \<noteq> []" and "strip task \<noteq> []"
  shows "\<exists>m'. check_review (Some (\<lambda>_. Some sample_sha)) (sample_review alias task) (aliases, ids, m) = Inr (alias # aliases, task # ids, m')"
proof -
  have n: "text_of (JStr ''n'') ''review notes'' = Inr ''n''" by code_simp
  show ?thesis using assms n
    by (simp add: check_review_def sample_review_def exact_def get_of_def dict_get_def text_of_def [of "JStr alias"] text_of_def [of "JStr task"] sample_sha_of)
qed

lemma sample_reviews_checked:
  "\<exists>m. foldM (check_review (Some (\<lambda>_. Some sample_sha))) [sample_review ''B002'' ''t1'', sample_review ''B001'' ''t2''] ([], [], [])
    = Inr ([''B001'', ''B002''], [''t2'', ''t1''], m)"
proof -
  have n: "strip ''B001'' \<noteq> []" "strip ''B002'' \<noteq> []" "strip ''t1'' \<noteq> []" "strip ''t2'' \<noteq> []" by code_simp+
  obtain m1 where a: "check_review (Some (\<lambda>_. Some sample_sha)) (sample_review ''B002'' ''t1'') ([], [], []) = Inr ([''B002''], [''t1''], m1)"
    using sample_review_checked [OF sample_blind_ids(2) _ _ n(2,3), of "[]" "[]" "[]"] by auto
  obtain m2 where "check_review (Some (\<lambda>_. Some sample_sha)) (sample_review ''B001'' ''t2'') ([''B002''], [''t1''], m1)
    = Inr ([''B001'', ''B002''], [''t2'', ''t1''], m2)"
    using sample_review_checked [OF sample_blind_ids(1) _ _ n(1,4), of "[''B002'']" "[''t1'']" m1] by auto
  then show ?thesis using a by simp
qed

lemma sample_ledger_parts:
  "exact sample_ledger [''version'', ''manifest_sha256'', ''run_sha256'', ''response_set_sha256'', ''reviewer_id'',
       ''candidate_author_ids'', ''independent'', ''blinding'', ''reviews''] ''review ledger'' = Inr ()"
  "py_equal (get_of sample_ledger ''version'') (JInt 1)"
  "bound_to sample_ledger ''manifest_sha256'' sample_sha m = Inr ()" "bound_to sample_ledger ''run_sha256'' sample_sha m = Inr ()"
  "bound_to (get_of sample_ledger ''blinding'') ''alias_map_sha256'' sample_sha m = Inr ()"
  "sha_of (get_of sample_ledger ''response_set_sha256'') n = Inr sample_sha"
  "tasks_with id_of sample_manifest = Inr [''t1'', ''t2'']" "tasks_with task_of sample_manifest = Inr [(''t1'', JNull), (''t2'', JNull)]"
  "check_authors sample_ledger sample_manifest = Inr ()" "check_blinding sample_hashes (get_of sample_ledger ''blinding'') = Inr ()"
  by code_simp+

lemma sample_ledger_accepted:
  "validate_blinded_review_ledger sample_hashes sample_ledger sample_manifest sample_sha sample_sha (Some (\<lambda>_. Some sample_sha)) = Inr ()"
proof -
  obtain m where m: "foldM (check_review (Some (\<lambda>_. Some sample_sha))) [sample_review ''B002'' ''t1'', sample_review ''B001'' ''t2''] ([], [], [])
    = Inr ([''B001'', ''B002''], [''t2'', ''t1''], m)" using sample_reviews_checked by blast
  have j: "get_of sample_ledger ''reviews'' = JArr [sample_review ''B002'' ''t1'', sample_review ''B001'' ''t2'']"
    by (simp add: sample_ledger_def get_of_def dict_get_def)
  have h: "sha256_hex sample_hashes s = sample_sha" for s by (simp add: sample_hashes_def)
  have d: "response_set_sha256 sample_hashes (\<lambda>_. Some sample_sha) ids = Inr sample_sha" for ids
  proof -
    have "traverse (\<lambda>i. case Some sample_sha of None \<Rightarrow> Inl (ValueError ''Every task must have a response artifact'')
         | Some d \<Rightarrow> Inr (JObj [(''task_id'', JStr i), (''response_sha256'', JStr d)])) xs
      = Inr (map (\<lambda>i. JObj [(''task_id'', JStr i), (''response_sha256'', JStr sample_sha)]) xs)" for xs
      by (rule traverse_map) simp
    then show ?thesis by (simp add: response_set_sha256_def h)
  qed
  show ?thesis unfolding validate_blinded_review_ledger_def using m
    by (simp add: sample_ledger_parts j h d del: foldM.simps set_map set_filter) (auto simp: insert_commute)
qed

theorem ledger_covers_witness:
  "\<exists>reviews tasks. get_of sample_ledger ''reviews'' = JArr reviews \<and> tasks_with task_of sample_manifest = Inr tasks
    \<and> set (map review_task reviews) = {i. (i, JNull) \<in> set tasks}"
  using ledger_covers [OF sample_ledger_accepted] by blast

end
