(* ===== verification/Curation.thy ===== *)
theory Curation
  imports AllocationGates
begin

text \<open>
  The curation of the cases of an evaluation and the execution manifest compiled from it
  (\<open>src/scripts/model_allocation_curation.py\<close>), and how a manifest with its bases is read (\<open>load_manifest\<close> of
  \<open>model_allocation_manifest.py\<close>).
\<close>

section \<open>Curation\<close>

definition expected_strata :: "(string \<times> nat) list" where
  "expected_strata = [(''bounded_evidence_and_documentation'', 15), (''scoped_implementation'', 35),
     (''security_and_tenant_boundaries'', 15), (''concurrency_and_recovery'', 15), (''architecture_and_evaluation'', 20)]"

definition git_commit :: "json \<Rightarrow> exn + string" where
  "git_commit v =
     bind_r (text_of v ''baseline_commit'') (\<lambda>s.
     if length s = 40 \<and> list_all lower_hex s then Inr s else Inl (ValueError ''baseline_commit must be a full lowercase Git SHA-1''))"

definition validate_curation :: "json \<Rightarrow> exn + unit" where
  "validate_curation curation =
     bind_r (require (is_dict curation) (ValueError ''curation must be an object'')) (\<lambda>_.
     bind_r (exact curation [''curator_id'', ''candidate_author_ids'', ''independent_from_candidate_authors'',
       ''completed_before_candidate_access'', ''blind_to_arm_outcomes'', ''selection_method'', ''sampling_frame_sha256''] ''curation'') (\<lambda>_.
     bind_r (text_of (get_of curation ''curator_id'') ''curator_id'') (\<lambda>curator.
     let authors = get_of curation ''candidate_author_ids'' in
     bind_r (require (nonblank_texts authors \<and> distinct (texts_of authors))
       (ValueError ''candidate_author_ids must be unique nonblank strings'')) (\<lambda>_.
     bind_r (require (curator \<notin> set (texts_of authors)) (ValueError ''curator_id must differ from every candidate author'')) (\<lambda>_.
     bind_r (each (\<lambda>field. require (get_of curation field = JBool True) (ValueError (''curation.'' @ field @ '' must be true'')))
       [''independent_from_candidate_authors'', ''completed_before_candidate_access'', ''blind_to_arm_outcomes'']) (\<lambda>_.
     bind_r (text_of (get_of curation ''selection_method'') ''selection_method'') (\<lambda>_.
     map_r (\<lambda>_. ()) (sha_of (get_of curation ''sampling_frame_sha256'') ''sampling_frame_sha256''))))))))"

text \<open>\<open>value in names\<close> for a set or a dict of texts.\<close>

definition named_in :: "json \<Rightarrow> string list \<Rightarrow> string \<Rightarrow> exn + unit" where
  "named_in v names message = bind_r (hashed v) (\<lambda>h. require (h \<in> JStr ` set names) (ValueError message))"

definition check_source :: "string \<Rightarrow> json \<Rightarrow> exn + unit" where
  "check_source case_id source =
     bind_r (require (is_dict source) (ValueError (case_id @ ''.source must be synthetic or public''))) (\<lambda>_.
     bind_r (named_in (get_of source ''kind'') [''synthetic'', ''public''] (case_id @ ''.source must be synthetic or public'')) (\<lambda>_.
     bind_r (exact source [''kind'', ''reference'', ''content_sha256''] ''source'') (\<lambda>_.
     bind_r (text_of (get_of source ''reference'') (case_id @ ''.source.reference'')) (\<lambda>_.
     map_r (\<lambda>_. ()) (sha_of (get_of source ''content_sha256'') (case_id @ ''.source.content_sha256''))))))"

definition attestations :: "string list" where
  "attestations = [''absent_from_v1_v2'', ''absent_from_candidate_examples'', ''unseen_by_candidate_authors'']"

definition check_holdout :: "string \<Rightarrow> json \<Rightarrow> exn + unit" where
  "check_holdout case_id holdout =
     bind_r (require (is_dict holdout \<and> list_all (\<lambda>field. get_of holdout field = JBool True) attestations)
       (ValueError (case_id @ '' must carry all holdout attestations''))) (\<lambda>_.
     exact holdout attestations ''holdout'')"

fun nonempty_list :: "json \<Rightarrow> bool" where
  "nonempty_list (JArr vs) = (vs \<noteq> [])"
| "nonempty_list _ = False"

fun null_or_texts :: "json \<Rightarrow> bool" where
  "null_or_texts JNull = True"
| "null_or_texts (JArr vs) = (\<not> list_ex blank_text vs)"
| "null_or_texts _ = False"

definition check_grading :: "string \<Rightarrow> json \<Rightarrow> exn + unit" where
  "check_grading case_id grading =
     (let one = ValueError (case_id @ '' must declare exactly one grading mode'');
          checks = get_of grading ''checks''; criteria = get_of grading ''review_criteria'' in
      bind_r (require (is_dict grading) (ValueError (case_id @ ''.grading must be an object''))) (\<lambda>_.
      bind_r (require (length (members grading) = 1 \<and> set (map fst (members grading)) \<subseteq> {''expected'', ''checks'', ''review_criteria''}) one) (\<lambda>_.
      bind_r (require (length (filter id [get_of grading ''expected'' \<noteq> JNull, nonempty_list checks, nonempty_list criteria]) = 1) one) (\<lambda>_.
      bind_r (require (null_or_texts checks) (ValueError (case_id @ ''.checks must contain nonblank strings''))) (\<lambda>_.
      require (null_or_texts criteria) (ValueError (case_id @ ''.review_criteria must contain nonblank strings'')))))))"

definition check_allocation :: "string \<Rightarrow> json \<Rightarrow> exn + unit" where
  "check_allocation case_id allocation =
     bind_r (require (is_dict allocation) (ValueError (case_id @ ''.allocation must be an object''))) (\<lambda>_.
     bind_r (exact allocation [''model'', ''effort''] ''allocation'') (\<lambda>_.
     bind_r (named_in (get_of allocation ''model'') [''gpt-6-luna'', ''gpt-6-sol'', ''gpt-6-astra'']
       (case_id @ '' has an unsupported allocation model'')) (\<lambda>_.
     named_in (get_of allocation ''effort'') [''low'', ''medium'', ''high''] (case_id @ '' has an unsupported allocation effort''))))"

fun is_bool :: "json \<Rightarrow> bool" where
  "is_bool (JBool b) = True"
| "is_bool _ = False"

definition validate_case :: "json \<Rightarrow> string list \<Rightarrow> exn + string list" where
  "validate_case item seen =
     bind_r (require (is_dict item) (ValueError ''Every case must be an object'')) (\<lambda>_.
     bind_r (exact item [''id'', ''stratum'', ''category'', ''prompt'', ''critical'', ''source'', ''holdout'', ''grading'', ''allocation''] ''case'') (\<lambda>_.
     bind_r (text_of (get_of item ''id'') ''case.id'') (\<lambda>case_id.
     bind_r (require (case_id \<notin> set seen) (ValueError (''Duplicate case id: '' @ case_id))) (\<lambda>_.
     bind_r (named_in (get_of item ''stratum'') (map fst expected_strata) (''Case '' @ case_id @ '' has an unknown stratum'')) (\<lambda>_.
     bind_r (text_of (get_of item ''category'') (case_id @ ''.category'')) (\<lambda>_.
     bind_r (text_of (get_of item ''prompt'') (case_id @ ''.prompt'')) (\<lambda>_.
     bind_r (require (is_bool (get_of item ''critical'')) (ValueError (case_id @ ''.critical must be boolean''))) (\<lambda>_.
     bind_r (check_source case_id (get_of item ''source'')) (\<lambda>_.
     bind_r (check_holdout case_id (get_of item ''holdout'')) (\<lambda>_.
     bind_r (check_grading case_id (get_of item ''grading'')) (\<lambda>_.
     bind_r (check_allocation case_id (get_of item ''allocation'')) (\<lambda>_.
     Inr (case_id # seen)))))))))))))"

definition validate_curation_manifest :: "json \<Rightarrow> exn + unit" where
  "validate_curation_manifest document =
     bind_r (exact document [''version'', ''purpose'', ''baseline_commit'', ''curation'', ''cases''] ''manifest'') (\<lambda>_.
     bind_r (require (py_equal (get_of document ''version'') (JInt 3)) (ValueError ''Curation manifest version must be 3'')) (\<lambda>_.
     bind_r (text_of (get_of document ''purpose'') ''purpose'') (\<lambda>_.
     bind_r (git_commit (get_of document ''baseline_commit'')) (\<lambda>_.
     bind_r (validate_curation (get_of document ''curation'')) (\<lambda>_.
     case get_of document ''cases'' of
       JArr cases \<Rightarrow>
         bind_r (require (length cases = 100) (ValueError ''Curation manifest must contain exactly 100 cases'')) (\<lambda>_.
         bind_r (foldM validate_case cases []) (\<lambda>_.
         require (list_all (\<lambda>(stratum, n). length (filter (\<lambda>c. get_of c ''stratum'' = JStr stratum) cases) = n) expected_strata)
           (ValueError ''Case strata do not match the preregistered distribution'')))
     | _ \<Rightarrow> Inl (ValueError ''Curation manifest must contain exactly 100 cases''))))))"

section \<open>The execution manifest\<close>

text \<open>The two tasks of a case. An assignment has a model and an effort.\<close>

definition case_task :: "json \<Rightarrow> string \<Rightarrow> json \<Rightarrow> json" where
  "case_task item arm assignment =
     (let grading = get_of item ''grading'' in
      JObj ([(''case_id'', get_of item ''id''), (''category'', get_of item ''category''), (''prompt'', get_of item ''prompt''),
        (''expected'', get_of grading ''expected''), (''checks'', get_of grading ''checks''),
        (''review_criteria'', get_of grading ''review_criteria''), (''critical'', get_of item ''critical''),
        (''stratum'', get_of item ''stratum''), (''source'', get_of item ''source''),
        (''id'', JStr (string_or_empty (get_of item ''id'') @ ''--'' @ arm)), (''arm'', JStr arm)] @ members assignment))"

definition case_tasks :: "json \<Rightarrow> json list" where
  "case_tasks item =
     [case_task item ''allocation'' (get_of item ''allocation''),
      case_task item ''all_astra_baseline'' (JObj [(''model'', JStr ''gpt-6-astra''), (''effort'', JStr ''high'')])]"

definition execution_manifest :: "pylib \<Rightarrow> json \<Rightarrow> json list \<Rightarrow> json" where
  "execution_manifest L document cases =
     JObj [(''version'', JInt 3), (''baseline_commit'', get_of document ''baseline_commit''), (''purpose'', get_of document ''purpose''),
       (''threshold'', JObj [(''planned_tasks'', JInt 200), (''minimum_first_pass'', JInt 94), (''critical_failures_allowed'', JInt 0)]),
       (''comparison'', JObj [(''arms'', JArr [JStr ''allocation'', JStr ''all_astra_baseline'']), (''baseline_arm'', JStr ''all_astra_baseline''),
         (''require_complete_pairs'', JBool True)]),
       (''review'', JObj [(''require_independent'', JBool True),
         (''candidate_author_ids'', get_of (get_of document ''curation'') ''candidate_author_ids''),
         (''blind_to_arm_until_scores_are_frozen'', JBool True)]),
       (''resume_policy'', JObj [(''retry_statuses'', JArr []), (''maximum_infrastructure_attempts_per_task'', JInt 1),
         (''quality_failures_retryable'', JBool False)]),
       (''curation_sha256'', JStr (sha256_hex L (canonical_json L document))),
       (''tasks'', JArr (concat (map case_tasks cases)))]"

definition compile_execution_manifest :: "pylib \<Rightarrow> json \<Rightarrow> exn + json" where
  "compile_execution_manifest L document =
     bind_r (validate_curation_manifest document) (\<lambda>_.
     let manifest = execution_manifest L document (case get_of document ''cases'' of JArr cases \<Rightarrow> cases | _ \<Rightarrow> []) in
     bind_r (validate_manifest manifest) (\<lambda>_. Inr manifest))"

section \<open>Reading a manifest\<close>

text \<open>
  A file has a name and a text; \<open>beside p name\<close> is the file a name stands for in the directory of \<open>p\<close>. A chain of bases
  longer than the stack raises.
\<close>

record manifest_files =
  mf_name :: "string \<Rightarrow> string"
  mf_text :: "string \<Rightarrow> string option"
  mf_beside :: "string \<Rightarrow> string \<Rightarrow> string"

definition override_task :: "json \<Rightarrow> json \<Rightarrow> exn + json" where
  "override_task override task =
     (if \<not> is_dict override then Inl (AttributeError ''get'') else
      let replaced = fold (\<lambda>(k, v). dict_put k v) (filter (\<lambda>(k, _). k \<noteq> ''checks_append'') (members override)) (members task) in
      case get_of override ''checks_append'' of
        JArr (c # cs) \<Rightarrow>
          bind_r (item_of (JObj replaced) ''checks'') (\<lambda>checks.
          case checks of JArr old \<Rightarrow> Inr (JObj (dict_put ''checks'' (JArr (old @ c # cs)) replaced)) | _ \<Rightarrow> Inl (TypeError ''checks''))
      | _ \<Rightarrow> Inr (JObj replaced))"

text \<open>Every override names a task; the last task with that name is replaced.\<close>

fun update_last :: "('a \<Rightarrow> bool) \<Rightarrow> ('a \<Rightarrow> 'e + 'a) \<Rightarrow> 'a list \<Rightarrow> ('e + 'a list) option" where
  "update_last p f [] = None"
| "update_last p f (x # xs) =
     (case update_last p f xs of
        Some r \<Rightarrow> Some (map_r ((#) x) r)
      | None \<Rightarrow> if p x then Some (map_r (\<lambda>y. y # xs) (f x)) else None)"

definition apply_override :: "string \<times> json \<Rightarrow> (string \<times> json) list \<Rightarrow> exn + (string \<times> json) list" where
  "apply_override entry tasks =
     (case entry of (task_id, override) \<Rightarrow>
      case update_last (\<lambda>(i, _). i = task_id) (\<lambda>(i, task). map_r (Pair i) (override_task override task)) tasks of
        None \<Rightarrow> Inl (ValueError (''Unknown task override: '' @ task_id))
      | Some r \<Rightarrow> r)"

definition inherit :: "json \<Rightarrow> (string \<times> json) list \<Rightarrow> (string \<times> json) list" where
  "inherit raw base =
     dict_put ''resume_policy'' (get_of raw ''resume_policy'')
       (fold (\<lambda>k d. case dict_get raw k of None \<Rightarrow> d | Some v \<Rightarrow> dict_put k v d) [''version'', ''baseline_commit'', ''purpose'', ''threshold''] base)"

fun load_manifest :: "nat \<Rightarrow> pylib \<Rightarrow> manifest_files \<Rightarrow> string \<Rightarrow> exn + json \<times> string" where
  "load_manifest 0 L fs path = Inl (RuntimeError ''maximum recursion depth exceeded'')"
| "load_manifest (Suc depth) L fs path =
     (case mf_text fs path of
        None \<Rightarrow> Inl (OperationalError ''No such file'')
      | Some raw_bytes \<Rightarrow>
      case loads L raw_bytes of
        None \<Rightarrow> Inl (ValueError ''Expecting value'')
      | Some raw \<Rightarrow>
          if \<not> is_dict raw then Inl (AttributeError ''get'')
          else let digest = sha256_hex L raw_bytes in
          case dict_get raw ''base_manifest'' of
            None \<Rightarrow> map_r (\<lambda>_. (raw, digest)) (validate_manifest raw)
          | Some base_name \<Rightarrow>
              let base_path = mf_beside fs path (string_or_empty base_name) in
              bind_r (load_manifest depth L fs base_path) (\<lambda>(base, base_digest).
              let inherited = inherit raw (members base) in
              bind_r (tasks_with (\<lambda>t. map_r (\<lambda>i. (i, t)) (id_of t)) (JObj inherited)) (\<lambda>tasks.
              bind_r (case dict_get raw ''task_overrides'' of None \<Rightarrow> Inr [] | Some (JObj ms) \<Rightarrow> Inr ms | Some _ \<Rightarrow> Inl (AttributeError ''items'')) (\<lambda>overrides.
              bind_r (foldM apply_override overrides tasks) (\<lambda>overridden.
              let resolved = JObj (dict_put ''tasks'' (JArr (map snd overridden)) inherited);
                  sources = dict_put (mf_name fs base_path) (JStr base_digest) [(mf_name fs path, JStr digest)] in
              map_r (\<lambda>_. (resolved, sha256_hex L (canonical_json L (JObj [(''resolved'', resolved), (''sources'', JObj sources)]))))
                (validate_manifest resolved))))))"

end
