(* ===== verification/CurationTheorems.thy ===== *)
theory CurationTheorems
  imports Curation AllocationTheorems JsonText
begin

text \<open>Every accepted curation compiles: the manifest it gives is accepted, with two tasks for every case.\<close>

section \<open>The cases\<close>

definition case_key :: "json \<Rightarrow> string" where
  "case_key item = string_or_empty (get_of item ''id'')"

lemma text_ofD: "text_of v name = Inr s \<Longrightarrow> v = JStr s \<and> strip s \<noteq> []"
  by (auto simp: text_of_def split: json.splits if_splits)

lemma validate_caseD:
  assumes "validate_case item seen = Inr seen'"
  shows "get_of item ''id'' = JStr (case_key item)" "strip (case_key item) \<noteq> []" "case_key item \<notin> set seen" "seen' = case_key item # seen"
    "exact (get_of item ''allocation'') [''model'', ''effort''] ''allocation'' = Inr ()"
proof -
  obtain k where t: "text_of (get_of item ''id'') ''case.id'' = Inr k" and n: "k \<notin> set seen" and s: "seen' = k # seen"
    and a: "check_allocation k (get_of item ''allocation'') = Inr ()"
    using assms by (auto simp: validate_case_def bind_r_eq_Inr)
  note d = text_ofD [OF t]
  then have "case_key item = k" by (simp add: case_key_def)
  then show "get_of item ''id'' = JStr (case_key item)" "strip (case_key item) \<noteq> []" "case_key item \<notin> set seen" "seen' = case_key item # seen"
    using d n s by simp_all
  show "exact (get_of item ''allocation'') [''model'', ''effort''] ''allocation'' = Inr ()"
    using a by (auto simp: check_allocation_def bind_r_eq_Inr)
qed

definition case_ok :: "json \<Rightarrow> bool" where
  "case_ok item \<longleftrightarrow> get_of item ''id'' = JStr (case_key item) \<and> strip (case_key item) \<noteq> []"

lemma validated_cases:
  assumes "foldM validate_case cases seen = Inr seen'" and "distinct seen"
  shows "(\<forall>c \<in> set cases. case_ok c) \<and> distinct (map case_key cases) \<and> set (map case_key cases) \<inter> set seen = {}"
  using assms
proof (induction cases arbitrary: seen)
  case Nil
  then show ?case by simp
next
  case (Cons c cases)
  obtain seen1 where v: "validate_case c seen = Inr seen1" and f: "foldM validate_case cases seen1 = Inr seen'"
    using Cons.prems(1) by (auto simp: bind_r_eq_Inr)
  note d = validate_caseD [OF v]
  have "distinct seen1" using d(3,4) Cons.prems(2) by simp
  note IH = Cons.IH [OF f this]
  then have "case_key c \<notin> set (map case_key cases)" "set (map case_key cases) \<inter> set seen = {}" using d(4) by auto
  then show ?case using IH d(1,2,3) by (auto simp: case_ok_def)
qed

section \<open>The tasks\<close>

lemma task_fields:
  "get_of (case_task item arm a) ''case_id'' = get_of item ''id''" "get_of (case_task item arm a) ''arm'' = JStr arm"
  "get_of (case_task item arm a) ''id'' = JStr (case_key item @ ''--'' @ arm)" "is_dict (case_task item arm a)"
  by (simp_all add: case_task_def get_of_def dict_get_def Let_def case_key_def)

lemma task_same: "field \<in> set compared_fields \<Longrightarrow> get_of (case_task item arm a) field = get_of (case_task item arm' a') field"
  by (auto simp: compared_fields_def case_task_def get_of_def dict_get_def Let_def)

definition compiled_arms :: "string list" where
  "compiled_arms = [''allocation'', ''all_astra_baseline'']"

lemma check_case_tasks: "check_case compiled_arms (k, case_tasks item) = Inr ()"
proof -
  have "py_equal (get_of (case_task item ''all_astra_baseline'' a) field) (get_of (case_task item ''allocation'' b) field)"
    if "field \<in> set compared_fields" for field a b
    unfolding py_equal_def task_same [OF that, of item "''all_astra_baseline''" a "''allocation''" b] by (rule refl)
  then show ?thesis by (auto simp: check_case_def case_tasks_def compiled_arms_def task_fields each_eq_Inr bind_r_eq_Inr)
qed

lemma task_names:
  "k @ ''--allocation'' = k' @ ''--allocation'' \<longleftrightarrow> k = k'" "k @ ''--all_astra_baseline'' = k' @ ''--all_astra_baseline'' \<longleftrightarrow> k = k'"
  "k @ ''--allocation'' \<noteq> k' @ ''--all_astra_baseline''"
proof -
  show "k @ ''--allocation'' \<noteq> k' @ ''--all_astra_baseline''"
  proof
    assume "k @ ''--allocation'' = k' @ ''--all_astra_baseline''"
    then have "last (k @ ''--allocation'') = last (k' @ ''--all_astra_baseline'')" by (rule arg_cong)
    then show False by simp
  qed
qed simp_all

lemma put_last: "k \<notin> fst ` set d \<Longrightarrow> dict_put k w (d @ [(k, v)]) = d @ [(k, w)]"
  unfolding dict_put_def by (induction d) auto

definition task_ids :: "string list \<Rightarrow> string set" where
  "task_ids keys = (\<lambda>k. k @ ''--allocation'') ` set keys \<union> (\<lambda>k. k @ ''--all_astra_baseline'') ` set keys"

lemma check_tasks_of_case:
  assumes "case_ok item" and "case_key item \<notin> fst ` set grouped" and "set ids = task_ids (map fst grouped)"
  shows "foldM (check_compared_task compiled_arms) (case_tasks item) (ids, grouped)
    = Inr ((case_key item @ ''--all_astra_baseline'') # (case_key item @ ''--allocation'') # ids, grouped @ [(case_key item, case_tasks item)])"
proof -
  let ?k = "case_key item"
  let ?t1 = "case_task item ''allocation'' (get_of item ''allocation'')"
  let ?t2 = "case_task item ''all_astra_baseline'' (JObj [(''model'', JStr ''gpt-6-astra''), (''effort'', JStr ''high'')])"
  have i: "get_of item ''id'' = JStr ?k" "strip ?k \<noteq> []" using assms(1) by (simp_all add: case_ok_def)
  have keys: "?k \<notin> set (map fst grouped)" using assms(2) by simp
  have n1: "?k @ ''--allocation'' \<notin> set ids" and n2: "?k @ ''--all_astra_baseline'' \<notin> set ((?k @ ''--allocation'') # ids)"
    using keys task_names(3) [symmetric] by (auto simp: assms(3) task_ids_def image_iff task_names)
  have nb: "strip (?k @ ''--allocation'') \<noteq> []" "strip (?k @ ''--all_astra_baseline'') \<noteq> []"
    by (simp_all add: strip_eq_Nil py_space_def)
  have m: "map_of grouped ?k = None" using keys by (simp add: map_of_eq_None_iff)
  have "check_compared_task compiled_arms ?t1 (ids, grouped) = Inr ((?k @ ''--allocation'') # ids, grouped @ [(?k, [?t1])])"
    using i n1 nb m dict_put_new [OF assms(2)] by (simp add: check_compared_task_def task_fields compiled_arms_def)
  moreover have "check_compared_task compiled_arms ?t2 ((?k @ ''--allocation'') # ids, grouped @ [(?k, [?t1])])
    = Inr ((?k @ ''--all_astra_baseline'') # (?k @ ''--allocation'') # ids, grouped @ [(?k, [?t1, ?t2])])"
    using i n2 nb m put_last [OF assms(2)] by (simp add: map_add_def check_compared_task_def task_fields compiled_arms_def)
  ultimately show ?thesis by (simp add: case_tasks_def)
qed

lemma check_compiled_tasks:
  assumes "\<forall>c \<in> set cases. case_ok c" and "distinct (map case_key cases)" and "set (map case_key cases) \<inter> fst ` set grouped = {}"
    and "set ids = task_ids (map fst grouped)"
  shows "\<exists>ids'. foldM (check_compared_task compiled_arms) (concat (map case_tasks cases)) (ids, grouped)
    = Inr (ids', grouped @ map (\<lambda>c. (case_key c, case_tasks c)) cases)"
  using assms
proof (induction cases arbitrary: ids grouped)
  case Nil
  then show ?case by simp
next
  case (Cons c cases)
  let ?ids = "(case_key c @ ''--all_astra_baseline'') # (case_key c @ ''--allocation'') # ids"
  let ?g = "grouped @ [(case_key c, case_tasks c)]"
  have s: "foldM (check_compared_task compiled_arms) (case_tasks c) (ids, grouped) = Inr (?ids, ?g)"
    by (rule check_tasks_of_case) (use Cons.prems in auto)
  have "set ?ids = task_ids (map fst ?g)" using Cons.prems(4) by (auto simp: task_ids_def)
  moreover have "set (map case_key cases) \<inter> fst ` set ?g = {}" using Cons.prems(2,3) by auto
  ultimately obtain ids' where "foldM (check_compared_task compiled_arms) (concat (map case_tasks cases)) (?ids, ?g)
    = Inr (ids', ?g @ map (\<lambda>c. (case_key c, case_tasks c)) cases)"
    using Cons.IH [of ?g ?ids] Cons.prems(1,2) by auto
  then show ?case by (intro exI [of _ ids']) (simp add: foldM_append s)
qed

section \<open>The manifest\<close>

text \<open>C22. A curation that is accepted compiles: the manifest is accepted, names the curation it comes from, and has the two tasks of every
  case, 200 in all.
\<close>

theorem curation_compiles:
  assumes "validate_curation_manifest document = Inr ()"
  shows "\<exists>manifest cases. get_of document ''cases'' = JArr cases \<and> compile_execution_manifest L document = Inr manifest
    \<and> validate_manifest manifest = Inr () \<and> get_of manifest ''tasks'' = JArr (concat (map case_tasks cases))
    \<and> length (concat (map case_tasks cases)) = 200
    \<and> get_of manifest ''curation_sha256'' = JStr (sha256_hex L (canonical_json L document))"
proof -
  obtain cases seen where c: "get_of document ''cases'' = JArr cases" and l: "length cases = 100"
    and f: "foldM validate_case cases [] = Inr seen"
    using assms by (auto simp: validate_curation_manifest_def bind_r_eq_Inr split: json.splits)
  have v: "\<forall>c \<in> set cases. case_ok c" "distinct (map case_key cases)" using validated_cases [OF f] by simp_all
  obtain ids where t: "foldM (check_compared_task compiled_arms) (concat (map case_tasks cases)) ([], [])
    = Inr (ids, map (\<lambda>c. (case_key c, case_tasks c)) cases)"
    using check_compiled_tasks [of cases "[]" "[]"] v by (auto simp: task_ids_def)
  have e: "each (check_case compiled_arms) (map (\<lambda>c. (case_key c, case_tasks c)) cases) = Inr ()"
    by (auto simp: each_eq_Inr check_case_tasks)
  have a: "texts_of (JArr [JStr ''allocation'', JStr ''all_astra_baseline'']) = compiled_arms"
    by (simp add: compiled_arms_def List.map_filter_simps)
  have nb: "nonblank_texts (JArr [JStr ''allocation'', JStr ''all_astra_baseline''])" by code_simp
  have m: "validate_manifest (execution_manifest L document cases) = Inr ()"
    using t e by (simp add: validate_manifest_def execution_manifest_def get_of_def item_of_def dict_get_def Let_def a nb
        del: texts_of.simps) (simp add: compiled_arms_def)
  have n: "length (concat (map case_tasks cases)) = 2 * length cases" by (induction cases) (simp_all add: case_tasks_def)
  have "get_of (execution_manifest L document cases) ''tasks'' = JArr (concat (map case_tasks cases))"
    "get_of (execution_manifest L document cases) ''curation_sha256'' = JStr (sha256_hex L (canonical_json L document))"
    by (simp_all add: execution_manifest_def get_of_def dict_get_def)
  then show ?thesis using c m n l assms by (simp add: compile_execution_manifest_def Let_def)
qed

section \<open>A sample curation\<close>

definition sample_case :: "nat \<Rightarrow> string \<Rightarrow> json" where
  "sample_case n stratum =
     JObj [(''id'', JStr (replicate (Suc n) CHR ''c'')), (''stratum'', JStr stratum), (''category'', JStr ''k''), (''prompt'', JStr ''p''),
       (''critical'', JBool False),
       (''source'', JObj [(''kind'', JStr ''public''), (''reference'', JStr ''r''), (''content_sha256'', JStr (replicate 64 CHR ''a''))]),
       (''holdout'', JObj (map (\<lambda>field. (field, JBool True)) attestations)), (''grading'', JObj [(''expected'', JInt 1)]),
       (''allocation'', JObj [(''model'', JStr ''gpt-6-luna''), (''effort'', JStr ''low'')])]"

definition sample_strata :: "string list" where
  "sample_strata = concat (map (\<lambda>(stratum, n). replicate n stratum) expected_strata)"

definition sample_cases :: "json list" where
  "sample_cases = map (\<lambda>(n, stratum). sample_case n stratum) (enumerate 0 sample_strata)"

definition sample_curation :: json where
  "sample_curation = JObj [(''version'', JInt 3), (''purpose'', JStr ''p''), (''baseline_commit'', JStr (replicate 40 CHR ''a'')),
     (''curation'', JObj [(''curator_id'', JStr ''c''), (''candidate_author_ids'', JArr [JStr ''a'']),
        (''independent_from_candidate_authors'', JBool True), (''completed_before_candidate_access'', JBool True),
        (''blind_to_arm_outcomes'', JBool True), (''selection_method'', JStr ''m''), (''sampling_frame_sha256'', JStr (replicate 64 CHR ''a''))]),
     (''cases'', JArr sample_cases)]"

lemma sample_parts:
  "validate_curation (get_of sample_curation ''curation'') = Inr ()"
  "git_commit (JStr (replicate 40 CHR ''a'')) = Inr (replicate 40 CHR ''a'')"
  "check_source k (JObj [(''kind'', JStr ''public''), (''reference'', JStr ''r''), (''content_sha256'', JStr (replicate 64 CHR ''a''))]) = Inr ()"
  "check_holdout k (JObj (map (\<lambda>field. (field, JBool True)) attestations)) = Inr ()"
  "check_grading k (JObj [(''expected'', JInt 1)]) = Inr ()"
  "check_allocation k (JObj [(''model'', JStr ''gpt-6-luna''), (''effort'', JStr ''low'')]) = Inr ()"
  by code_simp+

lemma sample_case_accepted:
  assumes "stratum \<in> set sample_strata" and "replicate (Suc n) CHR ''c'' \<notin> set seen"
  shows "validate_case (sample_case n stratum) seen = Inr (replicate (Suc n) CHR ''c'' # seen)"
proof -
  have s: "JStr stratum \<in> JStr ` set (map fst expected_strata)" using assms(1) by (force simp: sample_strata_def)
  have t: "text_of (JStr (replicate (Suc n) CHR ''c'')) name = Inr (replicate (Suc n) CHR ''c'')" for name
    by (simp add: text_of_def strip_eq_Nil py_space_def)
  have u: "text_of (JStr ''k'') name = Inr ''k''" "text_of (JStr ''p'') name = Inr ''p''" for name
    by (simp_all add: text_of_def strip_eq_Nil py_space_def)
  have g: "get_of (sample_case n stratum) ''id'' = JStr (replicate (Suc n) CHR ''c'')" "get_of (sample_case n stratum) ''stratum'' = JStr stratum"
    "get_of (sample_case n stratum) ''category'' = JStr ''k''" "get_of (sample_case n stratum) ''prompt'' = JStr ''p''"
    "get_of (sample_case n stratum) ''critical'' = JBool False"
    "get_of (sample_case n stratum) ''source'' = JObj [(''kind'', JStr ''public''), (''reference'', JStr ''r''), (''content_sha256'', JStr (replicate 64 CHR ''a''))]"
    "get_of (sample_case n stratum) ''holdout'' = JObj (map (\<lambda>field. (field, JBool True)) attestations)"
    "get_of (sample_case n stratum) ''grading'' = JObj [(''expected'', JInt 1)]"
    "get_of (sample_case n stratum) ''allocation'' = JObj [(''model'', JStr ''gpt-6-luna''), (''effort'', JStr ''low'')]"
    by (simp_all add: sample_case_def get_of_def dict_get_def)
  have x: "exact (sample_case n stratum) [''id'', ''stratum'', ''category'', ''prompt'', ''critical'', ''source'', ''holdout'', ''grading'', ''allocation''] ''case'' = Inr ()"
    by (simp add: exact_def sample_case_def)
  have d: "is_dict (sample_case n stratum)" by (simp add: sample_case_def)
  show ?thesis unfolding validate_case_def g t u x sample_parts
    using s assms(2) d by (simp add: named_in_def del: replicate_Suc)
qed

lemma sample_cases_fold:
  assumes "set strata \<subseteq> set sample_strata" and "\<forall>s \<in> set seen. length s \<le> m"
  shows "\<exists>seen'. foldM validate_case (map (\<lambda>(n, stratum). sample_case n stratum) (enumerate m strata)) seen = Inr seen'"
  using assms
proof (induction strata arbitrary: m seen)
  case Nil
  then show ?case by simp
next
  case (Cons st strata)
  have "replicate (Suc m) CHR ''c'' \<notin> set seen" using Cons.prems(2) by fastforce
  then have v: "validate_case (sample_case m st) seen = Inr (replicate (Suc m) CHR ''c'' # seen)"
    using sample_case_accepted Cons.prems(1) by simp
  have "\<exists>seen'. foldM validate_case (map (\<lambda>(n, stratum). sample_case n stratum) (enumerate (Suc m) strata)) (replicate (Suc m) CHR ''c'' # seen) = Inr seen'"
    by (rule Cons.IH) (use Cons.prems in auto)
  then show ?case using v by simp
qed

lemma sample_counts: "list_all (\<lambda>(stratum, n). length (filter (\<lambda>s. s = stratum) sample_strata) = n) expected_strata" "length sample_strata = 100"
  by code_simp+

lemma sample_case_strata:
  "length (filter (\<lambda>c. get_of c ''stratum'' = JStr stratum) (map (\<lambda>(n, st). sample_case n st) (enumerate m strata)))
    = length (filter (\<lambda>s. s = stratum) strata)"
  by (induction strata arbitrary: m) (simp_all add: sample_case_def get_of_def dict_get_def)

lemma sample_curation_accepted: "validate_curation_manifest sample_curation = Inr ()"
proof -
  obtain seen where f: "foldM validate_case sample_cases [] = Inr seen"
    using sample_cases_fold [of sample_strata "[]" 0] by (auto simp: sample_cases_def)
  have c: "list_all (\<lambda>(stratum, n). length (filter (\<lambda>c. get_of c ''stratum'' = JStr stratum) sample_cases) = n) expected_strata"
    using sample_counts(1) unfolding sample_cases_def sample_case_strata .
  have l: "length sample_cases = 100" using sample_counts(2) by (simp add: sample_cases_def)
  have g: "get_of sample_curation ''version'' = JInt 3" "get_of sample_curation ''purpose'' = JStr ''p''"
    "get_of sample_curation ''baseline_commit'' = JStr (replicate 40 CHR ''a'')" "get_of sample_curation ''cases'' = JArr sample_cases"
    by (simp_all add: sample_curation_def get_of_def dict_get_def)
  have p: "text_of (JStr ''p'') ''purpose'' = Inr ''p''" by code_simp
  have x: "exact sample_curation [''version'', ''purpose'', ''baseline_commit'', ''curation'', ''cases''] ''manifest'' = Inr ()"
    by (simp add: exact_def sample_curation_def)
  have e: "py_equal (JInt 3) (JInt 3)" by (simp add: py_equal_def)
  show ?thesis unfolding validate_curation_manifest_def x g p sample_parts(1,2) using f c l e by simp
qed

theorem curation_compiles_witness:
  "\<exists>manifest. compile_execution_manifest sample_lib sample_curation = Inr manifest \<and> validate_manifest manifest = Inr ()"
  using curation_compiles [OF sample_curation_accepted, of sample_lib] by blast

end
