(* ===== verification/Preflight.thy ===== *)
theory Preflight
  imports Curation
begin

text \<open>
  The preflight of an evaluation (\<open>src/scripts/model_allocation_preflight.py\<close>): every document of a readiness bundle is
  valid and bound to the others, and the owner's approval comes after the evidence it rests on. What a path holds, and where it
  leads, are arguments.
\<close>

section \<open>Evidence before a run\<close>

text \<open>The policy without its status and the approval, which is bound to it.\<close>

definition governance_policy_sha256 :: "pylib \<Rightarrow> json \<Rightarrow> string" where
  "governance_policy_sha256 L governance =
     (let readiness = JObj (dict_put ''owner_run_approval_id'' JNull (members (get_of governance ''readiness''))) in
      sha256_hex L (canonical_json L (JObj (dict_put ''readiness'' readiness (dict_put ''status'' (JStr ''blocked'') (members governance))))))"

definition check_prices :: "string \<times> json \<Rightarrow> exn + unit" where
  "check_prices entry =
     (case entry of (model, prices) \<Rightarrow>
      bind_r (text_of (JStr model) ''billing model'') (\<lambda>_.
      bind_r (require (is_dict prices) (ValueError ''Every model rate must be an object'')) (\<lambda>_.
      bind_r (exact prices rate_fields ''model rate'') (\<lambda>_.
      each (\<lambda>(_, v). require (case v of JStr s \<Rightarrow> decimal_of s \<noteq> None | _ \<Rightarrow> False)
        (ValueError ''Billing rates must be nonnegative decimal strings'')) (members prices)))))"

definition validate_billing_snapshot :: "pylib \<Rightarrow> json \<Rightarrow> json \<Rightarrow> exn + unit" where
  "validate_billing_snapshot L document expected_id =
     bind_r (exact document [''id'', ''captured_at'', ''currency'', ''source_reference'', ''applicable_to_run'',
       ''reasoning_output_billed_separately'', ''model_rates''] ''billing snapshot'') (\<lambda>_.
     bind_r (text_of (get_of document ''id'') ''billing id'') (\<lambda>i.
     bind_r (require (JStr i = expected_id) (ValueError ''Billing snapshot ID differs from governance'')) (\<lambda>_.
     bind_r (timestamp_of L (get_of document ''captured_at'') ''billing captured_at'') (\<lambda>_.
     bind_r (require (get_of document ''currency'' = JStr ''USD'' \<and> get_of document ''applicable_to_run'' = JBool True)
       (ValueError ''Billing snapshot must be applicable USD evidence'')) (\<lambda>_.
     bind_r (require (get_of document ''reasoning_output_billed_separately'' = JBool False)
       (ValueError ''Reasoning output must be included in output billing'')) (\<lambda>_.
     bind_r (text_of (get_of document ''source_reference'') ''billing source reference'') (\<lambda>_.
     let rates = get_of document ''model_rates'' in
     bind_r (require (is_dict rates \<and> members rates \<noteq> []) (ValueError ''Billing snapshot needs model rates'')) (\<lambda>_.
     each check_prices (members rates)))))))))"

definition assignment_of :: "json \<Rightarrow> exn + string \<times> string" where
  "assignment_of item =
     bind_r (require (is_dict item) (ValueError ''Access assignment must be an object'')) (\<lambda>_.
     bind_r (exact item [''model'', ''effort''] ''access assignment'') (\<lambda>_.
     bind_r (text_of (get_of item ''model'') ''model'') (\<lambda>model.
     bind_r (text_of (get_of item ''effort'') ''effort'') (\<lambda>effort.
     Inr (model, effort)))))"

definition validate_access_probe :: "pylib \<Rightarrow> json \<Rightarrow> json \<Rightarrow> string \<Rightarrow> (string \<times> string) list \<Rightarrow> exn + unit" where
  "validate_access_probe L document expected_id manifest_sha256 required_assignments =
     bind_r (exact document [''version'', ''id'', ''manifest_sha256'', ''observed_at'', ''environment_id'', ''successful'', ''assignments'',
       ''evidence_sha256''] ''access probe'') (\<lambda>_.
     bind_r (require (py_equal (get_of document ''version'') (JInt 1) \<and> get_of document ''successful'' = JBool True)
       (ValueError ''Access probe must record a successful version 1 probe'')) (\<lambda>_.
     bind_r (text_of (get_of document ''id'') ''access probe id'') (\<lambda>i.
     bind_r (require (JStr i = expected_id) (ValueError ''Access probe ID differs from governance'')) (\<lambda>_.
     bind_r (bound_to document ''manifest_sha256'' manifest_sha256 ''Access probe is not bound to this manifest'') (\<lambda>_.
     bind_r (timestamp_of L (get_of document ''observed_at'') ''access observed_at'') (\<lambda>_.
     bind_r (text_of (get_of document ''environment_id'') ''environment_id'') (\<lambda>_.
     bind_r (sha_of (get_of document ''evidence_sha256'') ''access evidence_sha256'') (\<lambda>_.
     case get_of document ''assignments'' of
       JArr items \<Rightarrow>
         bind_r (traverse assignment_of items) (\<lambda>observed.
         require (distinct observed \<and> set observed = set required_assignments)
           (ValueError ''Access probe assignments do not match the manifest''))
     | _ \<Rightarrow> Inl (ValueError ''Access assignments must be a list'')))))))))"

record approval_terms =
  ap_expected_id :: json
  ap_manifest_sha256 :: string
  ap_policy_sha256 :: string
  ap_access_probe_id :: json
  ap_billing_snapshot_id :: json
  ap_planned_calls :: json

definition validate_owner_approval :: "pylib \<Rightarrow> json \<Rightarrow> approval_terms \<Rightarrow> exn + unit" where
  "validate_owner_approval L document terms =
     bind_r (exact document [''version'', ''id'', ''approved'', ''approved_at'', ''approver_id'', ''manifest_sha256'',
       ''governance_policy_sha256'', ''access_probe_id'', ''billing_snapshot_id'', ''maximum_calls'', ''synthetic_or_public_only'']
       ''owner approval'') (\<lambda>_.
     bind_r (require (py_equal (get_of document ''version'') (JInt 1) \<and> get_of document ''approved'' = JBool True)
       (ValueError ''Owner approval must be an approved version 1 receipt'')) (\<lambda>_.
     bind_r (text_of (get_of document ''id'') ''approval id'') (\<lambda>i.
     bind_r (require (JStr i = ap_expected_id terms) (ValueError ''Owner approval ID differs from governance'')) (\<lambda>_.
     bind_r (text_of (get_of document ''approver_id'') ''approver_id'') (\<lambda>_.
     bind_r (timestamp_of L (get_of document ''approved_at'') ''approved_at'') (\<lambda>_.
     bind_r (bound_to document ''manifest_sha256'' (ap_manifest_sha256 terms) ''Owner approval is not bound to this manifest'') (\<lambda>_.
     bind_r (bound_to document ''governance_policy_sha256'' (ap_policy_sha256 terms)
       ''Owner approval is not bound to this governance policy'') (\<lambda>_.
     bind_r (require (py_equal (get_of document ''access_probe_id'') (ap_access_probe_id terms))
       (ValueError ''Owner approval access probe mismatch'')) (\<lambda>_.
     bind_r (require (py_equal (get_of document ''billing_snapshot_id'') (ap_billing_snapshot_id terms))
       (ValueError ''Owner approval billing snapshot mismatch'')) (\<lambda>_.
     bind_r (require (case get_of document ''maximum_calls'' of JInt n \<Rightarrow> py_equal (JInt n) (ap_planned_calls terms) | _ \<Rightarrow> False)
       (ValueError ''Owner approval call limit must equal planned calls'')) (\<lambda>_.
     require (get_of document ''synthetic_or_public_only'' = JBool True)
       (ValueError ''Owner approval must retain the data-scope restriction''))))))))))))"

section \<open>Bundles\<close>

text \<open>
  \<open>bf_resolve\<close> is the path a relative name leads to, when it stays inside the directory of the bundle; the parsed text and the
  digest of a path; and, for a run directory, the path of its run, the responses and the measurements of its tasks.
\<close>

record bundle_files =
  bf_resolve :: "string \<Rightarrow> string option"
  bf_json :: "string \<Rightarrow> exn + json"
  bf_sha256 :: "string \<Rightarrow> string"
  bf_manifests :: manifest_files
  bf_stack :: nat
  bf_run_file :: "string \<Rightarrow> string"
  bf_responses :: "string \<Rightarrow> string \<Rightarrow> string option"
  bf_measurements :: "string \<Rightarrow> string \<Rightarrow> json option"

definition artifact_path :: "bundle_files \<Rightarrow> json \<Rightarrow> string \<Rightarrow> exn + string" where
  "artifact_path fs v name =
     bind_r (text_of v name) (\<lambda>relative.
     bind_r (require (take 1 relative \<noteq> ''/'') (ValueError (name @ '' must be relative to the bundle''))) (\<lambda>_.
     case bf_resolve fs relative of
       None \<Rightarrow> Inl (ValueError (name @ '' must stay inside the bundle directory''))
     | Some path \<Rightarrow> Inr path))"

definition pre_fields :: "string list" where
  "pre_fields = [''governance'', ''curation_manifest'', ''execution_manifest'', ''billing_snapshot'', ''access_probe'', ''owner_approval'']"

definition post_fields :: "string list" where
  "post_fields = [''run_directory'', ''review_ledger'', ''savings_evidence'']"

definition bundle_paths :: "bundle_files \<Rightarrow> json \<Rightarrow> exn + (string \<times> string) list" where
  "bundle_paths fs artifacts =
     traverse (\<lambda>field. map_r (Pair field) (artifact_path fs (get_of artifacts field) field))
       (filter (\<lambda>field. get_of artifacts field \<noteq> JNull) (pre_fields @ post_fields))"

definition check_bundle :: "bundle_files \<Rightarrow> json \<Rightarrow> exn + bool \<times> (string \<times> string) list" where
  "check_bundle fs bundle =
     bind_r (require (is_dict bundle) (ValueError ''Readiness bundle must be an object'')) (\<lambda>_.
     bind_r (exact bundle [''version'', ''phase'', ''artifacts''] ''readiness bundle'') (\<lambda>_.
     bind_r (require (py_equal (get_of bundle ''version'') (JInt 1)) (ValueError ''Readiness bundle version or phase is unsupported'')) (\<lambda>_.
     bind_r (named_in (get_of bundle ''phase'') [''pre_run'', ''post_run''] ''Readiness bundle version or phase is unsupported'') (\<lambda>_.
     let artifacts = get_of bundle ''artifacts''; post = (get_of bundle ''phase'' = JStr ''post_run'');
         there = (\<lambda>field. get_of artifacts field \<noteq> JNull) in
     bind_r (require (is_dict artifacts) (ValueError ''Bundle artifacts must be an object'')) (\<lambda>_.
     bind_r (exact artifacts (pre_fields @ post_fields) ''bundle artifacts'') (\<lambda>_.
     bind_r (bundle_paths fs artifacts) (\<lambda>paths.
     bind_r (require (list_all there pre_fields) (ValueError ''Bundle is missing a required pre-run artifact'')) (\<lambda>_.
     bind_r (require (post \<or> \<not> list_ex there post_fields) (ValueError ''Pre-run bundle cannot contain post-run artifacts'')) (\<lambda>_.
     bind_r (require (\<not> post \<or> list_all there post_fields)
       (ValueError ''Post-run bundle requires run, review, and savings artifacts'')) (\<lambda>_.
     Inr (post, paths)))))))))))"

definition path_of :: "(string \<times> string) list \<Rightarrow> string \<Rightarrow> string" where
  "path_of paths field = (case map_of paths field of None \<Rightarrow> [] | Some p \<Rightarrow> p)"

text \<open>The curation, the manifest compiled from it, and their digest, bound by the governance.\<close>

definition check_manifests :: "pylib \<Rightarrow> bundle_files \<Rightarrow> string option \<Rightarrow> (string \<times> string) list \<Rightarrow> json \<Rightarrow> exn + json \<times> string" where
  "check_manifests L fs expected_manifest_path paths readiness =
     bind_r (bf_json fs (path_of paths ''curation_manifest'')) (\<lambda>curation.
     bind_r (validate_curation_manifest curation) (\<lambda>_.
     bind_r (load_manifest (bf_stack fs) L (bf_manifests fs) (path_of paths ''execution_manifest'')) (\<lambda>(manifest, digest).
     bind_r (compile_execution_manifest L curation) (\<lambda>compiled.
     bind_r (require (py_equal manifest compiled) (ValueError ''Execution manifest differs from compiled curation'')) (\<lambda>_.
     bind_r (require (case expected_manifest_path of None \<Rightarrow> True | Some p \<Rightarrow> path_of paths ''execution_manifest'' = p)
       (ValueError ''Bundle execution manifest differs from requested manifest'')) (\<lambda>_.
     bind_r (item_of readiness ''case_manifest_sha256'') (\<lambda>recorded.
     bind_r (require (recorded = JStr digest) (ValueError ''Governance is not bound to the execution manifest'')) (\<lambda>_.
     bind_r (item_of readiness ''curator_id'') (\<lambda>curator.
     bind_r (require (curator = get_of (get_of curation ''curation'') ''curator_id'') (ValueError ''Governance curator differs from curation'')) (\<lambda>_.
     Inr (manifest, digest)))))))))))"

definition task_assignment :: "json \<Rightarrow> exn + string \<times> string" where
  "task_assignment task =
     bind_r (item_of task ''model'') (\<lambda>model. bind_r (item_of task ''effort'') (\<lambda>effort.
     Inr (string_or_empty model, string_or_empty effort)))"

definition check_authorization :: "pylib \<Rightarrow> bundle_files \<Rightarrow> (string \<times> string) list \<Rightarrow> json \<Rightarrow> json \<Rightarrow> string \<Rightarrow> exn + json" where
  "check_authorization L fs paths governance manifest digest =
     (let readiness = get_of governance ''readiness'' in
      bind_r (bf_json fs (path_of paths ''billing_snapshot'')) (\<lambda>billing.
      bind_r (item_of readiness ''billing_snapshot_id'') (\<lambda>billing_id.
      bind_r (validate_billing_snapshot L billing billing_id) (\<lambda>_.
      bind_r (tasks_with task_assignment manifest) (\<lambda>assignments.
      bind_r (require (set (map fst assignments) \<subseteq> set (map fst (members (get_of billing ''model_rates''))))
        (ValueError ''Billing snapshot does not price every manifest model'')) (\<lambda>_.
      bind_r (bf_json fs (path_of paths ''access_probe'')) (\<lambda>access.
      bind_r (item_of readiness ''model_access_probe_id'') (\<lambda>probe_id.
      bind_r (validate_access_probe L access probe_id digest assignments) (\<lambda>_.
      bind_r (bf_json fs (path_of paths ''owner_approval'')) (\<lambda>approval.
      bind_r (item_of readiness ''owner_run_approval_id'') (\<lambda>approval_id.
      bind_r (validate_owner_approval L approval \<lparr>ap_expected_id = approval_id, ap_manifest_sha256 = digest,
          ap_policy_sha256 = governance_policy_sha256 L governance, ap_access_probe_id = probe_id, ap_billing_snapshot_id = billing_id,
          ap_planned_calls = get_of (get_of governance ''sample'') ''planned_calls''\<rparr>) (\<lambda>_.
      bind_r (timestamp_of L (get_of approval ''approved_at'') ''approved_at'') (\<lambda>approved_at.
      bind_r (timestamp_of L (get_of access ''observed_at'') ''access observed_at'') (\<lambda>access_at.
      bind_r (timestamp_of L (get_of billing ''captured_at'') ''billing captured_at'') (\<lambda>billing_at.
      bind_r (require (\<not> approved_at < access_at \<and> \<not> approved_at < billing_at)
        (ValueError ''Owner approval cannot precede access or billing evidence'')) (\<lambda>_.
      Inr billing))))))))))))))))"

definition check_post_run :: "pylib \<Rightarrow> bundle_files \<Rightarrow> (string \<times> string) list \<Rightarrow> json \<Rightarrow> json \<Rightarrow> string \<Rightarrow> json \<Rightarrow> exn + unit" where
  "check_post_run L fs paths readiness manifest digest billing =
     (let directory = path_of paths ''run_directory''; run_file = bf_run_file fs directory; run_sha256 = bf_sha256 fs run_file in
      bind_r (bf_json fs run_file) (\<lambda>run.
      bind_r (require (get_of run ''manifest_sha256'' = JStr digest) (ValueError ''Run is not bound to the execution manifest'')) (\<lambda>_.
      bind_r (validate_candidate_measurements manifest (bf_measurements fs directory)) (\<lambda>_.
      bind_r (bf_json fs (path_of paths ''review_ledger'')) (\<lambda>review.
      bind_r (validate_blinded_review_ledger L review manifest digest run_sha256 (Some (bf_responses fs directory))) (\<lambda>_.
      bind_r (item_of readiness ''reviewer_id'') (\<lambda>reviewer.
      bind_r (require (get_of review ''reviewer_id'' = reviewer) (ValueError ''Governance reviewer differs from review ledger'')) (\<lambda>_.
      bind_r (bf_json fs (path_of paths ''savings_evidence'')) (\<lambda>evidence.
      bind_r (validate_savings_evidence L evidence digest run_sha256 (bf_sha256 fs (path_of paths ''review_ledger''))
        (string_or_empty (get_of readiness ''billing_snapshot_id''))) (\<lambda>_.
      require (py_equal (get_of evidence ''billing_snapshot'') billing)
        (ValueError ''Savings evidence differs from the bound billing snapshot'')))))))))))"

record preflight_report =
  pf_post_run :: bool
  pf_manifest_sha256 :: string
  pf_governance_policy_sha256 :: string
  pf_governance_sha256 :: string
  pf_pre_run_authorized :: bool
  pf_post_run_evidence_valid :: bool
  pf_external_evidence_claimed_not_proven :: bool

definition validate_readiness_bundle :: "pylib \<Rightarrow> bundle_files \<Rightarrow> string option \<Rightarrow> json \<Rightarrow> exn + preflight_report" where
  "validate_readiness_bundle L fs expected_manifest_path bundle =
     bind_r (check_bundle fs bundle) (\<lambda>(post, paths).
     bind_r (bf_json fs (path_of paths ''governance'')) (\<lambda>governance.
     bind_r (load_governance governance) (\<lambda>blockers.
     bind_r (require (blockers = []) (ValueError ''Readiness bundle governance is incomplete'')) (\<lambda>_.
     let readiness = get_of governance ''readiness'' in
     bind_r (check_manifests L fs expected_manifest_path paths readiness) (\<lambda>(manifest, digest).
     bind_r (check_authorization L fs paths governance manifest digest) (\<lambda>billing.
     bind_r (if post then check_post_run L fs paths readiness manifest digest billing else Inr ()) (\<lambda>_.
     Inr \<lparr>pf_post_run = post, pf_manifest_sha256 = digest, pf_governance_policy_sha256 = governance_policy_sha256 L governance,
          pf_governance_sha256 = bf_sha256 fs (path_of paths ''governance''), pf_pre_run_authorized = True,
          pf_post_run_evidence_valid = post, pf_external_evidence_claimed_not_proven = True\<rparr>)))))))"

end
