(* ===== verification/Spec2Isabelle.thy ===== *)
theory Spec2Isabelle
  imports GraphStoreTheorems StoreTheorems GraphTheorems PacketTheorems RouterTheorems ExecutorTheorems
    DispatcherTheorems AdmissionTheorems ContextTheorems PreparationTheorems ControlTheorems Records EvaluationTheorems
    CreationTheorems ApiTheorems EngineTheorems ConfigTheorems Middleware Worker Rendering Advanced Profiles
    GradingTheorems SavingsTheorems LedgerTheorems CurationTheorems Preflight
begin

text \<open>
  \<^bold>\<open>Ryuk\<close>, a service that routes inference tasks to deployments of language models and runs offline workflows on
  them. This library models the Python package under \<open>src/backend\<close>, its vLLM worker and the evaluation of model
  allocations under \<open>src/scripts\<close> as HOL functions and proves what its parts and their composition promise. File names below are relative to \<open>src/backend\<close>.

  \<^bold>\<open>The program.\<close>
  A client calls a route (\<open>main.py\<close>, \<open>workflows/api.py\<close>, \<open>workflows/graph_api.py\<close>). The control plane (\<open>control/\<close>)
  authenticates the key, checks the role, admits the request against the quota of the tenant and writes a terminal
  record of its outcome. An inference route makes a task (\<open>inference/contracts.py\<close>) and hands it to the router
  (\<open>inference/router.py\<close>), which filters the registered deployments by hard constraints, ranks the rest, and tries
  them in turn within deadlines, retries, circuit breakers and budgets. A deployment is reached through the adapter of its
  serving product (\<open>inference/engines/\<close>); the deployments are built from the settings (\<open>config.py\<close>). A workflow route stores the task as a canonical
  packet, with the policy of the tenant bound to it, in the SQLite store (\<open>workflows/store.py\<close>). A dispatcher
  (\<open>workflows/dispatcher.py\<close>) finds ready work and starts executors (\<open>workflows/executor.py\<close>,
  \<open>graph_executor.py\<close>), which claim it under a fence and a lease, write the dispatch journal, route, and commit the
  outcome, which deterministic validation (\<open>workflows/validation.py\<close>, \<open>audit/\<close>) accepts or rejects. A graph of tasks is
  scheduled by \<open>workflows/graph.py\<close>. Startup recovery puts aside what a crash left behind. The context engine
  (\<open>context/\<close>) stores conversations and sources under authorization, builds an ordered context and fits it to the window
  of a model. \<open>evaluation/\<close> replays corpora through the policies. Beside the service, an evaluation of model allocations is
  curated, authorized, reviewed blind, graded and priced from documents that are bound to each other by digests.

  \<^bold>\<open>Theories and sources.\<close>

  \<^item> \<open>Prelude\<close>: exceptions as a datatype, fallible steps as \<open>exn + 'a\<close> (\<open>bind_r\<close>, \<open>require\<close>, \<open>each\<close>, \<open>traverse\<close>),
    Python's \<open>strip\<close>, time stamps, tables as lists of rows, the locales \<open>state_machine\<close> and \<open>ranked_machine\<close>.
    \<open>Dict\<close>: insertion-ordered dictionaries, a locale and its interpretation on association lists.
    \<open>Samples\<close>: the data of the witnesses.
  \<^item> \<open>Contracts\<close> (\<open>inference/contracts.py\<close>, \<open>deployment.py\<close>, \<open>errors.py\<close>), \<open>Packets\<close> (\<open>workflows/contracts.py\<close>),
    \<open>JsonText\<close> (a reader of JSON, which shows that the laws assumed of \<open>json.loads\<close> can hold), \<open>PacketTheorems\<close>.
  \<^item> \<open>Graph\<close>, \<open>GraphProps\<close>, \<open>GraphTheorems\<close> (\<open>workflows/graph.py\<close>): graphs, the acyclicity check, the scheduler.
  \<^item> \<open>Validation\<close> (\<open>audit/deterministic.py\<close>, \<open>workflows/validation.py\<close>, schemas of \<open>inference/advanced.py\<close>).
  \<^item> \<open>StoreSchema\<close>, \<open>WorkflowStore\<close>, \<open>WorkflowStoreProps\<close>, \<open>StoreTheorems\<close>: the single-task half of
    \<open>workflows/store.py\<close>. \<open>GraphStore\<close>, \<open>GraphStoreProps\<close>, \<open>GraphStoreSteps\<close>, \<open>GraphStoreTheorems\<close>: its graph half.
    \<open>WholeStore\<close>: both halves on one database.
  \<^item> \<open>Capabilities\<close>, \<open>Policy\<close>, \<open>Registry\<close>, \<open>Runtime\<close>, \<open>Budget\<close>, \<open>DurableBudget\<close>, \<open>Router\<close>, \<open>RouterProps\<close>,
    \<open>RouterTheorems\<close>: the files of these names under \<open>inference/\<close>, with \<open>workflows/budget.py\<close> and
    \<open>workflows/graph_budget.py\<close> as the two providers of the locale \<open>attempt_budget\<close>.
  \<^item> \<open>Engines\<close>, \<open>EngineTheorems\<close> (\<open>inference/engines/\<close>): the adapters of managed servers (Dynamo, NIM, the hosted NIM
    catalogue), of SGLang, of the vLLM worker, and the mock. \<open>Config\<close>, \<open>ConfigTheorems\<close> (\<open>config.py\<close> and the builders of
    \<open>inference/registry.py\<close>): the settings, their validators, and the registry built from them. \<open>Worker\<close>
    (\<open>src/workers/vllm/app.py\<close>): the server behind the adapter of the vLLM worker, and their contract.
  \<^item> \<open>Middleware\<close> (\<open>middleware.py\<close>): identification of requests and the limit of their bodies. \<open>Advanced\<close>
    (\<open>inference/advanced.py\<close>) and \<open>Profiles\<close> (\<open>inference/profiles.py\<close>): contracts of advanced tasks, offline profiles.
  \<^item> \<open>Executor\<close>, \<open>ExecutorProps\<close>, \<open>ExecutorTheorems\<close> (\<open>workflows/executor.py\<close>, \<open>graph_executor.py\<close>,
    \<open>inference/attempts.py\<close>); \<open>Dispatcher\<close>, \<open>DispatcherProps\<close>, \<open>DispatcherTheorems\<close> (\<open>workflows/dispatcher.py\<close>).
  \<^item> \<open>Admission\<close>, \<open>RedisAdmission\<close>, \<open>AdmissionTheorems\<close> (\<open>control/admission.py\<close> with its two Lua scripts), \<open>Security\<close>,
    \<open>Control\<close>, \<open>ControlTheorems\<close> (\<open>control/security.py\<close>, \<open>deployments.py\<close>, \<open>governance.py\<close>, \<open>observability.py\<close>),
    \<open>Records\<close> (\<open>control/records.py\<close>).
  \<^item> \<open>Context\<close>, \<open>ContextProps\<close>, \<open>PreparationTheorems\<close> (\<open>context/contracts.py\<close>, \<open>preparation.py\<close>); \<open>ContextStore\<close>,
    \<open>ContextStoreProps\<close>, \<open>ContextViews\<close>, \<open>ContextTheorems\<close> (\<open>context/store.py\<close>, \<open>builder.py\<close>).
  \<^item> \<open>Evaluation\<close>, \<open>EvaluationTheorems\<close> (\<open>audit/contracts.py\<close>, \<open>audit/policy.py\<close>, \<open>evaluation/\<close>).
  \<^item> \<open>Governance\<close> (\<open>workflows/governance.py\<close>), \<open>ControlPlane\<close> and \<open>ControlConfig\<close> (\<open>control/api.py\<close> and the functions of
    \<open>main.py\<close> around it), \<open>WorkflowApi\<close> (\<open>workflows/api.py\<close>, \<open>graph_api.py\<close>), \<open>MainApi\<close> (\<open>main.py\<close>,
    \<open>workflows/recovery.py\<close>), \<open>CreationTheorems\<close> and \<open>ApiTheorems\<close> (the composition), \<open>Rendering\<close> (the JSON
    of answers and the handlers of failures).
  \<^item> The evaluation of model allocations (\<open>src/scripts/\<close>): \<open>AllocationStats\<close> (\<open>model_allocation_statistics.py\<close>: the Wilson
    and Newcombe intervals, over the reals), \<open>Allocation\<close>, \<open>AllocationTheorems\<close> and \<open>LedgerTheorems\<close> (manifests of
    \<open>model_allocation_manifest.py\<close> and the ledger of \<open>model_allocation_evidence.py\<close>), \<open>AllocationGates\<close> and
    \<open>SavingsTheorems\<close> (measurements and savings of the same file, and \<open>model_allocation_governance.py\<close>), \<open>Curation\<close> and
    \<open>CurationTheorems\<close> (\<open>model_allocation_curation.py\<close>), \<open>Preflight\<close> (\<open>model_allocation_preflight.py\<close>), \<open>Grading\<close> and
    \<open>GradingTheorems\<close> (\<open>grade_model_allocation.py\<close>).

  A dataclass is a record with the checks of its \<open>__post_init__\<close> as a function \<open>..._post_init\<close>; an enumeration is a
  datatype; a method that changes the database takes it and returns it with the result or the exception (a transaction
  that raises leaves it as it was); a handler is an action on the \<open>world\<close> of the process, which keeps its changes when
  it raises. Python's floats are rational numbers: rounding is not modelled, and the texts of floats are laws of
  \<open>pylib\<close>. A \<open>Decimal\<close> is exact too: the 28 digits of the default context are not modelled, so the sums and products of
  prices of \<open>AllocationGates\<close> are those of the code as long as they have no more digits.

  \<^bold>\<open>What the theorems show.\<close>

  \<^item> Execution: a workflow is claimed and dispatched at most once, whatever else happens to the store; what the router
    returned is what is committed; a recorded outcome survives a crash without a replay. The store refines an abstract
    life cycle, and both halves keep their invariant in every reachable state.
  \<^item> Graphs: only acyclic graphs are built, nodes run after their dependencies succeeded, on an input that carries
    exactly the accepted outputs of these, a result is committed once, by the owner of a live lease, the scheduler makes progress and ends, the stored scheduler refines it, and the shared budget is never overdrawn, even
    under interference between the steps of one execution.
  \<^item> Routing: eligibility is exactly the stated requirements, the ranking depends on nothing but the candidates, only
    eligible deployments behind closed circuits are called, and the loop ends.
  \<^item> Adapters: whatever a managed server answers becomes a well-formed result, a typed failure or a cancellation, so the
    router can go on; the adapter of the vLLM worker lets an exception through that ends the run when
    a worker reports a negative count, which the worker of this repository never does: the two keep one contract, also
    when the chat template or the engine of the worker raises.
  \<^item> Entry: an application behind the limit of bodies runs exactly as on the gated messages, and every answer carries a safe
    identifier, whatever the client sent.
  \<^item> Production: validated settings build a registry without mock and without an eligible Dynamo deployment, take the key of
    NIM from Vault, and choose admission over Redis and records in PostgreSQL; a startup that succeeds has found the
    configured model, release and profile on the server, and had no revision configured: no managed server reports one.
  \<^item> Context: what an actor is answered depends only on what it may see; a prepared context fits, keeps what is required
    and drops as little as the documented order allows.
  \<^item> The service: only holders of live keys with the role get in; a workflow created over the API can be executed with the
    prompt of the request and exactly the limits of the policy of its tenant; a success is recorded before it is returned;
    the workflow routes return their permits, however they end: always with admission in the process, and over Redis unless
    a reply is lost or the release is not executed, when exactly one permit stays taken; an inference request with a blank
    prompt does not return its own.
  \<^item> Evaluation of allocations: an accepted curation compiles to matched tasks; an accepted ledger reviews every task that needs
    it once, blind and independently; a task earns its pass; the matched gate passes only on complete pairs, enough passes and
    a lower bound above the margin; the savings are the exact difference of the recorded costs.
  \<^item> Bounds of concurrency: the tasks of dispatchers, whose failures are counted and kept by name, and admission in one process and over Redis with lost replies and expiring keys.

  \<^bold>\<open>Interfaces.\<close> The locales are \<open>state_machine\<close> (invariants of reachable states) and \<open>ranked_machine\<close> (bounded runs),
  \<open>dictionary\<close>, \<open>attempt_budget\<close>, \<open>work_source\<close>, \<open>admission_control\<close>, \<open>record_store\<close> and \<open>confined_reads\<close>; each is
  interpreted on the model of every component that provides it.

  \<^bold>\<open>Parameters.\<close> Code outside the repository is an argument. \<open>pylib\<close> has \<open>json.loads\<close>, \<open>hashlib.sha256\<close>, \<open>repr\<close> of a
  float and the ISO texts of time stamps; \<open>lib_laws\<close> states that canonical text is read back and that time stamps
  round-trip, and \<open>sample_lib\<close> satisfies it. The replies of engines and probes (\<open>turns\<close>), the readings of clocks,
  \<open>uuid4\<close> and \<open>uuid5\<close>, what a request of the HTTP client meets (\<open>http_reply\<close>) and \<open>json.loads\<close> on its body (\<open>loads_body\<close>),
  the environment and the client of Vault, \<open>scrypt\<close> (\<open>digest\<close>), the token counter, the JSONB column of PostgreSQL, whether a Redis script was
  executed and its reply arrived (\<open>redis_call\<close>), pydantic's \<open>model_validate\<close>, the quantile of the normal distribution,
  the syntax tree and the exit status of a candidate (\<open>grader\<close>), and what concurrent executions do while one
  waits (\<open>others\<close>) are arguments of the functions that meet them; the theorems hold for all their values.

  \<^bold>\<open>Loops.\<close> No loop has fuel; only \<open>load_manifest\<close>, which follows a chain of bases through files, is given the depth of the
  stack and raises when it is used up, as Python does. \<open>eliminate\<close>, \<open>refresh\<close> and \<open>order_pending\<close> end because each pass shrinks what remains, the
  attempt loop of the router because each turn uses up a candidate or an allowed retry; their \<open>termination\<close> proofs give
  the measures. Every run of the scheduler has at most five transitions per node.

  \<^bold>\<open>Not modelled.\<close> The event loop itself: coroutines are interleaved by argument or step relation, and a cancellation
  during the backoff of the router is not represented. SQLite, WAL files and connections; the HTTP and Redis
  clients themselves and the contexts of failures; FastAPI and pydantic machinery, of which the declared fields and the
  validators are modelled; \<open>deserialize_attempt\<close>, which leaves a text where the attempt has an enumeration; reading corpora
  from files. Under \<open>src/scripts\<close> the runner of an evaluation, the NVIDIA probes and validators and the command lines are operator
  tools around external services; \<open>src/spikes\<close> holds experiments.
\<close>

end
